(* ===== verification/Odbc_Prelude.thy ===== *)
theory Odbc_Prelude
  imports Main "HOL-Library.Word"
begin

text \<open>
  Shared vocabulary of the development: names for the fixed-width integer types the driver
  uses, the few functions of the C and C++ standard library that its sources call on
  characters and integers, the value of a digit sequence in a given radix (used for 32-bit
  magnitudes, bytes and decimal text alike), and the generic lemmas the components share.
\<close>

unbundle bit_operations_syntax

named_theorems word_conv
  \<comment> \<open>rewrites that move an operation on machine words to \<open>nat\<close>\<close>

type_synonym u8 = "8 word"
type_synonym u16 = "16 word"
type_synonym u32 = "32 word"
type_synonym u64 = "64 word"

section \<open>Machine integers\<close>

text \<open>Conversion of an arbitrary integer to a signed type of \<open>w\<close> bits (two's complement).\<close>

definition to_signed :: "nat \<Rightarrow> int \<Rightarrow> int" where
  "to_signed w x = (x + 2 ^ (w - 1)) mod 2 ^ w - 2 ^ (w - 1)"

definition INT32_MAX :: int where
  "INT32_MAX = 2147483647"

definition UINT16_MAX :: int where
  "UINT16_MAX = 65535"

definition UINT32_MAX :: int where
  "UINT32_MAX = 4294967295"

text \<open>The range of a signed 32-bit integer.\<close>

definition int32 :: "int \<Rightarrow> bool" where
  "int32 i \<longleftrightarrow> - (2 ^ 31) \<le> i \<and> i < 2 ^ 31"

lemma to_signed_id:
  assumes "0 < w" and "- (2 ^ (w - 1)) \<le> x" and "x < 2 ^ (w - 1)"
  shows "to_signed w x = x"
proof -
  have "(2::int) ^ w = 2 * 2 ^ (w - 1)"
    using assms(1) by (cases w) simp_all
  with assms have "0 \<le> x + 2 ^ (w - 1)" and "x + 2 ^ (w - 1) < 2 ^ w"
    by simp_all
  then show ?thesis
    by (simp add: to_signed_def)
qed

lemma to_signed_range:
  assumes "0 < w"
  shows "- (2 ^ (w - 1)) \<le> to_signed w x" and "to_signed w x < 2 ^ (w - 1)"
proof -
  have pw: "(2::int) ^ w = 2 * 2 ^ (w - 1)"
    using assms by (cases w) simp_all
  have "0 \<le> (x + 2 ^ (w - 1)) mod 2 ^ w" "(x + 2 ^ (w - 1)) mod 2 ^ w < 2 ^ w"
    by simp_all
  with pw show "- (2 ^ (w - 1)) \<le> to_signed w x" "to_signed w x < 2 ^ (w - 1)"
    by (simp_all add: to_signed_def)
qed

lemma unat_push_bit_no_overflow:
  fixes x :: "'a::len word"
  assumes "unat x * 2 ^ k < 2 ^ LENGTH('a)"
  shows "unat (push_bit k x) = unat x * 2 ^ k"
proof -
  have "unat (push_bit k x) = take_bit LENGTH('a) (push_bit k (unat x))"
    by (simp only: unsigned_push_bit_eq)
  also have "\<dots> = unat x * 2 ^ k"
    using assms by (simp add: take_bit_nat_eq_self push_bit_eq_mult)
  finally show ?thesis .
qed

lemma unat_drop_bit [word_conv]:
  fixes x :: "'a::len word"
  shows "unat (drop_bit k x) = unat x div 2 ^ k"
proof -
  have "unat (drop_bit k x) = drop_bit k (take_bit LENGTH('a) (unat x))"
    by (rule unsigned_drop_bit_eq)
  also have "take_bit LENGTH('a) (unat x) = unat x"
    by (rule take_bit_nat_eq_self) (rule unsigned_less)
  finally show ?thesis by (simp add: drop_bit_eq_div)
qed

lemma drop_bit_eq_0_iff:
  fixes x :: "'a::len word"
  shows "drop_bit k x = 0 \<longleftrightarrow> unat x < 2 ^ k"
proof -
  have "drop_bit k x = 0 \<longleftrightarrow> unat (drop_bit k x) = 0"
    by (simp add: unat_eq_zero)
  also have "\<dots> \<longleftrightarrow> unat x < 2 ^ k"
    by (simp add: word_conv div_eq_0_iff)
  finally show ?thesis .
qed

lemma unat_u32_less: "unat (x :: u32) < 2 ^ 32"
  using unsigned_less [of x] by simp

lemma unat_u64_less: "unat (x :: u64) < 2 ^ 64"
  using unsigned_less [of x] by simp

lemma unat_ucast_u32 [word_conv]: "unat (ucast (x :: u64) :: u32) = unat x mod 2 ^ 32"
  by (simp add: unsigned_ucast_eq take_bit_eq_mod)

lemma unat_ucast_u64 [word_conv]: "unat (ucast (x :: u32) :: u64) = unat x"
  by (simp add: unsigned_ucast_eq take_bit_nat_eq_self less_le_trans [OF unsigned_less])

text \<open>Or-ing a value into the low bits that a shift left clear is addition.\<close>

lemma or_push_bit_add:
  fixes a b :: "'a::len word"
  assumes "unat a < 2 ^ k"
  shows "push_bit k b OR a = push_bit k b + a"
proof -
  have "unat (take_bit k a) = unat a"
    using assms by (simp add: unsigned_take_bit_eq take_bit_nat_eq_self)
  then have a: "a = take_bit k a"
    by (simp add: word_unat_eq_iff)
  have "push_bit k b + take_bit k a = push_bit k b OR take_bit k a"
    by (rule disjunctive_add) (auto simp: bit_simps)
  with a show ?thesis by simp
qed

section \<open>Digit sequences\<close>

text \<open>
  The value of a little-endian digit sequence in radix \<open>B\<close>: the common abstraction of a
  32-bit magnitude, of a byte string and of a decimal numeral.
\<close>

fun digs_val :: "nat \<Rightarrow> nat list \<Rightarrow> nat" where
  "digs_val B [] = 0"
| "digs_val B (d # ds) = d + B * digs_val B ds"

definition digs_ok :: "nat \<Rightarrow> nat list \<Rightarrow> bool" where
  "digs_ok B ds \<longleftrightarrow> list_all (\<lambda>d. d < B) ds"

locale radix =
  fixes B :: nat
  assumes B_ge_2: "2 \<le> B"
begin

lemma B_pos: "0 < B"
  using B_ge_2 by simp

lemma val_append: "digs_val B (xs @ ys) = digs_val B xs + B ^ length xs * digs_val B ys"
  by (induction xs) (auto simp: algebra_simps)

lemma val_replicate_0: "digs_val B (replicate n 0) = 0"
  by (induction n) auto

lemma val_bound: "digs_ok B ds \<Longrightarrow> digs_val B ds < B ^ length ds"
proof (induction ds)
  case Nil
  then show ?case by simp
next
  case (Cons d ds)
  then have d: "d < B" and v: "Suc (digs_val B ds) \<le> B ^ length ds"
    by (auto simp: digs_ok_def Suc_le_eq)
  have "d + B * digs_val B ds < B * Suc (digs_val B ds)"
    using d by simp
  also have "\<dots> \<le> B * B ^ length ds"
    using v by (rule mult_le_mono2)
  finally show ?case by simp
qed

lemma val_lower_bound:
  assumes "ds \<noteq> []" and "last ds \<noteq> 0"
  shows "B ^ (length ds - 1) \<le> digs_val B ds"
proof -
  have "digs_val B ds = digs_val B (butlast ds) + B ^ (length ds - 1) * last ds"
    using val_append [of "butlast ds" "[last ds]"] assms(1) by simp
  moreover have "B ^ (length ds - 1) * 1 \<le> B ^ (length ds - 1) * last ds"
    using assms(2) by (intro mult_le_mono2) simp
  ultimately show ?thesis by linarith
qed

lemma val_top:
  assumes "ds \<noteq> []"
  shows "digs_val B ds = digs_val B (butlast ds) + B ^ (length ds - 1) * last ds"
  using val_append [of "butlast ds" "[last ds]"] assms by simp

lemma val_eq_0_iff: "digs_val B ds = 0 \<longleftrightarrow> list_all (\<lambda>d. d = 0) ds"
  using B_pos by (induction ds) auto

lemma val_inj_length:
  assumes "digs_ok B xs" "digs_ok B ys" "length xs = length ys" "digs_val B xs = digs_val B ys"
  shows "xs = ys"
  using assms(3,1,2,4)
proof (induction xs ys rule: list_induct2)
  case Nil
  then show ?case by simp
next
  case (Cons x xs y ys)
  then have "x < B" "y < B" by (auto simp: digs_ok_def)
  have "(x + B * digs_val B xs) mod B = (y + B * digs_val B ys) mod B"
    using Cons.prems by simp
  with \<open>x < B\<close> \<open>y < B\<close> have "x = y" by simp
  with Cons B_pos show ?case by (auto simp: digs_ok_def)
qed

text \<open>A sequence without leading zero is longer only if its value is larger.\<close>

lemma val_less_by_length:
  assumes "digs_ok B xs" and "length xs < length ys" and "last ys \<noteq> 0"
  shows "digs_val B xs < digs_val B ys"
proof -
  have "ys \<noteq> []" using assms(2) by auto
  have "digs_val B xs < B ^ length xs"
    using assms(1) by (rule val_bound)
  also have "B ^ length xs \<le> B ^ (length ys - 1)"
    using assms(2) B_ge_2 by (intro power_increasing) auto
  also have "\<dots> \<le> digs_val B ys"
    using \<open>ys \<noteq> []\<close> assms(3) by (rule val_lower_bound)
  finally show ?thesis .
qed

text \<open>Comparison of two sequences that agree above one position.\<close>

lemma val_less_by_top:
  assumes "digs_ok B xs" and "length xs = length ys" and "x < y"
  shows "digs_val B (xs @ x # zs) < digs_val B (ys @ y # zs)"
proof -
  have "digs_val B xs < B ^ length xs"
    using assms(1) by (rule val_bound)
  moreover have "B ^ length xs * Suc x \<le> B ^ length xs * y"
    using assms(3) by (intro mult_le_mono2) simp
  ultimately have "digs_val B xs + B ^ length xs * x < digs_val B ys + B ^ length xs * y"
    by simp
  then show ?thesis
    by (simp add: val_append assms(2) algebra_simps)
qed

end

end
