(* ===== verification/Odbc_Bits.thy ===== *)
theory Odbc_Bits
  imports Odbc_Prelude
begin

text \<open>
  The bit-twiddling helpers of \<^verbatim>\<open>src/common/bits.cpp\<close>: leading and trailing zero counts by
  binary search, population count, bit and digit lengths, the capacity rule of the dynamic
  array, and the table of powers of ten. A \<open>uint32_t\<close>/\<open>int32_t\<close> argument is a
  \<^typ>\<open>u32\<close> (the signed variants read the same bit pattern); the small counters the code
  keeps in \<open>int32_t\<close> never leave the range 0 to 64 and are \<open>int\<close>.
\<close>

definition UINT64_MAX_PRECISION :: int where
  "UINT64_MAX_PRECISION = 20"

section \<open>Operations\<close>

definition NumberOfTrailingZerosI32 :: "u32 \<Rightarrow> int" where
  "NumberOfTrailingZerosI32 i =
     (if i = 0 then 32
      else
        let n = 31;
            y = push_bit 16 i; (n, i) = (if y \<noteq> 0 then (n - 16, y) else (n, i));
            y = push_bit 8 i; (n, i) = (if y \<noteq> 0 then (n - 8, y) else (n, i));
            y = push_bit 4 i; (n, i) = (if y \<noteq> 0 then (n - 4, y) else (n, i));
            y = push_bit 2 i; (n, i) = (if y \<noteq> 0 then (n - 2, y) else (n, i))
        in n - uint (drop_bit 31 (push_bit 1 i)))"

definition NumberOfLeadingZerosU32 :: "u32 \<Rightarrow> int" where
  "NumberOfLeadingZerosU32 i =
     (if i = 0 then 32
      else
        let n = 1;
            (n, i) = (if drop_bit 16 i = 0 then (n + 16, push_bit 16 i) else (n, i));
            (n, i) = (if drop_bit 24 i = 0 then (n + 8, push_bit 8 i) else (n, i));
            (n, i) = (if drop_bit 28 i = 0 then (n + 4, push_bit 4 i) else (n, i));
            (n, i) = (if drop_bit 30 i = 0 then (n + 2, push_bit 2 i) else (n, i))
        in n - uint (drop_bit 31 i))"

definition NumberOfLeadingZerosI32 :: "u32 \<Rightarrow> int" where
  "NumberOfLeadingZerosI32 i = NumberOfLeadingZerosU32 i"

definition NumberOfLeadingZerosU64 :: "u64 \<Rightarrow> int" where
  "NumberOfLeadingZerosU64 i =
     (if i = 0 then 64
      else
        let n = 1; x = (ucast (drop_bit 32 i) :: u32);
            (n, x) = (if x = 0 then (n + 32, (ucast i :: u32)) else (n, x));
            (n, x) = (if drop_bit 16 x = 0 then (n + 16, push_bit 16 x) else (n, x));
            (n, x) = (if drop_bit 24 x = 0 then (n + 8, push_bit 8 x) else (n, x));
            (n, x) = (if drop_bit 28 x = 0 then (n + 4, push_bit 4 x) else (n, x));
            (n, x) = (if drop_bit 30 x = 0 then (n + 2, push_bit 2 x) else (n, x))
        in n - uint (drop_bit 31 x))"

definition NumberOfLeadingZerosI64 :: "u64 \<Rightarrow> int" where
  "NumberOfLeadingZerosI64 i = NumberOfLeadingZerosU64 i"

definition BitCountI32 :: "u32 \<Rightarrow> int" where
  "BitCountI32 i =
     (let ui = i;
          ui = ui - (drop_bit 1 ui AND 0x55555555);
          ui = (ui AND 0x33333333) + (drop_bit 2 ui AND 0x33333333);
          ui = (ui + drop_bit 4 ui) AND 0x0f0f0f0f;
          ui = ui + drop_bit 8 ui;
          ui = ui + drop_bit 16 ui
      in uint (ui AND 0x3f))"

definition BitLengthU32 :: "u32 \<Rightarrow> int" where
  "BitLengthU32 i = 32 - NumberOfLeadingZerosU32 i"

definition BitLengthI32 :: "u32 \<Rightarrow> int" where
  "BitLengthI32 i = 32 - NumberOfLeadingZerosI32 i"

text \<open>The \<open>assert(size > 0)\<close> of the source is a hypothesis of the lemmas below.\<close>

definition GetCapasityForSize :: "int \<Rightarrow> int" where
  "GetCapasityForSize sz =
     (if sz \<le> 8 then 8
      else let bl = BitLengthI32 (word_of_int sz) in
        if bl > 30 then INT32_MAX
        else let res = 2 ^ nat bl in if sz > res then 2 * res else res)"

text \<open>The table is \<open>None\<close> outside the range that the source asserts.\<close>

definition TEN_POWERS_TABLE :: "u64 list" where
  "TEN_POWERS_TABLE =
     [1, 10, 100, 1000, 10000, 100000, 1000000, 10000000, 100000000, 1000000000,
      10000000000, 100000000000, 1000000000000, 10000000000000, 100000000000000,
      1000000000000000, 10000000000000000, 100000000000000000, 1000000000000000000,
      10000000000000000000]"

definition TenPowerU64 :: "int \<Rightarrow> u64 option" where
  "TenPowerU64 n =
     (if 0 \<le> n \<and> n < UINT64_MAX_PRECISION then Some (TEN_POWERS_TABLE ! nat n) else None)"

definition DigitLength :: "u64 \<Rightarrow> int" where
  "DigitLength x =
     (if x < 10 then 1
      else let r = ((64 - NumberOfLeadingZerosU64 x + 1) * 1233) div 2 ^ 12 in
        if r = UINT64_MAX_PRECISION then r
        else case TenPowerU64 r of
               Some p \<Rightarrow> (if x < p then r else r + 1)
             | None \<Rightarrow> r + 1)"

section \<open>The binary search for leading zeros\<close>

text \<open>
  One step of the search: when the top \<open>k\<close> bits are clear the word is shifted up by \<open>k\<close>
  without losing bits, so that the top \<open>k\<close> bits of the result are not all clear.
\<close>

lemma clz_shift:
  fixes x :: u32
  assumes "k \<le> 32" and "drop_bit (32 - k) x = 0"
  shows "unat (push_bit k x) = unat x * 2 ^ k"
proof -
  have "unat x < 2 ^ (32 - k)"
    using assms(2) by (simp add: drop_bit_eq_0_iff)
  then have "unat x * 2 ^ k < 2 ^ (32 - k) * 2 ^ k"
    by simp
  also have "\<dots> = 2 ^ 32"
    using assms(1) by (simp flip: power_add)
  finally show ?thesis
    by (simp add: unat_push_bit_no_overflow)
qed

definition clz_step :: "nat \<Rightarrow> int \<times> u32 \<Rightarrow> int \<times> u32" where
  "clz_step k = (\<lambda>(n, i). if drop_bit (32 - k) i = 0 then (n + int k, push_bit k i) else (n, i))"

text \<open>The source's tests and shifts, recognised as steps of the search.\<close>

lemma clz_step_bind:
  "(case (if drop_bit 16 i = 0 then (n + 16, push_bit 16 i) else (n, i)) of (n, i) \<Rightarrow> f n i)
     = case_prod f (clz_step 16 (n, i))"
  "(case (if drop_bit 24 i = 0 then (n + 8, push_bit 8 i) else (n, i)) of (n, i) \<Rightarrow> f n i)
     = case_prod f (clz_step 8 (n, i))"
  "(case (if drop_bit 28 i = 0 then (n + 4, push_bit 4 i) else (n, i)) of (n, i) \<Rightarrow> f n i)
     = case_prod f (clz_step 4 (n, i))"
  "(case (if drop_bit 30 i = 0 then (n + 2, push_bit 2 i) else (n, i)) of (n, i) \<Rightarrow> f n i)
     = case_prod f (clz_step 2 (n, i))"
  by (simp_all add: clz_step_def)

text \<open>What the search knows of its state: \<open>x\<close> is the original word shifted by \<open>n - c\<close>.\<close>

definition clz_inv :: "nat \<Rightarrow> int \<Rightarrow> nat \<Rightarrow> int \<times> u32 \<Rightarrow> bool" where
  "clz_inv v c lo =
     (\<lambda>(n, i). (\<exists>m. n = c + int m \<and> unat i = v * 2 ^ m) \<and> 2 ^ lo \<le> unat i)"

lemma clz_step_inv:
  assumes "clz_inv v c lo s" and "k \<le> 32" and "32 \<le> lo + 2 * k"
  shows "clz_inv v c (32 - k) (clz_step k s)"
proof -
  obtain n i where s: "s = (n, i)" by (cases s)
  show ?thesis
  proof (cases "drop_bit (32 - k) i = 0")
    case True
    have "(2::nat) ^ (32 - k) \<le> 2 ^ lo * 2 ^ k"
      using assms(2,3) by (simp flip: power_add)
    also have "\<dots> \<le> unat i * 2 ^ k"
      using assms(1) by (intro mult_le_mono1) (simp add: clz_inv_def s)
    finally have "2 ^ (32 - k) \<le> unat (push_bit k i)"
      using clz_shift [OF assms(2) True] by simp
    moreover obtain m where "n = c + int m" "unat i = v * 2 ^ m"
      using assms(1) by (auto simp: clz_inv_def s)
    then have "n + int k = c + int (m + k) \<and> unat (push_bit k i) = v * 2 ^ (m + k)"
      using clz_shift [OF assms(2) True] by (simp add: power_add)
    then have "\<exists>m. n + int k = c + int m \<and> unat (push_bit k i) = v * 2 ^ m"
      by blast
    ultimately show ?thesis
      using True by (simp add: clz_inv_def clz_step_def s)
  next
    case False
    then have "2 ^ (32 - k) \<le> unat i"
      by (simp add: drop_bit_eq_0_iff)
    with False assms(1) show ?thesis
      by (simp add: clz_inv_def clz_step_def s)
  qed
qed

lemma clz_final:
  assumes "clz_inv v c 30 (n, i)"
  shows "\<exists>z. n - uint (drop_bit 31 i) = c - 1 + int z \<and> 2 ^ 31 \<le> v * 2 ^ z \<and> v * 2 ^ z < 2 ^ 32"
proof -
  obtain m where n: "n = c + int m" and i: "unat i = v * 2 ^ m" and lo: "2 ^ 30 \<le> unat i"
    using assms by (auto simp: clz_inv_def)
  have hi: "unat i < 2 ^ 32"
    using unsigned_less [of i] by simp
  have d: "uint (drop_bit 31 i) = int (unat i div 2 ^ 31)"
    by (simp only: uint_nat word_conv)
  show ?thesis
  proof (cases "unat i < 2 ^ 31")
    case True
    then have "unat i div 2 ^ 31 = 0" by simp
    with True lo n d i show ?thesis
      by (intro exI [of _ "Suc m"]) auto
  next
    case False
    with hi have "unat i div 2 ^ 31 = 1"
      by (intro div_nat_eqI) simp_all
    with False hi n i d show ?thesis
      by (intro exI [of _ m]) auto
  qed
qed

lemma clz_search:
  assumes "clz_inv v c 0 s"
  shows "clz_inv v c 30 (clz_step 2 (clz_step 4 (clz_step 8 (clz_step 16 s))))"
proof -
  from assms have "clz_inv v c 16 (clz_step 16 s)"
    using clz_step_inv [of v c 0 s 16] by simp
  then have "clz_inv v c 24 (clz_step 8 (clz_step 16 s))"
    using clz_step_inv [of v c 16 _ 8] by simp
  then have "clz_inv v c 28 (clz_step 4 (clz_step 8 (clz_step 16 s)))"
    using clz_step_inv [of v c 24 _ 4] by simp
  then show ?thesis
    using clz_step_inv [of v c 28 _ 2] by simp
qed

text \<open>Undoing the scaling: what the shift count says of the value itself.\<close>

lemma clz_bounds:
  fixes v :: nat
  assumes "0 < v" and lo: "2 ^ 31 \<le> v * 2 ^ z" and hi: "v * 2 ^ z < 2 ^ 32"
  shows "z < 32 \<and> 2 ^ (31 - z) \<le> v \<and> v < 2 ^ (32 - z)"
proof -
  have "(2::nat) ^ z \<le> v * 2 ^ z" using \<open>0 < v\<close> by simp
  with hi have "(2::nat) ^ z < 2 ^ 32" by linarith
  then have z: "z < 32" by (rule power_less_imp_less_exp [rotated]) simp
  then have "(2::nat) ^ 31 = 2 ^ (31 - z) * 2 ^ z" and "(2::nat) ^ 32 = 2 ^ (32 - z) * 2 ^ z"
    by (simp_all flip: power_add)
  then have "2 ^ (31 - z) * 2 ^ z \<le> v * 2 ^ z" and "v * 2 ^ z < 2 ^ (32 - z) * 2 ^ z"
    using lo hi by (simp_all only:)
  with z show ?thesis by simp
qed

lemma NumberOfLeadingZerosU32_search:
  assumes "i \<noteq> 0"
  shows "NumberOfLeadingZerosU32 i =
    (case clz_step 2 (clz_step 4 (clz_step 8 (clz_step 16 (1, i)))) of (n, j) \<Rightarrow> n - uint (drop_bit 31 j))"
  using assms unfolding NumberOfLeadingZerosU32_def Let_def clz_step_bind
  by (simp split: prod.splits)

theorem NumberOfLeadingZerosU32_spec:
  assumes "i \<noteq> 0"
  obtains z where "NumberOfLeadingZerosU32 i = int z" and "z < 32"
    and "2 ^ (31 - z) \<le> unat i" and "unat i < 2 ^ (32 - z)"
proof -
  have "0 < unat i" using assms by (simp add: unat_gt_0)
  then have "clz_inv (unat i) 1 0 (1, i)"
    by (simp add: clz_inv_def)
  from clz_search [OF this] obtain n j
    where "clz_step 2 (clz_step 4 (clz_step 8 (clz_step 16 (1, i)))) = (n, j)"
      and "clz_inv (unat i) 1 30 (n, j)"
    by (metis prod.exhaust)
  with clz_final [of "unat i" 1 n j] NumberOfLeadingZerosU32_search [OF assms]
  obtain z where z: "NumberOfLeadingZerosU32 i = int z"
    and lo: "2 ^ 31 \<le> unat i * 2 ^ z" and hi: "unat i * 2 ^ z < 2 ^ 32"
    by auto
  from clz_bounds [OF \<open>0 < unat i\<close> lo hi] that z show thesis by blast
qed

section \<open>Bit lengths, capacities and digit counts\<close>

lemma BitLengthU32_spec:
  assumes "i \<noteq> 0"
  obtains b where "BitLengthU32 i = int b" and "0 < b" and "b \<le> 32"
    and "2 ^ (b - 1) \<le> unat i" and "unat i < 2 ^ b"
proof -
  obtain z where "NumberOfLeadingZerosU32 i = int z" "z < 32"
    "2 ^ (31 - z) \<le> unat i" "unat i < 2 ^ (32 - z)"
    using assms by (rule NumberOfLeadingZerosU32_spec)
  then show thesis
    by (intro that [of "32 - z"]) (auto simp: BitLengthU32_def of_nat_diff)
qed

lemma NumberOfLeadingZerosU64_spec:
  assumes "i \<noteq> 0"
  obtains z where "NumberOfLeadingZerosU64 i = int z" and "z < 64"
    and "2 ^ (63 - z) \<le> unat i" and "unat i < 2 ^ (64 - z)"
proof -
  let ?hi = "ucast (drop_bit 32 i) :: u32" and ?lo = "ucast i :: u32"
  let ?x = "if ?hi = 0 then ?lo else ?hi" and ?c = "if ?hi = 0 then 33 else 1 :: int"
  have hi: "unat ?hi = unat i div 2 ^ 32"
  proof -
    have "unat ?hi = unat (drop_bit 32 i) mod 2 ^ 32"
      by (simp add: unsigned_ucast_eq take_bit_eq_mod)
    also have "\<dots> = unat i div 2 ^ 32"
      using unat_u64_less [of i] by (simp only: word_conv) (intro mod_less, simp add: less_mult_imp_div_less)
    finally show ?thesis .
  qed
  have lo: "unat ?lo = unat i mod 2 ^ 32"
    by (simp add: unsigned_ucast_eq take_bit_eq_mod)
  have pos: "0 < unat ?x"
  proof (cases "?hi = 0")
    case True
    then have "unat i < 2 ^ 32"
      using hi by (simp add: div_eq_0_iff)
    with True lo assms show ?thesis by (simp add: unat_gt_0)
  qed (simp add: unat_gt_0)
  have "clz_inv (unat ?x) ?c 0 (?c, ?x)"
    using pos unfolding clz_inv_def split by (intro conjI exI [of _ 0]) (simp_all only:, simp_all)
  from clz_search [OF this] obtain n j
    where nj: "clz_step 2 (clz_step 4 (clz_step 8 (clz_step 16 (?c, ?x)))) = (n, j)"
      and "clz_inv (unat ?x) ?c 30 (n, j)"
    by (metis prod.exhaust)
  then obtain z where z: "n - uint (drop_bit 31 j) = ?c - 1 + int z"
    and "2 ^ 31 \<le> unat ?x * 2 ^ z" "unat ?x * 2 ^ z < 2 ^ 32"
    using clz_final by blast
  with clz_bounds pos have zz: "z < 32" "2 ^ (31 - z) \<le> unat ?x" "unat ?x < 2 ^ (32 - z)"
    by blast+
  have "NumberOfLeadingZerosU64 i =
      (case clz_step 2 (clz_step 4 (clz_step 8 (clz_step 16 (?c, ?x)))) of
         (n, j) \<Rightarrow> n - uint (drop_bit 31 j))"
    using assms unfolding NumberOfLeadingZerosU64_def Let_def clz_step_bind
    by (cases "?hi = 0") (simp_all split: prod.splits)
  with nj z have eq: "NumberOfLeadingZerosU64 i = ?c - 1 + int z"
    by simp
  show thesis
  proof (cases "?hi = 0")
    case True
    then have "unat i < 2 ^ 32"
      using hi by (simp add: div_eq_0_iff)
    with lo have "unat ?lo = unat i" by simp
    with True eq zz show thesis
      by (intro that [of "32 + z"]) auto
  next
    case False
    have "unat i < 2 ^ 32 * 2 ^ (32 - z)" "2 ^ (31 - z) * 2 ^ 32 \<le> unat i"
      using False zz hi
      by (simp_all add: div_less_iff_less_mult less_eq_div_iff_mult_less_eq mult.commute)
    moreover have "64 - z = 32 + (32 - z)" "63 - z = (31 - z) + 32"
      using zz by simp_all
    ultimately show thesis
      using False eq zz by (intro that [of z]) (simp_all only: power_add, simp_all)
  qed
qed

lemma GetCapasityForSize_spec:
  assumes "0 < n" and "n \<le> INT32_MAX"
  shows "n \<le> GetCapasityForSize n" and "GetCapasityForSize n \<le> INT32_MAX"
proof -
  have "n \<le> GetCapasityForSize n \<and> GetCapasityForSize n \<le> INT32_MAX"
  proof (cases "n \<le> 8")
    case True
    then show ?thesis by (simp add: GetCapasityForSize_def INT32_MAX_def)
  next
    case False
    let ?w = "word_of_int n :: u32"
    have u: "int (unat ?w) = n"
      using assms by (simp add: INT32_MAX_def unsigned_of_int take_bit_int_eq_self)
    with assms have "?w \<noteq> 0" by auto
    then obtain b where b: "BitLengthU32 ?w = int b" "0 < b" "b \<le> 32"
      "2 ^ (b - 1) \<le> unat ?w" "unat ?w < 2 ^ b"
      by (rule BitLengthU32_spec)
    have bl: "BitLengthI32 ?w = int b"
      using b(1) by (simp add: BitLengthI32_def BitLengthU32_def NumberOfLeadingZerosI32_def)
    have "n < 2 ^ b" using b(5) u by (metis of_nat_less_numeral_power_cancel_iff)
    moreover have "b \<le> 30 \<Longrightarrow> (2::int) ^ b \<le> 2 ^ 30"
      by (intro power_increasing) auto
    ultimately show ?thesis
      using False assms(2) by (auto simp: GetCapasityForSize_def bl INT32_MAX_def)
  qed
  then show "n \<le> GetCapasityForSize n" "GetCapasityForSize n \<le> INT32_MAX"
    by simp_all
qed

lemma TenPowerU64_Some:
  assumes "TenPowerU64 n = Some p"
  shows "0 \<le> n" and "n < 20" and "unat p = 10 ^ nat n"
proof -
  show n: "0 \<le> n" "n < 20"
    using assms by (auto simp: TenPowerU64_def UINT64_MAX_PRECISION_def split: if_splits)
  have "list_all (\<lambda>k. unat (TEN_POWERS_TABLE ! k) = 10 ^ k) [0..<20]"
    by (simp add: TEN_POWERS_TABLE_def upt_rec)
  then have "\<And>k. k < 20 \<Longrightarrow> unat (TEN_POWERS_TABLE ! k) = 10 ^ k"
    by (auto simp: list_all_iff)
  with n assms show "unat p = 10 ^ nat n"
    by (auto simp: TenPowerU64_def split: if_splits)
qed

lemma TenPowerU64_defined:
  assumes "0 \<le> n" and "n < 20"
  obtains p where "TenPowerU64 n = Some p"
  using assms by (auto simp: TenPowerU64_def UINT64_MAX_PRECISION_def)

text \<open>
  The multiplier 1233 / 4096 approximates log 2 / log 10 closely enough for every bit length
  a 64-bit value can have: the estimate is the digit count or one less.
\<close>

lemma digit_estimate:
  assumes "4 \<le> b" and "b \<le> (64::nat)"
  defines "r \<equiv> (b + 1) * 1233 div 4096"
  shows "1 \<le> r" and "r < 20" and "10 ^ (r - 1) \<le> (2::nat) ^ (b - 1)" and "(2::nat) ^ b \<le> 10 ^ (r + 1)"
proof -
  have "\<forall>b\<in>set [4..<65]. let r = (b + 1) * 1233 div 4096 in
      1 \<le> r \<and> r < 20 \<and> 10 ^ (r - 1) \<le> (2::nat) ^ (b - 1) \<and> (2::nat) ^ b \<le> 10 ^ (r + 1)"
    by (simp add: upt_rec Let_def)
  moreover have "b \<in> set [4..<65]" unfolding set_upt using assms by simp
  ultimately have "1 \<le> r \<and> r < 20 \<and> 10 ^ (r - 1) \<le> (2::nat) ^ (b - 1) \<and> (2::nat) ^ b \<le> 10 ^ (r + 1)"
    unfolding r_def Let_def by blast
  then show "1 \<le> r" "r < 20" "10 ^ (r - 1) \<le> (2::nat) ^ (b - 1)" "(2::nat) ^ b \<le> 10 ^ (r + 1)"
    by blast+
qed

text \<open>\<open>DigitLength\<close> returns the exact number of decimal digits of every 64-bit value
  (one digit for zero).\<close>

theorem DigitLength_correct:
  "1 \<le> DigitLength x \<and> DigitLength x \<le> 20 \<and> unat x < 10 ^ nat (DigitLength x) \<and>
   (x = 0 \<or> 10 ^ nat (DigitLength x - 1) \<le> unat x)"
proof (cases "x < 10")
  case True
  then have "unat x < 10" by (simp add: word_less_nat_alt)
  with True show ?thesis
    by (auto simp: DigitLength_def unat_gt_0 Suc_le_eq)
next
  case False
  then have ge: "10 \<le> unat x" by (simp add: word_less_nat_alt)
  then have "x \<noteq> 0" by auto
  then obtain z where z: "NumberOfLeadingZerosU64 x = int z" "z < 64"
    "2 ^ (63 - z) \<le> unat x" "unat x < 2 ^ (64 - z)"
    by (rule NumberOfLeadingZerosU64_spec)
  define b where "b = 64 - z"
  define r where "r = (b + 1) * 1233 div 4096"
  have b: "2 ^ (b - 1) \<le> unat x" "unat x < 2 ^ b" "b \<le> 64"
    using z by (simp_all add: b_def)
  have "(2::nat) ^ 3 < 2 ^ b" using b(2) ge by simp
  then have "3 < b" by (rule power_less_imp_less_exp [rotated]) simp
  then have r: "1 \<le> r" "r < 20" "10 ^ (r - 1) \<le> (2::nat) ^ (b - 1)" "(2::nat) ^ b \<le> 10 ^ (r + 1)"
    using digit_estimate [of b] b(3) by (simp_all add: r_def)
  have est: "((64 - NumberOfLeadingZerosU64 x + 1) * 1233) div 2 ^ 12 = int r"
    using z(2) by (simp add: z(1) r_def b_def of_nat_diff zdiv_int)
  obtain p where p: "TenPowerU64 (int r) = Some p"
    using r(2) by (auto intro: TenPowerU64_defined [of "int r"])
  then have pv: "unat p = 10 ^ r" using TenPowerU64_Some(3) by fastforce
  have "DigitLength x = (if unat x < 10 ^ r then int r else int r + 1)"
    using False r(2) unfolding DigitLength_def est Let_def
    by (simp add: p UINT64_MAX_PRECISION_def word_less_nat_alt pv)
  moreover have "10 ^ (r - 1) \<le> unat x" "unat x < 10 ^ (r + 1)"
    using r b by linarith+
  ultimately show ?thesis
    using r(1,2) by (auto simp: nat_diff_distrib nat_add_distrib)
qed

end
