(* ===== verification/Odbc_DynArray.thy ===== *)
theory Odbc_DynArray
  imports Odbc_Bits
begin

text \<open>
  \<^verbatim>\<open>common/dynamic_size_array.h\<close>: the growing array under \<open>BigInteger\<close>. The buffer is a list of
  cells; a cell without a constructed object (fresh from the allocator, or destructed) is
  \<open>None\<close>. The interface the clients rely on is the locale \<open>vector\<close>: the operations act on the
  sequence of constructed elements as the list operations do, as long as the sizes fit
  \<open>int32_t\<close>.
\<close>

section \<open>The interface\<close>

locale vector =
  fixes inv :: "'v \<Rightarrow> bool" and abs :: "'v \<Rightarrow> 'a list" and dflt :: 'a and limit :: nat
    and resize :: "'v \<Rightarrow> nat \<Rightarrow> 'v" and push :: "'v \<Rightarrow> 'a \<Rightarrow> 'v" and append :: "'v \<Rightarrow> 'a list \<Rightarrow> 'v"
  assumes resize: "inv v \<Longrightarrow> n \<le> limit \<Longrightarrow>
      inv (resize v n) \<and> abs (resize v n) = take n (abs v) @ replicate (n - length (abs v)) dflt"
    and push: "inv v \<Longrightarrow> length (abs v) < limit \<Longrightarrow> inv (push v x) \<and> abs (push v x) = abs v @ [x]"
    and append: "inv v \<Longrightarrow> length (abs v) + length xs \<le> limit \<Longrightarrow>
      inv (append v xs) \<and> abs (append v xs) = abs v @ xs"
begin

lemma shrink: "inv v \<Longrightarrow> n \<le> length (abs v) \<Longrightarrow> length (abs v) \<le> limit \<Longrightarrow> abs (resize v n) = take n (abs v)"
  using resize [of v n] by simp

text \<open>Dropping a suffix by a resize, as normalisation of a magnitude does.\<close>

lemma resize_dropWhile:
  assumes "inv v" and "length (abs v) \<le> limit"
  shows "abs (resize v (length (dropWhile P (rev (abs v))))) = rev (dropWhile P (rev (abs v)))"
proof -
  let ?r = "dropWhile P (rev (abs v))"
  have "rev (abs v) = takeWhile P (rev (abs v)) @ ?r" by simp
  then have "abs v = rev ?r @ rev (takeWhile P (rev (abs v)))" by (metis rev_append rev_rev_ident)
  moreover from this have "take (length ?r) (abs v) = rev ?r" by (metis append_eq_conv_conj length_rev)
  moreover have "length ?r \<le> length (abs v)" by (metis length_dropWhile_le length_rev)
  ultimately show ?thesis using shrink [OF assms(1) _ assms(2)] by simp
qed

lemma push_all:
  "inv v \<Longrightarrow> length (abs v) + length xs \<le> limit \<Longrightarrow>
    inv (foldl push v xs) \<and> abs (foldl push v xs) = abs v @ xs"
  by (induction xs arbitrary: v) (simp_all add: push)

lemma append_is_push_all:
  "inv v \<Longrightarrow> length (abs v) + length xs \<le> limit \<Longrightarrow> abs (append v xs) = abs (foldl push v xs)"
  by (simp add: append push_all)

end

section \<open>The array\<close>

record 'a DynamicSizeArray =
  da_size :: int
  capasity :: int
  cells :: "'a option list"

text \<open>The allocator: \<open>Construct\<close> and \<open>Destruct\<close> along a range of cells.\<close>

fun construct_from :: "nat \<Rightarrow> 'a list \<Rightarrow> 'a option list \<Rightarrow> 'a option list" where
  "construct_from i [] cs = cs"
| "construct_from i (v # vs) cs = construct_from (Suc i) vs (cs[i := Some v])"

fun destruct_from :: "nat \<Rightarrow> nat \<Rightarrow> 'a option list \<Rightarrow> 'a option list" where
  "destruct_from i 0 cs = cs"
| "destruct_from i (Suc n) cs = destruct_from (Suc i) n (cs[i := None])"

definition da_allocate :: "int \<Rightarrow> 'a option list" where
  "da_allocate n = replicate (nat n) None"

definition da_empty :: "'a DynamicSizeArray" where
  "da_empty = \<lparr>da_size = 0, capasity = 0, cells = []\<rparr>"

definition da_new :: "int \<Rightarrow> 'a DynamicSizeArray" where
  "da_new len = \<lparr>da_size = 0, capasity = GetCapasityForSize len,
     cells = da_allocate (GetCapasityForSize len)\<rparr>"

definition da_elems :: "'a DynamicSizeArray \<Rightarrow> 'a list" where
  "da_elems a = map the (take (nat (da_size a)) (cells a))"

definition da_Assign :: "'a DynamicSizeArray \<Rightarrow> 'a list \<Rightarrow> 'a DynamicSizeArray" where
  "da_Assign a src =
     (let len = int (length src);
          cs = destruct_from 0 (nat (da_size a)) (cells a);
          cap = (if capasity a < len then GetCapasityForSize len else capasity a);
          cs' = (if capasity a < len then da_allocate cap else cs)
      in \<lparr>da_size = len, capasity = cap, cells = construct_from 0 src cs'\<rparr>)"

definition da_Reserve :: "'a DynamicSizeArray \<Rightarrow> int \<Rightarrow> 'a DynamicSizeArray" where
  "da_Reserve a newCapacity =
     (if capasity a < newCapacity then da_Assign (da_new newCapacity) (da_elems a) else a)"

definition da_Append :: "'a DynamicSizeArray \<Rightarrow> 'a list \<Rightarrow> 'a DynamicSizeArray" where
  "da_Append a src =
     (let a' = da_Reserve a (da_size a + int (length src))
      in a'\<lparr>cells := construct_from (nat (da_size a')) src (cells a'),
            da_size := da_size a' + int (length src)\<rparr>)"

definition da_Clear :: "'a DynamicSizeArray \<Rightarrow> 'a DynamicSizeArray" where
  "da_Clear a = a\<lparr>cells := destruct_from 0 (nat (da_size a)) (cells a), da_size := 0\<rparr>"

definition da_Resize :: "'a \<Rightarrow> 'a DynamicSizeArray \<Rightarrow> int \<Rightarrow> 'a DynamicSizeArray" where
  "da_Resize dflt a newSize =
     (let a' = (if capasity a < newSize then da_Reserve a newSize else a);
          sz = da_size a'
      in if newSize > sz then
           a'\<lparr>cells := construct_from (nat sz) (replicate (nat (newSize - sz)) dflt) (cells a'),
              da_size := newSize\<rparr>
         else a'\<lparr>cells := destruct_from (nat newSize) (nat (sz - newSize)) (cells a'), da_size := newSize\<rparr>)"

text \<open>An element is read only inside the size (the source asserts the upper bound).\<close>

definition da_nth :: "'a DynamicSizeArray \<Rightarrow> int \<Rightarrow> 'a option" where
  "da_nth a i = (if 0 \<le> i \<and> i < da_size a then cells a ! nat i else None)"

definition da_set :: "'a DynamicSizeArray \<Rightarrow> int \<Rightarrow> 'a \<Rightarrow> 'a DynamicSizeArray" where
  "da_set a i v = (if 0 \<le> i \<and> i < da_size a then a\<lparr>cells := (cells a)[nat i := Some v]\<rparr> else a)"

definition da_Back :: "'a DynamicSizeArray \<Rightarrow> 'a option" where
  "da_Back a = da_nth a (da_size a - 1)"

definition da_Front :: "'a DynamicSizeArray \<Rightarrow> 'a option" where
  "da_Front a = da_nth a 0"

text \<open>\<open>val\<close> is the value pushed: the source takes it by reference and reads it after the resize.\<close>

definition da_PushBack :: "'a \<Rightarrow> 'a DynamicSizeArray \<Rightarrow> 'a \<Rightarrow> 'a DynamicSizeArray" where
  "da_PushBack dflt a val =
     (let a' = da_Resize dflt a (da_size a + 1) in da_set a' (da_size a' - 1) val)"

section \<open>Invariant\<close>

text \<open>The first \<open>size\<close> cells hold objects, the others, up to the capacity, none.\<close>

definition da_inv :: "'a DynamicSizeArray \<Rightarrow> bool" where
  "da_inv a \<longleftrightarrow> 0 \<le> da_size a \<and> da_size a \<le> capasity a \<and> capasity a \<le> INT32_MAX \<and>
     length (cells a) = nat (capasity a) \<and>
     list_all (\<lambda>c. c \<noteq> None) (take (nat (da_size a)) (cells a)) \<and>
     list_all (\<lambda>c. c = None) (drop (nat (da_size a)) (cells a))"

definition da_rep :: "'a DynamicSizeArray \<Rightarrow> 'a list \<Rightarrow> bool" where
  "da_rep a xs \<longleftrightarrow> da_size a = int (length xs) \<and> length xs \<le> nat (capasity a) \<and> 0 \<le> capasity a \<and>
     capasity a \<le> INT32_MAX \<and> cells a = map Some xs @ replicate (nat (capasity a) - length xs) None"

lemma da_repI: "da_inv a \<Longrightarrow> da_rep a (da_elems a)"
proof -
  assume i: "da_inv a"
  define n where "n = nat (da_size a)"
  have n: "da_size a = int n" "n \<le> length (cells a)" using i by (auto simp: da_inv_def n_def)
  have "take n (cells a) = map Some (map the (take n (cells a)))"
    using i by (simp add: da_inv_def list_all_iff n_def) (simp add: map_idI)
  moreover have "drop n (cells a) = replicate (length (cells a) - n) None"
    using i replicate_length_same [of "drop n (cells a)" None]
    by (auto simp: da_inv_def list_all_iff n_def)
  ultimately have "cells a = map Some (da_elems a) @ replicate (length (cells a) - n) None"
    unfolding da_elems_def n_def [symmetric] by (metis append_take_drop_id)
  with i n show ?thesis by (simp add: da_rep_def da_inv_def da_elems_def)
qed

lemma da_repD:
  assumes "da_rep a xs"
  shows "da_inv a" and "da_elems a = xs"
  using assms by (auto simp: da_rep_def da_inv_def da_elems_def list_all_iff map_idI)

section \<open>Operations on the represented list\<close>

lemma construct_from_eq:
  "i + length vs \<le> length cs \<Longrightarrow>
    construct_from i vs cs = take i cs @ map Some vs @ drop (i + length vs) cs"
proof (induction vs arbitrary: i cs)
  case Nil
  then show ?case by simp
next
  case (Cons v vs)
  then show ?case by (simp add: take_Suc_conv_app_nth)
qed

lemma destruct_from_eq:
  "i + n \<le> length cs \<Longrightarrow> destruct_from i n cs = take i cs @ replicate n None @ drop (i + n) cs"
proof (induction n arbitrary: i cs)
  case 0
  then show ?case by simp
next
  case (Suc n)
  then show ?case by (simp add: take_Suc_conv_app_nth)
qed

lemma da_rep_empty: "da_rep da_empty []"
  by (simp add: da_rep_def da_empty_def INT32_MAX_def)

lemma da_rep_new:
  assumes "0 < n" and "n \<le> INT32_MAX"
  shows "da_rep (da_new n) []"
proof -
  have "0 < GetCapasityForSize n" using GetCapasityForSize_spec [OF assms] assms(1) by linarith
  then show ?thesis using GetCapasityForSize_spec [OF assms] by (simp add: da_rep_def da_new_def da_allocate_def)
qed

lemma da_rep_Assign:
  assumes "da_rep a xs" and "int (length src) \<le> INT32_MAX"
  shows "da_rep (da_Assign a src) src" and "capasity a \<le> capasity (da_Assign a src)"
proof -
  have fresh: "destruct_from 0 (length xs) (cells a) = replicate (nat (capasity a)) None"
    using assms(1) by (simp add: da_rep_def destruct_from_eq flip: replicate_add)
  have "da_rep (da_Assign a src) src \<and> capasity a \<le> capasity (da_Assign a src)"
  proof (cases "capasity a < int (length src)")
    case True
    then have p: "0 < int (length src)" using assms(1) by (auto simp: da_rep_def)
    note g = GetCapasityForSize_spec [OF p assms(2)]
    then show ?thesis
      using True by (simp add: da_rep_def da_Assign_def Let_def da_allocate_def construct_from_eq nat_le_iff le_nat_iff)
  next
    case False
    then show ?thesis
      using assms(1) fresh by (simp add: da_rep_def da_Assign_def Let_def construct_from_eq le_nat_iff)
  qed
  then show "da_rep (da_Assign a src) src" and "capasity a \<le> capasity (da_Assign a src)" by simp_all
qed

lemma da_rep_Reserve:
  fixes a :: "'a DynamicSizeArray"
  assumes "da_rep a xs" and "n \<le> INT32_MAX"
  shows "da_rep (da_Reserve a n) xs \<and> n \<le> capasity (da_Reserve a n)"
proof (cases "capasity a < n")
  case True
  then have n: "0 < n" and len: "int (length xs) \<le> INT32_MAX" using assms(1) by (auto simp: da_rep_def)
  have "n \<le> capasity (da_new n :: 'a DynamicSizeArray)" using GetCapasityForSize_spec [OF n assms(2)] by (simp add: da_new_def)
  with da_rep_Assign [OF da_rep_new [OF n assms(2)] len] True show ?thesis
    by (auto simp: da_Reserve_def da_repD(2) [OF assms(1)])
next
  case False
  with assms(1) show ?thesis by (simp add: da_Reserve_def)
qed

lemma da_rep_Append:
  assumes "da_rep a xs" and "int (length xs + length src) \<le> INT32_MAX"
  shows "da_rep (da_Append a src) (xs @ src)"
proof -
  define a' where "a' = da_Reserve a (da_size a + int (length src))"
  have "da_rep a' xs" "int (length xs + length src) \<le> capasity a'"
    using da_rep_Reserve [OF assms(1), of "da_size a + int (length src)"] assms by (simp_all add: a'_def da_rep_def)
  then show ?thesis
    by (simp add: da_rep_def da_Append_def a'_def [symmetric] Let_def construct_from_eq le_nat_iff)
qed

lemma da_rep_Clear: "da_rep a xs \<Longrightarrow> da_rep (da_Clear a) []"
  by (simp add: da_rep_def da_Clear_def destruct_from_eq flip: replicate_add)

lemma da_rep_Resize:
  assumes "da_rep a xs" and "int n \<le> INT32_MAX"
  shows "da_rep (da_Resize d a (int n)) (take n xs @ replicate (n - length xs) d)"
proof -
  define a' where "a' = (if capasity a < int n then da_Reserve a (int n) else a)"
  have r: "da_rep a' xs" "int n \<le> capasity a'"
    using da_rep_Reserve [OF assms] assms(1) by (auto simp: a'_def)
  show ?thesis
  proof (cases "length xs < n")
    case True
    with r show ?thesis
      by (simp add: da_rep_def da_Resize_def a'_def [symmetric] Let_def construct_from_eq nat_diff_distrib le_nat_iff)
  next
    case False
    with r show ?thesis
      by (simp add: da_rep_def da_Resize_def a'_def [symmetric] Let_def destruct_from_eq take_map drop_map
          nat_diff_distrib flip: replicate_add)
  qed
qed

lemma da_rep_PushBack:
  assumes "da_rep a xs" and "int (length xs) < INT32_MAX"
  shows "da_rep (da_PushBack d a v) (xs @ [v])"
proof -
  let ?a = "da_Resize d a (da_size a + 1)"
  have sz: "da_size a = int (length xs)" using assms(1) by (simp add: da_rep_def)
  have "da_rep ?a (take (Suc (length xs)) xs @ replicate (Suc (length xs) - length xs) d)"
    using da_rep_Resize [OF assms(1), of "Suc (length xs)" d] assms(2) by (simp add: sz add.commute)
  then have "da_rep ?a (xs @ [d])" by (simp add: Suc_diff_le)
  then show ?thesis
    by (simp add: da_PushBack_def Let_def da_set_def da_rep_def nat_add_distrib list_update_append)
qed

section \<open>The array implements the interface\<close>

interpretation da: vector da_inv da_elems dflt "nat INT32_MAX" "\<lambda>a n. da_Resize dflt a (int n)"
  "da_PushBack dflt" da_Append
  for dflt
proof
  fix v :: "'a DynamicSizeArray" and n x and xs :: "'a list"
  assume inv: "da_inv v"
  show "da_inv (da_Resize dflt v (int n)) \<and>
      da_elems (da_Resize dflt v (int n)) = take n (da_elems v) @ replicate (n - length (da_elems v)) dflt"
    if "n \<le> nat INT32_MAX"
    using da_repD [OF da_rep_Resize [OF da_repI [OF inv]]] that by (simp add: le_nat_iff INT32_MAX_def)
  show "da_inv (da_PushBack dflt v x) \<and> da_elems (da_PushBack dflt v x) = da_elems v @ [x]"
    if "length (da_elems v) < nat INT32_MAX"
    using da_repD [OF da_rep_PushBack [OF da_repI [OF inv]]] that by (simp add: INT32_MAX_def)
  show "da_inv (da_Append v xs) \<and> da_elems (da_Append v xs) = da_elems v @ xs"
    if "length (da_elems v) + length xs \<le> nat INT32_MAX"
    using da_repD [OF da_rep_Append [OF da_repI [OF inv]]] that by (simp add: INT32_MAX_def)
qed

text \<open>(C35) The growing array refines lists: every operation keeps the invariant (exactly the
  first \<open>size\<close> cells of a buffer of \<open>capasity\<close> cells hold objects) and acts on the elements as
  the list operation does: assignment replaces them, appending and pushing extend them,
  clearing drops them, resizing cuts them or fills up with default values.\<close>

theorem DynamicSizeArray_refines_list:
  assumes "da_inv a" and "length (da_elems a) + length xs < nat INT32_MAX" and "n \<le> nat INT32_MAX"
  shows "da_inv (da_Assign a xs) \<and> da_elems (da_Assign a xs) = xs \<and>
    da_inv (da_Append a xs) \<and> da_elems (da_Append a xs) = da_elems a @ xs \<and>
    da_inv (da_Clear a) \<and> da_elems (da_Clear a) = [] \<and>
    da_inv (da_Resize d a (int n)) \<and>
    da_elems (da_Resize d a (int n)) = take n (da_elems a) @ replicate (n - length (da_elems a)) d \<and>
    da_inv (da_PushBack d a x) \<and> da_elems (da_PushBack d a x) = da_elems a @ [x] \<and>
    da_inv (da_Reserve a (int n)) \<and> da_elems (da_Reserve a (int n)) = da_elems a"
  using assms da_repD [OF da_rep_Assign(1) [OF da_repI [OF assms(1)], of xs]]
    da_repD [OF da_rep_Clear [OF da_repI [OF assms(1)]]]
    da_repD [OF conjunct1 [OF da_rep_Reserve [OF da_repI [OF assms(1)], of "int n"]]]
    da.resize [of a n d] da.push [of a d x] da.append [of a xs]
  by (simp add: INT32_MAX_def)

theorem DynamicSizeArray_refines_list_witness:
  "da_elems (da_PushBack (0 :: nat) (da_new 4) 7) = [7]"
  using DynamicSizeArray_refines_list [of "da_new 4" "[]" 0 "0 :: nat" 7]
  by (simp add: da_inv_def da_new_def da_elems_def da_allocate_def GetCapasityForSize_def INT32_MAX_def list_all_iff)

text \<open>Reading an element: after any assignment the array yields exactly the elements
  assigned, by index, and nothing outside the size.\<close>

theorem DynamicSizeArray_nth:
  assumes "da_inv a" and "int (length xs) \<le> INT32_MAX"
  shows "da_nth (da_Assign a xs) i = (if 0 \<le> i \<and> i < int (length xs) then Some (xs ! nat i) else None)"
proof -
  have "da_rep (da_Assign a xs) xs" using da_rep_Assign(1) [OF da_repI [OF assms(1)] assms(2)] .
  then show ?thesis by (auto simp: da_rep_def da_nth_def nth_append nat_less_iff)
qed

theorem DynamicSizeArray_nth_witness:
  "da_nth (da_Assign da_empty [4, 5, 6 :: nat]) 2 = Some 6"
  using DynamicSizeArray_nth [of da_empty "[4, 5, 6 :: nat]" 2]
  by (simp add: da_inv_def da_empty_def INT32_MAX_def)

end
