(* ===== verification/Odbc_Text.thy ===== *)
theory Odbc_Text
  imports Odbc_Prelude
begin

text \<open>
  The parts of the C++ library's text handling that the driver relies on: the character classes
  \<open>isdigit\<close> and \<open>isspace\<close>, the decimal output of unsigned numbers (\<open>operator<<\<close>,
  \<open>std::to_string\<close>) and output padded with a fill character.
\<close>

section \<open>Characters\<close>

definition isdigit :: "char \<Rightarrow> bool" where
  "isdigit c \<longleftrightarrow> 48 \<le> (of_char c :: nat) \<and> of_char c \<le> (57 :: nat)"

definition isspace :: "char \<Rightarrow> bool" where
  "isspace c \<longleftrightarrow> of_char c = (32 :: nat) \<or> (9 \<le> (of_char c :: nat) \<and> of_char c \<le> (13 :: nat))"

definition digit_char :: "nat \<Rightarrow> char" where
  "digit_char d = char_of (48 + d)"

definition char_digit :: "char \<Rightarrow> nat" where
  "char_digit c = of_char c - 48"

lemma of_char_digit_char: "d < 10 \<Longrightarrow> of_char (digit_char d) = 48 + d"
  by (simp add: digit_char_def)

lemma isdigit_digit_char [simp]: "d < 10 \<Longrightarrow> isdigit (digit_char d)"
  by (simp add: isdigit_def of_char_digit_char)

lemma char_digit_digit_char [simp]: "d < 10 \<Longrightarrow> char_digit (digit_char d) = d"
  by (simp add: char_digit_def of_char_digit_char)

lemma char_digit_less: "isdigit c \<Longrightarrow> char_digit c < 10"
  by (auto simp: isdigit_def char_digit_def)

lemma isdigit_not_isspace: "isdigit c \<Longrightarrow> \<not> isspace c"
  by (auto simp: isdigit_def isspace_def)

lemma digit_char_eq_iff [simp]: "d < 10 \<Longrightarrow> e < 10 \<Longrightarrow> digit_char d = digit_char e \<longleftrightarrow> d = e"
  by (metis char_digit_digit_char)

lemma digit_char_0 [simp]: "digit_char 0 = CHR ''0''"
  by code_simp

section \<open>Decimal output\<close>

fun dec_string :: "nat \<Rightarrow> string" where
  "dec_string n = (if n < 10 then [digit_char n] else dec_string (n div 10) @ [digit_char (n mod 10)])"

declare dec_string.simps [simp del]

definition pad_left :: "nat \<Rightarrow> char \<Rightarrow> string \<Rightarrow> string" where
  "pad_left w c s = replicate (w - length s) c @ s"

text \<open>The numeral of an integer.\<close>

definition int_string :: "int \<Rightarrow> string" where
  "int_string i = (if i < 0 then ''-'' else []) @ dec_string (nat \<bar>i\<bar>)"

text \<open>The value of a string of digits, and the digits of a fixed width.\<close>

definition dec_val :: "string \<Rightarrow> nat" where
  "dec_val s = foldl (\<lambda>n c. 10 * n + char_digit c) 0 s"

fun fixed_digits :: "nat \<Rightarrow> nat \<Rightarrow> string" where
  "fixed_digits 0 n = []"
| "fixed_digits (Suc k) n = fixed_digits k (n div 10) @ [digit_char (n mod 10)]"

lemma dec_string_small: "n < 10 \<Longrightarrow> dec_string n = [digit_char n]"
  by (simp add: dec_string.simps [of n])

lemma dec_string_big: "10 \<le> n \<Longrightarrow> dec_string n = dec_string (n div 10) @ [digit_char (n mod 10)]"
  by (simp add: dec_string.simps [of n])

lemma dec_string_not_Nil [simp]: "dec_string n \<noteq> []"
  by (cases "n < 10") (simp_all add: dec_string_small dec_string_big)

lemma dec_string_digits: "list_all isdigit (dec_string n)"
proof (induction n rule: dec_string.induct)
  case (1 n)
  then show ?case by (cases "n < 10") (simp_all add: dec_string_small dec_string_big)
qed

lemma dec_string_isdigit: "c \<in> set (dec_string n) \<Longrightarrow> isdigit c"
  using dec_string_digits [of n] by (simp add: list_all_iff)

lemma dec_val_snoc: "dec_val (s @ [c]) = 10 * dec_val s + char_digit c"
  by (simp add: dec_val_def)

lemma dec_val_append: "dec_val (s @ t) = dec_val s * 10 ^ length t + dec_val t"
  by (induction t rule: rev_induct)
    (simp_all add: dec_val_snoc algebra_simps flip: append_assoc, simp add: dec_val_def)

lemma dec_val_dec_string [simp]: "dec_val (dec_string n) = n"
proof (induction n rule: dec_string.induct)
  case (1 n)
  show ?case
  proof (cases "n < 10")
    case True
    then show ?thesis by (simp add: dec_string_small dec_val_def)
  next
    case False
    with 1 show ?thesis by (simp add: dec_string_big dec_val_snoc)
  qed
qed

lemma dec_val_bound: "list_all isdigit s \<Longrightarrow> dec_val s < 10 ^ length s"
proof (induction s rule: rev_induct)
  case Nil
  then show ?case by (simp add: dec_val_def)
next
  case (snoc c s)
  then show ?case using char_digit_less [of c] by (simp add: dec_val_snoc)
qed

text \<open>A numeral splits into a leading numeral and a fixed number of digits.\<close>

lemma dec_string_split:
  "10 ^ k \<le> n \<Longrightarrow> dec_string n = dec_string (n div 10 ^ k) @ fixed_digits k n"
proof (induction k arbitrary: n)
  case 0
  then show ?case by simp
next
  case (Suc k)
  have "10 \<le> n" using Suc.prems by (metis le_trans mult.commute mult_le_mono1 one_le_power
        le_numeral_extra(4) nat_mult_1_right one_le_numeral power_Suc mult.left_neutral)
  moreover have "10 ^ k \<le> n div 10" using Suc.prems by (simp add: less_eq_div_iff_mult_less_eq mult.commute)
  ultimately show ?case
    using Suc.IH [of "n div 10"] by (simp add: dec_string_big div_mult2_eq)
qed

lemma fixed_digits_0: "fixed_digits k 0 = replicate k (CHR ''0'')"
  by (induction k) (simp_all add: replicate_append_same flip: replicate_Suc)

lemma fixed_digits_pad:
  "0 < k \<Longrightarrow> n < 10 ^ k \<Longrightarrow> fixed_digits k n = pad_left k (CHR ''0'') (dec_string n)"
proof (induction k arbitrary: n)
  case 0
  then show ?case by simp
next
  case (Suc k)
  show ?case
  proof (cases "n < 10")
    case True
    then show ?thesis by (simp add: dec_string_small pad_left_def fixed_digits_0)
  next
    case False
    moreover have "n div 10 < 10 ^ k" using Suc.prems(2) by (simp add: less_mult_imp_div_less mult.commute)
    moreover from this False have "0 < k" by (cases k) auto
    ultimately show ?thesis
      using Suc.IH [of "n div 10"] by (simp add: dec_string_big pad_left_def)
  qed
qed

lemma fixed_digits_mod: "fixed_digits k (n mod 10 ^ k) = fixed_digits k n"
proof (induction k arbitrary: n)
  case 0
  then show ?case by simp
next
  case (Suc k)
  have "n mod (10 * 10 ^ k) div 10 = n div 10 mod 10 ^ k"
    by (simp add: mod_mult2_eq)
  moreover have "n mod (10 * 10 ^ k) mod 10 = n mod 10"
    by (simp add: mod_mod_cancel)
  ultimately show ?case using Suc.IH [of "n div 10"] by simp
qed

end
