(* ===== verification/Odbc_ConfigText.thy ===== *)
theory Odbc_ConfigText
  imports Odbc_Text
begin

text \<open>
  The string functions of \<^verbatim>\<open>common/utils.h\<close> and \<^verbatim>\<open>common/utils.cpp\<close> that the configuration
  code uses, with the functions of the C++ library they rest on (\<open>tolower\<close>, \<open>isalnum\<close> in the
  "C" locale, \<open>std::string::rfind\<close> and \<open>find\<close>, extraction of a number from a stream of
  digits), and an ordered map from strings to strings (\<open>std::map\<close>) as an association list.
\<close>

section \<open>Characters and case\<close>

definition tolower :: "char \<Rightarrow> char" where
  "tolower c = (if 65 \<le> (of_char c :: nat) \<and> of_char c \<le> (90 :: nat) then char_of (of_char c + 32 :: nat) else c)"

definition isalnum :: "char \<Rightarrow> bool" where
  "isalnum c \<longleftrightarrow> isdigit c \<or> (65 \<le> (of_char c :: nat) \<and> of_char c \<le> (90 :: nat)) \<or>
     (97 \<le> (of_char c :: nat) \<and> of_char c \<le> (122 :: nat))"

definition ToLower :: "string \<Rightarrow> string" where
  "ToLower s = map tolower s"

definition SpaceToUnderscore :: "string \<Rightarrow> string" where
  "SpaceToUnderscore s = map (\<lambda>c. if c = CHR '' '' then CHR ''_'' else c) s"

definition AllDigits :: "string \<Rightarrow> bool" where
  "AllDigits s \<longleftrightarrow> dropWhile isdigit s = []"

definition SkipTrailingSpaces :: "string \<Rightarrow> string" where
  "SkipTrailingSpaces s = rev (dropWhile isspace (rev s))"

definition StripSurroundingWhitespaces :: "string \<Rightarrow> string" where
  "StripSurroundingWhitespaces s = SkipTrailingSpaces (dropWhile isspace s)"

text \<open>The position of the last and of the first occurrence of a character (\<open>None\<close> is \<open>npos\<close>).\<close>

fun rfind :: "char \<Rightarrow> string \<Rightarrow> nat option" where
  "rfind c [] = None"
| "rfind c (x # xs) =
     (case rfind c xs of Some i \<Rightarrow> Some (Suc i) | None \<Rightarrow> if x = c then Some 0 else None)"

fun find_char :: "char \<Rightarrow> string \<Rightarrow> nat option" where
  "find_char c [] = None"
| "find_char c (x # xs) = (if x = c then Some 0 else map_option Suc (find_char c xs))"

text \<open>
  \<open>conv << value; conv >> numValue\<close> on a string of digits, with \<open>numValue\<close> zero before and of a
  type whose largest value is \<open>mx\<close>: the largest value on overflow, zero on an empty string.
\<close>

definition stream_int :: "int \<Rightarrow> string \<Rightarrow> int" where
  "stream_int mx s = min mx (int (dec_val s))"

lemma AllDigits_iff: "AllDigits s \<longleftrightarrow> list_all isdigit s"
  by (induction s) (simp_all add: AllDigits_def)

lemma rfind_None [simp]: "rfind c xs = None \<longleftrightarrow> c \<notin> set xs"
  by (induction xs) (auto split: option.splits)

lemma rfind_absent [simp]: "c \<notin> set xs \<Longrightarrow> rfind c xs = None"
  by simp

lemma rfind_append:
  "rfind c (xs @ ys) = (case rfind c ys of Some i \<Rightarrow> Some (length xs + i) | None \<Rightarrow> rfind c xs)"
  by (induction xs) (cases "rfind c ys"; simp)+

lemma rfind_less: "rfind c xs = Some i \<Longrightarrow> i < length xs"
proof (induction xs arbitrary: i)
  case (Cons x xs)
  show ?case
  proof (cases "rfind c xs")
    case None
    then show ?thesis using Cons.prems by (auto split: if_splits)
  next
    case (Some j)
    then show ?thesis using Cons by auto
  qed
qed simp

lemma strip_id:
  assumes "s \<noteq> []" and "\<not> isspace (hd s)" and "\<not> isspace (last s)"
  shows "StripSurroundingWhitespaces s = s"
proof -
  have "dropWhile isspace s = s" using assms(1,2) by (cases s) auto
  moreover have "dropWhile isspace (rev s) = rev s"
    using assms(1,3) by (cases "rev s") (auto simp: last_rev hd_rev [symmetric] hd_conv_nth)
  ultimately show ?thesis by (simp add: StripSurroundingWhitespaces_def SkipTrailingSpaces_def)
qed

lemma tolower_lower: "\<not> (65 \<le> (of_char c :: nat) \<and> of_char c \<le> (90 :: nat)) \<Longrightarrow> tolower c = c"
  by (auto simp: tolower_def)

section \<open>Percent encoding\<close>

definition uri_hex_digit :: "nat \<Rightarrow> char" where
  "uri_hex_digit d = (if d < 10 then char_of (48 + d) else char_of (55 + d))"

text \<open>\<open>std::uppercase << std::hex\<close> of a number below 256: no leading zero.\<close>

definition hex_string :: "nat \<Rightarrow> string" where
  "hex_string n = (if n < 16 then [uri_hex_digit n] else [uri_hex_digit (n div 16), uri_hex_digit (n mod 16)])"

definition uri_plain :: "char \<Rightarrow> bool" where
  "uri_plain c \<longleftrightarrow> isalnum c \<or> c \<in> set ''-_~.*!()''"

definition EncodeURIComponent :: "string \<Rightarrow> string" where
  "EncodeURIComponent s = concat (map (\<lambda>c. if uri_plain c then [c] else CHR ''%'' # hex_string (of_char c)) s)"

section \<open>Ordered maps\<close>

type_synonym ArgumentMap = "(string \<times> string) list"

fun str_less :: "string \<Rightarrow> string \<Rightarrow> bool" where
  "str_less _ [] = False"
| "str_less [] (_ # _) = True"
| "str_less (x # xs) (y # ys) =
     ((of_char x :: nat) < of_char y \<or> (x = y \<and> str_less xs ys))"

text \<open>\<open>map[key] = value\<close>.\<close>

fun map_put :: "string \<Rightarrow> string \<Rightarrow> ArgumentMap \<Rightarrow> ArgumentMap" where
  "map_put k v [] = [(k, v)]"
| "map_put k v ((k', v') # m) =
     (if k = k' then (k, v) # m else if str_less k k' then (k, v) # (k', v') # m else (k', v') # map_put k v m)"

definition map_erase :: "string \<Rightarrow> ArgumentMap \<Rightarrow> ArgumentMap" where
  "map_erase k m = filter (\<lambda>e. fst e \<noteq> k) m"

abbreviation keys_sorted :: "ArgumentMap \<Rightarrow> bool" where
  "keys_sorted m \<equiv> sorted_wrt str_less (map fst m)"

lemma str_less_irrefl [simp]: "\<not> str_less s s"
  by (induction s) auto

lemma str_less_trans: "str_less a b \<Longrightarrow> str_less b c \<Longrightarrow> str_less a c"
proof (induction a arbitrary: b c)
  case Nil
  then have "c \<noteq> []" by auto
  then show ?case by (cases c) simp_all
next
  case (Cons x xs)
  then obtain y ys where b: "b = y # ys" by (cases b) auto
  with Cons.prems obtain z zs where c: "c = z # zs" by (cases c) auto
  show ?case using Cons.prems Cons.IH [of ys zs] b c by auto
qed

lemma str_less_linear: "str_less a b \<or> a = b \<or> str_less b a"
proof (induction a b rule: str_less.induct)
  case (1 a)
  then show ?case by (cases a) auto
next
  case (3 x xs y ys)
  then show ?case
    by (metis linorder_neqE_nat of_char_eq_iff str_less.simps(3))
qed auto

lemma str_less_asym: "str_less a b \<Longrightarrow> \<not> str_less b a"
  using str_less_trans [of a b a] by auto

lemma fst_map_put: "fst ` set (map_put k v m) = insert k (fst ` set m)"
  by (induction k v m rule: map_put.induct) auto

lemma map_put_sorted: "keys_sorted m \<Longrightarrow> keys_sorted (map_put k v m)"
proof (induction k v m rule: map_put.induct)
  case (2 k v k' v' m)
  show ?case
  proof (cases "k = k' \<or> str_less k k'")
    case True
    then show ?thesis using "2.prems" by (auto intro: str_less_trans)
  next
    case False
    then have "str_less k' k" using str_less_linear by blast
    have "Ball (fst ` set (map_put k v m)) (str_less k')"
      using "2.prems" \<open>str_less k' k\<close> unfolding fst_map_put by simp
    moreover have "keys_sorted (map_put k v m)" using False "2.IH" "2.prems" by simp
    ultimately show ?thesis using False by simp
  qed
next
  case (1 k v)
  show ?case by simp
qed

lemma map_of_put: "map_of (map_put k v m) = (map_of m)(k \<mapsto> v)"
  by (induction k v m rule: map_put.induct) auto

text \<open>A map is determined by its contents.\<close>

lemma keys_sorted_unique:
  assumes "keys_sorted m" and "keys_sorted m'" and "map_of m = map_of m'"
  shows "m = m'"
  using assms
proof (induction m arbitrary: m')
  case Nil
  then show ?case by (cases m') (auto split: if_splits dest: fun_cong)
next
  case (Cons e m)
  obtain k v where e: "e = (k, v)" by force
  have "map_of m' k = Some v" using Cons.prems(3) e by (metis map_of_Cons_code(2))
  then obtain k' v' n where m': "m' = (k', v') # n" by (cases m') auto
  have nk: "k \<notin> fst ` set m" "k' \<notin> fst ` set n"
    using Cons.prems(1,2) e m' by (auto simp: image_iff dest!: bspec)
  have "k' = k"
  proof (rule ccontr)
    assume ne: "k' \<noteq> k"
    have "k \<in> fst ` set n" using \<open>map_of m' k = Some v\<close> m' ne
      by (auto split: if_splits) (metis fst_conv image_eqI map_of_SomeD)
    then have "str_less k' k" using Cons.prems(2) m' by auto
    have "map_of (e # m) k' = Some v'" using fun_cong [OF Cons.prems(3), of k'] m' by simp
    then have "k' \<in> fst ` set m" using e ne by (auto split: if_splits) (metis fst_conv image_eqI map_of_SomeD)
    then have "str_less k k'" using Cons.prems(1) e by auto
    with \<open>str_less k' k\<close> show False using str_less_asym by blast
  qed
  moreover have "v' = v" using Cons.prems(3) e m' \<open>k' = k\<close> by (metis map_of_Cons_code(2) option.inject)
  moreover have "map_of m = map_of n"
  proof
    fix x show "map_of m x = map_of n x"
      using Cons.prems(3) e m' \<open>k' = k\<close> nk fun_cong [OF Cons.prems(3), of x]
      by (cases "x = k") (auto simp: map_of_eq_None_iff [THEN iffD2])
  qed
  ultimately show ?case using Cons.IH [of n] Cons.prems(1,2) e m' by simp
qed

end
