(* ===== verification/Odbc_Error.thy ===== *)
theory Odbc_Error
  imports Odbc_ConfigText
begin

text \<open>
  Errors of the driver's own layer (\<open>documentdb_error.cpp\<close>) and what the Java interface reports
  (\<open>JniErrorInfo\<close>): codes, texts, and the translation of a Java exception into an error code.
\<close>

datatype JniErrorCode = JNI_ERR_SUCCESS | JNI_ERR_GENERIC | JNI_ERR_JVM_INIT | JNI_ERR_JVM_ATTACH

record JniErrorInfo =
  jni_code :: JniErrorCode
  errCls :: string
  errMsg :: string

definition newJniErrorInfo :: JniErrorInfo where
  "newJniErrorInfo = \<lparr>jni_code = JNI_ERR_SUCCESS, errCls = [], errMsg = []\<rparr>"

fun jni_number :: "JniErrorCode \<Rightarrow> int" where
  "jni_number JNI_ERR_SUCCESS = 0"
| "jni_number JNI_ERR_GENERIC = 1"
| "jni_number JNI_ERR_JVM_INIT = 2"
| "jni_number JNI_ERR_JVM_ATTACH = 3"

abbreviation (input) "DOCUMENTDB_SUCCESS \<equiv> 0 :: int"
abbreviation (input) "DOCUMENTDB_ERR_JVM_INIT \<equiv> 1 :: int"
abbreviation (input) "DOCUMENTDB_ERR_JVM_ATTACH \<equiv> 2 :: int"
abbreviation (input) "DOCUMENTDB_ERR_JVM_NO_CLASS_DEF_FOUND \<equiv> 6 :: int"
abbreviation (input) "DOCUMENTDB_ERR_JVM_NO_SUCH_METHOD \<equiv> 7 :: int"
abbreviation (input) "DOCUMENTDB_ERR_JNI_GET_DATABASE_METADATA \<equiv> 101 :: int"
abbreviation (input) "DOCUMENTDB_ERR_JNI_GET_DOCUMENTDB_DATABASE_METADATA \<equiv> 102 :: int"
abbreviation (input) "DOCUMENTDB_ERR_JNI_GET_DOCUMENTDB_CONNECTION_PROPERTIES \<equiv> 103 :: int"
abbreviation (input) "DOCUMENTDB_ERR_ILLEGAL_ARGUMENT \<equiv> 2001 :: int"
abbreviation (input) "DOCUMENTDB_ERR_ILLEGAL_STATE \<equiv> 2002 :: int"
abbreviation (input) "DOCUMENTDB_ERR_UNSUPPORTED_OPERATION \<equiv> 2003 :: int"
abbreviation (input) "DOCUMENTDB_ERR_INTERRUPTED \<equiv> 2004 :: int"
abbreviation (input) "DOCUMENTDB_ERR_CACHE \<equiv> 2012 :: int"
abbreviation (input) "DOCUMENTDB_ERR_CACHE_LOADER \<equiv> 2013 :: int"
abbreviation (input) "DOCUMENTDB_ERR_CACHE_WRITER \<equiv> 2014 :: int"
abbreviation (input) "DOCUMENTDB_ERR_ENTRY_PROCESSOR \<equiv> 2015 :: int"
abbreviation (input) "DOCUMENTDB_ERR_NETWORK_FAILURE \<equiv> 2025 :: int"
abbreviation (input) "DOCUMENTDB_ERR_SECURE_CONNECTION_FAILURE \<equiv> 2026 :: int"
abbreviation (input) "DOCUMENTDB_ERR_SQL_EXCEPTION \<equiv> 2029 :: int"
abbreviation (input) "DOCUMENTDB_ERR_UNKNOWN \<equiv> -1 :: int"

record DocumentDbError =
  err_code :: int
  err_msg :: "string option"

definition no_error :: DocumentDbError where
  "no_error = \<lparr>err_code = DOCUMENTDB_SUCCESS, err_msg = None\<rparr>"

definition error_of :: "int \<Rightarrow> string \<Rightarrow> DocumentDbError" where
  "error_of code msg = \<lparr>err_code = code, err_msg = Some msg\<rparr>"

definition GetText :: "DocumentDbError \<Rightarrow> string" where
  "GetText e =
     (if err_code e = DOCUMENTDB_SUCCESS then ''Operation completed successfully.''
      else case err_msg e of
             Some msg \<Rightarrow> msg
           | None \<Rightarrow> ''No additional information available.'')"

text \<open>The class and the message are C strings, \<open>None\<close> for a null pointer. A code that is none of the four
  leaves the error as it was, which cannot happen with the enumeration.\<close>

definition with_detail :: "string \<Rightarrow> string option \<Rightarrow> string" where
  "with_detail text jniMsg = text @ (case jniMsg of None \<Rightarrow> [] | Some msg \<Rightarrow> '': '' @ msg)"

definition with_class :: "string \<Rightarrow> string \<Rightarrow> string option \<Rightarrow> string" where
  "with_class text jniCls jniMsg =
     text @ jniCls @ (case jniMsg of None \<Rightarrow> [] | Some msg \<Rightarrow> '', msg='' @ msg) @ '']''"

definition generic_error :: "string \<Rightarrow> string option \<Rightarrow> DocumentDbError" where
  "generic_error cls msg =
     (let plain = (\<lambda>code. \<lparr>err_code = code, err_msg = msg\<rparr>)
      in if cls = ''java.lang.NoClassDefFoundError'' then
           error_of DOCUMENTDB_ERR_JVM_NO_CLASS_DEF_FOUND
             (with_detail ''Java class is not found (did you set DOCUMENTDB_HOME environment variable?)'' msg)
         else if cls = ''java.lang.NoSuchMethodError'' then
           error_of DOCUMENTDB_ERR_JVM_NO_SUCH_METHOD
             (with_detail ''Java method is not found (did you set DOCUMENTDB_HOME environment variable?)'' msg)
         else if cls = ''java.lang.IllegalArgumentException'' then plain DOCUMENTDB_ERR_ILLEGAL_ARGUMENT
         else if cls = ''java.lang.IllegalStateException'' then plain DOCUMENTDB_ERR_ILLEGAL_STATE
         else if cls = ''java.lang.UnsupportedOperationException'' then plain DOCUMENTDB_ERR_UNSUPPORTED_OPERATION
         else if cls = ''java.lang.InterruptedException'' then plain DOCUMENTDB_ERR_INTERRUPTED
         else if cls = ''javax.cache.CacheException'' then plain DOCUMENTDB_ERR_CACHE
         else if cls = ''javax.cache.integration.CacheLoaderException'' then plain DOCUMENTDB_ERR_CACHE_LOADER
         else if cls = ''javax.cache.integration.CacheWriterException'' then plain DOCUMENTDB_ERR_CACHE_WRITER
         else if cls = ''javax.cache.processor.EntryProcessorException'' then plain DOCUMENTDB_ERR_ENTRY_PROCESSOR
         else if cls = ''java.sql.SQLException'' then
           error_of DOCUMENTDB_ERR_SQL_EXCEPTION (with_class ''SQL exception occurred [cls='' cls msg)
         else error_of DOCUMENTDB_ERR_UNKNOWN (with_class ''Java exception occurred [cls='' cls msg))"

definition or_na :: "string option \<Rightarrow> string" where
  "or_na s = (case s of None \<Rightarrow> ''N/A'' | Some t \<Rightarrow> t)"

fun SetError :: "JniErrorCode \<Rightarrow> string option \<Rightarrow> string option \<Rightarrow> DocumentDbError" where
  "SetError JNI_ERR_SUCCESS jniCls jniMsg = no_error"
| "SetError JNI_ERR_GENERIC jniCls jniMsg =
     (case jniCls of
        None \<Rightarrow> \<lparr>err_code = DOCUMENTDB_ERR_UNKNOWN, err_msg = None\<rparr>
      | Some cls \<Rightarrow> generic_error cls jniMsg)"
| "SetError JNI_ERR_JVM_INIT jniCls jniMsg =
     error_of DOCUMENTDB_ERR_JVM_INIT
       (''Failed to initialize JVM [errCls='' @ or_na jniCls @ '', errMsg='' @ or_na jniMsg @ '']'')"
| "SetError JNI_ERR_JVM_ATTACH jniCls jniMsg = error_of DOCUMENTDB_ERR_JVM_ATTACH ''Failed to attach to JVM.''"

definition error_of_info :: "JniErrorInfo \<Rightarrow> DocumentDbError" where
  "error_of_info e = SetError (jni_code e) (Some (errCls e)) (Some (errMsg e))"

lemma error_of_sel [simp]: "err_code (error_of c m) = c" "err_msg (error_of c m) = Some m"
  by (simp_all add: error_of_def)

lemma no_error_sel [simp]: "err_code no_error = 0" "err_msg no_error = None"
  by (simp_all add: no_error_def)

text \<open>A Java failure never becomes the success code, and a statement the query mapping refuses is recognisable.\<close>

lemma generic_error_failed: "err_code (generic_error cls msg) \<noteq> 0"
  by (simp add: generic_error_def Let_def)

lemma SetError_failed: "err_code (SetError c cls msg) = 0 \<longleftrightarrow> c = JNI_ERR_SUCCESS"
  by (cases c; cases cls) (simp_all add: generic_error_failed)

lemma generic_error_sql: "err_code (generic_error cls msg) = DOCUMENTDB_ERR_SQL_EXCEPTION \<longleftrightarrow> cls = ''java.sql.SQLException''"
  by (simp add: generic_error_def Let_def)

lemma SetError_sql:
  "err_code (SetError c cls msg) = DOCUMENTDB_ERR_SQL_EXCEPTION \<longleftrightarrow>
     c = JNI_ERR_GENERIC \<and> cls = Some ''java.sql.SQLException''"
  by (cases c; cases cls) (simp_all add: generic_error_sql)

end
