(* ===== verification/Odbc_Config.thy ===== *)
theory Odbc_Config
  imports Odbc_ConfigText
begin

text \<open>
  \<^verbatim>\<open>config/settable_value.h\<close>, \<^verbatim>\<open>config/configuration.cpp\<close> and the three enumerations a
  configuration holds (\<^verbatim>\<open>log_level.cpp\<close>, \<^verbatim>\<open>read_preference.cpp\<close>, \<^verbatim>\<open>scan_method.cpp\<close>): the
  settings of a connection with their defaults, the checks before connecting, and the connection
  strings built from them (ODBC, JDBC and MongoDB). What the code asks the platform is a record
  \<open>Host\<close>: which paths are directories, the default log path, and the size of a \<open>std::string\<close>
  object. The process-wide logger that two of the setters also inform is left out.
\<close>

named_theorems config_defs
  \<comment> \<open>the setters and the reading of settings\<close>

record Host =
  IsValidDirectory :: "string \<Rightarrow> bool"
  default_log_path :: string
  sizeof_string :: nat

section \<open>Enumerations\<close>

datatype LogLevel = DEBUG_LEVEL | INFO_LEVEL | ERROR_LEVEL | LOG_OFF | LOG_UNKNOWN

definition LogLevel_FromString :: "string \<Rightarrow> LogLevel \<Rightarrow> LogLevel" where
  "LogLevel_FromString v dflt =
     (let l = StripSurroundingWhitespaces (ToLower v)
      in if l = ''debug'' then DEBUG_LEVEL else if l = ''info'' then INFO_LEVEL
         else if l = ''error'' then ERROR_LEVEL else if l = ''off'' then LOG_OFF else dflt)"

fun LogLevel_ToString :: "LogLevel \<Rightarrow> string" where
  "LogLevel_ToString DEBUG_LEVEL = ''debug''"
| "LogLevel_ToString INFO_LEVEL = ''info''"
| "LogLevel_ToString ERROR_LEVEL = ''error''"
| "LogLevel_ToString LOG_OFF = ''off''"
| "LogLevel_ToString _ = ''unknown''"

datatype ReadPreference = PRIMARY | PRIMARY_PREFERRED | SECONDARY | SECONDARY_PREFERRED | NEAREST | RP_UNKNOWN

definition ReadPreference_FromString :: "string \<Rightarrow> ReadPreference \<Rightarrow> ReadPreference" where
  "ReadPreference_FromString v dflt =
     (let l = SpaceToUnderscore (StripSurroundingWhitespaces (ToLower v))
      in if l = ''primary'' then PRIMARY else if l = ''primary_preferred'' then PRIMARY_PREFERRED
         else if l = ''secondary'' then SECONDARY else if l = ''secondary_preferred'' then SECONDARY_PREFERRED
         else if l = ''nearest'' then NEAREST else dflt)"

fun ReadPreference_ToString :: "ReadPreference \<Rightarrow> string" where
  "ReadPreference_ToString PRIMARY = ''primary''"
| "ReadPreference_ToString PRIMARY_PREFERRED = ''primary_preferred''"
| "ReadPreference_ToString SECONDARY = ''secondary''"
| "ReadPreference_ToString SECONDARY_PREFERRED = ''secondary_preferred''"
| "ReadPreference_ToString NEAREST = ''nearest''"
| "ReadPreference_ToString _ = ''unknown''"

fun ReadPreference_ToJdbcString :: "ReadPreference \<Rightarrow> string" where
  "ReadPreference_ToJdbcString PRIMARY_PREFERRED = ''primaryPreferred''"
| "ReadPreference_ToJdbcString SECONDARY = ''secondary''"
| "ReadPreference_ToJdbcString SECONDARY_PREFERRED = ''secondaryPreferred''"
| "ReadPreference_ToJdbcString NEAREST = ''nearest''"
| "ReadPreference_ToJdbcString _ = ''primary''"

datatype ScanMethod = RANDOM | ID_FORWARD | ID_REVERSE | SCAN_ALL | SCAN_UNKNOWN

definition ScanMethod_FromString :: "string \<Rightarrow> ScanMethod \<Rightarrow> ScanMethod" where
  "ScanMethod_FromString v dflt =
     (let l = SpaceToUnderscore (StripSurroundingWhitespaces (ToLower v))
      in if l = ''random'' then RANDOM else if l = ''id_forward'' then ID_FORWARD
         else if l = ''id_reverse'' then ID_REVERSE else if l = ''all'' then SCAN_ALL else dflt)"

fun ScanMethod_ToString :: "ScanMethod \<Rightarrow> string" where
  "ScanMethod_ToString ID_FORWARD = ''id_forward''"
| "ScanMethod_ToString ID_REVERSE = ''id_reverse''"
| "ScanMethod_ToString SCAN_ALL = ''all''"
| "ScanMethod_ToString RANDOM = ''random''"
| "ScanMethod_ToString _ = ''unknown''"

fun ScanMethod_ToJdbcString :: "ScanMethod \<Rightarrow> string" where
  "ScanMethod_ToJdbcString ID_FORWARD = ''idForward''"
| "ScanMethod_ToJdbcString ID_REVERSE = ''idReverse''"
| "ScanMethod_ToJdbcString SCAN_ALL = ''all''"
| "ScanMethod_ToJdbcString _ = ''random''"

section \<open>Settings\<close>

record 'a SettableValue =
  sv_val :: 'a
  sv_set :: bool

definition SettableValue_default :: "'a \<Rightarrow> 'a SettableValue" where
  "SettableValue_default d = \<lparr>sv_val = d, sv_set = False\<rparr>"

definition SetValue :: "'a \<Rightarrow> 'a SettableValue \<Rightarrow> 'a SettableValue" where
  "SetValue v s = s\<lparr>sv_val := v, sv_set := True\<rparr>"

lemma SetValue_sel [simp]: "sv_val (SetValue v s) = v" "sv_set (SetValue v s)"
  by (simp_all add: SetValue_def)

lemma SettableValue_default_sel [simp]:
  "sv_val (SettableValue_default d) = d" "\<not> sv_set (SettableValue_default d)"
  by (simp_all add: SettableValue_default_def)

lemma SetValue_eq: "sv_set s \<Longrightarrow> SetValue (sv_val s) t = s"
  by (cases s, cases t) (simp add: SetValue_def)

lemma SettableValue_default_eq: "\<not> sv_set s \<Longrightarrow> sv_val s = d \<Longrightarrow> SettableValue_default d = s"
  by (cases s) (simp add: SettableValue_default_def)

record Configuration =
  dsn :: "string SettableValue"
  driver :: "string SettableValue"
  database :: "string SettableValue"
  hostname :: "string SettableValue"
  port :: "int SettableValue"
  user :: "string SettableValue"
  password :: "string SettableValue"
  appName :: "string SettableValue"
  loginTimeoutSec :: "int SettableValue"
  readPreference :: "ReadPreference SettableValue"
  replicaSet :: "string SettableValue"
  retryReads :: "bool SettableValue"
  tls :: "bool SettableValue"
  tlsAllowInvalidHostnames :: "bool SettableValue"
  tlsCaFile :: "string SettableValue"
  sshEnable :: "bool SettableValue"
  sshUser :: "string SettableValue"
  sshHost :: "string SettableValue"
  sshPrivateKeyFile :: "string SettableValue"
  sshPrivateKeyPassphrase :: "string SettableValue"
  sshStrictHostKeyChecking :: "bool SettableValue"
  sshKnownHostsFile :: "string SettableValue"
  logLevel :: "LogLevel SettableValue"
  logPath :: "string SettableValue"
  scanMethod :: "ScanMethod SettableValue"
  scanLimit :: "int SettableValue"
  schemaName :: "string SettableValue"
  refreshSchema :: "bool SettableValue"
  defaultFetchSize :: "int SettableValue"

text \<open>\<open>Configuration::DefaultValue\<close>.\<close>

definition newConfiguration :: "Host \<Rightarrow> Configuration" where
  "newConfiguration h =
     \<lparr>dsn = SettableValue_default ''DocumentDB DSN'',
      driver = SettableValue_default ''Amazon DocumentDB'',
      database = SettableValue_default [],
      hostname = SettableValue_default [],
      port = SettableValue_default 27017,
      user = SettableValue_default [],
      password = SettableValue_default [],
      appName = SettableValue_default ''Amazon DocumentDB ODBC Driver'',
      loginTimeoutSec = SettableValue_default 0,
      readPreference = SettableValue_default PRIMARY,
      replicaSet = SettableValue_default [],
      retryReads = SettableValue_default True,
      tls = SettableValue_default True,
      tlsAllowInvalidHostnames = SettableValue_default False,
      tlsCaFile = SettableValue_default [],
      sshEnable = SettableValue_default False,
      sshUser = SettableValue_default [],
      sshHost = SettableValue_default [],
      sshPrivateKeyFile = SettableValue_default [],
      sshPrivateKeyPassphrase = SettableValue_default [],
      sshStrictHostKeyChecking = SettableValue_default True,
      sshKnownHostsFile = SettableValue_default [],
      logLevel = SettableValue_default ERROR_LEVEL,
      logPath = SettableValue_default (default_log_path h),
      scanMethod = SettableValue_default RANDOM,
      scanLimit = SettableValue_default 1000,
      schemaName = SettableValue_default ''_default'',
      refreshSchema = SettableValue_default False,
      defaultFetchSize = SettableValue_default 2000\<rparr>"

definition SetDsn :: "string \<Rightarrow> Configuration \<Rightarrow> Configuration" where [config_defs]:
  "SetDsn v c = c\<lparr>dsn := SetValue v (dsn c)\<rparr>"

definition SetDriver :: "string \<Rightarrow> Configuration \<Rightarrow> Configuration" where [config_defs]:
  "SetDriver v c = c\<lparr>driver := SetValue v (driver c)\<rparr>"

definition SetDatabase :: "string \<Rightarrow> Configuration \<Rightarrow> Configuration" where [config_defs]:
  "SetDatabase v c = c\<lparr>database := SetValue v (database c)\<rparr>"

definition SetHostname :: "string \<Rightarrow> Configuration \<Rightarrow> Configuration" where [config_defs]:
  "SetHostname v c = c\<lparr>hostname := SetValue v (hostname c)\<rparr>"

definition SetPort :: "int \<Rightarrow> Configuration \<Rightarrow> Configuration" where [config_defs]:
  "SetPort v c = c\<lparr>port := SetValue v (port c)\<rparr>"

definition SetUser :: "string \<Rightarrow> Configuration \<Rightarrow> Configuration" where [config_defs]:
  "SetUser v c = c\<lparr>user := SetValue v (user c)\<rparr>"

definition SetPassword :: "string \<Rightarrow> Configuration \<Rightarrow> Configuration" where [config_defs]:
  "SetPassword v c = c\<lparr>password := SetValue v (password c)\<rparr>"

definition SetApplicationName :: "string \<Rightarrow> Configuration \<Rightarrow> Configuration" where [config_defs]:
  "SetApplicationName v c = c\<lparr>appName := SetValue v (appName c)\<rparr>"

definition SetLoginTimeoutSeconds :: "int \<Rightarrow> Configuration \<Rightarrow> Configuration" where [config_defs]:
  "SetLoginTimeoutSeconds v c = c\<lparr>loginTimeoutSec := SetValue v (loginTimeoutSec c)\<rparr>"

definition SetReadPreference :: "ReadPreference \<Rightarrow> Configuration \<Rightarrow> Configuration" where [config_defs]:
  "SetReadPreference v c = c\<lparr>readPreference := SetValue v (readPreference c)\<rparr>"

definition SetReplicaSet :: "string \<Rightarrow> Configuration \<Rightarrow> Configuration" where [config_defs]:
  "SetReplicaSet v c = c\<lparr>replicaSet := SetValue v (replicaSet c)\<rparr>"

definition SetRetryReads :: "bool \<Rightarrow> Configuration \<Rightarrow> Configuration" where [config_defs]:
  "SetRetryReads v c = c\<lparr>retryReads := SetValue v (retryReads c)\<rparr>"

definition SetTls :: "bool \<Rightarrow> Configuration \<Rightarrow> Configuration" where [config_defs]:
  "SetTls v c = c\<lparr>tls := SetValue v (tls c)\<rparr>"

definition SetTlsAllowInvalidHostnames :: "bool \<Rightarrow> Configuration \<Rightarrow> Configuration" where [config_defs]:
  "SetTlsAllowInvalidHostnames v c = c\<lparr>tlsAllowInvalidHostnames := SetValue v (tlsAllowInvalidHostnames c)\<rparr>"

definition SetTlsCaFile :: "string \<Rightarrow> Configuration \<Rightarrow> Configuration" where [config_defs]:
  "SetTlsCaFile v c = c\<lparr>tlsCaFile := SetValue v (tlsCaFile c)\<rparr>"

definition SetSshEnable :: "bool \<Rightarrow> Configuration \<Rightarrow> Configuration" where [config_defs]:
  "SetSshEnable v c = c\<lparr>sshEnable := SetValue v (sshEnable c)\<rparr>"

definition SetSshUser :: "string \<Rightarrow> Configuration \<Rightarrow> Configuration" where [config_defs]:
  "SetSshUser v c = c\<lparr>sshUser := SetValue v (sshUser c)\<rparr>"

definition SetSshHost :: "string \<Rightarrow> Configuration \<Rightarrow> Configuration" where [config_defs]:
  "SetSshHost v c = c\<lparr>sshHost := SetValue v (sshHost c)\<rparr>"

definition SetSshPrivateKeyFile :: "string \<Rightarrow> Configuration \<Rightarrow> Configuration" where [config_defs]:
  "SetSshPrivateKeyFile v c = c\<lparr>sshPrivateKeyFile := SetValue v (sshPrivateKeyFile c)\<rparr>"

definition SetSshPrivateKeyPassphrase :: "string \<Rightarrow> Configuration \<Rightarrow> Configuration" where [config_defs]:
  "SetSshPrivateKeyPassphrase v c = c\<lparr>sshPrivateKeyPassphrase := SetValue v (sshPrivateKeyPassphrase c)\<rparr>"

definition SetSshStrictHostKeyChecking :: "bool \<Rightarrow> Configuration \<Rightarrow> Configuration" where [config_defs]:
  "SetSshStrictHostKeyChecking v c = c\<lparr>sshStrictHostKeyChecking := SetValue v (sshStrictHostKeyChecking c)\<rparr>"

definition SetSshKnownHostsFile :: "string \<Rightarrow> Configuration \<Rightarrow> Configuration" where [config_defs]:
  "SetSshKnownHostsFile v c = c\<lparr>sshKnownHostsFile := SetValue v (sshKnownHostsFile c)\<rparr>"

definition SetLogLevel :: "LogLevel \<Rightarrow> Configuration \<Rightarrow> Configuration" where [config_defs]:
  "SetLogLevel v c = (if v \<noteq> LOG_UNKNOWN then c\<lparr>logLevel := SetValue v (logLevel c)\<rparr> else c)"

definition SetLogPath :: "Host \<Rightarrow> string \<Rightarrow> Configuration \<Rightarrow> Configuration" where [config_defs]:
  "SetLogPath h v c = (if IsValidDirectory h v then c\<lparr>logPath := SetValue v (logPath c)\<rparr> else c)"

definition SetScanMethod :: "ScanMethod \<Rightarrow> Configuration \<Rightarrow> Configuration" where [config_defs]:
  "SetScanMethod v c = c\<lparr>scanMethod := SetValue v (scanMethod c)\<rparr>"

definition SetScanLimit :: "int \<Rightarrow> Configuration \<Rightarrow> Configuration" where [config_defs]:
  "SetScanLimit v c = c\<lparr>scanLimit := SetValue v (scanLimit c)\<rparr>"

definition SetSchemaName :: "string \<Rightarrow> Configuration \<Rightarrow> Configuration" where [config_defs]:
  "SetSchemaName v c = c\<lparr>schemaName := SetValue v (schemaName c)\<rparr>"

definition SetRefreshSchema :: "bool \<Rightarrow> Configuration \<Rightarrow> Configuration" where [config_defs]:
  "SetRefreshSchema v c = c\<lparr>refreshSchema := SetValue v (refreshSchema c)\<rparr>"

definition SetDefaultFetchSize :: "int \<Rightarrow> Configuration \<Rightarrow> Configuration" where [config_defs]:
  "SetDefaultFetchSize v c = c\<lparr>defaultFetchSize := SetValue v (defaultFetchSize c)\<rparr>"

definition GetDsn :: "Configuration \<Rightarrow> string \<Rightarrow> string" where
  "GetDsn c dflt = (if sv_set (dsn c) then sv_val (dsn c) else dflt)"

text \<open>The two checks before connecting; the error is a message of the state 01S00.\<close>

definition Validate :: "Configuration \<Rightarrow> string option" where
  "Validate c =
     (if \<not> sv_set (hostname c) \<or> \<not> sv_set (user c) \<or> \<not> sv_set (password c) \<or> \<not> sv_set (database c) then
        Some ''Hostname, username, password, and database are required to connect.''
      else
        let sshTunnel = (sv_val (sshEnable c) \<or> sv_set (sshHost c) \<or> sv_set (sshUser c) \<or> sv_set (sshPrivateKeyFile c))
        in if sshTunnel \<and> (\<not> sv_set (sshHost c) \<or> \<not> sv_set (sshUser c) \<or> \<not> sv_set (sshPrivateKeyFile c)) then
             Some (''If using an internal SSH tunnel, all of ssh_host, '' @
                   ''ssh_user, ssh_private_key_file are required to connect.'')
           else None)"

section \<open>Connection strings\<close>

text \<open>The overloads of \<open>AddToMap\<close>: a setting is put into the map when it is set.\<close>

definition AddToMap :: "('a \<Rightarrow> string) \<Rightarrow> string \<Rightarrow> 'a SettableValue \<Rightarrow> ArgumentMap \<Rightarrow> ArgumentMap" where
  "AddToMap text key s m = (if sv_set s then map_put key (text (sv_val s)) m else m)"

definition AddToMap_int :: "string \<Rightarrow> int SettableValue \<Rightarrow> ArgumentMap \<Rightarrow> ArgumentMap" where
  "AddToMap_int = AddToMap int_string"

definition AddToMap_string :: "string \<Rightarrow> string SettableValue \<Rightarrow> ArgumentMap \<Rightarrow> ArgumentMap" where
  "AddToMap_string = AddToMap (\<lambda>s. s)"

definition bool_text :: "bool \<Rightarrow> string" where
  "bool_text b = (if b then ''true'' else ''false'')"

definition AddToMap_bool :: "string \<Rightarrow> bool SettableValue \<Rightarrow> ArgumentMap \<Rightarrow> ArgumentMap" where
  "AddToMap_bool = AddToMap bool_text"

definition AddToMap_ReadPreference ::
  "bool \<Rightarrow> string \<Rightarrow> ReadPreference SettableValue \<Rightarrow> ArgumentMap \<Rightarrow> ArgumentMap" where
  "AddToMap_ReadPreference isJdbcFormat =
     AddToMap (if isJdbcFormat then ReadPreference_ToJdbcString else ReadPreference_ToString)"

definition AddToMap_LogLevel :: "string \<Rightarrow> LogLevel SettableValue \<Rightarrow> ArgumentMap \<Rightarrow> ArgumentMap" where
  "AddToMap_LogLevel = AddToMap LogLevel_ToString"

definition AddToMap_ScanMethod ::
  "bool \<Rightarrow> string \<Rightarrow> ScanMethod SettableValue \<Rightarrow> ArgumentMap \<Rightarrow> ArgumentMap" where
  "AddToMap_ScanMethod isJdbcFormat =
     AddToMap (if isJdbcFormat then ScanMethod_ToJdbcString else ScanMethod_ToString)"

lemmas AddToMap_defs = AddToMap_int_def AddToMap_string_def AddToMap_bool_def AddToMap_ReadPreference_def
  AddToMap_LogLevel_def AddToMap_ScanMethod_def AddToMap_def

definition ToMap :: "Configuration \<Rightarrow> ArgumentMap \<Rightarrow> ArgumentMap" where
  "ToMap c res =
     (let res = AddToMap_string ''dsn'' (dsn c) res;
          res = AddToMap_string ''driver'' (driver c) res;
          res = AddToMap_string ''database'' (database c) res;
          res = AddToMap_string ''hostname'' (hostname c) res;
          res = AddToMap_int ''port'' (port c) res;
          res = AddToMap_string ''user'' (user c) res;
          res = AddToMap_string ''password'' (password c) res;
          res = AddToMap_string ''app_name'' (appName c) res;
          res = AddToMap_int ''login_timeout_sec'' (loginTimeoutSec c) res;
          res = AddToMap_ReadPreference False ''read_preference'' (readPreference c) res;
          res = AddToMap_string ''replica_set'' (replicaSet c) res;
          res = AddToMap_bool ''retry_reads'' (retryReads c) res;
          res = AddToMap_bool ''tls'' (tls c) res;
          res = AddToMap_bool ''tls_allow_invalid_hostnames'' (tlsAllowInvalidHostnames c) res;
          res = AddToMap_string ''tls_ca_file'' (tlsCaFile c) res;
          res = AddToMap_bool ''ssh_enable'' (sshEnable c) res;
          res = AddToMap_string ''ssh_user'' (sshUser c) res;
          res = AddToMap_string ''ssh_host'' (sshHost c) res;
          res = AddToMap_string ''ssh_private_key_file'' (sshPrivateKeyFile c) res;
          res = AddToMap_string ''ssh_private_key_passphrase'' (sshPrivateKeyPassphrase c) res;
          res = AddToMap_bool ''ssh_strict_host_key_checking'' (sshStrictHostKeyChecking c) res;
          res = AddToMap_string ''ssh_known_hosts_file'' (sshKnownHostsFile c) res;
          res = AddToMap_LogLevel ''log_level'' (logLevel c) res;
          res = AddToMap_string ''log_path'' (logPath c) res;
          res = AddToMap_ScanMethod False ''scan_method'' (scanMethod c) res;
          res = AddToMap_int ''scan_limit'' (scanLimit c) res;
          res = AddToMap_string ''schema_name'' (schemaName c) res;
          res = AddToMap_bool ''refresh_schema'' (refreshSchema c) res;
          res = AddToMap_int ''default_fetch_size'' (defaultFetchSize c) res
      in res)"

definition attribute_text :: "string \<times> string \<Rightarrow> string" where
  "attribute_text kv =
     (let (key, value) = kv
      in if value = [] then []
         else if CHR '' '' \<notin> set value then key @ ''='' @ value @ '';''
         else key @ ''={'' @ value @ ''};'')"

definition ToConnectString :: "Configuration \<Rightarrow> string" where
  "ToConnectString c = concat (map attribute_text (ToMap c []))"

definition ToMongoCommonOptionsMap :: "Configuration \<Rightarrow> ArgumentMap \<Rightarrow> ArgumentMap" where
  "ToMongoCommonOptionsMap c res =
     (let res = AddToMap_ReadPreference True ''readPreference'' (readPreference c) res;
          res = AddToMap_string ''replicaSet'' (replicaSet c) res;
          res = AddToMap_bool ''retryReads'' (retryReads c) res;
          res = AddToMap_bool ''tls'' (tls c) res;
          res = AddToMap_bool ''tlsAllowInvalidHostnames'' (tlsAllowInvalidHostnames c) res;
          res = AddToMap_string ''tlsCAFile'' (tlsCaFile c) res
      in res)"

definition ToJdbcOptionsMap :: "Configuration \<Rightarrow> ArgumentMap \<Rightarrow> ArgumentMap" where
  "ToJdbcOptionsMap c res =
     (let res = ToMongoCommonOptionsMap c res;
          res = AddToMap_int ''loginTimeoutSec'' (loginTimeoutSec c) res;
          res = AddToMap_string ''sshUser'' (sshUser c) res;
          res = AddToMap_string ''sshHost'' (sshHost c) res;
          res = AddToMap_string ''sshPrivateKeyFile'' (sshPrivateKeyFile c) res;
          res = AddToMap_string ''sshPrivateKeyPassphrase'' (sshPrivateKeyPassphrase c) res;
          res = AddToMap_bool ''sshStrictHostKeyChecking'' (sshStrictHostKeyChecking c) res;
          res = AddToMap_string ''sshKnownHostsFile'' (sshKnownHostsFile c) res;
          res = AddToMap_LogLevel ''logLevel'' (logLevel c) res;
          res = AddToMap_string ''logPath'' (logPath c) res;
          res = AddToMap_ScanMethod True ''scanMethod'' (scanMethod c) res;
          res = AddToMap_int ''scanLimit'' (scanLimit c) res;
          res = AddToMap_string ''schemaName'' (schemaName c) res;
          res = AddToMap_bool ''refreshSchema'' (refreshSchema c) res;
          res = AddToMap_int ''defaultFetchSize'' (defaultFetchSize c) res
      in res)"

definition ToJdbcConnectionString :: "Configuration \<Rightarrow> string" where
  "ToJdbcConnectionString c =
     ''jdbc:documentdb:'' @ ''//'' @ EncodeURIComponent (sv_val (user c)) @
     '':'' @ EncodeURIComponent (sv_val (password c)) @
     ''@'' @ sv_val (hostname c) @ '':'' @ int_string (sv_val (port c)) @
     ''/'' @ EncodeURIComponent (sv_val (database c)) @
     ''?appName='' @ EncodeURIComponent (sv_val (appName c)) @
     concat (map (\<lambda>(key, value).
         if key \<noteq> ''logLevel'' \<and> key \<noteq> ''logPath'' \<and> value \<noteq> [] then ''&'' @ key @ ''='' @ EncodeURIComponent value else [])
       (ToJdbcOptionsMap c []))"

definition ToMongoDbConnectionString :: "Configuration \<Rightarrow> int \<Rightarrow> string" where
  "ToMongoDbConnectionString c localSSHTunnelPort =
     (let (host, portText) =
            (if localSSHTunnelPort = 0 then (sv_val (hostname c), int_string (sv_val (port c)))
             else (''localhost'', int_string localSSHTunnelPort))
      in ''mongodb:'' @ ''//'' @ EncodeURIComponent (sv_val (user c)) @
         '':'' @ EncodeURIComponent (sv_val (password c)) @ ''@'' @ host @ '':'' @ portText @ ''/admin'' @
         ''?appName='' @ EncodeURIComponent (sv_val (appName c)) @
         ''&authMechanism=SCRAM-SHA-1'' @
         (if sv_val (loginTimeoutSec c) \<noteq> 0 then
            ''&connectTimeoutMS='' @ EncodeURIComponent (int_string (sv_val (loginTimeoutSec c) * 1000))
          else []) @
         concat (map (\<lambda>(key, value). if value \<noteq> [] then ''&'' @ key @ ''='' @ EncodeURIComponent value else [])
           (ToMongoCommonOptionsMap c [])))"

end
