(* ===== verification/Odbc_Uri.thy ===== *)
theory Odbc_Uri
  imports Odbc_Config
begin

text \<open>
  Properties of the percent encoding of \<^verbatim>\<open>common/utils.h\<close> and of the JDBC and MongoDB connection
  strings of \<^verbatim>\<open>config/configuration.cpp\<close>. The reference decoder replaces \<open>%XY\<close> by the
  character with that code.
\<close>

definition hex_val :: "char \<Rightarrow> nat" where
  "hex_val c = (if isdigit c then of_char c - 48 else of_char c - 55)"

fun uri_decode :: "string \<Rightarrow> string" where
  "uri_decode [] = []"
| "uri_decode (c # cs) =
     (case cs of
        x # y # rest \<Rightarrow> if c = CHR ''%'' then char_of (16 * hex_val x + hex_val y) # uri_decode rest else c # uri_decode cs
      | _ \<Rightarrow> c # uri_decode cs)"

lemma uri_hex_digit_val: "d < 16 \<Longrightarrow> hex_val (uri_hex_digit d) = d"
  by (simp add: hex_val_def uri_hex_digit_def isdigit_def)

lemma of_char_div16: "of_char c div 16 < (16 :: nat)"
proof -
  have "(of_char c :: nat) < 256" by simp
  then show ?thesis by (simp only: div_less_iff_less_mult)
qed

lemma uri_plain_not_percent: "uri_plain c \<Longrightarrow> c \<noteq> CHR ''%''"
  by (auto simp: uri_plain_def isalnum_def isdigit_def)

lemma uri_decode_plain: "c \<noteq> CHR ''%'' \<Longrightarrow> uri_decode (c # cs) = c # uri_decode cs"
  by (simp split: list.splits)

lemma uri_decode_percent: "uri_decode (CHR ''%'' # x # y # cs) = char_of (16 * hex_val x + hex_val y) # uri_decode cs"
  by simp

lemma EncodeURIComponent_Nil [simp]: "EncodeURIComponent [] = []"
  by (simp add: EncodeURIComponent_def)

lemma EncodeURIComponent_Cons:
  "EncodeURIComponent (c # cs) =
     (if uri_plain c then [c] else CHR ''%'' # hex_string (of_char c)) @ EncodeURIComponent cs"
  by (simp add: EncodeURIComponent_def)

lemma decode_encode: "list_all (\<lambda>c. 16 \<le> (of_char c :: nat)) s \<Longrightarrow> uri_decode (EncodeURIComponent s) = s"
proof (induction s)
  case (Cons c cs)
  then have IH: "uri_decode (EncodeURIComponent cs) = cs" by simp
  show ?case
  proof (cases "uri_plain c")
    case True
    then show ?thesis
      using IH by (simp add: EncodeURIComponent_Cons uri_decode_plain uri_plain_not_percent del: uri_decode.simps)
  next
    case False
    then show ?thesis
      using IH Cons.prems of_char_div16 [of c]
      by (simp add: EncodeURIComponent_Cons hex_string_def uri_decode_percent uri_hex_digit_val del: uri_decode.simps)
  qed
qed simp

text \<open>The characters an encoded string can hold: never a separator of a URI.\<close>

lemma uri_hex_digit_plain: "d < 16 \<Longrightarrow> uri_plain (uri_hex_digit d)"
  by (auto simp: uri_plain_def isalnum_def isdigit_def uri_hex_digit_def)

lemma EncodeURIComponent_chars: "x \<in> set (EncodeURIComponent s) \<Longrightarrow> uri_plain x \<or> x = CHR ''%''"
proof (induction s)
  case (Cons c cs)
  then show ?case using of_char_div16 [of c]
    by (auto simp: EncodeURIComponent_Cons hex_string_def intro: uri_hex_digit_plain split: if_splits)
qed simp

lemma not_uri_plain: "c \<in> set '':@/?&='' \<Longrightarrow> \<not> uri_plain c \<and> c \<noteq> CHR ''%''"
  by (auto simp: uri_plain_def isalnum_def isdigit_def)

lemma EncodeURIComponent_no_separator: "c \<in> set '':@/?&='' \<Longrightarrow> c \<notin> set (EncodeURIComponent s)"
  using EncodeURIComponent_chars [of c s] not_uri_plain [of c] by blast

text \<open>Percent encoding: text without control characters below 16 is recovered by decoding. For
  the others the code is written with one hexadecimal digit instead of two, so a line feed followed
  by the letter \<open>B\<close> is encoded like the single character of code 171.\<close>

theorem EncodeURIComponent_roundtrip:
  "(\<forall>s. list_all (\<lambda>c. 16 \<le> (of_char c :: nat)) s \<longrightarrow> uri_decode (EncodeURIComponent s) = s) \<and>
   EncodeURIComponent [char_of (10 :: nat), CHR ''B''] = EncodeURIComponent [char_of (171 :: nat)]"
proof (intro conjI allI impI)
  fix s assume "list_all (\<lambda>c. 16 \<le> (of_char c :: nat)) s"
  then show "uri_decode (EncodeURIComponent s) = s" by (rule decode_encode)
next
  have "EncodeURIComponent [char_of (10 :: nat), CHR ''B''] = ''%AB''" by code_simp
  moreover have "EncodeURIComponent [char_of (171 :: nat)] = ''%AB''" by code_simp
  ultimately show "EncodeURIComponent [char_of (10 :: nat), CHR ''B''] = EncodeURIComponent [char_of (171 :: nat)]"
    by simp
qed

section \<open>The MongoDB connection string\<close>

lemma split_at_sep:
  assumes "c \<notin> set xs"
  shows "takeWhile (\<lambda>x. x \<noteq> c) (xs @ c # ys) = xs" and "dropWhile (\<lambda>x. x \<noteq> c) (xs @ c # ys) = c # ys"
  using assms by (induction xs) auto

text \<open>No user name or password can change the shape of the MongoDB connection string: whatever
  they hold, reading the string the way a URI is read (user up to the first colon, password up to
  the first \<open>@\<close>) gives back the encoded user and password, and what follows is the host, or the
  local end of the SSH tunnel when there is one.\<close>

theorem ToMongoDbConnectionString_authority:
  "let uri = ToMongoDbConnectionString c p;
       rest = drop (length ''mongodb://'') uri;
       after_user = drop 1 (dropWhile (\<lambda>x. x \<noteq> CHR '':'') rest);
       after_at = drop 1 (dropWhile (\<lambda>x. x \<noteq> CHR ''@'') after_user)
   in take (length ''mongodb://'') uri = ''mongodb://'' \<and>
      takeWhile (\<lambda>x. x \<noteq> CHR '':'') rest = EncodeURIComponent (sv_val (user c)) \<and>
      takeWhile (\<lambda>x. x \<noteq> CHR ''@'') after_user = EncodeURIComponent (sv_val (password c)) \<and>
      (\<exists>options. after_at =
         (if p = 0 then sv_val (hostname c) @ '':'' @ int_string (sv_val (port c))
          else ''localhost:'' @ int_string p) @ ''/admin?appName='' @ options)"
proof -
  let ?u = "EncodeURIComponent (sv_val (user c))" and ?p = "EncodeURIComponent (sv_val (password c))"
  let ?h = "if p = 0 then sv_val (hostname c) @ '':'' @ int_string (sv_val (port c)) else ''localhost:'' @ int_string p"
  obtain opts where u: "ToMongoDbConnectionString c p =
      ''mongodb://'' @ ?u @ CHR '':'' # ?p @ CHR ''@'' # ?h @ ''/admin?appName='' @ opts"
    by (simp add: ToMongoDbConnectionString_def)
  have "CHR '':'' \<notin> set ?u" "CHR ''@'' \<notin> set ?p" by (rule EncodeURIComponent_no_separator, simp)+
  note s = split_at_sep [OF this(1)] split_at_sep [OF this(2)]
  show ?thesis unfolding u Let_def by (simp add: s)
qed

end
