(* ===== verification/Odbc_Types.thy ===== *)
theory Odbc_Types
  imports Odbc_Prelude
begin

text \<open>
  The driver's enumerations (\<^verbatim>\<open>common_types.h\<close>, \<^verbatim>\<open>type_traits.h\<close>,
  \<^verbatim>\<open>app/application_data_buffer.h\<close>) and their translation to and from the numbers of the
  ODBC interface (\<^verbatim>\<open>src/common_types.cpp\<close>). The numbers are those of the ODBC headers
  \<^verbatim>\<open>sql.h\<close> and \<^verbatim>\<open>sqlext.h\<close>. An enumerator whose name occurs in two enumerations carries
  a prefix.
\<close>

section \<open>Enumerations\<close>

datatype SqlResult = AI_SUCCESS | AI_SUCCESS_WITH_INFO | AI_ERROR | AI_NO_DATA | AI_NEED_DATA

datatype ConversionResult =
  CR_SUCCESS | CR_FRACTIONAL_TRUNCATED | CR_VARLEN_DATA_TRUNCATED | CR_UNSUPPORTED_CONVERSION |
  CR_INDICATOR_NEEDED | CR_NO_DATA | CR_FAILURE

datatype OdbcNativeType =
  AI_CHAR | AI_WCHAR | AI_SIGNED_SHORT | AI_UNSIGNED_SHORT | AI_SIGNED_LONG | AI_UNSIGNED_LONG |
  AI_FLOAT | AI_DOUBLE | AI_BIT | AI_SIGNED_TINYINT | AI_UNSIGNED_TINYINT | AI_SIGNED_BIGINT |
  AI_UNSIGNED_BIGINT | AI_BINARY | AI_TDATE | AI_TTIME | AI_TTIMESTAMP | AI_NUMERIC | AI_GUID |
  AI_DEFAULT | AI_UNSUPPORTED

datatype SqlState =
  SQLSTATE_UNKNOWN | S01004_DATA_TRUNCATED | S01S00_INVALID_CONNECTION_STRING_ATTRIBUTE |
  S01S01_ERROR_IN_ROW | S01S02_OPTION_VALUE_CHANGED | S01S07_FRACTIONAL_TRUNCATION |
  S07006_RESTRICTION_VIOLATION | S22002_INDICATOR_NEEDED | S22026_DATA_LENGTH_MISMATCH |
  S23000_INTEGRITY_CONSTRAINT_VIOLATION | S24000_INVALID_CURSOR_STATE |
  S25000_INVALID_TRANSACTION_STATE | S3F000_INVALID_SCHEMA_NAME | S40001_SERIALIZATION_FAILURE |
  S42000_SYNTAX_ERROR_OR_ACCESS_VIOLATION | S42S01_TABLE_OR_VIEW_ALREADY_EXISTS |
  S42S02_TABLE_OR_VIEW_NOT_FOUND | S42S11_INDEX_ALREADY_EXISTS | S42S12_INDEX_NOT_FOUND |
  S42S21_COLUMN_ALREADY_EXISTS | S42S22_COLUMN_NOT_FOUND | S07009_INVALID_DESCRIPTOR_INDEX |
  S08001_CANNOT_CONNECT | S08002_ALREADY_CONNECTED | S08003_NOT_CONNECTED |
  S08004_CONNECTION_REJECTED | S08S01_LINK_FAILURE | SHY000_GENERAL_ERROR |
  SHY001_MEMORY_ALLOCATION | SHY003_INVALID_APPLICATION_BUFFER_TYPE | SHY004_INVALID_SQL_DATA_TYPE |
  SHY008_OPERATION_CANCELED | SHY009_INVALID_USE_OF_NULL_POINTER | SHY010_SEQUENCE_ERROR |
  SHY024_INVALID_ATTRIBUTE_VALUE | SHY090_INVALID_STRING_OR_BUFFER_LENGTH |
  SHY092_OPTION_TYPE_OUT_OF_RANGE | SHY097_COLUMN_TYPE_OUT_OF_RANGE | SHY105_INVALID_PARAMETER_TYPE |
  SHY106_FETCH_TYPE_OUT_OF_RANGE | SHYC00_OPTIONAL_FEATURE_NOT_IMPLEMENTED | SHYT00_TIMEOUT_EXPIRED |
  SHYT01_CONNECTION_TIMEOUT | SIM001_FUNCTION_NOT_SUPPORTED

datatype DiagnosticField =
  FIELD_UNKNOWN | HEADER_CURSOR_ROW_COUNT | HEADER_DYNAMIC_FUNCTION | HEADER_DYNAMIC_FUNCTION_CODE |
  HEADER_NUMBER | HEADER_RETURNCODE | HEADER_ROW_COUNT | STATUS_CLASS_ORIGIN | STATUS_COLUMN_NUMBER |
  STATUS_CONNECTION_NAME | STATUS_MESSAGE_TEXT | STATUS_NATIVE | STATUS_ROW_NUMBER |
  STATUS_SERVER_NAME | STATUS_SQLSTATE | STATUS_SUBCLASS_ORIGIN

datatype EnvironmentAttribute = ENV_UNKNOWN | ODBC_VERSION | OUTPUT_NTS

section \<open>Numbers of the ODBC interface\<close>

fun SqlResultToReturnCode :: "SqlResult \<Rightarrow> int" where
  "SqlResultToReturnCode AI_SUCCESS = 0"
| "SqlResultToReturnCode AI_SUCCESS_WITH_INFO = 1"
| "SqlResultToReturnCode AI_NO_DATA = 100"
| "SqlResultToReturnCode AI_NEED_DATA = 99"
| "SqlResultToReturnCode AI_ERROR = -1"

definition DiagnosticFieldToInternal :: "int \<Rightarrow> DiagnosticField" where
  "DiagnosticFieldToInternal field =
     (if field = -1249 then HEADER_CURSOR_ROW_COUNT
      else if field = 7 then HEADER_DYNAMIC_FUNCTION
      else if field = 12 then HEADER_DYNAMIC_FUNCTION_CODE
      else if field = 2 then HEADER_NUMBER
      else if field = 1 then HEADER_RETURNCODE
      else if field = 3 then HEADER_ROW_COUNT
      else if field = 8 then STATUS_CLASS_ORIGIN
      else if field = -1247 then STATUS_COLUMN_NUMBER
      else if field = 10 then STATUS_CONNECTION_NAME
      else if field = 6 then STATUS_MESSAGE_TEXT
      else if field = 5 then STATUS_NATIVE
      else if field = -1248 then STATUS_ROW_NUMBER
      else if field = 11 then STATUS_SERVER_NAME
      else if field = 4 then STATUS_SQLSTATE
      else if field = 9 then STATUS_SUBCLASS_ORIGIN
      else FIELD_UNKNOWN)"

definition EnvironmentAttributeToInternal :: "int \<Rightarrow> EnvironmentAttribute" where
  "EnvironmentAttributeToInternal attr =
     (if attr = 200 then ODBC_VERSION else if attr = 10001 then OUTPUT_NTS else ENV_UNKNOWN)"

definition ResponseStatusToSqlState :: "int \<Rightarrow> SqlState" where
  "ResponseStatusToSqlState status =
     (if status \<in> {1001, 2003, 2001} then S42000_SYNTAX_ERROR_OR_ACCESS_VIOLATION
      else if status = 1002 then SHYC00_OPTIONAL_FEATURE_NOT_IMPLEMENTED
      else if status = 2002 then SHY004_INVALID_SQL_DATA_TYPE
      else if status \<in> {4001, 4003, 4004} then S23000_INTEGRITY_CONSTRAINT_VIOLATION
      else if status = 3001 then S42S02_TABLE_OR_VIEW_NOT_FOUND
      else if status = 3005 then S42S11_INDEX_ALREADY_EXISTS
      else if status = 3006 then S42S12_INDEX_NOT_FOUND
      else if status = 3007 then S42S01_TABLE_OR_VIEW_ALREADY_EXISTS
      else if status = 3008 then S42S22_COLUMN_NOT_FOUND
      else if status = 3009 then S42S21_COLUMN_ALREADY_EXISTS
      else if status = 5004 then S25000_INVALID_TRANSACTION_STATE
      else if status = 5005 then S40001_SERIALIZATION_FAILURE
      else SHY000_GENERAL_ERROR)"

lemma SqlResultToReturnCode_inj: "SqlResultToReturnCode a = SqlResultToReturnCode b \<longleftrightarrow> a = b"
  by (cases a; cases b) simp_all

end
