(* ===== verification/Odbc_BigInteger.thy ===== *)
theory Odbc_BigInteger
  imports Odbc_Bits
begin

text \<open>
  \<^verbatim>\<open>common/big_integer.h\<close> and \<^verbatim>\<open>src/common/big_integer.cpp\<close>, all but division and text:
  a \<open>BigInteger\<close> is a sign and a magnitude of 32-bit words, least significant first. A loop
  over word indices is a recursion along the word list. \<open>int64_t\<close> values are 64-bit patterns
  (\<^typ>\<open>u64\<close>), read as signed with \<open>sint\<close>.
\<close>

section \<open>Data\<close>

record BigInteger =
  sign :: int
  mag :: "u32 list"

definition B32 :: nat where
  "B32 = 2 ^ 32"

interpretation w32: radix B32
  by unfold_locales (simp add: B32_def)

definition mag_val :: "u32 list \<Rightarrow> nat" where
  "mag_val ws = digs_val B32 (map unat ws)"

definition big_val :: "BigInteger \<Rightarrow> int" where
  "big_val b = sign b * int (mag_val (mag b))"

text \<open>What every public operation keeps: a sign of one or minus one and no leading zero word.\<close>

definition normalized :: "u32 list \<Rightarrow> bool" where
  "normalized ws \<longleftrightarrow> ws = [] \<or> last ws \<noteq> 0"

definition wf_big :: "BigInteger \<Rightarrow> bool" where
  "wf_big b \<longleftrightarrow> (sign b = 1 \<or> sign b = -1) \<and> normalized (mag b)"

text \<open>The canonical values, in which zero is not negative.\<close>

definition canonical :: "BigInteger \<Rightarrow> bool" where
  "canonical b \<longleftrightarrow> wf_big b \<and> (mag b = [] \<longrightarrow> sign b = 1)"

section \<open>Operations\<close>

definition BigInteger_zero :: BigInteger where
  "BigInteger_zero = \<lparr>sign = 1, mag = []\<rparr>"

definition AssignUint64 :: "u64 \<Rightarrow> BigInteger" where
  "AssignUint64 val =
     (if val = 0 then \<lparr>sign = 1, mag = []\<rparr>
      else let highWord = ucast (drop_bit 32 val) :: u32 in
        if highWord = 0 then \<lparr>sign = 1, mag = [ucast val]\<rparr>
        else \<lparr>sign = 1, mag = [ucast val, highWord]\<rparr>)"

definition AssignInt64 :: "u64 \<Rightarrow> BigInteger" where
  "AssignInt64 val =
     (if sint val < 0 then (AssignUint64 (- val))\<lparr>sign := -1\<rparr> else AssignUint64 val)"

definition IsZero :: "BigInteger \<Rightarrow> bool" where
  "IsZero b \<longleftrightarrow> length (mag b) = 0"

definition IsNegative :: "BigInteger \<Rightarrow> bool" where
  "IsNegative b \<longleftrightarrow> sign b < 0"

definition IsPositive :: "BigInteger \<Rightarrow> bool" where
  "IsPositive b \<longleftrightarrow> sign b > 0 \<and> \<not> IsZero b"

definition Negate :: "BigInteger \<Rightarrow> BigInteger" where
  "Negate b = (if \<not> IsZero b then b\<lparr>sign := - sign b\<rparr> else b)"

definition Normalize :: "BigInteger \<Rightarrow> BigInteger" where
  "Normalize b = b\<lparr>mag := rev (dropWhile (\<lambda>w. w = 0) (rev (mag b)))\<rparr>"

definition GetBitLength :: "BigInteger \<Rightarrow> u32" where
  "GetBitLength b =
     (if mag b = [] then 0
      else let res = BitLengthU32 (last (mag b)) in
        word_of_int (if length (mag b) > 1 then res + (int (length (mag b)) - 1) * 32 else res))"

text \<open>
  One row of the schoolbook product: the words of \<open>mag\<close> times \<open>x\<close>, added into the result
  from the current position, the carry stored after them.
\<close>

fun mul_row :: "u32 list \<Rightarrow> u32 \<Rightarrow> u32 list \<Rightarrow> u32 \<Rightarrow> u32 list" where
  "mul_row [] x rs carry = carry # tl rs"
| "mul_row (m # ms) x rs carry =
     (let product = (ucast m :: u64) * ucast x + ucast (hd rs) + ucast carry
      in (ucast product :: u32) # mul_row ms x (tl rs) (ucast (drop_bit 32 product)))"

fun mul_rows :: "u32 list \<Rightarrow> u32 list \<Rightarrow> u32 list \<Rightarrow> u32 list" where
  "mul_rows ms [] rs = rs"
| "mul_rows ms (x # xs) rs =
     (let row = mul_row ms x rs 0 in hd row # mul_rows ms xs (tl row))"

definition Multiply :: "BigInteger \<Rightarrow> BigInteger \<Rightarrow> BigInteger" where
  "Multiply this other =
     Normalize \<lparr>sign = sign this * sign other,
       mag = mul_rows (mag this) (mag other)
               (replicate (length (mag this) + length (mag other)) 0)\<rparr>"

text \<open>The square-and-multiply loop of \<open>Pow\<close>; \<open>exp\<close> is \<open>mutExp\<close>.\<close>

fun pow_loop :: "nat \<Rightarrow> BigInteger \<Rightarrow> BigInteger \<Rightarrow> BigInteger" where
  "pow_loop e this multiplicant =
     (if e = 0 then this
      else
        let this' = (if odd e then Multiply this multiplicant else this);
            e' = e div 2;
            multiplicant' = (if e' \<noteq> 0 then Multiply multiplicant multiplicant else multiplicant)
        in pow_loop e' this' multiplicant')"

declare pow_loop.simps [simp del]

definition Pow :: "BigInteger \<Rightarrow> int \<Rightarrow> BigInteger" where
  "Pow b e =
     (if e < 0 then AssignInt64 0
      else let bitsLen = GetBitLength b in
        if bitsLen = 0 then b
        else if bitsLen = 1 then
          (if e mod 2 = 0 \<and> sign b < 0 then b\<lparr>sign := - sign b\<rparr> else b)
        else pow_loop (nat e) (AssignInt64 1) b)"

definition GetPowerOfTen :: "int \<Rightarrow> BigInteger" where
  "GetPowerOfTen p =
     (case (if p < UINT64_MAX_PRECISION then TenPowerU64 p else None) of
        Some t \<Rightarrow> AssignUint64 t
      | None \<Rightarrow> Pow (AssignInt64 10) p)"

text \<open>The comparison loop runs from the most significant word: over the reversed lists.\<close>

fun cmp_words :: "u32 list \<Rightarrow> u32 list \<Rightarrow> int \<Rightarrow> int" where
  "cmp_words (x # xs) (y # ys) mgt =
     (if x = y then cmp_words xs ys mgt else if x > y then mgt else - mgt)"
| "cmp_words _ _ mgt = 0"

definition Compare :: "BigInteger \<Rightarrow> BigInteger \<Rightarrow> bool \<Rightarrow> int" where
  "Compare this other ignoreSign =
     (if \<not> ignoreSign \<and> sign this \<noteq> sign other then (if sign this > sign other then 1 else -1)
      else
        let mgt = (if ignoreSign then 1 else sign this) in
        if length (mag this) \<noteq> length (mag other) then
          (if length (mag this) > length (mag other) then mgt else - mgt)
        else cmp_words (rev (mag this)) (rev (mag other)) mgt)"

definition GetPrecision :: "BigInteger \<Rightarrow> int" where
  "GetPrecision b =
     (if length (mag b) = 0 then 1
      else
        let r = uint (ucast (drop_bit 31 ((ucast (GetBitLength b) + 1) * 646456993 :: u64)) :: u32);
            prec = GetPowerOfTen r
        in if Compare b prec True < 0 then r else r + 1)"

text \<open>\<open>common::Add\<close> of two arrays, and of an array and one number.\<close>

fun AddArray :: "u32 list \<Rightarrow> u32 list \<Rightarrow> u64 \<Rightarrow> u32 list \<times> u32" where
  "AddArray (r # rs) (a # as) carry =
     (let sum = (ucast r :: u64) + ucast a + carry;
          (rs', c) = AddArray rs as (drop_bit 32 sum)
      in ((ucast sum :: u32) # rs', c))"
| "AddArray rs _ carry = (rs, ucast carry)"

fun AddNumber :: "u32 list \<Rightarrow> u64 \<Rightarrow> u32 list \<times> u32" where
  "AddNumber [] carry = ([], ucast carry)"
| "AddNumber (r # rs) carry =
     (if carry = 0 then (r # rs, 0)
      else let sum = (ucast r :: u64) + carry;
               (rs', c) = AddNumber rs (drop_bit 32 sum)
           in ((ucast sum :: u32) # rs', c))"

definition AddMag :: "BigInteger \<Rightarrow> u32 list \<Rightarrow> BigInteger" where
  "AddMag b addend =
     (let ws = mag b @ replicate (length addend - length (mag b)) 0;
          n = length addend;
          (lo, carry) = AddArray (take n ws) addend 0;
          hi = drop n ws
      in if carry \<noteq> 0 then
           let (hi', carry') = AddNumber hi (ucast carry) in
           if carry' \<noteq> 0 then b\<lparr>mag := lo @ hi' @ [carry']\<rparr> else b\<lparr>mag := lo @ hi'\<rparr>
         else b\<lparr>mag := lo @ hi\<rparr>)"

definition AddUint64 :: "BigInteger \<Rightarrow> u64 \<Rightarrow> BigInteger" where
  "AddUint64 b x =
     (if x = 0 then b
      else if IsZero b then AssignUint64 x
      else
        let lo = ucast x :: u32; hi = ucast (drop_bit 32 x) :: u32
        in AddMag b (if hi \<noteq> 0 then [lo, hi] else [lo]))"

text \<open>
  \<open>sign * mag[n]\<close> is an unsigned 32-bit product; past the end of the magnitude the word is
  the sign extension.
\<close>

definition GetMagInt :: "BigInteger \<Rightarrow> nat \<Rightarrow> u32" where
  "GetMagInt b n =
     (if n \<ge> length (mag b) then (if sign b > 0 then 0 else -1)
      else word_of_int (sign b) * (mag b ! n))"

definition ToInt64 :: "BigInteger \<Rightarrow> u64" where
  "ToInt64 b = push_bit 32 (ucast (GetMagInt b 1)) OR ucast (GetMagInt b 0)"

section \<open>Values of magnitudes\<close>

lemma B32_pos [simp]: "0 < B32"
  by (simp add: B32_def)

lemma unat_lt_B32 [simp]: "unat (w :: u32) < B32"
  using unat_u32_less by (simp add: B32_def)

lemma mag_val_Nil [simp]: "mag_val [] = 0"
  by (simp add: mag_val_def)

lemma mag_val_Cons [simp]: "mag_val (w # ws) = unat w + B32 * mag_val ws"
  by (simp add: mag_val_def)

lemma mag_val_append: "mag_val (xs @ ys) = mag_val xs + B32 ^ length xs * mag_val ys"
  by (simp add: mag_val_def w32.val_append)

lemma mag_val_replicate_0 [simp]: "mag_val (replicate n 0) = 0"
  by (simp add: mag_val_def w32.val_replicate_0)

lemma digs_ok_words [simp]: "digs_ok B32 (map unat (ws :: u32 list))"
  by (induction ws) (simp_all add: digs_ok_def)

lemma mag_val_bound: "mag_val ws < B32 ^ length ws"
  using w32.val_bound [of "map unat ws"] by (simp add: mag_val_def)

lemma mag_val_eq_0_iff: "mag_val ws = 0 \<longleftrightarrow> list_all (\<lambda>w. w = 0) ws"
  by (simp add: mag_val_def w32.val_eq_0_iff list_all_iff unat_eq_zero)

lemma normalized_eq_Nil_iff: "normalized ws \<Longrightarrow> mag_val ws = 0 \<longleftrightarrow> ws = []"
  by (cases ws rule: rev_cases) (auto simp: mag_val_eq_0_iff normalized_def list_all_iff)

lemma mag_val_lower_bound:
  "normalized ws \<Longrightarrow> ws \<noteq> [] \<Longrightarrow> B32 ^ (length ws - 1) \<le> mag_val ws"
  using w32.val_lower_bound [of "map unat ws"]
  by (simp add: mag_val_def normalized_def last_map unat_eq_zero)

lemma mag_val_less_by_length:
  assumes "length xs < length ys" and "normalized ys"
  shows "mag_val xs < mag_val ys"
proof -
  have "ys \<noteq> []" using assms(1) by auto
  with assms show ?thesis
    using w32.val_less_by_length [of "map unat xs" "map unat ys"]
    by (auto simp: mag_val_def normalized_def last_map unat_eq_zero)
qed

text \<open>Word-level steps of the loops, as equations between natural numbers.\<close>

lemma u64_split: "unat (x :: u64) = unat (ucast x :: u32) + B32 * unat (ucast (drop_bit 32 x) :: u32)"
proof -
  have "unat x div 2 ^ 32 < 2 ^ 32"
    using unat_u64_less [of x] by (simp add: less_mult_imp_div_less)
  then show ?thesis
    by (simp only: word_conv B32_def mod_less) (metis mod_mult_div_eq)
qed

lemma u64_mul_add:
  fixes m x r c :: u32
  shows "unat ((ucast m :: u64) * ucast x + ucast r + ucast c) = unat m * unat x + unat r + unat c"
proof -
  have bnd: "unat m * unat x + unat r + unat c < 2 ^ 64"
  proof -
    have "unat m \<le> 2 ^ 32 - 1" "unat x \<le> 2 ^ 32 - 1" "unat r \<le> 2 ^ 32 - 1" "unat c \<le> 2 ^ 32 - 1"
      using unat_u32_less [of m] unat_u32_less [of x] unat_u32_less [of r] unat_u32_less [of c]
      by simp_all
    then have "unat m * unat x + unat r + unat c \<le> (2 ^ 32 - 1) * (2 ^ 32 - 1) + (2 ^ 32 - 1) + (2 ^ 32 - 1)"
      by (intro add_mono mult_mono) simp_all
    then show ?thesis by simp
  qed
  have "unat ((ucast m :: u64) * ucast x + ucast r + ucast c) =
      (unat m * unat x + unat r + unat c) mod 2 ^ 64"
    by (simp add: unat_word_ariths unat_ucast_u64 mod_simps)
  with bnd show ?thesis by simp
qed

section \<open>Normalisation and assignment\<close>

lemma dropWhile_zero_val: "mag_val (rev (dropWhile (\<lambda>w. w = 0) ws)) = mag_val (rev ws)"
  by (induction ws) (simp_all add: mag_val_append)

lemma normalized_dropWhile: "normalized (rev (dropWhile (\<lambda>w. w = 0) ws))"
  using hd_dropWhile [of "\<lambda>w. w = 0" ws] by (auto simp: normalized_def last_rev)

lemma mag_val_Normalize [simp]: "mag_val (mag (Normalize b)) = mag_val (mag b)"
  using dropWhile_zero_val [of "rev (mag b)"] by (simp add: Normalize_def)

lemma normalized_Normalize [simp]: "normalized (mag (Normalize b))"
  by (simp add: Normalize_def normalized_dropWhile)

lemma sign_Normalize [simp]: "sign (Normalize b) = sign b"
  by (simp add: Normalize_def)

lemma Normalize_id: "normalized (mag b) \<Longrightarrow> Normalize b = b"
  by (cases "mag b" rule: rev_cases) (simp_all add: Normalize_def normalized_def)

lemma AssignUint64_props:
  "sign (AssignUint64 x) = 1" "mag_val (mag (AssignUint64 x)) = unat x"
  "normalized (mag (AssignUint64 x))" "length (mag (AssignUint64 x)) \<le> 2"
proof -
  show "mag_val (mag (AssignUint64 x)) = unat x"
    using u64_split [of x] by (auto simp: AssignUint64_def Let_def)
  show "normalized (mag (AssignUint64 x))"
  proof (cases "x = 0 \<or> ucast (drop_bit 32 x) \<noteq> (0 :: u32)")
    case True
    then show ?thesis by (auto simp: AssignUint64_def Let_def normalized_def)
  next
    case False
    with u64_split [of x] have "ucast x \<noteq> (0 :: u32)"
      by (auto simp flip: unat_eq_zero)
    then show ?thesis by (simp add: AssignUint64_def Let_def normalized_def)
  qed
qed (simp_all add: AssignUint64_def Let_def)

lemma canonical_AssignUint64: "canonical (AssignUint64 x)"
  by (simp add: canonical_def wf_big_def AssignUint64_props)

lemma big_val_AssignUint64: "big_val (AssignUint64 x) = uint x"
  by (simp add: big_val_def AssignUint64_props)

lemma uint_minus_neg:
  fixes x :: u64
  assumes "sint x < 0"
  shows "uint (- x) = - sint x"
proof -
  have lo: "- (2 ^ 63) \<le> sint x"
    using sint_greater_eq [of x] by simp
  have "- x = word_of_int (- sint x)"
    by simp
  then have "uint (- x) = (- sint x) mod 2 ^ 64"
    by (simp only: uint_word_of_int) simp
  with lo assms show ?thesis by simp
qed

lemma sint_nonneg_uint:
  fixes x :: u64
  assumes "0 \<le> sint x"
  shows "sint x = uint x"
proof -
  have "sint x < 2 ^ 63"
    using sint_less [of x] by simp
  moreover have "uint x = uint (word_of_int (sint x) :: u64)"
    by simp
  then have "uint x = sint x mod 2 ^ 64"
    by (simp only: uint_word_of_int) simp
  ultimately show ?thesis using assms by simp
qed

lemma big_val_AssignInt64: "big_val (AssignInt64 x) = sint x"
proof (cases "sint x < 0")
  case True
  then show ?thesis
    using uint_minus_neg [OF True]
    by (simp add: AssignInt64_def big_val_def AssignUint64_props)
next
  case False
  then show ?thesis
    by (simp add: AssignInt64_def big_val_AssignUint64 sint_nonneg_uint)
qed

lemma canonical_AssignInt64: "canonical (AssignInt64 x)"
proof (cases "sint x < 0")
  case True
  then have "mag (AssignUint64 (- x)) \<noteq> []"
    by (auto simp: AssignUint64_def Let_def)
  with True show ?thesis
    by (simp add: AssignInt64_def canonical_def wf_big_def AssignUint64_props)
next
  case False
  then show ?thesis by (simp add: AssignInt64_def canonical_AssignUint64)
qed

section \<open>Multiplication\<close>

lemma length_mul_row [simp]:
  "length ms < length rs \<Longrightarrow> length (mul_row ms x rs c) = length rs"
proof (induction ms arbitrary: rs c)
  case Nil
  then show ?case by (cases rs) auto
next
  case (Cons m ms)
  then show ?case by (cases rs) (auto simp: Let_def)
qed

lemma drop_mul_row:
  "length ms < length rs \<Longrightarrow> drop (Suc (length ms)) (mul_row ms x rs c) = drop (Suc (length ms)) rs"
proof (induction ms arbitrary: rs c)
  case Nil
  then show ?case by (cases rs) auto
next
  case (Cons m ms)
  then show ?case by (cases rs) (auto simp: Let_def)
qed

text \<open>A row adds the product to the result, provided the cell for the carry was still zero.\<close>

lemma mul_row_val:
  assumes "length ms < length rs" and "rs ! length ms = 0"
  shows "mag_val (mul_row ms x rs c) = mag_val ms * unat x + mag_val rs + unat c"
  using assms
proof (induction ms arbitrary: rs c)
  case Nil
  then show ?case by (cases rs) auto
next
  case (Cons m ms)
  then obtain r rs' where rs: "rs = r # rs'" by (cases rs) auto
  define p where "p = (ucast m :: u64) * ucast x + ucast r + ucast c"
  have "unat p = unat m * unat x + unat r + unat c"
    unfolding p_def by (rule u64_mul_add)
  moreover have "mag_val (mul_row ms x rs' (ucast (drop_bit 32 p))) =
      mag_val ms * unat x + mag_val rs' + unat (ucast (drop_bit 32 p) :: u32)"
    using Cons.prems by (intro Cons.IH) (simp_all add: rs)
  ultimately show ?case
    using u64_split [of p] by (simp add: rs p_def Let_def algebra_simps)
qed

lemma mul_rows_val:
  assumes "length rs = length ms + length xs" and "list_all (\<lambda>w. w = 0) (drop (length ms) rs)"
  shows "mag_val (mul_rows ms xs rs) = mag_val ms * mag_val xs + mag_val rs"
  using assms
proof (induction xs arbitrary: rs)
  case Nil
  then show ?case by simp
next
  case (Cons x xs)
  let ?row = "mul_row ms x rs 0"
  have lt: "length ms < length rs" using Cons.prems(1) by simp
  with Cons.prems(2) have z: "rs ! length ms = 0" "list_all (\<lambda>w. w = 0) (drop (Suc (length ms)) rs)"
    by (simp_all add: Cons_nth_drop_Suc [symmetric])
  have row: "mag_val ?row = mag_val ms * unat x + mag_val rs"
    using mul_row_val [OF lt z(1), of x 0] by simp
  have len: "length ?row = length rs" using lt by simp
  then obtain h t where ht: "?row = h # t" using lt by (cases ?row) auto
  have "mag_val (mul_rows ms xs t) = mag_val ms * mag_val xs + mag_val t"
  proof (rule Cons.IH)
    show "length t = length ms + length xs"
      using len ht Cons.prems(1) by simp
    show "list_all (\<lambda>w. w = 0) (drop (length ms) t)"
      using drop_mul_row [OF lt, of x 0] z(2) ht by simp
  qed
  with row ht show ?case by (simp add: Let_def algebra_simps)
qed

lemma mag_val_Multiply: "mag_val (mag (Multiply a b)) = mag_val (mag a) * mag_val (mag b)"
  by (simp add: Multiply_def mul_rows_val list_all_iff)

lemma sign_Multiply: "sign (Multiply a b) = sign a * sign b"
  by (simp add: Multiply_def)

lemma big_val_Multiply: "big_val (Multiply a b) = big_val a * big_val b"
  by (simp add: big_val_def mag_val_Multiply sign_Multiply)

lemma wf_Multiply: "wf_big a \<Longrightarrow> wf_big b \<Longrightarrow> wf_big (Multiply a b)"
  by (auto simp: wf_big_def sign_Multiply) (simp_all add: Multiply_def)

lemma canonical_Multiply:
  assumes "canonical a" and "canonical b" and "mag a \<noteq> []" and "mag b \<noteq> []"
  shows "canonical (Multiply a b)" and "mag (Multiply a b) \<noteq> []"
proof -
  have "mag_val (mag (Multiply a b)) \<noteq> 0"
    using assms by (simp add: mag_val_Multiply canonical_def wf_big_def normalized_eq_Nil_iff)
  then show "mag (Multiply a b) \<noteq> []" by auto
  with assms show "canonical (Multiply a b)"
    by (simp add: canonical_def wf_Multiply)
qed

section \<open>Comparison\<close>

lemma cmp_words_val:
  assumes "length xs = length ys"
  shows "cmp_words xs ys mgt =
    (if mag_val (rev xs) = mag_val (rev ys) then 0
     else if mag_val (rev ys) < mag_val (rev xs) then mgt else - mgt)"
  using assms
proof (induction xs ys rule: list_induct2)
  case Nil
  then show ?case by simp
next
  case (Cons x xs y ys)
  have less: "unat a < unat b \<Longrightarrow> mag_val (rev as @ [a]) < mag_val (rev bs @ [b])"
    if "length as = length bs" for a b :: u32 and as bs
    using w32.val_less_by_top [of "map unat (rev as)" "map unat (rev bs)" "unat a" "unat b" "[]"] that
    by (simp add: mag_val_def)
  show ?case
  proof (cases "x = y")
    case True
    with Cons show ?thesis by (simp add: mag_val_append)
  next
    case False
    then consider "x < y" | "y < x" by fastforce
    then show ?thesis
    proof cases
      case 1
      with less [of xs ys x y] Cons.hyps False show ?thesis
        by (auto simp: word_less_nat_alt)
    next
      case 2
      with less [of ys xs y x] Cons.hyps False show ?thesis
        by (auto simp: word_less_nat_alt)
    qed
  qed
qed

lemma Compare_ignoreSign:
  assumes "normalized (mag a)" and "normalized (mag b)"
  shows "Compare a b True = sgn (int (mag_val (mag a)) - int (mag_val (mag b)))"
proof (cases "length (mag a)" "length (mag b)" rule: linorder_cases)
  case less
  with mag_val_less_by_length [OF less assms(2)] show ?thesis
    by (simp add: Compare_def)
next
  case equal
  then show ?thesis
    using cmp_words_val [of "rev (mag a)" "rev (mag b)" 1] by (simp add: Compare_def)
next
  case greater
  with mag_val_less_by_length [OF greater assms(1)] show ?thesis
    by (simp add: Compare_def)
qed

lemma Compare_props:
  assumes "canonical a" and "canonical b"
  shows "Compare a b False = sgn (big_val a - big_val b)"
proof (cases "sign a = sign b")
  case True
  have s: "sign a = 1 \<or> sign a = -1" and n: "normalized (mag a)" "normalized (mag b)"
    using assms by (auto simp: canonical_def wf_big_def)
  have "Compare a b False = sign a * Compare a b True"
    using True s cmp_words_val [of "rev (mag a)" "rev (mag b)"]
    by (auto simp: Compare_def Let_def)
  also have "\<dots> = sgn (sign a * (int (mag_val (mag a)) - int (mag_val (mag b))))"
    using s Compare_ignoreSign [OF n] by (auto simp: sgn_mult)
  finally show ?thesis
    using True by (simp add: big_val_def algebra_simps)
next
  case False
  have pos: "0 < mag_val (mag c)" if "canonical c" "sign c = -1" for c
    using that by (auto simp: canonical_def wf_big_def normalized_eq_Nil_iff [symmetric])
  show ?thesis
    using assms False pos [OF assms(1)] pos [OF assms(2)]
    by (auto simp: Compare_def big_val_def canonical_def wf_big_def)
qed

text \<open>\<open>Compare\<close> is the order of the integers: on canonical values (no negative zero) it
  returns the sign of their difference, so that all six comparison operators agree with the
  order of the values.\<close>

theorem Compare_correct:
  assumes "canonical a" and "canonical b"
  shows "Compare a b False = sgn (big_val a - big_val b)"
  using assms by (rule Compare_props)

text \<open>Multiplication by zero leaves a negative zero, which compares as different from
  (and smaller than) zero: the product of minus one and zero is not equal to zero.\<close>

theorem Multiply_negative_zero:
  "big_val (Multiply (AssignInt64 (-1)) (AssignInt64 0)) = big_val (AssignInt64 0) \<and>
   Compare (Multiply (AssignInt64 (-1)) (AssignInt64 0)) (AssignInt64 0) False = -1"
proof -
  have "Multiply (AssignInt64 (-1)) (AssignInt64 0) = \<lparr>sign = -1, mag = []\<rparr>"
    by (simp add: AssignInt64_def AssignUint64_def Multiply_def Normalize_def Let_def)
  then show ?thesis
    by (simp add: AssignInt64_def AssignUint64_def Compare_def big_val_def)
qed

section \<open>Bit length, powers and precision\<close>

text \<open>The \<open>int32_t\<close> bit length does not overflow below \<open>2 ^ 26\<close> words.\<close>

lemma GetBitLength_spec:
  assumes "normalized (mag b)" and "mag b \<noteq> []" and "length (mag b) < 2 ^ 26"
  obtains l where "unat (GetBitLength b) = l" and "0 < l"
    and "2 ^ (l - 1) \<le> mag_val (mag b)" and "mag_val (mag b) < 2 ^ l"
proof -
  let ?n = "length (mag b) - 1" and ?t = "last (mag b)"
  have "?t \<noteq> 0" using assms(1,2) by (simp add: normalized_def)
  then obtain k where k: "BitLengthU32 ?t = int k" "0 < k" "k \<le> 32"
    "2 ^ (k - 1) \<le> unat ?t" "unat ?t < 2 ^ k"
    by (rule BitLengthU32_spec)
  define l where "l = k + ?n * 32"
  have "GetBitLength b = word_of_int (int l)"
  proof (cases "length (mag b) > 1")
    case True
    with assms(2) k(1) show ?thesis
      by (simp add: GetBitLength_def Let_def l_def of_nat_diff)
  next
    case False
    with assms(2) have "length (mag b) = 1"
      by (cases "mag b") auto
    with assms(2) k(1) show ?thesis
      by (simp add: GetBitLength_def Let_def l_def)
  qed
  moreover have "l < 2 ^ 32" using k(3) assms(3) by (simp add: l_def)
  ultimately have u: "unat (GetBitLength b) = l"
    by (simp add: unsigned_of_nat take_bit_nat_eq_self)
  have val: "mag_val (mag b) = mag_val (butlast (mag b)) + B32 ^ ?n * unat ?t"
    using mag_val_append [of "butlast (mag b)" "[?t]"] assms(2) by simp
  have low: "mag_val (butlast (mag b)) < B32 ^ ?n"
    using mag_val_bound [of "butlast (mag b)"] by simp
  have pw: "B32 ^ ?n * 2 ^ j = 2 ^ (j + ?n * 32)" for j
    by (metis B32_def mult.commute power_add power_mult)
  have "B32 ^ ?n * 2 ^ (k - 1) \<le> B32 ^ ?n * unat ?t"
    using k(4) by (rule mult_le_mono2)
  moreover have "l - 1 = k - 1 + ?n * 32" using k(2) by (simp add: l_def)
  ultimately have "2 ^ (l - 1) \<le> B32 ^ ?n * unat ?t"
    using pw [of "k - 1"] by (simp only:)
  with val have lo: "2 ^ (l - 1) \<le> mag_val (mag b)"
    by linarith
  have "B32 ^ ?n * Suc (unat ?t) \<le> B32 ^ ?n * 2 ^ k"
    using k(5) by (intro mult_le_mono2) simp
  with low val pw [of k] have hi: "mag_val (mag b) < 2 ^ l"
    by (simp add: l_def)
  show thesis
    using u lo hi k(2) by (intro that [of l]) (simp_all add: l_def)
qed

lemma pow_loop_props:
  assumes "canonical this" "canonical m" "mag this \<noteq> []" "mag m \<noteq> []"
  shows "big_val (pow_loop e this m) = big_val this * big_val m ^ e \<and>
    canonical (pow_loop e this m) \<and> mag (pow_loop e this m) \<noteq> []"
  using assms
proof (induction e this m rule: pow_loop.induct)
  case (1 e this m)
  show ?case
  proof (cases "e = 0")
    case True
    with 1 show ?thesis by (simp add: pow_loop.simps [of 0])
  next
    case False
    define t where "t = (if odd e then Multiply this m else this)"
    define m' where "m' = (if e div 2 \<noteq> 0 then Multiply m m else m)"
    have t: "canonical t" "mag t \<noteq> []" "big_val t = big_val this * (if odd e then big_val m else 1)"
      using 1(2-5) canonical_Multiply by (auto simp: t_def big_val_Multiply)
    have m': "canonical m'" "mag m' \<noteq> []" "e div 2 \<noteq> 0 \<Longrightarrow> big_val m' = big_val m * big_val m"
      using 1(2-5) canonical_Multiply by (auto simp: m'_def big_val_Multiply)
    have unf: "pow_loop e this m = pow_loop (e div 2) t m'"
      using False by (simp add: pow_loop.simps [of e] t_def m'_def Let_def)
    have "big_val (pow_loop (e div 2) t m') = big_val t * big_val m' ^ (e div 2) \<and>
        canonical (pow_loop (e div 2) t m') \<and> mag (pow_loop (e div 2) t m') \<noteq> []"
      by (rule "1.IH" [OF False t_def refl m'_def t(1) m'(1) t(2) m'(2)])
    moreover have "big_val t * big_val m' ^ (e div 2) = big_val this * big_val m ^ e"
    proof (cases "e div 2 = 0")
      case True
      with False have "e = 1" by simp
      with t(3) show ?thesis by simp
    next
      case False
      have "big_val m ^ e = big_val m ^ (2 * (e div 2) + e mod 2)" by simp
      then show ?thesis
        using t(3) m'(3) False
        by (simp add: power_add power_mult power2_eq_square mod_2_eq_odd)
    qed
    ultimately show ?thesis using unf by simp
  qed
qed

lemma canonical_val_1:
  assumes "canonical b" and "mag b \<noteq> []" and "unat (GetBitLength b) = 1" and "length (mag b) < 2 ^ 26"
  shows "mag_val (mag b) = 1"
proof -
  have "normalized (mag b)" using assms(1) by (simp add: canonical_def wf_big_def)
  then obtain l where "unat (GetBitLength b) = l" "0 < l" "2 ^ (l - 1) \<le> mag_val (mag b)"
    "mag_val (mag b) < 2 ^ l"
    using assms by (metis GetBitLength_spec)
  with assms(3) show ?thesis by auto
qed

text \<open>\<open>Pow\<close> computes the exponent-th power of every non-zero value, for every
  non-negative exponent, by square and multiply.\<close>

lemma Pow_props:
  assumes "canonical b" and "mag b \<noteq> []" and "length (mag b) < 2 ^ 26" and "0 \<le> e"
  shows "big_val (Pow b e) = big_val b ^ nat e \<and> canonical (Pow b e) \<and> mag (Pow b e) \<noteq> []"
proof -
  have n: "normalized (mag b)" and s: "sign b = 1 \<or> sign b = -1"
    using assms(1) by (auto simp: canonical_def wf_big_def)
  obtain l where l: "unat (GetBitLength b) = l" "0 < l"
    using GetBitLength_spec [OF n assms(2,3)] by blast
  then have nz: "GetBitLength b \<noteq> 0" by auto
  show ?thesis
  proof (cases "GetBitLength b = 1")
    case True
    then have "mag_val (mag b) = 1"
      using canonical_val_1 assms by simp
    moreover have "even (nat e) \<longleftrightarrow> e mod 2 = 0"
      using assms(4) by (simp add: even_nat_iff flip: even_iff_mod_2_eq_zero)
    ultimately show ?thesis
      using True nz s assms by (auto simp: Pow_def big_val_def canonical_def wf_big_def)
  next
    case False
    have one: "canonical (AssignInt64 1)" "mag (AssignInt64 1) \<noteq> []" "big_val (AssignInt64 1) = 1"
      by (simp_all add: canonical_AssignInt64 big_val_AssignInt64)
        (simp add: AssignInt64_def AssignUint64_def Let_def)
    with pow_loop_props [OF one(1) assms(1) one(2) assms(2), of "nat e"] False nz assms(4)
    show ?thesis by (simp add: Pow_def)
  qed
qed

lemma GetPowerOfTen_props:
  assumes "0 \<le> p"
  shows "big_val (GetPowerOfTen p) = 10 ^ nat p" and "canonical (GetPowerOfTen p)"
    and "mag (GetPowerOfTen p) \<noteq> []" and "mag_val (mag (GetPowerOfTen p)) = 10 ^ nat p"
proof -
  have ten: "canonical (AssignInt64 10)" "mag (AssignInt64 10) \<noteq> []"
    "length (mag (AssignInt64 10)) < 2 ^ 26" "big_val (AssignInt64 10) = 10"
    by (simp_all add: canonical_AssignInt64 big_val_AssignInt64)
      (simp_all add: AssignInt64_def AssignUint64_def Let_def)
  have "big_val (GetPowerOfTen p) = 10 ^ nat p \<and> canonical (GetPowerOfTen p) \<and> mag (GetPowerOfTen p) \<noteq> []"
  proof (cases "p < 20")
    case True
    then obtain t where t: "TenPowerU64 p = Some t"
      using assms by (rule_tac TenPowerU64_defined [of p]) auto
    then have "unat t = 10 ^ nat p" by (rule TenPowerU64_Some)
    moreover from this have "t \<noteq> 0" by auto
    then have "mag (AssignUint64 t) \<noteq> []" by (simp add: AssignUint64_def Let_def)
    moreover have "big_val (AssignUint64 t) = int (unat t)"
      by (simp add: big_val_AssignUint64)
    ultimately show ?thesis
      using True t by (simp add: GetPowerOfTen_def UINT64_MAX_PRECISION_def canonical_AssignUint64)
  next
    case False
    with Pow_props [OF ten(1,2,3) assms] ten(4) show ?thesis
      by (simp add: GetPowerOfTen_def UINT64_MAX_PRECISION_def)
  qed
  then show p: "big_val (GetPowerOfTen p) = 10 ^ nat p" and c: "canonical (GetPowerOfTen p)"
    and "mag (GetPowerOfTen p) \<noteq> []" by simp_all
  have "sign (GetPowerOfTen p) = 1 \<or> sign (GetPowerOfTen p) = -1"
    using c by (auto simp: canonical_def wf_big_def)
  moreover have "0 < sign (GetPowerOfTen p) * int (mag_val (mag (GetPowerOfTen p)))"
    using p unfolding big_val_def by simp
  ultimately have "sign (GetPowerOfTen p) = 1" by auto
  with p have "int (mag_val (mag (GetPowerOfTen p))) = int (10 ^ nat p)"
    by (simp add: big_val_def)
  then show "mag_val (mag (GetPowerOfTen p)) = 10 ^ nat p"
    by (simp only: of_nat_eq_iff)
qed

text \<open>
  \<open>646456993 / 2 ^ 31\<close> approximates log 2 / log 10. Rational bounds on that logarithm
  (\<open>10 ^ 643 \<le> 2 ^ 2136\<close> and \<open>2 ^ 485 \<le> 10 ^ 146\<close>) make the digit estimate right up to
  \<open>2 ^ 18\<close> bits.
\<close>

lemma pow_compare:
  fixes a c :: nat
  assumes "x ^ a \<le> y ^ c" and "0 < a" and "c * L \<le> a * M" and "1 \<le> (y::nat)"
  shows "x ^ L \<le> y ^ M"
proof -
  have "(x ^ L) ^ a = (x ^ a) ^ L"
    by (simp add: mult.commute flip: power_mult)
  also have "\<dots> \<le> (y ^ c) ^ L"
    using assms(1) by (intro power_mono) simp_all
  also have "\<dots> \<le> (y ^ M) ^ a"
    using assms(3,4) by (simp add: mult.commute flip: power_mult) (intro power_increasing, simp_all)
  finally have "(x ^ L) ^ Suc (a - 1) \<le> (y ^ M) ^ Suc (a - 1)"
    using assms(2) by simp
  then show ?thesis
    by (rule power_le_imp_le_base) simp
qed

lemma two_485: "(2::nat) ^ 485 \<le> 10 ^ 146"
  by simp

lemma ten_643: "(10::nat) ^ 643 \<le> 2 ^ 2136"
  by simp

lemma precision_estimate:
  assumes "0 < L" and "L \<le> 2 ^ 18"
  defines "r \<equiv> (L + 1) * 646456993 div 2 ^ 31"
  shows "10 ^ (r - 1) \<le> (2::nat) ^ (L - 1)" and "(2::nat) ^ L \<le> 10 ^ (r + 1)"
proof -
  define m where "m = (L + 1) * 646456993 mod 2147483648"
  have eq: "2147483648 * r + m = (L + 1) * 646456993" and "m < 2147483648"
    unfolding r_def m_def by simp_all
  have eq': "2147483648 * r + m = 646456993 * L + 646456993" and L: "L \<le> 262144"
    using eq assms(2) by simp_all
  then have "146 * L \<le> 485 * r + 485"
    using \<open>m < 2147483648\<close> by linarith
  then show "(2::nat) ^ L \<le> 10 ^ (r + 1)"
    by (intro pow_compare [OF two_485]) simp_all
  have "2136 * (r - 1) \<le> 643 * (L - 1)"
  proof (cases "r = 0")
    case False
    then have "int (r - 1) = int r - 1" "int (L - 1) = int L - 1"
      using assms(1) by (simp_all add: of_nat_diff)
    moreover have "2147483648 * int r \<le> 646456993 * int L + 646456993" "int L \<le> 262144"
      using eq' L by linarith+
    ultimately have "2136 * int (r - 1) \<le> 643 * int (L - 1)"
      by linarith
    then show ?thesis by linarith
  qed simp
  then show "10 ^ (r - 1) \<le> (2::nat) ^ (L - 1)"
    by (intro pow_compare [OF ten_643]) simp_all
qed

text \<open>\<open>GetPrecision\<close> returns the exact number of decimal digits of the magnitude (one
  for zero), for values of up to \<open>2 ^ 18\<close> bits: the bit-length estimate is corrected by one
  comparison with a power of ten.\<close>

theorem GetPrecision_correct:
  assumes "normalized (mag b)" and "length (mag b) \<le> 2 ^ 13"
  shows "1 \<le> GetPrecision b \<and> mag_val (mag b) < 10 ^ nat (GetPrecision b) \<and>
    (mag b = [] \<or> 10 ^ nat (GetPrecision b - 1) \<le> mag_val (mag b))"
proof (cases "mag b = []")
  case True
  then show ?thesis by (simp add: GetPrecision_def)
next
  case False
  with assms obtain L where L: "unat (GetBitLength b) = L" "0 < L"
    "2 ^ (L - 1) \<le> mag_val (mag b)" "mag_val (mag b) < 2 ^ L"
    by (rule_tac GetBitLength_spec [of b]) auto
  have "(2::nat) ^ (L - 1) < 2 ^ (32 * 2 ^ 13)"
  proof -
    have "mag_val (mag b) < B32 ^ length (mag b)" by (rule mag_val_bound)
    also have "\<dots> \<le> B32 ^ (2 ^ 13)"
      using assms(2) by (intro power_increasing) (simp_all add: B32_def)
    also have "\<dots> = 2 ^ (32 * 2 ^ 13)"
      unfolding B32_def by (rule power_mult [symmetric])
    finally show ?thesis using L(3) by (rule_tac le_less_trans)
  qed
  then have "L - 1 < 32 * 2 ^ 13"
    by (rule power_less_imp_less_exp [rotated]) simp
  then have L18: "L \<le> 2 ^ 18" by simp
  define r where "r = (L + 1) * 646456993 div 2 ^ 31"
  note est = precision_estimate [OF L(2) L18, folded r_def]
  have "r < 2 ^ 32" using L18 unfolding r_def by (simp add: less_mult_imp_div_less)
  have "unat ((ucast (GetBitLength b) + 1) * 646456993 :: u64) = (L + 1) * 646456993"
    using L18 by (simp add: unat_word_ariths unat_ucast_u64 L(1) mod_simps)
  then have u: "uint (ucast (drop_bit 31 ((ucast (GetBitLength b) + 1) * 646456993 :: u64)) :: u32) = int r"
    using \<open>r < 2 ^ 32\<close> by (simp only: uint_nat word_conv r_def) simp
  have "Compare b (GetPowerOfTen (int r)) True = sgn (int (mag_val (mag b)) - 10 ^ r)"
    using Compare_ignoreSign [OF assms(1), of "GetPowerOfTen (int r)"] GetPowerOfTen_props [of "int r"]
    by (simp add: canonical_def wf_big_def)
  then have "Compare b (GetPowerOfTen (int r)) True < 0 \<longleftrightarrow> mag_val (mag b) < 10 ^ r"
    by (simp add: sgn_if)
  then have g: "GetPrecision b = (if mag_val (mag b) < 10 ^ r then int r else int r + 1)"
    using False unfolding GetPrecision_def Let_def u by simp
  have "10 ^ (r - 1) \<le> mag_val (mag b)" "mag_val (mag b) < 10 ^ (r + 1)"
    using est L(3,4) by linarith+
  moreover have "r \<noteq> 0 \<or> \<not> mag_val (mag b) < 10 ^ r"
    using False assms(1) by (cases "r = 0") (auto simp: normalized_eq_Nil_iff)
  ultimately show ?thesis
    by (auto simp: g nat_add_distrib nat_diff_distrib)
qed

theorem GetPrecision_correct_witness:
  "10 ^ nat (GetPrecision \<lparr>sign = -1, mag = [12345]\<rparr> - 1) \<le> (12345 :: nat) \<and>
   (12345 :: nat) < 10 ^ nat (GetPrecision \<lparr>sign = -1, mag = [12345]\<rparr>)"
  using GetPrecision_correct [of "\<lparr>sign = -1, mag = [12345]\<rparr>"]
  by (simp add: normalized_def)

end
