(* ===== verification/Odbc_BigConvert.thy ===== *)
theory Odbc_BigConvert
  imports Odbc_BigInteger
begin

text \<open>
  \<open>BigInteger\<close> addition and its conversions: to and from 64-bit integers
  (\<open>AssignInt64\<close>/\<open>ToInt64\<close>) and to and from byte strings (the byte constructor and
  \<open>MagnitudeToBytes\<close>), the wire and ODBC forms of a decimal.
\<close>

section \<open>Bytes: operations\<close>

text \<open>One word from one to four bytes, least significant first.\<close>

fun word_of_bytes :: "u8 list \<Rightarrow> u32" where
  "word_of_bytes [] = 0"
| "word_of_bytes (b # bs) = ucast b OR push_bit 8 (word_of_bytes bs)"

text \<open>
  The packing loop of the constructor: four bytes per word while more remain, the last one
  to four bytes in the last word. The list holds the significant bytes, least significant
  first (\<open>val[b]\<close>, \<open>val[b - 1]\<close>, \<dots> for big endian, \<open>val[b]\<close>, \<open>val[b + 1]\<close>, \<dots>
  for little endian).
\<close>

function pack_words :: "u8 list \<Rightarrow> u32 list" where
  "pack_words bs =
     (if bs = [] then []
      else if length bs \<le> 4 then [word_of_bytes bs]
      else word_of_bytes (take 4 bs) # pack_words (drop 4 bs))"
  by pat_completeness auto
termination
  by (relation "measure length") auto

declare pack_words.simps [simp del]

definition BigInteger_of_bytes :: "u8 list \<Rightarrow> int \<Rightarrow> bool \<Rightarrow> BigInteger" where
  "BigInteger_of_bytes val sgn0 bigEndian =
     (let significant = (if bigEndian then rev (dropWhile (\<lambda>b. b = 0) val)
                         else rev (dropWhile (\<lambda>b. b = 0) (rev val)))
      in if significant = [] then AssignInt64 0
         else \<lparr>sign = sgn0, mag = pack_words significant\<rparr>)"

text \<open>The \<open>n\<close> low bytes of a word, most significant first.\<close>

fun word_bytes :: "nat \<Rightarrow> u32 \<Rightarrow> u8 list" where
  "word_bytes 0 w = []"
| "word_bytes (Suc n) w = word_bytes n (drop_bit 8 w) @ [ucast w]"

definition MagnitudeToBytes :: "BigInteger \<Rightarrow> u8 list" where
  "MagnitudeToBytes b =
     (let bytesNum = (unat (GetBitLength b) + 7) div 8 in
      if bytesNum = 0 then [0]
      else
        let bytesRemaining = bytesNum - 4 * (length (mag b) - 1)
        in word_bytes bytesRemaining (last (mag b)) @
           concat (map (word_bytes 4) (rev (butlast (mag b)))))"

section \<open>Addition\<close>

lemma u64_add_carry:
  fixes r a :: u32 and c :: u64
  assumes "unat c < 2 ^ 32"
  shows "unat ((ucast r :: u64) + ucast a + c) = unat r + unat a + unat c"
proof -
  have "unat r + unat a + unat c < 2 ^ 64"
    using assms unat_u32_less [of r] unat_u32_less [of a] by simp
  then show ?thesis
    by (simp add: unat_word_ariths unat_ucast_u64 mod_simps)
qed

lemma drop_bit_32_less: "unat (drop_bit 32 (x :: u64)) < 2 ^ 32"
  using unat_u64_less [of x] by (simp only: word_conv) (simp add: less_mult_imp_div_less)

lemma unat_ucast_carry: "unat (c :: u64) < 2 ^ 32 \<Longrightarrow> unat (ucast c :: u32) = unat c"
  by (simp only: unat_ucast_u32) simp

lemma u64_div: "unat (x :: u64) = unat (ucast x :: u32) + B32 * unat (drop_bit 32 x)"
  using u64_split [of x] unat_ucast_carry [OF drop_bit_32_less] by simp

lemma AddArray_val:
  assumes "length rs = length as" and "unat c < 2 ^ 32"
  shows "\<exists>rs' c'. AddArray rs as c = (rs', c') \<and> length rs' = length rs \<and>
    mag_val rs' + B32 ^ length rs * unat c' = mag_val rs + mag_val as + unat c"
  using assms
proof (induction rs as arbitrary: c rule: list_induct2)
  case Nil
  then show ?case by (simp add: unat_ucast_carry)
next
  case (Cons r rs a as)
  define s where "s = (ucast r :: u64) + ucast a + c"
  have s: "unat s = unat r + unat a + unat c"
    unfolding s_def using Cons.prems by (rule u64_add_carry)
  from Cons.IH [OF drop_bit_32_less, of s] obtain rs' c' where
    ih: "AddArray rs as (drop_bit 32 s) = (rs', c')" "length rs' = length rs"
      "mag_val rs' + B32 ^ length rs * unat c' = mag_val rs + mag_val as + unat (drop_bit 32 s)"
    by blast
  have "B32 * (mag_val rs' + B32 ^ length rs * unat c') =
      B32 * (mag_val rs + mag_val as + unat (drop_bit 32 s))"
    using ih(3) by simp
  then have "unat (ucast s :: u32) + B32 * mag_val rs' + B32 * (B32 ^ length rs) * unat c' =
      unat r + B32 * mag_val rs + (unat a + B32 * mag_val as) + unat c"
    using s u64_div [of s] by (simp add: algebra_simps)
  with ih(1,2) show ?case by (simp add: s_def [symmetric] Let_def)
qed

lemma AddNumber_val:
  assumes "unat c < 2 ^ 32"
  shows "\<exists>rs' c'. AddNumber rs c = (rs', c') \<and> length rs' = length rs \<and>
    mag_val rs' + B32 ^ length rs * unat c' = mag_val rs + unat c"
  using assms
proof (induction rs arbitrary: c)
  case Nil
  then show ?case by (simp add: unat_ucast_carry)
next
  case (Cons r rs)
  show ?case
  proof (cases "c = 0")
    case True
    then show ?thesis by simp
  next
    case False
    define s where "s = (ucast r :: u64) + c"
    have s: "unat s = unat r + unat c"
      unfolding s_def using u64_add_carry [OF Cons.prems, of r 0] by simp
    from Cons.IH [OF drop_bit_32_less, of s] obtain rs' c' where
      ih: "AddNumber rs (drop_bit 32 s) = (rs', c')" "length rs' = length rs"
        "mag_val rs' + B32 ^ length rs * unat c' = mag_val rs + unat (drop_bit 32 s)"
      by blast
    have "B32 * (mag_val rs' + B32 ^ length rs * unat c') = B32 * (mag_val rs + unat (drop_bit 32 s))"
      using ih(3) by simp
    then have "unat (ucast s :: u32) + B32 * mag_val rs' + B32 * (B32 ^ length rs) * unat c' =
        unat r + B32 * mag_val rs + unat c"
      using s u64_div [of s] by (simp add: algebra_simps)
    with ih(1,2) False show ?thesis by (simp add: s_def [symmetric] Let_def)
  qed
qed

lemma normalized_iff: "normalized ws \<longleftrightarrow> ws = [] \<or> B32 ^ (length ws - 1) \<le> mag_val ws"
proof (cases ws rule: rev_cases)
  case (snoc ys y)
  have "last ws = 0 \<Longrightarrow> mag_val ws < B32 ^ (length ws - 1)"
    using snoc mag_val_bound [of ys] by (simp add: mag_val_append)
  with mag_val_lower_bound [of ws] show ?thesis
    by (auto simp: normalized_def)
qed (simp add: normalized_def)

lemma AddMag_props:
  assumes "addend \<noteq> []"
  shows "mag_val (mag (AddMag b addend)) = mag_val (mag b) + mag_val addend"
    and "sign (AddMag b addend) = sign b"
    and "normalized (mag b) \<Longrightarrow> normalized addend \<Longrightarrow> normalized (mag (AddMag b addend))"
proof -
  define n where "n = length addend"
  define ws where "ws = mag b @ replicate (n - length (mag b)) 0"
  have ws: "mag_val ws = mag_val (mag b)" "length ws = max (length (mag b)) n" "n \<le> length ws"
    by (simp_all add: ws_def n_def mag_val_append)
  have tl: "length (take n ws) = length addend" using ws(3) by (simp add: n_def)
  obtain lo c where lo: "AddArray (take n ws) addend 0 = (lo, c)" "length lo = n"
    "mag_val lo + B32 ^ n * unat c = mag_val (take n ws) + mag_val addend"
    using AddArray_val [OF tl, of 0] tl by (auto simp: n_def)
  have "unat (ucast c :: u64) < 2 ^ 32" using unat_u32_less [of c] by (simp add: unat_ucast_u64)
  then obtain hi c' where hi: "AddNumber (drop n ws) (ucast c) = (hi, c')" "length hi = length ws - n"
    "mag_val hi + B32 ^ (length ws - n) * unat c' = mag_val (drop n ws) + unat c"
    using AddNumber_val [of "ucast c" "drop n ws"] by (auto simp: unat_ucast_u64)
  have parts: "mag_val ws = mag_val (take n ws) + B32 ^ n * mag_val (drop n ws)"
    using mag_val_append [of "take n ws" "drop n ws"] ws(3) by (simp add: min_absorb2)
  have pw: "B32 ^ length ws = B32 ^ n * B32 ^ (length ws - n)"
    using ws(3) by (simp flip: power_add)
  have "B32 ^ n * (mag_val hi + B32 ^ (length ws - n) * unat c') = B32 ^ n * (mag_val (drop n ws) + unat c)"
    using hi(3) by simp
  then have sum: "mag_val lo + B32 ^ n * mag_val hi + B32 ^ length ws * unat c' = mag_val ws + mag_val addend"
    using lo(3) parts pw by (simp add: algebra_simps)
  have res: "AddMag b addend =
      (if c \<noteq> 0 then (if c' \<noteq> 0 then b\<lparr>mag := lo @ hi @ [c']\<rparr> else b\<lparr>mag := lo @ hi\<rparr>)
       else b\<lparr>mag := lo @ drop n ws\<rparr>)"
    unfolding AddMag_def Let_def n_def [symmetric] ws_def [symmetric] lo(1) split hi(1) by simp
  show "sign (AddMag b addend) = sign b" by (simp add: res)
  show val: "mag_val (mag (AddMag b addend)) = mag_val (mag b) + mag_val addend"
    using sum ws lo hi parts pw by (auto simp: res mag_val_append algebra_simps)
  have len: "length (mag (AddMag b addend)) = length ws \<or>
      (length (mag (AddMag b addend)) = Suc (length ws) \<and> normalized (mag (AddMag b addend)))"
    using ws(3) lo(2) hi(2) by (auto simp: res normalized_def)
  show "normalized (mag (AddMag b addend))" if nb: "normalized (mag b)" and na: "normalized addend"
    using len
  proof
    assume l: "length (mag (AddMag b addend)) = length ws"
    have "B32 ^ (length ws - 1) \<le> mag_val (mag b) + mag_val addend"
    proof (cases "length (mag b) \<le> n")
      case True
      then show ?thesis
        using mag_val_lower_bound [OF na assms] ws(2) by (simp add: n_def max_def)
    next
      case False
      then have "mag b \<noteq> []" by auto
      then show ?thesis
        using False mag_val_lower_bound [OF nb] ws(2) by (simp add: max_def)
    qed
    with l val show ?thesis by (simp add: normalized_iff)
  qed simp
qed

text \<open>Adding an unsigned 64-bit number adds it to the magnitude, whatever the sign: for
  a non-negative value this is addition, for a negative one the value decreases.\<close>

lemma AddUint64_props:
  assumes "canonical b"
  shows "big_val (AddUint64 b x) = big_val b + sign b * uint x \<and> canonical (AddUint64 b x)"
proof (cases "x = 0 \<or> IsZero b")
  case True
  with assms show ?thesis
    by (auto simp: AddUint64_def IsZero_def canonical_AssignUint64 big_val_AssignUint64
        canonical_def [of b] big_val_def [of b])
next
  case False
  let ?lo = "ucast x :: u32" and ?hi = "ucast (drop_bit 32 x) :: u32"
  define as where "as = (if ?hi \<noteq> 0 then [?lo, ?hi] else [?lo])"
  have as: "as \<noteq> []" "mag_val as = unat x" "normalized as"
    using u64_split [of x] False by (auto simp: as_def normalized_def simp flip: unat_eq_zero)
  have eq: "AddUint64 b x = AddMag b as"
    using False by (simp add: AddUint64_def as_def Let_def)
  have nb: "normalized (mag b)" and s: "sign b = 1 \<or> sign b = -1"
    using assms by (auto simp: canonical_def wf_big_def)
  note am = AddMag_props [OF as(1), of b]
  have "big_val (AddUint64 b x) = big_val b + sign b * uint x"
    by (simp add: eq big_val_def am(1,2) as(2) algebra_simps)
  moreover have "mag (AddMag b as) \<noteq> []"
    using am(1) as(2) False by (auto simp flip: unat_eq_zero)
  ultimately show ?thesis
    using am(2) am(3) [OF nb as(3)] s by (simp add: eq canonical_def wf_big_def)
qed

section \<open>64-bit integers\<close>

lemma ToInt64_join:
  "push_bit 32 (ucast (h :: u32) :: u64) OR ucast (l :: u32) = ucast h * 2 ^ 32 + ucast l"
proof -
  have "push_bit 32 (ucast h :: u64) OR ucast l = push_bit 32 (ucast h) + ucast l"
    by (rule or_push_bit_add) (simp only: unat_ucast_u64 unat_u32_less)
  then show ?thesis
    by (simp only: push_bit_eq_mult)
qed

lemma u64_join: "(ucast (ucast (drop_bit 32 x) :: u32) * 2 ^ 32 + ucast (ucast x :: u32) :: u64) = x"
proof -
  have "unat (ucast (ucast (drop_bit 32 x) :: u32) * 2 ^ 32 + ucast (ucast x :: u32) :: u64) =
      (unat (ucast (drop_bit 32 x) :: u32) * 2 ^ 32 + unat (ucast x :: u32)) mod 2 ^ 64"
    by (simp add: unat_word_ariths unat_ucast_u64 mod_simps)
  also have "\<dots> = unat x"
    using u64_split [of x] unat_u64_less [of x] by (simp add: B32_def)
  finally show ?thesis by (simp only: word_unat_eq_iff)
qed

lemma ucast_minus_u32:
  assumes "w \<noteq> (0 :: u32)"
  shows "(ucast (- w) :: u64) = 2 ^ 32 - ucast w"
proof -
  have pos: "0 < unat w" using assms by (simp add: unat_gt_0)
  have "(unat w + unat (- w)) mod 2 ^ 32 = 0"
    using unat_word_ariths(1) [of w "- w"] by simp
  then obtain k where k: "unat w + unat (- w) = 2 ^ 32 * k"
    by (auto simp: mod_eq_0_iff_dvd elim: dvdE)
  have "k = 1"
    using k pos unat_u32_less [of w] unat_u32_less [of "- w"] by simp
  with k have "unat w + unat (- w) = 2 ^ 32" by simp
  then have "(of_nat (unat w + unat (- w)) :: u64) = of_nat (2 ^ 32)" by (simp only:)
  then have "(ucast w + ucast (- w) :: u64) = 2 ^ 32" by simp
  then show ?thesis by (simp add: algebra_simps)
qed

lemma u64_high_complement: "(2 ^ 32 - w) * 2 ^ 32 = - (w * 2 ^ 32)" for w :: u64
proof -
  have "(2 :: u64) ^ 32 * 2 ^ 32 = 2 ^ (32 + 32)" by (rule power_add [symmetric])
  also have "\<dots> = 0" by (simp only: exp_eq_zero_iff) simp
  finally show ?thesis by (simp only: left_diff_distrib diff_0)
qed

lemma u64_high_minus: "ucast (- hi) * 2 ^ 32 = - (ucast hi * 2 ^ 32 :: u64)" for hi :: u32
proof (cases "hi = 0")
  case False
  then show ?thesis by (simp only: ucast_minus_u32 u64_high_complement not_False_eq_True)
qed (simp only: minus_zero unsigned_0 mult_zero_left)

lemma u64_high_ones: "(ucast (- 1 :: u32) :: u64) * 2 ^ 32 = - (2 ^ 32)"
  using u64_high_complement [of 1] by (simp only: ucast_minus_u32 [of 1] one_neq_zero not_False_eq_True unsigned_1 mult_1)

text \<open>\<open>ToInt64\<close> inverts \<open>AssignInt64\<close> on every non-negative value and on negative
  values whose magnitude fits one word or has a zero low word; on every other negative value
  the missing borrow makes the result too large by \<open>2 ^ 32\<close>.\<close>

theorem ToInt64_AssignInt64:
  "ToInt64 (AssignInt64 x) =
    (if sint x < 0 \<and> ucast (- x) \<noteq> (0 :: u32) \<and> ucast (drop_bit 32 (- x)) \<noteq> (0 :: u32)
     then x + 2 ^ 32 else x)"
proof (cases "sint x < 0")
  case False
  then show ?thesis
    using u64_join [of x]
    by (auto simp: ToInt64_def ToInt64_join AssignInt64_def AssignUint64_def GetMagInt_def Let_def)
next
  case True
  define lo where "lo = (ucast (- x) :: u32)"
  define hi where "hi = (ucast (drop_bit 32 (- x)) :: u32)"
  have nz: "- x \<noteq> 0" using True by auto
  have j: "ucast hi * 2 ^ 32 + ucast lo = - x"
    unfolding lo_def hi_def by (rule u64_join)
  have m: "AssignInt64 x = \<lparr>sign = -1, mag = (if hi = 0 then [lo] else [lo, hi])\<rparr>"
    using True nz by (simp add: AssignInt64_def AssignUint64_def Let_def lo_def hi_def)
  have lo0: "hi = 0 \<Longrightarrow> lo \<noteq> 0" using j nz by auto
  have x: "x = - (ucast hi * 2 ^ 32) - ucast lo"
  proof -
    have "x = - (- x)" by simp
    then show ?thesis by (simp only: j [symmetric] minus_add_distrib diff_conv_add_uminus)
  qed
  show ?thesis
  proof (cases "hi = 0")
    case True
    with lo0 have l: "(ucast (- lo) :: u64) = 2 ^ 32 - ucast lo"
      by (intro ucast_minus_u32) simp
    have "ToInt64 (AssignInt64 x) = ucast (- 1 :: u32) * 2 ^ 32 + ucast (- lo)"
      using True by (simp only: ToInt64_def ToInt64_join m) (simp add: GetMagInt_def)
    also have "\<dots> = x"
      using True x by (simp only: l u64_high_ones) simp
    finally show ?thesis using True by (simp add: hi_def)
  next
    case False
    have t: "ToInt64 (AssignInt64 x) = ucast (- hi) * 2 ^ 32 + ucast (- lo)"
      using False by (simp only: ToInt64_def ToInt64_join m) (simp add: GetMagInt_def)
    show ?thesis
    proof (cases "lo = 0")
      case True
      with t u64_high_minus [of hi] x have "ToInt64 (AssignInt64 x) = x" by simp
      with True show ?thesis by (simp add: lo_def)
    next
      case nlo: False
      then have "ToInt64 (AssignInt64 x) = x + 2 ^ 32"
        using t u64_high_minus [of hi] x ucast_minus_u32 [OF nlo] by simp
      with \<open>sint x < 0\<close> nlo False show ?thesis by (simp add: lo_def hi_def)
    qed
  qed
qed

section \<open>Bytes\<close>

interpretation b256: radix 256
  by unfold_locales simp

text \<open>The value of a byte string, least significant byte first.\<close>

definition bytes_val :: "u8 list \<Rightarrow> nat" where
  "bytes_val bs = digs_val 256 (map unat bs)"

lemma bytes_val_simps [simp]:
  "bytes_val [] = 0" "bytes_val (b # bs) = unat b + 256 * bytes_val bs"
  by (simp_all add: bytes_val_def)

lemma bytes_val_append: "bytes_val (xs @ ys) = bytes_val xs + 256 ^ length xs * bytes_val ys"
  by (simp add: bytes_val_def b256.val_append)

lemma unat_u8_less: "unat (b :: u8) < 256"
  using unsigned_less [of b] by simp

lemma bytes_val_bound: "bytes_val bs < 256 ^ length bs"
proof -
  have "digs_ok 256 (map unat bs)"
    using unat_u8_less by (induction bs) (simp_all add: digs_ok_def)
  from b256.val_bound [OF this] show ?thesis by (simp add: bytes_val_def)
qed

lemma B32_bytes: "B32 = 256 ^ 4"
  by (simp add: B32_def)

lemma unat_ucast_u8 [word_conv]: "unat (ucast (b :: u8) :: u32) = unat b"
  by (simp add: unsigned_ucast_eq take_bit_nat_eq_self less_le_trans [OF unsigned_less])

lemma unat_word_of_bytes: "length bs \<le> 4 \<Longrightarrow> unat (word_of_bytes bs) = bytes_val bs"
proof (induction bs)
  case Nil
  then show ?case by simp
next
  case (Cons b bs)
  have ih: "unat (word_of_bytes bs) = bytes_val bs" using Cons by simp
  have "bytes_val bs < 256 ^ length bs" by (rule bytes_val_bound)
  also have "\<dots> \<le> 256 ^ 3" using Cons.prems by (intro power_increasing) simp_all
  finally have le: "bytes_val bs < 256 ^ 3" .
  have sh: "unat (push_bit 8 (word_of_bytes bs)) = bytes_val bs * 2 ^ 8"
    using ih le unat_push_bit_no_overflow [of "word_of_bytes bs" 8] by simp
  have "word_of_bytes (b # bs) = push_bit 8 (word_of_bytes bs) OR ucast b"
    by (simp only: word_of_bytes.simps or.commute)
  also have "\<dots> = push_bit 8 (word_of_bytes bs) + ucast b"
    using unat_u8_less [of b] by (intro or_push_bit_add) (simp only: word_conv, simp)
  finally have "unat (word_of_bytes (b # bs)) = (bytes_val bs * 2 ^ 8 + unat b) mod 2 ^ 32"
    by (simp only: unat_word_ariths sh word_conv) simp
  also have "\<dots> = bytes_val (b # bs)"
    using le unat_u8_less [of b] by simp
  finally show ?case .
qed

lemma pack_words_val: "mag_val (pack_words bs) = bytes_val bs"
proof (induction bs rule: pack_words.induct)
  case (1 bs)
  show ?case
  proof (cases "length bs \<le> 4")
    case True
    then show ?thesis
      by (cases "bs = []") (simp_all add: pack_words.simps unat_word_of_bytes)
  next
    case False
    then have "bs \<noteq> []" by auto
    have "bytes_val bs = bytes_val (take 4 bs) + 256 ^ 4 * bytes_val (drop 4 bs)"
      using bytes_val_append [of "take 4 bs" "drop 4 bs"] False by simp
    with False \<open>bs \<noteq> []\<close> "1.IH" show ?thesis
      by (simp add: pack_words.simps [of bs] unat_word_of_bytes B32_bytes)
  qed
qed

lemma pack_words_normalized: "bs \<noteq> [] \<Longrightarrow> last bs \<noteq> 0 \<Longrightarrow> normalized (pack_words bs) \<and> pack_words bs \<noteq> []"
proof (induction bs rule: pack_words.induct)
  case (1 bs)
  show ?case
  proof (cases "length bs \<le> 4")
    case True
    have "bytes_val bs \<noteq> 0"
      using "1.prems" b256.val_eq_0_iff [of "map unat bs"] last_in_set [of bs]
      by (auto simp: bytes_val_def list_all_iff simp flip: unat_eq_zero)
    with True "1.prems"(1) have "word_of_bytes bs \<noteq> 0"
      by (auto simp flip: unat_word_of_bytes)
    with True "1.prems" show ?thesis
      by (simp add: pack_words.simps [of bs] normalized_def)
  next
    case False
    with "1.prems" have "normalized (pack_words (drop 4 bs)) \<and> pack_words (drop 4 bs) \<noteq> []"
      by (intro "1.IH") auto
    with False "1.prems" show ?thesis
      by (auto simp: pack_words.simps [of bs] normalized_def)
  qed
qed

lemma mag_val_inj:
  assumes "normalized xs" "normalized ys" "mag_val xs = mag_val ys"
  shows "xs = ys"
proof -
  have "length xs = length ys"
    using assms mag_val_less_by_length [of xs ys] mag_val_less_by_length [of ys xs]
    by (metis less_irrefl linorder_neqE_nat)
  then have "map unat xs = map unat ys"
    using assms(3) by (intro w32.val_inj_length) (simp_all add: mag_val_def)
  then show ?thesis
    by (simp add: inj_map_eq_map inj_on_def word_unat_eq_iff)
qed

lemma canonical_eqI:
  assumes "canonical a" "canonical b" "big_val a = big_val b"
  shows "a = b"
proof -
  have m: "mag_val (mag a) = mag_val (mag b)" and s: "mag a \<noteq> [] \<Longrightarrow> sign a = sign b"
    using assms by (auto simp: canonical_def wf_big_def big_val_def normalized_eq_Nil_iff [symmetric])
  have "mag a = mag b"
    using assms m by (intro mag_val_inj) (auto simp: canonical_def wf_big_def)
  moreover have "sign a = sign b"
    using assms s calculation by (cases "mag a = []") (auto simp: canonical_def)
  ultimately show ?thesis by simp
qed

lemma bytes_val_rev_dropWhile: "bytes_val (rev (dropWhile (\<lambda>b. b = 0) bs)) = bytes_val (rev bs)"
  by (induction bs) (simp_all add: bytes_val_append)

text \<open>The byte constructor reads the bytes as an unsigned number in the given byte
  order, whatever leading zero bytes there are, and keeps the magnitude normalised.\<close>

lemma BigInteger_of_bytes_props:
  "mag_val (mag (BigInteger_of_bytes val s bigEndian)) = bytes_val (if bigEndian then rev val else val) \<and>
   normalized (mag (BigInteger_of_bytes val s bigEndian)) \<and>
   sign (BigInteger_of_bytes val s bigEndian) = (if list_all (\<lambda>b. b = 0) val then 1 else s)"
proof -
  define sig where "sig = (if bigEndian then rev (dropWhile (\<lambda>b. b = 0) val)
      else rev (dropWhile (\<lambda>b. b = 0) (rev val)))"
  have v: "bytes_val sig = bytes_val (if bigEndian then rev val else val)"
    using bytes_val_rev_dropWhile [of val] bytes_val_rev_dropWhile [of "rev val"] by (simp add: sig_def)
  have e: "sig = [] \<longleftrightarrow> list_all (\<lambda>b. b = 0) val"
    by (auto simp: sig_def dropWhile_eq_Nil_conv list_all_iff)
  have l: "sig \<noteq> [] \<Longrightarrow> last sig \<noteq> 0"
    using hd_dropWhile [of "\<lambda>b. b = 0" val] hd_dropWhile [of "\<lambda>b. b = 0" "rev val"]
    by (auto simp: sig_def last_rev)
  have m: "BigInteger_of_bytes val s bigEndian =
      (if sig = [] then AssignInt64 0 else \<lparr>sign = s, mag = pack_words sig\<rparr>)"
    by (simp add: BigInteger_of_bytes_def sig_def Let_def)
  show ?thesis
  proof (cases "sig = []")
    case True
    with v e show ?thesis
      by (simp add: m AssignInt64_def AssignUint64_def normalized_def)
  next
    case False
    with v e l pack_words_val [of sig] pack_words_normalized [of sig] show ?thesis
      by (simp add: m)
  qed
qed

lemma unat_ucast_to_u8 [word_conv]: "unat (ucast (w :: u32) :: u8) = unat w mod 256"
  by (simp add: unsigned_ucast_eq take_bit_eq_mod)

lemma length_word_bytes [simp]: "length (word_bytes n w) = n"
  by (induction n arbitrary: w) simp_all

lemma word_bytes_val: "bytes_val (rev (word_bytes n w)) = unat w mod 256 ^ n"
proof (induction n arbitrary: w)
  case 0
  then show ?case by simp
next
  case (Suc n)
  then have "bytes_val (rev (word_bytes (Suc n) w)) = unat w mod 256 + 256 * (unat w div 256 mod 256 ^ n)"
    by (simp add: word_conv)
  also have "\<dots> = unat w mod (256 * 256 ^ n)"
    by (simp add: mod_mult2_eq)
  finally show ?case by simp
qed

lemma low_bytes_val:
  "bytes_val (rev (concat (map (word_bytes 4) (rev ws)))) = mag_val ws \<and>
   length (rev (concat (map (word_bytes 4) (rev ws)))) = 4 * length ws"
proof (induction ws)
  case Nil
  then show ?case by simp
next
  case (Cons w ws)
  have "unat w mod 256 ^ 4 = unat w"
    using unat_lt_B32 [of w] by (simp add: B32_bytes)
  with Cons show ?case
    by (simp add: bytes_val_append word_bytes_val B32_bytes)
qed

text \<open>\<open>MagnitudeToBytes\<close> writes the magnitude in big-endian order with no leading zero
  byte (a single zero byte for zero).\<close>

lemma MagnitudeToBytes_props:
  assumes "normalized (mag b)" and "length (mag b) < 2 ^ 26"
  shows "bytes_val (rev (MagnitudeToBytes b)) = mag_val (mag b) \<and>
    (MagnitudeToBytes b = [0] \<or> hd (MagnitudeToBytes b) \<noteq> 0)"
proof (cases "mag b = []")
  case True
  then show ?thesis by (simp add: MagnitudeToBytes_def GetBitLength_def)
next
  case False
  with assms obtain L where L: "unat (GetBitLength b) = L" "0 < L"
    "2 ^ (L - 1) \<le> mag_val (mag b)" "mag_val (mag b) < 2 ^ L"
    by (rule_tac GetBitLength_spec [of b]) auto
  define n where "n = length (mag b) - 1"
  define N where "N = (L + 7) div 8"
  define r where "r = N - 4 * n"
  define low where "low = butlast (mag b)"
  define top where "top = last (mag b)"
  have val: "mag_val (mag b) = mag_val low + B32 ^ n * unat top"
    using mag_val_append [of low "[top]"] False by (simp add: low_def top_def n_def)
  have low: "length low = n" "mag_val low < B32 ^ n"
    using mag_val_bound [of low] by (simp_all add: low_def n_def)
  have pw: "B32 ^ n = 2 ^ (32 * n)" unfolding B32_def by (rule power_mult [symmetric])
  have "B32 ^ n \<le> mag_val (mag b)"
    using mag_val_lower_bound [OF assms(1) False] by (simp add: n_def)
  with L(4) pw have "(2::nat) ^ (32 * n) < 2 ^ L" by linarith
  then have nL: "32 * n < L" by (rule power_less_imp_less_exp [rotated]) simp
  then have N: "8 * N = 8 * r + 32 * n" "L \<le> 8 * N" "8 * N \<le> L + 7" "0 < r" "N \<noteq> 0"
    by (simp_all add: r_def N_def)
  have top: "unat top < 256 ^ r"
  proof (rule ccontr)
    assume "\<not> unat top < 256 ^ r"
    then have "B32 ^ n * 256 ^ r \<le> mag_val (mag b)"
      using val by (simp add: trans_le_add2)
    moreover have "B32 ^ n * 256 ^ r = 2 ^ (8 * N)"
    proof -
      have "(256::nat) ^ r = 2 ^ (8 * r)" using power_mult [of "2::nat" 8 r] by simp
      then have "B32 ^ n * 256 ^ r = 2 ^ (32 * n + 8 * r)" by (simp only: pw power_add)
      then show ?thesis by (simp only: N(1) add.commute)
    qed
    moreover have "(2::nat) ^ L \<le> 2 ^ (8 * N)" using N(2) by (intro power_increasing) simp_all
    ultimately show False using L(4) by linarith
  qed
  have m: "MagnitudeToBytes b = word_bytes r top @ concat (map (word_bytes 4) (rev low))"
    using N(5) unfolding MagnitudeToBytes_def Let_def L(1) N_def [symmetric] n_def [symmetric]
      r_def [symmetric] top_def [symmetric] low_def [symmetric] by simp
  have v: "bytes_val (rev (MagnitudeToBytes b)) = mag_val (mag b)"
    using low_bytes_val [of low] low(1) top
    by (simp add: m bytes_val_append word_bytes_val val B32_bytes power_mult)
  have len: "length (MagnitudeToBytes b) = N"
    using low_bytes_val [of low] low(1) N(1,4) by (simp add: m r_def)
  have "hd (MagnitudeToBytes b) \<noteq> 0"
  proof
    assume z: "hd (MagnitudeToBytes b) = 0"
    obtain t where t: "MagnitudeToBytes b = 0 # t" "length t = N - 1"
      using z len N(5) by (cases "MagnitudeToBytes b") auto
    then have "mag_val (mag b) < 256 ^ (N - 1)"
      using v bytes_val_bound [of "rev t"] by (simp add: bytes_val_append)
    also have "(256::nat) ^ (N - 1) = 2 ^ (8 * (N - 1))"
      using power_mult [of "2::nat" 8 "N - 1"] by simp
    also have "\<dots> \<le> 2 ^ (L - 1)"
      using N by (intro power_increasing) auto
    finally show False using L(3) by simp
  qed
  with v show ?thesis by simp
qed

text \<open>Round trip: reading back the bytes of a canonical value gives the value.\<close>

lemma BigInteger_bytes_roundtrip:
  assumes "canonical b" and "length (mag b) < 2 ^ 26"
  shows "BigInteger_of_bytes (MagnitudeToBytes b) (sign b) True = b"
proof -
  let ?r = "BigInteger_of_bytes (MagnitudeToBytes b) (sign b) True"
  have n: "normalized (mag b)" using assms(1) by (simp add: canonical_def wf_big_def)
  have v: "bytes_val (rev (MagnitudeToBytes b)) = mag_val (mag b)"
    using MagnitudeToBytes_props [OF n assms(2)] by simp
  have r: "mag_val (mag ?r) = mag_val (mag b)" "normalized (mag ?r)"
    "sign ?r = (if list_all (\<lambda>b. b = 0) (MagnitudeToBytes b) then 1 else sign b)"
    using BigInteger_of_bytes_props [of "MagnitudeToBytes b" "sign b" True] v by simp_all
  then have "mag ?r = mag b" using n by (intro mag_val_inj)
  moreover have "sign ?r = sign b"
  proof (cases "list_all (\<lambda>b. b = 0) (MagnitudeToBytes b)")
    case True
    then have "bytes_val (rev (MagnitudeToBytes b)) = 0"
      by (auto simp: bytes_val_def b256.val_eq_0_iff list_all_iff)
    with v n have "mag b = []" by (simp add: normalized_eq_Nil_iff)
    with True r(3) assms(1) show ?thesis by (simp add: canonical_def)
  next
    case False
    then show ?thesis using r(3) by simp
  qed
  ultimately show ?thesis by simp
qed

end
