(* ===== verification/Odbc_Memory.thy ===== *)
theory Odbc_Memory
  imports Odbc_Types Odbc_BigConvert Odbc_Text
begin

text \<open>
  The application's memory as the driver sees it through the pointers an application binds: a
  store of bytes by address. A null pointer is \<open>None\<close>. Numbers are stored little-endian, as
  on the platforms the driver supports. Then the string conversions of \<^verbatim>\<open>src/utility.cpp\<close>
  that copy into this memory, with the UTF-8 decoding (\<open>std::codecvt_utf8\<close>) they use.
\<close>

type_synonym mem = "nat \<Rightarrow> u8"

section \<open>Bytes in memory\<close>

definition write_bytes :: "mem \<Rightarrow> nat \<Rightarrow> u8 list \<Rightarrow> mem" where
  "write_bytes m a bs = (\<lambda>x. if a \<le> x \<and> x < a + length bs then bs ! (x - a) else m x)"

definition read_bytes :: "mem \<Rightarrow> nat \<Rightarrow> nat \<Rightarrow> u8 list" where
  "read_bytes m a n = map m [a..<a + n]"

lemma length_read_bytes [simp]: "length (read_bytes m a n) = n"
  by (simp add: read_bytes_def)

lemma read_write_same [simp]: "read_bytes (write_bytes m a bs) a (length bs) = bs"
  by (rule nth_equalityI) (simp_all add: read_bytes_def write_bytes_def)

lemma read_write_prefix: "n \<le> length bs \<Longrightarrow> read_bytes (write_bytes m a bs) a n = take n bs"
  by (rule nth_equalityI) (simp_all add: read_bytes_def write_bytes_def)

lemma read_write_within:
  "k + n \<le> length bs \<Longrightarrow> read_bytes (write_bytes m a bs) (a + k) n = take n (drop k bs)"
  by (rule nth_equalityI) (simp_all add: read_bytes_def write_bytes_def)

lemma read_write_disjoint:
  "b + n \<le> a \<or> a + length bs \<le> b \<Longrightarrow> read_bytes (write_bytes m a bs) b n = read_bytes m b n"
  by (rule nth_equalityI) (auto simp: read_bytes_def write_bytes_def)

lemma write_bytes_outside: "x < a \<or> a + length bs \<le> x \<Longrightarrow> write_bytes m a bs x = m x"
  by (auto simp: write_bytes_def)

lemma write_bytes_Nil [simp]: "write_bytes m a [] = m"
  by (rule ext) (auto simp: write_bytes_def)

section \<open>Numbers in memory\<close>

definition int_bytes :: "nat \<Rightarrow> int \<Rightarrow> u8 list" where
  "int_bytes n i = map (\<lambda>k. word_of_int (i div 256 ^ k)) [0..<n]"

definition uint_of_bytes :: "u8 list \<Rightarrow> int" where
  "uint_of_bytes bs = int (bytes_val bs)"

definition sint_of_bytes :: "u8 list \<Rightarrow> int" where
  "sint_of_bytes bs = to_signed (8 * length bs) (uint_of_bytes bs)"

lemma length_int_bytes [simp]: "length (int_bytes n i) = n"
  by (simp add: int_bytes_def)

lemma int_bytes_Suc: "int_bytes (Suc n) i = word_of_int i # int_bytes n (i div 256)"
  by (simp add: int_bytes_def upt_conv_Cons map_Suc_upt [symmetric] zdiv_zmult2_eq del: upt_Suc)

lemma uint_of_int_bytes: "uint_of_bytes (int_bytes n i) = i mod 256 ^ n"
proof (induction n arbitrary: i)
  case 0
  then show ?case by (simp add: uint_of_bytes_def int_bytes_def bytes_val_def)
next
  case (Suc n)
  have w: "int (unat (word_of_int i :: u8)) = i mod 256"
    by (simp add: unsigned_of_int take_bit_eq_mod)
  have "uint_of_bytes (int_bytes (Suc n) i) = i mod 256 + 256 * (i div 256 mod 256 ^ n)"
    using Suc [of "i div 256"] w by (simp add: uint_of_bytes_def int_bytes_Suc bytes_val_def)
  also have "\<dots> = i mod (256 * 256 ^ n)"
    using zmod_zmult2_eq [of "256 ^ n" i 256] by simp
  finally show ?case by simp
qed

lemma to_signed_mod: "0 < w \<Longrightarrow> to_signed w (i mod 2 ^ w) = to_signed w i"
  by (simp add: to_signed_def mod_add_left_eq)

lemma sint_of_int_bytes: "0 < n \<Longrightarrow> sint_of_bytes (int_bytes n i) = to_signed (8 * n) i"
  using to_signed_mod [of "8 * n" i]
  by (simp add: sint_of_bytes_def uint_of_int_bytes power_mult)

section \<open>UTF-8\<close>

text \<open>One character of UTF-8 input: the code point and the input left.\<close>

datatype utf8_read = U_char nat "nat list" | U_incomplete | U_invalid

definition utf8_cont :: "nat \<Rightarrow> bool" where
  "utf8_cont c \<longleftrightarrow> 0x80 \<le> c \<and> c < 0xC0"

fun utf8_tail :: "nat \<Rightarrow> nat \<Rightarrow> nat list \<Rightarrow> utf8_read" where
  "utf8_tail acc 0 cs = U_char acc cs"
| "utf8_tail acc (Suc k) [] = U_incomplete"
| "utf8_tail acc (Suc k) (c # cs) =
     (if utf8_cont c then utf8_tail (acc * 64 + (c - 0x80)) k cs else U_invalid)"

fun utf8_next :: "nat list \<Rightarrow> utf8_read" where
  "utf8_next [] = U_incomplete"
| "utf8_next (b # bs) =
     (if b < 0x80 then U_char b bs
      else if b < 0xC2 then U_invalid
      else if b < 0xE0 then utf8_tail (b - 0xC0) 1 bs
      else if b < 0xF0 then
        (if b = 0xE0 \<and> bs \<noteq> [] \<and> hd bs < 0xA0 then U_invalid else utf8_tail (b - 0xE0) 2 bs)
      else if b < 0xF5 then
        (if b = 0xF0 \<and> bs \<noteq> [] \<and> hd bs < 0x90 then U_invalid else utf8_tail (b - 0xF0) 3 bs)
      else U_invalid)"

datatype cvt_result = cvt_ok | cvt_partial | cvt_error

lemma utf8_tail_length: "utf8_tail acc k cs = U_char c rest \<Longrightarrow> length rest \<le> length cs"
  by (induction acc k cs rule: utf8_tail.induct) (auto split: if_splits)

text \<open>
  \<open>codecvt_utf8::in\<close> with room for \<open>n\<close> characters and the largest code point \<open>maxcode\<close>: the
  characters written, the input left and the result.
\<close>

fun utf8_in :: "nat \<Rightarrow> nat \<Rightarrow> nat list \<Rightarrow> nat list \<times> nat list \<times> cvt_result" where
  "utf8_in maxcode n [] = ([], [], cvt_ok)"
| "utf8_in maxcode 0 (b # bs) = ([], b # bs, cvt_partial)"
| "utf8_in maxcode (Suc n) (b # bs) =
     (case utf8_next (b # bs) of
        U_incomplete \<Rightarrow> ([], b # bs, cvt_partial)
      | U_invalid \<Rightarrow> ([], b # bs, cvt_error)
      | U_char c rest \<Rightarrow>
          if c > maxcode then ([], b # bs, cvt_error)
          else let (cs, left, r) = utf8_in maxcode n rest in (c # cs, left, r))"

lemma utf8_in_ascii:
  assumes "list_all (\<lambda>b. b < 0x80) bs" and "0x80 \<le> maxcode"
  shows "utf8_in maxcode n bs = (take n bs, drop n bs, if n < length bs then cvt_partial else cvt_ok)"
  using assms
proof (induction n arbitrary: bs)
  case 0
  then show ?case by (cases bs) simp_all
next
  case (Suc n)
  then show ?case by (cases bs) simp_all
qed

lemma utf8_in_length: "utf8_in maxcode n bs = (cs, left, r) \<Longrightarrow> length cs \<le> n"
  by (induction maxcode n bs arbitrary: cs left r rule: utf8_in.induct)
    (auto split: utf8_read.splits prod.splits if_splits)

text \<open>A C string: the characters before the first NUL.\<close>

definition c_str :: "string \<Rightarrow> nat list" where
  "c_str s = takeWhile (\<lambda>b. b \<noteq> 0) (map of_char s)"

section \<open>Copying strings into buffers\<close>

text \<open>
  \<open>CopyUtf8StringToSqlCharString\<close>: decodes the whole input (\<open>from_bytes\<close>, which throws on
  malformed input: \<open>None\<close>), narrows each character in the current locale (the parameter
  \<open>narrow\<close>) and terminates the output. The result is the memory, the number of characters
  and the truncation flag (unchanged where the source does not set it).
\<close>

definition CopyUtf8StringToSqlCharString ::
  "(nat \<Rightarrow> u8) \<Rightarrow> mem \<Rightarrow> string \<Rightarrow> nat option \<Rightarrow> nat \<Rightarrow> bool \<Rightarrow> (mem \<times> nat \<times> bool) option" where
  "CopyUtf8StringToSqlCharString narrow m inBuffer outBuffer outBufferLenBytes isTruncated =
     (if outBuffer \<noteq> None \<and> outBufferLenBytes = 0 then Some (m, 0, isTruncated)
      else case utf8_in 0x10FFFF (length (c_str inBuffer)) (c_str inBuffer) of
             (chars, left, r) \<Rightarrow>
               if r \<noteq> cvt_ok then None
               else (case outBuffer of
                       None \<Rightarrow> Some (m, length chars, isTruncated)
                     | Some a \<Rightarrow>
                         let n = min (length chars) (outBufferLenBytes - 1)
                         in Some (write_bytes m a (map narrow (take n chars) @ [0]), n, n < length chars)))"

text \<open>
  \<open>CopyUtf8StringToWcharString\<close> for a \<open>SQLWCHAR\<close> of \<open>wCharSize\<close> bytes (2 or 4). The largest
  code point follows from that size; the source asserts that the length is a multiple of it.
  The result counts bytes.
\<close>

definition wmaxcode :: "nat \<Rightarrow> nat" where
  "wmaxcode wCharSize = (if wCharSize = 2 then 0xFFFF else 0x10FFFF)"

definition wchar_bytes :: "nat \<Rightarrow> nat list \<Rightarrow> u8 list" where
  "wchar_bytes wCharSize cs = concat (map (\<lambda>c. int_bytes wCharSize (int c)) cs)"

definition CopyUtf8StringToWcharString ::
  "nat \<Rightarrow> mem \<Rightarrow> string \<Rightarrow> nat option \<Rightarrow> nat \<Rightarrow> bool \<Rightarrow> mem \<times> nat \<times> bool" where
  "CopyUtf8StringToWcharString wCharSize m inBuffer outBuffer outBufferLenBytes isTruncated =
     (if outBuffer \<noteq> None \<and> outBufferLenBytes = 0 then (m, 0, isTruncated)
      else
        let input = c_str inBuffer;
            room = (if outBuffer = None then length input else outBufferLenBytes div wCharSize - 1);
            (chars, left, r) = utf8_in (wmaxcode wCharSize) room input;
            m' = (case outBuffer of
                    None \<Rightarrow> m
                  | Some a \<Rightarrow> write_bytes m a (wchar_bytes wCharSize (chars @ [0])))
        in (m', length chars * wCharSize,
            (case r of cvt_error \<Rightarrow> True | _ \<Rightarrow> r = cvt_partial \<or> left \<noteq> [])))"

definition CopyStringToBuffer ::
  "nat \<Rightarrow> mem \<Rightarrow> string \<Rightarrow> nat option \<Rightarrow> nat \<Rightarrow> bool \<Rightarrow> mem \<times> nat \<times> bool" where
  "CopyStringToBuffer wCharSize m str buf buflen isLenInBytes =
     (let bufLenInBytes = (if isLenInBytes then buflen else buflen * wCharSize);
          (m', bytesWritten, isTruncated) = CopyUtf8StringToWcharString wCharSize m str buf bufLenInBytes False
      in (m', if isLenInBytes then bytesWritten else bytesWritten div wCharSize, isTruncated))"

text \<open>\<open>SqlCharToString\<close>: \<open>SQL_NTS\<close> is -3; other negative lengths give the empty string. A
  search for the terminator is bounded by \<open>bound\<close>, the room the caller knows to exist.\<close>

fun c_string_at :: "nat \<Rightarrow> mem \<Rightarrow> nat \<Rightarrow> string option" where
  "c_string_at 0 m a = None"
| "c_string_at (Suc bound) m a =
     (if m a = 0 then Some []
      else case c_string_at bound m (Suc a) of
             None \<Rightarrow> None
           | Some s \<Rightarrow> Some (char_of (unat (m a)) # s))"

definition SqlCharToString :: "nat \<Rightarrow> mem \<Rightarrow> nat option \<Rightarrow> int \<Rightarrow> string option" where
  "SqlCharToString bound m sqlStr sqlStrLen =
     (case sqlStr of
        None \<Rightarrow> Some []
      | Some a \<Rightarrow>
          if sqlStrLen = 0 then Some []
          else if sqlStrLen = -3 then c_string_at bound m a
          else if sqlStrLen > 0 then
            Some (map (\<lambda>b. char_of (unat b)) (read_bytes m a (nat sqlStrLen)))
          else Some [])"

text \<open>\<open>SqlWcharToString\<close>: wide characters up to a terminator, encoded as UTF-8
  (\<open>wstring_convert::to_bytes\<close>).\<close>

definition utf8_encode :: "nat \<Rightarrow> nat list" where
  "utf8_encode c =
     (if c < 0x80 then [c]
      else if c < 0x800 then [0xC0 + c div 64, 0x80 + c mod 64]
      else if c < 0x10000 then [0xE0 + c div 4096, 0x80 + c div 64 mod 64, 0x80 + c mod 64]
      else [0xF0 + c div 262144, 0x80 + c div 4096 mod 64, 0x80 + c div 64 mod 64, 0x80 + c mod 64])"

fun wchars_at :: "nat \<Rightarrow> nat \<Rightarrow> mem \<Rightarrow> nat \<Rightarrow> nat list \<times> bool" where
  "wchars_at w 0 m a = ([], False)"
| "wchars_at w (Suc n) m a =
     (let c = nat (uint_of_bytes (read_bytes m a w))
      in if c = 0 then ([], True)
         else let (cs, t) = wchars_at w n m (a + w) in (c # cs, t))"

definition SqlWcharToString :: "nat \<Rightarrow> nat \<Rightarrow> mem \<Rightarrow> nat option \<Rightarrow> int \<Rightarrow> bool \<Rightarrow> string option" where
  "SqlWcharToString wCharSize bound m sqlStr sqlStrLen isLenInBytes =
     (case sqlStr of
        None \<Rightarrow> Some []
      | Some a \<Rightarrow>
          let enc = (\<lambda>cs. map char_of (concat (map utf8_encode cs)))
          in if sqlStrLen = -3 then
               (case wchars_at wCharSize bound m a of (cs, t) \<Rightarrow> if t then Some (enc cs) else None)
             else if sqlStrLen > 0 then
               let charsToCopy = (if isLenInBytes then nat sqlStrLen div wCharSize else nat sqlStrLen)
               in Some (enc (fst (wchars_at wCharSize charsToCopy m a)))
             else Some [])"

section \<open>What the copies do\<close>

definition ascii :: "string \<Rightarrow> bool" where
  "ascii s \<longleftrightarrow> list_all (\<lambda>c. 0 < (of_char c :: nat) \<and> of_char c < (0x80 :: nat)) s"

lemma c_str_ascii:
  assumes "ascii s"
  shows "c_str s = map of_char s" and "list_all (\<lambda>b. b < 0x80) (c_str s)"
proof -
  show "c_str s = map of_char s"
    unfolding c_str_def using assms by (intro takeWhile_eq_all_conv [THEN iffD2]) (auto simp: ascii_def list_all_iff)
  then show "list_all (\<lambda>b. b < 0x80) (c_str s)"
    using assms by (simp add: ascii_def list_all_iff)
qed

lemma wchar_bytes_length [simp]: "length (wchar_bytes w cs) = w * length cs"
  by (induction cs) (simp_all add: wchar_bytes_def)

text \<open>Nothing is written past the end of the output buffer, whatever the input.\<close>

lemma CopyUtf8StringToSqlCharString_bounds:
  assumes "CopyUtf8StringToSqlCharString narrow m s (Some a) n t = Some (m', k, t')"
    and "x < a \<or> a + n \<le> x"
  shows "m' x = m x"
proof (cases "n = 0")
  case True
  with assms show ?thesis by (auto simp: CopyUtf8StringToSqlCharString_def)
next
  case False
  obtain chars left r where d: "utf8_in 0x10FFFF (length (c_str s)) (c_str s) = (chars, left, r)"
    by (cases "utf8_in 0x10FFFF (length (c_str s)) (c_str s)")
  let ?k = "min (length chars) (n - 1)"
  have "m' = write_bytes m a (map narrow (take ?k chars) @ [0])"
    using assms(1) False by (auto simp: CopyUtf8StringToSqlCharString_def d Let_def split: if_splits)
  moreover have "?k + 1 \<le> n" using False by linarith
  ultimately show ?thesis using assms(2) by (auto intro!: write_bytes_outside)
qed

lemma CopyUtf8StringToWcharString_bounds:
  assumes "CopyUtf8StringToWcharString w m s (Some a) n t = (m', k, t')"
    and "x < a \<or> a + n \<le> x" and "0 < w" and "w \<le> n \<or> n = 0"
  shows "m' x = m x"
proof (cases "n = 0")
  case True
  with assms(1) show ?thesis by (auto simp: CopyUtf8StringToWcharString_def)
next
  case False
  obtain chars left r where d: "utf8_in (wmaxcode w) (n div w - 1) (c_str s) = (chars, left, r)"
    by (cases "utf8_in (wmaxcode w) (n div w - 1) (c_str s)")
  have "length chars \<le> n div w - 1" using d by (rule utf8_in_length)
  moreover have "0 < n div w" using False assms(3,4) by (simp add: div_greater_zero_iff)
  ultimately have "w * (length chars + 1) \<le> w * (n div w)" by (intro mult_le_mono2) simp
  also have "\<dots> \<le> n" by simp
  finally have "length (wchar_bytes w (chars @ [0])) \<le> n" by simp
  moreover have "m' = write_bytes m a (wchar_bytes w (chars @ [0]))"
    using assms(1) False by (auto simp: CopyUtf8StringToWcharString_def d [simplified] Let_def)
  ultimately show ?thesis
    using assms(2) by (simp only:) (rule write_bytes_outside, linarith)
qed

lemma CopyUtf8StringToWcharString_ascii:
  assumes "ascii s" and "0 < n"
  shows "CopyUtf8StringToWcharString w m s (Some a) n t =
    (write_bytes m a (wchar_bytes w (take (n div w - 1) (map of_char s) @ [0])),
     length (take (n div w - 1) s) * w, n div w - 1 < length s)"
proof -
  note cs = c_str_ascii [OF assms(1)]
  have "0x80 \<le> wmaxcode w" by (simp add: wmaxcode_def)
  from utf8_in_ascii [OF cs(2) this, of "n div w - 1"] show ?thesis
    using assms(2) by (auto simp: CopyUtf8StringToWcharString_def cs(1) Let_def)
qed

end
