(* ===== verification/Odbc_BigDivide.thy ===== *)
theory Odbc_BigDivide
  imports Odbc_BigConvert
begin

text \<open>
  Division of \<open>BigInteger\<close> (\<^verbatim>\<open>BigInteger::Divide\<close> and its helpers in
  \<^verbatim>\<open>src/common/big_integer.cpp\<close>): the special cases, the 64-bit case and Knuth's algorithm D.
  The source throws on a zero divisor; a read before the start of an array (which its
  \<open>assert(idx < size)\<close> does not catch) is undefined behaviour and is the error
  \<open>OutOfBounds\<close> here.
\<close>

declare of_nat_unat [simp del]

text \<open>\<open>IntOverflow\<close> is for the 32-bit counters and scales of decimals.\<close>

datatype big_error = DivisionByZero | OutOfBounds | IntOverflow

section \<open>Operations\<close>

definition MakeU64 :: "u32 \<Rightarrow> u32 \<Rightarrow> u64" where
  "MakeU64 higher lower = push_bit 32 (ucast higher) OR ucast lower"

text \<open>\<open>prev\<close> is the word below the one being shifted (none below the first).\<close>

fun shift_left_from :: "nat \<Rightarrow> u32 \<Rightarrow> u32 list \<Rightarrow> u32 list" where
  "shift_left_from n prev [] = []"
| "shift_left_from n prev (x # xs) = (push_bit n x OR drop_bit (32 - n) prev) # shift_left_from n x xs"

definition ShiftLeft :: "u32 list \<Rightarrow> nat \<Rightarrow> u32 list" where
  "ShiftLeft ws n =
     (if n = 0 then ws
      else case ws of [] \<Rightarrow> [] | x # xs \<Rightarrow> push_bit n x # shift_left_from n x xs)"

fun shift_right_by :: "nat \<Rightarrow> u32 list \<Rightarrow> u32 list" where
  "shift_right_by n [] = []"
| "shift_right_by n [x] = [drop_bit n x]"
| "shift_right_by n (x # y # xs) = (drop_bit n x OR push_bit (32 - n) y) # shift_right_by n (y # xs)"

definition ShiftRight :: "u32 list \<Rightarrow> nat \<Rightarrow> u32 list" where
  "ShiftRight ws n = (if n = 0 then ws else shift_right_by n ws)"

fun MultiplyAndSubstruct :: "u32 list \<Rightarrow> u32 list \<Rightarrow> u32 \<Rightarrow> u64 \<Rightarrow> u32 list \<times> u32" where
  "MultiplyAndSubstruct (q # qs) (a # as) x carry =
     (let product = (ucast a :: u64) * ucast x;
          difference = ucast q - carry - (product AND 0xFFFFFFFF);
          (qs', c) = MultiplyAndSubstruct qs as x (drop_bit 32 product - signed_drop_bit 32 difference)
      in ((ucast difference :: u32) # qs', c))"
| "MultiplyAndSubstruct qs _ x carry = (qs, ucast carry)"

text \<open>
  The loop that corrects the estimated quotient word. \<open>v2\<close> and \<open>u2\<close> are the words
  \<open>nv[vlen - 2]\<close> and \<open>nu[i + vlen - 2]\<close>, absent when the index is negative; they are read
  only when the estimate fits 32 bits.
\<close>

definition adjust_cond :: "u32 option \<Rightarrow> u32 option \<Rightarrow> u64 \<Rightarrow> u64 \<Rightarrow> bool option" where
  "adjust_cond v2 u2 qhat rhat =
     (if qhat > 0xFFFFFFFF then Some True
      else case v2 of None \<Rightarrow> None
        | Some v \<Rightarrow> (case u2 of None \<Rightarrow> None
            | Some u \<Rightarrow> Some (qhat * ucast v > (0xFFFFFFFF + 1) * rhat + ucast u)))"

lemma adjust_cond_pos: "adjust_cond v2 u2 qhat rhat = Some True \<Longrightarrow> qhat \<noteq> 0"
  by (auto simp: adjust_cond_def split: if_splits option.splits)

function adjust :: "u32 \<Rightarrow> u32 option \<Rightarrow> u32 option \<Rightarrow> u64 \<Rightarrow> u64 \<Rightarrow> u64 option" where
  "adjust v1 v2 u2 qhat rhat =
     (if adjust_cond v2 u2 qhat rhat = None then None
      else if adjust_cond v2 u2 qhat rhat = Some True then
        (if rhat + ucast v1 > 0xFFFFFFFF then Some (qhat - 1)
         else adjust v1 v2 u2 (qhat - 1) (rhat + ucast v1))
      else Some qhat)"
  by pat_completeness auto
termination
  by (relation "measure (\<lambda>(v1, v2, u2, qhat, rhat). unat qhat)")
    (auto dest!: adjust_cond_pos simp: unat_minus_one unat_gt_0)

declare adjust.simps [simp del]

text \<open>One iteration of the main loop: the new dividend and the quotient word.\<close>

definition div_step :: "u32 list \<Rightarrow> nat \<Rightarrow> u32 list \<Rightarrow> big_error + (u32 list \<times> u32)" where
  "div_step nv i nu =
     (let vlen = length nv;
          base = MakeU64 (nu ! (i + vlen)) (nu ! (i + vlen - 1));
          vtop = nv ! (vlen - 1);
          v2 = (if vlen \<ge> 2 then Some (nv ! (vlen - 2)) else None);
          u2 = (if i + vlen \<ge> 2 then Some (nu ! (i + vlen - 2)) else None)
      in case adjust vtop v2 u2 (base div ucast vtop) (base mod ucast vtop) of
           None \<Rightarrow> Inl OutOfBounds
         | Some qhat \<Rightarrow>
             let qhat32 = (ucast qhat :: u32);
                 (win, carry) = MultiplyAndSubstruct (take vlen (drop i nu)) nv qhat32 0;
                 difference = uint (nu ! (i + vlen) - carry);
                 nu1 = (take i nu @ win @ drop (i + vlen) nu)[i + vlen := word_of_int difference]
             in if difference < 0 then
                  let (win', c) = AddArray (take vlen (drop i nu1)) nv 0
                  in Inr (take i nu1 @ win' @ drop (i + vlen) nu1, qhat32 - 1)
                else Inr (nu1, qhat32))"

text \<open>The main loop, from index \<open>k - 1\<close> down to 0; the quotient words, lowest first.\<close>

fun div_loop :: "u32 list \<Rightarrow> nat \<Rightarrow> u32 list \<Rightarrow> big_error + (u32 list \<times> u32 list)" where
  "div_loop nv 0 nu = Inr (nu, [])"
| "div_loop nv (Suc i) nu =
     (case div_step nv i nu of
        Inl e \<Rightarrow> Inl e
      | Inr (nu', q) \<Rightarrow>
          (case div_loop nv i nu' of Inl e \<Rightarrow> Inl e | Inr (nu'', qs) \<Rightarrow> Inr (nu'', qs @ [q])))"

text \<open>The shifted dividend, with its leading zero word.\<close>

definition norm_dividend :: "u32 list \<Rightarrow> nat \<Rightarrow> u32 list" where
  "norm_dividend u shift =
     (if NumberOfLeadingZerosU32 (last u) \<ge> int shift then ShiftLeft u shift @ [0]
      else ShiftLeft u shift @ [drop_bit (32 - shift) (last u), 0])"

definition knuth_div :: "u32 list \<Rightarrow> u32 list \<Rightarrow> int \<Rightarrow> big_error + (BigInteger \<times> BigInteger)" where
  "knuth_div u v resSign =
     (let shift = nat (NumberOfLeadingZerosU32 (last v));
          nv = ShiftLeft v shift;
          nu = norm_dividend u shift
      in case div_loop nv (length u - length v + 1) nu of
           Inl e \<Rightarrow> Inl e
         | Inr (nu', q) \<Rightarrow>
             Inr (Normalize \<lparr>sign = resSign, mag = q\<rparr>,
                  Normalize \<lparr>sign = resSign, mag = ShiftRight (take (length v) nu') shift\<rparr>))"

definition word_pair :: "u32 list \<Rightarrow> u64" where
  "word_pair ws =
     (if length ws = 2 then ucast (ws ! 0) OR push_bit 32 (ucast (ws ! 1)) else ucast (ws ! 0))"

text \<open>Quotient and remainder (the overload without remainder computes the same quotient).\<close>

definition Divide :: "BigInteger \<Rightarrow> BigInteger \<Rightarrow> big_error + (BigInteger \<times> BigInteger)" where
  "Divide this divisor =
     (if mag divisor = [] then Inl DivisionByZero
      else
        let compRes = Compare this divisor True;
            resSign = sign this * sign divisor
        in if compRes = 0 then Inr (AssignInt64 (word_of_int resSign), AssignInt64 0)
           else if compRes = -1 then Inr (AssignInt64 0, this)
           else if GetBitLength divisor = 1 then
             Inr (this\<lparr>sign := sign this * sign divisor\<rparr>, AssignInt64 0)
           else if length (mag this) \<le> 2 then
             let u = word_pair (mag this); v = word_pair (mag divisor)
             in Inr (AssignInt64 (word_of_int resSign * (u div v)),
                     AssignInt64 (word_of_int resSign * (u mod v)))
           else knuth_div (mag this) (mag divisor) resSign)"

section \<open>Words\<close>

lemma unat_MakeU64: "unat (MakeU64 hi lo) = unat lo + B32 * unat hi"
proof -
  have "MakeU64 hi lo = push_bit 32 (ucast hi) + ucast lo"
    unfolding MakeU64_def using unat_u32_less [of lo] by (intro or_push_bit_add) (simp add: word_conv)
  moreover have "unat (push_bit 32 (ucast hi :: u64)) = unat hi * 2 ^ 32"
    using unat_u32_less [of hi] by (subst unat_push_bit_no_overflow) (simp_all add: word_conv)
  ultimately show ?thesis
    using unat_u32_less [of lo] unat_u32_less [of hi] by (simp add: unat_word_ariths word_conv B32_def)
qed

section \<open>Multiply and subtract\<close>

lemma mas_step:
  fixes q a x :: u32 and c :: u64
  assumes c: "unat c < 2 ^ 32"
  defines "p \<equiv> (ucast a :: u64) * ucast x"
  defines "d \<equiv> ucast q - c - (p AND 0xFFFFFFFF)"
  defines "c' \<equiv> drop_bit 32 p - signed_drop_bit 32 d"
  shows "int (unat q) - int (unat c) - int (unat a) * int (unat x) =
      int (unat (ucast d :: u32)) - int B32 * int (unat c')"
    and "unat c' < 2 ^ 32"
proof -
  define P where "P = int (unat a) * int (unat x)"
  have "unat p = unat a * unat x"
    using u64_mul_add [of a x 0 0] by (simp add: p_def)
  then have up: "uint p = P"
    by (simp only: uint_nat P_def of_nat_mult)
  define D where "D = int (unat q) - int (unat c) - P mod 2 ^ 32"
  have "(0xFFFFFFFF :: u64) = mask 32"
    by (simp add: mask_eq_exp_minus_1)
  then have "p AND 0xFFFFFFFF = take_bit 32 p"
    by (simp only: take_bit_eq_mask)
  then have lo: "uint (p AND 0xFFFFFFFF) = P mod 2 ^ 32"
    by (simp only: unsigned_take_bit_eq up) (simp add: take_bit_eq_mod)
  have d: "d = word_of_int D"
  proof -
    have "d = word_of_int (uint (ucast q :: u64) - uint c - uint (p AND 0xFFFFFFFF))"
      by (simp add: d_def)
    also have "uint (ucast q :: u64) = int (unat q)"
      by (simp only: uint_nat unat_ucast_u64)
    finally show ?thesis by (simp only: lo D_def uint_nat [of c])
  qed
  have bounds: "0 \<le> int (unat q)" "int (unat q) < 2 ^ 32" "0 \<le> int (unat c)" "int (unat c) < 2 ^ 32"
    "0 \<le> P mod 2 ^ 32" "P mod 2 ^ 32 < 2 ^ 32"
    using c unat_u32_less [of q] by (simp_all flip: of_nat_less_iff)
  have sd: "sint d = D"
    unfolding d by (simp add: signed_of_int) (rule signed_take_bit_int_eq_self, use bounds in \<open>simp_all add: D_def\<close>)
  have ud: "int (unat (ucast d :: u32)) = D mod 2 ^ 32"
  proof -
    have "(ucast d :: u32) = word_of_int D"
      by (simp add: d unsigned_of_int take_bit_eq_mod word_of_int_eq_iff) (simp add: take_bit_eq_mod mod_mod_cancel)
    then show ?thesis by (simp add: unsigned_of_int take_bit_eq_mod)
  qed
  define E where "E = P div 2 ^ 32 - D div 2 ^ 32"
  have "c' = word_of_int (uint (drop_bit 32 p) - sint (signed_drop_bit 32 d))"
    by (simp add: c'_def)
  also have "uint (drop_bit 32 p) = P div 2 ^ 32"
    by (simp only: uint_nat word_conv zdiv_int) (simp only: uint_nat [symmetric] up of_nat_power of_nat_numeral)
  also have "sint (signed_drop_bit 32 d) = D div 2 ^ 32"
    by (simp add: sint_signed_drop_bit_eq sd drop_bit_eq_div)
  finally have c': "c' = word_of_int E" by (simp add: E_def)
  have id: "int (unat q) - int (unat c) - P = D mod 2 ^ 32 - 2 ^ 32 * E"
    unfolding E_def using mult_div_mod_eq [of "2 ^ 32" P] mult_div_mod_eq [of "2 ^ 32" D]
    by (simp only: D_def right_diff_distrib)
  have "P \<le> (2 ^ 32 - 1) * (2 ^ 32 - 1)" "0 \<le> P"
    unfolding P_def using unat_u32_less [of a] unat_u32_less [of x] by (intro mult_mono) simp_all
  moreover have "0 \<le> D mod 2 ^ 32" "D mod 2 ^ 32 < 2 ^ 32" by simp_all
  ultimately have E: "0 \<le> E" "E < 2 ^ 32"
    using id bounds by simp_all
  then have ue: "int (unat c') = E"
    by (simp add: c' unsigned_of_int take_bit_int_eq_self)
  with E show "unat c' < 2 ^ 32" by simp
  show "int (unat q) - int (unat c) - int (unat a) * int (unat x) =
      int (unat (ucast d :: u32)) - int B32 * int (unat c')"
    using id by (simp add: ue ud B32_def P_def)
qed

lemma MultiplyAndSubstruct_val:
  assumes "length qs = length as" and "unat c < 2 ^ 32"
  shows "\<exists>qs' c'. MultiplyAndSubstruct qs as x c = (qs', c') \<and> length qs' = length qs \<and>
    int (mag_val qs) - int (unat c) - int (mag_val as) * int (unat x) =
    int (mag_val qs') - int (B32 ^ length qs) * int (unat c')"
  using assms
proof (induction qs as arbitrary: c rule: list_induct2)
  case Nil
  then show ?case by (simp add: unat_ucast_carry)
next
  case (Cons q qs a as)
  define p where "p = (ucast a :: u64) * ucast x"
  define d where "d = ucast q - c - (p AND 0xFFFFFFFF)"
  define c1 where "c1 = drop_bit 32 p - signed_drop_bit 32 d"
  have st: "int (unat q) - int (unat c) - int (unat a) * int (unat x) =
      int (unat (ucast d :: u32)) - int B32 * int (unat c1)" and c1: "unat c1 < 2 ^ 32"
    unfolding c1_def d_def p_def by (rule mas_step [OF Cons.prems])+
  from Cons.IH [OF c1] obtain qs' c' where
    ih: "MultiplyAndSubstruct qs as x c1 = (qs', c')" "length qs' = length qs"
      "int (mag_val qs) - int (unat c1) - int (mag_val as) * int (unat x) =
       int (mag_val qs') - int (B32 ^ length qs) * int (unat c')"
    by blast
  have "int B32 * (int (mag_val qs) - int (unat c1) - int (mag_val as) * int (unat x)) =
      int B32 * (int (mag_val qs') - int (B32 ^ length qs) * int (unat c'))"
    using ih(3) by (simp only:)
  with st have "int (unat q) + int B32 * int (mag_val qs) - int (unat c) -
      (int (unat a) + int B32 * int (mag_val as)) * int (unat x) =
      int (unat (ucast d :: u32)) + int B32 * int (mag_val qs') -
      int B32 * int (B32 ^ length qs) * int (unat c')"
    by (simp only: algebra_simps)
  with ih(1,2) show ?case
    by (simp add: p_def [symmetric] d_def [symmetric] c1_def [symmetric] Let_def)
qed

section \<open>Shifts\<close>

lemma shift_word:
  fixes x prev :: u32
  assumes "0 < n" and "n < 32"
  shows "unat (push_bit n x OR drop_bit (32 - n) prev) + B32 * (unat x div 2 ^ (32 - n)) =
    unat x * 2 ^ n + unat prev div 2 ^ (32 - n)"
proof -
  have lt: "unat prev div 2 ^ (32 - n) < 2 ^ n"
    using unat_u32_less [of prev] assms
    by (intro less_mult_imp_div_less) (simp flip: power_add)
  have "push_bit n x OR drop_bit (32 - n) prev = push_bit n x + drop_bit (32 - n) prev"
    using lt by (intro or_push_bit_add) (simp only: word_conv)
  moreover have px: "unat (push_bit n x) = unat x mod 2 ^ (32 - n) * 2 ^ n"
  proof -
    have "unat (push_bit n x) = take_bit 32 (push_bit n (unat x))"
      by (simp only: unsigned_push_bit_eq) simp
    also have "\<dots> = unat x * 2 ^ n mod (2 ^ (32 - n) * 2 ^ n)"
      using assms by (simp add: take_bit_eq_mod push_bit_eq_mult flip: power_add)
    also have "\<dots> = unat x mod 2 ^ (32 - n) * 2 ^ n"
      by (rule mult_mod_left [symmetric])
    finally show ?thesis .
  qed
  moreover have "unat x mod 2 ^ (32 - n) * 2 ^ n + unat prev div 2 ^ (32 - n) < 2 ^ 32"
  proof -
    have "Suc (unat x mod 2 ^ (32 - n)) * 2 ^ n \<le> 2 ^ (32 - n) * 2 ^ n"
      by (intro mult_le_mono1) (simp add: Suc_le_eq)
    also have "\<dots> = 2 ^ 32" using assms by (simp flip: power_add)
    finally show ?thesis using lt by simp
  qed
  ultimately have u: "unat (push_bit n x OR drop_bit (32 - n) prev) =
      unat x mod 2 ^ (32 - n) * 2 ^ n + unat prev div 2 ^ (32 - n)"
    by (simp only: unat_word_ariths px word_conv) simp
  have b: "B32 = 2 ^ (32 - n) * 2 ^ n" using assms by (simp add: B32_def flip: power_add)
  have key: "unat x * 2 ^ n = unat x mod 2 ^ (32 - n) * 2 ^ n + 2 ^ (32 - n) * (unat x div 2 ^ (32 - n)) * 2 ^ n"
    by (simp only: mod_mult_div_eq flip: distrib_right)
  show ?thesis
    by (simp only: u b key) (simp only: ac_simps)
qed

lemma shift_left_from_val:
  assumes "0 < n" and "n < 32"
  shows "mag_val (shift_left_from n prev ws) + B32 ^ length ws * (unat (last (prev # ws)) div 2 ^ (32 - n)) =
    mag_val ws * 2 ^ n + unat prev div 2 ^ (32 - n)"
proof (induction ws arbitrary: prev)
  case Nil
  then show ?case by simp
next
  case (Cons x ws)
  have "B32 * (mag_val (shift_left_from n x ws) + B32 ^ length ws * (unat (last (x # ws)) div 2 ^ (32 - n))) =
      B32 * (mag_val ws * 2 ^ n + unat x div 2 ^ (32 - n))"
    by (simp only: Cons)
  with shift_word [OF assms, of x prev] show ?case
    by (simp add: algebra_simps)
qed

lemma ShiftLeft_val:
  assumes "n < 32" and "ws \<noteq> []"
  shows "mag_val (ShiftLeft ws n) + B32 ^ length ws * (unat (last ws) div 2 ^ (32 - n)) = mag_val ws * 2 ^ n"
    and "length (ShiftLeft ws n) = length ws"
proof -
  have len: "length (shift_left_from k p xs) = length xs" for k p xs
    by (induction xs arbitrary: p) simp_all
  show "length (ShiftLeft ws n) = length ws"
    by (cases ws) (simp_all add: ShiftLeft_def len)
  show "mag_val (ShiftLeft ws n) + B32 ^ length ws * (unat (last ws) div 2 ^ (32 - n)) = mag_val ws * 2 ^ n"
  proof (cases "n = 0")
    case True
    have "unat (last ws) div 2 ^ 32 = 0" using unat_u32_less [of "last ws"] by simp
    with True show ?thesis by (simp add: ShiftLeft_def)
  next
    case False
    then have n: "0 < n" by simp
    obtain x xs where ws: "ws = x # xs" using assms(2) by (cases ws) auto
    have "shift_left_from n 0 ws = ShiftLeft ws n"
      using False by (simp add: ws ShiftLeft_def)
    with shift_left_from_val [OF n assms(1), of 0 ws] assms(2) show ?thesis by simp
  qed
qed

lemma shift_right_by_val:
  assumes "0 < n" and "n < 32"
  shows "mag_val (shift_right_by n ws) = mag_val ws div 2 ^ n"
  using assms
proof (induction n ws rule: shift_right_by.induct)
  case (3 n x y xs)
  have pos: "0 < 32 - n" "32 - n < 32" using "3.prems" by simp_all
  have "unat (push_bit (32 - n) y OR drop_bit (32 - (32 - n)) x) + B32 * (unat y div 2 ^ (32 - (32 - n))) =
      unat y * 2 ^ (32 - n) + unat x div 2 ^ (32 - (32 - n))"
    by (rule shift_word [OF pos])
  then have w: "unat (drop_bit n x OR push_bit (32 - n) y) + B32 * (unat y div 2 ^ n) =
      unat y * 2 ^ (32 - n) + unat x div 2 ^ n"
    using "3.prems" by (simp add: or.commute)
  define z where "z = mag_val xs"
  have b: "B32 = 2 ^ (32 - n) * 2 ^ n" using "3.prems" by (simp add: B32_def flip: power_add)
  have "mag_val (x # y # xs) div 2 ^ n = unat x div 2 ^ n + 2 ^ (32 - n) * (unat y + B32 * z)"
    by (simp add: z_def b mult.assoc mult.left_commute [of _ "2 ^ n"])
  moreover have "mag_val (y # xs) div 2 ^ n = unat y div 2 ^ n + 2 ^ (32 - n) * z"
    by (simp add: z_def b mult.assoc mult.left_commute [of _ "2 ^ n"])
  ultimately show ?case
    using "3.IH" "3.prems" w by (simp add: algebra_simps)
qed (simp_all add: word_conv)

lemma ShiftRight_val:
  assumes "n < 32"
  shows "mag_val (ShiftRight ws n) = mag_val ws div 2 ^ n"
  using assms shift_right_by_val [of n ws] by (cases "n = 0") (simp_all add: ShiftRight_def)

section \<open>The quotient estimate for a divisor of two words\<close>

text \<open>
  With two divisor words the correction loop compares the estimate with the whole divisor, so
  it ends with the exact quotient word.
\<close>

lemma adjust_cond_iff:
  fixes v1 v2 u2 :: u32 and qhat rhat :: u64
  assumes Y: "unat qhat * unat v1 + unat rhat = Y"
    and r: "unat rhat < B32"
    and X: "X = unat u2 + B32 * Y" and V: "V = unat v2 + B32 * unat v1"
    and lt: "X < B32 * V"
  shows "adjust_cond (Some v2) (Some u2) qhat rhat = Some (X < unat qhat * V)"
proof (cases "qhat > 0xFFFFFFFF")
  case True
  then have "B32 \<le> unat qhat" by (simp add: word_less_nat_alt B32_def)
  then have "B32 * V \<le> unat qhat * V" by (rule mult_le_mono1)
  with lt have "X < unat qhat * V" by (rule less_le_trans)
  with True show ?thesis by (simp only: adjust_cond_def if_True)
next
  case False
  then have q: "unat qhat < B32" by (simp add: word_less_nat_alt B32_def)
  have "unat qhat * unat v2 \<le> (2 ^ 32 - 1) * (2 ^ 32 - 1)"
    using q unat_u32_less [of v2] by (intro mult_mono) (simp_all add: B32_def)
  then have l: "unat (qhat * ucast v2) = unat qhat * unat v2"
    by (simp add: unat_word_ariths word_conv)
  have rr: "unat ((0xFFFFFFFF + 1) * rhat + ucast u2) = B32 * unat rhat + unat u2"
    using r unat_u32_less [of u2] by (simp add: unat_word_ariths word_conv B32_def)
  have "unat qhat * V = unat qhat * unat v2 + B32 * (Y - unat rhat)"
    by (simp add: V Y [symmetric] algebra_simps)
  moreover have "X = unat u2 + B32 * unat rhat + B32 * (Y - unat rhat)"
    by (simp add: X Y [symmetric] algebra_simps)
  ultimately have "X < unat qhat * V \<longleftrightarrow> B32 * unat rhat + unat u2 < unat qhat * unat v2"
    by linarith
  with False show ?thesis
    by (simp only: adjust_cond_def if_False option.case word_less_nat_alt l rr)
qed

lemma adjust_exact:
  fixes v1 v2 u2 :: u32 and qhat rhat :: u64
  assumes v1: "2 ^ 31 \<le> unat v1"
    and Y: "unat qhat * unat v1 + unat rhat = Y"
    and q: "unat qhat \<le> B32 + 1" and r: "unat rhat < B32"
    and X: "X = unat u2 + B32 * Y" and V: "V = unat v2 + B32 * unat v1"
    and le: "X div V \<le> unat qhat" and lt: "X < B32 * V"
  shows "\<exists>qt. adjust v1 (Some v2) (Some u2) qhat rhat = Some qt \<and> unat qt = X div V"
  using Y q r le
proof (induction "unat qhat" arbitrary: qhat rhat rule: less_induct)
  case less
  note cond = adjust_cond_iff [OF less.prems(1,3) X V lt]
  have V0: "0 < V" using v1 V by (simp add: B32_def)
  show ?case
  proof (cases "X < unat qhat * V")
    case False
    then have "unat qhat \<le> X div V" using V0 by (simp add: less_eq_div_iff_mult_less_eq)
    with False cond less.prems(4) show ?thesis
      by (subst adjust.simps) simp
  next
    case True
    then have lt1: "X div V < unat qhat" by (rule less_mult_imp_div_less)
    then have "qhat \<noteq> 0" by auto
    then have u1: "unat (qhat - 1) = unat qhat - 1" by (rule unat_minus_one)
    have ur: "unat (rhat + ucast v1) = unat rhat + unat v1"
      using less.prems(3) unat_u32_less [of v1] by (simp add: unat_word_ariths word_conv B32_def)
    have step: "unat (qhat - 1) * unat v1 + unat (rhat + ucast v1) = Y"
    proof -
      obtain m where "unat qhat = Suc m" using lt1 by (cases "unat qhat") auto
      with less.prems(1) show ?thesis by (simp add: u1 ur)
    qed
    have gt: "rhat + ucast v1 > 0xFFFFFFFF \<longleftrightarrow> B32 \<le> unat rhat + unat v1"
      by (simp only: word_less_nat_alt ur) (simp add: B32_def Suc_le_eq flip: Suc_le_eq [of 4294967295])
    show ?thesis
    proof (cases "B32 \<le> unat rhat + unat v1")
      case big: True
      have "(unat qhat - 1) * unat v2 \<le> B32 * B32"
        using less.prems(2) unat_u32_less [of v2] by (intro mult_mono) (simp_all add: B32_def)
      also have "\<dots> \<le> B32 * (unat rhat + unat v1)" using big by (rule mult_le_mono2)
      finally have "(unat qhat - 1) * unat v2 \<le> B32 * unat (rhat + ucast v1)" by (simp only: ur)
      moreover have "unat (qhat - 1) * V = (unat qhat - 1) * unat v2 + B32 * (unat (qhat - 1) * unat v1)"
        by (simp add: V u1 algebra_simps)
      moreover have "X = unat u2 + B32 * (unat (qhat - 1) * unat v1) + B32 * unat (rhat + ucast v1)"
        by (simp only: X step [symmetric]) (simp only: algebra_simps)
      ultimately have "unat (qhat - 1) * V \<le> X" by linarith
      then have "unat (qhat - 1) \<le> X div V" using V0 by (simp add: less_eq_div_iff_mult_less_eq)
      with lt1 u1 have "unat (qhat - 1) = X div V" by linarith
      with cond True big gt show ?thesis by (subst adjust.simps) simp
    next
      case False
      have "\<exists>qt. adjust v1 (Some v2) (Some u2) (qhat - 1) (rhat + ucast v1) = Some qt \<and> unat qt = X div V"
        using lt1 less.prems(2) False by (intro less.hyps step) (simp_all add: u1 ur)
      with cond True False gt show ?thesis by (subst adjust.simps) simp
    qed
  qed
qed

section \<open>The main loop\<close>

text \<open>When the estimate is the exact quotient word, a step leaves the remainder of its window.\<close>

lemma div_step_exact:
  fixes nu nv :: "u32 list" and i :: nat
  defines "vlen \<equiv> length nv"
  defines "X \<equiv> mag_val (take (Suc vlen) (drop i nu))" and "V \<equiv> mag_val nv"
  assumes i: "i + vlen < length nu" and V0: "0 < V" and qb: "X div V < B32"
    and adj: "adjust (nv ! (vlen - 1)) (if vlen \<ge> 2 then Some (nv ! (vlen - 2)) else None)
        (if i + vlen \<ge> 2 then Some (nu ! (i + vlen - 2)) else None)
        (MakeU64 (nu ! (i + vlen)) (nu ! (i + vlen - 1)) div ucast (nv ! (vlen - 1)))
        (MakeU64 (nu ! (i + vlen)) (nu ! (i + vlen - 1)) mod ucast (nv ! (vlen - 1))) = Some qhat"
    and q: "unat qhat = X div V"
  shows "\<exists>win. div_step nv i nu = Inr (take i nu @ win @ 0 # drop (Suc (i + vlen)) nu, ucast qhat) \<and>
    length win = vlen \<and> mag_val win = X mod V \<and> unat (ucast qhat :: u32) = X div V"
proof -
  define w0 where "w0 = take vlen (drop i nu)"
  define top where "top = nu ! (i + vlen)"
  have lw: "length w0 = length nv" using i by (simp add: w0_def vlen_def)
  have tk: "take (Suc vlen) (drop i nu) = w0 @ [top]"
    using i by (simp add: w0_def top_def take_Suc_conv_app_nth)
  have q32: "unat (ucast qhat :: u32) = X div V"
    using q qb by (simp add: word_conv B32_def)
  obtain win c where mas: "MultiplyAndSubstruct w0 nv (ucast qhat) 0 = (win, c)" "length win = length w0"
    and eq: "int (mag_val w0) - int (unat (0::u64)) - int (mag_val nv) * int (unat (ucast qhat :: u32)) =
      int (mag_val win) - int (B32 ^ length w0) * int (unat c)"
    using MultiplyAndSubstruct_val [OF lw, of 0 "ucast qhat"] by auto
  have "X = mag_val w0 + B32 ^ vlen * unat top"
    by (simp add: X_def tk mag_val_append lw vlen_def [symmetric])
  then have "int (mag_val win) + int (B32 ^ vlen) * int (unat top) =
      int X - int V * int (X div V) + int (B32 ^ vlen) * int (unat c)"
    using eq q32 by (simp add: V_def lw vlen_def [symmetric])
  also have "int X - int V * int (X div V) = int (X mod V)"
    by (simp only: zdiv_int zmod_int minus_mult_div_eq_mod)
  finally have id: "mag_val win + B32 ^ vlen * unat top = X mod V + B32 ^ vlen * unat c"
    by (simp only: flip: of_nat_add of_nat_mult)
  have b1: "mag_val win < B32 ^ vlen"
    using mag_val_bound [of win] by (simp add: mas(2) lw vlen_def)
  have b2: "X mod V < B32 ^ vlen"
    using mag_val_bound [of nv] V0 by (intro less_trans [OF mod_less_divisor]) (simp_all add: V_def vlen_def)
  have "unat top = unat c" and val: "mag_val win = X mod V"
    using arg_cong [OF id, of "\<lambda>z. z div B32 ^ vlen"] arg_cong [OF id, of "\<lambda>z. z mod B32 ^ vlen"] b1 b2
    by simp_all
  then have tc: "top = c" by (simp only: word_unat_eq_iff)
  have up: "(take i nu @ win @ drop (i + vlen) nu)[i + vlen := 0] = take i nu @ win @ 0 # drop (Suc (i + vlen)) nu"
    using i mas(2) lw
    by (simp add: list_update_append vlen_def Cons_nth_drop_Suc [symmetric, of "i + length nv" nu])
  have "div_step nv i nu = Inr (take i nu @ win @ 0 # drop (Suc (i + vlen)) nu, ucast qhat)"
    unfolding div_step_def Let_def vlen_def [symmetric] adj option.case
    using mas(1) tc up by (simp add: w0_def top_def)
  with mas(2) lw val q32 show ?thesis by (auto simp: vlen_def)
qed

lemma div_step_two:
  fixes nu :: "u32 list" and v1 v2 :: u32
  assumes v1: "2 ^ 31 \<le> unat v1" and i: "i + 2 < length nu"
    and lt: "mag_val (take 2 (drop (Suc i) nu)) < mag_val [v2, v1]"
  defines "X \<equiv> mag_val (take 3 (drop i nu))" and "V \<equiv> mag_val [v2, v1]"
  shows "\<exists>win q. div_step [v2, v1] i nu = Inr (take i nu @ win @ 0 # drop (i + 3) nu, q) \<and>
    length win = 2 \<and> mag_val win = X mod V \<and> unat q = X div V"
proof -
  define u2 u1 u0 where "u2 = nu ! i" and "u1 = nu ! (i + 1)" and "u0 = nu ! (i + 2)"
  have d: "drop i nu = u2 # u1 # u0 # drop (i + 3) nu"
    using i by (simp add: u0_def u1_def u2_def Cons_nth_drop_Suc numeral_3_eq_3)
  have d1: "drop (Suc i) nu = u1 # u0 # drop (i + 3) nu"
    using d by (metis drop_Suc_Cons drop_0 drop_drop plus_1_eq_Suc drop_Suc list.sel(3) tl_drop)
  define Y where "Y = unat u1 + B32 * unat u0"
  have X: "X = unat u2 + B32 * Y" by (simp add: X_def d Y_def)
  have V: "V = unat v2 + B32 * unat v1" by (simp add: V_def)
  have YV: "Y < V" using lt by (simp add: d1 Y_def V_def)
  have lt': "X < B32 * V"
  proof -
    have "X < B32 * Suc Y" using unat_u32_less [of u2] by (simp add: X B32_def)
    also have "\<dots> \<le> B32 * V" using YV by (intro mult_le_mono2) simp
    finally show ?thesis .
  qed
  have base: "unat (MakeU64 u0 u1) = Y"
    by (simp add: unat_MakeU64 Y_def)
  have vpos: "0 < unat v1" using v1 by simp
  define qh rh where "qh = MakeU64 u0 u1 div ucast v1" and "rh = MakeU64 u0 u1 mod ucast v1"
  have uq: "unat qh = Y div unat v1" and ur: "unat rh = Y mod unat v1"
    by (simp_all add: qh_def rh_def unat_div unat_mod base word_conv)
  have rb: "unat rh < B32"
    using vpos unat_u32_less [of v1] by (simp add: ur B32_def less_trans [OF mod_less_divisor])
  have qb: "unat qh \<le> B32 + 1"
  proof -
    have "Y < (B32 + 2) * unat v1"
      using YV v1 unat_u32_less [of v2] by (simp add: V algebra_simps B32_def)
    then show ?thesis by (simp add: uq less_mult_imp_div_less flip: less_Suc_eq_le)
  qed
  have le: "X div V \<le> unat qh"
  proof -
    have "B32 * (X div V * unat v1) \<le> X div V * V" by (simp add: V algebra_simps)
    also have "\<dots> \<le> X" by (rule div_times_less_eq_dividend)
    finally have "B32 * (X div V * unat v1) div B32 \<le> X div B32" by (rule div_le_mono)
    moreover have "X div B32 = Y" using unat_u32_less [of u2] by (simp add: X B32_def)
    ultimately have "X div V * unat v1 \<le> Y" by (simp add: B32_def)
    then show ?thesis using vpos by (simp add: uq less_eq_div_iff_mult_less_eq)
  qed
  obtain qt where adj: "adjust v1 (Some v2) (Some u2) qh rh = Some qt" and qt: "unat qt = X div V"
    using adjust_exact [OF v1 _ qb rb X V le lt'] by (auto simp: uq ur)
  have "0 < V" using YV by simp
  moreover have "X div V < B32" using lt' by (rule less_mult_imp_div_less)
  ultimately show ?thesis
    using div_step_exact [of i "[v2, v1]" nu qt] adj i qt
    by (fastforce simp: X_def V_def qh_def rh_def u0_def u1_def u2_def numeral_3_eq_3 numeral_2_eq_2)
qed

lemma div_mod_merge:
  fixes L b X V :: nat
  assumes "0 < V"
  shows "(L + b * (X mod V)) div V + b * (X div V) = (L + b * X) div V"
    and "(L + b * (X mod V)) mod V = (L + b * X) mod V"
proof -
  have "L + b * X = (L + b * (X mod V)) + V * (b * (X div V))"
    by (metis (no_types, lifting) add.assoc distrib_left mod_mult_div_eq mult.left_commute)
  then show "(L + b * (X mod V)) div V + b * (X div V) = (L + b * X) div V"
    and "(L + b * (X mod V)) mod V = (L + b * X) mod V"
    using assms by (simp_all only: div_mult_self2 mod_mult_self2)
qed

lemma div_loop_two:
  fixes nu :: "u32 list" and v1 v2 :: u32
  defines "V \<equiv> mag_val [v2, v1]"
  assumes v1: "2 ^ 31 \<le> unat v1" and "k + 2 \<le> length nu" and "mag_val (take 2 (drop k nu)) < V"
  shows "\<exists>nu' qs. div_loop [v2, v1] k nu = Inr (nu', qs) \<and> length qs = k \<and> length nu' = length nu \<and>
    mag_val qs = mag_val (take (k + 2) nu) div V \<and> mag_val (take 2 nu') = mag_val (take (k + 2) nu) mod V"
  using assms(3,4)
proof (induction k arbitrary: nu)
  case 0
  then show ?case by (simp add: numeral_2_eq_2)
next
  case (Suc i)
  define X where "X = mag_val (take 3 (drop i nu))"
  have V0: "0 < V" using v1 by (simp add: V_def B32_def)
  obtain win q where st: "div_step [v2, v1] i nu = Inr (take i nu @ win @ 0 # drop (i + 3) nu, q)"
    and win: "length win = 2" "mag_val win = X mod V" and q: "unat q = X div V"
    using div_step_two [OF v1, of i nu v2] Suc.prems by (auto simp: V_def X_def)
  define nu1 where "nu1 = take i nu @ win @ 0 # drop (i + 3) nu"
  have len1: "length nu1 = length nu" using Suc.prems(1) win(1) by (simp add: nu1_def)
  have "take 2 (drop i nu1) = win" using Suc.prems(1) win(1) by (simp add: nu1_def)
  then have "mag_val (take 2 (drop i nu1)) < V" using V0 win(2) by simp
  moreover have "i + 2 \<le> length nu1" using Suc.prems(1) len1 by simp
  ultimately obtain nu' qs where ih: "div_loop [v2, v1] i nu1 = Inr (nu', qs)" "length qs = i"
      "length nu' = length nu1" "mag_val qs = mag_val (take (i + 2) nu1) div V"
      "mag_val (take 2 nu') = mag_val (take (i + 2) nu1) mod V"
    using Suc.IH by blast
  define L where "L = mag_val (take i nu)"
  have a: "mag_val (take (i + 2) nu1) = L + B32 ^ i * (X mod V)"
    using Suc.prems(1) win by (simp add: nu1_def mag_val_append L_def)
  have b: "mag_val (take (Suc i + 2) nu) = L + B32 ^ i * X"
  proof -
    have "take (Suc i + 2) nu = take i nu @ take 3 (drop i nu)"
      by (simp add: numeral_3_eq_3 flip: take_add)
    then show ?thesis using Suc.prems(1) by (simp add: mag_val_append L_def X_def)
  qed
  have "mag_val (qs @ [q]) = (L + B32 ^ i * X) div V"
    using div_mod_merge(1) [OF V0, of L "B32 ^ i" X] by (simp add: mag_val_append ih(2,4) a [simplified] q)
  moreover have "mag_val (take 2 nu') = (L + B32 ^ i * X) mod V"
    using div_mod_merge(2) [OF V0, of L "B32 ^ i" X] by (simp add: ih(5) a [simplified])
  ultimately show ?case
    using st ih(1,2,3) len1 by (simp add: nu1_def [symmetric] b [simplified])
qed

section \<open>Normalisation of divisor and dividend\<close>

lemma norm_dividend_val:
  assumes "s < 32" and "u \<noteq> []" and "last u \<noteq> 0"
  shows "mag_val (norm_dividend u s) = mag_val u * 2 ^ s"
    and "mag_val (take (Suc (length u)) (norm_dividend u s)) = mag_val u * 2 ^ s"
    and "Suc (length u) \<le> length (norm_dividend u s)"
proof -
  note sl = ShiftLeft_val [OF assms(1,2)]
  have z: "unat (last u) div 2 ^ (32 - s) = 0" if "NumberOfLeadingZerosU32 (last u) \<ge> int s"
  proof -
    have "unat (last u) < 2 ^ (32 - nat (NumberOfLeadingZerosU32 (last u)))"
      by (rule NumberOfLeadingZerosU32_spec [OF assms(3)]) simp
    also have "(2::nat) ^ (32 - nat (NumberOfLeadingZerosU32 (last u))) \<le> 2 ^ (32 - s)"
      using that by (intro power_increasing) simp_all
    finally show ?thesis by simp
  qed
  show "mag_val (norm_dividend u s) = mag_val u * 2 ^ s"
    and "mag_val (take (Suc (length u)) (norm_dividend u s)) = mag_val u * 2 ^ s"
    and "Suc (length u) \<le> length (norm_dividend u s)"
    using sl z by (cases "NumberOfLeadingZerosU32 (last u) \<ge> int s";
      simp add: norm_dividend_def mag_val_append word_conv)+
qed

lemma norm_divisor_two:
  fixes a b :: u32
  assumes b: "b \<noteq> 0"
  defines "s \<equiv> nat (NumberOfLeadingZerosU32 b)"
  shows "\<exists>v2 v1. ShiftLeft [a, b] s = [v2, v1] \<and> s < 32 \<and> 2 ^ 31 \<le> unat v1 \<and>
    mag_val [v2, v1] = mag_val [a, b] * 2 ^ s"
proof -
  obtain z where z: "NumberOfLeadingZerosU32 b = int z" "z < 32" "2 ^ (31 - z) \<le> unat b" "unat b < 2 ^ (32 - z)"
    using b by (rule NumberOfLeadingZerosU32_spec)
  then have s: "s = z" by (simp add: s_def)
  have "length (ShiftLeft [a, b] z) = 2" using ShiftLeft_val(2) [OF z(2), of "[a, b]"] by simp
  then obtain v2 v1 where v: "ShiftLeft [a, b] z = [v2, v1]"
    by (metis (no_types, opaque_lifting) length_0_conv length_Suc_conv numeral_2_eq_2)
  have val: "mag_val [v2, v1] = mag_val [a, b] * 2 ^ z"
    using ShiftLeft_val(1) [OF z(2), of "[a, b]"] z(4) by (simp add: v)
  have "B32 * 2 ^ 31 = B32 * (2 ^ (31 - z) * 2 ^ z)" using z(2) by (simp flip: power_add)
  also have "\<dots> \<le> B32 * (unat b * 2 ^ z)" using z(3) by (intro mult_le_mono2 mult_le_mono1)
  also have "\<dots> \<le> mag_val [v2, v1]" unfolding val by (simp add: algebra_simps)
  finally have "2 ^ 31 \<le> unat v1" using unat_u32_less [of v2] by (simp add: B32_def)
  with v s val z(2) show ?thesis by blast
qed

text \<open>The long division is exact for a divisor of two words.\<close>

lemma knuth_div_two:
  assumes u: "2 \<le> length u" "last u \<noteq> 0" and b: "b \<noteq> 0"
  shows "\<exists>q r. knuth_div u [a, b] s = Inr (Normalize \<lparr>sign = s, mag = q\<rparr>, Normalize \<lparr>sign = s, mag = r\<rparr>) \<and>
    mag_val q = mag_val u div mag_val [a, b] \<and> mag_val r = mag_val u mod mag_val [a, b] \<and>
    length q = length u - 1 \<and> length r = 2"
proof -
  define sh where "sh = nat (NumberOfLeadingZerosU32 b)"
  obtain v2 v1 where v: "ShiftLeft [a, b] sh = [v2, v1]" and sh: "sh < 32" and v1: "2 ^ 31 \<le> unat v1"
      and V: "mag_val [v2, v1] = mag_val [a, b] * 2 ^ sh"
    using norm_divisor_two [OF b, of a] unfolding sh_def by blast
  define nu where "nu = norm_dividend u sh"
  define k where "k = length u - 1"
  have ne: "u \<noteq> []" using u(1) by auto
  note nd = norm_dividend_val [OF sh ne u(2), folded nu_def]
  have kl: "Suc (length u) = k + 2" using u(1) by (simp add: k_def)
  have "mag_val (take 2 (drop k nu)) < mag_val [v2, v1]"
  proof -
    have "take (k + 2) nu = take k nu @ take 2 (drop k nu)" by (rule take_add)
    then have "B32 ^ k * mag_val (take 2 (drop k nu)) \<le> mag_val u * 2 ^ sh"
      using nd(2,3) kl by (simp add: mag_val_append min_def)
    also have "\<dots> < B32 ^ k * B32 * 2 ^ sh"
      using mag_val_bound [of u] u(1) kl by (simp add: power_Suc2 [symmetric] del: power_Suc)
    finally have "mag_val (take 2 (drop k nu)) < B32 * 2 ^ sh" by (simp add: mult.assoc)
    also have "\<dots> \<le> mag_val [a, b] * 2 ^ sh"
      using b by (intro mult_le_mono1) (simp add: unat_gt_0 trans_le_add2 Suc_le_eq)
    finally show ?thesis by (simp only: V)
  qed
  moreover have "k + 2 \<le> length nu" using nd(3) kl by simp
  ultimately obtain nu' qs where l: "div_loop [v2, v1] k nu = Inr (nu', qs)" "length qs = k"
      "length nu' = length nu" "mag_val qs = mag_val (take (k + 2) nu) div mag_val [v2, v1]"
      "mag_val (take 2 nu') = mag_val (take (k + 2) nu) mod mag_val [v2, v1]"
    using div_loop_two [OF v1] by blast
  have tk: "mag_val (take (k + 2) nu) = mag_val u * 2 ^ sh" using nd(2) kl by simp
  have "mag_val qs = mag_val u div mag_val [a, b]"
    unfolding l(4) tk V by (rule div_mult_mult2) simp
  moreover have "mag_val (ShiftRight (take 2 nu') sh) = mag_val u mod mag_val [a, b]"
    unfolding ShiftRight_val [OF sh] l(5) tk V by (simp only: mult_mod_left [symmetric]) simp
  moreover have "length (ShiftRight (take 2 nu') sh) = 2"
  proof -
    have "length (shift_right_by n ws) = length ws" for n ws
      by (induction n ws rule: shift_right_by.induct) simp_all
    then show ?thesis using l(3) nd(3) u(1) by (simp add: ShiftRight_def)
  qed
  moreover have "length u - length [a, b] + 1 = k" using u(1) by (simp add: k_def)
  moreover from this have "knuth_div u [a, b] s = Inr (Normalize \<lparr>sign = s, mag = qs\<rparr>,
      Normalize \<lparr>sign = s, mag = ShiftRight (take 2 nu') sh\<rparr>)"
    using l(1) by (simp add: knuth_div_def Let_def sh_def [symmetric] v nu_def [symmetric] numeral_2_eq_2)
  ultimately show ?thesis
    using l(2) unfolding k_def by blast
qed

section \<open>Division\<close>

lemma unat_word_pair:
  assumes "ws \<noteq> []" and "length ws \<le> 2"
  shows "unat (word_pair ws) = mag_val ws"
proof -
  consider a where "ws = [a]" | a b where "ws = [a, b]"
    using assms by (cases ws; cases "tl ws"; cases "tl (tl ws)") auto
  then show ?thesis
  proof cases
    case 1
    then show ?thesis by (simp add: word_pair_def word_conv)
  next
    case (2 a b)
    have "word_pair ws = MakeU64 b a" by (simp add: 2 word_pair_def MakeU64_def or.commute)
    then show ?thesis by (simp add: unat_MakeU64 2)
  qed
qed

lemma signed_small:
  fixes x :: u64
  assumes "unat x < 2 ^ 63" and "s = 1 \<or> s = -1"
  shows "sint (word_of_int s * x) = s * int (unat x)"
proof -
  have "word_of_int s * x = word_of_int (s * int (unat x))"
    by (simp only: of_int_mult of_int_of_nat_eq) (simp add: of_nat_unat)
  moreover have "signed_take_bit 63 (s * int (unat x)) = s * int (unat x)"
    using assms by (intro signed_take_bit_int_eq_self) (auto simp flip: of_nat_less_iff)
  ultimately show ?thesis by (simp only: signed_of_int) simp
qed

lemma mod_less_half:
  fixes u v :: nat
  assumes "v < u" and "u < 2 * h" and "0 < v"
  shows "u mod v < h"
proof (cases "v \<le> h")
  case True
  then show ?thesis using mod_less_divisor [OF assms(3), of u] by linarith
next
  case False
  then have "u mod v = u - v" using assms by (simp add: mod_if)
  with False assms show ?thesis by simp
qed

lemma sign_AssignInt64: "sign (AssignInt64 x) = (if sint x < 0 then -1 else 1)"
  by (simp add: AssignInt64_def AssignUint64_props)

lemma GetBitLength_one:
  assumes "normalized (mag b)" and "mag b \<noteq> []" and "length (mag b) < 2 ^ 26"
  shows "GetBitLength b = 1 \<longleftrightarrow> mag_val (mag b) = 1"
proof -
  obtain l where l: "unat (GetBitLength b) = l" "0 < l" "2 ^ (l - 1) \<le> mag_val (mag b)" "mag_val (mag b) < 2 ^ l"
    using assms by (rule GetBitLength_spec)
  have "GetBitLength b = 1 \<longleftrightarrow> l = 1" using l(1) by (simp add: word_unat_eq_iff)
  also have "\<dots> \<longleftrightarrow> mag_val (mag b) = 1"
  proof
    assume "l = 1" then show "mag_val (mag b) = 1" using l(3,4) by simp
  next
    assume "mag_val (mag b) = 1"
    then have "(2::nat) ^ (l - 1) \<le> 2 ^ 0" using l(3) by simp
    then show "l = 1" using l(2) by (simp only: power_increasing_iff one_less_numeral_iff semiring_norm)
  qed
  finally show ?thesis .
qed

text \<open>
  Values and signs of quotient and remainder, for the sizes the rest of the driver uses: a
  divisor of two words, or a dividend of at most two.
\<close>

lemma Divide_props:
  assumes a: "canonical a" and d: "canonical d" and ne: "mag d \<noteq> []"
    and sz: "length (mag d) = 2 \<or> length (mag a) \<le> 2"
  defines "m \<equiv> mag_val (mag a)" and "n \<equiv> mag_val (mag d)"
  shows "\<exists>q r. Divide a d = Inr (q, r) \<and> wf_big q \<and> wf_big r \<and>
    big_val q = sign a * sign d * int (m div n) \<and>
    big_val r = (if m < n then sign a else sign a * sign d) * int (m mod n) \<and>
    (sign a = 1 \<and> sign d = 1 \<longrightarrow> sign q = 1 \<and> sign r = 1)"
proof -
  have na: "normalized (mag a)" and nd: "normalized (mag d)" and sa: "sign a = 1 \<or> sign a = -1"
    and sd: "sign d = 1 \<or> sign d = -1"
    using a d by (auto simp: canonical_def wf_big_def)
  have sr: "sign a * sign d = 1 \<or> sign a * sign d = -1" using sa sd by auto
  have n0: "0 < n" using ne normalized_eq_Nil_iff [OF nd] by (simp add: n_def)
  have cmp: "Compare a d True = sgn (int m - int n)"
    using Compare_ignoreSign [OF na nd] by (simp add: m_def n_def)
  have wfi: "wf_big (AssignInt64 x)" for x
    using canonical_AssignInt64 by (simp add: canonical_def)
  have one: "sint (word_of_int (sign a * sign d) :: u64) = sign a * sign d"
    using signed_small [OF _ sr, of 1] by simp
  consider (eq) "m = n" | (lt) "m < n" | (gt) "n < m" by linarith
  then show ?thesis
  proof cases
    case eq
    then have "Divide a d = Inr (AssignInt64 (word_of_int (sign a * sign d)), AssignInt64 0)"
      using ne cmp by (simp add: Divide_def Let_def)
    with eq n0 one show ?thesis by (auto simp: wfi big_val_AssignInt64 sign_AssignInt64)
  next
    case lt
    then have "Divide a d = Inr (AssignInt64 0, a)"
      using ne cmp by (simp add: Divide_def Let_def)
    with lt a show ?thesis
      using big_val_AssignInt64 [of 0] by (auto simp: wfi canonical_def big_val_def [of a] m_def sign_AssignInt64)
  next
    case gt
    have len: "length (mag d) \<le> length (mag a)"
    proof (rule ccontr)
      assume "\<not> length (mag d) \<le> length (mag a)"
      then have "m < n" unfolding m_def n_def by (intro mag_val_less_by_length nd) simp
      with gt show False by simp
    qed
    then have dl: "length (mag d) \<le> 2" using sz by auto
    then have bl: "GetBitLength d = 1 \<longleftrightarrow> n = 1"
      using GetBitLength_one [OF nd ne] by (simp add: n_def)
    consider (one) "n = 1" | (small) "n \<noteq> 1" "length (mag a) \<le> 2" | (big) "n \<noteq> 1" "2 < length (mag a)"
      by linarith
    then show ?thesis
    proof cases
      case one
      then have "Divide a d = Inr (a\<lparr>sign := sign a * sign d\<rparr>, AssignInt64 0)"
        using ne cmp gt bl by (simp add: Divide_def Let_def)
      moreover have "wf_big (a\<lparr>sign := sign a * sign d\<rparr>)" using sr na by (simp add: wf_big_def)
      ultimately show ?thesis
        using one gt by (auto simp: wfi big_val_AssignInt64 sign_AssignInt64 big_val_def [of "a\<lparr>sign := s\<rparr>" for s] m_def)
    next
      case small
      let ?u = "word_pair (mag a)" and ?v = "word_pair (mag d)"
      have "mag a \<noteq> []" using gt by (auto simp: m_def)
      then have u: "unat ?u = m" using small(2) by (simp add: unat_word_pair m_def)
      have v: "unat ?v = n" using ne dl by (simp add: unat_word_pair n_def)
      have mb: "m < 2 * 2 ^ 63" using unat_u64_less [of ?u] u by simp
      have "unat (?u div ?v) < 2 ^ 63" "unat (?u mod ?v) < 2 ^ 63"
        unfolding unat_div unat_mod u v
        using mod_less_half [OF gt mb n0] mb n0 small(1)
        by (simp_all add: less_mult_imp_div_less less_le_trans [OF mb])
      then have "sint (word_of_int (sign a * sign d) * (?u div ?v)) = sign a * sign d * int (m div n)"
        "sint (word_of_int (sign a * sign d) * (?u mod ?v)) = sign a * sign d * int (m mod n)"
        using signed_small [OF _ sr] by (simp_all only: unat_div unat_mod u v)
      moreover have "Divide a d = Inr (AssignInt64 (word_of_int (sign a * sign d) * (?u div ?v)),
          AssignInt64 (word_of_int (sign a * sign d) * (?u mod ?v)))"
        using ne cmp gt bl small by (simp add: Divide_def Let_def)
      ultimately show ?thesis using gt by (auto simp: wfi big_val_AssignInt64 sign_AssignInt64)
    next
      case big
      then have "length (mag d) = 2" using sz by simp
      then obtain x y where xy: "mag d = [x, y]"
        by (metis (no_types, opaque_lifting) length_0_conv length_Suc_conv numeral_2_eq_2)
      have "last (mag a) \<noteq> 0" "y \<noteq> 0" using na nd big(2) by (auto simp: normalized_def xy)
      then obtain q r where qr: "knuth_div (mag a) [x, y] (sign a * sign d) =
          Inr (Normalize \<lparr>sign = sign a * sign d, mag = q\<rparr>, Normalize \<lparr>sign = sign a * sign d, mag = r\<rparr>)"
          "mag_val q = m div n" "mag_val r = m mod n"
        using knuth_div_two [of "mag a" y x "sign a * sign d"] big(2) by (auto simp: m_def n_def xy)
      moreover have "Divide a d = knuth_div (mag a) [x, y] (sign a * sign d)"
        using cmp gt bl big by (simp add: Divide_def Let_def xy)
      ultimately show ?thesis using gt sr by (auto simp: wf_big_def big_val_def)
    qed
  qed
qed

text \<open>The signs on every branch: the remainder has the sign of the quotient, except when the dividend is the smaller one
  and is returned itself.\<close>

lemma Divide_signs:
  assumes "canonical a" and "canonical d" and "mag d \<noteq> []"
    and "length (mag d) = 2 \<or> length (mag a) \<le> 2"
  shows "\<exists>q r. Divide a d = Inr (q, r) \<and>
    big_val q = sgn (big_val a) * sgn (big_val d) * (\<bar>big_val a\<bar> div \<bar>big_val d\<bar>) \<and>
    big_val r = (if \<bar>big_val a\<bar> < \<bar>big_val d\<bar> then 1 else sgn (big_val d)) *
      sgn (big_val a) * (\<bar>big_val a\<bar> mod \<bar>big_val d\<bar>)"
proof -
  have sg: "sign b = 1 \<or> sign b = -1" if "canonical b" for b
    using that by (auto simp: canonical_def wf_big_def)
  have ab: "\<bar>big_val b\<bar> = int (mag_val (mag b))" if "canonical b" for b
    using sg [OF that] by (auto simp: big_val_def)
  have sn: "sgn (big_val b) = (if mag_val (mag b) = 0 then 0 else sign b)" if "canonical b" for b
    using sg [OF that] by (auto simp: big_val_def)
  have n0: "0 < mag_val (mag d)"
    using assms(2,3) normalized_eq_Nil_iff [of "mag d"] by (simp add: canonical_def wf_big_def)
  obtain q r where "Divide a d = Inr (q, r)"
    "big_val q = sign a * sign d * int (mag_val (mag a) div mag_val (mag d))"
    "big_val r = (if mag_val (mag a) < mag_val (mag d) then sign a else sign a * sign d) *
       int (mag_val (mag a) mod mag_val (mag d))"
    using Divide_props [OF assms] by blast
  then show ?thesis
    using n0 by (simp add: ab [OF assms(1)] ab [OF assms(2)] sn [OF assms(1)] sn [OF assms(2)]
        zdiv_int [symmetric] zmod_int [symmetric])
qed

text \<open>(C14) Division by a positive number: for a divisor of two words, or a dividend of at most two, \<open>Divide\<close> returns the
  quotient truncated towards zero and the remainder that goes with it, which is smaller than the divisor and has the
  sign of the dividend.\<close>

theorem Divide_correct:
  assumes "canonical a" and "canonical d" and "0 < big_val d" and "length (mag d) = 2 \<or> length (mag a) \<le> 2"
  shows "\<exists>q r. Divide a d = Inr (q, r) \<and> big_val a = big_val q * big_val d + big_val r \<and>
    \<bar>big_val r\<bar> < big_val d \<and> (big_val r = 0 \<or> sgn (big_val r) = sgn (big_val a))"
proof -
  have "mag d \<noteq> []" using assms(3) by (auto simp: big_val_def)
  then obtain q r where d: "Divide a d = Inr (q, r)" and q: "big_val q = sgn (big_val a) * (\<bar>big_val a\<bar> div big_val d)"
    and r: "big_val r = sgn (big_val a) * (\<bar>big_val a\<bar> mod big_val d)"
    using Divide_signs [OF assms(1,2) _ assms(4)] assms(3) by (auto split: if_splits)
  have "big_val q * big_val d + big_val r = sgn (big_val a) * (\<bar>big_val a\<bar> div big_val d * big_val d + \<bar>big_val a\<bar> mod big_val d)"
    unfolding q r by (simp only: distrib_left mult.assoc)
  then have "big_val a = big_val q * big_val d + big_val r" by (simp add: sgn_mult_abs)
  moreover have m: "0 \<le> \<bar>big_val a\<bar> mod big_val d" "\<bar>big_val a\<bar> mod big_val d < big_val d"
    using assms(3) by simp_all
  then have "\<bar>big_val r\<bar> < big_val d" unfolding r by (auto simp: abs_mult sgn_if)
  moreover have "big_val r = 0 \<or> sgn (big_val r) = sgn (big_val a)"
    using m(1) unfolding r sgn_mult by (auto simp: sgn_if)
  ultimately show ?thesis using d by blast
qed

theorem Divide_correct_witness:
  "\<exists>q r. Divide \<lparr>sign = -1, mag = [7, 0, 5]\<rparr> \<lparr>sign = 1, mag = [3, 1]\<rparr> = Inr (q, r) \<and>
     -92233720368547758087 = big_val q * 4294967299 + big_val r \<and> \<bar>big_val r\<bar> < 4294967299"
  using Divide_correct [of "\<lparr>sign = -1, mag = [7, 0, 5]\<rparr>" "\<lparr>sign = 1, mag = [3, 1]\<rparr>"]
  by (auto simp: canonical_def wf_big_def normalized_def big_val_def B32_def)

text \<open>For a negative divisor the remainder has the wrong sign: it is taken away from the product of
  quotient and divisor instead of being added to it.\<close>

lemma negative_divisor_remainder:
  assumes "canonical a" and "canonical d" and "big_val d < 0" and "\<bar>big_val d\<bar> \<le> \<bar>big_val a\<bar>" and "length (mag d) = 2 \<or> length (mag a) \<le> 2"
  shows "\<exists>q r. Divide a d = Inr (q, r) \<and> big_val a = big_val q * big_val d - big_val r"
proof -
  have "mag d \<noteq> []" using assms(3) by (auto simp: big_val_def)
  then obtain q r where d: "Divide a d = Inr (q, r)" and q: "big_val q = - sgn (big_val a) * (\<bar>big_val a\<bar> div \<bar>big_val d\<bar>)"
    and r: "big_val r = - sgn (big_val a) * (\<bar>big_val a\<bar> mod \<bar>big_val d\<bar>)"
    using Divide_signs [OF assms(1,2) _ assms(5)] assms(3,4) by (auto split: if_splits)
  have "big_val d = - \<bar>big_val d\<bar>" using assms(3) by simp
  then have "big_val q * big_val d - big_val r =
      sgn (big_val a) * (\<bar>big_val a\<bar> div \<bar>big_val d\<bar> * \<bar>big_val d\<bar> + \<bar>big_val a\<bar> mod \<bar>big_val d\<bar>)"
    unfolding q r by (simp only: distrib_left mult.assoc) simp
  then show ?thesis using d by (simp add: sgn_mult_abs)
qed

lemma norm_dividend_top:
  assumes "z < 32" and "u \<noteq> []" and "last u \<noteq> 0"
  shows "unat (norm_dividend u z ! length u) < 2 ^ 31"
proof -
  define nu where "nu = norm_dividend u z"
  define n where "n = length u - 1"
  note nv = norm_dividend_val [OF assms, folded nu_def]
  have len: "length u = Suc n" using assms(2) by (cases u) (simp_all add: n_def)
  have "take (Suc (Suc n)) nu = take (Suc n) nu @ [nu ! Suc n]"
    using nv(3) len by (intro take_Suc_conv_app_nth) simp
  then have "B32 ^ Suc n * unat (nu ! Suc n) \<le> mag_val u * 2 ^ z"
    using nv(2,3) len by (simp add: mag_val_append min_def)
  also have "\<dots> < B32 ^ Suc n * 2 ^ z" using mag_val_bound [of u] len by simp
  finally have "unat (nu ! Suc n) < 2 ^ z" by simp
  also have "(2::nat) ^ z \<le> 2 ^ 31" using assms(1) by (intro power_increasing) simp_all
  finally show ?thesis by (simp add: nu_def len)
qed

lemma one_word_step_out_of_bounds:
  assumes "unat (nu ! Suc n) < 2 ^ 31" and "2 ^ 31 \<le> unat v"
  shows "div_step [v] n nu = Inl OutOfBounds"
proof -
  let ?q = "MakeU64 (nu ! Suc n) (nu ! n) div ucast v"
  have "unat (MakeU64 (nu ! Suc n) (nu ! n)) < B32 * Suc (unat (nu ! Suc n))"
    using unat_lt_B32 [of "nu ! n"] by (simp add: unat_MakeU64)
  also have "\<dots> \<le> B32 * unat v" using assms by (intro mult_le_mono2) simp
  finally have "unat ?q < B32" by (simp add: unat_div word_conv less_mult_imp_div_less)
  then have "\<not> ?q > 0xFFFFFFFF" by (simp add: word_less_nat_alt B32_def)
  then show ?thesis by (simp add: div_step_def Let_def adjust.simps adjust_cond_def)
qed

text \<open>A divisor of one word (other than one) and a dividend of three words or more: the
  correction loop reads the word before the first one of the divisor, which the array's
  assertion \<open>index < size\<close> lets pass.\<close>

theorem Divide_one_word_out_of_bounds:
  assumes "canonical a" and "canonical d" and "mag d = [w]" and "2 \<le> unat w" and "3 \<le> length (mag a)"
  shows "Divide a d = Inl OutOfBounds"
proof -
  have na: "normalized (mag a)" and nd: "normalized (mag d)"
    using assms(1,2) by (auto simp: canonical_def wf_big_def)
  have w0: "w \<noteq> 0" and la: "last (mag a) \<noteq> 0" using assms(4,5) na by (auto simp: normalized_def)
  have ua: "mag a \<noteq> []" using assms(5) by auto
  have "mag_val (mag d) < mag_val (mag a)"
    using assms(3,5) by (intro mag_val_less_by_length na) simp
  then have cmp: "Compare a d True = 1" using Compare_ignoreSign [OF na nd] by simp
  have bl: "GetBitLength d \<noteq> 1" using GetBitLength_one [OF nd] assms(3,4) by simp
  obtain z where z: "NumberOfLeadingZerosU32 w = int z" "z < 32" "2 ^ (31 - z) \<le> unat w" "unat w < 2 ^ (32 - z)"
    using w0 by (rule NumberOfLeadingZerosU32_spec)
  have sl: "ShiftLeft [w] z = [push_bit z w]" by (simp add: ShiftLeft_def)
  have pw: "unat (push_bit z w) = unat w * 2 ^ z"
    using ShiftLeft_val(1) [OF z(2), of "[w]"] z(4) by (simp add: sl)
  have "2 ^ 31 = (2::nat) ^ (31 - z) * 2 ^ z" using z(2) by (simp flip: power_add)
  also have "\<dots> \<le> unat w * 2 ^ z" using z(3) by (rule mult_le_mono1)
  finally have vt: "2 ^ 31 \<le> unat (push_bit z w)" by (simp only: pw)
  define nu where "nu = norm_dividend (mag a) z"
  define n where "n = length (mag a) - 1"
  have len: "length (mag a) = Suc n" "2 \<le> n" using assms(5) by (simp_all add: n_def)
  have "div_step [push_bit z w] n nu = Inl OutOfBounds"
    using norm_dividend_top [OF z(2) ua la] vt len by (intro one_word_step_out_of_bounds) (simp_all add: nu_def)
  then have "div_loop [push_bit z w] (Suc n) nu = Inl OutOfBounds" by simp
  then have "knuth_div (mag a) [w] s = Inl OutOfBounds" for s
    by (simp add: knuth_div_def Let_def z(1) sl nu_def [symmetric] len del: div_loop.simps)
  with cmp bl assms(3,5) show ?thesis by (simp add: Divide_def Let_def)
qed

text \<open>The correction after a negative difference never runs: the subtraction is done on
  unsigned words before it is widened, so with three divisor words an estimate that is one too
  large stays, here the quotient 4 instead of 3.\<close>

theorem Divide_three_words_wrong:
  "Divide \<lparr>sign = 1, mag = [3, 0, 0x80000000]\<rparr> \<lparr>sign = 1, mag = [1, 0, 0x20000000]\<rparr> =
     Inr (AssignInt64 4, \<lparr>sign = 1, mag = [0xFFFFFFFF, 0xFFFFFFFF, 0x3FFFFFFF]\<rparr>) \<and>
   mag_val [3, 0, 0x80000000] div mag_val [1, 0, 0x20000000] = 3"
proof
  show "Divide \<lparr>sign = 1, mag = [3, 0, 0x80000000]\<rparr> \<lparr>sign = 1, mag = [1, 0, 0x20000000]\<rparr> =
     Inr (AssignInt64 4, \<lparr>sign = 1, mag = [0xFFFFFFFF, 0xFFFFFFFF, 0x3FFFFFFF]\<rparr>)"
    by code_simp
qed (simp add: B32_def)

end
