(* ===== verification/Odbc_BigText.thy ===== *)
theory Odbc_BigText
  imports Odbc_BigDivide Odbc_Text
begin

text \<open>
  The text form of \<open>BigInteger\<close>: \<open>operator<<\<close> and \<open>operator>>\<close> of
  \<^verbatim>\<open>common/big_integer.h\<close>. A stream is the string of the characters left to read or the
  string written; an input loop is a recursion along that string, and the writing loop, whose
  end depends on division, is a \<open>partial_function\<close> that is shown to return.
\<close>

section \<open>Output\<close>

definition maxUintTenPower :: BigInteger where
  "maxUintTenPower = AssignUint64 10000000000000000000"

definition abs_sign :: "BigInteger \<Rightarrow> BigInteger" where
  "abs_sign b = (if sign b < 0 then b\<lparr>sign := - sign b\<rparr> else b)"

partial_function (option) write_loop :: "BigInteger \<Rightarrow> u64 list \<Rightarrow> (big_error + u64 list) option" where
  "write_loop left vals =
     (if IsZero left then Some (Inr vals)
      else case Divide left maxUintTenPower of
             Inl e \<Rightarrow> Some (Inl e)
           | Inr qr \<Rightarrow> write_loop (fst qr) (vals @ [ToInt64 (snd qr)]))"

declare write_loop.simps [code]

definition write_vals :: "u64 list \<Rightarrow> string" where
  "write_vals vals =
     dec_string (unat (last vals)) @
     concat (map (\<lambda>v. pad_left 19 (CHR ''0'') (dec_string (unat v))) (rev (butlast vals)))"

definition write_big :: "BigInteger \<Rightarrow> (big_error + string) option" where
  "write_big val =
     (if IsZero val then Some (Inr ''0'')
      else case Divide val maxUintTenPower of
             Inl e \<Rightarrow> Some (Inl e)
           | Inr (left, res) \<Rightarrow>
               (case write_loop (abs_sign left) [ToInt64 (abs_sign res)] of
                  None \<Rightarrow> None
                | Some (Inl e) \<Rightarrow> Some (Inl e)
                | Some (Inr vals) \<Rightarrow>
                    Some (Inr ((if sign val < 0 then ''-'' else []) @ write_vals vals))))"

section \<open>Input\<close>

text \<open>
  The digit loop: \<open>part\<close> is a 64-bit number that is moved into the value as soon as it has 19
  digits. The 32-bit counter \<open>partDigits\<close> is an \<open>int\<close>: it cannot exceed the length of the
  input.
\<close>

definition add_part :: "BigInteger \<Rightarrow> u64 \<Rightarrow> int \<Rightarrow> BigInteger" where
  "add_part val part partDigits = AddUint64 (Multiply val (GetPowerOfTen partDigits)) part"

fun read_digits :: "BigInteger \<Rightarrow> u64 \<Rightarrow> int \<Rightarrow> string \<Rightarrow> BigInteger \<times> u64 \<times> int \<times> string" where
  "read_digits val part partDigits [] = (val, part, partDigits, [])"
| "read_digits val part partDigits (c # cs) =
     (if isdigit c then
        let part' = part * 10 + (word_of_nat (of_char c) - 48);
            partDigits' = partDigits + 1
        in if part' \<ge> 1000000000000000000 then read_digits (add_part val part' partDigits') 0 0 cs
           else read_digits val part' partDigits' cs
      else (val, part, partDigits, c # cs))"

definition finish_part :: "BigInteger \<Rightarrow> u64 \<Rightarrow> int \<Rightarrow> BigInteger" where
  "finish_part val part partDigits = (if partDigits \<noteq> 0 then add_part val part partDigits else val)"

text \<open>The stream's sentry skips white space; at the end of the input the value is zero.\<close>

definition read_big :: "string \<Rightarrow> BigInteger \<times> string" where
  "read_big input =
     (case dropWhile isspace input of
        [] \<Rightarrow> (AssignInt64 0, [])
      | c # cs \<Rightarrow>
          let neg = (c = CHR ''-'');
              body = (if c = CHR ''-'' \<or> c = CHR ''+'' then cs else c # cs);
              (val, part, partDigits, rest) = read_digits (AssignInt64 0) 0 0 body;
              val' = finish_part val part partDigits
          in (if neg then Negate val' else val', rest))"

section \<open>What is written\<close>

lemma maxUintTenPower_props:
  "canonical maxUintTenPower" "sign maxUintTenPower = 1" "length (mag maxUintTenPower) = 2"
  "mag_val (mag maxUintTenPower) = 10 ^ 19" "mag maxUintTenPower \<noteq> []"
proof -
  show l: "length (mag maxUintTenPower) = 2"
    by (simp add: maxUintTenPower_def) code_simp
  then show "mag maxUintTenPower \<noteq> []" by auto
qed (simp_all add: maxUintTenPower_def canonical_AssignUint64 AssignUint64_props)

lemma ToInt64_nonneg:
  assumes "wf_big b" and "sign b = 1" and "mag_val (mag b) < 2 ^ 64"
  shows "unat (ToInt64 b) = mag_val (mag b)"
proof -
  have "length (mag b) \<le> 2"
  proof (rule ccontr)
    assume "\<not> length (mag b) \<le> 2"
    moreover from this have "mag b \<noteq> []" by auto
    ultimately have "B32 ^ 2 \<le> B32 ^ (length (mag b) - 1)" "B32 ^ (length (mag b) - 1) \<le> mag_val (mag b)"
      using assms(1) mag_val_lower_bound [of "mag b"] by (auto intro!: power_increasing simp: wf_big_def Suc_le_eq)
    with assms(3) show False by (simp add: B32_def)
  qed
  then consider "mag b = []" | x where "mag b = [x]" | x y where "mag b = [x, y]"
    by (cases "mag b"; cases "tl (mag b)"; cases "tl (tl (mag b))") auto
  then show ?thesis
    by cases (simp_all add: ToInt64_def GetMagInt_def assms(2) unat_MakeU64 word_conv flip: MakeU64_def)
qed

fun chunks :: "nat \<Rightarrow> u64 list" where
  "chunks n = (if n = 0 then [] else word_of_nat (n mod 10 ^ 19) # chunks (n div 10 ^ 19))"

declare chunks.simps [simp del]

lemma unat_chunk: "unat (word_of_nat (n mod 10 ^ 19) :: u64) = n mod 10 ^ 19"
proof -
  have "n mod 10 ^ 19 < 10 ^ 19" by simp
  also have "(10::nat) ^ 19 < 2 ^ 64" by simp
  finally show ?thesis by (simp add: unsigned_of_nat take_bit_nat_eq_self)
qed

lemma ToInt64_chunk:
  assumes "wf_big b" and "sign b = 1" and "mag_val (mag b) = n mod 10 ^ 19"
  shows "ToInt64 b = word_of_nat (n mod 10 ^ 19)"
proof -
  have "mag_val (mag b) < 10 ^ 19" by (simp add: assms(3))
  also have "(10::nat) ^ 19 < 2 ^ 64" by simp
  finally have "unat (ToInt64 b) = n mod 10 ^ 19"
    using ToInt64_nonneg [OF assms(1,2)] by (simp only: assms(3))
  then show ?thesis by (simp only: word_unat_eq_iff unat_chunk)
qed

text \<open>The parts are the digits of the number in base \<open>10 ^ 19\<close>.\<close>

lemma write_loop_chunks:
  assumes "wf_big b" and "sign b = 1"
  shows "write_loop b vals = Some (Inr (vals @ chunks (mag_val (mag b))))"
  using assms
proof (induction "mag_val (mag b)" arbitrary: b vals rule: less_induct)
  case less
  have nb: "normalized (mag b)" using less.prems(1) by (simp add: wf_big_def)
  show ?case
  proof (cases "mag b = []")
    case True
    then show ?thesis by (simp add: write_loop.simps [of b] IsZero_def chunks.simps [of 0])
  next
    case False
    let ?n = "mag_val (mag b)"
    have pos: "?n \<noteq> 0" using False nb by (simp add: normalized_eq_Nil_iff)
    have "canonical b" using less.prems by (simp add: canonical_def)
    then obtain q r where d: "Divide b maxUintTenPower = Inr (q, r)" "wf_big q" "wf_big r"
        "big_val q = int (?n div 10 ^ 19)" "big_val r = int (?n mod 10 ^ 19)" "sign q = 1" "sign r = 1"
      using Divide_props [of b maxUintTenPower] maxUintTenPower_props less.prems(2) by auto
    have qv: "mag_val (mag q) = ?n div 10 ^ 19" and rv: "mag_val (mag r) = ?n mod 10 ^ 19"
      using d(4-7) by (simp_all only: big_val_def mult_1 of_nat_eq_iff)
    have "mag_val (mag q) < ?n" using pos unfolding qv by (intro div_less_dividend) simp_all
    with less.hyps d(2,6) have "write_loop q (vals @ [ToInt64 r]) =
        Some (Inr (vals @ ToInt64 r # chunks (?n div 10 ^ 19)))"
      by (simp add: qv)
    moreover have "ToInt64 r = word_of_nat (?n mod 10 ^ 19)"
      using d(3,7) rv by (rule ToInt64_chunk)
    ultimately show ?thesis
      using False pos by (subst write_loop.simps) (simp add: IsZero_def d(1) chunks.simps [of ?n])
  qed
qed

lemma write_vals_Cons:
  "vals \<noteq> [] \<Longrightarrow> write_vals (v # vals) = write_vals vals @ pad_left 19 (CHR ''0'') (dec_string (unat v))"
  by (simp add: write_vals_def)

lemma write_vals_chunks: "0 < n \<Longrightarrow> write_vals (chunks n) = dec_string n"
proof (induction n rule: chunks.induct)
  case (1 n)
  show ?case
  proof (cases "n < 10 ^ 19")
    case True
    then show ?thesis
      using "1.prems" unat_chunk [of n]
      by (simp add: chunks.simps [of n] chunks.simps [of 0] write_vals_def)
  next
    case False
    then have pos: "0 < n div 10 ^ 19" by (simp add: div_greater_zero_iff)
    then have "chunks (n div 10 ^ 19) \<noteq> []" by (subst chunks.simps) simp
    then have "write_vals (chunks n) = dec_string (n div 10 ^ 19) @
        pad_left 19 (CHR ''0'') (dec_string (n mod 10 ^ 19))"
      using "1.prems" "1.IH" pos unat_chunk [of n]
      by (simp only: chunks.simps [of n]) (simp add: write_vals_Cons)
    also have "pad_left 19 (CHR ''0'') (dec_string (n mod 10 ^ 19)) = fixed_digits 19 n"
      by (simp only: fixed_digits_mod fixed_digits_pad [symmetric] zero_less_numeral mod_less_divisor zero_less_power)
    finally show ?thesis using dec_string_split [of 19 n] False by (simp only: not_less)
  qed
qed

lemma wf_abs_sign: "wf_big b \<Longrightarrow> wf_big (abs_sign b) \<and> sign (abs_sign b) = 1 \<and> mag (abs_sign b) = mag b"
  by (auto simp: abs_sign_def wf_big_def)

lemma write_big_props:
  assumes "canonical b"
  shows "write_big b = Some (Inr (int_string (big_val b)))"
proof (cases "mag b = []")
  case True
  then show ?thesis
    by (simp add: write_big_def IsZero_def big_val_def int_string_def dec_string_small)
next
  case False
  let ?n = "mag_val (mag b)"
  have nb: "normalized (mag b)" and sb: "sign b = 1 \<or> sign b = -1"
    using assms by (auto simp: canonical_def wf_big_def)
  have pos: "0 < ?n" using False nb normalized_eq_Nil_iff by auto
  obtain q r where d: "Divide b maxUintTenPower = Inr (q, r)" "wf_big q" "wf_big r"
      "big_val q = sign b * int (?n div 10 ^ 19)"
      "big_val r = sign b * int (?n mod 10 ^ 19)"
    using Divide_props [OF assms, of maxUintTenPower] maxUintTenPower_props by auto
  have mv: "mag_val (mag c) = m" if "wf_big c" "big_val c = sign b * int m" for c m
    using that sb arg_cong [OF that(2), of abs] by (auto simp: big_val_def wf_big_def)
  note q = wf_abs_sign [OF d(2)] and r = wf_abs_sign [OF d(3)]
  have "write_loop (abs_sign q) [ToInt64 (abs_sign r)] =
      Some (Inr (word_of_nat (?n mod 10 ^ 19) # chunks (?n div 10 ^ 19)))"
    using write_loop_chunks [of "abs_sign q"] ToInt64_chunk [of "abs_sign r" ?n]
      q r mv [OF d(2,4)] mv [OF d(3,5)] by simp
  then have "write_big b = Some (Inr ((if sign b < 0 then ''-'' else []) @ write_vals (chunks ?n)))"
    using False pos by (simp add: write_big_def IsZero_def d(1) chunks.simps [of ?n])
  then show ?thesis
    using sb pos by (auto simp: write_vals_chunks [OF pos] int_string_def big_val_def)
qed

text \<open>(C37) A \<open>BigInteger\<close> is written as its decimal numeral: the loop that divides by
  \<open>10 ^ 19\<close> ends for every canonical value, and the 19-digit parts it collects, padded with
  zeros, are the digits of the value.\<close>

theorem write_big_decimal:
  assumes "canonical b"
  shows "write_big b = Some (Inr (int_string (big_val b)))"
  by (rule write_big_props [OF assms])

theorem write_big_decimal_witness:
  "write_big \<lparr>sign = -1, mag = [7, 0, 5]\<rparr> = Some (Inr (int_string (- 92233720368547758087)))"
  using write_big_decimal [of "\<lparr>sign = -1, mag = [7, 0, 5]\<rparr>"]
  by (simp add: canonical_def wf_big_def normalized_def big_val_def B32_def)

section \<open>What is read\<close>

lemma add_part_props:
  assumes "canonical v" and "0 \<le> big_val v" and "0 < k"
  shows "canonical (add_part v p (int k))" "big_val (add_part v p (int k)) = big_val v * 10 ^ k + int (unat p)"
proof -
  have s: "sign v = 1" using assms(1,2) normalized_eq_Nil_iff [of "mag v"]
    by (auto simp: canonical_def wf_big_def big_val_def)
  let ?m = "Multiply v (GetPowerOfTen (int k))"
  have g: "big_val (GetPowerOfTen (int k)) = 10 ^ k" "canonical (GetPowerOfTen (int k))"
    "mag (GetPowerOfTen (int k)) \<noteq> []"
    using GetPowerOfTen_props [of "int k"] by simp_all
  have "sign (GetPowerOfTen (int k)) = 1"
  proof (rule ccontr)
    assume "sign (GetPowerOfTen (int k)) \<noteq> 1"
    then have "sign (GetPowerOfTen (int k)) = -1" using g(2) by (auto simp: canonical_def wf_big_def)
    then have "big_val (GetPowerOfTen (int k)) \<le> 0" by (simp add: big_val_def)
    moreover have "(0 :: int) < 10 ^ k" by simp
    ultimately show False using g(1) by linarith
  qed
  then have sm: "sign ?m = 1" using s by (simp add: sign_Multiply)
  then have "canonical ?m" using wf_Multiply assms(1) g(2) by (simp add: canonical_def)
  from AddUint64_props [OF this, of p] sm show "canonical (add_part v p (int k))"
    "big_val (add_part v p (int k)) = big_val v * 10 ^ k + int (unat p)"
    by (simp_all add: add_part_def big_val_Multiply g(1))
qed

lemma digit_word:
  assumes "isdigit c" and "unat p < 10 ^ 18"
  shows "unat (p * 10 + (word_of_nat (of_char c) - 48) :: u64) = unat p * 10 + char_digit c"
proof -
  have "of_char c = char_digit c + 48" "char_digit c < 10"
    using assms(1) char_digit_less by (auto simp: isdigit_def char_digit_def)
  moreover from this have "(word_of_nat (of_char c) - 48 :: u64) = word_of_nat (char_digit c)"
    by (simp add: algebra_simps)
  ultimately show ?thesis
    using assms(2) by (simp add: unat_word_ariths unsigned_of_nat take_bit_nat_eq_self)
qed

text \<open>What the loop has read so far is \<open>val * 10 ^ partDigits + part\<close>.\<close>

lemma read_digits_props:
  assumes "list_all isdigit ds" and "rest = [] \<or> \<not> isdigit (hd rest)"
    and "canonical v" and "0 \<le> big_val v" and "unat p < 10 ^ 18" and "k = 0 \<Longrightarrow> p = 0"
  shows "\<exists>v' p' k'. read_digits v p (int k) (ds @ rest) = (v', p', int k', rest) \<and>
    canonical (finish_part v' p' (int k')) \<and>
    big_val (finish_part v' p' (int k')) =
      (big_val v * 10 ^ k + int (unat p)) * 10 ^ length ds + int (dec_val ds)"
  using assms
proof (induction ds arbitrary: v p k)
  case Nil
  have "read_digits v p (int k) rest = (v, p, int k, rest)"
    using Nil.prems(2) by (cases rest) simp_all
  moreover have "canonical (finish_part v p (int k)) \<and>
      big_val (finish_part v p (int k)) = big_val v * 10 ^ k + int (unat p)"
    using Nil.prems(3,4,6) add_part_props [of v k p] by (cases "k = 0") (simp_all add: finish_part_def)
  ultimately show ?case by (simp add: dec_val_def)
next
  case (Cons c ds)
  define p' where "p' = p * 10 + (word_of_nat (of_char c) - 48)"
  have c: "isdigit c" and ds: "list_all isdigit ds" using Cons.prems(1) by simp_all
  have up: "unat p' = unat p * 10 + char_digit c" unfolding p'_def by (rule digit_word [OF c Cons.prems(5)])
  have val: "(big_val v * 10 ^ k + int (unat p)) * 10 ^ length (c # ds) + int (dec_val (c # ds)) =
      (big_val v * 10 ^ Suc k + int (unat p')) * 10 ^ length ds + int (dec_val ds)"
    using dec_val_append [of "[c]" ds] by (simp add: up dec_val_def algebra_simps)
  note ap = add_part_props [OF Cons.prems(3,4), of "Suc k" p']
  have st: "int k + 1 = int (Suc k)" by simp
  show ?case
  proof (cases "p' \<ge> 1000000000000000000")
    case True
    have "0 \<le> big_val (add_part v p' (int (Suc k)))" using ap Cons.prems(4) by simp
    from Cons.IH [OF ds Cons.prems(2) ap(1) this, of 0 0] True c val ap(2)
    show ?thesis by (simp add: p'_def [symmetric] st del: of_nat_Suc)
  next
    case False
    then have "unat p' < 10 ^ 18" by (simp add: word_le_nat_alt)
    from Cons.IH [OF ds Cons.prems(2-4) this, of "Suc k"] False c val
    show ?thesis by (simp add: p'_def [symmetric] st del: of_nat_Suc)
  qed
qed

lemma Negate_props: "canonical b \<Longrightarrow> canonical (Negate b) \<and> big_val (Negate b) = - big_val b"
  by (auto simp: Negate_def IsZero_def canonical_def wf_big_def big_val_def)

lemma read_big_props:
  assumes ds: "list_all isdigit ds" "ds \<noteq> []" and rest: "rest = [] \<or> \<not> isdigit (hd rest)"
    and sg: "sg = [] \<or> sg = ''-'' \<or> sg = ''+''"
  shows "\<exists>b. read_big (sg @ ds @ rest) = (b, rest) \<and> canonical b \<and>
    big_val b = (if sg = ''-'' then - int (dec_val ds) else int (dec_val ds))"
proof -
  have "canonical (AssignInt64 0)" "0 \<le> big_val (AssignInt64 0)"
    by (simp_all add: canonical_AssignInt64 big_val_AssignInt64)
  from read_digits_props [OF ds(1) rest this, of 0 0] obtain v p k where
    r: "read_digits (AssignInt64 0) 0 0 (ds @ rest) = (v, p, int k, rest)"
      "canonical (finish_part v p (int k))" "big_val (finish_part v p (int k)) = int (dec_val ds)"
    by (auto simp: big_val_AssignInt64)
  obtain c cs where cc: "ds = c # cs" "isdigit c" using ds by (cases ds) auto
  then have nc: "c \<noteq> CHR ''-''" "c \<noteq> CHR ''+''" "\<not> isspace c"
    using isdigit_not_isspace by (auto simp: isdigit_def)
  have ns: "\<not> isspace (CHR ''-'')" "\<not> isspace (CHR ''+'')" by (simp_all add: isspace_def)
  show ?thesis
    using sg r nc ns Negate_props [OF r(2)] by (auto simp: read_big_def cc(1) Let_def)
qed

text \<open>Reading back: for every canonical value the text that \<open>operator<<\<close> writes is read by
  \<open>operator>>\<close> as the same value, and reading stops at the end of the number.\<close>

theorem big_text_roundtrip:
  assumes "canonical b" and "rest = [] \<or> \<not> isdigit (hd rest)"
  shows "\<exists>s. write_big b = Some (Inr s) \<and> read_big (s @ rest) = (b, rest)"
proof -
  let ?s = "int_string (big_val b)"
  obtain b' where "read_big (?s @ rest) = (b', rest)" "canonical b'" "big_val b' = big_val b"
    using read_big_props [OF dec_string_digits _ assms(2), of "nat \<bar>big_val b\<bar>" "''-''"]
      read_big_props [OF dec_string_digits _ assms(2), of "nat \<bar>big_val b\<bar>" "[]"]
    by (cases "big_val b < 0") (auto simp: int_string_def)
  with canonical_eqI [OF _ assms(1)] write_big_props [OF assms(1)] show ?thesis by auto
qed

end
