(* ===== verification/Odbc_Decimal.thy ===== *)
theory Odbc_Decimal
  imports Complex_Main Odbc_BigText
begin

text \<open>
  \<^verbatim>\<open>common/decimal.h\<close> and \<^verbatim>\<open>src/common/decimal.cpp\<close>: a decimal is an unscaled
  \<open>BigInteger\<close> and a scale. \<open>SetScale\<close> writes to an out parameter, which is an argument and
  the result here. Scales and the counters of the reader are \<open>int\<close>, and an operation that would leave the range of
  \<open>int32_t\<close>, whose result the language does not define, is the error \<open>IntOverflow\<close>. Conversion to \<open>double\<close> is not
  modelled.
\<close>

section \<open>Data and operations\<close>

record Decimal =
  scale :: int
  magnitude :: BigInteger

definition Decimal_zero :: Decimal where
  "Decimal_zero = \<lparr>scale = 0, magnitude = AssignInt64 0\<rparr>"

definition Decimal_of_bytes :: "u8 list \<Rightarrow> u32 \<Rightarrow> int \<Rightarrow> bool \<Rightarrow> Decimal" where
  "Decimal_of_bytes bytes sc sgn0 bigEndian =
     \<lparr>scale = uint (sc AND 0x7FFFFFFF), magnitude = BigInteger_of_bytes bytes sgn0 bigEndian\<rparr>"

definition Decimal_AssignInt64 :: "u64 \<Rightarrow> Decimal" where
  "Decimal_AssignInt64 val = \<lparr>scale = 0, magnitude = AssignInt64 val\<rparr>"

definition Decimal_AssignUint64 :: "u64 \<Rightarrow> Decimal" where
  "Decimal_AssignUint64 val = \<lparr>scale = 0, magnitude = AssignUint64 val\<rparr>"

definition Decimal_SetScale :: "Decimal \<Rightarrow> int \<Rightarrow> Decimal \<Rightarrow> big_error + Decimal" where
  "Decimal_SetScale this newScale res =
     (if scale this = newScale then Inr res
      else
        let diff = scale this - newScale in
        if \<not> int32 diff then Inl IntOverflow
        else if diff > 0 then
          (case Divide (magnitude this) (GetPowerOfTen diff) of
             Inl e \<Rightarrow> Inl e
           | Inr (q, _) \<Rightarrow> Inr \<lparr>scale = newScale, magnitude = q\<rparr>)
        else if \<not> int32 (- diff) then Inl IntOverflow
        else Inr \<lparr>scale = newScale, magnitude = Multiply (magnitude this) (GetPowerOfTen (- diff))\<rparr>)"

definition Decimal_ToInt64 :: "Decimal \<Rightarrow> big_error + u64" where
  "Decimal_ToInt64 this =
     (if scale this = 0 then Inr (ToInt64 (magnitude this))
      else case Decimal_SetScale this 0 Decimal_zero of
             Inl e \<Rightarrow> Inl e
           | Inr zeroScaled \<Rightarrow> Inr (ToInt64 (magnitude zeroScaled)))"

definition Decimal_GetPrecision :: "Decimal \<Rightarrow> int" where
  "Decimal_GetPrecision this = GetPrecision (magnitude this)"

definition Decimal_GetMagnitudeLength :: "Decimal \<Rightarrow> nat" where
  "Decimal_GetMagnitudeLength this = length (mag (magnitude this))"

definition Decimal_IsZero :: "Decimal \<Rightarrow> bool" where
  "Decimal_IsZero this \<longleftrightarrow> IsZero (magnitude this)"

definition Decimal_IsNegative :: "Decimal \<Rightarrow> bool" where
  "Decimal_IsNegative this \<longleftrightarrow> IsNegative (magnitude this)"

definition Decimal_IsPositive :: "Decimal \<Rightarrow> bool" where
  "Decimal_IsPositive this \<longleftrightarrow> IsPositive (magnitude this)"

definition Decimal_Compare :: "Decimal \<Rightarrow> Decimal \<Rightarrow> big_error + int" where
  "Decimal_Compare this other =
     (if Decimal_IsZero this \<and> Decimal_IsZero other then Inr 0
      else if scale this = scale other then Inr (Compare (magnitude this) (magnitude other) False)
      else if scale this > scale other then
        (case Decimal_SetScale other (scale this) Decimal_zero of
           Inl e \<Rightarrow> Inl e
         | Inr scaled \<Rightarrow> Inr (Compare (magnitude this) (magnitude scaled) False))
      else
        (case Decimal_SetScale this (scale other) Decimal_zero of
           Inl e \<Rightarrow> Inl e
         | Inr scaled \<Rightarrow> Inr (Compare (magnitude scaled) (magnitude other) False)))"

section \<open>Text\<close>

text \<open>
  The text of a decimal with a positive scale from the digits of its magnitude (\<open>magStr\<close> after
  the minus sign): trailing zeros after the point are dropped.
\<close>

definition place_dot :: "string \<Rightarrow> int \<Rightarrow> string" where
  "place_dot ds sc =
     (let trimmed = rev (dropWhile (\<lambda>c. c = CHR ''0'') (rev ds));
          dotPos = int (length ds) - sc
      in if dotPos \<le> 0 then ''0.'' @ replicate (nat (- dotPos)) (CHR ''0'') @ trimmed
         else let afterDot = int (length trimmed) - dotPos
              in take (nat dotPos) ds @
                 (if afterDot > 0 then ''.'' @ take (nat afterDot) (drop (nat dotPos) ds) else []))"

text \<open>A magnitude whose text has \<open>2\<^sup>3\<^sup>1\<close> digits or more, so that its length does not fit \<open>int32_t\<close>, is an error too.\<close>

definition write_decimal :: "Decimal \<Rightarrow> (big_error + string) option" where
  "write_decimal val =
     (if mag (magnitude val) = [] then Some (Inr ''0'')
      else case write_big (magnitude val) of
             None \<Rightarrow> None
           | Some (Inl e) \<Rightarrow> Some (Inl e)
           | Some (Inr magStr) \<Rightarrow>
               if scale val \<le> 0 then
                 if \<not> int32 (- scale val) then Some (Inl IntOverflow)
                 else Some (Inr (magStr @ replicate (nat (- scale val)) (CHR ''0'')))
               else if \<not> int32 (int (length magStr)) then Some (Inl IntOverflow)
               else if magStr ! 0 = CHR ''-'' then Some (Inr (CHR ''-'' # place_dot (tl magStr) (scale val)))
               else Some (Inr (place_dot magStr (scale val))))"

text \<open>
  The loop of \<open>operator>>\<close>: \<open>sc\<close> is negative until the decimal point is found and then counts
  the characters read, the point included. \<open>None\<close> when a counter leaves its range.
\<close>

fun read_dec_digits ::
  "BigInteger \<Rightarrow> u64 \<Rightarrow> int \<Rightarrow> int \<Rightarrow> string \<Rightarrow> (BigInteger \<times> u64 \<times> int \<times> int \<times> string) option" where
  "read_dec_digits val part partDigits sc [] = Some (val, part, partDigits, sc, [])"
| "read_dec_digits val part partDigits sc (c # cs) =
     (if isdigit c \<or> (c = CHR ''.'' \<and> sc < 0) then
        let part' = (if isdigit c then part * 10 + (word_of_nat (of_char c) - 48) else part);
            partDigits' = (if isdigit c then partDigits + 1 else partDigits);
            sc' = (if isdigit c then sc else 0);
            flush = (part' \<ge> 1000000000000000000);
            sc'' = (if sc' \<ge> 0 then sc' + 1 else sc')
        in if \<not> int32 partDigits' \<or> \<not> int32 sc'' then None
           else if flush then read_dec_digits (add_part val part' partDigits') 0 0 sc'' cs
           else read_dec_digits val part' partDigits' sc'' cs
      else Some (val, part, partDigits, sc, c # cs))"

text \<open>
  \<open>is >> exp\<close> for an \<open>int32_t\<close>: white space, a sign and digits; zero when there are no
  digits, the nearest bound when the value does not fit.
\<close>

definition read_int32 :: "string \<Rightarrow> int" where
  "read_int32 input =
     (let s = dropWhile isspace input;
          neg = (s \<noteq> [] \<and> hd s = CHR ''-'');
          body = (if s \<noteq> [] \<and> (hd s = CHR ''-'' \<or> hd s = CHR ''+'') then tl s else s);
          n = int (dec_val (takeWhile isdigit body))
      in if neg then max (- n) (- INT32_MAX - 1) else min n INT32_MAX)"

definition read_decimal :: "string \<Rightarrow> big_error + Decimal" where
  "read_decimal input =
     (case dropWhile isspace input of
        [] \<Rightarrow> Inr Decimal_zero
      | c # cs \<Rightarrow>
          let neg = (c = CHR ''-'');
              body = (if c = CHR ''-'' \<or> c = CHR ''+'' then cs else c # cs)
          in case read_dec_digits (AssignInt64 0) 0 0 (-1) body of
               None \<Rightarrow> Inl IntOverflow
             | Some (val, part, partDigits, sc, rest) \<Rightarrow>
                 let m = finish_part val part partDigits;
                     sc' = (if sc < 0 then 0 else sc - 1);
                     sc'' = (case rest of
                               [] \<Rightarrow> sc'
                             | e # es \<Rightarrow> if e = CHR ''e'' \<or> e = CHR ''E'' then sc' - read_int32 es else sc')
                 in if \<not> int32 sc'' then Inl IntOverflow
                    else Inr \<lparr>scale = sc'', magnitude = (if neg then Negate m else m)\<rparr>)"

definition Decimal_AssignString :: "string \<Rightarrow> nat \<Rightarrow> big_error + Decimal" where
  "Decimal_AssignString val len = read_decimal (take len val)"

section \<open>Values\<close>

definition dec_value :: "Decimal \<Rightarrow> rat" where
  "dec_value d = rat_of_int (big_val (magnitude d)) * (10 :: rat) powi (- scale d)"

lemma scale_up_props:
  assumes "canonical m" and "0 \<le> k"
  shows "canonical (Multiply m (GetPowerOfTen k))"
    and "big_val (Multiply m (GetPowerOfTen k)) = big_val m * 10 ^ nat k"
proof -
  note g = GetPowerOfTen_props [OF assms(2)]
  have "sign (GetPowerOfTen k) = 1"
    using g(1,2,4) by (auto simp: canonical_def wf_big_def big_val_def)
  then show "canonical (Multiply m (GetPowerOfTen k))"
    using canonical_Multiply(1) [OF assms(1) g(2) _ g(3)] assms(1) wf_Multiply g(2)
    by (cases "mag m = []") (auto simp: canonical_def sign_Multiply)
  show "big_val (Multiply m (GetPowerOfTen k)) = big_val m * 10 ^ nat k"
    by (simp add: big_val_Multiply g(1))
qed

lemma SetScale_up_value:
  assumes "canonical (magnitude d)" and "scale d < s" and "s - scale d < 2 ^ 31"
  shows "\<exists>d'. Decimal_SetScale d s res = Inr d' \<and> scale d' = s \<and> canonical (magnitude d') \<and>
    big_val (magnitude d') = big_val (magnitude d) * 10 ^ nat (s - scale d) \<and> dec_value d' = dec_value d"
proof -
  define k where "k = s - scale d"
  have k: "0 \<le> k" using assms(2) by (simp add: k_def)
  note u = scale_up_props [OF assms(1) k]
  have "(10 :: rat) ^ nat k * 10 powi (- s) = 10 powi (- scale d)"
    using k by (simp add: power_int_def [of _ k, symmetric, simplified] k_def flip: power_int_of_nat power_int_add)
  then have "dec_value \<lparr>scale = s, magnitude = Multiply (magnitude d) (GetPowerOfTen k)\<rparr> = dec_value d"
    by (simp add: dec_value_def u(2) mult.assoc)
  with u assms(2,3) show ?thesis by (simp add: Decimal_SetScale_def Let_def k_def int32_def)
qed

lemma sgn_rat_of_int: "rat_of_int (sgn i) = sgn (rat_of_int i)"
  by (simp add: sgn_if)

lemma Compare_same_scale:
  assumes "canonical (magnitude a)" and "canonical (magnitude b)" and "scale a = scale b"
  shows "rat_of_int (Compare (magnitude a) (magnitude b) False) = sgn (dec_value a - dec_value b)"
proof -
  have "dec_value a - dec_value b =
      rat_of_int (big_val (magnitude a) - big_val (magnitude b)) * 10 powi (- scale b)"
    using assms(3) by (simp add: dec_value_def algebra_simps)
  moreover have "sgn ((10 :: rat) powi (- scale b)) = 1"
    by (simp add: sgn_1_pos zero_less_power_int)
  ultimately have "sgn (dec_value a - dec_value b) = sgn (rat_of_int (big_val (magnitude a) - big_val (magnitude b)))"
    by (simp only: sgn_mult mult_1_right)
  then show ?thesis by (simp only: Compare_props [OF assms(1,2)] sgn_rat_of_int)
qed

lemma dec_value_zero: "Decimal_IsZero d \<Longrightarrow> dec_value d = 0"
  by (simp add: Decimal_IsZero_def IsZero_def dec_value_def big_val_def)

text \<open>\<open>Decimal::Compare\<close> is the order of the rational numbers: for canonical unscaled
  values and two scales whose difference is in range it returns the sign of the difference.\<close>

theorem Decimal_Compare_correct:
  assumes "canonical (magnitude a)" and "canonical (magnitude b)" and "\<bar>scale a - scale b\<bar> < 2 ^ 31"
  shows "\<exists>r. Decimal_Compare a b = Inr r \<and> rat_of_int r = sgn (dec_value a - dec_value b)"
proof (cases "Decimal_IsZero a \<and> Decimal_IsZero b")
  case True
  then show ?thesis by (simp add: Decimal_Compare_def dec_value_zero)
next
  case False
  show ?thesis
  proof (cases "scale a" "scale b" rule: linorder_cases)
    case less
    have "scale b - scale a < 2 ^ 31" using assms(3) by linarith
    from SetScale_up_value [OF assms(1) less this, of Decimal_zero] obtain a' where
      "Decimal_SetScale a (scale b) Decimal_zero = Inr a'" "scale a' = scale b"
      "canonical (magnitude a')" "dec_value a' = dec_value a" by blast
    with Compare_same_scale [of a' b] assms(2) less False show ?thesis
      by (auto simp: Decimal_Compare_def)
  next
    case equal
    with Compare_same_scale [OF assms(1,2)] False show ?thesis by (auto simp: Decimal_Compare_def)
  next
    case greater
    have "scale a - scale b < 2 ^ 31" using assms(3) by linarith
    from SetScale_up_value [OF assms(2) greater this, of Decimal_zero] obtain b' where
      "Decimal_SetScale b (scale a) Decimal_zero = Inr b'" "scale b' = scale a"
      "canonical (magnitude b')" "dec_value b' = dec_value b" by blast
    with Compare_same_scale [of a b'] assms(1) greater False show ?thesis
      by (auto simp: Decimal_Compare_def)
  qed
qed

lemma SetScale_cases:
  assumes "canonical (magnitude d)" and "\<bar>scale d - s\<bar> < 2 ^ 31"
  shows "scale d < s \<Longrightarrow> \<exists>d'. Decimal_SetScale d s res = Inr d' \<and> scale d' = s \<and> dec_value d' = dec_value d"
    and "s < scale d \<Longrightarrow> length (mag (magnitude d)) \<le> 2 \<or> (10 \<le> scale d - s \<and> scale d - s \<le> 19) \<Longrightarrow>
      \<exists>d'. Decimal_SetScale d s res = Inr d' \<and> scale d' = s \<and>
        big_val (magnitude d') = sgn (big_val (magnitude d)) * (\<bar>big_val (magnitude d)\<bar> div 10 ^ nat (scale d - s))"
    and "scale d = s \<Longrightarrow> Decimal_SetScale d s res = Inr res"
proof -
  show "\<exists>d'. Decimal_SetScale d s res = Inr d' \<and> scale d' = s \<and> dec_value d' = dec_value d" if "scale d < s"
  proof -
    have "s - scale d < 2 ^ 31" using assms(2) by linarith
    from SetScale_up_value [OF assms(1) that this] show ?thesis by blast
  qed
next
  assume lt: "s < scale d" and
    sz: "length (mag (magnitude d)) \<le> 2 \<or> (10 \<le> scale d - s \<and> scale d - s \<le> 19)"
  define k where "k = scale d - s"
  have k: "0 \<le> k" using lt by (simp add: k_def)
  note g = GetPowerOfTen_props [OF k]
  have len: "length (mag (GetPowerOfTen k)) = 2" if "10 \<le> k" "k \<le> 19"
  proof -
    have "mag_val (mag (GetPowerOfTen k)) < B32 ^ 2"
    proof -
      have "(10 :: nat) ^ nat k \<le> 10 ^ 19" using that by (intro power_increasing) simp_all
      then show ?thesis by (simp add: g(4) B32_def)
    qed
    moreover have "B32 ^ 1 < mag_val (mag (GetPowerOfTen k))"
    proof -
      have "(10 :: nat) ^ 10 \<le> 10 ^ nat k" using that by (intro power_increasing) simp_all
      then show ?thesis by (simp add: g(4) B32_def)
    qed
    moreover have "B32 ^ (length (mag (GetPowerOfTen k)) - 1) \<le> mag_val (mag (GetPowerOfTen k))"
      using g(2,3) by (intro mag_val_lower_bound) (simp_all add: canonical_def wf_big_def)
    moreover have "mag_val (mag (GetPowerOfTen k)) < B32 ^ length (mag (GetPowerOfTen k))"
      by (rule mag_val_bound)
    ultimately have "B32 ^ (length (mag (GetPowerOfTen k)) - 1) < B32 ^ 2"
      "B32 ^ 1 < B32 ^ length (mag (GetPowerOfTen k))" by linarith+
    moreover have "1 < B32" by (simp add: B32_def)
    ultimately show ?thesis by (simp only: power_strict_increasing_iff)
  qed
  obtain q r where "Divide (magnitude d) (GetPowerOfTen k) = Inr (q, r)"
    "big_val q = sign (magnitude d) * sign (GetPowerOfTen k) *
       int (mag_val (mag (magnitude d)) div mag_val (mag (GetPowerOfTen k)))"
    using Divide_props [OF assms(1) g(2,3)] sz len by (auto simp: k_def)
  moreover have "sign (GetPowerOfTen k) = 1"
    using g(1,2,4) by (auto simp: canonical_def wf_big_def big_val_def)
  moreover have "sgn (big_val (magnitude d)) * (\<bar>big_val (magnitude d)\<bar> div 10 ^ nat k) =
      sign (magnitude d) * int (mag_val (mag (magnitude d)) div 10 ^ nat k)"
    using assms(1) by (auto simp: canonical_def wf_big_def big_val_def zdiv_int sgn_if)
  ultimately show "\<exists>d'. Decimal_SetScale d s res = Inr d' \<and> scale d' = s \<and>
        big_val (magnitude d') = sgn (big_val (magnitude d)) * (\<bar>big_val (magnitude d)\<bar> div 10 ^ nat (scale d - s))"
    using lt assms(2) by (simp add: Decimal_SetScale_def Let_def g(4) [unfolded k_def] k_def int32_def)
next
  show "Decimal_SetScale d s res = Inr res" if "scale d = s"
    using that by (simp add: Decimal_SetScale_def)
qed

text \<open>\<open>SetScale\<close> on every branch, when the scales are less than \<open>2\<^sup>3\<^sup>1\<close> apart. A larger scale keeps the value exactly. A smaller scale
  drops digits, truncating towards zero, as long as the division is within its supported
  sizes. With an equal scale the out parameter is not written at all, so that a freshly
  constructed result stays zero.\<close>

theorem Decimal_SetScale_correct:
  assumes "canonical (magnitude d)" and "\<bar>scale d - s\<bar> < 2 ^ 31"
  shows "(scale d < s \<longrightarrow>
      (\<exists>d'. Decimal_SetScale d s res = Inr d' \<and> scale d' = s \<and> dec_value d' = dec_value d)) \<and>
    (s < scale d \<and> (length (mag (magnitude d)) \<le> 2 \<or> (10 \<le> scale d - s \<and> scale d - s \<le> 19)) \<longrightarrow>
      (\<exists>d'. Decimal_SetScale d s res = Inr d' \<and> scale d' = s \<and>
        big_val (magnitude d') = sgn (big_val (magnitude d)) * (\<bar>big_val (magnitude d)\<bar> div 10 ^ nat (scale d - s)))) \<and>
    (scale d = s \<longrightarrow> Decimal_SetScale d s res = Inr res)"
  using SetScale_cases [OF assms] by blast

section \<open>Reading\<close>

text \<open>On digits the decimal loop does what the integer loop does.\<close>

lemma read_dec_digits_run:
  assumes "list_all isdigit ds" and "read_digits v p k ds = (v', p', k', [])" and "0 \<le> k" and "- 1 \<le> sc"
    and "k + int (length ds) < 2 ^ 31" and "sc + int (length ds) < 2 ^ 31"
  shows "read_dec_digits v p k sc (ds @ rest) =
    read_dec_digits v' p' k' (if sc < 0 then sc else sc + int (length ds)) rest"
  using assms
proof (induction ds arbitrary: v p k sc)
  case Nil
  then show ?case by simp
next
  case (Cons c ds)
  have c: "int32 (k + 1)" "int32 sc" "int32 (sc + 1)" using Cons.prems(3-6) by (auto simp: int32_def)
  show ?case
    using Cons.prems Cons.IH [of _ _ 0 "if sc \<ge> 0 then sc + 1 else sc"] Cons.IH [of _ _ "k + 1" "if sc \<ge> 0 then sc + 1 else sc"] c
    by (auto simp: Let_def add.assoc split: if_splits)
qed

lemma read_digits_count:
  "read_digits v p k ds = (v', p', k', r) \<Longrightarrow> 0 \<le> k \<Longrightarrow> 0 \<le> k' \<and> k' \<le> k + int (length ds)"
  by (induction ds arbitrary: v p k) (fastforce simp: Let_def split: if_splits)+

lemma read_digits_append:
  assumes "list_all isdigit ds" and "read_digits v p k ds = (v', p', k', [])"
  shows "read_digits v p k (ds @ es) = read_digits v' p' k' es"
  using assms
  by (induction ds arbitrary: v p k) (auto simp: Let_def split: if_splits)

lemma read_digits_bound:
  assumes "list_all isdigit ds" and "unat p < 10 ^ 18" and "read_digits v p k ds = (v', p', k', r)"
  shows "\<not> p' \<ge> 1000000000000000000"
  using assms
proof (induction ds arbitrary: v p k)
  case Nil
  then show ?case by (auto simp: word_le_nat_alt)
next
  case (Cons c ds)
  define q where "q = p * 10 + (word_of_nat (of_char c) - 48)"
  show ?case
  proof (cases "q \<ge> 1000000000000000000")
    case True
    with Cons.prems Cons.IH [of 0] show ?thesis by (simp add: q_def [symmetric] Let_def)
  next
    case False
    then have "unat q < 10 ^ 18" by (simp add: word_le_nat_alt)
    with Cons.prems Cons.IH [of q] False show ?thesis by (simp add: q_def [symmetric] Let_def)
  qed
qed

lemma read_digits_all:
  assumes "list_all isdigit ds"
  obtains v p k where "read_digits (AssignInt64 0) 0 0 ds = (v, p, int k, [])"
    and "canonical (finish_part v p (int k))" and "big_val (finish_part v p (int k)) = int (dec_val ds)"
  using read_digits_props [OF assms, of "[]" "AssignInt64 0" 0 0]
  by (auto simp: canonical_AssignInt64 big_val_AssignInt64)

text \<open>A number without and with a decimal point.\<close>

lemma read_dec_digits_int:
  assumes "list_all isdigit ds" and "int (length ds) < 2 ^ 31"
  shows "\<exists>v p k. read_dec_digits (AssignInt64 0) 0 0 (-1) ds = Some (v, p, k, -1, []) \<and>
    canonical (finish_part v p k) \<and> big_val (finish_part v p k) = int (dec_val ds)"
proof -
  obtain v p k where "read_digits (AssignInt64 0) 0 0 ds = (v, p, int k, [])"
    "canonical (finish_part v p (int k))" "big_val (finish_part v p (int k)) = int (dec_val ds)"
    using assms(1) by (rule read_digits_all)
  with read_dec_digits_run [OF assms(1), of _ _ 0 v p "int k" "-1" "[]"] assms(2) show ?thesis by auto
qed

lemma read_dec_digits_frac:
  assumes "list_all isdigit ds" and "list_all isdigit fs" and "int (length (ds @ fs)) < 2 ^ 31 - 1"
  shows "\<exists>v p k. read_dec_digits (AssignInt64 0) 0 0 (-1) (ds @ CHR ''.'' # fs) =
      Some (v, p, k, 1 + int (length fs), []) \<and>
    canonical (finish_part v p k) \<and> big_val (finish_part v p k) = int (dec_val (ds @ fs))"
proof -
  have "list_all isdigit (ds @ fs)" using assms(1,2) by simp
  then obtain v p k where r: "read_digits (AssignInt64 0) 0 0 (ds @ fs) = (v, p, int k, [])"
    "canonical (finish_part v p (int k))" "big_val (finish_part v p (int k)) = int (dec_val (ds @ fs))"
    by (rule read_digits_all)
  obtain v' p' k' where r': "read_digits (AssignInt64 0) 0 0 ds = (v', p', int k', [])"
    using assms(1) by (rule read_digits_all)
  then have s: "read_digits v' p' (int k') fs = (v, p, int k, [])"
    using r(1) read_digits_append [OF assms(1) r'] by simp
  have "\<not> p' \<ge> 1000000000000000000" using read_digits_bound [OF assms(1) _ r'] by simp
  moreover have "\<not> isdigit (CHR ''.'')" by (simp add: isdigit_def)
  moreover have n: "int k' \<le> int (length ds)" using read_digits_count [OF r'] by simp
  then have "int32 (int k')" using assms(3) by (simp add: int32_def)
  ultimately have "read_dec_digits (AssignInt64 0) 0 0 (-1) (ds @ CHR ''.'' # fs) =
      read_dec_digits v' p' (int k') 1 fs"
    using read_dec_digits_run [OF assms(1) r', of "-1" "CHR ''.'' # fs"] assms(3) by (simp add: Let_def int32_def)
  also have "\<dots> = Some (v, p, int k, 1 + int (length fs), [])"
    using read_dec_digits_run [OF assms(2) s, of 1 "[]"] assms(3) n by simp
  finally show ?thesis using r(2,3) by blast
qed

lemma sign_chars:
  assumes "isdigit c"
  shows "c \<noteq> CHR ''-''" "c \<noteq> CHR ''+''" "\<not> isspace c" "\<not> isspace (CHR ''-'')"
  using assms isdigit_not_isspace by (auto simp: isdigit_def isspace_def)

lemma read_decimal_int:
  assumes "list_all isdigit ds" and "ds \<noteq> []" and "sg = [] \<or> sg = ''-''" and "int (length ds) < 2 ^ 31"
  shows "\<exists>d. read_decimal (sg @ ds) = Inr d \<and> scale d = 0 \<and> canonical (magnitude d) \<and>
    big_val (magnitude d) = (if sg = [] then 1 else -1) * int (dec_val ds)"
proof -
  obtain c cs where c: "ds = c # cs" "isdigit c" using assms(1,2) by (cases ds) auto
  obtain v p k where "read_dec_digits (AssignInt64 0) 0 0 (-1) ds = Some (v, p, k, -1, [])"
    "canonical (finish_part v p k)" "big_val (finish_part v p k) = int (dec_val ds)"
    using read_dec_digits_int [OF assms(1,4)] by blast
  with assms(3) Negate_props [of "finish_part v p k"] sign_chars [OF c(2)] show ?thesis
    by (auto simp: read_decimal_def c(1) Let_def int32_def)
qed

lemma read_decimal_frac:
  assumes "list_all isdigit ds" and "ds \<noteq> []" and "list_all isdigit fs" and "sg = [] \<or> sg = ''-''"
    and "int (length (ds @ fs)) < 2 ^ 31 - 1"
  shows "\<exists>d. read_decimal (sg @ ds @ CHR ''.'' # fs) = Inr d \<and> scale d = int (length fs) \<and> canonical (magnitude d) \<and>
    big_val (magnitude d) = (if sg = [] then 1 else -1) * int (dec_val (ds @ fs))"
proof -
  obtain c cs where c: "ds = c # cs" "isdigit c" using assms(1,2) by (cases ds) auto
  obtain v p k where "read_dec_digits (AssignInt64 0) 0 0 (-1) (ds @ CHR ''.'' # fs) =
      Some (v, p, k, 1 + int (length fs), [])"
    "canonical (finish_part v p k)" "big_val (finish_part v p k) = int (dec_val (ds @ fs))"
    using read_dec_digits_frac [OF assms(1,3,5)] by blast
  moreover have "int32 (int (length fs))" using assms(5) by (simp add: int32_def)
  ultimately show ?thesis using assms(4) Negate_props [of "finish_part v p k"] sign_chars [OF c(2)]
    by (auto simp: read_decimal_def c(1) Let_def)
qed

section \<open>Writing and reading back\<close>

lemma dec_val_zeros: "dec_val (replicate n (CHR ''0'')) = 0"
proof (induction n)
  case 0
  then show ?case by (simp add: dec_val_def)
next
  case (Suc n)
  have "replicate (Suc n) (CHR ''0'') = replicate n (CHR ''0'') @ [CHR ''0'']"
    by (simp add: replicate_append_same)
  with Suc show ?case by (simp only: dec_val_snoc) (simp add: char_digit_def)
qed

lemma trim_zeros:
  obtains t where "ds = rev (dropWhile (\<lambda>c. c = CHR ''0'') (rev ds)) @ replicate t (CHR ''0'')"
proof -
  let ?z = "takeWhile (\<lambda>c. c = CHR ''0'') (rev ds)"
  have "?z = replicate (length ?z) (CHR ''0'')"
    by (intro replicate_length_same [symmetric]) (auto dest: set_takeWhileD)
  moreover have "ds = rev (dropWhile (\<lambda>c. c = CHR ''0'') (rev ds)) @ rev ?z"
    by (metis rev_append rev_rev_ident takeWhile_dropWhile_id)
  ultimately show thesis using that [of "length ?z"] by (metis rev_replicate)
qed

text \<open>The written digits, with the point dropped, are those of the unscaled value up to the
  trailing zeros.\<close>

lemma place_dot_value:
  assumes "list_all isdigit ds" and "0 < sc" and "ds \<noteq> []"
  shows "(\<exists>is fs. place_dot ds sc = is @ CHR ''.'' # fs \<and> list_all isdigit is \<and> is \<noteq> [] \<and> list_all isdigit fs \<and>
      int (length fs) \<le> sc \<and> int (length (is @ fs)) \<le> max (int (length ds)) (sc + 1) \<and>
      dec_val (is @ fs) * 10 ^ (nat sc - length fs) = dec_val ds) \<or>
    (list_all isdigit (place_dot ds sc) \<and> place_dot ds sc \<noteq> [] \<and> length (place_dot ds sc) \<le> length ds \<and>
      dec_val (place_dot ds sc) * 10 ^ nat sc = dec_val ds)"
proof -
  define tr where "tr = rev (dropWhile (\<lambda>c. c = CHR ''0'') (rev ds))"
  obtain t where t: "ds = tr @ replicate t (CHR ''0'')" unfolding tr_def by (rule trim_zeros)
  have val: "dec_val ds = dec_val tr * 10 ^ t" by (simp add: t dec_val_append dec_val_zeros)
  have dtr: "list_all isdigit tr" using assms(1) by (simp add: t)
  have z: "list_all isdigit (replicate m (CHR ''0''))" for m by (simp add: list_all_iff isdigit_def)
  define L where "L = length ds"
  have L: "L = length tr + t" by (simp add: L_def t)
  consider (lead) "int L \<le> sc" | (mid) "sc < int L" "int t < sc" | (whole) "sc < int L" "sc \<le> int t" by linarith
  then show ?thesis
  proof cases
    case lead
    let ?fs = "replicate (nat sc - L) (CHR ''0'') @ tr"
    have "place_dot ds sc = ''0'' @ CHR ''.'' # ?fs"
      using lead by (simp add: place_dot_def Let_def tr_def [symmetric] L_def nat_diff_distrib)
    moreover have "dec_val (''0'' @ ?fs) = dec_val tr"
      by (simp only: dec_val_append dec_val_zeros) (simp add: dec_val_def char_digit_def)
    moreover have "nat sc - length ?fs = t" using lead L by simp
    moreover have "int (length (''0'' @ ?fs)) \<le> max (int (length ds)) (sc + 1)" using lead L assms(2) by simp
    ultimately show ?thesis using val dtr z lead L by (intro disjI1 exI [of _ "''0''"] exI [of _ ?fs]) (simp add: isdigit_def)
  next
    case mid
    let ?p = "L - nat sc"
    have p: "nat (int L - sc) = ?p" "?p < length tr" using mid assms(2) L by simp_all
    have "nat (int (length tr) - (int L - sc)) = length tr - ?p" using mid assms(2) L by simp
    then have "place_dot ds sc = take ?p tr @ CHR ''.'' # drop ?p tr"
      using mid p by (simp add: place_dot_def Let_def tr_def [symmetric] L_def [symmetric]) (simp add: t L)
    moreover have "nat sc - length (drop ?p tr) = t" "int (length (drop ?p tr)) \<le> sc" using mid L by simp_all
    moreover have "?p \<noteq> 0" using mid by simp
    moreover have "int (length (take ?p tr @ drop ?p tr)) \<le> max (int (length ds)) (sc + 1)" using L by (simp add: L_def)
    ultimately show ?thesis
      using val dtr p(2) append_take_drop_id [of ?p tr]
      by (intro disjI1 exI [of _ "take ?p tr"] exI [of _ "drop ?p tr"]) (auto simp: list_all_iff dest: in_set_takeD in_set_dropD)
  next
    case whole
    let ?p = "L - nat sc"
    have p: "nat (int L - sc) = ?p" using whole assms(2) by simp
    have pd: "place_dot ds sc = take ?p ds"
      using whole p L by (simp add: place_dot_def Let_def tr_def [symmetric] L_def [symmetric])
    have "drop ?p ds = replicate (nat sc) (CHR ''0'')"
      using whole L assms(2) by (simp add: t)
    then have "dec_val ds = dec_val (take ?p ds) * 10 ^ nat sc"
      using dec_val_append [of "take ?p ds" "replicate (nat sc) (CHR ''0'')"]
        append_take_drop_id [of ?p ds] by (simp add: dec_val_zeros)
    moreover have "take ?p ds \<noteq> []" using whole assms(2,3) by (auto simp: L_def)
    ultimately show ?thesis
      using assms(1) by (intro disjI2) (auto simp: pd list_all_iff dest: in_set_takeD)
  qed
qed

lemma dec_value_shift:
  assumes "big_val (magnitude a) * 10 ^ k = big_val (magnitude b)" and "scale b = scale a + int k"
  shows "dec_value a = dec_value b"
proof -
  have "rat_of_int (big_val (magnitude b)) = rat_of_int (big_val (magnitude a)) * 10 ^ k"
    by (simp only: assms(1) [symmetric] of_int_mult of_int_power of_int_numeral)
  moreover have "(10 :: rat) ^ k * 10 powi (- scale b) = 10 powi (- scale a)"
    by (simp add: assms(2) flip: power_int_of_nat power_int_add)
  ultimately show ?thesis by (simp add: dec_value_def mult.assoc)
qed

lemma read_placed_dot:
  assumes ds: "list_all isdigit ds" "ds \<noteq> []" and pos: "0 < scale d" and sg: "sg = [] \<or> sg = ''-''"
    and v: "big_val (magnitude d) = (if sg = [] then 1 else -1) * int (dec_val ds)"
    and room: "int (length ds) < 2 ^ 31 - 1" "scale d < 2 ^ 31 - 2"
  shows "\<exists>d'. read_decimal (sg @ place_dot ds (scale d)) = Inr d' \<and> dec_value d' = dec_value d"
proof -
  define pd where "pd = place_dot ds (scale d)"
  have same: "dec_value d' = dec_value d" if "big_val (magnitude d') = (if sg = [] then 1 else -1) * int m"
    "m * 10 ^ k = dec_val ds" "scale d = scale d' + int k" for d' m k
    using that(1,3) v by (intro dec_value_shift [of d' k d]) (auto simp: that(2) [symmetric])
  from place_dot_value [OF ds(1) pos ds(2), folded pd_def] have "\<exists>d'. read_decimal (sg @ pd) = Inr d' \<and> dec_value d' = dec_value d"
  proof (elim disjE exE conjE)
    fix ws fs
    assume p: "pd = ws @ CHR ''.'' # fs" "list_all isdigit ws" "ws \<noteq> []" "list_all isdigit fs"
      "int (length fs) \<le> scale d" "int (length (ws @ fs)) \<le> max (int (length ds)) (scale d + 1)"
      "dec_val (ws @ fs) * 10 ^ (nat (scale d) - length fs) = dec_val ds"
    have "int (length (ws @ fs)) < 2 ^ 31 - 1" using p(6) room by linarith
    from read_decimal_frac [OF p(2-4) sg this] obtain d' where d': "read_decimal (sg @ ws @ CHR ''.'' # fs) = Inr d'"
      "scale d' = int (length fs)" "big_val (magnitude d') = (if sg = [] then 1 else -1) * int (dec_val (ws @ fs))" by blast
    have "dec_value d' = dec_value d" by (rule same [OF d'(3) p(7)]) (use p(5) d'(2) in simp)
    then show ?thesis using p(1) d'(1) by auto
  next
    assume p: "list_all isdigit pd" "pd \<noteq> []" "length pd \<le> length ds" "dec_val pd * 10 ^ nat (scale d) = dec_val ds"
    have "int (length pd) < 2 ^ 31" using p(3) room by linarith
    from read_decimal_int [OF p(1,2) sg this] obtain d' where d': "read_decimal (sg @ pd) = Inr d'" "scale d' = 0"
      "big_val (magnitude d') = (if sg = [] then 1 else -1) * int (dec_val pd)" by blast
    have "dec_value d' = dec_value d" by (rule same [OF d'(3) p(4)]) (use pos d'(2) in simp)
    then show ?thesis using d'(1) by blast
  qed
  then show ?thesis by (simp add: pd_def)
qed

text \<open>(C13) Text round trip: a decimal with a canonical unscaled value, whose digits and scale, of either sign, together stay
  below the largest 32-bit integer, is written without error, and reading the text succeeds and gives a decimal
  of the same value (the scale may shrink to zero or lose trailing zeros).\<close>

theorem decimal_text_roundtrip:
  assumes "canonical (magnitude d)" and "int (length (int_string (big_val (magnitude d)))) + \<bar>scale d\<bar> < INT32_MAX"
  shows "\<exists>s d'. write_decimal d = Some (Inr s) \<and> read_decimal s = Inr d' \<and> dec_value d' = dec_value d"
proof (cases "mag (magnitude d) = []")
  case True
  obtain z where "read_decimal ''0'' = Inr z" "big_val (magnitude z) = 0"
    using read_decimal_int [of "''0''" "[]"] by (auto simp: isdigit_def dec_val_def char_digit_def)
  with True show ?thesis by (simp add: write_decimal_def dec_value_def big_val_def)
next
  case False
  define n where "n = nat \<bar>big_val (magnitude d)\<bar>"
  define sg where "sg = (if big_val (magnitude d) < 0 then ''-'' else [])"
  define ds where "ds = dec_string n"
  have ds: "list_all isdigit ds" "ds \<noteq> []" "dec_val ds = n" by (simp_all add: ds_def dec_string_digits)
  have sg: "sg = [] \<or> sg = ''-''" "big_val (magnitude d) = (if sg = [] then 1 else -1) * int n"
    by (auto simp: sg_def n_def)
  have shown: "int_string (big_val (magnitude d)) = sg @ ds" by (simp add: int_string_def sg_def ds_def n_def)
  have w: "write_big (magnitude d) = Some (Inr (sg @ ds))"
    by (simp add: write_big_props [OF assms(1)] shown)
  have size: "int (length (sg @ ds)) + \<bar>scale d\<bar> < 2 ^ 31 - 1" using assms(2) by (simp add: shown INT32_MAX_def)
  have "0 < int (length ds)" "int (length ds) \<le> int (length (sg @ ds))" using ds(2) by simp_all
  then have room: "int (length ds) < 2 ^ 31 - 1" "\<bar>scale d\<bar> < 2 ^ 31 - 2" "int (length (sg @ ds)) < 2 ^ 31 - 1"
    using size by linarith+
  then have fits: "int32 (int (length (sg @ ds)))" by (simp add: int32_def)
  show ?thesis
  proof (cases "scale d \<le> 0")
    case True
    let ?k = "nat (- scale d)"
    let ?s = "sg @ ds @ replicate ?k (CHR ''0'')"
    have "list_all isdigit (ds @ replicate ?k (CHR ''0''))" using ds(1) by (auto simp: list_all_iff isdigit_def)
    moreover have "int (length (ds @ replicate ?k (CHR ''0''))) < 2 ^ 31" using size True by simp
    ultimately obtain d' where d': "read_decimal ?s = Inr d'" "scale d' = 0"
      "big_val (magnitude d') = (if sg = [] then 1 else -1) * int (n * 10 ^ ?k)"
      using read_decimal_int [OF _ _ sg(1), of "ds @ replicate ?k (CHR ''0'')"] ds by (auto simp: dec_val_append dec_val_zeros)
    then have "dec_value d' = dec_value d"
      using True sg(2) by (intro dec_value_shift [of d ?k, symmetric]) auto
    moreover have "int32 (- scale d)" using room(2) True by (simp add: int32_def)
    ultimately show ?thesis using False w True d'(1) by (simp add: write_decimal_def)
  next
    case pos: False
    have "hd ds \<noteq> CHR ''-''" using ds(1,2) sign_chars(1) by (cases ds) auto
    then have "write_decimal d = Some (Inr (sg @ place_dot ds (scale d)))"
      using False w pos sg(1) ds(2) fits by (auto simp: write_decimal_def hd_conv_nth)
    moreover obtain d' where "read_decimal (sg @ place_dot ds (scale d)) = Inr d'" "dec_value d' = dec_value d"
      using read_placed_dot [of ds d sg] ds sg pos room(1,2) by auto
    ultimately show ?thesis by simp
  qed
qed

theorem decimal_text_roundtrip_witness:
  "\<exists>s d'. write_decimal \<lparr>scale = 3, magnitude = AssignInt64 (-10250)\<rparr> = Some (Inr s) \<and>
     read_decimal s = Inr d' \<and> dec_value d' = - 10250 / 1000"
proof -
  have "big_val (AssignInt64 (-10250)) = -10250" by (simp add: big_val_AssignInt64)
  then have "length (int_string (big_val (AssignInt64 (-10250)))) = 6"
    by (simp only:) (simp add: int_string_def dec_string_small dec_string_big)
  then show ?thesis
    using decimal_text_roundtrip [of "\<lparr>scale = 3, magnitude = AssignInt64 (-10250)\<rparr>"]
    by (simp add: canonical_AssignInt64 dec_value_def [of "\<lparr>scale = s, magnitude = m\<rparr>" for s m]
        big_val_AssignInt64 power_int_minus INT32_MAX_def)
qed

text \<open>The smallest scale cannot be written: its negation is out of range.\<close>

lemma smallest_scale_overflows:
  assumes "canonical (magnitude d)" and "mag (magnitude d) \<noteq> []" and "scale d = - (2 ^ 31)"
  shows "write_decimal d = Some (Inl IntOverflow)"
  using assms by (simp add: write_decimal_def write_big_props int32_def)

end
