(* ===== verification/Odbc_AppBuffer.thy ===== *)
theory Odbc_AppBuffer
  imports Odbc_Memory Odbc_Decimal
begin

text \<open>
  \<^verbatim>\<open>app/application_data_buffer.h\<close> and \<^verbatim>\<open>src/app/application_data_buffer.cpp\<close>: the view of a
  buffer that the application bound to a column or a parameter, and the conversions into and
  out of it. What the platform decides (the size of \<open>long\<close> and of \<open>SQLWCHAR\<close>, the locale's
  narrowing of characters, the bytes of floating point numbers) is the argument \<open>Platform\<close>.
  Values of floating point type are not modelled.
\<close>

section \<open>Data\<close>

record Platform =
  sizeof_long :: nat
  sizeof_wchar :: nat
  narrow_char :: "nat \<Rightarrow> u8"
  float_bytes :: "int \<Rightarrow> u8 list"
  double_bytes :: "int \<Rightarrow> u8 list"
  text_float_bytes :: "string \<Rightarrow> u8 list"
  text_double_bytes :: "string \<Rightarrow> u8 list"
  float_to_int :: "u8 list \<Rightarrow> int"
  double_to_int :: "u8 list \<Rightarrow> int"
  float_text :: "u8 list \<Rightarrow> string"
  double_text :: "u8 list \<Rightarrow> string"

record ApplicationDataBuffer =
  buf_type :: OdbcNativeType
  buffer :: "nat option"
  buflen :: int
  reslen :: "nat option"
  byteOffset :: int
  elementOffset :: nat

text \<open>
  What the source does not catch: a write through a null pointer, malformed UTF-8 (an
  exception of the library), a string without terminator, a number read from an empty string
  into an uninitialised variable, a pointer into a destroyed object, an operation whose result the
  language leaves undefined, an exception of the library, a loop that does not end, and errors of big
  integer division.
\<close>

datatype buf_error = NullPointer | MalformedUtf8 | NoTerminator | Uninitialized | DanglingPointer | Undefined | Uncaught | Diverges |
  BigError big_error

type_synonym put_result = "buf_error + (ConversionResult \<times> mem)"

definition SQL_NULL_DATA :: int where "SQL_NULL_DATA = -1"
definition SQL_DATA_AT_EXEC :: int where "SQL_DATA_AT_EXEC = -2"
definition SQL_NTS :: int where "SQL_NTS = -3"
definition SQL_LEN_DATA_AT_EXEC_OFFSET :: int where "SQL_LEN_DATA_AT_EXEC_OFFSET = -100"

definition SQL_LEN_DATA_AT_EXEC :: "int \<Rightarrow> int" where
  "SQL_LEN_DATA_AT_EXEC len = - len + SQL_LEN_DATA_AT_EXEC_OFFSET"

section \<open>Addresses and sizes\<close>

fun GetElementSize :: "ApplicationDataBuffer \<Rightarrow> int" where
  "GetElementSize b =
     (case buf_type b of
        AI_WCHAR \<Rightarrow> buflen b | AI_CHAR \<Rightarrow> buflen b | AI_BINARY \<Rightarrow> buflen b
      | AI_SIGNED_SHORT \<Rightarrow> 2 | AI_UNSIGNED_SHORT \<Rightarrow> 2
      | AI_SIGNED_LONG \<Rightarrow> 4 | AI_UNSIGNED_LONG \<Rightarrow> 4
      | AI_FLOAT \<Rightarrow> 4 | AI_DOUBLE \<Rightarrow> 8
      | AI_SIGNED_TINYINT \<Rightarrow> 1 | AI_BIT \<Rightarrow> 1 | AI_UNSIGNED_TINYINT \<Rightarrow> 1
      | AI_SIGNED_BIGINT \<Rightarrow> 8 | AI_UNSIGNED_BIGINT \<Rightarrow> 8
      | AI_TDATE \<Rightarrow> 6 | AI_TTIME \<Rightarrow> 6 | AI_TTIMESTAMP \<Rightarrow> 16
      | AI_NUMERIC \<Rightarrow> 19 | AI_GUID \<Rightarrow> 16
      | AI_DEFAULT \<Rightarrow> 0 | AI_UNSUPPORTED \<Rightarrow> 0)"

declare GetElementSize.simps [simp del]

definition ApplyOffset :: "ApplicationDataBuffer \<Rightarrow> nat option \<Rightarrow> int \<Rightarrow> nat option" where
  "ApplyOffset b ptr elemSize =
     (case ptr of None \<Rightarrow> None | Some p \<Rightarrow> Some (nat (int p + byteOffset b + elemSize * int (elementOffset b))))"

definition GetData :: "ApplicationDataBuffer \<Rightarrow> nat option" where
  "GetData b = ApplyOffset b (buffer b) (GetElementSize b)"

definition GetResLen :: "ApplicationDataBuffer \<Rightarrow> nat option" where
  "GetResLen b = ApplyOffset b (reslen b) 8"

definition put_reslen :: "mem \<Rightarrow> ApplicationDataBuffer \<Rightarrow> int \<Rightarrow> mem" where
  "put_reslen m b n = (case GetResLen b of None \<Rightarrow> m | Some a \<Rightarrow> write_bytes m a (int_bytes 8 n))"

definition get_reslen :: "mem \<Rightarrow> ApplicationDataBuffer \<Rightarrow> int option" where
  "get_reslen m b = (case GetResLen b of None \<Rightarrow> None | Some a \<Rightarrow> Some (sint_of_bytes (read_bytes m a 8)))"

definition put_data :: "mem \<Rightarrow> ApplicationDataBuffer \<Rightarrow> u8 list \<Rightarrow> mem" where
  "put_data m b bs = (case GetData b of None \<Rightarrow> m | Some a \<Rightarrow> write_bytes m a bs)"

definition IsDataAtExec :: "mem \<Rightarrow> ApplicationDataBuffer \<Rightarrow> bool" where
  "IsDataAtExec m b =
     (case get_reslen m b of
        None \<Rightarrow> False
      | Some n \<Rightarrow> let ilen = to_signed 32 n in ilen \<le> SQL_LEN_DATA_AT_EXEC_OFFSET \<or> ilen = SQL_DATA_AT_EXEC)"

definition GetDataAtExecSize :: "Platform \<Rightarrow> mem \<Rightarrow> ApplicationDataBuffer \<Rightarrow> int" where
  "GetDataAtExecSize pl m b =
     (if buf_type b = AI_WCHAR \<or> buf_type b = AI_CHAR \<or> buf_type b = AI_BINARY then
        (case get_reslen m b of
           None \<Rightarrow> 0
         | Some n \<Rightarrow>
             let ilen = to_signed 32 n;
                 ilen' = (if ilen \<le> SQL_LEN_DATA_AT_EXEC_OFFSET then SQL_LEN_DATA_AT_EXEC ilen else 0)
             in if buf_type b = AI_WCHAR then ilen' * 2 else ilen')
      else if buf_type b = AI_SIGNED_SHORT \<or> buf_type b = AI_UNSIGNED_SHORT then 2
      else if buf_type b = AI_SIGNED_LONG \<or> buf_type b = AI_UNSIGNED_LONG then int (sizeof_long pl)
      else if buf_type b = AI_FLOAT then 4
      else if buf_type b = AI_DOUBLE then 8
      else if buf_type b = AI_BIT \<or> buf_type b = AI_SIGNED_TINYINT \<or> buf_type b = AI_UNSIGNED_TINYINT then 1
      else if buf_type b = AI_SIGNED_BIGINT \<or> buf_type b = AI_UNSIGNED_BIGINT then 8
      else if buf_type b = AI_TDATE then 6
      else if buf_type b = AI_TTIME then 6
      else if buf_type b = AI_TTIMESTAMP then 16
      else if buf_type b = AI_NUMERIC then 19
      else if buf_type b = AI_GUID then 16
      else 0)"

definition GetInputSize :: "Platform \<Rightarrow> mem \<Rightarrow> ApplicationDataBuffer \<Rightarrow> int" where
  "GetInputSize pl m b =
     (if \<not> IsDataAtExec m b then (case get_reslen m b of Some n \<Rightarrow> n | None \<Rightarrow> SQL_NTS)
      else GetDataAtExecSize pl m b)"

section \<open>Text into the buffer\<close>

text \<open>The result carries the number of bytes written; \<open>wide\<close> selects \<open>SQLWCHAR\<close> output.\<close>

definition PutStrToStrBuffer ::
  "Platform \<Rightarrow> bool \<Rightarrow> mem \<Rightarrow> ApplicationDataBuffer \<Rightarrow> string \<Rightarrow> buf_error + (ConversionResult \<times> mem \<times> int)" where
  "PutStrToStrBuffer pl wide m b value =
     (let outCharSize = (if wide then int (sizeof_wchar pl) else 1)
      in case GetData b of
           None \<Rightarrow> Inr (CR_SUCCESS, m, 0)
         | Some a \<Rightarrow>
             if buflen b < outCharSize then Inr (CR_VARLEN_DATA_TRUNCATED, m, 0)
             else
               case (if wide then Some (CopyUtf8StringToWcharString (sizeof_wchar pl) m value (Some a) (nat (buflen b)) False)
                     else CopyUtf8StringToSqlCharString (narrow_char pl) m value (Some a) (nat (buflen b)) False) of
                 None \<Rightarrow> Inl MalformedUtf8
               | Some (m', n, isTruncated) \<Rightarrow>
                   let written = to_signed 32 (int n);
                       m'' = put_reslen m' b written
                   in Inr (if isTruncated then CR_VARLEN_DATA_TRUNCATED else CR_SUCCESS, m'', written))"

definition drop_written :: "buf_error + (ConversionResult \<times> mem \<times> int) \<Rightarrow> put_result" where
  "drop_written r = (case r of Inl e \<Rightarrow> Inl e | Inr (c, m, _) \<Rightarrow> Inr (c, m))"

definition PutRawDataToBuffer :: "mem \<Rightarrow> ApplicationDataBuffer \<Rightarrow> u8 list \<Rightarrow> ConversionResult \<times> mem \<times> int" where
  "PutRawDataToBuffer m b data =
     (let iLen = int (length data);
          m' = put_reslen m b iLen;
          toCopy = min (buflen b) iLen;
          m'' = (if toCopy > 0 then put_data m' b (take (nat toCopy) data) else m')
      in (if toCopy < iLen then CR_VARLEN_DATA_TRUNCATED else CR_SUCCESS, m'', to_signed 32 toCopy))"

definition PutNull :: "mem \<Rightarrow> ApplicationDataBuffer \<Rightarrow> ConversionResult \<times> mem" where
  "PutNull m b =
     (case GetResLen b of
        None \<Rightarrow> (CR_INDICATOR_NEEDED, m)
      | Some a \<Rightarrow> (CR_SUCCESS, put_reslen m b SQL_NULL_DATA))"

section \<open>Dates and times into the buffer\<close>

text \<open>A broken-down time as in \<^verbatim>\<open>time.h\<close>; \<open>gmtime\<close> for the proleptic Gregorian calendar.\<close>

record tm =
  tm_year :: int
  tm_mon :: int
  tm_mday :: int
  tm_hour :: int
  tm_min :: int
  tm_sec :: int

definition gmtime :: "int \<Rightarrow> tm" where
  "gmtime secs =
     (let days = secs div 86400; s = secs mod 86400;
          z = days + 719468; era = z div 146097; doe = z mod 146097;
          yoe = (doe - doe div 1460 + doe div 36524 - doe div 146096) div 365;
          doy = doe - (365 * yoe + yoe div 4 - yoe div 100);
          mp = (5 * doy + 2) div 153;
          d = doy - (153 * mp + 2) div 5 + 1;
          mth = (if mp < 10 then mp + 3 else mp - 9);
          y = yoe + era * 400 + (if mth \<le> 2 then 1 else 0)
      in \<lparr>tm_year = y - 1900, tm_mon = mth - 1, tm_mday = d,
          tm_hour = s div 3600, tm_min = s mod 3600 div 60, tm_sec = s mod 60\<rparr>)"

definition two_digits :: "int \<Rightarrow> string" where
  "two_digits i = pad_left 2 (CHR ''0'') (dec_string (nat i))"

definition format_date :: "tm \<Rightarrow> string" where
  "format_date t = int_string (tm_year t + 1900) @ ''-'' @ two_digits (tm_mon t + 1) @ ''-'' @ two_digits (tm_mday t)"

definition format_time :: "tm \<Rightarrow> string" where
  "format_time t = two_digits (tm_hour t) @ '':'' @ two_digits (tm_min t) @ '':'' @ two_digits (tm_sec t)"

definition format_timestamp :: "tm \<Rightarrow> string" where
  "format_timestamp t = format_date t @ '' '' @ format_time t"

definition string_bytes :: "string \<Rightarrow> u8 list" where
  "string_bytes s = map (\<lambda>c. word_of_nat (of_char c)) s"

text \<open>\<open>strftime\<close> writes the text and a terminator if they fit (otherwise nothing is specified
  about the buffer, and it is left alone here).\<close>

definition strftime_to :: "mem \<Rightarrow> ApplicationDataBuffer \<Rightarrow> string \<Rightarrow> mem" where
  "strftime_to m b s =
     (if int (length s) + 1 \<le> buflen b then put_data m b (string_bytes s @ [0]) else m)"

text \<open>The text branches: \<open>valLen\<close> is the length of the pattern, \<open>room\<close> that of the wide branch's
  intermediate string.\<close>

definition put_tm_char :: "mem \<Rightarrow> ApplicationDataBuffer \<Rightarrow> int \<Rightarrow> string \<Rightarrow> ConversionResult \<times> mem" where
  "put_tm_char m b valLen s =
     (let m' = strftime_to (put_reslen m b valLen) b s
      in (if valLen + 1 > buflen b then CR_VARLEN_DATA_TRUNCATED else CR_SUCCESS, m'))"

definition put_tm_wchar ::
  "Platform \<Rightarrow> mem \<Rightarrow> ApplicationDataBuffer \<Rightarrow> int \<Rightarrow> int \<Rightarrow> string \<Rightarrow> ConversionResult \<times> mem" where
  "put_tm_wchar pl m b valLen room s =
     (let m1 = put_reslen m b valLen;
          tmp = (if int (length s) + 1 \<le> room then s else []);
          m2 = (if GetData b = None then m1
                else fst (CopyStringToBuffer (sizeof_wchar pl) m1 tmp (GetData b) (nat (buflen b)) False))
      in (if valLen + 1 > buflen b then CR_VARLEN_DATA_TRUNCATED else CR_SUCCESS, m2))"

definition date_struct :: "tm \<Rightarrow> u8 list" where
  "date_struct t = int_bytes 2 (tm_year t + 1900) @ int_bytes 2 (tm_mon t + 1) @ int_bytes 2 (tm_mday t)"

definition time_struct :: "tm \<Rightarrow> u8 list" where
  "time_struct t = int_bytes 2 (tm_hour t) @ int_bytes 2 (tm_min t) @ int_bytes 2 (tm_sec t)"

definition timestamp_struct :: "tm \<Rightarrow> int \<Rightarrow> u8 list" where
  "timestamp_struct t fraction = date_struct t @ time_struct t @ int_bytes 4 fraction"

definition put_struct :: "mem \<Rightarrow> ApplicationDataBuffer \<Rightarrow> u8 list \<Rightarrow> ConversionResult \<Rightarrow> put_result" where
  "put_struct m b bs res =
     (case GetData b of
        None \<Rightarrow> Inl NullPointer
      | Some a \<Rightarrow> Inr (res, put_reslen (write_bytes m a bs) b (int (length bs))))"

definition PutDate :: "Platform \<Rightarrow> mem \<Rightarrow> ApplicationDataBuffer \<Rightarrow> tm \<Rightarrow> put_result" where
  "PutDate pl m b t =
     (case buf_type b of
        AI_CHAR \<Rightarrow> Inr (put_tm_char m b 10 (format_date t))
      | AI_WCHAR \<Rightarrow> Inr (put_tm_wchar pl m b 10 11 (format_date t))
      | AI_TDATE \<Rightarrow> put_struct m b (date_struct t) CR_SUCCESS
      | AI_TTIME \<Rightarrow> put_struct m b (time_struct t) CR_SUCCESS
      | AI_TTIMESTAMP \<Rightarrow> put_struct m b (timestamp_struct t 0) CR_SUCCESS
      | _ \<Rightarrow> Inr (CR_UNSUPPORTED_CONVERSION, m))"

definition PutTimestamp :: "Platform \<Rightarrow> mem \<Rightarrow> ApplicationDataBuffer \<Rightarrow> tm \<Rightarrow> int \<Rightarrow> put_result" where
  "PutTimestamp pl m b t fraction =
     (case buf_type b of
        AI_CHAR \<Rightarrow> Inr (put_tm_char m b 19 (format_timestamp t))
      | AI_WCHAR \<Rightarrow> Inr (put_tm_wchar pl m b 19 (buflen b) (format_timestamp t))
      | AI_TDATE \<Rightarrow> put_struct m b (date_struct t) CR_FRACTIONAL_TRUNCATED
      | AI_TTIME \<Rightarrow> put_struct m b (time_struct t) CR_FRACTIONAL_TRUNCATED
      | AI_TTIMESTAMP \<Rightarrow> put_struct m b (timestamp_struct t fraction) CR_SUCCESS
      | _ \<Rightarrow> Inr (CR_UNSUPPORTED_CONVERSION, m))"

definition PutTime :: "Platform \<Rightarrow> mem \<Rightarrow> ApplicationDataBuffer \<Rightarrow> tm \<Rightarrow> put_result" where
  "PutTime pl m b t =
     (case buf_type b of
        AI_CHAR \<Rightarrow> Inr (put_tm_char m b 8 (format_time t))
      | AI_WCHAR \<Rightarrow> Inr (put_tm_wchar pl m b 8 (buflen b) (format_time t))
      | AI_TTIME \<Rightarrow> put_struct m b (time_struct t) CR_SUCCESS
      | AI_TTIMESTAMP \<Rightarrow> put_struct m b (timestamp_struct t 0) CR_SUCCESS
      | _ \<Rightarrow> Inr (CR_UNSUPPORTED_CONVERSION, m))"

section \<open>Numbers into the buffer\<close>

text \<open>Division of the source rounds towards zero.\<close>

definition c_div :: "int \<Rightarrow> int \<Rightarrow> int" where
  "c_div a b = sgn a * (\<bar>a\<bar> div b)"

definition c_mod :: "int \<Rightarrow> int \<Rightarrow> int" where
  "c_mod a b = sgn a * (\<bar>a\<bar> mod b)"

text \<open>\<open>DateToCTm\<close> and its siblings, for a number of milliseconds.\<close>

definition ms_tm :: "int \<Rightarrow> tm" where
  "ms_tm ms = gmtime (c_div ms 1000)"

definition PutNumToNumBuffer :: "mem \<Rightarrow> ApplicationDataBuffer \<Rightarrow> u8 list \<Rightarrow> ConversionResult \<times> mem" where
  "PutNumToNumBuffer m b bs = (CR_SUCCESS, put_reslen (put_data m b bs) b (int (length bs)))"

text \<open>\<open>SQL_NUMERIC_STRUCT\<close>: precision, scale, sign (1 for positive) and 16 bytes of magnitude.\<close>

definition numeric_struct :: "int \<Rightarrow> int \<Rightarrow> bool \<Rightarrow> u8 list \<Rightarrow> u8 list" where
  "numeric_struct prec sc neg val =
     int_bytes 1 prec @ int_bytes 1 sc @ [if neg then 0 else 1] @ take 16 (val @ replicate 16 0)"

definition PutNum :: "Platform \<Rightarrow> mem \<Rightarrow> ApplicationDataBuffer \<Rightarrow> nat \<Rightarrow> int \<Rightarrow> put_result" where
  "PutNum pl m b tsize value =
     (case buf_type b of
        AI_SIGNED_TINYINT \<Rightarrow> Inr (PutNumToNumBuffer m b (int_bytes 1 value))
      | AI_BIT \<Rightarrow> Inr (PutNumToNumBuffer m b (int_bytes 1 value))
      | AI_UNSIGNED_TINYINT \<Rightarrow> Inr (PutNumToNumBuffer m b (int_bytes 1 value))
      | AI_SIGNED_SHORT \<Rightarrow> Inr (PutNumToNumBuffer m b (int_bytes 2 value))
      | AI_UNSIGNED_SHORT \<Rightarrow> Inr (PutNumToNumBuffer m b (int_bytes 2 value))
      | AI_SIGNED_LONG \<Rightarrow> Inr (PutNumToNumBuffer m b (int_bytes 4 value))
      | AI_UNSIGNED_LONG \<Rightarrow> Inr (PutNumToNumBuffer m b (int_bytes 4 value))
      | AI_SIGNED_BIGINT \<Rightarrow> Inr (PutNumToNumBuffer m b (int_bytes 8 value))
      | AI_UNSIGNED_BIGINT \<Rightarrow> Inr (PutNumToNumBuffer m b (int_bytes 8 value))
      | AI_FLOAT \<Rightarrow> Inr (PutNumToNumBuffer m b (float_bytes pl value))
      | AI_DOUBLE \<Rightarrow> Inr (PutNumToNumBuffer m b (double_bytes pl value))
      | AI_CHAR \<Rightarrow> drop_written (PutStrToStrBuffer pl False m b (int_string value))
      | AI_WCHAR \<Rightarrow> drop_written (PutStrToStrBuffer pl True m b (int_string value))
      | AI_NUMERIC \<Rightarrow>
          let uval = word_of_int \<bar>value\<bar> :: u64;
              s = numeric_struct (DigitLength uval) 0 (value < 0) (int_bytes 8 (uint uval))
          in Inr (CR_SUCCESS, put_reslen (put_data m b s) b 19)
      | AI_TDATE \<Rightarrow> PutDate pl m b (ms_tm value)
      | AI_TTIMESTAMP \<Rightarrow> PutTimestamp pl m b (ms_tm value) (c_mod value 1000 * 1000000)
      | AI_TTIME \<Rightarrow> PutTime pl m b (ms_tm value)
      | AI_GUID \<Rightarrow> Inr (CR_UNSUPPORTED_CONVERSION, m)
      | AI_UNSUPPORTED \<Rightarrow> Inr (CR_UNSUPPORTED_CONVERSION, m)
      | _ \<Rightarrow>
          let room = nat (buflen b mod 2 ^ 64)
          in Inr (if room < tsize then CR_VARLEN_DATA_TRUNCATED else CR_SUCCESS,
                  put_reslen (put_data m b (take room (int_bytes tsize value))) b (int tsize)))"

text \<open>An absent value (\<open>boost::none\<close>) is null data.\<close>

definition PutOptNum :: "Platform \<Rightarrow> mem \<Rightarrow> ApplicationDataBuffer \<Rightarrow> nat \<Rightarrow> int option \<Rightarrow> put_result" where
  "PutOptNum pl m b tsize value =
     (case value of Some v \<Rightarrow> PutNum pl m b tsize v | None \<Rightarrow> Inr (PutNull m b))"

text \<open>
  \<open>converter >> numValue\<close> for an \<open>int64_t\<close>: on input of white space only the variable is left
  uninitialised.
\<close>

definition read_int64 :: "string \<Rightarrow> buf_error + int" where
  "read_int64 input =
     (case dropWhile isspace input of
        [] \<Rightarrow> Inl Uninitialized
      | c # cs \<Rightarrow>
          let body = (if c = CHR ''-'' \<or> c = CHR ''+'' then cs else c # cs);
              n = int (dec_val (takeWhile isdigit body))
          in Inr (if c = CHR ''-'' then max (- n) (- (2 ^ 63)) else min n (2 ^ 63 - 1)))"

definition PutString ::
  "Platform \<Rightarrow> mem \<Rightarrow> ApplicationDataBuffer \<Rightarrow> string \<Rightarrow> buf_error + (ConversionResult \<times> mem \<times> int)" where
  "PutString pl m b value =
     (if buf_type b \<in> {AI_SIGNED_TINYINT, AI_BIT, AI_UNSIGNED_TINYINT, AI_SIGNED_SHORT, AI_UNSIGNED_SHORT,
          AI_SIGNED_LONG, AI_UNSIGNED_LONG, AI_SIGNED_BIGINT, AI_UNSIGNED_BIGINT, AI_NUMERIC} then
        (case read_int64 value of
           Inl e \<Rightarrow> Inl e
         | Inr n \<Rightarrow> (case PutNum pl m b 8 n of
                      Inl e \<Rightarrow> Inl e
                    | Inr (c, m') \<Rightarrow> Inr (c, m', to_signed 32 (int (length value)))))
      else if buf_type b = AI_FLOAT \<or> buf_type b = AI_DOUBLE then
        (let bs = (if buf_type b = AI_FLOAT then text_float_bytes pl value else text_double_bytes pl value);
             (c, m') = PutNumToNumBuffer m b bs
         in Inr (c, m', to_signed 32 (int (length value))))
      else if buf_type b \<in> {AI_CHAR, AI_BINARY, AI_DEFAULT} then PutStrToStrBuffer pl False m b value
      else if buf_type b = AI_WCHAR then PutStrToStrBuffer pl True m b value
      else Inr (CR_UNSUPPORTED_CONVERSION, m, 0))"

definition PutOptString :: "Platform \<Rightarrow> mem \<Rightarrow> ApplicationDataBuffer \<Rightarrow> string option \<Rightarrow> put_result" where
  "PutOptString pl m b value =
     (case value of Some v \<Rightarrow> drop_written (PutString pl m b v) | None \<Rightarrow> Inr (PutNull m b))"

section \<open>GUIDs and binary data into the buffer\<close>

fun hex_digit :: "nat \<Rightarrow> char" where
  "hex_digit d = (if d < 10 then digit_char d else char_of (87 + d))"

fun hex_fixed :: "nat \<Rightarrow> nat \<Rightarrow> string" where
  "hex_fixed 0 n = []"
| "hex_fixed (Suc k) n = hex_fixed k (n div 16) @ [hex_digit (n mod 16)]"

record Guid =
  guid_most :: u64
  guid_least :: u64

definition guid_string :: "Guid \<Rightarrow> string" where
  "guid_string g =
     hex_fixed 8 (unat (ucast (drop_bit 32 (guid_most g)) :: u32)) @ ''-'' @
     hex_fixed 4 (unat (ucast (drop_bit 16 (guid_most g)) :: u16)) @ ''-'' @
     hex_fixed 4 (unat (ucast (guid_most g) :: u16)) @ ''-'' @
     hex_fixed 4 (unat (ucast (drop_bit 48 (guid_least g)) :: u16)) @ ''-'' @
     hex_fixed 12 (unat (guid_least g AND 0x0000FFFFFFFFFFFF))"

definition guid_data4 :: "u64 \<Rightarrow> u8 list" where
  "guid_data4 lsb = map (\<lambda>i. ucast (drop_bit ((8 - i - 1) * 8) lsb AND 0xFF)) [0..<8]"

definition PutGuid :: "Platform \<Rightarrow> mem \<Rightarrow> ApplicationDataBuffer \<Rightarrow> Guid \<Rightarrow> put_result" where
  "PutGuid pl m b g =
     (case buf_type b of
        AI_CHAR \<Rightarrow> drop_written (PutStrToStrBuffer pl False m b (guid_string g))
      | AI_BINARY \<Rightarrow> drop_written (PutStrToStrBuffer pl False m b (guid_string g))
      | AI_DEFAULT \<Rightarrow> drop_written (PutStrToStrBuffer pl False m b (guid_string g))
      | AI_WCHAR \<Rightarrow> drop_written (PutStrToStrBuffer pl True m b (guid_string g))
      | AI_GUID \<Rightarrow>
          put_struct m b
            (int_bytes 4 (uint (drop_bit 32 (guid_most g))) @ int_bytes 2 (uint (drop_bit 16 (guid_most g))) @
             int_bytes 2 (uint (guid_most g)) @ guid_data4 (guid_least g)) CR_SUCCESS
      | _ \<Rightarrow> Inr (CR_UNSUPPORTED_CONVERSION, m))"

definition hex_bytes :: "u8 list \<Rightarrow> string" where
  "hex_bytes bs = concat (map (\<lambda>x. hex_fixed 2 (unat x)) bs)"

definition PutBinaryData ::
  "Platform \<Rightarrow> mem \<Rightarrow> ApplicationDataBuffer \<Rightarrow> u8 list \<Rightarrow> buf_error + (ConversionResult \<times> mem \<times> int)" where
  "PutBinaryData pl m b data =
     (case buf_type b of
        AI_BINARY \<Rightarrow> Inr (PutRawDataToBuffer m b data)
      | AI_DEFAULT \<Rightarrow> Inr (PutRawDataToBuffer m b data)
      | AI_CHAR \<Rightarrow> PutStrToStrBuffer pl False m b (hex_bytes data)
      | AI_WCHAR \<Rightarrow> PutStrToStrBuffer pl True m b (hex_bytes data)
      | _ \<Rightarrow> Inr (CR_UNSUPPORTED_CONVERSION, m, 0))"

section \<open>Decimals into the buffer\<close>

text \<open>\<open>None\<close> would be a text output that does not end.\<close>

definition PutDecimal :: "Platform \<Rightarrow> mem \<Rightarrow> ApplicationDataBuffer \<Rightarrow> Decimal \<Rightarrow> put_result option" where
  "PutDecimal pl m b value =
     (if buf_type b \<in> {AI_SIGNED_TINYINT, AI_BIT, AI_UNSIGNED_TINYINT, AI_SIGNED_SHORT, AI_UNSIGNED_SHORT,
          AI_SIGNED_LONG, AI_UNSIGNED_LONG, AI_SIGNED_BIGINT, AI_UNSIGNED_BIGINT} then
        Some (case Decimal_ToInt64 value of
           Inl e \<Rightarrow> Inl (BigError e)
         | Inr n \<Rightarrow> (case PutNum pl m b 8 (sint n) of
                      Inl e \<Rightarrow> Inl e
                    | Inr (_, m') \<Rightarrow> Inr (CR_FRACTIONAL_TRUNCATED, m')))
      else if buf_type b = AI_FLOAT \<or> buf_type b = AI_DOUBLE then
        (case write_decimal value of
           None \<Rightarrow> None
         | Some (Inl e) \<Rightarrow> Some (Inl (BigError e))
         | Some (Inr s) \<Rightarrow>
             let bs = (if buf_type b = AI_FLOAT then text_float_bytes pl s else text_double_bytes pl s)
             in Some (Inr (CR_FRACTIONAL_TRUNCATED, snd (PutNumToNumBuffer m b bs))))
      else if buf_type b = AI_CHAR \<or> buf_type b = AI_WCHAR then
        (case write_decimal value of
           None \<Rightarrow> None
         | Some (Inl e) \<Rightarrow> Some (Inl (BigError e))
         | Some (Inr s) \<Rightarrow> Some (drop_written (PutString pl m b s)))
      else if buf_type b = AI_NUMERIC then
        Some (case Decimal_SetScale value 0 Decimal_zero of
           Inl e \<Rightarrow> Inl (BigError e)
         | Inr zeroScaled \<Rightarrow>
             let unscaled = magnitude zeroScaled;
                 bytes = MagnitudeToBytes unscaled;
                 s = numeric_struct (GetPrecision unscaled) 0 (sign unscaled < 0) (rev bytes)
             in put_struct m b s (if length bytes > 16 then CR_FRACTIONAL_TRUNCATED else CR_SUCCESS))
      else Some (Inr (CR_UNSUPPORTED_CONVERSION, m)))"

section \<open>Out of the buffer\<close>

text \<open>
  The text of the buffer and the numbers in it. \<open>bound\<close> bounds the search for a terminator.
  The target type of a number is given by its size and signedness.
\<close>

definition cast_int :: "bool \<Rightarrow> nat \<Rightarrow> int \<Rightarrow> int" where
  "cast_int sgnd tsize v = (if sgnd then to_signed (8 * tsize) v else v mod 2 ^ (8 * tsize))"

definition buffer_text :: "Platform \<Rightarrow> nat \<Rightarrow> mem \<Rightarrow> ApplicationDataBuffer \<Rightarrow> buf_error + string" where
  "buffer_text pl bound m b =
     (let paramLen = GetInputSize pl m b
      in if paramLen = 0 then Inr []
         else case (if buf_type b = AI_CHAR then SqlCharToString bound m (GetData b) (to_signed 32 paramLen)
                    else SqlWcharToString (sizeof_wchar pl) bound m (GetData b) (to_signed 32 paramLen) True) of
                None \<Rightarrow> Inl NoTerminator
              | Some s \<Rightarrow> Inr s)"

definition read_data :: "mem \<Rightarrow> ApplicationDataBuffer \<Rightarrow> nat \<Rightarrow> buf_error + u8 list" where
  "read_data m b n = (case GetData b of None \<Rightarrow> Inl NullPointer | Some a \<Rightarrow> Inr (read_bytes m a n))"

definition get_int :: "mem \<Rightarrow> ApplicationDataBuffer \<Rightarrow> bool \<Rightarrow> nat \<Rightarrow> buf_error + int" where
  "get_int m b sgnd n =
     (case read_data m b n of
        Inl e \<Rightarrow> Inl e
      | Inr bs \<Rightarrow> Inr (if sgnd then sint_of_bytes bs else uint_of_bytes bs))"

definition numeric_decimal :: "u8 list \<Rightarrow> Decimal" where
  "numeric_decimal bs =
     Decimal_of_bytes (drop 3 bs) (word_of_int (sint_of_bytes [bs ! 1])) (if bs ! 2 \<noteq> 0 then 1 else -1) False"

text \<open>
  The integer instances of \<open>GetNum\<close>. The text branch reads into the target type, one-byte
  types through \<open>short\<close>, from the text cut to the input size.
\<close>

definition text_num :: "Platform \<Rightarrow> nat \<Rightarrow> mem \<Rightarrow> ApplicationDataBuffer \<Rightarrow> nat \<Rightarrow> buf_error + int" where
  "text_num pl bound m b tsize =
     (let paramLen = GetInputSize pl m b
      in if paramLen = 0 then Inr 0
         else case buffer_text pl bound m b of
                Inl e \<Rightarrow> Inl e
              | Inr s \<Rightarrow>
                  (case read_int64 (take (nat (paramLen mod 2 ^ 64)) s) of
                     Inl e \<Rightarrow> if tsize = 1 then Inl e else Inr 0
                   | Inr n \<Rightarrow>
                       let h = 2 ^ (8 * (if tsize = 1 then 2 else tsize) - 1)
                       in Inr (max (- h) (min n (h - 1)))))"

definition GetNum :: "Platform \<Rightarrow> nat \<Rightarrow> mem \<Rightarrow> ApplicationDataBuffer \<Rightarrow> bool \<Rightarrow> nat \<Rightarrow> buf_error + int" where
  "GetNum pl bound m b sgnd tsize =
     (let cast = (\<lambda>r. case r of Inl e \<Rightarrow> Inl e | Inr v \<Rightarrow> Inr (cast_int sgnd tsize v))
      in case buf_type b of
           AI_CHAR \<Rightarrow> cast (text_num pl bound m b tsize)
         | AI_WCHAR \<Rightarrow> cast (text_num pl bound m b tsize)
         | AI_SIGNED_TINYINT \<Rightarrow> cast (get_int m b True 1)
         | AI_BIT \<Rightarrow> cast (get_int m b False 1)
         | AI_UNSIGNED_TINYINT \<Rightarrow> cast (get_int m b False 1)
         | AI_SIGNED_SHORT \<Rightarrow> cast (get_int m b True 2)
         | AI_UNSIGNED_SHORT \<Rightarrow> cast (get_int m b False 2)
         | AI_SIGNED_LONG \<Rightarrow> cast (get_int m b True (sizeof_long pl))
         | AI_UNSIGNED_LONG \<Rightarrow> cast (get_int m b False (sizeof_long pl))
         | AI_SIGNED_BIGINT \<Rightarrow> cast (get_int m b True 8)
         | AI_UNSIGNED_BIGINT \<Rightarrow> cast (get_int m b False 8)
         | AI_FLOAT \<Rightarrow> cast (case read_data m b 4 of Inl e \<Rightarrow> Inl e | Inr bs \<Rightarrow> Inr (float_to_int pl bs))
         | AI_DOUBLE \<Rightarrow> cast (case read_data m b 8 of Inl e \<Rightarrow> Inl e | Inr bs \<Rightarrow> Inr (double_to_int pl bs))
         | AI_NUMERIC \<Rightarrow>
             cast (case read_data m b 19 of
                     Inl e \<Rightarrow> Inl e
                   | Inr bs \<Rightarrow> (case Decimal_ToInt64 (numeric_decimal bs) of
                                  Inl e \<Rightarrow> Inl (BigError e) | Inr v \<Rightarrow> Inr (sint v)))
         | _ \<Rightarrow> Inr 0)"

definition GetString :: "Platform \<Rightarrow> nat \<Rightarrow> mem \<Rightarrow> ApplicationDataBuffer \<Rightarrow> nat \<Rightarrow> buf_error + string" where
  "GetString pl bound m b maxLen =
     (let show_int = (\<lambda>r. case r of Inl e \<Rightarrow> Inl e | Inr n \<Rightarrow> Inr (int_string n))
      in if buf_type b = AI_CHAR \<or> buf_type b = AI_WCHAR then
           (case buffer_text pl bound m b of Inl e \<Rightarrow> Inl e | Inr s \<Rightarrow> Inr (take maxLen s))
         else if buf_type b \<in> {AI_SIGNED_TINYINT, AI_SIGNED_SHORT, AI_SIGNED_LONG, AI_SIGNED_BIGINT} then
           show_int (GetNum pl bound m b True 8)
         else if buf_type b \<in> {AI_BIT, AI_UNSIGNED_TINYINT, AI_UNSIGNED_SHORT, AI_UNSIGNED_LONG, AI_UNSIGNED_BIGINT} then
           show_int (GetNum pl bound m b False 8)
         else if buf_type b = AI_FLOAT then
           (case read_data m b 4 of Inl e \<Rightarrow> Inl e | Inr bs \<Rightarrow> Inr (float_text pl bs))
         else if buf_type b = AI_DOUBLE then
           (case read_data m b 8 of Inl e \<Rightarrow> Inl e | Inr bs \<Rightarrow> Inr (double_text pl bs))
         else if buf_type b = AI_NUMERIC then
           (case read_data m b 19 of
              Inl e \<Rightarrow> Inl e
            | Inr bs \<Rightarrow> (case Decimal_ToInt64 (numeric_decimal bs) of
                           Inl e \<Rightarrow> Inl (BigError e) | Inr v \<Rightarrow> Inr (double_text pl (double_bytes pl (sint v)))))
         else Inr [])"

text \<open>The binary branch of \<open>GetGuid\<close>: each byte of \<open>Data4\<close> replaces the value of \<open>lsb\<close>. The
  shifted byte is an \<open>int\<close>: a shift by 32 or more is reduced modulo 32 as the processors do.\<close>

definition guid_lsb :: "u8 list \<Rightarrow> u64" where
  "guid_lsb data4 =
     foldl (\<lambda>lsb i. word_of_int (to_signed 32 (uint (data4 ! i) * 2 ^ ((8 - i - 1) * 8 mod 32)))) 0 [0..<8]"

definition GetGuid_binary :: "mem \<Rightarrow> ApplicationDataBuffer \<Rightarrow> buf_error + Guid" where
  "GetGuid_binary m b =
     (case read_data m b 16 of
        Inl e \<Rightarrow> Inl e
      | Inr bs \<Rightarrow>
          let d1 = word_of_int (uint_of_bytes (take 4 bs)) :: u64;
              d2 = word_of_int (uint_of_bytes (take 2 (drop 4 bs))) :: u64;
              d3 = word_of_int (uint_of_bytes (take 2 (drop 6 bs))) :: u64
          in Inr \<lparr>guid_most = push_bit 32 d1 OR push_bit 16 d2 OR d3, guid_least = guid_lsb (drop 8 bs)\<rparr>)"

text \<open>\<open>GetDecimal\<close>; \<open>None\<close> for the floating point branches, which are not modelled. A text
  buffer with input size zero leaves \<open>val\<close> as it was.\<close>

definition GetDecimal :: "Platform \<Rightarrow> nat \<Rightarrow> mem \<Rightarrow> ApplicationDataBuffer \<Rightarrow> Decimal \<Rightarrow> (buf_error + Decimal) option" where
  "GetDecimal pl bound m b val =
     (if buf_type b = AI_CHAR \<or> buf_type b = AI_WCHAR then
        (let paramLen = GetInputSize pl m b
         in if paramLen = 0 then Some (Inr val)
            else case GetString pl bound m b (nat (paramLen mod 2 ^ 64)) of
                   Inl e \<Rightarrow> Some (Inl e)
                 | Inr s \<Rightarrow> Some (case read_decimal s of Inl e \<Rightarrow> Inl (BigError e) | Inr v \<Rightarrow> Inr v))
      else if buf_type b \<in> {AI_SIGNED_TINYINT, AI_BIT, AI_SIGNED_SHORT, AI_SIGNED_LONG, AI_SIGNED_BIGINT} then
        Some (case GetNum pl bound m b True 8 of
                Inl e \<Rightarrow> Inl e | Inr v \<Rightarrow> Inr (Decimal_AssignInt64 (word_of_int v)))
      else if buf_type b \<in> {AI_UNSIGNED_TINYINT, AI_UNSIGNED_SHORT, AI_UNSIGNED_LONG, AI_UNSIGNED_BIGINT} then
        Some (case GetNum pl bound m b False 8 of
                Inl e \<Rightarrow> Inl e | Inr v \<Rightarrow> Inr (Decimal_AssignUint64 (word_of_int v)))
      else if buf_type b = AI_FLOAT \<or> buf_type b = AI_DOUBLE then None
      else if buf_type b = AI_NUMERIC then
        Some (case read_data m b 19 of Inl e \<Rightarrow> Inl e | Inr bs \<Rightarrow> Inr (numeric_decimal bs))
      else Some (Inr (Decimal_AssignInt64 0)))"

end
