(* ===== verification/Odbc_AppBufferProps.thy ===== *)
theory Odbc_AppBufferProps
  imports Odbc_AppBuffer
begin

text \<open>
  Properties of the application buffer: what is put can be read back, how text and raw data
  are truncated, that text never leaves the buffer, and where the source departs from that.
\<close>

section \<open>Cells of a buffer\<close>

text \<open>The length cell lies outside the \<open>n\<close> bytes of data at the current element.\<close>

definition separate :: "ApplicationDataBuffer \<Rightarrow> nat \<Rightarrow> bool" where
  "separate b n \<longleftrightarrow>
     (case GetData b of None \<Rightarrow> True
      | Some a \<Rightarrow> (case GetResLen b of None \<Rightarrow> True | Some r \<Rightarrow> r + 8 \<le> a \<or> a + n \<le> r))"

lemma read_put_reslen:
  assumes "GetData b = Some a" and "separate b n" and "k \<le> n"
  shows "read_bytes (put_reslen m b v) a k = read_bytes m a k"
  using assms by (auto simp: put_reslen_def separate_def intro!: read_write_disjoint split: option.splits)

lemma get_put_reslen: "GetResLen b = Some r \<Longrightarrow> get_reslen (put_reslen m b v) b = Some (to_signed 64 v)"
  using sint_of_int_bytes [of 8 v] read_write_same [of m r "int_bytes 8 v"]
  by (simp add: get_reslen_def put_reslen_def)

lemma put_reslen_outside:
  "GetResLen b = Some r \<Longrightarrow> x < r \<or> r + 8 \<le> x \<Longrightarrow> put_reslen m b v x = m x"
  by (simp add: put_reslen_def write_bytes_outside)

lemma put_reslen_None: "GetResLen b = None \<Longrightarrow> put_reslen m b v = m"
  by (simp add: put_reslen_def)

section \<open>Numbers\<close>

text \<open>Signedness and size of the integer buffer types.\<close>

fun native_int :: "OdbcNativeType \<Rightarrow> (bool \<times> nat) option" where
  "native_int AI_SIGNED_TINYINT = Some (True, 1)"
| "native_int AI_BIT = Some (False, 1)"
| "native_int AI_UNSIGNED_TINYINT = Some (False, 1)"
| "native_int AI_SIGNED_SHORT = Some (True, 2)"
| "native_int AI_UNSIGNED_SHORT = Some (False, 2)"
| "native_int AI_SIGNED_LONG = Some (True, 4)"
| "native_int AI_UNSIGNED_LONG = Some (False, 4)"
| "native_int AI_SIGNED_BIGINT = Some (True, 8)"
| "native_int AI_UNSIGNED_BIGINT = Some (False, 8)"
| "native_int _ = None"

lemma PutNum_native:
  "native_int (buf_type b) = Some (s, n) \<Longrightarrow> PutNum pl m b k v = Inr (PutNumToNumBuffer m b (int_bytes n v))"
  by (cases "buf_type b") (simp_all add: PutNum_def)

lemma GetNum_native:
  assumes "native_int (buf_type b) = Some (s, n)" and "sizeof_long pl = 4 \<or> buf_type b \<notin> {AI_SIGNED_LONG, AI_UNSIGNED_LONG}" and "GetData b = Some a"
  shows "GetNum pl k m b True 8 =
    Inr (to_signed 64 (if s then sint_of_bytes (read_bytes m a n) else uint_of_bytes (read_bytes m a n)))"
  using assms
  by (cases "buf_type b") (simp_all add: GetNum_def get_int_def read_data_def cast_int_def)

lemma native_int_pos: "native_int t = Some (s, n) \<Longrightarrow> 0 < n"
  by (cases t) simp_all

lemma put_get_native:
  assumes "native_int (buf_type b) = Some (s, n)" and "sizeof_long pl = 4 \<or> buf_type b \<notin> {AI_SIGNED_LONG, AI_UNSIGNED_LONG}"
    and "GetData b = Some a" and "separate b n"
  shows "\<exists>m'. PutNum pl m b w v = Inr (CR_SUCCESS, m') \<and>
    GetNum pl k m' b True 8 = Inr (to_signed 64 (cast_int s n v)) \<and>
    (GetResLen b \<noteq> None \<longrightarrow> get_reslen m' b = Some (int n))"
proof -
  let ?m = "put_reslen (write_bytes m a (int_bytes n v)) b (int n)"
  have n: "0 < n" "n \<le> 8" using assms(1) native_int_pos by (auto, cases "buf_type b") auto
  have "PutNum pl m b w v = Inr (CR_SUCCESS, ?m)"
    using assms(3) by (simp add: PutNum_native [OF assms(1)] PutNumToNumBuffer_def put_data_def)
  moreover have rd: "read_bytes ?m a n = int_bytes n v"
    using read_put_reslen [OF assms(3,4)] read_write_same [of m a "int_bytes n v"] by simp
  have "GetNum pl k ?m b True 8 = Inr (to_signed 64 (cast_int s n v))"
    unfolding GetNum_native [OF assms(1-3)] rd cast_int_def
    using n by (simp add: sint_of_int_bytes uint_of_int_bytes power_mult)
  moreover have "to_signed 64 (int n) = int n"
    using n by (intro to_signed_id) simp_all
  ultimately show ?thesis using get_put_reslen [of b _ _ "int n"] by auto
qed

text \<open>(C24) Numbers into and out of a buffer: a number put into a buffer of an integer type is
  stored in the type's width, the length cell gets that width, and reading the buffer gives the
  number reduced to the type's range. For the two long types this needs a \<open>long\<close> of four bytes, as on
  Windows; for the others the size of \<open>long\<close> does not matter.\<close>

theorem PutNum_GetNum:
  assumes "native_int (buf_type b) = Some (s, n)" and "sizeof_long pl = 4 \<or> buf_type b \<notin> {AI_SIGNED_LONG, AI_UNSIGNED_LONG}"
    and "GetData b = Some a" and "separate b n"
  shows "\<exists>m'. PutNum pl m b 8 v = Inr (CR_SUCCESS, m') \<and>
    GetNum pl k m' b True 8 = Inr (to_signed 64 (cast_int s n v)) \<and>
    (GetResLen b \<noteq> None \<longrightarrow> get_reslen m' b = Some (int n))"
  using assms by (rule put_get_native)

definition plain_platform :: "nat \<Rightarrow> Platform" where
  "plain_platform l =
     \<lparr>sizeof_long = l, sizeof_wchar = 2, narrow_char = word_of_nat,
      float_bytes = int_bytes 4, double_bytes = int_bytes 8,
      text_float_bytes = (\<lambda>s. replicate 4 0), text_double_bytes = (\<lambda>s. replicate 8 0),
      float_to_int = sint_of_bytes, double_to_int = sint_of_bytes,
      float_text = (\<lambda>bs. []), double_text = (\<lambda>bs. [])\<rparr>"

definition buffer_at :: "OdbcNativeType \<Rightarrow> nat \<Rightarrow> int \<Rightarrow> nat \<Rightarrow> ApplicationDataBuffer" where
  "buffer_at t a n r =
     \<lparr>buf_type = t, buffer = Some a, buflen = n, reslen = Some r, byteOffset = 0, elementOffset = 0\<rparr>"

lemma buffer_at_cells [simp]:
  "GetData (buffer_at t a n r) = Some a" "GetResLen (buffer_at t a n r) = Some r"
  "buf_type (buffer_at t a n r) = t" "buflen (buffer_at t a n r) = n"
  by (simp_all add: GetData_def GetResLen_def ApplyOffset_def buffer_at_def)

theorem PutNum_GetNum_witness:
  "\<exists>m'. PutNum (plain_platform 8) (\<lambda>_. 0) (buffer_at AI_SIGNED_SHORT 100 0 8) 8 70000 = Inr (CR_SUCCESS, m') \<and>
     GetNum (plain_platform 8) 0 m' (buffer_at AI_SIGNED_SHORT 100 0 8) True 8 = Inr 4464 \<and>
     get_reslen m' (buffer_at AI_SIGNED_SHORT 100 0 8) = Some 2"
  using PutNum_GetNum [of "buffer_at AI_SIGNED_SHORT 100 0 8" True 2 "plain_platform 8" 100 "\<lambda>_. 0" 70000 0]
  by (simp add: separate_def plain_platform_def cast_int_def to_signed_def)

text \<open>With a \<open>long\<close> of eight bytes the long types are written as four bytes and read as
  eight: minus one comes back as the largest unsigned 32-bit number when the bytes after it are
  zero.\<close>

theorem GetNum_long_reads_past:
  "\<exists>m'. PutNum (plain_platform 8) (\<lambda>_. 0) (buffer_at AI_SIGNED_LONG 100 4 8) 8 (-1) = Inr (CR_SUCCESS, m') \<and>
     GetNum (plain_platform 8) 0 m' (buffer_at AI_SIGNED_LONG 100 4 8) True 8 = Inr 4294967295"
proof -
  let ?m = "put_reslen (write_bytes (\<lambda>_. 0) 100 (int_bytes 4 (-1))) (buffer_at AI_SIGNED_LONG 100 4 8) 4"
  have "PutNum (plain_platform 8) (\<lambda>_. 0) (buffer_at AI_SIGNED_LONG 100 4 8) 8 (-1) = Inr (CR_SUCCESS, ?m)"
    by (simp add: PutNum_def PutNumToNumBuffer_def put_data_def)
  moreover have "read_bytes ?m 100 8 = [255, 255, 255, 255, 0, 0, 0, 0]"
    by code_simp
  moreover from this have "GetNum (plain_platform 8) 0 ?m (buffer_at AI_SIGNED_LONG 100 4 8) True 8 = Inr 4294967295"
    by (simp add: GetNum_def get_int_def read_data_def plain_platform_def cast_int_def sint_of_bytes_def
        uint_of_bytes_def bytes_val_def to_signed_def)
  ultimately show ?thesis by blast
qed

section \<open>Null\<close>

text \<open>A null value needs a length cell: with one it is marked there and nothing else
  changes, without one the conversion reports that an indicator is needed.\<close>

theorem PutNull_correct:
  "(GetResLen b = None \<longrightarrow> PutNull m b = (CR_INDICATOR_NEEDED, m)) \<and>
   (\<forall>r. GetResLen b = Some r \<longrightarrow>
      (\<exists>m'. PutNull m b = (CR_SUCCESS, m') \<and> get_reslen m' b = Some SQL_NULL_DATA \<and>
        (\<forall>x. x < r \<or> r + 8 \<le> x \<longrightarrow> m' x = m x)))"
proof -
  have "to_signed 64 SQL_NULL_DATA = SQL_NULL_DATA" by (simp add: SQL_NULL_DATA_def to_signed_def)
  then show ?thesis using get_put_reslen put_reslen_outside by (auto simp: PutNull_def)
qed

theorem PutNull_correct_witness:
  "\<exists>m'. PutNull (\<lambda>_. 0) (buffer_at AI_CHAR 100 4 8) = (CR_SUCCESS, m') \<and>
     get_reslen m' (buffer_at AI_CHAR 100 4 8) = Some SQL_NULL_DATA"
  using PutNull_correct [of "buffer_at AI_CHAR 100 4 8" "\<lambda>_. 0"] by auto

section \<open>Text\<close>

lemma put_reslen_away:
  assumes "\<forall>r. GetResLen b = Some r \<longrightarrow> x < r \<or> r + 8 \<le> x"
  shows "put_reslen m b v x = m x"
  using assms put_reslen_outside put_reslen_None by (cases "GetResLen b") auto

text \<open>(C23) Memory safety of text: whatever the text (malformed UTF-8 included), putting it into a
  buffer changes memory only inside the buffer and in the length cell.\<close>

theorem PutStrToStrBuffer_in_bounds:
  assumes "PutStrToStrBuffer pl wide m b s = Inr (c, m', n)"
    and "sizeof_wchar pl = 2 \<or> sizeof_wchar pl = 4"
    and "\<forall>a. GetData b = Some a \<longrightarrow> x < a \<or> a + nat (buflen b) \<le> x"
    and "\<forall>r. GetResLen b = Some r \<longrightarrow> x < r \<or> r + 8 \<le> x"
  shows "m' x = m x"
proof (cases "GetData b")
  case None
  with assms(1) show ?thesis by (simp add: PutStrToStrBuffer_def Let_def)
next
  case (Some a)
  then have x: "x < a \<or> a + nat (buflen b) \<le> x" using assms(3) by simp
  let ?sz = "if wide then int (sizeof_wchar pl) else 1"
  show ?thesis
  proof (cases "buflen b < ?sz")
    case True
    with assms(1) Some show ?thesis by (auto simp: PutStrToStrBuffer_def Let_def)
  next
    case False
    show ?thesis
    proof (cases wide)
      case True
      obtain m1 k t where cp: "CopyUtf8StringToWcharString (sizeof_wchar pl) m s (Some a) (nat (buflen b)) False = (m1, k, t)"
        by (cases "CopyUtf8StringToWcharString (sizeof_wchar pl) m s (Some a) (nat (buflen b)) False")
      have "sizeof_wchar pl \<le> nat (buflen b)" using False True by simp
      then have "m1 x = m x" using assms(2) by (intro CopyUtf8StringToWcharString_bounds [OF cp x]) auto
      moreover have "m' = put_reslen m1 b (to_signed 32 (int k))"
        using assms(1) Some False True cp by (auto simp: PutStrToStrBuffer_def Let_def)
      ultimately show ?thesis using put_reslen_away [OF assms(4)] by simp
    next
      case nw: False
      obtain m1 k t where cp: "CopyUtf8StringToSqlCharString (narrow_char pl) m s (Some a) (nat (buflen b)) False = Some (m1, k, t)"
        and m': "m' = put_reslen m1 b (to_signed 32 (int k))"
        using assms(1) Some False nw by (auto simp: PutStrToStrBuffer_def Let_def split: option.splits)
      have "m1 x = m x" using cp x by (rule CopyUtf8StringToSqlCharString_bounds)
      then show ?thesis using put_reslen_away [OF assms(4)] by (simp add: m')
    qed
  qed
qed

lemma ascii_narrow:
  assumes "ascii s" and "\<forall>c < 0x80. narrow c = word_of_nat c"
  shows "map narrow (map of_char s) = string_bytes s"
  using assms by (simp add: ascii_def string_bytes_def list_all_iff)

lemma PutStrToStrBuffer_ascii:
  assumes "GetData b = Some a" and "0 < buflen b" and "buflen b \<le> INT32_MAX" and "ascii s"
    and "\<forall>c < 0x80. narrow_char pl c = word_of_nat c"
  shows "let n = min (length s) (nat (buflen b) - 1)
    in PutStrToStrBuffer pl False m b s =
       Inr (if length s < nat (buflen b) then CR_SUCCESS else CR_VARLEN_DATA_TRUNCATED,
            put_reslen (write_bytes m a (string_bytes (take n s) @ [0])) b (int n), int n)"
proof -
  let ?n = "min (length s) (nat (buflen b) - 1)"
  note cs = c_str_ascii [OF assms(4)]
  have u: "utf8_in 0x10FFFF (length (c_str s)) (c_str s) = (c_str s, [], cvt_ok)"
    using utf8_in_ascii [OF cs(2), of "0x10FFFF" "length (c_str s)"] by simp
  have nb: "map (narrow_char pl) (take ?n (c_str s)) = string_bytes (take ?n s)"
    using arg_cong [OF ascii_narrow [OF assms(4,5)], of "take ?n"]
    by (simp only: cs(1) string_bytes_def take_map map_map)
  have "CopyUtf8StringToSqlCharString (narrow_char pl) m s (Some a) (nat (buflen b)) False =
      Some (write_bytes m a (string_bytes (take ?n s) @ [0]), ?n, ?n < length s)"
    using assms(2) u nb by (simp add: CopyUtf8StringToSqlCharString_def Let_def cs(1) del: take_map)
  moreover have "to_signed 32 (int ?n) = int ?n"
    using assms(2,3) by (intro to_signed_id) (auto simp: INT32_MAX_def)
  moreover have "?n < length s \<longleftrightarrow> \<not> length s < nat (buflen b)" using assms(2) by linarith
  ultimately show ?thesis using assms(1,2) by (simp add: PutStrToStrBuffer_def Let_def)
qed

text \<open>Text into a character buffer: ASCII text is stored with a terminator, cut to the
  buffer's size minus one; the length cell gets the number of characters stored and the result
  says whether the text was cut.\<close>

theorem PutString_char_correct:
  assumes "buf_type b = AI_CHAR" and "GetData b = Some a" and "0 < buflen b" and "buflen b \<le> INT32_MAX"
    and "ascii s" and "\<forall>c < 0x80. narrow_char pl c = word_of_nat c" and "separate b (nat (buflen b))"
  shows "\<exists>m'. PutString pl m b s =
      Inr (if length s < nat (buflen b) then CR_SUCCESS else CR_VARLEN_DATA_TRUNCATED, m',
           int (min (length s) (nat (buflen b) - 1))) \<and>
    read_bytes m' a (min (length s) (nat (buflen b) - 1) + 1) =
      string_bytes (take (nat (buflen b) - 1) s) @ [0] \<and>
    (GetResLen b \<noteq> None \<longrightarrow> get_reslen m' b = Some (int (min (length s) (nat (buflen b) - 1))))"
proof -
  let ?n = "min (length s) (nat (buflen b) - 1)"
  let ?bs = "string_bytes (take ?n s) @ [0]"
  let ?m = "put_reslen (write_bytes m a ?bs) b (int ?n)"
  have l: "length ?bs = ?n + 1" by (simp add: string_bytes_def)
  have "?n + 1 \<le> nat (buflen b)" using assms(3) by linarith
  then have "read_bytes ?m a (?n + 1) = ?bs"
    using read_put_reslen [OF assms(2,7)] read_write_same [of m a ?bs] l by simp
  moreover have "take ?n s = take (nat (buflen b) - 1) s" by (simp add: min_def)
  moreover have "to_signed 64 (int ?n) = int ?n"
    using assms(3,4) by (intro to_signed_id) (auto simp: INT32_MAX_def)
  moreover have "PutString pl m b s =
      Inr (if length s < nat (buflen b) then CR_SUCCESS else CR_VARLEN_DATA_TRUNCATED, ?m, int ?n)"
    using PutStrToStrBuffer_ascii [OF assms(2-6), of m] assms(1) by (simp add: PutString_def Let_def)
  ultimately show ?thesis using get_put_reslen [of b _ _ "int ?n"] by auto
qed

theorem PutStrToStrBuffer_in_bounds_witness:
  "\<exists>c m' n. PutStrToStrBuffer (plain_platform 8) False (\<lambda>_. 1) (buffer_at AI_CHAR 100 3 8) ''abcd'' = Inr (c, m', n) \<and>
     m' 103 = 1"
proof -
  obtain m' where "PutStrToStrBuffer (plain_platform 8) False (\<lambda>_. 1) (buffer_at AI_CHAR 100 3 8) ''abcd'' =
      Inr (CR_VARLEN_DATA_TRUNCATED, m', 2)"
    using PutStrToStrBuffer_ascii [of "buffer_at AI_CHAR 100 3 8" 100 "''abcd''" "plain_platform 8" "\<lambda>_. 1"]
    by (simp add: ascii_def plain_platform_def INT32_MAX_def Let_def)
  with PutStrToStrBuffer_in_bounds [OF this, of 103] show ?thesis
    by (simp add: plain_platform_def)
qed

text \<open>Wide dates overflow: a date put into a wide character buffer of 12 bytes reports
  success and writes 22 bytes, because the size in bytes is taken as a number of characters.\<close>

theorem PutDate_wide_overflow:
  "\<exists>m'. PutDate (plain_platform 8) (\<lambda>_. 255) (buffer_at AI_WCHAR 100 12 8)
       \<lparr>tm_year = 121, tm_mon = 10, tm_mday = 5, tm_hour = 0, tm_min = 0, tm_sec = 0\<rparr> = Inr (CR_SUCCESS, m') \<and>
     read_bytes m' 112 10 = [49, 0, 45, 0, 48, 0, 53, 0, 0, 0]"
proof -
  let ?t = "\<lparr>tm_year = 121, tm_mon = 10, tm_mday = 5, tm_hour = 0, tm_min = 0, tm_sec = 0\<rparr>"
  let ?b = "buffer_at AI_WCHAR 100 12 8"
  have s: "format_date ?t = ''2021-11-05''" by code_simp
  have p: "PutDate (plain_platform 8) (\<lambda>_. 255) ?b ?t =
      Inr (CR_SUCCESS, fst (CopyStringToBuffer 2 (put_reslen (\<lambda>_. 255) ?b 10) ''2021-11-05'' (Some 100) 12 False))"
    by (simp add: PutDate_def put_tm_wchar_def s Let_def plain_platform_def)
  have "ascii ''2021-11-05''" by (simp add: ascii_def)
  from CopyUtf8StringToWcharString_ascii [OF this, of 24 2 "put_reslen (\<lambda>_. 255) ?b 10" 100 False]
  have "fst (CopyStringToBuffer 2 (put_reslen (\<lambda>_. 255) ?b 10) ''2021-11-05'' (Some 100) 12 False) =
      write_bytes (put_reslen (\<lambda>_. 255) ?b 10) 100 (wchar_bytes 2 (map of_char ''2021-11-05'' @ [0]))"
    by (simp add: CopyStringToBuffer_def Let_def)
  moreover have "read_bytes (write_bytes (put_reslen (\<lambda>_. 255) ?b 10) (100 :: nat)
      (wchar_bytes 2 (map of_char ''2021-11-05'' @ [0]))) (100 + 12) 10 = [49, 0, 45, 0, 48, 0, 53, 0, 0, 0]"
    by (subst read_write_within) (simp, code_simp)
  ultimately show ?thesis using p by simp
qed

section \<open>Raw data\<close>

text \<open>Binary data: the first \<open>buflen\<close> bytes at most are copied, the length cell gets the full
  length, and the result says whether data was cut.\<close>

theorem PutBinaryData_raw:
  assumes "buf_type b = AI_BINARY \<or> buf_type b = AI_DEFAULT" and "GetData b = Some a" and "0 \<le> buflen b"
    and "separate b (nat (buflen b))" and "int (length data) \<le> INT32_MAX"
  shows "\<exists>m'. PutBinaryData pl m b data =
      Inr (if buflen b < int (length data) then CR_VARLEN_DATA_TRUNCATED else CR_SUCCESS, m',
           min (buflen b) (int (length data))) \<and>
    read_bytes m' a (min (nat (buflen b)) (length data)) = take (nat (buflen b)) data \<and>
    (GetResLen b \<noteq> None \<longrightarrow> get_reslen m' b = Some (int (length data)))"
proof -
  let ?k = "min (buflen b) (int (length data))"
  let ?bs = "take (nat ?k) data"
  let ?m1 = "put_reslen m b (int (length data))"
  let ?m2 = "if ?k > 0 then write_bytes ?m1 a ?bs else ?m1"
  have k: "nat ?k = min (nat (buflen b)) (length data)" using assms(3) by (simp add: min_def nat_le_iff)
  have w: "to_signed 32 ?k = ?k"
    using assms(3,5) by (intro to_signed_id) (auto simp: INT32_MAX_def)
  have p: "PutBinaryData pl m b data =
      Inr (if buflen b < int (length data) then CR_VARLEN_DATA_TRUNCATED else CR_SUCCESS, ?m2, ?k)"
    using assms(1,2) w by (auto simp: PutBinaryData_def PutRawDataToBuffer_def Let_def put_data_def)
  have "read_bytes ?m2 a (min (nat (buflen b)) (length data)) = take (nat (buflen b)) data"
  proof (cases "?k > 0")
    case True
    have "length ?bs = min (nat (buflen b)) (length data)" by (simp add: k)
    moreover have "take (min (nat (buflen b)) (length data)) data = take (nat (buflen b)) data" by (simp add: min_def)
    ultimately show ?thesis using True read_write_same [of ?m1 a ?bs] by (simp add: k)
  next
    case False
    then have "min (nat (buflen b)) (length data) = 0" using k by linarith
    then show ?thesis by (auto simp: read_bytes_def min_def split: if_splits)
  qed
  moreover have "get_reslen ?m2 b = Some (int (length data))" if "GetResLen b = Some r" for r
  proof -
    have sep: "r + 8 \<le> a \<or> a + nat (buflen b) \<le> r" using assms(2,4) that by (simp add: separate_def)
    have "read_bytes ?m2 r 8 = read_bytes ?m1 r 8"
      using sep by (auto intro!: read_write_disjoint simp: k)
    moreover have "to_signed 64 (int (length data)) = int (length data)"
      using assms(5) by (intro to_signed_id) (auto simp: INT32_MAX_def)
    ultimately show ?thesis
      using get_put_reslen [OF that, of m "int (length data)"] by (simp add: get_reslen_def that)
  qed
  ultimately show ?thesis using p by auto
qed

section \<open>GUIDs\<close>

lemma word_of_bytes_take_bit:
  "(word_of_int (uint_of_bytes (int_bytes n (uint x))) :: u64) = take_bit (8 * n) x"
proof -
  have "(256 :: int) ^ n = 2 ^ (8 * n)" by (simp add: power_mult)
  then have "uint_of_bytes (int_bytes n (uint x)) = take_bit (8 * n) (uint x)"
    by (simp add: uint_of_int_bytes take_bit_eq_mod)
  also have "\<dots> = uint (take_bit (8 * n) x)" by (simp only: unsigned_take_bit_eq)
  finally show ?thesis by simp
qed

lemma guid_most_join:
  "push_bit 32 (take_bit 32 (drop_bit 32 x)) OR push_bit 16 (take_bit 16 (drop_bit 16 x)) OR take_bit 16 x = (x :: u64)"
proof (rule bit_word_eqI)
  fix n
  assume "n < LENGTH(64)"
  then have "n < 64" by simp
  then consider "n < 16" | "16 \<le> n" "n < 32" | "32 \<le> n" "n < 64" by linarith
  then show "bit (push_bit 32 (take_bit 32 (drop_bit 32 x)) OR push_bit 16 (take_bit 16 (drop_bit 16 x)) OR
      take_bit 16 x) n = bit x n"
    by cases (auto simp: bit_simps)
qed

lemma to_signed_byte: "0 \<le> x \<Longrightarrow> x < 2 ^ 8 \<Longrightarrow> to_signed 32 x = x"
  by (intro to_signed_id) simp_all

lemma guid_lsb_last: "guid_lsb (guid_data4 l) = l AND 0xFF"
proof -
  let ?d = "ucast (l AND 0xFF) :: u8"
  have "(0xFF :: u64) = mask 8" by (simp add: mask_eq_exp_minus_1)
  then have m: "l AND 0xFF = take_bit 8 l" by (simp only: take_bit_eq_mask)
  have u: "uint ?d = uint (l AND 0xFF)"
    unfolding m by (simp add: unsigned_ucast_eq unsigned_take_bit_eq)
  have "uint ?d < 2 ^ 8" by (rule less_le_trans [OF uint_lt2p]) simp
  moreover have "0 \<le> uint ?d" by simp
  ultimately have "to_signed 32 (uint ?d) = uint ?d" by (rule to_signed_byte [rotated])
  moreover have "guid_data4 l ! Suc (Suc (Suc (Suc (Suc (Suc (Suc 0)))))) = ?d" by (simp add: guid_data4_def)
  ultimately show ?thesis
    using u by (simp add: guid_lsb_def upt_rec)
qed

text \<open>A GUID does not survive its buffer: written as a binary GUID and read back, the upper
  half is intact, but of the lower half only the last byte is left, because reading assigns
  each byte where it should combine them.\<close>

theorem Guid_roundtrip:
  assumes "buf_type b = AI_GUID" and "GetData b = Some a" and "separate b 16"
  shows "\<exists>m'. PutGuid pl m b g = Inr (CR_SUCCESS, m') \<and>
    GetGuid_binary m' b = Inr \<lparr>guid_most = guid_most g, guid_least = guid_least g AND 0xFF\<rparr>"
proof -
  let ?bs = "int_bytes 4 (uint (drop_bit 32 (guid_most g))) @ int_bytes 2 (uint (drop_bit 16 (guid_most g))) @
             int_bytes 2 (uint (guid_most g)) @ guid_data4 (guid_least g)"
  have l: "length ?bs = 16" by (simp add: guid_data4_def)
  let ?m = "put_reslen (write_bytes m a ?bs) b 16"
  have "PutGuid pl m b g = Inr (CR_SUCCESS, ?m)"
    using assms(1,2) l by (simp add: PutGuid_def put_struct_def)
  moreover have rd: "read_bytes ?m a 16 = ?bs"
    using read_put_reslen [OF assms(2,3), of 16] read_write_same [of m a ?bs] l by simp
  have "GetGuid_binary ?m b = Inr \<lparr>guid_most = guid_most g, guid_least = guid_least g AND 0xFF\<rparr>"
    by (simp add: GetGuid_binary_def read_data_def assms(2) rd Let_def word_of_bytes_take_bit
        guid_most_join guid_lsb_last)
  ultimately show ?thesis by blast
qed

theorem Guid_roundtrip_witness:
  "\<exists>m'. PutGuid (plain_platform 8) (\<lambda>_. 0) (buffer_at AI_GUID 100 16 8)
       \<lparr>guid_most = 1, guid_least = 0x1234\<rparr> = Inr (CR_SUCCESS, m') \<and>
     GetGuid_binary m' (buffer_at AI_GUID 100 16 8) = Inr \<lparr>guid_most = 1, guid_least = 0x34\<rparr>"
  using Guid_roundtrip [of "buffer_at AI_GUID 100 16 8" 100 "plain_platform 8" "\<lambda>_. 0" "\<lparr>guid_most = 1, guid_least = 0x1234\<rparr>"]
  by (simp add: separate_def)

section \<open>Decimals\<close>

text \<open>A decimal without fractional digits (scale zero) put into a numeric buffer is stored as
  zero with precision one, whatever its value, because \<open>SetScale\<close> does not write its result
  when the scale does not change.\<close>

theorem PutDecimal_numeric_scale_zero:
  assumes "buf_type b = AI_NUMERIC" and "GetData b = Some a" and "separate b 19" and "scale d = 0"
  shows "\<exists>m'. PutDecimal pl m b d = Some (Inr (CR_SUCCESS, m')) \<and>
    read_bytes m' a 19 = [1, 0, 1] @ replicate 16 0"
proof -
  let ?z = "AssignInt64 0"
  have z: "?z = \<lparr>sign = 1, mag = []\<rparr>" by (simp add: AssignInt64_def AssignUint64_def)
  have bs: "MagnitudeToBytes ?z = [0]" by (simp add: z MagnitudeToBytes_def GetBitLength_def)
  have s: "numeric_struct (GetPrecision ?z) 0 (sign ?z < 0) (rev [0]) = [1, 0, 1] @ replicate 16 0"
    by (simp add: z GetPrecision_def numeric_struct_def int_bytes_def numeral_eq_Suc)
  let ?s = "[1, 0, 1] @ replicate 16 0"
  let ?m = "put_reslen (write_bytes m a ?s) b 19"
  have "PutDecimal pl m b d = Some (Inr (CR_SUCCESS, ?m))"
    using assms(1,2,4) s
    by (simp add: PutDecimal_def Decimal_SetScale_def Decimal_zero_def Let_def bs put_struct_def)
  moreover have "read_bytes ?m a 19 = ?s"
    using read_put_reslen [OF assms(2,3), of 19] read_write_same [of m a ?s] by simp
  ultimately show ?thesis by blast
qed

theorem PutDecimal_numeric_scale_zero_witness:
  "\<exists>m'. PutDecimal (plain_platform 8) (\<lambda>_. 0) (buffer_at AI_NUMERIC 100 19 8)
       \<lparr>scale = 0, magnitude = AssignInt64 42\<rparr> = Some (Inr (CR_SUCCESS, m')) \<and>
     read_bytes m' 100 19 = [1, 0, 1] @ replicate 16 0"
  using PutDecimal_numeric_scale_zero [of "buffer_at AI_NUMERIC 100 19 8" 100
      "\<lparr>scale = 0, magnitude = AssignInt64 42\<rparr>" "plain_platform 8" "\<lambda>_. 0"]
  by (simp add: separate_def)

end
