(* ===== verification/Odbc_Diagnostics.thy ===== *)
theory Odbc_Diagnostics
  imports Odbc_AppBufferProps
begin

text \<open>
  \<^verbatim>\<open>src/diagnostic/\<close>: diagnostic records, their storage, the fields an application can ask
  for, and the calling convention of every handle (the macro \<open>DOCUMENTDB_ODBC_API_CALL\<close> of
  \<^verbatim>\<open>diagnosable_adapter.h\<close>): the records are reset, the operation runs and adds records, and
  its result is put into the header. That convention is shared through the locale
  \<open>diagnosable\<close>. Log output is left out.
\<close>

section \<open>Records\<close>

record DiagnosticRecord =
  sqlState :: SqlState
  message :: string
  connectionName :: string
  serverName :: string
  rowNum :: int
  columnNum :: int
  retrieved :: bool

definition newDiagnosticRecord :: "SqlState \<Rightarrow> string \<Rightarrow> string \<Rightarrow> string \<Rightarrow> int \<Rightarrow> int \<Rightarrow> DiagnosticRecord" where
  "newDiagnosticRecord st msg conn srv row col =
     \<lparr>sqlState = st, message = msg, connectionName = conn, serverName = srv, rowNum = row, columnNum = col,
      retrieved = False\<rparr>"

definition MarkRetrieved :: "DiagnosticRecord \<Rightarrow> DiagnosticRecord" where
  "MarkRetrieved r = r\<lparr>retrieved := True\<rparr>"

fun GetSqlState :: "SqlState \<Rightarrow> string" where
  "GetSqlState S01004_DATA_TRUNCATED = ''01004''"
| "GetSqlState S01S00_INVALID_CONNECTION_STRING_ATTRIBUTE = ''01S00''"
| "GetSqlState S01S01_ERROR_IN_ROW = ''01S01''"
| "GetSqlState S01S02_OPTION_VALUE_CHANGED = ''01S02''"
| "GetSqlState S01S07_FRACTIONAL_TRUNCATION = ''01S07''"
| "GetSqlState S07006_RESTRICTION_VIOLATION = ''07006''"
| "GetSqlState S22002_INDICATOR_NEEDED = ''22002''"
| "GetSqlState S22026_DATA_LENGTH_MISMATCH = ''22026''"
| "GetSqlState S23000_INTEGRITY_CONSTRAINT_VIOLATION = ''23000''"
| "GetSqlState S24000_INVALID_CURSOR_STATE = ''24000''"
| "GetSqlState S25000_INVALID_TRANSACTION_STATE = ''25000''"
| "GetSqlState S3F000_INVALID_SCHEMA_NAME = ''3F000''"
| "GetSqlState S40001_SERIALIZATION_FAILURE = ''40001''"
| "GetSqlState S42000_SYNTAX_ERROR_OR_ACCESS_VIOLATION = ''42000''"
| "GetSqlState S42S01_TABLE_OR_VIEW_ALREADY_EXISTS = ''42S01''"
| "GetSqlState S42S02_TABLE_OR_VIEW_NOT_FOUND = ''42S02''"
| "GetSqlState S42S11_INDEX_ALREADY_EXISTS = ''42S11''"
| "GetSqlState S42S12_INDEX_NOT_FOUND = ''42S12''"
| "GetSqlState S42S21_COLUMN_ALREADY_EXISTS = ''42S21''"
| "GetSqlState S42S22_COLUMN_NOT_FOUND = ''42S22''"
| "GetSqlState S07009_INVALID_DESCRIPTOR_INDEX = ''07009''"
| "GetSqlState S08001_CANNOT_CONNECT = ''08001''"
| "GetSqlState S08002_ALREADY_CONNECTED = ''08002''"
| "GetSqlState S08003_NOT_CONNECTED = ''08003''"
| "GetSqlState S08004_CONNECTION_REJECTED = ''08004''"
| "GetSqlState S08S01_LINK_FAILURE = ''08S01''"
| "GetSqlState SHY000_GENERAL_ERROR = ''HY000''"
| "GetSqlState SHY001_MEMORY_ALLOCATION = ''HY001''"
| "GetSqlState SHY003_INVALID_APPLICATION_BUFFER_TYPE = ''HY003''"
| "GetSqlState SHY009_INVALID_USE_OF_NULL_POINTER = ''HY009''"
| "GetSqlState SHY010_SEQUENCE_ERROR = ''HY010''"
| "GetSqlState SHY024_INVALID_ATTRIBUTE_VALUE = ''HY024''"
| "GetSqlState SHY090_INVALID_STRING_OR_BUFFER_LENGTH = ''HY090''"
| "GetSqlState SHY092_OPTION_TYPE_OUT_OF_RANGE = ''HY092''"
| "GetSqlState SHY097_COLUMN_TYPE_OUT_OF_RANGE = ''HY097''"
| "GetSqlState SHY105_INVALID_PARAMETER_TYPE = ''HY105''"
| "GetSqlState SHY106_FETCH_TYPE_OUT_OF_RANGE = ''HY106''"
| "GetSqlState SHYC00_OPTIONAL_FEATURE_NOT_IMPLEMENTED = ''HYC00''"
| "GetSqlState SHYT00_TIMEOUT_EXPIRED = ''HYT00''"
| "GetSqlState SHYT01_CONNECTION_TIMEOUT = ''HYT01''"
| "GetSqlState SIM001_FUNCTION_NOT_SUPPORTED = ''IM001''"
| "GetSqlState _ = ''''"

definition ORIGIN_ISO_9075 :: string where "ORIGIN_ISO_9075 = ''ISO 9075''"
definition ORIGIN_ODBC_3_0 :: string where "ORIGIN_ODBC_3_0 = ''ODBC 3.0''"

definition GetClassOrigin :: "DiagnosticRecord \<Rightarrow> string" where
  "GetClassOrigin r = (if take 2 (GetSqlState (sqlState r)) = ''IM'' then ORIGIN_ODBC_3_0 else ORIGIN_ISO_9075)"

definition odbcSubclasses :: "string list" where
  "odbcSubclasses =
     [''01S00'', ''01S01'', ''01S02'', ''01S06'', ''01S07'', ''07S01'', ''08S01'', ''21S01'', ''21S02'',
      ''25S01'', ''25S02'', ''25S03'', ''42S01'', ''42S02'', ''42S11'', ''42S12'', ''42S21'', ''42S22'',
      ''HY095'', ''HY097'', ''HY098'', ''HY099'', ''HY100'', ''HY101'', ''HY105'', ''HY107'', ''HY109'',
      ''HY110'', ''HY111'', ''HYT00'', ''HYT01'', ''IM001'', ''IM002'', ''IM003'', ''IM004'', ''IM005'',
      ''IM006'', ''IM007'', ''IM008'', ''IM010'', ''IM011'', ''IM012'']"

definition GetSubclassOrigin :: "DiagnosticRecord \<Rightarrow> string" where
  "GetSubclassOrigin r =
     (if List.member odbcSubclasses (GetSqlState (sqlState r)) then ORIGIN_ODBC_3_0 else ORIGIN_ISO_9075)"

section \<open>Storage\<close>

record DiagnosticRecordStorage =
  rowCount :: int
  dynamicFunction :: string
  dynamicFunctionCode :: int
  drs_result :: SqlResult
  rowsAffected :: int
  statusRecords :: "DiagnosticRecord list"

definition newStorage :: DiagnosticRecordStorage where
  "newStorage = \<lparr>rowCount = 0, dynamicFunction = [], dynamicFunctionCode = 0, drs_result = AI_SUCCESS,
     rowsAffected = 0, statusRecords = []\<rparr>"

definition SetHeaderRecord :: "SqlResult \<Rightarrow> DiagnosticRecordStorage \<Rightarrow> DiagnosticRecordStorage" where
  "SetHeaderRecord res d =
     d\<lparr>rowCount := 0, dynamicFunction := [], dynamicFunctionCode := 0, drs_result := res, rowsAffected := 0\<rparr>"

definition AddRecord :: "DiagnosticRecord \<Rightarrow> DiagnosticRecordStorage \<Rightarrow> DiagnosticRecordStorage" where
  "AddRecord r d = d\<lparr>statusRecords := statusRecords d @ [r]\<rparr>"

definition AddStatusRecord :: "SqlState \<Rightarrow> string \<Rightarrow> DiagnosticRecordStorage \<Rightarrow> DiagnosticRecordStorage" where
  "AddStatusRecord st msg d = AddRecord (newDiagnosticRecord st msg [] [] 0 0) d"

definition DRS_Reset :: "DiagnosticRecordStorage \<Rightarrow> DiagnosticRecordStorage" where
  "DRS_Reset d = (SetHeaderRecord AI_ERROR d)\<lparr>statusRecords := []\<rparr>"

definition GetReturnCode :: "DiagnosticRecordStorage \<Rightarrow> int" where
  "GetReturnCode d = SqlResultToReturnCode (drs_result d)"

definition GetStatusRecordsNumber :: "DiagnosticRecordStorage \<Rightarrow> int" where
  "GetStatusRecordsNumber d = int (length (statusRecords d))"

text \<open>An index out of range is only logged; the access that follows is then undefined (\<open>None\<close>).\<close>

definition GetStatusRecord :: "DiagnosticRecordStorage \<Rightarrow> int \<Rightarrow> DiagnosticRecord option" where
  "GetStatusRecord d idx =
     (if 1 \<le> idx \<and> idx \<le> int (length (statusRecords d)) then Some (statusRecords d ! nat (idx - 1)) else None)"

fun first_non_retrieved :: "DiagnosticRecord list \<Rightarrow> int \<Rightarrow> int" where
  "first_non_retrieved [] i = 0"
| "first_non_retrieved (r # rs) i = (if \<not> retrieved r then i + 1 else first_non_retrieved rs (i + 1))"

definition GetLastNonRetrieved :: "DiagnosticRecordStorage \<Rightarrow> int" where
  "GetLastNonRetrieved d = first_non_retrieved (statusRecords d) 0"

definition IsSuccessful :: "DiagnosticRecordStorage \<Rightarrow> bool" where
  "IsSuccessful d \<longleftrightarrow> drs_result d = AI_SUCCESS \<or> drs_result d = AI_SUCCESS_WITH_INFO"

text \<open>The result of the conversion into the buffer is not looked at.\<close>

definition put_field :: "SqlResult \<Rightarrow> put_result \<Rightarrow> buf_error + (SqlResult \<times> mem)" where
  "put_field res p = (case p of Inl e \<Rightarrow> Inl e | Inr (_, m) \<Rightarrow> Inr (res, m))"

definition GetField ::
  "Platform \<Rightarrow> mem \<Rightarrow> DiagnosticRecordStorage \<Rightarrow> int \<Rightarrow> DiagnosticField \<Rightarrow> ApplicationDataBuffer \<Rightarrow>
   buf_error + (SqlResult \<times> mem)" where
  "GetField pl m d recNum field b =
     (let num = (\<lambda>size i. put_field AI_SUCCESS (PutNum pl m b size i));
          str = (\<lambda>s. put_field AI_SUCCESS (drop_written (PutString pl m b s)))
      in case field of
           HEADER_CURSOR_ROW_COUNT \<Rightarrow> num 8 (rowCount d)
         | HEADER_DYNAMIC_FUNCTION \<Rightarrow> str (dynamicFunction d)
         | HEADER_DYNAMIC_FUNCTION_CODE \<Rightarrow> num 4 (dynamicFunctionCode d)
         | HEADER_NUMBER \<Rightarrow> num 4 (GetStatusRecordsNumber d)
         | HEADER_RETURNCODE \<Rightarrow> num 4 (GetReturnCode d)
         | HEADER_ROW_COUNT \<Rightarrow> num 8 (rowsAffected d)
         | _ \<Rightarrow>
             (case GetStatusRecord d recNum of
                None \<Rightarrow> Inr (AI_NO_DATA, m)
              | Some r \<Rightarrow>
                  (case field of
                     STATUS_CLASS_ORIGIN \<Rightarrow> str (GetClassOrigin r)
                   | STATUS_COLUMN_NUMBER \<Rightarrow> num 4 (columnNum r)
                   | STATUS_CONNECTION_NAME \<Rightarrow> str (connectionName r)
                   | STATUS_MESSAGE_TEXT \<Rightarrow> str (message r)
                   | STATUS_NATIVE \<Rightarrow> num 4 0
                   | STATUS_ROW_NUMBER \<Rightarrow> num 8 (rowNum r)
                   | STATUS_SERVER_NAME \<Rightarrow> str (serverName r)
                   | STATUS_SQLSTATE \<Rightarrow> str (GetSqlState (sqlState r))
                   | STATUS_SUBCLASS_ORIGIN \<Rightarrow> str (GetSubclassOrigin r)
                   | _ \<Rightarrow> Inr (AI_ERROR, m))))"

section \<open>The calling convention\<close>

text \<open>\<open>upd\<close> changes the diagnostics inside the state of a handle.\<close>

definition api_call ::
  "((DiagnosticRecordStorage \<Rightarrow> DiagnosticRecordStorage) \<Rightarrow> 's \<Rightarrow> 's) \<Rightarrow> ('s \<Rightarrow> SqlResult \<times> 's) \<Rightarrow> 's \<Rightarrow> SqlResult \<times> 's" where
  "api_call upd call s =
     (let s1 = upd DRS_Reset s; (res, s2) = call s1 in (res, upd (SetHeaderRecord res) s2))"

definition api_call_always_success ::
  "((DiagnosticRecordStorage \<Rightarrow> DiagnosticRecordStorage) \<Rightarrow> 's \<Rightarrow> 's) \<Rightarrow> 's \<Rightarrow> 's" where
  "api_call_always_success upd s = upd (SetHeaderRecord AI_SUCCESS) (upd DRS_Reset s)"

text \<open>The same for operations that may end in an error the source does not catch.\<close>

definition api_run ::
  "((DiagnosticRecordStorage \<Rightarrow> DiagnosticRecordStorage) \<Rightarrow> 's \<Rightarrow> 's) \<Rightarrow> ('s \<Rightarrow> buf_error + (SqlResult \<times> 's)) \<Rightarrow> 's \<Rightarrow>
   buf_error + (SqlResult \<times> 's)" where
  "api_run upd call s =
     (case call (upd DRS_Reset s) of
        Inl e \<Rightarrow> Inl e
      | Inr (res, s') \<Rightarrow> Inr (res, upd (SetHeaderRecord res) s'))"

lemma statusRecords_simps [simp]:
  "statusRecords (SetHeaderRecord res d) = statusRecords d"
  "statusRecords (DRS_Reset d) = []"
  "statusRecords (AddRecord r d) = statusRecords d @ [r]"
  "statusRecords (AddStatusRecord st msg d) = statusRecords d @ [newDiagnosticRecord st msg [] [] 0 0]"
  "drs_result (SetHeaderRecord res d) = res"
  "drs_result (AddRecord r d) = drs_result d"
  by (simp_all add: SetHeaderRecord_def DRS_Reset_def AddRecord_def AddStatusRecord_def)

locale diagnosable =
  fixes get :: "'s \<Rightarrow> DiagnosticRecordStorage"
    and upd :: "(DiagnosticRecordStorage \<Rightarrow> DiagnosticRecordStorage) \<Rightarrow> 's \<Rightarrow> 's"
  assumes get_upd: "get (upd f s) = f (get s)"
begin

lemma call_result: "api_call upd call s = (res, s') \<Longrightarrow> drs_result (get s') = res"
  by (auto simp: api_call_def Let_def get_upd split: prod.splits)

lemma call_return_code: "api_call upd call s = (res, s') \<Longrightarrow> GetReturnCode (get s') = SqlResultToReturnCode res"
  by (simp add: GetReturnCode_def call_result)

lemma run_result: "api_run upd call s = Inr (res, s') \<Longrightarrow> drs_result (get s') = res"
  by (auto simp: api_run_def get_upd split: sum.splits prod.splits)

lemma run_return_code: "api_run upd call s = Inr (res, s') \<Longrightarrow> GetReturnCode (get s') = SqlResultToReturnCode res"
  by (simp add: GetReturnCode_def run_result)

lemma run_records:
  "api_run upd call s = Inr (res, s') \<Longrightarrow>
   \<exists>s1. call (upd DRS_Reset s) = Inr (res, s1) \<and> statusRecords (get s') = statusRecords (get s1)"
  by (auto simp: api_run_def get_upd split: sum.splits prod.splits)

text \<open>The records after a call are those the call added: none is left from earlier calls.\<close>

lemma call_records:
  assumes "\<And>s. get s = d \<Longrightarrow> statusRecords (get (snd (call s))) = statusRecords d @ rs"
    and "d = DRS_Reset (get s)" and "api_call upd call s = (res, s')"
  shows "statusRecords (get s') = rs"
  using assms(1) [of "upd DRS_Reset s"] assms(2,3)
  by (auto simp: api_call_def Let_def get_upd split: prod.splits)

end

interpretation drs: diagnosable "\<lambda>d. d" "\<lambda>f. f"
  by unfold_locales simp

section \<open>SQLSTATE codes\<close>

text \<open>The states with a code of their own, in the order of the codes.\<close>

definition coded_states :: "SqlState list" where
  "coded_states =
     [S01004_DATA_TRUNCATED, S01S00_INVALID_CONNECTION_STRING_ATTRIBUTE, S01S01_ERROR_IN_ROW,
      S01S02_OPTION_VALUE_CHANGED, S01S07_FRACTIONAL_TRUNCATION, S07006_RESTRICTION_VIOLATION,
      S07009_INVALID_DESCRIPTOR_INDEX, S08001_CANNOT_CONNECT, S08002_ALREADY_CONNECTED,
      S08003_NOT_CONNECTED, S08004_CONNECTION_REJECTED, S08S01_LINK_FAILURE, S22002_INDICATOR_NEEDED,
      S22026_DATA_LENGTH_MISMATCH, S23000_INTEGRITY_CONSTRAINT_VIOLATION, S24000_INVALID_CURSOR_STATE,
      S25000_INVALID_TRANSACTION_STATE, S3F000_INVALID_SCHEMA_NAME, S40001_SERIALIZATION_FAILURE,
      S42000_SYNTAX_ERROR_OR_ACCESS_VIOLATION, S42S01_TABLE_OR_VIEW_ALREADY_EXISTS,
      S42S02_TABLE_OR_VIEW_NOT_FOUND, S42S11_INDEX_ALREADY_EXISTS, S42S12_INDEX_NOT_FOUND,
      S42S21_COLUMN_ALREADY_EXISTS, S42S22_COLUMN_NOT_FOUND, SHY000_GENERAL_ERROR,
      SHY001_MEMORY_ALLOCATION, SHY003_INVALID_APPLICATION_BUFFER_TYPE, SHY009_INVALID_USE_OF_NULL_POINTER,
      SHY010_SEQUENCE_ERROR, SHY024_INVALID_ATTRIBUTE_VALUE, SHY090_INVALID_STRING_OR_BUFFER_LENGTH,
      SHY092_OPTION_TYPE_OUT_OF_RANGE, SHY097_COLUMN_TYPE_OUT_OF_RANGE, SHY105_INVALID_PARAMETER_TYPE,
      SHY106_FETCH_TYPE_OUT_OF_RANGE, SHYC00_OPTIONAL_FEATURE_NOT_IMPLEMENTED, SHYT00_TIMEOUT_EXPIRED,
      SHYT01_CONNECTION_TIMEOUT, SIM001_FUNCTION_NOT_SUPPORTED]"

definition code_key :: "string \<Rightarrow> nat" where
  "code_key s = foldl (\<lambda>n c. n * 256 + of_char c) 0 s"

lemma coded_states_ascending: "successively (<) (map (\<lambda>x. code_key (GetSqlState x)) coded_states)"
  by (simp add: coded_states_def code_key_def)

lemma coded_states_distinct: "distinct (map GetSqlState coded_states)"
proof -
  have "sorted_wrt (<) (map (\<lambda>x. code_key (GetSqlState x)) coded_states)"
    using coded_states_ascending by (simp add: successively_conv_sorted_wrt)
  then have "distinct (map code_key (map GetSqlState coded_states))"
    by (simp only: strict_sorted_iff map_map comp_def)
  then show ?thesis using distinct_map [of code_key "map GetSqlState coded_states"] by blast
qed

lemma coded_states_complete:
  "x \<in> set coded_states \<or> x \<in> {SQLSTATE_UNKNOWN, SHY004_INVALID_SQL_DATA_TYPE, SHY008_OPERATION_CANCELED}"
  by (cases x) (simp_all add: coded_states_def)

lemma coded_states_length: "list_all (\<lambda>x. length (GetSqlState x) = 5) coded_states"
  by (simp add: coded_states_def)

text \<open>SQLSTATE codes: every state has a code of five characters and no two states share one,
  except the unknown state and two that are missing from the table, invalid SQL data type
  (HY004) and operation cancelled (HY008): they are reported as the empty string.\<close>

theorem GetSqlState_codes:
  "(\<forall>x. GetSqlState x = [] \<longleftrightarrow>
      x \<in> {SQLSTATE_UNKNOWN, SHY004_INVALID_SQL_DATA_TYPE, SHY008_OPERATION_CANCELED}) \<and>
   (\<forall>x. length (GetSqlState x) = 0 \<or> length (GetSqlState x) = 5) \<and>
   (\<forall>x y. GetSqlState x = GetSqlState y \<and> GetSqlState x \<noteq> [] \<longrightarrow> x = y)"
proof -
  let ?rest = "{SQLSTATE_UNKNOWN, SHY004_INVALID_SQL_DATA_TYPE, SHY008_OPERATION_CANCELED}"
  have l5: "length (GetSqlState x) = 5" if "x \<in> set coded_states" for x
    using coded_states_length that by (simp only: list_all_iff)
  have r: "GetSqlState x = []" if "x \<in> ?rest" for x
    using that by (elim insertE) simp_all
  have i: "inj_on GetSqlState (set coded_states)"
    using coded_states_distinct by (simp only: distinct_map)
  have e: "GetSqlState x = [] \<longleftrightarrow> x \<in> ?rest" for x
  proof (cases "x \<in> set coded_states")
    case True
    then have "GetSqlState x \<noteq> []" using l5 by (metis list.size(3) zero_neq_numeral)
    moreover from this have "x \<notin> ?rest" using r by blast
    ultimately show ?thesis by blast
  next
    case False
    then have "x \<in> ?rest" using coded_states_complete [of x] by blast
    with r show ?thesis by blast
  qed
  have l: "length (GetSqlState x) = 0 \<or> length (GetSqlState x) = 5" for x
    using coded_states_complete [of x] l5 [of x] r [of x] by (metis list.size(3))
  have "x = y" if "GetSqlState x = GetSqlState y" "GetSqlState x \<noteq> []" for x y
  proof -
    have "x \<in> set coded_states" "y \<in> set coded_states"
      using that e coded_states_complete [of x] coded_states_complete [of y] by metis+
    then show ?thesis by (rule inj_onD [OF i that(1)])
  qed
  with e l show ?thesis by blast
qed

section \<open>Reading diagnostics\<close>

text \<open>
  \<open>SQLGetDiagRec\<close> of \<^verbatim>\<open>src/odbc.cpp\<close>: the record's state (six wide characters), the native error
  (always zero) and the message. \<open>diag\<close> is \<open>None\<close> for a null handle; the handle types are 1
  (environment), 2 (connection) and 3 (statement).
\<close>

definition put_small :: "mem \<Rightarrow> nat option \<Rightarrow> nat \<Rightarrow> int \<Rightarrow> mem" where
  "put_small m p n v = (case p of None \<Rightarrow> m | Some a \<Rightarrow> write_bytes m a (int_bytes n v))"

definition SQLGetDiagRec ::
  "Platform \<Rightarrow> mem \<Rightarrow> int \<Rightarrow> DiagnosticRecordStorage option \<Rightarrow> int \<Rightarrow> nat option \<Rightarrow> nat option \<Rightarrow>
   nat option \<Rightarrow> int \<Rightarrow> nat option \<Rightarrow> int \<times> mem" where
  "SQLGetDiagRec pl m handleType diag recNum sqlStateBuf nativeError msgBuffer msgBufferLen msgLen =
     (if handleType \<notin> {1, 2, 3} then (-2, m)
      else case diag of
        None \<Rightarrow> (-2, m)
      | Some d \<Rightarrow>
          if recNum < 1 \<or> msgBufferLen < 0 then (-1, m)
          else case GetStatusRecord d recNum of
            None \<Rightarrow> (100, m)
          | Some r \<Rightarrow>
              let w = sizeof_wchar pl;
                  m1 = (if sqlStateBuf = None then m
                        else fst (CopyStringToBuffer w m (GetSqlState (sqlState r)) sqlStateBuf 6 False));
                  m2 = put_small m1 nativeError 4 0;
                  (m3, n, t) = CopyStringToBuffer w m2 (message r) msgBuffer (nat msgBufferLen) False
              in if msgBuffer = None \<or> msgBufferLen < to_signed 16 (int (length (message r)) + 1) then
                   (if msgLen = None then (-1, m2) else (1, put_small m3 msgLen 2 (int n)))
                 else (0, put_small m3 msgLen 2 (int n)))"

text \<open>
  \<open>SQLGetDiagField\<close>: the field goes through a buffer of default type whose length cell
  \<open>outResLen\<close> is a local variable at the address \<open>tmp\<close>.
\<close>

definition SQLGetDiagField ::
  "Platform \<Rightarrow> mem \<Rightarrow> nat \<Rightarrow> int \<Rightarrow> DiagnosticRecordStorage \<Rightarrow> int \<Rightarrow> int \<Rightarrow> nat option \<Rightarrow> int \<Rightarrow> nat option \<Rightarrow>
   buf_error + (int \<times> mem)" where
  "SQLGetDiagField pl m tmp handleType d recNum diagId buf bufferLen resLen =
     (let b = \<lparr>buf_type = AI_DEFAULT, buffer = buf, buflen = bufferLen, reslen = Some tmp,
               byteOffset = 0, elementOffset = 0\<rparr>
      in case (if handleType \<in> {1, 2, 3} then GetField pl m d recNum (DiagnosticFieldToInternal diagId) b
               else Inr (AI_NO_DATA, m)) of
           Inl e \<Rightarrow> Inl e
         | Inr (res, m') \<Rightarrow>
             Inr (SqlResultToReturnCode res,
                  if res = AI_SUCCESS then put_small m' resLen 2 (sint_of_bytes (read_bytes m' tmp 8)) else m'))"

lemma CopyStringToBuffer_ascii:
  assumes "ascii s" and "0 < w" and "length s < n"
  shows "CopyStringToBuffer w m s (Some a) n False =
    (write_bytes m a (wchar_bytes w (map of_char s @ [0])), length s, False)"
proof -
  have "0 < n * w" "n * w div w - 1 = n - 1" using assms(2,3) by simp_all
  with CopyUtf8StringToWcharString_ascii [OF assms(1), of "n * w" w m a False] assms(2,3) show ?thesis
    by (simp add: CopyStringToBuffer_def Let_def)
qed

text \<open>\<open>SQLGetDiagRec\<close>: asked for an existing record with room for its (ASCII) message, it
  succeeds, and the message with its terminator is in the message buffer as wide characters; a
  record number past the last one gives no data and touches nothing.\<close>

theorem SQLGetDiagRec_message:
  assumes "handleType \<in> {1, 2, 3}" and "0 < sizeof_wchar pl"
  shows "(\<forall>r a. GetStatusRecord d recNum = Some r \<and> ascii (message r) \<and> int (length (message r)) < len \<and>
        len \<le> 32767 \<longrightarrow>
      (\<exists>m'. SQLGetDiagRec pl m handleType (Some d) recNum st ne (Some a) len None = (0, m') \<and>
        read_bytes m' a (sizeof_wchar pl * (length (message r) + 1)) =
          wchar_bytes (sizeof_wchar pl) (map of_char (message r) @ [0]))) \<and>
    (GetStatusRecord d recNum = None \<and> 1 \<le> recNum \<and> 0 \<le> len \<longrightarrow>
      SQLGetDiagRec pl m handleType (Some d) recNum st ne mb len ml = (100, m))"
proof (intro conjI allI impI)
  fix r a
  assume h: "GetStatusRecord d recNum = Some r \<and> ascii (message r) \<and> int (length (message r)) < len \<and> len \<le> 32767"
  let ?w = "sizeof_wchar pl"
  define m2 where "m2 = put_small (if st = None then m
      else fst (CopyStringToBuffer ?w m (GetSqlState (sqlState r)) st 6 False)) ne 4 0"
  let ?bs = "wchar_bytes ?w (map of_char (message r) @ [0])"
  have c: "CopyStringToBuffer ?w m2 (message r) (Some a) (nat len) False =
      (write_bytes m2 a ?bs, length (message r), False)"
    using h assms(2) by (intro CopyStringToBuffer_ascii) auto
  have "to_signed 16 (int (length (message r)) + 1) = int (length (message r)) + 1"
    using h by (intro to_signed_id) auto
  moreover have "1 \<le> recNum" using h by (auto simp: GetStatusRecord_def split: if_splits)
  ultimately have "SQLGetDiagRec pl m handleType (Some d) recNum st ne (Some a) len None = (0, write_bytes m2 a ?bs)"
    using assms(1) h c [unfolded m2_def]
    by (simp add: SQLGetDiagRec_def Let_def put_small_def [of _ None] m2_def split del: if_split)
  then show "\<exists>m'. SQLGetDiagRec pl m handleType (Some d) recNum st ne (Some a) len None = (0, m') \<and>
      read_bytes m' a (?w * (length (message r) + 1)) = ?bs"
    using read_write_same [of m2 a ?bs] by simp
next
  assume "GetStatusRecord d recNum = None \<and> 1 \<le> recNum \<and> 0 \<le> len"
  then show "SQLGetDiagRec pl m handleType (Some d) recNum st ne mb len ml = (100, m)"
    using assms(1) by (simp add: SQLGetDiagRec_def)
qed

end
