(* ===== verification/Odbc_ConnString.thy ===== *)
theory Odbc_ConnString
  imports Odbc_Uri Odbc_Diagnostics
begin

text \<open>
  \<^verbatim>\<open>config/config_tools.cpp\<close> (addresses and ports) and \<^verbatim>\<open>config/connection_string_parser.cpp\<close>:
  a connection string is read attribute by attribute from its end, each attribute changes one
  setting of the configuration or is reported as a diagnostic record. The diagnostics are
  optional, as in the code; the parser's state is the configuration together with them.
\<close>

type_synonym diag = "DiagnosticRecordStorage option"

definition warn :: "string \<Rightarrow> diag \<Rightarrow> diag" where
  "warn msg d = map_option (AddStatusRecord S01S02_OPTION_VALUE_CHANGED msg) d"

definition quoted :: "string \<Rightarrow> string" where
  "quoted s = CHR 0x27 # s @ [CHR 0x27]"

section \<open>Addresses\<close>

record EndPoint =
  ep_host :: string
  ep_port :: int
  ep_range :: int

definition newEndPoint :: EndPoint where
  "newEndPoint = \<lparr>ep_host = [], ep_port = 0, ep_range = 0\<rparr>"

definition end_point_text :: "EndPoint \<Rightarrow> string" where
  "end_point_text e = ep_host e @ '':'' @ int_string (ep_port e)"

fun AddressesToString :: "EndPoint list \<Rightarrow> string" where
  "AddressesToString [] = []"
| "AddressesToString (e # es) = end_point_text e @ concat (map (\<lambda>e. '','' @ end_point_text e) es)"

text \<open>The result is zero when the port is not accepted.\<close>

definition ParsePort :: "string \<Rightarrow> diag \<Rightarrow> int \<times> diag" where
  "ParsePort value d =
     (let p = StripSurroundingWhitespaces value
      in if \<not> AllDigits p then (0, warn (''Unexpected port characters: '' @ quoted p @ ''. Ignoring address.'') d)
         else if 6 \<le> length p then (0, warn (''Port value is too large: '' @ quoted p @ ''. Ignoring address.'') d)
         else
           let intPort = stream_int INT32_MAX p
           in if intPort \<le> 0 \<or> 65535 < intPort then
                (0, warn (''Port value is out of range: '' @ quoted p @ ''. Ignoring address.'') d)
              else (intPort, d))"

definition ParsePortRange :: "string \<Rightarrow> int \<Rightarrow> int \<Rightarrow> diag \<Rightarrow> bool \<times> int \<times> int \<times> diag" where
  "ParsePortRange value prt rng d =
     (case find_char (CHR ''.'') value of
        None \<Rightarrow> (let (p, d) = ParsePort value d in (p \<noteq> 0, p, 0, d))
      | Some sepPos \<Rightarrow>
          if length value < sepPos + 2 \<or> value ! (sepPos + 1) \<noteq> CHR ''.'' then
            (False, prt, rng, warn (''Unexpected number of '' @ quoted ''.'' @ '' characters in the following address: '' @
              quoted value @ ''. Ignoring address.'') d)
          else
            let (rangeBegin, d) = ParsePort (take sepPos value) d
            in if rangeBegin = 0 then (False, prt, rng, d)
               else
                 let (rangeEnd, d) = ParsePort (drop (sepPos + 2) value) d
                 in if rangeEnd = 0 then (False, prt, rng, d)
                    else if rangeEnd < rangeBegin then
                      (False, prt, rng, warn (''Port range end is less than port range begin in the following address: '' @
                        quoted value @ ''. Ignoring address.'') d)
                    else (True, rangeBegin, rangeEnd - rangeBegin, d))"

definition ParseSingleAddress :: "string \<Rightarrow> EndPoint \<Rightarrow> diag \<Rightarrow> bool \<times> EndPoint \<times> diag" where
  "ParseSingleAddress value e d =
     (let colonNum = length (filter (\<lambda>c. c = CHR '':'') value)
      in if colonNum = 0 then (True, e\<lparr>ep_host := value, ep_port := 27017\<rparr>, d)
         else if colonNum \<noteq> 1 then
           (False, e, warn (''Unexpected number of '' @ quoted '':'' @ '' characters in the following address: '' @
              quoted value @ ''. Ignoring address.'') d)
         else
           let colonPos = (case find_char (CHR '':'') value of None \<Rightarrow> 0 | Some i \<Rightarrow> i);
               e1 = e\<lparr>ep_host := take colonPos value\<rparr>
           in if colonPos = length value - 1 then
                (False, e1, warn (''Port is missing in the following address: '' @ quoted value @ ''. Ignoring address.'') d)
              else
                let (ok, p, r, d) = ParsePortRange (drop (colonPos + 1) value) (ep_port e1) (ep_range e1) d
                in (ok, e1\<lparr>ep_port := p, ep_range := r\<rparr>, d))"

text \<open>The list of addresses is read from its end; addresses that are not accepted are skipped.\<close>

function ParseAddress :: "string \<Rightarrow> EndPoint list \<Rightarrow> diag \<Rightarrow> EndPoint list \<times> diag" where
  "ParseAddress parsedAddr endPoints d =
     (if parsedAddr = [] then (endPoints, d)
      else
        let addrBeginPos = (case rfind (CHR '','') parsedAddr of None \<Rightarrow> 0 | Some i \<Rightarrow> i + 1);
            addr = StripSurroundingWhitespaces (drop addrBeginPos parsedAddr);
            (endPoints, d) =
              (if addr = [] then (endPoints, d)
               else let (success, e, d) = ParseSingleAddress addr newEndPoint d
                    in (if success then endPoints @ [e] else endPoints, d))
        in if addrBeginPos = 0 then (endPoints, d)
           else ParseAddress (take (addrBeginPos - 1) parsedAddr) endPoints d)"
  by pat_completeness auto
termination
  by (relation "measure (\<lambda>(s, _, _). length s)") (auto dest: rfind_less split: option.splits)

section \<open>Attributes\<close>

datatype BoolParseResult = PARSED_FALSE | PARSED_TRUE | PARSED_UNRECOGNIZED

definition StringToBool :: "string \<Rightarrow> BoolParseResult" where
  "StringToBool value =
     (let lower = ToLower value
      in if lower = ''true'' then PARSED_TRUE else if lower = ''false'' then PARSED_FALSE else PARSED_UNRECOGNIZED)"

definition MakeErrorMessage :: "string \<Rightarrow> string \<Rightarrow> string \<Rightarrow> string" where
  "MakeErrorMessage msg key value = msg @ '' [key='' @ quoted key @ '', value='' @ quoted value @ '']''"

type_synonym parser_state = "Configuration \<times> diag"

text \<open>The code for a boolean setting, and for a 32-bit setting of at least \<open>least\<close>.\<close>

definition handle_bool ::
  "string \<Rightarrow> string \<Rightarrow> (bool \<Rightarrow> Configuration \<Rightarrow> Configuration) \<Rightarrow> parser_state \<Rightarrow> parser_state" where
  "handle_bool key value setter st =
     (let (cfg, d) = st; res = StringToBool value
      in if res = PARSED_UNRECOGNIZED then
           (cfg, warn (MakeErrorMessage ''Unrecognized bool value. Using default value.'' key value) d)
         else (setter (res = PARSED_TRUE) cfg, d))"

definition handle_int32 ::
  "Host \<Rightarrow> string \<Rightarrow> string \<Rightarrow> string \<Rightarrow> string \<Rightarrow> int \<Rightarrow> (int \<Rightarrow> Configuration \<Rightarrow> Configuration) \<Rightarrow>
   parser_state \<Rightarrow> parser_state" where
  "handle_int32 h key value name large least setter st =
     (let (cfg, d) = st
      in if \<not> AllDigits value then
           (cfg, warn (MakeErrorMessage (name @ '' attribute value contains unexpected characters. Using default value.'') key value) d)
         else if sizeof_string h \<le> length value then
           (cfg, warn (MakeErrorMessage (large @ '' attribute value is too large. Using default value.'') key value) d)
         else
           let numValue = stream_int (2 ^ 63 - 1) value
           in if numValue < least \<or> UINT32_MAX < numValue then
                (cfg, warn (MakeErrorMessage (name @ '' attribute value is out of range. Using default value.'') key value) d)
              else (setter (to_signed 32 numValue) cfg, d))"

definition handle_hostname :: "string \<Rightarrow> parser_state \<Rightarrow> parser_state" where
  "handle_hostname value st =
     (let (cfg, d) = st;
          (_, endpoint, d) = ParseSingleAddress value newEndPoint d;
          cfg = SetHostname (ep_host endpoint) cfg
      in (if sv_set (port cfg) then cfg else SetPort (ep_port endpoint) cfg, d))"

definition handle_port :: "Host \<Rightarrow> string \<Rightarrow> string \<Rightarrow> parser_state \<Rightarrow> parser_state" where
  "handle_port h key value st =
     (let (cfg, d) = st
      in if value = [] then
           (cfg, warn (MakeErrorMessage ''Port attribute value is empty. Using default value.'' key value) d)
         else if \<not> AllDigits value then
           (cfg, warn (MakeErrorMessage ''Port attribute value contains unexpected characters. Using default value.'' key value) d)
         else if sizeof_string h \<le> length value then
           (cfg, warn (MakeErrorMessage ''Port attribute value is too large. Using default value.'' key value) d)
         else
           let numValue = stream_int INT32_MAX value
           in if numValue \<le> 0 \<or> UINT16_MAX < numValue then
                (cfg, warn (MakeErrorMessage ''Port attribute value is out of range. Using default value.'' key value) d)
              else (SetPort numValue cfg, d))"

definition handle_user :: "string \<Rightarrow> parser_state \<Rightarrow> parser_state" where
  "handle_user value st =
     (let (cfg, d) = st;
          d = (if sv_val (user cfg) \<noteq> [] then warn ''Re-writing USER (have you specified it several times?'' d else d)
      in (SetUser value cfg, d))"

definition handle_password :: "string \<Rightarrow> parser_state \<Rightarrow> parser_state" where
  "handle_password value st =
     (let (cfg, d) = st;
          d = (if sv_val (password cfg) \<noteq> [] then warn ''Re-writing PASSWORD (have you specified it several times?'' d else d)
      in (SetPassword value cfg, d))"

definition HandleAttributePair :: "Host \<Rightarrow> string \<Rightarrow> string \<Rightarrow> parser_state \<Rightarrow> parser_state" where
  "HandleAttributePair h key value st =
     (let (cfg, d) = st; lKey = ToLower key; set = (\<lambda>setter. (setter value cfg, d))
      in if lKey = ''dsn'' then set SetDsn
         else if lKey = ''database'' then set SetDatabase
         else if lKey = ''hostname'' then handle_hostname value st
         else if lKey = ''port'' then handle_port h key value st
         else if lKey = ''app_name'' then set SetApplicationName
         else if lKey = ''login_timeout_sec'' then
           handle_int32 h key value ''Login timeout seconds'' ''Login timeout seconds'' 0 SetLoginTimeoutSeconds st
         else if lKey = ''read_preference'' then
           (let preference = ReadPreference_FromString value RP_UNKNOWN
            in if preference = RP_UNKNOWN then
                 (cfg, warn (''Specified read preference is not supported. Default value used ('' @ quoted ''primary'' @ '').'') d)
               else (SetReadPreference preference cfg, d))
         else if lKey = ''replica_set'' then set SetReplicaSet
         else if lKey = ''retry_reads'' then handle_bool key value SetRetryReads st
         else if lKey = ''tls'' then handle_bool key value SetTls st
         else if lKey = ''tls_allow_invalid_hostnames'' then handle_bool key value SetTlsAllowInvalidHostnames st
         else if lKey = ''tls_ca_file'' then set SetTlsCaFile
         else if lKey = ''ssh_enable'' then handle_bool key value SetSshEnable st
         else if lKey = ''ssh_user'' then set SetSshUser
         else if lKey = ''ssh_host'' then set SetSshHost
         else if lKey = ''ssh_private_key_file'' then set SetSshPrivateKeyFile
         else if lKey = ''ssh_private_key_passphrase'' then set SetSshPrivateKeyPassphrase
         else if lKey = ''ssh_strict_host_key_checking'' then handle_bool key value SetSshStrictHostKeyChecking st
         else if lKey = ''ssh_known_hosts_file'' then set SetSshKnownHostsFile
         else if lKey = ''log_level'' then
           (let level = LogLevel_FromString value LOG_UNKNOWN
            in if level = LOG_UNKNOWN then
                 (cfg, warn (''Specified log level is not supported. Default value used ('' @ quoted ''error'' @ '').'') d)
               else (SetLogLevel level cfg, d))
         else if lKey = ''log_path'' then set (SetLogPath h)
         else if lKey = ''scan_method'' then
           (let method = ScanMethod_FromString value SCAN_UNKNOWN
            in if method = SCAN_UNKNOWN then
                 (cfg, warn (''Specified scan method is not supported. Default value used ('' @ quoted ''random'' @ '').'') d)
               else (SetScanMethod method cfg, d))
         else if lKey = ''scan_limit'' then
           handle_int32 h key value ''Scan limit'' ''Scan limit size'' 1 SetScanLimit st
         else if lKey = ''schema_name'' then set SetSchemaName
         else if lKey = ''refresh_schema'' then handle_bool key value SetRefreshSchema st
         else if lKey = ''default_fetch_size'' then
           handle_int32 h key value ''Default fetch size'' ''Default fetch size'' 1 SetDefaultFetchSize st
         else if lKey = ''driver'' then set SetDriver
         else if lKey = ''user'' \<or> lKey = ''uid'' then handle_user value st
         else if lKey = ''password'' \<or> lKey = ''pwd'' then handle_password value st
         else (cfg, warn (''Unknown attribute: '' @ quoted key @ ''. Ignoring.'') d))"

section \<open>The parser\<close>

definition strip_braces :: "string \<Rightarrow> string" where
  "strip_braces value =
     (if value \<noteq> [] \<and> hd value = CHR ''{'' \<and> last value = CHR ''}'' then take (length value - 2) (drop 1 value) else value)"

function parse_attributes :: "Host \<Rightarrow> char \<Rightarrow> string \<Rightarrow> parser_state \<Rightarrow> parser_state" where
  "parse_attributes h delimiter connect_str st =
     (if connect_str = [] then st
      else
        let attr_begin = (case rfind delimiter connect_str of None \<Rightarrow> 0 | Some i \<Rightarrow> i + 1);
            attr_eq_pos = (case rfind (CHR ''='') connect_str of None \<Rightarrow> 0 | Some i \<Rightarrow> i);
            st =
              (if attr_begin < attr_eq_pos then
                 let key = StripSurroundingWhitespaces (take (attr_eq_pos - attr_begin) (drop attr_begin connect_str));
                     value = StripSurroundingWhitespaces (drop (attr_eq_pos + 1) connect_str)
                 in HandleAttributePair h key (strip_braces value) st
               else st)
        in if attr_begin = 0 then st
           else parse_attributes h delimiter (take (attr_begin - 1) connect_str) st)"
  by pat_completeness auto
termination
  by (relation "measure (\<lambda>(_, _, s, _). length s)") (auto dest: rfind_less split: option.splits)

definition ParseConnectionString_delim :: "Host \<Rightarrow> string \<Rightarrow> char \<Rightarrow> parser_state \<Rightarrow> parser_state" where
  "ParseConnectionString_delim h str delimiter st =
     parse_attributes h delimiter (rev (dropWhile (\<lambda>c. c = CHR 0x00) (rev str))) st"

definition ParseConnectionString :: "Host \<Rightarrow> string \<Rightarrow> parser_state \<Rightarrow> parser_state" where
  "ParseConnectionString h str st = ParseConnectionString_delim h str (CHR '';'') st"

text \<open>
  A list of attributes ended by two zero characters; \<open>None\<close> when the characters given hold no such
  pair (the code then reads on).
\<close>

fun config_length :: "string \<Rightarrow> nat option" where
  "config_length (a # b # cs) =
     (if a = CHR 0x00 \<and> b = CHR 0x00 then Some 0 else map_option Suc (config_length (b # cs)))"
| "config_length _ = None"

definition ParseConfigAttributes :: "Host \<Rightarrow> string \<Rightarrow> parser_state \<Rightarrow> parser_state option" where
  "ParseConfigAttributes h str st =
     (case config_length str of
        None \<Rightarrow> None
      | Some len \<Rightarrow> Some (ParseConnectionString_delim h (take (len + 1) str) (CHR 0x00) st))"

declare parse_attributes.simps [simp del]
declare ParseAddress.simps [simp del]

end
