(* ===== verification/Odbc_ConnStringProps.thy ===== *)
theory Odbc_ConnStringProps
  imports Odbc_ConnString
begin

text \<open>
  Writing a configuration as a connection string (\<open>ToConnectString\<close>) and reading it back
  (\<open>ParseConnectionString\<close>). The string is the concatenation of the attributes in the order of
  their keys; the parser handles them from the last to the first. The proof has three parts: the
  parser undoes the writing of any list of attributes; the ordered map of a configuration is the
  list of its present settings in the order of the keys; and handling the text of a setting sets
  exactly that setting.
\<close>

text \<open>The text of an attribute after which the parser continues with what is left of it.\<close>

definition clean :: "string \<Rightarrow> bool" where
  "clean v \<longleftrightarrow> v \<noteq> [] \<and> CHR '';'' \<notin> set v \<and> CHR ''='' \<notin> set v \<and>
     (CHR '' '' \<notin> set v \<longrightarrow> \<not> isspace (hd v) \<and> \<not> isspace (last v) \<and> \<not> (hd v = CHR ''{'' \<and> last v = CHR ''}''))"

definition clean_key :: "string \<Rightarrow> bool" where
  "clean_key k \<longleftrightarrow> k \<noteq> [] \<and> CHR '';'' \<notin> set k \<and> CHR ''='' \<notin> set k \<and> \<not> isspace (hd k) \<and> \<not> isspace (last k)"

lemma strip_wrapped:
  assumes "clean v"
  shows "strip_braces (StripSurroundingWhitespaces (if CHR '' '' \<notin> set v then v else ''{'' @ v @ ''}'')) = v"
proof (cases "CHR '' '' \<in> set v")
  case True
  have "StripSurroundingWhitespaces (''{'' @ v @ ''}'') = ''{'' @ v @ ''}''"
    by (rule strip_id) (simp_all add: isspace_def)
  with True show ?thesis by (simp add: strip_braces_def)
next
  case False
  with assms show ?thesis by (auto simp: clean_def strip_braces_def strip_id)
qed

lemma parse_one:
  assumes "clean v" and "clean_key k" and "xs = [] \<or> last xs = CHR '';''"
  shows "parse_attributes h (CHR '';'') (xs @ butlast (attribute_text (k, v))) st =
    parse_attributes h (CHR '';'') (butlast xs) (HandleAttributePair h k v st)"
proof -
  define w where "w = (if CHR '' '' \<notin> set v then v else ''{'' @ v @ ''}'')"
  let ?seg = "k @ CHR ''='' # w"
  have t: "butlast (attribute_text (k, v)) = ?seg"
    using assms(1) by (simp add: attribute_text_def clean_def w_def butlast_append)
  have w: "CHR '';'' \<notin> set w" "CHR ''='' \<notin> set w" using assms(1) by (auto simp: clean_def w_def)
  have k: "CHR '';'' \<notin> set k" "k \<noteq> []" using assms(2) by (auto simp: clean_key_def)
  have e: "rfind (CHR ''='') (xs @ ?seg) = Some (length xs + length k)"
    using w by (simp add: rfind_append)
  have b: "(case rfind (CHR '';'') (xs @ ?seg) of None \<Rightarrow> 0 | Some i \<Rightarrow> i + 1) = length xs"
  proof (cases xs rule: rev_cases)
    case Nil
    then show ?thesis using w k by (simp add: rfind_append)
  next
    case (snoc ys y)
    then have "y = CHR '';''" using assms(3) by simp
    then show ?thesis using w k snoc by (simp add: rfind_append)
  qed
  have s: "StripSurroundingWhitespaces k = k"
    using assms(2) by (simp add: clean_key_def strip_id)
  have v: "strip_braces (StripSurroundingWhitespaces w) = v" using strip_wrapped [OF assms(1)] by (simp add: w_def)
  have "parse_attributes h (CHR '';'') (xs @ ?seg) st =
      (if length xs = 0 then HandleAttributePair h k v st
       else parse_attributes h (CHR '';'') (take (length xs - 1) (xs @ ?seg)) (HandleAttributePair h k v st))"
    unfolding parse_attributes.simps [of h _ "xs @ ?seg"] b Let_def e using k by (simp add: s v)
  moreover have "take (length xs - 1) (xs @ ?seg) = butlast xs" by (simp add: butlast_conv_take)
  moreover have "parse_attributes h (CHR '';'') [] s = s" for s by (simp add: parse_attributes.simps)
  ultimately show ?thesis unfolding t by (cases xs) simp_all
qed

lemma attribute_text_last: "v \<noteq> [] \<Longrightarrow> attribute_text (k, v) \<noteq> [] \<and> last (attribute_text (k, v)) = CHR '';''"
  by (simp add: attribute_text_def)

text \<open>The parser undoes the writing of attributes, handling them from the last to the first.\<close>

lemma parse_attribute_texts:
  assumes "\<forall>(k, v) \<in> set kvs. clean_key k \<and> clean v"
  shows "parse_attributes h (CHR '';'') (butlast (concat (map attribute_text kvs))) st =
    foldr (\<lambda>(k, v). HandleAttributePair h k v) kvs st"
  using assms
proof (induction kvs arbitrary: st rule: rev_induct)
  case Nil
  then show ?case by (simp add: parse_attributes.simps)
next
  case (snoc kv kvs)
  obtain k v where kv: "kv = (k, v)" by force
  let ?xs = "concat (map attribute_text kvs)"
  have c: "clean_key k" "clean v" using snoc.prems kv by auto
  have "attribute_text (k, v) \<noteq> []" using attribute_text_last c(2) by (simp add: clean_def)
  then have "butlast (concat (map attribute_text (kvs @ [kv]))) = ?xs @ butlast (attribute_text (k, v))"
    by (simp add: kv butlast_append)
  moreover have "?xs = [] \<or> last ?xs = CHR '';''"
  proof (cases kvs rule: rev_cases)
    case (snoc ys y)
    then show ?thesis using attribute_text_last [of "snd y" "fst y"] snoc.prems by (cases y) (auto simp: clean_def)
  qed simp
  ultimately show ?case using parse_one [OF c(2,1)] snoc.IH snoc.prems kv by simp
qed

named_theorems handle_steps

definition setting_text :: "('a \<Rightarrow> string) \<Rightarrow> 'a SettableValue \<Rightarrow> string option" where
  "setting_text text s = (if sv_set s then Some (text (sv_val s)) else None)"

definition settings :: "Configuration \<Rightarrow> (string \<times> string option) list" where
  "settings c =
     [(''dsn'', setting_text (\<lambda>s. s) (dsn c)),
      (''driver'', setting_text (\<lambda>s. s) (driver c)),
      (''database'', setting_text (\<lambda>s. s) (database c)),
      (''hostname'', setting_text (\<lambda>s. s) (hostname c)),
      (''port'', setting_text int_string (port c)),
      (''user'', setting_text (\<lambda>s. s) (user c)),
      (''password'', setting_text (\<lambda>s. s) (password c)),
      (''app_name'', setting_text (\<lambda>s. s) (appName c)),
      (''login_timeout_sec'', setting_text int_string (loginTimeoutSec c)),
      (''read_preference'', setting_text ReadPreference_ToString (readPreference c)),
      (''replica_set'', setting_text (\<lambda>s. s) (replicaSet c)),
      (''retry_reads'', setting_text bool_text (retryReads c)),
      (''tls'', setting_text bool_text (tls c)),
      (''tls_allow_invalid_hostnames'', setting_text bool_text (tlsAllowInvalidHostnames c)),
      (''tls_ca_file'', setting_text (\<lambda>s. s) (tlsCaFile c)),
      (''ssh_enable'', setting_text bool_text (sshEnable c)),
      (''ssh_user'', setting_text (\<lambda>s. s) (sshUser c)),
      (''ssh_host'', setting_text (\<lambda>s. s) (sshHost c)),
      (''ssh_private_key_file'', setting_text (\<lambda>s. s) (sshPrivateKeyFile c)),
      (''ssh_private_key_passphrase'', setting_text (\<lambda>s. s) (sshPrivateKeyPassphrase c)),
      (''ssh_strict_host_key_checking'', setting_text bool_text (sshStrictHostKeyChecking c)),
      (''ssh_known_hosts_file'', setting_text (\<lambda>s. s) (sshKnownHostsFile c)),
      (''log_level'', setting_text LogLevel_ToString (logLevel c)),
      (''log_path'', setting_text (\<lambda>s. s) (logPath c)),
      (''scan_method'', setting_text ScanMethod_ToString (scanMethod c)),
      (''scan_limit'', setting_text int_string (scanLimit c)),
      (''schema_name'', setting_text (\<lambda>s. s) (schemaName c)),
      (''refresh_schema'', setting_text bool_text (refreshSchema c)),
      (''default_fetch_size'', setting_text int_string (defaultFetchSize c))]"

definition settings_by_key :: "Configuration \<Rightarrow> (string \<times> string option) list" where
  "settings_by_key c =
     [(''app_name'', setting_text (\<lambda>s. s) (appName c)),
      (''database'', setting_text (\<lambda>s. s) (database c)),
      (''default_fetch_size'', setting_text int_string (defaultFetchSize c)),
      (''driver'', setting_text (\<lambda>s. s) (driver c)),
      (''dsn'', setting_text (\<lambda>s. s) (dsn c)),
      (''hostname'', setting_text (\<lambda>s. s) (hostname c)),
      (''log_level'', setting_text LogLevel_ToString (logLevel c)),
      (''log_path'', setting_text (\<lambda>s. s) (logPath c)),
      (''login_timeout_sec'', setting_text int_string (loginTimeoutSec c)),
      (''password'', setting_text (\<lambda>s. s) (password c)),
      (''port'', setting_text int_string (port c)),
      (''read_preference'', setting_text ReadPreference_ToString (readPreference c)),
      (''refresh_schema'', setting_text bool_text (refreshSchema c)),
      (''replica_set'', setting_text (\<lambda>s. s) (replicaSet c)),
      (''retry_reads'', setting_text bool_text (retryReads c)),
      (''scan_limit'', setting_text int_string (scanLimit c)),
      (''scan_method'', setting_text ScanMethod_ToString (scanMethod c)),
      (''schema_name'', setting_text (\<lambda>s. s) (schemaName c)),
      (''ssh_enable'', setting_text bool_text (sshEnable c)),
      (''ssh_host'', setting_text (\<lambda>s. s) (sshHost c)),
      (''ssh_known_hosts_file'', setting_text (\<lambda>s. s) (sshKnownHostsFile c)),
      (''ssh_private_key_file'', setting_text (\<lambda>s. s) (sshPrivateKeyFile c)),
      (''ssh_private_key_passphrase'', setting_text (\<lambda>s. s) (sshPrivateKeyPassphrase c)),
      (''ssh_strict_host_key_checking'', setting_text bool_text (sshStrictHostKeyChecking c)),
      (''ssh_user'', setting_text (\<lambda>s. s) (sshUser c)),
      (''tls'', setting_text bool_text (tls c)),
      (''tls_allow_invalid_hostnames'', setting_text bool_text (tlsAllowInvalidHostnames c)),
      (''tls_ca_file'', setting_text (\<lambda>s. s) (tlsCaFile c)),
      (''user'', setting_text (\<lambda>s. s) (user c))]"

definition put_opt :: "string \<times> string option \<Rightarrow> ArgumentMap \<Rightarrow> ArgumentMap" where
  "put_opt kv m = (case snd kv of None \<Rightarrow> m | Some v \<Rightarrow> map_put (fst kv) v m)"

definition present :: "(string \<times> string option) list \<Rightarrow> ArgumentMap" where
  "present T = List.map_filter (\<lambda>(k, ov). map_option (Pair k) ov) T"

lemma AddToMap_put_opt: "AddToMap f k s m = put_opt (k, setting_text f s) m"
  by (simp add: AddToMap_def put_opt_def setting_text_def)

lemma ToMap_settings: "ToMap c m = fold put_opt (settings c) m"
  by (simp add: ToMap_def settings_def AddToMap_int_def AddToMap_string_def AddToMap_bool_def
      AddToMap_ReadPreference_def AddToMap_LogLevel_def AddToMap_ScanMethod_def AddToMap_put_opt)

lemma put_opt_sorted: "keys_sorted m \<Longrightarrow> keys_sorted (put_opt kv m)"
  by (simp add: put_opt_def map_put_sorted split: option.split)

lemma fold_put_opt_sorted: "keys_sorted m \<Longrightarrow> keys_sorted (fold put_opt T m)"
  by (induction T arbitrary: m) (simp_all add: put_opt_sorted)

lemma map_of_fold_put_opt:
  "distinct (map fst T) \<Longrightarrow>
   map_of (fold put_opt T m) k = (case map_of T k of Some (Some v) \<Rightarrow> Some v | _ \<Rightarrow> map_of m k)"
proof (induction T arbitrary: m)
  case (Cons kv T)
  obtain k' ov where kv: "kv = (k', ov)" by force
  have "map_of T k' = None" using Cons.prems kv by (simp add: map_of_eq_None_iff)
  then show ?case using Cons kv by (auto simp: put_opt_def map_of_put split: option.splits)
qed simp

lemma present_Cons: "present ((k, ov) # T) = (case ov of None \<Rightarrow> present T | Some v \<Rightarrow> (k, v) # present T)"
  by (simp add: present_def List.map_filter_simps split: option.split)

lemma set_present: "fst ` set (present T) \<subseteq> fst ` set T"
  by (induction T) (auto simp: present_def List.map_filter_simps split: option.splits)

lemma present_sorted: "sorted_wrt str_less (map fst T) \<Longrightarrow> keys_sorted (present T)"
proof (induction T)
  case (Cons kv T)
  obtain k ov where kv: "kv = (k, ov)" by force
  have "Ball (fst ` set (present T)) (str_less k)" using Cons.prems kv set_present [of T] by fastforce
  with Cons kv show ?case by (auto simp: present_Cons split: option.split)
qed (simp add: present_def List.map_filter_simps)

lemma map_of_present:
  "distinct (map fst T) \<Longrightarrow> map_of (present T) k = (case map_of T k of Some (Some v) \<Rightarrow> Some v | _ \<Rightarrow> None)"
proof (induction T)
  case (Cons kv T)
  obtain k' ov where kv: "kv = (k', ov)" by force
  have "map_of T k' = None" using Cons.prems kv by (simp add: map_of_eq_None_iff)
  then show ?case using Cons kv by (auto simp: present_Cons split: option.splits)
qed (simp add: present_def List.map_filter_simps)

lemma settings_by_key_sorted: "sorted_wrt str_less (map fst (settings_by_key c))"
proof -
  have "successively str_less (map fst (settings_by_key c))" by (simp add: settings_by_key_def)
  then show ?thesis by (subst (asm) successively_conv_sorted_wrt) (auto simp: transp_def intro: str_less_trans)
qed

lemma settings_by_key_set: "set (settings_by_key c) = set (settings c)" "length (settings_by_key c) = length (settings c)"
  by (simp_all only: settings_by_key_def settings_def list.set insert_commute list.size)

lemma settings_keys:
  "distinct (map fst (settings c))" 
  "distinct (map fst (settings_by_key c))"
proof -
  have "distinct ks" if "sorted_wrt str_less ks" for ks
    using that by (induction ks) auto
  then show d: "distinct (map fst (settings_by_key c))"
    using settings_by_key_sorted by blast
  show "distinct (map fst (settings c))"
    using d settings_by_key_set [of c] by (metis card_distinct distinct_card length_map set_map)
qed

lemma ToMap_present: "ToMap c [] = present (settings_by_key c)"
proof (rule keys_sorted_unique)
  have "map_of (settings_by_key c) = map_of (settings c)"
    by (rule map_of_inject_set [THEN iffD2]) (simp_all add: settings_keys settings_by_key_set del: set_map)
  then show "map_of (ToMap c []) = map_of (present (settings_by_key c))"
    by (auto simp: ToMap_settings map_of_fold_put_opt map_of_present settings_keys fun_eq_iff split: option.splits)
  show "keys_sorted (ToMap c [])" by (simp add: ToMap_settings fold_put_opt_sorted)
  show "keys_sorted (present (settings_by_key c))" by (simp add: present_sorted settings_by_key_sorted)
qed

definition ok_text :: "string SettableValue \<Rightarrow> bool" where
  "ok_text s \<longleftrightarrow> (sv_set s \<longrightarrow> clean (sv_val s))"

definition ok_int :: "int \<Rightarrow> int \<Rightarrow> int SettableValue \<Rightarrow> bool" where
  "ok_int lo hi s \<longleftrightarrow> (sv_set s \<longrightarrow> lo \<le> sv_val s \<and> sv_val s \<le> hi)"

definition default_kept :: "'a SettableValue \<Rightarrow> 'a SettableValue \<Rightarrow> bool" where
  "default_kept d s \<longleftrightarrow> (\<not> sv_set s \<longrightarrow> s = d)"

definition writable :: "Host \<Rightarrow> Configuration \<Rightarrow> bool" where
  "writable h c \<longleftrightarrow>
     ok_text (dsn c) \<and>
     ok_text (driver c) \<and>
     ok_text (database c) \<and>
     ok_text (hostname c) \<and> (sv_set (hostname c) \<longrightarrow> CHR '':'' \<notin> set (sv_val (hostname c))) \<and>
     ok_int 1 65535 (port c) \<and>
     ok_text (user c) \<and>
     ok_text (password c) \<and>
     ok_text (appName c) \<and>
     ok_int 0 INT32_MAX (loginTimeoutSec c) \<and>
     sv_val (readPreference c) \<noteq> RP_UNKNOWN \<and>
     ok_text (replicaSet c) \<and>
     ok_text (tlsCaFile c) \<and>
     ok_text (sshUser c) \<and>
     ok_text (sshHost c) \<and>
     ok_text (sshPrivateKeyFile c) \<and>
     ok_text (sshPrivateKeyPassphrase c) \<and>
     ok_text (sshKnownHostsFile c) \<and>
     sv_val (logLevel c) \<noteq> LOG_UNKNOWN \<and>
     ok_text (logPath c) \<and> (sv_set (logPath c) \<longrightarrow> IsValidDirectory h (sv_val (logPath c))) \<and>
     sv_val (scanMethod c) \<noteq> SCAN_UNKNOWN \<and>
     ok_int 1 INT32_MAX (scanLimit c) \<and>
     ok_text (schemaName c) \<and>
     ok_int 1 INT32_MAX (defaultFetchSize c)"

definition defaults_kept :: "Host \<Rightarrow> Configuration \<Rightarrow> bool" where
  "defaults_kept h c \<longleftrightarrow>
     default_kept (dsn (newConfiguration h)) (dsn c) \<and>
     default_kept (driver (newConfiguration h)) (driver c) \<and>
     default_kept (database (newConfiguration h)) (database c) \<and>
     default_kept (hostname (newConfiguration h)) (hostname c) \<and>
     default_kept (port (newConfiguration h)) (port c) \<and>
     default_kept (user (newConfiguration h)) (user c) \<and>
     default_kept (password (newConfiguration h)) (password c) \<and>
     default_kept (appName (newConfiguration h)) (appName c) \<and>
     default_kept (loginTimeoutSec (newConfiguration h)) (loginTimeoutSec c) \<and>
     default_kept (readPreference (newConfiguration h)) (readPreference c) \<and>
     default_kept (replicaSet (newConfiguration h)) (replicaSet c) \<and>
     default_kept (retryReads (newConfiguration h)) (retryReads c) \<and>
     default_kept (tls (newConfiguration h)) (tls c) \<and>
     default_kept (tlsAllowInvalidHostnames (newConfiguration h)) (tlsAllowInvalidHostnames c) \<and>
     default_kept (tlsCaFile (newConfiguration h)) (tlsCaFile c) \<and>
     default_kept (sshEnable (newConfiguration h)) (sshEnable c) \<and>
     default_kept (sshUser (newConfiguration h)) (sshUser c) \<and>
     default_kept (sshHost (newConfiguration h)) (sshHost c) \<and>
     default_kept (sshPrivateKeyFile (newConfiguration h)) (sshPrivateKeyFile c) \<and>
     default_kept (sshPrivateKeyPassphrase (newConfiguration h)) (sshPrivateKeyPassphrase c) \<and>
     default_kept (sshStrictHostKeyChecking (newConfiguration h)) (sshStrictHostKeyChecking c) \<and>
     default_kept (sshKnownHostsFile (newConfiguration h)) (sshKnownHostsFile c) \<and>
     default_kept (logLevel (newConfiguration h)) (logLevel c) \<and>
     default_kept (logPath (newConfiguration h)) (logPath c) \<and>
     default_kept (scanMethod (newConfiguration h)) (scanMethod c) \<and>
     default_kept (scanLimit (newConfiguration h)) (scanLimit c) \<and>
     default_kept (schemaName (newConfiguration h)) (schemaName c) \<and>
     default_kept (refreshSchema (newConfiguration h)) (refreshSchema c) \<and>
     default_kept (defaultFetchSize (newConfiguration h)) (defaultFetchSize c)"

definition pick :: "'a SettableValue \<Rightarrow> 'a SettableValue \<Rightarrow> 'a SettableValue" where
  "pick s t = (if sv_set s then s else t)"

definition handle_opt :: "Host \<Rightarrow> string \<Rightarrow> string option \<Rightarrow> parser_state \<Rightarrow> parser_state" where
  "handle_opt h k ov st = (case ov of None \<Rightarrow> st | Some v \<Rightarrow> HandleAttributePair h k v st)"

lemma pick_eq: "sv_set s \<Longrightarrow> pick s t = SetValue (sv_val s) u" "\<not> sv_set s \<Longrightarrow> pick s t = t"
  by (simp_all add: pick_def SetValue_eq)

lemma pick_default: "default_kept d s \<Longrightarrow> pick s d = s"
  by (auto simp: pick_def default_kept_def)

lemma handle_opt_setting:
  "handle_opt h k (setting_text f s) st = (if sv_set s then HandleAttributePair h k (f (sv_val s)) st else st)"
  by (simp add: handle_opt_def setting_text_def)

lemmas handle_step_defs = handle_opt_setting pick_def HandleAttributePair_def Let_def ToLower_def tolower_def
  config_defs SetValue_eq

lemma StringToBool_bool_text: "StringToBool (bool_text b) = (if b then PARSED_TRUE else PARSED_FALSE)"
  by (simp add: StringToBool_def bool_text_def Let_def ToLower_def tolower_def)

lemma ReadPreference_roundtrip: "x \<noteq> RP_UNKNOWN \<Longrightarrow> ReadPreference_FromString (ReadPreference_ToString x) d = x"
  by (cases x) (simp_all add: ReadPreference_FromString_def Let_def ToLower_def tolower_def
      StripSurroundingWhitespaces_def SkipTrailingSpaces_def isspace_def SpaceToUnderscore_def)

lemma LogLevel_roundtrip: "x \<noteq> LOG_UNKNOWN \<Longrightarrow> LogLevel_FromString (LogLevel_ToString x) d = x"
  by (cases x) (simp_all add: LogLevel_FromString_def Let_def ToLower_def tolower_def
      StripSurroundingWhitespaces_def SkipTrailingSpaces_def isspace_def)

lemma ScanMethod_roundtrip: "x \<noteq> SCAN_UNKNOWN \<Longrightarrow> ScanMethod_FromString (ScanMethod_ToString x) d = x"
  by (cases x) (simp_all add: ScanMethod_FromString_def Let_def ToLower_def tolower_def
      StripSurroundingWhitespaces_def SkipTrailingSpaces_def isspace_def SpaceToUnderscore_def)

lemma dec_string_length: "0 < k \<Longrightarrow> n < 10 ^ k \<Longrightarrow> length (dec_string n) \<le> k"
proof -
  assume "0 < k" "n < 10 ^ k"
  moreover have "length (fixed_digits k n) = k" for k n by (induction k arbitrary: n) auto
  ultimately show ?thesis using fixed_digits_pad [of k n] by (metis diff_is_0_eq' add_diff_cancel_left' le_add2
        length_append length_replicate nat_le_linear pad_left_def add.commute add_0)
qed

lemma int_text:
  assumes "0 \<le> v" and "v < 10 ^ 10"
  shows "AllDigits (int_string v)" "length (int_string v) \<le> 10" "int (dec_val (int_string v)) = v" "int_string v \<noteq> []"
  using assms dec_string_length [of 10 "nat v"] dec_string_digits [of "nat v"]
  by (simp_all add: int_string_def AllDigits_iff nat_less_iff)

lemma handle_int32_ok:
  assumes "least \<le> v" and "0 \<le> least" and "v \<le> INT32_MAX" and "11 \<le> sizeof_string h"
  shows "handle_int32 h key (int_string v) name large least setter (cfg, d) = (setter v cfg, d)"
proof -
  have "to_signed 32 v = v" using assms(1-3) by (intro to_signed_id) (simp_all add: INT32_MAX_def)
  moreover have "stream_int (2 ^ 63 - 1) (int_string v) = v"
    using assms(1-3) by (simp add: stream_int_def int_text INT32_MAX_def)
  ultimately show ?thesis
    using assms int_text [of v] by (simp add: handle_int32_def INT32_MAX_def UINT32_MAX_def Let_def)
qed

lemma handle_port_ok:
  assumes "1 \<le> v" and "v \<le> 65535" and "11 \<le> sizeof_string h"
  shows "handle_port h key (int_string v) (cfg, d) = (SetPort v cfg, d)"
proof -
  have "stream_int INT32_MAX (int_string v) = v" using assms by (simp add: stream_int_def int_text INT32_MAX_def)
  with assms int_text [of v] show ?thesis by (simp add: handle_port_def UINT16_MAX_def Let_def)
qed

lemma step_appName [handle_steps]:
  "handle_opt h ''app_name'' (setting_text (\<lambda>s. s) s) (cfg, d) =
     (cfg\<lparr>appName := pick s (appName cfg)\<rparr>, d)"
  by (simp add: handle_step_defs)

lemma step_database [handle_steps]:
  "handle_opt h ''database'' (setting_text (\<lambda>s. s) s) (cfg, d) =
     (cfg\<lparr>database := pick s (database cfg)\<rparr>, d)"
  by (simp add: handle_step_defs)

lemma step_defaultFetchSize [handle_steps]:
  "ok_int 1 INT32_MAX s \<Longrightarrow> 11 \<le> sizeof_string h \<Longrightarrow> handle_opt h ''default_fetch_size'' (setting_text int_string s) (cfg, d) =
     (cfg\<lparr>defaultFetchSize := pick s (defaultFetchSize cfg)\<rparr>, d)"
  by (simp add: handle_step_defs handle_int32_ok ok_int_def)

lemma step_driver [handle_steps]:
  "handle_opt h ''driver'' (setting_text (\<lambda>s. s) s) (cfg, d) =
     (cfg\<lparr>driver := pick s (driver cfg)\<rparr>, d)"
  by (simp add: handle_step_defs)

lemma step_dsn [handle_steps]:
  "handle_opt h ''dsn'' (setting_text (\<lambda>s. s) s) (cfg, d) =
     (cfg\<lparr>dsn := pick s (dsn cfg)\<rparr>, d)"
  by (simp add: handle_step_defs)

lemma step_logLevel [handle_steps]:
  "sv_val s \<noteq> LOG_UNKNOWN \<Longrightarrow> handle_opt h ''log_level'' (setting_text LogLevel_ToString s) (cfg, d) =
     (cfg\<lparr>logLevel := pick s (logLevel cfg)\<rparr>, d)"
  by (simp add: handle_step_defs LogLevel_roundtrip)

lemma step_logPath [handle_steps]:
  "(sv_set s \<Longrightarrow> IsValidDirectory h (sv_val s)) \<Longrightarrow> handle_opt h ''log_path'' (setting_text (\<lambda>s. s) s) (cfg, d) =
     (cfg\<lparr>logPath := pick s (logPath cfg)\<rparr>, d)"
  by (simp add: handle_step_defs)

lemma step_loginTimeoutSec [handle_steps]:
  "ok_int 0 INT32_MAX s \<Longrightarrow> 11 \<le> sizeof_string h \<Longrightarrow> handle_opt h ''login_timeout_sec'' (setting_text int_string s) (cfg, d) =
     (cfg\<lparr>loginTimeoutSec := pick s (loginTimeoutSec cfg)\<rparr>, d)"
  by (simp add: handle_step_defs handle_int32_ok ok_int_def)

lemma step_password [handle_steps]:
  "sv_val (password cfg) = [] \<Longrightarrow> handle_opt h ''password'' (setting_text (\<lambda>s. s) s) (cfg, d) =
     (cfg\<lparr>password := pick s (password cfg)\<rparr>, d)"
  by (simp add: handle_step_defs handle_password_def)

lemma step_port [handle_steps]:
  "ok_int 1 65535 s \<Longrightarrow> 11 \<le> sizeof_string h \<Longrightarrow> handle_opt h ''port'' (setting_text int_string s) (cfg, d) =
     (cfg\<lparr>port := pick s (port cfg)\<rparr>, d)"
  by (simp add: handle_step_defs handle_port_ok ok_int_def)

lemma step_readPreference [handle_steps]:
  "sv_val s \<noteq> RP_UNKNOWN \<Longrightarrow> handle_opt h ''read_preference'' (setting_text ReadPreference_ToString s) (cfg, d) =
     (cfg\<lparr>readPreference := pick s (readPreference cfg)\<rparr>, d)"
  by (simp add: handle_step_defs ReadPreference_roundtrip)

lemma step_refreshSchema [handle_steps]:
  "handle_opt h ''refresh_schema'' (setting_text bool_text s) (cfg, d) =
     (cfg\<lparr>refreshSchema := pick s (refreshSchema cfg)\<rparr>, d)"
  by (simp add: handle_step_defs handle_bool_def StringToBool_bool_text)

lemma step_replicaSet [handle_steps]:
  "handle_opt h ''replica_set'' (setting_text (\<lambda>s. s) s) (cfg, d) =
     (cfg\<lparr>replicaSet := pick s (replicaSet cfg)\<rparr>, d)"
  by (simp add: handle_step_defs)

lemma step_retryReads [handle_steps]:
  "handle_opt h ''retry_reads'' (setting_text bool_text s) (cfg, d) =
     (cfg\<lparr>retryReads := pick s (retryReads cfg)\<rparr>, d)"
  by (simp add: handle_step_defs handle_bool_def StringToBool_bool_text)

lemma step_scanLimit [handle_steps]:
  "ok_int 1 INT32_MAX s \<Longrightarrow> 11 \<le> sizeof_string h \<Longrightarrow> handle_opt h ''scan_limit'' (setting_text int_string s) (cfg, d) =
     (cfg\<lparr>scanLimit := pick s (scanLimit cfg)\<rparr>, d)"
  by (simp add: handle_step_defs handle_int32_ok ok_int_def)

lemma step_scanMethod [handle_steps]:
  "sv_val s \<noteq> SCAN_UNKNOWN \<Longrightarrow> handle_opt h ''scan_method'' (setting_text ScanMethod_ToString s) (cfg, d) =
     (cfg\<lparr>scanMethod := pick s (scanMethod cfg)\<rparr>, d)"
  by (simp add: handle_step_defs ScanMethod_roundtrip)

lemma step_schemaName [handle_steps]:
  "handle_opt h ''schema_name'' (setting_text (\<lambda>s. s) s) (cfg, d) =
     (cfg\<lparr>schemaName := pick s (schemaName cfg)\<rparr>, d)"
  by (simp add: handle_step_defs)

lemma step_sshEnable [handle_steps]:
  "handle_opt h ''ssh_enable'' (setting_text bool_text s) (cfg, d) =
     (cfg\<lparr>sshEnable := pick s (sshEnable cfg)\<rparr>, d)"
  by (simp add: handle_step_defs handle_bool_def StringToBool_bool_text)

lemma step_sshHost [handle_steps]:
  "handle_opt h ''ssh_host'' (setting_text (\<lambda>s. s) s) (cfg, d) =
     (cfg\<lparr>sshHost := pick s (sshHost cfg)\<rparr>, d)"
  by (simp add: handle_step_defs)

lemma step_sshKnownHostsFile [handle_steps]:
  "handle_opt h ''ssh_known_hosts_file'' (setting_text (\<lambda>s. s) s) (cfg, d) =
     (cfg\<lparr>sshKnownHostsFile := pick s (sshKnownHostsFile cfg)\<rparr>, d)"
  by (simp add: handle_step_defs)

lemma step_sshPrivateKeyFile [handle_steps]:
  "handle_opt h ''ssh_private_key_file'' (setting_text (\<lambda>s. s) s) (cfg, d) =
     (cfg\<lparr>sshPrivateKeyFile := pick s (sshPrivateKeyFile cfg)\<rparr>, d)"
  by (simp add: handle_step_defs)

lemma step_sshPrivateKeyPassphrase [handle_steps]:
  "handle_opt h ''ssh_private_key_passphrase'' (setting_text (\<lambda>s. s) s) (cfg, d) =
     (cfg\<lparr>sshPrivateKeyPassphrase := pick s (sshPrivateKeyPassphrase cfg)\<rparr>, d)"
  by (simp add: handle_step_defs)

lemma step_sshStrictHostKeyChecking [handle_steps]:
  "handle_opt h ''ssh_strict_host_key_checking'' (setting_text bool_text s) (cfg, d) =
     (cfg\<lparr>sshStrictHostKeyChecking := pick s (sshStrictHostKeyChecking cfg)\<rparr>, d)"
  by (simp add: handle_step_defs handle_bool_def StringToBool_bool_text)

lemma step_sshUser [handle_steps]:
  "handle_opt h ''ssh_user'' (setting_text (\<lambda>s. s) s) (cfg, d) =
     (cfg\<lparr>sshUser := pick s (sshUser cfg)\<rparr>, d)"
  by (simp add: handle_step_defs)

lemma step_tls [handle_steps]:
  "handle_opt h ''tls'' (setting_text bool_text s) (cfg, d) =
     (cfg\<lparr>tls := pick s (tls cfg)\<rparr>, d)"
  by (simp add: handle_step_defs handle_bool_def StringToBool_bool_text)

lemma step_tlsAllowInvalidHostnames [handle_steps]:
  "handle_opt h ''tls_allow_invalid_hostnames'' (setting_text bool_text s) (cfg, d) =
     (cfg\<lparr>tlsAllowInvalidHostnames := pick s (tlsAllowInvalidHostnames cfg)\<rparr>, d)"
  by (simp add: handle_step_defs handle_bool_def StringToBool_bool_text)

lemma step_tlsCaFile [handle_steps]:
  "handle_opt h ''tls_ca_file'' (setting_text (\<lambda>s. s) s) (cfg, d) =
     (cfg\<lparr>tlsCaFile := pick s (tlsCaFile cfg)\<rparr>, d)"
  by (simp add: handle_step_defs)

lemma step_user [handle_steps]:
  "sv_val (user cfg) = [] \<Longrightarrow> handle_opt h ''user'' (setting_text (\<lambda>s. s) s) (cfg, d) =
     (cfg\<lparr>user := pick s (user cfg)\<rparr>, d)"
  by (simp add: handle_step_defs handle_user_def)

lemma ParseSingleAddress_host:
  "CHR '':'' \<notin> set v \<Longrightarrow> ParseSingleAddress v e d = (True, e\<lparr>ep_host := v, ep_port := 27017\<rparr>, d)"
  by (simp add: ParseSingleAddress_def Let_def filter_empty_conv)

lemma step_hostname [handle_steps]:
  "(sv_set s \<Longrightarrow> CHR '':'' \<notin> set (sv_val s)) \<Longrightarrow>
   handle_opt h ''hostname'' (setting_text (\<lambda>s. s) s) (cfg, d) =
     (cfg\<lparr>hostname := pick s (hostname cfg),
          port := (if sv_set s \<and> \<not> sv_set (port cfg) then SetValue 27017 (port cfg) else port cfg)\<rparr>, d)"
  by (simp add: handle_step_defs handle_hostname_def ParseSingleAddress_host newEndPoint_def)

text \<open>Reading back settings from the last key to the first.\<close>

lemma foldr_present: "foldr (\<lambda>(k, v). HandleAttributePair h k v) (present T) st = foldr (\<lambda>(k, ov). handle_opt h k ov) T st"
proof (induction T)
  case (Cons kv T)
  obtain k ov where kv: "kv = (k, ov)" by force
  show ?case using Cons by (cases ov) (simp_all add: kv present_Cons handle_opt_def)
qed (simp add: present_def List.map_filter_simps)

text \<open>The configuration read back: the same, with the port of the address when there is none.\<close>

definition with_port :: "Configuration \<Rightarrow> Configuration" where
  "with_port c = (if sv_set (hostname c) \<and> \<not> sv_set (port c) then SetPort 27017 c else c)"

lemma handle_settings:
  assumes "writable h c" and "defaults_kept h c" and "11 \<le> sizeof_string h"
  shows "foldr (\<lambda>(k, ov). handle_opt h k ov) (settings_by_key c) (newConfiguration h, d) = (with_port c, d)"
proof -
  have u: "sv_val (user (newConfiguration h)) = []" "sv_val (password (newConfiguration h)) = []"
    by (simp_all add: newConfiguration_def)
  note w = assms(1) [unfolded writable_def] and k = assms(2) [unfolded defaults_kept_def]
  have "foldr (\<lambda>(k, ov). handle_opt h k ov) (settings_by_key c) (newConfiguration h, d) =
      (if sv_set (hostname c) \<and> \<not> sv_set (port c) then c\<lparr>port := SetValue 27017 (port c)\<rparr> else c, d)"
    using w k assms(3) u by (simp add: settings_by_key_def handle_steps pick_default)
  then show ?thesis by (simp add: with_port_def config_defs)
qed

lemma clean_bool_text: "clean (bool_text b)"
  by (simp add: clean_def bool_text_def isspace_def)

lemma clean_enums: "clean (ReadPreference_ToString r)" "clean (LogLevel_ToString l)" "clean (ScanMethod_ToString s)"
proof -
  show "clean (ReadPreference_ToString r)" by (cases r) (simp_all add: clean_def isspace_def)
  show "clean (LogLevel_ToString l)" by (cases l) (simp_all add: clean_def isspace_def)
  show "clean (ScanMethod_ToString s)" by (cases s) (simp_all add: clean_def isspace_def)
qed

lemma clean_int_string: "0 \<le> v \<Longrightarrow> clean (int_string v)"
proof -
  assume "0 \<le> v"
  then have s: "int_string v = dec_string (nat v)" by (simp add: int_string_def)
  have d: "isdigit c \<Longrightarrow> c \<noteq> CHR '';'' \<and> c \<noteq> CHR ''='' \<and> c \<noteq> CHR ''{'' \<and> \<not> isspace c" for c
    by (auto simp: isdigit_def isspace_def)
  have "isdigit (hd (dec_string (nat v)))" "isdigit (last (dec_string (nat v)))"
    by (rule dec_string_isdigit [OF hd_in_set [OF dec_string_not_Nil]])
      (rule dec_string_isdigit [OF last_in_set [OF dec_string_not_Nil]])
  with d show ?thesis unfolding s clean_def using dec_string_isdigit by (metis dec_string_not_Nil)
qed

definition ok_setting :: "string \<times> string option \<Rightarrow> bool" where
  "ok_setting kv \<longleftrightarrow> clean_key (fst kv) \<and> (case snd kv of None \<Rightarrow> True | Some v \<Rightarrow> clean v)"

lemma ok_setting_simps:
  "ok_setting (k, setting_text (\<lambda>s. s) s) \<longleftrightarrow> clean_key k \<and> ok_text s"
  "ok_setting (k, setting_text bool_text b) \<longleftrightarrow> clean_key k"
  "ok_setting (k, setting_text ReadPreference_ToString r) \<longleftrightarrow> clean_key k"
  "ok_setting (k, setting_text LogLevel_ToString l) \<longleftrightarrow> clean_key k"
  "ok_setting (k, setting_text ScanMethod_ToString m) \<longleftrightarrow> clean_key k"
  by (auto simp: ok_setting_def setting_text_def ok_text_def clean_bool_text clean_enums)

lemma ok_setting_int: "0 \<le> lo \<Longrightarrow> ok_int lo hi i \<Longrightarrow> ok_setting (k, setting_text int_string i) \<longleftrightarrow> clean_key k"
  by (auto simp: ok_setting_def setting_text_def ok_int_def intro!: clean_int_string)

lemma writable_settings:
  assumes "writable h c"
  shows "list_all ok_setting (settings_by_key c)"
proof -
  have i: "ok_setting (k, setting_text int_string (port c)) \<longleftrightarrow> clean_key k"
    "ok_setting (k, setting_text int_string (loginTimeoutSec c)) \<longleftrightarrow> clean_key k"
    "ok_setting (k, setting_text int_string (scanLimit c)) \<longleftrightarrow> clean_key k"
    "ok_setting (k, setting_text int_string (defaultFetchSize c)) \<longleftrightarrow> clean_key k" for k
    using assms ok_setting_int [of 1 65535 "port c"] ok_setting_int [of 0 INT32_MAX "loginTimeoutSec c"]
      ok_setting_int [of 1 INT32_MAX "scanLimit c"] ok_setting_int [of 1 INT32_MAX "defaultFetchSize c"]
    by (simp_all add: writable_def)
  show ?thesis
    using assms unfolding writable_def
    by (simp add: settings_by_key_def ok_setting_simps i clean_key_def isspace_def)
qed

lemma present_clean: "list_all ok_setting T \<Longrightarrow> \<forall>(k, v) \<in> set (present T). clean_key k \<and> clean v"
proof (induction T)
  case (Cons kv T)
  obtain k ov where "kv = (k, ov)" by force
  with Cons show ?case by (cases ov) (auto simp: present_Cons ok_setting_def)
qed (simp add: present_def List.map_filter_simps)

lemma present_nonempty: "\<forall>(k, v) \<in> set kvs. clean v \<Longrightarrow> kvs \<noteq> [] \<Longrightarrow>
  concat (map attribute_text kvs) \<noteq> [] \<and> last (concat (map attribute_text kvs)) = CHR '';''"
  by (induction kvs rule: rev_induct) (auto simp: clean_def attribute_text_last)

lemma ParseConnectionString_trailing:
  assumes "xs \<noteq> []" and "last xs = CHR '';''"
  shows "ParseConnectionString h xs st = parse_attributes h (CHR '';'') (butlast xs) st"
proof -
  obtain ys where xs: "xs = ys @ '';''" using assms by (metis append_butlast_last_id)
  have e: "(case rfind (CHR ''='') (ys @ '';'') of None \<Rightarrow> 0 | Some i \<Rightarrow> i) \<le> length ys"
    by (auto simp: rfind_append split: option.split dest: rfind_less)
  have b: "(case rfind (CHR '';'') (ys @ '';'') of None \<Rightarrow> 0 | Some i \<Rightarrow> i + 1) = Suc (length ys)"
    by (simp add: rfind_append)
  have "parse_attributes h (CHR '';'') (ys @ '';'') st = parse_attributes h (CHR '';'') ys st"
    unfolding parse_attributes.simps [of h "CHR '';''" "ys @ '';''"] b Let_def using e by simp
  then show ?thesis by (simp add: xs ParseConnectionString_def ParseConnectionString_delim_def)
qed


definition plain_host :: Host where
  "plain_host = \<lparr>IsValidDirectory = (\<lambda>p. p = ''/tmp''), default_log_path = ''/home'', sizeof_string = 32\<rparr>"

definition sample_config :: Configuration where
  "sample_config = SetSshEnable False (SetLoginTimeoutSeconds 30 (SetApplicationName ''my app'' (SetPassword ''p&ss''
     (SetUser ''bob'' (SetDatabase ''db'' (SetHostname ''example.org'' (newConfiguration plain_host)))))))"

lemmas sample_config_defs = sample_config_def newConfiguration_def config_defs

lemma sample_config_ok: "writable plain_host sample_config" "defaults_kept plain_host sample_config"
  "11 \<le> sizeof_string plain_host"
  by (simp add: writable_def ok_text_def ok_int_def clean_def isspace_def sample_config_defs INT32_MAX_def)
    (simp_all add: defaults_kept_def default_kept_def sample_config_defs plain_host_def)


end
