(* ===== verification/Odbc_ConnStringInv.thy ===== *)
theory Odbc_ConnStringInv
  imports Odbc_ConnStringProps
begin

text \<open>
  What the connection string parser keeps and what it loses: the configuration stays well-formed
  for every input string; values with an equals sign and addresses that are not accepted.
\<close>

section \<open>What every connection string keeps\<close>

named_theorems config_inv_intros

text \<open>Settings that were not set hold their defaults, and the others are values the parser means to accept. (The scan limit and
  the fetch size may be negative, see below.)\<close>

definition config_inv :: "Host \<Rightarrow> Configuration \<Rightarrow> bool" where
  "config_inv h c \<longleftrightarrow> defaults_kept h c \<and>
     0 \<le> sv_val (port c) \<and> sv_val (port c) \<le> UINT16_MAX \<and>
     int32 (sv_val (loginTimeoutSec c)) \<and> int32 (sv_val (scanLimit c)) \<and> int32 (sv_val (defaultFetchSize c)) \<and>
     sv_val (scanLimit c) \<noteq> 0 \<and> sv_val (defaultFetchSize c) \<noteq> 0 \<and>
     sv_val (readPreference c) \<noteq> RP_UNKNOWN \<and> sv_val (logLevel c) \<noteq> LOG_UNKNOWN \<and>
     sv_val (scanMethod c) \<noteq> SCAN_UNKNOWN \<and>
     (sv_set (logPath c) \<longrightarrow> IsValidDirectory h (sv_val (logPath c)))"

lemma default_kept_SetValue [simp]: "default_kept d (SetValue v s)"
  by (simp add: default_kept_def)

lemmas config_inv_defs = config_inv_def defaults_kept_def config_defs

lemma newConfiguration_inv: "config_inv h (newConfiguration h)"
  by (simp add: config_inv_def defaults_kept_def default_kept_def newConfiguration_def int32_def UINT16_MAX_def)

lemma SetDsn_inv [config_inv_intros]: "config_inv h c \<Longrightarrow> config_inv h (SetDsn v c)"
  by (simp add: config_inv_defs)

lemma SetDriver_inv [config_inv_intros]: "config_inv h c \<Longrightarrow> config_inv h (SetDriver v c)"
  by (simp add: config_inv_defs)

lemma SetDatabase_inv [config_inv_intros]: "config_inv h c \<Longrightarrow> config_inv h (SetDatabase v c)"
  by (simp add: config_inv_defs)

lemma SetHostname_inv [config_inv_intros]: "config_inv h c \<Longrightarrow> config_inv h (SetHostname v c)"
  by (simp add: config_inv_defs)

lemma SetPort_inv [config_inv_intros]: "0 \<le> v \<Longrightarrow> v \<le> UINT16_MAX \<Longrightarrow> config_inv h c \<Longrightarrow> config_inv h (SetPort v c)"
  by (simp add: config_inv_defs)

lemma SetUser_inv [config_inv_intros]: "config_inv h c \<Longrightarrow> config_inv h (SetUser v c)"
  by (simp add: config_inv_defs)

lemma SetPassword_inv [config_inv_intros]: "config_inv h c \<Longrightarrow> config_inv h (SetPassword v c)"
  by (simp add: config_inv_defs)

lemma SetApplicationName_inv [config_inv_intros]: "config_inv h c \<Longrightarrow> config_inv h (SetApplicationName v c)"
  by (simp add: config_inv_defs)

lemma SetLoginTimeoutSeconds_inv [config_inv_intros]: "int32 v \<Longrightarrow> config_inv h c \<Longrightarrow> config_inv h (SetLoginTimeoutSeconds v c)"
  by (simp add: config_inv_defs)

lemma SetReadPreference_inv [config_inv_intros]: "v \<noteq> RP_UNKNOWN \<Longrightarrow> config_inv h c \<Longrightarrow> config_inv h (SetReadPreference v c)"
  by (simp add: config_inv_defs)

lemma SetReplicaSet_inv [config_inv_intros]: "config_inv h c \<Longrightarrow> config_inv h (SetReplicaSet v c)"
  by (simp add: config_inv_defs)

lemma SetRetryReads_inv [config_inv_intros]: "config_inv h c \<Longrightarrow> config_inv h (SetRetryReads v c)"
  by (simp add: config_inv_defs)

lemma SetTls_inv [config_inv_intros]: "config_inv h c \<Longrightarrow> config_inv h (SetTls v c)"
  by (simp add: config_inv_defs)

lemma SetTlsAllowInvalidHostnames_inv [config_inv_intros]: "config_inv h c \<Longrightarrow> config_inv h (SetTlsAllowInvalidHostnames v c)"
  by (simp add: config_inv_defs)

lemma SetTlsCaFile_inv [config_inv_intros]: "config_inv h c \<Longrightarrow> config_inv h (SetTlsCaFile v c)"
  by (simp add: config_inv_defs)

lemma SetSshEnable_inv [config_inv_intros]: "config_inv h c \<Longrightarrow> config_inv h (SetSshEnable v c)"
  by (simp add: config_inv_defs)

lemma SetSshUser_inv [config_inv_intros]: "config_inv h c \<Longrightarrow> config_inv h (SetSshUser v c)"
  by (simp add: config_inv_defs)

lemma SetSshHost_inv [config_inv_intros]: "config_inv h c \<Longrightarrow> config_inv h (SetSshHost v c)"
  by (simp add: config_inv_defs)

lemma SetSshPrivateKeyFile_inv [config_inv_intros]: "config_inv h c \<Longrightarrow> config_inv h (SetSshPrivateKeyFile v c)"
  by (simp add: config_inv_defs)

lemma SetSshPrivateKeyPassphrase_inv [config_inv_intros]: "config_inv h c \<Longrightarrow> config_inv h (SetSshPrivateKeyPassphrase v c)"
  by (simp add: config_inv_defs)

lemma SetSshStrictHostKeyChecking_inv [config_inv_intros]: "config_inv h c \<Longrightarrow> config_inv h (SetSshStrictHostKeyChecking v c)"
  by (simp add: config_inv_defs)

lemma SetSshKnownHostsFile_inv [config_inv_intros]: "config_inv h c \<Longrightarrow> config_inv h (SetSshKnownHostsFile v c)"
  by (simp add: config_inv_defs)

lemma SetLogLevel_inv [config_inv_intros]: "config_inv h c \<Longrightarrow> config_inv h (SetLogLevel v c)"
  by (simp add: config_inv_defs)

lemma SetLogPath_inv [config_inv_intros]: "config_inv h c \<Longrightarrow> config_inv h (SetLogPath h v c)"
  by (simp add: config_inv_defs)

lemma SetScanMethod_inv [config_inv_intros]: "v \<noteq> SCAN_UNKNOWN \<Longrightarrow> config_inv h c \<Longrightarrow> config_inv h (SetScanMethod v c)"
  by (simp add: config_inv_defs)

lemma SetScanLimit_inv [config_inv_intros]: "int32 v \<Longrightarrow> v \<noteq> 0 \<Longrightarrow> config_inv h c \<Longrightarrow> config_inv h (SetScanLimit v c)"
  by (simp add: config_inv_defs)

lemma SetSchemaName_inv [config_inv_intros]: "config_inv h c \<Longrightarrow> config_inv h (SetSchemaName v c)"
  by (simp add: config_inv_defs)

lemma SetRefreshSchema_inv [config_inv_intros]: "config_inv h c \<Longrightarrow> config_inv h (SetRefreshSchema v c)"
  by (simp add: config_inv_defs)

lemma SetDefaultFetchSize_inv [config_inv_intros]: "int32 v \<Longrightarrow> v \<noteq> 0 \<Longrightarrow> config_inv h c \<Longrightarrow> config_inv h (SetDefaultFetchSize v c)"
  by (simp add: config_inv_defs)


lemma int32_to_signed: "int32 (to_signed 32 i)"
  using to_signed_range [of 32 i] by (simp add: int32_def)

lemma handle_bool_inv:
  "config_inv h (fst st) \<Longrightarrow> (\<And>b. config_inv h (setter b (fst st))) \<Longrightarrow> config_inv h (fst (handle_bool k v setter st))"
  by (cases st) (simp add: handle_bool_def Let_def)

lemma to_signed_nonzero: "0 < i \<Longrightarrow> i \<le> UINT32_MAX \<Longrightarrow> to_signed 32 i \<noteq> 0"
proof -
  assume i: "0 < i" "i \<le> UINT32_MAX"
  have "(i + 2147483648) mod 4294967296 \<noteq> 2147483648"
  proof (cases "i < 2147483648")
    case True
    then show ?thesis using i by (simp add: mod_pos_pos_trivial)
  next
    case False
    have "(i + 2147483648) mod 4294967296 = (i - 2147483648) mod 4294967296"
      using mod_add_self2 [of "i - 2147483648" 4294967296] by (simp add: add.commute)
    also have "\<dots> = i - 2147483648" using False i by (intro mod_pos_pos_trivial) (simp_all add: UINT32_MAX_def)
    finally show ?thesis using i by (simp add: UINT32_MAX_def)
  qed
  then show ?thesis by (simp add: to_signed_def)
qed

lemma handle_int32_inv:
  "config_inv h (fst st) \<Longrightarrow> (\<And>i. int32 i \<Longrightarrow> 0 < least \<longrightarrow> i \<noteq> 0 \<Longrightarrow> config_inv h (setter i (fst st))) \<Longrightarrow>
   config_inv h (fst (handle_int32 h k v name large least setter st))"
  using to_signed_nonzero [of "stream_int (2 ^ 63 - 1) v"]
  by (cases st) (auto simp: handle_int32_def Let_def int32_to_signed)

text \<open>A number outside the accepted range changes nothing.\<close>

lemma handle_int32_ignored:
  assumes "int (dec_val v) < least \<or> UINT32_MAX < int (dec_val v)" and "least \<le> 1"
  shows "fst (handle_int32 h k v name large least setter st) = fst st"
  using assms by (cases st) (auto simp: handle_int32_def Let_def stream_int_def UINT32_MAX_def min_def)

lemma handle_port_ignored:
  assumes "int (dec_val v) < 1 \<or> UINT16_MAX < int (dec_val v)"
  shows "fst (handle_port h k v st) = fst st"
  using assms by (cases st) (auto simp: handle_port_def Let_def stream_int_def UINT16_MAX_def INT32_MAX_def min_def)

lemma ParsePort_bounds: "0 \<le> fst (ParsePort v d) \<and> fst (ParsePort v d) \<le> UINT16_MAX"
  by (simp add: ParsePort_def Let_def UINT16_MAX_def)

lemma ParsePortRange_bounds:
  "0 \<le> p \<Longrightarrow> p \<le> UINT16_MAX \<Longrightarrow> ParsePortRange v p r d = (ok, p', r', d') \<Longrightarrow> 0 \<le> p' \<and> p' \<le> UINT16_MAX"
  using ParsePort_bounds
  by (auto simp: ParsePortRange_def Let_def split: option.splits prod.splits if_splits) (metis fst_conv)+

lemma ParseSingleAddress_bounds:
  "0 \<le> ep_port e \<Longrightarrow> ep_port e \<le> UINT16_MAX \<Longrightarrow> ParseSingleAddress v e d = (ok, e', d') \<Longrightarrow>
   0 \<le> ep_port e' \<and> ep_port e' \<le> UINT16_MAX"
  using ParsePortRange_bounds [of "ep_port e"]
  by (auto simp: ParseSingleAddress_def Let_def UINT16_MAX_def split: prod.splits if_splits)

lemma handle_hostname_inv: "config_inv h (fst st) \<Longrightarrow> config_inv h (fst (handle_hostname v st))"
  using ParseSingleAddress_bounds [of newEndPoint v "snd st"]
  by (auto simp: handle_hostname_def Let_def newEndPoint_def UINT16_MAX_def intro!: config_inv_intros split: prod.splits)

lemma handle_port_inv: "config_inv h (fst st) \<Longrightarrow> config_inv h (fst (handle_port h k v st))"
  by (cases st) (auto simp: handle_port_def Let_def intro!: config_inv_intros)

lemma handle_user_inv: "config_inv h (fst st) \<Longrightarrow> config_inv h (fst (handle_user v st))"
  by (cases st) (simp add: handle_user_def Let_def config_inv_intros)

lemma handle_password_inv: "config_inv h (fst st) \<Longrightarrow> config_inv h (fst (handle_password v st))"
  by (cases st) (simp add: handle_password_def Let_def config_inv_intros)

lemma inv_if:
  "(b \<Longrightarrow> config_inv h (fst x)) \<Longrightarrow> (\<not> b \<Longrightarrow> config_inv h (fst y)) \<Longrightarrow> config_inv h (fst (if b then x else y))"
  by simp

lemma HandleAttributePair_inv: "config_inv h (fst st) \<Longrightarrow> config_inv h (fst (HandleAttributePair h k v st))"
  by (cases st, unfold HandleAttributePair_def Let_def, simp only: case_prod_conv, (rule inv_if)+)
    (simp_all add: config_inv_intros handle_bool_inv handle_int32_inv handle_hostname_inv handle_port_inv
      handle_user_inv handle_password_inv)

lemma parse_attributes_inv:
  "config_inv h (fst st) \<Longrightarrow> config_inv h (fst (parse_attributes h dl s st))"
proof (induction "length s" arbitrary: s st rule: less_induct)
  case less
  let ?b = "case rfind dl s of None \<Rightarrow> 0 | Some i \<Rightarrow> i + 1"
  have "s \<noteq> [] \<Longrightarrow> ?b \<noteq> 0 \<Longrightarrow> length (take (?b - 1) s) < length s"
    by (auto dest: rfind_less split: option.splits)
  with less show ?case
    by (subst parse_attributes.simps) (auto simp: Let_def HandleAttributePair_inv)
qed



text \<open>The check of the range does not fit the type: a scan limit or fetch size above the largest 32-bit integer is accepted and
  becomes negative.\<close>

lemma scan_limit_wraps:
  "sv_val (scanLimit (fst (HandleAttributePair plain_host ''scan_limit'' ''4294967295'' (newConfiguration plain_host, None)))) = -1"
proof -
  have "stream_int (2 ^ 63 - 1) ''4294967295'' = 4294967295" by (simp add: stream_int_def dec_val_def char_digit_def)
  then show ?thesis
    by (simp add: HandleAttributePair_def Let_def ToLower_def tolower_def handle_int32_def plain_host_def AllDigits_def isdigit_def
        UINT32_MAX_def to_signed_def config_defs)
qed

section \<open>Values with an equals sign\<close>

lemma nonspace_survives_strip:
  assumes "c \<in> set s" and "\<not> isspace c"
  shows "c \<in> set (StripSurroundingWhitespaces s)"
proof -
  have d: "c \<in> set (dropWhile isspace t)" if "c \<in> set t" for t
    using that assms(2) by (induction t) auto
  show ?thesis using d [OF assms(1)] d [of "rev (dropWhile isspace s)"]
    by (simp add: StripSurroundingWhitespaces_def SkipTrailingSpaces_def)
qed

lemma unknown_attribute:
  assumes "CHR ''='' \<in> set key"
  shows "HandleAttributePair h key v (c, d) = (c, warn (''Unknown attribute: '' @ quoted key @ ''. Ignoring.'') d)"
proof -
  have "tolower (CHR ''='') = CHR ''=''" by (simp add: tolower_def)
  then have e: "CHR ''='' \<in> set (ToLower key)" using assms unfolding ToLower_def by (metis image_eqI set_map)
  have n: "ToLower key \<noteq> k" if "CHR ''='' \<notin> set k" for k using e that by auto
  show ?thesis unfolding HandleAttributePair_def Let_def by (simp add: n)
qed

text \<open>An attribute whose value has an equals sign is lost: the parser splits it at the last
  equals sign, so the key is not recognised, the configuration is unchanged and only a warning
  is recorded. A password such as \<open>a=b\<close> can therefore not be given in a connection string, not
  even in braces, and is not read back from a string the driver wrote.\<close>

theorem value_with_equals_lost:
  assumes "CHR '';'' \<notin> set (k @ ''='' @ v)" and "CHR ''='' \<in> set v" and "k \<noteq> []"
    and "last v \<noteq> CHR 0x00"
  shows "\<exists>msg. ParseConnectionString h (k @ ''='' @ v) (c, d) = (c, warn (''Unknown attribute: '' @ msg) d)"
proof -
  obtain i where i: "rfind (CHR ''='') v = Some i" using assms(2) by (metis rfind_None not_None_eq)
  let ?s = "k @ ''='' @ v"
  let ?key = "StripSurroundingWhitespaces (k @ ''='' @ take i v)"
  have z: "rev (dropWhile (\<lambda>c. c = CHR 0x00) (rev ?s)) = ?s"
    using assms(2,4) by (cases v rule: rev_cases) auto
  have "CHR ''='' \<in> set ?key" by (rule nonspace_survives_strip) (simp_all add: isspace_def)
  from unknown_attribute [OF this] have u: "HandleAttributePair h ?key w (c, d) =
      (c, warn (''Unknown attribute: '' @ (quoted ?key @ ''. Ignoring.'')) d)" for w by simp
  have r: "rfind (CHR ''='') ?s = Some (length k + Suc i)" "rfind (CHR '';'') ?s = None"
    using i assms(1) by (simp_all add: rfind_append)
  have t: "take (length k + Suc i) ?s = k @ ''='' @ take i v" by simp
  have "parse_attributes h (CHR '';'') ?s (c, d) =
      HandleAttributePair h ?key (strip_braces (StripSurroundingWhitespaces (drop (length k + Suc i + 1) ?s))) (c, d)"
    unfolding parse_attributes.simps [of h _ ?s] Let_def r option.case using t by simp
  then show ?thesis
    unfolding ParseConnectionString_def ParseConnectionString_delim_def z u by blast
qed

section \<open>Addresses that are not accepted\<close>

text \<open>A host name attribute that is not a valid address is reported as ignored, but is not: with
  two or more colons the host name becomes set and empty and, if there is no port yet, the port
  becomes zero. The configuration then passes the check for a host name before connecting.\<close>

theorem bad_hostname_is_set:
  assumes "2 \<le> length (filter (\<lambda>x. x = CHR '':'') v)"
  shows "\<exists>msg. HandleAttributePair h ''hostname'' v (c, d) =
      (let c' = SetHostname [] c in if sv_set (port c) then c' else SetPort 0 c', warn msg d)"
proof -
  have "ParseSingleAddress v newEndPoint d = (False, newEndPoint, warn (''Unexpected number of '' @ quoted '':'' @
      '' characters in the following address: '' @ quoted v @ ''. Ignoring address.'') d)"
    using assms by (auto simp: ParseSingleAddress_def Let_def)
  then show ?thesis
    by (simp add: HandleAttributePair_def Let_def ToLower_def tolower_def handle_hostname_def newEndPoint_def config_defs) blast
qed

theorem bad_hostname_is_set_witness:
  "sv_set (hostname (fst (HandleAttributePair plain_host ''hostname'' ''a:1:2'' (newConfiguration plain_host, None))))"
  using bad_hostname_is_set [of "''a:1:2''" plain_host "newConfiguration plain_host" None]
  by (auto simp: Let_def config_defs newConfiguration_def)

end
