(* ===== verification/Odbc_Dsn.thy ===== *)
theory Odbc_Dsn
  imports Odbc_Error Odbc_ConnStringInv
begin

text \<open>
  Data sources (\<open>dsn_config.cpp\<close>): a configuration is registered as a section of \<open>ODBC.INI\<close> and read
  back when a connection names the data source. The ODBC installer library is a parameter with a state
  of its own. Texts pass to it as wide characters; the model takes the texts themselves, cut at a
  terminator where the source passes a C string.
\<close>

record 'i Installer =
  GetPrivateProfileString :: "'i \<Rightarrow> string \<Rightarrow> string \<Rightarrow> string \<Rightarrow> int \<Rightarrow> int \<times> string"
  WritePrivateProfileString :: "string \<Rightarrow> string \<Rightarrow> string option \<Rightarrow> 'i \<Rightarrow> (int \<times> string) + 'i"
  WriteDSNToIni :: "string \<Rightarrow> string \<Rightarrow> 'i \<Rightarrow> (int \<times> string) + 'i"
  RemoveDSNFromIni :: "string \<Rightarrow> 'i \<Rightarrow> (int \<times> string) + 'i"

definition BUFFER_SIZE :: int where "BUFFER_SIZE = 1024 * 1024"

definition ODBC_ERROR_COMPONENT_NOT_FOUND :: int where "ODBC_ERROR_COMPONENT_NOT_FOUND = 6"

definition c_cut :: "string \<Rightarrow> string" where
  "c_cut = takeWhile (\<lambda>c. c \<noteq> CHR 0x00)"

definition GetLastSetupError :: "int \<times> string \<Rightarrow> DocumentDbError" where
  "GetLastSetupError e =
     error_of (fst e) (''Message: '' @ [CHR 0x22] @ snd e @ [CHR 0x22] @ '', Code: '' @ int_string (fst e))"

section \<open>Writing\<close>

text \<open>The state after the call, and the error of the call when it failed. Removing a value that is not there is no
  failure.\<close>

definition WriteDsnString ::
  "'i Installer \<Rightarrow> string \<Rightarrow> string \<Rightarrow> string option \<Rightarrow> 'i \<Rightarrow> DocumentDbError option \<times> 'i" where
  "WriteDsnString inst dsnName key value s =
     (case WritePrivateProfileString inst dsnName key value s of
        Inr s' \<Rightarrow> (None, s')
      | Inl e \<Rightarrow>
          let error = GetLastSetupError e
          in if value \<noteq> None \<or> err_code error \<noteq> ODBC_ERROR_COMPONENT_NOT_FOUND then (Some error, s) else (None, s))"

definition secret_keys :: "string list" where
  "secret_keys = [''password'', ''pwd'', ''user'', ''uid'', ''ssh_private_key_passphrase'']"

fun write_settings ::
  "'i Installer \<Rightarrow> string \<Rightarrow> ArgumentMap \<Rightarrow> 'i \<Rightarrow> DocumentDbError option \<times> 'i" where
  "write_settings inst dsnName [] s = (None, s)"
| "write_settings inst dsnName ((key, value) # m) s =
     (let shouldWrite = (key \<notin> set secret_keys)
      in case WriteDsnString inst dsnName (c_cut key) (if shouldWrite then Some (c_cut value) else None) s of
           (Some error, s') \<Rightarrow> (Some error, s')
         | (None, s') \<Rightarrow> write_settings inst dsnName m s')"

definition RegisterDsn ::
  "'i Installer \<Rightarrow> Configuration \<Rightarrow> string \<Rightarrow> 'i \<Rightarrow> DocumentDbError option \<times> 'i" where
  "RegisterDsn inst c drv s =
     (let dsnName = c_cut (GetDsn c ''DocumentDB DSN'')
      in case WriteDSNToIni inst dsnName (c_cut drv) s of
           Inl e \<Rightarrow> (Some (GetLastSetupError e), s)
         | Inr s' \<Rightarrow>
             write_settings inst dsnName (filter (\<lambda>(k, _). k \<noteq> ''dsn'' \<and> k \<noteq> ''driver'') (ToMap c [])) s')"

definition UnregisterDsn :: "'i Installer \<Rightarrow> string \<Rightarrow> 'i \<Rightarrow> DocumentDbError option \<times> 'i" where
  "UnregisterDsn inst dsnName s =
     (case RemoveDSNFromIni inst dsnName s of Inl e \<Rightarrow> (Some (GetLastSetupError e), s) | Inr s' \<Rightarrow> (None, s'))"

text \<open>\<open>WriteDsnConfiguration\<close>: whether the data source is registered, and the error when there is one.\<close>

definition WriteDsnConfiguration ::
  "'i Installer \<Rightarrow> Configuration \<Rightarrow> 'i \<Rightarrow> bool \<times> DocumentDbError option \<times> 'i" where
  "WriteDsnConfiguration inst c s =
     (if GetDsn c [] = [] \<or> sv_val (driver c) = [] then (False, None, s)
      else let (e, s') = RegisterDsn inst c (sv_val (driver c)) s in (e = None, e, s'))"

definition DeleteDsnConfiguration :: "'i Installer \<Rightarrow> string \<Rightarrow> 'i \<Rightarrow> DocumentDbError option \<times> 'i" where
  "DeleteDsnConfiguration = UnregisterDsn"

section \<open>Reading\<close>

definition unique :: string where
  "unique = ''35a920dd-8837-43d2-a846-e01a2e7b5f84''"

definition ReadDsnString :: "'i Installer \<Rightarrow> 'i \<Rightarrow> string \<Rightarrow> string \<Rightarrow> string \<Rightarrow> string SettableValue" where
  "ReadDsnString inst s dsnName key dflt =
     (let (ret, res) = GetPrivateProfileString inst s dsnName key unique BUFFER_SIZE;
          res = (if ret > BUFFER_SIZE then snd (GetPrivateProfileString inst s dsnName key unique (ret + 1)) else res);
          val = SettableValue_default dflt
      in if res \<noteq> unique then SetValue res val else val)"

text \<open>A value without any character but white space leaves the integer it is read into as it was: uninitialised.\<close>

definition ReadDsnInt :: "'i Installer \<Rightarrow> 'i \<Rightarrow> string \<Rightarrow> string \<Rightarrow> int \<Rightarrow> buf_error + int SettableValue" where
  "ReadDsnInt inst s dsnName key dflt =
     (let str = ReadDsnString inst s dsnName key []
      in if \<not> sv_set str then Inr (SettableValue_default dflt)
         else if list_all isspace (sv_val str) then Inl Uninitialized
         else Inr (SetValue (read_int32 (sv_val str)) (SettableValue_default dflt)))"

definition ReadDsnBool :: "'i Installer \<Rightarrow> 'i \<Rightarrow> string \<Rightarrow> string \<Rightarrow> bool \<Rightarrow> bool SettableValue" where
  "ReadDsnBool inst s dsnName key dflt =
     (let str = ReadDsnString inst s dsnName key []
      in if sv_set str then SetValue (sv_val str = ''true'') (SettableValue_default dflt)
         else SettableValue_default dflt)"

text \<open>One setting: taken from the data source when it is there and the configuration has none yet.\<close>

definition take_setting :: "'a SettableValue \<Rightarrow> bool \<Rightarrow> ('a \<Rightarrow> Configuration \<Rightarrow> Configuration) \<Rightarrow> Configuration \<Rightarrow> Configuration" where
  "take_setting v isSet put c = (if sv_set v \<and> \<not> isSet then put (sv_val v) c else c)"

type_synonym dsn_step = "Configuration \<Rightarrow> buf_error + Configuration"

definition text_step ::
  "'i Installer \<Rightarrow> 'i \<Rightarrow> string \<Rightarrow> string \<Rightarrow> (Configuration \<Rightarrow> bool) \<Rightarrow> (string \<Rightarrow> Configuration \<Rightarrow> Configuration) \<Rightarrow> dsn_step" where
  "text_step inst s dsnName key isSet put c = Inr (take_setting (ReadDsnString inst s dsnName key []) (isSet c) put c)"

definition bool_step ::
  "'i Installer \<Rightarrow> 'i \<Rightarrow> string \<Rightarrow> string \<Rightarrow> (Configuration \<Rightarrow> bool) \<Rightarrow> (bool \<Rightarrow> Configuration \<Rightarrow> Configuration) \<Rightarrow> dsn_step" where
  "bool_step inst s dsnName key isSet put c = Inr (take_setting (ReadDsnBool inst s dsnName key False) (isSet c) put c)"

definition int_step ::
  "'i Installer \<Rightarrow> 'i \<Rightarrow> string \<Rightarrow> string \<Rightarrow> (Configuration \<Rightarrow> bool) \<Rightarrow> (int \<Rightarrow> Configuration \<Rightarrow> Configuration) \<Rightarrow> dsn_step" where
  "int_step inst s dsnName key isSet put c =
     (case ReadDsnInt inst s dsnName key 0 of
        Inl e \<Rightarrow> Inl e
      | Inr v \<Rightarrow> Inr (take_setting v (isSet c) put c))"

fun run_steps :: "dsn_step list \<Rightarrow> dsn_step" where
  "run_steps [] c = Inr c"
| "run_steps (f # fs) c = (case f c of Inl e \<Rightarrow> Inl e | Inr c' \<Rightarrow> run_steps fs c')"

definition positive :: "(int \<Rightarrow> Configuration \<Rightarrow> Configuration) \<Rightarrow> int \<Rightarrow> Configuration \<Rightarrow> Configuration" where
  "positive put v c = (if v > 0 then put v c else c)"

definition dsn_steps :: "Host \<Rightarrow> 'i Installer \<Rightarrow> 'i \<Rightarrow> string \<Rightarrow> dsn_step list" where
  "dsn_steps h inst s dsnName =
     (let str = text_step inst s dsnName; bool = bool_step inst s dsnName; num = int_step inst s dsnName
      in [str ''hostname'' (\<lambda>c. sv_set (hostname c)) SetHostname,
          num ''port'' (\<lambda>c. sv_set (port c)) (\<lambda>v. SetPort (v mod 2 ^ 16)),
          str ''database'' (\<lambda>c. sv_set (database c)) SetDatabase,
          str ''user'' (\<lambda>c. sv_set (user c)) SetUser,
          str ''password'' (\<lambda>c. sv_set (password c)) SetPassword,
          str ''app_name'' (\<lambda>c. sv_set (appName c)) SetApplicationName,
          num ''login_timeout_sec'' (\<lambda>c. sv_set (loginTimeoutSec c)) SetLoginTimeoutSeconds,
          str ''read_preference'' (\<lambda>c. sv_set (readPreference c))
            (\<lambda>v. SetReadPreference (ReadPreference_FromString v PRIMARY)),
          str ''replica_set'' (\<lambda>c. sv_set (replicaSet c)) SetReplicaSet,
          bool ''retry_reads'' (\<lambda>c. sv_set (retryReads c)) SetRetryReads,
          bool ''tls'' (\<lambda>c. sv_set (tls c)) SetTls,
          bool ''tls_allow_invalid_hostnames'' (\<lambda>c. sv_set (tlsAllowInvalidHostnames c)) SetTlsAllowInvalidHostnames,
          str ''tls_ca_file'' (\<lambda>c. sv_set (tlsCaFile c)) SetTlsCaFile,
          bool ''ssh_enable'' (\<lambda>c. sv_set (sshEnable c)) SetSshEnable,
          str ''ssh_user'' (\<lambda>c. sv_set (sshUser c)) SetSshUser,
          str ''ssh_host'' (\<lambda>c. sv_set (sshHost c)) SetSshHost,
          str ''ssh_private_key_file'' (\<lambda>c. sv_set (sshPrivateKeyFile c)) SetSshPrivateKeyFile,
          str ''ssh_private_key_passphrase'' (\<lambda>c. sv_set (sshPrivateKeyPassphrase c)) SetSshPrivateKeyPassphrase,
          bool ''ssh_strict_host_key_checking'' (\<lambda>c. sv_set (sshStrictHostKeyChecking c)) SetSshStrictHostKeyChecking,
          str ''ssh_known_hosts_file'' (\<lambda>c. sv_set (sshKnownHostsFile c)) SetSshKnownHostsFile,
          str ''log_level'' (\<lambda>c. sv_set (logLevel c)) (\<lambda>v. SetLogLevel (LogLevel_FromString v ERROR_LEVEL)),
          str ''log_path'' (\<lambda>c. sv_set (logPath c)) (SetLogPath h),
          str ''scan_method'' (\<lambda>c. sv_set (scanMethod c)) (\<lambda>v. SetScanMethod (ScanMethod_FromString v RANDOM)),
          num ''scan_limit'' (\<lambda>c. sv_set (scanLimit c)) (positive SetScanLimit),
          str ''schema_name'' (\<lambda>c. sv_set (schemaName c)) SetSchemaName,
          bool ''refresh_schema'' (\<lambda>c. sv_set (refreshSchema c)) SetRefreshSchema,
          num ''default_fetch_size'' (\<lambda>c. sv_set (defaultFetchSize c)) (positive SetDefaultFetchSize)])"

definition ReadDsnConfiguration :: "Host \<Rightarrow> 'i Installer \<Rightarrow> 'i \<Rightarrow> string \<Rightarrow> dsn_step" where
  "ReadDsnConfiguration h inst s dsnName = run_steps (dsn_steps h inst s dsnName)"

section \<open>Secrets stay out of the file\<close>

definition hide :: "string \<times> string \<Rightarrow> string \<times> string" where
  "hide kv = (fst kv, if fst kv \<in> set secret_keys then [] else snd kv)"

lemma write_settings_hide: "write_settings inst d (map hide m) s = write_settings inst d m s"
  by (induction m arbitrary: s) (auto simp: hide_def Let_def split: prod.splits option.splits)

definition hide_opt :: "string \<times> string option \<Rightarrow> string \<times> string option" where
  "hide_opt kv = (fst kv, if fst kv \<in> set secret_keys then map_option (\<lambda>_. []) (snd kv) else snd kv)"

lemma present_hide: "present (map hide_opt T) = map hide (present T)"
  by (induction T) (auto simp: present_def List.map_filter_simps hide_opt_def hide_def split: option.splits)

definition SetSecrets :: "string \<Rightarrow> string \<Rightarrow> string \<Rightarrow> Configuration \<Rightarrow> Configuration" where
  "SetSecrets u p q c = SetUser u (SetPassword p (SetSshPrivateKeyPassphrase q c))"

lemma settings_hide: "map hide_opt (settings_by_key (SetSecrets u p q c)) = map hide_opt (settings_by_key (SetSecrets u' p' q' c))"
  by (simp add: settings_by_key_def hide_opt_def SetSecrets_def secret_keys_def setting_text_def config_defs)

lemma ToMap_hide: "map hide (ToMap (SetSecrets u p q c) []) = map hide (ToMap (SetSecrets u' p' q' c) [])"
  using settings_hide [of u p q c u' p' q'] by (simp add: ToMap_present flip: present_hide)

lemma filter_hide: "map hide (filter (\<lambda>(k, _). P k) m) = filter (\<lambda>(k, _). P k) (map hide m)"
  by (induction m) (auto simp: hide_def)

text \<open>(C10) What registering a data source writes does not depend on the user name, the password and the passphrase of
  the SSH key: with any installer, and whether or not a write fails, two configurations that differ only in them leave
  the same \<open>ODBC.INI\<close> and report the same error.\<close>
theorem RegisterDsn_hides_secrets:
  "RegisterDsn inst (SetSecrets u p q c) drv s = RegisterDsn inst (SetSecrets u' p' q' c) drv s"
proof -
  let ?m = "\<lambda>u p q. filter (\<lambda>(k, _). k \<noteq> ''dsn'' \<and> k \<noteq> ''driver'') (ToMap (SetSecrets u p q c) [])"
  have "map hide (?m u p q) = map hide (?m u' p' q')"
    using ToMap_hide [of u p q c u' p' q'] by (simp add: filter_hide [of "\<lambda>k. k \<noteq> ''dsn'' \<and> k \<noteq> ''driver''"])
  then have "write_settings inst d (map hide (?m u p q)) s' = write_settings inst d (map hide (?m u' p' q')) s'" for d s'
    by (rule arg_cong)
  then have "write_settings inst d (?m u p q) s' = write_settings inst d (?m u' p' q') s'" for d s'
    unfolding write_settings_hide .
  moreover have "GetDsn (SetSecrets u p q c) x = GetDsn c x" for u p q x
    by (simp add: GetDsn_def SetSecrets_def config_defs)
  ultimately show ?thesis by (simp add: RegisterDsn_def Let_def split: sum.split)
qed

section \<open>What was registered is read back\<close>

text \<open>The behaviour of the installer the driver relies on, for keys in lower case and for plain texts: a new section
  is empty but for its driver, a value written or removed is read back, and other values stay.\<close>

definition ini_key :: "string \<Rightarrow> bool" where
  "ini_key k \<longleftrightarrow> k \<noteq> [] \<and> list_all (\<lambda>c. c \<in> set ''abcdefghijklmnopqrstuvwxyz_'') k"

definition stored_text :: "string \<Rightarrow> bool" where
  "stored_text v \<longleftrightarrow> v \<noteq> [] \<and> \<not> isspace (hd v) \<and> \<not> isspace (last v) \<and> hd v \<noteq> CHR 0x22 \<and> hd v \<noteq> CHR 0x27 \<and>
     list_all (\<lambda>c. 32 \<le> (of_char c :: nat) \<and> (of_char c :: nat) < 127) v \<and> int (length v) < BUFFER_SIZE"

definition installer_ok :: "'i Installer \<Rightarrow> bool" where
  "installer_ok inst \<longleftrightarrow>
     (\<forall>d drv s s' k. WriteDSNToIni inst d drv s = Inr s' \<longrightarrow> ini_key k \<longrightarrow> k \<noteq> ''driver'' \<longrightarrow>
        GetPrivateProfileString inst s' d k unique BUFFER_SIZE = (int (length unique), unique)) \<and>
     (\<forall>d k v s s'. WritePrivateProfileString inst d k (Some v) s = Inr s' \<longrightarrow> ini_key k \<longrightarrow> stored_text v \<longrightarrow>
        GetPrivateProfileString inst s' d k unique BUFFER_SIZE = (int (length v), v)) \<and>
     (\<forall>d k s s'. WritePrivateProfileString inst d k None s = Inr s' \<longrightarrow> ini_key k \<longrightarrow>
        GetPrivateProfileString inst s' d k unique BUFFER_SIZE = (int (length unique), unique)) \<and>
     (\<forall>d k ov s s' k'. WritePrivateProfileString inst d k ov s = Inr s' \<longrightarrow> ini_key k \<longrightarrow> ini_key k' \<longrightarrow> k' \<noteq> k \<longrightarrow>
        GetPrivateProfileString inst s' d k' unique BUFFER_SIZE = GetPrivateProfileString inst s d k' unique BUFFER_SIZE)"

lemma stored_cut: "stored_text v \<Longrightarrow> c_cut v = v"
  by (auto simp: stored_text_def c_cut_def list_all_iff takeWhile_eq_all_conv)

lemma ini_cut: "ini_key k \<Longrightarrow> c_cut k = k"
  by (auto simp: ini_key_def c_cut_def list_all_iff takeWhile_eq_all_conv)

definition public_value :: "ArgumentMap \<Rightarrow> string \<Rightarrow> string option" where
  "public_value m k = (if k \<in> set secret_keys then None else map_of m k)"

definition profile :: "'i Installer \<Rightarrow> 'i \<Rightarrow> string \<Rightarrow> string \<Rightarrow> int \<times> string" where
  "profile inst s d k = GetPrivateProfileString inst s d k unique BUFFER_SIZE"

definition answer :: "string option \<Rightarrow> int \<times> string" where
  "answer ov = (case ov of None \<Rightarrow> (int (length unique), unique) | Some v \<Rightarrow> (int (length v), v))"

lemma WriteDsnString_profile:
  assumes "installer_ok inst" and "ini_key key" and "WriteDsnString inst d key ov s = (None, s')"
    and "\<And>v. ov = Some v \<Longrightarrow> stored_text v" and "ov = None \<Longrightarrow> profile inst s d key = answer None"
  shows "profile inst s' d key = answer ov"
    "ini_key k \<Longrightarrow> k \<noteq> key \<Longrightarrow> profile inst s' d k = profile inst s d k"
  using assms
  by (auto simp: WriteDsnString_def installer_ok_def profile_def answer_def Let_def split: sum.splits option.splits if_splits)

lemma write_settings_profile:
  assumes "installer_ok inst" and "write_settings inst d m s = (None, s')" and "distinct (map fst m)"
    and "\<And>k v. (k, v) \<in> set m \<Longrightarrow> ini_key k \<and> (k \<notin> set secret_keys \<longrightarrow> stored_text v)"
    and "\<And>k. k \<in> fst ` set m \<Longrightarrow> profile inst s d k = answer None" and "ini_key k"
  shows "profile inst s' d k = (if k \<in> fst ` set m then answer (public_value m k) else profile inst s d k)"
  using assms(2-5)
proof (induction m arbitrary: s)
  case (Cons kv m)
  obtain key v where kv: "kv = (key, v)" by force
  let ?ov = "if key \<notin> set secret_keys then Some v else None"
  have ok: "ini_key key" "key \<notin> set secret_keys \<Longrightarrow> stored_text v" using Cons.prems(3) [of key v] kv by auto
  then have cut: "WriteDsnString inst d (c_cut key) (if key \<notin> set secret_keys then Some (c_cut v) else None) s =
      WriteDsnString inst d key ?ov s"
    by (simp add: ini_cut stored_cut)
  then obtain s1 where w: "WriteDsnString inst d key ?ov s = (None, s1)" and rest: "write_settings inst d m s1 = (None, s')"
    using Cons.prems(1) kv by (auto simp: Let_def split: prod.splits option.splits if_splits)
  have fresh: "profile inst s d key = answer None" using Cons.prems(4) [of key] kv by simp
  have st: "stored_text v'" if "?ov = Some v'" for v' using that ok(2) by (auto split: if_splits)
  note one = WriteDsnString_profile [OF assms(1) ok(1) w st]
  have key1: "profile inst s1 d key = answer ?ov" using one(1) fresh by simp
  have other: "ini_key k' \<Longrightarrow> k' \<noteq> key \<Longrightarrow> profile inst s1 d k' = profile inst s d k'" for k'
    using one(2) fresh by simp
  have "profile inst s1 d k' = answer None" if "k' \<in> fst ` set m" for k'
  proof -
    from that obtain v' where v': "(k', v') \<in> set m" by auto
    have "ini_key k'" using Cons.prems(3) [of k' v'] v' by simp
    moreover have "k' \<noteq> key" using Cons.prems(2) that kv by auto
    moreover have "profile inst s d k' = answer None" using Cons.prems(4) [of k'] that by simp
    ultimately show ?thesis using other [of k'] by simp
  qed
  moreover have "ini_key k' \<and> (k' \<notin> set secret_keys \<longrightarrow> stored_text v')" if "(k', v') \<in> set m" for k' v'
    using Cons.prems(3) [of k' v'] that by simp
  moreover have "distinct (map fst m)" using Cons.prems(2) by simp
  ultimately have "profile inst s' d k = (if k \<in> fst ` set m then answer (public_value m k) else profile inst s1 d k)"
    using Cons.IH [OF rest] by blast
  then show ?case
    using key1 other [OF assms(6)] Cons.prems(2) kv by (auto simp: public_value_def image_iff)
qed simp

text \<open>\<open>L\<close> gives the texts of the section; a setting is then the one written, where the configuration has none.\<close>

definition reads_as :: "'i Installer \<Rightarrow> 'i \<Rightarrow> string \<Rightarrow> (string \<Rightarrow> string option) \<Rightarrow> bool" where
  "reads_as inst s d L \<longleftrightarrow>
     (\<forall>k. ini_key k \<longrightarrow> k \<notin> {''dsn'', ''driver''} \<longrightarrow> ReadDsnString inst s d k [] =
        (case L k of None \<Rightarrow> SettableValue_default [] | Some v \<Rightarrow> SetValue v (SettableValue_default [])))"

lemma read_int32_string: "0 \<le> v \<Longrightarrow> v \<le> INT32_MAX \<Longrightarrow> read_int32 (int_string v) = v"
proof -
  assume v: "0 \<le> v" "v \<le> INT32_MAX"
  then have t: "list_all isdigit (int_string v)" "int_string v \<noteq> []" "int (dec_val (int_string v)) = v"
    using int_text [of v] by (auto simp: INT32_MAX_def AllDigits_iff)
  then have "\<not> isspace (hd (int_string v))" "hd (int_string v) \<noteq> CHR ''-''" "hd (int_string v) \<noteq> CHR ''+''"
    by (cases "int_string v"; auto simp: isdigit_def isspace_def)+
  then have b: "dropWhile isspace (int_string v) = int_string v" using t(2) by (cases "int_string v") auto
  have w: "takeWhile isdigit (int_string v) = int_string v"
    using t(1) by (simp add: takeWhile_eq_all_conv list_all_iff)
  show ?thesis
    using t(3) \<open>hd _ \<noteq> CHR ''-''\<close> \<open>hd _ \<noteq> CHR ''+''\<close> v by (simp add: read_int32_def w b)
qed

lemma int_string_not_blank: "0 \<le> v \<Longrightarrow> v \<le> INT32_MAX \<Longrightarrow> \<not> list_all isspace (int_string v)"
  using int_text [of v] by (cases "int_string v") (auto simp: INT32_MAX_def AllDigits_iff isdigit_def isspace_def)

lemma reads_text:
  "reads_as inst s d L \<Longrightarrow> ini_key k \<Longrightarrow> k \<notin> {''dsn'', ''driver''} \<Longrightarrow> L k = setting_text f x \<Longrightarrow>
   ReadDsnString inst s d k [] =
     (if sv_set x then SetValue (f (sv_val x)) (SettableValue_default []) else SettableValue_default [])"
  by (auto simp: reads_as_def setting_text_def split: option.splits)

lemma reads_bool:
  "reads_as inst s d L \<Longrightarrow> ini_key k \<Longrightarrow> k \<notin> {''dsn'', ''driver''} \<Longrightarrow> L k = setting_text bool_text x \<Longrightarrow>
   ReadDsnBool inst s d k b = (if sv_set x then SetValue (sv_val x) (SettableValue_default b) else SettableValue_default b)"
  by (simp add: ReadDsnBool_def reads_text Let_def bool_text_def)

lemma reads_int:
  "reads_as inst s d L \<Longrightarrow> ini_key k \<Longrightarrow> k \<notin> {''dsn'', ''driver''} \<Longrightarrow> L k = setting_text int_string x \<Longrightarrow>
   ok_int lo hi x \<Longrightarrow> 0 \<le> lo \<Longrightarrow> hi \<le> INT32_MAX \<Longrightarrow>
   ReadDsnInt inst s d k n = Inr (if sv_set x then SetValue (sv_val x) (SettableValue_default n) else SettableValue_default n)"
  by (auto simp: ReadDsnInt_def reads_text Let_def ok_int_def read_int32_string int_string_not_blank)

lemmas dsn_step_defs = text_step_def bool_step_def int_step_def take_setting_def pick_def config_defs SetValue_eq
  reads_text reads_bool ini_key_def positive_def ReadPreference_roundtrip LogLevel_roundtrip ScanMethod_roundtrip

lemma read_hostname:
  "reads_as inst s d L \<Longrightarrow> L ''hostname'' = setting_text (\<lambda>t. t) x \<Longrightarrow> \<not> sv_set (hostname c) \<Longrightarrow>
   text_step inst s d ''hostname'' (\<lambda>c. sv_set (hostname c)) SetHostname c = Inr (c\<lparr>hostname := pick x (hostname c)\<rparr>)"
  by (simp add: dsn_step_defs)

lemma read_port:
  "reads_as inst s d L \<Longrightarrow> L ''port'' = setting_text int_string x \<Longrightarrow> ok_int 0 65535 x \<Longrightarrow> \<not> sv_set (port c) \<Longrightarrow>
   int_step inst s d ''port'' (\<lambda>c. sv_set (port c)) (\<lambda>v. SetPort (v mod 65536)) c = Inr (c\<lparr>port := pick x (port c)\<rparr>)"
  by (cases "sv_set x") (simp_all add: dsn_step_defs reads_int [where lo = 0 and hi = 65535] INT32_MAX_def ok_int_def)

lemma read_database:
  "reads_as inst s d L \<Longrightarrow> L ''database'' = setting_text (\<lambda>t. t) x \<Longrightarrow> \<not> sv_set (database c) \<Longrightarrow>
   text_step inst s d ''database'' (\<lambda>c. sv_set (database c)) SetDatabase c = Inr (c\<lparr>database := pick x (database c)\<rparr>)"
  by (simp add: dsn_step_defs)

lemma read_appName:
  "reads_as inst s d L \<Longrightarrow> L ''app_name'' = setting_text (\<lambda>t. t) x \<Longrightarrow> \<not> sv_set (appName c) \<Longrightarrow>
   text_step inst s d ''app_name'' (\<lambda>c. sv_set (appName c)) SetApplicationName c = Inr (c\<lparr>appName := pick x (appName c)\<rparr>)"
  by (simp add: dsn_step_defs)

lemma read_loginTimeoutSec:
  "reads_as inst s d L \<Longrightarrow> L ''login_timeout_sec'' = setting_text int_string x \<Longrightarrow> ok_int 0 INT32_MAX x \<Longrightarrow> \<not> sv_set (loginTimeoutSec c) \<Longrightarrow>
   int_step inst s d ''login_timeout_sec'' (\<lambda>c. sv_set (loginTimeoutSec c)) SetLoginTimeoutSeconds c = Inr (c\<lparr>loginTimeoutSec := pick x (loginTimeoutSec c)\<rparr>)"
  by (cases "sv_set x") (simp_all add: dsn_step_defs reads_int [where lo = 0 and hi = INT32_MAX] INT32_MAX_def ok_int_def)

lemma read_replicaSet:
  "reads_as inst s d L \<Longrightarrow> L ''replica_set'' = setting_text (\<lambda>t. t) x \<Longrightarrow> \<not> sv_set (replicaSet c) \<Longrightarrow>
   text_step inst s d ''replica_set'' (\<lambda>c. sv_set (replicaSet c)) SetReplicaSet c = Inr (c\<lparr>replicaSet := pick x (replicaSet c)\<rparr>)"
  by (simp add: dsn_step_defs)

lemma read_retryReads:
  "reads_as inst s d L \<Longrightarrow> L ''retry_reads'' = setting_text bool_text x \<Longrightarrow> \<not> sv_set (retryReads c) \<Longrightarrow>
   bool_step inst s d ''retry_reads'' (\<lambda>c. sv_set (retryReads c)) SetRetryReads c = Inr (c\<lparr>retryReads := pick x (retryReads c)\<rparr>)"
  by (simp add: dsn_step_defs)

lemma read_tls:
  "reads_as inst s d L \<Longrightarrow> L ''tls'' = setting_text bool_text x \<Longrightarrow> \<not> sv_set (tls c) \<Longrightarrow>
   bool_step inst s d ''tls'' (\<lambda>c. sv_set (tls c)) SetTls c = Inr (c\<lparr>tls := pick x (tls c)\<rparr>)"
  by (simp add: dsn_step_defs)

lemma read_tlsAllowInvalidHostnames:
  "reads_as inst s d L \<Longrightarrow> L ''tls_allow_invalid_hostnames'' = setting_text bool_text x \<Longrightarrow> \<not> sv_set (tlsAllowInvalidHostnames c) \<Longrightarrow>
   bool_step inst s d ''tls_allow_invalid_hostnames'' (\<lambda>c. sv_set (tlsAllowInvalidHostnames c)) SetTlsAllowInvalidHostnames c = Inr (c\<lparr>tlsAllowInvalidHostnames := pick x (tlsAllowInvalidHostnames c)\<rparr>)"
  by (simp add: dsn_step_defs)

lemma read_tlsCaFile:
  "reads_as inst s d L \<Longrightarrow> L ''tls_ca_file'' = setting_text (\<lambda>t. t) x \<Longrightarrow> \<not> sv_set (tlsCaFile c) \<Longrightarrow>
   text_step inst s d ''tls_ca_file'' (\<lambda>c. sv_set (tlsCaFile c)) SetTlsCaFile c = Inr (c\<lparr>tlsCaFile := pick x (tlsCaFile c)\<rparr>)"
  by (simp add: dsn_step_defs)

lemma read_sshEnable:
  "reads_as inst s d L \<Longrightarrow> L ''ssh_enable'' = setting_text bool_text x \<Longrightarrow> \<not> sv_set (sshEnable c) \<Longrightarrow>
   bool_step inst s d ''ssh_enable'' (\<lambda>c. sv_set (sshEnable c)) SetSshEnable c = Inr (c\<lparr>sshEnable := pick x (sshEnable c)\<rparr>)"
  by (simp add: dsn_step_defs)

lemma read_sshUser:
  "reads_as inst s d L \<Longrightarrow> L ''ssh_user'' = setting_text (\<lambda>t. t) x \<Longrightarrow> \<not> sv_set (sshUser c) \<Longrightarrow>
   text_step inst s d ''ssh_user'' (\<lambda>c. sv_set (sshUser c)) SetSshUser c = Inr (c\<lparr>sshUser := pick x (sshUser c)\<rparr>)"
  by (simp add: dsn_step_defs)

lemma read_sshHost:
  "reads_as inst s d L \<Longrightarrow> L ''ssh_host'' = setting_text (\<lambda>t. t) x \<Longrightarrow> \<not> sv_set (sshHost c) \<Longrightarrow>
   text_step inst s d ''ssh_host'' (\<lambda>c. sv_set (sshHost c)) SetSshHost c = Inr (c\<lparr>sshHost := pick x (sshHost c)\<rparr>)"
  by (simp add: dsn_step_defs)

lemma read_sshPrivateKeyFile:
  "reads_as inst s d L \<Longrightarrow> L ''ssh_private_key_file'' = setting_text (\<lambda>t. t) x \<Longrightarrow> \<not> sv_set (sshPrivateKeyFile c) \<Longrightarrow>
   text_step inst s d ''ssh_private_key_file'' (\<lambda>c. sv_set (sshPrivateKeyFile c)) SetSshPrivateKeyFile c = Inr (c\<lparr>sshPrivateKeyFile := pick x (sshPrivateKeyFile c)\<rparr>)"
  by (simp add: dsn_step_defs)

lemma read_sshStrictHostKeyChecking:
  "reads_as inst s d L \<Longrightarrow> L ''ssh_strict_host_key_checking'' = setting_text bool_text x \<Longrightarrow> \<not> sv_set (sshStrictHostKeyChecking c) \<Longrightarrow>
   bool_step inst s d ''ssh_strict_host_key_checking'' (\<lambda>c. sv_set (sshStrictHostKeyChecking c)) SetSshStrictHostKeyChecking c = Inr (c\<lparr>sshStrictHostKeyChecking := pick x (sshStrictHostKeyChecking c)\<rparr>)"
  by (simp add: dsn_step_defs)

lemma read_sshKnownHostsFile:
  "reads_as inst s d L \<Longrightarrow> L ''ssh_known_hosts_file'' = setting_text (\<lambda>t. t) x \<Longrightarrow> \<not> sv_set (sshKnownHostsFile c) \<Longrightarrow>
   text_step inst s d ''ssh_known_hosts_file'' (\<lambda>c. sv_set (sshKnownHostsFile c)) SetSshKnownHostsFile c = Inr (c\<lparr>sshKnownHostsFile := pick x (sshKnownHostsFile c)\<rparr>)"
  by (simp add: dsn_step_defs)

lemma read_schemaName:
  "reads_as inst s d L \<Longrightarrow> L ''schema_name'' = setting_text (\<lambda>t. t) x \<Longrightarrow> \<not> sv_set (schemaName c) \<Longrightarrow>
   text_step inst s d ''schema_name'' (\<lambda>c. sv_set (schemaName c)) SetSchemaName c = Inr (c\<lparr>schemaName := pick x (schemaName c)\<rparr>)"
  by (simp add: dsn_step_defs)

lemma read_refreshSchema:
  "reads_as inst s d L \<Longrightarrow> L ''refresh_schema'' = setting_text bool_text x \<Longrightarrow> \<not> sv_set (refreshSchema c) \<Longrightarrow>
   bool_step inst s d ''refresh_schema'' (\<lambda>c. sv_set (refreshSchema c)) SetRefreshSchema c = Inr (c\<lparr>refreshSchema := pick x (refreshSchema c)\<rparr>)"
  by (simp add: dsn_step_defs)

lemma read_scanLimit:
  "reads_as inst s d L \<Longrightarrow> L ''scan_limit'' = setting_text int_string x \<Longrightarrow> ok_int 1 INT32_MAX x \<Longrightarrow> \<not> sv_set (scanLimit c) \<Longrightarrow>
   int_step inst s d ''scan_limit'' (\<lambda>c. sv_set (scanLimit c)) (positive SetScanLimit) c = Inr (c\<lparr>scanLimit := pick x (scanLimit c)\<rparr>)"
  by (cases "sv_set x") (simp_all add: dsn_step_defs reads_int [where lo = 1 and hi = INT32_MAX] INT32_MAX_def ok_int_def)

lemma read_defaultFetchSize:
  "reads_as inst s d L \<Longrightarrow> L ''default_fetch_size'' = setting_text int_string x \<Longrightarrow> ok_int 1 INT32_MAX x \<Longrightarrow> \<not> sv_set (defaultFetchSize c) \<Longrightarrow>
   int_step inst s d ''default_fetch_size'' (\<lambda>c. sv_set (defaultFetchSize c)) (positive SetDefaultFetchSize) c = Inr (c\<lparr>defaultFetchSize := pick x (defaultFetchSize c)\<rparr>)"
  by (cases "sv_set x") (simp_all add: dsn_step_defs reads_int [where lo = 1 and hi = INT32_MAX] INT32_MAX_def ok_int_def)

lemma read_readPreference:
  "reads_as inst s d L \<Longrightarrow> L ''read_preference'' = setting_text ReadPreference_ToString x \<Longrightarrow> sv_val x \<noteq> RP_UNKNOWN \<Longrightarrow> \<not> sv_set (readPreference c) \<Longrightarrow>
   text_step inst s d ''read_preference'' (\<lambda>c. sv_set (readPreference c)) (\<lambda>v. SetReadPreference (ReadPreference_FromString v PRIMARY)) c = Inr (c\<lparr>readPreference := pick x (readPreference c)\<rparr>)"
  by (simp add: dsn_step_defs)

lemma read_logLevel:
  "reads_as inst s d L \<Longrightarrow> L ''log_level'' = setting_text LogLevel_ToString x \<Longrightarrow> sv_val x \<noteq> LOG_UNKNOWN \<Longrightarrow> \<not> sv_set (logLevel c) \<Longrightarrow>
   text_step inst s d ''log_level'' (\<lambda>c. sv_set (logLevel c)) (\<lambda>v. SetLogLevel (LogLevel_FromString v ERROR_LEVEL)) c = Inr (c\<lparr>logLevel := pick x (logLevel c)\<rparr>)"
  by (simp add: dsn_step_defs)

lemma read_scanMethod:
  "reads_as inst s d L \<Longrightarrow> L ''scan_method'' = setting_text ScanMethod_ToString x \<Longrightarrow> sv_val x \<noteq> SCAN_UNKNOWN \<Longrightarrow> \<not> sv_set (scanMethod c) \<Longrightarrow>
   text_step inst s d ''scan_method'' (\<lambda>c. sv_set (scanMethod c)) (\<lambda>v. SetScanMethod (ScanMethod_FromString v RANDOM)) c = Inr (c\<lparr>scanMethod := pick x (scanMethod c)\<rparr>)"
  by (simp add: dsn_step_defs)

lemma read_logPath:
  "reads_as inst s d L \<Longrightarrow> L ''log_path'' = setting_text (\<lambda>t. t) x \<Longrightarrow> (sv_set x \<Longrightarrow> IsValidDirectory h (sv_val x)) \<Longrightarrow> \<not> sv_set (logPath c) \<Longrightarrow>
   text_step inst s d ''log_path'' (\<lambda>c. sv_set (logPath c)) (SetLogPath h) c = Inr (c\<lparr>logPath := pick x (logPath c)\<rparr>)"
  by (simp add: dsn_step_defs)

lemma read_secret:
  "reads_as inst s d L \<Longrightarrow> L k = None \<Longrightarrow> k \<in> set secret_keys \<Longrightarrow> text_step inst s d k isSet put c = Inr c"
  by (auto simp: reads_as_def text_step_def take_setting_def secret_keys_def ini_key_def)

section \<open>The round trip\<close>

text \<open>What is read back: all settings but the secrets, the name of the data source and the driver.\<close>

definition public_part :: "Host \<Rightarrow> Configuration \<Rightarrow> Configuration" where
  "public_part h c =
     c\<lparr>dsn := dsn (newConfiguration h), driver := driver (newConfiguration h), user := user (newConfiguration h),
       password := password (newConfiguration h), sshPrivateKeyPassphrase := sshPrivateKeyPassphrase (newConfiguration h)\<rparr>"

definition registrable :: "Host \<Rightarrow> Configuration \<Rightarrow> bool" where
  "registrable h c \<longleftrightarrow>
     (\<forall>(k, v) \<in> set (ToMap c []). k \<notin> set secret_keys \<longrightarrow> stored_text v \<and> v \<noteq> unique) \<and>
     ok_int 0 65535 (port c) \<and> ok_int 0 INT32_MAX (loginTimeoutSec c) \<and>
     ok_int 1 INT32_MAX (scanLimit c) \<and> ok_int 1 INT32_MAX (defaultFetchSize c) \<and>
     sv_val (readPreference c) \<noteq> RP_UNKNOWN \<and> sv_val (logLevel c) \<noteq> LOG_UNKNOWN \<and> sv_val (scanMethod c) \<noteq> SCAN_UNKNOWN \<and>
     (sv_set (logPath c) \<longrightarrow> IsValidDirectory h (sv_val (logPath c)))"

lemma ToMap_keys: "(k, v) \<in> set (ToMap c []) \<Longrightarrow> ini_key k"
proof -
  assume "(k, v) \<in> set (ToMap c [])"
  then have "k \<in> fst ` set (present (settings_by_key c))" unfolding ToMap_present by (rule image_eqI [rotated]) simp
  then have "k \<in> fst ` set (settings_by_key c)" using set_present by blast
  moreover have "list_all ini_key (map fst (settings_by_key c))" by (simp add: settings_by_key_def ini_key_def)
  ultimately show ?thesis by (auto simp: list_all_iff)
qed

lemma ToMap_distinct: "distinct (map fst (ToMap c []))"
proof -
  have "distinct ks" if "sorted_wrt str_less ks" for ks using that by (induction ks) auto
  then show ?thesis using present_sorted [OF settings_by_key_sorted] by (simp add: ToMap_present)
qed

lemma map_of_filter_key: "map_of (filter (\<lambda>(k, _). P k) m) k = (if P k then map_of m k else None)"
  by (induction m) auto

lemma public_value_stored: "registrable h c \<Longrightarrow> public_value (ToMap c []) k = Some v \<Longrightarrow> stored_text v \<and> v \<noteq> unique"
  by (auto simp: registrable_def public_value_def split: if_splits dest: map_of_SomeD)

lemma RegisterDsn_reads:
  assumes "installer_ok inst" and "registrable h c" and "RegisterDsn inst c drv s = (None, s')"
  shows "reads_as inst s' (c_cut (GetDsn c ''DocumentDB DSN'')) (public_value (ToMap c []))"
  unfolding reads_as_def
proof (intro allI impI)
  fix k assume k: "ini_key k" "k \<notin> {''dsn'', ''driver''}"
  let ?d = "c_cut (GetDsn c ''DocumentDB DSN'')" and ?m = "filter (\<lambda>(k, _). k \<noteq> ''dsn'' \<and> k \<noteq> ''driver'') (ToMap c [])"
  from assms(3) obtain s1 where s1: "WriteDSNToIni inst ?d (c_cut drv) s = Inr s1" and w: "write_settings inst ?d ?m s1 = (None, s')"
    by (auto simp: RegisterDsn_def Let_def split: sum.splits)
  have fresh: "profile inst s1 ?d k' = answer None" if "ini_key k'" "k' \<noteq> ''driver''" for k'
    using assms(1) s1 that by (auto simp: installer_ok_def profile_def answer_def)
  have "profile inst s' ?d k = (if k \<in> fst ` set ?m then answer (public_value ?m k) else profile inst s1 ?d k)"
  proof (rule write_settings_profile [OF assms(1) w _ _ _ k(1)])
    show "distinct (map fst ?m)" by (rule distinct_map_filter [OF ToMap_distinct])
    show "ini_key k' \<and> (k' \<notin> set secret_keys \<longrightarrow> stored_text v)" if "(k', v) \<in> set ?m" for k' v
      using that ToMap_keys [of k' v c] assms(2) by (auto simp: registrable_def)
    show "profile inst s1 ?d k' = answer None" if "k' \<in> fst ` set ?m" for k'
      using that fresh [of k'] ToMap_keys by auto
  qed
  moreover have "public_value ?m k = public_value (ToMap c []) k"
    using k(2) map_of_filter_key [of "\<lambda>k. k \<noteq> ''dsn'' \<and> k \<noteq> ''driver''" "ToMap c []" k] by (simp add: public_value_def)
  moreover have "public_value ?m k = None" if "k \<notin> fst ` set ?m"
    using that by (simp add: public_value_def map_of_eq_None_iff)
  ultimately have p: "profile inst s' ?d k = answer (public_value (ToMap c []) k)"
    using fresh [OF k(1)] k(2) by (auto split: if_splits)
  show "ReadDsnString inst s' ?d k [] = (case public_value (ToMap c []) k of
      None \<Rightarrow> SettableValue_default [] | Some v \<Rightarrow> SetValue v (SettableValue_default []))"
    using p public_value_stored [OF assms(2), of k]
    by (auto simp: ReadDsnString_def profile_def answer_def Let_def stored_text_def split: option.splits)
      (simp_all add: BUFFER_SIZE_def unique_def)
qed

lemma registered_values:
  "public_value (ToMap c []) ''hostname'' = setting_text (\<lambda>t. t) (hostname c)"
  "public_value (ToMap c []) ''port'' = setting_text int_string (port c)"
  "public_value (ToMap c []) ''database'' = setting_text (\<lambda>t. t) (database c)"
  "public_value (ToMap c []) ''app_name'' = setting_text (\<lambda>t. t) (appName c)"
  "public_value (ToMap c []) ''login_timeout_sec'' = setting_text int_string (loginTimeoutSec c)"
  "public_value (ToMap c []) ''read_preference'' = setting_text ReadPreference_ToString (readPreference c)"
  "public_value (ToMap c []) ''replica_set'' = setting_text (\<lambda>t. t) (replicaSet c)"
  "public_value (ToMap c []) ''retry_reads'' = setting_text bool_text (retryReads c)"
  "public_value (ToMap c []) ''tls'' = setting_text bool_text (tls c)"
  "public_value (ToMap c []) ''tls_allow_invalid_hostnames'' = setting_text bool_text (tlsAllowInvalidHostnames c)"
  "public_value (ToMap c []) ''tls_ca_file'' = setting_text (\<lambda>t. t) (tlsCaFile c)"
  "public_value (ToMap c []) ''ssh_enable'' = setting_text bool_text (sshEnable c)"
  "public_value (ToMap c []) ''ssh_user'' = setting_text (\<lambda>t. t) (sshUser c)"
  "public_value (ToMap c []) ''ssh_host'' = setting_text (\<lambda>t. t) (sshHost c)"
  "public_value (ToMap c []) ''ssh_private_key_file'' = setting_text (\<lambda>t. t) (sshPrivateKeyFile c)"
  "public_value (ToMap c []) ''ssh_strict_host_key_checking'' = setting_text bool_text (sshStrictHostKeyChecking c)"
  "public_value (ToMap c []) ''ssh_known_hosts_file'' = setting_text (\<lambda>t. t) (sshKnownHostsFile c)"
  "public_value (ToMap c []) ''log_level'' = setting_text LogLevel_ToString (logLevel c)"
  "public_value (ToMap c []) ''log_path'' = setting_text (\<lambda>t. t) (logPath c)"
  "public_value (ToMap c []) ''scan_method'' = setting_text ScanMethod_ToString (scanMethod c)"
  "public_value (ToMap c []) ''scan_limit'' = setting_text int_string (scanLimit c)"
  "public_value (ToMap c []) ''schema_name'' = setting_text (\<lambda>t. t) (schemaName c)"
  "public_value (ToMap c []) ''refresh_schema'' = setting_text bool_text (refreshSchema c)"
  "public_value (ToMap c []) ''default_fetch_size'' = setting_text int_string (defaultFetchSize c)"
  "k \<in> set secret_keys \<Longrightarrow> public_value (ToMap c []) k = None"
proof -
  have v: "public_value (ToMap c []) k = (if k \<in> set secret_keys then None else
      case map_of (settings c) k of Some (Some v) \<Rightarrow> Some v | _ \<Rightarrow> None)" for k
    by (simp add: public_value_def ToMap_settings map_of_fold_put_opt settings_keys split: option.split)
  show
    "public_value (ToMap c []) ''hostname'' = setting_text (\<lambda>t. t) (hostname c)"
    "public_value (ToMap c []) ''port'' = setting_text int_string (port c)"
    "public_value (ToMap c []) ''database'' = setting_text (\<lambda>t. t) (database c)"
    "public_value (ToMap c []) ''app_name'' = setting_text (\<lambda>t. t) (appName c)"
    "public_value (ToMap c []) ''login_timeout_sec'' = setting_text int_string (loginTimeoutSec c)"
    "public_value (ToMap c []) ''read_preference'' = setting_text ReadPreference_ToString (readPreference c)"
    "public_value (ToMap c []) ''replica_set'' = setting_text (\<lambda>t. t) (replicaSet c)"
    "public_value (ToMap c []) ''retry_reads'' = setting_text bool_text (retryReads c)"
    "public_value (ToMap c []) ''tls'' = setting_text bool_text (tls c)"
    "public_value (ToMap c []) ''tls_allow_invalid_hostnames'' = setting_text bool_text (tlsAllowInvalidHostnames c)"
    "public_value (ToMap c []) ''tls_ca_file'' = setting_text (\<lambda>t. t) (tlsCaFile c)"
    "public_value (ToMap c []) ''ssh_enable'' = setting_text bool_text (sshEnable c)"
    "public_value (ToMap c []) ''ssh_user'' = setting_text (\<lambda>t. t) (sshUser c)"
    "public_value (ToMap c []) ''ssh_host'' = setting_text (\<lambda>t. t) (sshHost c)"
    "public_value (ToMap c []) ''ssh_private_key_file'' = setting_text (\<lambda>t. t) (sshPrivateKeyFile c)"
    "public_value (ToMap c []) ''ssh_strict_host_key_checking'' = setting_text bool_text (sshStrictHostKeyChecking c)"
    "public_value (ToMap c []) ''ssh_known_hosts_file'' = setting_text (\<lambda>t. t) (sshKnownHostsFile c)"
    "public_value (ToMap c []) ''log_level'' = setting_text LogLevel_ToString (logLevel c)"
    "public_value (ToMap c []) ''log_path'' = setting_text (\<lambda>t. t) (logPath c)"
    "public_value (ToMap c []) ''scan_method'' = setting_text ScanMethod_ToString (scanMethod c)"
    "public_value (ToMap c []) ''scan_limit'' = setting_text int_string (scanLimit c)"
    "public_value (ToMap c []) ''schema_name'' = setting_text (\<lambda>t. t) (schemaName c)"
    "public_value (ToMap c []) ''refresh_schema'' = setting_text bool_text (refreshSchema c)"
    "public_value (ToMap c []) ''default_fetch_size'' = setting_text int_string (defaultFetchSize c)"
    by (simp_all only: v) (simp_all add: secret_keys_def settings_def split: option.split)
  show "k \<in> set secret_keys \<Longrightarrow> public_value (ToMap c []) k = None" by (simp add: v)
qed

lemma newConfiguration_unset:
  "\<not> sv_set (hostname (newConfiguration h))"
  "\<not> sv_set (port (newConfiguration h))"
  "\<not> sv_set (database (newConfiguration h))"
  "\<not> sv_set (appName (newConfiguration h))"
  "\<not> sv_set (loginTimeoutSec (newConfiguration h))"
  "\<not> sv_set (readPreference (newConfiguration h))"
  "\<not> sv_set (replicaSet (newConfiguration h))"
  "\<not> sv_set (retryReads (newConfiguration h))"
  "\<not> sv_set (tls (newConfiguration h))"
  "\<not> sv_set (tlsAllowInvalidHostnames (newConfiguration h))"
  "\<not> sv_set (tlsCaFile (newConfiguration h))"
  "\<not> sv_set (sshEnable (newConfiguration h))"
  "\<not> sv_set (sshUser (newConfiguration h))"
  "\<not> sv_set (sshHost (newConfiguration h))"
  "\<not> sv_set (sshPrivateKeyFile (newConfiguration h))"
  "\<not> sv_set (sshStrictHostKeyChecking (newConfiguration h))"
  "\<not> sv_set (sshKnownHostsFile (newConfiguration h))"
  "\<not> sv_set (logLevel (newConfiguration h))"
  "\<not> sv_set (logPath (newConfiguration h))"
  "\<not> sv_set (scanMethod (newConfiguration h))"
  "\<not> sv_set (scanLimit (newConfiguration h))"
  "\<not> sv_set (schemaName (newConfiguration h))"
  "\<not> sv_set (refreshSchema (newConfiguration h))"
  "\<not> sv_set (defaultFetchSize (newConfiguration h))"
  by (simp_all add: newConfiguration_def)

lemma ReadDsnConfiguration_reads:
  assumes R: "reads_as inst s d (public_value (ToMap c []))" and "registrable h c" and "defaults_kept h c"
  shows "ReadDsnConfiguration h inst s d (newConfiguration h) = Inr (public_part h c)"
proof -
  note v = registered_values [where c = c]
  note steps =
    read_hostname [OF R v(1)]
    read_port [OF R v(2)]
    read_database [OF R v(3)]
    read_appName [OF R v(4)]
    read_loginTimeoutSec [OF R v(5)]
    read_readPreference [OF R v(6)]
    read_replicaSet [OF R v(7)]
    read_retryReads [OF R v(8)]
    read_tls [OF R v(9)]
    read_tlsAllowInvalidHostnames [OF R v(10)]
    read_tlsCaFile [OF R v(11)]
    read_sshEnable [OF R v(12)]
    read_sshUser [OF R v(13)]
    read_sshHost [OF R v(14)]
    read_sshPrivateKeyFile [OF R v(15)]
    read_sshStrictHostKeyChecking [OF R v(16)]
    read_sshKnownHostsFile [OF R v(17)]
    read_logLevel [OF R v(18)]
    read_logPath [OF R v(19)]
    read_scanMethod [OF R v(20)]
    read_scanLimit [OF R v(21)]
    read_schemaName [OF R v(22)]
    read_refreshSchema [OF R v(23)]
    read_defaultFetchSize [OF R v(24)]
    read_secret [OF R v(25)]
  show ?thesis
    using assms(2) [unfolded registrable_def] assms(3) [unfolded defaults_kept_def]
    by (simp add: ReadDsnConfiguration_def dsn_steps_def Let_def steps newConfiguration_unset secret_keys_def pick_default public_part_def)
qed

text \<open>(C9) A registered data source is read back: with an installer that keeps what is written, registering a
  configuration and reading its data source into a fresh configuration gives the same settings, except for the name of
  the data source, the driver and the secrets, which have their defaults. The texts must be such that a line of an INI
  file keeps them, the numbers and enumerations in range, and the log path a directory.\<close>
theorem dsn_roundtrip:
  assumes "installer_ok inst" and "registrable h c" and "defaults_kept h c"
    and "RegisterDsn inst c drv s = (None, s')"
  shows "ReadDsnConfiguration h inst s' (c_cut (GetDsn c ''DocumentDB DSN'')) (newConfiguration h) = Inr (public_part h c)"
  using ReadDsnConfiguration_reads [OF RegisterDsn_reads [OF assms(1,2,4)] assms(2,3)] .

text \<open>An installer that keeps the sections in a map.\<close>

definition plain_installer :: "(string \<Rightarrow> string \<Rightarrow> string option) Installer" where
  "plain_installer =
     \<lparr>GetPrivateProfileString = (\<lambda>s d k dflt n. case s d k of None \<Rightarrow> (int (length dflt), dflt) | Some v \<Rightarrow> (int (length v), v)),
      WritePrivateProfileString = (\<lambda>d k ov s. Inr (s(d := (s d)(k := ov)))),
      WriteDSNToIni = (\<lambda>d drv s. Inr (s(d := [''driver'' \<mapsto> drv]))),
      RemoveDSNFromIni = (\<lambda>d s. if s d = Map.empty then Inl (6, ''Component not found'') else Inr (s(d := Map.empty)))\<rparr>"

lemma plain_installer_ok: "installer_ok plain_installer"
  by (auto simp: installer_ok_def plain_installer_def)

lemma sample_config_registrable: "registrable plain_host sample_config"
proof -
  have "ToMap sample_config [] =
      [(''app_name'', ''my app''), (''database'', ''db''), (''hostname'', ''example.org''), (''login_timeout_sec'', ''30''),
       (''password'', ''p&ss''), (''ssh_enable'', ''false''), (''user'', ''bob'')]"
    by (simp add: ToMap_present settings_by_key_def present_def List.map_filter_simps setting_text_def sample_config_defs
        bool_text_def int_string_def dec_string.simps digit_char_def) code_simp
  then show ?thesis
    by (simp add: registrable_def secret_keys_def stored_text_def unique_def BUFFER_SIZE_def isspace_def ok_int_def
        sample_config_defs INT32_MAX_def)
qed

theorem dsn_roundtrip_witness:
  "\<exists>s'. RegisterDsn plain_installer sample_config ''drv'' (\<lambda>_ _. None) = (None, s') \<and>
     ReadDsnConfiguration plain_host plain_installer s' ''DocumentDB DSN'' (newConfiguration plain_host) =
       Inr (public_part plain_host sample_config) \<and>
     sv_val (password (public_part plain_host sample_config)) = []"
proof -
  have never: "fst (write_settings plain_installer d m s) = None" for d m s
    by (induction m arbitrary: s) (auto simp: Let_def WriteDsnString_def plain_installer_def)
  obtain s' where s': "RegisterDsn plain_installer sample_config ''drv'' (\<lambda>_ _. None) = (None, s')"
    using never by (auto simp: RegisterDsn_def Let_def plain_installer_def prod_eq_iff)
  have d: "c_cut (GetDsn sample_config ''DocumentDB DSN'') = ''DocumentDB DSN''"
    by (simp add: GetDsn_def sample_config_defs c_cut_def)
  show ?thesis
    using dsn_roundtrip [OF plain_installer_ok sample_config_registrable sample_config_ok(2) s'] s' d
    by (simp add: public_part_def newConfiguration_def)
qed

end
