(* ===== verification/Odbc_TypeTraits.thy ===== *)
theory Odbc_TypeTraits
  imports Odbc_Types
begin

text \<open>
  \<^verbatim>\<open>src/type_traits.cpp\<close>: the numbers of the SQL types, of the C types an application may bind and
  of the types the JDBC side reports (\<^verbatim>\<open>impl/binary/binary_common.h\<close>), and the tables between
  them. An absent type (\<open>boost::optional\<close>) is \<open>None\<close>.
\<close>

section \<open>Type numbers\<close>

abbreviation "SQL_TYPE_NULL \<equiv> (0 :: int)"
abbreviation "SQL_CHAR \<equiv> (1 :: int)"
abbreviation "SQL_NUMERIC \<equiv> (2 :: int)"
abbreviation "SQL_DECIMAL \<equiv> (3 :: int)"
abbreviation "SQL_INTEGER \<equiv> (4 :: int)"
abbreviation "SQL_SMALLINT \<equiv> (5 :: int)"
abbreviation "SQL_FLOAT \<equiv> (6 :: int)"
abbreviation "SQL_REAL \<equiv> (7 :: int)"
abbreviation "SQL_DOUBLE \<equiv> (8 :: int)"
abbreviation "SQL_VARCHAR \<equiv> (12 :: int)"
abbreviation "SQL_TYPE_DATE \<equiv> (91 :: int)"
abbreviation "SQL_TYPE_TIME \<equiv> (92 :: int)"
abbreviation "SQL_TYPE_TIMESTAMP \<equiv> (93 :: int)"
abbreviation "SQL_LONGVARCHAR \<equiv> (-1 :: int)"
abbreviation "SQL_BINARY \<equiv> (-2 :: int)"
abbreviation "SQL_VARBINARY \<equiv> (-3 :: int)"
abbreviation "SQL_LONGVARBINARY \<equiv> (-4 :: int)"
abbreviation "SQL_BIGINT \<equiv> (-5 :: int)"
abbreviation "SQL_TINYINT \<equiv> (-6 :: int)"
abbreviation "SQL_BIT \<equiv> (-7 :: int)"
abbreviation "SQL_WCHAR \<equiv> (-8 :: int)"
abbreviation "SQL_WVARCHAR \<equiv> (-9 :: int)"
abbreviation "SQL_WLONGVARCHAR \<equiv> (-10 :: int)"
abbreviation "SQL_GUID \<equiv> (-11 :: int)"

abbreviation "JDBC_TYPE_BIT \<equiv> (-7 :: int)"
abbreviation "JDBC_TYPE_TINYINT \<equiv> (-6 :: int)"
abbreviation "JDBC_TYPE_SMALLINT \<equiv> (5 :: int)"
abbreviation "JDBC_TYPE_INTEGER \<equiv> (4 :: int)"
abbreviation "JDBC_TYPE_BIGINT \<equiv> (-5 :: int)"
abbreviation "JDBC_TYPE_FLOAT \<equiv> (6 :: int)"
abbreviation "JDBC_TYPE_REAL \<equiv> (7 :: int)"
abbreviation "JDBC_TYPE_DOUBLE \<equiv> (8 :: int)"
abbreviation "JDBC_TYPE_NUMERIC \<equiv> (2 :: int)"
abbreviation "JDBC_TYPE_DECIMAL \<equiv> (3 :: int)"
abbreviation "JDBC_TYPE_CHAR \<equiv> (1 :: int)"
abbreviation "JDBC_TYPE_VARCHAR \<equiv> (12 :: int)"
abbreviation "JDBC_TYPE_LONGVARCHAR \<equiv> (-1 :: int)"
abbreviation "JDBC_TYPE_DATE \<equiv> (91 :: int)"
abbreviation "JDBC_TYPE_TIME \<equiv> (92 :: int)"
abbreviation "JDBC_TYPE_TIMESTAMP \<equiv> (93 :: int)"
abbreviation "JDBC_TYPE_BINARY \<equiv> (-2 :: int)"
abbreviation "JDBC_TYPE_VARBINARY \<equiv> (-3 :: int)"
abbreviation "JDBC_TYPE_LONGVARBINARY \<equiv> (-4 :: int)"
abbreviation "JDBC_TYPE_BOOLEAN \<equiv> (16 :: int)"
abbreviation "JDBC_TYPE_NCHAR \<equiv> (-15 :: int)"
abbreviation "JDBC_TYPE_NVARCHAR \<equiv> (-9 :: int)"
abbreviation "JDBC_TYPE_LONGNVARCHAR \<equiv> (-16 :: int)"
abbreviation "JDBC_TYPE_NULL \<equiv> (0 :: int)"

definition DOCUMENTDB_SQL_MAX_LENGTH :: int where
  "DOCUMENTDB_SQL_MAX_LENGTH = 65532"

section \<open>Tables\<close>

text \<open>A \<open>switch\<close> over type numbers: the value of the first row that has the number.\<close>

fun switch :: "(int list \<times> 'a) list \<Rightarrow> 'a \<Rightarrow> int \<Rightarrow> 'a" where
  "switch [] dflt t = dflt"
| "switch ((ts, v) # rows) dflt t = (if List.member ts t then v else switch rows dflt t)"

definition BinaryTypeToSqlTypeName :: "int option \<Rightarrow> string option" where
  "BinaryTypeToSqlTypeName = map_option (switch
     [([JDBC_TYPE_BIT, JDBC_TYPE_BOOLEAN], ''BIT''), ([JDBC_TYPE_SMALLINT], ''SMALLINT''),
      ([JDBC_TYPE_TINYINT], ''TINYINT''), ([JDBC_TYPE_INTEGER], ''INTEGER''), ([JDBC_TYPE_BIGINT], ''BIGINT''),
      ([JDBC_TYPE_FLOAT], ''FLOAT''), ([JDBC_TYPE_REAL], ''REAL''), ([JDBC_TYPE_DOUBLE], ''DOUBLE''),
      ([JDBC_TYPE_NUMERIC], ''NUMERIC''), ([JDBC_TYPE_DECIMAL], ''DECIMAL''), ([JDBC_TYPE_CHAR], ''CHAR''),
      ([JDBC_TYPE_NCHAR], ''NCHAR''), ([JDBC_TYPE_VARCHAR], ''VARCHAR''), ([JDBC_TYPE_NVARCHAR], ''NVARCHAR''),
      ([JDBC_TYPE_LONGVARCHAR], ''LONGVARCHAR''), ([JDBC_TYPE_LONGNVARCHAR], ''LONGNVARCHAR''),
      ([JDBC_TYPE_DATE], ''DATE''), ([JDBC_TYPE_TIME], ''TIME''), ([JDBC_TYPE_TIMESTAMP], ''TIMESTAMP''),
      ([JDBC_TYPE_LONGVARBINARY], ''LONGVARBINARY''), ([JDBC_TYPE_NULL], ''NULL''),
      ([JDBC_TYPE_VARBINARY], ''VARBINARY'')] ''BINARY'')"

definition supported_sql_types :: "int list" where
  "supported_sql_types =
     [SQL_BIT, SQL_TINYINT, SQL_SMALLINT, SQL_BIGINT, SQL_INTEGER, SQL_FLOAT, SQL_REAL, SQL_DOUBLE, SQL_NUMERIC,
      SQL_DECIMAL, SQL_CHAR, SQL_VARCHAR, SQL_LONGVARCHAR, SQL_WCHAR, SQL_WVARCHAR, SQL_WLONGVARCHAR,
      SQL_TYPE_DATE, SQL_TYPE_TIMESTAMP, SQL_TYPE_TIME, SQL_BINARY, SQL_VARBINARY, SQL_LONGVARBINARY, SQL_TYPE_NULL]"

definition IsSqlTypeSupported :: "int option \<Rightarrow> bool" where
  "IsSqlTypeSupported t = (case t of None \<Rightarrow> False | Some t \<Rightarrow> List.member supported_sql_types t)"

definition SqlTypeToBinary :: "int option \<Rightarrow> int option" where
  "SqlTypeToBinary = map_option (switch
     [([SQL_BIT], JDBC_TYPE_BOOLEAN), ([SQL_TINYINT], JDBC_TYPE_TINYINT), ([SQL_SMALLINT], JDBC_TYPE_SMALLINT),
      ([SQL_INTEGER], JDBC_TYPE_INTEGER), ([SQL_BIGINT], JDBC_TYPE_BIGINT), ([SQL_FLOAT], JDBC_TYPE_FLOAT),
      ([SQL_REAL], JDBC_TYPE_REAL), ([SQL_DOUBLE], JDBC_TYPE_DOUBLE), ([SQL_NUMERIC], JDBC_TYPE_NUMERIC),
      ([SQL_DECIMAL], JDBC_TYPE_DECIMAL), ([SQL_CHAR, SQL_WCHAR], JDBC_TYPE_CHAR),
      ([SQL_VARCHAR, SQL_WVARCHAR], JDBC_TYPE_VARCHAR), ([SQL_LONGVARCHAR, SQL_WLONGVARCHAR], JDBC_TYPE_LONGVARCHAR),
      ([SQL_TYPE_DATE], JDBC_TYPE_DATE), ([SQL_TYPE_TIME], JDBC_TYPE_TIME),
      ([SQL_TYPE_TIMESTAMP], JDBC_TYPE_TIMESTAMP), ([SQL_BINARY], JDBC_TYPE_BINARY),
      ([SQL_VARBINARY], JDBC_TYPE_VARBINARY), ([SQL_LONGVARBINARY], JDBC_TYPE_LONGVARBINARY),
      ([SQL_TYPE_NULL], JDBC_TYPE_NULL)] JDBC_TYPE_BINARY)"

text \<open>The C types, by the numbers of the constants \<open>SQL_C_CHAR\<close>, \<open>SQL_C_WCHAR\<close>, ... \<open>SQL_C_DEFAULT\<close>.\<close>

definition ToDriverType :: "int \<Rightarrow> OdbcNativeType" where
  "ToDriverType = switch
     [([1], AI_CHAR), ([-8], AI_WCHAR), ([-15, 5], AI_SIGNED_SHORT), ([-17], AI_UNSIGNED_SHORT),
      ([-16, 4], AI_SIGNED_LONG), ([-18], AI_UNSIGNED_LONG), ([7], AI_FLOAT), ([8], AI_DOUBLE), ([-7], AI_BIT),
      ([-26, -6], AI_SIGNED_TINYINT), ([-28], AI_UNSIGNED_TINYINT), ([-25], AI_SIGNED_BIGINT),
      ([-27], AI_UNSIGNED_BIGINT), ([-2], AI_BINARY), ([9, 91], AI_TDATE), ([10, 92], AI_TTIME),
      ([11, 93], AI_TTIMESTAMP), ([2], AI_NUMERIC), ([-11], AI_GUID), ([99], AI_DEFAULT)] AI_UNSUPPORTED"

definition IsApplicationTypeSupported :: "int option \<Rightarrow> bool" where
  "IsApplicationTypeSupported t = (case t of None \<Rightarrow> False | Some t \<Rightarrow> ToDriverType t \<noteq> AI_UNSUPPORTED)"

definition BinaryToSqlType :: "int option \<Rightarrow> int option" where
  "BinaryToSqlType = map_option (switch
     [([JDBC_TYPE_BIT, JDBC_TYPE_BOOLEAN], SQL_BIT), ([JDBC_TYPE_TINYINT], SQL_TINYINT),
      ([JDBC_TYPE_SMALLINT], SQL_SMALLINT), ([JDBC_TYPE_INTEGER], SQL_INTEGER), ([JDBC_TYPE_BIGINT], SQL_BIGINT),
      ([JDBC_TYPE_FLOAT], SQL_FLOAT), ([JDBC_TYPE_REAL], SQL_REAL), ([JDBC_TYPE_DOUBLE], SQL_DOUBLE),
      ([JDBC_TYPE_NUMERIC], SQL_NUMERIC), ([JDBC_TYPE_DECIMAL], SQL_DECIMAL), ([JDBC_TYPE_CHAR], SQL_CHAR),
      ([JDBC_TYPE_NCHAR], SQL_WCHAR), ([JDBC_TYPE_VARCHAR], SQL_VARCHAR), ([JDBC_TYPE_NVARCHAR], SQL_WVARCHAR),
      ([JDBC_TYPE_LONGVARCHAR], SQL_LONGVARCHAR), ([JDBC_TYPE_LONGNVARCHAR], SQL_WLONGVARCHAR),
      ([JDBC_TYPE_DATE], SQL_TYPE_DATE), ([JDBC_TYPE_TIME], SQL_TYPE_TIME),
      ([JDBC_TYPE_TIMESTAMP], SQL_TYPE_TIMESTAMP), ([JDBC_TYPE_LONGVARBINARY], SQL_LONGVARBINARY),
      ([JDBC_TYPE_NULL], SQL_TYPE_NULL), ([JDBC_TYPE_VARBINARY], SQL_VARBINARY)] SQL_BINARY)"

definition BinaryTypeNullability :: "int \<Rightarrow> int" where
  "BinaryTypeNullability t = 1"

definition NullabilityToIsNullable :: "int option \<Rightarrow> string option" where
  "NullabilityToIsNullable n =
     (case n of None \<Rightarrow> None | Some n \<Rightarrow> if n = 0 then Some ''NO'' else if n = 1 then Some ''YES'' else None)"

abbreviation (input) var_size_types :: "int list" where
  "var_size_types \<equiv> [SQL_VARCHAR, SQL_WVARCHAR, SQL_CHAR, SQL_WCHAR, SQL_LONGVARCHAR, SQL_WLONGVARCHAR,
     SQL_LONGVARBINARY, SQL_BINARY, SQL_VARBINARY, SQL_DECIMAL, SQL_NUMERIC]"

definition SqlTypeDisplaySize :: "int option \<Rightarrow> int option" where
  "SqlTypeDisplaySize = map_option (switch
     [(var_size_types, DOCUMENTDB_SQL_MAX_LENGTH), ([SQL_BIT, SQL_TYPE_NULL], 1), ([SQL_TINYINT], 4),
      ([SQL_SMALLINT], 6), ([SQL_INTEGER], 11), ([SQL_BIGINT], 20), ([SQL_REAL], 14), ([SQL_FLOAT, SQL_DOUBLE], 24),
      ([SQL_TYPE_DATE], 10), ([SQL_TYPE_TIME], 8), ([SQL_TYPE_TIMESTAMP], 19), ([SQL_GUID], 36)] 0)"

definition BinaryTypeDisplaySize :: "int option \<Rightarrow> int option" where
  "BinaryTypeDisplaySize t = SqlTypeDisplaySize (BinaryToSqlType t)"

definition SqlTypeColumnSize :: "int option \<Rightarrow> int option" where
  "SqlTypeColumnSize = map_option (switch
     [(var_size_types, DOCUMENTDB_SQL_MAX_LENGTH), ([SQL_BIT, SQL_TYPE_NULL], 1), ([SQL_TINYINT], 3),
      ([SQL_SMALLINT], 5), ([SQL_INTEGER], 10), ([SQL_BIGINT], 19), ([SQL_REAL], 7), ([SQL_FLOAT, SQL_DOUBLE], 15),
      ([SQL_TYPE_DATE], 10), ([SQL_TYPE_TIME], 8), ([SQL_TYPE_TIMESTAMP], 19), ([SQL_GUID], 36)] 0)"

definition BinaryTypeColumnSize :: "int option \<Rightarrow> int option" where
  "BinaryTypeColumnSize t = SqlTypeColumnSize (BinaryToSqlType t)"

definition SqlTypeTransferLength :: "int option \<Rightarrow> int option" where
  "SqlTypeTransferLength = map_option (switch
     [(var_size_types, DOCUMENTDB_SQL_MAX_LENGTH), ([SQL_BIT, SQL_TINYINT, SQL_TYPE_NULL], 1), ([SQL_SMALLINT], 2),
      ([SQL_INTEGER], 4), ([SQL_BIGINT], 8), ([SQL_FLOAT, SQL_REAL], 4), ([SQL_DOUBLE], 8),
      ([SQL_TYPE_DATE, SQL_TYPE_TIME], 6), ([SQL_TYPE_TIMESTAMP], 16), ([SQL_GUID], 16)] 0)"

definition BinaryTypeTransferLength :: "int option \<Rightarrow> int option" where
  "BinaryTypeTransferLength t = SqlTypeTransferLength (BinaryToSqlType t)"

definition SqlTypeNumPrecRadix :: "int option \<Rightarrow> int option" where
  "SqlTypeNumPrecRadix = map_option (switch
     [([SQL_REAL, SQL_FLOAT, SQL_DOUBLE], 2), ([SQL_BIT, SQL_TINYINT, SQL_SMALLINT, SQL_INTEGER, SQL_BIGINT], 10)] 0)"

definition BinaryTypeNumPrecRadix :: "int option \<Rightarrow> int option" where
  "BinaryTypeNumPrecRadix t = SqlTypeNumPrecRadix (BinaryToSqlType t)"

definition SqlTypeDecimalDigits :: "int option \<Rightarrow> int option" where
  "SqlTypeDecimalDigits = map_option (switch [([SQL_TINYINT, SQL_SMALLINT, SQL_INTEGER, SQL_BIGINT], 0)] (-1))"

definition BinaryTypeDecimalDigits :: "int option \<Rightarrow> int option" where
  "BinaryTypeDecimalDigits t = SqlTypeDecimalDigits (BinaryToSqlType t)"

definition SqlTypeCharOctetLength :: "nat \<Rightarrow> int option \<Rightarrow> int option" where
  "SqlTypeCharOctetLength wchar = map_option (switch
     [([SQL_CHAR, SQL_VARCHAR, SQL_LONGVARCHAR, SQL_BINARY, SQL_LONGVARBINARY], DOCUMENTDB_SQL_MAX_LENGTH),
      ([SQL_WCHAR, SQL_WVARCHAR, SQL_WLONGVARCHAR], int wchar * DOCUMENTDB_SQL_MAX_LENGTH)] 0)"

definition BinaryTypeCharOctetLength :: "nat \<Rightarrow> int option \<Rightarrow> int option" where
  "BinaryTypeCharOctetLength wchar t = SqlTypeCharOctetLength wchar (BinaryToSqlType t)"

definition SqlTypeUnsigned :: "int option \<Rightarrow> bool" where
  "SqlTypeUnsigned t =
     (case t of None \<Rightarrow> False
      | Some t \<Rightarrow> switch [([SQL_BIT, SQL_TINYINT, SQL_SMALLINT, SQL_INTEGER, SQL_BIGINT, SQL_REAL, SQL_FLOAT,
          SQL_DOUBLE, SQL_DECIMAL, SQL_NUMERIC], False)] True t)"

definition BinaryTypeUnsigned :: "int option \<Rightarrow> bool" where
  "BinaryTypeUnsigned t = SqlTypeUnsigned (BinaryToSqlType t)"

section \<open>Properties\<close>

text \<open>A table is checked by checking its values: whatever the number, the result is one of them.\<close>

lemma switch_cases: "P dflt \<Longrightarrow> (\<forall>(ts, v) \<in> set rows. P v) \<Longrightarrow> P (switch rows dflt t)"
  by (induction rows dflt t rule: switch.induct) auto

text \<open>The narrow form of a wide character type.\<close>

definition narrow_type :: "int \<Rightarrow> int" where
  "narrow_type t = (if t = SQL_WCHAR then SQL_CHAR else if t = SQL_WVARCHAR then SQL_VARCHAR
     else if t = SQL_WLONGVARCHAR then SQL_LONGVARCHAR else t)"

lemma BinaryToSqlType_supported: "IsSqlTypeSupported (BinaryToSqlType (Some b))"
proof -
  have "List.member supported_sql_types (the (BinaryToSqlType (Some b)))"
    unfolding BinaryToSqlType_def option.map option.sel
    by (rule switch_cases [where P = "List.member supported_sql_types"]) (simp_all add: supported_sql_types_def)
  then show ?thesis by (simp add: IsSqlTypeSupported_def BinaryToSqlType_def)
qed

lemma SqlTypeToBinary_inverse:
  "list_all (\<lambda>t. BinaryToSqlType (SqlTypeToBinary (Some t)) = Some (narrow_type t)) supported_sql_types"
  by code_simp

text \<open>(C39) Type numbers: every number the JDBC side reports is translated to a supported SQL type, and a
  supported SQL type translated to the JDBC side and back is unchanged, except that the wide
  character types become the narrow ones. A column's display size is never below its column size.\<close>

theorem type_numbers:
  "IsSqlTypeSupported (BinaryToSqlType (Some b)) \<and>
   (IsSqlTypeSupported (Some t) \<longrightarrow> BinaryToSqlType (SqlTypeToBinary (Some t)) = Some (narrow_type t)) \<and>
   the (SqlTypeColumnSize (Some t)) \<le> the (SqlTypeDisplaySize (Some t))"
proof -
  have "the (SqlTypeColumnSize (Some t)) \<le> the (SqlTypeDisplaySize (Some t))"
    by (simp add: SqlTypeColumnSize_def SqlTypeDisplaySize_def)
  then show ?thesis
    using BinaryToSqlType_supported SqlTypeToBinary_inverse
    by (simp add: IsSqlTypeSupported_def list_all_iff)
qed

theorem type_numbers_witness: "BinaryToSqlType (SqlTypeToBinary (Some SQL_WVARCHAR)) = Some SQL_VARCHAR"
  using type_numbers [of 0 SQL_WVARCHAR] by (simp add: IsSqlTypeSupported_def supported_sql_types_def narrow_type_def)

end
