(* ===== verification/Odbc_Column.thy ===== *)
theory Odbc_Column
  imports Odbc_Diagnostics Odbc_TypeTraits
begin

text \<open>
  \<^verbatim>\<open>src/documentdb_column.cpp\<close>: one column of a result row. The value of the column is looked up in
  the current document and converted into the application's buffer, by the type the metadata gives
  the column.

  A BSON value is a datatype with one constructor per BSON type the source distinguishes. What the
  BSON library computes from a value (the JSON text of a document, the text of an object id or of a
  128-bit decimal) is part of the value. A \<open>double\<close> is a sign, a mantissa and a binary exponent.
  The rounding, encoding and reading of floating point numbers and the text the Boost library gives
  for a time are the argument \<open>Library\<close>.
\<close>

section \<open>Floating point numbers\<close>

datatype c_double = Finite bool nat int | Infinite bool | NotANumber bool

fun signed_mantissa :: "c_double \<Rightarrow> int" where
  "signed_mantissa (Finite neg k e) = (if neg then - int k else int k)"
| "signed_mantissa _ = 0"

text \<open>\<open>d > v\<close> and \<open>d < v\<close> for an integer that is exactly a \<open>double\<close>.\<close>

fun double_greater :: "c_double \<Rightarrow> int \<Rightarrow> bool" where
  "double_greater (Finite neg k e) v =
     (if 0 \<le> e then v < signed_mantissa (Finite neg k e) * 2 ^ nat e
      else v * 2 ^ nat (- e) < signed_mantissa (Finite neg k e))"
| "double_greater (Infinite neg) v = (\<not> neg)"
| "double_greater (NotANumber neg) v = False"

fun double_less :: "c_double \<Rightarrow> int \<Rightarrow> bool" where
  "double_less (Finite neg k e) v =
     (if 0 \<le> e then signed_mantissa (Finite neg k e) * 2 ^ nat e < v
      else signed_mantissa (Finite neg k e) < v * 2 ^ nat (- e))"
| "double_less (Infinite neg) v = neg"
| "double_less (NotANumber neg) v = False"

text \<open>Conversion to an integer type truncates; it is undefined when the result is not in range.\<close>

fun double_trunc :: "c_double \<Rightarrow> int option" where
  "double_trunc (Finite neg k e) =
     Some (if 0 \<le> e then signed_mantissa (Finite neg k e) * 2 ^ nat e
           else c_div (signed_mantissa (Finite neg k e)) (2 ^ nat (- e)))"
| "double_trunc _ = None"

definition double_cast :: "int \<Rightarrow> int \<Rightarrow> c_double \<Rightarrow> buf_error + int" where
  "double_cast lo hi d =
     (case double_trunc d of
        Some n \<Rightarrow> if lo \<le> n \<and> n \<le> hi then Inr n else Inl Undefined
      | None \<Rightarrow> Inl Undefined)"

fun double_nonzero :: "c_double \<Rightarrow> bool" where
  "double_nonzero (Finite neg k e) = (k \<noteq> 0)"
| "double_nonzero _ = True"

text \<open>\<open>std::to_string(double)\<close>: six decimals, the exact value rounded to even.\<close>

definition round_even :: "nat \<Rightarrow> nat \<Rightarrow> nat" where
  "round_even n d =
     (let q = n div d; r = n mod d
      in if 2 * r < d then q else if d < 2 * r then q + 1 else if even q then q else q + 1)"

fun double_to_string :: "c_double \<Rightarrow> string" where
  "double_to_string (Finite neg k e) =
     (let micro = (if 0 \<le> e then k * 2 ^ nat e * 1000000 else round_even (k * 1000000) (2 ^ nat (- e)))
      in (if neg then ''-'' else []) @ dec_string (micro div 1000000) @ ''.'' @
         pad_left 6 (CHR ''0'') (dec_string (micro mod 1000000)))"
| "double_to_string (Infinite neg) = (if neg then ''-inf'' else ''inf'')"
| "double_to_string (NotANumber neg) = (if neg then ''-nan'' else ''nan'')"

record Library =
  round_to_float :: "c_double \<Rightarrow> c_double"
  int_to_float :: "int \<Rightarrow> c_double"
  int_to_double :: "int \<Rightarrow> c_double"
  encode_float :: "c_double \<Rightarrow> u8 list"
  encode_double :: "c_double \<Rightarrow> u8 list"
  stream_text :: "c_double \<Rightarrow> string"
  lib_stof :: "string \<Rightarrow> c_double option"
  lib_stod :: "string \<Rightarrow> c_double option"
  ptime_text :: "int \<Rightarrow> string option"

text \<open>\<open>PutFloat\<close> and \<open>PutDouble\<close> of the buffer: the floating point instances of \<open>PutNum\<close>. \<open>vsize\<close> is
  the size of the type of the value; the value is already rounded to it.\<close>

definition PutNum_floating :: "Library \<Rightarrow> Platform \<Rightarrow> mem \<Rightarrow> ApplicationDataBuffer \<Rightarrow> nat \<Rightarrow> c_double \<Rightarrow> put_result" where
  "PutNum_floating lib pl m b vsize value =
     (let to_int = (\<lambda>n lo hi. case double_cast lo hi value of
                      Inl e \<Rightarrow> Inl e | Inr i \<Rightarrow> Inr (PutNumToNumBuffer m b (int_bytes n i)));
          encoded = (if vsize = 4 then encode_float lib value else encode_double lib value);
          as_ms = (\<lambda>put. case double_cast (- (2 ^ 63)) (2 ^ 63 - 1) value of Inl e \<Rightarrow> Inl e | Inr ms \<Rightarrow> put ms)
      in case buf_type b of
           AI_SIGNED_TINYINT \<Rightarrow> to_int 1 (-128) 127
         | AI_BIT \<Rightarrow> to_int 1 0 255
         | AI_UNSIGNED_TINYINT \<Rightarrow> to_int 1 0 255
         | AI_SIGNED_SHORT \<Rightarrow> to_int 2 (- (2 ^ 15)) (2 ^ 15 - 1)
         | AI_UNSIGNED_SHORT \<Rightarrow> to_int 2 0 (2 ^ 16 - 1)
         | AI_SIGNED_LONG \<Rightarrow> to_int 4 (- (2 ^ 31)) (2 ^ 31 - 1)
         | AI_UNSIGNED_LONG \<Rightarrow> to_int 4 0 (2 ^ 32 - 1)
         | AI_SIGNED_BIGINT \<Rightarrow> to_int 8 (- (2 ^ 63)) (2 ^ 63 - 1)
         | AI_UNSIGNED_BIGINT \<Rightarrow> to_int 8 0 (2 ^ 64 - 1)
         | AI_FLOAT \<Rightarrow> Inr (PutNumToNumBuffer m b (encode_float lib (round_to_float lib value)))
         | AI_DOUBLE \<Rightarrow> Inr (PutNumToNumBuffer m b (encode_double lib value))
         | AI_CHAR \<Rightarrow> drop_written (PutStrToStrBuffer pl False m b (stream_text lib value))
         | AI_WCHAR \<Rightarrow> drop_written (PutStrToStrBuffer pl True m b (stream_text lib value))
         | AI_NUMERIC \<Rightarrow>
             let neg = double_less value 0
             in if GetData b = None then Inr (CR_SUCCESS, put_reslen m b 19)
                else (case double_cast (- (2 ^ 64 - 1)) (2 ^ 64 - 1) value of
                        Inl e \<Rightarrow> Inl e
                      | Inr i \<Rightarrow>
                          let uval = word_of_int \<bar>i\<bar> :: u64;
                              s = numeric_struct (DigitLength uval) 0 neg (int_bytes 8 (uint uval))
                          in Inr (CR_SUCCESS, put_reslen (put_data m b s) b 19))
         | AI_TDATE \<Rightarrow> as_ms (\<lambda>ms. PutDate pl m b (ms_tm ms))
         | AI_TTIMESTAMP \<Rightarrow> as_ms (\<lambda>ms. PutTimestamp pl m b (ms_tm ms) (c_mod ms 1000 * 1000000))
         | AI_TTIME \<Rightarrow> as_ms (\<lambda>ms. PutTime pl m b (ms_tm ms))
         | AI_GUID \<Rightarrow> Inr (CR_UNSUPPORTED_CONVERSION, m)
         | AI_UNSUPPORTED \<Rightarrow> Inr (CR_UNSUPPORTED_CONVERSION, m)
         | _ \<Rightarrow>
             let room = nat (buflen b mod 2 ^ 64)
             in Inr (if room < vsize then CR_VARLEN_DATA_TRUNCATED else CR_SUCCESS,
                     put_reslen (put_data m b (take room encoded)) b (int vsize)))"

definition PutOptFloating ::
  "Library \<Rightarrow> Platform \<Rightarrow> mem \<Rightarrow> ApplicationDataBuffer \<Rightarrow> nat \<Rightarrow> c_double option \<Rightarrow> put_result" where
  "PutOptFloating lib pl m b vsize value =
     (case value of Some v \<Rightarrow> PutNum_floating lib pl m b vsize v | None \<Rightarrow> Inr (PutNull m b))"

section \<open>BSON values and documents\<close>

datatype bson_value =
    k_double c_double
  | k_utf8 string
  | k_document string
  | k_array string
  | k_binary "u8 list"
  | k_oid "u8 list" string
  | k_bool bool
  | k_date int
  | k_null
  | k_int32 int
  | k_timestamp int
  | k_int64 int
  | k_decimal128 string
  | k_maxkey
  | k_minkey
  | k_other

type_synonym bson_document = "(string \<times> bson_value) list"

section \<open>Numbers in text\<close>

definition digit_of :: "char \<Rightarrow> nat option" where
  "digit_of c =
     (let n = of_char c :: nat
      in if isdigit c then Some (n - 48)
         else if 65 \<le> n \<and> n \<le> 90 then Some (n - 55)
         else if 97 \<le> n \<and> n \<le> 122 then Some (n - 87)
         else None)"

definition base_digit :: "nat \<Rightarrow> char \<Rightarrow> bool" where
  "base_digit base c = (case digit_of c of Some d \<Rightarrow> d < base | None \<Rightarrow> False)"

definition base_val :: "nat \<Rightarrow> string \<Rightarrow> nat" where
  "base_val base s = foldl (\<lambda>n c. n * base + the (digit_of c)) 0 s"

text \<open>\<open>std::stoll\<close> with base 0: hexadecimal after \<open>0x\<close>, octal after \<open>0\<close>, else decimal. \<open>None\<close> stands
  for the exceptions \<open>invalid_argument\<close> and \<open>out_of_range\<close>, which the caller treats alike.\<close>

definition stoll :: "string \<Rightarrow> int option" where
  "stoll s =
     (let t = dropWhile isspace s;
          neg = (t \<noteq> [] \<and> hd t = CHR ''-'');
          body = (if t \<noteq> [] \<and> (hd t = CHR ''-'' \<or> hd t = CHR ''+'') then tl t else t);
          hex = (length body \<ge> 3 \<and> take 1 body = ''0'' \<and> (body ! 1 = CHR ''x'' \<or> body ! 1 = CHR ''X'') \<and> base_digit 16 (body ! 2));
          base = (if hex then 16 else if take 1 body = ''0'' then 8 else 10);
          digits = takeWhile (base_digit base) (if hex then drop 2 body else body);
          n = int (base_val base digits);
          v = (if neg then - n else n)
      in if digits = [] then None
         else if v < - (2 ^ 63) \<or> 2 ^ 63 - 1 < v then None
         else Some v)"

text \<open>The text up to its first NUL, as \<open>c_str()\<close> gives it.\<close>

definition c_text :: "string \<Rightarrow> string" where
  "c_text s = takeWhile (\<lambda>c. c \<noteq> CHR 0x00) s"

text \<open>The value and the updated result: out of range the value is clipped and the result a failure.\<close>

definition ToValidLong :: "int \<Rightarrow> ConversionResult \<Rightarrow> int \<Rightarrow> int \<Rightarrow> int \<times> ConversionResult" where
  "ToValidLong value convRes mx mn =
     (if value > mx then (mx, CR_FAILURE) else if value < mn then (mn, CR_FAILURE) else (value, convRes))"

definition ToValidLong_text :: "string \<Rightarrow> ConversionResult \<Rightarrow> int \<Rightarrow> int \<Rightarrow> int \<times> ConversionResult" where
  "ToValidLong_text value convRes mx mn =
     (case stoll (c_text value) of None \<Rightarrow> (0, CR_FAILURE) | Some n \<Rightarrow> ToValidLong n convRes mx mn)"

section \<open>Conversions of a column\<close>

text \<open>
  The result of converting an element: an error the source does not catch, or a result and the
  value to put. The result of putting the value is not looked at.
\<close>

definition put_value :: "(buf_error + (ConversionResult \<times> 'v)) \<Rightarrow> mem \<Rightarrow> ('v \<Rightarrow> put_result option) \<Rightarrow> put_result option" where
  "put_value conv m put =
     (case conv of
        Inl e \<Rightarrow> Some (Inl e)
      | Inr (convRes, v) \<Rightarrow>
          if convRes \<noteq> CR_SUCCESS then Some (Inr (convRes, m))
          else (case put v of
                  None \<Rightarrow> None
                | Some (Inl e) \<Rightarrow> Some (Inl e)
                | Some (Inr (_, m')) \<Rightarrow> Some (Inr (CR_SUCCESS, m'))))"

definition long_value :: "int \<times> ConversionResult \<Rightarrow> buf_error + (ConversionResult \<times> int option)" where
  "long_value p = Inr (snd p, Some (fst p))"

definition some_value :: "'v \<Rightarrow> buf_error + (ConversionResult \<times> 'v option)" where
  "some_value v = Inr (CR_SUCCESS, Some v)"

definition null_value :: "buf_error + (ConversionResult \<times> 'v option)" where
  "null_value = Inr (CR_SUCCESS, None)"

definition no_conversion :: "buf_error + (ConversionResult \<times> 'v option)" where
  "no_conversion = Inr (CR_UNSUPPORTED_CONVERSION, None)"

text \<open>The double branch of the integer conversions; \<open>hi\<close> is the bound as a \<open>double\<close>, \<open>max\<close> that of the type.\<close>

definition double_value :: "c_double \<Rightarrow> int \<Rightarrow> int \<Rightarrow> int \<Rightarrow> buf_error + (ConversionResult \<times> int option)" where
  "double_value d hi mx mn =
     (if double_greater d hi \<or> double_less d mn then Inr (CR_FAILURE, None)
      else case double_cast mn mx d of Inl e \<Rightarrow> Inl e | Inr n \<Rightarrow> some_value n)"

definition bool_int :: "bool \<Rightarrow> int" where
  "bool_int v = (if v then 1 else 0)"

fun conv_int8 :: "bson_value \<Rightarrow> buf_error + (ConversionResult \<times> int option)" where
  "conv_int8 (k_int32 v) = long_value (ToValidLong v CR_SUCCESS 127 (-128))"
| "conv_int8 (k_int64 v) = long_value (ToValidLong v CR_SUCCESS 127 (-128))"
| "conv_int8 (k_double d) =
     (if double_greater d 127 \<or> double_less d (-128) then Inr (CR_FAILURE, None)
      else some_value (bool_int (double_nonzero d)))"
| "conv_int8 (k_decimal128 s) = long_value (ToValidLong_text s CR_SUCCESS 127 (-128))"
| "conv_int8 (k_utf8 s) = long_value (ToValidLong_text s CR_SUCCESS 127 (-128))"
| "conv_int8 (k_bool v) = some_value (bool_int v)"
| "conv_int8 k_null = null_value"
| "conv_int8 _ = no_conversion"

fun conv_int16 :: "bson_value \<Rightarrow> buf_error + (ConversionResult \<times> int option)" where
  "conv_int16 (k_int32 v) = long_value (ToValidLong v CR_SUCCESS (2 ^ 15 - 1) (- (2 ^ 15)))"
| "conv_int16 (k_int64 v) = long_value (ToValidLong v CR_SUCCESS (2 ^ 15 - 1) (- (2 ^ 15)))"
| "conv_int16 (k_double d) = double_value d (2 ^ 15 - 1) (2 ^ 15 - 1) (- (2 ^ 15))"
| "conv_int16 (k_decimal128 s) = long_value (ToValidLong_text s CR_SUCCESS (2 ^ 15 - 1) (- (2 ^ 15)))"
| "conv_int16 (k_utf8 s) = long_value (ToValidLong_text s CR_SUCCESS (2 ^ 15 - 1) (- (2 ^ 15)))"
| "conv_int16 (k_bool v) = some_value (bool_int v)"
| "conv_int16 (k_date ms) = some_value (to_signed 16 ms)"
| "conv_int16 (k_timestamp secs) = some_value (to_signed 16 secs)"
| "conv_int16 k_null = null_value"
| "conv_int16 _ = no_conversion"

fun conv_int32 :: "bson_value \<Rightarrow> buf_error + (ConversionResult \<times> int option)" where
  "conv_int32 (k_int32 v) = some_value v"
| "conv_int32 (k_int64 v) = long_value (ToValidLong v CR_SUCCESS (2 ^ 31 - 1) (- (2 ^ 31)))"
| "conv_int32 (k_double d) = double_value d (2 ^ 31 - 1) (2 ^ 31 - 1) (- (2 ^ 31))"
| "conv_int32 (k_decimal128 s) = long_value (ToValidLong_text s CR_SUCCESS (2 ^ 31 - 1) (- (2 ^ 31)))"
| "conv_int32 (k_utf8 s) = long_value (ToValidLong_text s CR_SUCCESS (2 ^ 31 - 1) (- (2 ^ 31)))"
| "conv_int32 (k_bool v) = some_value (bool_int v)"
| "conv_int32 (k_date ms) = some_value (to_signed 32 ms)"
| "conv_int32 (k_timestamp secs) = some_value (to_signed 32 secs)"
| "conv_int32 k_null = null_value"
| "conv_int32 _ = no_conversion"

text \<open>\<open>INT64_MAX\<close> becomes \<open>2 ^ 63\<close> in the comparison with a \<open>double\<close>.\<close>

fun conv_int64 :: "bson_value \<Rightarrow> buf_error + (ConversionResult \<times> int option)" where
  "conv_int64 (k_int32 v) = some_value v"
| "conv_int64 (k_int64 v) = some_value v"
| "conv_int64 (k_double d) = double_value d (2 ^ 63) (2 ^ 63 - 1) (- (2 ^ 63))"
| "conv_int64 (k_decimal128 s) = long_value (ToValidLong_text s CR_SUCCESS (2 ^ 63 - 1) (- (2 ^ 63)))"
| "conv_int64 (k_utf8 s) = long_value (ToValidLong_text s CR_SUCCESS (2 ^ 63 - 1) (- (2 ^ 63)))"
| "conv_int64 (k_bool v) = some_value (bool_int v)"
| "conv_int64 (k_date ms) = some_value ms"
| "conv_int64 (k_timestamp secs) = some_value secs"
| "conv_int64 k_null = null_value"
| "conv_int64 _ = no_conversion"

definition Column_PutInt8 :: "Platform \<Rightarrow> mem \<Rightarrow> ApplicationDataBuffer \<Rightarrow> bson_value \<Rightarrow> put_result option" where
  "Column_PutInt8 pl m b element = put_value (conv_int8 element) m (\<lambda>v. Some (PutOptNum pl m b 1 v))"

definition Column_PutInt16 :: "Platform \<Rightarrow> mem \<Rightarrow> ApplicationDataBuffer \<Rightarrow> bson_value \<Rightarrow> put_result option" where
  "Column_PutInt16 pl m b element = put_value (conv_int16 element) m (\<lambda>v. Some (PutOptNum pl m b 2 v))"

definition Column_PutInt32 :: "Platform \<Rightarrow> mem \<Rightarrow> ApplicationDataBuffer \<Rightarrow> bson_value \<Rightarrow> put_result option" where
  "Column_PutInt32 pl m b element = put_value (conv_int32 element) m (\<lambda>v. Some (PutOptNum pl m b 4 v))"

definition Column_PutInt64 :: "Platform \<Rightarrow> mem \<Rightarrow> ApplicationDataBuffer \<Rightarrow> bson_value \<Rightarrow> put_result option" where
  "Column_PutInt64 pl m b element = put_value (conv_int64 element) m (\<lambda>v. Some (PutOptNum pl m b 8 v))"

text \<open>\<open>std::stof\<close> and \<open>std::stod\<close> throw on text they cannot read, and nothing catches it.\<close>

definition read_value :: "c_double option \<Rightarrow> buf_error + (ConversionResult \<times> c_double option)" where
  "read_value r = (case r of None \<Rightarrow> Inl Uncaught | Some d \<Rightarrow> some_value d)"

fun conv_float :: "Library \<Rightarrow> bson_value \<Rightarrow> buf_error + (ConversionResult \<times> c_double option)" where
  "conv_float lib (k_int32 v) = some_value (int_to_float lib v)"
| "conv_float lib (k_int64 v) = some_value (int_to_float lib v)"
| "conv_float lib (k_double d) = some_value (round_to_float lib d)"
| "conv_float lib (k_decimal128 s) = read_value (lib_stof lib s)"
| "conv_float lib (k_utf8 s) = read_value (lib_stof lib s)"
| "conv_float lib (k_bool v) = some_value (int_to_float lib (bool_int v))"
| "conv_float lib (k_date ms) = some_value (int_to_float lib ms)"
| "conv_float lib (k_timestamp secs) = some_value (int_to_float lib secs)"
| "conv_float lib k_null = null_value"
| "conv_float lib _ = no_conversion"

fun conv_double :: "Library \<Rightarrow> bson_value \<Rightarrow> buf_error + (ConversionResult \<times> c_double option)" where
  "conv_double lib (k_int32 v) = some_value (int_to_double lib v)"
| "conv_double lib (k_int64 v) = some_value (int_to_double lib v)"
| "conv_double lib (k_double d) = some_value d"
| "conv_double lib (k_decimal128 s) = read_value (lib_stod lib s)"
| "conv_double lib (k_utf8 s) = read_value (lib_stod lib s)"
| "conv_double lib (k_bool v) = some_value (int_to_double lib (bool_int v))"
| "conv_double lib (k_date ms) = some_value (int_to_double lib ms)"
| "conv_double lib (k_timestamp secs) = some_value (int_to_double lib secs)"
| "conv_double lib k_null = null_value"
| "conv_double lib _ = no_conversion"

definition Column_PutFloat ::
  "Library \<Rightarrow> Platform \<Rightarrow> mem \<Rightarrow> ApplicationDataBuffer \<Rightarrow> bson_value \<Rightarrow> put_result option" where
  "Column_PutFloat lib pl m b element = put_value (conv_float lib element) m (\<lambda>v. Some (PutOptFloating lib pl m b 4 v))"

definition Column_PutDouble ::
  "Library \<Rightarrow> Platform \<Rightarrow> mem \<Rightarrow> ApplicationDataBuffer \<Rightarrow> bson_value \<Rightarrow> put_result option" where
  "Column_PutDouble lib pl m b element = put_value (conv_double lib element) m (\<lambda>v. Some (PutOptFloating lib pl m b 8 v))"

text \<open>\<open>ToPosixTime\<close> of milliseconds drops the fraction (towards zero); the library throws for years
  it does not support.\<close>

definition ToPosixTime_ms :: "int \<Rightarrow> int" where
  "ToPosixTime_ms ms = c_div ms 1000"

definition time_value :: "Library \<Rightarrow> int \<Rightarrow> buf_error + (ConversionResult \<times> string option)" where
  "time_value lib secs = (case ptime_text lib secs of None \<Rightarrow> Inl Uncaught | Some s \<Rightarrow> some_value s)"

fun conv_string :: "Library \<Rightarrow> bson_value \<Rightarrow> buf_error + (ConversionResult \<times> string option)" where
  "conv_string lib (k_int32 v) = some_value (int_string v)"
| "conv_string lib (k_int64 v) = some_value (int_string v)"
| "conv_string lib (k_double d) = some_value (double_to_string d)"
| "conv_string lib (k_decimal128 s) = some_value s"
| "conv_string lib (k_utf8 s) = some_value s"
| "conv_string lib (k_binary bs) = some_value (hex_bytes bs)"
| "conv_string lib (k_oid bs s) = some_value s"
| "conv_string lib (k_bool v) = some_value (int_string (bool_int v))"
| "conv_string lib (k_date ms) = time_value lib (ToPosixTime_ms ms)"
| "conv_string lib (k_timestamp secs) = time_value lib secs"
| "conv_string lib k_null = null_value"
| "conv_string lib k_maxkey = some_value ''MAXKEY''"
| "conv_string lib k_minkey = some_value ''MINKEY''"
| "conv_string lib (k_document json) = some_value json"
| "conv_string lib (k_array json) = some_value json"
| "conv_string lib k_other = no_conversion"

definition Column_PutString ::
  "Library \<Rightarrow> Platform \<Rightarrow> mem \<Rightarrow> ApplicationDataBuffer \<Rightarrow> bson_value \<Rightarrow> put_result option" where
  "Column_PutString lib pl m b element = put_value (conv_string lib element) m (\<lambda>v. Some (PutOptString pl m b v))"

definition decimal_of_text :: "string \<Rightarrow> buf_error + (ConversionResult \<times> Decimal option)" where
  "decimal_of_text s = (case Decimal_AssignString s (length s) of Inl e \<Rightarrow> Inl (BigError e) | Inr v \<Rightarrow> some_value v)"

fun conv_decimal :: "bson_value \<Rightarrow> buf_error + (ConversionResult \<times> Decimal option)" where
  "conv_decimal (k_int32 v) = some_value (Decimal_AssignInt64 (word_of_int v))"
| "conv_decimal (k_int64 v) = some_value (Decimal_AssignInt64 (word_of_int v))"
| "conv_decimal (k_double d) = decimal_of_text (double_to_string d)"
| "conv_decimal (k_decimal128 s) = decimal_of_text s"
| "conv_decimal (k_utf8 s) = decimal_of_text s"
| "conv_decimal (k_bool v) = some_value (Decimal_AssignInt64 (word_of_int (bool_int v)))"
| "conv_decimal _ = no_conversion"

definition PutOptDecimal :: "Platform \<Rightarrow> mem \<Rightarrow> ApplicationDataBuffer \<Rightarrow> Decimal option \<Rightarrow> put_result option" where
  "PutOptDecimal pl m b value =
     (case value of Some v \<Rightarrow> PutDecimal pl m b v | None \<Rightarrow> Some (Inr (PutNull m b)))"

definition Column_PutDecimal :: "Platform \<Rightarrow> mem \<Rightarrow> ApplicationDataBuffer \<Rightarrow> bson_value \<Rightarrow> put_result option" where
  "Column_PutDecimal pl m b element = put_value (conv_decimal element) m (PutOptDecimal pl m b)"

text \<open>Times and dates: the number of milliseconds. In \<open>PutDate\<close> the branch for a 64-bit integer
  breaks before the assignment, so the value stays null.\<close>

fun conv_time :: "bson_value \<Rightarrow> buf_error + (ConversionResult \<times> int option)" where
  "conv_time (k_int64 v) = some_value v"
| "conv_time (k_date ms) = some_value ms"
| "conv_time (k_timestamp secs) = some_value (secs * 1000)"
| "conv_time _ = no_conversion"

fun conv_date :: "bson_value \<Rightarrow> buf_error + (ConversionResult \<times> int option)" where
  "conv_date (k_int64 v) = null_value"
| "conv_date (k_date ms) = some_value ms"
| "conv_date (k_timestamp secs) = some_value (secs * 1000)"
| "conv_date _ = no_conversion"

text \<open>A timestamp: seconds and nanoseconds.\<close>

definition Timestamp_ms :: "int \<Rightarrow> int \<times> int" where
  "Timestamp_ms ms = (c_div ms 1000, c_mod ms 1000 * 1000000)"

fun conv_timestamp :: "bson_value \<Rightarrow> buf_error + (ConversionResult \<times> (int \<times> int) option)" where
  "conv_timestamp (k_int64 v) = some_value (Timestamp_ms v)"
| "conv_timestamp (k_date ms) = some_value (Timestamp_ms ms)"
| "conv_timestamp (k_timestamp secs) = some_value (secs, 0)"
| "conv_timestamp _ = no_conversion"

definition put_opt :: "mem \<Rightarrow> ApplicationDataBuffer \<Rightarrow> ('v \<Rightarrow> put_result) \<Rightarrow> 'v option \<Rightarrow> put_result option" where
  "put_opt m b put value = Some (case value of Some v \<Rightarrow> put v | None \<Rightarrow> Inr (PutNull m b))"

definition Column_PutTime :: "Platform \<Rightarrow> mem \<Rightarrow> ApplicationDataBuffer \<Rightarrow> bson_value \<Rightarrow> put_result option" where
  "Column_PutTime pl m b element = put_value (conv_time element) m (put_opt m b (\<lambda>ms. PutTime pl m b (ms_tm ms)))"

definition Column_PutDate :: "Platform \<Rightarrow> mem \<Rightarrow> ApplicationDataBuffer \<Rightarrow> bson_value \<Rightarrow> put_result option" where
  "Column_PutDate pl m b element = put_value (conv_date element) m (put_opt m b (\<lambda>ms. PutDate pl m b (ms_tm ms)))"

definition Column_PutTimestamp :: "Platform \<Rightarrow> mem \<Rightarrow> ApplicationDataBuffer \<Rightarrow> bson_value \<Rightarrow> put_result option" where
  "Column_PutTimestamp pl m b element =
     put_value (conv_timestamp element) m (put_opt m b (\<lambda>(secs, fraction). PutTimestamp pl m b (gmtime secs) fraction))"

text \<open>The pointer taken from the text of a string element is that of a temporary object.\<close>

fun Column_PutBinaryData :: "Platform \<Rightarrow> mem \<Rightarrow> ApplicationDataBuffer \<Rightarrow> bson_value \<Rightarrow> put_result option" where
  "Column_PutBinaryData pl m b (k_utf8 s) = Some (Inl DanglingPointer)"
| "Column_PutBinaryData pl m b (k_binary bs) = Some (drop_written (PutBinaryData pl m b bs))"
| "Column_PutBinaryData pl m b (k_oid bs s) = Some (drop_written (PutBinaryData pl m b bs))"
| "Column_PutBinaryData pl m b k_null = Some (Inr (PutNull m b))"
| "Column_PutBinaryData pl m b _ = Some (Inr (CR_UNSUPPORTED_CONVERSION, m))"

section \<open>Reading a column\<close>

definition read_element ::
  "Library \<Rightarrow> Platform \<Rightarrow> mem \<Rightarrow> int \<Rightarrow> ApplicationDataBuffer \<Rightarrow> bson_value \<Rightarrow> put_result option" where
  "read_element lib pl m type b element =
     (if type = JDBC_TYPE_BOOLEAN \<or> type = JDBC_TYPE_SMALLINT then Column_PutInt8 pl m b element
      else if type = JDBC_TYPE_TINYINT then Column_PutInt16 pl m b element
      else if type = JDBC_TYPE_INTEGER then Column_PutInt32 pl m b element
      else if type = JDBC_TYPE_BIGINT then Column_PutInt64 pl m b element
      else if type = JDBC_TYPE_FLOAT then Column_PutFloat lib pl m b element
      else if type = JDBC_TYPE_DOUBLE then Column_PutDouble lib pl m b element
      else if type \<in> {JDBC_TYPE_VARCHAR, JDBC_TYPE_CHAR, JDBC_TYPE_NCHAR, JDBC_TYPE_NVARCHAR,
          JDBC_TYPE_LONGVARCHAR, JDBC_TYPE_LONGNVARCHAR} then Column_PutString lib pl m b element
      else if type = JDBC_TYPE_NULL then Some (Inr (PutNull m b))
      else if type = JDBC_TYPE_BINARY \<or> type = JDBC_TYPE_VARBINARY then Column_PutBinaryData pl m b element
      else if type = JDBC_TYPE_DECIMAL then Column_PutDecimal pl m b element
      else if type = JDBC_TYPE_DATE then Column_PutDate pl m b element
      else if type = JDBC_TYPE_TIMESTAMP then Column_PutTimestamp pl m b element
      else if type = JDBC_TYPE_TIME then Column_PutTime pl m b element
      else Some (Inr (CR_UNSUPPORTED_CONVERSION, m)))"

definition ReadToBuffer ::
  "Library \<Rightarrow> Platform \<Rightarrow> mem \<Rightarrow> int \<Rightarrow> string \<Rightarrow> bson_document \<Rightarrow> ApplicationDataBuffer \<Rightarrow> put_result option" where
  "ReadToBuffer lib pl m type path doc b =
     (case map_of doc path of
        None \<Rightarrow> Some (Inr (CR_SUCCESS, snd (PutNull m b)))
      | Some element \<Rightarrow> read_element lib pl m type b element)"

end
