(* ===== verification/Odbc_Cursor.thy ===== *)
theory Odbc_Cursor
  imports Odbc_Column
begin

text \<open>
  \<^verbatim>\<open>src/documentdb_row.cpp\<close> and \<^verbatim>\<open>src/documentdb_cursor.cpp\<close>: the current row of a result, whose
  columns are set up when they are first read, and the cursor that moves it over the documents the
  server returned. A column refers to the document of its row, so it needs no copy of it. The
  documents still to come are the list the driver's iterator runs through.
\<close>

section \<open>Rows\<close>

record JdbcColumnMetadata =
  ordinal :: int
  autoIncrement :: bool
  caseSensitive :: bool
  searchable :: bool
  currency :: bool
  jdbc_nullable :: int
  jdbc_signed :: bool
  columnDisplaySize :: int
  columnLabel :: "string option"
  jdbc_columnName :: "string option"
  jdbc_schemaName :: "string option"
  jdbc_precision :: int
  jdbc_scale :: int
  jdbc_tableName :: "string option"
  jdbc_catalogName :: "string option"
  columnType :: int
  columnTypeName :: "string option"
  readOnly :: bool
  writable_column :: bool
  definitelyWritable :: bool
  columnClassName :: "string option"

record DocumentDbColumn =
  col_type :: int
  col_path :: string

definition newColumn :: "JdbcColumnMetadata \<Rightarrow> string \<Rightarrow> DocumentDbColumn" where
  "newColumn md path = \<lparr>col_type = columnType md, col_path = path\<rparr>"

record DocumentDbRow =
  row_size :: nat
  row_columns :: "DocumentDbColumn list"
  row_document :: bson_document
  row_metadata :: "JdbcColumnMetadata list"
  row_paths :: "string list"

definition newRow :: "bson_document \<Rightarrow> JdbcColumnMetadata list \<Rightarrow> string list \<Rightarrow> DocumentDbRow" where
  "newRow doc md paths =
     \<lparr>row_size = length md, row_columns = [], row_document = doc, row_metadata = md, row_paths = paths\<rparr>"

definition Row_Update :: "bson_document \<Rightarrow> DocumentDbRow \<Rightarrow> DocumentDbRow" where
  "Row_Update doc row = row\<lparr>row_document := doc\<rparr>"

text \<open>\<open>None\<close>: an access past the end of the metadata or of the paths.\<close>

function discover :: "nat \<Rightarrow> DocumentDbRow \<Rightarrow> DocumentDbRow option" where
  "discover columnIdx row =
     (let i = length (row_columns row)
      in if i < columnIdx then
           if i < length (row_metadata row) \<and> i < length (row_paths row) then
             discover columnIdx
               (row\<lparr>row_columns := row_columns row @ [newColumn (row_metadata row ! i) (row_paths row ! i)]\<rparr>)
           else None
         else Some row)"
  by pat_completeness auto
termination by (relation "measure (\<lambda>(columnIdx, row). columnIdx - length (row_columns row))") auto

declare discover.simps [simp del]

definition EnsureColumnDiscovered :: "nat \<Rightarrow> DocumentDbRow \<Rightarrow> DocumentDbRow option" where
  "EnsureColumnDiscovered columnIdx row =
     (if length (row_columns row) = row_size row then Some row else discover columnIdx row)"

definition ReadColumnToBuffer ::
  "Library \<Rightarrow> Platform \<Rightarrow> mem \<Rightarrow> DocumentDbRow \<Rightarrow> nat \<Rightarrow> ApplicationDataBuffer \<Rightarrow> put_result option \<times> DocumentDbRow" where
  "ReadColumnToBuffer lib pl m row columnIdx b =
     (if columnIdx > length (row_metadata row) \<or> columnIdx < 1 then (Some (Inr (CR_FAILURE, m)), row)
      else case EnsureColumnDiscovered columnIdx row of
             None \<Rightarrow> (Some (Inl Undefined), row)
           | Some row' \<Rightarrow>
               let column = row_columns row' ! (columnIdx - 1)
               in (ReadToBuffer lib pl m (col_type column) (col_path column) (row_document row') b, row'))"

section \<open>Cursors\<close>

record DocumentDbCursor =
  iterator :: "bson_document list"
  cur_metadata :: "JdbcColumnMetadata list"
  cur_paths :: "string list"
  currentRow :: "DocumentDbRow option"
  isFirstRow :: bool

definition newCursor :: "bson_document list \<Rightarrow> JdbcColumnMetadata list \<Rightarrow> string list \<Rightarrow> DocumentDbCursor" where
  "newCursor docs md paths =
     \<lparr>iterator = docs, cur_metadata = md, cur_paths = paths, currentRow = None, isFirstRow = True\<rparr>"

definition HasData :: "DocumentDbCursor \<Rightarrow> bool" where
  "HasData c \<longleftrightarrow> iterator c \<noteq> []"

definition Increment :: "DocumentDbCursor \<Rightarrow> bool \<times> DocumentDbCursor" where
  "Increment c =
     (let c1 = (if HasData c then
                  (if \<not> isFirstRow c then c\<lparr>iterator := tl (iterator c)\<rparr> else c\<lparr>isFirstRow := False\<rparr>)
                else c)
      in if HasData c1 then
           (True, c1\<lparr>currentRow :=
              Some (case currentRow c1 of
                      Some row \<Rightarrow> Row_Update (hd (iterator c1)) row
                    | None \<Rightarrow> newRow (hd (iterator c1)) (cur_metadata c1) (cur_paths c1))\<rparr>)
         else (False, c1\<lparr>currentRow := None\<rparr>))"

definition GetRow :: "DocumentDbCursor \<Rightarrow> DocumentDbRow option" where
  "GetRow c = currentRow c"

section \<open>Columns are set up in order\<close>

definition row_ok :: "JdbcColumnMetadata list \<Rightarrow> string list \<Rightarrow> DocumentDbRow \<Rightarrow> bool" where
  "row_ok md paths row \<longleftrightarrow>
     row_metadata row = md \<and> row_paths row = paths \<and> row_size row = length md \<and>
     length (row_columns row) \<le> length md \<and>
     row_columns row = take (length (row_columns row)) (map2 newColumn md paths)"

lemma newRow_ok: "row_ok md paths (newRow doc md paths)"
  by (simp add: row_ok_def newRow_def)

lemma Row_Update_ok: "row_ok md paths (Row_Update doc row) \<longleftrightarrow> row_ok md paths row"
  by (simp add: row_ok_def Row_Update_def)

lemma discover_ok:
  assumes "row_ok md paths row" and "length paths = length md" and "columnIdx \<le> length md"
  shows "\<exists>row'. discover columnIdx row = Some row' \<and> row_ok md paths row' \<and>
    columnIdx \<le> length (row_columns row') \<and> row_document row' = row_document row"
  using assms
proof (induction columnIdx row rule: discover.induct)
  case (1 columnIdx row)
  let ?i = "length (row_columns row)"
  show ?case
  proof (cases "?i < columnIdx")
    case True
    let ?row = "row\<lparr>row_columns := row_columns row @ [newColumn (row_metadata row ! ?i) (row_paths row ! ?i)]\<rparr>"
    have i: "?i < length (row_metadata row)" "?i < length (row_paths row)"
      using True "1.prems" by (simp_all add: row_ok_def)
    have "row_ok md paths ?row"
      using i "1.prems"(1,2) by (auto simp: row_ok_def take_Suc_conv_app_nth)
    from "1.IH" [OF refl True _ this "1.prems"(2,3)] i show ?thesis
      using True by (simp add: discover.simps [of columnIdx row] Let_def)
  next
    case False
    then show ?thesis using "1.prems"(1) by (simp add: discover.simps)
  qed
qed

lemma EnsureColumnDiscovered_ok:
  assumes "row_ok md paths row" and "length paths = length md" and "columnIdx \<le> length md"
  obtains row' where "EnsureColumnDiscovered columnIdx row = Some row'" and "row_ok md paths row'"
    and "columnIdx \<le> length (row_columns row')" and "row_document row' = row_document row"
proof (cases "length (row_columns row) = row_size row")
  case True
  with assms that show ?thesis by (simp add: EnsureColumnDiscovered_def row_ok_def)
next
  case False
  with discover_ok [OF assms] that show ?thesis by (auto simp: EnsureColumnDiscovered_def)
qed

lemma row_ok_nth:
  assumes "row_ok md paths row" and "length paths = length md" and "i < length (row_columns row)"
  shows "row_columns row ! i = newColumn (md ! i) (paths ! i)"
proof -
  have "row_columns row ! i = take (length (row_columns row)) (map2 newColumn md paths) ! i"
    using assms(1) unfolding row_ok_def by metis
  then show ?thesis using assms by (simp add: row_ok_def)
qed

lemma ReadColumnToBuffer_ok:
  assumes "row_ok md paths row" and "length paths = length md"
  shows "\<exists>row'. ReadColumnToBuffer lib pl m row columnIdx b =
     (if columnIdx < 1 \<or> columnIdx > length md then Some (Inr (CR_FAILURE, m))
      else ReadToBuffer lib pl m (columnType (md ! (columnIdx - 1))) (paths ! (columnIdx - 1)) (row_document row) b, row') \<and>
    row_ok md paths row' \<and> row_document row' = row_document row"
proof (cases "columnIdx < 1 \<or> columnIdx > length md")
  case True
  then show ?thesis using assms by (auto simp: ReadColumnToBuffer_def row_ok_def)
next
  case False
  then obtain row' where r: "EnsureColumnDiscovered columnIdx row = Some row'" "row_ok md paths row'"
      "columnIdx \<le> length (row_columns row')" "row_document row' = row_document row"
    using EnsureColumnDiscovered_ok [OF assms] by (metis not_less)
  from False r(3) have "row_columns row' ! (columnIdx - 1) = newColumn (md ! (columnIdx - 1)) (paths ! (columnIdx - 1))"
    by (intro row_ok_nth [OF r(2) assms(2)]) linarith
  with False r assms show ?thesis by (auto simp: ReadColumnToBuffer_def newColumn_def row_ok_def)
qed

section \<open>The cursor and the list of documents\<close>

text \<open>
  What a client does with a cursor, what it sees, and the specification: a position in the list of
  documents, zero before the first document and one past the length after the last.
\<close>

datatype cursor_op = MoveNext | ReadColumn nat ApplicationDataBuffer mem

datatype cursor_out = Moved bool | NoRow | Got "put_result option"

fun cursor_step :: "Library \<Rightarrow> Platform \<Rightarrow> cursor_op \<Rightarrow> DocumentDbCursor \<Rightarrow> cursor_out \<times> DocumentDbCursor" where
  "cursor_step lib pl MoveNext c = (let (hasData, c') = Increment c in (Moved hasData, c'))"
| "cursor_step lib pl (ReadColumn i b m) c =
     (case GetRow c of
        None \<Rightarrow> (NoRow, c)
      | Some row \<Rightarrow> let (res, row') = ReadColumnToBuffer lib pl m row i b in (Got res, c\<lparr>currentRow := Some row'\<rparr>))"

fun cursor_run :: "Library \<Rightarrow> Platform \<Rightarrow> cursor_op list \<Rightarrow> DocumentDbCursor \<Rightarrow> cursor_out list" where
  "cursor_run lib pl [] c = []"
| "cursor_run lib pl (op # ops) c = (let (out, c') = cursor_step lib pl op c in out # cursor_run lib pl ops c')"

fun list_step ::
  "Library \<Rightarrow> Platform \<Rightarrow> bson_document list \<Rightarrow> JdbcColumnMetadata list \<Rightarrow> string list \<Rightarrow> cursor_op \<Rightarrow> nat \<Rightarrow> cursor_out \<times> nat" where
  "list_step lib pl docs md paths MoveNext n = (Moved (n < length docs), min (n + 1) (length docs + 1))"
| "list_step lib pl docs md paths (ReadColumn i b m) n =
     (if n = 0 \<or> length docs < n then NoRow
      else Got (if i < 1 \<or> i > length md then Some (Inr (CR_FAILURE, m))
                else ReadToBuffer lib pl m (columnType (md ! (i - 1))) (paths ! (i - 1)) (docs ! (n - 1)) b), n)"

fun list_run ::
  "Library \<Rightarrow> Platform \<Rightarrow> bson_document list \<Rightarrow> JdbcColumnMetadata list \<Rightarrow> string list \<Rightarrow> cursor_op list \<Rightarrow> nat \<Rightarrow> cursor_out list" where
  "list_run lib pl docs md paths [] n = []"
| "list_run lib pl docs md paths (op # ops) n =
     (let (out, n') = list_step lib pl docs md paths op n in out # list_run lib pl docs md paths ops n')"

text \<open>The relation between a cursor and a position.\<close>

definition cursor_at :: "bson_document list \<Rightarrow> JdbcColumnMetadata list \<Rightarrow> string list \<Rightarrow> nat \<Rightarrow> DocumentDbCursor \<Rightarrow> bool" where
  "cursor_at docs md paths n c \<longleftrightarrow>
     n \<le> length docs + 1 \<and> cur_metadata c = md \<and> cur_paths c = paths \<and> iterator c = drop (n - 1) docs \<and>
     (iterator c \<noteq> [] \<longrightarrow> (isFirstRow c \<longleftrightarrow> n = 0)) \<and>
     (case currentRow c of
        None \<Rightarrow> n = 0 \<or> n = length docs + 1
      | Some row \<Rightarrow> 1 \<le> n \<and> n \<le> length docs \<and> row_ok md paths row \<and> row_document row = docs ! (n - 1))"

lemma cursor_at_new: "cursor_at docs md paths 0 (newCursor docs md paths)"
  by (simp add: cursor_at_def newCursor_def)

lemma tl_drop_pred: "0 < n \<Longrightarrow> tl (drop (n - Suc 0) xs) = drop n xs"
  by (cases n) (simp_all add: tl_drop drop_Suc)

lemma Increment_at:
  assumes "cursor_at docs md paths n c"
  shows "fst (Increment c) = (n < length docs) \<and> cursor_at docs md paths (min (n + 1) (length docs + 1)) (snd (Increment c))"
proof (cases "n < length docs")
  case True
  then have "drop (n - 1) docs \<noteq> []" by simp
  with assms True show ?thesis
    by (auto simp: cursor_at_def Increment_def HasData_def Let_def tl_drop_pred hd_drop_conv_nth newRow_ok Row_Update_ok
        split: option.splits) (simp_all add: newRow_def Row_Update_def hd_conv_nth)
next
  case False
  then have n: "n = length docs \<or> n = length docs + 1" using assms by (auto simp: cursor_at_def)
  then show ?thesis
  proof
    assume n: "n = length docs"
    show ?thesis
    proof (cases "n = 0")
      case True
      with n assms show ?thesis by (simp add: cursor_at_def Increment_def HasData_def)
    next
      case False
      have "drop (n - 1) docs \<noteq> []" "tl (drop (n - 1) docs) = []"
        using n False tl_drop_pred [of n docs] by (auto simp flip: length_greater_0_conv)
      with n False assms show ?thesis by (auto simp: cursor_at_def Increment_def HasData_def Let_def)
    qed
  next
    assume "n = length docs + 1"
    with assms show ?thesis by (auto simp: cursor_at_def Increment_def HasData_def Let_def)
  qed
qed

lemma cursor_step_simulates:
  assumes "cursor_at docs md paths n c" and "length paths = length md"
    and "cursor_step lib pl op c = (out, c')"
  shows "\<exists>n'. list_step lib pl docs md paths op n = (out, n') \<and> cursor_at docs md paths n' c'"
proof (cases op)
  case MoveNext
  with assms show ?thesis using Increment_at [OF assms(1)] by (auto split: prod.splits)
next
  case (ReadColumn i b m)
  show ?thesis
  proof (cases "currentRow c")
    case None
    with assms ReadColumn show ?thesis by (auto simp: GetRow_def cursor_at_def)
  next
    case (Some row)
    then have r: "row_ok md paths row" "row_document row = docs ! (n - 1)" "1 \<le> n" "n \<le> length docs"
      using assms(1) by (simp_all add: cursor_at_def)
    obtain row' where R: "ReadColumnToBuffer lib pl m row i b =
       (if i < 1 \<or> i > length md then Some (Inr (CR_FAILURE, m))
        else ReadToBuffer lib pl m (columnType (md ! (i - 1))) (paths ! (i - 1)) (row_document row) b, row')"
      and "row_ok md paths row'" "row_document row' = row_document row"
      using ReadColumnToBuffer_ok [OF r(1) assms(2)] by blast
    then show ?thesis using Some r(2-4) ReadColumn assms(1,3) unfolding r(2)
      by (auto simp: GetRow_def cursor_at_def)
  qed
qed

text \<open>(C3) The cursor implements a position in the list of the documents returned: whatever sequence of
  moves and column reads a client makes, the cursor, with its row that is reused from document to
  document and its columns set up on demand, gives the same answers as the specification that keeps a
  number. A move says whether there is a document, a read past the ends finds no row, and a read of
  column \<open>i\<close> converts the value at the column's path in the current document.\<close>

theorem cursor_refines_list:
  assumes "length paths = length md"
  shows "cursor_run lib pl ops (newCursor docs md paths) = list_run lib pl docs md paths ops 0"
proof -
  have "cursor_at docs md paths n c \<Longrightarrow> cursor_run lib pl ops c = list_run lib pl docs md paths ops n" for n c
  proof (induction ops arbitrary: n c)
    case (Cons op ops)
    obtain out c' where s: "cursor_step lib pl op c = (out, c')" by fastforce
    from cursor_step_simulates [OF Cons.prems assms s] obtain n' where
      "list_step lib pl docs md paths op n = (out, n')" "cursor_at docs md paths n' c'" by blast
    with s Cons.IH show ?case by simp
  qed simp
  then show ?thesis using cursor_at_new .
qed

end
