(* ===== verification/Odbc_ColumnProps.thy ===== *)
theory Odbc_ColumnProps
  imports Odbc_Cursor
begin

text \<open>
  Properties of columns: integers reach the application unchanged or are refused, a refused value
  leaves the application's memory alone, and text that does not fit is cut without a word.
\<close>

section \<open>Sample values\<close>

definition plain_library :: Library where
  "plain_library =
     \<lparr>round_to_float = (\<lambda>d. d), int_to_float = (\<lambda>i. Finite (i < 0) (nat \<bar>i\<bar>) 0),
      int_to_double = (\<lambda>i. Finite (i < 0) (nat \<bar>i\<bar>) 0), encode_float = (\<lambda>d. replicate 4 0),
      encode_double = (\<lambda>d. replicate 8 0), stream_text = double_to_string,
      lib_stof = (\<lambda>s. None), lib_stod = (\<lambda>s. None), ptime_text = (\<lambda>secs. Some (format_timestamp (gmtime secs)))\<rparr>"

definition plain_column :: "int \<Rightarrow> JdbcColumnMetadata" where
  "plain_column type =
     \<lparr>ordinal = 1, autoIncrement = False, caseSensitive = False, searchable = True, currency = False,
      jdbc_nullable = 1, jdbc_signed = True, columnDisplaySize = 11, columnLabel = Some ''n'',
      jdbc_columnName = Some ''n'', jdbc_schemaName = None, jdbc_precision = 10, jdbc_scale = 0,
      jdbc_tableName = None, jdbc_catalogName = None, columnType = type, columnTypeName = None,
      readOnly = True, writable_column = False, definitelyWritable = False, columnClassName = None\<rparr>"

theorem cursor_refines_list_witness:
  "cursor_run plain_library (plain_platform 8)
     [ReadColumn 1 (buffer_at AI_SIGNED_LONG 100 4 8) (\<lambda>_. 0), MoveNext, ReadColumn 2 (buffer_at AI_SIGNED_LONG 100 4 8) (\<lambda>_. 0),
      MoveNext, MoveNext]
     (newCursor [[(''n'', k_int32 7)], [(''n'', k_int32 8)]] [plain_column JDBC_TYPE_INTEGER] [''n'']) =
   [NoRow, Moved True, Got (Some (Inr (CR_FAILURE, \<lambda>_. 0))), Moved True, Moved False]"
  using cursor_refines_list [of "[''n'']" "[plain_column JDBC_TYPE_INTEGER]" plain_library "plain_platform 8"
      "[ReadColumn 1 (buffer_at AI_SIGNED_LONG 100 4 8) (\<lambda>_. 0), MoveNext, ReadColumn 2 (buffer_at AI_SIGNED_LONG 100 4 8) (\<lambda>_. 0),
        MoveNext, MoveNext]" "[[(''n'', k_int32 7)], [(''n'', k_int32 8)]]"]
  by simp

section \<open>Refused values\<close>

text \<open>Every conversion has the shape of \<open>put_value\<close>: success, or the memory is as it was.\<close>

lemma put_value_result:
  assumes "put_value conv m put = Some (Inr (r, m'))" and "r \<noteq> CR_SUCCESS"
  shows "m' = m"
  using assms by (auto simp: put_value_def split: sum.splits option.splits if_splits prod.splits)

lemma PutNull_result:
  assumes "PutNull m b = (r, m')" and "r \<noteq> CR_SUCCESS"
  shows "m' = m"
  using assms by (auto simp: PutNull_def split: option.splits)

lemma PutStrToStrBuffer_result:
  assumes "PutStrToStrBuffer pl wide m b s = Inr (r, m', n)"
  shows "r = CR_SUCCESS \<or> r = CR_VARLEN_DATA_TRUNCATED"
  using assms by (auto simp: PutStrToStrBuffer_def Let_def split: option.splits if_splits prod.splits)

lemma Column_PutBinaryData_result:
  assumes "Column_PutBinaryData pl m b e = Some (Inr (r, m'))" and "r \<noteq> CR_SUCCESS" and "r \<noteq> CR_VARLEN_DATA_TRUNCATED"
  shows "m' = m"
proof -
  have bin: "m' = m" if "drop_written (PutBinaryData pl m b bs) = Inr (r, m')" for bs
    using that assms(2,3)
    by (cases "buf_type b")
      (auto simp: drop_written_def PutBinaryData_def PutRawDataToBuffer_def Let_def
         dest: PutStrToStrBuffer_result split: sum.splits prod.splits if_splits)
  then show ?thesis using assms by (cases e) (auto intro: PutNull_result)
qed

text \<open>(C27) A refusal leaves no trace: when reading a column reports something other than success and cut data,
  the application's memory, buffer and length cell included, is as it was before. This holds for every column
  type, every BSON value and every buffer.\<close>

theorem ReadToBuffer_refused:
  assumes "ReadToBuffer lib pl m type path doc b = Some (Inr (r, m'))"
    and "r \<noteq> CR_SUCCESS" and "r \<noteq> CR_VARLEN_DATA_TRUNCATED"
  shows "m' = m"
proof -
  obtain e where e: "read_element lib pl m type b e = Some (Inr (r, m'))"
    using assms(1,2) by (auto simp: ReadToBuffer_def split: option.splits)
  show ?thesis
    using e assms(2,3) unfolding read_element_def
    by (auto split: if_splits intro: PutNull_result Column_PutBinaryData_result
        simp: Column_PutInt8_def Column_PutInt16_def Column_PutInt32_def Column_PutInt64_def Column_PutFloat_def
          Column_PutDouble_def Column_PutString_def Column_PutDecimal_def Column_PutDate_def Column_PutTimestamp_def
          Column_PutTime_def dest: put_value_result)
qed

theorem ReadToBuffer_refused_witness:
  "ReadToBuffer plain_library (plain_platform 8) (\<lambda>_. 1) JDBC_TYPE_INTEGER ''n'' [(''n'', k_int64 3000000000)]
     (buffer_at AI_SIGNED_LONG 100 4 8) = Some (Inr (CR_FAILURE, \<lambda>_. 1))"
proof -
  let ?r = "ReadToBuffer plain_library (plain_platform 8) (\<lambda>_. 1) JDBC_TYPE_INTEGER ''n'' [(''n'', k_int64 3000000000)]
     (buffer_at AI_SIGNED_LONG 100 4 8)"
  obtain m' where r: "?r = Some (Inr (CR_FAILURE, m'))"
    by (simp add: ReadToBuffer_def read_element_def Column_PutInt32_def put_value_def long_value_def ToValidLong_def)
  from ReadToBuffer_refused [OF r] have "m' = (\<lambda>_. 1)" by simp
  with r show ?thesis by simp
qed

section \<open>Integers\<close>

text \<open>The size of the integers each column type accepts.\<close>

definition column_bytes :: "int \<Rightarrow> nat option" where
  "column_bytes type =
     (if type = JDBC_TYPE_BOOLEAN \<or> type = JDBC_TYPE_SMALLINT then Some 1
      else if type = JDBC_TYPE_TINYINT then Some 2
      else if type = JDBC_TYPE_INTEGER then Some 4
      else if type = JDBC_TYPE_BIGINT then Some 8
      else None)"

definition fits :: "nat \<Rightarrow> int \<Rightarrow> bool" where
  "fits n v \<longleftrightarrow> - (2 ^ (8 * n - 1)) \<le> v \<and> v < 2 ^ (8 * n - 1)"

lemmas integer_defs = fits_def ToValidLong_def long_value_def put_value_def some_value_def

lemma read_integer:
  assumes "column_bytes type = Some w" and "fits 8 v"
  shows "read_element lib pl m type b (k_int64 v) =
    (if fits w v then put_value (some_value v) m (\<lambda>x. Some (PutOptNum pl m b w x)) else Some (Inr (CR_FAILURE, m)))"
proof -
  consider "type = 16 \<or> type = 5" "w = 1" | "type = -6" "w = 2" | "type = 4" "w = 4" | "type = -5" "w = 8"
    using assms(1) by (auto simp: column_bytes_def split: if_splits)
  then show ?thesis
  proof cases
    case 1
    then show ?thesis by (auto simp: read_element_def Column_PutInt8_def integer_defs)
  next
    case 2
    then show ?thesis by (simp add: read_element_def Column_PutInt16_def integer_defs)
  next
    case 3
    then show ?thesis by (simp add: read_element_def Column_PutInt32_def integer_defs)
  next
    case 4
    then show ?thesis using assms(2) by (simp add: read_element_def Column_PutInt64_def integer_defs)
  qed
qed

lemma fits_mono: "fits n v \<Longrightarrow> 1 \<le> n \<Longrightarrow> n \<le> k \<Longrightarrow> fits k v"
  using power_increasing [of "8 * n - 1" "8 * k - 1" "2 :: int"] unfolding fits_def by linarith

lemma to_signed_fits: "fits n v \<Longrightarrow> 1 \<le> n \<Longrightarrow> to_signed (8 * n) v = v"
  unfolding fits_def by (intro to_signed_id) simp_all

text \<open>(C26) Integers through a column: a 64-bit integer of a document is delivered to a signed buffer
  that is at least as wide as the column's type exactly as it is, if it is in the range of that type, and is refused
  with the memory unchanged otherwise. A buffer of the long type can be read back only where \<open>long\<close> has four
  bytes; the other buffers do not depend on it. The range of a column of type \<open>SMALLINT\<close> is that of one byte and
  that of \<open>TINYINT\<close> of two.\<close>

theorem integer_column:
  assumes "map_of doc path = Some (k_int64 v)" and "fits 8 v" and "column_bytes type = Some w"
    and "native_int (buf_type b) = Some (True, n)" and "w \<le> n" and "sizeof_long pl = 4 \<or> buf_type b \<notin> {AI_SIGNED_LONG, AI_UNSIGNED_LONG}"
    and "GetData b = Some a" and "separate b n"
  shows "if fits w v
    then \<exists>m'. ReadToBuffer lib pl m type path doc b = Some (Inr (CR_SUCCESS, m')) \<and> GetNum pl k m' b True 8 = Inr v \<and>
           (GetResLen b \<noteq> None \<longrightarrow> get_reslen m' b = Some (int n))
    else ReadToBuffer lib pl m type path doc b = Some (Inr (CR_FAILURE, m))"
proof -
  have rb: "ReadToBuffer lib pl m type path doc b =
     (if fits w v then put_value (some_value v) m (\<lambda>x. Some (PutOptNum pl m b w x)) else Some (Inr (CR_FAILURE, m)))"
    using assms(1) read_integer [OF assms(3,2)] by (simp add: ReadToBuffer_def)
  show ?thesis
  proof (cases "fits w v")
    case True
    have w: "1 \<le> w" using assms(3) by (auto simp: column_bytes_def split: if_splits)
    have n: "to_signed 64 (cast_int True n v) = v"
      using to_signed_fits [OF fits_mono [OF True w assms(5)]] to_signed_fits [OF assms(2)] w assms(5)
      by (simp add: cast_int_def)
    obtain m' where "PutNum pl m b w v = Inr (CR_SUCCESS, m')" "GetNum pl k m' b True 8 = Inr v"
      "GetResLen b \<noteq> None \<longrightarrow> get_reslen m' b = Some (int n)"
      using put_get_native [OF assms(4,6,7,8)] n by metis
    with True show ?thesis by (simp add: rb put_value_def some_value_def PutOptNum_def)
  qed (simp add: rb)
qed

theorem integer_column_witness:
  "\<exists>m'. ReadToBuffer plain_library (plain_platform 8) (\<lambda>_. 0) JDBC_TYPE_INTEGER ''n'' [(''n'', k_int64 (-5))]
      (buffer_at AI_SIGNED_BIGINT 100 8 8) = Some (Inr (CR_SUCCESS, m')) \<and>
    GetNum (plain_platform 8) 0 m' (buffer_at AI_SIGNED_BIGINT 100 8 8) True 8 = Inr (-5)"
  using integer_column [of "[(''n'', k_int64 (-5))]" "''n''" "-5" JDBC_TYPE_INTEGER 4
      "buffer_at AI_SIGNED_BIGINT 100 8 8" 8 "plain_platform 8" 100 plain_library "\<lambda>_. 0" 0]
  by (auto simp: fits_def column_bytes_def separate_def plain_platform_def)

section \<open>Text\<close>

text \<open>Text that does not fit is cut silently: a character column whose value is longer than the
  application's buffer delivers its beginning, reports success instead of truncation, and gives the
  length of what was copied, so that the application cannot tell that the value was cut.\<close>

theorem text_column_cut:
  assumes "map_of doc path = Some (k_utf8 s)" and "type \<in> {JDBC_TYPE_VARCHAR, JDBC_TYPE_CHAR, JDBC_TYPE_LONGVARCHAR}"
    and "buf_type b = AI_CHAR" and "GetData b = Some a" and "0 < buflen b" and "buflen b \<le> INT32_MAX"
    and "ascii s" and "\<forall>c < 0x80. narrow_char pl c = word_of_nat c" and "separate b (nat (buflen b))"
    and "GetResLen b = Some r" and "nat (buflen b) \<le> length s"
  shows "\<exists>m'. ReadToBuffer lib pl m type path doc b = Some (Inr (CR_SUCCESS, m')) \<and>
    read_bytes m' a (nat (buflen b)) = string_bytes (take (nat (buflen b) - 1) s) @ [0] \<and>
    get_reslen m' b = Some (buflen b - 1)"
proof -
  let ?n = "nat (buflen b) - 1"
  let ?m = "put_reslen (write_bytes m a (string_bytes (take ?n s) @ [0])) b (int ?n)"
  have n: "min (length s) ?n = ?n" using assms(5,11) by simp
  have l: "length (string_bytes (take ?n s) @ [0]) = nat (buflen b)"
    using assms(5,11) by (simp add: string_bytes_def)
  have "PutStrToStrBuffer pl False m b s = Inr (CR_VARLEN_DATA_TRUNCATED, ?m, int ?n)"
    using PutStrToStrBuffer_ascii [OF assms(4-8), of m] assms(11) by (simp add: Let_def n)
  then have "ReadToBuffer lib pl m type path doc b = Some (Inr (CR_SUCCESS, ?m))"
    using assms(1-3) by (auto simp: ReadToBuffer_def read_element_def Column_PutString_def put_value_def some_value_def
        PutOptString_def PutString_def drop_written_def)
  moreover have "read_bytes ?m a (nat (buflen b)) = string_bytes (take ?n s) @ [0]"
    using read_put_reslen [OF assms(4,9)] read_write_same [of m a "string_bytes (take ?n s) @ [0]"] l by simp
  moreover have "get_reslen ?m b = Some (buflen b - 1)"
  proof -
    have "int ?n = buflen b - 1" using assms(5) by simp
    moreover have "to_signed 64 (buflen b - 1) = buflen b - 1"
      using assms(5,6) by (intro to_signed_id) (simp_all add: INT32_MAX_def)
    ultimately show ?thesis by (simp only: get_put_reslen [OF assms(10)])
  qed
  ultimately show ?thesis by blast
qed

end
