(* ===== verification/Odbc_Meta.thy ===== *)
theory Odbc_Meta
  imports Odbc_ColumnProps
begin

text \<open>
  \<^verbatim>\<open>src/meta/\<close>: descriptions of result columns, tables and keys, how they are read from a result set
  of the Java side, and the descriptor fields an application can ask of a column.

  A result set of the Java side is the list of its rows, followed by an error or the end. A row
  gives for a column name a text or nothing, and a number, nothing or an error message.
\<close>

section \<open>Result sets\<close>

record jni_row =
  row_text :: "string \<Rightarrow> string option"
  row_int :: "string \<Rightarrow> string + int option"

record ResultSet =
  rs_rows :: "jni_row list"
  rs_error :: "string option"

definition rs_GetInt :: "jni_row \<Rightarrow> string \<Rightarrow> int option" where
  "rs_GetInt r column = (case row_int r column of Inl e \<Rightarrow> None | Inr v \<Rightarrow> v)"

definition rs_GetSmallInt :: "jni_row \<Rightarrow> string \<Rightarrow> int option" where
  "rs_GetSmallInt r column = map_option (to_signed 16) (rs_GetInt r column)"

section \<open>Columns\<close>

definition SQL_NO_NULLS :: int where "SQL_NO_NULLS = 0"
definition SQL_NULLABLE :: int where "SQL_NULLABLE = 1"
definition SQL_NULLABLE_UNKNOWN :: int where "SQL_NULLABLE_UNKNOWN = 2"

datatype Nullability = NO_NULL | NULLABLE | NULLABILITY_UNKNOWN

fun nullability_number :: "Nullability \<Rightarrow> int" where
  "nullability_number NO_NULL = 0"
| "nullability_number NULLABLE = 1"
| "nullability_number NULLABILITY_UNKNOWN = 2"

text \<open>\<open>None\<close>: a failed assertion.\<close>

definition Nullability_ToSql :: "int option \<Rightarrow> int option" where
  "Nullability_ToSql n =
     (case n of
        None \<Rightarrow> None
      | Some k \<Rightarrow> if k = 0 then Some SQL_NO_NULLS else if k = 1 then Some SQL_NULLABLE
                  else if k = 2 then Some SQL_NULLABLE_UNKNOWN else None)"

record ColumnMeta =
  cm_catalogName :: "string option"
  cm_schemaName :: "string option"
  cm_tableName :: "string option"
  cm_columnName :: "string option"
  cm_remarks :: "string option"
  cm_columnDef :: "string option"
  cm_isAutoIncrement :: "string option"
  cm_dataType :: "int option"
  cm_precision :: "int option"
  cm_decimalDigits :: "int option"
  cm_scale :: "int option"
  cm_nullability :: "int option"
  cm_ordinalPosition :: "int option"

definition emptyColumnMeta :: ColumnMeta where
  "emptyColumnMeta =
     \<lparr>cm_catalogName = None, cm_schemaName = None, cm_tableName = None, cm_columnName = None, cm_remarks = None,
      cm_columnDef = None, cm_isAutoIncrement = None, cm_dataType = None, cm_precision = None, cm_decimalDigits = None,
      cm_scale = None, cm_nullability = None, cm_ordinalPosition = None\<rparr>"

definition newColumnMeta :: "string \<Rightarrow> string \<Rightarrow> string \<Rightarrow> int \<Rightarrow> Nullability \<Rightarrow> ColumnMeta" where
  "newColumnMeta sch tbl col type n =
     emptyColumnMeta\<lparr>cm_schemaName := Some sch, cm_tableName := Some tbl, cm_columnName := Some col,
       cm_dataType := Some type, cm_precision := Some (-1), cm_decimalDigits := Some (-1), cm_scale := Some (-1),
       cm_nullability := Some (nullability_number n), cm_ordinalPosition := Some (-1)\<rparr>"

text \<open>The position that counts on when a column has none; the counter is a 32-bit integer.\<close>

definition next_position :: "int option \<Rightarrow> int \<Rightarrow> int option \<times> int" where
  "next_position p prevPosition =
     (case p of None \<Rightarrow> (Some (prevPosition + 1), prevPosition + 1) | Some k \<Rightarrow> (Some k, k))"

definition ColumnMeta_Read :: "jni_row \<Rightarrow> int \<Rightarrow> ColumnMeta \<times> int" where
  "ColumnMeta_Read r prevPosition =
     (let (pos, prev) = next_position (rs_GetInt r ''ORDINAL_POSITION'') prevPosition
      in (emptyColumnMeta\<lparr>cm_catalogName := row_text r ''TABLE_CAT'', cm_schemaName := row_text r ''TABLE_SCHEM'',
            cm_tableName := row_text r ''TABLE_NAME'', cm_columnName := row_text r ''COLUMN_NAME'',
            cm_dataType := rs_GetSmallInt r ''DATA_TYPE'', cm_decimalDigits := rs_GetInt r ''DECIMAL_DIGITS'',
            cm_remarks := row_text r ''REMARKS'', cm_columnDef := row_text r ''COLUMN_DEF'',
            cm_nullability := rs_GetInt r ''NULLABLE'', cm_ordinalPosition := pos,
            cm_isAutoIncrement := row_text r ''IS_AUTOINCREMENT''\<rparr>, prev))"

definition ReadJdbcMetadata :: "JdbcColumnMetadata \<Rightarrow> int \<Rightarrow> ColumnMeta \<times> int" where
  "ReadJdbcMetadata j prevPosition =
     (let (pos, prev) = next_position (Some (ordinal j)) prevPosition
      in (emptyColumnMeta\<lparr>cm_catalogName := jdbc_catalogName j, cm_schemaName := jdbc_schemaName j,
            cm_tableName := jdbc_tableName j, cm_columnName := jdbc_columnName j,
            cm_dataType := Some (to_signed 16 (columnType j)), cm_nullability := Some (jdbc_nullable j),
            cm_ordinalPosition := pos, cm_isAutoIncrement := Some (if autoIncrement j then ''YES'' else ''NO'')\<rparr>, prev))"

fun read_columns :: "jni_row list \<Rightarrow> int \<Rightarrow> ColumnMeta list" where
  "read_columns [] prev = []"
| "read_columns (r # rs) prev = (let (c, prev') = ColumnMeta_Read r prev in c # read_columns rs prev')"

definition ReadColumnMetaVector :: "ResultSet \<Rightarrow> ColumnMeta list" where
  "ReadColumnMetaVector rs = read_columns (rs_rows rs) 0"

section \<open>Descriptor fields\<close>

abbreviation "SQL_COLUMN_LENGTH \<equiv> (3 :: int)"
abbreviation "SQL_COLUMN_PRECISION \<equiv> (4 :: int)"
abbreviation "SQL_COLUMN_SCALE \<equiv> (5 :: int)"
abbreviation "SQL_DESC_CONCISE_TYPE \<equiv> (2 :: int)"
abbreviation "SQL_DESC_DISPLAY_SIZE \<equiv> (6 :: int)"
abbreviation "SQL_DESC_UNSIGNED \<equiv> (8 :: int)"
abbreviation "SQL_DESC_FIXED_PREC_SCALE \<equiv> (9 :: int)"
abbreviation "SQL_DESC_UPDATABLE \<equiv> (10 :: int)"
abbreviation "SQL_DESC_AUTO_UNIQUE_VALUE \<equiv> (11 :: int)"
abbreviation "SQL_DESC_CASE_SENSITIVE \<equiv> (12 :: int)"
abbreviation "SQL_DESC_SEARCHABLE \<equiv> (13 :: int)"
abbreviation "SQL_DESC_TYPE_NAME \<equiv> (14 :: int)"
abbreviation "SQL_DESC_TABLE_NAME \<equiv> (15 :: int)"
abbreviation "SQL_DESC_SCHEMA_NAME \<equiv> (16 :: int)"
abbreviation "SQL_DESC_CATALOG_NAME \<equiv> (17 :: int)"
abbreviation "SQL_DESC_LABEL \<equiv> (18 :: int)"
abbreviation "SQL_DESC_BASE_COLUMN_NAME \<equiv> (22 :: int)"
abbreviation "SQL_DESC_BASE_TABLE_NAME \<equiv> (23 :: int)"
abbreviation "SQL_DESC_LITERAL_PREFIX \<equiv> (27 :: int)"
abbreviation "SQL_DESC_LITERAL_SUFFIX \<equiv> (28 :: int)"
abbreviation "SQL_DESC_LOCAL_TYPE_NAME \<equiv> (29 :: int)"
abbreviation "SQL_DESC_NUM_PREC_RADIX \<equiv> (32 :: int)"
abbreviation "SQL_DESC_TYPE \<equiv> (1002 :: int)"
abbreviation "SQL_DESC_LENGTH \<equiv> (1003 :: int)"
abbreviation "SQL_DESC_PRECISION \<equiv> (1005 :: int)"
abbreviation "SQL_DESC_SCALE \<equiv> (1006 :: int)"
abbreviation "SQL_DESC_NULLABLE \<equiv> (1008 :: int)"
abbreviation "SQL_DESC_NAME \<equiv> (1011 :: int)"
abbreviation "SQL_DESC_UNNAMED \<equiv> (1012 :: int)"
abbreviation "SQL_DESC_OCTET_LENGTH \<equiv> (1013 :: int)"

definition isCharType :: "int \<Rightarrow> bool" where
  "isCharType t \<longleftrightarrow>
     t \<in> {JDBC_TYPE_VARCHAR, JDBC_TYPE_CHAR, JDBC_TYPE_NCHAR, JDBC_TYPE_NVARCHAR, JDBC_TYPE_LONGVARCHAR,
          JDBC_TYPE_LONGNVARCHAR}"

definition opt_text :: "string option \<Rightarrow> string" where
  "opt_text s = (case s of None \<Rightarrow> [] | Some t \<Rightarrow> t)"

text \<open>\<open>None\<close>: the function returns \<open>false\<close>.\<close>

definition GetAttribute_text :: "ColumnMeta \<Rightarrow> int \<Rightarrow> string option" where
  "GetAttribute_text c fieldId =
     (if fieldId \<in> {SQL_DESC_LABEL, SQL_DESC_BASE_COLUMN_NAME, SQL_DESC_NAME} then Some (opt_text (cm_columnName c))
      else if fieldId \<in> {SQL_DESC_TABLE_NAME, SQL_DESC_BASE_TABLE_NAME} then Some (opt_text (cm_tableName c))
      else if fieldId = SQL_DESC_SCHEMA_NAME then Some (opt_text (cm_schemaName c))
      else if fieldId = SQL_DESC_CATALOG_NAME then Some []
      else if fieldId = SQL_DESC_LITERAL_PREFIX then
        Some (case cm_dataType c of
                None \<Rightarrow> []
              | Some t \<Rightarrow> if isCharType t then [CHR 0x27]
                          else if t \<in> {JDBC_TYPE_BINARY, JDBC_TYPE_VARBINARY, JDBC_TYPE_LONGVARBINARY} then ''0x'' else [])
      else if fieldId = SQL_DESC_LITERAL_SUFFIX then
        Some (case cm_dataType c of None \<Rightarrow> [] | Some t \<Rightarrow> if isCharType t then [CHR 0x27] else [])
      else if fieldId \<in> {SQL_DESC_TYPE_NAME, SQL_DESC_LOCAL_TYPE_NAME} then
        Some (opt_text (BinaryTypeToSqlTypeName (cm_dataType c)))
      else if fieldId \<in> {SQL_DESC_PRECISION, SQL_COLUMN_LENGTH, SQL_COLUMN_PRECISION} then
        (if cm_precision c = None \<or> cm_precision c = Some (-1) then None
         else Some (int_string (the (cm_precision c))))
      else if fieldId \<in> {SQL_DESC_SCALE, SQL_COLUMN_SCALE} then
        (if cm_scale c = None \<or> cm_scale c = Some (-1) then None else Some (int_string (the (cm_scale c))))
      else None)"

definition or_unset :: "int option \<Rightarrow> int" where
  "or_unset v = (case v of None \<Rightarrow> -1 | Some k \<Rightarrow> k)"

definition known :: "int option \<Rightarrow> bool" where
  "known v \<longleftrightarrow> v \<noteq> None \<and> v \<noteq> Some (-1)"

text \<open>The value and whether the field is known: \<open>None\<close> when it is not, \<open>Some None\<close> for the failed
  assertion on an unknown nullability.\<close>

definition GetAttribute_number :: "ColumnMeta \<Rightarrow> int \<Rightarrow> int option option" where
  "GetAttribute_number c fieldId =
     (let type = cm_dataType c; flag = (\<lambda>b. Some (Some (if b then 1 else 0 :: int)))
      in if fieldId = SQL_DESC_FIXED_PREC_SCALE then
           flag (known (cm_precision c) \<and> known (cm_scale c) \<and> cm_scale c \<noteq> Some 0)
         else if fieldId = SQL_DESC_AUTO_UNIQUE_VALUE then flag (cm_isAutoIncrement c = Some ''YES'')
         else if fieldId = SQL_DESC_CASE_SENSITIVE then flag (case type of None \<Rightarrow> False | Some t \<Rightarrow> isCharType t)
         else if fieldId \<in> {SQL_DESC_CONCISE_TYPE, SQL_DESC_TYPE} then Some (Some (or_unset (BinaryToSqlType type)))
         else if fieldId = SQL_DESC_DISPLAY_SIZE then Some (Some (or_unset (BinaryTypeDisplaySize type)))
         else if fieldId \<in> {SQL_DESC_LENGTH, SQL_COLUMN_LENGTH, SQL_DESC_OCTET_LENGTH} then
           Some (Some (if type = None then -1 else or_unset (BinaryTypeTransferLength type)))
         else if fieldId = SQL_DESC_NULLABLE then Some (Nullability_ToSql (cm_nullability c))
         else if fieldId = SQL_DESC_NUM_PREC_RADIX then Some (Some (or_unset (BinaryTypeNumPrecRadix type)))
         else if fieldId \<in> {SQL_DESC_PRECISION, SQL_COLUMN_PRECISION} then
           Some (Some
             (if known (cm_decimalDigits c) \<and> type \<in> {Some JDBC_TYPE_TIME, Some JDBC_TYPE_DATE, Some JDBC_TYPE_TIMESTAMP}
              then the (cm_decimalDigits c)
              else if type \<noteq> None \<and> \<not> known (cm_precision c) then or_unset (BinaryTypeColumnSize type)
              else or_unset (cm_precision c)))
         else if fieldId \<in> {SQL_DESC_SCALE, SQL_COLUMN_SCALE} then
           Some (Some
             (if known (cm_decimalDigits c) \<and> type \<in> {Some JDBC_TYPE_DECIMAL, Some JDBC_TYPE_NUMERIC}
              then the (cm_decimalDigits c)
              else if type \<noteq> None \<and> \<not> known (cm_scale c) then or_unset (BinaryTypeDecimalDigits type)
              else or_unset (cm_scale c)))
         else if fieldId = SQL_DESC_SEARCHABLE then Some (Some 2)
         else if fieldId = SQL_DESC_UNNAMED then
           Some (Some (if cm_columnName c \<noteq> None \<and> cm_columnName c \<noteq> Some [] then 0 else 1))
         else if fieldId = SQL_DESC_UNSIGNED then flag (BinaryTypeUnsigned type)
         else if fieldId = SQL_DESC_UPDATABLE then Some (Some 2)
         else None)"

section \<open>Tables and keys\<close>

record TableMeta =
  tm_catalogName :: "string option"
  tm_schemaName :: "string option"
  tm_tableName :: "string option"
  tm_tableType :: "string option"
  tm_remarks :: "string option"

definition TableMeta_Read :: "jni_row \<Rightarrow> TableMeta" where
  "TableMeta_Read r =
     \<lparr>tm_catalogName = row_text r ''TABLE_CAT'', tm_schemaName = row_text r ''TABLE_SCHEM'',
      tm_tableName = row_text r ''TABLE_NAME'', tm_tableType = row_text r ''TABLE_TYPE'',
      tm_remarks = row_text r ''REMARKS''\<rparr>"

definition ReadTableMetaVector :: "ResultSet \<Rightarrow> TableMeta list" where
  "ReadTableMetaVector rs = map TableMeta_Read (rs_rows rs)"

record PrimaryKeyMeta =
  pk_catalog :: "string option"
  pk_schema :: "string option"
  pk_table :: "string option"
  pk_column :: "string option"
  pk_keySeq :: "int option"
  pk_keyName :: "string option"

definition PrimaryKeyMeta_Read :: "jni_row \<Rightarrow> PrimaryKeyMeta" where
  "PrimaryKeyMeta_Read r =
     \<lparr>pk_catalog = row_text r ''TABLE_CAT'', pk_schema = row_text r ''TABLE_SCHEM'', pk_table = row_text r ''TABLE_NAME'',
      pk_column = row_text r ''COLUMN_NAME'', pk_keySeq = rs_GetSmallInt r ''KEY_SEQ'', pk_keyName = row_text r ''PK_NAME''\<rparr>"

definition ReadPrimaryKeysColumnMetaVector :: "ResultSet \<Rightarrow> PrimaryKeyMeta list" where
  "ReadPrimaryKeysColumnMetaVector rs = map PrimaryKeyMeta_Read (rs_rows rs)"

record ForeignKeyMeta =
  fk_PKCatalogName :: "string option"
  fk_PKSchemaName :: "string option"
  fk_PKTableName :: "string option"
  fk_PKColumnName :: "string option"
  fk_FKCatalogName :: "string option"
  fk_FKSchemaName :: "string option"
  fk_FKTableName :: "string option"
  fk_FKColumnName :: "string option"
  fk_keySeq :: "int option"
  fk_updateRule :: "int option"
  fk_deleteRule :: "int option"
  fk_FKName :: "string option"
  fk_PKName :: "string option"
  fk_deferrability :: "int option"

definition ForeignKeyMeta_Read :: "jni_row \<Rightarrow> ForeignKeyMeta" where
  "ForeignKeyMeta_Read r =
     \<lparr>fk_PKCatalogName = row_text r ''PKTABLE_CAT'', fk_PKSchemaName = row_text r ''PKTABLE_SCHEM'',
      fk_PKTableName = row_text r ''PKTABLE_NAME'', fk_PKColumnName = row_text r ''PKCOLUMN_NAME'',
      fk_FKCatalogName = row_text r ''FKTABLE_CAT'', fk_FKSchemaName = row_text r ''FKTABLE_SCHEM'',
      fk_FKTableName = row_text r ''FKTABLE_NAME'', fk_FKColumnName = row_text r ''FKCOLUMN_NAME'',
      fk_keySeq = rs_GetSmallInt r ''KEY_SEQ'', fk_updateRule = rs_GetSmallInt r ''UPDATE_RULE'',
      fk_deleteRule = rs_GetSmallInt r ''DELETE_RULE'', fk_FKName = row_text r ''FK_NAME'',
      fk_PKName = row_text r ''PK_NAME'', fk_deferrability = rs_GetSmallInt r ''DEFERRABILITY''\<rparr>"

definition ReadForeignKeysColumnMetaVector :: "ResultSet \<Rightarrow> ForeignKeyMeta list" where
  "ReadForeignKeysColumnMetaVector rs = map ForeignKeyMeta_Read (rs_rows rs)"

end
