(* ===== verification/Odbc_MetaQuery.thy ===== *)
theory Odbc_MetaQuery
  imports Odbc_Meta
begin

text \<open>
  \<^verbatim>\<open>src/query/\<close>: the queries for metadata. Each asks the Java side once, keeps the rows it read and
  gives them out one by one. The five classes with rows have the same state, so they share a record;
  each has its own \<open>Execute\<close>, \<open>GetColumn\<close> and \<open>Close\<close>. What they promise to the statement that owns
  them is the locale \<open>row_source\<close>.

  The answers of the Java side are the argument \<open>Java\<close>: \<open>java_metadata\<close> is the error text when the
  connection has no metadata object, and the other components answer one request each, with an error text
  or a result set.
\<close>

record Java =
  java_metadata :: "string option"
  GetTables :: "string option \<Rightarrow> string option \<Rightarrow> string \<Rightarrow> string list option \<Rightarrow> string + ResultSet"
  GetColumns :: "string option \<Rightarrow> string option \<Rightarrow> string \<Rightarrow> string \<Rightarrow> string + ResultSet"
  GetPrimaryKeys :: "string option \<Rightarrow> string option \<Rightarrow> string option \<Rightarrow> string + ResultSet"
  GetImportedKeys :: "string option \<Rightarrow> string option \<Rightarrow> string \<Rightarrow> string + ResultSet"
  GetTypeInfo :: "string + ResultSet"

text \<open>What an operation of a query changes besides the query: diagnostics and memory.\<close>

type_synonym io = "DiagnosticRecordStorage \<times> mem"

type_synonym bindings = "(nat \<times> ApplicationDataBuffer) list"

definition report :: "SqlState \<Rightarrow> string \<Rightarrow> io \<Rightarrow> io" where
  "report st msg = apfst (AddStatusRecord st msg)"

definition not_executed :: "io \<Rightarrow> io" where
  "not_executed = report SHY010_SEQUENCE_ERROR ''Query was not executed.''"

definition past_end :: "io \<Rightarrow> io" where
  "past_end = report S24000_INVALID_CURSOR_STATE ''Cursor has reached end of the result set.''"

text \<open>Putting a value; the result is not looked at.\<close>

definition putting :: "put_result \<Rightarrow> io \<Rightarrow> buf_error + (SqlResult \<times> io)" where
  "putting r dm = (case r of Inl e \<Rightarrow> Inl e | Inr (_, m') \<Rightarrow> Inr (AI_SUCCESS, fst dm, m'))"

section \<open>The common state\<close>

text \<open>The cursor is an index into the rows; \<open>None\<close> before the first execution and after \<open>Close\<close> has
  cleared the rows (the iterator is then invalid).\<close>

record 'r MetaQuery =
  q_executed :: bool
  q_fetched :: bool
  q_meta :: "'r list"
  q_cursor :: "nat option"

definition newMetaQuery :: "'r MetaQuery" where
  "newMetaQuery = \<lparr>q_executed = False, q_fetched = False, q_meta = [], q_cursor = None\<rparr>"

definition at_end :: "'r MetaQuery \<Rightarrow> bool" where
  "at_end q \<longleftrightarrow> (case q_cursor q of None \<Rightarrow> True | Some i \<Rightarrow> length (q_meta q) \<le> i)"

definition current_row :: "'r MetaQuery \<Rightarrow> 'r" where
  "current_row q = q_meta q ! the (q_cursor q)"

definition advance :: "'r MetaQuery \<Rightarrow> 'r MetaQuery" where
  "advance q =
     (if \<not> q_fetched q then q\<lparr>q_fetched := True\<rparr>
      else if \<not> at_end q then q\<lparr>q_cursor := map_option Suc (q_cursor q)\<rparr>
      else q)"

fun get_columns ::
  "(nat \<Rightarrow> ApplicationDataBuffer \<Rightarrow> io \<Rightarrow> buf_error + (SqlResult \<times> io)) \<Rightarrow> bindings \<Rightarrow> io \<Rightarrow> buf_error + io" where
  "get_columns GetColumn [] dm = Inr dm"
| "get_columns GetColumn ((i, b) # bs) dm =
     (case GetColumn i b dm of Inl e \<Rightarrow> Inl e | Inr (_, dm') \<Rightarrow> get_columns GetColumn bs dm')"

definition fetch_row ::
  "('r MetaQuery \<Rightarrow> nat \<Rightarrow> ApplicationDataBuffer \<Rightarrow> io \<Rightarrow> buf_error + (SqlResult \<times> io)) \<Rightarrow>
   'r MetaQuery \<Rightarrow> bindings \<Rightarrow> io \<Rightarrow> buf_error + (SqlResult \<times> 'r MetaQuery \<times> io)" where
  "fetch_row GetColumn q bs dm =
     (if \<not> q_executed q then Inr (AI_ERROR, q, not_executed dm)
      else let q' = advance q
           in if at_end q' then Inr (AI_NO_DATA, q', dm)
              else case get_columns (GetColumn q') bs dm of
                     Inl e \<Rightarrow> Inl e
                   | Inr dm' \<Rightarrow> Inr (AI_SUCCESS, q', dm'))"

text \<open>The part of \<open>Execute\<close> after the request: \<open>Inl\<close> a text for the diagnostics, \<open>Inr\<close> the new rows. An
  execution that fails leaves the query closed.\<close>

definition executed_with :: "'r MetaQuery \<Rightarrow> string + 'r list \<Rightarrow> io \<Rightarrow> SqlResult \<times> 'r MetaQuery \<times> io" where
  "executed_with q answer dm =
     (case answer of
        Inl msg \<Rightarrow> (AI_ERROR, q, report SHY000_GENERAL_ERROR msg dm)
      | Inr rows \<Rightarrow> (AI_SUCCESS, q\<lparr>q_meta := rows, q_executed := True, q_fetched := False, q_cursor := Some 0\<rparr>, dm))"

definition ask :: "Java \<Rightarrow> string + ResultSet \<Rightarrow> (ResultSet \<Rightarrow> 'r list) \<Rightarrow> string + 'r list" where
  "ask java answer read =
     (case java_metadata java of
        Some msg \<Rightarrow> Inl msg
      | None \<Rightarrow> (case answer of Inl msg \<Rightarrow> Inl msg | Inr rs \<Rightarrow> Inr (read rs)))"

section \<open>Tables\<close>

record TableMetadataArgs =
  tq_catalog :: "string option"
  tq_schema :: "string option"
  tq_table :: string
  tq_tableType :: "string option"

text \<open>The white space of the regular expression \<open>\\s\<close>.\<close>

definition ltrim :: "string \<Rightarrow> string" where
  "ltrim s = dropWhile isspace s"

definition rtrim :: "string \<Rightarrow> string" where
  "rtrim s = rev (dropWhile isspace (rev s))"

definition trim :: "string \<Rightarrow> string" where
  "trim s = ltrim (rtrim s)"

definition dequote :: "string \<Rightarrow> string" where
  "dequote s =
     (if length s \<ge> 2 \<and> (hd s = CHR 0x27 \<and> last s = CHR 0x27 \<or> hd s = CHR 0x22 \<and> last s = CHR 0x22)
      then butlast (tl s) else s)"

text \<open>\<open>std::getline\<close> with a separator: the pieces, without an empty last one.\<close>

function split_at :: "char \<Rightarrow> string \<Rightarrow> string list" where
  "split_at c s =
     (if s = [] then []
      else takeWhile (\<lambda>x. x \<noteq> c) s # split_at c (tl (dropWhile (\<lambda>x. x \<noteq> c) s)))"
  by pat_completeness auto
termination
proof (relation "measure (\<lambda>(c, s). length s)")
  fix c and s :: string
  assume "s \<noteq> []"
  then have "0 < length s" by simp
  moreover have "length (dropWhile (\<lambda>x. x \<noteq> c) s) \<le> length s" by (rule length_dropWhile_le)
  ultimately have "length (tl (dropWhile (\<lambda>x. x \<noteq> c) s)) < length s" unfolding length_tl by linarith
  then show "((c, tl (dropWhile (\<lambda>x. x \<noteq> c) s)), c, s) \<in> measure (\<lambda>(c, s). length s)" by simp
qed simp

declare split_at.simps [simp del]

definition table_types :: "string option \<Rightarrow> string list option" where
  "table_types tableType =
     (case tableType of
        None \<Rightarrow> None
      | Some t \<Rightarrow> Some (if t = [] then [''TABLE''] else map (\<lambda>x. dequote (trim x)) (split_at (CHR '','') t)))"

definition MakeRequestGetTablesMeta :: "Java \<Rightarrow> TableMetadataArgs \<Rightarrow> string + TableMeta list" where
  "MakeRequestGetTablesMeta java a =
     ask java (GetTables java (tq_catalog a) (tq_schema a) (tq_table a) (table_types (tq_tableType a))) ReadTableMetaVector"

text \<open>\<open>Close\<close> of the table and column queries leaves the flag \<open>fetched\<close>.\<close>

definition close_rows :: "'r MetaQuery \<Rightarrow> 'r MetaQuery" where
  "close_rows q = q\<lparr>q_meta := [], q_executed := False, q_cursor := None\<rparr>"

definition close_keys :: "'r MetaQuery \<Rightarrow> 'r MetaQuery" where
  "close_keys q = q\<lparr>q_meta := [], q_executed := False, q_fetched := False, q_cursor := None\<rparr>"

definition TableMetadataQuery_Execute ::
  "Java \<Rightarrow> TableMetadataArgs \<Rightarrow> TableMeta MetaQuery \<Rightarrow> io \<Rightarrow> SqlResult \<times> TableMeta MetaQuery \<times> io" where
  "TableMetadataQuery_Execute java a q dm =
     executed_with (if q_executed q then close_rows q else q) (MakeRequestGetTablesMeta java a) dm"

definition TableMetadataQuery_GetColumn ::
  "Platform \<Rightarrow> TableMeta MetaQuery \<Rightarrow> nat \<Rightarrow> ApplicationDataBuffer \<Rightarrow> io \<Rightarrow> buf_error + (SqlResult \<times> io)" where
  "TableMetadataQuery_GetColumn pl q columnIdx b dm =
     (if \<not> q_executed q then Inr (AI_ERROR, not_executed dm)
      else if at_end q then Inr (AI_ERROR, past_end dm)
      else
        let t = current_row q; str = (\<lambda>s. putting (PutOptString pl (snd dm) b s) dm)
        in if columnIdx = 1 then str (tm_catalogName t)
           else if columnIdx = 2 then str (tm_schemaName t)
           else if columnIdx = 3 then str (tm_tableName t)
           else if columnIdx = 4 then str (tm_tableType t)
           else if columnIdx = 5 then str (tm_remarks t)
           else Inr (AI_SUCCESS, dm))"

definition TableMetadataQuery_FetchNextRow ::
  "Platform \<Rightarrow> TableMeta MetaQuery \<Rightarrow> bindings \<Rightarrow> io \<Rightarrow> buf_error + (SqlResult \<times> TableMeta MetaQuery \<times> io)" where
  "TableMetadataQuery_FetchNextRow pl = fetch_row (TableMetadataQuery_GetColumn pl)"

definition meta_columns :: "(string \<times> int \<times> Nullability) list \<Rightarrow> ColumnMeta list" where
  "meta_columns cs = map (\<lambda>(name, type, n). newColumnMeta [] [] name type n) cs"

definition TableMetadataQuery_columns :: "ColumnMeta list" where
  "TableMetadataQuery_columns = meta_columns
     [(''TABLE_CAT'', JDBC_TYPE_VARCHAR, NULLABLE), (''TABLE_SCHEM'', JDBC_TYPE_VARCHAR, NULLABLE),
      (''TABLE_NAME'', JDBC_TYPE_VARCHAR, NO_NULL), (''TABLE_TYPE'', JDBC_TYPE_VARCHAR, NO_NULL),
      (''REMARKS'', JDBC_TYPE_VARCHAR, NULLABLE)]"

section \<open>Columns\<close>

record ColumnMetadataArgs =
  cq_catalog :: "string option"
  cq_schema :: "string option"
  cq_table :: string
  cq_column :: string

definition MakeRequestGetColumnsMeta :: "Java \<Rightarrow> ColumnMetadataArgs \<Rightarrow> string + ColumnMeta list" where
  "MakeRequestGetColumnsMeta java a =
     ask java (GetColumns java (cq_catalog a) (cq_schema a) (cq_table a) (cq_column a)) ReadColumnMetaVector"

definition ColumnMetadataQuery_Execute ::
  "Java \<Rightarrow> ColumnMetadataArgs \<Rightarrow> ColumnMeta MetaQuery \<Rightarrow> io \<Rightarrow> SqlResult \<times> ColumnMeta MetaQuery \<times> io" where
  "ColumnMetadataQuery_Execute java a q dm =
     executed_with (if q_executed q then close_rows q else q) (MakeRequestGetColumnsMeta java a) dm"

definition non_negative :: "int option \<Rightarrow> int option" where
  "non_negative v = (case v of None \<Rightarrow> None | Some k \<Rightarrow> if k < 0 then None else Some k)"

definition ColumnMetadataQuery_GetColumn ::
  "Platform \<Rightarrow> ColumnMeta MetaQuery \<Rightarrow> nat \<Rightarrow> ApplicationDataBuffer \<Rightarrow> io \<Rightarrow> buf_error + (SqlResult \<times> io)" where
  "ColumnMetadataQuery_GetColumn pl q columnIdx b dm =
     (if \<not> q_executed q then Inr (AI_ERROR, not_executed dm)
      else if at_end q then Inr (AI_ERROR, past_end dm)
      else
        let c = current_row q; type = cm_dataType c; m = snd dm;
            str = (\<lambda>s. putting (PutOptString pl m b s) dm);
            num16 = (\<lambda>v. putting (PutOptNum pl m b 2 v) dm);
            num32 = (\<lambda>v. putting (PutOptNum pl m b 4 v) dm)
        in if columnIdx = 1 then str (cm_catalogName c)
           else if columnIdx = 2 then str (cm_schemaName c)
           else if columnIdx = 3 then str (cm_tableName c)
           else if columnIdx = 4 then str (cm_columnName c)
           else if columnIdx = 5 then num16 (BinaryToSqlType type)
           else if columnIdx = 6 then str (BinaryTypeToSqlTypeName type)
           else if columnIdx = 7 then num32 (BinaryTypeColumnSize type)
           else if columnIdx = 8 then num32 (BinaryTypeTransferLength type)
           else if columnIdx = 9 then num16 (non_negative (BinaryTypeDecimalDigits type))
           else if columnIdx = 10 then num16 (map_option (to_signed 16) (non_negative (BinaryTypeNumPrecRadix type)))
           else if columnIdx = 11 then num32 (cm_nullability c)
           else if columnIdx = 12 then str (cm_remarks c)
           else if columnIdx = 13 then str (cm_columnDef c)
           else if columnIdx = 14 then num16 (BinaryToSqlType type)
           else if columnIdx = 15 then putting (Inr (PutNull m b)) dm
           else if columnIdx = 16 then num32 (BinaryTypeCharOctetLength (sizeof_wchar pl) type)
           else if columnIdx = 17 then num32 (cm_ordinalPosition c)
           else if columnIdx = 18 then str (NullabilityToIsNullable (cm_nullability c))
           else Inr (AI_ERROR, report S07009_INVALID_DESCRIPTOR_INDEX ''Invalid index.'' dm))"

definition ColumnMetadataQuery_FetchNextRow ::
  "Platform \<Rightarrow> ColumnMeta MetaQuery \<Rightarrow> bindings \<Rightarrow> io \<Rightarrow> buf_error + (SqlResult \<times> ColumnMeta MetaQuery \<times> io)" where
  "ColumnMetadataQuery_FetchNextRow pl = fetch_row (ColumnMetadataQuery_GetColumn pl)"

definition ColumnMetadataQuery_columns :: "ColumnMeta list" where
  "ColumnMetadataQuery_columns = meta_columns
     [(''TABLE_CAT'', JDBC_TYPE_VARCHAR, NULLABLE), (''TABLE_SCHEM'', JDBC_TYPE_VARCHAR, NULLABLE),
      (''TABLE_NAME'', JDBC_TYPE_VARCHAR, NO_NULL), (''COLUMN_NAME'', JDBC_TYPE_VARCHAR, NO_NULL),
      (''DATA_TYPE'', JDBC_TYPE_SMALLINT, NO_NULL), (''TYPE_NAME'', JDBC_TYPE_VARCHAR, NO_NULL),
      (''COLUMN_SIZE'', JDBC_TYPE_INTEGER, NULLABLE), (''BUFFER_LENGTH'', JDBC_TYPE_INTEGER, NULLABLE),
      (''DECIMAL_DIGITS'', JDBC_TYPE_SMALLINT, NULLABLE), (''NUM_PREC_RADIX'', JDBC_TYPE_SMALLINT, NULLABLE),
      (''NULLABLE'', JDBC_TYPE_SMALLINT, NO_NULL), (''REMARKS'', JDBC_TYPE_VARCHAR, NULLABLE),
      (''COLUMN_DEF'', JDBC_TYPE_VARCHAR, NULLABLE), (''SQL_DATA_TYPE'', JDBC_TYPE_SMALLINT, NO_NULL),
      (''SQL_DATETIME_SUB'', JDBC_TYPE_SMALLINT, NULLABLE), (''CHAR_OCTET_LENGTH'', JDBC_TYPE_INTEGER, NULLABLE),
      (''ORDINAL_POSITION'', JDBC_TYPE_INTEGER, NO_NULL), (''IS_NULLABLE'', JDBC_TYPE_VARCHAR, NULLABLE)]"

section \<open>Keys\<close>

record PrimaryKeysArgs =
  pq_catalog :: "string option"
  pq_schema :: "string option"
  pq_table :: "string option"

definition MakeRequestGetPrimaryKeysMeta :: "Java \<Rightarrow> PrimaryKeysArgs \<Rightarrow> string + PrimaryKeyMeta list" where
  "MakeRequestGetPrimaryKeysMeta java a =
     ask java (GetPrimaryKeys java (pq_catalog a) (pq_schema a) (pq_table a)) ReadPrimaryKeysColumnMetaVector"

definition PrimaryKeysQuery_Execute ::
  "Java \<Rightarrow> PrimaryKeysArgs \<Rightarrow> PrimaryKeyMeta MetaQuery \<Rightarrow> io \<Rightarrow> SqlResult \<times> PrimaryKeyMeta MetaQuery \<times> io" where
  "PrimaryKeysQuery_Execute java a q dm =
     executed_with (if q_executed q then close_keys q else q) (MakeRequestGetPrimaryKeysMeta java a) dm"

definition PrimaryKeysQuery_GetColumn ::
  "Platform \<Rightarrow> PrimaryKeyMeta MetaQuery \<Rightarrow> nat \<Rightarrow> ApplicationDataBuffer \<Rightarrow> io \<Rightarrow> buf_error + (SqlResult \<times> io)" where
  "PrimaryKeysQuery_GetColumn pl q columnIdx b dm =
     (if \<not> q_executed q then Inr (AI_ERROR, not_executed dm)
      else if at_end q then Inr (AI_NO_DATA, dm)
      else
        let k = current_row q; str = (\<lambda>s. putting (PutOptString pl (snd dm) b s) dm)
        in if columnIdx = 1 then str (pk_catalog k)
           else if columnIdx = 2 then str (pk_schema k)
           else if columnIdx = 3 then str (pk_table k)
           else if columnIdx = 4 then str (pk_column k)
           else if columnIdx = 5 then putting (PutOptNum pl (snd dm) b 2 (pk_keySeq k)) dm
           else if columnIdx = 6 then str (pk_keyName k)
           else Inr (AI_SUCCESS, dm))"

definition PrimaryKeysQuery_FetchNextRow ::
  "Platform \<Rightarrow> PrimaryKeyMeta MetaQuery \<Rightarrow> bindings \<Rightarrow> io \<Rightarrow> buf_error + (SqlResult \<times> PrimaryKeyMeta MetaQuery \<times> io)" where
  "PrimaryKeysQuery_FetchNextRow pl = fetch_row (PrimaryKeysQuery_GetColumn pl)"

definition PrimaryKeysQuery_columns :: "ColumnMeta list" where
  "PrimaryKeysQuery_columns = meta_columns
     [(''TABLE_CAT'', JDBC_TYPE_VARCHAR, NULLABLE), (''TABLE_SCHEM'', JDBC_TYPE_VARCHAR, NULLABLE),
      (''TABLE_NAME'', JDBC_TYPE_VARCHAR, NO_NULL), (''COLUMN_NAME'', JDBC_TYPE_VARCHAR, NO_NULL),
      (''KEY_SEQ'', JDBC_TYPE_SMALLINT, NO_NULL), (''PK_NAME'', JDBC_TYPE_VARCHAR, NULLABLE)]"

record ForeignKeysArgs =
  fq_catalog :: "string option"
  fq_schema :: "string option"
  fq_table :: string

definition MakeRequestGetForeignKeysMeta :: "Java \<Rightarrow> ForeignKeysArgs \<Rightarrow> string + ForeignKeyMeta list" where
  "MakeRequestGetForeignKeysMeta java a =
     ask java (GetImportedKeys java (fq_catalog a) (fq_schema a) (fq_table a)) ReadForeignKeysColumnMetaVector"

definition ForeignKeysQuery_Execute ::
  "Java \<Rightarrow> ForeignKeysArgs \<Rightarrow> ForeignKeyMeta MetaQuery \<Rightarrow> io \<Rightarrow> SqlResult \<times> ForeignKeyMeta MetaQuery \<times> io" where
  "ForeignKeysQuery_Execute java a q dm =
     executed_with (if q_executed q then close_keys q else q) (MakeRequestGetForeignKeysMeta java a) dm"

definition ForeignKeysQuery_GetColumn ::
  "Platform \<Rightarrow> ForeignKeyMeta MetaQuery \<Rightarrow> nat \<Rightarrow> ApplicationDataBuffer \<Rightarrow> io \<Rightarrow> buf_error + (SqlResult \<times> io)" where
  "ForeignKeysQuery_GetColumn pl q columnIdx b dm =
     (if \<not> q_executed q then Inr (AI_ERROR, not_executed dm)
      else if at_end q then Inr (AI_NO_DATA, dm)
      else
        let k = current_row q;
            str = (\<lambda>s. putting (PutOptString pl (snd dm) b s) dm);
            num16 = (\<lambda>v. putting (PutOptNum pl (snd dm) b 2 v) dm)
        in if columnIdx = 1 then str (fk_PKCatalogName k)
           else if columnIdx = 2 then str (fk_PKSchemaName k)
           else if columnIdx = 3 then str (fk_PKTableName k)
           else if columnIdx = 4 then str (fk_PKColumnName k)
           else if columnIdx = 5 then str (fk_FKCatalogName k)
           else if columnIdx = 6 then str (fk_FKSchemaName k)
           else if columnIdx = 7 then str (fk_FKTableName k)
           else if columnIdx = 8 then str (fk_FKColumnName k)
           else if columnIdx = 9 then num16 (fk_keySeq k)
           else if columnIdx = 10 then num16 (fk_updateRule k)
           else if columnIdx = 11 then num16 (fk_deleteRule k)
           else if columnIdx = 12 then str (fk_FKName k)
           else if columnIdx = 13 then str (fk_PKName k)
           else if columnIdx = 14 then num16 (fk_deferrability k)
           else Inr (AI_SUCCESS, dm))"

definition ForeignKeysQuery_FetchNextRow ::
  "Platform \<Rightarrow> ForeignKeyMeta MetaQuery \<Rightarrow> bindings \<Rightarrow> io \<Rightarrow> buf_error + (SqlResult \<times> ForeignKeyMeta MetaQuery \<times> io)" where
  "ForeignKeysQuery_FetchNextRow pl = fetch_row (ForeignKeysQuery_GetColumn pl)"

definition ForeignKeysQuery_columns :: "ColumnMeta list" where
  "ForeignKeysQuery_columns = meta_columns
     [(''PKTABLE_CAT'', JDBC_TYPE_VARCHAR, NULLABLE), (''PKTABLE_SCHEM'', JDBC_TYPE_VARCHAR, NULLABLE),
      (''PKTABLE_NAME'', JDBC_TYPE_VARCHAR, NO_NULL), (''PKCOLUMN_NAME'', JDBC_TYPE_VARCHAR, NO_NULL),
      (''FKTABLE_CAT'', JDBC_TYPE_VARCHAR, NULLABLE), (''FKTABLE_SCHEM'', JDBC_TYPE_VARCHAR, NULLABLE),
      (''FKTABLE_NAME'', JDBC_TYPE_VARCHAR, NO_NULL), (''FKCOLUMN_NAME'', JDBC_TYPE_VARCHAR, NO_NULL),
      (''KEY_SEQ'', JDBC_TYPE_SMALLINT, NO_NULL), (''UPDATE_RULE'', JDBC_TYPE_SMALLINT, NO_NULL),
      (''DELETE_RULE'', JDBC_TYPE_SMALLINT, NO_NULL), (''FK_NAME'', JDBC_TYPE_VARCHAR, NULLABLE),
      (''PK_NAME'', JDBC_TYPE_VARCHAR, NULLABLE), (''DEFERRABILITY'', JDBC_TYPE_SMALLINT, NO_NULL)]"

section \<open>Type information\<close>

text \<open>The rows are a \<open>std::set\<close> of JDBC types: sorted and without duplicates. The request may stop in the
  middle with an error, which is put into the diagnostics; what was read so far is kept and \<open>Execute\<close>
  does not look at the result. Both sets are empty when a request starts.\<close>

definition set_emplace :: "int \<Rightarrow> int list \<Rightarrow> int list" where
  "set_emplace x xs = (if x \<in> set xs then xs else insort x xs)"

fun read_types :: "int \<Rightarrow> jni_row list \<Rightarrow> string option \<Rightarrow> int list \<Rightarrow> int list \<Rightarrow> (buf_error + string option) \<times> int list" where
  "read_types requested [] err sqlTypes types = (Inr err, types)"
| "read_types requested (r # rs) err sqlTypes types =
     (case row_int r ''DATA_TYPE'' of
        Inl msg \<Rightarrow> (Inr (Some msg), types)
      | Inr None \<Rightarrow> (Inl Undefined, types)
      | Inr (Some v) \<Rightarrow>
          let binaryType = to_signed 16 v; sqlType = the (BinaryToSqlType (Some binaryType))
          in if sqlType \<in> set sqlTypes then read_types requested rs err sqlTypes types
             else if requested = 0 then
               read_types requested rs err (set_emplace sqlType sqlTypes) (set_emplace binaryType types)
             else if requested = sqlType then (Inr None, set_emplace binaryType types)
             else read_types requested rs err sqlTypes types)"

definition MakeRequestGetTypeInfo :: "Java \<Rightarrow> int \<Rightarrow> int list \<Rightarrow> (buf_error + string option) \<times> int list" where
  "MakeRequestGetTypeInfo java requested types =
     (case java_metadata java of
        Some msg \<Rightarrow> (Inr (Some msg), types)
      | None \<Rightarrow> (case GetTypeInfo java of
                   Inl msg \<Rightarrow> (Inr (Some msg), types)
                 | Inr rs \<Rightarrow> read_types requested (rs_rows rs) (rs_error rs) [] types))"

definition TypeInfoQuery_Execute ::
  "Java \<Rightarrow> int \<Rightarrow> int MetaQuery \<Rightarrow> io \<Rightarrow> buf_error + (SqlResult \<times> int MetaQuery \<times> io)" where
  "TypeInfoQuery_Execute java requested q dm =
     (let done = (\<lambda>types dm'. Inr (AI_SUCCESS,
            q\<lparr>q_meta := types, q_executed := True, q_fetched := False, q_cursor := Some 0\<rparr>, dm'))
      in if q_meta q \<noteq> [] then done (q_meta q) dm
         else case MakeRequestGetTypeInfo java requested (q_meta q) of
                (Inl e, _) \<Rightarrow> Inl e
              | (Inr None, types) \<Rightarrow> done types dm
              | (Inr (Some msg), types) \<Rightarrow> done types (report SHY000_GENERAL_ERROR msg dm))"

definition TypeInfoQuery_GetColumn ::
  "Platform \<Rightarrow> int MetaQuery \<Rightarrow> nat \<Rightarrow> ApplicationDataBuffer \<Rightarrow> io \<Rightarrow> buf_error + (SqlResult \<times> io)" where
  "TypeInfoQuery_GetColumn pl q columnIdx b dm =
     (if \<not> q_executed q then Inr (AI_ERROR, not_executed dm)
      else if at_end q then Inr (AI_ERROR, past_end dm)
      else
        let t = to_signed 8 (current_row q); type = Some t; m = snd dm;
            str = (\<lambda>s. putting (PutOptString pl m b s) dm);
            num16 = (\<lambda>v. putting (PutOptNum pl m b 2 v) dm);
            num32 = (\<lambda>v. putting (PutOptNum pl m b 4 v) dm);
            null = putting (Inr (PutNull m b)) dm;
            flag = (\<lambda>c. if c then 1 else 0)
        in if columnIdx = 1 then str (BinaryTypeToSqlTypeName type)
           else if columnIdx = 2 \<or> columnIdx = 16 then num16 (BinaryToSqlType type)
           else if columnIdx = 3 then num32 (BinaryTypeColumnSize type)
           else if columnIdx = 4 then
             (if isCharType t then str (Some [CHR 0x27])
              else if t \<in> {JDBC_TYPE_BINARY, JDBC_TYPE_VARBINARY, JDBC_TYPE_LONGVARBINARY, 27} then str (Some ''0x'')
              else null)
           else if columnIdx = 5 then (if isCharType t then str (Some [CHR 0x27]) else null)
           else if columnIdx = 6 then null
           else if columnIdx = 7 then num32 (Some (BinaryTypeNullability t))
           else if columnIdx = 8 then num16 (Some (flag (isCharType t)))
           else if columnIdx = 9 then num16 (Some 3)
           else if columnIdx = 10 then num16 (Some (flag (BinaryTypeUnsigned type)))
           else if columnIdx = 11 \<or> columnIdx = 12 then num16 (Some 0)
           else if columnIdx = 13 then null
           else if columnIdx = 14 \<or> columnIdx = 15 then num16 (BinaryTypeDecimalDigits type)
           else if columnIdx = 17 then null
           else if columnIdx = 18 then num32 (BinaryTypeNumPrecRadix type)
           else if columnIdx = 19 then null
           else Inr (AI_SUCCESS, dm))"

definition TypeInfoQuery_FetchNextRow ::
  "Platform \<Rightarrow> int MetaQuery \<Rightarrow> bindings \<Rightarrow> io \<Rightarrow> buf_error + (SqlResult \<times> int MetaQuery \<times> io)" where
  "TypeInfoQuery_FetchNextRow pl = fetch_row (TypeInfoQuery_GetColumn pl)"

definition TypeInfoQuery_Close :: "int MetaQuery \<Rightarrow> int MetaQuery" where
  "TypeInfoQuery_Close q = q\<lparr>q_executed := False, q_cursor := Some (length (q_meta q))\<rparr>"

definition TypeInfoQuery_columns :: "ColumnMeta list" where
  "TypeInfoQuery_columns = meta_columns (map (\<lambda>(name, type). (name, type, NULLABILITY_UNKNOWN))
     [(''TYPE_NAME'', JDBC_TYPE_VARCHAR), (''DATA_TYPE'', JDBC_TYPE_SMALLINT), (''COLUMN_SIZE'', JDBC_TYPE_INTEGER),
      (''LITERAL_PREFIX'', JDBC_TYPE_VARCHAR), (''LITERAL_SUFFIX'', JDBC_TYPE_VARCHAR), (''CREATE_PARAMS'', JDBC_TYPE_VARCHAR),
      (''NULLABLE'', JDBC_TYPE_SMALLINT), (''CASE_SENSITIVE'', JDBC_TYPE_SMALLINT), (''SEARCHABLE'', JDBC_TYPE_SMALLINT),
      (''UNSIGNED_ATTRIBUTE'', JDBC_TYPE_SMALLINT), (''FIXED_PREC_SCALE'', JDBC_TYPE_SMALLINT),
      (''AUTO_UNIQUE_VALUE'', JDBC_TYPE_SMALLINT), (''LOCAL_TYPE_NAME'', JDBC_TYPE_VARCHAR),
      (''MINIMUM_SCALE'', JDBC_TYPE_SMALLINT), (''MAXIMUM_SCALE'', JDBC_TYPE_SMALLINT),
      (''SQL_DATA_TYPE'', JDBC_TYPE_SMALLINT), (''SQL_DATETIME_SUB'', JDBC_TYPE_SMALLINT),
      (''NUM_PREC_RADIX'', JDBC_TYPE_INTEGER), (''INTERVAL_PRECISION'', JDBC_TYPE_SMALLINT)])"

section \<open>Special columns\<close>

text \<open>This query has no rows; its state is the flag \<open>executed\<close>.\<close>

definition SpecialColumnsQuery_FetchNextRow :: "bool \<Rightarrow> bindings \<Rightarrow> io \<Rightarrow> SqlResult \<times> io" where
  "SpecialColumnsQuery_FetchNextRow executed bs dm =
     (if \<not> executed then (AI_ERROR, not_executed dm) else (AI_NO_DATA, dm))"

definition SpecialColumnsQuery_GetColumn :: "bool \<Rightarrow> nat \<Rightarrow> ApplicationDataBuffer \<Rightarrow> io \<Rightarrow> SqlResult \<times> io" where
  "SpecialColumnsQuery_GetColumn executed columnIdx b dm =
     (if \<not> executed then (AI_ERROR, not_executed dm) else (AI_NO_DATA, dm))"

definition SpecialColumnsQuery_columns :: "ColumnMeta list" where
  "SpecialColumnsQuery_columns = meta_columns (map (\<lambda>(name, type). (name, type, NULLABILITY_UNKNOWN))
     [(''SCOPE'', 2), (''COLUMN_NAME'', 9), (''DATA_TYPE'', 2), (''TYPE_NAME'', 9), (''COLUMN_SIZE'', 3),
      (''BUFFER_LENGTH'', 3), (''DECIMAL_DIGITS'', 2), (''PSEUDO_COLUMN'', 2)])"

section \<open>Scans\<close>

text \<open>What a statement relies on when it fetches: the position a fetch leaves, and its result.\<close>

definition position :: "'r MetaQuery \<Rightarrow> nat" where
  "position q = (if \<not> q_fetched q then 0 else the (q_cursor q) + 1)"

definition opened :: "'r MetaQuery \<Rightarrow> bool" where
  "opened q \<longleftrightarrow> q_executed q \<and> q_cursor q \<noteq> None \<and> (\<not> q_fetched q \<longrightarrow> q_cursor q = Some 0) \<and>
     the (q_cursor q) \<le> length (q_meta q)"

text \<open>What \<open>n\<close> fetches with no bound column return, with the row the query then stands on.\<close>

fun scan ::
  "('r MetaQuery \<Rightarrow> bindings \<Rightarrow> io \<Rightarrow> buf_error + (SqlResult \<times> 'r MetaQuery \<times> io)) \<Rightarrow> nat \<Rightarrow>
   'r MetaQuery \<Rightarrow> io \<Rightarrow> (SqlResult \<times> 'r option) list" where
  "scan FetchNextRow 0 q dm = []"
| "scan FetchNextRow (Suc n) q dm =
     (case FetchNextRow q [] dm of
        Inl e \<Rightarrow> []
      | Inr (res, q', dm') \<Rightarrow>
          (res, if res = AI_SUCCESS then Some (current_row q') else None) # scan FetchNextRow n q' dm')"

locale row_source =
  fixes FetchNextRow :: "'r MetaQuery \<Rightarrow> bindings \<Rightarrow> io \<Rightarrow> buf_error + (SqlResult \<times> 'r MetaQuery \<times> io)"
  assumes refused: "\<not> q_executed q \<Longrightarrow> FetchNextRow q bs dm = Inr (AI_ERROR, q, not_executed dm)"
    and exhausted: "opened q \<Longrightarrow> length (q_meta q) \<le> position q \<Longrightarrow>
      \<exists>q'. FetchNextRow q bs dm = Inr (AI_NO_DATA, q', dm) \<and> opened q' \<and> q_meta q' = q_meta q \<and>
        length (q_meta q) \<le> position q'"
    and delivered: "opened q \<Longrightarrow> position q < length (q_meta q) \<Longrightarrow>
      (\<exists>e. FetchNextRow q bs dm = Inl e) \<or>
      (\<exists>q' dm'. FetchNextRow q bs dm = Inr (AI_SUCCESS, q', dm') \<and> opened q' \<and> q_meta q' = q_meta q \<and>
        position q' = position q + 1 \<and> current_row q' = q_meta q ! position q)"
    and unbound: "opened q \<Longrightarrow> \<exists>r. FetchNextRow q [] dm = Inr r"
begin

lemma scan_exhausted:
  "opened q \<Longrightarrow> length (q_meta q) \<le> position q \<Longrightarrow> scan FetchNextRow n q dm = replicate n (AI_NO_DATA, None)"
proof (induction n arbitrary: q)
  case (Suc n)
  from exhausted [OF Suc.prems, of "[]" dm] obtain q' where
    "FetchNextRow q [] dm = Inr (AI_NO_DATA, q', dm)" "opened q'" "q_meta q' = q_meta q" "length (q_meta q) \<le> position q'"
    by blast
  with Suc.IH [of q'] show ?case by simp
qed simp

lemma scan_rows:
  "opened q \<Longrightarrow> position q \<le> length (q_meta q) \<Longrightarrow>
   scan FetchNextRow (length (q_meta q) - position q + n) q dm =
     map (\<lambda>r. (AI_SUCCESS, Some r)) (drop (position q) (q_meta q)) @ replicate n (AI_NO_DATA, None)"
proof (induction "length (q_meta q) - position q" arbitrary: q dm)
  case 0
  then show ?case by (simp add: scan_exhausted)
next
  case (Suc k)
  then have "position q < length (q_meta q)" by simp
  with delivered [OF Suc.prems(1) this, of "[]" dm] unbound [OF Suc.prems(1), of dm] obtain q' dm' where
    q': "FetchNextRow q [] dm = Inr (AI_SUCCESS, q', dm')" "opened q'" "q_meta q' = q_meta q"
      "position q' = position q + 1" "current_row q' = q_meta q ! position q"
    by auto
  have k: "k = length (q_meta q') - position q'" using Suc.hyps(2) q'(3,4) by simp
  have "length (q_meta q) - position q + n = Suc (length (q_meta q') - position q' + n)"
    using Suc.hyps(2) k by simp
  with Suc.hyps(1) [OF k q'(2)] q' \<open>position q < length (q_meta q)\<close> show ?case
    by (simp add: Cons_nth_drop_Suc [symmetric])
qed

end

lemma advance_exhausted:
  assumes "opened q" and "length (q_meta q) \<le> position q"
  shows "at_end (advance q)" "opened (advance q)" "q_meta (advance q) = q_meta q"
    "length (q_meta q) \<le> position (advance q)"
  using assms
  by (cases "q_cursor q"; auto simp: opened_def advance_def at_end_def position_def split: if_splits)+

lemma advance_delivered:
  assumes "opened q" and "position q < length (q_meta q)"
  shows "\<not> at_end (advance q)" "opened (advance q)" "q_meta (advance q) = q_meta q"
    "position (advance q) = position q + 1" "current_row (advance q) = q_meta q ! position q"
  using assms
  by (cases "q_cursor q"; auto simp: opened_def advance_def at_end_def position_def current_row_def split: if_splits)+

lemma opened_executed: "opened q \<Longrightarrow> q_executed q"
  by (simp add: opened_def)

lemma fetch_row_source: "row_source (fetch_row GetColumn)"
  by unfold_locales
    (auto simp: fetch_row_def Let_def opened_executed advance_exhausted advance_delivered split: sum.splits)

interpretation tables: row_source "TableMetadataQuery_FetchNextRow pl"
  unfolding TableMetadataQuery_FetchNextRow_def by (rule fetch_row_source)

interpretation cols: row_source "ColumnMetadataQuery_FetchNextRow pl"
  unfolding ColumnMetadataQuery_FetchNextRow_def by (rule fetch_row_source)

interpretation pkeys: row_source "PrimaryKeysQuery_FetchNextRow pl"
  unfolding PrimaryKeysQuery_FetchNextRow_def by (rule fetch_row_source)

interpretation fkeys: row_source "ForeignKeysQuery_FetchNextRow pl"
  unfolding ForeignKeysQuery_FetchNextRow_def by (rule fetch_row_source)

interpretation types: row_source "TypeInfoQuery_FetchNextRow pl"
  unfolding TypeInfoQuery_FetchNextRow_def by (rule fetch_row_source)

lemma executed_opened:
  "executed_with q (Inr rows) dm = (AI_SUCCESS, q', dm') \<Longrightarrow> opened q' \<and> position q' = 0 \<and> q_meta q' = rows"
  by (auto simp: executed_with_def opened_def position_def)

text \<open>(C31) A catalogue query that the database answers always succeeds, whatever state the query was in, and the
  fetches that follow deliver exactly the rows of the answer, each once and in order, then report that there is no more
  data however often they are called.\<close>
theorem table_scan_complete:
  assumes "MakeRequestGetTablesMeta java a = Inr rows"
    and "TableMetadataQuery_Execute java a q dm = (res, q', dm')"
  shows "res = AI_SUCCESS \<and> dm' = dm \<and>
    scan (TableMetadataQuery_FetchNextRow pl) (length rows + n) q' dm' =
      map (\<lambda>r. (AI_SUCCESS, Some r)) rows @ replicate n (AI_NO_DATA, None)"
proof -
  have res: "res = AI_SUCCESS" "dm' = dm"
    using assms by (auto simp: TableMetadataQuery_Execute_def executed_with_def)
  then have "opened q'" "position q' = 0" "q_meta q' = rows"
    using assms executed_opened by (fastforce simp: TableMetadataQuery_Execute_def)+
  with tables.scan_rows [of q' pl n dm'] res show ?thesis by simp
qed

text \<open>A database with one table, which answers every request with it.\<close>

definition one_row :: ResultSet where
  "one_row = \<lparr>rs_rows = [\<lparr>row_text = [''TABLE_NAME'' \<mapsto> ''a''], row_int = (\<lambda>_. Inr None)\<rparr>], rs_error = None\<rparr>"

definition small_java :: Java where
  "small_java = \<lparr>java_metadata = None, GetTables = (\<lambda>_ _ _ _. Inr one_row), GetColumns = (\<lambda>_ _ _ _. Inr one_row),
     GetPrimaryKeys = (\<lambda>_ _ _. Inr one_row), GetImportedKeys = (\<lambda>_ _ _. Inr one_row), GetTypeInfo = Inr one_row\<rparr>"

theorem table_scan_complete_witness:
  "\<exists>q'. TableMetadataQuery_Execute small_java \<lparr>tq_catalog = None, tq_schema = None, tq_table = [], tq_tableType = None\<rparr>
        newMetaQuery (newStorage, \<lambda>_. 0) = (AI_SUCCESS, q', newStorage, \<lambda>_. 0) \<and>
      scan (TableMetadataQuery_FetchNextRow (plain_platform 8)) 2 q' (newStorage, \<lambda>_. 0) =
        [(AI_SUCCESS, Some (TableMeta_Read (hd (rs_rows one_row)))), (AI_NO_DATA, None)]"
proof -
  let ?a = "\<lparr>tq_catalog = None, tq_schema = None, tq_table = [], tq_tableType = None\<rparr>"
  have r: "MakeRequestGetTablesMeta small_java ?a = Inr [TableMeta_Read (hd (rs_rows one_row))]"
    by (simp add: MakeRequestGetTablesMeta_def ask_def small_java_def ReadTableMetaVector_def one_row_def)
  obtain res q' dm' where x: "TableMetadataQuery_Execute small_java ?a newMetaQuery (newStorage, \<lambda>_. 0) = (res, q', dm')"
    by (metis prod_cases3)
  have "res = AI_SUCCESS \<and> dm' = (newStorage, \<lambda>_. 0) \<and> scan (TableMetadataQuery_FetchNextRow (plain_platform 8)) 2 q' dm' =
      [(AI_SUCCESS, Some (TableMeta_Read (hd (rs_rows one_row)))), (AI_NO_DATA, None)]"
    using table_scan_complete [OF r x, of "plain_platform 8" 1] by (auto simp add: numeral_2_eq_2 simp del: scan.simps)
  with x show ?thesis by (auto simp del: scan.simps)
qed

end
