(* ===== verification/Odbc_Connection.thy ===== *)
theory Odbc_Connection
  imports Odbc_Dsn Odbc_MetaQuery
begin

text \<open>
  Connections (\<open>connection.cpp\<close>, \<open>jni/documentdb_connection.cpp\<close>, \<open>config/connection_info.cpp\<close>): a
  connection to the Java side and to the database, the information an application can ask for, the
  attributes, and the translation of statements. The Java machine and the database client are
  parameters: they answer each request the driver makes of them.
\<close>

section \<open>Connection information\<close>

record ConnectionInfo =
  strParams :: "int \<rightharpoonup> string"
  intParams :: "int \<rightharpoonup> int"
  shortParams :: "int \<rightharpoonup> int"

definition GetInfo ::
  "nat \<Rightarrow> ConnectionInfo \<Rightarrow> int \<Rightarrow> nat option \<Rightarrow> int \<Rightarrow> nat option \<Rightarrow> mem \<Rightarrow> SqlResult \<times> mem" where
  "GetInfo wCharSize info type buf bufLength resLen m =
     (case strParams info type of
        Some s \<Rightarrow>
          if buf \<noteq> None \<and> bufLength = 0 then (AI_ERROR, m)
          else
            let (m', strlen, isTruncated) = CopyStringToBuffer wCharSize m s buf (nat (bufLength mod 2 ^ 64)) True
            in (AI_SUCCESS, case resLen of None \<Rightarrow> m' | Some a \<Rightarrow> write_bytes m' a (int_bytes 2 (int strlen)))
      | None \<Rightarrow>
          (case buf of
             None \<Rightarrow> (AI_ERROR, m)
           | Some a \<Rightarrow>
               (case intParams info type of
                  Some v \<Rightarrow> (AI_SUCCESS, write_bytes m a (int_bytes 4 v))
                | None \<Rightarrow>
                    (case shortParams info type of
                       Some v \<Rightarrow> (AI_SUCCESS, write_bytes m a (int_bytes 2 v))
                     | None \<Rightarrow> (AI_ERROR, m)))))"

definition SetInfo :: "int \<Rightarrow> string \<Rightarrow> ConnectionInfo \<Rightarrow> SqlResult \<times> ConnectionInfo" where
  "SetInfo type value info =
     (if strParams info type \<noteq> None then (AI_SUCCESS, info\<lparr>strParams := (strParams info)(type \<mapsto> value)\<rparr>)
      else (AI_ERROR, info))"

abbreviation (input) "SQL_DATA_SOURCE_NAME \<equiv> 2 :: int"
abbreviation (input) "SQL_DATABASE_NAME \<equiv> 16 :: int"
abbreviation (input) "SQL_DBMS_VER \<equiv> 18 :: int"
abbreviation (input) "SQL_USER_NAME \<equiv> 47 :: int"

section \<open>What answers from outside\<close>

text \<open>The database client: an exception the driver catches, one it does not, a refused ping, or a connection
  with the elements of the version array when the server tells one. The first argument of a failure says whether the
  client object had been created.\<close>

datatype mongo_answer =
    Mongo_failed bool int string string
  | Mongo_thrown
  | Mongo_no_ping
  | Mongo_connected "bson_value list option"

record Backend =
  classpath :: string
  create_jvm :: JniErrorInfo
  open_jdbc :: "string \<Rightarrow> JniErrorInfo \<times> bool"
  ssh_active :: "JniErrorInfo + bool"
  ssh_port :: "JniErrorInfo + int"
  mongo_connect :: "string \<Rightarrow> bool \<Rightarrow> string \<Rightarrow> mongo_answer"
  jdbc_metadata :: "JniErrorInfo option"
  jdbc_database_metadata :: "JniErrorInfo option"
  jdbc_properties :: "JniErrorInfo option"
  catalogue :: Java

section \<open>State\<close>

text \<open>\<open>con_connection\<close> is the pointer to the Java connection: \<open>None\<close> when it is null, and otherwise whether
  the object it points to has been opened.\<close>

record Connection =
  con_diag :: DiagnosticRecordStorage
  con_config :: Configuration
  con_info :: ConnectionInfo
  con_connection :: "bool option"
  con_jni :: bool
  con_mongo :: bool

definition newConnection :: "Host \<Rightarrow> ConnectionInfo \<Rightarrow> Connection" where
  "newConnection h info =
     \<lparr>con_diag = newStorage, con_config = newConfiguration h, con_info = info, con_connection = None, con_jni = False,
      con_mongo = False\<rparr>"

definition con_report :: "SqlState \<Rightarrow> string \<Rightarrow> Connection \<Rightarrow> Connection" where
  "con_report st msg c = c\<lparr>con_diag := AddStatusRecord st msg (con_diag c)\<rparr>"

definition IsValid :: "Connection \<Rightarrow> bool" where
  "IsValid c \<longleftrightarrow> con_connection c \<noteq> None"

section \<open>Opening\<close>

text \<open>\<open>GetJniContext\<close>: the context is created when there is none and there is a class path.\<close>

definition GetJniContext :: "Backend \<Rightarrow> Connection \<Rightarrow> JniErrorInfo \<times> Connection" where
  "GetJniContext be c =
     (if con_jni c then (newJniErrorInfo, c)
      else if classpath be = [] then (newJniErrorInfo, c)
      else (create_jvm be, c\<lparr>con_jni := (jni_code (create_jvm be) = JNI_ERR_SUCCESS)\<rparr>))"

text \<open>\<open>DocumentDbConnection::Open\<close> on a new object: the error and whether the object is open.\<close>

definition DocumentDbConnection_Open :: "Backend \<Rightarrow> bool \<Rightarrow> Configuration \<Rightarrow> JniErrorInfo \<times> bool" where
  "DocumentDbConnection_Open be jni config =
     (if \<not> jni then
        (\<lparr>jni_code = JNI_ERR_JVM_INIT, errCls = [], errMsg = ''Unable to get initialized JVM.''\<rparr>, False)
      else let (errInfo, result) = open_jdbc be (ToJdbcConnectionString config)
           in (errInfo, jni_code errInfo = JNI_ERR_SUCCESS \<and> result))"

definition GetInternalSSHTunnelPort :: "Backend \<Rightarrow> DocumentDbError + int" where
  "GetInternalSSHTunnelPort be =
     (case ssh_active be of
        Inl e \<Rightarrow> Inl (error_of DOCUMENTDB_ERR_JVM_INIT (errMsg e))
      | Inr isSSHTunnelActive \<Rightarrow>
          if isSSHTunnelActive then
            (case ssh_port be of Inl e \<Rightarrow> Inl (error_of DOCUMENTDB_ERR_JVM_INIT (errMsg e)) | Inr p \<Rightarrow> Inr p)
          else Inr 0)"

text \<open>The elements of the version: text elements fall through to the default.\<close>

fun version_element :: "bson_value \<Rightarrow> int" where
  "version_element (k_int32 v) = v"
| "version_element (k_int64 v) = v"
| "version_element _ = 0"

definition version_part :: "nat \<Rightarrow> int \<Rightarrow> string" where
  "version_part index v =
     (if index = 0 then pad_left 2 (CHR ''0'') (int_string v)
      else if index = 1 then ''.'' @ pad_left 2 (CHR ''0'') (int_string v)
      else if index = 2 then ''.'' @ pad_left 4 (CHR ''0'') (int_string v)
      else [])"

definition UpdateSqlDbmsVerInfo :: "bson_value list option \<Rightarrow> ConnectionInfo \<Rightarrow> ConnectionInfo" where
  "UpdateSqlDbmsVerInfo versionArray info =
     (case versionArray of
        None \<Rightarrow> info
      | Some es \<Rightarrow>
          snd (SetInfo SQL_DBMS_VER
            (concat (map (\<lambda>(i, e). version_part i (version_element e)) (enumerate 0 es))) info))"

definition UpdateConnectionRuntimeInfo :: "Configuration \<Rightarrow> ConnectionInfo \<Rightarrow> ConnectionInfo" where
  "UpdateConnectionRuntimeInfo config info =
     snd (SetInfo SQL_DATA_SOURCE_NAME (GetDsn config ''DocumentDB DSN'')
       (snd (SetInfo SQL_DATABASE_NAME (sv_val (database config))
         (snd (SetInfo SQL_USER_NAME (sv_val (user config)) info)))))"

definition connect_failure :: "int \<Rightarrow> string \<Rightarrow> string \<Rightarrow> string" where
  "connect_failure code msg cause =
     ''Unable to establish connection with DocumentDB. code: '' @ int_string code @ '' messagge: '' @ msg @
     '' cause: '' @ cause"

definition ConnectCPPDocumentDB ::
  "Backend \<Rightarrow> int \<Rightarrow> Connection \<Rightarrow> buf_error + (DocumentDbError option \<times> Connection)" where
  "ConnectCPPDocumentDB be localSSHTunnelPort c =
     (let config = con_config c; c' = c\<lparr>con_mongo := True\<rparr>
      in case mongo_connect be (ToMongoDbConnectionString config localSSHTunnelPort) (sv_val (tls config))
                (sv_val (database config)) of
           Mongo_thrown \<Rightarrow> Inl Uncaught
         | Mongo_failed created code msg cause \<Rightarrow>
             Inr (Some (error_of DOCUMENTDB_ERR_SECURE_CONNECTION_FAILURE (connect_failure code msg cause)),
                  if created then c' else c)
         | Mongo_no_ping \<Rightarrow> Inr (Some (error_of DOCUMENTDB_ERR_NETWORK_FAILURE ''Unable to ping DocumentDB.''), c')
         | Mongo_connected v \<Rightarrow> Inr (None, c'\<lparr>con_info := UpdateSqlDbmsVerInfo v (con_info c)\<rparr>))"

text \<open>\<open>TryRestoreConnection\<close>: \<open>None\<close> when connected, else the error. The pointer is set to the new object before
  it is known whether the object is open. An object that is not open without an error code leaves the error empty.\<close>

definition TryRestoreConnection :: "Backend \<Rightarrow> Connection \<Rightarrow> buf_error + (DocumentDbError option \<times> Connection)" where
  "TryRestoreConnection be c =
     (if IsValid c then Inr (None, c)
      else
        let (errInfo, c1) = GetJniContext be c
        in if jni_code errInfo \<noteq> JNI_ERR_SUCCESS then
             Inr (Some (error_of (jni_number (jni_code errInfo)) (errCls errInfo @ '': '' @ errMsg errInfo)), c1)
           else
             let (errInfo, isOpen) = DocumentDbConnection_Open be (con_jni c1) (con_config c1);
                 err = (if jni_code errInfo \<noteq> JNI_ERR_SUCCESS
                        then error_of DOCUMENTDB_ERR_SECURE_CONNECTION_FAILURE (errMsg errInfo) else no_error);
                 c2 = c1\<lparr>con_connection := Some isOpen\<rparr>
             in if \<not> (isOpen \<and> jni_code errInfo = JNI_ERR_SUCCESS) then Inr (Some err, c2)
                else case GetInternalSSHTunnelPort be of
                       Inl e \<Rightarrow> Inr (Some e, c2)
                     | Inr localSSHTunnelPort \<Rightarrow>
                         (case ConnectCPPDocumentDB be localSSHTunnelPort c2 of
                            Inl e \<Rightarrow> Inl e
                          | Inr (err, c3) \<Rightarrow>
                              Inr (err, c3\<lparr>con_info := UpdateConnectionRuntimeInfo (con_config c3) (con_info c3)\<rparr>)))"

definition new_line :: string where "new_line = [CHR 0x0A]"

definition InternalEstablish ::
  "Backend \<Rightarrow> Configuration \<Rightarrow> Connection \<Rightarrow> buf_error + (SqlResult \<times> Connection)" where
  "InternalEstablish be cfg c =
     (let c1 = c\<lparr>con_config := cfg\<rparr>
      in if IsValid c1 then Inr (AI_ERROR, con_report S08002_ALREADY_CONNECTED ''Already connected.'' c1)
         else case Validate cfg of
                Some msg \<Rightarrow> Inr (AI_ERROR, con_report S01S00_INVALID_CONNECTION_STRING_ATTRIBUTE msg c1)
              | None \<Rightarrow>
                  (case TryRestoreConnection be c1 of
                     Inl e \<Rightarrow> Inl e
                   | Inr (Some err, c2) \<Rightarrow>
                       Inr (AI_ERROR, con_report S08001_CANNOT_CONNECT
                         (''Failed to establish connection with the host.'' @ new_line @ GetText err) c2)
                   | Inr (None, c2) \<Rightarrow>
                       Inr (if GetStatusRecordsNumber (con_diag c2) > 0 then AI_SUCCESS_WITH_INFO else AI_SUCCESS, c2)))"

definition InternalEstablish_string ::
  "Backend \<Rightarrow> Host \<Rightarrow> 'i Installer \<Rightarrow> 'i \<Rightarrow> string \<Rightarrow> Connection \<Rightarrow> buf_error + (SqlResult \<times> Connection)" where
  "InternalEstablish_string be h inst ini connectStr c =
     (let (config, diag) = ParseConnectionString h connectStr (con_config c, Some (con_diag c));
          c1 = c\<lparr>con_config := config, con_diag := the diag\<rparr>
      in case (if sv_set (dsn config) then ReadDsnConfiguration h inst ini (c_cut (sv_val (dsn config))) config else Inr config) of
           Inl e \<Rightarrow> Inl e
         | Inr config \<Rightarrow> InternalEstablish be config (c1\<lparr>con_config := config\<rparr>))"

definition EnsureConnected :: "Backend \<Rightarrow> Connection \<Rightarrow> buf_error + (string option \<times> Connection)" where
  "EnsureConnected be c =
     (if IsValid c then Inr (None, c)
      else case TryRestoreConnection be c of
             Inl e \<Rightarrow> Inl e
           | Inr (None, c') \<Rightarrow> Inr (None, c')
           | Inr (Some err, c') \<Rightarrow>
               let msg = ''Failed to establish connection with any provided hosts'' @ new_line @ GetText err
               in Inr (Some msg, con_report S08001_CANNOT_CONNECT msg c'))"

section \<open>Closing\<close>

definition Connection_Close :: "Connection \<Rightarrow> Connection" where
  "Connection_Close c = (if con_jni c \<and> IsValid c then c\<lparr>con_connection := None\<rparr> else c)"

definition InternalRelease :: "Connection \<Rightarrow> SqlResult \<times> Connection" where
  "InternalRelease c =
     (if \<not> IsValid c then (AI_SUCCESS_WITH_INFO, con_report S08003_NOT_CONNECTED ''Connection is not open.'' c)
      else (AI_SUCCESS, Connection_Close c))"

section \<open>What statements ask of a connection\<close>

definition must_be_connected :: DocumentDbError where
  "must_be_connected = error_of DOCUMENTDB_ERR_ILLEGAL_STATE ''Must be connected.''"

text \<open>The three objects of the Java connection: \<open>None\<close> when the object is there, else the error. On a connection
  that has not been opened the first reports no message.\<close>

definition Connection_GetMetaData :: "Backend \<Rightarrow> Connection \<Rightarrow> DocumentDbError option" where
  "Connection_GetMetaData be c =
     (case con_connection c of
        None \<Rightarrow> Some must_be_connected
      | Some isOpen \<Rightarrow>
          if \<not> isOpen then Some (error_of DOCUMENTDB_ERR_JNI_GET_DATABASE_METADATA [])
          else map_option (\<lambda>e. error_of DOCUMENTDB_ERR_JNI_GET_DATABASE_METADATA (errMsg e)) (jdbc_metadata be))"

definition Connection_GetDatabaseMetadata :: "Backend \<Rightarrow> Connection \<Rightarrow> DocumentDbError option" where
  "Connection_GetDatabaseMetadata be c =
     (case con_connection c of
        None \<Rightarrow> Some must_be_connected
      | Some isOpen \<Rightarrow>
          if \<not> isOpen then Some (error_of DOCUMENTDB_ERR_JNI_GET_DOCUMENTDB_DATABASE_METADATA ''Connection must be set.'')
          else map_option (\<lambda>e. error_of DOCUMENTDB_ERR_JNI_GET_DOCUMENTDB_DATABASE_METADATA (errMsg e))
                 (jdbc_database_metadata be))"

definition Connection_GetConnectionProperties :: "Backend \<Rightarrow> Connection \<Rightarrow> DocumentDbError option" where
  "Connection_GetConnectionProperties be c =
     (case con_connection c of
        None \<Rightarrow> Some must_be_connected
      | Some isOpen \<Rightarrow>
          if \<not> isOpen then Some (error_of DOCUMENTDB_ERR_JNI_GET_DOCUMENTDB_CONNECTION_PROPERTIES ''Connection must be set.'')
          else map_option (\<lambda>e. error_of DOCUMENTDB_ERR_JNI_GET_DOCUMENTDB_CONNECTION_PROPERTIES (errMsg e))
                 (jdbc_properties be))"

text \<open>The catalogue as the queries of a statement see it through its connection.\<close>

definition connection_java :: "Backend \<Rightarrow> Connection \<Rightarrow> Java" where
  "connection_java be c = (catalogue be)\<lparr>java_metadata := map_option GetText (Connection_GetMetaData be c)\<rparr>"

definition GetSchema :: "Connection \<Rightarrow> string" where
  "GetSchema c = sv_val (database (con_config c))"

section \<open>Attributes\<close>

abbreviation (input) "SQL_ATTR_LOGIN_TIMEOUT \<equiv> 103 :: int"
abbreviation (input) "SQL_ATTR_CONNECTION_DEAD \<equiv> 1209 :: int"
abbreviation (input) "SQL_IS_POINTER \<equiv> -4 :: int"
abbreviation (input) "SQL_IS_UINTEGER \<equiv> -5 :: int"
abbreviation (input) "SQL_IS_INTEGER \<equiv> -6 :: int"

definition put_int :: "nat option \<Rightarrow> nat \<Rightarrow> int \<Rightarrow> mem \<Rightarrow> mem" where
  "put_int p n v m = (case p of None \<Rightarrow> m | Some a \<Rightarrow> write_bytes m a (int_bytes n v))"

type_synonym con_mem = "Connection \<times> mem"

definition Connection_InternalGetAttribute ::
  "int \<Rightarrow> nat option \<Rightarrow> nat option \<Rightarrow> con_mem \<Rightarrow> SqlResult \<times> con_mem" where
  "Connection_InternalGetAttribute attr buf valueLen s =
     (let (c, m) = s
      in case buf of
           None \<Rightarrow> (AI_ERROR, con_report SHY009_INVALID_USE_OF_NULL_POINTER ''Data buffer is null.'' c, m)
         | Some a \<Rightarrow>
             if attr = SQL_ATTR_CONNECTION_DEAD then
               (AI_SUCCESS, c, put_int valueLen 4 SQL_IS_INTEGER (write_bytes m a (int_bytes 4 (if IsValid c then 0 else 1))))
             else if attr = SQL_ATTR_LOGIN_TIMEOUT then
               (AI_SUCCESS, c, put_int valueLen 4 SQL_IS_INTEGER
                  (write_bytes m a (int_bytes 4 (sv_val (loginTimeoutSec (con_config c))))))
             else (AI_ERROR, con_report SHYC00_OPTIONAL_FEATURE_NOT_IMPLEMENTED ''Specified attribute is not supported.'' c, m))"

text \<open>The message names \<open>timeout_\<close>, which is never set.\<close>

definition RetrieveTimeout :: "int \<Rightarrow> Connection \<Rightarrow> int \<times> Connection" where
  "RetrieveTimeout value c =
     (let uTimeout = value mod 2 ^ 32
      in if uTimeout > INT32_MAX then
           (INT32_MAX, con_report S01S02_OPTION_VALUE_CHANGED
              (''Value is too big: '' @ int_string uTimeout @ '', changing to '' @ int_string 0 @ ''.'') c)
         else (uTimeout, c))"

definition Connection_InternalSetAttribute :: "int \<Rightarrow> int \<Rightarrow> Connection \<Rightarrow> SqlResult \<times> Connection" where
  "Connection_InternalSetAttribute attr value c =
     (if attr = SQL_ATTR_CONNECTION_DEAD then
        (AI_ERROR, con_report SHY092_OPTION_TYPE_OUT_OF_RANGE ''Attribute is read only.'' c)
      else if attr = SQL_ATTR_LOGIN_TIMEOUT then
        let (t, c1) = RetrieveTimeout value c; c2 = c1\<lparr>con_config := SetLoginTimeoutSeconds t (con_config c1)\<rparr>
        in (if GetStatusRecordsNumber (con_diag c2) \<noteq> 0 then AI_SUCCESS_WITH_INFO else AI_SUCCESS, c2)
      else (AI_ERROR, con_report SHYC00_OPTIONAL_FEATURE_NOT_IMPLEMENTED ''Specified attribute is not supported.'' c))"

definition InternalGetInfo ::
  "nat \<Rightarrow> int \<Rightarrow> nat option \<Rightarrow> int \<Rightarrow> nat option \<Rightarrow> con_mem \<Rightarrow> SqlResult \<times> con_mem" where
  "InternalGetInfo wCharSize type buf bufLength resLen s =
     (let (c, m) = s; (res, m') = GetInfo wCharSize (con_info c) type buf bufLength resLen m
      in (res, if res \<noteq> AI_SUCCESS then con_report SHYC00_OPTIONAL_FEATURE_NOT_IMPLEMENTED ''Not implemented.'' c else c, m'))"

section \<open>Calls\<close>

definition con_upd :: "(DiagnosticRecordStorage \<Rightarrow> DiagnosticRecordStorage) \<Rightarrow> Connection \<Rightarrow> Connection" where
  "con_upd f c = c\<lparr>con_diag := f (con_diag c)\<rparr>"

interpretation con: diagnosable con_diag con_upd
  by unfold_locales (simp add: con_upd_def)

definition Establish ::
  "Backend \<Rightarrow> Host \<Rightarrow> 'i Installer \<Rightarrow> 'i \<Rightarrow> string \<Rightarrow> Connection \<Rightarrow> buf_error + (SqlResult \<times> Connection)" where
  "Establish be h inst ini connectStr = api_run con_upd (InternalEstablish_string be h inst ini connectStr)"

definition Establish_config :: "Backend \<Rightarrow> Configuration \<Rightarrow> Connection \<Rightarrow> buf_error + (SqlResult \<times> Connection)" where
  "Establish_config be cfg = api_run con_upd (InternalEstablish be cfg)"

definition Release :: "Connection \<Rightarrow> SqlResult \<times> Connection" where
  "Release = api_call con_upd InternalRelease"

section \<open>What a connection attempt leaves behind\<close>

lemma con_report_sel [simp]:
  "con_connection (con_report st msg c) = con_connection c" "con_jni (con_report st msg c) = con_jni c"
  "con_mongo (con_report st msg c) = con_mongo c" "con_config (con_report st msg c) = con_config c"
  "con_info (con_report st msg c) = con_info c"
  by (simp_all add: con_report_def)

lemma con_upd_sel [simp]:
  "con_connection (con_upd f c) = con_connection c" "con_jni (con_upd f c) = con_jni c"
  "con_mongo (con_upd f c) = con_mongo c" "con_config (con_upd f c) = con_config c"
  "con_info (con_upd f c) = con_info c" "con_diag (con_upd f c) = f (con_diag c)"
  by (simp_all add: con_upd_def)

lemma con_config_update_sel [simp]:
  "IsValid (c\<lparr>con_config := cfg\<rparr>) = IsValid c" "IsValid (con_upd f c) = IsValid c"
  by (simp_all add: IsValid_def)

lemma GetJniContext_sel:
  assumes "GetJniContext be c = (e, c')"
  shows "con_connection c' = con_connection c" "con_config c' = con_config c" "con_mongo c' = con_mongo c"
    "con_info c' = con_info c" "con_diag c' = con_diag c"
  using assms by (auto simp: GetJniContext_def split: if_splits)

lemma ConnectCPPDocumentDB_sel:
  assumes "ConnectCPPDocumentDB be p c = Inr (err, c')"
  shows "con_connection c' = con_connection c" "con_config c' = con_config c" "con_jni c' = con_jni c"
    "con_diag c' = con_diag c" "err = None \<Longrightarrow> con_mongo c'"
  using assms by (auto simp: ConnectCPPDocumentDB_def Let_def split: mongo_answer.splits if_splits)

text \<open>The outcome of an attempt on a connection without a Java connection.\<close>

lemma TryRestoreConnection_cases:
  assumes "\<not> IsValid c" and "TryRestoreConnection be c = Inr (err, c')"
  shows "con_config c' = con_config c" "con_diag c' = con_diag c"
    "err = None \<Longrightarrow> con_connection c' = Some True \<and> con_jni c' \<and> con_mongo c'"
    "jni_code (fst (GetJniContext be c)) = JNI_ERR_SUCCESS \<Longrightarrow> IsValid c'"
proof -
  obtain e1 c1 where c1: "GetJniContext be c = (e1, c1)" by force
  note sel = GetJniContext_sel [OF c1]
  show "con_config c' = con_config c" "con_diag c' = con_diag c"
    "err = None \<Longrightarrow> con_connection c' = Some True \<and> con_jni c' \<and> con_mongo c'"
    "jni_code (fst (GetJniContext be c)) = JNI_ERR_SUCCESS \<Longrightarrow> IsValid c'"
    using assms c1 sel
    by (auto simp: TryRestoreConnection_def Let_def IsValid_def DocumentDbConnection_Open_def
        split: if_splits prod.splits sum.splits dest: ConnectCPPDocumentDB_sel)
      (auto simp: ConnectCPPDocumentDB_sel(1))
qed

lemma InternalEstablish_cases:
  assumes "InternalEstablish be cfg c = Inr (res, c')"
  shows "con_config c' = cfg"
    "IsValid c \<Longrightarrow> res = AI_ERROR \<and> IsValid c' \<and> statusRecords (con_diag c') =
       statusRecords (con_diag c) @ [newDiagnosticRecord S08002_ALREADY_CONNECTED ''Already connected.'' [] [] 0 0]"
    "res \<noteq> AI_ERROR \<Longrightarrow> con_connection c' = Some True \<and> con_jni c' \<and> con_mongo c' \<and> Validate cfg = None"
    "\<not> IsValid c \<Longrightarrow> Validate cfg = None \<Longrightarrow> jni_code (fst (GetJniContext be (c\<lparr>con_config := cfg\<rparr>))) = JNI_ERR_SUCCESS \<Longrightarrow>
       IsValid c'"
proof -
  let ?c = "c\<lparr>con_config := cfg\<rparr>"
  note T = TryRestoreConnection_cases [of ?c be]
  show "con_config c' = cfg"
    using assms T(1) by (auto simp: InternalEstablish_def Let_def split: if_splits option.splits sum.splits)
  show "IsValid c \<Longrightarrow> res = AI_ERROR \<and> IsValid c' \<and> statusRecords (con_diag c') =
       statusRecords (con_diag c) @ [newDiagnosticRecord S08002_ALREADY_CONNECTED ''Already connected.'' [] [] 0 0]"
    using assms by (auto simp: InternalEstablish_def Let_def con_report_def IsValid_def)
  show "res \<noteq> AI_ERROR \<Longrightarrow> con_connection c' = Some True \<and> con_jni c' \<and> con_mongo c' \<and> Validate cfg = None"
    using assms T(3) by (auto simp: InternalEstablish_def Let_def split: if_splits option.splits sum.splits)
  show "\<not> IsValid c \<Longrightarrow> Validate cfg = None \<Longrightarrow> jni_code (fst (GetJniContext be ?c)) = JNI_ERR_SUCCESS \<Longrightarrow> IsValid c'"
    using assms T(4)
    by (auto simp: InternalEstablish_def Let_def IsValid_def split: if_splits option.splits sum.splits)
qed

lemma api_run_con:
  "api_run con_upd call c = Inr (res, c') \<longleftrightarrow>
     (\<exists>c1. call (con_upd DRS_Reset c) = Inr (res, c1) \<and> c' = con_upd (SetHeaderRecord res) c1)"
  by (auto simp: api_run_def split: sum.splits)

lemma InternalEstablish_valid: "IsValid c \<Longrightarrow> \<exists>c'. InternalEstablish be cfg c = Inr (AI_ERROR, c')"
  by (simp add: InternalEstablish_def Let_def)

lemma GetJniContext_con_upd: "fst (GetJniContext be (con_upd f c)) = fst (GetJniContext be c)"
  "fst (GetJniContext be ((con_upd f c)\<lparr>con_config := cfg\<rparr>)) = fst (GetJniContext be c)"
  by (simp_all add: GetJniContext_def)

text \<open>(C22) A successful connect call leaves the Java connection open, the virtual machine attached and the database
  client created, for a configuration that passed validation and is the one kept; the return code an application reads
  afterwards is that of the call.\<close>
theorem Establish_connects:
  assumes "Establish_config be cfg c = Inr (res, c')" and "res \<noteq> AI_ERROR"
  shows "con_connection c' = Some True \<and> con_jni c' \<and> con_mongo c' \<and> con_config c' = cfg \<and> Validate cfg = None \<and>
    GetReturnCode (con_diag c') = SqlResultToReturnCode res"
proof -
  from assms(1) obtain c1 where c1: "InternalEstablish be cfg (con_upd DRS_Reset c) = Inr (res, c1)"
    and c': "c' = con_upd (SetHeaderRecord res) c1"
    by (auto simp: Establish_config_def api_run_con)
  show ?thesis
    using InternalEstablish_cases(1,3) [OF c1] assms(2) con.run_return_code [OF assms(1) [unfolded Establish_config_def]]
    by (simp add: c')
qed

text \<open>The virtual machine stays attached through a connect call, and the connection stays as it is through one that is
  refused.\<close>

lemma ConnectCPP_jni: "ConnectCPPDocumentDB be p c = Inr (err, c') \<Longrightarrow> con_jni c' = con_jni c"
  by (auto simp: ConnectCPPDocumentDB_def Let_def split: mongo_answer.splits if_splits)

lemma TryRestoreConnection_jni:
  assumes "\<not> IsValid c" and "TryRestoreConnection be c = Inr (err, c')"
  shows "con_jni c' = con_jni (snd (GetJniContext be c))"
  using assms by (auto simp: TryRestoreConnection_def Let_def split: if_splits prod.splits sum.splits dest: ConnectCPP_jni)

lemma GetJniContext_attached:
  "con_jni (snd (GetJniContext be c)) \<Longrightarrow> jni_code (fst (GetJniContext be c)) = JNI_ERR_SUCCESS"
  by (auto simp: GetJniContext_def newJniErrorInfo_def split: if_splits)

lemma GetJniContext_snd: "con_jni (snd (GetJniContext be ((con_upd f c)\<lparr>con_config := cfg\<rparr>))) = con_jni (snd (GetJniContext be c))"
  by (simp add: GetJniContext_def)

lemma Establish_valid:
  assumes "IsValid c"
  shows "\<exists>c'. Establish_config be cfg c = Inr (AI_ERROR, c') \<and> map sqlState (statusRecords (con_diag c')) = [S08002_ALREADY_CONNECTED]
    \<and> con_config c' = cfg \<and> IsValid c' \<and> con_jni c' = con_jni c"
  using assms
  by (simp add: Establish_config_def api_run_con InternalEstablish_def Let_def con_report_def IsValid_def con_upd_def newDiagnosticRecord_def)

lemma failed_Establish:
  assumes "\<not> IsValid c" and "Validate cfg = None" and "jni_code (fst (GetJniContext be c)) = JNI_ERR_SUCCESS"
    and "Establish_config be cfg c = Inr (AI_ERROR, c1)"
  shows "IsValid c1" and "con_jni c1 = con_jni (snd (GetJniContext be c))"
proof -
  from assms(4) obtain c0 where c0: "InternalEstablish be cfg (con_upd DRS_Reset c) = Inr (AI_ERROR, c0)"
    and c1: "c1 = con_upd (SetHeaderRecord AI_ERROR) c0"
    by (auto simp: Establish_config_def api_run_con)
  show "IsValid c1" using InternalEstablish_cases(4) [OF c0] assms(1-3) by (simp add: c1 GetJniContext_con_upd)
  let ?c = "(con_upd DRS_Reset c)\<lparr>con_config := cfg\<rparr>"
  have nv: "\<not> IsValid ?c" using assms(1) by (simp add: IsValid_def con_upd_def)
  obtain err c2 where c2: "TryRestoreConnection be ?c = Inr (err, c2)" "con_jni c0 = con_jni c2"
    using c0 nv assms(2) by (auto simp: InternalEstablish_def con_report_def split: sum.splits option.splits)
  from TryRestoreConnection_jni [OF nv c2(1)] c2(2) show "con_jni c1 = con_jni (snd (GetJniContext be c))"
    by (simp add: c1 con_upd_def GetJniContext_snd [unfolded con_upd_def])
qed

text \<open>A list of connect calls: the result of each and the states it reports.\<close>

fun connect_all :: "(Backend \<times> Configuration) list \<Rightarrow> Connection \<Rightarrow> buf_error + ((SqlResult \<times> SqlState list) list \<times> Connection)" where
  "connect_all [] c = Inr ([], c)"
| "connect_all ((be, cfg) # xs) c =
     (case Establish_config be cfg c of
        Inl e \<Rightarrow> Inl e
      | Inr (res, c') \<Rightarrow>
          (case connect_all xs c' of
             Inl e \<Rightarrow> Inl e
           | Inr (rs, c'') \<Rightarrow> Inr ((res, map sqlState (statusRecords (con_diag c'))) # rs, c'')))"

lemma connect_all_refused:
  "IsValid c \<Longrightarrow> \<exists>c'. connect_all xs c = Inr (replicate (length xs) (AI_ERROR, [S08002_ALREADY_CONNECTED]), c') \<and> IsValid c' \<and> con_jni c' = con_jni c"
proof (induction xs arbitrary: c)
  case (Cons x xs)
  obtain be cfg where x: "x = (be, cfg)" by fastforce
  from Establish_valid [OF Cons.prems, of be cfg] obtain c1 where c1: "Establish_config be cfg c = Inr (AI_ERROR, c1)"
    "map sqlState (statusRecords (con_diag c1)) = [S08002_ALREADY_CONNECTED]" "IsValid c1" "con_jni c1 = con_jni c" by (elim exE conjE)
  from Cons.IH [OF c1(3)] c1 x show ?case by auto
qed simp

text \<open>(C40) A connect call with a valid configuration that fails although a virtual machine is attached leaves the handle
  unusable for another attempt: the pointer to the Java connection stays set, so that all later connect calls, however many
  and to whatever database, are refused as already connected. Releasing the connection then succeeds and clears the
  pointer.\<close>
theorem failed_connect_blocks:
  assumes "\<not> IsValid c" and "Validate cfg = None" and "con_jni (snd (GetJniContext be c))"
    and "Establish_config be cfg c = Inr (AI_ERROR, c1)"
  shows "\<exists>c2 c3. connect_all later c1 = Inr (replicate (length later) (AI_ERROR, [S08002_ALREADY_CONNECTED]), c2)
    \<and> Release c2 = (AI_SUCCESS, c3) \<and> \<not> IsValid c3"
proof -
  note c1 = failed_Establish [OF assms(1,2) GetJniContext_attached [OF assms(3)] assms(4)]
  from connect_all_refused [OF c1(1), of later] c1(2) assms(3)
  obtain c2 where c2: "connect_all later c1 = Inr (replicate (length later) (AI_ERROR, [S08002_ALREADY_CONNECTED]), c2)" "IsValid c2" "con_jni c2"
    by auto
  have "\<exists>c3. Release c2 = (AI_SUCCESS, c3) \<and> \<not> IsValid c3"
    using c2(2,3) by (auto simp: Release_def api_call_def Let_def InternalRelease_def Connection_Close_def IsValid_def)
  with c2(1) show ?thesis by blast
qed

text \<open>Without a class path no virtual machine is attached, and yet the pointer is set. Releasing the connection reports success
  and changes nothing.\<close>

lemma release_without_machine:
  assumes "\<not> IsValid c" and "Validate cfg = None" and "\<not> con_jni c" and "classpath be = []"
    and "Establish_config be cfg c = Inr (AI_ERROR, c1)"
  shows "\<exists>c3. Release c1 = (AI_SUCCESS, c3) \<and> IsValid c3"
proof -
  have "IsValid c1" "\<not> con_jni c1"
    using failed_Establish [OF assms(1,2) _ assms(5)] assms(3,4) by (simp_all add: GetJniContext_def newJniErrorInfo_def)
  then show ?thesis by (auto simp: Release_def api_call_def Let_def InternalRelease_def Connection_Close_def IsValid_def)
qed

text \<open>A configuration that passes validation; a database that accepts every connection, and the same without a class
  path.\<close>

definition full_config :: Configuration where
  "full_config = SetPassword ''p'' (SetUser ''u'' (SetDatabase ''db'' (SetHostname ''h'' (newConfiguration plain_host))))"

definition plain_backend :: "string \<Rightarrow> Backend" where
  "plain_backend cp =
     \<lparr>classpath = cp, create_jvm = newJniErrorInfo, open_jdbc = (\<lambda>_. (newJniErrorInfo, True)), ssh_active = Inr False,
      ssh_port = Inr 0, mongo_connect = (\<lambda>_ _ _. Mongo_connected None), jdbc_metadata = None, jdbc_database_metadata = None,
      jdbc_properties = None, catalogue = small_java\<rparr>"

definition no_info :: ConnectionInfo where
  "no_info = \<lparr>strParams = Map.empty, intParams = Map.empty, shortParams = Map.empty\<rparr>"

lemma full_config_valid: "Validate full_config = None"
  by (simp add: Validate_def full_config_def newConfiguration_def config_defs Let_def)

lemmas connect_defs = Establish_config_def api_run_def InternalEstablish_def Let_def full_config_valid
  TryRestoreConnection_def GetJniContext_def DocumentDbConnection_Open_def GetInternalSSHTunnelPort_def
  ConnectCPPDocumentDB_def plain_backend_def newConnection_def IsValid_def newJniErrorInfo_def

theorem Establish_connects_witness:
  "\<exists>c'. Establish_config (plain_backend ''a.jar'') full_config (newConnection plain_host no_info) = Inr (AI_SUCCESS, c') \<and>
     con_connection c' = Some True \<and> GetReturnCode (con_diag c') = 0"
proof -
  obtain c' where c': "Establish_config (plain_backend ''a.jar'') full_config (newConnection plain_host no_info) = Inr (AI_SUCCESS, c')"
    by (simp add: connect_defs GetStatusRecordsNumber_def UpdateSqlDbmsVerInfo_def con_upd_def)
  show ?thesis using Establish_connects [OF c'] c' by (simp add: SqlResultToReturnCode.simps)
qed

text \<open>The witness: the Java side refuses the first connection, and would accept the two after it.\<close>

theorem failed_connect_blocks_witness:
  "\<exists>c1 c2 c3. Establish_config ((plain_backend ''a.jar'')\<lparr>open_jdbc := \<lambda>_. (newJniErrorInfo, False)\<rparr>) full_config
       (newConnection plain_host no_info) = Inr (AI_ERROR, c1) \<and>
     connect_all [(plain_backend ''a.jar'', full_config), (plain_backend ''b.jar'', full_config)] c1 =
       Inr ([(AI_ERROR, [S08002_ALREADY_CONNECTED]), (AI_ERROR, [S08002_ALREADY_CONNECTED])], c2) \<and>
     Release c2 = (AI_SUCCESS, c3) \<and> \<not> IsValid c3"
proof -
  let ?be = "(plain_backend ''a.jar'')\<lparr>open_jdbc := \<lambda>_. (newJniErrorInfo, False)\<rparr>"
  obtain c1 where c1: "Establish_config ?be full_config (newConnection plain_host no_info) = Inr (AI_ERROR, c1)"
    by (simp add: connect_defs)
  have "\<not> IsValid (newConnection plain_host no_info)" "con_jni (snd (GetJniContext ?be (newConnection plain_host no_info)))"
    by (simp_all add: connect_defs)
  note blocks = failed_connect_blocks [OF this(1) full_config_valid this(2) c1, of "[(plain_backend ''a.jar'', full_config), (plain_backend ''b.jar'', full_config)]"]
  then show ?thesis using c1 by (simp only: list.size One_nat_def add_Suc_right add_0_right replicate.simps) blast
qed

end
