(* ===== verification/Odbc_Sql.thy ===== *)
theory Odbc_Sql
  imports Odbc_ConfigText Odbc_Types
begin

text \<open>
  \<^verbatim>\<open>src/sql/\<close>: the lexer the driver runs over every statement to find out whether it is a command for the
  driver itself, and the parser of the one such command, \<open>SET STREAMING\<close>. The lexer is its input, a
  position and the current token. An \<open>OdbcError\<close>, returned or thrown, is a state and a message;
  \<open>Unset\<close> is the reading of a variable that was never assigned.
\<close>

section \<open>The lexer\<close>

datatype TokenType =
  T_MINUS | T_QUOTED | T_STRING | T_DOT | T_COMMA | T_PARENTHESIS_LEFT | T_PARENTHESIS_RIGHT | T_SEMICOLON | T_WORD | T_EOD

record SqlToken =
  token_text :: string
  token_type :: TokenType

record SqlLexer =
  lex_sql :: string
  lex_pos :: nat
  currentToken :: SqlToken

datatype sql_error = OdbcError SqlState string | Unset

definition no_token :: SqlToken where
  "no_token = \<lparr>token_text = [], token_type = T_EOD\<rparr>"

definition newLexer :: "string \<Rightarrow> SqlLexer" where
  "newLexer sql = \<lparr>lex_sql = sql, lex_pos = 0, currentToken = no_token\<rparr>"

definition iscntrl :: "char \<Rightarrow> bool" where
  "iscntrl c \<longleftrightarrow> (of_char c :: nat) < 32 \<or> (of_char c :: nat) = 127"

definition blank :: "char \<Rightarrow> bool" where
  "blank c \<longleftrightarrow> iscntrl c \<or> isspace c"

definition IsDelimiter :: "char \<Rightarrow> bool" where
  "IsDelimiter c \<longleftrightarrow> \<not> isalnum c \<and> c \<noteq> CHR ''_''"

definition HaveData :: "string \<Rightarrow> nat \<Rightarrow> nat \<Rightarrow> bool" where
  "HaveData sql pos num \<longleftrightarrow> pos + num < length sql"

definition skip_while :: "(char \<Rightarrow> bool) \<Rightarrow> string \<Rightarrow> nat \<Rightarrow> nat" where
  "skip_while P sql pos = pos + length (takeWhile P (drop pos sql))"

text \<open>The position of the closing quote; a doubled quote stands for itself, unless it ends the text.\<close>

function quote_end :: "char \<Rightarrow> string \<Rightarrow> nat \<Rightarrow> nat option" where
  "quote_end q sql pos =
     (let p = pos + 1
      in if length sql \<le> p then None
         else if sql ! p = q then
           (if \<not> HaveData sql p 2 \<or> sql ! (p + 1) \<noteq> q then Some p else quote_end q sql (p + 1))
         else quote_end q sql p)"
  by pat_completeness auto
termination by (relation "measure (\<lambda>(q, sql, pos). length sql - pos)") (auto simp: HaveData_def)

declare quote_end.simps [simp del]

definition single_tokens :: "(char \<times> TokenType) list" where
  "single_tokens =
     [(CHR ''-'', T_MINUS), (CHR ''.'', T_DOT), (CHR '','', T_COMMA), (CHR '';'', T_SEMICOLON),
      (CHR ''('', T_PARENTHESIS_LEFT), (CHR '')'', T_PARENTHESIS_RIGHT)]"

definition take_token :: "string \<Rightarrow> nat \<Rightarrow> nat \<Rightarrow> TokenType \<Rightarrow> (sql_error + (SqlToken \<times> nat))" where
  "take_token sql from to t = Inr (\<lparr>token_text = take (to - from) (drop from sql), token_type = t\<rparr>, to)"

definition take_quoted :: "string \<Rightarrow> nat \<Rightarrow> char \<Rightarrow> TokenType \<Rightarrow> string \<Rightarrow> (sql_error + (SqlToken \<times> nat))" where
  "take_quoted sql pos q t msg =
     (case quote_end q sql pos of
        None \<Rightarrow> Inl (OdbcError SHY000_GENERAL_ERROR msg)
      | Some p \<Rightarrow> take_token sql pos (p + 1) t)"

text \<open>The loop of \<open>Shift\<close>: the next token and the position after it, \<open>None\<close> at the end of the text. A
  word starts at any other character and takes the letters, digits and underscores from there; at any
  other delimiter that is no character at all.\<close>

function next_token :: "string \<Rightarrow> nat \<Rightarrow> (sql_error + (SqlToken \<times> nat)) option" where
  "next_token sql pos =
     (if length sql \<le> pos then None
      else
        let c = sql ! pos
        in if c = CHR ''-'' \<and> HaveData sql pos 1 \<and> sql ! (pos + 1) = CHR ''-'' then
             next_token sql (skip_while (\<lambda>x. x \<noteq> CHR 0x0A \<and> x \<noteq> CHR 0x0D) sql (pos + 2))
           else if c = CHR 0x22 then Some (take_quoted sql pos c T_QUOTED ''Unclosed quoted identifier.'')
           else if c = CHR 0x27 then Some (take_quoted sql pos c T_STRING ''Unclosed string literal.'')
           else (case map_of single_tokens c of
                   Some t \<Rightarrow> Some (take_token sql pos (pos + 1) t)
                 | None \<Rightarrow>
                     if blank c then next_token sql (skip_while blank sql (pos + 1))
                     else Some (take_token sql pos (skip_while (\<lambda>x. \<not> IsDelimiter x) sql pos) T_WORD)))"
  by pat_completeness auto
termination by (relation "measure (\<lambda>(sql, pos). length sql - pos)") (auto simp: skip_while_def)

declare next_token.simps [simp del]

text \<open>An error leaves the position at the end of the text and the current token as it was.\<close>

definition Shift :: "SqlLexer \<Rightarrow> (sql_error + bool) \<times> SqlLexer" where
  "Shift l =
     (case next_token (lex_sql l) (lex_pos l) of
        None \<Rightarrow> (Inr False, l\<lparr>lex_pos := length (lex_sql l), currentToken := no_token\<rparr>)
      | Some (Inl e) \<Rightarrow> (Inl e, l\<lparr>lex_pos := length (lex_sql l)\<rparr>)
      | Some (Inr (t, p)) \<Rightarrow> (Inr True, l\<lparr>lex_pos := p, currentToken := t\<rparr>))"

definition token_lower :: "SqlToken \<Rightarrow> string" where
  "token_lower t = ToLower (token_text t)"

definition ExpectNextToken :: "SqlLexer \<Rightarrow> TokenType \<Rightarrow> string \<Rightarrow> bool \<times> SqlLexer" where
  "ExpectNextToken l typ expected =
     (case Shift l of
        (Inr True, l') \<Rightarrow> (token_type (currentToken l') = typ \<and> token_lower (currentToken l') = expected, l')
      | (_, l') \<Rightarrow> (False, l'))"

section \<open>Positions\<close>

lemma skip_while_ge: "pos \<le> skip_while P sql pos"
  by (simp add: skip_while_def)

lemma skip_while_le: "pos \<le> length sql \<Longrightarrow> skip_while P sql pos \<le> length sql"
  using length_takeWhile_le [of P "drop pos sql"] by (simp add: skip_while_def)

lemma quote_end_bounds: "quote_end q sql pos = Some p \<Longrightarrow> pos < p \<and> p < length sql"
proof (induction q sql pos rule: quote_end.induct)
  case (1 q sql pos)
  let ?p = "pos + 1"
  consider "p = ?p" "?p < length sql"
    | "\<not> length sql \<le> ?p" "sql ! ?p = q" "\<not> (\<not> HaveData sql ?p 2 \<or> sql ! (?p + 1) \<noteq> q)" "quote_end q sql (?p + 1) = Some p"
    | "\<not> length sql \<le> ?p" "sql ! ?p \<noteq> q" "quote_end q sql ?p = Some p"
    using "1.prems" by (subst (asm) quote_end.simps) (auto simp: Let_def split: if_splits)
  then show ?case
  proof cases
    case 2
    from "1.IH"(1) [OF refl this] show ?thesis by simp
  next
    case 3
    from "1.IH"(2) [OF refl this] show ?thesis by simp
  qed simp
qed

text \<open>Where the next token ends. It is empty exactly when it is a word that starts at a delimiter the
  lexer has no token for; then the position does not move.\<close>

definition stuck :: "string \<Rightarrow> nat \<Rightarrow> bool" where
  "stuck sql pos \<longleftrightarrow>
     pos < length sql \<and> IsDelimiter (sql ! pos) \<and> \<not> blank (sql ! pos) \<and> sql ! pos \<notin> {CHR 0x22, CHR 0x27} \<and>
     map_of single_tokens (sql ! pos) = None"

text \<open>Where a search for the next token ends up: past comments and blanks.\<close>

inductive skips :: "string \<Rightarrow> nat \<Rightarrow> nat \<Rightarrow> bool" where
  here: "skips sql pos pos"
| comment: "pos < length sql \<Longrightarrow> sql ! pos = CHR ''-'' \<Longrightarrow> HaveData sql pos 1 \<Longrightarrow> sql ! (pos + 1) = CHR ''-'' \<Longrightarrow>
    skips sql (skip_while (\<lambda>x. x \<noteq> CHR 0x0A \<and> x \<noteq> CHR 0x0D) sql (pos + 2)) p \<Longrightarrow> skips sql pos p"
| blanks: "pos < length sql \<Longrightarrow> blank (sql ! pos) \<Longrightarrow> skips sql (skip_while blank sql (pos + 1)) p \<Longrightarrow> skips sql pos p"

lemma skips_le: "skips sql pos p \<Longrightarrow> pos \<le> p \<and> (pos \<le> length sql \<longrightarrow> p \<le> length sql)"
proof (induction rule: skips.induct)
  case (comment pos sql p)
  then show ?case
    using skip_while_ge [of "pos + 2" "\<lambda>x. x \<noteq> CHR 0x0A \<and> x \<noteq> CHR 0x0D" sql] skip_while_le [of "pos + 2" sql "\<lambda>x. x \<noteq> CHR 0x0A \<and> x \<noteq> CHR 0x0D"] by (auto simp: HaveData_def)
next
  case (blanks pos sql p)
  then show ?case using skip_while_ge [of "pos + 1" blank sql] skip_while_le [of "pos + 1" sql blank] by auto
qed simp

definition token_at :: "string \<Rightarrow> nat \<Rightarrow> SqlToken \<Rightarrow> nat \<Rightarrow> bool" where
  "token_at sql from t to \<longleftrightarrow>
     from < length sql \<and> from \<le> to \<and> to \<le> length sql \<and> token_text t = take (to - from) (drop from sql) \<and>
     (from = to \<longleftrightarrow> stuck sql from) \<and> (stuck sql from \<longrightarrow> token_type t = T_WORD)"

lemma take_quoted_at:
  assumes "take_quoted sql pos q ty msg = Inr (t, p)" and "pos < length sql" and "sql ! pos = q" and "q \<in> {CHR 0x22, CHR 0x27}"
  shows "token_at sql pos t p"
  using assms quote_end_bounds [of q sql pos]
  by (auto simp: take_quoted_def take_token_def token_at_def stuck_def split: option.splits)

lemma take_single_at:
  assumes "take_token sql pos (pos + 1) ty = Inr (t, p)" and "pos < length sql" and "map_of single_tokens (sql ! pos) = Some ty"
  shows "token_at sql pos t p"
  using assms by (auto simp: take_token_def token_at_def stuck_def)

lemma skip_word: "pos < length sql \<Longrightarrow> skip_while (\<lambda>x. \<not> IsDelimiter x) sql pos = pos \<longleftrightarrow> IsDelimiter (sql ! pos)"
  by (simp add: skip_while_def Cons_nth_drop_Suc [symmetric])

lemma take_word_at:
  assumes "take_token sql pos (skip_while (\<lambda>x. \<not> IsDelimiter x) sql pos) T_WORD = Inr (t, p)" and "pos < length sql"
    and "map_of single_tokens (sql ! pos) = None" and "\<not> blank (sql ! pos)" and "sql ! pos \<notin> {CHR 0x22, CHR 0x27}"
  shows "token_at sql pos t p"
  using assms skip_word [of pos sql] skip_while_ge [of pos "\<lambda>x. \<not> IsDelimiter x" sql] skip_while_le [of pos sql "\<lambda>x. \<not> IsDelimiter x"]
  by (auto simp: take_token_def token_at_def stuck_def)

lemma next_token_at:
  assumes "next_token sql pos = Some (Inr (t, p))"
  shows "\<exists>from. skips sql pos from \<and> token_at sql from t p"
  using assms
proof (induction sql pos rule: next_token.induct)
  case (1 sql pos)
  let ?c = "sql ! pos"
  let ?com = "?c = CHR ''-'' \<and> HaveData sql pos 1 \<and> sql ! (pos + 1) = CHR ''-''"
  have l: "\<not> length sql \<le> pos" using "1.prems" by (subst (asm) next_token.simps) (simp split: if_splits)
  note n = "1.prems" [unfolded next_token.simps [of sql pos] Let_def]
  show ?case
  proof (cases ?com)
    case True
    with n l have "next_token sql (skip_while (\<lambda>x. x \<noteq> CHR 0x0A \<and> x \<noteq> CHR 0x0D) sql (pos + 2)) = Some (Inr (t, p))" by simp
    from "1.IH"(1) [OF l refl True this] obtain f where
      "skips sql (skip_while (\<lambda>x. x \<noteq> CHR 0x0A \<and> x \<noteq> CHR 0x0D) sql (pos + 2)) f" "token_at sql f t p" by blast
    moreover have "skips sql pos f" by (rule skips.comment) (use True l calculation(1) in simp_all)
    ultimately show ?thesis by blast
  next
    case False
    show ?thesis
    proof (cases "?c \<in> {CHR 0x22, CHR 0x27}")
      case True
      with n l False show ?thesis
        by (intro exI [of _ pos]) (auto intro: skips.here take_quoted_at split: if_splits)
    next
      case nq: False
      show ?thesis
      proof (cases "map_of single_tokens ?c")
        case (Some ty)
        with n l False nq show ?thesis by (intro exI [of _ pos]) (auto intro: skips.here take_single_at)
      next
        case None
        show ?thesis
        proof (cases "blank ?c")
          case True
          with n l False nq None have "next_token sql (skip_while blank sql (pos + 1)) = Some (Inr (t, p))" by auto
          with "1.IH"(2) [OF l refl False _ _ None True this] nq obtain f where
            "skips sql (skip_while blank sql (pos + 1)) f" "token_at sql f t p" by blast
          moreover have "skips sql pos f" by (rule skips.blanks) (use True l calculation(1) in simp_all)
          ultimately show ?thesis by blast
        next
          case False
          with n l \<open>\<not> ?com\<close> nq None show ?thesis
            by (intro exI [of _ pos]) (auto intro!: skips.here take_word_at split: if_splits)
        qed
      qed
    qed
  qed
qed

lemma next_token_progress:
  assumes "next_token sql pos = Some (Inr (t, p))"
  shows "pos \<le> p \<and> p \<le> length sql" and "token_text t \<noteq> [] \<Longrightarrow> pos < p"
proof -
  obtain f where f: "skips sql pos f" "token_at sql f t p" using next_token_at [OF assms] by blast
  have "pos \<le> length sql" using assms by (subst (asm) next_token.simps) (simp split: if_splits)
  with f skips_le [OF f(1)] show "pos \<le> p \<and> p \<le> length sql" by (auto simp: token_at_def)
  show "pos < p" if "token_text t \<noteq> []"
    using that f skips_le [OF f(1)] by (auto simp: token_at_def)
qed

lemma Shift_progress:
  assumes "Shift l = (r, l')"
  shows "lex_sql l' = lex_sql l"
    and "lex_pos l \<le> length (lex_sql l) \<Longrightarrow> lex_pos l \<le> lex_pos l' \<and> lex_pos l' \<le> length (lex_sql l)"
    and "r = Inr True \<Longrightarrow> token_text (currentToken l') \<noteq> [] \<Longrightarrow> lex_pos l < lex_pos l' \<and> lex_pos l' \<le> length (lex_sql l)"
  using assms next_token_progress [of "lex_sql l" "lex_pos l"]
  by (auto simp: Shift_def split: option.splits sum.splits)

section \<open>Commands of the driver\<close>

text \<open>\<open>IsInternalCommand\<close>: after semicolons, the words \<open>set\<close> and \<open>streaming\<close>.\<close>

lemma Shift_semicolon:
  assumes "Shift l = (Inr True, l')" and "token_type (currentToken l') = T_SEMICOLON"
  shows "length (lex_sql l') - lex_pos l' < length (lex_sql l) - lex_pos l"
proof -
  obtain t p where t: "next_token (lex_sql l) (lex_pos l) = Some (Inr (t, p))" "currentToken l' = t"
    using assms(1) by (auto simp: Shift_def split: option.splits sum.splits)
  obtain f where "token_at (lex_sql l) f t p" using next_token_at [OF t(1)] by blast
  then have "token_text t \<noteq> []" using assms(2) t(2) by (auto simp: token_at_def)
  then show ?thesis using Shift_progress(1,3) [OF assms(1)] t(2) by auto
qed

function internal_loop :: "SqlLexer \<Rightarrow> bool" where
  "internal_loop l =
     (case Shift l of
        (Inr True, l') \<Rightarrow>
          if token_type (currentToken l') \<noteq> T_SEMICOLON then
            token_type (currentToken l') = T_WORD \<and> token_lower (currentToken l') = ''set'' \<and>
            fst (ExpectNextToken l' T_WORD ''streaming'')
          else internal_loop l'
      | _ \<Rightarrow> False)"
  by pat_completeness auto
termination by (relation "measure (\<lambda>l. length (lex_sql l) - lex_pos l)") (auto dest: Shift_semicolon [OF sym])

declare internal_loop.simps [simp del]

definition IsInternalCommand :: "string \<Rightarrow> bool" where
  "IsInternalCommand sql = internal_loop (newLexer sql)"

section \<open>Parsing SET STREAMING\<close>

record SqlSetStreamingCommand =
  cmd_enabled :: bool
  cmd_allowOverwrite :: bool
  cmd_batchSize :: int
  cmd_parallelOpsPerNode :: int
  cmd_bufferSizePerNode :: int
  cmd_flushFrequency :: int
  cmd_ordered :: bool

definition newSetStreaming :: SqlSetStreamingCommand where
  "newSetStreaming = \<lparr>cmd_enabled = False, cmd_allowOverwrite = False, cmd_batchSize = 2048, cmd_parallelOpsPerNode = 0,
     cmd_bufferSizePerNode = 0, cmd_flushFrequency = 0, cmd_ordered = False\<rparr>"

definition syntax_error :: "string \<Rightarrow> sql_error" where
  "syntax_error msg = OdbcError S42000_SYNTAX_ERROR_OR_ACCESS_VIOLATION msg"

definition token_quoted :: "SqlToken \<Rightarrow> string" where
  "token_quoted t = [CHR 0x27] @ token_text t @ [CHR 0x27]"

definition unexpected_token :: "SqlToken \<Rightarrow> string \<Rightarrow> sql_error" where
  "unexpected_token t expected = syntax_error (''Unexpected token: '' @ token_quoted t @ '', '' @ expected @ '' expected.'')"

definition unexpected_end :: "string \<Rightarrow> sql_error" where
  "unexpected_end expected = syntax_error (''Unexpected end of statement: '' @ expected @ '' expected.'')"

definition TokenToBoolean :: "SqlToken \<Rightarrow> sql_error + bool" where
  "TokenToBoolean t =
     (if token_lower t = ''1'' \<or> token_lower t = ''on'' then Inr True
      else if token_lower t = ''0'' \<or> token_lower t = ''off'' then Inr False
      else Inl (syntax_error (''Unexpected token: '' @ token_quoted t @ '', ON, OFF, 1 or 0 expected.'')))"

definition ExpectBool :: "SqlLexer \<Rightarrow> sql_error + (bool \<times> SqlLexer)" where
  "ExpectBool l =
     (case Shift l of
        (Inl e, _) \<Rightarrow> Inl e
      | (Inr False, l') \<Rightarrow> Inl (unexpected_token (currentToken l') ''ON or OFF'')
      | (Inr True, l') \<Rightarrow> (case TokenToBoolean (currentToken l') of Inl e \<Rightarrow> Inl e | Inr b \<Rightarrow> Inr (b, l')))"

text \<open>The number is read into an uninitialised variable; from an empty word nothing is assigned.\<close>

definition int_token :: "int \<Rightarrow> SqlLexer \<Rightarrow> sql_error + (int \<times> SqlLexer)" where
  "int_token sign l =
     (let t = currentToken l
      in if token_type t = T_WORD \<and> AllDigits (token_text t) then
           (if token_text t = [] then Inl Unset
            else let val = sign * stream_int (2 ^ 63 - 1) (token_text t)
                 in if - (2 ^ 31) \<le> val \<and> val \<le> 2 ^ 31 - 1 then Inr (val, l)
                    else Inl (unexpected_token t ''integer number''))
         else Inl (unexpected_token t ''integer number''))"

definition ExpectInt :: "SqlLexer \<Rightarrow> sql_error + (int \<times> SqlLexer)" where
  "ExpectInt l =
     (case Shift l of
        (Inl e, _) \<Rightarrow> Inl e
      | (Inr False, _) \<Rightarrow> Inl (unexpected_end ''integer number'')
      | (Inr True, l') \<Rightarrow>
          if token_type (currentToken l') = T_MINUS then
            (case Shift l' of
               (Inl e, _) \<Rightarrow> Inl e
             | (Inr False, _) \<Rightarrow> Inl (unexpected_end ''integer number'')
             | (Inr True, l'') \<Rightarrow> int_token (-1) l'')
          else int_token 1 l')"

definition ExpectPositiveInteger :: "SqlLexer \<Rightarrow> string \<Rightarrow> sql_error + (int \<times> SqlLexer)" where
  "ExpectPositiveInteger l description =
     (case ExpectInt l of
        Inl e \<Rightarrow> Inl e
      | Inr (v, l') \<Rightarrow>
          if v \<le> 0 then Inl (syntax_error (''Invalid '' @ description @ '' - positive integer number is expected.''))
          else Inr (v, l'))"

text \<open>One additional parameter: the current token and its value.\<close>

definition streaming_option :: "SqlLexer \<Rightarrow> SqlSetStreamingCommand \<Rightarrow> sql_error + (SqlSetStreamingCommand \<times> SqlLexer)" where
  "streaming_option l c =
     (let t = currentToken l; w = token_lower t;
          enabled = (\<lambda>r. if cmd_enabled c then r else Inl (unexpected_token t ''no parameters with STREAMING OFF command''));
          number = (\<lambda>description set. case ExpectPositiveInteger l description of Inl e \<Rightarrow> Inl e | Inr (v, l') \<Rightarrow> Inr (set v, l'))
      in if w = ''batch_size'' then enabled (number ''batch size'' (\<lambda>v. c\<lparr>cmd_batchSize := v\<rparr>))
         else if w = ''per_node_buffer_size'' then
           enabled (number ''per node buffer size'' (\<lambda>v. c\<lparr>cmd_bufferSizePerNode := v\<rparr>))
         else if w = ''per_node_parallel_operations'' then
           enabled (number ''per node parallel operations number'' (\<lambda>v. c\<lparr>cmd_parallelOpsPerNode := v\<rparr>))
         else if w = ''allow_overwrite'' then
           enabled (case ExpectBool l of Inl e \<Rightarrow> Inl e | Inr (b, l') \<Rightarrow> Inr (c\<lparr>cmd_allowOverwrite := b\<rparr>, l'))
         else if w = ''flush_frequency'' then
           enabled (number ''flush frequency'' (\<lambda>v. c\<lparr>cmd_flushFrequency := v\<rparr>))
         else if w = ''ordered'' then enabled (Inr (c\<lparr>cmd_ordered := True\<rparr>, l))
         else Inl (unexpected_token t ''additional parameter of SET STREAMING command or semicolon''))"

text \<open>Reading a value never moves the lexer back.\<close>

definition further :: "SqlLexer \<Rightarrow> SqlLexer \<Rightarrow> bool" where
  "further l l' \<longleftrightarrow> lex_sql l' = lex_sql l \<and> lex_pos l \<le> lex_pos l' \<and> lex_pos l' \<le> length (lex_sql l)"

lemma further_trans: "further a b \<Longrightarrow> further b c \<Longrightarrow> further a c"
  by (simp add: further_def)

lemma further_refl: "lex_pos l \<le> length (lex_sql l) \<Longrightarrow> further l l"
  by (simp add: further_def)

lemma Shift_True_further: "Shift l = (Inr True, l') \<Longrightarrow> further l l'"
  using next_token_progress [of "lex_sql l" "lex_pos l"]
  by (auto simp: Shift_def further_def split: option.splits sum.splits)

lemma ExpectBool_further: "ExpectBool l = Inr (b, l') \<Longrightarrow> further l l'"
  by (auto simp: ExpectBool_def intro: Shift_True_further split: prod.splits sum.splits bool.splits)

lemma int_token_same: "int_token sign l = Inr (v, l') \<Longrightarrow> l' = l"
  by (auto simp: int_token_def Let_def split: if_splits)

lemma ExpectInt_further: "ExpectInt l = Inr (v, l') \<Longrightarrow> further l l'"
  by (auto simp: ExpectInt_def split: prod.splits sum.splits bool.splits if_splits dest!: int_token_same
      intro: Shift_True_further further_trans)

lemma ExpectPositiveInteger_further: "ExpectPositiveInteger l d = Inr (v, l') \<Longrightarrow> further l l'"
  by (auto simp: ExpectPositiveInteger_def intro: ExpectInt_further split: sum.splits if_splits)

lemma streaming_option_further:
  assumes "streaming_option l c = Inr (c', l')" and "lex_pos l \<le> length (lex_sql l)"
  shows "further l l'" "token_text (currentToken l) \<noteq> []"
proof -
  show "further l l'"
    using assms unfolding streaming_option_def Let_def
    by (auto split: if_splits sum.splits intro: ExpectPositiveInteger_further ExpectBool_further further_refl)
  show "token_text (currentToken l) \<noteq> []"
    using assms(1) by (auto simp: streaming_option_def Let_def token_lower_def ToLower_def split: if_splits)
qed

lemma option_progress:
  assumes "Shift l = (Inr True, l')" and "streaming_option l' c = Inr (c', l'')"
  shows "length (lex_sql l'') - lex_pos l'' < length (lex_sql l) - lex_pos l"
proof -
  have f: "further l l'" by (rule Shift_True_further [OF assms(1)])
  from streaming_option_further [OF assms(2)] f have g: "further l' l''" "token_text (currentToken l') \<noteq> []"
    by (simp_all add: further_def)
  from Shift_progress(3) [OF assms(1) refl g(2)] f g(1) show ?thesis by (auto simp: further_def)
qed

function parse_options :: "SqlLexer \<Rightarrow> SqlSetStreamingCommand \<Rightarrow> sql_error + (SqlSetStreamingCommand \<times> SqlLexer)" where
  "parse_options l c =
     (case Shift l of
        (Inl e, _) \<Rightarrow> Inl e
      | (Inr False, l') \<Rightarrow> Inr (c, l')
      | (Inr True, l') \<Rightarrow>
          if token_type (currentToken l') = T_SEMICOLON then Inr (c, l')
          else (case streaming_option l' c of Inl e \<Rightarrow> Inl e | Inr (c', l'') \<Rightarrow> parse_options l'' c'))"
  by pat_completeness auto
termination by (relation "measure (\<lambda>(l, c). length (lex_sql l) - lex_pos l)") (auto dest: option_progress [OF sym])

declare parse_options.simps [simp del]

definition SetStreaming_Parse :: "SqlLexer \<Rightarrow> sql_error + (SqlSetStreamingCommand \<times> SqlLexer)" where
  "SetStreaming_Parse l =
     (case ExpectBool l of
        Inl e \<Rightarrow> Inl e
      | Inr (b, l') \<Rightarrow> parse_options l' (newSetStreaming\<lparr>cmd_enabled := b\<rparr>))"

definition ProcessCommand :: "SqlLexer \<Rightarrow> sql_error + SqlSetStreamingCommand" where
  "ProcessCommand l =
     (let unexpected = (\<lambda>l. Inl (syntax_error (''Unexpected token: '' @ token_quoted (currentToken l))))
      in if token_lower (currentToken l) \<noteq> ''set'' then unexpected l
         else case Shift l of
                (Inl e, _) \<Rightarrow> Inl e
              | (Inr False, l') \<Rightarrow> unexpected l'
              | (Inr True, l') \<Rightarrow>
                  if token_type (currentToken l') = T_WORD \<and> token_lower (currentToken l') = ''streaming'' then
                    (case SetStreaming_Parse l' of Inl e \<Rightarrow> Inl e | Inr (c, _) \<Rightarrow> Inr c)
                  else unexpected l')"

text \<open>\<open>None\<close>: there is no command.\<close>

function next_command :: "SqlLexer \<Rightarrow> sql_error + SqlSetStreamingCommand option" where
  "next_command l =
     (case Shift l of
        (Inl e, _) \<Rightarrow> Inl e
      | (Inr False, _) \<Rightarrow> Inr None
      | (Inr True, l') \<Rightarrow>
          if token_type (currentToken l') = T_SEMICOLON then next_command l'
          else if token_type (currentToken l') = T_WORD then
            (case ProcessCommand l' of Inl e \<Rightarrow> Inl e | Inr c \<Rightarrow> Inr (Some c))
          else Inl (syntax_error (''Unexpected token: '' @ token_quoted (currentToken l'))))"
  by pat_completeness auto
termination by (relation "measure (\<lambda>l. length (lex_sql l) - lex_pos l)") (auto dest: Shift_semicolon [OF sym])

declare next_command.simps [simp del]

definition GetNextCommand :: "string \<Rightarrow> sql_error + SqlSetStreamingCommand option" where
  "GetNextCommand sql = next_command (newLexer sql)"

section \<open>Properties\<close>

text \<open>The lexer stays inside the statement and says when it is done: a call of \<open>Shift\<close> never moves
  back and never passes the end; it reports the end only at the end, and an error only for a quote that is not
  closed, which also leaves it at the end. A token it reports is the piece of text up to the new position. It
  is empty, and the lexer stays where it is for ever, exactly in front of a character such as \<open>*\<close> or
  \<open>=\<close> that is neither a letter, a digit, a blank nor a token of its own.\<close>

theorem Shift_in_bounds:
  assumes "lex_pos l \<le> length (lex_sql l)" and "Shift l = (r, l')"
  shows "lex_sql l' = lex_sql l \<and> lex_pos l \<le> lex_pos l' \<and> lex_pos l' \<le> length (lex_sql l) \<and>
    (r \<noteq> Inr True \<longrightarrow> lex_pos l' = length (lex_sql l)) \<and>
    (r = Inr True \<longrightarrow> (\<exists>from. lex_pos l \<le> from \<and> from < length (lex_sql l) \<and>
       token_text (currentToken l') = take (lex_pos l' - from) (drop from (lex_sql l)) \<and>
       (token_text (currentToken l') = [] \<longleftrightarrow> stuck (lex_sql l) from) \<and>
       (stuck (lex_sql l) from \<longrightarrow> lex_pos l' = from)))"
proof (cases "r = Inr True")
  case True
  obtain t p where t: "next_token (lex_sql l) (lex_pos l) = Some (Inr (t, p))" "l' = l\<lparr>lex_pos := p, currentToken := t\<rparr>"
    using assms(2) True by (auto simp: Shift_def split: option.splits sum.splits)
  obtain f where f: "skips (lex_sql l) (lex_pos l) f" "token_at (lex_sql l) f t p" using next_token_at [OF t(1)] by blast
  then show ?thesis using True t(2) skips_le [OF f(1)] assms(1)
    by (auto simp: token_at_def intro!: exI [of _ f])
next
  case False
  then show ?thesis using assms by (auto simp: Shift_def split: option.splits sum.splits)
qed

text \<open>The statements that are meant for the driver: after any number of semicolons, the words \<open>set\<close> and \<open>streaming\<close>. \<open>m\<close> is
  the lexer after the second word.\<close>

definition at_word :: "string \<Rightarrow> SqlLexer \<Rightarrow> bool" where
  "at_word w l \<longleftrightarrow> token_type (currentToken l) = T_WORD \<and> token_lower (currentToken l) = w"

inductive streaming_at :: "SqlLexer \<Rightarrow> SqlLexer \<Rightarrow> bool" where
  words: "Shift l = (Inr True, l') \<Longrightarrow> at_word ''set'' l' \<Longrightarrow> Shift l' = (Inr True, m) \<Longrightarrow> at_word ''streaming'' m \<Longrightarrow> streaming_at l m"
| semicolon: "Shift l = (Inr True, l') \<Longrightarrow> token_type (currentToken l') = T_SEMICOLON \<Longrightarrow> streaming_at l' m \<Longrightarrow> streaming_at l m"

lemma streaming_internal: "streaming_at l m \<Longrightarrow> internal_loop l"
proof (induction rule: streaming_at.induct)
  case (words l l' m)
  then show ?case by (subst internal_loop.simps) (simp add: at_word_def ExpectNextToken_def)
next
  case (semicolon l l' m)
  then show ?case by (subst internal_loop.simps) simp
qed

lemma internal_streaming: "internal_loop l \<Longrightarrow> \<exists>m. streaming_at l m"
proof (induction l rule: internal_loop.induct)
  case (1 l)
  obtain l' where s: "Shift l = (Inr True, l')"
    using "1.prems" by (subst (asm) internal_loop.simps) (auto split: prod.splits sum.splits bool.splits)
  show ?case
  proof (cases "token_type (currentToken l') = T_SEMICOLON")
    case True
    with s "1.prems" have "internal_loop l'" by (subst (asm) internal_loop.simps) simp
    with "1.IH" [OF s [symmetric] refl] True obtain m where "streaming_at l' m" by auto
    with s True show ?thesis by (blast intro: streaming_at.semicolon)
  next
    case False
    with s "1.prems" have set: "at_word ''set'' l'" and exp: "fst (ExpectNextToken l' T_WORD ''streaming'')"
      by (subst (asm) internal_loop.simps, simp add: at_word_def)+
    from exp obtain m where "Shift l' = (Inr True, m)" "at_word ''streaming'' m"
      by (auto simp: ExpectNextToken_def at_word_def split: prod.splits sum.splits bool.splits)
    with s set show ?thesis by (blast intro: streaming_at.words)
  qed
qed

lemma streaming_parsed:
  "streaming_at l m \<Longrightarrow> next_command l = (case SetStreaming_Parse m of Inl e \<Rightarrow> Inl e | Inr (c, _) \<Rightarrow> Inr (Some c))"
proof (induction rule: streaming_at.induct)
  case (words l l' m)
  then show ?case by (subst next_command.simps) (simp add: at_word_def ProcessCommand_def split: sum.split prod.split)
next
  case (semicolon l l' m)
  then show ?case by (subst next_command.simps) simp
qed

lemma command_internal_loop: "next_command l = Inr (Some c) \<Longrightarrow> internal_loop l"
proof (induction l rule: internal_loop.induct)
  case (1 l)
  obtain l' where s: "Shift l = (Inr True, l')"
    using "1.prems" by (subst (asm) next_command.simps) (auto split: prod.splits sum.splits bool.splits)
  show ?case
  proof (cases "token_type (currentToken l') = T_SEMICOLON")
    case True
    with s "1.prems" have "next_command l' = Inr (Some c)" by (subst (asm) next_command.simps) simp
    from "1.IH" [OF s [symmetric] refl] this True s show ?thesis by (subst internal_loop.simps) simp
  next
    case False
    with s "1.prems" have w: "token_type (currentToken l') = T_WORD" "ProcessCommand l' = Inr c"
      by (subst (asm) next_command.simps, simp split: if_splits sum.splits)+
    then obtain l'' where "token_lower (currentToken l') = ''set''" "Shift l' = (Inr True, l'')"
      "token_type (currentToken l'') = T_WORD" "token_lower (currentToken l'') = ''streaming''"
      by (auto simp: ProcessCommand_def Let_def split: if_splits prod.splits sum.splits bool.splits)
    with s False w(1) show ?thesis by (subst internal_loop.simps) (simp add: ExpectNextToken_def)
  qed
qed

text \<open>(C36) The test that decides whether a statement is a command of the driver accepts exactly the statements that have, after
  any number of semicolons, the words \<open>set\<close> and \<open>streaming\<close>. For such a statement the parser gives what it reads from there on, a
  command or an error, so that the assertion that there is a command cannot fail; and it finds a command in no other
  statement.\<close>

theorem IsInternalCommand_agrees:
  "(IsInternalCommand sql \<longleftrightarrow> (\<exists>m. streaming_at (newLexer sql) m)) \<and>
   (streaming_at (newLexer sql) l \<longrightarrow>
      GetNextCommand sql = (case SetStreaming_Parse l of Inl e \<Rightarrow> Inl e | Inr (c, _) \<Rightarrow> Inr (Some c))) \<and>
   (GetNextCommand sql = Inr (Some c) \<longrightarrow> IsInternalCommand sql)"
  unfolding GetNextCommand_def IsInternalCommand_def
  using streaming_internal internal_streaming streaming_parsed [of "newLexer sql" l] command_internal_loop [of "newLexer sql" c] by blast

theorem IsInternalCommand_agrees_witness:
  "IsInternalCommand ''; set streaming on batch_size 10'' \<and> (\<exists>m. streaming_at (newLexer ''set streaming 2'') m) \<and>
   \<not> (\<exists>m. streaming_at (newLexer ''select streaming'') m) \<and> GetNextCommand ''select streaming'' \<noteq> Inr (Some newSetStreaming)"
proof -
  have "GetNextCommand ''; set streaming on batch_size 10'' =
      Inr (Some (newSetStreaming\<lparr>cmd_enabled := True, cmd_batchSize := 10\<rparr>))" by code_simp
  moreover have "IsInternalCommand ''set streaming 2''" by code_simp
  moreover have "\<not> IsInternalCommand ''select streaming''" by code_simp
  ultimately show ?thesis using IsInternalCommand_agrees by blast
qed

end
