(* ===== verification/Odbc_Param.thy ===== *)
theory Odbc_Param
  imports Odbc_AppBufferProps
begin

text \<open>
  Statement parameters (\<open>app/parameter.cpp\<close>, \<open>app/parameter_set.cpp\<close>): the bound buffers, the data sent
  in pieces while a statement executes, and the set of parameters of a statement. The ordered map from
  parameter numbers is an association list with increasing keys.
\<close>

section \<open>Ordered maps with numbers as keys\<close>

fun bind_at :: "nat \<Rightarrow> 'v \<Rightarrow> (nat \<times> 'v) list \<Rightarrow> (nat \<times> 'v) list" where
  "bind_at k v [] = [(k, v)]"
| "bind_at k v ((i, x) # m) =
     (if k < i then (k, v) # (i, x) # m else if k = i then (k, v) # m else (i, x) # bind_at k v m)"

definition unbind_at :: "nat \<Rightarrow> (nat \<times> 'v) list \<Rightarrow> (nat \<times> 'v) list" where
  "unbind_at k = filter (\<lambda>(i, _). i \<noteq> k)"

definition ordered :: "(nat \<times> 'v) list \<Rightarrow> bool" where
  "ordered m \<longleftrightarrow> sorted_wrt (<) (map fst m)"

lemma bind_at_keys: "fst ` set (bind_at k v m) = insert k (fst ` set m)"
  by (induction k v m rule: bind_at.induct) auto

lemma bind_at_ordered: "ordered m \<Longrightarrow> ordered (bind_at k v m)"
proof (induction k v m rule: bind_at.induct)
  case (2 k v i x m)
  have keys: "set (map fst (bind_at k v m)) = insert k (set (map fst m))"
    using bind_at_keys [of k v m] by simp
  show ?case using 2 by (auto simp: ordered_def keys simp del: set_map intro: less_trans)
qed (simp add: ordered_def)

lemma unbind_at_ordered: "ordered m \<Longrightarrow> ordered (unbind_at k m)"
  by (induction m) (auto simp: ordered_def unbind_at_def)

lemma map_of_bind_at: "ordered m \<Longrightarrow> map_of (bind_at k v m) = (map_of m)(k \<mapsto> v)"
  by (induction k v m rule: bind_at.induct) (auto simp: ordered_def fun_eq_iff)

lemma map_of_unbind_at: "map_of (unbind_at k m) = (map_of m)(k := None)"
  by (induction m) (auto simp: unbind_at_def fun_eq_iff)

section \<open>A parameter\<close>

record Parameter =
  param_buffer :: ApplicationDataBuffer
  param_sqlType :: int
  param_columnSize :: nat
  param_decDigits :: int
  nullData :: bool
  storedData :: "u8 list"

definition emptyBuffer :: ApplicationDataBuffer where
  "emptyBuffer =
     \<lparr>buf_type = AI_UNSUPPORTED, buffer = None, buflen = 0, reslen = None, byteOffset = 0, elementOffset = 0\<rparr>"

definition newBuffer :: "OdbcNativeType \<Rightarrow> nat option \<Rightarrow> int \<Rightarrow> nat option \<Rightarrow> ApplicationDataBuffer" where
  "newBuffer t p n r =
     \<lparr>buf_type = t, buffer = p, buflen = n, reslen = r, byteOffset = 0, elementOffset = 0\<rparr>"

definition emptyParameter :: Parameter where
  "emptyParameter = \<lparr>param_buffer = emptyBuffer, param_sqlType = 0, param_columnSize = 0, param_decDigits = 0,
     nullData = False, storedData = []\<rparr>"

definition newParameter :: "ApplicationDataBuffer \<Rightarrow> int \<Rightarrow> nat \<Rightarrow> int \<Rightarrow> Parameter" where
  "newParameter b t n d = \<lparr>param_buffer = b, param_sqlType = t, param_columnSize = n, param_decDigits = d,
     nullData = False, storedData = []\<rparr>"

text \<open>The assignment operator leaves the data already sent and the null mark of its target.\<close>

definition Parameter_assign :: "Parameter \<Rightarrow> Parameter \<Rightarrow> Parameter" where
  "Parameter_assign target other =
     target\<lparr>param_buffer := param_buffer other, param_sqlType := param_sqlType other,
       param_columnSize := param_columnSize other, param_decDigits := param_decDigits other\<rparr>"

definition ResetStoredData :: "Parameter \<Rightarrow> Parameter" where
  "ResetStoredData p = p\<lparr>storedData := []\<rparr>"

definition IsDataReady :: "Platform \<Rightarrow> mem \<Rightarrow> Parameter \<Rightarrow> bool" where
  "IsDataReady pl m p \<longleftrightarrow>
     \<not> IsDataAtExec m (param_buffer p) \<or>
     int (length (storedData p)) = GetDataAtExecSize pl m (param_buffer p)"

definition SQL_DEFAULT_PARAM :: int where "SQL_DEFAULT_PARAM = -5"

text \<open>A search for the terminator of a text is bounded by \<open>bound\<close>.\<close>

definition piece_length :: "nat \<Rightarrow> mem \<Rightarrow> ApplicationDataBuffer \<Rightarrow> nat option \<Rightarrow> int \<Rightarrow> buf_error + int" where
  "piece_length bound m b data len =
     (if buf_type b = AI_CHAR \<and> len = SQL_NTS then
        (case data of
           None \<Rightarrow> Inl NullPointer
         | Some a \<Rightarrow> (case c_string_at bound m a of None \<Rightarrow> Inl NoTerminator | Some s \<Rightarrow> Inr (int (length s))))
      else Inr len)"

definition PutData ::
  "Platform \<Rightarrow> nat \<Rightarrow> mem \<Rightarrow> nat option \<Rightarrow> int \<Rightarrow> Parameter \<Rightarrow> buf_error + Parameter" where
  "PutData pl bound m data len p =
     (let b = param_buffer p
      in if len = SQL_DEFAULT_PARAM then Inr p
         else if len = SQL_NULL_DATA then Inr (p\<lparr>nullData := True\<rparr>)
         else if buf_type b = AI_CHAR \<or> buf_type b = AI_BINARY then
           (case piece_length bound m b data len of
              Inl e \<Rightarrow> Inl e
            | Inr slen \<Rightarrow>
                if slen \<le> 0 then Inr p
                else (case data of
                        None \<Rightarrow> Inl NullPointer
                      | Some a \<Rightarrow> Inr (p\<lparr>storedData := storedData p @ read_bytes m a (nat slen)\<rparr>)))
         else let dataSize = GetDataAtExecSize pl m b
              in if dataSize < 0 then Inl Uncaught
                 else if dataSize = 0 then Inr (p\<lparr>storedData := []\<rparr>)
                 else (case data of
                         None \<Rightarrow> Inl NullPointer
                       | Some a \<Rightarrow> Inr (p\<lparr>storedData := read_bytes m a (nat dataSize)\<rparr>)))"

section \<open>The parameters of a statement\<close>

record ParameterSet =
  ps_parameters :: "(nat \<times> Parameter) list"
  paramTypes :: "int list"
  paramBindOffset :: "nat option"
  processedParamRows :: "nat option"
  paramsStatus :: "nat option"
  paramSetSize :: nat
  paramSetPos :: nat
  currentParamIdx :: nat
  typesSet :: bool

definition newParameterSet :: ParameterSet where
  "newParameterSet = \<lparr>ps_parameters = [], paramTypes = [], paramBindOffset = None, processedParamRows = None,
     paramsStatus = None, paramSetSize = 1, paramSetPos = 0, currentParamIdx = 0, typesSet = False\<rparr>"

definition SetParamSetSize :: "nat \<Rightarrow> ParameterSet \<Rightarrow> ParameterSet" where
  "SetParamSetSize n ps = ps\<lparr>paramSetSize := n\<rparr>"

definition BindParameter :: "nat \<Rightarrow> Parameter \<Rightarrow> ParameterSet \<Rightarrow> ParameterSet" where
  "BindParameter i p ps =
     (let old = (case map_of (ps_parameters ps) i of None \<Rightarrow> emptyParameter | Some q \<Rightarrow> q)
      in ps\<lparr>ps_parameters := bind_at i (Parameter_assign old p) (ps_parameters ps)\<rparr>)"

definition UnbindParameter :: "nat \<Rightarrow> ParameterSet \<Rightarrow> ParameterSet" where
  "UnbindParameter i ps = ps\<lparr>ps_parameters := unbind_at i (ps_parameters ps)\<rparr>"

definition UnbindAll :: "ParameterSet \<Rightarrow> ParameterSet" where
  "UnbindAll ps = ps\<lparr>ps_parameters := []\<rparr>"

definition GetParametersNumber :: "ParameterSet \<Rightarrow> int" where
  "GetParametersNumber ps = int (length (ps_parameters ps)) mod 2 ^ 16"

definition Prepare :: "ParameterSet \<Rightarrow> ParameterSet" where
  "Prepare ps =
     ps\<lparr>paramTypes := [], typesSet := False, paramSetPos := 0,
       ps_parameters := map (apsnd ResetStoredData) (ps_parameters ps)\<rparr>"

definition IsDataAtExecNeeded :: "Platform \<Rightarrow> mem \<Rightarrow> ParameterSet \<Rightarrow> bool" where
  "IsDataAtExecNeeded pl m ps \<longleftrightarrow> (\<exists>(i, p) \<in> set (ps_parameters ps). \<not> IsDataReady pl m p)"

definition SetParamsProcessed :: "nat \<Rightarrow> ParameterSet \<Rightarrow> mem \<Rightarrow> mem" where
  "SetParamsProcessed n ps m =
     (case processedParamRows ps of None \<Rightarrow> m | Some a \<Rightarrow> write_bytes m a (int_bytes 8 (int n)))"

definition SetParamStatus :: "int \<Rightarrow> int \<Rightarrow> ParameterSet \<Rightarrow> mem \<Rightarrow> mem" where
  "SetParamStatus idx status ps m =
     (case paramsStatus ps of
        None \<Rightarrow> m
      | Some a \<Rightarrow>
          if idx < 0 \<or> to_signed 64 (int (paramSetSize ps)) \<le> idx then m
          else write_bytes m (a + 2 * nat idx) (int_bytes 2 status))"

definition UpdateParamsTypes :: "int list \<Rightarrow> ParameterSet \<Rightarrow> ParameterSet" where
  "UpdateParamsTypes ts ps = ps\<lparr>paramTypes := ts, typesSet := True\<rparr>"

definition GetParamType :: "int \<Rightarrow> int \<Rightarrow> ParameterSet \<Rightarrow> int" where
  "GetParamType idx dflt ps =
     (if 0 < idx \<and> nat idx \<le> length (paramTypes ps) then paramTypes ps ! nat (idx - 1) else dflt)"

definition GetExpectedParamNum :: "ParameterSet \<Rightarrow> int" where
  "GetExpectedParamNum ps = int (length (paramTypes ps)) mod 2 ^ 16"

definition IsParameterSelected :: "ParameterSet \<Rightarrow> bool" where
  "IsParameterSelected ps \<longleftrightarrow> currentParamIdx ps \<noteq> 0"

definition GetParameter :: "nat \<Rightarrow> ParameterSet \<Rightarrow> Parameter option" where
  "GetParameter i ps = map_of (ps_parameters ps) i"

definition GetSelectedParameter :: "ParameterSet \<Rightarrow> Parameter option" where
  "GetSelectedParameter ps = GetParameter (currentParamIdx ps) ps"

definition SelectNextParameter :: "Platform \<Rightarrow> mem \<Rightarrow> ParameterSet \<Rightarrow> Parameter option \<times> ParameterSet" where
  "SelectNextParameter pl m ps =
     (case find (\<lambda>(i, p). \<not> IsDataReady pl m p) (ps_parameters ps) of
        Some (i, p) \<Rightarrow> (Some p, ps\<lparr>currentParamIdx := i\<rparr>)
      | None \<Rightarrow> (None, ps))"

definition CalculateRowLen :: "ParameterSet \<Rightarrow> nat" where
  "CalculateRowLen ps = (if ps_parameters ps = [] then 0 else fst (last (ps_parameters ps)))"

definition GetParamSetSize :: "ParameterSet \<Rightarrow> int" where
  "GetParamSetSize ps = to_signed 32 (int (paramSetSize ps))"

section \<open>The invariant of a parameter set\<close>

text \<open>The numbers increase and are the sixteen-bit numbers an application can name, from one.\<close>

definition params_ok :: "ParameterSet \<Rightarrow> bool" where
  "params_ok ps \<longleftrightarrow> ordered (ps_parameters ps) \<and> (\<forall>i \<in> fst ` set (ps_parameters ps). 0 < i \<and> i < 2 ^ 16)"

lemma newParameterSet_ok: "params_ok newParameterSet"
  by (simp add: params_ok_def newParameterSet_def ordered_def)

lemma BindParameter_ok: "params_ok ps \<Longrightarrow> 0 < i \<Longrightarrow> i < 2 ^ 16 \<Longrightarrow> params_ok (BindParameter i p ps)"
  by (auto simp: params_ok_def BindParameter_def Let_def bind_at_ordered bind_at_keys)

lemma UnbindParameter_ok: "params_ok ps \<Longrightarrow> params_ok (UnbindParameter i ps)"
  by (auto simp: params_ok_def UnbindParameter_def unbind_at_ordered) (auto simp: unbind_at_def)

lemma UnbindAll_ok: "params_ok (UnbindAll ps)"
  by (simp add: params_ok_def UnbindAll_def ordered_def)

lemma Prepare_ok: "params_ok ps \<Longrightarrow> params_ok (Prepare ps)"
  by (auto simp: params_ok_def Prepare_def ordered_def comp_def)

lemma SelectNextParameter_ok:
  "params_ok ps \<Longrightarrow> SelectNextParameter pl m ps = (r, ps') \<Longrightarrow> params_ok ps'"
  by (auto simp: params_ok_def SelectNextParameter_def split: option.splits)

text \<open>The parameter an application is asked for is the first one that still needs data, and it is selected.\<close>

lemma SelectNextParameter_selects:
  assumes "params_ok ps" and "SelectNextParameter pl m ps = (Some p, ps')"
  shows "GetSelectedParameter ps' = Some p" "IsParameterSelected ps'" "\<not> IsDataReady pl m p"
proof -
  from assms(2) obtain i where f: "find (\<lambda>(i, p). \<not> IsDataReady pl m p) (ps_parameters ps) = Some (i, p)"
    and ps': "ps' = ps\<lparr>currentParamIdx := i\<rparr>"
    by (auto simp: SelectNextParameter_def split: option.splits)
  from f have "(i, p) \<in> set (ps_parameters ps)" and "\<not> IsDataReady pl m p"
    by (auto simp: find_Some_iff dest: nth_mem)
  moreover from assms(1) have "distinct (map fst (ps_parameters ps))" and "0 < i"
    using \<open>(i, p) \<in> _\<close> by (auto simp: params_ok_def ordered_def strict_sorted_iff)
  ultimately show "GetSelectedParameter ps' = Some p" "IsParameterSelected ps'" "\<not> IsDataReady pl m p"
    by (auto simp: ps' GetSelectedParameter_def GetParameter_def IsParameterSelected_def)
qed

lemma SelectNextParameter_none:
  "SelectNextParameter pl m ps = (None, ps') \<longleftrightarrow> ps' = ps \<and> \<not> IsDataAtExecNeeded pl m ps"
  by (auto simp: SelectNextParameter_def IsDataAtExecNeeded_def find_None_iff find_Some_iff split: option.splits)
    (metis (mono_tags, lifting) case_prodI nth_mem)

section \<open>Data sent in pieces\<close>

fun put_pieces :: "Platform \<Rightarrow> nat \<Rightarrow> mem \<Rightarrow> (nat \<times> nat) list \<Rightarrow> Parameter \<Rightarrow> buf_error + Parameter" where
  "put_pieces pl bound m [] p = Inr p"
| "put_pieces pl bound m ((a, n) # ns) p =
     (case PutData pl bound m (Some a) (int n) p of Inl e \<Rightarrow> Inl e | Inr p' \<Rightarrow> put_pieces pl bound m ns p')"

lemma PutData_piece:
  assumes "buf_type (param_buffer p) = AI_CHAR \<or> buf_type (param_buffer p) = AI_BINARY"
  shows "PutData pl bound m (Some a) (int n) p = Inr (p\<lparr>storedData := storedData p @ read_bytes m a n\<rparr>)"
  using assms
  by (auto simp: PutData_def Let_def piece_length_def SQL_DEFAULT_PARAM_def SQL_NULL_DATA_def SQL_NTS_def read_bytes_def)

lemma put_pieces_stored:
  assumes "buf_type (param_buffer p) = AI_CHAR \<or> buf_type (param_buffer p) = AI_BINARY"
  shows "put_pieces pl bound m ns p =
    Inr (p\<lparr>storedData := storedData p @ concat (map (\<lambda>(a, n). read_bytes m a n) ns)\<rparr>)"
  using assms by (induction ns arbitrary: p) (auto simp: PutData_piece)

lemma stored_ready:
  "IsDataAtExec m (param_buffer p) \<Longrightarrow>
   IsDataReady pl m p \<longleftrightarrow> int (length (storedData p)) = GetDataAtExecSize pl m (param_buffer p)"
  by (simp add: IsDataReady_def)

lemma length_pieces: "length (concat (map (\<lambda>(a, n). read_bytes m a n) ns)) = sum_list (map snd ns)"
  by (induction ns) (auto simp: read_bytes_def)

text \<open>(C34) Data sent while a statement executes: for a text or binary parameter the pieces are kept in the order they
  were sent, and the parameter is ready exactly when their lengths add up to the announced length, so that the next
  parameter is only asked for then. A wide text parameter does not add pieces up: every piece is read with the whole
  announced length, whatever its own length, and replaces the one before.\<close>
theorem data_at_exec_pieces:
  assumes "IsDataAtExec m (param_buffer p)"
    and "buf_type (param_buffer p) \<in> {AI_CHAR, AI_BINARY}"
    and "buf_type (param_buffer w) = AI_WCHAR" and "0 < GetDataAtExecSize pl m (param_buffer w)"
    and "len \<noteq> SQL_DEFAULT_PARAM" and "len \<noteq> SQL_NULL_DATA"
  shows "\<exists>p'. put_pieces pl bound m ns (ResetStoredData p) = Inr p' \<and>
      storedData p' = concat (map (\<lambda>(a, n). read_bytes m a n) ns) \<and>
      (IsDataReady pl m p' \<longleftrightarrow> int (sum_list (map snd ns)) = GetDataAtExecSize pl m (param_buffer p)) \<and>
      PutData pl bound m (Some a) len w =
        Inr (w\<lparr>storedData := read_bytes m a (nat (GetDataAtExecSize pl m (param_buffer w)))\<rparr>)"
proof -
  let ?p = "(ResetStoredData p)\<lparr>storedData := concat (map (\<lambda>(a, n). read_bytes m a n) ns)\<rparr>"
  have p: "param_buffer ?p = param_buffer p" by (simp add: ResetStoredData_def)
  have "put_pieces pl bound m ns (ResetStoredData p) = Inr ?p"
    using put_pieces_stored [of "ResetStoredData p" pl bound m ns] assms(2) by (auto simp: ResetStoredData_def)
  moreover have "IsDataReady pl m ?p \<longleftrightarrow> int (sum_list (map snd ns)) = GetDataAtExecSize pl m (param_buffer p)"
    using stored_ready [of m ?p pl] assms(1) by (simp add: p length_pieces)
  moreover have "PutData pl bound m (Some a) len w =
      Inr (w\<lparr>storedData := read_bytes m a (nat (GetDataAtExecSize pl m (param_buffer w)))\<rparr>)"
    using assms(3-6) by (simp add: PutData_def Let_def)
  ultimately show ?thesis by (intro exI [of _ ?p]) simp
qed

text \<open>A parameter announced with a length of 3 and a wide one of 4 characters; the length cells are at 0 and 8.\<close>

definition announced :: mem where
  "announced = write_bytes (write_bytes (\<lambda>a. if a < 64 then 0 else of_nat a) 0 (int_bytes 8 (-103))) 8 (int_bytes 8 (-104))"

definition sent_param :: "OdbcNativeType \<Rightarrow> nat \<Rightarrow> Parameter" where
  "sent_param t a = newParameter (newBuffer t None 0 (Some a)) 12 10 0"

lemma announced_lengths:
  "get_reslen announced (param_buffer (sent_param t 0)) = Some (-103)"
  "get_reslen announced (param_buffer (sent_param t 8)) = Some (-104)"
proof -
  have "read_bytes announced 0 8 = int_bytes 8 (-103)" "read_bytes announced 8 8 = int_bytes 8 (-104)"
    by (simp_all add: announced_def read_write_disjoint read_write_prefix)
  moreover have "to_signed 64 (-103) = -103" "to_signed 64 (-104) = -104" by (simp_all add: to_signed_def)
  ultimately show "get_reslen announced (param_buffer (sent_param t 0)) = Some (-103)"
    "get_reslen announced (param_buffer (sent_param t 8)) = Some (-104)"
    by (simp_all add: get_reslen_def GetResLen_def ApplyOffset_def sent_param_def newParameter_def newBuffer_def
        sint_of_int_bytes)
qed

theorem data_at_exec_pieces_witness:
  "\<exists>p'. put_pieces (plain_platform 8) 10 announced [(64, 2), (70, 1)] (ResetStoredData (sent_param AI_CHAR 0)) = Inr p' \<and>
     storedData p' = [64, 65, 70] \<and> IsDataReady (plain_platform 8) announced p'"
proof -
  have t: "to_signed 32 (-103) = -103" "to_signed 32 (-104) = -104" by (simp_all add: to_signed_def)
  have type: "buf_type (param_buffer (sent_param t a)) = t" for t a
    by (simp add: sent_param_def newParameter_def newBuffer_def)
  have d: "IsDataAtExec announced (param_buffer (sent_param AI_CHAR 0))"
    by (simp add: IsDataAtExec_def announced_lengths Let_def t SQL_LEN_DATA_AT_EXEC_OFFSET_def)
  have n: "GetDataAtExecSize (plain_platform 8) announced (param_buffer (sent_param AI_CHAR 0)) = 3"
    "GetDataAtExecSize (plain_platform 8) announced (param_buffer (sent_param AI_WCHAR 8)) = 8"
    by (simp_all add: GetDataAtExecSize_def type announced_lengths Let_def t SQL_LEN_DATA_AT_EXEC_OFFSET_def
        SQL_LEN_DATA_AT_EXEC_def)
  have b: "concat (map (\<lambda>(a, n). read_bytes announced a n) [(64, 2), (70, 1)]) = [64, 65, 70]"
    by (simp add: announced_def read_write_disjoint) (simp add: read_bytes_def eval_nat_numeral)
  show ?thesis
    using data_at_exec_pieces [of announced "sent_param AI_CHAR 0" "sent_param AI_WCHAR 8" "plain_platform 8" 4 10
        "[(64, 2), (70, 1)]" 64] d n b
    by (auto simp: type SQL_DEFAULT_PARAM_def SQL_NULL_DATA_def)
qed

end
