(* ===== verification/Odbc_Query.thy ===== *)
theory Odbc_Query
  imports Odbc_Connection Odbc_Cursor Odbc_Sql Odbc_Param
begin

text \<open>
  The queries a statement can run (\<open>query/data_query.cpp\<close>, \<open>query/batch_query.cpp\<close>,
  \<open>query/internal_query.h\<close>, \<open>query/query.h\<close>): a query for data, which has the statement translated to a
  pipeline of the database and reads the documents it returns; a batch of parameter sets; an internal command;
  and the catalogue queries. The translation service and the database are parameters.
\<close>

section \<open>The translation service and the database\<close>

record MqlQueryContext =
  aggregateOperations :: "string list"
  mql_columnMetadata :: "JdbcColumnMetadata list"
  mql_paths :: "string list"
  collectionName :: string

datatype aggregate_answer =
    Documents "bson_document list"
  | Aggregate_failed int string string
  | Aggregate_thrown

record Services =
  backend :: Backend
  create_mapping :: "JniErrorInfo option"
  map_query :: "string \<Rightarrow> JniErrorInfo + MqlQueryContext option"
  aggregate :: "string \<Rightarrow> string \<Rightarrow> string list \<Rightarrow> int \<Rightarrow> int option \<Rightarrow> aggregate_answer"
  debug_log :: bool
  library :: Library
  platform :: Platform
  string_bound :: nat

definition RedactMessage :: "Services \<Rightarrow> string \<Rightarrow> string" where
  "RedactMessage w msg = (if debug_log w then msg else ''****'')"

definition report_at :: "SqlState \<Rightarrow> string \<Rightarrow> int \<Rightarrow> int \<Rightarrow> io \<Rightarrow> io" where
  "report_at st msg row col = apfst (AddRecord (newDiagnosticRecord st msg [] [] row col))"

definition report_error :: "Services \<Rightarrow> DocumentDbError \<Rightarrow> io \<Rightarrow> io" where
  "report_error w e = report SHY000_GENERAL_ERROR (RedactMessage w (GetText e))"

section \<open>Queries for data\<close>

record DataQuery =
  dq_sql :: string
  dq_cursor :: "DocumentDbCursor option"
  dq_resultMeta :: "ColumnMeta list"
  dq_resultMetaAvailable :: bool

definition newDataQuery :: "string \<Rightarrow> DataQuery" where
  "newDataQuery sql = \<lparr>dq_sql = sql, dq_cursor = None, dq_resultMeta = [], dq_resultMetaAvailable = False\<rparr>"

text \<open>The translation of the statement: four requests, each of which may fail. The last one may also give a null pointer without an
  error, when a part of the translated statement cannot be read.\<close>

definition GetMqlQueryContext :: "Services \<Rightarrow> Connection \<Rightarrow> string \<Rightarrow> DocumentDbError + MqlQueryContext option" where
  "GetMqlQueryContext w c sql =
     (case Connection_GetConnectionProperties (backend w) c of
        Some error \<Rightarrow> Inl error
      | None \<Rightarrow>
          (case Connection_GetDatabaseMetadata (backend w) c of
             Some error \<Rightarrow> Inl error
           | None \<Rightarrow>
               (case create_mapping w of
                  Some errInfo \<Rightarrow> Inl (error_of_info errInfo)
                | None \<Rightarrow>
                    (case map_query w sql of
                       Inl errInfo \<Rightarrow> Inl (error_of_info errInfo)
                     | Inr context \<Rightarrow> Inr context))))"

fun read_jdbc :: "JdbcColumnMetadata list \<Rightarrow> int \<Rightarrow> ColumnMeta list" where
  "read_jdbc [] prevPosition = []"
| "read_jdbc (j # js) prevPosition = (let (c, prev) = ReadJdbcMetadata j prevPosition in c # read_jdbc js prev)"

definition ReadJdbcColumnMetadataVector :: "JdbcColumnMetadata list \<Rightarrow> DataQuery \<Rightarrow> DataQuery" where
  "ReadJdbcColumnMetadataVector jdbcVector q =
     (if jdbcVector = [] then q\<lparr>dq_resultMeta := []\<rparr>
      else q\<lparr>dq_resultMeta := read_jdbc jdbcVector 0, dq_resultMetaAvailable := True\<rparr>)"

definition MakeRequestResultsetMeta :: "Services \<Rightarrow> Connection \<Rightarrow> DataQuery \<Rightarrow> io \<Rightarrow> SqlResult \<times> DataQuery \<times> io" where
  "MakeRequestResultsetMeta w c q dm =
     (case GetMqlQueryContext w c (dq_sql q) of
        Inl error \<Rightarrow> (AI_ERROR, q, report_error w error dm)
      | Inr None \<Rightarrow> (AI_ERROR, q, report_error w no_error dm)
      | Inr (Some context) \<Rightarrow> (AI_SUCCESS, ReadJdbcColumnMetadataVector (mql_columnMetadata context) q, dm))"

definition DataQuery_GetMeta :: "Services \<Rightarrow> Connection \<Rightarrow> DataQuery \<Rightarrow> io \<Rightarrow> ColumnMeta list option \<times> DataQuery \<times> io" where
  "DataQuery_GetMeta w c q dm =
     (if dq_resultMetaAvailable q then (Some (dq_resultMeta q), q, dm)
      else let (res, q', dm') = MakeRequestResultsetMeta w c q dm
           in (if dq_resultMetaAvailable q' then Some (dq_resultMeta q') else None, q', dm'))"

text \<open>A statement that cannot be translated is reported twice, the second time as a general error. The translated statement and
  the database client are used without a test for null.\<close>

definition MakeRequestFetch :: "Services \<Rightarrow> Connection \<Rightarrow> int \<Rightarrow> DataQuery \<Rightarrow> io \<Rightarrow> buf_error + (SqlResult \<times> DataQuery \<times> io)" where
  "MakeRequestFetch w c timeout q dm =
     (case GetMqlQueryContext w c (dq_sql q) of
        Inl error \<Rightarrow>
          let msg = RedactMessage w (GetText error);
              dm1 = (if err_code error = DOCUMENTDB_ERR_SQL_EXCEPTION
                     then report SHYC00_OPTIONAL_FEATURE_NOT_IMPLEMENTED msg dm
                     else report SHY000_GENERAL_ERROR msg dm)
          in Inr (AI_ERROR, q, report SHY000_GENERAL_ERROR msg dm1)
      | Inr None \<Rightarrow> Inl NullPointer
      | Inr (Some context) \<Rightarrow>
          let q1 = (if \<not> dq_resultMetaAvailable q then ReadJdbcColumnMetadataVector (mql_columnMetadata context) q else q);
              config = con_config c
          in if \<not> con_mongo c then Inl NullPointer
             else case aggregate w (sv_val (database config)) (collectionName context) (aggregateOperations context)
                    (sv_val (defaultFetchSize config)) (if timeout \<noteq> 0 then Some (timeout * 1000) else None) of
               Aggregate_thrown \<Rightarrow> Inl Uncaught
             | Aggregate_failed code msg cause \<Rightarrow>
                 Inr (AI_ERROR, q1, report_error w
                   (error_of DOCUMENTDB_ERR_SECURE_CONNECTION_FAILURE (connect_failure code msg cause)) dm)
             | Documents docs \<Rightarrow>
                 Inr (AI_SUCCESS, q1\<lparr>dq_cursor := Some (newCursor docs (mql_columnMetadata context) (mql_paths context))\<rparr>, dm))"

definition DataQuery_Close :: "DataQuery \<Rightarrow> DataQuery" where
  "DataQuery_Close q = q\<lparr>dq_cursor := None\<rparr>"

definition DataQuery_Execute :: "Services \<Rightarrow> Connection \<Rightarrow> int \<Rightarrow> DataQuery \<Rightarrow> io \<Rightarrow> buf_error + (SqlResult \<times> DataQuery \<times> io)" where
  "DataQuery_Execute w c timeout q dm = MakeRequestFetch w c timeout (DataQuery_Close q) dm"

fun ProcessConversionResult :: "ConversionResult \<Rightarrow> int \<Rightarrow> int \<Rightarrow> io \<Rightarrow> SqlResult \<times> io" where
  "ProcessConversionResult CR_SUCCESS rowIdx columnIdx dm = (AI_SUCCESS, dm)"
| "ProcessConversionResult CR_NO_DATA rowIdx columnIdx dm = (AI_NO_DATA, dm)"
| "ProcessConversionResult CR_VARLEN_DATA_TRUNCATED rowIdx columnIdx dm =
     (AI_SUCCESS_WITH_INFO, report_at S01004_DATA_TRUNCATED
        ''Buffer is too small for the column data. Truncated from the right.'' rowIdx columnIdx dm)"
| "ProcessConversionResult CR_FRACTIONAL_TRUNCATED rowIdx columnIdx dm =
     (AI_SUCCESS_WITH_INFO, report_at S01S07_FRACTIONAL_TRUNCATION
        ''Buffer is too small for the column data. Fraction truncated.'' rowIdx columnIdx dm)"
| "ProcessConversionResult CR_INDICATOR_NEEDED rowIdx columnIdx dm =
     (AI_SUCCESS_WITH_INFO, report_at S22002_INDICATOR_NEEDED
        ''Indicator is needed but not suplied for the column buffer.'' rowIdx columnIdx dm)"
| "ProcessConversionResult CR_UNSUPPORTED_CONVERSION rowIdx columnIdx dm =
     (AI_SUCCESS_WITH_INFO, report_at SHYC00_OPTIONAL_FEATURE_NOT_IMPLEMENTED
        ''Data conversion is not supported.'' rowIdx columnIdx dm)"
| "ProcessConversionResult CR_FAILURE rowIdx columnIdx dm =
     (AI_ERROR, report_at S01S01_ERROR_IN_ROW ''Can not retrieve row column.'' rowIdx columnIdx dm)"

definition read_column ::
  "Services \<Rightarrow> DocumentDbRow \<Rightarrow> nat \<Rightarrow> ApplicationDataBuffer \<Rightarrow> io \<Rightarrow> buf_error + (SqlResult \<times> DocumentDbRow \<times> io)" where
  "read_column w row i b dm =
     (case ReadColumnToBuffer (library w) (platform w) (snd dm) row i b of
        (None, _) \<Rightarrow> Inl Diverges
      | (Some (Inl e), _) \<Rightarrow> Inl e
      | (Some (Inr (convRes, m)), row') \<Rightarrow>
          let (res, dm') = ProcessConversionResult convRes 0 (int i) (fst dm, m) in Inr (res, row', dm'))"

fun fetch_columns ::
  "Services \<Rightarrow> nat list \<Rightarrow> bindings \<Rightarrow> DocumentDbRow \<Rightarrow> io \<Rightarrow> buf_error + (SqlResult \<times> DocumentDbRow \<times> io)" where
  "fetch_columns w [] bs row dm = Inr (AI_SUCCESS, row, dm)"
| "fetch_columns w (i # is) bs row dm =
     (case map_of bs i of
        None \<Rightarrow> fetch_columns w is bs row dm
      | Some b \<Rightarrow>
          (case read_column w row i b dm of
             Inl e \<Rightarrow> Inl e
           | Inr (res, row', dm') \<Rightarrow>
               if res = AI_ERROR then Inr (AI_ERROR, row', dm') else fetch_columns w is bs row' dm'))"

definition DataQuery_FetchNextRow ::
  "Services \<Rightarrow> DataQuery \<Rightarrow> bindings \<Rightarrow> io \<Rightarrow> buf_error + (SqlResult \<times> DataQuery \<times> io)" where
  "DataQuery_FetchNextRow w q bs dm =
     (case dq_cursor q of
        None \<Rightarrow> Inr (AI_ERROR, q, not_executed dm)
      | Some cur \<Rightarrow>
          if \<not> HasData cur then Inr (AI_NO_DATA, q, dm)
          else
            let (moved, cur1) = Increment cur; q1 = q\<lparr>dq_cursor := Some cur1\<rparr>
            in if \<not> moved then Inr (AI_NO_DATA, q1, dm)
               else case GetRow cur1 of
                      None \<Rightarrow> Inr (AI_ERROR, q1, report SHY000_GENERAL_ERROR ''Unknown error.'' dm)
                    | Some row \<Rightarrow>
                        (case fetch_columns w [1..<row_size row + 1] bs row dm of
                           Inl e \<Rightarrow> Inl e
                         | Inr (res, row', dm') \<Rightarrow> Inr (res, q\<lparr>dq_cursor := Some (cur1\<lparr>currentRow := Some row'\<rparr>)\<rparr>, dm')))"

definition DataQuery_GetColumn ::
  "Services \<Rightarrow> DataQuery \<Rightarrow> nat \<Rightarrow> ApplicationDataBuffer \<Rightarrow> io \<Rightarrow> buf_error + (SqlResult \<times> DataQuery \<times> io)" where
  "DataQuery_GetColumn w q columnIdx b dm =
     (case dq_cursor q of
        None \<Rightarrow> Inr (AI_ERROR, q, not_executed dm)
      | Some cur \<Rightarrow>
          (case GetRow cur of
             None \<Rightarrow> Inr (AI_ERROR, q, past_end dm)
           | Some row \<Rightarrow>
               (case read_column w row columnIdx b dm of
                  Inl e \<Rightarrow> Inl e
                | Inr (res, row', dm') \<Rightarrow> Inr (res, q\<lparr>dq_cursor := Some (cur\<lparr>currentRow := Some row'\<rparr>)\<rparr>, dm'))))"

definition DataQuery_DataAvailable :: "DataQuery \<Rightarrow> bool" where
  "DataQuery_DataAvailable q \<longleftrightarrow> (case dq_cursor q of None \<Rightarrow> False | Some cur \<Rightarrow> HasData cur)"

definition DataQuery_NextResultSet :: "DataQuery \<Rightarrow> SqlResult \<times> DataQuery" where
  "DataQuery_NextResultSet q = (AI_NO_DATA, DataQuery_Close q)"

definition SetResultsetMeta :: "ColumnMeta list \<Rightarrow> DataQuery \<Rightarrow> DataQuery" where
  "SetResultsetMeta value q = q\<lparr>dq_resultMeta := value, dq_resultMetaAvailable := True\<rparr>"

section \<open>Batches\<close>

text \<open>The response to a batch; the exchange of messages is not implemented and leaves it as constructed, with the
  status of an unknown error.\<close>

record BatchResponse =
  rsp_status :: int
  rsp_error :: string
  rsp_affectedRows :: "int list"
  rsp_errorMessage :: string
  rsp_errorCode :: int

definition newBatchResponse :: BatchResponse where
  "newBatchResponse = \<lparr>rsp_status = 1, rsp_error = [], rsp_affectedRows = [], rsp_errorMessage = [], rsp_errorCode = 1\<rparr>"

definition SyncMessage :: "BatchResponse \<Rightarrow> bool \<times> BatchResponse" where
  "SyncMessage rsp = (True, rsp)"

record BatchQuery =
  bq_sql :: string
  bq_rowsAffected :: "int list"
  bq_rowsAffectedIdx :: nat
  bq_executed :: bool

definition newBatchQuery :: "string \<Rightarrow> BatchQuery" where
  "newBatchQuery sql = \<lparr>bq_sql = sql, bq_rowsAffected = [], bq_rowsAffectedIdx = 0, bq_executed = False\<rparr>"

definition BatchQuery_Close :: "BatchQuery \<Rightarrow> BatchQuery" where
  "BatchQuery_Close q = q\<lparr>bq_executed := False, bq_rowsAffected := [], bq_rowsAffectedIdx := 0\<rparr>"

abbreviation (input) "SQL_PARAM_SUCCESS \<equiv> 0 :: int"
abbreviation (input) "SQL_PARAM_ERROR \<equiv> 5 :: int"

fun param_statuses :: "ParameterSet \<Rightarrow> nat \<Rightarrow> int list \<Rightarrow> mem \<Rightarrow> mem" where
  "param_statuses ps idx [] m = m"
| "param_statuses ps idx (r # rs) m =
     param_statuses ps (idx + 1) rs (SetParamStatus (int idx) (if r < 0 then SQL_PARAM_ERROR else SQL_PARAM_SUCCESS) ps m)"

definition MakeRequestExecuteBatch :: "ParameterSet \<Rightarrow> BatchQuery \<Rightarrow> io \<Rightarrow> SqlResult \<times> BatchQuery \<times> io" where
  "MakeRequestExecuteBatch ps q dm =
     (let (success, rsp) = SyncMessage newBatchResponse
      in if \<not> success then (AI_ERROR, q, report SHYT00_TIMEOUT_EXPIRED ''Query timeout expired'' dm)
         else if rsp_status rsp \<noteq> 0 then
           (AI_ERROR, q, report (ResponseStatusToSqlState (rsp_status rsp)) (rsp_error rsp) dm)
         else
           let rowsLastTime = rsp_affectedRows rsp;
               dm1 = apsnd (param_statuses ps (length (bq_rowsAffected q)) rowsLastTime) dm;
               q1 = q\<lparr>bq_rowsAffected := bq_rowsAffected q @ rowsLastTime\<rparr>
           in if rsp_errorMessage rsp \<noteq> [] then
                (AI_SUCCESS_WITH_INFO, q1, report_at (ResponseStatusToSqlState (rsp_errorCode rsp)) (rsp_errorMessage rsp)
                   (int (length (bq_rowsAffected q1))) 0 dm1)
              else (AI_SUCCESS, q1, dm1))"

text \<open>The pages of a batch. A page size that is not positive would never reach the end, so the loop is a partial
  function.\<close>

partial_function (option) batch_loop ::
  "int \<Rightarrow> int \<Rightarrow> int \<Rightarrow> ParameterSet \<Rightarrow> BatchQuery \<Rightarrow> io \<Rightarrow> (SqlResult \<times> BatchQuery \<times> io) option" where
  "batch_loop maxPageSize rowTotal processed ps q dm =
     (case MakeRequestExecuteBatch ps q dm of
        (res, q1, dm1) \<Rightarrow>
          if (res = AI_SUCCESS \<or> res = AI_SUCCESS_WITH_INFO) \<and> processed + min maxPageSize (rowTotal - processed) < rowTotal then
            batch_loop maxPageSize rowTotal (processed + min maxPageSize (rowTotal - processed)) ps q1 dm1
          else Some (res, q1, dm1))"

definition BatchQuery_Execute ::
  "Connection \<Rightarrow> ParameterSet \<Rightarrow> BatchQuery \<Rightarrow> io \<Rightarrow> buf_error + (SqlResult \<times> BatchQuery \<times> io)" where
  "BatchQuery_Execute c ps q dm =
     (let q0 = (if bq_executed q then BatchQuery_Close q else q)
      in case batch_loop (sv_val (defaultFetchSize (con_config c))) (GetParamSetSize ps) 0 ps (q0\<lparr>bq_rowsAffected := []\<rparr>) dm of
           None \<Rightarrow> Inl Diverges
         | Some (res, q1, dm1) \<Rightarrow>
             Inr (res, q1, apsnd (SetParamsProcessed (length (bq_rowsAffected q1)) ps) dm1))"

definition BatchQuery_FetchNextRow :: "BatchQuery \<Rightarrow> io \<Rightarrow> SqlResult \<times> io" where
  "BatchQuery_FetchNextRow q dm = (if \<not> bq_executed q then (AI_ERROR, not_executed dm) else (AI_NO_DATA, dm))"

definition BatchQuery_GetColumn :: "BatchQuery \<Rightarrow> io \<Rightarrow> SqlResult \<times> io" where
  "BatchQuery_GetColumn q dm = (if \<not> bq_executed q then (AI_ERROR, not_executed dm) else (AI_ERROR, past_end dm))"

definition BatchQuery_AffectedRows :: "BatchQuery \<Rightarrow> int" where
  "BatchQuery_AffectedRows q =
     (let affected = (if bq_rowsAffectedIdx q < length (bq_rowsAffected q) then bq_rowsAffected q ! bq_rowsAffectedIdx q else 0)
      in if affected < 0 then 0 else affected)"

definition BatchQuery_NextResultSet :: "BatchQuery \<Rightarrow> SqlResult \<times> BatchQuery" where
  "BatchQuery_NextResultSet q =
     (if bq_rowsAffectedIdx q + 1 \<ge> length (bq_rowsAffected q) then (AI_NO_DATA, BatchQuery_Close q)
      else (AI_SUCCESS, q\<lparr>bq_rowsAffectedIdx := bq_rowsAffectedIdx q + 1\<rparr>))"

lemma MakeRequestExecuteBatch_fails:
  "MakeRequestExecuteBatch ps q dm = (AI_ERROR, q, report (ResponseStatusToSqlState 1) [] dm)"
  by (simp add: MakeRequestExecuteBatch_def SyncMessage_def newBatchResponse_def)

lemma batch_loop_fails:
  "batch_loop maxPageSize rowTotal processed ps q dm = Some (AI_ERROR, q, report (ResponseStatusToSqlState 1) [] dm)"
  by (subst batch_loop.simps) (simp add: MakeRequestExecuteBatch_fails)

section \<open>All queries\<close>

text \<open>The subclasses of \<open>Query\<close> and the dispatch of its methods.\<close>

datatype Query =
    QData DataQuery
  | QBatch BatchQuery
  | QTable TableMetadataArgs "TableMeta MetaQuery"
  | QColumn ColumnMetadataArgs "ColumnMeta MetaQuery"
  | QPrimaryKeys PrimaryKeysArgs "PrimaryKeyMeta MetaQuery"
  | QForeignKeys ForeignKeysArgs "ForeignKeyMeta MetaQuery"
  | QTypeInfo int "int MetaQuery"
  | QSpecialColumns bool
  | QInternal string "SqlSetStreamingCommand option"

definition tagged :: "('q \<Rightarrow> Query) \<Rightarrow> buf_error + (SqlResult \<times> 'q \<times> io) \<Rightarrow> buf_error + (SqlResult \<times> Query \<times> io)" where
  "tagged mk r = (case r of Inl e \<Rightarrow> Inl e | Inr (res, q, dm) \<Rightarrow> Inr (res, mk q, dm))"

definition kept :: "Query \<Rightarrow> buf_error + (SqlResult \<times> io) \<Rightarrow> buf_error + (SqlResult \<times> Query \<times> io)" where
  "kept q r = (case r of Inl e \<Rightarrow> Inl e | Inr (res, dm) \<Rightarrow> Inr (res, q, dm))"

fun Query_Execute ::
  "Services \<Rightarrow> Connection \<Rightarrow> ParameterSet \<Rightarrow> int \<Rightarrow> Query \<Rightarrow> io \<Rightarrow> buf_error + (SqlResult \<times> Query \<times> io)" where
  "Query_Execute w c ps timeout (QData q) dm = tagged QData (DataQuery_Execute w c timeout q dm)"
| "Query_Execute w c ps timeout (QBatch q) dm = tagged QBatch (BatchQuery_Execute c ps q dm)"
| "Query_Execute w c ps timeout (QTable a q) dm =
     tagged (QTable a) (Inr (TableMetadataQuery_Execute (connection_java (backend w) c) a q dm))"
| "Query_Execute w c ps timeout (QColumn a q) dm =
     tagged (QColumn a) (Inr (ColumnMetadataQuery_Execute (connection_java (backend w) c) a q dm))"
| "Query_Execute w c ps timeout (QPrimaryKeys a q) dm =
     tagged (QPrimaryKeys a) (Inr (PrimaryKeysQuery_Execute (connection_java (backend w) c) a q dm))"
| "Query_Execute w c ps timeout (QForeignKeys a q) dm =
     tagged (QForeignKeys a) (Inr (ForeignKeysQuery_Execute (connection_java (backend w) c) a q dm))"
| "Query_Execute w c ps timeout (QTypeInfo t q) dm =
     tagged (QTypeInfo t) (TypeInfoQuery_Execute (connection_java (backend w) c) t q dm)"
| "Query_Execute w c ps timeout (QSpecialColumns executed) dm = Inr (AI_SUCCESS, QSpecialColumns True, dm)"
| "Query_Execute w c ps timeout (QInternal sql cmd) dm =
     Inr (AI_ERROR, QInternal sql cmd, report SHY000_GENERAL_ERROR ''Internal error.'' dm)"

fun Query_FetchNextRow :: "Services \<Rightarrow> Query \<Rightarrow> bindings \<Rightarrow> io \<Rightarrow> buf_error + (SqlResult \<times> Query \<times> io)" where
  "Query_FetchNextRow w (QData q) bs dm = tagged QData (DataQuery_FetchNextRow w q bs dm)"
| "Query_FetchNextRow w (QBatch q) bs dm = kept (QBatch q) (Inr (BatchQuery_FetchNextRow q dm))"
| "Query_FetchNextRow w (QTable a q) bs dm = tagged (QTable a) (TableMetadataQuery_FetchNextRow (platform w) q bs dm)"
| "Query_FetchNextRow w (QColumn a q) bs dm = tagged (QColumn a) (ColumnMetadataQuery_FetchNextRow (platform w) q bs dm)"
| "Query_FetchNextRow w (QPrimaryKeys a q) bs dm =
     tagged (QPrimaryKeys a) (PrimaryKeysQuery_FetchNextRow (platform w) q bs dm)"
| "Query_FetchNextRow w (QForeignKeys a q) bs dm =
     tagged (QForeignKeys a) (ForeignKeysQuery_FetchNextRow (platform w) q bs dm)"
| "Query_FetchNextRow w (QTypeInfo t q) bs dm = tagged (QTypeInfo t) (TypeInfoQuery_FetchNextRow (platform w) q bs dm)"
| "Query_FetchNextRow w (QSpecialColumns executed) bs dm =
     kept (QSpecialColumns executed) (Inr (SpecialColumnsQuery_FetchNextRow executed bs dm))"
| "Query_FetchNextRow w (QInternal sql cmd) bs dm = Inr (AI_NO_DATA, QInternal sql cmd, dm)"

fun Query_GetColumn ::
  "Services \<Rightarrow> Query \<Rightarrow> nat \<Rightarrow> ApplicationDataBuffer \<Rightarrow> io \<Rightarrow> buf_error + (SqlResult \<times> Query \<times> io)" where
  "Query_GetColumn w (QData q) i b dm = tagged QData (DataQuery_GetColumn w q i b dm)"
| "Query_GetColumn w (QBatch q) i b dm = kept (QBatch q) (Inr (BatchQuery_GetColumn q dm))"
| "Query_GetColumn w (QTable a q) i b dm = kept (QTable a q) (TableMetadataQuery_GetColumn (platform w) q i b dm)"
| "Query_GetColumn w (QColumn a q) i b dm = kept (QColumn a q) (ColumnMetadataQuery_GetColumn (platform w) q i b dm)"
| "Query_GetColumn w (QPrimaryKeys a q) i b dm = kept (QPrimaryKeys a q) (PrimaryKeysQuery_GetColumn (platform w) q i b dm)"
| "Query_GetColumn w (QForeignKeys a q) i b dm = kept (QForeignKeys a q) (ForeignKeysQuery_GetColumn (platform w) q i b dm)"
| "Query_GetColumn w (QTypeInfo t q) i b dm = kept (QTypeInfo t q) (TypeInfoQuery_GetColumn (platform w) q i b dm)"
| "Query_GetColumn w (QSpecialColumns executed) i b dm =
     kept (QSpecialColumns executed) (Inr (SpecialColumnsQuery_GetColumn executed i b dm))"
| "Query_GetColumn w (QInternal sql cmd) i b dm = Inr (AI_NO_DATA, QInternal sql cmd, dm)"

text \<open>Closing always succeeds.\<close>

fun Query_Close :: "Query \<Rightarrow> Query" where
  "Query_Close (QData q) = QData (DataQuery_Close q)"
| "Query_Close (QBatch q) = QBatch (BatchQuery_Close q)"
| "Query_Close (QTable a q) = QTable a (close_rows q)"
| "Query_Close (QColumn a q) = QColumn a (close_rows q)"
| "Query_Close (QPrimaryKeys a q) = QPrimaryKeys a (close_keys q)"
| "Query_Close (QForeignKeys a q) = QForeignKeys a (close_keys q)"
| "Query_Close (QTypeInfo t q) = QTypeInfo t (TypeInfoQuery_Close q)"
| "Query_Close (QSpecialColumns executed) = QSpecialColumns False"
| "Query_Close (QInternal sql cmd) = QInternal sql cmd"

fun Query_GetMeta :: "Services \<Rightarrow> Connection \<Rightarrow> Query \<Rightarrow> io \<Rightarrow> ColumnMeta list option \<times> Query \<times> io" where
  "Query_GetMeta w c (QData q) dm = (let (r, q', dm') = DataQuery_GetMeta w c q dm in (r, QData q', dm'))"
| "Query_GetMeta w c (QBatch q) dm = (Some [], QBatch q, dm)"
| "Query_GetMeta w c (QTable a q) dm = (Some TableMetadataQuery_columns, QTable a q, dm)"
| "Query_GetMeta w c (QColumn a q) dm = (Some ColumnMetadataQuery_columns, QColumn a q, dm)"
| "Query_GetMeta w c (QPrimaryKeys a q) dm = (Some PrimaryKeysQuery_columns, QPrimaryKeys a q, dm)"
| "Query_GetMeta w c (QForeignKeys a q) dm = (Some ForeignKeysQuery_columns, QForeignKeys a q, dm)"
| "Query_GetMeta w c (QTypeInfo t q) dm = (Some TypeInfoQuery_columns, QTypeInfo t q, dm)"
| "Query_GetMeta w c (QSpecialColumns executed) dm = (Some SpecialColumnsQuery_columns, QSpecialColumns executed, dm)"
| "Query_GetMeta w c (QInternal sql cmd) dm = (None, QInternal sql cmd, dm)"

text \<open>The iterator of a catalogue query that has not been executed, or has been closed, must not be compared.\<close>

definition rows_left :: "'r MetaQuery \<Rightarrow> buf_error + bool" where
  "rows_left q = (case q_cursor q of None \<Rightarrow> Inl Undefined | Some i \<Rightarrow> Inr (i < length (q_meta q)))"

fun Query_DataAvailable :: "Query \<Rightarrow> buf_error + bool" where
  "Query_DataAvailable (QData q) = Inr (DataQuery_DataAvailable q)"
| "Query_DataAvailable (QTable a q) = rows_left q"
| "Query_DataAvailable (QColumn a q) = rows_left q"
| "Query_DataAvailable (QPrimaryKeys a q) = rows_left q"
| "Query_DataAvailable (QForeignKeys a q) = rows_left q"
| "Query_DataAvailable (QTypeInfo t q) = rows_left q"
| "Query_DataAvailable _ = Inr False"

fun Query_AffectedRows :: "Query \<Rightarrow> int" where
  "Query_AffectedRows (QBatch q) = BatchQuery_AffectedRows q"
| "Query_AffectedRows _ = 0"

fun Query_NextResultSet :: "Query \<Rightarrow> SqlResult \<times> Query" where
  "Query_NextResultSet (QData q) = apsnd QData (DataQuery_NextResultSet q)"
| "Query_NextResultSet (QBatch q) = apsnd QBatch (BatchQuery_NextResultSet q)"
| "Query_NextResultSet q = (AI_NO_DATA, q)"

end
