(* ===== verification/Odbc_Statement.thy ===== *)
theory Odbc_Statement
  imports Odbc_Query
begin

text \<open>
  Statements (\<open>statement.cpp\<close>): bound columns and parameters, attributes, preparing and executing, fetching
  row sets, catalogue calls and descriptions. An operation works on the statement and the memory of the application;
  its connection and the services behind it are arguments.
\<close>

section \<open>State\<close>

record Statement =
  st_diag :: DiagnosticRecordStorage
  columnBindings :: bindings
  currentQuery :: "Query option"
  rowsFetched :: "nat option"
  rowStatuses :: "nat option"
  columnBindOffset :: "nat option"
  rowArraySize :: nat
  st_parameters :: ParameterSet
  st_timeout :: int

type_synonym st_mem = "Statement \<times> mem"
type_synonym st_result = "buf_error + (SqlResult \<times> st_mem)"

definition newStatement :: Statement where
  "newStatement = \<lparr>st_diag = newStorage, columnBindings = [], currentQuery = None, rowsFetched = None, rowStatuses = None,
     columnBindOffset = None, rowArraySize = 1, st_parameters = newParameterSet, st_timeout = 0\<rparr>"

definition st_report :: "SqlState \<Rightarrow> string \<Rightarrow> Statement \<Rightarrow> Statement" where
  "st_report state msg s = s\<lparr>st_diag := AddStatusRecord state msg (st_diag s)\<rparr>"

definition failed :: "SqlState \<Rightarrow> string \<Rightarrow> st_mem \<Rightarrow> st_result" where
  "failed state msg sm = Inr (AI_ERROR, st_report state msg (fst sm), snd sm)"

definition st_ok :: "st_mem \<Rightarrow> st_result" where
  "st_ok sm = Inr (AI_SUCCESS, sm)"

text \<open>A method of the current query, with the diagnostics of the statement.\<close>

definition on_query :: "(Query \<Rightarrow> io \<Rightarrow> buf_error + (SqlResult \<times> Query \<times> io)) \<Rightarrow> Query \<Rightarrow> st_mem \<Rightarrow> st_result" where
  "on_query f q sm =
     (case f q (st_diag (fst sm), snd sm) of
        Inl e \<Rightarrow> Inl e
      | Inr (res, q', d, m) \<Rightarrow> Inr (res, (fst sm)\<lparr>currentQuery := Some q', st_diag := d\<rparr>, m))"

definition pointer :: "int \<Rightarrow> nat option" where
  "pointer v = (if v = 0 then None else Some (nat v))"

definition address :: "nat option \<Rightarrow> int" where
  "address p = (case p of None \<Rightarrow> 0 | Some a \<Rightarrow> int a)"

section \<open>Bindings\<close>

definition InternalBindColumn ::
  "nat \<Rightarrow> int \<Rightarrow> nat option \<Rightarrow> int \<Rightarrow> nat option \<Rightarrow> st_mem \<Rightarrow> st_result" where
  "InternalBindColumn columnIdx targetType targetValue bufferLength strLengthOrIndicator sm =
     (let (s, m) = sm; driverType = ToDriverType targetType
      in if driverType = AI_UNSUPPORTED then
           failed SHY003_INVALID_APPLICATION_BUFFER_TYPE ''The argument TargetType was not a valid data type.'' sm
         else if bufferLength < 0 then
           failed SHY090_INVALID_STRING_OR_BUFFER_LENGTH
             ''The value specified for the argument BufferLength was less than 0.'' sm
         else if targetValue \<noteq> None \<or> strLengthOrIndicator \<noteq> None then
           st_ok (s\<lparr>columnBindings := bind_at columnIdx (newBuffer driverType targetValue bufferLength strLengthOrIndicator)
                    (columnBindings s)\<rparr>, m)
         else st_ok (s\<lparr>columnBindings := unbind_at columnIdx (columnBindings s)\<rparr>, m))"

definition SQL_PARAM_INPUT :: int where "SQL_PARAM_INPUT = 1"

definition InternalBindParameter ::
  "nat \<Rightarrow> int \<Rightarrow> int \<Rightarrow> int \<Rightarrow> nat \<Rightarrow> int \<Rightarrow> nat option \<Rightarrow> int \<Rightarrow> nat option \<Rightarrow> st_mem \<Rightarrow> st_result" where
  "InternalBindParameter paramIdx ioType bufferType paramSqlType columnSize decDigits buf bufferLen resLen sm =
     (let (s, m) = sm; driverType = ToDriverType bufferType
      in if paramIdx = 0 then
           failed S24000_INVALID_CURSOR_STATE
             (''The value specified for the argument ParameterNumber was less than 1. [ParameterNumber='' @
              int_string (int paramIdx) @ '']'') sm
         else if ioType \<noteq> SQL_PARAM_INPUT then
           failed SHY105_INVALID_PARAMETER_TYPE
             (''The value specified for the argument InputOutputType was not SQL_PARAM_INPUT. [ioType='' @
              int_string ioType @ '']'') sm
         else if \<not> IsSqlTypeSupported (Some paramSqlType) then
           failed SHYC00_OPTIONAL_FEATURE_NOT_IMPLEMENTED
             (''Data type is not supported. [typeId='' @ int_string paramSqlType @ '']'') sm
         else if driverType = AI_UNSUPPORTED then
           failed SHY003_INVALID_APPLICATION_BUFFER_TYPE
             (''The argument TargetType was not a valid data type. [TargetType='' @ int_string bufferType @ '']'') sm
         else if buf = None \<and> resLen = None then
           failed SHY009_INVALID_USE_OF_NULL_POINTER ''ParameterValuePtr and StrLen_or_IndPtr are both null pointers'' sm
         else
           st_ok (s\<lparr>st_parameters := BindParameter paramIdx
             (newParameter (newBuffer driverType buf bufferLen resLen) paramSqlType columnSize decDigits)
             (st_parameters s)\<rparr>, m))"

section \<open>Attributes\<close>

abbreviation (input) "SQL_ATTR_QUERY_TIMEOUT \<equiv> 0 :: int"
abbreviation (input) "SQL_ATTR_ROW_BIND_TYPE \<equiv> 5 :: int"
abbreviation (input) "SQL_ATTR_PARAM_BIND_OFFSET_PTR \<equiv> 17 :: int"
abbreviation (input) "SQL_ATTR_PARAM_BIND_TYPE \<equiv> 18 :: int"
abbreviation (input) "SQL_ATTR_PARAM_STATUS_PTR \<equiv> 20 :: int"
abbreviation (input) "SQL_ATTR_PARAMS_PROCESSED_PTR \<equiv> 21 :: int"
abbreviation (input) "SQL_ATTR_PARAMSET_SIZE \<equiv> 22 :: int"
abbreviation (input) "SQL_ATTR_ROW_BIND_OFFSET_PTR \<equiv> 23 :: int"
abbreviation (input) "SQL_ATTR_ROW_STATUS_PTR \<equiv> 25 :: int"
abbreviation (input) "SQL_ATTR_ROWS_FETCHED_PTR \<equiv> 26 :: int"
abbreviation (input) "SQL_ATTR_ROW_ARRAY_SIZE \<equiv> 27 :: int"
abbreviation (input) "SQL_ATTR_APP_ROW_DESC \<equiv> 10010 :: int"
abbreviation (input) "SQL_ATTR_APP_PARAM_DESC \<equiv> 10011 :: int"
abbreviation (input) "SQL_ATTR_IMP_ROW_DESC \<equiv> 10012 :: int"
abbreviation (input) "SQL_ATTR_IMP_PARAM_DESC \<equiv> 10013 :: int"

text \<open>The value is the pointer argument read as an unsigned number. The setter of the parameter offset is itself a
  call with a result of its own.\<close>

definition SetParamBindOffsetPtr :: "nat option \<Rightarrow> Statement \<Rightarrow> Statement" where
  "SetParamBindOffsetPtr ptr s =
     s\<lparr>st_diag := SetHeaderRecord AI_SUCCESS (DRS_Reset (st_diag s)),
       st_parameters := (st_parameters s)\<lparr>paramBindOffset := ptr\<rparr>\<rparr>"

definition InternalSetAttribute :: "int \<Rightarrow> int \<Rightarrow> st_mem \<Rightarrow> st_result" where
  "InternalSetAttribute attr v sm =
     (let (s, m) = sm; by_column = ''Only binding by column is currently supported''
      in if attr = SQL_ATTR_ROW_ARRAY_SIZE then
           if v < 1 then
             failed SHY024_INVALID_ATTRIBUTE_VALUE ''Array size value must be a positive integer value.'' sm
           else st_ok (s\<lparr>rowArraySize := nat v\<rparr>, m)
         else if attr = SQL_ATTR_ROW_BIND_TYPE \<or> attr = SQL_ATTR_PARAM_BIND_TYPE then
           if v \<noteq> 0 then failed SHYC00_OPTIONAL_FEATURE_NOT_IMPLEMENTED by_column sm else st_ok sm
         else if attr = SQL_ATTR_ROWS_FETCHED_PTR then st_ok (s\<lparr>rowsFetched := pointer v\<rparr>, m)
         else if attr = SQL_ATTR_ROW_STATUS_PTR then st_ok (s\<lparr>rowStatuses := pointer v\<rparr>, m)
         else if attr = SQL_ATTR_PARAM_BIND_OFFSET_PTR then st_ok (SetParamBindOffsetPtr (pointer v) s, m)
         else if attr = SQL_ATTR_ROW_BIND_OFFSET_PTR then st_ok (s\<lparr>columnBindOffset := pointer v\<rparr>, m)
         else if attr = SQL_ATTR_PARAMSET_SIZE then
           st_ok (s\<lparr>st_parameters := SetParamSetSize (nat v) (st_parameters s)\<rparr>, m)
         else if attr = SQL_ATTR_PARAMS_PROCESSED_PTR then
           st_ok (s\<lparr>st_parameters := (st_parameters s)\<lparr>processedParamRows := pointer v\<rparr>\<rparr>, m)
         else if attr = SQL_ATTR_PARAM_STATUS_PTR then
           st_ok (s\<lparr>st_parameters := (st_parameters s)\<lparr>paramsStatus := pointer v\<rparr>\<rparr>, m)
         else if attr = SQL_ATTR_QUERY_TIMEOUT then
           if v > INT32_MAX then
             Inr (AI_SUCCESS_WITH_INFO, st_report S01S02_OPTION_VALUE_CHANGED
                (''Value is too big: '' @ int_string v @ '', changing to '' @ int_string INT32_MAX @ ''.'')
                (s\<lparr>st_timeout := INT32_MAX\<rparr>), m)
           else st_ok (s\<lparr>st_timeout := v\<rparr>, m)
         else failed SHYC00_OPTIONAL_FEATURE_NOT_IMPLEMENTED ''Specified attribute is not supported.'' sm)"

text \<open>\<open>self\<close> is the address of the statement, which stands for its descriptors.\<close>

definition InternalGetAttribute :: "nat \<Rightarrow> int \<Rightarrow> nat option \<Rightarrow> nat option \<Rightarrow> st_mem \<Rightarrow> st_result" where
  "InternalGetAttribute self attr buf valueLen sm =
     (let (s, m) = sm
      in case buf of
           None \<Rightarrow> failed SHY000_GENERAL_ERROR ''Data buffer is NULL.'' sm
         | Some a \<Rightarrow>
             let put = (\<lambda>n v len. st_ok (s, (case len of None \<Rightarrow> (\<lambda>m. m) | Some l \<Rightarrow> put_int valueLen 4 l)
                                              (write_bytes m a (int_bytes n v))));
                 ptr = (\<lambda>p. put 8 (address p) (Some SQL_IS_POINTER))
             in if attr \<in> {SQL_ATTR_APP_ROW_DESC, SQL_ATTR_APP_PARAM_DESC, SQL_ATTR_IMP_ROW_DESC, SQL_ATTR_IMP_PARAM_DESC}
                then ptr (Some self)
                else if attr = SQL_ATTR_ROW_BIND_TYPE then put 8 0 None
                else if attr = SQL_ATTR_ROW_ARRAY_SIZE then put 4 (int (rowArraySize s)) (Some SQL_IS_INTEGER)
                else if attr = SQL_ATTR_ROWS_FETCHED_PTR then ptr (rowsFetched s)
                else if attr = SQL_ATTR_ROW_STATUS_PTR then ptr (rowStatuses s)
                else if attr = SQL_ATTR_PARAM_BIND_TYPE then put 8 0 None
                else if attr = SQL_ATTR_PARAM_BIND_OFFSET_PTR then ptr (paramBindOffset (st_parameters s))
                else if attr = SQL_ATTR_ROW_BIND_OFFSET_PTR then ptr (columnBindOffset s)
                else if attr = SQL_ATTR_PARAMSET_SIZE then
                  put 8 (GetParamSetSize (st_parameters s)) (Some SQL_IS_UINTEGER)
                else if attr = SQL_ATTR_PARAMS_PROCESSED_PTR then ptr (processedParamRows (st_parameters s))
                else if attr = SQL_ATTR_PARAM_STATUS_PTR then ptr (paramsStatus (st_parameters s))
                else if attr = SQL_ATTR_QUERY_TIMEOUT then put 8 (st_timeout s) None
                else failed SHYC00_OPTIONAL_FEATURE_NOT_IMPLEMENTED ''Specified attribute is not supported.'' sm)"

section \<open>Preparing and executing\<close>

definition is_data :: "Query \<Rightarrow> bool" where
  "is_data q \<longleftrightarrow> (case q of QData _ \<Rightarrow> True | _ \<Rightarrow> False)"

text \<open>The parser of internal commands may find no command; the source asserts that it does.\<close>

definition ProcessInternalCommand :: "string \<Rightarrow> st_mem \<Rightarrow> st_result" where
  "ProcessInternalCommand sql sm =
     (let (s, m) = sm
      in case GetNextCommand sql of
           Inl (OdbcError state msg) \<Rightarrow> failed state msg sm
         | Inl Unset \<Rightarrow> Inl Uninitialized
         | Inr cmd \<Rightarrow>
             st_ok (s\<lparr>st_parameters := Prepare (st_parameters s), currentQuery := Some (QInternal sql cmd)\<rparr>, m))"

definition InternalPrepareSqlQuery :: "string \<Rightarrow> st_mem \<Rightarrow> st_result" where
  "InternalPrepareSqlQuery sql sm =
     (let (s, m) = sm
      in if IsInternalCommand sql then ProcessInternalCommand sql sm
         else st_ok (s\<lparr>st_parameters := Prepare (st_parameters s), currentQuery := Some (QData (newDataQuery sql))\<rparr>, m))"

text \<open>The kind of query follows the number of parameter sets.\<close>

definition adapt_query :: "ParameterSet \<Rightarrow> Query \<Rightarrow> Query" where
  "adapt_query ps q =
     (case q of
        QData d \<Rightarrow> if GetParamSetSize ps > 1 then QBatch (newBatchQuery (dq_sql d)) else q
      | QBatch b \<Rightarrow> if GetParamSetSize ps = 1 then QData (newDataQuery (bq_sql b)) else q
      | _ \<Rightarrow> q)"

definition not_prepared :: "st_mem \<Rightarrow> st_result" where
  "not_prepared = failed SHY010_SEQUENCE_ERROR ''Query is not prepared.''"

definition parameters_unsupported :: string where
  "parameters_unsupported =
     ''Usage the value '' @ [CHR 0x22, CHR ''?'', CHR 0x22] @ '' as query parameters are not supported.'' @
     ''See ODBC limitations at https://github.com/aws/amazon-documentdb-odbc-driver/blob/develop/src/'' @
     ''markdown/support/odbc-limitations.md''"

definition InternalExecuteSqlQuery :: "Services \<Rightarrow> Connection \<Rightarrow> st_mem \<Rightarrow> st_result" where
  "InternalExecuteSqlQuery w c sm =
     (let (s, m) = sm; ps = st_parameters s
      in case currentQuery s of
           None \<Rightarrow> not_prepared sm
         | Some q0 \<Rightarrow>
             let q = adapt_query ps q0; s1 = s\<lparr>currentQuery := Some q\<rparr>
             in if IsDataAtExecNeeded (platform w) m ps then
                  case q of
                    QBatch _ \<Rightarrow>
                      failed SHYC00_OPTIONAL_FEATURE_NOT_IMPLEMENTED ''Data-at-execution is not supported with batching.'' (s1, m)
                  | _ \<Rightarrow> failed SHYC00_OPTIONAL_FEATURE_NOT_IMPLEMENTED parameters_unsupported (s1, m)
                else on_query (Query_Execute w c ps (st_timeout s)) q (s1, m))"

definition InternalExecuteSqlQuery_text :: "Services \<Rightarrow> Connection \<Rightarrow> string \<Rightarrow> st_mem \<Rightarrow> st_result" where
  "InternalExecuteSqlQuery_text w c sql sm =
     (case InternalPrepareSqlQuery sql sm of
        Inl e \<Rightarrow> Inl e
      | Inr (res, sm') \<Rightarrow> if res \<noteq> AI_SUCCESS then Inr (res, sm') else InternalExecuteSqlQuery w c sm')"

section \<open>Catalogue calls\<close>

text \<open>The query there was is closed before the new one takes its place.\<close>

definition execute_new :: "Services \<Rightarrow> Connection \<Rightarrow> Query \<Rightarrow> st_mem \<Rightarrow> st_result" where
  "execute_new w c q sm = on_query (Query_Execute w c (st_parameters (fst sm)) (st_timeout (fst sm))) q sm"

definition InternalExecuteGetColumnsMetaQuery ::
  "Services \<Rightarrow> Connection \<Rightarrow> string option \<Rightarrow> string option \<Rightarrow> string \<Rightarrow> string \<Rightarrow> st_mem \<Rightarrow> st_result" where
  "InternalExecuteGetColumnsMetaQuery w c cat sch table column =
     execute_new w c (QColumn \<lparr>cq_catalog = cat, cq_schema = sch, cq_table = table, cq_column = column\<rparr> newMetaQuery)"

definition InternalExecuteGetTablesMetaQuery ::
  "Services \<Rightarrow> Connection \<Rightarrow> string option \<Rightarrow> string option \<Rightarrow> string \<Rightarrow> string option \<Rightarrow> st_mem \<Rightarrow> st_result" where
  "InternalExecuteGetTablesMetaQuery w c cat sch table tableType =
     execute_new w c (QTable \<lparr>tq_catalog = cat, tq_schema = sch, tq_table = table, tq_tableType = tableType\<rparr> newMetaQuery)"

text \<open>The names of the primary key's table are not used.\<close>

definition InternalExecuteGetForeignKeysQuery ::
  "Services \<Rightarrow> Connection \<Rightarrow> string \<Rightarrow> string \<Rightarrow> string \<Rightarrow> string option \<Rightarrow> string option \<Rightarrow> string \<Rightarrow> st_mem \<Rightarrow> st_result" where
  "InternalExecuteGetForeignKeysQuery w c primaryCatalog primarySchema primaryTable foreignCatalog foreignSchema foreignTable =
     execute_new w c (QForeignKeys \<lparr>fq_catalog = foreignCatalog, fq_schema = foreignSchema, fq_table = foreignTable\<rparr> newMetaQuery)"

definition InternalExecuteGetPrimaryKeysQuery ::
  "Services \<Rightarrow> Connection \<Rightarrow> string option \<Rightarrow> string option \<Rightarrow> string option \<Rightarrow> st_mem \<Rightarrow> st_result" where
  "InternalExecuteGetPrimaryKeysQuery w c cat sch table =
     execute_new w c (QPrimaryKeys \<lparr>pq_catalog = cat, pq_schema = sch, pq_table = table\<rparr> newMetaQuery)"

abbreviation (input) "SQL_BEST_ROWID \<equiv> 1 :: int"
abbreviation (input) "SQL_ROWVER \<equiv> 2 :: int"
abbreviation (input) "SQL_ALL_TYPES \<equiv> 0 :: int"

definition InternalExecuteSpecialColumnsQuery :: "Services \<Rightarrow> Connection \<Rightarrow> int \<Rightarrow> st_mem \<Rightarrow> st_result" where
  "InternalExecuteSpecialColumnsQuery w c type sm =
     (if type \<noteq> SQL_BEST_ROWID \<and> type \<noteq> SQL_ROWVER then
        failed SHY097_COLUMN_TYPE_OUT_OF_RANGE ''An invalid IdentifierType value was specified.'' sm
      else execute_new w c (QSpecialColumns False) sm)"

definition InternalExecuteGetTypeInfoQuery :: "Services \<Rightarrow> Connection \<Rightarrow> int \<Rightarrow> st_mem \<Rightarrow> st_result" where
  "InternalExecuteGetTypeInfoQuery w c sqlType sm =
     (if sqlType \<noteq> SQL_ALL_TYPES \<and> \<not> IsSqlTypeSupported (Some sqlType) then
        failed SHYC00_OPTIONAL_FEATURE_NOT_IMPLEMENTED (''Data type is not supported. [typeId='' @ int_string sqlType @ '']'') sm
      else execute_new w c (QTypeInfo sqlType newMetaQuery) sm)"

section \<open>Releasing\<close>

definition Statement_InternalClose :: "st_mem \<Rightarrow> st_result" where
  "Statement_InternalClose sm = (let (s, m) = sm in st_ok (s\<lparr>currentQuery := map_option Query_Close (currentQuery s)\<rparr>, m))"

abbreviation (input) "SQL_CLOSE \<equiv> 0 :: int"
abbreviation (input) "SQL_DROP \<equiv> 1 :: int"
abbreviation (input) "SQL_UNBIND \<equiv> 2 :: int"
abbreviation (input) "SQL_RESET_PARAMS \<equiv> 3 :: int"

definition InternalFreeResources :: "int \<Rightarrow> st_mem \<Rightarrow> st_result" where
  "InternalFreeResources opt sm =
     (let (s, m) = sm
      in if opt = SQL_DROP then failed SHY000_GENERAL_ERROR ''Deprecated, call SQLFreeHandle instead'' sm
         else if opt = SQL_CLOSE then Statement_InternalClose sm
         else if opt = SQL_UNBIND then st_ok (s\<lparr>columnBindings := []\<rparr>, m)
         else if opt = SQL_RESET_PARAMS then st_ok (s\<lparr>st_parameters := UnbindAll (st_parameters s)\<rparr>, m)
         else failed SHY092_OPTION_TYPE_OUT_OF_RANGE ''The value specified for the argument Option was invalid'' sm)"

section \<open>Fetching\<close>

fun SqlResultToRowResult :: "SqlResult \<Rightarrow> int" where
  "SqlResultToRowResult AI_NO_DATA = 3"
| "SqlResultToRowResult AI_SUCCESS = 0"
| "SqlResultToRowResult AI_SUCCESS_WITH_INFO = 6"
| "SqlResultToRowResult _ = 5"

definition at_element :: "nat \<Rightarrow> bindings \<Rightarrow> bindings" where
  "at_element i = map (apsnd (\<lambda>b. b\<lparr>elementOffset := i\<rparr>))"

definition put_status :: "nat option \<Rightarrow> nat \<Rightarrow> SqlResult \<Rightarrow> mem \<Rightarrow> mem" where
  "put_status statuses i res m =
     (case statuses of None \<Rightarrow> m | Some a \<Rightarrow> write_bytes m (a + 2 * i) (int_bytes 2 (SqlResultToRowResult res)))"

text \<open>The rows from number \<open>i\<close> on, \<open>n\<close> of them, with the counts of rows fetched and of errors so far. The counters
  have 32 bits.\<close>

fun fetch_rows :: "Services \<Rightarrow> nat \<Rightarrow> nat \<Rightarrow> Query \<Rightarrow> int \<Rightarrow> int \<Rightarrow> st_mem \<Rightarrow> buf_error + (int \<times> int \<times> st_mem)" where
  "fetch_rows w i 0 q fetched errors sm = Inr (fetched, errors, (fst sm)\<lparr>currentQuery := Some q\<rparr>, snd sm)"
| "fetch_rows w i (Suc n) q fetched errors sm =
     (let s = (fst sm)\<lparr>columnBindings := at_element i (columnBindings (fst sm))\<rparr>
      in case Query_FetchNextRow w q (columnBindings s) (st_diag s, snd sm) of
           Inl e \<Rightarrow> Inl e
         | Inr (res, q', d, m) \<Rightarrow>
             let row = res = AI_SUCCESS \<or> res = AI_SUCCESS_WITH_INFO;
                 fetched' = (if row then to_signed 32 (fetched + 1) else fetched);
                 errors' = (if \<not> row \<and> res \<noteq> AI_NO_DATA then to_signed 32 (errors + 1) else errors)
             in fetch_rows w (i + 1) n q' fetched' errors' (s\<lparr>st_diag := d\<rparr>, put_status (rowStatuses s) i res m))"

definition with_offset :: "nat option \<Rightarrow> mem \<Rightarrow> bindings \<Rightarrow> bindings" where
  "with_offset ptr m bs =
     (case ptr of
        None \<Rightarrow> bs
      | Some a \<Rightarrow> map (apsnd (\<lambda>b. b\<lparr>byteOffset := sint_of_bytes (read_bytes m a 4)\<rparr>)) bs)"

definition InternalFetchRow :: "Services \<Rightarrow> st_mem \<Rightarrow> st_result" where
  "InternalFetchRow w sm =
     (let (s, m) = sm; m0 = put_int (rowsFetched s) 4 0 m
      in case currentQuery s of
           None \<Rightarrow> failed S24000_INVALID_CURSOR_STATE ''Cursor is not in the open state'' (s, m0)
         | Some q \<Rightarrow>
             let s0 = s\<lparr>columnBindings := with_offset (columnBindOffset s) m0 (columnBindings s)\<rparr>
             in case fetch_rows w 0 (rowArraySize s) q 0 0 (s0, m0) of
                  Inl e \<Rightarrow> Inl e
                | Inr (fetched, errors, s1, m1) \<Rightarrow>
                    let m2 = put_int (rowsFetched s) 4
                               (if fetched < 0 then to_signed 32 (int (rowArraySize s)) else fetched) m1;
                        res = (if fetched > 0 then (if errors = 0 then AI_SUCCESS else AI_SUCCESS_WITH_INFO)
                               else (if errors = 0 then AI_NO_DATA else AI_ERROR))
                    in Inr (res, s1, m2))"

definition InternalFetchScroll :: "Services \<Rightarrow> int \<Rightarrow> st_mem \<Rightarrow> st_result" where
  "InternalFetchScroll w orientation sm =
     (if orientation \<noteq> 1 then
        failed SHYC00_OPTIONAL_FEATURE_NOT_IMPLEMENTED ''Only SQL_FETCH_NEXT FetchOrientation type is supported'' sm
      else InternalFetchRow w sm)"

definition InternalGetColumnData :: "Services \<Rightarrow> nat \<Rightarrow> ApplicationDataBuffer \<Rightarrow> st_mem \<Rightarrow> st_result" where
  "InternalGetColumnData w columnIdx b sm =
     (case currentQuery (fst sm) of
        None \<Rightarrow> failed S24000_INVALID_CURSOR_STATE ''Cursor is not in the open state.'' sm
      | Some q \<Rightarrow> on_query (\<lambda>q. Query_GetColumn w q columnIdx b) q sm)"

definition not_executed_st :: "st_mem \<Rightarrow> st_result" where
  "not_executed_st = failed SHY010_SEQUENCE_ERROR ''Query is not executed.''"

definition InternalMoreResults :: "st_mem \<Rightarrow> st_result" where
  "InternalMoreResults sm =
     (let (s, m) = sm
      in case currentQuery s of
           None \<Rightarrow> not_executed_st sm
         | Some q \<Rightarrow> let (res, q') = Query_NextResultSet q in Inr (res, s\<lparr>currentQuery := Some q'\<rparr>, m))"

definition Statement_DataAvailable :: "Statement \<Rightarrow> buf_error + bool" where
  "Statement_DataAvailable s = (case currentQuery s of None \<Rightarrow> Inr False | Some q \<Rightarrow> Query_DataAvailable q)"

definition InternalAffectedRows :: "st_mem \<Rightarrow> st_result \<times> int" where
  "InternalAffectedRows sm =
     (case currentQuery (fst sm) of
        None \<Rightarrow> (not_executed_st sm, 0)
      | Some q \<Rightarrow> (st_ok sm, Query_AffectedRows q))"

section \<open>Descriptions\<close>

definition Statement_GetMeta :: "Services \<Rightarrow> Connection \<Rightarrow> st_mem \<Rightarrow> ColumnMeta list option \<times> st_mem" where
  "Statement_GetMeta w c sm =
     (let (s, m) = sm
      in case currentQuery s of
           None \<Rightarrow> (None, st_report SHY010_SEQUENCE_ERROR ''Query is not executed.'' s, m)
         | Some q \<Rightarrow>
             let (meta, q', d, m') = Query_GetMeta w c q (st_diag s, m)
             in (meta, s\<lparr>currentQuery := Some q', st_diag := d\<rparr>, m'))"

text \<open>The number stays unset when there is no metadata.\<close>

definition InternalGetColumnNumber :: "Services \<Rightarrow> Connection \<Rightarrow> st_mem \<Rightarrow> SqlResult \<times> int option \<times> st_mem" where
  "InternalGetColumnNumber w c sm =
     (case Statement_GetMeta w c sm of
        (None, sm') \<Rightarrow> (AI_ERROR, None, sm')
      | (Some meta, sm') \<Rightarrow> (AI_SUCCESS, Some (int (length meta)), sm'))"

text \<open>A numeric buffer gets -1 also when the field is not a number; a failed assertion ends the call.\<close>

definition InternalGetColumnAttribute ::
  "Services \<Rightarrow> Connection \<Rightarrow> nat \<Rightarrow> int \<Rightarrow> nat option \<Rightarrow> int \<Rightarrow> nat option \<Rightarrow> nat option \<Rightarrow> st_mem \<Rightarrow> st_result" where
  "InternalGetColumnAttribute w c colIdx attrId strbuf strbufLen resLen numbuf sm =
     (case Statement_GetMeta w c sm of
        (None, sm1) \<Rightarrow> Inr (AI_ERROR, sm1)
      | (Some meta, s1, m1) \<Rightarrow>
          if colIdx > length meta \<or> colIdx < 1 then
            Inr (AI_ERROR, s1\<lparr>st_diag := AddRecord (newDiagnosticRecord SHY000_GENERAL_ERROR ''Column index is out of range.''
                   [] [] 0 (int colIdx)) (st_diag s1)\<rparr>, m1)
          else
            let columnMeta = meta ! (colIdx - 1);
                num = (case numbuf of None \<Rightarrow> None | Some a \<Rightarrow> GetAttribute_number columnMeta attrId);
                m2 = (case numbuf of
                        None \<Rightarrow> m1
                      | Some a \<Rightarrow> write_bytes m1 a (int_bytes 8 (case num of Some (Some v) \<Rightarrow> v | _ \<Rightarrow> -1)))
            in if num = Some None then Inl Uncaught
               else if num \<noteq> None then Inr (AI_SUCCESS, s1, m2)
               else
                 (case GetAttribute_text columnMeta attrId of
                    None \<Rightarrow> failed SHYC00_OPTIONAL_FEATURE_NOT_IMPLEMENTED ''Unknown attribute.'' (s1, m2)
                  | Some out \<Rightarrow>
                      let (m3, outSize, isTruncated) =
                            (if strbuf = None then (m2, length out, False)
                             else CopyStringToBuffer (sizeof_wchar (platform w)) m2 out strbuf (nat (strbufLen mod 2 ^ 64)) True);
                          m4 = put_int resLen 2 (int outSize) m3
                      in Inr (if isTruncated then AI_SUCCESS_WITH_INFO else AI_SUCCESS, s1, m4)))"

section \<open>Parameters\<close>

text \<open>The exchange of messages is not implemented: the response keeps the status of an unknown error.\<close>

definition UpdateParamsMeta :: "st_mem \<Rightarrow> st_result" where
  "UpdateParamsMeta sm =
     (let (s, m) = sm; status = 1; typeIds = []
      in if status \<noteq> 0 then failed (ResponseStatusToSqlState status) [] sm
         else st_ok (s\<lparr>st_parameters := UpdateParamsTypes typeIds (st_parameters s)\<rparr>, m))"

definition InternalGetParametersNumber :: "st_mem \<Rightarrow> st_result \<times> int option" where
  "InternalGetParametersNumber sm =
     (let number = (\<lambda>sm. Some (GetExpectedParamNum (st_parameters (fst sm))))
      in case currentQuery (fst sm) of
           None \<Rightarrow> (not_prepared sm, None)
         | Some q \<Rightarrow>
             if \<not> is_data q then (st_ok sm, Some 0)
             else if typesSet (st_parameters (fst sm)) then (st_ok sm, number sm)
             else (case UpdateParamsMeta sm of
                     Inl e \<Rightarrow> (Inl e, None)
                   | Inr (res, sm') \<Rightarrow>
                       if res \<noteq> AI_SUCCESS then (Inr (res, sm'), None) else (st_ok sm', number sm')))"

definition InternalSelectParam :: "Services \<Rightarrow> Connection \<Rightarrow> nat option \<Rightarrow> st_mem \<Rightarrow> st_result" where
  "InternalSelectParam w c paramPtr sm =
     (let (s, m) = sm
      in case paramPtr of
           None \<Rightarrow> failed SHY000_GENERAL_ERROR ''Invalid parameter: ValuePtrPtr is null.'' sm
         | Some a \<Rightarrow>
             (case currentQuery s of
                None \<Rightarrow> not_prepared sm
              | Some q \<Rightarrow>
                  let unready = (case GetSelectedParameter (st_parameters s) of
                                   None \<Rightarrow> False | Some p \<Rightarrow> \<not> IsDataReady (platform w) m p)
                  in if unready then
                       failed S22026_DATA_LENGTH_MISMATCH
                         (''Less data was sent for a parameter than was specified with '' @
                          ''the StrLen_or_IndPtr argument in SQLBindParameter.'') sm
                     else
                       (case SelectNextParameter (platform w) m (st_parameters s) of
                          (Some p, ps) \<Rightarrow>
                            Inr (AI_NEED_DATA, s\<lparr>st_parameters := ps\<rparr>,
                                 write_bytes m a (int_bytes 8 (address (GetData (param_buffer p)))))
                        | (None, ps) \<Rightarrow>
                            (case on_query (Query_Execute w c ps (st_timeout s)) q (s\<lparr>st_parameters := ps\<rparr>, m) of
                               Inl e \<Rightarrow> Inl e
                             | Inr (res, sm') \<Rightarrow>
                                 Inr (if res \<noteq> AI_SUCCESS then AI_SUCCESS_WITH_INFO else AI_SUCCESS, sm')))))"

definition InternalPutData :: "Services \<Rightarrow> nat option \<Rightarrow> int \<Rightarrow> st_mem \<Rightarrow> st_result" where
  "InternalPutData w data len sm =
     (let (s, m) = sm; ps = st_parameters s
      in if data = None \<and> len \<noteq> 0 \<and> len \<noteq> SQL_DEFAULT_PARAM \<and> len \<noteq> SQL_NULL_DATA then
           failed SHY009_INVALID_USE_OF_NULL_POINTER
             ''Invalid parameter: DataPtr is null StrLen_or_Ind is not 0, SQL_DEFAULT_PARAM, or SQL_NULL_DATA.'' sm
         else if \<not> IsParameterSelected ps then
           failed SHY010_SEQUENCE_ERROR ''Parameter is not selected with the SQLParamData.'' sm
         else case GetSelectedParameter ps of
                None \<Rightarrow> failed SHY000_GENERAL_ERROR ''Selected parameter has been unbound.'' sm
              | Some p \<Rightarrow>
                  (case PutData (platform w) (string_bound w) m data len p of
                     Inl e \<Rightarrow> Inl e
                   | Inr p' \<Rightarrow>
                       st_ok (s\<lparr>st_parameters := ps\<lparr>ps_parameters := bind_at (currentParamIdx ps) p' (ps_parameters ps)\<rparr>\<rparr>, m)))"

definition put_opt_int :: "nat option \<Rightarrow> nat \<Rightarrow> int option \<Rightarrow> mem \<Rightarrow> mem" where
  "put_opt_int p n v m = (case v of None \<Rightarrow> m | Some k \<Rightarrow> put_int p n k m)"

definition InternalDescribeParam ::
  "int \<Rightarrow> nat option \<Rightarrow> nat option \<Rightarrow> nat option \<Rightarrow> nat option \<Rightarrow> st_mem \<Rightarrow> st_result" where
  "InternalDescribeParam paramNum dataType paramSize decimalDigits nullable sm =
     (let describe = (\<lambda>type sm. let (s, m) = sm
            in st_ok (s, put_int nullable 2 (BinaryTypeNullability type)
                 (put_opt_int decimalDigits 2 (BinaryTypeDecimalDigits (Some type))
                   (put_opt_int paramSize 8 (BinaryTypeColumnSize (Some type))
                     (put_opt_int dataType 2 (BinaryToSqlType (Some type)) m)))))
      in case currentQuery (fst sm) of
           None \<Rightarrow> not_prepared sm
         | Some q \<Rightarrow>
             if \<not> is_data q then failed SHY010_SEQUENCE_ERROR ''Query is not SQL data query.'' sm
             else
               let type = GetParamType paramNum 0 (st_parameters (fst sm))
               in if type \<noteq> 0 then describe type sm
                  else (case UpdateParamsMeta sm of
                          Inl e \<Rightarrow> Inl e
                        | Inr (res, sm') \<Rightarrow>
                            if res \<noteq> AI_SUCCESS then Inr (res, sm')
                            else describe (GetParamType paramNum 101 (st_parameters (fst sm'))) sm'))"

section \<open>Calls\<close>

definition st_upd :: "(DiagnosticRecordStorage \<Rightarrow> DiagnosticRecordStorage) \<Rightarrow> st_mem \<Rightarrow> st_mem" where
  "st_upd f sm = apfst (\<lambda>s. s\<lparr>st_diag := f (st_diag s)\<rparr>) sm"

interpretation stmt: diagnosable "\<lambda>sm. st_diag (fst sm)" st_upd
  by unfold_locales (simp add: st_upd_def)

definition st_call :: "(st_mem \<Rightarrow> st_result) \<Rightarrow> st_mem \<Rightarrow> st_result" where
  "st_call f = api_run st_upd f"

end
