(* ===== verification/Odbc_StatementProps.thy ===== *)
theory Odbc_StatementProps
  imports Odbc_Statement Odbc_ColumnProps
begin

text \<open>
  What holds of every statement: the row sets it fetches are consecutive slices of the documents of its query, and
  the invariant that all its calls keep, by rule induction over the calls an application can make.
\<close>

section \<open>Row sets\<close>

lemma fetch_columns_none: "fetch_columns w is [] row dm = Inr (AI_SUCCESS, row, dm)"
  by (induction "is") simp_all

text \<open>A query for data whose cursor has delivered the first \<open>n\<close> documents, one more than there are when it is past
  the end.\<close>

definition data_at :: "bson_document list \<Rightarrow> JdbcColumnMetadata list \<Rightarrow> string list \<Rightarrow> nat \<Rightarrow> Query \<Rightarrow> bool" where
  "data_at docs md paths n q \<longleftrightarrow>
     (case q of QData d \<Rightarrow> (case dq_cursor d of None \<Rightarrow> False | Some cur \<Rightarrow> cursor_at docs md paths n cur) | _ \<Rightarrow> False)"

lemma fetch_one:
  assumes "data_at docs md paths n q"
  shows "\<exists>q'. Query_FetchNextRow w q [] dm = Inr (if n < length docs then AI_SUCCESS else AI_NO_DATA, q', dm) \<and>
    data_at docs md paths (min (n + 1) (length docs + 1)) q'"
proof -
  from assms obtain d cur where q: "q = QData d" "dq_cursor d = Some cur" and c: "cursor_at docs md paths n cur"
    by (auto simp: data_at_def split: Query.splits option.splits)
  obtain moved cur1 where i: "Increment cur = (moved, cur1)" by (cases "Increment cur") auto
  with Increment_at [OF c] have m: "moved \<longleftrightarrow> n < length docs"
    and c1: "cursor_at docs md paths (min (n + 1) (length docs + 1)) cur1" by simp_all
  show ?thesis
  proof (cases "HasData cur")
    case False
    with c have "\<not> n < length docs" by (auto simp: HasData_def cursor_at_def)
    moreover from False c this i have "cur1 = cur\<lparr>currentRow := None\<rparr>" by (auto simp: Increment_def)
    ultimately show ?thesis using False q c c1 i
      by (cases "currentRow cur") (auto simp: DataQuery_FetchNextRow_def tagged_def data_at_def cursor_at_def)
  next
    case True
    then show ?thesis
    proof (cases moved)
      case False
      with True q i m c1 show ?thesis by (simp add: DataQuery_FetchNextRow_def tagged_def data_at_def)
    next
      case moved: True
      with m c1 obtain row where r: "currentRow cur1 = Some row" by (auto simp: cursor_at_def split: option.splits)
      with c1 have "cursor_at docs md paths (min (n + 1) (length docs + 1)) (cur1\<lparr>currentRow := Some row\<rparr>)"
        by (simp add: cursor_at_def)
      with True moved q i m r show ?thesis
        by (simp add: DataQuery_FetchNextRow_def tagged_def data_at_def GetRow_def fetch_columns_none)
    qed
  qed
qed

text \<open>The status cells of the rows from number \<open>i\<close> on.\<close>

definition mark_rows :: "nat option \<Rightarrow> nat \<Rightarrow> nat \<Rightarrow> nat \<Rightarrow> mem \<Rightarrow> mem" where
  "mark_rows statuses i n k m =
     foldl (\<lambda>m j. put_status statuses j (if j < i + k then AI_SUCCESS else AI_NO_DATA) m) m [i..<i + n]"

lemma mark_rows_Suc:
  "mark_rows statuses i (Suc n) k m =
   mark_rows statuses (Suc i) n (k - 1) (put_status statuses i (if 0 < k then AI_SUCCESS else AI_NO_DATA) m)"
proof -
  have u: "[i..<i + Suc n] = i # [Suc i..<Suc i + n]" by (simp add: upt_conv_Cons del: upt_Suc)
  have "(if j < i + k then AI_SUCCESS else AI_NO_DATA) = (if j < Suc i + (k - 1) then AI_SUCCESS else AI_NO_DATA)"
    if "j \<in> set [Suc i..<Suc i + n]" for j
    using that by (cases k) auto
  then have "foldl (\<lambda>m j. put_status statuses j (if j < i + k then AI_SUCCESS else AI_NO_DATA) m) m' [Suc i..<Suc i + n] =
      foldl (\<lambda>m j. put_status statuses j (if j < Suc i + (k - 1) then AI_SUCCESS else AI_NO_DATA) m) m' [Suc i..<Suc i + n]"
    for m' by (intro foldl_cong) simp_all
  then show ?thesis unfolding mark_rows_def u by simp
qed

lemma fetch_rows_Suc:
  assumes "Query_FetchNextRow w q [] (st_diag s, m) = Inr (res, q', st_diag s, m)" and "columnBindings s = []"
    and "res \<in> {AI_SUCCESS, AI_NO_DATA}"
  shows "fetch_rows w i (Suc n) q fetched errors (s, m) =
    fetch_rows w (Suc i) n q' (if res = AI_SUCCESS then to_signed 32 (fetched + 1) else fetched) errors
      (s, put_status (rowStatuses s) i res m)"
  using assms by (cases s) (auto simp: at_element_def Let_def)

lemma fetch_rows_data:
  assumes "data_at docs md paths n q" and "columnBindings s = []" and "0 \<le> fetched" and "fetched + int sz < 2 ^ 31"
  shows "\<exists>q'. fetch_rows w i sz q fetched errors (s, m) =
      Inr (fetched + int (min sz (length docs - n)), errors, s\<lparr>currentQuery := Some q'\<rparr>,
           mark_rows (rowStatuses s) i sz (length docs - n) m) \<and>
    data_at docs md paths (min (n + sz) (length docs + 1)) q'"
  using assms
proof (induction sz arbitrary: n q fetched i m)
  case 0
  then have "n \<le> length docs + 1"
    by (auto simp: data_at_def cursor_at_def split: Query.splits option.splits)
  with 0 show ?case by (auto simp: mark_rows_def min_def)
next
  case (Suc sz)
  let ?res = "if n < length docs then AI_SUCCESS else AI_NO_DATA"
  obtain q1 where f: "Query_FetchNextRow w q [] (st_diag s, m) = Inr (?res, q1, st_diag s, m)"
    and a: "data_at docs md paths (min (n + 1) (length docs + 1)) q1"
    using fetch_one [OF Suc.prems(1), of w "(st_diag s, m)"] by auto
  let ?f = "if n < length docs then fetched + 1 else fetched"
  have t: "to_signed 32 (fetched + 1) = fetched + 1" using Suc.prems by (intro to_signed_id) auto
  have step: "fetch_rows w i (Suc sz) q fetched errors (s, m) =
      fetch_rows w (Suc i) sz q1 ?f errors (s, put_status (rowStatuses s) i ?res m)"
    using fetch_rows_Suc [OF f Suc.prems(2)] t by (auto simp del: fetch_rows.simps)
  obtain q' where r: "fetch_rows w (Suc i) sz q1 ?f errors (s, put_status (rowStatuses s) i ?res m) =
      Inr (?f + int (min sz (length docs - min (n + 1) (length docs + 1))), errors, s\<lparr>currentQuery := Some q'\<rparr>,
           mark_rows (rowStatuses s) (Suc i) sz (length docs - min (n + 1) (length docs + 1))
             (put_status (rowStatuses s) i ?res m))"
    and d: "data_at docs md paths (min (min (n + 1) (length docs + 1) + sz) (length docs + 1)) q'"
    using Suc.IH [OF a Suc.prems(2), of ?f "Suc i" "put_status (rowStatuses s) i ?res m"] Suc.prems(3,4)
    by (elim exE conjE impE meta_impE) (auto split: if_splits)
  have "length docs - min (n + 1) (length docs + 1) = length docs - n - 1" by auto
  moreover have "?f + int (min sz (length docs - n - 1)) = fetched + int (min (Suc sz) (length docs - n))" by auto
  moreover have "min (min (n + 1) (length docs + 1) + sz) (length docs + 1) = min (n + Suc sz) (length docs + 1)" by auto
  ultimately show ?case using r d by (intro exI [of _ q']) (simp add: step mark_rows_Suc del: fetch_rows.simps)
qed

text \<open>What the application reads in the status cells afterwards.\<close>

lemma put_status_outside:
  assumes "a = Some b" and "x + n \<le> b + 2 * i \<or> b + 2 * i + 2 \<le> x"
  shows "read_bytes (put_status a i res m) x n = read_bytes m x n"
  using assms by (auto simp: put_status_def intro: read_write_disjoint)

lemma mark_rows_outside:
  assumes "x + l \<le> b + 2 * i \<or> b + 2 * (i + n) \<le> x"
  shows "read_bytes (mark_rows (Some b) i n k m) x l = read_bytes m x l"
  using assms
proof (induction n arbitrary: i k m)
  case (Suc n)
  let ?m = "put_status (Some b) i (if 0 < k then AI_SUCCESS else AI_NO_DATA) m"
  from Suc.prems have "read_bytes (mark_rows (Some b) (Suc i) n (k - 1) ?m) x l = read_bytes ?m x l"
    by (intro Suc.IH) auto
  also from Suc.prems have "\<dots> = read_bytes m x l" by (intro put_status_outside [OF refl]) auto
  finally show ?case by (simp only: mark_rows_Suc)
qed (simp add: mark_rows_def)

lemma mark_rows_cell:
  assumes "i \<le> j" and "j < i + n"
  shows "read_bytes (mark_rows (Some b) i n k m) (b + 2 * j) 2 = int_bytes 2 (if j < i + k then 0 else 3)"
  using assms
proof (induction n arbitrary: i k m)
  case (Suc n)
  show ?case
  proof (cases "j = i")
    case True
    then show ?thesis
      using read_write_same [of m "b + 2 * i" "int_bytes 2 _"]
      by (simp add: mark_rows_Suc mark_rows_outside) (simp add: put_status_def)
  next
    case False
    with Suc.IH [of "Suc i" "k - 1"] Suc.prems show ?thesis by (cases k) (auto simp: mark_rows_Suc)
  qed
qed simp

lemma InternalFetchRow_data:
  assumes "0 < rowArraySize s" and "currentQuery s = Some q" and "data_at docs md paths n q" and "columnBindings s = []"
    and "rowArraySize s < 2 ^ 31"
  shows "\<exists>s' m'. InternalFetchRow w (s, m) = Inr (if n < length docs then AI_SUCCESS else AI_NO_DATA, s', m') \<and>
      (\<exists>q'. s' = s\<lparr>currentQuery := Some q'\<rparr> \<and> data_at docs md paths (min (n + rowArraySize s) (length docs + 1)) q') \<and>
      (\<forall>a. rowsFetched s = Some a \<longrightarrow> read_bytes m' a 4 = int_bytes 4 (int (min (rowArraySize s) (length docs - n)))) \<and>
      (\<forall>b j. rowStatuses s = Some b \<and> j < rowArraySize s \<and>
         (\<forall>a. rowsFetched s = Some a \<longrightarrow> a + 4 \<le> b \<or> b + 2 * rowArraySize s \<le> a) \<longrightarrow>
         read_bytes m' (b + 2 * j) 2 = int_bytes 2 (if j < length docs - n then 0 else 3))"
proof -
  let ?n = "rowArraySize s" and ?k = "length docs - n" and ?m0 = "put_int (rowsFetched s) 4 0 m"
  let ?m1 = "mark_rows (rowStatuses s) 0 ?n ?k ?m0"
  have o: "s\<lparr>columnBindings := with_offset (columnBindOffset s) ?m0 (columnBindings s)\<rparr> = s"
    using assms(4) by (cases s) (auto simp: with_offset_def split: option.splits)
  obtain q' where f: "fetch_rows w 0 ?n q 0 0 (s, ?m0) = Inr (int (min ?n ?k), 0, s\<lparr>currentQuery := Some q'\<rparr>, ?m1)"
    and d: "data_at docs md paths (min (n + ?n) (length docs + 1)) q'"
    using fetch_rows_data [OF assms(3,4), of 0 ?n w 0 0 ?m0] assms(5) by auto
  let ?m2 = "put_int (rowsFetched s) 4 (int (min ?n ?k)) ?m1"
  have "InternalFetchRow w (s, m) =
      Inr (if n < length docs then AI_SUCCESS else AI_NO_DATA, s\<lparr>currentQuery := Some q'\<rparr>, ?m2)"
    using assms(1) by (simp add: InternalFetchRow_def Let_def assms(2) o f)
  moreover have "read_bytes ?m2 a 4 = int_bytes 4 (int (min ?n ?k))" if "rowsFetched s = Some a" for a
    using that read_write_same [of ?m1 a "int_bytes 4 _"] by (simp add: put_int_def)
  moreover have "read_bytes ?m2 (b + 2 * j) 2 = int_bytes 2 (if j < ?k then 0 else 3)"
    if "rowStatuses s = Some b \<and> j < ?n \<and> (\<forall>a. rowsFetched s = Some a \<longrightarrow> a + 4 \<le> b \<or> b + 2 * ?n \<le> a)" for b j
  proof -
    have "read_bytes ?m2 (b + 2 * j) 2 = read_bytes ?m1 (b + 2 * j) 2"
      using that by (auto simp: put_int_def split: option.splits intro!: read_write_disjoint)
    then show ?thesis using that mark_rows_cell [of 0 j ?n b ?k ?m0] by simp
  qed
  ultimately show ?thesis using d
    by (intro exI [of _ "s\<lparr>currentQuery := Some q'\<rparr>"] exI [of _ ?m2]) auto
qed

text \<open>(C8) Fetching a row set: on a query whose cursor has delivered \<open>n\<close> of its documents, a call with no bound columns
  moves over the next \<open>k\<close> documents, \<open>k\<close> being the row array size or what is left if that is less; it reports no data
  exactly when nothing is left, writes \<open>k\<close> as the number of rows fetched, and the status cells say success for the
  first \<open>k\<close> rows and no row for the others. The array size must be below the range of the 32-bit counter.\<close>
theorem rowset_fetch:
  assumes "0 < rowArraySize s" and "currentQuery s = Some q" and "data_at docs md paths n q" and "columnBindings s = []"
    and "rowArraySize s < 2 ^ 31"
  shows "\<exists>s' m'. InternalFetchRow w (s, m) = Inr (if n < length docs then AI_SUCCESS else AI_NO_DATA, s', m') \<and>
      (\<exists>q'. s' = s\<lparr>currentQuery := Some q'\<rparr> \<and> data_at docs md paths (min (n + rowArraySize s) (length docs + 1)) q') \<and>
      (\<forall>a. rowsFetched s = Some a \<longrightarrow> read_bytes m' a 4 = int_bytes 4 (int (min (rowArraySize s) (length docs - n)))) \<and>
      (\<forall>b j. rowStatuses s = Some b \<and> j < rowArraySize s \<and>
         (\<forall>a. rowsFetched s = Some a \<longrightarrow> a + 4 \<le> b \<or> b + 2 * rowArraySize s \<le> a) \<longrightarrow>
         read_bytes m' (b + 2 * j) 2 = int_bytes 2 (if j < length docs - n then 0 else 3))"
  by (rule InternalFetchRow_data [OF assms])

text \<open>Three documents, two of them in the first row set, one in the second.\<close>

definition three_rows :: Statement where
  "three_rows = newStatement\<lparr>currentQuery := Some (QData ((newDataQuery [])\<lparr>dq_cursor := Some (newCursor [[], [], []] [] [])\<rparr>)),
     rowArraySize := 2, rowsFetched := Some 0, rowStatuses := Some 8\<rparr>"

lemma three_rows_simps:
  "rowArraySize three_rows = 2" "rowsFetched three_rows = Some 0" "rowStatuses three_rows = Some 8"
  "columnBindings three_rows = []"
  "currentQuery three_rows = Some (QData ((newDataQuery [])\<lparr>dq_cursor := Some (newCursor [[], [], []] [] [])\<rparr>))"
  by (simp_all add: three_rows_def newStatement_def)

theorem rowset_fetch_witness:
  "\<forall>w. \<exists>s' m'. InternalFetchRow w (three_rows, \<lambda>_. 0) = Inr (AI_SUCCESS, s', m') \<and>
     (\<exists>q'. currentQuery s' = Some q' \<and> data_at [[], [], []] [] [] 2 q') \<and>
     read_bytes m' 0 4 = int_bytes 4 2 \<and> read_bytes m' 10 2 = int_bytes 2 0"
proof
  fix w
  have "data_at [[], [], []] [] [] 0 (QData ((newDataQuery [])\<lparr>dq_cursor := Some (newCursor [[], [], []] [] [])\<rparr>))"
    by (simp add: data_at_def cursor_at_new)
  from rowset_fetch [OF _ _ this, of three_rows w "\<lambda>_. 0"]
  obtain s' m' q' where r: "InternalFetchRow w (three_rows, \<lambda>_. 0) = Inr (AI_SUCCESS, s', m')"
      "currentQuery s' = Some q'" "data_at [[], [], []] [] [] 2 q'" "read_bytes m' 0 4 = int_bytes 4 2"
    and st: "\<forall>j<2. read_bytes m' (8 + 2 * j) 2 = int_bytes 2 0"
    by (auto simp: three_rows_simps simp flip: numeral_2_eq_2)
  from st have "read_bytes m' 10 2 = int_bytes 2 0" by (auto dest: spec [of _ 1])
  with r show "\<exists>s' m'. InternalFetchRow w (three_rows, \<lambda>_. 0) = Inr (AI_SUCCESS, s', m') \<and>
     (\<exists>q'. currentQuery s' = Some q' \<and> data_at [[], [], []] [] [] 2 q') \<and>
     read_bytes m' 0 4 = int_bytes 4 2 \<and> read_bytes m' 10 2 = int_bytes 2 0"
    by blast
qed

section \<open>The invariant of a statement\<close>

text \<open>The row of a cursor is the document its iterator stands on, with columns set up in order; a catalogue query that
  was executed stands on one of its rows or at their end; a batch is never marked as executed.\<close>

definition cursor_ok :: "DocumentDbCursor \<Rightarrow> bool" where
  "cursor_ok c \<longleftrightarrow> length (cur_paths c) = length (cur_metadata c) \<and>
     (case currentRow c of
        None \<Rightarrow> True
      | Some row \<Rightarrow> iterator c \<noteq> [] \<and> \<not> isFirstRow c \<and> row_ok (cur_metadata c) (cur_paths c) row \<and>
          row_document row = hd (iterator c))"

definition data_ok :: "DataQuery \<Rightarrow> bool" where
  "data_ok q \<longleftrightarrow> (case dq_cursor q of None \<Rightarrow> True | Some c \<Rightarrow> cursor_ok c)"

definition meta_ok :: "'r MetaQuery \<Rightarrow> bool" where
  "meta_ok q \<longleftrightarrow> (q_executed q \<longrightarrow> opened q)"

fun query_ok :: "Query \<Rightarrow> bool" where
  "query_ok (QData q) = data_ok q"
| "query_ok (QBatch q) = (\<not> bq_executed q)"
| "query_ok (QTable a q) = meta_ok q"
| "query_ok (QColumn a q) = meta_ok q"
| "query_ok (QPrimaryKeys a q) = meta_ok q"
| "query_ok (QForeignKeys a q) = meta_ok q"
| "query_ok (QTypeInfo t q) = meta_ok q"
| "query_ok _ = True"

definition bindings_ok :: "bindings \<Rightarrow> bool" where
  "bindings_ok bs \<longleftrightarrow> ordered bs \<and> list_all (\<lambda>(i, b). buf_type b \<noteq> AI_UNSUPPORTED \<and> 0 \<le> buflen b) bs"

definition stmt_ok :: "Statement \<Rightarrow> bool" where
  "stmt_ok s \<longleftrightarrow> bindings_ok (columnBindings s) \<and> params_ok (st_parameters s) \<and> 1 \<le> rowArraySize s \<and>
     0 \<le> st_timeout s \<and> st_timeout s \<le> INT32_MAX \<and>
     (case currentQuery s of None \<Rightarrow> True | Some q \<Rightarrow> query_ok q)"

text \<open>The translation service names a path for every column.\<close>

definition paths_match :: "Services \<Rightarrow> bool" where
  "paths_match w \<longleftrightarrow> (\<forall>sql context. map_query w sql = Inr (Some context) \<longrightarrow>
     length (mql_paths context) = length (mql_columnMetadata context))"

subsection \<open>Queries keep it\<close>

lemma newCursor_ok: "length paths = length md \<Longrightarrow> cursor_ok (newCursor docs md paths)"
  by (simp add: cursor_ok_def newCursor_def)

lemma Increment_ok: "cursor_ok c \<Longrightarrow> cursor_ok (snd (Increment c))"
  by (auto simp: cursor_ok_def Increment_def Let_def HasData_def newRow_ok Row_Update_ok split: option.splits)
    (simp_all add: newRow_def Row_Update_def)

lemma read_column_ok:
  assumes "read_column w row i b dm = Inr (res, row', dm')" and "row_ok md paths row" and "length paths = length md"
  shows "row_ok md paths row' \<and> row_document row' = row_document row"
proof -
  obtain r where "ReadColumnToBuffer (library w) (platform w) (snd dm) row i b = (r, row')"
    using assms(1) by (auto simp: read_column_def Let_def split: prod.splits option.splits sum.splits)
  with ReadColumnToBuffer_ok [OF assms(2,3), of "library w" "platform w" "snd dm" i b] show ?thesis by auto
qed

lemma fetch_columns_ok:
  assumes "fetch_columns w is bs row dm = Inr (res, row', dm')" and "row_ok md paths row" and "length paths = length md"
  shows "row_ok md paths row' \<and> row_document row' = row_document row"
  using assms(1,2)
proof (induction "is" arbitrary: row dm)
  case (Cons i "is")
  show ?case
  proof (cases "map_of bs i")
    case None
    with Cons.prems have "fetch_columns w is bs row dm = Inr (res, row', dm')" by simp
    from Cons.IH [OF this Cons.prems(2)] show ?thesis .
  next
    case (Some b)
    with Cons.prems(1) obtain r row1 dm1 where c: "read_column w row i b dm = Inr (r, row1, dm1)"
      by (auto split: sum.splits)
    note ok = read_column_ok [OF c Cons.prems(2) assms(3)]
    show ?thesis
    proof (cases "r = AI_ERROR")
      case True
      with Cons.prems(1) Some c ok show ?thesis by simp
    next
      case False
      with Cons.prems(1) Some c have "fetch_columns w is bs row1 dm1 = Inr (res, row', dm')" by simp
      from Cons.IH [OF this] ok show ?thesis by simp
    qed
  qed
qed simp

lemma cursor_ok_row:
  "cursor_ok c \<Longrightarrow> currentRow c = Some row \<Longrightarrow> row_ok (cur_metadata c) (cur_paths c) row' \<Longrightarrow>
   row_document row' = row_document row \<Longrightarrow> cursor_ok (c\<lparr>currentRow := Some row'\<rparr>)"
  by (simp add: cursor_ok_def)

lemma DataQuery_FetchNextRow_ok:
  assumes "DataQuery_FetchNextRow w q bs dm = Inr (res, q', dm')" and "data_ok q"
  shows "data_ok q'"
proof (cases "dq_cursor q")
  case None
  with assms show ?thesis by (auto simp: DataQuery_FetchNextRow_def)
next
  case (Some cur)
  obtain moved cur1 where i: "Increment cur = (moved, cur1)" by (cases "Increment cur") auto
  have c1: "cursor_ok cur1" using Increment_ok [of cur] assms(2) Some i by (simp add: data_ok_def)
  then have l: "length (cur_paths cur1) = length (cur_metadata cur1)" by (simp add: cursor_ok_def)
  show ?thesis
  proof (cases "HasData cur \<and> moved \<and> currentRow cur1 \<noteq> None")
    case False
    with assms Some i c1 show ?thesis
      by (auto simp: DataQuery_FetchNextRow_def data_ok_def GetRow_def Let_def split: if_splits)
  next
    case True
    then obtain row where r: "currentRow cur1 = Some row" by auto
    then have "row_ok (cur_metadata cur1) (cur_paths cur1) row" using c1 by (simp add: cursor_ok_def)
    with assms Some i True r c1 l show ?thesis
      by (auto simp: DataQuery_FetchNextRow_def data_ok_def GetRow_def Let_def split: sum.splits
          dest!: fetch_columns_ok intro: cursor_ok_row)
  qed
qed

lemma DataQuery_GetColumn_ok:
  assumes "DataQuery_GetColumn w q i b dm = Inr (res, q', dm')" and "data_ok q"
  shows "data_ok q'"
proof -
  have "cursor_ok (cur\<lparr>currentRow := Some row'\<rparr>)"
    if "dq_cursor q = Some cur" "currentRow cur = Some row" "read_column w row i b dm = Inr (r, row', dm')"
    for cur row row' r dm'
    using that assms(2) read_column_ok [OF that(3)] by (auto simp: data_ok_def cursor_ok_def)
  with assms show ?thesis
    by (auto simp: DataQuery_GetColumn_def GetRow_def data_ok_def split: option.splits sum.splits prod.splits)
qed

lemma DataQuery_Close_ok: "data_ok (DataQuery_Close q)"
  by (simp add: data_ok_def DataQuery_Close_def)

lemma ReadJdbcColumnMetadataVector_ok: "data_ok (ReadJdbcColumnMetadataVector v q) \<longleftrightarrow> data_ok q"
  by (simp add: data_ok_def ReadJdbcColumnMetadataVector_def)

lemma GetMqlQueryContext_paths:
  "paths_match w \<Longrightarrow> GetMqlQueryContext w c sql = Inr (Some context) \<Longrightarrow>
   length (mql_paths context) = length (mql_columnMetadata context)"
  by (auto simp: GetMqlQueryContext_def paths_match_def split: option.splits sum.splits)

lemma DataQuery_Execute_ok:
  "paths_match w \<Longrightarrow> DataQuery_Execute w c t q dm = Inr (res, q', dm') \<Longrightarrow> data_ok q'"
  by (auto simp: DataQuery_Execute_def MakeRequestFetch_def Let_def DataQuery_Close_ok ReadJdbcColumnMetadataVector_ok
      split: sum.splits option.splits aggregate_answer.splits if_splits)
    (auto simp: data_ok_def intro!: newCursor_ok dest: GetMqlQueryContext_paths)

lemma DataQuery_GetMeta_ok: "DataQuery_GetMeta w c q dm = (r, q', dm') \<Longrightarrow> data_ok q \<Longrightarrow> data_ok q'"
  by (auto simp: DataQuery_GetMeta_def MakeRequestResultsetMeta_def ReadJdbcColumnMetadataVector_ok
      split: if_splits sum.splits option.splits prod.splits)

lemma newMetaQuery_ok: "meta_ok newMetaQuery"
  by (simp add: meta_ok_def newMetaQuery_def)

lemma executed_with_ok:
  "meta_ok q \<Longrightarrow> executed_with q rows dm = (res, q', dm') \<Longrightarrow> meta_ok q'"
  by (auto simp: executed_with_def meta_ok_def opened_def split: sum.splits)

lemma close_ok: "meta_ok (close_rows q)" "meta_ok (close_keys q)" "meta_ok (TypeInfoQuery_Close p)"
  by (simp_all add: meta_ok_def close_rows_def close_keys_def TypeInfoQuery_Close_def)

lemma advance_ok: "meta_ok q \<Longrightarrow> q_executed q \<Longrightarrow> meta_ok (advance q)"
  using advance_exhausted(2) [of q] advance_delivered(2) [of q] by (auto simp: meta_ok_def) (metis not_less)

lemma fetch_row_ok: "fetch_row f q bs dm = Inr (res, q', dm') \<Longrightarrow> meta_ok q \<Longrightarrow> meta_ok q'"
  by (auto simp: fetch_row_def Let_def advance_ok split: if_splits sum.splits)

lemma tagged_ok:
  assumes "tagged mk r = Inr (res, q', dm')" and "\<And>q. r = Inr (res, q, dm') \<Longrightarrow> query_ok (mk q)"
  shows "query_ok q'"
  using assms by (auto simp: tagged_def split: sum.splits)

lemma kept_same: "kept q r = Inr (res, q', dm') \<Longrightarrow> q' = q"
  by (auto simp: kept_def split: sum.splits)

lemma BatchQuery_Execute_fails:
  "BatchQuery_Execute c ps q dm =
   Inr (AI_ERROR, (if bq_executed q then BatchQuery_Close q else q)\<lparr>bq_rowsAffected := []\<rparr>,
     apsnd (SetParamsProcessed 0 ps) (report (ResponseStatusToSqlState 1) [] dm))"
  by (simp add: BatchQuery_Execute_def batch_loop_fails Let_def)

lemma catalogue_Execute_ok:
  "TableMetadataQuery_Execute java a tq dm = (res, tq', dm') \<Longrightarrow> meta_ok tq \<Longrightarrow> meta_ok tq'"
  "ColumnMetadataQuery_Execute java b cq dm = (res, cq', dm') \<Longrightarrow> meta_ok cq \<Longrightarrow> meta_ok cq'"
  "PrimaryKeysQuery_Execute java p pq dm = (res, pq', dm') \<Longrightarrow> meta_ok pq \<Longrightarrow> meta_ok pq'"
  "ForeignKeysQuery_Execute java f fq dm = (res, fq', dm') \<Longrightarrow> meta_ok fq \<Longrightarrow> meta_ok fq'"
  "TypeInfoQuery_Execute java t yq dm = Inr (res, yq', dm') \<Longrightarrow> meta_ok yq \<Longrightarrow> meta_ok yq'"
  unfolding TableMetadataQuery_Execute_def ColumnMetadataQuery_Execute_def PrimaryKeysQuery_Execute_def
    ForeignKeysQuery_Execute_def TypeInfoQuery_Execute_def
  by (auto split: if_splits dest!: executed_with_ok [rotated] simp: close_ok)
    (auto simp: Let_def meta_ok_def opened_def split: if_splits prod.splits sum.splits option.splits)

lemma Query_Execute_ok:
  assumes "paths_match w" and "Query_Execute w c ps t q dm = Inr (res, q', dm')" and "query_ok q"
  shows "query_ok q'"
  using assms(2,3)
  by (cases q) (auto elim!: tagged_ok simp: BatchQuery_Execute_fails BatchQuery_Close_def
      dest: catalogue_Execute_ok DataQuery_Execute_ok [OF assms(1)])

lemma Query_FetchNextRow_ok: "Query_FetchNextRow w q bs dm = Inr (res, q', dm') \<Longrightarrow> query_ok q \<Longrightarrow> query_ok q'"
  by (cases q) (auto elim!: tagged_ok dest: DataQuery_FetchNextRow_ok kept_same fetch_row_ok
      simp: TableMetadataQuery_FetchNextRow_def ColumnMetadataQuery_FetchNextRow_def PrimaryKeysQuery_FetchNextRow_def
        ForeignKeysQuery_FetchNextRow_def TypeInfoQuery_FetchNextRow_def)

lemma Query_GetColumn_ok: "Query_GetColumn w q i b dm = Inr (res, q', dm') \<Longrightarrow> query_ok q \<Longrightarrow> query_ok q'"
  by (cases q) (auto elim!: tagged_ok dest: DataQuery_GetColumn_ok dest!: kept_same)

lemma Query_Close_ok: "query_ok (Query_Close q)"
  by (cases q) (simp_all add: DataQuery_Close_ok close_ok BatchQuery_Close_def)

lemma Query_GetMeta_ok: "Query_GetMeta w c q dm = (r, q', dm') \<Longrightarrow> query_ok q \<Longrightarrow> query_ok q'"
  by (cases q) (auto dest: DataQuery_GetMeta_ok split: prod.splits)

lemma Query_NextResultSet_ok: "Query_NextResultSet q = (r, q') \<Longrightarrow> query_ok q \<Longrightarrow> query_ok q'"
  by (cases q) (auto simp: DataQuery_NextResultSet_def DataQuery_Close_ok BatchQuery_NextResultSet_def BatchQuery_Close_def
      split: if_splits)

subsection \<open>Calls keep it\<close>

definition keeps :: "(st_mem \<Rightarrow> st_result) \<Rightarrow> bool" where
  "keeps f \<longleftrightarrow> (\<forall>sm res sm'. stmt_ok (fst sm) \<and> f sm = Inr (res, sm') \<longrightarrow> stmt_ok (fst sm'))"

named_theorems kept_by_calls

lemma keepsI: "(\<And>s m res s' m'. stmt_ok s \<Longrightarrow> f (s, m) = Inr (res, s', m') \<Longrightarrow> stmt_ok s') \<Longrightarrow> keeps f"
  by (auto simp: keeps_def)

lemma stmt_ok_irrelevant [simp]:
  "stmt_ok (st_report state msg s) = stmt_ok s" "stmt_ok (s\<lparr>st_diag := d\<rparr>) = stmt_ok s"
  "stmt_ok (s\<lparr>rowsFetched := p\<rparr>) = stmt_ok s" "stmt_ok (s\<lparr>rowStatuses := p\<rparr>) = stmt_ok s"
  "stmt_ok (s\<lparr>columnBindOffset := p\<rparr>) = stmt_ok s"
  by (simp_all add: stmt_ok_def st_report_def)

lemma failed_keeps [simp]: "failed state msg sm = Inr (res, sm') \<Longrightarrow> stmt_ok (fst sm') = stmt_ok (fst sm)"
  by (auto simp: failed_def)

lemma newStatement_ok: "stmt_ok newStatement"
  by (simp add: stmt_ok_def newStatement_def bindings_ok_def ordered_def newParameterSet_ok INT32_MAX_def)

lemma list_all_bind_at: "list_all P m \<Longrightarrow> P (k, v) \<Longrightarrow> list_all P (bind_at k v m)"
  by (induction k v m rule: bind_at.induct) auto

lemma bindings_ok_update:
  "bindings_ok bs \<Longrightarrow> buf_type b \<noteq> AI_UNSUPPORTED \<Longrightarrow> 0 \<le> buflen b \<Longrightarrow> bindings_ok (bind_at i b bs)"
  "bindings_ok bs \<Longrightarrow> bindings_ok (unbind_at i bs)"
  "bindings_ok bs \<Longrightarrow> bindings_ok (at_element k bs)"
  "bindings_ok bs \<Longrightarrow> bindings_ok (with_offset p m bs)"
  by (auto simp: bindings_ok_def bind_at_ordered list_all_bind_at unbind_at_ordered)
    (auto simp: unbind_at_def at_element_def with_offset_def ordered_def list_all_iff comp_def split: option.splits)

lemma keeps_BindColumn [kept_by_calls]: "keeps (InternalBindColumn i t v n p)"
  by (rule keepsI) (auto simp: InternalBindColumn_def Let_def failed_def st_ok_def stmt_ok_def st_report_def newBuffer_def
      bindings_ok_update split: if_splits)

lemma keeps_BindParameter [kept_by_calls]: "i < 2 ^ 16 \<Longrightarrow> keeps (InternalBindParameter i io bt st cs dd buf len p)"
  by (rule keepsI) (auto simp: InternalBindParameter_def Let_def failed_def st_ok_def stmt_ok_def st_report_def BindParameter_ok
      split: if_splits)

lemma params_ok_irrelevant [simp]:
  "params_ok (ps\<lparr>paramBindOffset := p\<rparr>) = params_ok ps" "params_ok (ps\<lparr>processedParamRows := p\<rparr>) = params_ok ps"
  "params_ok (ps\<lparr>paramsStatus := p\<rparr>) = params_ok ps" "params_ok (SetParamSetSize n ps) = params_ok ps"
  "params_ok (UpdateParamsTypes ts ps) = params_ok ps"
  by (simp_all add: params_ok_def SetParamSetSize_def UpdateParamsTypes_def)

lemma keeps_SetAttribute [kept_by_calls]: "0 \<le> v \<Longrightarrow> keeps (InternalSetAttribute attr v)"
  by (rule keepsI) (auto simp: InternalSetAttribute_def Let_def failed_def st_ok_def stmt_ok_def st_report_def
      SetParamBindOffsetPtr_def INT32_MAX_def split: if_splits)

lemma keeps_GetAttribute [kept_by_calls]: "keeps (InternalGetAttribute self attr buf len)"
  by (rule keepsI) (auto simp: InternalGetAttribute_def Let_def failed_def st_ok_def split: if_splits option.splits)

lemma stmt_ok_query:
  "stmt_ok s \<Longrightarrow> query_ok q \<Longrightarrow> stmt_ok (s\<lparr>currentQuery := Some q\<rparr>)"
  "stmt_ok s \<Longrightarrow> currentQuery s = Some q \<Longrightarrow> query_ok q"
  "stmt_ok s \<Longrightarrow> params_ok ps \<Longrightarrow> stmt_ok (s\<lparr>st_parameters := ps\<rparr>)"
  by (auto simp: stmt_ok_def)

lemma on_query_ok:
  assumes "on_query f q (s, m) = Inr (res, s', m')" and "stmt_ok s"
    and "\<And>dm r q' dm'. f q dm = Inr (r, q', dm') \<Longrightarrow> query_ok q'"
  shows "stmt_ok s'"
  using assms by (auto simp: on_query_def stmt_ok_query split: sum.splits)

lemma new_queries_ok:
  "data_ok (newDataQuery sql)" "query_ok (QData (newDataQuery sql))" "query_ok (QBatch (newBatchQuery sql))" "query_ok (QInternal sql cmd)"
  by (simp_all add: data_ok_def newDataQuery_def newBatchQuery_def)

lemma keeps_Prepare [kept_by_calls]: "keeps (InternalPrepareSqlQuery sql)"
  by (rule keepsI) (auto simp: InternalPrepareSqlQuery_def ProcessInternalCommand_def Let_def failed_def st_ok_def
      new_queries_ok stmt_ok_query stmt_ok_def Prepare_ok st_report_def split: if_splits sum.splits sql_error.splits)

lemma adapt_query_ok: "query_ok q \<Longrightarrow> query_ok (adapt_query ps q)"
  by (cases q) (simp_all add: adapt_query_def new_queries_ok del: query_ok.simps(1,2))

lemma keeps_Execute [kept_by_calls]:
  assumes "paths_match w"
  shows "keeps (InternalExecuteSqlQuery w c)"
proof (rule keepsI)
  fix s m res s' m'
  assume s: "stmt_ok s" and x: "InternalExecuteSqlQuery w c (s, m) = Inr (res, s', m')"
  show "stmt_ok s'"
  proof (cases "currentQuery s")
    case None
    with x s show ?thesis by (auto simp: InternalExecuteSqlQuery_def not_prepared_def failed_def)
  next
    case (Some q0)
    let ?q = "adapt_query (st_parameters s) q0"
    have q: "query_ok ?q" using s Some by (intro adapt_query_ok) (rule stmt_ok_query)
    then have s1: "stmt_ok (s\<lparr>currentQuery := Some ?q\<rparr>)" using s by (rule stmt_ok_query(1) [rotated])
    show ?thesis
    proof (cases "IsDataAtExecNeeded (platform w) m (st_parameters s)")
      case True
      with x Some s1 show ?thesis by (auto simp: InternalExecuteSqlQuery_def Let_def failed_def split: Query.splits)
    next
      case False
      with x Some have "on_query (Query_Execute w c (st_parameters s) (st_timeout s)) ?q (s\<lparr>currentQuery := Some ?q\<rparr>, m) =
          Inr (res, s', m')"
        by (simp add: InternalExecuteSqlQuery_def Let_def)
      then show ?thesis using s1 Query_Execute_ok [OF assms _ q] by (rule on_query_ok)
    qed
  qed
qed

lemma keepsD: "keeps f \<Longrightarrow> f sm = Inr (res, sm') \<Longrightarrow> stmt_ok (fst sm) \<Longrightarrow> stmt_ok (fst sm')"
  unfolding keeps_def by blast

lemma keeps_ExecDirect [kept_by_calls]: "paths_match w \<Longrightarrow> keeps (InternalExecuteSqlQuery_text w c sql)"
  unfolding keeps_def InternalExecuteSqlQuery_text_def
  by (auto split: sum.splits if_splits dest!: keepsD [OF keeps_Execute] keepsD [OF keeps_Prepare])

lemma keeps_execute_new: "paths_match w \<Longrightarrow> query_ok q \<Longrightarrow> keeps (execute_new w c q)"
  by (rule keepsI) (auto simp: execute_new_def elim!: on_query_ok intro: Query_Execute_ok)

lemma keeps_catalogue [kept_by_calls]:
  assumes "paths_match w"
  shows "keeps (InternalExecuteGetColumnsMetaQuery w c cat sch tab column)"
    "keeps (InternalExecuteGetTablesMetaQuery w c cat sch tab tableType)"
    "keeps (InternalExecuteGetForeignKeysQuery w c pc psch pt cat sch tab)"
    "keeps (InternalExecuteGetPrimaryKeysQuery w c cat sch tab')"
  using keeps_execute_new [OF assms]
  by (simp_all add: InternalExecuteGetColumnsMetaQuery_def InternalExecuteGetTablesMetaQuery_def
      InternalExecuteGetForeignKeysQuery_def InternalExecuteGetPrimaryKeysQuery_def newMetaQuery_ok)

lemma keeps_guarded:
  "keeps g \<Longrightarrow> keeps (\<lambda>sm. if P then failed state msg sm else g sm)"
  by (auto simp: keeps_def failed_def)

lemma keeps_special [kept_by_calls]:
  assumes "paths_match w"
  shows "keeps (InternalExecuteSpecialColumnsQuery w c t)" "keeps (InternalExecuteGetTypeInfoQuery w c t)"
  unfolding InternalExecuteSpecialColumnsQuery_def InternalExecuteGetTypeInfoQuery_def
  by (intro keeps_guarded keeps_execute_new [OF assms]; simp add: newMetaQuery_ok)+

lemma keeps_Close [kept_by_calls]: "keeps Statement_InternalClose"
  by (rule keepsI) (auto simp: Statement_InternalClose_def st_ok_def stmt_ok_def Query_Close_ok split: option.splits)

lemma keeps_FreeResources [kept_by_calls]: "keeps (InternalFreeResources opt)"
  by (rule keepsI) (auto simp: InternalFreeResources_def Let_def failed_def st_ok_def stmt_ok_def st_report_def UnbindAll_ok
      bindings_ok_def ordered_def split: if_splits dest!: keepsD [OF keeps_Close])

lemma fetch_rows_ok:
  assumes "fetch_rows w i n q fetched errors sm = Inr (fetched', errors', s', m')" and "stmt_ok (fst sm)" and "query_ok q"
  shows "stmt_ok s'"
  using assms
proof (induction n arbitrary: i q fetched errors sm)
  case 0
  then show ?case by (auto simp: stmt_ok_query)
next
  case (Suc n)
  let ?s = "(fst sm)\<lparr>columnBindings := at_element i (columnBindings (fst sm))\<rparr>"
  obtain res q1 d m where f: "Query_FetchNextRow w q (columnBindings ?s) (st_diag ?s, snd sm) = Inr (res, q1, d, m)"
    using Suc.prems(1) unfolding fetch_rows.simps Let_def by (auto split: sum.splits)
  then have q1: "query_ok q1" by (rule Query_FetchNextRow_ok) (rule Suc.prems(3))
  have "stmt_ok ?s" using Suc.prems(2) by (simp add: stmt_ok_def bindings_ok_update)
  then have s1: "stmt_ok (?s\<lparr>st_diag := d\<rparr>)" by simp
  from Suc.prems(1) f obtain fe er where
    "fetch_rows w (i + 1) n q1 fe er (?s\<lparr>st_diag := d\<rparr>, put_status (rowStatuses ?s) i res m) = Inr (fetched', errors', s', m')"
    unfolding fetch_rows.simps Let_def f by (simp only: sum.case prod.case)
  then show ?case by (rule Suc.IH) (simp_all only: fst_conv s1 q1)
qed

lemma keeps_FetchRow [kept_by_calls]: "keeps (InternalFetchRow w)"
proof (rule keepsI)
  fix s m res s' m'
  assume s: "stmt_ok s" and x: "InternalFetchRow w (s, m) = Inr (res, s', m')"
  let ?m0 = "put_int (rowsFetched s) 4 0 m"
  let ?s0 = "s\<lparr>columnBindings := with_offset (columnBindOffset s) ?m0 (columnBindings s)\<rparr>"
  show "stmt_ok s'"
  proof (cases "currentQuery s")
    case None
    with x s show ?thesis by (auto simp: InternalFetchRow_def Let_def failed_def)
  next
    case (Some q)
    then obtain fetched errors m1 where "fetch_rows w 0 (rowArraySize s) q 0 0 (?s0, ?m0) = Inr (fetched, errors, s', m1)"
      using x by (auto simp: InternalFetchRow_def Let_def split: sum.splits)
    moreover have "stmt_ok ?s0" using s by (simp add: stmt_ok_def bindings_ok_update)
    ultimately show ?thesis using stmt_ok_query(2) [OF s Some] by (auto intro: fetch_rows_ok)
  qed
qed

lemma keeps_FetchScroll [kept_by_calls]: "keeps (InternalFetchScroll w orientation)"
  unfolding InternalFetchScroll_def by (intro keeps_guarded keeps_FetchRow)

lemma keeps_GetColumnData [kept_by_calls]: "keeps (InternalGetColumnData w i b)"
  by (rule keepsI) (auto simp: InternalGetColumnData_def failed_def split: option.splits elim!: on_query_ok
      intro: Query_GetColumn_ok stmt_ok_query(2))

lemma keeps_MoreResults [kept_by_calls]: "keeps InternalMoreResults"
  by (rule keepsI) (auto simp: InternalMoreResults_def not_executed_st_def failed_def split: option.splits prod.splits
      intro!: stmt_ok_query(1) dest: stmt_ok_query(2) Query_NextResultSet_ok)

lemma keeps_AffectedRows [kept_by_calls]: "keeps (\<lambda>sm. fst (InternalAffectedRows sm))"
  by (rule keepsI) (auto simp: InternalAffectedRows_def not_executed_st_def failed_def st_ok_def split: option.splits)

lemma Statement_GetMeta_ok: "Statement_GetMeta w c sm = (r, sm') \<Longrightarrow> stmt_ok (fst sm) \<Longrightarrow> stmt_ok (fst sm')"
  by (auto simp: Statement_GetMeta_def split: option.splits prod.splits
      intro!: stmt_ok_query(1) dest: stmt_ok_query(2) Query_GetMeta_ok)

lemma keeps_ColumnNumber [kept_by_calls]:
  "keeps (\<lambda>sm. Inr (case InternalGetColumnNumber w c sm of (res, _, sm') \<Rightarrow> (res, sm')))"
  by (rule keepsI) (auto simp: InternalGetColumnNumber_def split: option.splits prod.splits dest: Statement_GetMeta_ok)

lemma keeps_ColumnAttribute [kept_by_calls]: "keeps (InternalGetColumnAttribute w c i attr sb sl rl nb)"
proof (rule keepsI)
  fix s m res s' m'
  assume s: "stmt_ok s" and x: "InternalGetColumnAttribute w c i attr sb sl rl nb (s, m) = Inr (res, s', m')"
  obtain meta s1 m1 where g: "Statement_GetMeta w c (s, m) = (meta, s1, m1)" by (metis prod.exhaust)
  with Statement_GetMeta_ok [OF g] s have "stmt_ok s1" by simp
  with x g show "stmt_ok s'"
    by (auto simp: InternalGetColumnAttribute_def Let_def failed_def split: option.splits if_splits prod.splits)
qed

lemma UpdateParamsMeta_fails: "UpdateParamsMeta sm = failed (ResponseStatusToSqlState 1) [] sm"
  by (simp add: UpdateParamsMeta_def split: prod.splits)

lemma keeps_ParametersNumber [kept_by_calls]: "keeps (\<lambda>sm. fst (InternalGetParametersNumber sm))"
  by (rule keepsI) (auto simp: InternalGetParametersNumber_def Let_def not_prepared_def failed_def st_ok_def
      UpdateParamsMeta_fails split: option.splits if_splits)

lemma keeps_DescribeParam [kept_by_calls]: "keeps (InternalDescribeParam i t sz dd nu)"
  by (rule keepsI) (auto simp: InternalDescribeParam_def Let_def not_prepared_def failed_def st_ok_def
      UpdateParamsMeta_fails split: option.splits if_splits)

lemma keeps_SelectParam [kept_by_calls]:
  assumes "paths_match w"
  shows "keeps (InternalSelectParam w c p)"
proof (rule keepsI)
  fix s m res s' m'
  assume s: "stmt_ok s" and x: "InternalSelectParam w c p (s, m) = Inr (res, s', m')"
  obtain r ps where n: "SelectNextParameter (platform w) m (st_parameters s) = (r, ps)" by (metis prod.exhaust)
  have "params_ok ps" using s n by (intro SelectNextParameter_ok [OF _ n]) (simp add: stmt_ok_def)
  then have s1: "stmt_ok (s\<lparr>st_parameters := ps\<rparr>)" using s by (intro stmt_ok_query)
  have e: "stmt_ok s2" if "currentQuery s = Some q"
    "on_query (Query_Execute w c ps (st_timeout s)) q (s\<lparr>st_parameters := ps\<rparr>, m) = Inr (r2, s2, m2)" for q r2 s2 m2
    using that(2) s1 Query_Execute_ok [OF assms _ stmt_ok_query(2) [OF s that(1)]] by (rule on_query_ok)
  from x n s s1 show "stmt_ok s'"
    by (auto simp: InternalSelectParam_def Let_def not_prepared_def failed_def
        split: option.splits if_splits sum.splits dest: e)
qed

lemma keeps_PutData [kept_by_calls]: "keeps (InternalPutData w d len)"
proof (rule keepsI)
  fix s m res s' m'
  assume s: "stmt_ok s" and x: "InternalPutData w d len (s, m) = Inr (res, s', m')"
  let ?ps = "st_parameters s"
  have ps: "params_ok ?ps" using s by (simp add: stmt_ok_def)
  have "params_ok (?ps\<lparr>ps_parameters := bind_at (currentParamIdx ?ps) p (ps_parameters ?ps)\<rparr>)"
    if "GetSelectedParameter ?ps = Some q" for p q
    using ps map_of_SomeD [of "ps_parameters ?ps" "currentParamIdx ?ps" q] that
    by (force simp: params_ok_def bind_at_ordered bind_at_keys GetSelectedParameter_def GetParameter_def)
  with x s show "stmt_ok s'"
    by (auto simp: InternalPutData_def Let_def failed_def st_ok_def split: if_splits option.splits sum.splits
        intro!: stmt_ok_query(3))
qed

subsection \<open>Every reachable statement\<close>

text \<open>The calls of an application on one statement, in any order, whatever it writes to its memory and whatever
  becomes of the connection in between. Numbers of parameters have sixteen bits, an attribute value that is not a
  pointer is unsigned.\<close>

inductive reached :: "Services \<Rightarrow> st_mem \<Rightarrow> bool" for w where
  allocated: "reached w (newStatement, m)"
| memory: "reached w (s, m) \<Longrightarrow> reached w (s, m')"
| bind_column: "\<lbrakk>reached w sm; st_call (InternalBindColumn i t v n p) sm = Inr (res, sm')\<rbrakk> \<Longrightarrow> reached w sm'"
| bind_parameter: "\<lbrakk>reached w sm; i < 2 ^ 16; st_call (InternalBindParameter i io bt ty cs dd buf len p) sm = Inr (res, sm')\<rbrakk>
    \<Longrightarrow> reached w sm'"
| set_attribute: "\<lbrakk>reached w sm; 0 \<le> v; st_call (InternalSetAttribute attr v) sm = Inr (res, sm')\<rbrakk> \<Longrightarrow> reached w sm'"
| get_attribute: "\<lbrakk>reached w sm; st_call (InternalGetAttribute self attr buf vl) sm = Inr (res, sm')\<rbrakk> \<Longrightarrow> reached w sm'"
| prepare: "\<lbrakk>reached w sm; st_call (InternalPrepareSqlQuery sql) sm = Inr (res, sm')\<rbrakk> \<Longrightarrow> reached w sm'"
| execute: "\<lbrakk>reached w sm; st_call (InternalExecuteSqlQuery w c) sm = Inr (res, sm')\<rbrakk> \<Longrightarrow> reached w sm'"
| exec_direct: "\<lbrakk>reached w sm; st_call (InternalExecuteSqlQuery_text w c sql) sm = Inr (res, sm')\<rbrakk> \<Longrightarrow> reached w sm'"
| columns: "\<lbrakk>reached w sm; st_call (InternalExecuteGetColumnsMetaQuery w c cat sch tab column) sm = Inr (res, sm')\<rbrakk>
    \<Longrightarrow> reached w sm'"
| tables: "\<lbrakk>reached w sm; st_call (InternalExecuteGetTablesMetaQuery w c cat sch tab tableType) sm = Inr (res, sm')\<rbrakk>
    \<Longrightarrow> reached w sm'"
| foreign_keys: "\<lbrakk>reached w sm; st_call (InternalExecuteGetForeignKeysQuery w c pc psch pt cat sch tab) sm = Inr (res, sm')\<rbrakk>
    \<Longrightarrow> reached w sm'"
| primary_keys: "\<lbrakk>reached w sm; st_call (InternalExecuteGetPrimaryKeysQuery w c cat sch tab') sm = Inr (res, sm')\<rbrakk>
    \<Longrightarrow> reached w sm'"
| special_columns: "\<lbrakk>reached w sm; st_call (InternalExecuteSpecialColumnsQuery w c t) sm = Inr (res, sm')\<rbrakk> \<Longrightarrow> reached w sm'"
| type_info: "\<lbrakk>reached w sm; st_call (InternalExecuteGetTypeInfoQuery w c t) sm = Inr (res, sm')\<rbrakk> \<Longrightarrow> reached w sm'"
| close: "\<lbrakk>reached w sm; st_call Statement_InternalClose sm = Inr (res, sm')\<rbrakk> \<Longrightarrow> reached w sm'"
| free_resources: "\<lbrakk>reached w sm; st_call (InternalFreeResources opt) sm = Inr (res, sm')\<rbrakk> \<Longrightarrow> reached w sm'"
| fetch_scroll: "\<lbrakk>reached w sm; st_call (InternalFetchScroll w orientation) sm = Inr (res, sm')\<rbrakk> \<Longrightarrow> reached w sm'"
| fetch: "\<lbrakk>reached w sm; st_call (InternalFetchRow w) sm = Inr (res, sm')\<rbrakk> \<Longrightarrow> reached w sm'"
| get_data: "\<lbrakk>reached w sm; st_call (InternalGetColumnData w i b) sm = Inr (res, sm')\<rbrakk> \<Longrightarrow> reached w sm'"
| more_results: "\<lbrakk>reached w sm; st_call InternalMoreResults sm = Inr (res, sm')\<rbrakk> \<Longrightarrow> reached w sm'"
| affected_rows: "\<lbrakk>reached w sm; st_call (\<lambda>sm. fst (InternalAffectedRows sm)) sm = Inr (res, sm')\<rbrakk> \<Longrightarrow> reached w sm'"
| column_number: "\<lbrakk>reached w sm;
      st_call (\<lambda>sm. Inr (case InternalGetColumnNumber w c sm of (res, _, sm') \<Rightarrow> (res, sm'))) sm = Inr (res, sm')\<rbrakk>
    \<Longrightarrow> reached w sm'"
| column_attribute: "\<lbrakk>reached w sm; st_call (InternalGetColumnAttribute w c i attr sb sl rl nb) sm = Inr (res, sm')\<rbrakk>
    \<Longrightarrow> reached w sm'"
| parameters_number: "\<lbrakk>reached w sm; st_call (\<lambda>sm. fst (InternalGetParametersNumber sm)) sm = Inr (res, sm')\<rbrakk>
    \<Longrightarrow> reached w sm'"
| describe_parameter: "\<lbrakk>reached w sm; st_call (InternalDescribeParam pn dt sz dd nu) sm = Inr (res, sm')\<rbrakk> \<Longrightarrow> reached w sm'"
| select_parameter: "\<lbrakk>reached w sm; st_call (InternalSelectParam w c p) sm = Inr (res, sm')\<rbrakk> \<Longrightarrow> reached w sm'"
| put_data: "\<lbrakk>reached w sm; st_call (InternalPutData w d len) sm = Inr (res, sm')\<rbrakk> \<Longrightarrow> reached w sm'"

lemma st_call_ok: "st_call f sm = Inr (res, sm') \<Longrightarrow> stmt_ok (fst sm) \<Longrightarrow> keeps f \<Longrightarrow> stmt_ok (fst sm')"
proof -
  assume c: "st_call f sm = Inr (res, sm')" and ok: "stmt_ok (fst sm)" and k: "keeps f"
  from c obtain sm1 where f: "f (st_upd DRS_Reset sm) = Inr (res, sm1)" and s: "sm' = st_upd (SetHeaderRecord res) sm1"
    by (auto simp: st_call_def api_run_def split: sum.splits)
  have "stmt_ok (fst (st_upd DRS_Reset sm))" using ok by (simp add: st_upd_def)
  with keepsD [OF k f] show "stmt_ok (fst sm')" by (simp add: s st_upd_def)
qed

text \<open>(C1) The invariant of a statement: whatever sequence of calls an application makes on a statement (binding columns
  and parameters, attributes, preparing, executing, catalogue calls, fetching, reading columns, closing, freeing), the
  bindings stay ordered by number with buffers of a supported type and no negative length, parameter numbers stay
  between 1 and 65535, the row array size positive, the time-out within 32 bits, and the query well formed: the row of
  a data query is the document its cursor stands on with its columns set up in order, an executed catalogue query
  stands within its rows, and a batch is never marked as executed. The translation service is taken to name one path
  for every column.\<close>
theorem statement_invariant:
  assumes "reached w sm" and "paths_match w"
  shows "stmt_ok (fst sm)"
  using assms(1)
proof induction
  case (allocated m)
  show ?case by (simp add: newStatement_ok)
qed (auto elim!: st_call_ok intro: kept_by_calls simp: assms(2))

text \<open>A service that translates every statement to a query with one column, and a database that answers every query with
  the same documents.\<close>

definition one_column :: MqlQueryContext where
  "one_column = \<lparr>aggregateOperations = [], mql_columnMetadata = [plain_column 4], mql_paths = [''n''], collectionName = ''t''\<rparr>"

definition plain_services :: "bson_document list \<Rightarrow> Services" where
  "plain_services docs =
     \<lparr>backend = plain_backend ''a.jar'', create_mapping = None, map_query = (\<lambda>_. Inr (Some one_column)),
      aggregate = (\<lambda>_ _ _ _ _. Documents docs), debug_log = False, library = plain_library, platform = plain_platform 8,
      string_bound = 1000\<rparr>"

lemma plain_services_match: "paths_match (plain_services docs)"
  by (simp add: paths_match_def plain_services_def one_column_def)

theorem statement_invariant_witness:
  "\<exists>sm. st_call (InternalBindColumn 2 4 (Some 64) 4 None) (newStatement, \<lambda>_. 0) = Inr (AI_SUCCESS, sm) \<and>
     map fst (columnBindings (fst sm)) = [2] \<and> stmt_ok (fst sm)"
proof -
  have "ToDriverType 4 \<noteq> AI_UNSUPPORTED" by (simp add: ToDriverType_def)
  then obtain sm where c: "st_call (InternalBindColumn 2 4 (Some 64) 4 None) (newStatement, \<lambda>_. 0) = Inr (AI_SUCCESS, sm)"
    and k: "map fst (columnBindings (fst sm)) = [2]"
    by (simp add: st_call_def api_run_def st_upd_def InternalBindColumn_def Let_def st_ok_def newStatement_def)
  have "reached (plain_services []) sm" by (rule reached.bind_column [OF reached.allocated c])
  then have "stmt_ok (fst sm)" using plain_services_match by (rule statement_invariant)
  with c k show ?thesis by (intro exI conjI)
qed

section \<open>From a statement text to its rows\<close>

fun fetch_times :: "Services \<Rightarrow> nat \<Rightarrow> st_mem \<Rightarrow> buf_error + (SqlResult list \<times> st_mem)" where
  "fetch_times w 0 sm = Inr ([], sm)"
| "fetch_times w (Suc n) sm =
     (case st_call (InternalFetchRow w) sm of
        Inl e \<Rightarrow> Inl e
      | Inr (res, sm') \<Rightarrow>
          (case fetch_times w n sm' of Inl e \<Rightarrow> Inl e | Inr (rs, sm'') \<Rightarrow> Inr (res # rs, sm'')))"

definition ready_at :: "bson_document list \<Rightarrow> JdbcColumnMetadata list \<Rightarrow> string list \<Rightarrow> nat \<Rightarrow> nat \<Rightarrow> Statement \<Rightarrow> bool" where
  "ready_at docs md paths sz n s \<longleftrightarrow>
     columnBindings s = [] \<and> rowArraySize s = sz \<and> (\<exists>q. currentQuery s = Some q \<and> data_at docs md paths n q)"

lemma fetch_call:
  assumes "ready_at docs md paths sz n s" and "0 < sz" and "sz < 2 ^ 31"
  shows "\<exists>sm'. st_call (InternalFetchRow w) (s, m) = Inr (if n < length docs then AI_SUCCESS else AI_NO_DATA, sm') \<and>
    ready_at docs md paths sz (min (n + sz) (length docs + 1)) (fst sm')"
proof -
  let ?s = "s\<lparr>st_diag := DRS_Reset (st_diag s)\<rparr>"
  from assms(1) obtain q where "currentQuery ?s = Some q" "data_at docs md paths n q" "columnBindings ?s = []"
    "rowArraySize ?s = sz" by (auto simp: ready_at_def)
  from InternalFetchRow_data [OF _ this(1-3), of w m] this(3,4) assms(2,3) show ?thesis
    by (auto simp: st_call_def api_run_def st_upd_def ready_at_def)
qed

lemma fetch_times_ready:
  assumes "ready_at docs md paths sz k (fst sm)" and "0 < sz" and "sz < 2 ^ 31"
  shows "\<exists>sm'. fetch_times w n sm =
    Inr (map (\<lambda>i. if k + i * sz < length docs then AI_SUCCESS else AI_NO_DATA) [0..<n], sm')"
  using assms(1)
proof (induction n arbitrary: k sm)
  case (Suc n)
  obtain sm1 where c: "st_call (InternalFetchRow w) sm = Inr (if k < length docs then AI_SUCCESS else AI_NO_DATA, sm1)"
    and r: "ready_at docs md paths sz (min (k + sz) (length docs + 1)) (fst sm1)"
    using fetch_call [OF _ assms(2,3), of docs md paths k "fst sm" w "snd sm"] Suc.prems by auto
  obtain sm2 where "fetch_times w n sm1 =
      Inr (map (\<lambda>i. if min (k + sz) (length docs + 1) + i * sz < length docs then AI_SUCCESS else AI_NO_DATA) [0..<n], sm2)"
    using Suc.IH [OF r] by blast
  moreover have "min (k + sz) (length docs + 1) + i * sz < length docs \<longleftrightarrow> k + Suc i * sz < length docs" for i by auto
  moreover have "map f [0..<Suc n] = f 0 # map (\<lambda>i. f (Suc i)) [0..<n]" for f :: "nat \<Rightarrow> SqlResult"
    by (simp add: upt_conv_Cons map_Suc_upt [symmetric] comp_def del: upt_Suc)
  ultimately show ?case using c by (simp del: upt_Suc)
qed simp

lemma ExecDirect_ready:
  assumes "\<not> IsInternalCommand sql" and "ps_parameters (st_parameters s) = []" and "GetParamSetSize (st_parameters s) = 1"
    and "columnBindings s = []" and "con_mongo c" and "GetMqlQueryContext w c sql = Inr (Some ctx)"
    and "aggregate w (sv_val (database (con_config c))) (collectionName ctx) (aggregateOperations ctx)
      (sv_val (defaultFetchSize (con_config c))) (if st_timeout s \<noteq> 0 then Some (st_timeout s * 1000) else None) = Documents docs"
  shows "\<exists>sm'. st_call (InternalExecuteSqlQuery_text w c sql) (s, m) = Inr (AI_SUCCESS, sm') \<and>
    ready_at docs (mql_columnMetadata ctx) (mql_paths ctx) (rowArraySize s) 0 (fst sm')"
proof -
  have "GetParamSetSize (Prepare (st_parameters s)) = 1" using assms(3) by (simp add: GetParamSetSize_def Prepare_def)
  moreover have "\<not> IsDataAtExecNeeded (platform w) m (Prepare (st_parameters s))"
    using assms(2) by (simp add: IsDataAtExecNeeded_def Prepare_def)
  ultimately show ?thesis
    using assms
    by (simp add: st_call_def api_run_def st_upd_def InternalExecuteSqlQuery_text_def InternalPrepareSqlQuery_def st_ok_def
        InternalExecuteSqlQuery_def Let_def adapt_query_def on_query_def tagged_def DataQuery_Execute_def MakeRequestFetch_def
        newDataQuery_def DataQuery_Close_def ReadJdbcColumnMetadataVector_def ready_at_def data_at_def cursor_at_new)
qed

text \<open>(C2) From a statement text to its rows: on a connection that has its database client, when the translation service and the
  database answer, executing a text that is not an internal command succeeds for a statement without parameters, with a
  parameter set of size one and without bound columns, and the following fetches of its row sets, of less than \<open>2\<^sup>3\<^sup>1\<close>
  rows, succeed as long as fewer than all documents have been passed over, and then report no data, for any number of
  fetches.\<close>
theorem execute_then_fetch:
  assumes "\<not> IsInternalCommand sql" and "ps_parameters (st_parameters s) = []" and "GetParamSetSize (st_parameters s) = 1"
    and "columnBindings s = []" and "0 < rowArraySize s" and "rowArraySize s < 2 ^ 31"
    and "con_mongo c" and "GetMqlQueryContext w c sql = Inr (Some ctx)"
    and "aggregate w (sv_val (database (con_config c))) (collectionName ctx) (aggregateOperations ctx)
      (sv_val (defaultFetchSize (con_config c))) (if st_timeout s \<noteq> 0 then Some (st_timeout s * 1000) else None) = Documents docs"
  shows "\<exists>sm1 sm2. st_call (InternalExecuteSqlQuery_text w c sql) (s, m) = Inr (AI_SUCCESS, sm1) \<and>
    fetch_times w n sm1 =
      Inr (map (\<lambda>i. if i * rowArraySize s < length docs then AI_SUCCESS else AI_NO_DATA) [0..<n], sm2)"
proof -
  obtain sm1 where x: "st_call (InternalExecuteSqlQuery_text w c sql) (s, m) = Inr (AI_SUCCESS, sm1)"
    and r: "ready_at docs (mql_columnMetadata ctx) (mql_paths ctx) (rowArraySize s) 0 (fst sm1)"
    using ExecDirect_ready [OF assms(1-4,7-9), of m] by blast
  with fetch_times_ready [OF r assms(5,6), of w n] show ?thesis by auto
qed

definition open_connection :: Connection where
  "open_connection = (newConnection plain_host no_info)\<lparr>con_connection := Some True, con_mongo := True\<rparr>"

theorem execute_then_fetch_witness:
  "\<exists>sm1 sm2. st_call (InternalExecuteSqlQuery_text (plain_services [[], [], []]) open_connection ''SELECT 1'')
       (newStatement\<lparr>rowArraySize := 2\<rparr>, \<lambda>_. 0) = Inr (AI_SUCCESS, sm1) \<and>
     fetch_times (plain_services [[], [], []]) 3 sm1 = Inr ([AI_SUCCESS, AI_SUCCESS, AI_NO_DATA], sm2)"
proof -
  let ?w = "plain_services [[], [], []]" and ?s = "newStatement\<lparr>rowArraySize := 2\<rparr>"
  have "\<not> IsInternalCommand ''SELECT 1''" by code_simp
  moreover have "ps_parameters (st_parameters ?s) = []" "GetParamSetSize (st_parameters ?s) = 1" "columnBindings ?s = []"
    by (simp_all add: newStatement_def newParameterSet_def GetParamSetSize_def to_signed_def)
  moreover have "GetMqlQueryContext ?w open_connection ''SELECT 1'' = Inr (Some one_column)"
    by (simp add: GetMqlQueryContext_def Connection_GetConnectionProperties_def Connection_GetDatabaseMetadata_def
        plain_services_def plain_backend_def open_connection_def newConnection_def)
  moreover have "con_mongo open_connection" by (simp add: open_connection_def)
  ultimately show ?thesis
    using execute_then_fetch [where sql = "''SELECT 1''" and s = ?s and w = ?w and c = open_connection and ctx = one_column
        and docs = "[[], [], []]" and m = "\<lambda>_. 0" and n = 3]
    by (simp add: plain_services_def upt_rec)
qed

end
