(* ===== verification/Odbc_Driver.thy ===== *)
theory Odbc_Driver
  imports Odbc_StatementProps
begin

text \<open>
  The handles an application holds and the entry points that take them (\<open>odbc.cpp\<close>, \<open>environment.cpp\<close>, and the
  parts of \<open>connection.cpp\<close> and \<open>connection.h\<close> that create statements and copy a statement text). The driver is a
  heap of environments, connections and statements, where a connection refers to its environment and a statement to its
  connection. A new object gets an address that was never used; the use of an object that has been destroyed is
  \<open>DanglingPointer\<close>. A call whose operation may reach the connection of a statement needs that connection to exist.
\<close>

section \<open>Environments\<close>

record Environment =
  env_diag :: DiagnosticRecordStorage
  env_connections :: "nat set"
  odbcVersion :: int
  odbcNts :: int

definition newEnvironment :: Environment where
  "newEnvironment = \<lparr>env_diag = newStorage, env_connections = {}, odbcVersion = 3, odbcNts = 1\<rparr>"

definition env_upd :: "(DiagnosticRecordStorage \<Rightarrow> DiagnosticRecordStorage) \<Rightarrow> Environment \<Rightarrow> Environment" where
  "env_upd f e = e\<lparr>env_diag := f (env_diag e)\<rparr>"

interpretation env: diagnosable env_diag env_upd
  by unfold_locales (simp add: env_upd_def)

definition env_report :: "SqlState \<Rightarrow> string \<Rightarrow> Environment \<Rightarrow> Environment" where
  "env_report st msg = env_upd (AddStatusRecord st msg)"

definition InternalCreateConnection :: "nat \<Rightarrow> Environment \<Rightarrow> SqlResult \<times> Environment" where
  "InternalCreateConnection h e = (AI_SUCCESS, e\<lparr>env_connections := insert h (env_connections e)\<rparr>)"

definition CreateConnection :: "nat \<Rightarrow> Environment \<Rightarrow> Environment" where
  "CreateConnection h e = snd (api_call env_upd (InternalCreateConnection h) e)"

definition DeregisterConnection :: "nat \<Rightarrow> Environment \<Rightarrow> Environment" where
  "DeregisterConnection h e = e\<lparr>env_connections := env_connections e - {h}\<rparr>"

text \<open>The value of an attribute is the pointer argument cut to 32 bits.\<close>

definition Environment_InternalSetAttribute :: "int \<Rightarrow> int \<Rightarrow> Environment \<Rightarrow> SqlResult \<times> Environment" where
  "Environment_InternalSetAttribute attr v e =
     (case EnvironmentAttributeToInternal attr of
        ODBC_VERSION \<Rightarrow>
          if to_signed 32 v \<noteq> odbcVersion e then
            (AI_SUCCESS_WITH_INFO, env_report S01S02_OPTION_VALUE_CHANGED ''ODBC version is not supported.'' e)
          else (AI_SUCCESS, e)
      | OUTPUT_NTS \<Rightarrow>
          if to_signed 32 v \<noteq> odbcNts e then
            (AI_SUCCESS_WITH_INFO, env_report S01S02_OPTION_VALUE_CHANGED ''Only null-termination of strings is supported.'' e)
          else (AI_SUCCESS, e)
      | ENV_UNKNOWN \<Rightarrow>
          (AI_ERROR, env_report SHYC00_OPTIONAL_FEATURE_NOT_IMPLEMENTED ''Attribute is not supported.'' e))"

type_synonym env_mem = "Environment \<times> mem"

definition Environment_InternalGetAttribute ::
  "Platform \<Rightarrow> int \<Rightarrow> ApplicationDataBuffer \<Rightarrow> env_mem \<Rightarrow> buf_error + (SqlResult \<times> env_mem)" where
  "Environment_InternalGetAttribute pl attr b em =
     (let (e, m) = em;
          put = (\<lambda>v. case PutNum pl m b 4 v of Inl err \<Rightarrow> Inl err | Inr (_, m') \<Rightarrow> Inr (AI_SUCCESS, e, m'))
      in case EnvironmentAttributeToInternal attr of
           ODBC_VERSION \<Rightarrow> put (odbcVersion e)
         | OUTPUT_NTS \<Rightarrow> put (odbcNts e)
         | ENV_UNKNOWN \<Rightarrow>
             Inr (AI_ERROR, env_report SHYC00_OPTIONAL_FEATURE_NOT_IMPLEMENTED ''Attribute is not supported.'' e, m))"

section \<open>The heap of handles\<close>

record Driver =
  dr_envs :: "nat \<rightharpoonup> Environment"
  dr_cons :: "nat \<rightharpoonup> nat \<times> Connection"
  dr_stmts :: "nat \<rightharpoonup> nat \<times> Statement"
  dr_mem :: mem
  dr_next :: nat

type_synonym api = "Driver \<Rightarrow> buf_error + (int \<times> Driver)"

definition newDriver :: "mem \<Rightarrow> Driver" where
  "newDriver m = \<lparr>dr_envs = Map.empty, dr_cons = Map.empty, dr_stmts = Map.empty, dr_mem = m, dr_next = 1\<rparr>"

abbreviation (input) "SQL_SUCCESS \<equiv> 0 :: int"
abbreviation (input) "SQL_ERROR \<equiv> -1 :: int"
abbreviation (input) "SQL_INVALID_HANDLE \<equiv> -2 :: int"

text \<open>A method of the object behind a handle, and the return code the object then reports.\<close>

definition on_env :: "nat option \<Rightarrow> (env_mem \<Rightarrow> buf_error + (SqlResult \<times> env_mem)) \<Rightarrow> api" where
  "on_env h f d =
     (case h of
        None \<Rightarrow> Inr (SQL_INVALID_HANDLE, d)
      | Some i \<Rightarrow>
          (case dr_envs d i of
             None \<Rightarrow> Inl DanglingPointer
           | Some e \<Rightarrow>
               (case api_run (\<lambda>g. apfst (env_upd g)) f (e, dr_mem d) of
                  Inl err \<Rightarrow> Inl err
                | Inr (_, e', m') \<Rightarrow>
                    Inr (GetReturnCode (env_diag e'), d\<lparr>dr_envs := (dr_envs d)(i \<mapsto> e'), dr_mem := m'\<rparr>))))"

definition on_con :: "nat option \<Rightarrow> (con_mem \<Rightarrow> buf_error + (SqlResult \<times> con_mem)) \<Rightarrow> api" where
  "on_con h f d =
     (case h of
        None \<Rightarrow> Inr (SQL_INVALID_HANDLE, d)
      | Some i \<Rightarrow>
          (case dr_cons d i of
             None \<Rightarrow> Inl DanglingPointer
           | Some (e, c) \<Rightarrow>
               (case api_run (\<lambda>g. apfst (con_upd g)) f (c, dr_mem d) of
                  Inl err \<Rightarrow> Inl err
                | Inr (_, c', m') \<Rightarrow>
                    Inr (GetReturnCode (con_diag c'), d\<lparr>dr_cons := (dr_cons d)(i \<mapsto> (e, c')), dr_mem := m'\<rparr>))))"

definition run_stmt :: "nat \<Rightarrow> nat \<Rightarrow> Statement \<Rightarrow> (st_mem \<Rightarrow> st_result) \<Rightarrow> api" where
  "run_stmt i c s f d =
     (case st_call f (s, dr_mem d) of
        Inl err \<Rightarrow> Inl err
      | Inr (_, s', m') \<Rightarrow>
          Inr (GetReturnCode (st_diag s'), d\<lparr>dr_stmts := (dr_stmts d)(i \<mapsto> (c, s')), dr_mem := m'\<rparr>))"

definition on_stmt :: "nat option \<Rightarrow> (st_mem \<Rightarrow> st_result) \<Rightarrow> api" where
  "on_stmt h f d =
     (case h of
        None \<Rightarrow> Inr (SQL_INVALID_HANDLE, d)
      | Some i \<Rightarrow> (case dr_stmts d i of None \<Rightarrow> Inl DanglingPointer | Some (c, s) \<Rightarrow> run_stmt i c s f d))"

definition on_stmt_con :: "nat option \<Rightarrow> (Connection \<Rightarrow> st_mem \<Rightarrow> st_result) \<Rightarrow> api" where
  "on_stmt_con h f d =
     (case h of
        None \<Rightarrow> Inr (SQL_INVALID_HANDLE, d)
      | Some i \<Rightarrow>
          (case dr_stmts d i of
             None \<Rightarrow> Inl DanglingPointer
           | Some (ci, s) \<Rightarrow>
               (case dr_cons d ci of None \<Rightarrow> Inl DanglingPointer | Some (_, c) \<Rightarrow> run_stmt i ci s (f c) d)))"

definition put_handle :: "nat option \<Rightarrow> nat option \<Rightarrow> Driver \<Rightarrow> buf_error + Driver" where
  "put_handle result h d =
     (case result of
        None \<Rightarrow> Inl NullPointer
      | Some a \<Rightarrow> Inr (d\<lparr>dr_mem := write_bytes (dr_mem d) a (int_bytes 8 (address h))\<rparr>))"

section \<open>Allocating and freeing\<close>

definition SQLAllocEnv :: "nat option \<Rightarrow> api" where
  "SQLAllocEnv result d =
     (let h = dr_next d; d1 = d\<lparr>dr_envs := (dr_envs d)(h \<mapsto> newEnvironment), dr_next := h + 1\<rparr>
      in case put_handle result (Some h) d1 of Inl e \<Rightarrow> Inl e | Inr d2 \<Rightarrow> Inr (SQL_SUCCESS, d2))"

text \<open>\<open>host\<close> and \<open>info\<close> are the machine and the table of properties a new connection starts with.\<close>

definition SQLAllocConnect :: "Host \<Rightarrow> ConnectionInfo \<Rightarrow> nat option \<Rightarrow> nat option \<Rightarrow> api" where
  "SQLAllocConnect host info env result d =
     (case put_handle result None d of
        Inl e \<Rightarrow> Inl e
      | Inr d0 \<Rightarrow>
          (case env of
             None \<Rightarrow> Inr (SQL_INVALID_HANDLE, d0)
           | Some i \<Rightarrow>
               (case dr_envs d0 i of
                  None \<Rightarrow> Inl DanglingPointer
                | Some e \<Rightarrow>
                    let h = dr_next d0;
                        d1 = d0\<lparr>dr_envs := (dr_envs d0)(i \<mapsto> CreateConnection h e),
                                dr_cons := (dr_cons d0)(h \<mapsto> (i, newConnection host info)), dr_next := h + 1\<rparr>
                    in case put_handle result (Some h) d1 of Inl e \<Rightarrow> Inl e | Inr d2 \<Rightarrow> Inr (SQL_SUCCESS, d2))))"

definition InternalCreateStatement :: "Connection \<Rightarrow> SqlResult \<times> Connection" where
  "InternalCreateStatement c = (AI_SUCCESS, c)"

definition CreateStatement :: "Connection \<Rightarrow> Connection" where
  "CreateStatement c = snd (api_call con_upd InternalCreateStatement c)"

definition SQLAllocStmt :: "nat option \<Rightarrow> nat option \<Rightarrow> api" where
  "SQLAllocStmt con result d =
     (case put_handle result None d of
        Inl e \<Rightarrow> Inl e
      | Inr d0 \<Rightarrow>
          (case con of
             None \<Rightarrow> Inr (SQL_INVALID_HANDLE, d0)
           | Some i \<Rightarrow>
               (case dr_cons d0 i of
                  None \<Rightarrow> Inl DanglingPointer
                | Some (e, c) \<Rightarrow>
                    let h = dr_next d0; c' = CreateStatement c;
                        d1 = d0\<lparr>dr_cons := (dr_cons d0)(i \<mapsto> (e, c')),
                                dr_stmts := (dr_stmts d0)(h \<mapsto> (i, newStatement)), dr_next := h + 1\<rparr>
                    in case put_handle result (Some h) d1 of
                         Inl e \<Rightarrow> Inl e | Inr d2 \<Rightarrow> Inr (GetReturnCode (con_diag c'), d2))))"

definition SQLAllocHandle :: "Host \<Rightarrow> ConnectionInfo \<Rightarrow> int \<Rightarrow> nat option \<Rightarrow> nat option \<Rightarrow> api" where
  "SQLAllocHandle host info type parent result d =
     (if type = 1 then SQLAllocEnv result d
      else if type = 2 then SQLAllocConnect host info parent result d
      else if type = 3 then SQLAllocStmt parent result d
      else if type = 4 then
        (case parent of
           None \<Rightarrow> Inr (SQL_INVALID_HANDLE, d)
         | Some i \<Rightarrow>
             (case dr_cons d i of
                None \<Rightarrow> Inl DanglingPointer
              | Some (e, c) \<Rightarrow>
                  let c' = con_report SIM001_FUNCTION_NOT_SUPPORTED
                             (''The HandleType argument was SQL_HANDLE_DESC, and '' @
                              ''the driver does not support allocating a descriptor handle'') (con_upd DRS_Reset c);
                      d1 = (case result of None \<Rightarrow> d
                            | Some a \<Rightarrow> d\<lparr>dr_mem := write_bytes (dr_mem d) a (int_bytes 8 0)\<rparr>)
                  in Inr (SQL_ERROR, d1\<lparr>dr_cons := (dr_cons d1)(i \<mapsto> (e, c'))\<rparr>)))
      else (case put_handle result None d of Inl e \<Rightarrow> Inl e | Inr d1 \<Rightarrow> Inr (SQL_ERROR, d1)))"

definition SQLFreeEnv :: "nat option \<Rightarrow> api" where
  "SQLFreeEnv env d =
     (case env of
        None \<Rightarrow> Inr (SQL_INVALID_HANDLE, d)
      | Some i \<Rightarrow>
          (case dr_envs d i of
             None \<Rightarrow> Inl DanglingPointer
           | Some _ \<Rightarrow> Inr (SQL_SUCCESS, d\<lparr>dr_envs := (dr_envs d)(i := None)\<rparr>)))"

definition SQLFreeConnect :: "nat option \<Rightarrow> api" where
  "SQLFreeConnect con d =
     (case con of
        None \<Rightarrow> Inr (SQL_INVALID_HANDLE, d)
      | Some i \<Rightarrow>
          (case dr_cons d i of
             None \<Rightarrow> Inl DanglingPointer
           | Some (ei, _) \<Rightarrow>
               (case dr_envs d ei of
                  None \<Rightarrow> Inl DanglingPointer
                | Some e \<Rightarrow>
                    Inr (SQL_SUCCESS, d\<lparr>dr_envs := (dr_envs d)(ei \<mapsto> DeregisterConnection i e),
                                        dr_cons := (dr_cons d)(i := None)\<rparr>))))"

definition SQLFreeStmt :: "nat option \<Rightarrow> int \<Rightarrow> api" where
  "SQLFreeStmt stmt opt d =
     (if opt = SQL_DROP then
        (case stmt of
           None \<Rightarrow> Inr (SQL_INVALID_HANDLE, d)
         | Some i \<Rightarrow>
             (case dr_stmts d i of
                None \<Rightarrow> Inl DanglingPointer
              | Some _ \<Rightarrow> Inr (SQL_SUCCESS, d\<lparr>dr_stmts := (dr_stmts d)(i := None)\<rparr>)))
      else on_stmt stmt (InternalFreeResources opt) d)"

definition SQLFreeHandle :: "int \<Rightarrow> nat option \<Rightarrow> api" where
  "SQLFreeHandle type h d =
     (if type = 1 then SQLFreeEnv h d
      else if type = 2 then SQLFreeConnect h d
      else if type = 3 then SQLFreeStmt h SQL_DROP d
      else Inr (SQL_ERROR, d))"

text \<open>There is no check for a null handle here.\<close>

definition SQLCloseCursor :: "nat option \<Rightarrow> api" where
  "SQLCloseCursor stmt d = (if stmt = None then Inl NullPointer else on_stmt stmt Statement_InternalClose d)"

section \<open>Connections\<close>

definition wide_text :: "Services \<Rightarrow> Driver \<Rightarrow> nat option \<Rightarrow> int \<Rightarrow> (string \<Rightarrow> api) \<Rightarrow> api" where
  "wide_text w d0 p len k d =
     (case SqlWcharToString (sizeof_wchar (platform w)) (string_bound w) (dr_mem d0) p len False of
        None \<Rightarrow> Inl NoTerminator
      | Some t \<Rightarrow> k t d)"

definition wide_opt :: "Services \<Rightarrow> Driver \<Rightarrow> nat option \<Rightarrow> int \<Rightarrow> (string option \<Rightarrow> api) \<Rightarrow> api" where
  "wide_opt w d0 p len k = (if p = None then k None else wide_text w d0 p len (\<lambda>t. k (Some t)))"

definition without_memory :: "(Connection \<Rightarrow> buf_error + (SqlResult \<times> Connection)) \<Rightarrow> con_mem \<Rightarrow> buf_error + (SqlResult \<times> con_mem)" where
  "without_memory f cm = (case f (fst cm) of Inl e \<Rightarrow> Inl e | Inr (res, c) \<Rightarrow> Inr (res, c, snd cm))"

definition SQLGetInfo :: "Services \<Rightarrow> nat option \<Rightarrow> int \<Rightarrow> nat option \<Rightarrow> int \<Rightarrow> nat option \<Rightarrow> api" where
  "SQLGetInfo w con infoType infoValue infoValueMax len =
     on_con con (\<lambda>cm. Inr (InternalGetInfo (sizeof_wchar (platform w)) infoType infoValue infoValueMax len cm))"

text \<open>A null handle is noticed before the text is read. The output string has 16-bit lengths.\<close>

definition SQLDriverConnect ::
  "Services \<Rightarrow> Host \<Rightarrow> 'i Installer \<Rightarrow> 'i \<Rightarrow> nat option \<Rightarrow> nat option \<Rightarrow> int \<Rightarrow> nat option \<Rightarrow> int \<Rightarrow> nat option \<Rightarrow> api" where
  "SQLDriverConnect w host inst ini con inStr inLen outStr outLen outResLen d =
     (if con = None then Inr (SQL_INVALID_HANDLE, d)
      else wide_text w d inStr inLen (\<lambda>connectStr d.
        (case on_con con (without_memory (InternalEstablish_string (backend w) host inst ini connectStr)) d of
           Inl e \<Rightarrow> Inl e
         | Inr (code, d1) \<Rightarrow>
             if code \<noteq> 0 \<and> code \<noteq> 1 then Inr (code, d1)
             else
               let (m, n, _) = CopyStringToBuffer (sizeof_wchar (platform w)) (dr_mem d1) connectStr outStr
                                 (nat (outLen mod 2 ^ 64)) False
               in Inr (code, d1\<lparr>dr_mem := put_int outResLen 2 (int n) m\<rparr>))) d)"

text \<open>What reading the data source reports is lost when the connect call starts with its own records.\<close>

definition SQLConnect ::
  "Services \<Rightarrow> Host \<Rightarrow> 'i Installer \<Rightarrow> 'i \<Rightarrow> nat option \<Rightarrow> nat option \<Rightarrow> int \<Rightarrow> nat option \<Rightarrow> int \<Rightarrow> nat option \<Rightarrow> int \<Rightarrow> api" where
  "SQLConnect w host inst ini con server serverLen userName userNameLen auth authLen d =
     (if con = None then Inr (SQL_INVALID_HANDLE, d)
      else wide_text w d server serverLen (\<lambda>dsn d.
        (case ReadDsnConfiguration host inst ini (c_cut dsn) (newConfiguration host) of
           Inl e \<Rightarrow> Inl e
         | Inr config \<Rightarrow>
             wide_opt w d userName userNameLen (\<lambda>u.
               wide_opt w d auth authLen (\<lambda>p.
                 let config1 = (case u of None \<Rightarrow> config | Some t \<Rightarrow> SetUser t config);
                     config2 = (case p of None \<Rightarrow> config1 | Some t \<Rightarrow> SetPassword t config1)
                 in on_con con (without_memory (InternalEstablish (backend w) config2)))) d)) d)"

definition SQLDisconnect :: "nat option \<Rightarrow> api" where
  "SQLDisconnect con = on_con con (without_memory (\<lambda>c. Inr (InternalRelease c)))"

definition SQLGetConnectAttr :: "nat option \<Rightarrow> int \<Rightarrow> nat option \<Rightarrow> nat option \<Rightarrow> api" where
  "SQLGetConnectAttr con attr valueBuf valueResLen =
     on_con con (\<lambda>cm. Inr (Connection_InternalGetAttribute attr valueBuf valueResLen cm))"

definition SQLSetConnectAttr :: "nat option \<Rightarrow> int \<Rightarrow> int \<Rightarrow> api" where
  "SQLSetConnectAttr con attr value =
     on_con con (without_memory (\<lambda>c. Inr (Connection_InternalSetAttribute attr value c)))"

text \<open>Copying a statement text, character by character, up to a terminator or a given length, with room for a
  terminator: the number of characters copied and whether the text was cut.\<close>

function native_copy :: "nat \<Rightarrow> nat \<Rightarrow> nat \<Rightarrow> int \<Rightarrow> int option \<Rightarrow> nat \<Rightarrow> mem \<Rightarrow> nat \<times> bool \<times> mem" where
  "native_copy w src dst outLen inLen i m =
     (let c = read_bytes m (src + w * i) w
      in if (case inLen of None \<Rightarrow> uint_of_bytes c \<noteq> 0 | Some n \<Rightarrow> int i < n) then
           if outLen \<le> int i + 1 then (i, True, m)
           else native_copy w src dst outLen inLen (i + 1) (write_bytes m (dst + w * i) c)
         else (i, False, m))"
  by pat_completeness auto
termination by (relation "measure (\<lambda>(w, src, dst, outLen, inLen, i, m). nat (outLen - int i))") auto

declare native_copy.simps [simp del]

definition InternalNativeSql ::
  "nat \<Rightarrow> nat \<Rightarrow> nat option \<Rightarrow> int \<Rightarrow> nat option \<Rightarrow> int \<Rightarrow> con_mem \<Rightarrow> buf_error + (SqlResult \<times> int option \<times> con_mem)" where
  "InternalNativeSql w bound inQuery inQueryLen outQueryBuffer outQueryBufferLen cm =
     (let (c, m) = cm; fail = (\<lambda>st msg. Inr (AI_ERROR, None, con_report st msg c, m))
      in case inQuery of
           None \<Rightarrow> fail SHY009_INVALID_USE_OF_NULL_POINTER ''The InStatementText argument must not NULL''
         | Some src \<Rightarrow>
             (case outQueryBuffer of
                Some dst \<Rightarrow>
                  if outQueryBufferLen \<le> 0 then
                    fail SHY090_INVALID_STRING_OR_BUFFER_LENGTH ''The BufferLength argument must be greater than zero''
                  else if inQueryLen \<noteq> SQL_NTS \<and> inQueryLen < 0 then
                    fail SHY090_INVALID_STRING_OR_BUFFER_LENGTH
                      ''The argument TextLength1 was less than 0, but not equal to SQL_NTS''
                  else
                    let (n, isTruncated, m1) = native_copy w src dst outQueryBufferLen
                                                 (if inQueryLen = SQL_NTS then None else Some inQueryLen) 0 m;
                        m2 = write_bytes m1 (dst + w * n) (int_bytes w 0)
                    in Inr (if isTruncated then
                              (AI_SUCCESS_WITH_INFO, Some (int n), con_report S01004_DATA_TRUNCATED
                                 ''Buffer is too small for the data. Truncated from the right.'' c, m2)
                            else (AI_SUCCESS, Some (int n), c, m2))
              | None \<Rightarrow>
                  if inQueryLen = SQL_NTS then
                    (case wchars_at w bound m src of
                       (cs, t) \<Rightarrow> if t then Inr (AI_SUCCESS, Some (int (length cs)), c, m) else Inl NoTerminator)
                  else Inr (AI_SUCCESS, Some (if inQueryLen > 0 then inQueryLen else 0), c, m)))"

text \<open>The output length is written after the call, zero when the call failed.\<close>

definition SQLNativeSql :: "Services \<Rightarrow> nat option \<Rightarrow> nat option \<Rightarrow> int \<Rightarrow> nat option \<Rightarrow> int \<Rightarrow> nat option \<Rightarrow> api" where
  "SQLNativeSql w con inQuery inQueryLen outQueryBuffer outQueryBufferLen outQueryLen =
     on_con con (\<lambda>cm.
       case InternalNativeSql (sizeof_wchar (platform w)) (string_bound w) inQuery inQueryLen outQueryBuffer outQueryBufferLen cm of
         Inl e \<Rightarrow> Inl e
       | Inr (res, n, c, m) \<Rightarrow> Inr (res, c, put_int outQueryLen 4 (case n of None \<Rightarrow> 0 | Some k \<Rightarrow> k) m))"

definition SQLSetEnvAttr :: "nat option \<Rightarrow> int \<Rightarrow> int \<Rightarrow> api" where
  "SQLSetEnvAttr env attr value =
     on_env env (\<lambda>(e, m). let (res, e') = Environment_InternalSetAttribute attr value e in Inr (res, e', m))"

text \<open>The length goes through a local variable at the address \<open>tmp\<close>; it is read also when the call set none.\<close>

definition SQLGetEnvAttr :: "Services \<Rightarrow> nat \<Rightarrow> nat option \<Rightarrow> int \<Rightarrow> nat option \<Rightarrow> int \<Rightarrow> nat option \<Rightarrow> api" where
  "SQLGetEnvAttr w tmp env attr valueBuf valueBufLen valueResLen d =
     (case on_env env (Environment_InternalGetAttribute (platform w) attr
             (newBuffer AI_SIGNED_LONG valueBuf valueBufLen (Some tmp))) d of
        Inl e \<Rightarrow> Inl e
      | Inr (code, d1) \<Rightarrow>
          Inr (code, if env = None then d1
                     else d1\<lparr>dr_mem := put_int valueResLen 4 (to_signed 16 (sint_of_bytes (read_bytes (dr_mem d1) tmp 8)))
                            (dr_mem d1)\<rparr>))"

section \<open>Statements\<close>

text \<open>A null handle is noticed before any text argument is read.\<close>

definition unless_null :: "nat option \<Rightarrow> api \<Rightarrow> api" where
  "unless_null h f d = (if h = None then Inr (SQL_INVALID_HANDLE, d) else f d)"

definition SQLPrepare :: "Services \<Rightarrow> nat option \<Rightarrow> nat option \<Rightarrow> int \<Rightarrow> api" where
  "SQLPrepare w stmt query queryLen d =
     unless_null stmt (wide_text w d query queryLen (\<lambda>sql. on_stmt stmt (InternalPrepareSqlQuery sql))) d"

definition SQLExecute :: "Services \<Rightarrow> nat option \<Rightarrow> api" where
  "SQLExecute w stmt = on_stmt_con stmt (InternalExecuteSqlQuery w)"

definition SQLExecDirect :: "Services \<Rightarrow> nat option \<Rightarrow> nat option \<Rightarrow> int \<Rightarrow> api" where
  "SQLExecDirect w stmt query queryLen d =
     unless_null stmt (wide_text w d query queryLen (\<lambda>sql. on_stmt_con stmt (\<lambda>c. InternalExecuteSqlQuery_text w c sql))) d"

definition SQLBindCol :: "nat option \<Rightarrow> nat \<Rightarrow> int \<Rightarrow> nat option \<Rightarrow> int \<Rightarrow> nat option \<Rightarrow> api" where
  "SQLBindCol stmt colNum targetType targetValue bufferLength strLengthOrIndicator =
     on_stmt stmt (InternalBindColumn colNum targetType targetValue bufferLength strLengthOrIndicator)"

definition SQLFetch :: "Services \<Rightarrow> nat option \<Rightarrow> api" where
  "SQLFetch w stmt = on_stmt stmt (InternalFetchRow w)"

definition SQLFetchScroll :: "Services \<Rightarrow> nat option \<Rightarrow> int \<Rightarrow> api" where
  "SQLFetchScroll w stmt orientation = on_stmt stmt (InternalFetchScroll w orientation)"

definition SQLExtendedFetch :: "Services \<Rightarrow> nat option \<Rightarrow> int \<Rightarrow> nat option \<Rightarrow> nat option \<Rightarrow> api" where
  "SQLExtendedFetch w stmt orientation rowCnt rowStatusArray d =
     (case SQLFetchScroll w stmt orientation d of
        Inl e \<Rightarrow> Inl e
      | Inr (res, d1) \<Rightarrow>
          Inr (res,
               if res = SQL_SUCCESS then
                 d1\<lparr>dr_mem := put_int rowStatusArray 2 0 (put_int rowCnt 8 1 (dr_mem d1))\<rparr>
               else if res = 100 then d1\<lparr>dr_mem := put_int rowCnt 8 0 (dr_mem d1)\<rparr>
               else d1))"

text \<open>The number of columns of a result. It is an uninitialised variable when there is no metadata.\<close>

definition column_count :: "Services \<Rightarrow> nat option \<Rightarrow> Driver \<Rightarrow> buf_error + (int \<times> int option \<times> Driver)" where
  "column_count w stmt d =
     (case on_stmt_con stmt (\<lambda>c sm. case InternalGetColumnNumber w c sm of (res, _, sm') \<Rightarrow> Inr (res, sm')) d of
        Inl e \<Rightarrow> Inl e
      | Inr (code, d1) \<Rightarrow>
          Inr (code,
               case stmt of
                 None \<Rightarrow> None
               | Some i \<Rightarrow>
                   (case dr_stmts d i of
                      None \<Rightarrow> None
                    | Some (ci, s) \<Rightarrow>
                        (case dr_cons d ci of
                           None \<Rightarrow> None
                         | Some (_, c) \<Rightarrow> fst (snd (InternalGetColumnNumber w c (st_upd DRS_Reset (s, dr_mem d)))))),
               d1))"

definition SQLNumResultCols :: "Services \<Rightarrow> nat option \<Rightarrow> nat option \<Rightarrow> api" where
  "SQLNumResultCols w stmt colNum d =
     (case column_count w stmt d of
        Inl e \<Rightarrow> Inl e
      | Inr (code, n, d1) \<Rightarrow>
          if stmt = None \<or> colNum = None then Inr (code, d1)
          else case n of
                 None \<Rightarrow> Inl Uninitialized
               | Some k \<Rightarrow> Inr (code, d1\<lparr>dr_mem := put_int colNum 2 k (dr_mem d1)\<rparr>))"

definition SQLTables ::
  "Services \<Rightarrow> nat option \<Rightarrow> nat option \<Rightarrow> int \<Rightarrow> nat option \<Rightarrow> int \<Rightarrow> nat option \<Rightarrow> int \<Rightarrow> nat option \<Rightarrow> int \<Rightarrow> api" where
  "SQLTables w stmt catalogName catalogNameLen schName schNameLen tableName tableNameLen tableType tableTypeLen d =
     unless_null stmt
       (wide_opt w d catalogName catalogNameLen (\<lambda>cat. wide_opt w d schName schNameLen (\<lambda>sch.
          wide_opt w d tableName tableNameLen (\<lambda>tab. wide_opt w d tableType tableTypeLen (\<lambda>typ.
            on_stmt_con stmt (\<lambda>c. InternalExecuteGetTablesMetaQuery w c cat sch (case tab of None \<Rightarrow> ''%'' | Some t \<Rightarrow> t) typ)))))) d"

definition SQLColumns ::
  "Services \<Rightarrow> nat option \<Rightarrow> nat option \<Rightarrow> int \<Rightarrow> nat option \<Rightarrow> int \<Rightarrow> nat option \<Rightarrow> int \<Rightarrow> nat option \<Rightarrow> int \<Rightarrow> api" where
  "SQLColumns w stmt catalogName catalogNameLen schName schNameLen tableName tableNameLen columnName columnNameLen d =
     unless_null stmt
       (wide_opt w d catalogName catalogNameLen (\<lambda>cat. wide_opt w d schName schNameLen (\<lambda>sch.
          wide_opt w d tableName tableNameLen (\<lambda>tab. wide_opt w d columnName columnNameLen (\<lambda>col.
            on_stmt_con stmt (\<lambda>c. InternalExecuteGetColumnsMetaQuery w c cat sch (case tab of None \<Rightarrow> ''%'' | Some t \<Rightarrow> t)
              (case col of None \<Rightarrow> ''%'' | Some t \<Rightarrow> t))))))) d"

definition SQLForeignKeys ::
  "Services \<Rightarrow> nat option \<Rightarrow> nat option \<Rightarrow> int \<Rightarrow> nat option \<Rightarrow> int \<Rightarrow> nat option \<Rightarrow> int \<Rightarrow>
   nat option \<Rightarrow> int \<Rightarrow> nat option \<Rightarrow> int \<Rightarrow> nat option \<Rightarrow> int \<Rightarrow> api" where
  "SQLForeignKeys w stmt pCatalog pCatalogLen pSchema pSchemaLen pTable pTableLen
       fCatalog fCatalogLen fSchema fSchemaLen fTable fTableLen d =
     unless_null stmt
       (wide_text w d pCatalog pCatalogLen (\<lambda>pcat. wide_text w d pSchema pSchemaLen (\<lambda>psch.
          wide_text w d pTable pTableLen (\<lambda>ptab. wide_opt w d fCatalog fCatalogLen (\<lambda>fcat.
            wide_opt w d fSchema fSchemaLen (\<lambda>fsch. wide_text w d fTable fTableLen (\<lambda>ftab.
              on_stmt_con stmt (\<lambda>c. InternalExecuteGetForeignKeysQuery w c pcat psch ptab fcat fsch ftab)))))))) d"

definition SQLPrimaryKeys ::
  "Services \<Rightarrow> nat option \<Rightarrow> nat option \<Rightarrow> int \<Rightarrow> nat option \<Rightarrow> int \<Rightarrow> nat option \<Rightarrow> int \<Rightarrow> api" where
  "SQLPrimaryKeys w stmt catalogName catalogNameLen schName schNameLen tableName tableNameLen d =
     unless_null stmt
       (wide_opt w d catalogName catalogNameLen (\<lambda>cat. wide_opt w d schName schNameLen (\<lambda>sch.
          wide_opt w d tableName tableNameLen (\<lambda>tab.
            on_stmt_con stmt (\<lambda>c. InternalExecuteGetPrimaryKeysQuery w c cat sch tab))))) d"

definition SQLSpecialColumns ::
  "Services \<Rightarrow> nat option \<Rightarrow> int \<Rightarrow> nat option \<Rightarrow> int \<Rightarrow> nat option \<Rightarrow> int \<Rightarrow> nat option \<Rightarrow> int \<Rightarrow> api" where
  "SQLSpecialColumns w stmt idType catalogName catalogNameLen schName schNameLen tableName tableNameLen d =
     unless_null stmt
       (wide_text w d catalogName catalogNameLen (\<lambda>cat. wide_text w d schName schNameLen (\<lambda>sch.
          wide_text w d tableName tableNameLen (\<lambda>tab.
            on_stmt_con stmt (\<lambda>c. InternalExecuteSpecialColumnsQuery w c idType))))) d"

definition SQLGetTypeInfo :: "Services \<Rightarrow> nat option \<Rightarrow> int \<Rightarrow> api" where
  "SQLGetTypeInfo w stmt type = on_stmt_con stmt (\<lambda>c. InternalExecuteGetTypeInfoQuery w c type)"

definition SQLMoreResults :: "nat option \<Rightarrow> api" where
  "SQLMoreResults stmt = on_stmt stmt InternalMoreResults"

definition SQLBindParameter ::
  "nat option \<Rightarrow> nat \<Rightarrow> int \<Rightarrow> int \<Rightarrow> int \<Rightarrow> nat \<Rightarrow> int \<Rightarrow> nat option \<Rightarrow> int \<Rightarrow> nat option \<Rightarrow> api" where
  "SQLBindParameter stmt paramIdx ioType bufferType paramSqlType columnSize decDigits buf bufferLen resLen =
     on_stmt stmt (InternalBindParameter paramIdx ioType bufferType paramSqlType columnSize decDigits buf bufferLen resLen)"

definition SQLGetStmtAttr :: "nat option \<Rightarrow> int \<Rightarrow> nat option \<Rightarrow> nat option \<Rightarrow> api" where
  "SQLGetStmtAttr stmt attr valueBuf valueResLen =
     on_stmt stmt (InternalGetAttribute (the stmt) attr valueBuf valueResLen)"

definition SQLSetStmtAttr :: "nat option \<Rightarrow> int \<Rightarrow> int \<Rightarrow> api" where
  "SQLSetStmtAttr stmt attr value = on_stmt stmt (InternalSetAttribute attr value)"

definition SQLGetData :: "Services \<Rightarrow> nat option \<Rightarrow> nat \<Rightarrow> int \<Rightarrow> nat option \<Rightarrow> int \<Rightarrow> nat option \<Rightarrow> api" where
  "SQLGetData w stmt colNum targetType targetValue bufferLength strLengthOrIndicator =
     on_stmt stmt (InternalGetColumnData w colNum (newBuffer (ToDriverType targetType) targetValue bufferLength strLengthOrIndicator))"

definition SQLParamData :: "Services \<Rightarrow> nat option \<Rightarrow> nat option \<Rightarrow> api" where
  "SQLParamData w stmt value = on_stmt_con stmt (\<lambda>c. InternalSelectParam w c value)"

definition SQLPutData :: "Services \<Rightarrow> nat option \<Rightarrow> nat option \<Rightarrow> int \<Rightarrow> api" where
  "SQLPutData w stmt data strLengthOrIndicator = on_stmt stmt (InternalPutData w data strLengthOrIndicator)"

definition SQLDescribeParam ::
  "nat option \<Rightarrow> int \<Rightarrow> nat option \<Rightarrow> nat option \<Rightarrow> nat option \<Rightarrow> nat option \<Rightarrow> api" where
  "SQLDescribeParam stmt paramNum dataType paramSize decimalDigits nullable =
     on_stmt stmt (InternalDescribeParam paramNum dataType paramSize decimalDigits nullable)"

text \<open>The counts are written after the call; a failed call leaves zero.\<close>

definition SQLRowCount :: "nat option \<Rightarrow> nat option \<Rightarrow> api" where
  "SQLRowCount stmt rowCnt =
     on_stmt stmt (\<lambda>sm. case InternalAffectedRows sm of
       (Inl e, _) \<Rightarrow> Inl e
     | (Inr (res, s, m), n) \<Rightarrow> Inr (res, s, put_int rowCnt 8 n m))"

definition SQLNumParams :: "nat option \<Rightarrow> nat option \<Rightarrow> api" where
  "SQLNumParams stmt paramCnt d =
     (case paramCnt of
        None \<Rightarrow>
          (case stmt of
             None \<Rightarrow> Inr (SQL_INVALID_HANDLE, d)
           | Some i \<Rightarrow>
               (case dr_stmts d i of None \<Rightarrow> Inl DanglingPointer | Some (_, s) \<Rightarrow> Inr (GetReturnCode (st_diag s), d)))
      | Some a \<Rightarrow>
          on_stmt stmt (\<lambda>sm. case InternalGetParametersNumber sm of
            (Inl e, _) \<Rightarrow> Inl e
          | (Inr (res, s, m), n) \<Rightarrow> Inr (res, s, write_bytes m a (int_bytes 2 (case n of None \<Rightarrow> 0 | Some k \<Rightarrow> k)))) d)"

abbreviation (input) "SQL_DESC_COUNT \<equiv> 1001 :: int"

definition SQLColAttribute ::
  "Services \<Rightarrow> nat option \<Rightarrow> nat \<Rightarrow> int \<Rightarrow> nat option \<Rightarrow> int \<Rightarrow> nat option \<Rightarrow> nat option \<Rightarrow> api" where
  "SQLColAttribute w stmt colNum fieldId strAttr bufferLen strAttrLen numericAttr d =
     (if stmt = None then Inr (SQL_INVALID_HANDLE, d)
      else if fieldId = SQL_DESC_COUNT then
        (case column_count w stmt d of
           Inl e \<Rightarrow> Inl e
         | Inr (code, None, d1) \<Rightarrow> Inl Uninitialized
         | Inr (code, Some k, d1) \<Rightarrow>
             Inr (code, if code = SQL_SUCCESS then d1\<lparr>dr_mem := put_int numericAttr 8 (to_signed 16 k) (dr_mem d1)\<rparr> else d1))
      else on_stmt_con stmt (\<lambda>c. InternalGetColumnAttribute w c colNum fieldId strAttr bufferLen strAttrLen numericAttr) d)"

text \<open>Five attribute calls, each with records of its own; what they return goes through local variables from the
  address \<open>tmp\<close> on, which keep what they held when a call sets none.\<close>

definition SQL_SUCCEEDED :: "int \<Rightarrow> bool" where
  "SQL_SUCCEEDED code \<longleftrightarrow> code = 0 \<or> code = 1"

fun describe_calls :: "(nat option \<Rightarrow> api) list \<Rightarrow> nat option \<Rightarrow> int list \<Rightarrow> Driver \<Rightarrow> buf_error + (int list \<times> Driver)" where
  "describe_calls [] stmt codes d = Inr (codes, d)"
| "describe_calls (f # fs) stmt codes d =
     (case f stmt d of Inl e \<Rightarrow> Inl e | Inr (code, d1) \<Rightarrow> describe_calls fs stmt (codes @ [code]) d1)"

definition describe_code :: "int list \<Rightarrow> int" where
  "describe_code codes =
     (case find (\<lambda>c. \<not> SQL_SUCCEEDED c) codes of
        Some c \<Rightarrow> c
      | None \<Rightarrow> (case find (\<lambda>c. c \<noteq> SQL_SUCCESS) codes of Some c \<Rightarrow> c | None \<Rightarrow> SQL_SUCCESS))"

definition SQLDescribeCol ::
  "Services \<Rightarrow> nat \<Rightarrow> nat option \<Rightarrow> nat \<Rightarrow> nat option \<Rightarrow> int \<Rightarrow> nat option \<Rightarrow> nat option \<Rightarrow> nat option \<Rightarrow> nat option \<Rightarrow>
   nat option \<Rightarrow> api" where
  "SQLDescribeCol w tmp stmt colNum nameBuf nameBufLen nameLen dataType columnSize decimalDigits nullable d =
     (if stmt = None then Inr (SQL_INVALID_HANDLE, d)
      else
        let ws = sizeof_wchar (platform w);
            attr = (\<lambda>field sb sl rl nb h. on_stmt_con h (\<lambda>c. InternalGetColumnAttribute w c colNum field sb sl rl nb));
            d0 = d\<lparr>dr_mem := write_bytes (dr_mem d) tmp (int_bytes 2 0)\<rparr>
        in case describe_calls
                  [attr SQL_DESC_NAME nameBuf (to_signed 16 (nameBufLen * int ws)) (Some tmp) None,
                   attr SQL_DESC_TYPE None 0 None (Some (tmp + 8)),
                   attr SQL_DESC_PRECISION None 0 None (Some (tmp + 16)),
                   attr SQL_DESC_SCALE None 0 None (Some (tmp + 24)),
                   attr SQL_DESC_NULLABLE None 0 None (Some (tmp + 32))] stmt [] d0 of
             Inl e \<Rightarrow> Inl e
           | Inr (codes, d1) \<Rightarrow>
               let m = dr_mem d1; var = (\<lambda>k. sint_of_bytes (read_bytes m (tmp + k) 8));
                   bytes = sint_of_bytes (read_bytes m tmp 2)
               in Inr (describe_code codes,
                    d1\<lparr>dr_mem := put_int nullable 2 (var 32) (put_int decimalDigits 2 (var 24)
                      (put_int columnSize 8 (var 16) (put_int dataType 2 (var 8)
                        (put_int nameLen 2 (bytes mod 2 ^ 64 div int ws) m))))\<rparr>))"

section \<open>Diagnostics by handle\<close>

text \<open>The first handle that is not null, in the order environment, connection, statement; reading a record marks it.\<close>

definition mark_record :: "int \<Rightarrow> DiagnosticRecordStorage \<Rightarrow> DiagnosticRecordStorage" where
  "mark_record i d = d\<lparr>statusRecords := (statusRecords d)[nat (i - 1) := MarkRetrieved (statusRecords d ! nat (i - 1))]\<rparr>"

definition error_record ::
  "Services \<Rightarrow> nat option \<Rightarrow> nat option \<Rightarrow> nat option \<Rightarrow> int \<Rightarrow> nat option \<Rightarrow> DiagnosticRecordStorage \<times> mem \<Rightarrow>
   int \<times> DiagnosticRecordStorage \<times> mem" where
  "error_record w state error msgBuf msgBufLen msgResLen dm =
     (let (d, m) = dm; recNum = GetLastNonRetrieved d
      in case GetStatusRecord d recNum of
           None \<Rightarrow> (100, d, m)
         | Some r \<Rightarrow>
             let ws = sizeof_wchar (platform w);
                 m1 = (if state = None then m else fst (CopyStringToBuffer ws m (GetSqlState (sqlState r)) state 6 False));
                 m2 = put_int error 4 0 m1;
                 (m3, n, _) = CopyStringToBuffer ws m2 (message r) msgBuf (nat (msgBufLen mod 2 ^ 64)) False
             in (SQL_SUCCESS, mark_record recNum d, put_int msgResLen 2 (int n) m3))"

definition SQLError ::
  "Services \<Rightarrow> nat option \<Rightarrow> nat option \<Rightarrow> nat option \<Rightarrow> nat option \<Rightarrow> nat option \<Rightarrow> nat option \<Rightarrow> int \<Rightarrow> nat option \<Rightarrow> api" where
  "SQLError w env con stmt state error msgBuf msgBufLen msgResLen d =
     (let read = (\<lambda>g. error_record w state error msgBuf msgBufLen msgResLen (g, dr_mem d))
      in case env of
           Some i \<Rightarrow>
             (case dr_envs d i of
                None \<Rightarrow> Inl DanglingPointer
              | Some e \<Rightarrow> let (code, g, m) = read (env_diag e)
                  in Inr (code, d\<lparr>dr_envs := (dr_envs d)(i \<mapsto> e\<lparr>env_diag := g\<rparr>), dr_mem := m\<rparr>))
         | None \<Rightarrow>
             (case con of
                Some i \<Rightarrow>
                  (case dr_cons d i of
                     None \<Rightarrow> Inl DanglingPointer
                   | Some (e, c) \<Rightarrow> let (code, g, m) = read (con_diag c)
                       in Inr (code, d\<lparr>dr_cons := (dr_cons d)(i \<mapsto> (e, c\<lparr>con_diag := g\<rparr>)), dr_mem := m\<rparr>))
              | None \<Rightarrow>
                  (case stmt of
                     Some i \<Rightarrow>
                       (case dr_stmts d i of
                          None \<Rightarrow> Inl DanglingPointer
                        | Some (c, s) \<Rightarrow> let (code, g, m) = read (st_diag s)
                            in Inr (code, d\<lparr>dr_stmts := (dr_stmts d)(i \<mapsto> (c, s\<lparr>st_diag := g\<rparr>)), dr_mem := m\<rparr>))
                   | None \<Rightarrow> Inr (SQL_INVALID_HANDLE, d))))"

section \<open>Handles that are freed in order\<close>

text \<open>Every connection belongs to an environment that registers it and every statement to a connection, an environment
  registers nothing else, and addresses from \<open>dr_next\<close> on are unused.\<close>

definition heap_ok :: "Driver \<Rightarrow> bool" where
  "heap_ok d \<longleftrightarrow>
     (\<forall>e env. dr_envs d e = Some env \<longrightarrow> env_connections env = {i. \<exists>c. dr_cons d i = Some (e, c)}) \<and>
     (\<forall>i e c. dr_cons d i = Some (e, c) \<longrightarrow> e \<in> dom (dr_envs d)) \<and>
     (\<forall>i c s. dr_stmts d i = Some (c, s) \<longrightarrow> c \<in> dom (dr_cons d)) \<and>
     (\<forall>i \<in> dom (dr_envs d) \<union> dom (dr_cons d) \<union> dom (dr_stmts d). i < dr_next d)"

lemma heap_okI:
  assumes "\<And>e env. dr_envs d e = Some env \<Longrightarrow> env_connections env = {i. \<exists>c. dr_cons d i = Some (e, c)}"
    and "\<And>i e c. dr_cons d i = Some (e, c) \<Longrightarrow> e \<in> dom (dr_envs d)"
    and "\<And>i c s. dr_stmts d i = Some (c, s) \<Longrightarrow> c \<in> dom (dr_cons d)"
    and "\<And>i. i \<in> dom (dr_envs d) \<union> dom (dr_cons d) \<union> dom (dr_stmts d) \<Longrightarrow> i < dr_next d"
  shows "heap_ok d"
  using assms unfolding heap_ok_def by blast

lemma heap_okD:
  assumes "heap_ok d"
  shows "\<And>e env. dr_envs d e = Some env \<Longrightarrow> env_connections env = {i. \<exists>c. dr_cons d i = Some (e, c)}"
    and "\<And>i e c. dr_cons d i = Some (e, c) \<Longrightarrow> \<exists>env. dr_envs d e = Some env"
    and "\<And>i c s. dr_stmts d i = Some (c, s) \<Longrightarrow> \<exists>x. dr_cons d c = Some x"
    and "dr_envs d (dr_next d) = None" "dr_cons d (dr_next d) = None" "dr_stmts d (dr_next d) = None"
    and "\<And>i x. dr_envs d i = Some x \<Longrightarrow> i < dr_next d"
    and "\<And>i x. dr_cons d i = Some x \<Longrightarrow> i < dr_next d"
    and "\<And>i x. dr_stmts d i = Some x \<Longrightarrow> i < dr_next d"
proof -
  have out: "dr_next d \<notin> dom (dr_envs d) \<union> dom (dr_cons d) \<union> dom (dr_stmts d)"
    using assms unfolding heap_ok_def by blast
  show "dr_envs d (dr_next d) = None" "dr_cons d (dr_next d) = None" "dr_stmts d (dr_next d) = None"
    using out by auto
qed (use assms in \<open>unfold heap_ok_def, blast+\<close>)

lemma heap_ok_mem [simp]: "heap_ok (d\<lparr>dr_mem := m\<rparr>) = heap_ok d"
  by (simp add: heap_ok_def)

lemma same_dom: "map_option f \<circ> m = map_option f \<circ> m' \<Longrightarrow> dom m = dom m'"
  by (auto simp: fun_eq_iff dom_def) (metis option.map_disc_iff not_None_eq)+

text \<open>A call that leaves the links between the objects.\<close>

lemma heap_ok_same_links:
  assumes "heap_ok d" and "map_option env_connections \<circ> dr_envs d' = map_option env_connections \<circ> dr_envs d"
    and "map_option fst \<circ> dr_cons d' = map_option fst \<circ> dr_cons d"
    and "map_option fst \<circ> dr_stmts d' = map_option fst \<circ> dr_stmts d" and "dr_next d' = dr_next d"
  shows "heap_ok d'"
proof -
  have e: "map_option env_connections (dr_envs d' i) = map_option env_connections (dr_envs d i)"
    and c: "map_option fst (dr_cons d' i) = map_option fst (dr_cons d i)"
    and s: "map_option fst (dr_stmts d' i) = map_option fst (dr_stmts d i)" for i
    using assms(2-4) by (simp_all add: fun_eq_iff)
  have c': "(\<exists>x. dr_cons d' i = Some (k, x)) \<longleftrightarrow> (\<exists>x. dr_cons d i = Some (k, x))" for i k
    using c [of i] by (cases "dr_cons d' i"; cases "dr_cons d i") auto
  have dom: "dom (dr_envs d') = dom (dr_envs d)" "dom (dr_cons d') = dom (dr_cons d)" "dom (dr_stmts d') = dom (dr_stmts d)"
    using same_dom [OF assms(2)] same_dom [OF assms(3)] same_dom [OF assms(4)] by simp_all
  show ?thesis
  proof (rule heap_okI)
    fix i env assume "dr_envs d' i = Some env"
    then show "env_connections env = {j. \<exists>x. dr_cons d' j = Some (i, x)}"
      using e [of i] heap_okD(1) [OF assms(1), of i] by (cases "dr_envs d i") (simp_all add: c')
  next
    fix i k x assume "dr_cons d' i = Some (k, x)"
    then show "k \<in> dom (dr_envs d')" using c' [of i k] heap_okD(2) [OF assms(1)] by (auto simp: dom)
  next
    fix i k x assume "dr_stmts d' i = Some (k, x)"
    then obtain y where "dr_stmts d i = Some (k, y)" using s [of i] by (cases "dr_stmts d i") auto
    then show "k \<in> dom (dr_cons d')" using heap_okD(3) [OF assms(1)] by (auto simp: dom)
  next
    fix i assume "i \<in> dom (dr_envs d') \<union> dom (dr_cons d') \<union> dom (dr_stmts d')"
    then show "i < dr_next d'" using assms(1,5) unfolding dom heap_ok_def by auto
  qed
qed

lemma map_option_upd_same: "m i = Some y \<Longrightarrow> f x = f y \<Longrightarrow> map_option f \<circ> (m(i \<mapsto> x)) = map_option f \<circ> m"
  by (auto simp: fun_eq_iff)

lemma on_con_ok: "on_con h f d = Inr (code, d') \<Longrightarrow> heap_ok d \<Longrightarrow> heap_ok d'"
  by (rule heap_ok_same_links, assumption)
    (auto simp: on_con_def split: option.splits sum.splits prod.splits intro!: map_option_upd_same)

lemma run_stmt_ok:
  "run_stmt i c s f d = Inr (code, d') \<Longrightarrow> dr_stmts d i = Some (c, s) \<Longrightarrow> heap_ok d \<Longrightarrow> heap_ok d'"
  by (rule heap_ok_same_links, assumption)
    (auto simp: run_stmt_def split: sum.splits intro!: map_option_upd_same)

lemma on_stmt_ok: "on_stmt h f d = Inr (code, d') \<Longrightarrow> heap_ok d \<Longrightarrow> heap_ok d'"
  by (auto simp: on_stmt_def split: option.splits prod.splits dest: run_stmt_ok)

lemma on_stmt_con_ok: "on_stmt_con h f d = Inr (code, d') \<Longrightarrow> heap_ok d \<Longrightarrow> heap_ok d'"
  by (auto simp: on_stmt_con_def split: option.splits prod.splits dest: run_stmt_ok)

text \<open>The new address is unused, so that the links of all other objects stay.\<close>

lemma no_children:
  assumes "heap_ok d"
  shows "dr_cons d i \<noteq> Some (dr_next d, c)" "dr_stmts d i \<noteq> Some (dr_next d, s)"
  using heap_okD(2,3) [OF assms] heap_okD(4,5) [OF assms] by fastforce+

lemma add_env_ok:
  assumes "heap_ok d" and "env_connections e = {}"
  shows "heap_ok (d\<lparr>dr_envs := (dr_envs d)(dr_next d \<mapsto> e), dr_next := Suc (dr_next d)\<rparr>)"
  by (rule heap_okI)
    (use assms(2) heap_okD [OF assms(1)] no_children [OF assms(1)] in
      \<open>auto split: if_splits intro: less_SucI\<close>)

lemma CreateConnection_connections: "env_connections (CreateConnection h e) = insert h (env_connections e)"
  by (simp add: CreateConnection_def api_call_def InternalCreateConnection_def Let_def env_upd_def)

lemma add_con_ok:
  assumes "heap_ok d" and "dr_envs d k = Some e"
  shows "heap_ok (d\<lparr>dr_envs := (dr_envs d)(k \<mapsto> CreateConnection (dr_next d) e),
    dr_cons := (dr_cons d)(dr_next d \<mapsto> (k, c)), dr_next := Suc (dr_next d)\<rparr>)"
  by (rule heap_okI)
    (use assms(2) heap_okD [OF assms(1)] no_children [OF assms(1)] in
      \<open>auto simp: CreateConnection_connections split: if_splits intro: less_SucI\<close>)

lemma add_stmt_ok:
  assumes "heap_ok d" and "dr_cons d k = Some (e, c)"
  shows "heap_ok (d\<lparr>dr_cons := (dr_cons d)(k \<mapsto> (e, c')), dr_stmts := (dr_stmts d)(dr_next d \<mapsto> (k, s)),
    dr_next := Suc (dr_next d)\<rparr>)"
  by (rule heap_okI)
    (use assms(2) heap_okD [OF assms(1)] no_children [OF assms(1)] in
      \<open>auto split: if_splits intro: less_SucI\<close>)

lemma put_handle_ok: "put_handle r h d = Inr d' \<Longrightarrow> heap_ok d' = heap_ok d"
  by (auto simp: put_handle_def split: option.splits)

lemma put_handle_sel:
  assumes "put_handle r h d = Inr d'"
  shows "dr_envs d' = dr_envs d" "dr_cons d' = dr_cons d" "dr_stmts d' = dr_stmts d" "dr_next d' = dr_next d"
  using assms by (auto simp: put_handle_def split: option.splits)

lemma SQLAllocEnv_ok: "SQLAllocEnv r d = Inr (code, d') \<Longrightarrow> heap_ok d \<Longrightarrow> heap_ok d'"
  by (auto simp: SQLAllocEnv_def Let_def put_handle_ok newEnvironment_def add_env_ok split: sum.splits)

lemma SQLAllocConnect_ok: "SQLAllocConnect host info k r d = Inr (code, d') \<Longrightarrow> heap_ok d \<Longrightarrow> heap_ok d'"
  by (auto simp: SQLAllocConnect_def Let_def put_handle_ok add_con_ok split: sum.splits option.splits)

lemma SQLAllocStmt_ok: "SQLAllocStmt k r d = Inr (code, d') \<Longrightarrow> heap_ok d \<Longrightarrow> heap_ok d'"
  by (auto simp: SQLAllocStmt_def Let_def put_handle_ok add_stmt_ok split: sum.splits option.splits prod.splits)

lemma SQLAllocHandle_ok: "SQLAllocHandle host info t k r d = Inr (code, d') \<Longrightarrow> heap_ok d \<Longrightarrow> heap_ok d'"
proof -
  have desc: "heap_ok (d1\<lparr>dr_cons := (dr_cons d1)(i \<mapsto> (e, c'))\<rparr>)"
    "heap_ok (d1\<lparr>dr_mem := m, dr_cons := (dr_cons d1)(i \<mapsto> (e, c'))\<rparr>)"
    if "heap_ok d1" "dr_cons d1 i = Some (e, c)" for d1 i e c c' m
    using that by (intro heap_ok_same_links [OF that(1)]; auto intro!: map_option_upd_same)+
  show "SQLAllocHandle host info t k r d = Inr (code, d') \<Longrightarrow> heap_ok d \<Longrightarrow> heap_ok d'"
    by (auto simp: SQLAllocHandle_def Let_def put_handle_ok split: if_splits option.splits sum.splits prod.splits
        dest: SQLAllocEnv_ok SQLAllocConnect_ok SQLAllocStmt_ok intro!: desc)
qed

lemma SQLFreeStmt_ok: "SQLFreeStmt h opt d = Inr (code, d') \<Longrightarrow> heap_ok d \<Longrightarrow> heap_ok d'"
proof -
  have "heap_ok (d\<lparr>dr_stmts := (dr_stmts d)(i := None)\<rparr>)" if "heap_ok d" for i
    by (rule heap_okI) (use heap_okD [OF that] in \<open>auto split: if_splits\<close>)
  then show "SQLFreeStmt h opt d = Inr (code, d') \<Longrightarrow> heap_ok d \<Longrightarrow> heap_ok d'"
    by (auto simp: SQLFreeStmt_def split: if_splits option.splits dest: on_stmt_ok)
qed

lemma SQLFreeConnect_ok:
  assumes "SQLFreeConnect (Some i) d = Inr (code, d')" and "heap_ok d" and "\<forall>j s. dr_stmts d j \<noteq> Some (i, s)"
  shows "heap_ok d'"
proof -
  have "heap_ok (d\<lparr>dr_envs := (dr_envs d)(k \<mapsto> DeregisterConnection i e), dr_cons := (dr_cons d)(i := None)\<rparr>)"
    if "dr_cons d i = Some (k, c)" "dr_envs d k = Some e" for k c e
    by (rule heap_okI) (use assms(3) that heap_okD [OF assms(2)] in
        \<open>auto simp: DeregisterConnection_def split: if_splits\<close>)
  with assms(1) show ?thesis by (auto simp: SQLFreeConnect_def split: option.splits)
qed

lemma SQLFreeEnv_ok:
  assumes "SQLFreeEnv (Some i) d = Inr (code, d')" and "heap_ok d" and "\<forall>j c. dr_cons d j \<noteq> Some (i, c)"
  shows "heap_ok d'"
proof -
  have "heap_ok (d\<lparr>dr_envs := (dr_envs d)(i := None)\<rparr>)"
    by (rule heap_okI) (use assms(3) heap_okD [OF assms(2)] in \<open>auto split: if_splits\<close>)
  with assms(1) show ?thesis by (auto simp: SQLFreeEnv_def split: option.splits)
qed

lemma on_env_ok:
  assumes "on_env h f d = Inr (code, d')" and "heap_ok d"
    and "\<And>e m res e' m'. f (e, m) = Inr (res, e', m') \<Longrightarrow> env_connections e' = env_connections e"
  shows "heap_ok d'"
  using assms(1)
  by (intro heap_ok_same_links [OF assms(2)],
      auto simp: on_env_def api_run_def env_upd_def split: option.splits sum.splits dest!: assms(3))
    (auto simp: fun_eq_iff)

lemma SQLSetEnvAttr_ok: "SQLSetEnvAttr h attr v d = Inr (code, d') \<Longrightarrow> heap_ok d \<Longrightarrow> heap_ok d'"
  by (auto simp: SQLSetEnvAttr_def Environment_InternalSetAttribute_def env_report_def env_upd_def
      split: EnvironmentAttribute.splits if_splits elim!: on_env_ok)

lemma SQLGetEnvAttr_ok: "SQLGetEnvAttr w tmp h attr b n r d = Inr (code, d') \<Longrightarrow> heap_ok d \<Longrightarrow> heap_ok d'"
  by (auto simp: SQLGetEnvAttr_def Environment_InternalGetAttribute_def env_report_def env_upd_def Let_def
      split: sum.splits prod.splits if_splits EnvironmentAttribute.splits elim!: on_env_ok)

lemma SQLError_ok: "SQLError w e c s st er mb ml mr d = Inr (code, d') \<Longrightarrow> heap_ok d \<Longrightarrow> heap_ok d'"
  by (rule heap_ok_same_links, assumption)
    (auto simp: SQLError_def Let_def split: option.splits prod.splits intro!: map_option_upd_same)

text \<open>The calls of an application that frees the statements of a connection before the connection and the connections of
  an environment before the environment. Any method of a connection or a statement may be called; \<open>memory\<close> is what the
  application writes.\<close>

inductive orderly :: "Services \<Rightarrow> Driver \<Rightarrow> bool" for w where
  start: "orderly w (newDriver m)"
| memory: "orderly w d \<Longrightarrow> orderly w (d\<lparr>dr_mem := m\<rparr>)"
| alloc: "\<lbrakk>orderly w d; SQLAllocHandle host info t k r d = Inr (code, d')\<rbrakk> \<Longrightarrow> orderly w d'"
| set_environment: "\<lbrakk>orderly w d; SQLSetEnvAttr h attr v d = Inr (code, d')\<rbrakk> \<Longrightarrow> orderly w d'"
| get_environment: "\<lbrakk>orderly w d; SQLGetEnvAttr w tmp h attr b n r d = Inr (code, d')\<rbrakk> \<Longrightarrow> orderly w d'"
| connection: "\<lbrakk>orderly w d; on_con h f d = Inr (code, d')\<rbrakk> \<Longrightarrow> orderly w d'"
| statement: "\<lbrakk>orderly w d; on_stmt h g d = Inr (code, d')\<rbrakk> \<Longrightarrow> orderly w d'"
| query: "\<lbrakk>orderly w d; on_stmt_con h q d = Inr (code, d')\<rbrakk> \<Longrightarrow> orderly w d'"
| error: "\<lbrakk>orderly w d; SQLError w eh ch sh st er mb ml mr d = Inr (code, d')\<rbrakk> \<Longrightarrow> orderly w d'"
| free_statement: "\<lbrakk>orderly w d; SQLFreeStmt h opt d = Inr (code, d')\<rbrakk> \<Longrightarrow> orderly w d'"
| free_connection: "\<lbrakk>orderly w d; \<forall>j s. dr_stmts d j \<noteq> Some (i, s); SQLFreeConnect (Some i) d = Inr (code, d')\<rbrakk> \<Longrightarrow> orderly w d'"
| free_environment: "\<lbrakk>orderly w d; \<forall>j c. dr_cons d j \<noteq> Some (i, c); SQLFreeEnv (Some i) d = Inr (code, d')\<rbrakk> \<Longrightarrow> orderly w d'"

lemma newDriver_ok: "heap_ok (newDriver m)"
  by (simp add: heap_ok_def newDriver_def)

lemma orderly_heap_ok: "orderly w d \<Longrightarrow> heap_ok d"
proof (induction rule: orderly.induct)
  case (start m)
  show ?case by (rule newDriver_ok)
qed (auto intro: SQLAllocHandle_ok SQLSetEnvAttr_ok SQLGetEnvAttr_ok on_con_ok on_stmt_ok on_stmt_con_ok SQLError_ok
    SQLFreeStmt_ok SQLFreeConnect_ok SQLFreeEnv_ok)

text \<open>(C6) Handles freed in order: as long as an application frees statements before their connection and connections
  before their environment, whatever it calls in between, every live statement finds its connection and every live
  connection its environment, so that freeing a connection works, and an environment registers exactly the connections
  allocated from it and not yet freed.\<close>
theorem orderly_handles:
  assumes "orderly w d"
  shows "(\<forall>i ci s. dr_stmts d i = Some (ci, s) \<longrightarrow>
        (\<exists>e c. dr_cons d ci = Some (e, c) \<and> (\<forall>f. on_stmt_con (Some i) f d = run_stmt i ci s (f c) d))) \<and>
      (\<forall>i e c. dr_cons d i = Some (e, c) \<longrightarrow>
        (\<exists>d'. SQLFreeConnect (Some i) d = Inr (SQL_SUCCESS, d') \<and> dr_cons d' i = None)) \<and>
      (\<forall>e env. dr_envs d e = Some env \<longrightarrow> env_connections env = {i. \<exists>c. dr_cons d i = Some (e, c)})"
proof (intro conjI allI impI)
  note ok = heap_okD [OF orderly_heap_ok [OF assms]]
  fix i ci s assume s: "dr_stmts d i = Some (ci, s)"
  with ok(3) obtain e c where "dr_cons d ci = Some (e, c)" by fastforce
  with s show "\<exists>e c. dr_cons d ci = Some (e, c) \<and> (\<forall>f. on_stmt_con (Some i) f d = run_stmt i ci s (f c) d)"
    by (simp add: on_stmt_con_def)
next
  note ok = heap_okD [OF orderly_heap_ok [OF assms]]
  fix i e c assume c: "dr_cons d i = Some (e, c)"
  with ok(2) obtain env where "dr_envs d e = Some env" by blast
  with c show "\<exists>d'. SQLFreeConnect (Some i) d = Inr (SQL_SUCCESS, d') \<and> dr_cons d' i = None"
    by (simp add: SQLFreeConnect_def)
next
  fix e env assume "dr_envs d e = Some env"
  then show "env_connections env = {i. \<exists>c. dr_cons d i = Some (e, c)}"
    by (rule heap_okD(1) [OF orderly_heap_ok [OF assms]])
qed

text \<open>An environment at address 1 with a connection at address 2 and a statement at address 3.\<close>

definition alloc_three :: "Driver \<Rightarrow> buf_error + (int \<times> Driver)" where
  "alloc_three d =
     (case SQLAllocHandle plain_host no_info 1 None (Some 8) d of
        Inl e \<Rightarrow> Inl e
      | Inr (_, d1) \<Rightarrow>
          (case SQLAllocHandle plain_host no_info 2 (Some 1) (Some 16) d1 of
             Inl e \<Rightarrow> Inl e
           | Inr (_, d2) \<Rightarrow> SQLAllocHandle plain_host no_info 3 (Some 2) (Some 24) d2))"

lemma alloc_three_orderly: "alloc_three d = Inr (code, d') \<Longrightarrow> orderly w d \<Longrightarrow> orderly w d'"
  unfolding alloc_three_def by (auto split: sum.splits) (blast intro: orderly.alloc)

lemma alloc_three_objects:
  "\<exists>d code. alloc_three (newDriver (\<lambda>_. 0)) = Inr (code, d) \<and> (\<exists>env. dr_envs d 1 = Some env \<and> env_connections env = {2}) \<and>
     (\<exists>c. dr_cons d 2 = Some (1, c)) \<and> dr_stmts d 3 = Some (2, newStatement)"
  by (simp add: alloc_three_def SQLAllocHandle_def SQLAllocEnv_def SQLAllocConnect_def SQLAllocStmt_def newDriver_def Let_def
      put_handle_def CreateConnection_connections newEnvironment_def)

theorem orderly_handles_witness:
  "\<exists>d d' code. alloc_three (newDriver (\<lambda>_. 0)) = Inr (code, d) \<and> SQLFreeConnect (Some 2) d = Inr (SQL_SUCCESS, d')"
proof -
  obtain d code c where d: "alloc_three (newDriver (\<lambda>_. 0)) = Inr (code, d)" "dr_cons d 2 = Some (1, c)"
    using alloc_three_objects by blast
  have "orderly (plain_services []) d" by (rule alloc_three_orderly [OF d(1) orderly.start])
  from orderly_handles [OF this] d show ?thesis by blast
qed

text \<open>Handles freed out of order: freeing an environment that still has connections, or a connection that still has
  statements, is accepted as a success instead of being refused as a function sequence error; freeing such a connection
  afterwards uses the destroyed environment, and executing such a statement the destroyed connection.\<close>
theorem free_order_unchecked:
  assumes "orderly w d" and "dr_stmts d i = Some (ci, s)" and "dr_cons d ci = Some (e, c)"
  shows "(\<exists>d1. SQLFreeHandle 1 (Some e) d = Inr (SQL_SUCCESS, d1) \<and> SQLFreeHandle 2 (Some ci) d1 = Inl DanglingPointer) \<and>
    (\<exists>d2. SQLFreeHandle 2 (Some ci) d = Inr (SQL_SUCCESS, d2) \<and> SQLExecute w (Some i) d2 = Inl DanglingPointer)"
proof -
  obtain env where "dr_envs d e = Some env" using heap_okD(2) [OF orderly_heap_ok [OF assms(1)] assms(3)] by blast
  with assms(2,3) show ?thesis
    by (simp add: SQLFreeHandle_def SQLFreeEnv_def SQLFreeConnect_def SQLExecute_def on_stmt_con_def)
qed

end
