(* ===== verification/Odbc_Action.thy ===== *)
theory Odbc_Action
  imports Odbc_Prelude
begin

text \<open>
  Operations that change a state and may fail: a function from a state to an error or to a result with the new state. An
  error drops the state. The byte streams and the Java interface are written with them.
\<close>

type_synonym ('e, 's, 'a) action = "'s \<Rightarrow> 'e + 'a \<times> 's"

definition ret :: "'a \<Rightarrow> ('e, 's, 'a) action" where
  "ret x = (\<lambda>s. Inr (x, s))"

definition fail :: "'e \<Rightarrow> ('e, 's, 'a) action" where
  "fail e = (\<lambda>s. Inl e)"

definition andThen :: "('e, 's, 'a) action \<Rightarrow> ('a \<Rightarrow> ('e, 's, 'b) action) \<Rightarrow> ('e, 's, 'b) action" where
  "andThen m f = (\<lambda>s. case m s of Inl e \<Rightarrow> Inl e | Inr (x, s') \<Rightarrow> f x s')"

definition followed :: "('e, 's, 'a) action \<Rightarrow> ('e, 's, 'b) action \<Rightarrow> ('e, 's, 'b) action" where
  "followed m k = andThen m (\<lambda>_. k)"

definition get :: "('s \<Rightarrow> 'a) \<Rightarrow> ('e, 's, 'a) action" where
  "get f = (\<lambda>s. Inr (f s, s))"

definition change :: "('s \<Rightarrow> 's) \<Rightarrow> ('e, 's, unit) action" where
  "change f = (\<lambda>s. Inr ((), f s))"

text \<open>\<open>for (int i = 0; i < len; i++) f(val[i])\<close> over the elements that the pointer designates, and the same number
  of calls collecting their results.\<close>

fun for_each :: "('a \<Rightarrow> ('e, 's, unit) action) \<Rightarrow> 'a list \<Rightarrow> ('e, 's, unit) action" where
  "for_each f [] = ret ()"
| "for_each f (x # xs) = followed (f x) (for_each f xs)"

fun repeat_act :: "nat \<Rightarrow> ('e, 's, 'a) action \<Rightarrow> ('e, 's, 'a list) action" where
  "repeat_act 0 m = ret []"
| "repeat_act (Suc n) m = andThen m (\<lambda>x. andThen (repeat_act n m) (\<lambda>xs. ret (x # xs)))"

lemma act_simps [simp]:
  "ret x s = Inr (x, s)" "fail e s = Inl e" "get f s = Inr (f s, s)" "change g s = Inr ((), g s)"
  by (simp_all add: ret_def fail_def get_def change_def)

lemma andThen_Inr [simp]: "m s = Inr (x, s') \<Longrightarrow> andThen m f s = f x s'"
  by (simp add: andThen_def)

lemma andThen_Inl [simp]: "m s = Inl e \<Longrightarrow> andThen m f s = Inl e"
  by (simp add: andThen_def)

lemma followed_Inr [simp]: "m s = Inr (x, s') \<Longrightarrow> followed m k s = k s'"
  by (simp add: followed_def)

lemma followed_Inl [simp]: "m s = Inl e \<Longrightarrow> followed m k s = Inl e"
  by (simp add: followed_def)

lemma andThen_eq_Inr:
  "andThen m f s = Inr r \<longleftrightarrow> (\<exists>x s'. m s = Inr (x, s') \<and> f x s' = Inr r)"
  by (auto simp: andThen_def split: sum.splits prod.splits)

lemma followed_eq_Inr:
  "followed m k s = Inr r \<longleftrightarrow> (\<exists>x s'. m s = Inr (x, s') \<and> k s' = Inr r)"
  by (simp add: followed_def andThen_eq_Inr)

end
