(* ===== verification/Odbc_Stream.thy ===== *)
theory Odbc_Stream
  imports Odbc_Memory Odbc_Action
begin

text \<open>
  The byte streams of the binary protocol: \<^verbatim>\<open>impl/interop/interop_memory.cpp\<close>,
  \<^verbatim>\<open>interop_output_stream.cpp\<close> and \<^verbatim>\<open>interop_input_stream.cpp\<close>.

  A block of memory is a list of cells; a cell that was allocated and never written is \<open>None\<close>, and an access
  outside the list is the error \<open>WildAccess\<close>: the source dereferences a raw pointer there. An operation is a
  function from a state to an error or to a result with the new state. An exception of the source drops the state,
  because every caller abandons the message it was reading or writing. The stream is the only user of its block, so
  the block is part of the stream's state and the \<open>data\<close> pointer always is that of the block. A \<open>float\<close> and a
  \<open>double\<close> are their bit patterns: the streams only move the bits through a union. Sums and shifts of \<open>int32_t\<close>
  values wrap (\<open>to_signed 32\<close>).
\<close>

section \<open>Operations that may fail\<close>

datatype stream_error =
    Thrown int string "(string \<times> int) list"
  | WildAccess
  | Uninitialised
  | LengthError
  | Unbounded

type_synonym ('s, 'a) act = "'s \<Rightarrow> stream_error + 'a \<times> 's"

definition for_first :: "('a \<Rightarrow> ('s, unit) act) \<Rightarrow> 'a list \<Rightarrow> int \<Rightarrow> ('s, unit) act" where
  "for_first f xs n = (if int (length xs) < n then fail WildAccess else for_each f (take (nat n) xs))"

section \<open>Memory\<close>

abbreviation (input) "DOCUMENTDB_MEM_FLAG_EXT \<equiv> 1 :: u32"
abbreviation (input) "DOCUMENTDB_MEM_FLAG_POOLED \<equiv> 2 :: u32"
abbreviation (input) "DOCUMENTDB_MEM_FLAG_ACQUIRED \<equiv> 4 :: u32"
abbreviation (input) "DOCUMENTDB_ERR_MEMORY \<equiv> 1001 :: int"
abbreviation (input) "DOCUMENTDB_ERR_BINARY \<equiv> 1002 :: int"

record InteropMemory =
  Data :: "u8 option list"
  Capacity :: int
  Length :: int
  Flags :: u32

definition IsExternal :: "u32 \<Rightarrow> bool" where
  "IsExternal flags \<longleftrightarrow> flags AND DOCUMENTDB_MEM_FLAG_EXT \<noteq> DOCUMENTDB_MEM_FLAG_EXT"

definition IsPooled :: "u32 \<Rightarrow> bool" where
  "IsPooled flags \<longleftrightarrow> flags AND DOCUMENTDB_MEM_FLAG_POOLED \<noteq> 0"

definition IsAcquired :: "u32 \<Rightarrow> bool" where
  "IsAcquired flags \<longleftrightarrow> flags AND DOCUMENTDB_MEM_FLAG_ACQUIRED \<noteq> 0"

definition newInteropUnpooledMemory :: "int \<Rightarrow> InteropMemory" where
  "newInteropUnpooledMemory cap =
     \<lparr>Data = replicate (nat cap) None, Capacity = cap, Length = 0, Flags = DOCUMENTDB_MEM_FLAG_EXT\<rparr>"

text \<open>\<open>realloc\<close> keeps the common prefix of the block.\<close>

definition realloc :: "int \<Rightarrow> u8 option list \<Rightarrow> u8 option list" where
  "realloc cap cells = take (nat cap) cells @ replicate (nat cap - length cells) None"

definition Reallocate :: "int \<Rightarrow> InteropMemory \<Rightarrow> InteropMemory" where
  "Reallocate cap m =
     (let doubledCap = to_signed 32 (Capacity m * 2);
          cap' = (if doubledCap > cap then doubledCap else cap)
      in m\<lparr>Data := realloc cap' (Data m), Capacity := cap'\<rparr>)"

text \<open>Ownership: the blocks that are allocated, by address, and the objects that refer to them.\<close>

record InteropUnpooledMemory =
  memPtr :: nat
  owning :: bool

definition mem_create :: "nat \<Rightarrow> int \<Rightarrow> (nat \<rightharpoonup> InteropMemory) \<Rightarrow> InteropUnpooledMemory \<times> (nat \<rightharpoonup> InteropMemory)" where
  "mem_create p cap h = (\<lparr>memPtr = p, owning = True\<rparr>, h(p \<mapsto> newInteropUnpooledMemory cap))"

definition mem_refer :: "nat \<Rightarrow> InteropUnpooledMemory" where
  "mem_refer p = \<lparr>memPtr = p, owning = False\<rparr>"

definition mem_CleanUp :: "InteropUnpooledMemory \<Rightarrow> (nat \<rightharpoonup> InteropMemory) \<Rightarrow> (nat \<rightharpoonup> InteropMemory)" where
  "mem_CleanUp u h = (if owning u then h(memPtr u := None) else h)"

definition TryGetOwnership ::
  "InteropUnpooledMemory \<Rightarrow> InteropUnpooledMemory \<Rightarrow> (nat \<rightharpoonup> InteropMemory) \<Rightarrow>
   bool \<times> InteropUnpooledMemory \<times> InteropUnpooledMemory \<times> (nat \<rightharpoonup> InteropMemory)" where
  "TryGetOwnership u other h =
     (if \<not> owning u then (False, u, other, h)
      else (True, u\<lparr>owning := False\<rparr>, \<lparr>memPtr = memPtr u, owning = True\<rparr>, mem_CleanUp other h))"

section \<open>Output stream\<close>

record InteropOutputStream =
  out_mem :: InteropMemory
  out_cap :: int
  out_pos :: int

type_synonym 'a out_act = "(InteropOutputStream, 'a) act"

definition newInteropOutputStream :: "InteropMemory \<Rightarrow> InteropOutputStream" where
  "newInteropOutputStream m = \<lparr>out_mem = m, out_cap = Capacity m, out_pos = 0\<rparr>"

definition EnsureCapacity :: "int \<Rightarrow> unit out_act" where
  "EnsureCapacity reqCap = change (\<lambda>s.
     if reqCap > out_cap s then
       let newCap = to_signed 32 (out_cap s * 2);
           newCap = (if newCap < reqCap then reqCap else newCap)
       in s\<lparr>out_mem := Reallocate newCap (out_mem s), out_cap := newCap\<rparr>
     else s)"

definition out_Shift :: "int \<Rightarrow> unit out_act" where
  "out_Shift cnt = change (\<lambda>s. s\<lparr>out_pos := to_signed 32 (out_pos s + cnt)\<rparr>)"

text \<open>A store through \<open>data + p\<close>.\<close>

definition put_cells :: "nat \<Rightarrow> u8 list \<Rightarrow> u8 option list \<Rightarrow> u8 option list" where
  "put_cells p bs cells = take p cells @ map Some bs @ drop (p + length bs) cells"

definition store :: "int \<Rightarrow> u8 list \<Rightarrow> unit out_act" where
  "store p bs = (\<lambda>s.
     if 0 \<le> p \<and> p + int (length bs) \<le> int (length (Data (out_mem s))) then
       Inr ((), s\<lparr>out_mem := (out_mem s)\<lparr>Data := put_cells (nat p) bs (Data (out_mem s))\<rparr>\<rparr>)
     else Inl WildAccess)"

text \<open>The macro for one value, and the overloads that write at a position and leave the stream where it was.\<close>

definition out_write :: "u8 list \<Rightarrow> unit out_act" where
  "out_write bs = andThen (get out_pos) (\<lambda>pos.
     followed (EnsureCapacity (to_signed 32 (pos + int (length bs))))
     (followed (store pos bs) (out_Shift (int (length bs)))))"

definition out_write_at :: "int \<Rightarrow> u8 list \<Rightarrow> unit out_act" where
  "out_write_at pos bs =
     followed (EnsureCapacity (to_signed 32 (pos + int (length bs)))) (store pos bs)"

text \<open>\<open>memcpy\<close> of \<open>len\<close> bytes from an array: the length is converted to \<open>size_t\<close>, so a negative one runs out of the array.\<close>

definition out_CopyAndShift :: "u8 list \<Rightarrow> int \<Rightarrow> unit out_act" where
  "out_CopyAndShift src len = andThen (get out_pos) (\<lambda>pos.
     followed (EnsureCapacity (to_signed 32 (pos + len)))
     (followed (if len < 0 \<or> int (length src) < len then fail WildAccess else store pos (take (nat len) src))
       (out_Shift len)))"

definition out_WriteInt8 :: "int \<Rightarrow> unit out_act" where
  "out_WriteInt8 val = out_write (int_bytes 1 val)"

definition out_WriteInt8_at :: "int \<Rightarrow> int \<Rightarrow> unit out_act" where
  "out_WriteInt8_at val pos = out_write_at pos (int_bytes 1 val)"

definition array_bytes :: "nat \<Rightarrow> int list \<Rightarrow> u8 list" where
  "array_bytes w vals = concat (map (int_bytes w) vals)"

definition out_WriteInt8Array :: "int list \<Rightarrow> int \<Rightarrow> unit out_act" where
  "out_WriteInt8Array val len = out_CopyAndShift (array_bytes 1 val) len"

definition out_WriteBool :: "bool \<Rightarrow> unit out_act" where
  "out_WriteBool val = out_WriteInt8 (if val then 1 else 0)"

definition out_WriteBoolArray :: "bool list \<Rightarrow> int \<Rightarrow> unit out_act" where
  "out_WriteBoolArray val len = for_first out_WriteBool val len"

definition out_WriteInt16 :: "int \<Rightarrow> unit out_act" where
  "out_WriteInt16 val = out_write (int_bytes 2 val)"

definition out_WriteInt16_at :: "int \<Rightarrow> int \<Rightarrow> unit out_act" where
  "out_WriteInt16_at pos val = out_write_at pos (int_bytes 2 val)"

definition out_WriteInt16Array :: "int list \<Rightarrow> int \<Rightarrow> unit out_act" where
  "out_WriteInt16Array val len = out_CopyAndShift (array_bytes 2 val) (to_signed 32 (len * 2))"

definition out_WriteUInt16 :: "int \<Rightarrow> unit out_act" where
  "out_WriteUInt16 val = out_write (int_bytes 2 val)"

definition out_WriteUInt16Array :: "int list \<Rightarrow> int \<Rightarrow> unit out_act" where
  "out_WriteUInt16Array val len = out_CopyAndShift (array_bytes 2 val) (to_signed 32 (len * 2))"

definition out_WriteInt32 :: "int \<Rightarrow> unit out_act" where
  "out_WriteInt32 val = out_write (int_bytes 4 val)"

definition out_WriteInt32_at :: "int \<Rightarrow> int \<Rightarrow> unit out_act" where
  "out_WriteInt32_at pos val = out_write_at pos (int_bytes 4 val)"

definition out_WriteInt32Array :: "int list \<Rightarrow> int \<Rightarrow> unit out_act" where
  "out_WriteInt32Array val len = out_CopyAndShift (array_bytes 4 val) (to_signed 32 (len * 4))"

definition out_WriteInt64 :: "int \<Rightarrow> unit out_act" where
  "out_WriteInt64 val = out_write (int_bytes 8 val)"

definition out_WriteInt64_at :: "int \<Rightarrow> int \<Rightarrow> unit out_act" where
  "out_WriteInt64_at pos val = out_write_at pos (int_bytes 8 val)"

definition out_WriteInt64Array :: "int list \<Rightarrow> int \<Rightarrow> unit out_act" where
  "out_WriteInt64Array val len = out_CopyAndShift (array_bytes 8 val) (to_signed 32 (len * 8))"

definition out_WriteFloat :: "u32 \<Rightarrow> unit out_act" where
  "out_WriteFloat val = out_WriteInt32 (sint val)"

definition out_WriteFloatArray :: "u32 list \<Rightarrow> int \<Rightarrow> unit out_act" where
  "out_WriteFloatArray val len = for_first out_WriteFloat val len"

definition out_WriteDouble :: "u64 \<Rightarrow> unit out_act" where
  "out_WriteDouble val = out_WriteInt64 (sint val)"

definition out_WriteDoubleArray :: "u64 list \<Rightarrow> int \<Rightarrow> unit out_act" where
  "out_WriteDoubleArray val len = for_first out_WriteDouble val len"

definition out_Position :: "int out_act" where
  "out_Position = get out_pos"

definition out_SetPosition :: "int \<Rightarrow> unit out_act" where
  "out_SetPosition val = followed (EnsureCapacity val) (change (\<lambda>s. s\<lparr>out_pos := val\<rparr>))"

definition out_Reserve :: "int \<Rightarrow> int out_act" where
  "out_Reserve num = andThen (get out_pos) (\<lambda>pos.
     followed (EnsureCapacity (to_signed 32 (pos + num))) (followed (out_Shift num) (ret pos)))"

definition out_Synchronize :: "unit out_act" where
  "out_Synchronize = change (\<lambda>s. s\<lparr>out_mem := (out_mem s)\<lparr>Length := out_pos s\<rparr>\<rparr>)"

section \<open>Input stream\<close>

record InteropInputStream =
  in_mem :: InteropMemory
  in_len :: int
  in_pos :: int

type_synonym 'a in_act = "(InteropInputStream, 'a) act"

definition newInteropInputStream :: "InteropMemory \<Rightarrow> InteropInputStream" where
  "newInteropInputStream m = \<lparr>in_mem = m, in_len = Length m, in_pos = 0\<rparr>"

definition EnsureEnoughData :: "int \<Rightarrow> unit in_act" where
  "EnsureEnoughData cnt = (\<lambda>s.
     if to_signed 32 (in_len s - in_pos s) \<ge> cnt then Inr ((), s)
     else Inl (Thrown DOCUMENTDB_ERR_MEMORY ''Not enough data in the stream''
                 [(''len'', in_len s), (''pos'', in_pos s), (''requested'', cnt)]))"

definition in_Shift :: "int \<Rightarrow> unit in_act" where
  "in_Shift cnt = change (\<lambda>s. s\<lparr>in_pos := to_signed 32 (in_pos s + cnt)\<rparr>)"

text \<open>A load through \<open>data + p\<close>.\<close>

definition cells_at :: "nat \<Rightarrow> nat \<Rightarrow> u8 option list \<Rightarrow> u8 option list" where
  "cells_at p n cells = take n (drop p cells)"

definition load :: "int \<Rightarrow> int \<Rightarrow> u8 list in_act" where
  "load p n = (\<lambda>s.
     let cells = cells_at (nat p) (nat n) (Data (in_mem s))
     in if p < 0 \<or> n < 0 \<or> int (length (Data (in_mem s))) < p + n then Inl WildAccess
        else if None \<in> set cells then Inl Uninitialised
        else Inr (map the cells, s))"

definition in_read :: "int \<Rightarrow> u8 list in_act" where
  "in_read n = andThen (get in_pos) (\<lambda>pos.
     followed (EnsureEnoughData n)
     (andThen (load pos n) (\<lambda>bs. followed (in_Shift n) (ret bs))))"

definition in_read_at :: "int \<Rightarrow> int \<Rightarrow> u8 list in_act" where
  "in_read_at pos n = andThen (get in_pos) (\<lambda>cur.
     let delta = to_signed 32 (pos + n - cur)
     in followed (if delta > 0 then EnsureEnoughData delta else ret ()) (load pos n))"

text \<open>\<open>CopyAndShift\<close> has the body of the macro; the destination has room for the bytes, as its callers see to.\<close>

definition in_CopyAndShift :: "int \<Rightarrow> u8 list in_act" where
  "in_CopyAndShift cnt = in_read cnt"

definition in_ReadInt8 :: "int in_act" where
  "in_ReadInt8 = andThen (in_read 1) (\<lambda>bs. ret (sint_of_bytes bs))"

definition in_ReadInt8_at :: "int \<Rightarrow> int in_act" where
  "in_ReadInt8_at pos = andThen (in_read_at pos 1) (\<lambda>bs. ret (sint_of_bytes bs))"

text \<open>The elements of an array that was copied as a whole.\<close>

fun split_every :: "nat \<Rightarrow> nat \<Rightarrow> 'a list \<Rightarrow> 'a list list" where
  "split_every w 0 xs = []"
| "split_every w (Suc n) xs = take w xs # split_every w n (drop w xs)"

definition read_array :: "(u8 list \<Rightarrow> 'v) \<Rightarrow> nat \<Rightarrow> int \<Rightarrow> 'v list in_act" where
  "read_array conv w len = andThen (in_CopyAndShift (to_signed 32 (len * int w))) (\<lambda>bs.
     ret (map conv (split_every w (nat len) bs)))"

definition in_ReadInt8Array :: "int \<Rightarrow> int list in_act" where
  "in_ReadInt8Array len = read_array sint_of_bytes 1 len"

definition in_ReadBool :: "bool in_act" where
  "in_ReadBool = andThen in_ReadInt8 (\<lambda>v. ret (v = 1))"

definition in_ReadBoolArray :: "int \<Rightarrow> bool list in_act" where
  "in_ReadBoolArray len = repeat_act (nat len) in_ReadBool"

definition in_ReadInt16 :: "int in_act" where
  "in_ReadInt16 = andThen (in_read 2) (\<lambda>bs. ret (sint_of_bytes bs))"

definition in_ReadInt16_at :: "int \<Rightarrow> int in_act" where
  "in_ReadInt16_at pos = andThen (in_read_at pos 2) (\<lambda>bs. ret (sint_of_bytes bs))"

definition in_ReadInt16Array :: "int \<Rightarrow> int list in_act" where
  "in_ReadInt16Array len = read_array sint_of_bytes 2 len"

definition in_ReadUInt16 :: "int in_act" where
  "in_ReadUInt16 = andThen (in_read 2) (\<lambda>bs. ret (uint_of_bytes bs))"

definition in_ReadUInt16Array :: "int \<Rightarrow> int list in_act" where
  "in_ReadUInt16Array len = read_array uint_of_bytes 2 len"

definition in_ReadInt32 :: "int in_act" where
  "in_ReadInt32 = andThen (in_read 4) (\<lambda>bs. ret (sint_of_bytes bs))"

definition in_ReadInt32_at :: "int \<Rightarrow> int in_act" where
  "in_ReadInt32_at pos = andThen (in_read_at pos 4) (\<lambda>bs. ret (sint_of_bytes bs))"

definition in_ReadInt32Array :: "int \<Rightarrow> int list in_act" where
  "in_ReadInt32Array len = read_array sint_of_bytes 4 len"

definition in_ReadInt64 :: "int in_act" where
  "in_ReadInt64 = andThen (in_read 8) (\<lambda>bs. ret (sint_of_bytes bs))"

definition in_ReadInt64Array :: "int \<Rightarrow> int list in_act" where
  "in_ReadInt64Array len = read_array sint_of_bytes 8 len"

definition in_ReadFloat :: "u32 in_act" where
  "in_ReadFloat = andThen in_ReadInt32 (\<lambda>i. ret (word_of_int i))"

definition in_ReadFloatArray :: "int \<Rightarrow> u32 list in_act" where
  "in_ReadFloatArray len = read_array (\<lambda>bs. word_of_int (uint_of_bytes bs)) 4 len"

definition in_ReadDouble :: "u64 in_act" where
  "in_ReadDouble = andThen in_ReadInt64 (\<lambda>i. ret (word_of_int i))"

definition in_ReadDoubleArray :: "int \<Rightarrow> u64 list in_act" where
  "in_ReadDoubleArray len = read_array (\<lambda>bs. word_of_int (uint_of_bytes bs)) 8 len"

definition in_Remaining :: "int in_act" where
  "in_Remaining = get (\<lambda>s. to_signed 32 (in_len s - in_pos s))"

definition in_Position :: "int in_act" where
  "in_Position = get in_pos"

definition in_SetPosition :: "int \<Rightarrow> unit in_act" where
  "in_SetPosition pos = (\<lambda>s.
     if pos \<le> in_len s then Inr ((), s\<lparr>in_pos := pos\<rparr>)
     else Inl (Thrown DOCUMENTDB_ERR_MEMORY ''Requested input stream position is out of bounds''
                 [(''len'', in_len s), (''pos'', pos)]))"

definition in_Ignore :: "int \<Rightarrow> unit in_act" where
  "in_Ignore cnt = in_Shift cnt"

definition in_Synchronize :: "InteropMemory \<Rightarrow> unit in_act" where
  "in_Synchronize m = change (\<lambda>s. s\<lparr>in_mem := m, in_len := Length m\<rparr>)"

text \<open>\<open>InteropStreamPositionGuard\<close>: the position is restored when the scope is left, unless the guard was released,
  which the guarded code says by its second result.\<close>

definition guarded :: "('a \<times> bool) in_act \<Rightarrow> 'a in_act" where
  "guarded m = andThen in_Position (\<lambda>pos.
     andThen m (\<lambda>(x, released). if released then ret x else followed (in_SetPosition pos) (ret x)))"

end
