(* ===== verification/Odbc_BinaryType.thy ===== *)
theory Odbc_BinaryType
  imports Odbc_Stream
begin

text \<open>
  Type metadata of the binary protocol: \<^verbatim>\<open>impl/binary/binary_field_meta\<close>, \<^verbatim>\<open>binary_type_snapshot\<close>,
  \<^verbatim>\<open>binary_type_handler\<close>, \<^verbatim>\<open>binary_type_manager\<close> and \<^verbatim>\<open>binary_id_resolver.h\<close>. A shared pointer to a
  snapshot is an optional snapshot, a null pointer being \<open>None\<close>; using a null pointer is the error \<open>WildAccess\<close>.
  What the type updater answers (a Java service) is a parameter: \<open>Update\<close> is given the snapshots that were sent
  before, \<open>GetMeta\<close> the type asked for. The manager's lock makes each operation one step.
\<close>

record BinaryFieldMeta =
  meta_typeId :: int
  meta_fieldId :: int

record BinaryTypeSnapshot =
  snap_typeName :: string
  snap_affFieldName :: string
  snap_typeId :: int
  fieldIds :: "int set"
  snap_fields :: "string \<rightharpoonup> BinaryFieldMeta"

definition newBinaryTypeSnapshot :: "string \<Rightarrow> string \<Rightarrow> int \<Rightarrow> BinaryTypeSnapshot" where
  "newBinaryTypeSnapshot typeName affFieldName typeId =
     \<lparr>snap_typeName = typeName, snap_affFieldName = affFieldName, snap_typeId = typeId,
      fieldIds = {}, snap_fields = Map.empty\<rparr>"

definition ContainsFieldId :: "BinaryTypeSnapshot \<Rightarrow> int \<Rightarrow> bool" where
  "ContainsFieldId snap fieldId \<longleftrightarrow> fieldId \<in> fieldIds snap"

definition HasFields :: "BinaryTypeSnapshot \<Rightarrow> bool" where
  "HasFields snap \<longleftrightarrow> fieldIds snap \<noteq> {}"

definition snap_AddField :: "int \<Rightarrow> string \<Rightarrow> int \<Rightarrow> BinaryTypeSnapshot \<Rightarrow> BinaryTypeSnapshot" where
  "snap_AddField fieldId fieldName fieldTypeId snap =
     snap\<lparr>fieldIds := insert fieldId (fieldIds snap),
          snap_fields := (snap_fields snap)(fieldName \<mapsto> \<lparr>meta_typeId = fieldTypeId, meta_fieldId = fieldId\<rparr>)\<rparr>"

text \<open>\<open>std::map::insert\<close> of a range keeps the entries that are there.\<close>

definition CopyFieldsFrom :: "BinaryTypeSnapshot option \<Rightarrow> BinaryTypeSnapshot \<Rightarrow> BinaryTypeSnapshot" where
  "CopyFieldsFrom another snap =
     (case another of
        Some a \<Rightarrow>
          if HasFields a then
            snap\<lparr>fieldIds := fieldIds snap \<union> fieldIds a, snap_fields := snap_fields a ++ snap_fields snap\<rparr>
          else snap
      | None \<Rightarrow> snap)"

definition snap_GetFieldId :: "BinaryTypeSnapshot \<Rightarrow> string \<Rightarrow> int" where
  "snap_GetFieldId snap fieldName = (case snap_fields snap fieldName of None \<Rightarrow> 0 | Some m \<Rightarrow> meta_fieldId m)"

section \<open>Identifiers\<close>

text \<open>\<open>GetBinaryStringHashCode\<close>: upper case letters count as lower case ones; a \<open>char\<close> is signed. A null name is
  \<open>None\<close>.\<close>

definition char_code :: "char \<Rightarrow> int" where
  "char_code c = to_signed 8 (int (of_char c))"

definition lower_code :: "int \<Rightarrow> int" where
  "lower_code c = (if 65 \<le> c \<and> c \<le> 90 then c + 32 else c)"

fun hash_chars :: "int \<Rightarrow> string \<Rightarrow> int" where
  "hash_chars hash [] = hash"
| "hash_chars hash (c # cs) =
     (if char_code c = 0 then hash else hash_chars (to_signed 32 (31 * hash + lower_code (char_code c))) cs)"

definition GetBinaryStringHashCode :: "string option \<Rightarrow> int" where
  "GetBinaryStringHashCode val = (case val of Some s \<Rightarrow> hash_chars 0 s | None \<Rightarrow> 0)"

text \<open>A resolver answers the type identifier and the field identifiers; the one of a C++ type asks the type's own
  functions, the one of a snapshot looks the field up.\<close>

record BinaryIdResolver =
  rslv_typeId :: int
  rslv_fieldId :: "int \<Rightarrow> string option \<Rightarrow> stream_error + int"

definition null_name :: "int \<Rightarrow> stream_error" where
  "null_name typeId = Thrown DOCUMENTDB_ERR_BINARY ''Field name cannot be NULL.'' [(''typeId'', typeId)]"

definition TemplatedBinaryIdResolver :: "int \<Rightarrow> (string \<Rightarrow> int) \<Rightarrow> BinaryIdResolver" where
  "TemplatedBinaryIdResolver typeIdOfT fieldIdOfT =
     \<lparr>rslv_typeId = typeIdOfT,
      rslv_fieldId = (\<lambda>typeId name. case name of Some n \<Rightarrow> Inr (fieldIdOfT n) | None \<Rightarrow> Inl (null_name typeId))\<rparr>"

definition MetadataBinaryIdResolver :: "BinaryTypeSnapshot \<Rightarrow> BinaryIdResolver" where
  "MetadataBinaryIdResolver meta =
     \<lparr>rslv_typeId = snap_typeId meta,
      rslv_fieldId = (\<lambda>typeId name.
        case name of
          None \<Rightarrow> Inl (null_name typeId)
        | Some n \<Rightarrow>
            let res = snap_GetFieldId meta n;
                res = (if res = 0 then GetBinaryStringHashCode (Some n) else res)
            in if res = 0 then
                 Inl (Thrown DOCUMENTDB_ERR_BINARY
                   (''Field ID for the field name is zero. Please, redefine GetFieldId()'' @
                    '' method for the type or change field name'') [(''typeId'', typeId)])
               else Inr res)\<rparr>"

section \<open>Handler\<close>

record BinaryTypeHandler =
  hnd_origin :: "BinaryTypeSnapshot option"
  hnd_updated :: "BinaryTypeSnapshot option"

definition newBinaryTypeHandler :: "BinaryTypeSnapshot option \<Rightarrow> BinaryTypeHandler" where
  "newBinaryTypeHandler snap = \<lparr>hnd_origin = snap, hnd_updated = None\<rparr>"

definition OnFieldWritten :: "int \<Rightarrow> string \<Rightarrow> int \<Rightarrow> BinaryTypeHandler \<Rightarrow> stream_error + BinaryTypeHandler" where
  "OnFieldWritten fieldId fieldName fieldTypeId h =
     (if (case hnd_origin h of None \<Rightarrow> True | Some o' \<Rightarrow> \<not> ContainsFieldId o' fieldId) then
        case (case hnd_updated h of None \<Rightarrow> hnd_origin h | Some u \<Rightarrow> Some u) of
          None \<Rightarrow> Inl WildAccess
        | Some u \<Rightarrow> Inr (h\<lparr>hnd_updated := Some (snap_AddField fieldId fieldName fieldTypeId u)\<rparr>)
      else Inr h)"

section \<open>Manager\<close>

record BinaryTypeManager =
  snapshots :: "int \<rightharpoonup> BinaryTypeSnapshot option"
  pending :: "BinaryTypeSnapshot option list"
  has_updater :: bool
  pendingVer :: int
  mgr_ver :: int
  sent :: "BinaryTypeSnapshot list"

definition newBinaryTypeManager :: BinaryTypeManager where
  "newBinaryTypeManager =
     \<lparr>snapshots = Map.empty, pending = [], has_updater = False, pendingVer = 0, mgr_ver = 0, sent = []\<rparr>"

type_synonym 'a mgr_act = "(BinaryTypeManager, 'a) act"

text \<open>The loop over the pending snapshots, used by \<open>GetHandler\<close> and \<open>GetMeta\<close>.\<close>

fun find_pending :: "int \<Rightarrow> BinaryTypeSnapshot option list \<Rightarrow> stream_error + BinaryTypeSnapshot option" where
  "find_pending typeId [] = Inr None"
| "find_pending typeId (None # ps) = Inl WildAccess"
| "find_pending typeId (Some p # ps) = (if snap_typeId p = typeId then Inr (Some p) else find_pending typeId ps)"

definition GetHandler :: "string \<Rightarrow> string \<Rightarrow> int \<Rightarrow> BinaryTypeHandler mgr_act" where
  "GetHandler typeName affFieldName typeId = (\<lambda>m.
     case snapshots m typeId of
       Some snap \<Rightarrow> Inr (newBinaryTypeHandler snap, m)
     | None \<Rightarrow>
         (case find_pending typeId (pending m) of
            Inl e \<Rightarrow> Inl e
          | Inr (Some snap) \<Rightarrow> Inr (newBinaryTypeHandler (Some snap), m)
          | Inr None \<Rightarrow>
              Inr (newBinaryTypeHandler (Some (newBinaryTypeSnapshot typeName affFieldName typeId)), m)))"

definition SubmitHandler :: "BinaryTypeHandler \<Rightarrow> unit mgr_act" where
  "SubmitHandler hnd = change (\<lambda>m.
     if hnd_updated hnd \<noteq> None then
       m\<lparr>pending := pending m @ [hnd_updated hnd], pendingVer := to_signed 32 (pendingVer m + 1)\<rparr>
     else m)"

definition GetVersion :: "int mgr_act" where
  "GetVersion = get mgr_ver"

definition IsUpdatedSince :: "int \<Rightarrow> bool mgr_act" where
  "IsUpdatedSince oldVer = get (\<lambda>m. pendingVer m > oldVer)"

text \<open>The loop of \<open>ProcessPendingUpdates\<close>. A snapshot of a type that is already known is moved out of the list, which
  leaves a null pointer there; a new one is shared by the list and the map. The result has the list, the map, what was
  sent and whether every update was accepted.\<close>

fun process_pending ::
  "(BinaryTypeSnapshot list \<Rightarrow> BinaryTypeSnapshot \<Rightarrow> bool) \<Rightarrow> BinaryTypeSnapshot option list \<Rightarrow>
   (int \<rightharpoonup> BinaryTypeSnapshot option) \<Rightarrow> BinaryTypeSnapshot list \<Rightarrow>
   BinaryTypeSnapshot option list \<times> (int \<rightharpoonup> BinaryTypeSnapshot option) \<times> BinaryTypeSnapshot list \<times> bool" where
  "process_pending upd [] snaps log = ([], snaps, log, True)"
| "process_pending upd (None # ps) snaps log =
     (let (ps', snaps', log', done) = process_pending upd ps snaps log in (None # ps', snaps', log', done))"
| "process_pending upd (Some p # ps) snaps log =
     (if \<not> upd log p then (Some p # ps, snaps, log @ [p], False)
      else
        let (kept, new) =
              (case snaps (snap_typeId p) of
                 None \<Rightarrow> (Some p, p)
               | Some old \<Rightarrow> (None, CopyFieldsFrom old p));
            (ps', snaps', log', done) = process_pending upd ps (snaps(snap_typeId p \<mapsto> Some new)) (log @ [p])
        in (kept # ps', snaps', log', done))"

definition ProcessPendingUpdates ::
  "(BinaryTypeSnapshot list \<Rightarrow> BinaryTypeSnapshot \<Rightarrow> bool) \<Rightarrow> (string option) mgr_act" where
  "ProcessPendingUpdates upd = (\<lambda>m.
     if \<not> has_updater m then Inr (Some ''Updater is not set'', m)
     else
       let (ps, snaps, log, done) = process_pending upd (pending m) (snapshots m) (sent m)
       in if done then
            Inr (None, m\<lparr>snapshots := snaps, pending := [], sent := log, mgr_ver := pendingVer m\<rparr>)
          else
            Inr (Some ''Can not send update'', m\<lparr>snapshots := snaps, pending := ps, sent := log\<rparr>))"

definition SetUpdater :: "bool \<Rightarrow> unit mgr_act" where
  "SetUpdater present = change (\<lambda>m. m\<lparr>has_updater := present\<rparr>)"

text \<open>The service may answer an error, no snapshot (a null pointer) or a snapshot; \<open>insert\<close> keeps an entry that is there.\<close>

definition mgr_GetMeta ::
  "(int \<Rightarrow> stream_error + BinaryTypeSnapshot option) \<Rightarrow> int \<Rightarrow> (BinaryTypeSnapshot option) mgr_act" where
  "mgr_GetMeta service typeId = (\<lambda>m.
     case snapshots m typeId of
       Some (Some snap) \<Rightarrow> Inr (Some snap, m)
     | known \<Rightarrow>
         (case find_pending typeId (pending m) of
            Inl e \<Rightarrow> Inl e
          | Inr (Some snap) \<Rightarrow> Inr (Some snap, m)
          | Inr None \<Rightarrow>
              if \<not> has_updater m then Inl (Thrown DOCUMENTDB_ERR_BINARY ''Metadata updater is not available.'' [])
              else
                (case service typeId of
                   Inl e \<Rightarrow> Inl e
                 | Inr snap \<Rightarrow>
                     Inr (snap, if known = None then m\<lparr>snapshots := (snapshots m)(typeId \<mapsto> snap)\<rparr> else m))))"

section \<open>Sending the pending types\<close>

definition known_ids :: "(int \<rightharpoonup> BinaryTypeSnapshot option) \<Rightarrow> int \<Rightarrow> int set" where
  "known_ids snaps t = (case snaps t of Some (Some s) \<Rightarrow> fieldIds s | _ \<Rightarrow> {})"

definition pending_ids :: "BinaryTypeSnapshot option list \<Rightarrow> int \<Rightarrow> int set" where
  "pending_ids ps t = (\<Union>p \<in> {p. Some p \<in> set ps \<and> snap_typeId p = t}. fieldIds p)"

lemma pending_ids_simps [simp]:
  "pending_ids [] t = {}"
  "pending_ids (None # ps) t = pending_ids ps t"
  "pending_ids (Some p # ps) t = (if snap_typeId p = t then fieldIds p \<union> pending_ids ps t else pending_ids ps t)"
  by (auto simp: pending_ids_def)

lemma fieldIds_CopyFieldsFrom [simp]:
  "fieldIds (CopyFieldsFrom another p) = fieldIds p \<union> (case another of Some a \<Rightarrow> fieldIds a | None \<Rightarrow> {})"
  by (auto simp: CopyFieldsFrom_def HasFields_def split: option.splits)

definition merged :: "(int \<rightharpoonup> BinaryTypeSnapshot option) \<Rightarrow> BinaryTypeSnapshot \<Rightarrow> (int \<rightharpoonup> BinaryTypeSnapshot option)" where
  "merged snaps p = snaps(snap_typeId p \<mapsto>
     Some (case snaps (snap_typeId p) of None \<Rightarrow> p | Some old \<Rightarrow> CopyFieldsFrom old p))"

lemma process_pending_Some:
  "upd log p \<Longrightarrow> process_pending upd ps (merged snaps p) (log @ [p]) = (ps', snaps', log', done) \<Longrightarrow>
   process_pending upd (Some p # ps) snaps log =
     ((case snaps (snap_typeId p) of None \<Rightarrow> Some p | Some old \<Rightarrow> None) # ps', snaps', log', done)"
  by (auto simp: merged_def Let_def split: option.splits)

lemma known_ids_merged:
  "known_ids (merged snaps p) t = (if snap_typeId p = t then fieldIds p \<union> known_ids snaps t else known_ids snaps t)"
  by (auto simp: known_ids_def merged_def split: option.splits)

lemma process_pending_ids:
  "process_pending upd ps snaps log = (ps', snaps', log', True) \<Longrightarrow>
   known_ids snaps' t = known_ids snaps t \<union> pending_ids ps t
   \<and> log' = log @ map the (filter (\<lambda>p. p \<noteq> None) ps)"
proof (induction ps arbitrary: snaps log ps')
  case (Cons q ps)
  show ?case
  proof (cases q)
    case None
    with Cons show ?thesis by (auto simp: Let_def split: prod.splits)
  next
    case (Some p)
    have u: "upd log p"
      using Cons.prems Some by (auto split: if_splits)
    obtain ps1 snaps1 log1 d where r: "process_pending upd ps (merged snaps p) (log @ [p]) = (ps1, snaps1, log1, d)"
      by (metis prod_cases4)
    with Cons.prems Some u have "snaps1 = snaps'" "log1 = log'" "d"
      by (simp_all only: process_pending_Some [OF u r]) simp_all
    with Cons.IH [of "merged snaps p" "log @ [p]" ps1] r show ?thesis
      by (auto simp: Some known_ids_merged)
  qed
qed simp

lemma process_pending_accepted:
  "(\<And>log p. upd log p) \<Longrightarrow> \<exists>ps' snaps' log'. process_pending upd ps snaps log = (ps', snaps', log', True)"
  by (induction upd ps snaps log rule: process_pending.induct) (auto simp: Let_def split: prod.splits option.splits)

text \<open>(C33) Sending the pending types: when the service accepts every update, the manager sends each pending snapshot once and
  in order, nothing stays pending, its version is the pending one, and of every type exactly the fields that were known
  or pending are known.\<close>

theorem ProcessPendingUpdates_complete:
  assumes "has_updater m" and "\<And>log p. upd log p"
  shows "\<exists>m'. ProcessPendingUpdates upd m = Inr (None, m') \<and> pending m' = [] \<and> mgr_ver m' = pendingVer m
    \<and> sent m' = sent m @ map the (filter (\<lambda>p. p \<noteq> None) (pending m))
    \<and> (\<forall>t. known_ids (snapshots m') t = known_ids (snapshots m) t \<union> pending_ids (pending m) t)"
proof -
  obtain ps snaps log where r: "process_pending upd (pending m) (snapshots m) (sent m) = (ps, snaps, log, True)"
    using process_pending_accepted assms(2) by blast
  show ?thesis
    using assms(1) r process_pending_ids [OF r] by (simp add: ProcessPendingUpdates_def)
qed

theorem ProcessPendingUpdates_complete_witness:
  "\<exists>m'. ProcessPendingUpdates (\<lambda>_ _. True)
          (newBinaryTypeManager\<lparr>has_updater := True,
             pending := [Some (snap_AddField 5 ''f'' 3 (newBinaryTypeSnapshot ''T'' [] 7))]\<rparr>) = Inr (None, m')
     \<and> pending m' = [] \<and> known_ids (snapshots m') 7 = {5}"
proof -
  let ?m = "newBinaryTypeManager\<lparr>has_updater := True,
    pending := [Some (snap_AddField 5 ''f'' 3 (newBinaryTypeSnapshot ''T'' [] 7))]\<rparr>"
  have "known_ids (snapshots ?m) 7 \<union> pending_ids (pending ?m) 7 = {5}"
    by (simp add: newBinaryTypeManager_def known_ids_def newBinaryTypeSnapshot_def snap_AddField_def)
  then show ?thesis
    using ProcessPendingUpdates_complete [of ?m "\<lambda>_ _. True"] by auto
qed

text \<open>Null snapshots. When the service accepts the update of a type that is known and refuses the next one, the
  accepted one has been moved out of the list, which is kept: looking up any type that is not known then goes through a
  null pointer. And when the service does not know a type, its null answer is stored: the next object of that type has
  a handler without origin, which is copied through a null pointer when the first field is written.\<close>

theorem null_snapshots:
  assumes "has_updater m" and "pending m = Some p # Some q # ps"
    and "snapshots m (snap_typeId p) = Some old" and "upd (sent m) p" and "\<not> upd (sent m @ [p]) q"
    and "snapshots m u = None" and "u \<noteq> snap_typeId p"
  shows "(\<exists>m'. ProcessPendingUpdates upd m = Inr (Some ''Can not send update'', m')
            \<and> pending m' = None # Some q # ps
            \<and> GetHandler name aff u m' = Inl WildAccess \<and> mgr_GetMeta service u m' = Inl WildAccess)
    \<and> (\<forall>v. service v = Inr None \<longrightarrow>
          (\<exists>m' h. mgr_GetMeta service v (m\<lparr>pending := [], snapshots := Map.empty\<rparr>) = Inr (None, m')
            \<and> GetHandler name aff v m' = Inr (h, m') \<and> OnFieldWritten fid fname ftype h = Inl WildAccess))"
  using assms
  by (simp add: ProcessPendingUpdates_def GetHandler_def mgr_GetMeta_def newBinaryTypeHandler_def OnFieldWritten_def)

end
