(* ===== verification/Odbc_Binary.thy ===== *)
theory Odbc_Binary
  imports Odbc_BinaryType Odbc_AppBuffer
begin

text \<open>
  Writing the binary protocol: \<^verbatim>\<open>impl/binary/binary_utils.cpp\<close>, \<^verbatim>\<open>binary_schema.cpp\<close>,
  \<^verbatim>\<open>binary_object_header\<close> and \<^verbatim>\<open>binary_writer_impl\<close>. A writer holds its stream, the identifiers of the type it
  writes, the container session (\<open>elem*\<close>), the raw mode (\<open>rawPos\<close>), the schema of the fields written so far and the
  handler that collects type metadata. A C++ type that is written as an object is described by \<open>BinaryTypeT\<close>, the
  functions of its \<open>BinaryType\<close> specialisation. A pointer to an array that may be null is an optional list.
\<close>

section \<open>Constants\<close>

abbreviation (input) "DOCUMENTDB_HDR_NULL \<equiv> 101 :: int"
abbreviation (input) "DOCUMENTDB_HDR_HND \<equiv> 102 :: int"
abbreviation (input) "DOCUMENTDB_HDR_FULL \<equiv> 103 :: int"
abbreviation (input) "DOCUMENTDB_PROTO_VER \<equiv> 1 :: int"
abbreviation (input) "DOCUMENTDB_OFFSET_FLAGS \<equiv> 2 :: int"
abbreviation (input) "DOCUMENTDB_OFFSET_TYPE_ID \<equiv> 4 :: int"
abbreviation (input) "DOCUMENTDB_OFFSET_HASH_CODE \<equiv> 8 :: int"
abbreviation (input) "DOCUMENTDB_OFFSET_LEN \<equiv> 12 :: int"
abbreviation (input) "DOCUMENTDB_OFFSET_SCHEMA_ID \<equiv> 16 :: int"
abbreviation (input) "DOCUMENTDB_OFFSET_SCHEMA_OR_RAW_OFF \<equiv> 20 :: int"
abbreviation (input) "DOCUMENTDB_DFLT_HDR_LEN \<equiv> 24 :: int"
abbreviation (input) "DOCUMENTDB_BINARY_HDR_LEN \<equiv> 5 :: int"
abbreviation (input) "DOCUMENTDB_COMMON_HDR_LEN \<equiv> 1 :: int"
abbreviation (input) "DOCUMENTDB_TYPE_OBJECT \<equiv> 103 :: int"
abbreviation (input) "DOCUMENTDB_TYPE_OPTM_MARSH \<equiv> -2 :: int"
abbreviation (input) "DOCUMENTDB_TYPE_BYTE \<equiv> 1 :: int"
abbreviation (input) "DOCUMENTDB_TYPE_SHORT \<equiv> 2 :: int"
abbreviation (input) "DOCUMENTDB_TYPE_INT \<equiv> 3 :: int"
abbreviation (input) "DOCUMENTDB_TYPE_LONG \<equiv> 4 :: int"
abbreviation (input) "DOCUMENTDB_TYPE_FLOAT \<equiv> 5 :: int"
abbreviation (input) "DOCUMENTDB_TYPE_DOUBLE \<equiv> 6 :: int"
abbreviation (input) "DOCUMENTDB_TYPE_CHAR \<equiv> 7 :: int"
abbreviation (input) "DOCUMENTDB_TYPE_BOOL \<equiv> 8 :: int"
abbreviation (input) "DOCUMENTDB_TYPE_STRING \<equiv> 9 :: int"
abbreviation (input) "DOCUMENTDB_TYPE_UUID \<equiv> 10 :: int"
abbreviation (input) "DOCUMENTDB_TYPE_DATE \<equiv> 11 :: int"
abbreviation (input) "DOCUMENTDB_TYPE_ARRAY_BYTE \<equiv> 12 :: int"
abbreviation (input) "DOCUMENTDB_TYPE_ARRAY_SHORT \<equiv> 13 :: int"
abbreviation (input) "DOCUMENTDB_TYPE_ARRAY_INT \<equiv> 14 :: int"
abbreviation (input) "DOCUMENTDB_TYPE_ARRAY_LONG \<equiv> 15 :: int"
abbreviation (input) "DOCUMENTDB_TYPE_ARRAY_FLOAT \<equiv> 16 :: int"
abbreviation (input) "DOCUMENTDB_TYPE_ARRAY_DOUBLE \<equiv> 17 :: int"
abbreviation (input) "DOCUMENTDB_TYPE_ARRAY_CHAR \<equiv> 18 :: int"
abbreviation (input) "DOCUMENTDB_TYPE_ARRAY_BOOL \<equiv> 19 :: int"
abbreviation (input) "DOCUMENTDB_TYPE_ARRAY_STRING \<equiv> 20 :: int"
abbreviation (input) "DOCUMENTDB_TYPE_ARRAY_UUID \<equiv> 21 :: int"
abbreviation (input) "DOCUMENTDB_TYPE_ARRAY_DATE \<equiv> 22 :: int"
abbreviation (input) "DOCUMENTDB_TYPE_ARRAY \<equiv> 23 :: int"
abbreviation (input) "DOCUMENTDB_TYPE_COLLECTION \<equiv> 24 :: int"
abbreviation (input) "DOCUMENTDB_TYPE_MAP \<equiv> 25 :: int"
abbreviation (input) "DOCUMENTDB_TYPE_BINARY \<equiv> 27 :: int"
abbreviation (input) "DOCUMENTDB_TYPE_ENUM \<equiv> 28 :: int"
abbreviation (input) "DOCUMENTDB_TYPE_DECIMAL \<equiv> 30 :: int"
abbreviation (input) "DOCUMENTDB_TYPE_ARRAY_DECIMAL \<equiv> 31 :: int"
abbreviation (input) "DOCUMENTDB_TYPE_TIMESTAMP \<equiv> 33 :: int"
abbreviation (input) "DOCUMENTDB_TYPE_ARRAY_TIMESTAMP \<equiv> 34 :: int"
abbreviation (input) "DOCUMENTDB_TYPE_TIME \<equiv> 36 :: int"
abbreviation (input) "DOCUMENTDB_TYPE_ARRAY_TIME \<equiv> 37 :: int"
abbreviation (input) "DOCUMENTDB_TYPE_BINARY_ENUM \<equiv> 38 :: int"
abbreviation (input) "DOCUMENTDB_BINARY_FLAG_USER_TYPE \<equiv> 1 :: u16"
abbreviation (input) "DOCUMENTDB_BINARY_FLAG_HAS_SCHEMA \<equiv> 2 :: u16"
abbreviation (input) "DOCUMENTDB_BINARY_FLAG_HAS_RAW \<equiv> 4 :: u16"
abbreviation (input) "DOCUMENTDB_BINARY_FLAG_OFFSET_ONE_BYTE \<equiv> 8 :: u16"
abbreviation (input) "DOCUMENTDB_BINARY_FLAG_OFFSET_TWO_BYTES \<equiv> 16 :: u16"
abbreviation (input) "DOCUMENTDB_BINARY_FLAG_COMPACT_FOOTER \<equiv> 32 :: u16"

section \<open>Values\<close>

record Timestamp =
  ts_seconds :: int
  ts_fractionNs :: int

record BinaryEnumEntry =
  enum_typeId :: int
  enum_ordinal :: int

text \<open>A date and a time are their milliseconds.\<close>

definition ts_GetMilliseconds :: "Timestamp \<Rightarrow> int" where
  "ts_GetMilliseconds t = to_signed 64 (ts_seconds t * 1000 + c_div (ts_fractionNs t) 1000000)"

definition Timestamp_of_ms :: "int \<Rightarrow> Timestamp" where
  "Timestamp_of_ms ms = \<lparr>ts_seconds = c_div ms 1000, ts_fractionNs = to_signed 32 (c_mod ms 1000 * 1000000)\<rparr>"

definition Guid_of :: "int \<Rightarrow> int \<Rightarrow> Guid" where
  "Guid_of most least = \<lparr>guid_most = word_of_int most, guid_least = word_of_int least\<rparr>"

definition Guid_GetVersion :: "Guid \<Rightarrow> int" where
  "Guid_GetVersion g = sint (drop_bit 12 (guid_most g) AND 0x0f)"

definition Guid_GetHashCode :: "Guid \<Rightarrow> u32" where
  "Guid_GetHashCode g = (let hilo = guid_most g XOR guid_least g in ucast (drop_bit 32 hilo) XOR ucast hilo)"

definition Guid_Compare :: "Guid \<Rightarrow> Guid \<Rightarrow> int" where
  "Guid_Compare g h =
     (if guid_most g \<noteq> guid_most h then sint (guid_most g - guid_most h) else sint (guid_least g - guid_least h))"

section \<open>Utilities\<close>

fun data_hash :: "int \<Rightarrow> u8 list \<Rightarrow> int" where
  "data_hash hash [] = hash"
| "data_hash hash (b # bs) = data_hash (to_signed 32 (31 * hash + sint b)) bs"

definition GetDataHashCode :: "u8 list option \<Rightarrow> int" where
  "GetDataHashCode data = (case data of Some bs \<Rightarrow> data_hash 1 bs | None \<Rightarrow> 0)"

text \<open>Reads from memory at a position, with and without the check.\<close>

definition UnsafeReadPrimitive :: "nat \<Rightarrow> InteropMemory \<Rightarrow> int \<Rightarrow> stream_error + u8 list" where
  "UnsafeReadPrimitive w m pos =
     (case load pos (int w) (newInteropInputStream m) of Inl e \<Rightarrow> Inl e | Inr (bs, _) \<Rightarrow> Inr bs)"

definition CheckEnoughData :: "InteropMemory \<Rightarrow> int \<Rightarrow> int \<Rightarrow> stream_error + unit" where
  "CheckEnoughData m pos len =
     (if Length m < to_signed 32 (pos + len) then
        Inl (Thrown DOCUMENTDB_ERR_MEMORY ''Not enough data in the binary object''
               [(''len'', Length m), (''pos'', pos), (''requested'', len)])
      else Inr ())"

definition ReadPrimitive :: "nat \<Rightarrow> InteropMemory \<Rightarrow> int \<Rightarrow> stream_error + u8 list" where
  "ReadPrimitive w m pos =
     (case CheckEnoughData m pos (int w) of Inl e \<Rightarrow> Inl e | Inr _ \<Rightarrow> UnsafeReadPrimitive w m pos)"

definition mem_ReadInt :: "bool \<Rightarrow> nat \<Rightarrow> InteropMemory \<Rightarrow> int \<Rightarrow> stream_error + int" where
  "mem_ReadInt checked w m pos =
     (case (if checked then ReadPrimitive w m pos else UnsafeReadPrimitive w m pos) of
        Inl e \<Rightarrow> Inl e
      | Inr bs \<Rightarrow> Inr (sint_of_bytes bs))"

definition BU_WriteGuid :: "Guid \<Rightarrow> unit out_act" where
  "BU_WriteGuid val = followed (out_WriteInt64 (sint (guid_most val))) (out_WriteInt64 (sint (guid_least val)))"

definition BU_ReadGuid :: "Guid in_act" where
  "BU_ReadGuid = andThen in_ReadInt64 (\<lambda>most. andThen in_ReadInt64 (\<lambda>least. ret (Guid_of most least)))"

definition BU_WriteDate :: "int \<Rightarrow> unit out_act" where
  "BU_WriteDate val = out_WriteInt64 val"

definition BU_ReadDate :: "int in_act" where
  "BU_ReadDate = in_ReadInt64"

definition BU_WriteTimestamp :: "Timestamp \<Rightarrow> unit out_act" where
  "BU_WriteTimestamp val =
     followed (out_WriteInt64 (to_signed 64 (ts_seconds val * 1000 + c_div (ts_fractionNs val) 1000000)))
       (out_WriteInt32 (c_mod (ts_fractionNs val) 1000000))"

definition BU_ReadTimestamp :: "Timestamp in_act" where
  "BU_ReadTimestamp = andThen in_ReadInt64 (\<lambda>milliseconds. andThen in_ReadInt32 (\<lambda>nanoseconds.
     ret \<lparr>ts_seconds = c_div milliseconds 1000,
          ts_fractionNs = to_signed 32 (c_mod milliseconds 1000 * 1000000 + nanoseconds)\<rparr>))"

definition BU_WriteTime :: "int \<Rightarrow> unit out_act" where
  "BU_WriteTime val = out_WriteInt64 val"

definition BU_ReadTime :: "int in_act" where
  "BU_ReadTime = in_ReadInt64"

definition BU_WriteBinaryEnumEntry :: "BinaryEnumEntry \<Rightarrow> unit out_act" where
  "BU_WriteBinaryEnumEntry e = followed (out_WriteInt32 (enum_typeId e)) (out_WriteInt32 (enum_ordinal e))"

definition BU_ReadBinaryEnumEntry :: "BinaryEnumEntry in_act" where
  "BU_ReadBinaryEnumEntry = andThen in_ReadInt32 (\<lambda>typeId. andThen in_ReadInt32 (\<lambda>ordinal.
     ret \<lparr>enum_typeId = typeId, enum_ordinal = ordinal\<rparr>))"

text \<open>The bytes of a string, as the signed numbers the stream moves.\<close>

definition char_codes :: "string \<Rightarrow> int list" where
  "char_codes s = map char_code s"

definition BU_WriteString :: "string \<Rightarrow> int \<Rightarrow> unit out_act" where
  "BU_WriteString val len = followed (out_WriteInt32 len) (out_WriteInt8Array (char_codes val) len)"

section \<open>Schema\<close>

datatype BinaryOffsetType = ONE_BYTE | TWO_BYTES | FOUR_BYTES

record BinarySchema =
  schema_id :: u32
  fieldsInfo :: "(int \<times> int) list"

definition newBinarySchema :: BinarySchema where
  "newBinarySchema = \<lparr>schema_id = 0, fieldsInfo = []\<rparr>"

definition schema_AddField :: "int \<Rightarrow> int \<Rightarrow> BinarySchema \<Rightarrow> BinarySchema" where
  "schema_AddField fieldId offset sc =
     (let f = word_of_int fieldId :: u32;
          start = (if schema_id sc = 0 then 0x811C9DC5 else schema_id sc);
          acc = (start XOR (f AND 0xFF)) * 0x01000193;
          acc = (acc XOR (drop_bit 8 f AND 0xFF)) * 0x01000193;
          acc = (acc XOR (drop_bit 16 f AND 0xFF)) * 0x01000193;
          acc = (acc XOR (drop_bit 24 f AND 0xFF)) * 0x01000193
      in \<lparr>schema_id = acc, fieldsInfo = fieldsInfo sc @ [(fieldId, offset)]\<rparr>)"

definition schema_Empty :: "BinarySchema \<Rightarrow> bool" where
  "schema_Empty sc \<longleftrightarrow> fieldsInfo sc = []"

definition schema_Clear :: "BinarySchema \<Rightarrow> BinarySchema" where
  "schema_Clear sc = newBinarySchema"

text \<open>\<open>back()\<close> of an empty vector is undefined; the writer asks only when there are fields.\<close>

definition schema_GetType :: "BinarySchema \<Rightarrow> stream_error + BinaryOffsetType" where
  "schema_GetType sc =
     (if fieldsInfo sc = [] then Inl WildAccess
      else
        let maxOffset = snd (last (fieldsInfo sc))
        in Inr (if maxOffset < 0x100 then ONE_BYTE else if maxOffset < 0x10000 then TWO_BYTES else FOUR_BYTES))"

fun write_offset :: "BinaryOffsetType \<Rightarrow> int \<Rightarrow> unit out_act" where
  "write_offset ONE_BYTE offset = out_WriteInt8 (to_signed 8 offset)"
| "write_offset TWO_BYTES offset = out_WriteInt16 (to_signed 16 offset)"
| "write_offset FOUR_BYTES offset = out_WriteInt32 offset"

definition write_field_info :: "BinaryOffsetType \<Rightarrow> int \<times> int \<Rightarrow> unit out_act" where
  "write_field_info typ info = followed (out_WriteInt32 (fst info)) (write_offset typ (snd info))"

definition schema_Write :: "BinarySchema \<Rightarrow> unit out_act" where
  "schema_Write sc =
     (case schema_GetType sc of
        Inl e \<Rightarrow> fail e
      | Inr typ \<Rightarrow> for_each (write_field_info typ) (fieldsInfo sc))"

section \<open>Object headers\<close>

text \<open>The packed layout of the 24 bytes: each accessor is a read at a fixed offset.\<close>

abbreviation (input) "HEADER_SIZE \<equiv> 24 :: int"

definition hdr_GetFlags :: "InteropMemory \<Rightarrow> int \<Rightarrow> stream_error + u16" where
  "hdr_GetFlags m start = map_sum id word_of_int (mem_ReadInt False 2 m (start + 2))"

definition hdr_GetTypeId :: "InteropMemory \<Rightarrow> int \<Rightarrow> stream_error + int" where
  "hdr_GetTypeId m start = mem_ReadInt False 4 m (start + 4)"

definition hdr_GetHashCode :: "InteropMemory \<Rightarrow> int \<Rightarrow> stream_error + int" where
  "hdr_GetHashCode m start = mem_ReadInt False 4 m (start + 8)"

definition hdr_GetLength :: "InteropMemory \<Rightarrow> int \<Rightarrow> stream_error + int" where
  "hdr_GetLength m start = mem_ReadInt False 4 m (start + 12)"

definition hdr_GetSchemaId :: "InteropMemory \<Rightarrow> int \<Rightarrow> stream_error + int" where
  "hdr_GetSchemaId m start = mem_ReadInt False 4 m (start + 16)"

definition hdr_GetSchemaOffset :: "InteropMemory \<Rightarrow> int \<Rightarrow> stream_error + int" where
  "hdr_GetSchemaOffset m start = mem_ReadInt False 4 m (start + 20)"

definition has_flag :: "u16 \<Rightarrow> u16 \<Rightarrow> bool" where
  "has_flag flags f \<longleftrightarrow> flags AND f \<noteq> 0"

definition bind_sum :: "'e + 'a \<Rightarrow> ('a \<Rightarrow> 'e + 'b) \<Rightarrow> 'e + 'b" where
  "bind_sum r f = (case r of Inl e \<Rightarrow> Inl e | Inr x \<Rightarrow> f x)"

lemma bind_sum_simps [simp]: "bind_sum (Inl e) f = Inl e" "bind_sum (Inr x) f = f x"
  by (simp_all add: bind_sum_def)

definition hdr_GetFooterOffset :: "InteropMemory \<Rightarrow> int \<Rightarrow> stream_error + int" where
  "hdr_GetFooterOffset m start = bind_sum (hdr_GetFlags m start) (\<lambda>flags.
     if \<not> has_flag flags DOCUMENTDB_BINARY_FLAG_HAS_SCHEMA then hdr_GetLength m start
     else hdr_GetSchemaOffset m start)"

definition hdr_GetFooterLength :: "InteropMemory \<Rightarrow> int \<Rightarrow> stream_error + int" where
  "hdr_GetFooterLength m start = bind_sum (hdr_GetFlags m start) (\<lambda>flags.
     if \<not> has_flag flags DOCUMENTDB_BINARY_FLAG_HAS_SCHEMA then Inr 0
     else bind_sum (hdr_GetLength m start) (\<lambda>len. bind_sum (hdr_GetSchemaOffset m start) (\<lambda>off.
       Inr (to_signed 32 (len - off)))))"

definition hdr_GetDataLength :: "InteropMemory \<Rightarrow> int \<Rightarrow> stream_error + int" where
  "hdr_GetDataLength m start = bind_sum (hdr_GetFooterOffset m start) (\<lambda>off. Inr (to_signed 32 (off - HEADER_SIZE)))"

section \<open>The writer\<close>

record BinaryWriterImpl =
  wr_stream :: InteropOutputStream
  wr_idRslvr :: "BinaryIdResolver option"
  wr_metaMgr :: "BinaryTypeManager option"
  wr_metaHnd :: "BinaryTypeHandler option"
  wr_typeId :: int
  wr_elemIdGen :: int
  wr_elemId :: int
  wr_elemCnt :: int
  wr_elemPos :: int
  wr_rawPos :: int
  wr_schema :: BinarySchema
  wr_start :: int

type_synonym 'a wr_act = "(BinaryWriterImpl, 'a) act"

definition newBinaryWriterImpl ::
  "InteropOutputStream \<Rightarrow> BinaryIdResolver \<Rightarrow> BinaryTypeManager option \<Rightarrow> BinaryTypeHandler option \<Rightarrow> int \<Rightarrow>
   BinaryWriterImpl" where
  "newBinaryWriterImpl stream rslvr mgr hnd start =
     \<lparr>wr_stream = stream, wr_idRslvr = Some rslvr, wr_metaMgr = mgr, wr_metaHnd = hnd,
      wr_typeId = rslv_typeId rslvr, wr_elemIdGen = 0, wr_elemId = 0, wr_elemCnt = 0, wr_elemPos = -1,
      wr_rawPos = -1, wr_schema = newBinarySchema, wr_start = start\<rparr>"

definition newRawWriter :: "InteropOutputStream \<Rightarrow> BinaryTypeManager option \<Rightarrow> BinaryWriterImpl" where
  "newRawWriter stream mgr =
     \<lparr>wr_stream = stream, wr_idRslvr = None, wr_metaMgr = mgr, wr_metaHnd = None,
      wr_typeId = 0, wr_elemIdGen = 0, wr_elemId = 0, wr_elemCnt = 0, wr_elemPos = -1,
      wr_rawPos = 0, wr_schema = newBinarySchema, wr_start = out_pos stream\<rparr>"

text \<open>A call on the stream.\<close>

definition on_out :: "'a out_act \<Rightarrow> 'a wr_act" where
  "on_out m = (\<lambda>w. case m (wr_stream w) of Inl e \<Rightarrow> Inl e | Inr (x, s) \<Rightarrow> Inr (x, w\<lparr>wr_stream := s\<rparr>))"

definition wr_CheckRawMode :: "bool \<Rightarrow> unit wr_act" where
  "wr_CheckRawMode expected = andThen (get (\<lambda>w. wr_rawPos w \<noteq> -1)) (\<lambda>rawMode.
     if expected \<and> \<not> rawMode then
       fail (Thrown DOCUMENTDB_ERR_BINARY ''Operation can be performed only in raw mode.'' [])
     else if \<not> expected \<and> rawMode then
       fail (Thrown DOCUMENTDB_ERR_BINARY ''Operation cannot be performed in raw mode.'' [])
     else ret ())"

definition wr_CheckSingleMode :: "bool \<Rightarrow> unit wr_act" where
  "wr_CheckSingleMode expected = andThen (get wr_elemId) (\<lambda>elemId.
     if expected \<and> elemId \<noteq> 0 then
       fail (Thrown DOCUMENTDB_ERR_BINARY ''Operation cannot be performed when container is being written.'' [])
     else if \<not> expected \<and> elemId = 0 then
       fail (Thrown DOCUMENTDB_ERR_BINARY ''Operation can be performed only when container is being written.'' [])
     else ret ())"

definition wr_StartContainerSession :: "bool \<Rightarrow> unit wr_act" where
  "wr_StartContainerSession expRawMode =
     followed (wr_CheckRawMode expRawMode)
     (followed (wr_CheckSingleMode True)
     (andThen (on_out out_Position) (\<lambda>pos. change (\<lambda>w.
        w\<lparr>wr_elemIdGen := to_signed 32 (wr_elemIdGen w + 1), wr_elemId := to_signed 32 (wr_elemIdGen w + 1),
          wr_elemPos := pos\<rparr>))))"

definition wr_CheckSession :: "int \<Rightarrow> unit wr_act" where
  "wr_CheckSession expSes = andThen (get wr_elemId) (\<lambda>elemId.
     if elemId \<noteq> expSes then
       fail (Thrown DOCUMENTDB_ERR_BINARY ''Containter write session has been finished or is not started yet.'' [])
     else ret ())"

definition WriteFieldId :: "string \<Rightarrow> int \<Rightarrow> unit wr_act" where
  "WriteFieldId fieldName fieldTypeId = (\<lambda>w.
     case wr_idRslvr w of
       None \<Rightarrow> Inl WildAccess
     | Some r \<Rightarrow>
         (case rslv_fieldId r (wr_typeId w) (Some fieldName) of
            Inl e \<Rightarrow> Inl e
          | Inr fieldId \<Rightarrow>
              let fieldOff = to_signed 32 (out_pos (wr_stream w) - wr_start w);
                  w' = w\<lparr>wr_schema := schema_AddField fieldId fieldOff (wr_schema w)\<rparr>
              in (case wr_metaHnd w of
                    None \<Rightarrow> Inr ((), w')
                  | Some h \<Rightarrow>
                      (case OnFieldWritten fieldId fieldName fieldTypeId h of
                         Inl e \<Rightarrow> Inl e
                       | Inr h' \<Rightarrow> Inr ((), w'\<lparr>wr_metaHnd := Some h'\<rparr>)))))"

definition in_mode :: "bool \<Rightarrow> 'a wr_act \<Rightarrow> 'a wr_act" where
  "in_mode raw m = followed (wr_CheckRawMode raw) (followed (wr_CheckSingleMode True) m)"

definition WritePrimitiveRaw :: "'t \<Rightarrow> ('t \<Rightarrow> unit out_act) \<Rightarrow> unit wr_act" where
  "WritePrimitiveRaw val func = in_mode True (on_out (func val))"

definition write_array :: "'t list option \<Rightarrow> int \<Rightarrow> ('t list \<Rightarrow> int \<Rightarrow> unit out_act) \<Rightarrow> int \<Rightarrow> unit out_act" where
  "write_array val len func hdr =
     (case val of
        Some xs \<Rightarrow> followed (out_WriteInt8 hdr) (followed (out_WriteInt32 len) (func xs len))
      | None \<Rightarrow> out_WriteInt8 DOCUMENTDB_HDR_NULL)"

definition WritePrimitiveArrayRaw ::
  "'t list option \<Rightarrow> int \<Rightarrow> ('t list \<Rightarrow> int \<Rightarrow> unit out_act) \<Rightarrow> int \<Rightarrow> unit wr_act" where
  "WritePrimitiveArrayRaw val len func hdr = in_mode True (on_out (write_array val len func hdr))"

definition WritePrimitive :: "string \<Rightarrow> 't \<Rightarrow> ('t \<Rightarrow> unit out_act) \<Rightarrow> int \<Rightarrow> unit wr_act" where
  "WritePrimitive fieldName val func typ = in_mode False
     (followed (WriteFieldId fieldName typ) (on_out (followed (out_WriteInt8 typ) (func val))))"

definition WritePrimitiveArray ::
  "string \<Rightarrow> 't list option \<Rightarrow> int \<Rightarrow> ('t list \<Rightarrow> int \<Rightarrow> unit out_act) \<Rightarrow> int \<Rightarrow> unit wr_act" where
  "WritePrimitiveArray fieldName val len func hdr = in_mode False
     (followed (WriteFieldId fieldName hdr) (on_out (write_array val len func hdr)))"

definition wr_WriteInt8 :: "int \<Rightarrow> unit wr_act" where
  "wr_WriteInt8 val = WritePrimitiveRaw val out_WriteInt8"

definition wr_WriteInt8Array :: "int list option \<Rightarrow> int \<Rightarrow> unit wr_act" where
  "wr_WriteInt8Array val len = WritePrimitiveArrayRaw val len out_WriteInt8Array DOCUMENTDB_TYPE_ARRAY_BYTE"

definition wr_WriteInt8_field :: "string \<Rightarrow> int \<Rightarrow> unit wr_act" where
  "wr_WriteInt8_field fieldName val = WritePrimitive fieldName val out_WriteInt8 DOCUMENTDB_TYPE_BYTE"

definition wr_WriteInt8Array_field :: "string \<Rightarrow> int list option \<Rightarrow> int \<Rightarrow> unit wr_act" where
  "wr_WriteInt8Array_field fieldName val len =
     WritePrimitiveArray fieldName val len out_WriteInt8Array DOCUMENTDB_TYPE_ARRAY_BYTE"

definition wr_WriteBool :: "bool \<Rightarrow> unit wr_act" where
  "wr_WriteBool val = WritePrimitiveRaw val out_WriteBool"

definition wr_WriteBoolArray :: "bool list option \<Rightarrow> int \<Rightarrow> unit wr_act" where
  "wr_WriteBoolArray val len = WritePrimitiveArrayRaw val len out_WriteBoolArray DOCUMENTDB_TYPE_ARRAY_BOOL"

definition wr_WriteBool_field :: "string \<Rightarrow> bool \<Rightarrow> unit wr_act" where
  "wr_WriteBool_field fieldName val = WritePrimitive fieldName val out_WriteBool DOCUMENTDB_TYPE_BOOL"

definition wr_WriteBoolArray_field :: "string \<Rightarrow> bool list option \<Rightarrow> int \<Rightarrow> unit wr_act" where
  "wr_WriteBoolArray_field fieldName val len =
     WritePrimitiveArray fieldName val len out_WriteBoolArray DOCUMENTDB_TYPE_ARRAY_BOOL"

definition wr_WriteInt16 :: "int \<Rightarrow> unit wr_act" where
  "wr_WriteInt16 val = WritePrimitiveRaw val out_WriteInt16"

definition wr_WriteInt16Array :: "int list option \<Rightarrow> int \<Rightarrow> unit wr_act" where
  "wr_WriteInt16Array val len = WritePrimitiveArrayRaw val len out_WriteInt16Array DOCUMENTDB_TYPE_ARRAY_SHORT"

definition wr_WriteInt16_field :: "string \<Rightarrow> int \<Rightarrow> unit wr_act" where
  "wr_WriteInt16_field fieldName val = WritePrimitive fieldName val out_WriteInt16 DOCUMENTDB_TYPE_SHORT"

definition wr_WriteInt16Array_field :: "string \<Rightarrow> int list option \<Rightarrow> int \<Rightarrow> unit wr_act" where
  "wr_WriteInt16Array_field fieldName val len =
     WritePrimitiveArray fieldName val len out_WriteInt16Array DOCUMENTDB_TYPE_ARRAY_SHORT"

definition wr_WriteUInt16 :: "int \<Rightarrow> unit wr_act" where
  "wr_WriteUInt16 val = WritePrimitiveRaw val out_WriteUInt16"

definition wr_WriteUInt16Array :: "int list option \<Rightarrow> int \<Rightarrow> unit wr_act" where
  "wr_WriteUInt16Array val len = WritePrimitiveArrayRaw val len out_WriteUInt16Array DOCUMENTDB_TYPE_ARRAY_CHAR"

definition wr_WriteUInt16_field :: "string \<Rightarrow> int \<Rightarrow> unit wr_act" where
  "wr_WriteUInt16_field fieldName val = WritePrimitive fieldName val out_WriteUInt16 DOCUMENTDB_TYPE_CHAR"

definition wr_WriteUInt16Array_field :: "string \<Rightarrow> int list option \<Rightarrow> int \<Rightarrow> unit wr_act" where
  "wr_WriteUInt16Array_field fieldName val len =
     WritePrimitiveArray fieldName val len out_WriteUInt16Array DOCUMENTDB_TYPE_ARRAY_CHAR"

definition wr_WriteInt32 :: "int \<Rightarrow> unit wr_act" where
  "wr_WriteInt32 val = WritePrimitiveRaw val out_WriteInt32"

definition wr_WriteInt32Array :: "int list option \<Rightarrow> int \<Rightarrow> unit wr_act" where
  "wr_WriteInt32Array val len = WritePrimitiveArrayRaw val len out_WriteInt32Array DOCUMENTDB_TYPE_ARRAY_INT"

definition wr_WriteInt32_field :: "string \<Rightarrow> int \<Rightarrow> unit wr_act" where
  "wr_WriteInt32_field fieldName val = WritePrimitive fieldName val out_WriteInt32 DOCUMENTDB_TYPE_INT"

definition wr_WriteInt32Array_field :: "string \<Rightarrow> int list option \<Rightarrow> int \<Rightarrow> unit wr_act" where
  "wr_WriteInt32Array_field fieldName val len =
     WritePrimitiveArray fieldName val len out_WriteInt32Array DOCUMENTDB_TYPE_ARRAY_INT"

definition wr_WriteInt64 :: "int \<Rightarrow> unit wr_act" where
  "wr_WriteInt64 val = WritePrimitiveRaw val out_WriteInt64"

definition wr_WriteInt64Array :: "int list option \<Rightarrow> int \<Rightarrow> unit wr_act" where
  "wr_WriteInt64Array val len = WritePrimitiveArrayRaw val len out_WriteInt64Array DOCUMENTDB_TYPE_ARRAY_LONG"

definition wr_WriteInt64_field :: "string \<Rightarrow> int \<Rightarrow> unit wr_act" where
  "wr_WriteInt64_field fieldName val = WritePrimitive fieldName val out_WriteInt64 DOCUMENTDB_TYPE_LONG"

definition wr_WriteInt64Array_field :: "string \<Rightarrow> int list option \<Rightarrow> int \<Rightarrow> unit wr_act" where
  "wr_WriteInt64Array_field fieldName val len =
     WritePrimitiveArray fieldName val len out_WriteInt64Array DOCUMENTDB_TYPE_ARRAY_LONG"

definition wr_WriteFloat :: "u32 \<Rightarrow> unit wr_act" where
  "wr_WriteFloat val = WritePrimitiveRaw val out_WriteFloat"

definition wr_WriteFloatArray :: "u32 list option \<Rightarrow> int \<Rightarrow> unit wr_act" where
  "wr_WriteFloatArray val len = WritePrimitiveArrayRaw val len out_WriteFloatArray DOCUMENTDB_TYPE_ARRAY_FLOAT"

definition wr_WriteFloat_field :: "string \<Rightarrow> u32 \<Rightarrow> unit wr_act" where
  "wr_WriteFloat_field fieldName val = WritePrimitive fieldName val out_WriteFloat DOCUMENTDB_TYPE_FLOAT"

definition wr_WriteFloatArray_field :: "string \<Rightarrow> u32 list option \<Rightarrow> int \<Rightarrow> unit wr_act" where
  "wr_WriteFloatArray_field fieldName val len =
     WritePrimitiveArray fieldName val len out_WriteFloatArray DOCUMENTDB_TYPE_ARRAY_FLOAT"

definition wr_WriteDouble :: "u64 \<Rightarrow> unit wr_act" where
  "wr_WriteDouble val = WritePrimitiveRaw val out_WriteDouble"

definition wr_WriteDoubleArray :: "u64 list option \<Rightarrow> int \<Rightarrow> unit wr_act" where
  "wr_WriteDoubleArray val len = WritePrimitiveArrayRaw val len out_WriteDoubleArray DOCUMENTDB_TYPE_ARRAY_DOUBLE"

definition wr_WriteDouble_field :: "string \<Rightarrow> u64 \<Rightarrow> unit wr_act" where
  "wr_WriteDouble_field fieldName val = WritePrimitive fieldName val out_WriteDouble DOCUMENTDB_TYPE_DOUBLE"

definition wr_WriteDoubleArray_field :: "string \<Rightarrow> u64 list option \<Rightarrow> int \<Rightarrow> unit wr_act" where
  "wr_WriteDoubleArray_field fieldName val len =
     WritePrimitiveArray fieldName val len out_WriteDoubleArray DOCUMENTDB_TYPE_ARRAY_DOUBLE"

text \<open>Values that carry their type, alone and as the elements of an array.\<close>

definition write_typed :: "('t \<Rightarrow> unit out_act) \<Rightarrow> int \<Rightarrow> 't \<Rightarrow> unit out_act" where
  "write_typed func hdr obj = followed (out_WriteInt8 hdr) (func obj)"

definition write_typed_array :: "('t \<Rightarrow> unit out_act) \<Rightarrow> int \<Rightarrow> int \<Rightarrow> 't list option \<Rightarrow> int \<Rightarrow> unit out_act" where
  "write_typed_array func hdr arrayHdr val len = write_array val len (\<lambda>xs n. for_first (write_typed func hdr) xs n) arrayHdr"

definition wr_WriteGuid :: "Guid \<Rightarrow> unit wr_act" where
  "wr_WriteGuid val = in_mode True (on_out (write_typed BU_WriteGuid DOCUMENTDB_TYPE_UUID val))"

definition wr_WriteGuidArray :: "Guid list option \<Rightarrow> int \<Rightarrow> unit wr_act" where
  "wr_WriteGuidArray val len =
     in_mode True (on_out (write_typed_array BU_WriteGuid DOCUMENTDB_TYPE_UUID DOCUMENTDB_TYPE_ARRAY_UUID val len))"

definition wr_WriteGuid_field :: "string \<Rightarrow> Guid \<Rightarrow> unit wr_act" where
  "wr_WriteGuid_field fieldName val = in_mode False
     (followed (WriteFieldId fieldName DOCUMENTDB_TYPE_UUID) (on_out (write_typed BU_WriteGuid DOCUMENTDB_TYPE_UUID val)))"

definition wr_WriteGuidArray_field :: "string \<Rightarrow> Guid list option \<Rightarrow> int \<Rightarrow> unit wr_act" where
  "wr_WriteGuidArray_field fieldName val len = in_mode False
     (followed (WriteFieldId fieldName DOCUMENTDB_TYPE_ARRAY_UUID)
       (on_out (write_typed_array BU_WriteGuid DOCUMENTDB_TYPE_UUID DOCUMENTDB_TYPE_ARRAY_UUID val len)))"

definition wr_WriteDate :: "int \<Rightarrow> unit wr_act" where
  "wr_WriteDate val = in_mode True (on_out (write_typed BU_WriteDate DOCUMENTDB_TYPE_DATE val))"

definition wr_WriteDateArray :: "int list option \<Rightarrow> int \<Rightarrow> unit wr_act" where
  "wr_WriteDateArray val len =
     in_mode True (on_out (write_typed_array BU_WriteDate DOCUMENTDB_TYPE_DATE DOCUMENTDB_TYPE_ARRAY_DATE val len))"

definition wr_WriteDate_field :: "string \<Rightarrow> int \<Rightarrow> unit wr_act" where
  "wr_WriteDate_field fieldName val = in_mode False
     (followed (WriteFieldId fieldName DOCUMENTDB_TYPE_DATE) (on_out (write_typed BU_WriteDate DOCUMENTDB_TYPE_DATE val)))"

definition wr_WriteDateArray_field :: "string \<Rightarrow> int list option \<Rightarrow> int \<Rightarrow> unit wr_act" where
  "wr_WriteDateArray_field fieldName val len = in_mode False
     (followed (WriteFieldId fieldName DOCUMENTDB_TYPE_ARRAY_DATE)
       (on_out (write_typed_array BU_WriteDate DOCUMENTDB_TYPE_DATE DOCUMENTDB_TYPE_ARRAY_DATE val len)))"

definition wr_WriteTimestamp :: "Timestamp \<Rightarrow> unit wr_act" where
  "wr_WriteTimestamp val = in_mode True (on_out (write_typed BU_WriteTimestamp DOCUMENTDB_TYPE_TIMESTAMP val))"

definition wr_WriteTimestampArray :: "Timestamp list option \<Rightarrow> int \<Rightarrow> unit wr_act" where
  "wr_WriteTimestampArray val len =
     in_mode True (on_out (write_typed_array BU_WriteTimestamp DOCUMENTDB_TYPE_TIMESTAMP DOCUMENTDB_TYPE_ARRAY_TIMESTAMP val len))"

definition wr_WriteTimestamp_field :: "string \<Rightarrow> Timestamp \<Rightarrow> unit wr_act" where
  "wr_WriteTimestamp_field fieldName val = in_mode False
     (followed (WriteFieldId fieldName DOCUMENTDB_TYPE_TIMESTAMP) (on_out (write_typed BU_WriteTimestamp DOCUMENTDB_TYPE_TIMESTAMP val)))"

definition wr_WriteTimestampArray_field :: "string \<Rightarrow> Timestamp list option \<Rightarrow> int \<Rightarrow> unit wr_act" where
  "wr_WriteTimestampArray_field fieldName val len = in_mode False
     (followed (WriteFieldId fieldName DOCUMENTDB_TYPE_ARRAY_TIMESTAMP)
       (on_out (write_typed_array BU_WriteTimestamp DOCUMENTDB_TYPE_TIMESTAMP DOCUMENTDB_TYPE_ARRAY_TIMESTAMP val len)))"

definition wr_WriteTime :: "int \<Rightarrow> unit wr_act" where
  "wr_WriteTime val = in_mode True (on_out (write_typed BU_WriteTime DOCUMENTDB_TYPE_TIME val))"

definition wr_WriteTimeArray :: "int list option \<Rightarrow> int \<Rightarrow> unit wr_act" where
  "wr_WriteTimeArray val len =
     in_mode True (on_out (write_typed_array BU_WriteTime DOCUMENTDB_TYPE_TIME DOCUMENTDB_TYPE_ARRAY_TIME val len))"

definition wr_WriteTime_field :: "string \<Rightarrow> int \<Rightarrow> unit wr_act" where
  "wr_WriteTime_field fieldName val = in_mode False
     (followed (WriteFieldId fieldName DOCUMENTDB_TYPE_TIME) (on_out (write_typed BU_WriteTime DOCUMENTDB_TYPE_TIME val)))"

definition wr_WriteTimeArray_field :: "string \<Rightarrow> int list option \<Rightarrow> int \<Rightarrow> unit wr_act" where
  "wr_WriteTimeArray_field fieldName val len = in_mode False
     (followed (WriteFieldId fieldName DOCUMENTDB_TYPE_ARRAY_TIME)
       (on_out (write_typed_array BU_WriteTime DOCUMENTDB_TYPE_TIME DOCUMENTDB_TYPE_ARRAY_TIME val len)))"

definition write_string :: "string option \<Rightarrow> int \<Rightarrow> unit out_act" where
  "write_string val len =
     (case val of
        Some s \<Rightarrow> followed (out_WriteInt8 DOCUMENTDB_TYPE_STRING) (BU_WriteString s len)
      | None \<Rightarrow> out_WriteInt8 DOCUMENTDB_HDR_NULL)"

definition wr_WriteString :: "string option \<Rightarrow> int \<Rightarrow> unit wr_act" where
  "wr_WriteString val len = in_mode True (on_out (write_string val len))"

definition wr_WriteString_field :: "string \<Rightarrow> string option \<Rightarrow> int \<Rightarrow> unit wr_act" where
  "wr_WriteString_field fieldName val len = in_mode False
     (followed (WriteFieldId fieldName DOCUMENTDB_TYPE_STRING) (on_out (write_string val len)))"

text \<open>Containers: the header, room for the count, for collections and maps the kind, then a session. The field
  variants start the session before the field is recorded.\<close>

definition container_header :: "int \<Rightarrow> int option \<Rightarrow> int wr_act" where
  "container_header hdr typ =
     followed (on_out (followed (out_WriteInt8 hdr)
       (followed (andThen out_Position (\<lambda>pos. out_SetPosition (to_signed 32 (pos + 4))))
         (case typ of None \<Rightarrow> ret () | Some t \<Rightarrow> out_WriteInt8 t))))
     (get wr_elemId)"

definition open_container :: "int \<Rightarrow> int option \<Rightarrow> int wr_act" where
  "open_container hdr typ = followed (wr_StartContainerSession True) (container_header hdr typ)"

definition open_container_field :: "string \<Rightarrow> int \<Rightarrow> int option \<Rightarrow> int wr_act" where
  "open_container_field fieldName hdr typ =
     followed (wr_StartContainerSession False) (followed (WriteFieldId fieldName hdr) (container_header hdr typ))"

definition wr_WriteStringArray :: "int wr_act" where
  "wr_WriteStringArray = open_container DOCUMENTDB_TYPE_ARRAY_STRING None"

definition wr_WriteStringArray_field :: "string \<Rightarrow> int wr_act" where
  "wr_WriteStringArray_field fieldName = open_container_field fieldName DOCUMENTDB_TYPE_ARRAY_STRING None"

definition wr_WriteArray :: "int wr_act" where
  "wr_WriteArray = open_container DOCUMENTDB_TYPE_ARRAY None"

definition wr_WriteArray_field :: "string \<Rightarrow> int wr_act" where
  "wr_WriteArray_field fieldName = open_container_field fieldName DOCUMENTDB_TYPE_ARRAY None"

definition wr_WriteCollection :: "int \<Rightarrow> int wr_act" where
  "wr_WriteCollection typ = open_container DOCUMENTDB_TYPE_COLLECTION (Some typ)"

definition wr_WriteCollection_field :: "string \<Rightarrow> int \<Rightarrow> int wr_act" where
  "wr_WriteCollection_field fieldName typ = open_container_field fieldName DOCUMENTDB_TYPE_COLLECTION (Some typ)"

definition wr_WriteMap :: "int \<Rightarrow> int wr_act" where
  "wr_WriteMap typ = open_container DOCUMENTDB_TYPE_MAP (Some typ)"

definition wr_WriteMap_field :: "string \<Rightarrow> int \<Rightarrow> int wr_act" where
  "wr_WriteMap_field fieldName typ = open_container_field fieldName DOCUMENTDB_TYPE_MAP (Some typ)"

definition count_element :: "unit wr_act" where
  "count_element = change (\<lambda>w. w\<lparr>wr_elemCnt := to_signed 32 (wr_elemCnt w + 1)\<rparr>)"

definition WriteStringElement :: "int \<Rightarrow> string option \<Rightarrow> int \<Rightarrow> unit wr_act" where
  "WriteStringElement id' val len =
     followed (wr_CheckSession id') (followed (on_out (write_string val len)) count_element)"

definition WriteElement :: "int \<Rightarrow> unit wr_act \<Rightarrow> unit wr_act" where
  "WriteElement id' write_val = followed (wr_CheckSession id') (followed write_val count_element)"

definition WriteElement_pair :: "int \<Rightarrow> unit wr_act \<Rightarrow> unit wr_act \<Rightarrow> unit wr_act" where
  "WriteElement_pair id' write_key write_val =
     followed (wr_CheckSession id') (followed write_key (followed write_val count_element))"

definition CommitContainer :: "int \<Rightarrow> unit wr_act" where
  "CommitContainer id' =
     followed (wr_CheckSession id')
     (followed (andThen (get (\<lambda>w. (wr_elemPos w, wr_elemCnt w))) (\<lambda>(p, n). on_out (out_WriteInt32_at (to_signed 32 (p + 1)) n)))
     (change (\<lambda>w. w\<lparr>wr_elemId := 0, wr_elemCnt := 0, wr_elemPos := -1\<rparr>)))"

definition WriteCollectionWithinSession :: "unit wr_act list \<Rightarrow> int \<Rightarrow> unit wr_act" where
  "WriteCollectionWithinSession elements typ =
     andThen (container_header DOCUMENTDB_TYPE_COLLECTION (Some typ)) (\<lambda>id'.
       followed (for_each (WriteElement id') elements) (CommitContainer id'))"

definition wr_WriteCollection_range :: "unit wr_act list \<Rightarrow> int \<Rightarrow> unit wr_act" where
  "wr_WriteCollection_range elements typ =
     followed (wr_StartContainerSession True) (WriteCollectionWithinSession elements typ)"

definition wr_WriteCollection_range_field :: "string \<Rightarrow> unit wr_act list \<Rightarrow> int \<Rightarrow> unit wr_act" where
  "wr_WriteCollection_range_field fieldName elements typ =
     followed (wr_StartContainerSession False)
     (followed (WriteFieldId fieldName DOCUMENTDB_TYPE_COLLECTION) (WriteCollectionWithinSession elements typ))"

definition wr_WriteBinaryEnum :: "BinaryEnumEntry \<Rightarrow> unit wr_act" where
  "wr_WriteBinaryEnum entry = in_mode True (on_out (write_typed BU_WriteBinaryEnumEntry DOCUMENTDB_TYPE_ENUM entry))"

definition wr_WriteBinaryEnum_field :: "string \<Rightarrow> BinaryEnumEntry \<Rightarrow> unit wr_act" where
  "wr_WriteBinaryEnum_field fieldName entry = in_mode False
     (followed (WriteFieldId fieldName DOCUMENTDB_TYPE_ENUM)
       (on_out (write_typed BU_WriteBinaryEnumEntry DOCUMENTDB_TYPE_ENUM entry)))"

definition WriteNull0 :: "unit wr_act" where
  "WriteNull0 = on_out (out_WriteInt8 DOCUMENTDB_HDR_NULL)"

definition wr_WriteNull :: "unit wr_act" where
  "wr_WriteNull = in_mode True WriteNull0"

definition wr_WriteNull_field :: "string \<Rightarrow> unit wr_act" where
  "wr_WriteNull_field fieldName = in_mode False (followed (WriteFieldId fieldName DOCUMENTDB_TYPE_OBJECT) WriteNull0)"

definition wr_SetRawMode :: "unit wr_act" where
  "wr_SetRawMode = in_mode False
     (andThen (on_out out_Position) (\<lambda>pos. change (\<lambda>w. w\<lparr>wr_rawPos := pos\<rparr>)))"

definition GetRawPosition :: "int wr_act" where
  "GetRawPosition = get (\<lambda>w. if wr_rawPos w = -1 then out_pos (wr_stream w) else wr_rawPos w)"

definition HasSchema :: "bool wr_act" where
  "HasSchema = get (\<lambda>w. \<not> schema_Empty (wr_schema w))"

definition WriteAndClearSchema :: "unit wr_act" where
  "WriteAndClearSchema = andThen (get wr_schema) (\<lambda>sc.
     followed (on_out (schema_Write sc)) (change (\<lambda>w. w\<lparr>wr_schema := schema_Clear (wr_schema w)\<rparr>)))"

text \<open>Closing an object: the footer with the schema, the position of the raw data, and the header fields that depend on
  what was written.\<close>

definition patch_header :: "int \<Rightarrow> u16 \<Rightarrow> int \<Rightarrow> int \<Rightarrow> int \<Rightarrow> unit out_act" where
  "patch_header start flags len schemaId off =
     followed (out_WriteInt16_at (to_signed 32 (start + DOCUMENTDB_OFFSET_FLAGS)) (sint flags))
     (followed (out_WriteInt32_at (to_signed 32 (start + DOCUMENTDB_OFFSET_LEN)) len)
     (followed (out_WriteInt32_at (to_signed 32 (start + DOCUMENTDB_OFFSET_SCHEMA_ID)) schemaId)
       (out_WriteInt32_at (to_signed 32 (start + DOCUMENTDB_OFFSET_SCHEMA_OR_RAW_OFF)) off)))"

definition PostWrite :: "unit wr_act" where
  "PostWrite = andThen (get id) (\<lambda>w.
     let start = wr_start w;
         lenWithoutSchema = to_signed 32 (out_pos (wr_stream w) - start);
         flags = DOCUMENTDB_BINARY_FLAG_USER_TYPE;
         flags = (if wr_rawPos w > 0 then flags OR DOCUMENTDB_BINARY_FLAG_HAS_RAW else flags)
     in if schema_Empty (wr_schema w) then
          andThen GetRawPosition (\<lambda>raw.
            on_out (patch_header start flags lenWithoutSchema 0 (to_signed 32 (raw - start))))
        else
          (case schema_GetType (wr_schema w) of
             Inl e \<Rightarrow> fail e
           | Inr schemaType \<Rightarrow>
               followed WriteAndClearSchema
               (followed (if wr_rawPos w > 0 then on_out (out_WriteInt32 (to_signed 32 (wr_rawPos w - start))) else ret ())
               (andThen (on_out out_Position) (\<lambda>pos.
                  let flags = flags OR DOCUMENTDB_BINARY_FLAG_HAS_SCHEMA;
                      flags = (case schemaType of
                                 ONE_BYTE \<Rightarrow> flags OR DOCUMENTDB_BINARY_FLAG_OFFSET_ONE_BYTE
                               | TWO_BYTES \<Rightarrow> flags OR DOCUMENTDB_BINARY_FLAG_OFFSET_TWO_BYTES
                               | FOUR_BYTES \<Rightarrow> flags)
                  in on_out (patch_header start flags (to_signed 32 (pos - start)) (sint (schema_id (wr_schema w)))
                       lenWithoutSchema))))))"

section \<open>Objects\<close>

text \<open>Values written with their type (\<open>WriteTopObject0\<close> for the basic types), a string without the check for a null
  pointer.\<close>

definition wr_WriteTopObject :: "('t \<Rightarrow> unit out_act) \<Rightarrow> int \<Rightarrow> 't \<Rightarrow> unit wr_act" where
  "wr_WriteTopObject func hdr obj = on_out (write_typed func hdr obj)"

definition wr_WriteTopObject_string :: "string \<Rightarrow> unit wr_act" where
  "wr_WriteTopObject_string obj =
     on_out (followed (out_WriteInt8 DOCUMENTDB_TYPE_STRING) (BU_WriteString obj (to_signed 32 (int (length obj)))))"

definition wr_WriteObject :: "unit wr_act \<Rightarrow> unit wr_act" where
  "wr_WriteObject write_val = followed (wr_CheckRawMode True) write_val"

definition wr_WriteObject_field :: "string \<Rightarrow> unit wr_act \<Rightarrow> unit wr_act" where
  "wr_WriteObject_field fieldName write_val =
     followed (wr_CheckRawMode False) (followed (WriteFieldId fieldName DOCUMENTDB_TYPE_OBJECT) write_val)"

record 'o BinaryTypeT =
  bt_IsNull :: "'o \<Rightarrow> bool"
  bt_GetTypeId :: int
  bt_GetFieldId :: "string \<Rightarrow> int"
  bt_GetTypeName :: string
  bt_GetAffinityFieldName :: string
  bt_Write :: "'o \<Rightarrow> unit wr_act"

definition bt_resolver :: "('o, 'z) BinaryTypeT_scheme \<Rightarrow> BinaryIdResolver" where
  "bt_resolver T = TemplatedBinaryIdResolver (bt_GetTypeId T) (bt_GetFieldId T)"

definition handler_for ::
  "('o, 'z) BinaryTypeT_scheme \<Rightarrow> BinaryTypeManager option \<Rightarrow>
   stream_error + BinaryTypeHandler option \<times> BinaryTypeManager option" where
  "handler_for T mgr =
     (case mgr of
        None \<Rightarrow> Inr (None, None)
      | Some m \<Rightarrow>
          (case GetHandler (bt_GetTypeName T) (bt_GetAffinityFieldName T) (bt_GetTypeId T) m of
             Inl e \<Rightarrow> Inl e
           | Inr (h, m') \<Rightarrow> Inr (Some h, Some m')))"

text \<open>The hash of the data between header and footer, read back from the synchronised memory.\<close>

definition object_hash :: "InteropMemory \<Rightarrow> int \<Rightarrow> stream_error + int" where
  "object_hash m pos = bind_sum (mem_ReadInt True 1 m pos) (\<lambda>_. bind_sum (hdr_GetDataLength m pos) (\<lambda>len.
     bind_sum (UnsafeReadPrimitive (nat len) m (pos + HEADER_SIZE)) (\<lambda>bs. Inr (GetDataHashCode (Some bs)))))"

definition object_body :: "('o, 'z) BinaryTypeT_scheme \<Rightarrow> 'o \<Rightarrow> int wr_act" where
  "object_body T obj =
     followed (on_out (out_WriteInt8 DOCUMENTDB_HDR_FULL))
     (followed (on_out (out_WriteInt8 DOCUMENTDB_PROTO_VER))
     (followed (on_out (out_WriteInt16 (sint DOCUMENTDB_BINARY_FLAG_USER_TYPE)))
     (followed (on_out (out_WriteInt32 (bt_GetTypeId T)))
     (andThen (on_out (out_Reserve 4)) (\<lambda>hashPos.
        followed (on_out (out_Reserve 12))
        (followed (bt_Write T obj)
        (followed PostWrite
        (followed (on_out out_Synchronize) (ret hashPos)))))))))"

definition WriteTopObject0 :: "('o, 'z) BinaryTypeT_scheme \<Rightarrow> 'o \<Rightarrow> unit wr_act" where
  "WriteTopObject0 T obj = (\<lambda>w.
     if bt_IsNull T obj then WriteNull0 w
     else
       (case handler_for T (wr_metaMgr w) of
          Inl e \<Rightarrow> Inl e
        | Inr (hnd, mgr) \<Rightarrow>
            let pos = out_pos (wr_stream w)
            in (case object_body T obj (newBinaryWriterImpl (wr_stream w) (bt_resolver T) mgr hnd pos) of
                  Inl e \<Rightarrow> Inl e
                | Inr (hashPos, impl) \<Rightarrow>
                    let mgr' = (case (wr_metaMgr impl, wr_metaHnd impl) of
                                  (Some m, Some h) \<Rightarrow>
                                    (case SubmitHandler h m of Inl _ \<Rightarrow> Some m | Inr (_, m') \<Rightarrow> Some m')
                                | _ \<Rightarrow> wr_metaMgr impl)
                    in (case object_hash (out_mem (wr_stream impl)) pos of
                          Inl e \<Rightarrow> Inl e
                        | Inr hash \<Rightarrow>
                            on_out (out_WriteInt32_at hashPos hash) (w\<lparr>wr_stream := wr_stream impl, wr_metaMgr := mgr'\<rparr>)))))"

end
