(* ===== verification/Odbc_BinaryReader.thy ===== *)
theory Odbc_BinaryReader
  imports Odbc_Binary
begin

text \<open>
  Reading the binary protocol: \<^verbatim>\<open>impl/binary/binary_reader_impl.cpp\<close> and \<^verbatim>\<open>.h\<close>. A result buffer that may be null
  is described by whether it is there and by its length; the model returns what the source stores through it. Where the
  source recurses without a bound (\<open>Skip\<close> on nested containers, an object wrapped in binary data) the definitions take
  the number of nested calls they may make and answer \<open>Unbounded\<close> beyond it.
\<close>

section \<open>The reader\<close>

record BinaryReaderImpl =
  rd_stream :: InteropInputStream
  rd_idRslvr :: "BinaryIdResolver option"
  rd_pos :: int
  rd_usrType :: bool
  rd_typeId :: int
  rd_hashCode :: int
  rd_len :: int
  rd_rawOff :: int
  rd_rawMode :: bool
  rd_elemIdGen :: int
  rd_elemId :: int
  rd_elemCnt :: int
  rd_elemRead :: int
  rd_footerBegin :: int
  rd_footerEnd :: int
  rd_schemaType :: BinaryOffsetType

type_synonym 'a rd_act = "(BinaryReaderImpl, 'a) act"

definition newBinaryReaderImpl ::
  "InteropInputStream \<Rightarrow> BinaryIdResolver \<Rightarrow> int \<Rightarrow> bool \<Rightarrow> int \<Rightarrow> int \<Rightarrow> int \<Rightarrow> int \<Rightarrow> int \<Rightarrow> int \<Rightarrow>
   BinaryOffsetType \<Rightarrow> BinaryReaderImpl" where
  "newBinaryReaderImpl stream idRslvr pos usrType typeId hashCode len rawOff footerBegin footerEnd schemaType =
     \<lparr>rd_stream = stream, rd_idRslvr = Some idRslvr, rd_pos = pos, rd_usrType = usrType, rd_typeId = typeId,
      rd_hashCode = hashCode, rd_len = len, rd_rawOff = rawOff, rd_rawMode = False, rd_elemIdGen = 0,
      rd_elemId = 0, rd_elemCnt = -1, rd_elemRead = 0, rd_footerBegin = footerBegin, rd_footerEnd = footerEnd,
      rd_schemaType = schemaType\<rparr>"

definition newRawReader :: "InteropInputStream \<Rightarrow> BinaryReaderImpl" where
  "newRawReader stream =
     \<lparr>rd_stream = stream, rd_idRslvr = None, rd_pos = 0, rd_usrType = False, rd_typeId = 0,
      rd_hashCode = 0, rd_len = 0, rd_rawOff = 0, rd_rawMode = True, rd_elemIdGen = 0,
      rd_elemId = 0, rd_elemCnt = -1, rd_elemRead = 0, rd_footerBegin = -1, rd_footerEnd = -1,
      rd_schemaType = FOUR_BYTES\<rparr>"

definition on_in :: "'a in_act \<Rightarrow> 'a rd_act" where
  "on_in m = (\<lambda>r. case m (rd_stream r) of Inl e \<Rightarrow> Inl e | Inr (x, s) \<Rightarrow> Inr (x, r\<lparr>rd_stream := s\<rparr>))"

definition rd_CheckRawMode :: "bool \<Rightarrow> unit rd_act" where
  "rd_CheckRawMode expected = andThen (get rd_rawMode) (\<lambda>rawMode.
     if expected \<and> \<not> rawMode then
       fail (Thrown DOCUMENTDB_ERR_BINARY ''Operation can be performed only in raw mode.'' [])
     else if \<not> expected \<and> rawMode then
       fail (Thrown DOCUMENTDB_ERR_BINARY ''Operation cannot be performed in raw mode.'' [])
     else ret ())"

definition rd_CheckSingleMode :: "bool \<Rightarrow> unit rd_act" where
  "rd_CheckSingleMode expected = andThen (get rd_elemId) (\<lambda>elemId.
     if expected \<and> elemId \<noteq> 0 then
       fail (Thrown DOCUMENTDB_ERR_BINARY ''Operation cannot be performed when container is being read.'' [])
     else if \<not> expected \<and> elemId = 0 then
       fail (Thrown DOCUMENTDB_ERR_BINARY ''Operation can be performed only when container is being read.'' [])
     else ret ())"

definition rd_CheckSession :: "int \<Rightarrow> unit rd_act" where
  "rd_CheckSession expSes = andThen (get rd_elemId) (\<lambda>elemId.
     if elemId \<noteq> expSes then
       fail (Thrown DOCUMENTDB_ERR_BINARY ''Containter read session has been finished or is not started yet.'' [])
     else ret ())"

definition ThrowOnInvalidHeader :: "int \<Rightarrow> int \<Rightarrow> int \<Rightarrow> ('s, 'a) act" where
  "ThrowOnInvalidHeader pos expHdr hdr =
     fail (Thrown DOCUMENTDB_ERR_BINARY ''Invalid header'' [(''position'', pos), (''expected'', expHdr), (''actual'', hdr)])"

definition invalid_header_here :: "int \<Rightarrow> int \<Rightarrow> 'a in_act" where
  "invalid_header_here expHdr hdr = andThen in_Position (\<lambda>pos. ThrowOnInvalidHeader (to_signed 32 (pos - 1)) expHdr hdr)"

definition rd_in_mode :: "bool \<Rightarrow> 'a rd_act \<Rightarrow> 'a rd_act" where
  "rd_in_mode raw m = followed (rd_CheckRawMode raw) (followed (rd_CheckSingleMode True) m)"

section \<open>Looking a field up\<close>

fun entry_size :: "BinaryOffsetType \<Rightarrow> int" where
  "entry_size ONE_BYTE = 5"
| "entry_size TWO_BYTES = 6"
| "entry_size FOUR_BYTES = 8"

text \<open>The offset of an entry as an unsigned number of its width; the casts to \<open>uint8_t\<close> and \<open>uint16_t\<close>.\<close>

fun read_offset_at :: "BinaryOffsetType \<Rightarrow> int \<Rightarrow> int in_act" where
  "read_offset_at ONE_BYTE p = andThen (in_ReadInt8_at p) (\<lambda>v. ret (v mod 256))"
| "read_offset_at TWO_BYTES p = andThen (in_ReadInt16_at p) (\<lambda>v. ret (v mod 65536))"
| "read_offset_at FOUR_BYTES p = in_ReadInt32_at p"

text \<open>The loop runs while \<open>schemaPos < footerEnd\<close>, each time further by the size of an entry.\<close>

function find_in_footer :: "BinaryOffsetType \<Rightarrow> int \<Rightarrow> int \<Rightarrow> int \<Rightarrow> int \<Rightarrow> int in_act" where
  "find_in_footer typ fieldId pos schemaPos footerEnd =
     (if schemaPos < footerEnd then
        andThen (in_ReadInt32_at schemaPos) (\<lambda>currentFieldId.
          if fieldId = currentFieldId then
            andThen (read_offset_at typ (schemaPos + 4)) (\<lambda>off. ret (to_signed 32 (off + pos)))
          else find_in_footer typ fieldId pos (schemaPos + entry_size typ) footerEnd)
      else ret (-1))"
  by pat_completeness auto
termination
proof (relation "measure (\<lambda>(typ, fieldId, pos, schemaPos, footerEnd). nat (footerEnd - schemaPos))")
  fix ty :: BinaryOffsetType and fieldId pos schemaPos footerEnd :: int
  assume "schemaPos < footerEnd"
  then show "((ty, fieldId, pos, schemaPos + entry_size ty, footerEnd), ty, fieldId, pos, schemaPos, footerEnd)
      \<in> measure (\<lambda>(typ, fieldId, pos, schemaPos, footerEnd). nat (footerEnd - schemaPos))"
    by (cases ty) auto
qed simp

declare find_in_footer.simps [simp del]

definition rd_FindField :: "int \<Rightarrow> int rd_act" where
  "rd_FindField fieldId = andThen (get id) (\<lambda>r. on_in (guarded
     (followed (in_SetPosition (rd_footerBegin r))
       (andThen (find_in_footer (rd_schemaType r) fieldId (rd_pos r) (rd_footerBegin r) (rd_footerEnd r))
         (\<lambda>p. ret (p, False))))))"

text \<open>The prologue of every read of a field: the position of the field, or that it is not there.\<close>

definition field_position :: "string \<Rightarrow> int rd_act" where
  "field_position fieldName = (\<lambda>r.
     case rd_idRslvr r of
       None \<Rightarrow> Inl WildAccess
     | Some rs \<Rightarrow>
         (case rslv_fieldId rs (rd_typeId r) (Some fieldName) of
            Inl e \<Rightarrow> Inl e
          | Inr fieldId \<Rightarrow> rd_FindField fieldId r))"

definition at_field :: "string \<Rightarrow> 'a \<Rightarrow> 'a rd_act \<Rightarrow> 'a rd_act" where
  "at_field fieldName missing m = rd_in_mode False (andThen (field_position fieldName) (\<lambda>fieldPos.
     if fieldPos \<le> 0 then ret missing else followed (on_in (in_SetPosition fieldPos)) m))"

section \<open>Values\<close>

definition ReadRaw :: "'t in_act \<Rightarrow> 't rd_act" where
  "ReadRaw func = rd_in_mode True (on_in func)"

definition rd_Read :: "string \<Rightarrow> 't in_act \<Rightarrow> int \<Rightarrow> 't \<Rightarrow> 't rd_act" where
  "rd_Read fieldName func expHdr dflt = at_field fieldName dflt (on_in
     (andThen in_ReadInt8 (\<lambda>typeId.
        if typeId = DOCUMENTDB_HDR_NULL then ret dflt
        else if typeId \<noteq> expHdr then andThen in_Position (\<lambda>pos.
          fail (Thrown DOCUMENTDB_ERR_BINARY ''Invalid type ID''
                  [(''position'', pos), (''expected'', expHdr), (''actual'', typeId)]))
        else func)))"

text \<open>An array into a buffer of \<open>len\<close> elements: the number of elements there are, with the elements if they fit; if they
  do not the stream goes back to the header.\<close>

definition ReadArrayInternal :: "bool \<Rightarrow> int \<Rightarrow> (int \<Rightarrow> 't list in_act) \<Rightarrow> int \<Rightarrow> (int \<times> 't list option) in_act" where
  "ReadArrayInternal has_res len func expHdr = andThen in_ReadInt8 (\<lambda>hdr.
     if hdr = expHdr then
       andThen in_ReadInt32 (\<lambda>realLen.
         if realLen = 0 \<or> (has_res \<and> len \<ge> realLen) then
           andThen (func realLen) (\<lambda>xs. ret (realLen, Some xs))
         else
           followed (andThen in_Position (\<lambda>pos. in_SetPosition (to_signed 32 (pos - 5)))) (ret (realLen, None)))
     else if hdr \<noteq> DOCUMENTDB_HDR_NULL then invalid_header_here expHdr hdr
     else ret (-1, None))"

definition ReadRawArray :: "bool \<Rightarrow> int \<Rightarrow> (int \<Rightarrow> 't list in_act) \<Rightarrow> int \<Rightarrow> (int \<times> 't list option) rd_act" where
  "ReadRawArray has_res len func expHdr = rd_in_mode True (on_in (ReadArrayInternal has_res len func expHdr))"

definition rd_ReadFieldArray ::
  "string \<Rightarrow> bool \<Rightarrow> int \<Rightarrow> (int \<Rightarrow> 't list in_act) \<Rightarrow> int \<Rightarrow> (int \<times> 't list option) rd_act" where
  "rd_ReadFieldArray fieldName has_res len func expHdr =
     at_field fieldName (-1, None) (on_in (ReadArrayInternal has_res len func expHdr))"

definition ReadNullable :: "'t in_act \<Rightarrow> int \<Rightarrow> 't \<Rightarrow> 't in_act" where
  "ReadNullable func expHdr dflt = andThen in_ReadInt8 (\<lambda>hdr.
     if hdr = expHdr then func
     else if hdr = DOCUMENTDB_HDR_NULL then ret dflt
     else invalid_header_here expHdr hdr)"

definition ReadArrayToVectorInternal :: "'t list \<Rightarrow> (int \<Rightarrow> 't list in_act) \<Rightarrow> int \<Rightarrow> 't list in_act" where
  "ReadArrayToVectorInternal res func expHdr = andThen in_ReadInt8 (\<lambda>hdr.
     if hdr = expHdr then
       andThen in_ReadInt32 (\<lambda>realLen. if realLen > 0 then func realLen else ret res)
     else if hdr = DOCUMENTDB_HDR_NULL then ret []
     else invalid_header_here expHdr hdr)"

definition rd_ReadInt8 :: "int rd_act" where
  "rd_ReadInt8 = ReadRaw in_ReadInt8"

definition rd_ReadInt8Array :: "bool \<Rightarrow> int \<Rightarrow> (int \<times> int list option) rd_act" where
  "rd_ReadInt8Array has_res len = ReadRawArray has_res len in_ReadInt8Array DOCUMENTDB_TYPE_ARRAY_BYTE"

definition rd_ReadInt8_field :: "string \<Rightarrow> int rd_act" where
  "rd_ReadInt8_field fieldName = rd_Read fieldName in_ReadInt8 DOCUMENTDB_TYPE_BYTE 0"

definition rd_ReadInt8Array_field :: "string \<Rightarrow> bool \<Rightarrow> int \<Rightarrow> (int \<times> int list option) rd_act" where
  "rd_ReadInt8Array_field fieldName has_res len =
     rd_ReadFieldArray fieldName has_res len in_ReadInt8Array DOCUMENTDB_TYPE_ARRAY_BYTE"

definition rd_ReadBool :: "bool rd_act" where
  "rd_ReadBool = ReadRaw in_ReadBool"

definition rd_ReadBoolArray :: "bool \<Rightarrow> int \<Rightarrow> (int \<times> bool list option) rd_act" where
  "rd_ReadBoolArray has_res len = ReadRawArray has_res len in_ReadBoolArray DOCUMENTDB_TYPE_ARRAY_BOOL"

definition rd_ReadBool_field :: "string \<Rightarrow> bool rd_act" where
  "rd_ReadBool_field fieldName = rd_Read fieldName in_ReadBool DOCUMENTDB_TYPE_BOOL False"

definition rd_ReadBoolArray_field :: "string \<Rightarrow> bool \<Rightarrow> int \<Rightarrow> (int \<times> bool list option) rd_act" where
  "rd_ReadBoolArray_field fieldName has_res len =
     rd_ReadFieldArray fieldName has_res len in_ReadBoolArray DOCUMENTDB_TYPE_ARRAY_BOOL"

definition rd_ReadInt16 :: "int rd_act" where
  "rd_ReadInt16 = ReadRaw in_ReadInt16"

definition rd_ReadInt16Array :: "bool \<Rightarrow> int \<Rightarrow> (int \<times> int list option) rd_act" where
  "rd_ReadInt16Array has_res len = ReadRawArray has_res len in_ReadInt16Array DOCUMENTDB_TYPE_ARRAY_SHORT"

definition rd_ReadInt16_field :: "string \<Rightarrow> int rd_act" where
  "rd_ReadInt16_field fieldName = rd_Read fieldName in_ReadInt16 DOCUMENTDB_TYPE_SHORT 0"

definition rd_ReadInt16Array_field :: "string \<Rightarrow> bool \<Rightarrow> int \<Rightarrow> (int \<times> int list option) rd_act" where
  "rd_ReadInt16Array_field fieldName has_res len =
     rd_ReadFieldArray fieldName has_res len in_ReadInt16Array DOCUMENTDB_TYPE_ARRAY_SHORT"

definition rd_ReadUInt16 :: "int rd_act" where
  "rd_ReadUInt16 = ReadRaw in_ReadUInt16"

definition rd_ReadUInt16Array :: "bool \<Rightarrow> int \<Rightarrow> (int \<times> int list option) rd_act" where
  "rd_ReadUInt16Array has_res len = ReadRawArray has_res len in_ReadUInt16Array DOCUMENTDB_TYPE_ARRAY_CHAR"

definition rd_ReadUInt16_field :: "string \<Rightarrow> int rd_act" where
  "rd_ReadUInt16_field fieldName = rd_Read fieldName in_ReadUInt16 DOCUMENTDB_TYPE_CHAR 0"

definition rd_ReadUInt16Array_field :: "string \<Rightarrow> bool \<Rightarrow> int \<Rightarrow> (int \<times> int list option) rd_act" where
  "rd_ReadUInt16Array_field fieldName has_res len =
     rd_ReadFieldArray fieldName has_res len in_ReadUInt16Array DOCUMENTDB_TYPE_ARRAY_CHAR"

definition rd_ReadInt32 :: "int rd_act" where
  "rd_ReadInt32 = ReadRaw in_ReadInt32"

definition rd_ReadInt32Array :: "bool \<Rightarrow> int \<Rightarrow> (int \<times> int list option) rd_act" where
  "rd_ReadInt32Array has_res len = ReadRawArray has_res len in_ReadInt32Array DOCUMENTDB_TYPE_ARRAY_INT"

definition rd_ReadInt32_field :: "string \<Rightarrow> int rd_act" where
  "rd_ReadInt32_field fieldName = rd_Read fieldName in_ReadInt32 DOCUMENTDB_TYPE_INT 0"

definition rd_ReadInt32Array_field :: "string \<Rightarrow> bool \<Rightarrow> int \<Rightarrow> (int \<times> int list option) rd_act" where
  "rd_ReadInt32Array_field fieldName has_res len =
     rd_ReadFieldArray fieldName has_res len in_ReadInt32Array DOCUMENTDB_TYPE_ARRAY_INT"

definition rd_ReadInt64 :: "int rd_act" where
  "rd_ReadInt64 = ReadRaw in_ReadInt64"

definition rd_ReadInt64Array :: "bool \<Rightarrow> int \<Rightarrow> (int \<times> int list option) rd_act" where
  "rd_ReadInt64Array has_res len = ReadRawArray has_res len in_ReadInt64Array DOCUMENTDB_TYPE_ARRAY_LONG"

definition rd_ReadInt64_field :: "string \<Rightarrow> int rd_act" where
  "rd_ReadInt64_field fieldName = rd_Read fieldName in_ReadInt64 DOCUMENTDB_TYPE_LONG 0"

definition rd_ReadInt64Array_field :: "string \<Rightarrow> bool \<Rightarrow> int \<Rightarrow> (int \<times> int list option) rd_act" where
  "rd_ReadInt64Array_field fieldName has_res len =
     rd_ReadFieldArray fieldName has_res len in_ReadInt64Array DOCUMENTDB_TYPE_ARRAY_LONG"

definition rd_ReadFloat :: "u32 rd_act" where
  "rd_ReadFloat = ReadRaw in_ReadFloat"

definition rd_ReadFloatArray :: "bool \<Rightarrow> int \<Rightarrow> (int \<times> u32 list option) rd_act" where
  "rd_ReadFloatArray has_res len = ReadRawArray has_res len in_ReadFloatArray DOCUMENTDB_TYPE_ARRAY_FLOAT"

definition rd_ReadFloat_field :: "string \<Rightarrow> u32 rd_act" where
  "rd_ReadFloat_field fieldName = rd_Read fieldName in_ReadFloat DOCUMENTDB_TYPE_FLOAT 0"

definition rd_ReadFloatArray_field :: "string \<Rightarrow> bool \<Rightarrow> int \<Rightarrow> (int \<times> u32 list option) rd_act" where
  "rd_ReadFloatArray_field fieldName has_res len =
     rd_ReadFieldArray fieldName has_res len in_ReadFloatArray DOCUMENTDB_TYPE_ARRAY_FLOAT"

definition rd_ReadDouble :: "u64 rd_act" where
  "rd_ReadDouble = ReadRaw in_ReadDouble"

definition rd_ReadDoubleArray :: "bool \<Rightarrow> int \<Rightarrow> (int \<times> u64 list option) rd_act" where
  "rd_ReadDoubleArray has_res len = ReadRawArray has_res len in_ReadDoubleArray DOCUMENTDB_TYPE_ARRAY_DOUBLE"

definition rd_ReadDouble_field :: "string \<Rightarrow> u64 rd_act" where
  "rd_ReadDouble_field fieldName = rd_Read fieldName in_ReadDouble DOCUMENTDB_TYPE_DOUBLE 0"

definition rd_ReadDoubleArray_field :: "string \<Rightarrow> bool \<Rightarrow> int \<Rightarrow> (int \<times> u64 list option) rd_act" where
  "rd_ReadDoubleArray_field fieldName has_res len =
     rd_ReadFieldArray fieldName has_res len in_ReadDoubleArray DOCUMENTDB_TYPE_ARRAY_DOUBLE"

definition ReadGuidArrayInternal :: "int \<Rightarrow> Guid list in_act" where
  "ReadGuidArrayInternal len = repeat_act (nat len) (ReadNullable BU_ReadGuid DOCUMENTDB_TYPE_UUID (Guid_of 0 0))"

definition rd_ReadGuid :: "Guid rd_act" where
  "rd_ReadGuid = rd_in_mode True (on_in (ReadNullable BU_ReadGuid DOCUMENTDB_TYPE_UUID (Guid_of 0 0)))"

definition rd_ReadGuidArray :: "bool \<Rightarrow> int \<Rightarrow> (int \<times> Guid list option) rd_act" where
  "rd_ReadGuidArray has_res len =
     rd_in_mode True (on_in (ReadArrayInternal has_res len ReadGuidArrayInternal DOCUMENTDB_TYPE_ARRAY_UUID))"

definition rd_ReadGuid_field :: "string \<Rightarrow> Guid rd_act" where
  "rd_ReadGuid_field fieldName =
     at_field fieldName (Guid_of 0 0) (on_in (ReadNullable BU_ReadGuid DOCUMENTDB_TYPE_UUID (Guid_of 0 0)))"

definition rd_ReadGuidArray_field :: "string \<Rightarrow> bool \<Rightarrow> int \<Rightarrow> (int \<times> Guid list option) rd_act" where
  "rd_ReadGuidArray_field fieldName has_res len =
     at_field fieldName (-1, None) (on_in (ReadArrayInternal has_res len ReadGuidArrayInternal DOCUMENTDB_TYPE_ARRAY_UUID))"

definition ReadDateArrayInternal :: "int \<Rightarrow> int list in_act" where
  "ReadDateArrayInternal len = repeat_act (nat len) (ReadNullable BU_ReadDate DOCUMENTDB_TYPE_DATE 0)"

definition rd_ReadDate :: "int rd_act" where
  "rd_ReadDate = rd_in_mode True (on_in (ReadNullable BU_ReadDate DOCUMENTDB_TYPE_DATE 0))"

definition rd_ReadDateArray :: "bool \<Rightarrow> int \<Rightarrow> (int \<times> int list option) rd_act" where
  "rd_ReadDateArray has_res len =
     rd_in_mode True (on_in (ReadArrayInternal has_res len ReadDateArrayInternal DOCUMENTDB_TYPE_ARRAY_DATE))"

definition rd_ReadDate_field :: "string \<Rightarrow> int rd_act" where
  "rd_ReadDate_field fieldName =
     at_field fieldName 0 (on_in (ReadNullable BU_ReadDate DOCUMENTDB_TYPE_DATE 0))"

definition rd_ReadDateArray_field :: "string \<Rightarrow> bool \<Rightarrow> int \<Rightarrow> (int \<times> int list option) rd_act" where
  "rd_ReadDateArray_field fieldName has_res len =
     at_field fieldName (-1, None) (on_in (ReadArrayInternal has_res len ReadDateArrayInternal DOCUMENTDB_TYPE_ARRAY_DATE))"

definition ReadTimestampArrayInternal :: "int \<Rightarrow> Timestamp list in_act" where
  "ReadTimestampArrayInternal len = repeat_act (nat len) (ReadNullable BU_ReadTimestamp DOCUMENTDB_TYPE_TIMESTAMP (\<lparr>ts_seconds = 0, ts_fractionNs = 0\<rparr>))"

definition rd_ReadTimestamp :: "Timestamp rd_act" where
  "rd_ReadTimestamp = rd_in_mode True (on_in (ReadNullable BU_ReadTimestamp DOCUMENTDB_TYPE_TIMESTAMP (\<lparr>ts_seconds = 0, ts_fractionNs = 0\<rparr>)))"

definition rd_ReadTimestampArray :: "bool \<Rightarrow> int \<Rightarrow> (int \<times> Timestamp list option) rd_act" where
  "rd_ReadTimestampArray has_res len =
     rd_in_mode True (on_in (ReadArrayInternal has_res len ReadTimestampArrayInternal DOCUMENTDB_TYPE_ARRAY_TIMESTAMP))"

definition rd_ReadTimestamp_field :: "string \<Rightarrow> Timestamp rd_act" where
  "rd_ReadTimestamp_field fieldName =
     at_field fieldName (\<lparr>ts_seconds = 0, ts_fractionNs = 0\<rparr>) (on_in (ReadNullable BU_ReadTimestamp DOCUMENTDB_TYPE_TIMESTAMP (\<lparr>ts_seconds = 0, ts_fractionNs = 0\<rparr>)))"

definition rd_ReadTimestampArray_field :: "string \<Rightarrow> bool \<Rightarrow> int \<Rightarrow> (int \<times> Timestamp list option) rd_act" where
  "rd_ReadTimestampArray_field fieldName has_res len =
     at_field fieldName (-1, None) (on_in (ReadArrayInternal has_res len ReadTimestampArrayInternal DOCUMENTDB_TYPE_ARRAY_TIMESTAMP))"

definition ReadTimeArrayInternal :: "int \<Rightarrow> int list in_act" where
  "ReadTimeArrayInternal len = repeat_act (nat len) (ReadNullable BU_ReadTime DOCUMENTDB_TYPE_TIME 0)"

definition rd_ReadTime :: "int rd_act" where
  "rd_ReadTime = rd_in_mode True (on_in (ReadNullable BU_ReadTime DOCUMENTDB_TYPE_TIME 0))"

definition rd_ReadTimeArray :: "bool \<Rightarrow> int \<Rightarrow> (int \<times> int list option) rd_act" where
  "rd_ReadTimeArray has_res len =
     rd_in_mode True (on_in (ReadArrayInternal has_res len ReadTimeArrayInternal DOCUMENTDB_TYPE_ARRAY_TIME))"

definition rd_ReadTime_field :: "string \<Rightarrow> int rd_act" where
  "rd_ReadTime_field fieldName =
     at_field fieldName 0 (on_in (ReadNullable BU_ReadTime DOCUMENTDB_TYPE_TIME 0))"

definition rd_ReadTimeArray_field :: "string \<Rightarrow> bool \<Rightarrow> int \<Rightarrow> (int \<times> int list option) rd_act" where
  "rd_ReadTimeArray_field fieldName has_res len =
     at_field fieldName (-1, None) (on_in (ReadArrayInternal has_res len ReadTimeArrayInternal DOCUMENTDB_TYPE_ARRAY_TIME))"

definition null_enum :: BinaryEnumEntry where
  "null_enum = \<lparr>enum_typeId = 0, enum_ordinal = 0\<rparr>"

definition ReadBinaryEnumInternal :: "BinaryEnumEntry in_act" where
  "ReadBinaryEnumInternal = andThen in_ReadInt8 (\<lambda>hdr.
     if hdr = DOCUMENTDB_TYPE_ENUM \<or> hdr = DOCUMENTDB_TYPE_BINARY_ENUM then BU_ReadBinaryEnumEntry
     else if hdr \<noteq> DOCUMENTDB_HDR_NULL then invalid_header_here DOCUMENTDB_TYPE_ENUM hdr
     else ret null_enum)"

definition rd_ReadBinaryEnum :: "BinaryEnumEntry rd_act" where
  "rd_ReadBinaryEnum = rd_in_mode True (on_in ReadBinaryEnumInternal)"

definition rd_ReadBinaryEnum_field :: "string \<Rightarrow> BinaryEnumEntry rd_act" where
  "rd_ReadBinaryEnum_field fieldName = at_field fieldName null_enum (on_in ReadBinaryEnumInternal)"

section \<open>Strings\<close>

definition chars_of :: "int list \<Rightarrow> string" where
  "chars_of vs = map (\<lambda>v. char_of (nat (v mod 256))) vs"

text \<open>Into a buffer: the length there is, and the characters if they fit (the terminator is written if there is room for
  it). A null pointer or a short buffer only asks for the length.\<close>

definition ReadStringInternal :: "bool \<Rightarrow> int \<Rightarrow> (int \<times> string option) in_act" where
  "ReadStringInternal has_res len = andThen in_ReadInt8 (\<lambda>hdr.
     if hdr = DOCUMENTDB_TYPE_STRING then
       andThen in_ReadInt32 (\<lambda>realLen.
         if has_res \<and> len \<ge> realLen then
           andThen (in_ReadInt8Array realLen) (\<lambda>vs. ret (realLen, Some (chars_of vs)))
         else
           followed (andThen in_Position (\<lambda>pos. in_SetPosition (to_signed 32 (pos - 4 - 1)))) (ret (realLen, None)))
     else if hdr \<noteq> DOCUMENTDB_HDR_NULL then invalid_header_here DOCUMENTDB_TYPE_STRING hdr
     else ret (-1, None))"

definition rd_ReadString :: "bool \<Rightarrow> int \<Rightarrow> (int \<times> string option) rd_act" where
  "rd_ReadString has_res len = rd_in_mode True (on_in (ReadStringInternal has_res len))"

text \<open>\<open>std::string::resize\<close> of a negative length, converted to \<open>size_t\<close>, throws \<open>length_error\<close>.\<close>

definition rd_ReadString_all :: "string rd_act" where
  "rd_ReadString_all = rd_in_mode True (on_in (andThen in_ReadInt8 (\<lambda>hdr.
     if hdr = DOCUMENTDB_HDR_NULL then ret []
     else if hdr \<noteq> DOCUMENTDB_TYPE_STRING then invalid_header_here DOCUMENTDB_TYPE_STRING hdr
     else andThen in_ReadInt32 (\<lambda>realLen.
            if realLen < 0 then fail LengthError
            else andThen (in_ReadInt8Array realLen) (\<lambda>vs. ret (chars_of vs))))))"

definition rd_ReadString_field :: "string \<Rightarrow> bool \<Rightarrow> int \<Rightarrow> (int \<times> string option) rd_act" where
  "rd_ReadString_field fieldName has_res len = at_field fieldName (-1, None) (on_in (ReadStringInternal has_res len))"

section \<open>Containers\<close>

definition next_session :: "int rd_act" where
  "next_session = followed (change (\<lambda>r. r\<lparr>rd_elemIdGen := to_signed 32 (rd_elemIdGen r + 1)\<rparr>)) (get rd_elemIdGen)"

text \<open>The session and the size.\<close>

definition rd_StartContainerSession :: "bool \<Rightarrow> int \<Rightarrow> (int \<times> int) rd_act" where
  "rd_StartContainerSession expRawMode expHdr = rd_in_mode expRawMode
     (andThen (on_in in_ReadInt8) (\<lambda>hdr.
        if hdr = expHdr then
          andThen (on_in in_ReadInt32) (\<lambda>cnt.
            if cnt \<noteq> 0 then
              andThen next_session (\<lambda>i.
                followed (change (\<lambda>r. r\<lparr>rd_elemId := i, rd_elemCnt := cnt, rd_elemRead := 0\<rparr>)) (ret (i, cnt)))
            else andThen next_session (\<lambda>i. ret (i, 0)))
        else if hdr \<noteq> DOCUMENTDB_HDR_NULL then on_in (invalid_header_here expHdr hdr)
        else andThen next_session (\<lambda>i. ret (i, -1))))"

definition container_at_field :: "string \<Rightarrow> int \<Rightarrow> (int \<times> int) rd_act" where
  "container_at_field fieldName expHdr = rd_in_mode False (andThen (field_position fieldName) (\<lambda>fieldPos.
     if fieldPos \<le> 0 then andThen next_session (\<lambda>i. ret (i, -1))
     else followed (on_in (in_SetPosition fieldPos)) (rd_StartContainerSession False expHdr)))"

definition rd_ReadStringArray :: "(int \<times> int) rd_act" where
  "rd_ReadStringArray = rd_StartContainerSession True DOCUMENTDB_TYPE_ARRAY_STRING"

definition rd_ReadStringArray_field :: "string \<Rightarrow> (int \<times> int) rd_act" where
  "rd_ReadStringArray_field fieldName = container_at_field fieldName DOCUMENTDB_TYPE_ARRAY_STRING"

definition rd_ReadArray :: "(int \<times> int) rd_act" where
  "rd_ReadArray = rd_StartContainerSession True DOCUMENTDB_TYPE_ARRAY"

definition rd_ReadArray_field :: "string \<Rightarrow> (int \<times> int) rd_act" where
  "rd_ReadArray_field fieldName = container_at_field fieldName DOCUMENTDB_TYPE_ARRAY"

text \<open>The kind of a collection or map; \<open>UNDEFINED\<close> is 0.\<close>

definition with_kind :: "(int \<times> int) rd_act \<Rightarrow> (int \<times> int \<times> int) rd_act" where
  "with_kind m = andThen m (\<lambda>(i, size).
     if size = -1 then ret (i, size, 0) else andThen (on_in in_ReadInt8) (\<lambda>typ. ret (i, size, typ)))"

definition rd_ReadCollection :: "(int \<times> int \<times> int) rd_act" where
  "rd_ReadCollection = with_kind (rd_StartContainerSession True DOCUMENTDB_TYPE_COLLECTION)"

definition rd_ReadCollection_field :: "string \<Rightarrow> (int \<times> int \<times> int) rd_act" where
  "rd_ReadCollection_field fieldName = with_kind (container_at_field fieldName DOCUMENTDB_TYPE_COLLECTION)"

definition rd_ReadMap :: "(int \<times> int \<times> int) rd_act" where
  "rd_ReadMap = with_kind (rd_StartContainerSession True DOCUMENTDB_TYPE_MAP)"

definition rd_ReadMap_field :: "string \<Rightarrow> (int \<times> int \<times> int) rd_act" where
  "rd_ReadMap_field fieldName = with_kind (container_at_field fieldName DOCUMENTDB_TYPE_MAP)"

definition ReadCollectionSizeUnprotected :: "int in_act" where
  "ReadCollectionSizeUnprotected = andThen in_ReadInt8 (\<lambda>hdr.
     if hdr \<noteq> DOCUMENTDB_TYPE_COLLECTION then
       (if hdr \<noteq> DOCUMENTDB_HDR_NULL then invalid_header_here DOCUMENTDB_TYPE_COLLECTION hdr else ret (-1))
     else in_ReadInt32)"

definition ReadCollectionTypeUnprotected :: "int in_act" where
  "ReadCollectionTypeUnprotected = andThen ReadCollectionSizeUnprotected (\<lambda>size.
     if size = -1 then ret 0 else in_ReadInt8)"

definition unreleased :: "'a in_act \<Rightarrow> ('a \<times> bool) in_act" where
  "unreleased m = andThen m (\<lambda>x. ret (x, False))"

definition rd_ReadCollectionType :: "int rd_act" where
  "rd_ReadCollectionType = on_in (guarded (unreleased ReadCollectionTypeUnprotected))"

definition rd_ReadCollectionSize :: "int rd_act" where
  "rd_ReadCollectionSize = on_in (guarded (unreleased ReadCollectionSizeUnprotected))"

text \<open>At a field the position is restored as well, whether the field is there or not.\<close>

definition restoring :: "'a rd_act \<Rightarrow> 'a rd_act" where
  "restoring m = andThen (on_in in_Position) (\<lambda>pos. andThen m (\<lambda>x. followed (on_in (in_SetPosition pos)) (ret x)))"

definition rd_ReadCollectionType_field :: "string \<Rightarrow> int rd_act" where
  "rd_ReadCollectionType_field fieldName = restoring (at_field fieldName 0 (on_in ReadCollectionTypeUnprotected))"

definition rd_ReadCollectionSize_field :: "string \<Rightarrow> int rd_act" where
  "rd_ReadCollectionSize_field fieldName = restoring (at_field fieldName (-1) (on_in ReadCollectionSizeUnprotected))"

definition HasNextElement :: "int \<Rightarrow> bool rd_act" where
  "HasNextElement i = get (\<lambda>r. rd_elemId r = i \<and> rd_elemRead r < rd_elemCnt r)"

text \<open>Counting an element ends the session with the last one. A string element that only asked for its length, so that
  the stream did not move, is not counted.\<close>

definition element_read :: "unit rd_act" where
  "element_read = change (\<lambda>r.
     let n = to_signed 32 (rd_elemRead r + 1)
     in if n = rd_elemCnt r then r\<lparr>rd_elemId := 0, rd_elemCnt := -1, rd_elemRead := 0\<rparr>
        else r\<lparr>rd_elemRead := n\<rparr>)"

definition ReadStringElement :: "int \<Rightarrow> bool \<Rightarrow> int \<Rightarrow> (int \<times> string option) rd_act" where
  "ReadStringElement i has_res len =
     followed (rd_CheckSession i)
     (andThen (on_in in_Position) (\<lambda>posBefore.
      andThen (on_in (ReadStringInternal has_res len)) (\<lambda>res.
      andThen (on_in in_Position) (\<lambda>posAfter.
        followed (if posAfter > posBefore then element_read else ret ()) (ret res)))))"

definition ReadElement :: "int \<Rightarrow> 'a rd_act \<Rightarrow> 'a rd_act" where
  "ReadElement i read_val = followed (rd_CheckSession i) (followed element_read read_val)"

definition ReadElement_pair :: "int \<Rightarrow> 'a rd_act \<Rightarrow> 'b rd_act \<Rightarrow> ('a \<times> 'b) rd_act" where
  "ReadElement_pair i read_key read_val = followed (rd_CheckSession i) (followed element_read
     (andThen read_key (\<lambda>k. andThen read_val (\<lambda>v. ret (k, v)))))"

text \<open>The templates that read a whole collection into an output iterator: the elements in the order in which they are
  stored. The loop is bounded by the number of elements; \<open>turns\<close> bounds the number of its tests.\<close>

fun read_elements :: "nat \<Rightarrow> int \<Rightarrow> 'a rd_act \<Rightarrow> 'a list rd_act" where
  "read_elements 0 i read_val = fail Unbounded"
| "read_elements (Suc turns) i read_val = andThen (HasNextElement i) (\<lambda>more.
     if more then
       andThen (ReadElement i read_val) (\<lambda>x. andThen (read_elements turns i read_val) (\<lambda>xs. ret (x # xs)))
     else ret [])"

definition read_session :: "nat \<Rightarrow> bool \<Rightarrow> 'a rd_act \<Rightarrow> (int \<times> 'a list) rd_act" where
  "read_session turns rawMode read_val =
     andThen (rd_StartContainerSession rawMode DOCUMENTDB_TYPE_COLLECTION) (\<lambda>(i, size).
       followed (if size \<noteq> -1 then followed (on_in in_ReadInt8) (ret ()) else ret ())
       (andThen (read_elements turns i read_val) (\<lambda>xs. ret (size, xs))))"

definition rd_ReadCollection_into :: "nat \<Rightarrow> 'a rd_act \<Rightarrow> (int \<times> 'a list) rd_act" where
  "rd_ReadCollection_into turns read_val = read_session turns True read_val"

definition rd_ReadCollection_into_field :: "nat \<Rightarrow> string \<Rightarrow> 'a rd_act \<Rightarrow> (int \<times> 'a list) rd_act" where
  "rd_ReadCollection_into_field turns fieldName read_val =
     rd_in_mode False (andThen (field_position fieldName) (\<lambda>fieldPos.
       if fieldPos \<le> 0 then ret (-1, [])
       else followed (on_in (in_SetPosition fieldPos)) (read_session turns False read_val)))"

section \<open>Moving through the stream\<close>

definition SkipIfNull :: "bool rd_act" where
  "SkipIfNull = on_in (guarded (andThen in_ReadInt8 (\<lambda>hdr.
     if hdr \<noteq> DOCUMENTDB_HDR_NULL then ret (False, False) else ret (True, True))))"

definition skip_counted :: "int \<Rightarrow> unit in_act" where
  "skip_counted w = andThen in_ReadInt32 (\<lambda>realLen.
     if realLen > 0 then in_Ignore (to_signed 32 (realLen * w)) else ret ())"

definition fixed_size :: "int \<Rightarrow> int option" where
  "fixed_size hdr =
     (if hdr \<in> {DOCUMENTDB_TYPE_BYTE, DOCUMENTDB_TYPE_BOOL} then Some 1
      else if hdr \<in> {DOCUMENTDB_TYPE_SHORT, DOCUMENTDB_TYPE_CHAR} then Some 2
      else if hdr \<in> {DOCUMENTDB_TYPE_INT, DOCUMENTDB_TYPE_FLOAT} then Some 4
      else if hdr \<in> {DOCUMENTDB_TYPE_LONG, DOCUMENTDB_TYPE_DOUBLE, DOCUMENTDB_TYPE_DATE, DOCUMENTDB_TYPE_TIME,
                     DOCUMENTDB_TYPE_ENUM, DOCUMENTDB_TYPE_BINARY_ENUM} then Some 8
      else if hdr = DOCUMENTDB_TYPE_UUID then Some 16
      else if hdr = DOCUMENTDB_TYPE_TIMESTAMP then Some 12
      else None)"

definition element_width :: "int \<Rightarrow> int option" where
  "element_width hdr =
     (if hdr \<in> {DOCUMENTDB_TYPE_STRING, DOCUMENTDB_TYPE_ARRAY_BYTE, DOCUMENTDB_TYPE_ARRAY_BOOL} then Some 1
      else if hdr \<in> {DOCUMENTDB_TYPE_ARRAY_SHORT, DOCUMENTDB_TYPE_ARRAY_CHAR} then Some 2
      else if hdr \<in> {DOCUMENTDB_TYPE_ARRAY_INT, DOCUMENTDB_TYPE_ARRAY_FLOAT} then Some 4
      else if hdr \<in> {DOCUMENTDB_TYPE_ARRAY_LONG, DOCUMENTDB_TYPE_ARRAY_DOUBLE} then Some 8
      else None)"

definition counted_objects :: "int \<Rightarrow> bool" where
  "counted_objects hdr \<longleftrightarrow> hdr \<in> {DOCUMENTDB_TYPE_ARRAY_STRING, DOCUMENTDB_TYPE_ARRAY_UUID, DOCUMENTDB_TYPE_ARRAY_DATE,
     DOCUMENTDB_TYPE_ARRAY_TIMESTAMP, DOCUMENTDB_TYPE_ARRAY_TIME, DOCUMENTDB_TYPE_ARRAY_DECIMAL, DOCUMENTDB_TYPE_ARRAY}"

fun Skip :: "nat \<Rightarrow> unit in_act" where
  "Skip 0 = fail Unbounded"
| "Skip (Suc depth) = andThen in_ReadInt8 (\<lambda>hdr.
     if hdr = DOCUMENTDB_TYPE_BINARY then
       andThen in_ReadInt32 (\<lambda>portLen. in_Ignore (to_signed 32 (portLen + 4)))
     else if hdr = DOCUMENTDB_TYPE_DECIMAL then
       followed (in_Ignore 4) (andThen in_ReadInt32 (\<lambda>magLen. in_Ignore magLen))
     else if hdr = DOCUMENTDB_TYPE_OPTM_MARSH then
       andThen in_ReadInt32 (\<lambda>realLen. in_Ignore realLen)
     else case fixed_size hdr of
       Some n \<Rightarrow> in_Ignore n
     | None \<Rightarrow>
         (case element_width hdr of
            Some w \<Rightarrow> skip_counted w
          | None \<Rightarrow>
              if counted_objects hdr then
                andThen in_ReadInt32 (\<lambda>cnt. followed (repeat_act (nat cnt) (Skip depth)) (ret ()))
              else if hdr = DOCUMENTDB_TYPE_COLLECTION then
                andThen in_ReadInt32 (\<lambda>cnt. followed (in_Ignore 1) (followed (repeat_act (nat cnt) (Skip depth)) (ret ())))
              else if hdr = DOCUMENTDB_TYPE_MAP then
                andThen in_ReadInt32 (\<lambda>cnt. followed (in_Ignore 1)
                  (followed (repeat_act (nat cnt) (followed (Skip depth) (Skip depth))) (ret ())))
              else if hdr = DOCUMENTDB_HDR_FULL then
                andThen in_Position (\<lambda>p.
                  let objectBegin = to_signed 32 (p - 1)
                  in andThen (in_ReadInt32_at (to_signed 32 (objectBegin + DOCUMENTDB_OFFSET_LEN))) (\<lambda>objectLen.
                       in_SetPosition (to_signed 32 (objectBegin + objectLen))))
              else if hdr = DOCUMENTDB_HDR_NULL then ret ()
              else andThen in_Position (\<lambda>p.
                fail (Thrown DOCUMENTDB_ERR_BINARY ''Invalid header''
                        [(''position'', to_signed 32 (p - 1)), (''unsupported type'', hdr)]))))"

definition rd_Skip :: "nat \<Rightarrow> unit rd_act" where
  "rd_Skip depth = on_in (Skip depth)"

definition rd_SetRawMode :: "unit rd_act" where
  "rd_SetRawMode = rd_in_mode False
     (followed (andThen (get (\<lambda>r. to_signed 32 (rd_pos r + rd_rawOff r))) (\<lambda>p. on_in (in_SetPosition p)))
       (change (\<lambda>r. r\<lparr>rd_rawMode := True\<rparr>)))"

section \<open>Objects\<close>

text \<open>Values with their type.\<close>

definition rd_ReadTopObject :: "int \<Rightarrow> 't in_act \<Rightarrow> 't \<Rightarrow> 't rd_act" where
  "rd_ReadTopObject expHdr func dflt = on_in (andThen in_ReadInt8 (\<lambda>typeId.
     if typeId = expHdr then func
     else if typeId = DOCUMENTDB_HDR_NULL then ret dflt
     else invalid_header_here expHdr typeId))"

definition rd_ReadTopObject_Date :: "int rd_act" where
  "rd_ReadTopObject_Date = on_in (andThen in_ReadInt8 (\<lambda>typeId.
     if typeId = DOCUMENTDB_TYPE_DATE then BU_ReadDate
     else if typeId = DOCUMENTDB_TYPE_TIMESTAMP then andThen BU_ReadTimestamp (\<lambda>t. ret (ts_GetMilliseconds t))
     else if typeId = DOCUMENTDB_HDR_NULL then ret 0
     else invalid_header_here DOCUMENTDB_TYPE_DATE typeId))"

text \<open>The string of a variable that holds \<open>res\<close>: an empty string in the stream leaves it as it is.\<close>

definition rd_ReadTopObject_string :: "string \<Rightarrow> string rd_act" where
  "rd_ReadTopObject_string res = on_in (andThen in_ReadInt8 (\<lambda>typeId.
     if typeId = DOCUMENTDB_TYPE_STRING then
       andThen in_ReadInt32 (\<lambda>realLen.
         if realLen > 0 then andThen (in_ReadInt8Array realLen) (\<lambda>vs. ret (chars_of vs)) else ret res)
     else if typeId = DOCUMENTDB_HDR_NULL then ret []
     else invalid_header_here DOCUMENTDB_TYPE_STRING typeId))"

definition rd_ReadTopObject_Int8Vector :: "int list \<Rightarrow> int list rd_act" where
  "rd_ReadTopObject_Int8Vector res = on_in (ReadArrayToVectorInternal res in_ReadInt8Array DOCUMENTDB_TYPE_ARRAY_BYTE)"

definition rd_ReadTopObject_Int16Vector :: "int list \<Rightarrow> int list rd_act" where
  "rd_ReadTopObject_Int16Vector res = on_in (ReadArrayToVectorInternal res in_ReadInt16Array DOCUMENTDB_TYPE_ARRAY_SHORT)"

definition rd_ReadTopObject_Int32Vector :: "int list \<Rightarrow> int list rd_act" where
  "rd_ReadTopObject_Int32Vector res = on_in (ReadArrayToVectorInternal res in_ReadInt32Array DOCUMENTDB_TYPE_ARRAY_INT)"

definition rd_ReadTopObject_Int64Vector :: "int list \<Rightarrow> int list rd_act" where
  "rd_ReadTopObject_Int64Vector res = on_in (ReadArrayToVectorInternal res in_ReadInt64Array DOCUMENTDB_TYPE_ARRAY_LONG)"

definition rd_ReadObject :: "'a rd_act \<Rightarrow> 'a rd_act" where
  "rd_ReadObject read_val = followed (rd_CheckRawMode True) read_val"

definition rd_ReadObject_field :: "string \<Rightarrow> 'a \<Rightarrow> 'a rd_act \<Rightarrow> 'a rd_act" where
  "rd_ReadObject_field fieldName null read_val =
     followed (rd_CheckRawMode False) (andThen (field_position fieldName) (\<lambda>fieldPos.
       if fieldPos \<le> 0 then ret null else followed (on_in (in_SetPosition fieldPos)) read_val))"

definition TryReadObject :: "'a rd_act \<Rightarrow> 'a option rd_act" where
  "TryReadObject read_val = followed (rd_CheckRawMode True) (andThen SkipIfNull (\<lambda>skipped.
     if skipped then ret None else andThen (rd_ReadObject read_val) (\<lambda>x. ret (Some x))))"

text \<open>An enumeration value of a C++ type: its null value, its type identifier and the conversion of an ordinal.\<close>

definition DeserializeEnumEntry :: "'t \<Rightarrow> int \<Rightarrow> (int \<Rightarrow> 't) \<Rightarrow> BinaryEnumEntry \<Rightarrow> 't rd_act" where
  "DeserializeEnumEntry null typeId fromOrdinal entry =
     (if enum_typeId entry = 0 then ret null
      else if enum_typeId entry \<noteq> typeId then
        fail (Thrown DOCUMENTDB_ERR_BINARY ''Unexpected type ID during deserialization of the enum: ''
                [(''expected'', typeId), (''actual'', enum_typeId entry)])
      else ret (fromOrdinal (enum_ordinal entry)))"

text \<open>An object of a C++ type: the functions of its \<open>BinaryType\<close> that reading uses.\<close>

record 'o ReadableTypeT = "'o BinaryTypeT" +
  bt_GetNull :: 'o
  bt_Read :: "'o rd_act"

definition open_object :: "BinaryIdResolver \<Rightarrow> int \<Rightarrow> InteropInputStream \<Rightarrow> stream_error + BinaryReaderImpl" where
  "open_object rslvr pos s =
     map_sum id fst (andThen in_ReadInt8 (\<lambda>protoVer.
       if protoVer \<noteq> DOCUMENTDB_PROTO_VER then
         fail (Thrown DOCUMENTDB_ERR_BINARY ''Unsupported binary protocol version: '' [(''version'', protoVer)])
       else andThen in_ReadInt16 (\<lambda>flags0.
         let flags = word_of_int flags0 :: u16
         in if has_flag flags DOCUMENTDB_BINARY_FLAG_COMPACT_FOOTER then
              fail (Thrown DOCUMENTDB_ERR_BINARY
                ''Unsupported binary protocol flag: DOCUMENTDB_BINARY_FLAG_COMPACT_FOOTER: '' [(''flag'', 32)])
            else
              andThen in_ReadInt32 (\<lambda>typeId.
              andThen in_ReadInt32 (\<lambda>hashCode.
              andThen in_ReadInt32 (\<lambda>len.
              andThen in_ReadInt32 (\<lambda>schemaId.
              andThen in_ReadInt32 (\<lambda>schemaOrRawOff.
                let footerBegin = to_signed 32 (pos + (if has_flag flags DOCUMENTDB_BINARY_FLAG_HAS_SCHEMA
                                                       then schemaOrRawOff else len));
                    schemaType = (if has_flag flags DOCUMENTDB_BINARY_FLAG_OFFSET_ONE_BYTE then ONE_BYTE
                                  else if has_flag flags DOCUMENTDB_BINARY_FLAG_OFFSET_TWO_BYTES then TWO_BYTES
                                  else FOUR_BYTES);
                    usrType = has_flag flags DOCUMENTDB_BINARY_FLAG_USER_TYPE;
                    footer = (if has_flag flags DOCUMENTDB_BINARY_FLAG_HAS_RAW
                                 \<and> has_flag flags DOCUMENTDB_BINARY_FLAG_HAS_SCHEMA then
                                (let footerEnd = to_signed 32 (pos + len - 4)
                                 in andThen (in_ReadInt32_at footerEnd) (\<lambda>rawOff. ret (footerEnd, rawOff)))
                              else ret (to_signed 32 (pos + len), schemaOrRawOff))
                in andThen footer (\<lambda>(footerEnd, rawOff). andThen (get id) (\<lambda>s'.
                     ret (newBinaryReaderImpl s' rslvr pos usrType typeId hashCode len rawOff footerBegin footerEnd
                            schemaType)))))))))) s)"

fun ReadTopObject0 :: "nat \<Rightarrow> ('o, 'z) ReadableTypeT_scheme \<Rightarrow> 'o in_act" where
  "ReadTopObject0 0 T = fail Unbounded"
| "ReadTopObject0 (Suc depth) T = andThen in_Position (\<lambda>pos. andThen in_ReadInt8 (\<lambda>hdr.
     if hdr = DOCUMENTDB_HDR_NULL then ret (bt_GetNull T)
     else if hdr = DOCUMENTDB_HDR_HND then
       fail (Thrown DOCUMENTDB_ERR_BINARY ''Circular references are not supported.'' [])
     else if hdr = DOCUMENTDB_TYPE_BINARY then
       andThen in_ReadInt32 (\<lambda>portLen. andThen in_Position (\<lambda>curPos.
       andThen (in_ReadInt32_at (to_signed 32 (curPos + portLen))) (\<lambda>portOff.
         followed (in_SetPosition (to_signed 32 (curPos + portOff)))
         (andThen (ReadTopObject0 depth T) (\<lambda>res.
           followed (in_SetPosition (to_signed 32 (curPos + portLen + 4))) (ret res))))))
     else if hdr = DOCUMENTDB_HDR_FULL then (\<lambda>s.
       case open_object (bt_resolver T) pos s of
         Inl e \<Rightarrow> Inl e
       | Inr impl \<Rightarrow>
           (case bt_Read T impl of
              Inl e \<Rightarrow> Inl e
            | Inr (res, impl') \<Rightarrow>
                followed (in_SetPosition (to_signed 32 (pos + rd_len impl))) (ret res) (rd_stream impl')))
     else fail (Thrown DOCUMENTDB_ERR_BINARY ''Unexpected header during deserialization: '' [(''header'', hdr mod 256)])))"

text \<open>A vector of objects.\<close>

definition ReadTopObject0_vector :: "'a rd_act \<Rightarrow> 'a list rd_act" where
  "ReadTopObject0_vector read_val = andThen (on_in in_ReadInt8) (\<lambda>hdr.
     if hdr = DOCUMENTDB_TYPE_ARRAY then
       andThen (on_in in_ReadInt32) (\<lambda>elementNum.
         if elementNum < 0 then fail LengthError else repeat_act (nat elementNum) (rd_ReadObject read_val))
     else fail (Thrown DOCUMENTDB_ERR_BINARY ''Unexpected header during deserialization: '' [(''header'', hdr mod 256)]))"

end
