(* ===== verification/Odbc_Protocol.thy ===== *)
theory Odbc_Protocol
  imports Odbc_BinaryReader
begin

text \<open>
  The messages of the thin client protocol: the string, decimal and array helpers of \<^verbatim>\<open>utility.cpp\<close>, the protocol
  versions (\<^verbatim>\<open>protocol_version.cpp\<close>), the requests and responses of \<^verbatim>\<open>message.cpp\<close>, and the pages of a result
  with their rows, columns and cursor (\<^verbatim>\<open>result_page.cpp\<close>, \<^verbatim>\<open>row.cpp\<close>, \<^verbatim>\<open>column.cpp\<close>, \<^verbatim>\<open>cursor.cpp\<close>).
  An \<open>assert\<close> of the source is not checked in the driver as it is shipped and is not part of the model.
\<close>

section \<open>Strings, arrays and decimals\<close>

definition util_ReadString :: "string rd_act" where
  "util_ReadString = andThen (rd_ReadString False 0) (\<lambda>(strLen, _).
     if strLen > 0 then
       andThen (rd_ReadString True strLen) (\<lambda>(_, res). ret (case res of Some s \<Rightarrow> s | None \<Rightarrow> []))
     else if strLen = 0 then followed (rd_ReadString True 1) (ret [])
     else ret [])"

definition util_WriteString :: "string \<Rightarrow> unit wr_act" where
  "util_WriteString str = wr_WriteString (Some str) (to_signed 32 (int (length str)))"

definition util_ReadByteArray :: "int list rd_act" where
  "util_ReadByteArray = andThen (rd_ReadInt8Array False 0) (\<lambda>(len, _).
     if len > 0 then andThen (rd_ReadInt8Array True len) (\<lambda>(_, res). ret (case res of Some xs \<Rightarrow> xs | None \<Rightarrow> []))
     else ret [])"

text \<open>The magnitude has at least one byte, most significant first. Its top bit is the sign, in a byte of its own when the
  magnitude needs the bit.\<close>

definition util_WriteDecimal :: "Decimal \<Rightarrow> unit wr_act" where
  "util_WriteDecimal d =
     (let bytes = MagnitudeToBytes (magnitude d);
          addBit = (if sign (magnitude d) = -1 then 0x80 else 0 :: u8);
          len = to_signed 32 (int (length bytes))
      in followed (wr_WriteInt8 DOCUMENTDB_TYPE_DECIMAL)
         (followed (wr_WriteInt32 (scale d))
         (case bytes of
            [] \<Rightarrow> fail WildAccess
          | b # bs \<Rightarrow>
              if sint b < 0 then
                followed (wr_WriteInt32 (to_signed 32 (len + 1)))
                (followed (wr_WriteInt8 (sint addBit)) (on_out (out_WriteInt8Array (map sint (b # bs)) len)))
              else
                followed (wr_WriteInt32 len) (on_out (out_WriteInt8Array (map sint ((b OR addBit) # bs)) len)))))"

definition util_ReadDecimal :: "Decimal rd_act" where
  "util_ReadDecimal = followed rd_ReadInt8
     (andThen rd_ReadInt32 (\<lambda>sc.
      andThen rd_ReadInt32 (\<lambda>len.
        if len < 0 then fail LengthError
        else andThen (on_in (in_ReadInt8Array len)) (\<lambda>vals.
          case map word_of_int vals of
            [] \<Rightarrow> fail WildAccess
          | b # bs \<Rightarrow>
              if sint (b :: u8) < 0 then ret (Decimal_of_bytes ((b AND 0x7F) # bs) (word_of_int sc) (-1) True)
              else ret (Decimal_of_bytes (b # bs) (word_of_int sc) 1 True)))))"

section \<open>Protocol versions\<close>

record ProtocolVersion =
  vmajor :: int
  vminor :: int
  vmaintenance :: int

definition version :: "int \<Rightarrow> int \<Rightarrow> int \<Rightarrow> ProtocolVersion" where
  "version a b c = \<lparr>vmajor = a, vminor = b, vmaintenance = c\<rparr>"

definition GetSupported :: "ProtocolVersion list" where
  "GetSupported = [version 2 1 0, version 2 1 5, version 2 3 0, version 2 3 2, version 2 5 0, version 2 7 0, version 2 8 0]"

definition GetCurrent :: ProtocolVersion where
  "GetCurrent = version 2 8 0"

definition version_Compare :: "ProtocolVersion \<Rightarrow> ProtocolVersion \<Rightarrow> int" where
  "version_Compare v w =
     (let res = vmajor v - vmajor w;
          res = (if res = 0 then vminor v - vminor w else res);
          res = (if res = 0 then vmaintenance v - vmaintenance w else res)
      in res)"

definition version_IsSupported :: "ProtocolVersion \<Rightarrow> bool" where
  "version_IsSupported v \<longleftrightarrow> v \<in> set GetSupported"

definition version_ToString :: "ProtocolVersion \<Rightarrow> string" where
  "version_ToString v = int_string (vmajor v) @ ''.'' @ int_string (vminor v) @ ''.'' @ int_string (vmaintenance v)"

section \<open>Requests\<close>

definition HandshakeRequest_Write :: "unit wr_act" where
  "HandshakeRequest_Write =
     followed (wr_WriteInt8 1)
     (followed (wr_WriteInt16 (vmajor GetCurrent))
     (followed (wr_WriteInt16 (vminor GetCurrent))
     (followed (wr_WriteInt16 (vmaintenance GetCurrent))
       (wr_WriteInt8 0))))"

definition write_object_string :: "string \<Rightarrow> unit wr_act" where
  "write_object_string s = wr_WriteObject (wr_WriteTopObject_string s)"

text \<open>What the requests that execute a statement have before the parameters.\<close>

definition execute_prefix :: "int \<Rightarrow> string \<Rightarrow> string \<Rightarrow> unit wr_act" where
  "execute_prefix code schema sql =
     followed (wr_WriteInt8 code)
     (followed (if schema = [] then wr_WriteNull else write_object_string schema) (write_object_string sql))"

definition write_timeout :: "ProtocolVersion \<Rightarrow> int \<Rightarrow> unit wr_act" where
  "write_timeout ver timeout = (if version_Compare ver (version 2 3 2) \<ge> 0 then wr_WriteInt32 timeout else ret ())"

definition QueryCloseRequest_Write :: "int \<Rightarrow> unit wr_act" where
  "QueryCloseRequest_Write queryId = followed (wr_WriteInt8 4) (wr_WriteInt64 queryId)"

definition QueryFetchRequest_Write :: "int \<Rightarrow> int \<Rightarrow> unit wr_act" where
  "QueryFetchRequest_Write queryId pageSize =
     followed (wr_WriteInt8 3) (followed (wr_WriteInt64 queryId) (wr_WriteInt32 pageSize))"

definition QueryGetColumnsMetaRequest_Write :: "string \<Rightarrow> string \<Rightarrow> string \<Rightarrow> unit wr_act" where
  "QueryGetColumnsMetaRequest_Write schema table column =
     followed (wr_WriteInt8 5)
     (followed (write_object_string schema) (followed (write_object_string table) (write_object_string column)))"

definition QueryGetResultsetMetaRequest_Write :: "string \<Rightarrow> string \<Rightarrow> unit wr_act" where
  "QueryGetResultsetMetaRequest_Write schema sqlQuery =
     followed (wr_WriteInt8 11) (followed (write_object_string schema) (write_object_string sqlQuery))"

definition QueryGetTablesMetaRequest_Write :: "string \<Rightarrow> string \<Rightarrow> string \<Rightarrow> string \<Rightarrow> unit wr_act" where
  "QueryGetTablesMetaRequest_Write catalog schema table tableTypes =
     followed (wr_WriteInt8 6)
     (followed (write_object_string catalog) (followed (write_object_string schema)
     (followed (write_object_string table) (write_object_string tableTypes))))"

definition QueryGetParamsMetaRequest_Write :: "string \<Rightarrow> string \<Rightarrow> unit wr_act" where
  "QueryGetParamsMetaRequest_Write schema sqlQuery =
     followed (wr_WriteInt8 7) (followed (write_object_string schema) (write_object_string sqlQuery))"

definition QueryMoreResultsRequest_Write :: "int \<Rightarrow> int \<Rightarrow> unit wr_act" where
  "QueryMoreResultsRequest_Write queryId pageSize =
     followed (wr_WriteInt8 9) (followed (wr_WriteInt64 queryId) (wr_WriteInt32 pageSize))"

text \<open>A batch is its number of rows and its bytes.\<close>

definition StreamingBatchRequest_Write :: "string \<Rightarrow> int \<Rightarrow> int list \<Rightarrow> bool \<Rightarrow> int \<Rightarrow> unit wr_act" where
  "StreamingBatchRequest_Write schema batchSize batchData isLast order =
     followed (wr_WriteInt8 10)
     (followed (util_WriteString schema)
     (followed (wr_WriteInt32 batchSize)
     (followed (if batchSize \<noteq> 0 then on_out (out_WriteInt8Array batchData (int (length batchData))) else ret ())
     (followed (wr_WriteBool isLast) (wr_WriteInt64 order)))))"

section \<open>Responses\<close>

text \<open>The status, and what the response holds on success or the error text.\<close>

definition Response_Read :: "'a rd_act \<Rightarrow> ProtocolVersion \<Rightarrow> (int \<times> (string + 'a)) rd_act" where
  "Response_Read read_on_success ver =
     andThen (if version_Compare ver (version 2 1 5) < 0 then rd_ReadInt8 else rd_ReadInt32) (\<lambda>status.
       if status = 0 then andThen read_on_success (\<lambda>x. ret (status, Inr x))
       else andThen util_ReadString (\<lambda>err. ret (status, Inl err)))"

record HandshakeResponse =
  hs_accepted :: bool
  hs_currentVer :: ProtocolVersion
  hs_error :: string

definition HandshakeResponse_Read :: "HandshakeResponse rd_act" where
  "HandshakeResponse_Read = andThen rd_ReadBool (\<lambda>accepted.
     if accepted then ret \<lparr>hs_accepted = True, hs_currentVer = version 0 0 0, hs_error = []\<rparr>
     else
       andThen rd_ReadInt16 (\<lambda>major.
       andThen rd_ReadInt16 (\<lambda>minor.
       andThen rd_ReadInt16 (\<lambda>maintenance.
       andThen util_ReadString (\<lambda>err.
         ret \<lparr>hs_accepted = False, hs_currentVer = version major minor maintenance, hs_error = err\<rparr>)))))"

definition QueryCloseResponse_ReadOnSuccess :: "int rd_act" where
  "QueryCloseResponse_ReadOnSuccess = rd_ReadInt64"

text \<open>\<open>reserve\<close> of a negative length throws.\<close>

definition ReadAffectedRows :: "ProtocolVersion \<Rightarrow> int list rd_act" where
  "ReadAffectedRows ver =
     (if version_Compare ver (version 2 3 2) < 0 then andThen rd_ReadInt64 (\<lambda>n. ret [n])
      else andThen rd_ReadInt32 (\<lambda>len.
        if len < 0 then fail LengthError else repeat_act (nat len) rd_ReadInt64))"

record QueryExecuteBatchResponse =
  qeb_affectedRows :: "int list"
  qeb_errorMessage :: string
  qeb_errorCode :: int

definition QueryExecuteBatchResponse_ReadOnSuccess :: "ProtocolVersion \<Rightarrow> QueryExecuteBatchResponse rd_act" where
  "QueryExecuteBatchResponse_ReadOnSuccess ver = andThen rd_ReadBool (\<lambda>success.
     andThen (ReadAffectedRows ver) (\<lambda>rows.
       if success then ret \<lparr>qeb_affectedRows = rows, qeb_errorMessage = [], qeb_errorCode = 1\<rparr>
       else followed rd_ReadInt64
         (andThen (rd_ReadObject (rd_ReadTopObject_string [])) (\<lambda>msg.
          andThen (if version_Compare ver (version 2 1 5) \<ge> 0 then rd_ReadInt32 else ret 1) (\<lambda>code.
            ret \<lparr>qeb_affectedRows = rows, qeb_errorMessage = msg, qeb_errorCode = code\<rparr>)))))"

record StreamingBatchResponse =
  sb_errorMessage :: string
  sb_errorCode :: int
  sb_order :: int

definition StreamingBatchResponse_ReadOnSuccess :: "StreamingBatchResponse rd_act" where
  "StreamingBatchResponse_ReadOnSuccess =
     andThen (rd_ReadObject (rd_ReadTopObject_string [])) (\<lambda>msg.
     andThen rd_ReadInt32 (\<lambda>code.
     andThen rd_ReadInt64 (\<lambda>ord.
       ret \<lparr>sb_errorMessage = msg, sb_errorCode = code, sb_order = ord\<rparr>)))"

definition QueryGetParamsMetaResponse_ReadOnSuccess :: "int list rd_act" where
  "QueryGetParamsMetaResponse_ReadOnSuccess = util_ReadByteArray"

section \<open>Result pages\<close>

record ResultPage =
  page_last :: bool
  page_size :: int
  page_data :: InteropMemory

definition newResultPage :: ResultPage where
  "newResultPage = \<lparr>page_last = False, page_size = 0, page_data = newInteropUnpooledMemory 1024\<rparr>"

definition ResultPage_Read :: "ResultPage \<Rightarrow> ResultPage rd_act" where
  "ResultPage_Read page =
     andThen rd_ReadBool (\<lambda>last.
     andThen rd_ReadInt32 (\<lambda>size.
     andThen (on_in in_Remaining) (\<lambda>dataToRead.
       let m = (page_data page)\<lparr>Length := dataToRead\<rparr>
       in if dataToRead = 0 then ret \<lparr>page_last = last, page_size = size, page_data = m\<rparr>
          else
            let m' = Reallocate dataToRead m
            in andThen (on_in (in_ReadInt8Array dataToRead)) (\<lambda>vals.
                 ret \<lparr>page_last = last, page_size = size,
                      page_data = m'\<lparr>Data := put_cells 0 (map word_of_int vals) (Data m')\<rparr>\<rparr>))))"

definition QueryFetchResponse_ReadOnSuccess :: "ResultPage \<Rightarrow> (int \<times> ResultPage) rd_act" where
  "QueryFetchResponse_ReadOnSuccess page = andThen rd_ReadInt64 (\<lambda>queryId.
     andThen (ResultPage_Read page) (\<lambda>p. ret (queryId, p)))"

definition QueryMoreResultsResponse_ReadOnSuccess :: "ResultPage \<Rightarrow> (int \<times> ResultPage) rd_act" where
  "QueryMoreResultsResponse_ReadOnSuccess page = QueryFetchResponse_ReadOnSuccess page"

section \<open>Columns of a page\<close>

record PageColumn =
  col_type :: int
  col_startPos :: int
  col_endPos :: int
  col_offset :: int
  col_size :: int

definition newPageColumn :: PageColumn where
  "newPageColumn = \<lparr>col_type = 0, col_startPos = -1, col_endPos = -1, col_offset = 0, col_size = 0\<rparr>"

definition col_IsValid :: "PageColumn \<Rightarrow> bool" where
  "col_IsValid c \<longleftrightarrow> col_startPos c \<ge> 0"

definition col_GetUnreadDataLength :: "PageColumn \<Rightarrow> int" where
  "col_GetUnreadDataLength c = to_signed 32 (col_size c - col_offset c)"

definition col_IncreaseOffset :: "int \<Rightarrow> PageColumn \<Rightarrow> PageColumn" where
  "col_IncreaseOffset value c =
     (let off = to_signed 32 (col_offset c + value) in c\<lparr>col_offset := if off > col_size c then col_size c else off\<rparr>)"

text \<open>The length of an object in the stream, \<open>None\<close> when it has no header of an object.\<close>

definition GetObjectLength :: "int option in_act" where
  "GetObjectLength = guarded (unreleased (andThen in_ReadInt8 (\<lambda>hdr.
     if hdr = DOCUMENTDB_TYPE_BINARY then
       andThen in_ReadInt32 (\<lambda>n. ret (Some (to_signed 32 (1 + 4 + n + 4))))
     else if hdr = DOCUMENTDB_TYPE_OBJECT then
       andThen in_ReadInt8 (\<lambda>protoVer.
         if protoVer \<noteq> DOCUMENTDB_PROTO_VER then ret None
         else andThen in_Position (\<lambda>pos.
           andThen (in_ReadInt32_at (to_signed 32 (pos + 2 + 4 + 4))) (\<lambda>len. ret (Some len))))
     else ret None)))"

definition simple_header :: "int \<Rightarrow> bool" where
  "simple_header hdr \<longleftrightarrow> hdr \<in> {DOCUMENTDB_TYPE_BYTE, DOCUMENTDB_TYPE_SHORT, DOCUMENTDB_TYPE_CHAR, DOCUMENTDB_TYPE_INT,
     DOCUMENTDB_TYPE_LONG, DOCUMENTDB_TYPE_FLOAT, DOCUMENTDB_TYPE_DOUBLE, DOCUMENTDB_TYPE_BOOL, DOCUMENTDB_HDR_NULL,
     DOCUMENTDB_TYPE_ARRAY_BYTE}"

definition ReadColumnHeader :: "int in_act" where
  "ReadColumnHeader = andThen in_Position (\<lambda>headerPos. andThen in_ReadInt8 (\<lambda>hdr.
     if simple_header hdr then ret hdr else followed (in_SetPosition headerPos) (ret hdr)))"

definition sized :: "'a rd_act \<Rightarrow> int \<Rightarrow> (int option) rd_act" where
  "sized m n = followed m (ret (Some n))"

text \<open>Reads past one value and answers its size; \<open>None\<close> where the constructor returns early.\<close>

definition column_extent :: "int \<Rightarrow> (int option) rd_act" where
  "column_extent hdr =
     (if hdr = DOCUMENTDB_HDR_NULL then ret (Some 1)
      else if hdr = DOCUMENTDB_TYPE_BYTE then sized rd_ReadInt8 1
      else if hdr = DOCUMENTDB_TYPE_BOOL then sized rd_ReadBool 1
      else if hdr = DOCUMENTDB_TYPE_SHORT \<or> hdr = DOCUMENTDB_TYPE_CHAR then sized rd_ReadInt16 2
      else if hdr = DOCUMENTDB_TYPE_FLOAT then sized rd_ReadFloat 4
      else if hdr = DOCUMENTDB_TYPE_INT then sized rd_ReadInt32 4
      else if hdr = DOCUMENTDB_TYPE_DOUBLE then sized rd_ReadDouble 8
      else if hdr = DOCUMENTDB_TYPE_LONG then sized rd_ReadInt64 8
      else if hdr = DOCUMENTDB_TYPE_STRING then
        andThen util_ReadString (\<lambda>s. ret (Some (to_signed 32 (int (length s)))))
      else if hdr = DOCUMENTDB_TYPE_UUID then sized rd_ReadGuid 16
      else if hdr = DOCUMENTDB_TYPE_BINARY \<or> hdr = DOCUMENTDB_TYPE_OBJECT then
        andThen (on_in GetObjectLength) (\<lambda>res.
          case res of
            None \<Rightarrow> ret None
          | Some len \<Rightarrow>
              followed (on_in (andThen in_Position (\<lambda>pos. in_SetPosition (to_signed 32 (pos + len))))) (ret (Some len)))
      else if hdr = DOCUMENTDB_TYPE_DECIMAL then
        andThen util_ReadDecimal (\<lambda>d. ret (Some (to_signed 32 (int (Decimal_GetMagnitudeLength d) + 8))))
      else if hdr = DOCUMENTDB_TYPE_DATE then sized rd_ReadDate 8
      else if hdr = DOCUMENTDB_TYPE_TIME then sized rd_ReadTime 8
      else if hdr = DOCUMENTDB_TYPE_TIMESTAMP then sized rd_ReadTimestamp 12
      else if hdr = DOCUMENTDB_TYPE_ARRAY_BYTE then andThen rd_ReadInt32 (\<lambda>n. ret (Some n))
      else ret None)"

definition PageColumn_discover :: "PageColumn rd_act" where
  "PageColumn_discover = restoring
     (andThen (on_in ReadColumnHeader) (\<lambda>hdr.
      andThen (on_in in_Position) (\<lambda>startPos.
      andThen (column_extent hdr) (\<lambda>res.
        case res of
          None \<Rightarrow> ret newPageColumn
        | Some n \<Rightarrow>
            andThen (on_in in_Position) (\<lambda>pos.
              if hdr = DOCUMENTDB_TYPE_ARRAY_BYTE then
                followed (on_in (in_SetPosition (to_signed 32 (pos + n))))
                (andThen (on_in in_Position) (\<lambda>endPos.
                  ret \<lparr>col_type = hdr, col_startPos = pos, col_endPos = endPos, col_offset = 0, col_size = n\<rparr>))
              else
                ret \<lparr>col_type = hdr, col_startPos = startPos, col_endPos = pos, col_offset = 0, col_size = n\<rparr>)))))"

section \<open>Rows of a page\<close>

record PageRow =
  row_size :: int
  row_beginPos :: int
  row_reader :: BinaryReaderImpl
  row_columns :: "PageColumn list"

type_synonym 'a row_act = "(PageRow, 'a) act"

definition on_row :: "'a rd_act \<Rightarrow> 'a row_act" where
  "on_row m = (\<lambda>w. case m (row_reader w) of Inl e \<Rightarrow> Inl e | Inr (x, r) \<Rightarrow> Inr (x, w\<lparr>row_reader := r\<rparr>))"

definition row_Reinit :: "unit row_act" where
  "row_Reinit = andThen (on_row (on_in in_ReadInt32)) (\<lambda>size.
     andThen (on_row (on_in in_Position)) (\<lambda>pos.
       if size < 0 then fail LengthError
       else change (\<lambda>w. w\<lparr>row_size := size, row_beginPos := pos, row_columns := []\<rparr>)))"

definition newPageRow :: "InteropMemory \<Rightarrow> stream_error + PageRow" where
  "newPageRow pageData =
     (let row = \<lparr>row_size = 0, row_beginPos = 0, row_reader = newRawReader (newInteropInputStream pageData), row_columns = []\<rparr>
      in if Length pageData \<ge> 4 then map_sum id snd (row_Reinit row) else Inr row)"

definition discover_next :: "bool row_act" where
  "discover_next = andThen (on_row PageColumn_discover) (\<lambda>c.
     if \<not> col_IsValid c then ret False
     else followed (change (\<lambda>w. w\<lparr>row_columns := row_columns w @ [c]\<rparr>)) (ret True))"

text \<open>The loop that discovers the columns up to the wanted one, \<open>n\<close> more of them.\<close>

fun discover_columns :: "nat \<Rightarrow> bool row_act" where
  "discover_columns 0 = ret True"
| "discover_columns (Suc n) =
     followed (andThen (get row_columns) (\<lambda>cs. on_row (on_in (in_SetPosition (col_endPos (last cs))))))
     (andThen discover_next (\<lambda>found. if found then discover_columns n else ret False))"

definition row_EnsureColumnDiscovered :: "int \<Rightarrow> bool row_act" where
  "row_EnsureColumnDiscovered columnIdx = andThen (get id) (\<lambda>w.
     if int (length (row_columns w)) \<ge> columnIdx then ret True
     else if columnIdx > row_size w \<or> columnIdx < 1 then ret False
     else if row_columns w = [] then
       andThen discover_next (\<lambda>found. if found then discover_columns (nat columnIdx - 1) else ret False)
     else discover_columns (nat columnIdx - length (row_columns w)))"

text \<open>The number of columns is converted to \<open>uint16_t\<close> for the calls.\<close>

definition row_MoveToNext :: "bool row_act" where
  "row_MoveToNext = andThen (get row_size) (\<lambda>size.
     let lastColumnIdx = size mod 65536
     in andThen (row_EnsureColumnDiscovered lastColumnIdx) (\<lambda>found.
          if \<not> found then ret False
          else andThen (get row_columns) (\<lambda>cs.
            if lastColumnIdx < 1 \<or> int (length cs) < lastColumnIdx then fail WildAccess
            else
              followed (on_row (on_in (in_SetPosition (col_endPos (cs ! (nat lastColumnIdx - 1))))))
              (followed row_Reinit (ret True)))))"

section \<open>The cursor over the pages\<close>

record PageCursor =
  pc_queryId :: int
  pc_page :: "ResultPage option"
  pc_pos :: int
  pc_row :: "PageRow option"

definition newPageCursor :: "int \<Rightarrow> PageCursor" where
  "newPageCursor queryId = \<lparr>pc_queryId = queryId, pc_page = None, pc_pos = 0, pc_row = None\<rparr>"

definition pc_Increment :: "(PageCursor, bool) act" where
  "pc_Increment = (\<lambda>c.
     case pc_page c of
       None \<Rightarrow> Inr (False, c)
     | Some page \<Rightarrow>
         if pc_pos c < page_size page then
           let pos = pc_pos c + 1
           in if pos = page_size page then Inr (True, c\<lparr>pc_pos := pos, pc_row := None\<rparr>)
              else
                (case pc_row c of
                   None \<Rightarrow> Inr (True, c\<lparr>pc_pos := pos\<rparr>)
                 | Some row \<Rightarrow>
                     (case row_MoveToNext row of
                        Inl e \<Rightarrow> Inl e
                      | Inr (_, row') \<Rightarrow> Inr (True, c\<lparr>pc_pos := pos, pc_row := Some row'\<rparr>)))
         else Inr (False, c))"

definition pc_NeedDataUpdate :: "PageCursor \<Rightarrow> bool" where
  "pc_NeedDataUpdate c \<longleftrightarrow>
     (case pc_page c of None \<Rightarrow> True | Some page \<Rightarrow> \<not> page_last page \<and> pc_pos c = page_size page)"

definition pc_HasData :: "PageCursor \<Rightarrow> bool" where
  "pc_HasData c \<longleftrightarrow>
     (case pc_page c of None \<Rightarrow> True | Some page \<Rightarrow> \<not> page_last page \<or> pc_pos c < page_size page)"

definition pc_IsClosedRemotely :: "PageCursor \<Rightarrow> bool" where
  "pc_IsClosedRemotely c \<longleftrightarrow> (case pc_page c of None \<Rightarrow> False | Some page \<Rightarrow> page_last page)"

definition pc_UpdateData :: "ResultPage \<Rightarrow> PageCursor \<Rightarrow> stream_error + PageCursor" where
  "pc_UpdateData newPage c =
     bind_sum (newPageRow (page_data newPage)) (\<lambda>row. Inr (c\<lparr>pc_page := Some newPage, pc_pos := 0, pc_row := Some row\<rparr>))"

end
