(* ===== verification/Odbc_StreamProps.thy ===== *)
theory Odbc_StreamProps
  imports Odbc_Stream
begin

text \<open>
  What the byte streams promise: writing appends bytes to what precedes the position and never leaves the block
  (\<open>appends\<close>), reading consumes bytes and never leaves the length (\<open>consumes\<close>), both closed under
  sequencing. The locale \<open>codec\<close> states the contract of a writer with its reader; every type of the protocol is
  an interpretation, and arrays and messages get their round trips from it.
\<close>

section \<open>Writing\<close>

definition out_inv :: "InteropOutputStream \<Rightarrow> bool" where
  "out_inv s \<longleftrightarrow> out_cap s = Capacity (out_mem s) \<and> out_cap s = int (length (Data (out_mem s)))
     \<and> 0 \<le> out_pos s \<and> out_pos s \<le> out_cap s \<and> out_cap s \<le> INT32_MAX"

definition prefix :: "InteropOutputStream \<Rightarrow> u8 option list" where
  "prefix s = take (nat (out_pos s)) (Data (out_mem s))"

definition appends :: "'a out_act \<Rightarrow> u8 list \<Rightarrow> 'a \<Rightarrow> bool" where
  "appends m bs v \<longleftrightarrow> (\<forall>s. out_inv s \<longrightarrow> out_pos s + int (length bs) \<le> INT32_MAX \<longrightarrow>
     (\<exists>s'. m s = Inr (v, s') \<and> out_inv s' \<and> prefix s' = prefix s @ map Some bs))"

lemma int32_id: "- (2 ^ 31) \<le> x \<Longrightarrow> x \<le> INT32_MAX \<Longrightarrow> to_signed 32 x = x"
  by (rule to_signed_id) (simp_all add: INT32_MAX_def)

lemma int32_nonneg: "0 \<le> x \<Longrightarrow> x \<le> INT32_MAX \<Longrightarrow> to_signed 32 x = x"
  by (rule int32_id) simp_all

lemma int32_range: "- (2 ^ 31) \<le> to_signed 32 x" "to_signed 32 x \<le> INT32_MAX"
  using to_signed_range [of 32 x] by (simp_all add: INT32_MAX_def)

lemma out_pos_bounds:
  assumes "out_inv s"
  shows "0 \<le> out_pos s" "nat (out_pos s) \<le> length (Data (out_mem s))"
  using assms by (simp_all only: out_inv_def) linarith+

lemma length_prefix: "out_inv s \<Longrightarrow> int (length (prefix s)) = out_pos s"
  using out_pos_bounds [of s] by (simp add: prefix_def min_def)

lemma new_out_inv: "0 \<le> cap \<Longrightarrow> cap \<le> INT32_MAX \<Longrightarrow>
  out_inv (newInteropOutputStream (newInteropUnpooledMemory cap))"
  by (simp add: out_inv_def newInteropOutputStream_def newInteropUnpooledMemory_def)

text \<open>Growing keeps the cells and makes room.\<close>

lemma EnsureCapacity_grows:
  assumes "out_inv s" and "req \<le> INT32_MAX"
  shows "\<exists>s' k. EnsureCapacity req s = Inr ((), s') \<and> out_inv s' \<and> out_pos s' = out_pos s
           \<and> Data (out_mem s') = Data (out_mem s) @ replicate k None \<and> req \<le> out_cap s'
           \<and> Length (out_mem s') = Length (out_mem s)"
proof (cases "req > out_cap s")
  case False
  with assms show ?thesis
    by (intro exI [of _ s] exI [of _ 0]) (simp add: EnsureCapacity_def)
next
  case True
  define d where "d = to_signed 32 (out_cap s * 2)"
  define n where "n = (if d < req then req else d)"
  have n: "req \<le> n" "n \<le> INT32_MAX" "d \<le> n"
    using assms(2) int32_range(2) [of "out_cap s * 2"] by (auto simp: n_def d_def)
  let ?s' = "s\<lparr>out_mem := Reallocate n (out_mem s), out_cap := n\<rparr>"
  let ?k = "nat n - length (Data (out_mem s))"
  have len: "length (Data (out_mem s)) \<le> nat n"
    using assms(1) True n(1) by (simp only: out_inv_def) linarith
  have m: "Reallocate n (out_mem s) =
      (out_mem s)\<lparr>Data := Data (out_mem s) @ replicate ?k None, Capacity := n\<rparr>"
    using assms(1) n(3) len by (auto simp: Reallocate_def Let_def realloc_def out_inv_def d_def)
  have "EnsureCapacity req s = Inr ((), ?s')"
    using True by (simp add: EnsureCapacity_def Let_def n_def d_def)
  moreover have "out_inv ?s'"
    using assms(1) True n len by (simp add: m out_inv_def)
  ultimately show ?thesis
    using n(1) by (intro exI [of _ ?s'] exI [of _ ?k]) (simp add: m)
qed

lemma put_cells_at_end:
  assumes "p + length bs \<le> length cells"
  shows "take (p + length bs) (put_cells p bs cells) = take p cells @ map Some bs"
proof -
  have "length (take p cells @ map Some bs) = p + length bs"
    using assms by simp
  then show ?thesis
    unfolding put_cells_def append_assoc [symmetric] by (simp only: take_append) simp
qed

lemma length_put_cells [simp]: "p + length bs \<le> length cells \<Longrightarrow> length (put_cells p bs cells) = length cells"
  by (simp add: put_cells_def)

lemma appends_out_write: "appends (out_write bs) bs ()"
  unfolding appends_def
proof (intro allI impI)
  fix s assume s: "out_inv s" and room: "out_pos s + int (length bs) \<le> INT32_MAX"
  have p: "to_signed 32 (out_pos s + int (length bs)) = out_pos s + int (length bs)"
    using s room by (intro int32_id) (simp_all add: out_inv_def)
  obtain s1 k where e: "EnsureCapacity (out_pos s + int (length bs)) s = Inr ((), s1)"
    and s1: "out_inv s1" "out_pos s1 = out_pos s"
    and d: "Data (out_mem s1) = Data (out_mem s) @ replicate k None" and c: "out_pos s + int (length bs) \<le> out_cap s1"
    using EnsureCapacity_grows [OF s room] by blast
  let ?s2 = "s1\<lparr>out_mem := (out_mem s1)\<lparr>Data := put_cells (nat (out_pos s)) bs (Data (out_mem s1))\<rparr>\<rparr>"
  let ?s3 = "?s2\<lparr>out_pos := out_pos s + int (length bs)\<rparr>"
  have st: "store (out_pos s) bs s1 = Inr ((), ?s2)"
    using s s1 c by (simp add: store_def out_inv_def)
  have fits: "nat (out_pos s) + length bs \<le> length (Data (out_mem s1))"
    using s s1 c by (simp only: out_inv_def) linarith
  have "out_write bs s = Inr ((), ?s3)"
    by (simp add: out_write_def p e st out_Shift_def s1(2))
  moreover have "out_inv ?s3"
    using s s1 c fits by (simp add: out_inv_def)
  moreover have "prefix ?s3 = prefix s @ map Some bs"
  proof -
    have "nat (out_pos s + int (length bs)) = nat (out_pos s) + length bs"
      using s by (simp add: out_inv_def nat_add_distrib)
    moreover have "nat (out_pos s) \<le> length (Data (out_mem s))"
      using s by (rule out_pos_bounds)
    ultimately show ?thesis
      using put_cells_at_end [OF fits] by (simp add: prefix_def d)
  qed
  ultimately show "\<exists>s'. out_write bs s = Inr ((), s') \<and> out_inv s' \<and> prefix s' = prefix s @ map Some bs"
    by blast
qed

lemma appends_ret: "appends (ret v) [] v"
  by (auto simp: appends_def)

lemma appends_andThen:
  assumes "appends m bs x" and "appends (f x) cs y"
  shows "appends (andThen m f) (bs @ cs) y"
  unfolding appends_def
proof (intro allI impI)
  fix s assume s: "out_inv s" and room: "out_pos s + int (length (bs @ cs)) \<le> INT32_MAX"
  obtain s1 where s1: "m s = Inr (x, s1)" "out_inv s1" "prefix s1 = prefix s @ map Some bs"
    using assms(1) s room unfolding appends_def by fastforce
  have "out_pos s1 = out_pos s + int (length bs)"
    using length_prefix [OF s1(2)] length_prefix [OF s] s1(3) by simp
  then obtain s2 where "f x s1 = Inr (y, s2)" "out_inv s2" "prefix s2 = prefix s1 @ map Some cs"
    using assms(2) s1(2) room unfolding appends_def by fastforce
  then show "\<exists>s'. andThen m f s = Inr (y, s') \<and> out_inv s' \<and> prefix s' = prefix s @ map Some (bs @ cs)"
    using s1 by (intro exI [of _ s2]) simp
qed

lemma appends_followed: "appends m bs x \<Longrightarrow> appends k cs y \<Longrightarrow> appends (followed m k) (bs @ cs) y"
  unfolding followed_def by (rule appends_andThen)

lemma appends_for_each:
  assumes "\<And>v. v \<in> set vs \<Longrightarrow> appends (wr v) (enc v) ()"
  shows "appends (for_each wr vs) (concat (map enc vs)) ()"
  using assms by (induction vs) (auto intro: appends_ret appends_followed)

text \<open>Copying an array is one write of its bytes.\<close>

lemma out_CopyAndShift_whole:
  "int (length bs) = len \<Longrightarrow> out_CopyAndShift bs len = out_write bs"
  by (auto simp: out_CopyAndShift_def out_write_def)

lemma length_array_bytes [simp]: "length (array_bytes w vals) = w * length vals"
  by (induction vals) (simp_all add: array_bytes_def)

section \<open>Reading\<close>

definition in_inv :: "InteropInputStream \<Rightarrow> bool" where
  "in_inv s \<longleftrightarrow> 0 \<le> in_pos s \<and> in_pos s \<le> in_len s \<and> in_len s \<le> int (length (Data (in_mem s)))
     \<and> in_len s \<le> INT32_MAX"

text \<open>The bytes between the position and the length.\<close>

definition ahead :: "InteropInputStream \<Rightarrow> u8 option list" where
  "ahead s = drop (nat (in_pos s)) (take (nat (in_len s)) (Data (in_mem s)))"

definition consumes :: "'a in_act \<Rightarrow> u8 list \<Rightarrow> 'a \<Rightarrow> bool" where
  "consumes m bs v \<longleftrightarrow> (\<forall>s rest. in_inv s \<longrightarrow> ahead s = map Some bs @ rest \<longrightarrow>
     m s = Inr (v, s\<lparr>in_pos := in_pos s + int (length bs)\<rparr>))"

lemma length_ahead: "in_inv s \<Longrightarrow> int (length (ahead s)) = in_len s - in_pos s"
  by (auto simp: ahead_def in_inv_def min_def)

lemma ahead_advance:
  assumes "in_inv s" and "ahead s = map Some bs @ rest"
  shows "in_inv (s\<lparr>in_pos := in_pos s + int (length bs)\<rparr>)"
    and "ahead (s\<lparr>in_pos := in_pos s + int (length bs)\<rparr>) = rest"
proof -
  have "int (length bs) \<le> in_len s - in_pos s"
    using length_ahead [OF assms(1)] assms(2) by simp
  then show "in_inv (s\<lparr>in_pos := in_pos s + int (length bs)\<rparr>)"
    using assms(1) by (simp add: in_inv_def)
  have "nat (in_pos s + int (length bs)) = length bs + nat (in_pos s)"
    using assms(1) by (simp add: in_inv_def nat_add_distrib)
  then have "ahead (s\<lparr>in_pos := in_pos s + int (length bs)\<rparr>) = drop (length bs) (ahead s)"
    by (simp add: ahead_def)
  then show "ahead (s\<lparr>in_pos := in_pos s + int (length bs)\<rparr>) = rest"
    by (simp add: assms(2))
qed

lemma load_ahead:
  assumes "in_inv s" and "ahead s = map Some bs @ rest"
  shows "load (in_pos s) (int (length bs)) s = Inr (bs, s)"
proof -
  have len: "in_pos s + int (length bs) \<le> in_len s"
    using length_ahead [OF assms(1)] assms(2) by simp
  have "take (length bs) (ahead s) = map Some bs"
    by (simp add: assms(2))
  moreover have "take (length bs) (ahead s) = cells_at (nat (in_pos s)) (length bs) (Data (in_mem s))"
  proof -
    have "length bs \<le> nat (in_len s) - nat (in_pos s)"
      using len assms(1) by (simp only: in_inv_def) linarith
    then show ?thesis
      by (simp add: ahead_def cells_at_def drop_take min_def)
  qed
  ultimately show ?thesis
    using len assms(1) by (auto simp: load_def Let_def in_inv_def)
qed

lemma consumes_in_read: "consumes (in_read (int (length bs))) bs bs"
  unfolding consumes_def
proof (intro allI impI)
  fix s rest assume s: "in_inv s" and a: "ahead s = map Some bs @ rest"
  have len: "in_pos s + int (length bs) \<le> in_len s"
    using length_ahead [OF s] a by simp
  have "to_signed 32 (in_len s - in_pos s) = in_len s - in_pos s"
    and sh: "to_signed 32 (in_pos s + int (length bs)) = in_pos s + int (length bs)"
    using s len by (auto intro!: int32_id simp: in_inv_def)
  then have "EnsureEnoughData (int (length bs)) s = Inr ((), s)"
    using len by (simp add: EnsureEnoughData_def)
  then show "in_read (int (length bs)) s = Inr (bs, s\<lparr>in_pos := in_pos s + int (length bs)\<rparr>)"
    by (simp add: in_read_def load_ahead [OF s a] in_Shift_def sh)
qed

lemma consumes_ret: "consumes (ret v) [] v"
  by (simp add: consumes_def)

lemma consumes_andThen:
  assumes "consumes m bs x" and "consumes (f x) cs y"
  shows "consumes (andThen m f) (bs @ cs) y"
  unfolding consumes_def
proof (intro allI impI)
  fix s rest assume s: "in_inv s" and a: "ahead s = map Some (bs @ cs) @ rest"
  let ?s1 = "s\<lparr>in_pos := in_pos s + int (length bs)\<rparr>"
  have a': "ahead s = map Some bs @ (map Some cs @ rest)"
    by (simp add: a)
  have "m s = Inr (x, ?s1)"
    using assms(1) s a' unfolding consumes_def by blast
  moreover have "f x ?s1 = Inr (y, ?s1\<lparr>in_pos := in_pos ?s1 + int (length cs)\<rparr>)"
    using assms(2) ahead_advance [OF s a'] unfolding consumes_def by blast
  ultimately show "andThen m f s = Inr (y, s\<lparr>in_pos := in_pos s + int (length (bs @ cs))\<rparr>)"
    by (simp add: algebra_simps)
qed

lemma consumes_followed: "consumes m bs x \<Longrightarrow> consumes k cs y \<Longrightarrow> consumes (followed m k) (bs @ cs) y"
  unfolding followed_def by (rule consumes_andThen)

lemma consumes_map: "consumes m bs x \<Longrightarrow> f x = y \<Longrightarrow> consumes (andThen m (\<lambda>x. ret (f x))) bs y"
  using consumes_andThen [of m bs x "\<lambda>x. ret (f x)" "[]" y] consumes_ret [of y] by simp

lemma consumes_repeat:
  assumes "\<And>v. v \<in> set vs \<Longrightarrow> consumes rd (enc v) v"
  shows "consumes (repeat_act (length vs) rd) (concat (map enc vs)) vs"
  using assms
proof (induction vs)
  case Nil
  show ?case by (simp only: repeat_act.simps list.size concat.simps list.map consumes_ret)
next
  case (Cons v vs)
  have "consumes (andThen (repeat_act (length vs) rd) (\<lambda>xs. ret (v # xs))) (concat (map enc vs)) (v # vs)"
    using Cons by (intro consumes_map) auto
  then show ?case
    using Cons.prems by (auto intro!: consumes_andThen)
qed

section \<open>A writer with its reader\<close>

locale codec =
  fixes wr :: "'a \<Rightarrow> unit out_act" and rd :: "'a in_act" and enc :: "'a \<Rightarrow> u8 list" and ok :: "'a \<Rightarrow> bool"
  assumes written: "ok v \<Longrightarrow> appends (wr v) (enc v) ()"
    and consumed: "ok v \<Longrightarrow> consumes rd (enc v) v"
begin

lemma each_written: "list_all ok vs \<Longrightarrow> appends (for_each wr vs) (concat (map enc vs)) ()"
  by (rule appends_for_each) (auto simp: list_all_iff intro: written)

lemma all_consumed: "list_all ok vs \<Longrightarrow> consumes (repeat_act (length vs) rd) (concat (map enc vs)) vs"
  by (rule consumes_repeat) (auto simp: list_all_iff intro: consumed)

lemma loop_written:
  "list_all ok vs \<Longrightarrow> appends (for_first wr vs (int (length vs))) (concat (map enc vs)) ()"
  by (simp add: for_first_def each_written)

text \<open>An element that is preceded by a marker.\<close>

lemma marked_written: "ok v \<Longrightarrow> appends k hdr () \<Longrightarrow> appends (followed k (wr v)) (hdr @ enc v) ()"
  by (intro appends_followed) (auto intro: written)

end

text \<open>Two codecs one after the other.\<close>

locale codec_pair = fst: codec wr1 rd1 enc1 ok1 + snd: codec wr2 rd2 enc2 ok2
  for wr1 :: "'a \<Rightarrow> unit out_act" and rd1 enc1 ok1 and wr2 :: "'b \<Rightarrow> unit out_act" and rd2 enc2 ok2
begin

lemma pair_written: "ok1 a \<Longrightarrow> ok2 b \<Longrightarrow> appends (followed (wr1 a) (wr2 b)) (enc1 a @ enc2 b) ()"
  by (intro appends_followed) (auto intro: fst.written snd.written)

lemma pair_consumed:
  "ok1 a \<Longrightarrow> ok2 b \<Longrightarrow> consumes (andThen rd1 (\<lambda>x. andThen rd2 (\<lambda>y. ret (f x y)))) (enc1 a @ enc2 b) (f a b)"
  by (rule consumes_andThen [OF fst.consumed]) (auto intro!: consumes_map snd.consumed)

end

definition int_fits :: "nat \<Rightarrow> int \<Rightarrow> bool" where
  "int_fits w v \<longleftrightarrow> - (2 ^ (8 * w - 1)) \<le> v \<and> v < 2 ^ (8 * w - 1)"

definition uint_fits :: "nat \<Rightarrow> int \<Rightarrow> bool" where
  "uint_fits w v \<longleftrightarrow> 0 \<le> v \<and> v < 256 ^ w"

lemma sint_of_int_bytes_fits: "0 < w \<Longrightarrow> int_fits w v \<Longrightarrow> sint_of_bytes (int_bytes w v) = v"
  by (simp add: sint_of_int_bytes int_fits_def to_signed_id)

lemma uint_of_int_bytes_fits: "uint_fits w v \<Longrightarrow> uint_of_bytes (int_bytes w v) = v"
  by (simp add: uint_of_int_bytes uint_fits_def)

lemma consumes_sint: "0 < w \<Longrightarrow> int_fits w v \<Longrightarrow>
  consumes (andThen (in_read (int w)) (\<lambda>bs. ret (sint_of_bytes bs))) (int_bytes w v) v"
  using consumes_in_read [of "int_bytes w v"] by (intro consumes_map) (auto simp: sint_of_int_bytes_fits)

lemma consumes_uint: "uint_fits w v \<Longrightarrow>
  consumes (andThen (in_read (int w)) (\<lambda>bs. ret (uint_of_bytes bs))) (int_bytes w v) v"
  using consumes_in_read [of "int_bytes w v"] by (intro consumes_map) (auto simp: uint_of_int_bytes_fits)

lemmas out_int_defs = out_WriteInt8_def out_WriteInt16_def out_WriteUInt16_def out_WriteInt32_def out_WriteInt64_def

interpretation int8: codec out_WriteInt8 in_ReadInt8 "int_bytes 1" "int_fits 1"
  using consumes_sint [of 1] by unfold_locales (simp_all add: out_int_defs appends_out_write in_ReadInt8_def)

interpretation int16: codec out_WriteInt16 in_ReadInt16 "int_bytes 2" "int_fits 2"
  using consumes_sint [of 2] by unfold_locales (simp_all add: out_int_defs appends_out_write in_ReadInt16_def)

interpretation uint16: codec out_WriteUInt16 in_ReadUInt16 "int_bytes 2" "uint_fits 2"
  using consumes_uint [of 2] by unfold_locales (simp_all add: out_int_defs appends_out_write in_ReadUInt16_def)

interpretation int32: codec out_WriteInt32 in_ReadInt32 "int_bytes 4" "int_fits 4"
  using consumes_sint [of 4] by unfold_locales (simp_all add: out_int_defs appends_out_write in_ReadInt32_def)

interpretation int64: codec out_WriteInt64 in_ReadInt64 "int_bytes 8" "int_fits 8"
  using consumes_sint [of 8] by unfold_locales (simp_all add: out_int_defs appends_out_write in_ReadInt64_def)

definition bool_bytes :: "bool \<Rightarrow> u8 list" where
  "bool_bytes b = int_bytes 1 (if b then 1 else 0)"

interpretation boolean: codec out_WriteBool in_ReadBool bool_bytes "\<lambda>_. True"
proof
  fix b :: bool
  show "appends (out_WriteBool b) (bool_bytes b) ()"
    by (simp add: out_WriteBool_def bool_bytes_def out_int_defs appends_out_write)
  have "consumes in_ReadInt8 (bool_bytes b) (if b then 1 else 0)"
    unfolding bool_bytes_def by (rule int8.consumed) (simp add: int_fits_def)
  then show "consumes in_ReadBool (bool_bytes b) b"
    unfolding in_ReadBool_def by (rule consumes_map) simp
qed

lemma sint_fits: "int_fits 4 (sint (v :: u32))" "int_fits 8 (sint (d :: u64))"
  using sint_range_size [of v] sint_range_size [of d] by (simp_all add: int_fits_def word_size)

interpretation single: codec out_WriteFloat in_ReadFloat "\<lambda>v. int_bytes 4 (sint v)" "\<lambda>_. True"
proof
  fix v :: u32
  show "appends (out_WriteFloat v) (int_bytes 4 (sint v)) ()"
    by (simp add: out_WriteFloat_def out_int_defs appends_out_write)
  show "consumes in_ReadFloat (int_bytes 4 (sint v)) v"
    unfolding in_ReadFloat_def by (rule consumes_map [OF int32.consumed]) (simp_all add: sint_fits)
qed

interpretation double: codec out_WriteDouble in_ReadDouble "\<lambda>v. int_bytes 8 (sint v)" "\<lambda>_. True"
proof
  fix v :: u64
  show "appends (out_WriteDouble v) (int_bytes 8 (sint v)) ()"
    by (simp add: out_WriteDouble_def out_int_defs appends_out_write)
  show "consumes in_ReadDouble (int_bytes 8 (sint v)) v"
    unfolding in_ReadDouble_def by (rule consumes_map [OF int64.consumed]) (simp_all add: sint_fits)
qed

section \<open>Arrays\<close>

lemma split_every_concat:
  "(\<And>v. v \<in> set vs \<Longrightarrow> length (enc v) = w) \<Longrightarrow> split_every w (length vs) (concat (map enc vs)) = map enc vs"
  by (induction vs) auto

lemma length_concat_const:
  "(\<And>v. v \<in> set vs \<Longrightarrow> length (enc v) = w) \<Longrightarrow> length (concat (map enc vs)) = w * length vs"
  by (induction vs) auto

lemma consumes_read_array:
  assumes "\<And>v. v \<in> set vs \<Longrightarrow> length (enc v) = w \<and> conv (enc v) = v"
    and "int w * int (length vs) \<le> INT32_MAX"
  shows "consumes (read_array conv w (int (length vs))) (concat (map enc vs)) vs"
proof -
  let ?bs = "concat (map enc vs)"
  have len: "length ?bs = w * length vs"
    using assms(1) by (intro length_concat_const) auto
  have "to_signed 32 (int (length vs) * int w) = int (length ?bs)"
    using assms(2) len by (subst int32_nonneg) (simp_all add: mult.commute)
  moreover have "consumes (in_read (int (length ?bs))) ?bs ?bs"
    by (rule consumes_in_read)
  moreover have "map conv (split_every w (length vs) ?bs) = vs"
    using assms(1) split_every_concat [of vs enc w] by (simp add: map_idI)
  ultimately show ?thesis
    unfolding read_array_def in_CopyAndShift_def by (simp add: consumes_map)
qed

lemma appends_copy_array:
  assumes "int w * int (length vs) \<le> INT32_MAX"
  shows "appends (out_CopyAndShift (array_bytes w vs) (to_signed 32 (int (length vs) * int w)))
           (array_bytes w vs) ()"
proof -
  have "to_signed 32 (int (length vs) * int w) = int (length (array_bytes w vs))"
    using assms by (subst int32_nonneg) (simp_all add: mult.commute)
  then have "out_CopyAndShift (array_bytes w vs) (to_signed 32 (int (length vs) * int w)) = out_write (array_bytes w vs)"
    by (intro out_CopyAndShift_whole) simp
  then show ?thesis
    by (simp add: appends_out_write)
qed

text \<open>A typed sequence of values, as the messages of the protocol are; an array is written with its length known to both
  sides.\<close>

datatype item =
    Int8 int | Bool bool | Int16 int | UInt16 int | Int32 int | Int64 int | Float u32 | Double u64
  | Int8Array "int list" | BoolArray "bool list" | Int16Array "int list" | UInt16Array "int list"
  | Int32Array "int list" | Int64Array "int list" | FloatArray "u32 list" | DoubleArray "u64 list"

fun write_item :: "item \<Rightarrow> unit out_act" where
  "write_item (Int8 v) = out_WriteInt8 v"
| "write_item (Bool v) = out_WriteBool v"
| "write_item (Int16 v) = out_WriteInt16 v"
| "write_item (UInt16 v) = out_WriteUInt16 v"
| "write_item (Int32 v) = out_WriteInt32 v"
| "write_item (Int64 v) = out_WriteInt64 v"
| "write_item (Float v) = out_WriteFloat v"
| "write_item (Double v) = out_WriteDouble v"
| "write_item (Int8Array vs) = out_WriteInt8Array vs (int (length vs))"
| "write_item (BoolArray vs) = out_WriteBoolArray vs (int (length vs))"
| "write_item (Int16Array vs) = out_WriteInt16Array vs (int (length vs))"
| "write_item (UInt16Array vs) = out_WriteUInt16Array vs (int (length vs))"
| "write_item (Int32Array vs) = out_WriteInt32Array vs (int (length vs))"
| "write_item (Int64Array vs) = out_WriteInt64Array vs (int (length vs))"
| "write_item (FloatArray vs) = out_WriteFloatArray vs (int (length vs))"
| "write_item (DoubleArray vs) = out_WriteDoubleArray vs (int (length vs))"

definition reading :: "('a \<Rightarrow> item) \<Rightarrow> 'a in_act \<Rightarrow> item in_act" where
  "reading f m = andThen m (\<lambda>x. ret (f x))"

text \<open>The read that matches a written item: it knows the type and the length and not the value.\<close>

fun read_like :: "item \<Rightarrow> item in_act" where
  "read_like (Int8 _) = reading Int8 in_ReadInt8"
| "read_like (Bool _) = reading Bool in_ReadBool"
| "read_like (Int16 _) = reading Int16 in_ReadInt16"
| "read_like (UInt16 _) = reading UInt16 in_ReadUInt16"
| "read_like (Int32 _) = reading Int32 in_ReadInt32"
| "read_like (Int64 _) = reading Int64 in_ReadInt64"
| "read_like (Float _) = reading Float in_ReadFloat"
| "read_like (Double _) = reading Double in_ReadDouble"
| "read_like (Int8Array vs) = reading Int8Array (in_ReadInt8Array (int (length vs)))"
| "read_like (BoolArray vs) = reading BoolArray (in_ReadBoolArray (int (length vs)))"
| "read_like (Int16Array vs) = reading Int16Array (in_ReadInt16Array (int (length vs)))"
| "read_like (UInt16Array vs) = reading UInt16Array (in_ReadUInt16Array (int (length vs)))"
| "read_like (Int32Array vs) = reading Int32Array (in_ReadInt32Array (int (length vs)))"
| "read_like (Int64Array vs) = reading Int64Array (in_ReadInt64Array (int (length vs)))"
| "read_like (FloatArray vs) = reading FloatArray (in_ReadFloatArray (int (length vs)))"
| "read_like (DoubleArray vs) = reading DoubleArray (in_ReadDoubleArray (int (length vs)))"

fun read_items :: "item list \<Rightarrow> item list in_act" where
  "read_items [] = ret []"
| "read_items (i # is) = andThen (read_like i) (\<lambda>x. andThen (read_items is) (\<lambda>xs. ret (x # xs)))"

fun item_bytes :: "item \<Rightarrow> u8 list" where
  "item_bytes (Int8 v) = int_bytes 1 v"
| "item_bytes (Bool v) = bool_bytes v"
| "item_bytes (Int16 v) = int_bytes 2 v"
| "item_bytes (UInt16 v) = int_bytes 2 v"
| "item_bytes (Int32 v) = int_bytes 4 v"
| "item_bytes (Int64 v) = int_bytes 8 v"
| "item_bytes (Float v) = int_bytes 4 (sint v)"
| "item_bytes (Double v) = int_bytes 8 (sint v)"
| "item_bytes (Int8Array vs) = array_bytes 1 vs"
| "item_bytes (BoolArray vs) = concat (map bool_bytes vs)"
| "item_bytes (Int16Array vs) = array_bytes 2 vs"
| "item_bytes (UInt16Array vs) = array_bytes 2 vs"
| "item_bytes (Int32Array vs) = array_bytes 4 vs"
| "item_bytes (Int64Array vs) = array_bytes 8 vs"
| "item_bytes (FloatArray vs) = concat (map (\<lambda>v. int_bytes 4 (sint v)) vs)"
| "item_bytes (DoubleArray vs) = concat (map (\<lambda>v. int_bytes 8 (sint v)) vs)"

text \<open>The values are those of the C++ types.\<close>

fun item_ok :: "item \<Rightarrow> bool" where
  "item_ok (Int8 v) = int_fits 1 v"
| "item_ok (Int16 v) = int_fits 2 v"
| "item_ok (UInt16 v) = uint_fits 2 v"
| "item_ok (Int32 v) = int_fits 4 v"
| "item_ok (Int64 v) = int_fits 8 v"
| "item_ok (Int8Array vs) = list_all (int_fits 1) vs"
| "item_ok (Int16Array vs) = list_all (int_fits 2) vs"
| "item_ok (UInt16Array vs) = list_all (uint_fits 2) vs"
| "item_ok (Int32Array vs) = list_all (int_fits 4) vs"
| "item_ok (Int64Array vs) = list_all (int_fits 8) vs"
| "item_ok _ = True"

definition message_bytes :: "item list \<Rightarrow> u8 list" where
  "message_bytes items = concat (map item_bytes items)"

lemma length_float_bytes: "length (concat (map (\<lambda>v. int_bytes 4 (sint v)) vs)) = 4 * length (vs :: u32 list)"
  by (induction vs) auto

lemma length_double_bytes: "length (concat (map (\<lambda>v. int_bytes 8 (sint v)) vs)) = 8 * length (vs :: u64 list)"
  by (induction vs) auto

lemmas out_array_defs = out_WriteInt8Array_def out_WriteBoolArray_def out_WriteInt16Array_def
  out_WriteUInt16Array_def out_WriteInt32Array_def out_WriteInt64Array_def out_WriteFloatArray_def
  out_WriteDoubleArray_def

lemma appends_item:
  assumes "item_ok i" and "int (length (item_bytes i)) \<le> INT32_MAX"
  shows "appends (write_item i) (item_bytes i) ()"
  using assms appends_copy_array [of 1] appends_copy_array [of 2] appends_copy_array [of 4] appends_copy_array [of 8]
    out_CopyAndShift_whole [of "array_bytes 1 _"]
  by (cases i)
    (simp_all add: out_array_defs int8.written boolean.written int16.written uint16.written int32.written
      int64.written single.written double.written boolean.loop_written single.loop_written double.loop_written
      list_all_iff length_float_bytes length_double_bytes appends_out_write del: One_nat_def)

lemmas in_array_defs = in_ReadInt8Array_def in_ReadBoolArray_def in_ReadInt16Array_def
  in_ReadUInt16Array_def in_ReadInt32Array_def in_ReadInt64Array_def in_ReadFloatArray_def
  in_ReadDoubleArray_def

lemma consumes_sint_array:
  "0 < w \<Longrightarrow> list_all (int_fits w) vs \<Longrightarrow> int w * int (length vs) \<le> INT32_MAX \<Longrightarrow>
   consumes (read_array sint_of_bytes w (int (length vs))) (array_bytes w vs) vs"
  unfolding array_bytes_def
  by (rule consumes_read_array) (auto simp: list_all_iff sint_of_int_bytes_fits)

lemma consumes_uint_array:
  "list_all (uint_fits w) vs \<Longrightarrow> int w * int (length vs) \<le> INT32_MAX \<Longrightarrow>
   consumes (read_array uint_of_bytes w (int (length vs))) (array_bytes w vs) vs"
  unfolding array_bytes_def
  by (rule consumes_read_array) (auto simp: list_all_iff uint_of_int_bytes_fits)

lemma word_of_uint_bytes: "word_of_int (uint_of_bytes (int_bytes 4 (sint v))) = (v :: u32)"
  "word_of_int (uint_of_bytes (int_bytes 8 (sint d))) = (d :: u64)"
proof -
  have "take_bit 32 (sint v) = uint v" "take_bit 64 (sint d) = uint d"
    using uint_sint [of v] uint_sint [of d] by simp_all
  then show "word_of_int (uint_of_bytes (int_bytes 4 (sint v))) = v"
    "word_of_int (uint_of_bytes (int_bytes 8 (sint d))) = d"
    by (simp_all add: uint_of_int_bytes take_bit_eq_mod)
qed

lemma consumes_float_array: "4 * int (length vs) \<le> INT32_MAX \<Longrightarrow>
  consumes (in_ReadFloatArray (int (length vs))) (concat (map (\<lambda>v. int_bytes 4 (sint v)) vs)) vs"
  unfolding in_ReadFloatArray_def by (rule consumes_read_array) (auto simp: word_of_uint_bytes)

lemma consumes_double_array: "8 * int (length vs) \<le> INT32_MAX \<Longrightarrow>
  consumes (in_ReadDoubleArray (int (length vs))) (concat (map (\<lambda>v. int_bytes 8 (sint v)) vs)) vs"
  unfolding in_ReadDoubleArray_def by (rule consumes_read_array) (auto simp: word_of_uint_bytes)

lemma consumes_reading: "consumes m bs x \<Longrightarrow> consumes (reading f m) bs (f x)"
  unfolding reading_def by (rule consumes_map) simp_all

lemma consumes_item:
  assumes "item_ok i" and "int (length (item_bytes i)) \<le> INT32_MAX"
  shows "consumes (read_like i) (item_bytes i) i"
  using assms boolean.all_consumed [of _] consumes_sint_array [of 1] consumes_sint_array [of 2]
    consumes_sint_array [of 4] consumes_sint_array [of 8] consumes_uint_array [of 2]
  by (cases i)
    (simp_all add: consumes_reading int8.consumed boolean.consumed int16.consumed uint16.consumed int32.consumed
      int64.consumed single.consumed double.consumed in_ReadInt8Array_def in_ReadBoolArray_def
      in_ReadInt16Array_def in_ReadUInt16Array_def in_ReadInt32Array_def in_ReadInt64Array_def
      consumes_float_array consumes_double_array length_float_bytes length_double_bytes list_all_iff
      del: One_nat_def)

lemma appends_message:
  assumes "list_all item_ok items" and "int (length (message_bytes items)) \<le> INT32_MAX"
  shows "appends (for_each write_item items) (message_bytes items) ()"
proof -
  have "int (length (item_bytes i)) \<le> INT32_MAX" if "i \<in> set items" for i
    using assms(2) member_le_sum_list [of "length (item_bytes i)" "map (\<lambda>i. length (item_bytes i)) items"] that
    by (auto simp: message_bytes_def length_concat comp_def)
  then show ?thesis
    unfolding message_bytes_def using assms(1)
    by (intro appends_for_each appends_item) (auto simp: list_all_iff)
qed

lemma consumes_message:
  assumes "list_all item_ok items" and "int (length (message_bytes items)) \<le> INT32_MAX"
  shows "consumes (read_items items) (message_bytes items) items"
  using assms
proof (induction items)
  case Nil
  show ?case by (simp only: read_items.simps message_bytes_def concat.simps list.map consumes_ret)
next
  case (Cons i "is")
  have "consumes (andThen (read_items is) (\<lambda>xs. ret (i # xs))) (message_bytes is) (i # is)"
    using Cons by (intro consumes_map) (auto simp: message_bytes_def)
  then have "consumes (read_items (i # is)) (item_bytes i @ message_bytes is) (i # is)"
    using Cons.prems by (auto intro!: consumes_andThen consumes_item simp: message_bytes_def)
  then show ?case by (simp add: message_bytes_def)
qed

text \<open>What a reader finds in the memory of a stream that was written from its start and synchronised.\<close>

definition transmit :: "int \<Rightarrow> unit out_act \<Rightarrow> stream_error + InteropInputStream" where
  "transmit cap m =
     (case followed m out_Synchronize (newInteropOutputStream (newInteropUnpooledMemory cap)) of
        Inl e \<Rightarrow> Inl e
      | Inr (_, s) \<Rightarrow> Inr (newInteropInputStream (out_mem s)))"

lemma transmit_appends:
  assumes "0 \<le> cap" and "cap \<le> INT32_MAX" and "appends m bs ()" and "int (length bs) \<le> INT32_MAX"
  shows "\<exists>t. transmit cap m = Inr t \<and> in_inv t \<and> in_pos t = 0 \<and> in_len t = int (length bs) \<and> ahead t = map Some bs"
proof -
  let ?s0 = "newInteropOutputStream (newInteropUnpooledMemory cap)"
  have s0: "out_inv ?s0" "out_pos ?s0 = 0" "prefix ?s0 = []"
    using new_out_inv assms(1,2) by (simp_all add: prefix_def newInteropOutputStream_def)
  then obtain s where m: "m ?s0 = Inr ((), s)" and s: "out_inv s" "prefix s = map Some bs"
    using assms(3,4) unfolding appends_def by fastforce
  have pos: "out_pos s = int (length bs)"
    using length_prefix [OF s(1)] s(2) by simp
  let ?t = "newInteropInputStream ((out_mem s)\<lparr>Length := out_pos s\<rparr>)"
  have "transmit cap m = Inr ?t"
    by (simp add: transmit_def m out_Synchronize_def)
  moreover have "in_inv ?t"
    using s(1) by (simp only: in_inv_def out_inv_def newInteropInputStream_def) simp
  moreover have "ahead ?t = map Some bs"
    using s(2) by (simp add: ahead_def prefix_def newInteropInputStream_def)
  ultimately show ?thesis
    by (simp add: pos newInteropInputStream_def)
qed

lemma transmit_roundtrip:
  assumes "0 \<le> cap" and "cap \<le> INT32_MAX" and "int (length bs) \<le> INT32_MAX"
    and "appends m bs ()" and "consumes rd bs v"
  shows "\<exists>t t'. transmit cap m = Inr t \<and> rd t = Inr (v, t') \<and> in_Remaining t' = Inr (0, t')"
proof -
  obtain t where t: "transmit cap m = Inr t" "in_inv t" "in_pos t = 0" "in_len t = int (length bs)"
      "ahead t = map Some bs"
    using transmit_appends [OF assms(1,2,4,3)] by blast
  let ?t' = "t\<lparr>in_pos := int (length bs)\<rparr>"
  have "rd t = Inr (v, ?t')"
    using assms(5) t unfolding consumes_def by (auto dest: spec [of _ t] spec [of _ "[]"])
  moreover have "in_Remaining ?t' = Inr (0, ?t')"
    by (simp add: in_Remaining_def t(4) int32_nonneg INT32_MAX_def)
  ultimately show ?thesis
    using t(1) by blast
qed

text \<open>(C12) Round trip of the byte streams: whatever the capacity the memory starts with, a sequence of values of the
  protocol's types, arrays included, that takes at most \<open>INT32_MAX\<close> bytes is written without leaving the
  memory, and reading the same types in the same order gives the same values and leaves nothing in the stream.\<close>

theorem stream_roundtrip:
  assumes "0 \<le> cap" and "cap \<le> INT32_MAX"
    and "list_all item_ok items" and "int (length (message_bytes items)) \<le> INT32_MAX"
  shows "\<exists>t t'. transmit cap (for_each write_item items) = Inr t
           \<and> read_items items t = Inr (items, t') \<and> in_Remaining t' = Inr (0, t')"
  by (rule transmit_roundtrip [OF assms(1,2,4) appends_message [OF assms(3,4)] consumes_message [OF assms(3,4)]])

theorem stream_roundtrip_witness:
  "\<exists>t t'. transmit 1 (for_each write_item [Int8 (-3), Bool True, Int32Array [7, -9], Int64 (2 ^ 40), BoolArray [True]]) = Inr t
     \<and> read_items [Int8 (-3), Bool True, Int32Array [7, -9], Int64 (2 ^ 40), BoolArray [True]] t =
         Inr ([Int8 (-3), Bool True, Int32Array [7, -9], Int64 (2 ^ 40), BoolArray [True]], t')
     \<and> in_Remaining t' = Inr (0, t')"
  by (rule stream_roundtrip) (simp_all add: int_fits_def INT32_MAX_def message_bytes_def bool_bytes_def)

section \<open>Bounds\<close>

text \<open>Reading is bounded: from a position inside the stream, a read of more bytes than the stream has left throws and
  names the length, the position and the request; any other read stays inside the memory and moves forward inside
  the stream. What is not checked is a negative position: it is accepted, and the next read is before the block.\<close>

theorem in_read_bounds:
  assumes "in_inv s" and "0 \<le> n" and "n \<le> INT32_MAX"
  shows "(in_len s - in_pos s < n \<longrightarrow>
            in_read n s = Inl (Thrown DOCUMENTDB_ERR_MEMORY ''Not enough data in the stream''
              [(''len'', in_len s), (''pos'', in_pos s), (''requested'', n)]))
       \<and> in_read n s \<noteq> Inl WildAccess
       \<and> (\<forall>bs t. in_read n s = Inr (bs, t) \<longrightarrow> in_inv t \<and> in_pos t = in_pos s + n \<and> int (length bs) = n)
       \<and> (in_len s < INT32_MAX \<longrightarrow> followed (in_SetPosition (-1)) in_ReadInt8 s = Inl WildAccess)"
proof -
  have rem: "to_signed 32 (in_len s - in_pos s) = in_len s - in_pos s"
    using assms(1) by (intro int32_nonneg) (simp_all add: in_inv_def)
  let ?wild = "in_pos s < 0 \<or> n < 0 \<or> int (length (Data (in_mem s))) < in_pos s + n"
  have ok: "\<not> ?wild" if "n \<le> in_len s - in_pos s"
    using that assms(1,2) by (auto simp: in_inv_def)
  have short: "in_read n s = Inl (Thrown DOCUMENTDB_ERR_MEMORY ''Not enough data in the stream''
      [(''len'', in_len s), (''pos'', in_pos s), (''requested'', n)])" if "in_len s - in_pos s < n"
    using that by (simp add: in_read_def EnsureEnoughData_def rem)
  have enough: "in_read n s = andThen (load (in_pos s) n) (\<lambda>bs. followed (in_Shift n) (ret bs)) s"
    if "n \<le> in_len s - in_pos s"
    using that by (simp add: in_read_def EnsureEnoughData_def rem)
  have shift: "to_signed 32 (in_pos s + n) = in_pos s + n" if "n \<le> in_len s - in_pos s"
    using that assms by (intro int32_nonneg) (simp_all add: in_inv_def)
  have len: "int (length (cells_at (nat (in_pos s)) (nat n) (Data (in_mem s)))) = n" if "n \<le> in_len s - in_pos s"
    using ok [OF that] assms(2) by (auto simp: cells_at_def)
  have "in_read n s \<noteq> Inl WildAccess"
    using short enough ok by (cases "n \<le> in_len s - in_pos s") (auto simp: load_def Let_def andThen_def in_Shift_def)
  moreover have "in_inv t \<and> in_pos t = in_pos s + n \<and> int (length bs) = n" if r: "in_read n s = Inr (bs, t)" for bs t
  proof -
    have le: "n \<le> in_len s - in_pos s"
      using r short by (cases "n \<le> in_len s - in_pos s") auto
    then show ?thesis
      using r enough [OF le] ok [OF le] shift [OF le] len [OF le] assms
      by (auto simp: load_def Let_def andThen_def in_Shift_def in_inv_def followed_def split: if_splits)
  qed
  moreover have "followed (in_SetPosition (-1)) in_ReadInt8 s = Inl WildAccess" if "in_len s < INT32_MAX"
  proof -
    have "to_signed 32 (in_len s + 1) = in_len s + 1"
      using that assms(1) by (intro int32_nonneg) (simp_all add: in_inv_def)
    then show ?thesis
      using assms(1) by (simp add: followed_def in_SetPosition_def in_inv_def in_ReadInt8_def in_read_def
          EnsureEnoughData_def load_def Let_def andThen_def)
  qed
  ultimately show ?thesis
    using short by blast
qed

section \<open>Ownership of memory\<close>

text \<open>The memory objects of a program by name, with the blocks that are allocated: the constructors, a transfer between
  two objects and the destructor.\<close>

type_synonym mem_state = "(nat \<rightharpoonup> InteropUnpooledMemory) \<times> (nat \<rightharpoonup> InteropMemory)"

inductive mem_step :: "mem_state \<Rightarrow> mem_state \<Rightarrow> bool" where
  create: "x \<notin> dom objs \<Longrightarrow> p \<notin> dom h \<Longrightarrow> mem_create p cap h = (u, h') \<Longrightarrow>
     mem_step (objs, h) (objs(x \<mapsto> u), h')"
| refer: "x \<notin> dom objs \<Longrightarrow> mem_step (objs, h) (objs(x \<mapsto> mem_refer p), h)"
| transfer: "objs x = Some u \<Longrightarrow> objs y = Some v \<Longrightarrow> x \<noteq> y \<Longrightarrow> TryGetOwnership u v h = (done, u', v', h') \<Longrightarrow>
     mem_step (objs, h) (objs(x \<mapsto> u', y \<mapsto> v'), h')"
| destroy: "objs x = Some u \<Longrightarrow> mem_step (objs, h) (objs(x := None), mem_CleanUp u h)"

inductive mem_reached :: "mem_state \<Rightarrow> bool" where
  start: "mem_reached (Map.empty, Map.empty)"
| more: "mem_reached s \<Longrightarrow> mem_step s s' \<Longrightarrow> mem_reached s'"

definition owner_of :: "(nat \<rightharpoonup> InteropUnpooledMemory) \<Rightarrow> nat \<Rightarrow> nat \<Rightarrow> bool" where
  "owner_of objs p x \<longleftrightarrow> (\<exists>u. objs x = Some u \<and> owning u \<and> memPtr u = p)"

definition one_owner :: "mem_state \<Rightarrow> bool" where
  "one_owner s \<longleftrightarrow> (\<forall>p x. owner_of (fst s) p x \<longrightarrow> p \<in> dom (snd s))
     \<and> (\<forall>p x y. owner_of (fst s) p x \<longrightarrow> owner_of (fst s) p y \<longrightarrow> x = y)
     \<and> (\<forall>p. p \<in> dom (snd s) \<longrightarrow> (\<exists>x. owner_of (fst s) p x))"

lemma owner_of_upd:
  "owner_of (objs(x \<mapsto> u)) p y \<longleftrightarrow> (if y = x then owning u \<and> memPtr u = p else owner_of objs p y)"
  "owner_of (objs(x := None)) p y \<longleftrightarrow> y \<noteq> x \<and> owner_of objs p y"
  by (auto simp: owner_of_def)

lemma owner_ofI: "objs x = Some u \<Longrightarrow> owner_of objs p x \<longleftrightarrow> owning u \<and> memPtr u = p"
  by (auto simp: owner_of_def)

lemma dom_mem_CleanUp:
  "objs x = Some u \<Longrightarrow> q \<in> dom (mem_CleanUp u h) \<longleftrightarrow> q \<in> dom h \<and> \<not> owner_of objs q x"
  by (auto simp: mem_CleanUp_def owner_ofI)

lemma mem_step_one_owner:
  assumes "mem_step s s'" and "one_owner s"
  shows "one_owner s'"
  using assms
proof (induction rule: mem_step.induct)
  case (create x objs p h cap u h')
  then have "\<not> owner_of objs q x" for q
    by (auto simp: owner_of_def)
  with create show ?case
    by (auto simp: mem_create_def one_owner_def owner_of_upd) (metis domI)+
next
  case (refer x objs h p)
  then have "\<not> owner_of objs q x" for q
    by (auto simp: owner_of_def)
  with refer show ?case
    by (auto simp: mem_refer_def one_owner_def owner_of_upd) (metis domI)
next
  case (transfer objs x u y v h b u' v' h')
  note ow = owner_ofI [of objs x u, OF transfer(1)] owner_ofI [of objs y v, OF transfer(2)]
  show ?case
  proof (cases "owning u")
    case False
    with transfer have "u' = u" "v' = v" "h' = h"
      by (auto simp: TryGetOwnership_def)
    with transfer have "objs(x \<mapsto> u', y \<mapsto> v') = objs"
      by auto
    with transfer \<open>h' = h\<close> show ?thesis by simp
  next
    case True
    then have new: "u' = u\<lparr>owning := False\<rparr>" "v' = \<lparr>memPtr = memPtr u, owning = True\<rparr>" "h' = mem_CleanUp v h"
      using transfer by (auto simp: TryGetOwnership_def)
    have own': "owner_of (objs(x \<mapsto> u', y \<mapsto> v')) q z \<longleftrightarrow>
        (if z = y then q = memPtr u else z \<noteq> x \<and> owner_of objs q z)" for q z
      by (auto simp: new owner_of_upd)
    have dom': "q \<in> dom h' \<longleftrightarrow> q \<in> dom h \<and> \<not> owner_of objs q y" for q
      unfolding new(3) by (rule dom_mem_CleanUp) (rule transfer(2))
    have x: "owner_of objs (memPtr u) x"
      using True by (simp add: ow)
    have inv: "\<And>q z. owner_of objs q z \<Longrightarrow> q \<in> dom h"
      "\<And>q z z'. owner_of objs q z \<Longrightarrow> owner_of objs q z' \<Longrightarrow> z = z'"
      "\<And>q. q \<in> dom h \<Longrightarrow> \<exists>z. owner_of objs q z"
      using transfer(5) by (auto simp: one_owner_def)
    show ?thesis
      unfolding one_owner_def fst_conv snd_conv own' dom'
    proof (intro conjI allI impI)
      fix q z assume "if z = y then q = memPtr u else z \<noteq> x \<and> owner_of objs q z"
      then show "q \<in> dom h" "\<not> owner_of objs q y"
        using inv(1,2) x transfer(3) by (metis)+
    next
      fix q z z' assume "if z = y then q = memPtr u else z \<noteq> x \<and> owner_of objs q z"
        "if z' = y then q = memPtr u else z' \<noteq> x \<and> owner_of objs q z'"
      then show "z = z'"
        using inv(2) x by metis
    next
      fix q assume "q \<in> dom h \<and> \<not> owner_of objs q y"
      then show "\<exists>z. if z = y then q = memPtr u else z \<noteq> x \<and> owner_of objs q z"
        using inv(3) ow(1) by metis
    qed
  qed
next
  case (destroy objs x u h)
  then show ?case
    unfolding one_owner_def fst_conv snd_conv owner_of_upd dom_mem_CleanUp [of objs x u, OF destroy(1)] by metis
qed

text \<open>(C32) Ownership: in every state reached by creating memory objects, referring to a block, transferring ownership
  between different objects and destroying objects, each allocated block has exactly one owning object and
  each owning object has its block, so that no block is freed twice and none is lost.\<close>

theorem memory_ownership:
  assumes "mem_reached s"
  shows "one_owner s"
  using assms
proof (induction rule: mem_reached.induct)
  case start
  show ?case by (simp add: one_owner_def owner_of_def)
qed (rule mem_step_one_owner)

theorem memory_ownership_witness:
  "one_owner ([0 \<mapsto> \<lparr>memPtr = 8, owning = True\<rparr>, 1 \<mapsto> mem_refer 8], [8 \<mapsto> newInteropUnpooledMemory 4])"
proof (rule memory_ownership)
  have "mem_reached ([0 \<mapsto> \<lparr>memPtr = 8, owning = True\<rparr>], [8 \<mapsto> newInteropUnpooledMemory 4])"
    by (rule mem_reached.more [OF mem_reached.start mem_step.create]) (auto simp: mem_create_def)
  then show "mem_reached ([0 \<mapsto> \<lparr>memPtr = 8, owning = True\<rparr>, 1 \<mapsto> mem_refer 8], [8 \<mapsto> newInteropUnpooledMemory 4])"
    by (rule mem_reached.more [OF _ mem_step.refer]) simp
qed

end
