(* ===== verification/Odbc_BinaryProps.thy ===== *)
theory Odbc_BinaryProps
  imports Odbc_BinaryReader Odbc_StreamProps
begin

text \<open>
  What the binary protocol promises. The values that travel with their type are codecs of the byte streams; a raw
  writer and a raw reader exchange sequences of them. Then the timestamps, whose round trip fails before 1970.
\<close>

section \<open>Values\<close>

lemma c_div_nonneg: "0 \<le> a \<Longrightarrow> 0 < b \<Longrightarrow> c_div a b = a div b"
  by (cases "a = 0") (simp_all add: c_div_def)

lemma c_mod_nonneg: "0 \<le> a \<Longrightarrow> 0 < b \<Longrightarrow> c_mod a b = a mod b"
  by (cases "a = 0") (simp_all add: c_mod_def)

definition guid_bytes :: "Guid \<Rightarrow> u8 list" where
  "guid_bytes g = int_bytes 8 (sint (guid_most g)) @ int_bytes 8 (sint (guid_least g))"

interpretation words: codec_pair out_WriteInt64 in_ReadInt64 "int_bytes 8" "int_fits 8"
    out_WriteInt64 in_ReadInt64 "int_bytes 8" "int_fits 8"
  by unfold_locales

interpretation guid: codec BU_WriteGuid BU_ReadGuid guid_bytes "\<lambda>_. True"
proof
  fix g :: Guid
  show "appends (BU_WriteGuid g) (guid_bytes g) ()"
    unfolding BU_WriteGuid_def guid_bytes_def by (rule words.pair_written) (simp_all add: sint_fits)
  have "consumes BU_ReadGuid (guid_bytes g) (Guid_of (sint (guid_most g)) (sint (guid_least g)))"
    unfolding BU_ReadGuid_def guid_bytes_def by (rule words.pair_consumed) (simp_all add: sint_fits)
  then show "consumes BU_ReadGuid (guid_bytes g) g"
    by (cases g) (simp add: Guid_of_def)
qed

interpretation date: codec BU_WriteDate BU_ReadDate "int_bytes 8" "int_fits 8"
  by unfold_locales (simp_all add: BU_WriteDate_def BU_ReadDate_def int64.written int64.consumed)

interpretation time: codec BU_WriteTime BU_ReadTime "int_bytes 8" "int_fits 8"
  by unfold_locales (simp_all add: BU_WriteTime_def BU_ReadTime_def int64.written int64.consumed)

definition enum_bytes :: "BinaryEnumEntry \<Rightarrow> u8 list" where
  "enum_bytes e = int_bytes 4 (enum_typeId e) @ int_bytes 4 (enum_ordinal e)"

definition enum_ok :: "BinaryEnumEntry \<Rightarrow> bool" where
  "enum_ok e \<longleftrightarrow> int_fits 4 (enum_typeId e) \<and> int_fits 4 (enum_ordinal e)"

interpretation ints: codec_pair out_WriteInt32 in_ReadInt32 "int_bytes 4" "int_fits 4"
    out_WriteInt32 in_ReadInt32 "int_bytes 4" "int_fits 4"
  by unfold_locales

interpretation enum: codec BU_WriteBinaryEnumEntry BU_ReadBinaryEnumEntry enum_bytes enum_ok
proof
  fix e :: BinaryEnumEntry assume "enum_ok e"
  then have ok: "int_fits 4 (enum_typeId e)" "int_fits 4 (enum_ordinal e)"
    by (simp_all add: enum_ok_def)
  show "appends (BU_WriteBinaryEnumEntry e) (enum_bytes e) ()"
    unfolding BU_WriteBinaryEnumEntry_def enum_bytes_def using ok by (rule ints.pair_written)
  have "consumes BU_ReadBinaryEnumEntry (enum_bytes e) \<lparr>enum_typeId = enum_typeId e, enum_ordinal = enum_ordinal e\<rparr>"
    unfolding BU_ReadBinaryEnumEntry_def enum_bytes_def using ok by (rule ints.pair_consumed)
  then show "consumes BU_ReadBinaryEnumEntry (enum_bytes e) e"
    by (cases e) simp
qed

section \<open>Timestamps\<close>

definition ts_ms :: "Timestamp \<Rightarrow> int" where
  "ts_ms t = ts_seconds t * 1000 + ts_fractionNs t div 1000000"

definition ts_bytes :: "Timestamp \<Rightarrow> u8 list" where
  "ts_bytes t = int_bytes 8 (ts_ms t) @ int_bytes 4 (ts_fractionNs t mod 1000000)"

text \<open>A fraction of a second, and seconds whose milliseconds fit 64 bits.\<close>

definition ts_valid :: "Timestamp \<Rightarrow> bool" where
  "ts_valid t \<longleftrightarrow> 0 \<le> ts_fractionNs t \<and> ts_fractionNs t < 1000000000
     \<and> - (2 ^ 53) \<le> ts_seconds t \<and> ts_seconds t < 2 ^ 53"

definition ts_ok :: "Timestamp \<Rightarrow> bool" where
  "ts_ok t \<longleftrightarrow> ts_valid t \<and> (0 \<le> ts_seconds t \<or> ts_fractionNs t < 1000000)"

definition ts_read :: "int \<Rightarrow> int \<Rightarrow> Timestamp" where
  "ts_read milliseconds nanoseconds =
     \<lparr>ts_seconds = c_div milliseconds 1000,
      ts_fractionNs = to_signed 32 (c_mod milliseconds 1000 * 1000000 + nanoseconds)\<rparr>"

lemma ts_ms_fits:
  assumes "ts_valid t"
  shows "int_fits 8 (ts_ms t)" and "int_fits 4 (ts_fractionNs t mod 1000000)"
proof -
  have f: "0 \<le> ts_fractionNs t div 1000000" "ts_fractionNs t div 1000000 < 1000"
    using assms by (auto simp: ts_valid_def)
  show "int_fits 8 (ts_ms t)"
    using f assms by (auto simp: int_fits_def ts_ms_def ts_valid_def)
  have "0 \<le> ts_fractionNs t mod 1000000" "ts_fractionNs t mod 1000000 < 1000000"
    by simp_all
  then show "int_fits 4 (ts_fractionNs t mod 1000000)"
    unfolding int_fits_def by auto
qed

lemma ts_written:
  assumes "ts_valid t"
  shows "appends (BU_WriteTimestamp t) (ts_bytes t) ()"
proof -
  have "to_signed 64 (ts_ms t) = ts_ms t"
    using ts_ms_fits(1) [OF assms] by (intro to_signed_id) (simp_all add: int_fits_def)
  then have "BU_WriteTimestamp t = followed (out_WriteInt64 (ts_ms t)) (out_WriteInt32 (ts_fractionNs t mod 1000000))"
    using assms by (simp add: BU_WriteTimestamp_def c_div_nonneg c_mod_nonneg ts_valid_def ts_ms_def)
  then show ?thesis
    unfolding ts_bytes_def using ts_ms_fits [OF assms]
    by (auto intro!: appends_followed int64.written int32.written)
qed

lemma ts_consumed:
  assumes "ts_valid t"
  shows "consumes BU_ReadTimestamp (ts_bytes t) (ts_read (ts_ms t) (ts_fractionNs t mod 1000000))"
  unfolding BU_ReadTimestamp_def ts_bytes_def ts_read_def using ts_ms_fits [OF assms]
  by (auto intro!: consumes_andThen consumes_map int64.consumed int32.consumed)

lemma ts_read_back:
  assumes "ts_valid t"
  shows "ts_read (ts_ms t) (ts_fractionNs t mod 1000000) = t \<longleftrightarrow> ts_ok t"
proof -
  define k where "k = ts_fractionNs t div 1000000"
  have k: "0 \<le> k" "k < 1000" "ts_fractionNs t = k * 1000000 + ts_fractionNs t mod 1000000"
    "k = 0 \<longleftrightarrow> ts_fractionNs t < 1000000"
    using assms by (auto simp: ts_valid_def k_def)
  have n: "0 \<le> ts_fractionNs t mod 1000000" "ts_fractionNs t mod 1000000 < 1000000"
    by simp_all
  have ms: "ts_ms t = ts_seconds t * 1000 + k"
    by (simp add: ts_ms_def k_def)
  show ?thesis
  proof (cases "0 \<le> ts_seconds t")
    case True
    then have "c_div (ts_ms t) 1000 = ts_seconds t" "c_mod (ts_ms t) 1000 = k"
      using k(1,2) by (simp_all add: ms c_div_nonneg c_mod_nonneg)
    moreover have "to_signed 32 (k * 1000000 + ts_fractionNs t mod 1000000) = ts_fractionNs t"
      using k(3) assms by (subst k(3) [symmetric]) (intro int32_nonneg, simp_all add: ts_valid_def INT32_MAX_def)
    ultimately show ?thesis
      using True assms by (cases t) (simp add: ts_read_def ts_ok_def)
  next
    case False
    have neg: "ts_ms t < 0"
      using False k(2) by (simp add: ms)
    have div: "c_div (ts_ms t) 1000 = - ((- ts_ms t) div 1000)"
      using neg by (simp add: c_div_def)
    show ?thesis
    proof (cases "k = 0")
      case True
      then have "c_div (ts_ms t) 1000 = ts_seconds t" "c_mod (ts_ms t) 1000 = 0"
        using div by (simp_all add: ms c_mod_def)
      moreover have "ts_fractionNs t mod 1000000 = ts_fractionNs t"
        using k True assms by (simp add: ts_valid_def)
      moreover have "to_signed 32 (ts_fractionNs t) = ts_fractionNs t"
        using assms by (intro int32_nonneg) (simp_all add: ts_valid_def INT32_MAX_def)
      ultimately show ?thesis
        using True k(4) assms by (cases t) (simp add: ts_read_def ts_ok_def)
    next
      case nz: False
      have "(- ts_ms t) div 1000 \<noteq> - ts_seconds t"
      proof
        assume "(- ts_ms t) div 1000 = - ts_seconds t"
        then have "- ts_seconds t * 1000 \<le> - ts_ms t"
          by linarith
        with nz k(1) show False by (simp add: ms)
      qed
      then have "c_div (ts_ms t) 1000 \<noteq> ts_seconds t"
        using div by simp
      then have "ts_read (ts_ms t) (ts_fractionNs t mod 1000000) \<noteq> t"
        by (cases t) (simp add: ts_read_def)
      moreover have "\<not> ts_ok t"
        using nz k(4) False by (simp add: ts_ok_def)
      ultimately show ?thesis by simp
    qed
  qed
qed

interpretation timestamp: codec BU_WriteTimestamp BU_ReadTimestamp ts_bytes ts_ok
proof
  fix t assume ok: "ts_ok t"
  then have v: "ts_valid t" by (simp add: ts_ok_def)
  show "appends (BU_WriteTimestamp t) (ts_bytes t) ()" using v by (rule ts_written)
  show "consumes BU_ReadTimestamp (ts_bytes t) t"
    using ts_consumed [OF v] ts_read_back [OF v] ok by simp
qed

text \<open>Timestamps: a timestamp whose milliseconds fit 64 bits is written, and what is read back is the timestamp exactly
  when it is not before 1970 or has no full millisecond in its fraction: the milliseconds of an earlier one are divided
  towards zero, so its seconds come back one too large with a negative fraction.\<close>

theorem timestamp_roundtrip:
  assumes "ts_valid t" and "0 \<le> cap" and "cap \<le> INT32_MAX"
  shows "\<exists>r s s'. transmit cap (BU_WriteTimestamp t) = Inr s \<and> BU_ReadTimestamp s = Inr (r, s')
           \<and> (r = t \<longleftrightarrow> 0 \<le> ts_seconds t \<or> ts_fractionNs t < 1000000)"
proof -
  have "int (length (ts_bytes t)) \<le> INT32_MAX"
    by (simp add: ts_bytes_def INT32_MAX_def)
  then obtain s s' where "transmit cap (BU_WriteTimestamp t) = Inr s"
    "BU_ReadTimestamp s = Inr (ts_read (ts_ms t) (ts_fractionNs t mod 1000000), s')"
    using transmit_roundtrip [OF assms(2,3) _ ts_written [OF assms(1)] ts_consumed [OF assms(1)]] by blast
  then show ?thesis
    using ts_read_back [OF assms(1)] assms(1)
    by (intro exI [of _ "ts_read (ts_ms t) (ts_fractionNs t mod 1000000)"] exI [of _ s] exI [of _ s'])
      (simp add: ts_ok_def)
qed

section \<open>Raw writers and readers\<close>

text \<open>A writer in raw mode with no container open; what it sends and a reader in the same mode receives.\<close>

definition raw_writer :: "BinaryWriterImpl \<Rightarrow> bool" where
  "raw_writer w \<longleftrightarrow> wr_rawPos w \<noteq> -1 \<and> wr_elemId w = 0 \<and> out_inv (wr_stream w)"

definition raw_reader :: "BinaryReaderImpl \<Rightarrow> bool" where
  "raw_reader r \<longleftrightarrow> rd_rawMode r \<and> rd_elemId r = 0 \<and> in_inv (rd_stream r)"

definition sends :: "unit wr_act \<Rightarrow> u8 list \<Rightarrow> bool" where
  "sends m bs \<longleftrightarrow> (\<forall>w. raw_writer w \<longrightarrow> out_pos (wr_stream w) + int (length bs) \<le> INT32_MAX \<longrightarrow>
     (\<exists>s'. m w = Inr ((), w\<lparr>wr_stream := s'\<rparr>) \<and> out_inv s' \<and> prefix s' = prefix (wr_stream w) @ map Some bs))"

definition moved_by :: "nat \<Rightarrow> InteropInputStream \<Rightarrow> InteropInputStream" where
  "moved_by n s = s\<lparr>in_pos := in_pos s + int n\<rparr>"

definition receives :: "'a rd_act \<Rightarrow> u8 list \<Rightarrow> 'a \<Rightarrow> bool" where
  "receives m bs v \<longleftrightarrow> (\<forall>r rest. raw_reader r \<longrightarrow> ahead (rd_stream r) = map Some bs @ rest \<longrightarrow>
     m r = Inr (v, r\<lparr>rd_stream := moved_by (length bs) (rd_stream r)\<rparr>))"

lemma sends_ret: "sends (ret ()) []"
  unfolding sends_def
proof (intro allI impI)
  fix w :: BinaryWriterImpl assume "raw_writer w"
  then show "\<exists>s'. ret () w = Inr ((), w\<lparr>wr_stream := s'\<rparr>) \<and> out_inv s' \<and> prefix s' = prefix (wr_stream w) @ map Some []"
    by (intro exI [of _ "wr_stream w"]) (simp add: raw_writer_def)
qed

lemma sends_followed:
  assumes "sends m bs" and "sends k cs"
  shows "sends (followed m k) (bs @ cs)"
  unfolding sends_def
proof (intro allI impI)
  fix w assume w: "raw_writer w" and room: "out_pos (wr_stream w) + int (length (bs @ cs)) \<le> INT32_MAX"
  obtain s1 where s1: "m w = Inr ((), w\<lparr>wr_stream := s1\<rparr>)" "out_inv s1" "prefix s1 = prefix (wr_stream w) @ map Some bs"
    using assms(1) w room unfolding sends_def by fastforce
  have pos: "out_pos s1 = out_pos (wr_stream w) + int (length bs)"
    using length_prefix [OF s1(2)] length_prefix [of "wr_stream w"] w s1(3) by (simp add: raw_writer_def)
  have "raw_writer (w\<lparr>wr_stream := s1\<rparr>)" "out_pos (wr_stream (w\<lparr>wr_stream := s1\<rparr>)) + int (length cs) \<le> INT32_MAX"
    using w s1(2) room pos by (simp_all add: raw_writer_def)
  then obtain s2 where "k (w\<lparr>wr_stream := s1\<rparr>) = Inr ((), (w\<lparr>wr_stream := s1\<rparr>)\<lparr>wr_stream := s2\<rparr>)" "out_inv s2"
      "prefix s2 = prefix s1 @ map Some cs"
    using assms(2) unfolding sends_def by (metis BinaryWriterImpl.select_convs(1) BinaryWriterImpl.update_convs(1) BinaryWriterImpl.surjective)
  then show "\<exists>s'. followed m k w = Inr ((), w\<lparr>wr_stream := s'\<rparr>) \<and> out_inv s'
      \<and> prefix s' = prefix (wr_stream w) @ map Some (bs @ cs)"
    using s1 by (intro exI [of _ s2]) simp
qed

lemma receives_ret: "receives (ret v) [] v"
  by (simp add: receives_def moved_by_def)

lemma receives_andThen:
  assumes "receives m bs x" and "receives (f x) cs y"
  shows "receives (andThen m f) (bs @ cs) y"
  unfolding receives_def
proof (intro allI impI)
  fix r rest assume r: "raw_reader r" and a: "ahead (rd_stream r) = map Some (bs @ cs) @ rest"
  let ?r1 = "r\<lparr>rd_stream := moved_by (length bs) (rd_stream r)\<rparr>"
  have a': "ahead (rd_stream r) = map Some bs @ (map Some cs @ rest)"
    by (simp add: a)
  have "m r = Inr (x, ?r1)"
    using assms(1) r a' unfolding receives_def by blast
  moreover have "raw_reader ?r1" "ahead (rd_stream ?r1) = map Some cs @ rest"
    using r ahead_advance [OF _ a'] by (simp_all add: raw_reader_def moved_by_def)
  then have "f x ?r1 = Inr (y, ?r1\<lparr>rd_stream := moved_by (length cs) (rd_stream ?r1)\<rparr>)"
    using assms(2) unfolding receives_def by blast
  ultimately show "andThen m f r = Inr (y, r\<lparr>rd_stream := moved_by (length (bs @ cs)) (rd_stream r)\<rparr>)"
    by (simp add: moved_by_def algebra_simps)
qed

lemma receives_followed: "receives m bs x \<Longrightarrow> receives k cs y \<Longrightarrow> receives (followed m k) (bs @ cs) y"
  unfolding followed_def by (rule receives_andThen)

lemma receives_map: "receives m bs x \<Longrightarrow> f x = y \<Longrightarrow> receives (andThen m (\<lambda>x. ret (f x))) bs y"
  using receives_andThen [of m bs x "\<lambda>x. ret (f x)" "[]" y] receives_ret [of y] by simp

lemma in_mode_raw: "raw_writer w \<Longrightarrow> in_mode True m w = m w"
  by (simp add: in_mode_def wr_CheckRawMode_def wr_CheckSingleMode_def raw_writer_def followed_def andThen_def)

lemma rd_in_mode_raw: "raw_reader r \<Longrightarrow> rd_in_mode True m r = m r"
  by (simp add: rd_in_mode_def rd_CheckRawMode_def rd_CheckSingleMode_def raw_reader_def followed_def andThen_def)

lemma sends_on_out: "appends m bs () \<Longrightarrow> sends (on_out m) bs"
  unfolding sends_def appends_def raw_writer_def on_out_def by fastforce

lemma receives_on_in: "consumes m bs v \<Longrightarrow> receives (on_in m) bs v"
  unfolding receives_def consumes_def raw_reader_def on_in_def moved_by_def by fastforce

lemma sends_raw: "sends m bs \<Longrightarrow> sends (in_mode True m) bs"
  unfolding sends_def by (auto simp: in_mode_raw)

lemma receives_raw: "receives m bs v \<Longrightarrow> receives (rd_in_mode True m) bs v"
  unfolding receives_def by (auto simp: rd_in_mode_raw)

lemma sends_WriteObject: "sends m bs \<Longrightarrow> sends (wr_WriteObject m) bs"
  unfolding sends_def
  by (auto simp: wr_WriteObject_def wr_CheckRawMode_def raw_writer_def followed_def andThen_def)

lemma receives_ReadObject: "receives m bs v \<Longrightarrow> receives (rd_ReadObject m) bs v"
  unfolding receives_def
  by (auto simp: rd_ReadObject_def rd_CheckRawMode_def raw_reader_def followed_def andThen_def)

section \<open>The contract of a writer operation with its reader operation\<close>

locale exchange =
  fixes send :: "'a \<Rightarrow> unit wr_act" and receive :: "'a rd_act" and code :: "'a \<Rightarrow> u8 list" and valid :: "'a \<Rightarrow> bool"
  assumes sent: "valid v \<Longrightarrow> sends (send v) (code v)"
    and received: "valid v \<Longrightarrow> receives receive (code v) v"
begin

lemma all_sent: "list_all valid vs \<Longrightarrow> sends (for_each send vs) (concat (map code vs))"
proof (induction vs)
  case Nil
  show ?case by (simp only: for_each.simps list.map concat.simps sends_ret)
qed (auto intro: sends_followed sent)

lemma all_received: "list_all valid vs \<Longrightarrow> receives (repeat_act (length vs) receive) (concat (map code vs)) vs"
proof (induction vs)
  case Nil
  show ?case by (simp only: repeat_act.simps list.map concat.simps list.size receives_ret)
next
  case (Cons v vs)
  then have "receives (andThen (repeat_act (length vs) receive) (\<lambda>xs. ret (v # xs))) (concat (map code vs)) (v # vs)"
    by (intro receives_map) auto
  then show ?case
    using Cons.prems by (auto intro!: receives_andThen received)
qed

end

text \<open>Every codec is exchanged by the raw operations, and with a marker in front as a typed value.\<close>

sublocale codec \<subseteq> raw: exchange "\<lambda>v. WritePrimitiveRaw v wr" "ReadRaw rd" enc ok
  by unfold_locales
    (auto simp: WritePrimitiveRaw_def ReadRaw_def
      intro!: sends_raw sends_on_out receives_raw receives_on_in written consumed)

definition typed_bytes :: "int \<Rightarrow> ('a \<Rightarrow> u8 list) \<Rightarrow> 'a \<Rightarrow> u8 list" where
  "typed_bytes hdr enc v = int_bytes 1 hdr @ enc v"

locale typed_codec = codec wr rd enc ok
  for wr :: "'a \<Rightarrow> unit out_act" and rd enc ok +
  fixes hdr :: int and dflt :: 'a
  assumes hdr_fits: "int_fits 1 hdr" and hdr_not_null: "hdr \<noteq> DOCUMENTDB_HDR_NULL"
begin

lemma typed_written: "ok v \<Longrightarrow> appends (write_typed wr hdr v) (typed_bytes hdr enc v) ()"
  unfolding write_typed_def typed_bytes_def
  by (intro marked_written int8.written hdr_fits)

lemma header_consumed: "consumes (f hdr) bs v \<Longrightarrow> consumes (andThen in_ReadInt8 f) (int_bytes 1 hdr @ bs) v"
  by (rule consumes_andThen [OF int8.consumed]) (rule hdr_fits)

lemma nullable_consumed: "ok v \<Longrightarrow> consumes (ReadNullable rd hdr dflt) (typed_bytes hdr enc v) v"
  unfolding ReadNullable_def typed_bytes_def by (rule header_consumed) (simp add: consumed)

end

sublocale typed_codec \<subseteq> top: exchange "wr_WriteTopObject wr hdr" "rd_ReadTopObject hdr rd dflt" "typed_bytes hdr enc" ok
proof
  fix v assume "ok v"
  show "sends (wr_WriteTopObject wr hdr v) (typed_bytes hdr enc v)"
    unfolding wr_WriteTopObject_def by (rule sends_on_out) (rule typed_written, fact)
  show "receives (rd_ReadTopObject hdr rd dflt) (typed_bytes hdr enc v) v"
    unfolding rd_ReadTopObject_def typed_bytes_def
    by (rule receives_on_in, rule header_consumed) (simp add: consumed \<open>ok v\<close>)
qed

interpretation t_int8: typed_codec out_WriteInt8 in_ReadInt8 "int_bytes 1" "int_fits 1" DOCUMENTDB_TYPE_BYTE 0
  by unfold_locales (simp_all add: int_fits_def)

interpretation t_bool: typed_codec out_WriteBool in_ReadBool bool_bytes "\<lambda>_. True" DOCUMENTDB_TYPE_BOOL False
  by unfold_locales (simp_all add: int_fits_def)

interpretation t_int16: typed_codec out_WriteInt16 in_ReadInt16 "int_bytes 2" "int_fits 2" DOCUMENTDB_TYPE_SHORT 0
  by unfold_locales (simp_all add: int_fits_def)

interpretation t_uint16: typed_codec out_WriteUInt16 in_ReadUInt16 "int_bytes 2" "uint_fits 2" DOCUMENTDB_TYPE_CHAR 0
  by unfold_locales (simp_all add: int_fits_def)

interpretation t_int32: typed_codec out_WriteInt32 in_ReadInt32 "int_bytes 4" "int_fits 4" DOCUMENTDB_TYPE_INT 0
  by unfold_locales (simp_all add: int_fits_def)

interpretation t_int64: typed_codec out_WriteInt64 in_ReadInt64 "int_bytes 8" "int_fits 8" DOCUMENTDB_TYPE_LONG 0
  by unfold_locales (simp_all add: int_fits_def)

interpretation t_float: typed_codec out_WriteFloat in_ReadFloat "\<lambda>v. int_bytes 4 (sint v)" "\<lambda>_. True" DOCUMENTDB_TYPE_FLOAT 0
  by unfold_locales (simp_all add: int_fits_def)

interpretation t_double: typed_codec out_WriteDouble in_ReadDouble "\<lambda>v. int_bytes 8 (sint v)" "\<lambda>_. True" DOCUMENTDB_TYPE_DOUBLE 0
  by unfold_locales (simp_all add: int_fits_def)

interpretation t_guid: typed_codec BU_WriteGuid BU_ReadGuid guid_bytes "\<lambda>_. True" DOCUMENTDB_TYPE_UUID "Guid_of 0 0"
  by unfold_locales (simp_all add: int_fits_def)

interpretation t_date: typed_codec BU_WriteDate BU_ReadDate "int_bytes 8" "int_fits 8" DOCUMENTDB_TYPE_DATE 0
  by unfold_locales (simp_all add: int_fits_def)

interpretation t_timestamp: typed_codec BU_WriteTimestamp BU_ReadTimestamp ts_bytes ts_ok DOCUMENTDB_TYPE_TIMESTAMP
    "\<lparr>ts_seconds = 0, ts_fractionNs = 0\<rparr>"
  by unfold_locales (simp_all add: int_fits_def)

interpretation t_time: typed_codec BU_WriteTime BU_ReadTime "int_bytes 8" "int_fits 8" DOCUMENTDB_TYPE_TIME 0
  by unfold_locales (simp_all add: int_fits_def)

interpretation t_enum: typed_codec BU_WriteBinaryEnumEntry BU_ReadBinaryEnumEntry enum_bytes enum_ok
    DOCUMENTDB_TYPE_ENUM null_enum
  by unfold_locales (simp_all add: int_fits_def)

end
