(* ===== verification/Odbc_ProtocolProps.thy ===== *)
theory Odbc_ProtocolProps
  imports Odbc_Protocol Odbc_BinaryProps
begin

text \<open>
  What the messages promise: strings, arrays and decimals survive the exchange between a raw writer and a raw reader,
  a peer that reads the fields of a request in the order of \<^verbatim>\<open>message.cpp\<close> gets the request back, and the pages of a
  result are walked row by row.
\<close>

section \<open>Strings\<close>

definition str_ok :: "string \<Rightarrow> bool" where
  "str_ok s \<longleftrightarrow> int (length s) \<le> INT32_MAX"

definition text_bytes :: "string \<Rightarrow> u8 list" where
  "text_bytes s = int_bytes 1 DOCUMENTDB_TYPE_STRING @ int_bytes 4 (int (length s)) @ array_bytes 1 (char_codes s)"

lemma length_fits: "str_ok s \<Longrightarrow> int_fits 4 (int (length s))"
  by (simp add: str_ok_def int_fits_def INT32_MAX_def)

lemma appends_seq: "appends m bs () \<Longrightarrow> appends k cs () \<Longrightarrow> appends (followed m k) (bs @ cs) ()"
  by (rule appends_followed)

lemma header_fits: "-128 \<le> h \<Longrightarrow> h < 128 \<Longrightarrow> int_fits 1 h"
  by (simp add: int_fits_def)

lemma char_code_fits: "int_fits 1 (char_code c)"
  using to_signed_range [of 8 "int (of_char c)"] by (simp add: int_fits_def char_code_def)

lemma chars_of_codes [simp]: "chars_of (char_codes s) = s"
proof -
  have "char_of (nat (char_code c mod 256)) = c" for c
  proof -
    have "char_code c mod 256 = int (of_char c) mod 256"
      using mod_diff_left_eq [of "int (of_char c) + 128" 256 128]
      by (simp add: char_code_def to_signed_def)
    also have "\<dots> = int (of_char c)"
      using nat_of_char_less_256 [of c] by simp
    finally show ?thesis by simp
  qed
  then show ?thesis
    by (simp add: chars_of_def char_codes_def comp_def)
qed

lemma write_string_appends: "str_ok s \<Longrightarrow> appends (write_string (Some s) (int (length s))) (text_bytes s) ()"
  unfolding write_string_def text_bytes_def BU_WriteString_def option.case out_WriteInt8Array_def
  by (intro appends_seq int8.written int32.written length_fits header_fits)
    (simp_all add: out_CopyAndShift_whole char_codes_def appends_out_write)

lemma int32_of_length: "str_ok s \<Longrightarrow> to_signed 32 (int (length s)) = int (length s)"
  by (intro int32_nonneg) (simp_all add: str_ok_def)

lemma chars_consumed: "str_ok s \<Longrightarrow> consumes (in_ReadInt8Array (int (length s))) (array_bytes 1 (char_codes s)) (char_codes s)"
  using consumes_sint_array [of 1 "char_codes s"]
  by (simp add: in_ReadInt8Array_def str_ok_def char_codes_def list_all_iff char_code_fits del: One_nat_def)

lemma after_header:
  "int_fits 1 h \<Longrightarrow> consumes (f h) bs v \<Longrightarrow> consumes (andThen in_ReadInt8 f) (int_bytes 1 h @ bs) v"
  by (rule consumes_andThen [OF int8.consumed])

lemma after_length:
  "int_fits 4 n \<Longrightarrow> consumes (f n) bs v \<Longrightarrow> consumes (andThen in_ReadInt32 f) (int_bytes 4 n @ bs) v"
  by (rule consumes_andThen [OF int32.consumed])

lemma ReadStringInternal_consumes:
  assumes "str_ok s" and "int (length s) \<le> n"
  shows "consumes (ReadStringInternal True n) (text_bytes s) (int (length s), Some s)"
proof -
  have "consumes (andThen (in_ReadInt8Array (int (length s))) (\<lambda>vs. ret (int (length s), Some (chars_of vs))))
      (array_bytes 1 (char_codes s)) (int (length s), Some s)"
    using chars_consumed [OF assms(1)] by (rule consumes_map) simp
  then show ?thesis
    unfolding ReadStringInternal_def text_bytes_def
    using assms by (intro after_header header_fits) (simp_all add: after_length length_fits)
qed

text \<open>Asking for the length leaves the stream where it was.\<close>

lemma consumesD:
  assumes "consumes m bs v" and "in_inv s" and "ahead s = map Some bs @ rest"
  shows "m s = Inr (v, moved_by (length bs) s)" and "in_inv (moved_by (length bs) s)"
    and "ahead (moved_by (length bs) s) = rest"
  using assms ahead_advance [OF assms(2,3)] unfolding consumes_def moved_by_def by auto

lemma advance_add [simp]: "moved_by m (moved_by n s) = moved_by (n + m) s"
  by (simp add: moved_by_def)

lemma in_pos_advance [simp]: "in_pos (moved_by n s) = in_pos s + int n" "in_len (moved_by n s) = in_len s"
  by (simp_all add: moved_by_def)

lemma back_up:
  assumes "in_inv s" and "in_inv (moved_by n s)"
  shows "in_SetPosition (to_signed 32 (in_pos (moved_by n s) - int n)) (moved_by n s) = Inr ((), s)"
proof -
  have "to_signed 32 (in_pos s) = in_pos s"
    using assms(1) by (intro int32_nonneg) (simp_all add: in_inv_def)
  then show ?thesis
    using assms(1) by (simp add: in_SetPosition_def in_inv_def moved_by_def)
qed

lemma counted_header:
  assumes "in_inv s" and "ahead s = map Some (int_bytes 1 h @ int_bytes 4 n) @ rest"
    and "int_fits 1 h" and "int_fits 4 n"
  shows "in_ReadInt8 s = Inr (h, moved_by 1 s)" and "in_ReadInt32 (moved_by 1 s) = Inr (n, moved_by 5 s)"
    and "in_SetPosition (to_signed 32 (in_pos (moved_by 5 s) - 5)) (moved_by 5 s) = Inr ((), s)"
proof -
  have a: "ahead s = map Some (int_bytes 1 h) @ map Some (int_bytes 4 n) @ rest"
    using assms(2) by simp
  note h = consumesD [OF int8.consumed [OF assms(3)] assms(1) a]
  then show "in_ReadInt8 s = Inr (h, moved_by 1 s)" by simp
  note n = consumesD [OF int32.consumed [OF assms(4)] h(2,3)]
  from n show "in_ReadInt32 (moved_by 1 s) = Inr (n, moved_by 5 s)" by simp
  have "in_inv (moved_by 5 s)" using n(2) by simp
  then show "in_SetPosition (to_signed 32 (in_pos (moved_by 5 s) - 5)) (moved_by 5 s) = Inr ((), s)"
    using back_up [OF assms(1), of 5] by simp
qed

lemma string_length_peek:
  assumes "str_ok s" and "raw_reader r" and "ahead (rd_stream r) = map Some (text_bytes s) @ rest"
  shows "rd_ReadString False 0 r = Inr ((int (length s), None), r)"
proof -
  have inv: "in_inv (rd_stream r)"
    using assms(2) by (simp add: raw_reader_def)
  have a: "ahead (rd_stream r) = map Some (int_bytes 1 9 @ int_bytes 4 (int (length s))) @ map Some (array_bytes 1 (char_codes s)) @ rest"
    using assms(3) by (simp add: text_bytes_def)
  have "int_fits 1 9"
    by (simp add: int_fits_def)
  note c = counted_header [OF inv a this length_fits [OF assms(1)]]
  have "ReadStringInternal False 0 (rd_stream r) = Inr ((int (length s), None), rd_stream r)"
    using c by (simp add: ReadStringInternal_def in_Position_def)
  then show ?thesis
    unfolding rd_ReadString_def using assms(2) by (simp add: rd_in_mode_raw on_in_def)
qed

lemma receives_rd_ReadString:
  "str_ok s \<Longrightarrow> int (length s) \<le> n \<Longrightarrow> receives (rd_ReadString True n) (text_bytes s) (int (length s), Some s)"
  unfolding rd_ReadString_def by (intro receives_raw receives_on_in ReadStringInternal_consumes)

lemma util_ReadString_receives:
  assumes "str_ok s"
  shows "receives util_ReadString (text_bytes s) s"
  unfolding receives_def
proof (intro allI impI)
  fix r rest assume r: "raw_reader r" and a: "ahead (rd_stream r) = map Some (text_bytes s) @ rest"
  have "rd_ReadString True n r = Inr ((int (length s), Some s), r\<lparr>rd_stream := moved_by (length (text_bytes s)) (rd_stream r)\<rparr>)"
    if "int (length s) \<le> n" for n
    using receives_rd_ReadString [OF assms that] r a unfolding receives_def by blast
  then show "util_ReadString r = Inr (s, r\<lparr>rd_stream := moved_by (length (text_bytes s)) (rd_stream r)\<rparr>)"
    using string_length_peek [OF assms r a] by (cases "s = []") (simp_all add: util_ReadString_def)
qed

interpretation str: exchange util_WriteString util_ReadString text_bytes str_ok
proof
  fix s assume "str_ok s"
  then show "sends (util_WriteString s) (text_bytes s)"
    unfolding util_WriteString_def wr_WriteString_def
    by (simp only: int32_of_length) (intro sends_raw sends_on_out write_string_appends)
  show "receives util_ReadString (text_bytes s) s"
    using \<open>str_ok s\<close> by (rule util_ReadString_receives)
qed

lemma top_string_consumes:
  assumes "str_ok s"
  shows "receives (rd_ReadTopObject_string res) (text_bytes s) (if s = [] then res else s)"
proof -
  have "consumes (if 0 < int (length s) then andThen (in_ReadInt8Array (int (length s))) (\<lambda>vs. ret (chars_of vs)) else ret res)
      (array_bytes 1 (char_codes s)) (if s = [] then res else s)"
  proof (cases "s = []")
    case True
    then show ?thesis
      using consumes_ret [of res] by (simp add: array_bytes_def char_codes_def)
  next
    case False
    then show ?thesis
      using chars_consumed [OF assms] by (auto intro!: consumes_map)
  qed
  then show ?thesis
    unfolding rd_ReadTopObject_string_def text_bytes_def
    using assms by (intro receives_on_in after_header header_fits) (simp_all add: after_length length_fits)
qed

interpretation top_str: exchange write_object_string "rd_ReadObject (rd_ReadTopObject_string [])" text_bytes str_ok
proof
  fix s assume ok: "str_ok s"
  then have "appends (followed (out_WriteInt8 DOCUMENTDB_TYPE_STRING) (BU_WriteString s (int (length s)))) (text_bytes s) ()"
    using write_string_appends [OF ok] by (simp add: write_string_def)
  then show "sends (write_object_string s) (text_bytes s)"
    unfolding write_object_string_def wr_WriteTopObject_string_def using ok
    by (simp only: int32_of_length) (intro sends_WriteObject sends_on_out)
  show "receives (rd_ReadObject (rd_ReadTopObject_string [])) (text_bytes s) s"
    using top_string_consumes [OF ok, of "[]"] by (cases "s = []") (auto intro: receives_ReadObject)
qed

section \<open>Decimals\<close>

lemma u8_sign: "sint (b :: u8) < 0 \<longleftrightarrow> bit b 7"
  by (simp add: bit_last_iff [symmetric])

lemma u8_sign_bit: "\<not> bit (b :: u8) 7 \<Longrightarrow> (b OR 0x80) AND 0x7F = b" "bit (b OR 0x80) 7"
  "bit (0x80 :: u8) 7" "\<not> bit (0 :: u8) 7" "(0x80 :: u8) AND 0x7F = 0"
proof -
  have m: "(0x80 :: u8) = push_bit 7 1" "(0x7F :: u8) = mask 7"
    by (simp_all add: mask_eq_exp_minus_1 push_bit_eq_mult)
  have len: "bit b n \<Longrightarrow> n < 8" for n
    using bit_imp_le_length [of b n] by simp
  show "\<not> bit b 7 \<Longrightarrow> (b OR 0x80) AND 0x7F = b"
    unfolding m by (rule bit_eqI) (auto simp: bit_simps less_Suc_eq numeral_eq_Suc dest: len)
  show "bit (b OR 0x80) 7" unfolding m by (simp add: bit_simps)
qed simp_all

lemma u8_fits: "int_fits 1 (sint (b :: u8))"
  using sint_range_size [of b] by (simp add: int_fits_def word_size)

lemma int_bytes_sint: "int_bytes 1 (sint (b :: u8)) = [b]"
  by (simp add: int_bytes_def)

lemma array_bytes_sint: "array_bytes 1 (map sint bs) = (bs :: u8 list)"
  unfolding array_bytes_def map_map comp_def int_bytes_sint by (induction bs) auto

lemma length_MagnitudeToBytes:
  assumes "length (mag b) < 2 ^ 26"
  shows "length (MagnitudeToBytes b) \<le> 2 ^ 29" and "MagnitudeToBytes b \<noteq> []"
proof -
  have wb: "length (word_bytes n w) = n" for n w
    by (induction n arbitrary: w) auto
  have cw: "length (concat (map (word_bytes 4) ws)) = 4 * length ws" for ws
    by (induction ws) (auto simp: wb)
  define N where "N = (unat (GetBitLength b) + 7) div 8"
  have N: "N \<le> 2 ^ 29"
    using unat_u32_less [of "GetBitLength b"] by (simp add: N_def)
  have len: "length (MagnitudeToBytes b) = (if N = 0 then 1 else N - 4 * (length (mag b) - 1) + 4 * (length (mag b) - 1))"
    by (simp add: MagnitudeToBytes_def Let_def wb cw N_def)
  then show "length (MagnitudeToBytes b) \<le> 2 ^ 29"
    using N assms by auto
  have "0 < length (MagnitudeToBytes b)"
    using len by (cases "N = 0") auto
  then show "MagnitudeToBytes b \<noteq> []"
    by simp
qed

definition dec_ok :: "Decimal \<Rightarrow> bool" where
  "dec_ok d \<longleftrightarrow> canonical (magnitude d) \<and> length (mag (magnitude d)) < 2 ^ 26 \<and> 0 \<le> scale d \<and> scale d \<le> INT32_MAX"

text \<open>The magnitude with the sign in its top bit.\<close>

definition wire_magnitude :: "Decimal \<Rightarrow> u8 list" where
  "wire_magnitude d =
     (let bytes = MagnitudeToBytes (magnitude d); addBit = (if sign (magnitude d) = -1 then 0x80 else 0)
      in if bit (hd bytes) 7 then addBit # bytes else (hd bytes OR addBit) # tl bytes)"

definition dec_bytes :: "Decimal \<Rightarrow> u8 list" where
  "dec_bytes d = int_bytes 1 DOCUMENTDB_TYPE_DECIMAL @ int_bytes 4 (scale d) @
     int_bytes 4 (int (length (wire_magnitude d))) @ wire_magnitude d"

lemma sends_bytes: "sends (on_out (out_WriteInt8Array (map sint bs) (int (length bs)))) (bs :: u8 list)"
  using appends_out_write [of bs]
  by (intro sends_on_out) (simp only: out_WriteInt8Array_def array_bytes_sint out_CopyAndShift_whole)

lemma wr_ops: "wr_WriteInt8 v = WritePrimitiveRaw v out_WriteInt8" "wr_WriteInt16 v = WritePrimitiveRaw v out_WriteInt16"
  "wr_WriteInt32 v = WritePrimitiveRaw v out_WriteInt32" "wr_WriteInt64 v = WritePrimitiveRaw v out_WriteInt64"
  "wr_WriteBool x = WritePrimitiveRaw x out_WriteBool"
  by (simp_all add: wr_WriteInt8_def wr_WriteInt16_def wr_WriteInt32_def wr_WriteInt64_def wr_WriteBool_def)

lemma sends_ints: "int_fits 1 v \<Longrightarrow> sends (wr_WriteInt8 v) (int_bytes 1 v)" "int_fits 2 v \<Longrightarrow> sends (wr_WriteInt16 v) (int_bytes 2 v)"
  "int_fits 4 v \<Longrightarrow> sends (wr_WriteInt32 v) (int_bytes 4 v)" "int_fits 8 v \<Longrightarrow> sends (wr_WriteInt64 v) (int_bytes 8 v)"
  "sends (wr_WriteBool x) (bool_bytes x)"
  by (simp_all only: wr_ops int8.raw.sent int16.raw.sent int32.raw.sent int64.raw.sent boolean.raw.sent)

lemma receives_ints: "int_fits 1 v \<Longrightarrow> receives rd_ReadInt8 (int_bytes 1 v) v" "int_fits 2 v \<Longrightarrow> receives rd_ReadInt16 (int_bytes 2 v) v"
  "int_fits 4 v \<Longrightarrow> receives rd_ReadInt32 (int_bytes 4 v) v" "int_fits 8 v \<Longrightarrow> receives rd_ReadInt64 (int_bytes 8 v) v"
  "receives rd_ReadBool (bool_bytes x) x"
  by (simp_all add: rd_ReadInt8_def rd_ReadInt16_def rd_ReadInt32_def rd_ReadInt64_def rd_ReadBool_def
      int8.raw.received int16.raw.received int32.raw.received int64.raw.received boolean.raw.received del: One_nat_def)

lemma length_wire_magnitude: "dec_ok d \<Longrightarrow> length (wire_magnitude d) \<le> 2 ^ 29 + 1"
  using length_MagnitudeToBytes [of "magnitude d"] by (auto simp: wire_magnitude_def Let_def dec_ok_def)

lemma util_WriteDecimal_sends:
  assumes "dec_ok d"
  shows "sends (util_WriteDecimal d) (dec_bytes d)"
proof -
  have len: "length (mag (magnitude d)) < 2 ^ 26" and sc: "int_fits 4 (scale d)"
    using assms by (auto simp: dec_ok_def int_fits_def INT32_MAX_def)
  obtain b bs where bytes: "MagnitudeToBytes (magnitude d) = b # bs"
    using length_MagnitudeToBytes(2) [OF len] by (cases "MagnitudeToBytes (magnitude d)") auto
  let ?add = "if sign (magnitude d) = -1 then 0x80 else 0 :: u8"
  have n: "int (length (b # bs)) < INT32_MAX"
    using length_MagnitudeToBytes(1) [OF len] bytes by (simp add: INT32_MAX_def)
  then have n32: "to_signed 32 (int (length (b # bs))) = int (length (b # bs))"
    "to_signed 32 (int (length (b # bs)) + 1) = int (length (b # bs)) + 1"
    by (auto intro!: int32_nonneg)
  have fit: "int_fits 4 (int (length (b # bs)))" "int_fits 4 (int (length (b # bs)) + 1)" "int_fits 1 (sint ?add)"
    using n by (auto simp: int_fits_def INT32_MAX_def)
  have body: "sends (if sint b < 0 then
        followed (wr_WriteInt32 (int (length (b # bs)) + 1))
        (followed (wr_WriteInt8 (sint ?add)) (on_out (out_WriteInt8Array (map sint (b # bs)) (int (length (b # bs))))))
      else followed (wr_WriteInt32 (int (length (b # bs))))
        (on_out (out_WriteInt8Array (map sint ((b OR ?add) # bs)) (int (length (b # bs))))))
      (int_bytes 4 (int (length (wire_magnitude d))) @ wire_magnitude d)"
  proof (cases "bit b 7")
    case True
    have "sends (followed (wr_WriteInt32 (int (length (b # bs)) + 1))
        (followed (wr_WriteInt8 (sint ?add)) (on_out (out_WriteInt8Array (map sint (b # bs)) (int (length (b # bs)))))))
        (int_bytes 4 (int (length (b # bs)) + 1) @ int_bytes 1 (sint ?add) @ (b # bs))"
      using fit by (intro sends_followed sends_ints sends_bytes)
    then show ?thesis
      using True by (simp add: u8_sign wire_magnitude_def Let_def bytes int_bytes_sint add.commute del: One_nat_def)
  next
    case False
    have "sends (followed (wr_WriteInt32 (int (length (b # bs))))
        (on_out (out_WriteInt8Array (map sint ((b OR ?add) # bs)) (int (length ((b OR ?add) # bs))))))
        (int_bytes 4 (int (length (b # bs))) @ ((b OR ?add) # bs))"
      using fit by (intro sends_followed sends_ints sends_bytes)
    then show ?thesis
      using False by (simp add: u8_sign wire_magnitude_def Let_def bytes)
  qed
  have "sends (followed (wr_WriteInt8 DOCUMENTDB_TYPE_DECIMAL) (followed (wr_WriteInt32 (scale d))
      (if sint b < 0 then
        followed (wr_WriteInt32 (int (length (b # bs)) + 1))
        (followed (wr_WriteInt8 (sint ?add)) (on_out (out_WriteInt8Array (map sint (b # bs)) (int (length (b # bs))))))
      else followed (wr_WriteInt32 (int (length (b # bs))))
        (on_out (out_WriteInt8Array (map sint ((b OR ?add) # bs)) (int (length (b # bs))))))))
    (dec_bytes d)"
    unfolding dec_bytes_def using sc body by (intro sends_followed sends_ints header_fits) simp_all
  then show ?thesis
    unfolding util_WriteDecimal_def Let_def bytes n32 list.case by simp
qed

lemma BigInteger_of_bytes_0: "BigInteger_of_bytes (0 # bs) s True = BigInteger_of_bytes bs s True"
  by (simp add: BigInteger_of_bytes_def)

lemma scale_back: "0 \<le> sc \<Longrightarrow> sc \<le> INT32_MAX \<Longrightarrow> uint ((word_of_int sc :: u32) AND 0x7FFFFFFF) = sc"
proof -
  assume sc: "0 \<le> sc" "sc \<le> INT32_MAX"
  have "(0x7FFFFFFF :: u32) = mask 31"
    by (simp add: mask_eq_exp_minus_1)
  then have "uint ((word_of_int sc :: u32) AND 0x7FFFFFFF) = take_bit 31 (take_bit 32 sc)"
    by (simp only: take_bit_eq_mask [symmetric] unsigned_take_bit_eq) (simp add: unsigned_of_int)
  also have "\<dots> = sc"
    using sc by (simp add: take_bit_eq_mod INT32_MAX_def)
  finally show ?thesis .
qed

text \<open>What the reader makes of the bytes of a magnitude.\<close>

definition decode_magnitude :: "int \<Rightarrow> u8 list \<Rightarrow> stream_error + Decimal" where
  "decode_magnitude sc bytes =
     (case bytes of
        [] \<Rightarrow> Inl WildAccess
      | b # bs \<Rightarrow>
          Inr (if sint b < 0 then Decimal_of_bytes ((b AND 0x7F) # bs) (word_of_int sc) (-1) True
               else Decimal_of_bytes (b # bs) (word_of_int sc) 1 True))"

lemma decode_wire_magnitude:
  assumes "dec_ok d"
  shows "decode_magnitude (scale d) (wire_magnitude d) = Inr d"
proof -
  have ok: "canonical (magnitude d)" "length (mag (magnitude d)) < 2 ^ 26" "0 \<le> scale d" "scale d \<le> INT32_MAX"
    using assms by (auto simp: dec_ok_def)
  have sg: "sign (magnitude d) = 1 \<or> sign (magnitude d) = -1"
    using ok(1) by (simp add: canonical_def wf_big_def)
  obtain b bs where bytes: "MagnitudeToBytes (magnitude d) = b # bs"
    using length_MagnitudeToBytes(2) [OF ok(2)] by (cases "MagnitudeToBytes (magnitude d)") auto
  have "BigInteger_of_bytes (b # bs) (sign (magnitude d)) True = magnitude d"
    using BigInteger_bytes_roundtrip [OF ok(1,2)] bytes by simp
  then have d: "Decimal_of_bytes (b # bs) (word_of_int (scale d)) (sign (magnitude d)) True = d"
    "Decimal_of_bytes (0 # b # bs) (word_of_int (scale d)) (sign (magnitude d)) True = d"
    using ok(3,4) by (cases d; simp add: Decimal_of_bytes_def BigInteger_of_bytes_0 scale_back)+
  show ?thesis
    using sg d by (cases "bit b 7")
      (auto simp: wire_magnitude_def Let_def bytes decode_magnitude_def u8_sign u8_sign_bit)
qed

lemma util_ReadDecimal_receives:
  assumes "dec_ok d"
  shows "receives util_ReadDecimal (dec_bytes d) d"
proof -
  let ?w = "wire_magnitude d"
  have fit: "int_fits 4 (scale d)" "int_fits 4 (int (length ?w))"
    using assms length_wire_magnitude [OF assms] by (auto simp: dec_ok_def int_fits_def INT32_MAX_def)
  have "consumes (in_ReadInt8Array (int (length ?w))) ?w (map sint ?w)"
    using consumes_sint_array [of 1 "map sint ?w"] length_wire_magnitude [OF assms]
    by (simp add: in_ReadInt8Array_def array_bytes_sint list_all_iff u8_fits INT32_MAX_def del: One_nat_def)
  then have bytes: "receives (on_in (in_ReadInt8Array (int (length ?w)))) ?w (map sint ?w)"
    by (rule receives_on_in)
  have dec: "(case map word_of_int (map sint ?w) of
        [] \<Rightarrow> fail WildAccess
      | b # bs \<Rightarrow>
          if sint (b :: u8) < 0 then ret (Decimal_of_bytes ((b AND 0x7F) # bs) (word_of_int (scale d)) (-1) True)
          else ret (Decimal_of_bytes (b # bs) (word_of_int (scale d)) 1 True)) = (ret d :: Decimal rd_act)"
    using decode_wire_magnitude [OF assms] by (auto simp: decode_magnitude_def comp_def fun_eq_iff split: list.splits if_splits)
  have len: "receives (if int (length ?w) < 0 then fail LengthError
      else andThen (on_in (in_ReadInt8Array (int (length ?w)))) (\<lambda>vals.
          case map word_of_int vals of
            [] \<Rightarrow> fail WildAccess
          | b # bs \<Rightarrow>
              if sint (b :: u8) < 0 then ret (Decimal_of_bytes ((b AND 0x7F) # bs) (word_of_int (scale d)) (-1) True)
              else ret (Decimal_of_bytes (b # bs) (word_of_int (scale d)) 1 True))) ?w d"
    using receives_andThen [OF bytes, of _ "[]" d] receives_ret [of d] dec by simp
  show ?thesis
    unfolding util_ReadDecimal_def dec_bytes_def
    by (intro receives_followed [OF receives_ints(1)] receives_andThen [OF receives_ints(3)] fit len header_fits) simp_all
qed

interpretation dec: exchange util_WriteDecimal util_ReadDecimal dec_bytes dec_ok
  by unfold_locales (auto intro: util_WriteDecimal_sends util_ReadDecimal_receives)

text \<open>A whole message: what a raw writer sends into fresh memory, a raw reader of that memory receives.\<close>

lemma message_exchange:
  assumes "0 \<le> cap" and "cap \<le> INT32_MAX" and "int (length bs) \<le> INT32_MAX" and "sends m bs" and "receives rd bs v"
  shows "\<exists>w r. m (newRawWriter (newInteropOutputStream (newInteropUnpooledMemory cap)) mgr) = Inr ((), w)
    \<and> map_sum id fst (rd (newRawReader (newInteropInputStream
          ((out_mem (wr_stream w))\<lparr>Length := out_pos (wr_stream w)\<rparr>)))) = Inr v"
proof -
  let ?s0 = "newInteropOutputStream (newInteropUnpooledMemory cap)"
  let ?w0 = "newRawWriter ?s0 mgr"
  have s0: "out_inv ?s0" "out_pos ?s0 = 0" "prefix ?s0 = []"
    using new_out_inv assms(1,2) by (simp_all add: prefix_def newInteropOutputStream_def)
  have w0: "raw_writer ?w0" "wr_stream ?w0 = ?s0"
    using s0 by (simp_all add: raw_writer_def newRawWriter_def)
  obtain s where m: "m ?w0 = Inr ((), ?w0\<lparr>wr_stream := s\<rparr>)" and s: "out_inv s" "prefix s = map Some bs"
    using assms(3,4) w0 s0 unfolding sends_def by fastforce
  let ?t = "newInteropInputStream ((out_mem s)\<lparr>Length := out_pos s\<rparr>)"
  have "in_inv ?t"
    using s(1) by (simp only: in_inv_def out_inv_def newInteropInputStream_def) simp
  moreover have "ahead ?t = map Some bs @ []"
    using s(2) by (simp add: ahead_def prefix_def newInteropInputStream_def)
  ultimately have "rd (newRawReader ?t) = Inr (v, (newRawReader ?t)\<lparr>rd_stream := moved_by (length bs) ?t\<rparr>)"
    using assms(5) unfolding receives_def by (auto simp: raw_reader_def newRawReader_def)
  then show ?thesis
    using m by (intro exI [of _ "?w0\<lparr>wr_stream := s\<rparr>"]) simp
qed

text \<open>(C15) Decimals on the wire: a canonical decimal with a scale of at most 31 bits, zero and every sign and magnitude included,
  is written by a raw writer into memory of any initial capacity and read back as the same decimal, whether or not its
  sign needs a byte of its own.\<close>

theorem decimal_wire_roundtrip:
  assumes "0 \<le> cap" and "cap \<le> INT32_MAX" and "dec_ok d"
  shows "\<exists>w. util_WriteDecimal d (newRawWriter (newInteropOutputStream (newInteropUnpooledMemory cap)) mgr) = Inr ((), w)
    \<and> map_sum id fst (util_ReadDecimal (newRawReader (newInteropInputStream
          ((out_mem (wr_stream w))\<lparr>Length := out_pos (wr_stream w)\<rparr>)))) = Inr d"
proof -
  have "int (length (dec_bytes d)) \<le> INT32_MAX"
    using length_wire_magnitude [OF assms(3)] by (simp add: dec_bytes_def INT32_MAX_def)
  then show ?thesis
    using message_exchange [OF assms(1,2) _ dec.sent [OF assms(3)] dec.received [OF assms(3)]] by simp
qed

theorem decimal_wire_roundtrip_witness:
  "\<exists>w. util_WriteDecimal \<lparr>scale = 3, magnitude = \<lparr>sign = -1, mag = [0x80000001]\<rparr>\<rparr>
          (newRawWriter (newInteropOutputStream (newInteropUnpooledMemory 0)) None) = Inr ((), w)
    \<and> map_sum id fst (util_ReadDecimal (newRawReader (newInteropInputStream
          ((out_mem (wr_stream w))\<lparr>Length := out_pos (wr_stream w)\<rparr>)))) =
        Inr \<lparr>scale = 3, magnitude = \<lparr>sign = -1, mag = [0x80000001]\<rparr>\<rparr>"
  by (rule decimal_wire_roundtrip)
    (simp_all add: dec_ok_def canonical_def wf_big_def normalized_def INT32_MAX_def)

section \<open>Requests\<close>

datatype request =
    Handshake ProtocolVersion int
  | CloseQuery int
  | FetchQuery int int
  | ColumnsMeta string string string
  | ResultsetMeta string string
  | TablesMeta string string string string
  | ParamsMeta string string
  | MoreResults int int

fun write_request :: "request \<Rightarrow> unit wr_act" where
  "write_request (Handshake v client) = HandshakeRequest_Write"
| "write_request (CloseQuery q) = QueryCloseRequest_Write q"
| "write_request (FetchQuery q n) = QueryFetchRequest_Write q n"
| "write_request (ColumnsMeta s t c) = QueryGetColumnsMetaRequest_Write s t c"
| "write_request (ResultsetMeta s q) = QueryGetResultsetMetaRequest_Write s q"
| "write_request (TablesMeta c s t y) = QueryGetTablesMetaRequest_Write c s t y"
| "write_request (ParamsMeta s q) = QueryGetParamsMetaRequest_Write s q"
| "write_request (MoreResults q n) = QueryMoreResultsRequest_Write q n"

text \<open>A peer that reads the code of a request and then its fields, with the operations of the reader.\<close>

definition read_text :: "string rd_act" where
  "read_text = rd_ReadObject (rd_ReadTopObject_string [])"

definition peer_read :: "request rd_act" where
  "peer_read = andThen rd_ReadInt8 (\<lambda>code.
     if code = 1 then
       andThen rd_ReadInt16 (\<lambda>a. andThen rd_ReadInt16 (\<lambda>b. andThen rd_ReadInt16 (\<lambda>c.
       andThen rd_ReadInt8 (\<lambda>client. ret (Handshake (version a b c) client)))))
     else if code = 4 then andThen rd_ReadInt64 (\<lambda>q. ret (CloseQuery q))
     else if code = 3 then andThen rd_ReadInt64 (\<lambda>q. andThen rd_ReadInt32 (\<lambda>n. ret (FetchQuery q n)))
     else if code = 5 then andThen read_text (\<lambda>s. andThen read_text (\<lambda>t. andThen read_text (\<lambda>c. ret (ColumnsMeta s t c))))
     else if code = 11 then andThen read_text (\<lambda>s. andThen read_text (\<lambda>q. ret (ResultsetMeta s q)))
     else if code = 6 then
       andThen read_text (\<lambda>c. andThen read_text (\<lambda>s. andThen read_text (\<lambda>t. andThen read_text (\<lambda>y. ret (TablesMeta c s t y)))))
     else if code = 7 then andThen read_text (\<lambda>s. andThen read_text (\<lambda>q. ret (ParamsMeta s q)))
     else if code = 9 then andThen rd_ReadInt64 (\<lambda>q. andThen rd_ReadInt32 (\<lambda>n. ret (MoreResults q n)))
     else fail (Thrown DOCUMENTDB_ERR_BINARY ''Unknown request'' [(''code'', code)]))"

fun request_bytes :: "request \<Rightarrow> u8 list" where
  "request_bytes (Handshake v client) = int_bytes 1 1 @ int_bytes 2 2 @ int_bytes 2 8 @ int_bytes 2 0 @ int_bytes 1 0"
| "request_bytes (CloseQuery q) = int_bytes 1 4 @ int_bytes 8 q"
| "request_bytes (FetchQuery q n) = int_bytes 1 3 @ int_bytes 8 q @ int_bytes 4 n"
| "request_bytes (ColumnsMeta s t c) = int_bytes 1 5 @ text_bytes s @ text_bytes t @ text_bytes c"
| "request_bytes (ResultsetMeta s q) = int_bytes 1 11 @ text_bytes s @ text_bytes q"
| "request_bytes (TablesMeta c s t y) = int_bytes 1 6 @ text_bytes c @ text_bytes s @ text_bytes t @ text_bytes y"
| "request_bytes (ParamsMeta s q) = int_bytes 1 7 @ text_bytes s @ text_bytes q"
| "request_bytes (MoreResults q n) = int_bytes 1 9 @ int_bytes 8 q @ int_bytes 4 n"

text \<open>The handshake is that of the current version with the client code of ODBC.\<close>

fun request_ok :: "request \<Rightarrow> bool" where
  "request_ok (Handshake v client) = (v = GetCurrent \<and> client = 0)"
| "request_ok (CloseQuery q) = int_fits 8 q"
| "request_ok (FetchQuery q n) = (int_fits 8 q \<and> int_fits 4 n)"
| "request_ok (ColumnsMeta s t c) = list_all str_ok [s, t, c]"
| "request_ok (ResultsetMeta s q) = list_all str_ok [s, q]"
| "request_ok (TablesMeta c s t y) = list_all str_ok [c, s, t, y]"
| "request_ok (ParamsMeta s q) = list_all str_ok [s, q]"
| "request_ok (MoreResults q n) = (int_fits 8 q \<and> int_fits 4 n)"

lemmas request_defs = HandshakeRequest_Write_def QueryCloseRequest_Write_def QueryFetchRequest_Write_def
  QueryGetColumnsMetaRequest_Write_def QueryGetResultsetMetaRequest_Write_def QueryGetTablesMetaRequest_Write_def
  QueryGetParamsMetaRequest_Write_def QueryMoreResultsRequest_Write_def

lemma sends_code: "-128 \<le> h \<Longrightarrow> h < 128 \<Longrightarrow> sends (wr_WriteInt8 h) (int_bytes 1 h)"
  by (intro sends_ints header_fits)

lemma request_sends: "request_ok q \<Longrightarrow> sends (write_request q) (request_bytes q)"
  by (cases q)
    (auto simp: request_defs GetCurrent_def version_def int_fits_def simp del: One_nat_def
      intro!: sends_followed sends_code sends_ints top_str.sent)

lemma receives_code:
  "-128 \<le> h \<Longrightarrow> h < 128 \<Longrightarrow> receives (f h) bs v \<Longrightarrow> receives (andThen rd_ReadInt8 f) (int_bytes 1 h @ bs) v"
  by (rule receives_andThen [OF receives_ints(1)]) (rule header_fits)

lemma receives_text: "str_ok s \<Longrightarrow> receives (f s) bs v \<Longrightarrow> receives (andThen read_text f) (text_bytes s @ bs) v"
  unfolding read_text_def by (rule receives_andThen [OF top_str.received])

lemma receives_last_text: "str_ok s \<Longrightarrow> receives (andThen read_text (\<lambda>s. ret (f s))) (text_bytes s) (f s)"
  unfolding read_text_def by (rule receives_map [OF top_str.received]) simp_all

lemma receives_last_int:
  "int_fits 1 v \<Longrightarrow> receives (andThen rd_ReadInt8 (\<lambda>v. ret (f v))) (int_bytes 1 v) (f v)"
  "int_fits 4 v \<Longrightarrow> receives (andThen rd_ReadInt32 (\<lambda>v. ret (f v))) (int_bytes 4 v) (f v)"
  "int_fits 8 v \<Longrightarrow> receives (andThen rd_ReadInt64 (\<lambda>v. ret (f v))) (int_bytes 8 v) (f v)"
  by (auto simp del: One_nat_def intro: receives_map receives_ints)

lemma request_receives: "request_ok q \<Longrightarrow> receives peer_read (request_bytes q) q"
  unfolding peer_read_def
  by (cases q)
    (auto simp: GetCurrent_def int_fits_def simp del: One_nat_def
      intro!: receives_code receives_text receives_last_text receives_last_int
        receives_andThen [OF receives_ints(2)] receives_andThen [OF receives_ints(4)])

text \<open>(C21) Requests: a peer that reads the code and then the fields in the order of the protocol receives from the bytes of
  each request of \<^verbatim>\<open>message.cpp\<close> without parameters exactly that request, so no two different requests have the same
  bytes.\<close>

theorem request_roundtrip:
  assumes "request_ok q" and "int (length (request_bytes q)) \<le> INT32_MAX" and "0 \<le> cap" and "cap \<le> INT32_MAX"
  shows "\<exists>w. write_request q (newRawWriter (newInteropOutputStream (newInteropUnpooledMemory cap)) mgr) = Inr ((), w)
    \<and> map_sum id fst (peer_read (newRawReader (newInteropInputStream
          ((out_mem (wr_stream w))\<lparr>Length := out_pos (wr_stream w)\<rparr>)))) = Inr q"
  using message_exchange [OF assms(3,4,2) request_sends [OF assms(1)] request_receives [OF assms(1)]] by simp

theorem request_roundtrip_witness:
  "\<exists>w. write_request (ColumnsMeta ''db'' ''t%'' []) (newRawWriter (newInteropOutputStream (newInteropUnpooledMemory 8)) None) = Inr ((), w)
    \<and> map_sum id fst (peer_read (newRawReader (newInteropInputStream
          ((out_mem (wr_stream w))\<lparr>Length := out_pos (wr_stream w)\<rparr>)))) = Inr (ColumnsMeta ''db'' ''t%'' [])"
  by (rule request_roundtrip) (simp_all add: str_ok_def text_bytes_def char_codes_def INT32_MAX_def)

end
