(* ===== verification/Odbc_BinaryObject.thy ===== *)
theory Odbc_BinaryObject
  imports Odbc_BinaryReader
begin

text \<open>
  Objects in memory: \<^verbatim>\<open>impl/binary/binary_object_header.cpp\<close> and \<^verbatim>\<open>binary_object_impl\<close>. An object is its memory, the
  position of its header and the resolver of its field names. \<open>FromMemory\<close> follows wrapped objects without a bound;
  the model takes the number of wrappers it may follow.
\<close>

fun hdr_FromMemory :: "nat \<Rightarrow> InteropMemory \<Rightarrow> int \<Rightarrow> stream_error + int" where
  "hdr_FromMemory 0 m offset = Inl Unbounded"
| "hdr_FromMemory (Suc depth) m offset =
     (if to_signed 32 (Length m - offset) < HEADER_SIZE then
        Inl (Thrown DOCUMENTDB_ERR_MEMORY ''Not enough data in the binary object''
               [(''len'', to_signed 32 (Length m - offset)), (''headerLen'', HEADER_SIZE)])
      else bind_sum (mem_ReadInt False 1 m offset) (\<lambda>type.
        if type = DOCUMENTDB_TYPE_BINARY then
          bind_sum (mem_ReadInt False 4 m (to_signed 32 (offset + DOCUMENTDB_COMMON_HDR_LEN))) (\<lambda>binLen.
          bind_sum (mem_ReadInt True 4 m (to_signed 32 (offset + DOCUMENTDB_BINARY_HDR_LEN + binLen))) (\<lambda>binOff.
            hdr_FromMemory depth m (to_signed 32 (offset + DOCUMENTDB_BINARY_HDR_LEN + binOff))))
        else if type \<noteq> DOCUMENTDB_TYPE_OBJECT then
          Inl (Thrown DOCUMENTDB_ERR_MEMORY ''Not expected type header of the binary object''
                 [(''type'', type mod 256), (''expected'', DOCUMENTDB_TYPE_OBJECT)])
        else Inr offset))"

record BinaryObjectImpl =
  obj_mem :: InteropMemory
  obj_start :: int
  obj_idRslvr :: "BinaryIdResolver option"
  obj_metaMgr :: "BinaryTypeManager option"
  obj_binary :: bool

definition newBinaryObjectImpl ::
  "InteropMemory \<Rightarrow> int \<Rightarrow> BinaryIdResolver option \<Rightarrow> BinaryTypeManager option \<Rightarrow> stream_error + BinaryObjectImpl" where
  "newBinaryObjectImpl m start idRslvr metaMgr = bind_sum (mem_ReadInt True 1 m start) (\<lambda>hdr.
     let obj = \<lparr>obj_mem = m, obj_start = start, obj_idRslvr = idRslvr, obj_metaMgr = metaMgr, obj_binary = False\<rparr>
     in if hdr = DOCUMENTDB_TYPE_BINARY then
          bind_sum (mem_ReadInt True 4 m (to_signed 32 (start + 1))) (\<lambda>portLen.
          bind_sum (mem_ReadInt True 4 m (to_signed 32 (start + 5 + portLen))) (\<lambda>portOff.
            Inr (obj\<lparr>obj_binary := True, obj_start := to_signed 32 (start + portOff + 5)\<rparr>)))
        else if hdr \<noteq> DOCUMENTDB_TYPE_OBJECT then
          Inl (Thrown DOCUMENTDB_ERR_BINARY ''Memory layuout does not look like a binary object''
                 [(''pos'', start), (''header'', hdr)])
        else Inr obj)"

definition obj_FromMemory ::
  "nat \<Rightarrow> InteropMemory \<Rightarrow> int \<Rightarrow> BinaryTypeManager option \<Rightarrow> stream_error + BinaryObjectImpl" where
  "obj_FromMemory depth m offset metaMgr =
     bind_sum (hdr_FromMemory depth m offset) (\<lambda>adjustedStart. newBinaryObjectImpl m adjustedStart None metaMgr)"

definition obj_GetTypeId :: "BinaryObjectImpl \<Rightarrow> stream_error + int" where
  "obj_GetTypeId ob = hdr_GetTypeId (obj_mem ob) (obj_start ob)"

definition obj_GetHashCode :: "BinaryObjectImpl \<Rightarrow> stream_error + int" where
  "obj_GetHashCode ob = hdr_GetHashCode (obj_mem ob) (obj_start ob)"

definition obj_GetLength :: "BinaryObjectImpl \<Rightarrow> stream_error + int" where
  "obj_GetLength ob = hdr_GetDataLength (obj_mem ob) (obj_start ob)"

definition obj_GetData :: "BinaryObjectImpl \<Rightarrow> int" where
  "obj_GetData ob = obj_start ob + HEADER_SIZE"

text \<open>The three loops over the footer, which differ in the size of an entry.\<close>

fun read_offset_mem :: "BinaryOffsetType \<Rightarrow> InteropMemory \<Rightarrow> int \<Rightarrow> stream_error + int" where
  "read_offset_mem ONE_BYTE m p = map_sum id (\<lambda>v. v mod 256) (mem_ReadInt False 1 m p)"
| "read_offset_mem TWO_BYTES m p = map_sum id (\<lambda>v. v mod 65536) (mem_ReadInt False 2 m p)"
| "read_offset_mem FOUR_BYTES m p = mem_ReadInt False 4 m p"

function find_in_memory :: "BinaryOffsetType \<Rightarrow> InteropMemory \<Rightarrow> int \<Rightarrow> int \<Rightarrow> int \<Rightarrow> int \<Rightarrow> stream_error + int" where
  "find_in_memory typ m fieldId start schemaPos footerEnd =
     (if schemaPos < footerEnd then
        bind_sum (mem_ReadInt False 4 m schemaPos) (\<lambda>currentFieldId.
          if fieldId = currentFieldId then
            map_sum id (\<lambda>off. to_signed 32 (off + start)) (read_offset_mem typ m (schemaPos + 4))
          else find_in_memory typ m fieldId start (schemaPos + entry_size typ) footerEnd)
      else Inr (-1))"
  by pat_completeness auto
termination
proof (relation "measure (\<lambda>(ty, m, fieldId, start, schemaPos, footerEnd). nat (footerEnd - schemaPos))")
  fix ty :: BinaryOffsetType and m :: InteropMemory and fieldId start schemaPos footerEnd :: int
  assume "schemaPos < footerEnd"
  then show "((ty, m, fieldId, start, schemaPos + entry_size ty, footerEnd), ty, m, fieldId, start, schemaPos, footerEnd)
      \<in> measure (\<lambda>(ty, m, fieldId, start, schemaPos, footerEnd). nat (footerEnd - schemaPos))"
    by (cases ty) auto
qed simp

declare find_in_memory.simps [simp del]

definition obj_FindField :: "BinaryObjectImpl \<Rightarrow> int \<Rightarrow> stream_error + int" where
  "obj_FindField ob fieldId =
     (let m = obj_mem ob; start = obj_start ob
      in bind_sum (hdr_GetFlags m start) (\<lambda>flags.
         bind_sum (hdr_GetFooterOffset m start) (\<lambda>footerOffset.
         bind_sum (hdr_GetFooterLength m start) (\<lambda>footerLength.
           let footerBegin = to_signed 32 (footerOffset + start);
               footerEnd = to_signed 32 (footerBegin + footerLength)
           in if to_signed 32 (Length m - start) < footerEnd then
                Inl (Thrown DOCUMENTDB_ERR_BINARY ''Not enough data in the binary object''
                       [(''len'', to_signed 32 (Length m - start)), (''footerEnd'', footerEnd)])
              else
                find_in_memory
                  (if has_flag flags DOCUMENTDB_BINARY_FLAG_OFFSET_ONE_BYTE then ONE_BYTE
                   else if has_flag flags DOCUMENTDB_BINARY_FLAG_OFFSET_TWO_BYTES then TWO_BYTES
                   else FOUR_BYTES) m fieldId start footerBegin footerEnd))))"

text \<open>The resolver of an object that was created without one comes from the metadata of its type; the source keeps it
  in the object.\<close>

definition CheckIdResolver ::
  "(int \<Rightarrow> stream_error + BinaryTypeSnapshot option) \<Rightarrow> BinaryObjectImpl \<Rightarrow> stream_error + BinaryObjectImpl" where
  "CheckIdResolver service ob =
     (case obj_idRslvr ob of
        Some r \<Rightarrow> Inr ob
      | None \<Rightarrow>
          (case obj_metaMgr ob of
             None \<Rightarrow> Inl WildAccess
           | Some mgr \<Rightarrow>
               bind_sum (obj_GetTypeId ob) (\<lambda>typeId.
                 case mgr_GetMeta service typeId mgr of
                   Inl e \<Rightarrow> Inl e
                 | Inr (None, mgr') \<Rightarrow> Inl WildAccess
                 | Inr (Some meta, mgr') \<Rightarrow>
                     Inr (ob\<lparr>obj_idRslvr := Some (MetadataBinaryIdResolver meta), obj_metaMgr := Some mgr'\<rparr>))))"

definition obj_field_position ::
  "(int \<Rightarrow> stream_error + BinaryTypeSnapshot option) \<Rightarrow> string \<Rightarrow> BinaryObjectImpl \<Rightarrow> stream_error + int" where
  "obj_field_position service name ob = bind_sum (CheckIdResolver service ob) (\<lambda>ob'.
     bind_sum (obj_GetTypeId ob') (\<lambda>typeId.
     case obj_idRslvr ob' of
       None \<Rightarrow> Inl WildAccess
     | Some r \<Rightarrow> bind_sum (rslv_fieldId r typeId (Some name)) (\<lambda>fieldId. obj_FindField ob' fieldId)))"

definition HasField ::
  "(int \<Rightarrow> stream_error + BinaryTypeSnapshot option) \<Rightarrow> string \<Rightarrow> BinaryObjectImpl \<Rightarrow> stream_error + bool" where
  "HasField service name ob = map_sum id (\<lambda>fieldPos. fieldPos \<ge> 0) (obj_field_position service name ob)"

definition obj_GetField_object ::
  "nat \<Rightarrow> (int \<Rightarrow> stream_error + BinaryTypeSnapshot option) \<Rightarrow> string \<Rightarrow> BinaryObjectImpl \<Rightarrow> stream_error + BinaryObjectImpl" where
  "obj_GetField_object depth service name ob =
     bind_sum (obj_field_position service name ob) (\<lambda>pos. obj_FromMemory depth (obj_mem ob) pos (obj_metaMgr ob))"

definition obj_GetField ::
  "(int \<Rightarrow> stream_error + BinaryTypeSnapshot option) \<Rightarrow> string \<Rightarrow> 't \<Rightarrow> 't rd_act \<Rightarrow> BinaryObjectImpl \<Rightarrow> stream_error + 't" where
  "obj_GetField service name dflt read_val ob =
     bind_sum (obj_field_position service name ob) (\<lambda>pos.
       if pos = -1 then Inr dflt
       else map_sum id fst
         (followed (on_in (in_SetPosition pos)) read_val (newRawReader (newInteropInputStream (obj_mem ob)))))"

fun nth_object :: "nat \<Rightarrow> nat \<Rightarrow> InteropMemory \<Rightarrow> int \<Rightarrow> stream_error + int" where
  "nth_object depth 0 m offset = Inr offset"
| "nth_object depth (Suc i) m offset =
     bind_sum (hdr_FromMemory depth m offset) (\<lambda>h. bind_sum (hdr_GetLength m h) (\<lambda>len.
       nth_object depth i m (to_signed 32 (offset + len))))"

definition obj_GetField_index :: "nat \<Rightarrow> int \<Rightarrow> BinaryObjectImpl \<Rightarrow> stream_error + BinaryObjectImpl" where
  "obj_GetField_index depth idx ob =
     bind_sum (nth_object depth (nat idx) (obj_mem ob) (to_signed 32 (obj_start ob + HEADER_SIZE))) (\<lambda>offset.
       obj_FromMemory depth (obj_mem ob) offset None)"

definition GetEnumValue :: "BinaryObjectImpl \<Rightarrow> stream_error + int" where
  "GetEnumValue ob = Inl (Thrown DOCUMENTDB_ERR_BINARY ''GetEnumValue is only supported for enums.'' [])"

definition Deserialize :: "nat \<Rightarrow> ('o, 'z) ReadableTypeT_scheme \<Rightarrow> BinaryObjectImpl \<Rightarrow> stream_error + 'o" where
  "Deserialize depth T ob = bind_sum (obj_GetTypeId ob) (\<lambda>actualTypeId.
     if bt_GetTypeId T \<noteq> actualTypeId then
       Inl (Thrown DOCUMENTDB_ERR_BINARY ''Trying to deserialize binary object to a different type''
              [(''actualTypeId'', actualTypeId), (''requestedTypeId'', bt_GetTypeId T)])
     else map_sum id fst
       (followed (in_SetPosition (obj_start ob)) (ReadTopObject0 depth T) (newInteropInputStream (obj_mem ob))))"

end
