(* ===== verification/Odbc_ObjectProps.thy ===== *)
theory Odbc_ObjectProps
  imports Odbc_ProtocolProps Odbc_BinaryObject
begin

text \<open>
  Objects with fields: what the writer leaves in memory for an object (header, data, footer with the schema) and that a
  reader finds every field by its name in it. The steps follow the writer: the header with room for the parts that are
  not known yet, the fields one after the other, the footer, and the header patched at its fixed offsets.
\<close>

section \<open>Writing at a position\<close>

lemma put_cells_mid:
  assumes "length xs = p" and "length ys = length bs"
  shows "put_cells p bs (xs @ ys @ zs) = xs @ map Some bs @ zs"
  using assms by (simp add: put_cells_def)

lemma take_put_cells:
  assumes "p + length bs \<le> n" and "n \<le> length cells"
  shows "take n (put_cells p bs cells) = put_cells p bs (take n cells)"
proof (rule nth_equalityI)
  show "length (take n (put_cells p bs cells)) = length (put_cells p bs (take n cells))"
    using assms by (simp add: put_cells_def)
  fix i assume "i < length (take n (put_cells p bs cells))"
  then have "i < n" "i < length cells"
    using assms by (auto simp: put_cells_def)
  then show "take n (put_cells p bs cells) ! i = put_cells p bs (take n cells) ! i"
    using assms by (auto simp: put_cells_def nth_append)
qed

text \<open>Writing inside what was written changes those cells only.\<close>

lemma out_write_at_inside:
  assumes "out_inv s" and "0 \<le> p" and "p + int (length bs) \<le> out_pos s"
  shows "\<exists>s'. out_write_at p bs s = Inr ((), s') \<and> out_inv s' \<and> out_pos s' = out_pos s
           \<and> prefix s' = put_cells (nat p) bs (prefix s)"
proof -
  have cap: "out_pos s \<le> out_cap s" "out_cap s \<le> INT32_MAX" "out_cap s = int (length (Data (out_mem s)))"
    using assms(1) by (auto simp: out_inv_def)
  have "to_signed 32 (p + int (length bs)) = p + int (length bs)"
    using assms cap by (intro int32_nonneg) auto
  then have e: "EnsureCapacity (to_signed 32 (p + int (length bs))) s = Inr ((), s)"
    using assms cap by (simp add: EnsureCapacity_def)
  have fits: "nat p + length bs \<le> nat (out_pos s)" "nat (out_pos s) \<le> length (Data (out_mem s))"
    using assms(2,3) cap by auto
  let ?s' = "s\<lparr>out_mem := (out_mem s)\<lparr>Data := put_cells (nat p) bs (Data (out_mem s))\<rparr>\<rparr>"
  have "store p bs s = Inr ((), ?s')"
    using assms cap by (simp add: store_def)
  then have "out_write_at p bs s = Inr ((), ?s')"
    using e by (simp add: out_write_at_def)
  moreover have "out_inv ?s'"
    using assms(1) fits by (simp add: out_inv_def)
  moreover have "prefix ?s' = put_cells (nat p) bs (prefix s)"
    using take_put_cells [OF fits] by (simp add: prefix_def)
  ultimately show ?thesis by auto
qed

lemma out_Reserve_room:
  assumes "out_inv s" and "0 \<le> n" and "out_pos s + n \<le> INT32_MAX"
  shows "\<exists>s' xs. out_Reserve n s = Inr (out_pos s, s') \<and> out_inv s' \<and> length xs = nat n \<and> prefix s' = prefix s @ xs"
proof -
  have p: "to_signed 32 (out_pos s + n) = out_pos s + n"
    using assms by (intro int32_nonneg) (simp_all add: out_inv_def)
  obtain s1 k where e: "EnsureCapacity (out_pos s + n) s = Inr ((), s1)"
    and s1: "out_inv s1" "out_pos s1 = out_pos s"
    and d: "Data (out_mem s1) = Data (out_mem s) @ replicate k None" and c: "out_pos s + n \<le> out_cap s1"
    using EnsureCapacity_grows [OF assms(1,3)] by blast
  let ?s2 = "s1\<lparr>out_pos := out_pos s + n\<rparr>"
  let ?xs = "take (nat n) (drop (nat (out_pos s)) (Data (out_mem s1)))"
  have len: "nat (out_pos s) + nat n \<le> length (Data (out_mem s1))" "0 \<le> out_pos s"
    using assms(1,2) s1 c by (auto simp: out_inv_def)
  have "out_Reserve n s = Inr (out_pos s, ?s2)"
    by (simp add: out_Reserve_def p e out_Shift_def s1(2))
  moreover have "out_inv ?s2"
    using assms s1 c by (simp add: out_inv_def)
  moreover have "prefix ?s2 = prefix s @ ?xs"
    using len assms(2) out_pos_bounds [OF assms(1)]
    by (simp add: prefix_def nat_add_distrib take_add d)
  ultimately show ?thesis
    using len by (intro exI [of _ ?s2] exI [of _ ?xs]) simp
qed

section \<open>Reading at a position\<close>

definition holds_at :: "InteropInputStream \<Rightarrow> int \<Rightarrow> u8 list \<Rightarrow> bool" where
  "holds_at s p bs \<longleftrightarrow> 0 \<le> p \<and> p + int (length bs) \<le> in_len s
     \<and> cells_at (nat p) (length bs) (Data (in_mem s)) = map Some bs"

lemma holds_at_append:
  "holds_at s p (bs @ cs) \<longleftrightarrow> holds_at s p bs \<and> holds_at s (p + int (length bs)) cs"
proof -
  have "cells_at (nat p) (length bs + length cs) D = cells_at (nat p) (length bs) D @ cells_at (nat p + length bs) (length cs) D" for D
    by (simp add: cells_at_def take_add add.commute)
  moreover have "length (cells_at (nat p) (length bs) (Data (in_mem s))) = length bs"
    if "cells_at (nat p) (length bs) (Data (in_mem s)) @ cells_at (nat p + length bs) (length cs) (Data (in_mem s)) = map Some bs @ map Some cs"
  proof -
    have "length (cells_at (nat p) (length bs) (Data (in_mem s))) + length (cells_at (nat p + length bs) (length cs) (Data (in_mem s))) = length bs + length cs"
      using arg_cong [OF that, of length] by simp
    moreover have "length (cells_at (nat p) (length bs) (Data (in_mem s))) \<le> length bs"
      "length (cells_at (nat p + length bs) (length cs) (Data (in_mem s))) \<le> length cs"
      by (simp_all add: cells_at_def)
    ultimately show ?thesis by linarith
  qed
  ultimately show ?thesis
    by (auto simp: holds_at_def nat_add_distrib)
qed

lemma holds_at_pos [simp]: "holds_at (s\<lparr>in_pos := q\<rparr>) p bs \<longleftrightarrow> holds_at s p bs"
  by (simp add: holds_at_def)

lemma in_read_at_holds:
  assumes "in_inv s" and "holds_at s p bs"
  shows "in_read_at p (int (length bs)) s = Inr (bs, s)"
proof -
  have le: "0 \<le> p" "p + int (length bs) \<le> in_len s" "in_len s \<le> int (length (Data (in_mem s)))"
    "0 \<le> in_pos s" "in_pos s \<le> in_len s" "in_len s \<le> INT32_MAX"
    using assms by (auto simp: holds_at_def in_inv_def)
  have ld: "load p (int (length bs)) s = Inr (bs, s)"
    using assms(2) le by (auto simp: load_def Let_def holds_at_def)
  have d: "to_signed 32 (p + int (length bs) - in_pos s) = p + int (length bs) - in_pos s"
    using le by (intro int32_id) (auto simp: INT32_MAX_def)
  have r: "to_signed 32 (in_len s - in_pos s) = in_len s - in_pos s"
    using le by (intro int32_nonneg) auto
  have "EnsureEnoughData (p + int (length bs) - in_pos s) s = Inr ((), s)"
    using le by (simp add: EnsureEnoughData_def r)
  then show ?thesis
    by (simp add: in_read_at_def d Let_def ld)
qed

lemma in_ints_at:
  assumes "in_inv s"
  shows "holds_at s p (int_bytes 4 v) \<Longrightarrow> int_fits 4 v \<Longrightarrow> in_ReadInt32_at p s = Inr (v, s)"
    and "holds_at s p (int_bytes 2 v) \<Longrightarrow> in_ReadInt16_at p s = Inr (to_signed 16 v, s)"
    and "holds_at s p (int_bytes 1 v) \<Longrightarrow> in_ReadInt8_at p s = Inr (to_signed 8 v, s)"
  using in_read_at_holds [OF assms, of p "int_bytes 4 v"] in_read_at_holds [OF assms, of p "int_bytes 2 v"]
    in_read_at_holds [OF assms, of p "int_bytes 1 v"]
  by (simp_all add: in_ReadInt32_at_def in_ReadInt16_at_def in_ReadInt8_at_def sint_of_int_bytes_fits sint_of_int_bytes)

lemma ahead_holds:
  assumes "in_inv s" and "holds_at s p bs" and "p \<le> in_len s"
  shows "\<exists>rest. ahead (s\<lparr>in_pos := p\<rparr>) = map Some bs @ rest" and "in_inv (s\<lparr>in_pos := p\<rparr>)"
proof -
  have le: "0 \<le> p" "p + int (length bs) \<le> in_len s"
    using assms(2) by (auto simp: holds_at_def)
  have "take (length bs) (ahead (s\<lparr>in_pos := p\<rparr>)) = map Some bs"
  proof -
    have "length bs \<le> nat (in_len s) - nat p"
      using le by linarith
    then show ?thesis
      using assms(2) by (simp add: ahead_def holds_at_def cells_at_def drop_take min_def)
  qed
  then show "\<exists>rest. ahead (s\<lparr>in_pos := p\<rparr>) = map Some bs @ rest"
    by (metis append_take_drop_id)
  show "in_inv (s\<lparr>in_pos := p\<rparr>)"
    using assms le by (simp add: in_inv_def)
qed

section \<open>The footer\<close>

fun offset_bytes :: "BinaryOffsetType \<Rightarrow> int \<Rightarrow> u8 list" where
  "offset_bytes ONE_BYTE off = int_bytes 1 off"
| "offset_bytes TWO_BYTES off = int_bytes 2 off"
| "offset_bytes FOUR_BYTES off = int_bytes 4 off"

definition entry_bytes :: "BinaryOffsetType \<Rightarrow> int \<times> int \<Rightarrow> u8 list" where
  "entry_bytes ty e = int_bytes 4 (fst e) @ offset_bytes ty (snd e)"

definition footer_bytes :: "BinaryOffsetType \<Rightarrow> (int \<times> int) list \<Rightarrow> u8 list" where
  "footer_bytes ty es = concat (map (entry_bytes ty) es)"

fun offset_limit :: "BinaryOffsetType \<Rightarrow> int" where
  "offset_limit ONE_BYTE = 0x100"
| "offset_limit TWO_BYTES = 0x10000"
| "offset_limit FOUR_BYTES = 2 ^ 31"

definition entry_ok :: "BinaryOffsetType \<Rightarrow> int \<times> int \<Rightarrow> bool" where
  "entry_ok ty e \<longleftrightarrow> int_fits 4 (fst e) \<and> 0 \<le> snd e \<and> snd e < offset_limit ty"

lemma length_entry_bytes: "int (length (entry_bytes ty e)) = entry_size ty"
  by (cases ty) (simp_all add: entry_bytes_def)

lemma length_footer_bytes: "int (length (footer_bytes ty es)) = entry_size ty * int (length es)"
proof (induction es)
  case (Cons e es)
  then show ?case
    using length_entry_bytes [of ty e] by (simp add: footer_bytes_def algebra_simps)
qed (simp add: footer_bytes_def)

lemma footer_bytes_Cons: "footer_bytes ty (e # es) = entry_bytes ty e @ footer_bytes ty es"
  by (simp add: footer_bytes_def)

lemma bytes_val_inj:
  assumes "bytes_val xs = bytes_val ys" and "length xs = length ys"
  shows "xs = ys"
proof -
  have "digs_ok 256 (map unat zs)" for zs :: "u8 list"
    by (simp add: digs_ok_def list_all_iff unat_u8_less)
  then have "map unat xs = map unat ys"
    using assms by (intro b256.val_inj_length) (simp_all add: bytes_val_def)
  then show ?thesis
    by (rule map_injective) (auto simp: inj_def unsigned_word_eqI word_unat_eq_iff)
qed

lemma to_signed_bytes: "int_bytes w (to_signed (8 * w) v) = int_bytes w v" if "0 < w"
proof -
  have "to_signed (8 * w) v mod 256 ^ w = v mod 256 ^ w"
    using that by (simp add: to_signed_def power_mult mod_diff_left_eq)
  then have "uint_of_bytes (int_bytes w (to_signed (8 * w) v)) = uint_of_bytes (int_bytes w v)"
    by (simp add: uint_of_int_bytes)
  then show ?thesis
    by (intro bytes_val_inj) (simp_all add: uint_of_bytes_def)
qed

lemma write_offset_appends: "entry_ok ty e \<Longrightarrow> appends (write_offset ty (snd e)) (offset_bytes ty (snd e)) ()"
proof (cases ty)
  case ONE_BYTE
  have "appends (out_WriteInt8 (to_signed 8 (snd e))) (int_bytes 1 (to_signed 8 (snd e))) ()"
    by (rule int8.written) (use to_signed_range [of 8 "snd e"] in \<open>simp add: int_fits_def\<close>)
  then show ?thesis
    using to_signed_bytes [of 1 "snd e"] ONE_BYTE by (simp del: One_nat_def)
next
  case TWO_BYTES
  have "appends (out_WriteInt16 (to_signed 16 (snd e))) (int_bytes 2 (to_signed 16 (snd e))) ()"
    by (rule int16.written) (use to_signed_range [of 16 "snd e"] in \<open>simp add: int_fits_def\<close>)
  then show ?thesis
    using to_signed_bytes [of 2 "snd e"] TWO_BYTES by simp
next
  case FOUR_BYTES
  assume "entry_ok ty e"
  then show ?thesis
    using FOUR_BYTES by (auto simp: entry_ok_def int_fits_def intro!: int32.written)
qed

lemma footer_appends:
  assumes "list_all (entry_ok ty) es"
  shows "appends (for_each (write_field_info ty) es) (footer_bytes ty es) ()"
  unfolding footer_bytes_def
proof (rule appends_for_each)
  fix e assume "e \<in> set es"
  then have "entry_ok ty e"
    using assms by (simp add: list_all_iff)
  then show "appends (write_field_info ty e) (entry_bytes ty e) ()"
    unfolding write_field_info_def entry_bytes_def
    by (intro appends_seq int32.written write_offset_appends) (simp_all add: entry_ok_def)
qed

text \<open>Reading the offset of an entry undoes the narrowing.\<close>

lemma mod_to_signed: "to_signed 8 v mod 256 = v mod 256" "to_signed 16 v mod 65536 = v mod 65536"
  by (simp_all add: to_signed_def mod_diff_left_eq)

lemma read_offset_at_holds:
  assumes "in_inv s" and "holds_at s p (offset_bytes ty off)" and "0 \<le> off" and "off < offset_limit ty"
  shows "read_offset_at ty p s = Inr (off, s)"
  using assms in_ints_at [OF assms(1), of p off]
  by (cases ty) (simp_all add: int_fits_def mod_to_signed del: One_nat_def)

lemma find_in_footer_holds:
  assumes "in_inv s" and "int_fits 4 fid" and "0 \<le> pos"
  shows "holds_at s p (footer_bytes ty es) \<Longrightarrow> list_all (entry_ok ty) es \<Longrightarrow>
    list_all (\<lambda>e. snd e + pos \<le> INT32_MAX) es \<Longrightarrow>
    find_in_footer ty fid pos p (p + entry_size ty * int (length es)) s =
      Inr (case map_of es fid of Some off \<Rightarrow> off + pos | None \<Rightarrow> -1, s)"
proof (induction es arbitrary: p)
  case Nil
  then show ?case by (subst find_in_footer.simps) simp
next
  case (Cons e es)
  have size: "0 < entry_size ty"
    by (cases ty) simp_all
  have h: "holds_at s p (int_bytes 4 (fst e))" "holds_at s (p + 4) (offset_bytes ty (snd e))"
    "holds_at s (p + entry_size ty) (footer_bytes ty es)"
    using Cons.prems(1) length_entry_bytes [of ty e]
    by (simp_all add: footer_bytes_Cons holds_at_append) (simp_all add: entry_bytes_def holds_at_append)
  have ok: "int_fits 4 (fst e)" "0 \<le> snd e" "snd e < offset_limit ty" "snd e + pos \<le> INT32_MAX"
    using Cons.prems by (auto simp: entry_ok_def)
  have i: "in_ReadInt32_at p s = Inr (fst e, s)"
    using in_ints_at(1) [OF assms(1) h(1) ok(1)] .
  have end': "p + entry_size ty * int (length (e # es)) = (p + entry_size ty) + entry_size ty * int (length es)"
    by (simp add: algebra_simps)
  have lt: "p < p + entry_size ty * int (length (e # es))"
    using size by simp
  show ?case
  proof (cases "fid = fst e")
    case True
    have "to_signed 32 (snd e + pos) = snd e + pos"
      using ok assms(3) by (intro int32_nonneg) auto
    then show ?thesis
      using True lt i read_offset_at_holds [OF assms(1) h(2) ok(2,3)]
      by (subst find_in_footer.simps) (cases e, simp)
  next
    case False
    have "find_in_footer ty fid pos (p + entry_size ty) ((p + entry_size ty) + entry_size ty * int (length es)) s =
        Inr (case map_of es fid of Some off \<Rightarrow> off + pos | None \<Rightarrow> -1, s)"
      using Cons.IH [OF h(3)] Cons.prems(2,3) by simp
    then show ?thesis
      using False lt i unfolding end' [symmetric]
      by (subst find_in_footer.simps) (cases e, simp)
  qed
qed

end
