(* ===== verification/Odbc_ObjectFields.thy ===== *)
theory Odbc_ObjectFields
  imports Odbc_ObjectProps
begin

text \<open>
  The round trip of objects with fields: a type whose objects are lists of named values, written field by field and
  read by name in any order. The bytes of an object are its header, the values and the footer; the lemmas follow the
  writer from the header to the hash, and the reader from the header to each field.
\<close>

section \<open>Field values\<close>

datatype field_val =
    FInt8 int | FBool bool | FInt16 int | FUInt16 int | FInt32 int | FInt64 int | FFloat u32 | FDouble u64
  | FGuid Guid | FDate int | FTimestamp Timestamp | FTime int | FString string | FNull

fun write_field :: "string \<times> field_val \<Rightarrow> unit wr_act" where
  "write_field (n, FInt8 v) = wr_WriteInt8_field n v"
| "write_field (n, FBool v) = wr_WriteBool_field n v"
| "write_field (n, FInt16 v) = wr_WriteInt16_field n v"
| "write_field (n, FUInt16 v) = wr_WriteUInt16_field n v"
| "write_field (n, FInt32 v) = wr_WriteInt32_field n v"
| "write_field (n, FInt64 v) = wr_WriteInt64_field n v"
| "write_field (n, FFloat v) = wr_WriteFloat_field n v"
| "write_field (n, FDouble v) = wr_WriteDouble_field n v"
| "write_field (n, FGuid v) = wr_WriteGuid_field n v"
| "write_field (n, FDate v) = wr_WriteDate_field n v"
| "write_field (n, FTimestamp v) = wr_WriteTimestamp_field n v"
| "write_field (n, FTime v) = wr_WriteTime_field n v"
| "write_field (n, FString v) = wr_WriteString_field n (Some v) (int (length v))"
| "write_field (n, FNull) = wr_WriteNull_field n"

text \<open>What a reader asks for: a value of a type, or a string of at most so many characters. A field that is missing or null
  is the default of the type; a string then has no characters at all.\<close>

datatype kind =
    KInt8 | KBool | KInt16 | KUInt16 | KInt32 | KInt64 | KFloat | KDouble | KGuid | KDate | KTimestamp | KTime
  | KString int

definition as_field :: "('a \<Rightarrow> field_val) \<Rightarrow> 'a rd_act \<Rightarrow> field_val rd_act" where
  "as_field f m = andThen m (\<lambda>x. ret (f x))"

definition text_field :: "int \<times> string option \<Rightarrow> field_val" where
  "text_field r = (case snd r of Some s \<Rightarrow> FString s | None \<Rightarrow> FNull)"

fun read_field :: "string \<times> kind \<Rightarrow> field_val rd_act" where
  "read_field (n, KInt8) = as_field FInt8 (rd_ReadInt8_field n)"
| "read_field (n, KBool) = as_field FBool (rd_ReadBool_field n)"
| "read_field (n, KInt16) = as_field FInt16 (rd_ReadInt16_field n)"
| "read_field (n, KUInt16) = as_field FUInt16 (rd_ReadUInt16_field n)"
| "read_field (n, KInt32) = as_field FInt32 (rd_ReadInt32_field n)"
| "read_field (n, KInt64) = as_field FInt64 (rd_ReadInt64_field n)"
| "read_field (n, KFloat) = as_field FFloat (rd_ReadFloat_field n)"
| "read_field (n, KDouble) = as_field FDouble (rd_ReadDouble_field n)"
| "read_field (n, KGuid) = as_field FGuid (rd_ReadGuid_field n)"
| "read_field (n, KDate) = as_field FDate (rd_ReadDate_field n)"
| "read_field (n, KTimestamp) = as_field FTimestamp (rd_ReadTimestamp_field n)"
| "read_field (n, KTime) = as_field FTime (rd_ReadTime_field n)"
| "read_field (n, KString len) = as_field text_field (rd_ReadString_field n True len)"

fun default_of :: "kind \<Rightarrow> field_val" where
  "default_of KInt8 = FInt8 0"
| "default_of KBool = FBool False"
| "default_of KInt16 = FInt16 0"
| "default_of KUInt16 = FUInt16 0"
| "default_of KInt32 = FInt32 0"
| "default_of KInt64 = FInt64 0"
| "default_of KFloat = FFloat 0"
| "default_of KDouble = FDouble 0"
| "default_of KGuid = FGuid (Guid_of 0 0)"
| "default_of KDate = FDate 0"
| "default_of KTimestamp = FTimestamp \<lparr>ts_seconds = 0, ts_fractionNs = 0\<rparr>"
| "default_of KTime = FTime 0"
| "default_of (KString len) = FNull"

fun value_ok :: "field_val \<Rightarrow> bool" where
  "value_ok (FInt8 v) = int_fits 1 v"
| "value_ok (FInt16 v) = int_fits 2 v"
| "value_ok (FUInt16 v) = uint_fits 2 v"
| "value_ok (FInt32 v) = int_fits 4 v"
| "value_ok (FInt64 v) = int_fits 8 v"
| "value_ok (FDate v) = int_fits 8 v"
| "value_ok (FTimestamp v) = ts_ok v"
| "value_ok (FTime v) = int_fits 8 v"
| "value_ok (FString v) = str_ok v"
| "value_ok _ = True"

text \<open>Whether a value may be asked for as a kind, and the answer.\<close>

fun readable_as :: "kind \<Rightarrow> field_val \<Rightarrow> bool" where
  "readable_as k FNull = True"
| "readable_as k (FInt8 v) = (k = KInt8)"
| "readable_as k (FBool v) = (k = KBool)"
| "readable_as k (FInt16 v) = (k = KInt16)"
| "readable_as k (FUInt16 v) = (k = KUInt16)"
| "readable_as k (FInt32 v) = (k = KInt32)"
| "readable_as k (FInt64 v) = (k = KInt64)"
| "readable_as k (FFloat v) = (k = KFloat)"
| "readable_as k (FDouble v) = (k = KDouble)"
| "readable_as k (FGuid v) = (k = KGuid)"
| "readable_as k (FDate v) = (k = KDate)"
| "readable_as k (FTimestamp v) = (k = KTimestamp)"
| "readable_as k (FTime v) = (k = KTime)"
| "readable_as k (FString v) = (case k of KString len \<Rightarrow> int (length v) \<le> len | _ \<Rightarrow> False)"

definition field_answer :: "kind \<Rightarrow> field_val option \<Rightarrow> field_val" where
  "field_answer k v = (case v of None \<Rightarrow> default_of k | Some FNull \<Rightarrow> default_of k | Some x \<Rightarrow> x)"

text \<open>The bytes of a value with its marker.\<close>

fun value_bytes :: "field_val \<Rightarrow> u8 list" where
  "value_bytes (FInt8 v) = typed_bytes DOCUMENTDB_TYPE_BYTE (int_bytes 1) v"
| "value_bytes (FBool v) = typed_bytes DOCUMENTDB_TYPE_BOOL bool_bytes v"
| "value_bytes (FInt16 v) = typed_bytes DOCUMENTDB_TYPE_SHORT (int_bytes 2) v"
| "value_bytes (FUInt16 v) = typed_bytes DOCUMENTDB_TYPE_CHAR (int_bytes 2) v"
| "value_bytes (FInt32 v) = typed_bytes DOCUMENTDB_TYPE_INT (int_bytes 4) v"
| "value_bytes (FInt64 v) = typed_bytes DOCUMENTDB_TYPE_LONG (int_bytes 8) v"
| "value_bytes (FFloat v) = typed_bytes DOCUMENTDB_TYPE_FLOAT (\<lambda>v. int_bytes 4 (sint v)) v"
| "value_bytes (FDouble v) = typed_bytes DOCUMENTDB_TYPE_DOUBLE (\<lambda>v. int_bytes 8 (sint v)) v"
| "value_bytes (FGuid v) = typed_bytes DOCUMENTDB_TYPE_UUID guid_bytes v"
| "value_bytes (FDate v) = typed_bytes DOCUMENTDB_TYPE_DATE (int_bytes 8) v"
| "value_bytes (FTimestamp v) = typed_bytes DOCUMENTDB_TYPE_TIMESTAMP ts_bytes v"
| "value_bytes (FTime v) = typed_bytes DOCUMENTDB_TYPE_TIME (int_bytes 8) v"
| "value_bytes (FString v) = text_bytes v"
| "value_bytes FNull = int_bytes 1 DOCUMENTDB_HDR_NULL"

section \<open>Writing a field\<close>

text \<open>A writer inside an object: no raw data and no container, field identifiers from \<open>g\<close>, no metadata.\<close>

definition field_writer :: "(string \<Rightarrow> int) \<Rightarrow> BinaryWriterImpl \<Rightarrow> bool" where
  "field_writer g w \<longleftrightarrow> wr_rawPos w = -1 \<and> wr_elemId w = 0 \<and> wr_metaHnd w = None \<and> out_inv (wr_stream w)
     \<and> 0 \<le> wr_start w \<and> wr_start w \<le> out_pos (wr_stream w)
     \<and> (\<exists>t. wr_idRslvr w = Some (TemplatedBinaryIdResolver t g))"

definition field_op :: "string \<Rightarrow> int \<Rightarrow> unit out_act \<Rightarrow> unit wr_act" where
  "field_op n ty m = in_mode False (followed (WriteFieldId n ty) (on_out m))"

lemma field_op_writes:
  assumes "field_writer g w" and "appends m bs ()" and "out_pos (wr_stream w) + int (length bs) \<le> INT32_MAX"
  shows "\<exists>s'. field_op n ty m w = Inr ((), w\<lparr>wr_stream := s',
             wr_schema := schema_AddField (g n) (out_pos (wr_stream w) - wr_start w) (wr_schema w)\<rparr>)
           \<and> out_inv s' \<and> prefix s' = prefix (wr_stream w) @ map Some bs"
proof -
  have inv: "out_inv (wr_stream w)" and start: "0 \<le> wr_start w" "wr_start w \<le> out_pos (wr_stream w)"
    using assms(1) by (simp_all add: field_writer_def)
  obtain s' where s': "m (wr_stream w) = Inr ((), s')" "out_inv s'" "prefix s' = prefix (wr_stream w) @ map Some bs"
    using assms(2,3) inv unfolding appends_def by blast
  have "to_signed 32 (out_pos (wr_stream w) - wr_start w) = out_pos (wr_stream w) - wr_start w"
    using start assms(3) by (intro int32_nonneg) auto
  then have "field_op n ty m w = Inr ((), w\<lparr>wr_stream := s',
      wr_schema := schema_AddField (g n) (out_pos (wr_stream w) - wr_start w) (wr_schema w)\<rparr>)"
    using assms(1) s'(1)
    by (auto simp: field_op_def field_writer_def in_mode_def wr_CheckRawMode_def wr_CheckSingleMode_def
        WriteFieldId_def TemplatedBinaryIdResolver_def on_out_def followed_def andThen_def Let_def)
  then show ?thesis using s'(2,3) by blast
qed

lemmas field_write_defs = wr_WriteInt8_field_def wr_WriteBool_field_def wr_WriteInt16_field_def wr_WriteUInt16_field_def
  wr_WriteInt32_field_def wr_WriteInt64_field_def wr_WriteFloat_field_def wr_WriteDouble_field_def wr_WriteGuid_field_def
  wr_WriteDate_field_def wr_WriteTimestamp_field_def wr_WriteTime_field_def wr_WriteString_field_def wr_WriteNull_field_def

lemma null_written: "appends (out_WriteInt8 DOCUMENTDB_HDR_NULL) (int_bytes 1 DOCUMENTDB_HDR_NULL) ()"
  by (rule int8.written) (simp add: int_fits_def)

lemma write_field_op:
  assumes "value_ok v"
  shows "\<exists>ty m. write_field (n, v) = field_op n ty m \<and> appends m (value_bytes v) ()"
proof -
  note typed = t_int8.typed_written t_bool.typed_written t_int16.typed_written t_uint16.typed_written
    t_int32.typed_written t_int64.typed_written t_float.typed_written t_double.typed_written t_guid.typed_written
    t_date.typed_written t_timestamp.typed_written t_time.typed_written write_string_appends null_written
  show ?thesis
    using assms
    by (cases v; simp only: write_field.simps field_write_defs field_op_def WritePrimitive_def WriteNull0_def
        write_typed_def [symmetric] value_bytes.simps value_ok.simps)
      (blast intro: typed)+
qed

text \<open>The schema entries of a list of fields that starts at an offset, and the schema that the writer collects.\<close>

fun entries :: "(string \<Rightarrow> int) \<Rightarrow> int \<Rightarrow> (string \<times> field_val) list \<Rightarrow> (int \<times> int) list" where
  "entries g off [] = []"
| "entries g off ((n, v) # fs) = (g n, off) # entries g (off + int (length (value_bytes v))) fs"

definition data_bytes :: "(string \<times> field_val) list \<Rightarrow> u8 list" where
  "data_bytes fs = concat (map (\<lambda>f. value_bytes (snd f)) fs)"

lemma data_bytes_simps [simp]:
  "data_bytes [] = []" "data_bytes ((n, v) # fs) = value_bytes v @ data_bytes fs"
  by (simp_all add: data_bytes_def)

lemma write_fields:
  assumes "field_writer g w" and "list_all (\<lambda>f. value_ok (snd f)) fs"
    and "out_pos (wr_stream w) + int (length (data_bytes fs)) \<le> INT32_MAX"
  shows "\<exists>s' sc. for_each write_field fs w = Inr ((), w\<lparr>wr_stream := s', wr_schema := sc\<rparr>)
           \<and> out_inv s' \<and> prefix s' = prefix (wr_stream w) @ map Some (data_bytes fs)
           \<and> fieldsInfo sc = fieldsInfo (wr_schema w) @ entries g (out_pos (wr_stream w) - wr_start w) fs"
  using assms
proof (induction fs arbitrary: w)
  case Nil
  then show ?case
    by (intro exI [of _ "wr_stream w"] exI [of _ "wr_schema w"]) (simp add: field_writer_def)
next
  case (Cons f fs)
  obtain n v where f: "f = (n, v)" by (cases f)
  obtain ty m where op: "write_field (n, v) = field_op n ty m" "appends m (value_bytes v) ()"
    using write_field_op Cons.prems(2) f by (metis list.pred_inject(2) snd_conv)
  obtain s1 where s1: "write_field (n, v) w = Inr ((), w\<lparr>wr_stream := s1,
        wr_schema := schema_AddField (g n) (out_pos (wr_stream w) - wr_start w) (wr_schema w)\<rparr>)"
      "out_inv s1" "prefix s1 = prefix (wr_stream w) @ map Some (value_bytes v)"
    using field_op_writes [OF Cons.prems(1) op(2), of n ty] Cons.prems(3) op(1) f by auto
  let ?w1 = "w\<lparr>wr_stream := s1,
        wr_schema := schema_AddField (g n) (out_pos (wr_stream w) - wr_start w) (wr_schema w)\<rparr>"
  have pos: "out_pos s1 = out_pos (wr_stream w) + int (length (value_bytes v))"
    using length_prefix [OF s1(2)] length_prefix [of "wr_stream w"] s1(3) Cons.prems(1) by (simp add: field_writer_def)
  have w1: "field_writer g ?w1"
    using Cons.prems(1) s1(2) pos by (simp add: field_writer_def)
  have "out_pos (wr_stream ?w1) + int (length (data_bytes fs)) \<le> INT32_MAX"
    using Cons.prems(3) pos f by simp
  then obtain s2 sc where s2: "for_each write_field fs ?w1 = Inr ((), ?w1\<lparr>wr_stream := s2, wr_schema := sc\<rparr>)"
      "out_inv s2" "prefix s2 = prefix s1 @ map Some (data_bytes fs)"
      "fieldsInfo sc = fieldsInfo (wr_schema ?w1) @ entries g (out_pos s1 - wr_start w) fs"
    using Cons.IH [OF w1] Cons.prems(2) by auto
  have e: "fieldsInfo sc = fieldsInfo (wr_schema w) @ entries g (out_pos (wr_stream w) - wr_start w) (f # fs)"
    using s2(4) pos by (simp add: f schema_AddField_def Let_def algebra_simps)
  show ?case
    using s1 s2(1-3) e by (intro exI [of _ s2] exI [of _ sc]) (simp add: f)
qed

section \<open>The footer and the header\<close>

definition footer_type :: "(int \<times> int) list \<Rightarrow> BinaryOffsetType" where
  "footer_type es =
     (if es = [] then FOUR_BYTES else if snd (last es) < 0x100 then ONE_BYTE
      else if snd (last es) < 0x10000 then TWO_BYTES else FOUR_BYTES)"

lemma schema_GetType_entries: "fieldsInfo sc = es \<Longrightarrow> es \<noteq> [] \<Longrightarrow> schema_GetType sc = Inr (footer_type es)"
  by (simp add: schema_GetType_def footer_type_def Let_def)

lemma entries_offsets:
  "e \<in> set (entries g off fs) \<Longrightarrow> off \<le> snd e \<and> snd e \<le> off + int (length (data_bytes fs))
     \<and> snd e \<le> snd (last (entries g off fs))"
proof (induction g off fs arbitrary: e rule: entries.induct)
  case (2 g off n v fs)
  show ?case
  proof (cases "entries g (off + int (length (value_bytes v))) fs = []")
    case True
    then show ?thesis using "2.prems" by simp
  next
    case False
    let ?es = "entries g (off + int (length (value_bytes v))) fs"
    have last: "last (entries g off ((n, v) # fs)) = last ?es"
      using False by simp
    have "off + int (length (value_bytes v)) \<le> snd (last ?es)"
      using "2.IH" [of "last ?es"] False by fastforce
    then show ?thesis
      using 2 unfolding last by fastforce
  qed
qed simp

lemma entries_empty [simp]: "entries g off fs = [] \<longleftrightarrow> fs = []"
  by (cases fs) auto

lemma length_entries [simp]: "length (entries g off fs) = length fs"
  by (induction g off fs rule: entries.induct) auto

lemma fst_entries: "map fst (entries g off fs) = map (\<lambda>f. g (fst f)) fs"
  by (induction g off fs rule: entries.induct) auto

lemma entries_ok:
  assumes "list_all (\<lambda>f. int_fits 4 (g (fst f))) fs" and "0 \<le> off" and "off + int (length (data_bytes fs)) \<le> INT32_MAX"
  shows "list_all (entry_ok (footer_type (entries g off fs))) (entries g off fs)"
  unfolding list_all_iff
proof
  fix e assume e: "e \<in> set (entries g off fs)"
  note o = entries_offsets [OF e]
  have "fst e \<in> set (map fst (entries g off fs))"
    using e by simp
  then have "int_fits 4 (fst e)"
    using assms(1) unfolding fst_entries by (auto simp: list_all_iff)
  moreover have "snd e < offset_limit (footer_type (entries g off fs))"
    using o assms(3) e by (auto simp: footer_type_def INT32_MAX_def)
  ultimately show "entry_ok (footer_type (entries g off fs)) e"
    using o assms(2) by (simp add: entry_ok_def)
qed

text \<open>Writing over cells that were written or reserved.\<close>

lemma out_patch:
  assumes "out_inv s" and "prefix s = xs @ ys @ zs" and "length ys = length bs" and "p = int (length xs)"
  shows "\<exists>s'. out_write_at p bs s = Inr ((), s') \<and> out_inv s' \<and> out_pos s' = out_pos s
           \<and> prefix s' = xs @ map Some bs @ zs"
proof -
  have "p + int (length bs) \<le> out_pos s"
    using length_prefix [OF assms(1)] assms(2-4) by simp
  then show ?thesis
    using out_write_at_inside [OF assms(1), of p bs] put_cells_mid [of xs "nat p" ys bs zs] assms(2-4) by auto
qed

definition header_cells :: "u8 option list \<Rightarrow> u16 \<Rightarrow> int \<Rightarrow> int \<Rightarrow> int \<Rightarrow> int \<Rightarrow> u8 option list" where
  "header_cells hash flags typeId len schemaId off =
     map Some (int_bytes 1 DOCUMENTDB_HDR_FULL @ int_bytes 1 DOCUMENTDB_PROTO_VER @ int_bytes 2 (sint flags) @
       int_bytes 4 typeId) @ hash @ map Some (int_bytes 4 len @ int_bytes 4 schemaId @ int_bytes 4 off)"

lemma patch_header_patches:
  assumes "out_inv s" and "start = int (length pre)"
    and "prefix s = pre @ map Some (int_bytes 1 DOCUMENTDB_HDR_FULL @ int_bytes 1 DOCUMENTDB_PROTO_VER @ int_bytes 2 f @
           int_bytes 4 typeId) @ hash @ room @ tail"
    and "length hash = 4" and "length room = 12"
  shows "\<exists>s'. patch_header start flags len schemaId off s = Inr ((), s') \<and> out_inv s' \<and> out_pos s' = out_pos s
           \<and> prefix s' = pre @ header_cells hash flags typeId len schemaId off @ tail"
proof -
  obtain r1 r2 r3 where room: "room = r1 @ r2 @ r3" "length r1 = 4" "length r2 = 4" "length r3 = 4"
  proof
    show "room = take 4 room @ take 4 (drop 4 room) @ drop 8 room"
      using append_take_drop_id [of 4 room] append_take_drop_id [of 4 "drop 4 room"] by simp
  qed (use assms(5) in simp_all)
  have "start + 24 \<le> INT32_MAX" "0 \<le> start"
    using length_prefix [OF assms(1)] assms by (simp_all add: out_inv_def)
  then have wrap: "to_signed 32 (start + 2) = start + 2" "to_signed 32 (start + 12) = start + 12"
    "to_signed 32 (start + 16) = start + 16" "to_signed 32 (start + 20) = start + 20"
    by (auto intro!: int32_nonneg)
  let ?a = "map Some (int_bytes 1 DOCUMENTDB_HDR_FULL @ int_bytes 1 DOCUMENTDB_PROTO_VER)"
  let ?fl = "map Some (int_bytes 2 (sint flags))" and ?ty = "map Some (int_bytes 4 typeId)"
  let ?l = "map Some (int_bytes 4 len)" and ?sd = "map Some (int_bytes 4 schemaId)" and ?o = "map Some (int_bytes 4 off)"
  obtain s1 where s1: "out_write_at (start + 2) (int_bytes 2 (sint flags)) s = Inr ((), s1)" "out_inv s1" "out_pos s1 = out_pos s"
      "prefix s1 = (pre @ ?a) @ ?fl @ (?ty @ hash @ r1 @ r2 @ r3 @ tail)"
    using out_patch [OF assms(1), of "pre @ ?a" "map Some (int_bytes 2 f)" "?ty @ hash @ r1 @ r2 @ r3 @ tail" "int_bytes 2 (sint flags)" "start + 2"] assms(2,3) room(1) by auto
  obtain s2 where s2: "out_write_at (start + 12) (int_bytes 4 len) s1 = Inr ((), s2)" "out_inv s2" "out_pos s2 = out_pos s"
      "prefix s2 = (pre @ ?a @ ?fl @ ?ty @ hash) @ ?l @ (r2 @ r3 @ tail)"
    using out_patch [OF s1(2), of "pre @ ?a @ ?fl @ ?ty @ hash" r1 "r2 @ r3 @ tail" "int_bytes 4 len" "start + 12"] s1(3,4) assms(2,4) room(2) by auto
  obtain s3 where s3: "out_write_at (start + 16) (int_bytes 4 schemaId) s2 = Inr ((), s3)" "out_inv s3" "out_pos s3 = out_pos s"
      "prefix s3 = (pre @ ?a @ ?fl @ ?ty @ hash @ ?l) @ ?sd @ (r3 @ tail)"
    using out_patch [OF s2(2), of "pre @ ?a @ ?fl @ ?ty @ hash @ ?l" r2 "r3 @ tail" "int_bytes 4 schemaId" "start + 16"] s2(3,4) assms(2,4) room(3) by auto
  obtain s4 where s4: "out_write_at (start + 20) (int_bytes 4 off) s3 = Inr ((), s4)" "out_inv s4" "out_pos s4 = out_pos s"
      "prefix s4 = (pre @ ?a @ ?fl @ ?ty @ hash @ ?l @ ?sd) @ ?o @ tail"
    using out_patch [OF s3(2), of "pre @ ?a @ ?fl @ ?ty @ hash @ ?l @ ?sd" r3 tail "int_bytes 4 off" "start + 20"] s3(3,4) assms(2,4) room(4) by auto
  have "patch_header start flags len schemaId off s = Inr ((), s4)"
    using s1(1) s2(1) s3(1) s4(1)
    by (simp add: patch_header_def wrap out_WriteInt16_at_def out_WriteInt32_at_def)
  then show ?thesis
    using s4(2-4) by (auto simp: header_cells_def)
qed

section \<open>Closing an object\<close>

definition object_flags :: "(int \<times> int) list \<Rightarrow> u16" where
  "object_flags es = (if es = [] then 1 else case footer_type es of ONE_BYTE \<Rightarrow> 11 | TWO_BYTES \<Rightarrow> 19 | FOUR_BYTES \<Rightarrow> 3)"

text \<open>The bytes of an object whose hash cells are given.\<close>

definition object_cells :: "u8 option list \<Rightarrow> int \<Rightarrow> int \<Rightarrow> (int \<times> int) list \<Rightarrow> u8 list \<Rightarrow> u8 option list" where
  "object_cells hash typeId schemaId es data =
     (let foot = footer_bytes (footer_type es) es; off = 24 + int (length data)
      in header_cells hash (object_flags es) typeId (off + int (length foot)) schemaId off @ map Some (data @ foot))"

lemma length_header_cells: "length (header_cells hash flags typeId len schemaId off) = 20 + length hash"
  by (simp add: header_cells_def)

lemma length_object_cells:
  "length hash = 4 \<Longrightarrow>
   length (object_cells hash typeId schemaId es data) = 24 + length data + length (footer_bytes (footer_type es) es)"
  by (simp add: object_cells_def Let_def length_header_cells)

definition open_cells :: "int \<Rightarrow> int \<Rightarrow> u8 option list" where
  "open_cells f typeId =
     map Some (int_bytes 1 DOCUMENTDB_HDR_FULL @ int_bytes 1 DOCUMENTDB_PROTO_VER @ int_bytes 2 f @ int_bytes 4 typeId)"

lemma write_schema:
  assumes "out_inv s" and "out_pos s + int (length (footer_bytes (footer_type es) es)) \<le> INT32_MAX"
    and "fieldsInfo sc = es" and "es \<noteq> []" and "list_all (entry_ok (footer_type es)) es"
  shows "\<exists>s'. schema_Write sc s = Inr ((), s') \<and> out_inv s'
           \<and> prefix s' = prefix s @ map Some (footer_bytes (footer_type es) es)"
proof -
  have "schema_Write sc = for_each (write_field_info (footer_type es)) es"
    using schema_GetType_entries [OF assms(3,4)] assms(3) by (simp add: schema_Write_def)
  then show ?thesis
    using footer_appends [OF assms(5)] assms(1,2) unfolding appends_def by simp
qed

text \<open>A writer that has written the values of an object and nothing after them.\<close>

definition before_close :: "u8 option list \<Rightarrow> int \<Rightarrow> u8 option list \<Rightarrow> (int \<times> int) list \<Rightarrow> u8 list \<Rightarrow> BinaryWriterImpl \<Rightarrow> bool" where
  "before_close pre typeId hash es data w \<longleftrightarrow> wr_rawPos w = -1 \<and> out_inv (wr_stream w) \<and> wr_start w = int (length pre)
     \<and> length hash = 4 \<and> fieldsInfo (wr_schema w) = es \<and> list_all (entry_ok (footer_type es)) es
     \<and> (\<exists>f room. length room = 12 \<and> prefix (wr_stream w) = pre @ open_cells f typeId @ hash @ room @ map Some data)
     \<and> out_pos (wr_stream w) + int (length (footer_bytes (footer_type es) es)) \<le> INT32_MAX"

lemma before_close_size:
  assumes "before_close pre typeId hash es data w"
  shows "out_pos (wr_stream w) - wr_start w = 24 + int (length data)"
    and "to_signed 32 (24 + int (length data)) = 24 + int (length data)"
    and "to_signed 32 (24 + int (length data) + int (length (footer_bytes (footer_type es) es))) =
           24 + int (length data) + int (length (footer_bytes (footer_type es) es))"
proof -
  obtain f room where w: "out_inv (wr_stream w)" "wr_start w = int (length pre)" "length hash = 4" "length room = 12"
      "prefix (wr_stream w) = pre @ open_cells f typeId @ hash @ room @ map Some data"
      "out_pos (wr_stream w) + int (length (footer_bytes (footer_type es) es)) \<le> INT32_MAX"
    using assms by (auto simp: before_close_def)
  show pos: "out_pos (wr_stream w) - wr_start w = 24 + int (length data)"
    using length_prefix [OF w(1)] w(2-5) by (simp add: open_cells_def)
  have "24 + int (length data) + int (length (footer_bytes (footer_type es) es)) \<le> INT32_MAX"
    using pos w(2,6) by simp
  then show "to_signed 32 (24 + int (length data)) = 24 + int (length data)"
    "to_signed 32 (24 + int (length data) + int (length (footer_bytes (footer_type es) es))) =
       24 + int (length data) + int (length (footer_bytes (footer_type es) es))"
    by (auto intro!: int32_nonneg)
qed

text \<open>Patching the header once the footer is there, if there is one.\<close>

lemma close_header:
  assumes "before_close pre typeId hash es data w" and "out_inv s"
    and "prefix s = prefix (wr_stream w) @ map Some (footer_bytes (footer_type es) es)"
  shows "\<exists>s'. patch_header (wr_start w) (object_flags es) (24 + int (length data) + int (length (footer_bytes (footer_type es) es)))
             schemaId (24 + int (length data)) s = Inr ((), s')
           \<and> out_inv s' \<and> prefix s' = pre @ object_cells hash typeId schemaId es data"
proof -
  obtain f room where w: "wr_start w = int (length pre)" "length hash = 4" "length room = 12"
      "prefix (wr_stream w) = pre @ open_cells f typeId @ hash @ room @ map Some data"
    using assms(1) by (auto simp: before_close_def)
  have "prefix s = pre @ map Some (int_bytes 1 DOCUMENTDB_HDR_FULL @ int_bytes 1 DOCUMENTDB_PROTO_VER @
      int_bytes 2 f @ int_bytes 4 typeId) @ hash @ room @ map Some (data @ footer_bytes (footer_type es) es)"
    using w(4) assms(3) by (simp add: open_cells_def)
  then show ?thesis
    using patch_header_patches [OF assms(2) w(1) _ w(2,3)] unfolding object_cells_def Let_def by blast
qed

lemma PostWrite_closes:
  assumes "before_close pre typeId hash es data w"
  shows "\<exists>s' sc schemaId. PostWrite w = Inr ((), w\<lparr>wr_stream := s', wr_schema := sc\<rparr>) \<and> out_inv s' \<and> int_fits 4 schemaId
           \<and> prefix s' = pre @ object_cells hash typeId schemaId es data"
proof -
  let ?foot = "footer_bytes (footer_type es) es"
  have w: "wr_rawPos w = -1" "out_inv (wr_stream w)" "fieldsInfo (wr_schema w) = es" "list_all (entry_ok (footer_type es)) es"
    "out_pos (wr_stream w) + int (length ?foot) \<le> INT32_MAX"
    using assms by (simp_all add: before_close_def)
  note size = before_close_size [OF assms]
  show ?thesis
  proof (cases "es = []")
    case True
    obtain s' where s': "patch_header (wr_start w) (object_flags es) (24 + int (length data) + int (length ?foot)) 0
          (24 + int (length data)) (wr_stream w) = Inr ((), s')" "out_inv s'" "prefix s' = pre @ object_cells hash typeId 0 es data"
      using close_header [OF assms w(2)] True by (fastforce simp: footer_bytes_def)
    have "PostWrite w = Inr ((), w\<lparr>wr_stream := s'\<rparr>)"
      using True w(1,3) s'(1) size(1,2)
      by (simp add: PostWrite_def Let_def schema_Empty_def GetRawPosition_def on_out_def object_flags_def footer_bytes_def)
    then show ?thesis
      using s'(2,3) by (intro exI [of _ s'] exI [of _ "wr_schema w"] exI [of _ 0]) (simp add: int_fits_def)
  next
    case False
    obtain s1 where s1: "schema_Write (wr_schema w) (wr_stream w) = Inr ((), s1)" "out_inv s1"
        "prefix s1 = prefix (wr_stream w) @ map Some ?foot"
      using write_schema [OF w(2,5,3) False w(4)] by blast
    let ?sid = "sint (schema_id (wr_schema w))"
    have pos1: "out_pos s1 - wr_start w = 24 + int (length data) + int (length ?foot)"
      using length_prefix [OF s1(2)] length_prefix [OF w(2)] s1(3) size(1) by simp
    obtain s' where s': "patch_header (wr_start w) (object_flags es) (24 + int (length data) + int (length ?foot)) ?sid
          (24 + int (length data)) s1 = Inr ((), s')" "out_inv s'" "prefix s' = pre @ object_cells hash typeId ?sid es data"
      using close_header [OF assms s1(2,3)] by blast
    have "PostWrite w = Inr ((), w\<lparr>wr_stream := s', wr_schema := newBinarySchema\<rparr>)"
      using False w(1,3) s1(1) s'(1) size pos1 schema_GetType_entries [OF w(3) False]
      by (cases "footer_type es")
        (simp_all add: PostWrite_def Let_def schema_Empty_def WriteAndClearSchema_def on_out_def schema_Clear_def
          out_Position_def object_flags_def)
    then show ?thesis
      using s'(2,3) sint_fits(1) by blast
  qed
qed

section \<open>Writing an object\<close>

fun read_fields :: "(string \<times> kind) list \<Rightarrow> (string \<times> field_val) list rd_act" where
  "read_fields [] = ret []"
| "read_fields (q # qs) = andThen (read_field q) (\<lambda>v. andThen (read_fields qs) (\<lambda>vs. ret ((fst q, v) # vs)))"

text \<open>A type whose objects are their fields: it writes them in order and reads those that it is interested in.\<close>

definition fields_type :: "int \<Rightarrow> (string \<Rightarrow> int) \<Rightarrow> (string \<times> kind) list \<Rightarrow> (string \<times> field_val) list ReadableTypeT" where
  "fields_type typeId g qs =
     \<lparr>bt_IsNull = (\<lambda>_. False), bt_GetTypeId = typeId, bt_GetFieldId = g, bt_GetTypeName = ''fields'',
      bt_GetAffinityFieldName = [], bt_Write = for_each write_field, bt_GetNull = [], bt_Read = read_fields qs\<rparr>"

lemma followed_assoc: "followed (followed a b) c = followed a (followed b c)"
  by (rule ext) (simp add: followed_def andThen_def split: sum.splits prod.splits)

lemma on_out_followed: "on_out (followed a b) = followed (on_out a) (on_out b)"
  by (rule ext) (simp add: on_out_def followed_def andThen_def split: sum.splits prod.splits)

lemma on_out_appends:
  assumes "appends m bs ()" and "out_inv (wr_stream w)" and "out_pos (wr_stream w) + int (length bs) \<le> INT32_MAX"
  shows "\<exists>s'. on_out m w = Inr ((), w\<lparr>wr_stream := s'\<rparr>) \<and> out_inv s' \<and> prefix s' = prefix (wr_stream w) @ map Some bs"
  using assms unfolding appends_def on_out_def by fastforce

definition open_act :: "int \<Rightarrow> unit out_act" where
  "open_act typeId = followed (out_WriteInt8 DOCUMENTDB_HDR_FULL) (followed (out_WriteInt8 DOCUMENTDB_PROTO_VER)
     (followed (out_WriteInt16 1) (out_WriteInt32 typeId)))"

lemma open_act_appends:
  "int_fits 4 typeId \<Longrightarrow>
   appends (open_act typeId) (int_bytes 1 DOCUMENTDB_HDR_FULL @ int_bytes 1 DOCUMENTDB_PROTO_VER @ int_bytes 2 1 @ int_bytes 4 typeId) ()"
  unfolding open_act_def by (intro appends_seq int8.written int16.written int32.written) (simp_all add: int_fits_def)

lemma object_body_unfold:
  "object_body (fields_type typeId g qs) fs =
     followed (on_out (open_act typeId)) (andThen (on_out (out_Reserve 4)) (\<lambda>hashPos.
        followed (on_out (out_Reserve 12)) (followed (for_each write_field fs)
          (followed PostWrite (followed (on_out out_Synchronize) (ret hashPos))))))"
  by (simp add: object_body_def fields_type_def open_act_def on_out_followed followed_assoc)

definition object_size :: "(string \<Rightarrow> int) \<Rightarrow> (string \<times> field_val) list \<Rightarrow> int" where
  "object_size g fs = 24 + int (length (data_bytes fs))
     + int (length (footer_bytes (footer_type (entries g 24 fs)) (entries g 24 fs)))"

lemma open_header:
  assumes "out_inv s" and "int_fits 4 typeId" and "out_pos s + 24 \<le> INT32_MAX"
  shows "\<exists>s' hash room. followed (on_out (open_act typeId)) (andThen (on_out (out_Reserve 4)) (\<lambda>hashPos.
             followed (on_out (out_Reserve 12)) (k hashPos))) (w\<lparr>wr_stream := s\<rparr>) = k (out_pos s + 8) (w\<lparr>wr_stream := s'\<rparr>)
           \<and> out_inv s' \<and> out_pos s' = out_pos s + 24 \<and> length hash = 4 \<and> length room = 12
           \<and> prefix s' = prefix s @ open_cells 1 typeId @ hash @ room"
proof -
  have "out_pos (wr_stream (w\<lparr>wr_stream := s\<rparr>)) + int (length (int_bytes 1 DOCUMENTDB_HDR_FULL @ int_bytes 1 DOCUMENTDB_PROTO_VER
      @ int_bytes 2 1 @ int_bytes 4 typeId)) \<le> INT32_MAX"
    using assms(3) by simp
  then obtain s1 where s1: "on_out (open_act typeId) (w\<lparr>wr_stream := s\<rparr>) = Inr ((), w\<lparr>wr_stream := s1\<rparr>)" "out_inv s1"
      "prefix s1 = prefix s @ open_cells 1 typeId"
    using on_out_appends [OF open_act_appends [OF assms(2)], of "w\<lparr>wr_stream := s\<rparr>"] assms(1)
    by (auto simp: open_cells_def)
  have p1: "out_pos s1 = out_pos s + 8"
    using length_prefix [OF s1(2)] length_prefix [OF assms(1)] s1(3) by (simp add: open_cells_def)
  obtain s2 hash where s2: "out_Reserve 4 s1 = Inr (out_pos s1, s2)" "out_inv s2" "length hash = 4" "prefix s2 = prefix s1 @ hash"
    using out_Reserve_room [OF s1(2), of 4] p1 assms(3) by auto
  have p2: "out_pos s2 = out_pos s + 12"
    using length_prefix [OF s2(2)] length_prefix [OF s1(2)] s2(3,4) p1 by simp
  obtain s3 room where s3: "out_Reserve 12 s2 = Inr (out_pos s2, s3)" "out_inv s3" "length room = 12" "prefix s3 = prefix s2 @ room"
    using out_Reserve_room [OF s2(2), of 12] p2 assms(3) by auto
  have p3: "out_pos s3 = out_pos s + 24"
    using length_prefix [OF s3(2)] length_prefix [OF s2(2)] s3(3,4) p2 by simp
  show ?thesis
    using s1 s2 s3 p1 p3 by (intro exI [of _ s3] exI [of _ hash] exI [of _ room]) (simp add: on_out_def)
qed

lemma object_body_writes:
  assumes "out_inv s" and "int_fits 4 typeId" and "list_all (\<lambda>f. value_ok (snd f)) fs"
    and "list_all (\<lambda>f. int_fits 4 (g (fst f))) fs" and "out_pos s + object_size g fs \<le> INT32_MAX"
  shows "\<exists>impl hash schemaId. object_body (fields_type typeId g qs) fs
             (newBinaryWriterImpl s (TemplatedBinaryIdResolver typeId g) None None (out_pos s)) = Inr (out_pos s + 8, impl)
           \<and> out_inv (wr_stream impl) \<and> Length (out_mem (wr_stream impl)) = out_pos (wr_stream impl)
           \<and> wr_metaMgr impl = None \<and> wr_metaHnd impl = None \<and> length hash = 4 \<and> int_fits 4 schemaId
           \<and> prefix (wr_stream impl) = prefix s @ object_cells hash typeId schemaId (entries g 24 fs) (data_bytes fs)"
proof -
  let ?w = "newBinaryWriterImpl s (TemplatedBinaryIdResolver typeId g) None None (out_pos s)"
  let ?es = "entries g 24 fs"
  have sz: "24 + int (length (data_bytes fs)) \<le> object_size g fs" "24 \<le> object_size g fs"
    by (simp_all add: object_size_def)
  have s0: "0 \<le> out_pos s"
    using assms(1) by (simp add: out_inv_def)
  define k where "k = (\<lambda>hashPos :: int. followed (for_each write_field fs)
      (followed PostWrite (followed (on_out out_Synchronize) (ret hashPos))))"
  have "out_pos s + 24 \<le> INT32_MAX"
    using sz(2) assms(5) by linarith
  then obtain s1 hash room where b: "object_body (fields_type typeId g qs) fs ?w = k (out_pos s + 8) (?w\<lparr>wr_stream := s1\<rparr>)"
      and s1: "out_inv s1" "out_pos s1 = out_pos s + 24" "length hash = 4" "length room = 12"
      "prefix s1 = prefix s @ open_cells 1 typeId @ hash @ room"
    using open_header [OF assms(1,2), of k ?w] unfolding object_body_unfold k_def
    by (auto simp: newBinaryWriterImpl_def)
  let ?w1 = "?w\<lparr>wr_stream := s1\<rparr>"
  have w1: "field_writer g ?w1"
    using s1(1,2) s0 by (auto simp: field_writer_def newBinaryWriterImpl_def)
  have room1: "out_pos (wr_stream ?w1) + int (length (data_bytes fs)) \<le> INT32_MAX"
    using s1(2) sz assms(5) by simp
  obtain s2 sc where s2: "for_each write_field fs ?w1 = Inr ((), ?w1\<lparr>wr_stream := s2, wr_schema := sc\<rparr>)" "out_inv s2"
      "prefix s2 = prefix s1 @ map Some (data_bytes fs)" "fieldsInfo sc = ?es"
    using write_fields [OF w1 assms(3) room1] s1(2) by (auto simp: newBinaryWriterImpl_def newBinarySchema_def)
  let ?w2 = "?w1\<lparr>wr_stream := s2, wr_schema := sc\<rparr>"
  have p2: "out_pos s2 = out_pos s + 24 + int (length (data_bytes fs))"
    using length_prefix [OF s2(2)] length_prefix [OF s1(1)] s2(3) s1(2) by simp
  have ok: "list_all (entry_ok (footer_type ?es)) ?es"
    using entries_ok [OF assms(4), of 24] sz(1) assms(5) s0 by simp
  have "out_pos (wr_stream ?w2) + int (length (footer_bytes (footer_type ?es) ?es)) \<le> INT32_MAX"
    using p2 assms(5) by (simp add: object_size_def)
  moreover have "wr_start ?w2 = int (length (prefix s))" "wr_rawPos ?w2 = -1"
    using length_prefix [OF assms(1)] by (simp_all add: newBinaryWriterImpl_def)
  ultimately have "before_close (prefix s) typeId hash ?es (data_bytes fs) ?w2"
    using s1(3-5) s2(2-4) ok by (auto simp: before_close_def)
  then obtain s3 sc3 sid where s3: "PostWrite ?w2 = Inr ((), ?w2\<lparr>wr_stream := s3, wr_schema := sc3\<rparr>)" "out_inv s3"
      "int_fits 4 sid" "prefix s3 = prefix s @ object_cells hash typeId sid ?es (data_bytes fs)"
    using PostWrite_closes by blast
  let ?s4 = "s3\<lparr>out_mem := (out_mem s3)\<lparr>Length := out_pos s3\<rparr>\<rparr>"
  let ?w4 = "?w2\<lparr>wr_stream := ?s4, wr_schema := sc3\<rparr>"
  have "object_body (fields_type typeId g qs) fs ?w = Inr (out_pos s + 8, ?w4)"
    using b s2(1) s3(1) by (simp add: k_def on_out_def out_Synchronize_def)
  moreover have "out_inv ?s4" "prefix ?s4 = prefix s3"
    using s3(2) by (simp_all add: out_inv_def prefix_def)
  ultimately show ?thesis
    using s3(3,4) s1(3)
    by (intro exI [of _ ?w4] exI [of _ hash] exI [of _ sid]) (simp add: newBinaryWriterImpl_def)
qed

text \<open>What a reader of the synchronised memory finds.\<close>

lemma memory_holds:
  assumes "out_inv s" and "Length (out_mem s) = out_pos s" and "prefix s = xs @ map Some bs @ zs" and "p = int (length xs)"
  shows "holds_at (newInteropInputStream (out_mem s)) p bs"
proof -
  have "p + int (length bs) \<le> out_pos s"
    using length_prefix [OF assms(1)] assms(3,4) by simp
  moreover have "cells_at (length xs) (length bs) (Data (out_mem s)) = cells_at (length xs) (length bs) (prefix s)"
  proof -
    have "length bs \<le> nat (out_pos s) - length xs"
      using calculation assms(4) by linarith
    then show ?thesis
      by (simp add: prefix_def cells_at_def drop_take min_def)
  qed
  ultimately show ?thesis
    using assms(2-4) by (simp add: holds_at_def newInteropInputStream_def cells_at_def)
qed

lemma memory_stream:
  "out_inv s \<Longrightarrow> Length (out_mem s) = out_pos s \<Longrightarrow> in_inv (newInteropInputStream (out_mem s))"
  by (simp only: out_inv_def in_inv_def newInteropInputStream_def) simp

lemma UnsafeReadPrimitive_holds:
  assumes "in_inv (newInteropInputStream m)" and "holds_at (newInteropInputStream m) p bs"
  shows "UnsafeReadPrimitive (length bs) m p = Inr bs"
  using assms by (auto simp: UnsafeReadPrimitive_def load_def Let_def holds_at_def in_inv_def newInteropInputStream_def)

lemma mem_ReadInt_holds:
  assumes "in_inv (newInteropInputStream m)" and "holds_at (newInteropInputStream m) p (int_bytes w v)" and "0 < w"
  shows "mem_ReadInt checked w m p = Inr (to_signed (8 * w) v)"
proof -
  have "0 \<le> p" "p + int w \<le> Length m" "Length m \<le> INT32_MAX"
    using assms(1,2) by (simp_all add: holds_at_def in_inv_def newInteropInputStream_def)
  then have "CheckEnoughData m p (int w) = Inr ()"
    using int32_nonneg [of "p + int w"] by (simp add: CheckEnoughData_def)
  then show ?thesis
    using UnsafeReadPrimitive_holds [OF assms(1,2)] assms(3)
    by (simp add: mem_ReadInt_def ReadPrimitive_def sint_of_int_bytes)
qed

text \<open>The parts of an object in memory.\<close>

definition object_at :: "InteropInputStream \<Rightarrow> int \<Rightarrow> int \<Rightarrow> int \<Rightarrow> (int \<times> int) list \<Rightarrow> u8 list \<Rightarrow> bool" where
  "object_at t p typeId schemaId es data \<longleftrightarrow>
     (let foot = footer_bytes (footer_type es) es; off = 24 + int (length data)
      in holds_at t p (int_bytes 1 DOCUMENTDB_HDR_FULL @ int_bytes 1 DOCUMENTDB_PROTO_VER @ int_bytes 2 (sint (object_flags es)) @
           int_bytes 4 typeId)
       \<and> holds_at t (p + 12) (int_bytes 4 (off + int (length foot)) @ int_bytes 4 schemaId @ int_bytes 4 off @ data @ foot))"

lemma object_cells_at:
  assumes "out_inv s" and "Length (out_mem s) = out_pos s" and "length hash = 4"
    and "prefix s = pre @ object_cells hash typeId schemaId es data" and "p = int (length pre)"
  shows "object_at (newInteropInputStream (out_mem s)) p typeId schemaId es data"
proof -
  let ?foot = "footer_bytes (footer_type es) es" and ?off = "24 + int (length data)"
  let ?a = "int_bytes 1 DOCUMENTDB_HDR_FULL @ int_bytes 1 DOCUMENTDB_PROTO_VER @ int_bytes 2 (sint (object_flags es)) @ int_bytes 4 typeId"
  let ?b = "int_bytes 4 (?off + int (length ?foot)) @ int_bytes 4 schemaId @ int_bytes 4 ?off @ data @ ?foot"
  have e: "prefix s = pre @ map Some ?a @ (hash @ map Some ?b)" "prefix s = (pre @ map Some ?a @ hash) @ map Some ?b @ []"
    using assms(4) by (simp_all add: object_cells_def header_cells_def Let_def)
  show ?thesis
    unfolding object_at_def Let_def
    using memory_holds [OF assms(1,2) e(1)] memory_holds [OF assms(1,2) e(2)] assms(3,5) by simp
qed

lemma object_at_parts:
  assumes "object_at t p typeId schemaId es data"
  shows "holds_at t p (int_bytes 1 DOCUMENTDB_HDR_FULL)" "holds_at t (p + 2) (int_bytes 2 (sint (object_flags es)))"
    "holds_at t (p + 12) (int_bytes 4 (24 + int (length data) + int (length (footer_bytes (footer_type es) es))))"
    "holds_at t (p + 20) (int_bytes 4 (24 + int (length data)))" "holds_at t (p + 24) data"
    "holds_at t (p + 24 + int (length data)) (footer_bytes (footer_type es) es)"
  using assms by (simp_all add: object_at_def Let_def holds_at_append add.assoc del: One_nat_def)

lemma data_hash_fits: "int_fits 4 h \<Longrightarrow> int_fits 4 (data_hash h bs)"
proof (induction bs arbitrary: h)
  case (Cons b bs)
  have "int_fits 4 (to_signed 32 x)" for x
    using to_signed_range [of 32 x] by (simp add: int_fits_def)
  then show ?case
    using Cons.IH by simp
qed simp

lemma object_flags_word: "to_signed 16 (sint (f :: u16)) = sint f"
  using sint_range_size [of f] by (intro to_signed_id) (simp_all add: word_size)

lemma has_schema: "has_flag (object_flags es) DOCUMENTDB_BINARY_FLAG_HAS_SCHEMA \<longleftrightarrow> es \<noteq> []"
  by (cases "footer_type es") (simp_all add: has_flag_def object_flags_def)

lemma object_hash_at:
  assumes "in_inv (newInteropInputStream m)" and "object_at (newInteropInputStream m) p typeId schemaId es data"
  shows "object_hash m p = Inr (data_hash 1 data)"
proof -
  let ?foot = "footer_bytes (footer_type es) es"
  note part = object_at_parts [OF assms(2)]
  note rd = mem_ReadInt_holds [OF assms(1)]
  have len: "24 + int (length data) + int (length ?foot) \<le> INT32_MAX" "0 \<le> p"
    using part(1,6) assms(1) by (auto simp: holds_at_def in_inv_def)
  then have wrap: "to_signed 32 (24 + int (length data)) = 24 + int (length data)"
    "to_signed 32 (24 + int (length data) + int (length ?foot)) = 24 + int (length data) + int (length ?foot)"
    "to_signed 32 (int (length data)) = int (length data)"
    by (auto intro!: int32_nonneg)
  have "hdr_GetFlags m p = Inr (object_flags es)"
    using rd [OF part(2)] by (simp add: hdr_GetFlags_def object_flags_word)
  moreover have "hdr_GetLength m p = Inr (24 + int (length data) + int (length ?foot))"
    using rd [OF part(3)] wrap(2) by (simp add: hdr_GetLength_def)
  moreover have "hdr_GetSchemaOffset m p = Inr (24 + int (length data))"
    using rd [OF part(4)] wrap(1) by (simp add: hdr_GetSchemaOffset_def)
  ultimately have "hdr_GetDataLength m p = Inr (int (length data))"
    using wrap by (cases "es = []") (simp_all add: hdr_GetDataLength_def hdr_GetFooterOffset_def has_schema footer_bytes_def)
  then show ?thesis
    using rd [OF part(1), of True] UnsafeReadPrimitive_holds [OF assms(1) part(5)]
    by (simp add: object_hash_def GetDataHashCode_def)
qed

lemma WriteTopObject0_writes:
  assumes "raw_writer w" and "wr_metaMgr w = None" and "int_fits 4 typeId" and "list_all (\<lambda>f. value_ok (snd f)) fs"
    and "list_all (\<lambda>f. int_fits 4 (g (fst f))) fs" and "out_pos (wr_stream w) + object_size g fs \<le> INT32_MAX"
  shows "\<exists>s' schemaId. WriteTopObject0 (fields_type typeId g qs) fs w = Inr ((), w\<lparr>wr_stream := s'\<rparr>)
           \<and> out_inv s' \<and> Length (out_mem s') = out_pos s' \<and> int_fits 4 schemaId
           \<and> prefix s' = prefix (wr_stream w) @
               object_cells (map Some (int_bytes 4 (data_hash 1 (data_bytes fs)))) typeId schemaId (entries g 24 fs) (data_bytes fs)"
proof -
  let ?s = "wr_stream w" and ?es = "entries g 24 fs" and ?data = "data_bytes fs"
  have inv: "out_inv ?s"
    using assms(1) by (simp add: raw_writer_def)
  obtain impl hash sid where b: "object_body (fields_type typeId g qs) fs
        (newBinaryWriterImpl ?s (TemplatedBinaryIdResolver typeId g) None None (out_pos ?s)) = Inr (out_pos ?s + 8, impl)"
      and s: "out_inv (wr_stream impl)" "Length (out_mem (wr_stream impl)) = out_pos (wr_stream impl)"
      and meta: "wr_metaMgr impl = None" "wr_metaHnd impl = None"
      and h: "length hash = 4" "int_fits 4 sid" "prefix (wr_stream impl) = prefix ?s @ object_cells hash typeId sid ?es ?data"
    using object_body_writes [OF inv assms(3-6)] by blast
  have pos: "out_pos ?s = int (length (prefix ?s))"
    using length_prefix [OF inv] by simp
  have hash: "object_hash (out_mem (wr_stream impl)) (out_pos ?s) = Inr (data_hash 1 ?data)"
    using object_hash_at [OF memory_stream [OF s] object_cells_at [OF s h(1,3) pos]] .
  let ?a = "map Some (int_bytes 1 DOCUMENTDB_HDR_FULL @ int_bytes 1 DOCUMENTDB_PROTO_VER @ int_bytes 2 (sint (object_flags ?es)) @ int_bytes 4 typeId)"
  obtain zs where zs: "\<And>c. object_cells c typeId sid ?es ?data = ?a @ c @ zs"
    by (simp add: object_cells_def header_cells_def Let_def)
  have "prefix (wr_stream impl) = (prefix ?s @ ?a) @ hash @ zs" "out_pos ?s + 8 = int (length (prefix ?s @ ?a))"
    using h(3) zs pos by simp_all
  then obtain s' where s': "out_write_at (out_pos ?s + 8) (int_bytes 4 (data_hash 1 ?data)) (wr_stream impl) = Inr ((), s')"
      "out_inv s'" "out_pos s' = out_pos (wr_stream impl)" "prefix s' = (prefix ?s @ ?a) @ map Some (int_bytes 4 (data_hash 1 ?data)) @ zs"
    using out_patch [OF s(1), of "prefix ?s @ ?a" hash zs "int_bytes 4 (data_hash 1 ?data)"] h(1) by auto
  have "WriteTopObject0 (fields_type typeId g qs) fs w = Inr ((), w\<lparr>wr_stream := s', wr_metaMgr := None\<rparr>)"
    using b hash s'(1) meta assms(2)
    by (simp add: WriteTopObject0_def fields_type_def handler_for_def bt_resolver_def on_out_def out_WriteInt32_at_def Let_def)
  moreover have "w\<lparr>wr_stream := s', wr_metaMgr := None\<rparr> = w\<lparr>wr_stream := s'\<rparr>"
    using assms(2) by (cases w) simp
  moreover have "Length (out_mem s') = Length (out_mem (wr_stream impl))"
    using s'(1) by (auto simp: out_write_at_def EnsureCapacity_def store_def Reallocate_def Let_def followed_def andThen_def split: if_splits)
  ultimately show ?thesis
    using s'(2-4) s(2) h(2) zs by (intro exI [of _ s'] exI [of _ sid]) simp
qed

section \<open>Reading a field\<close>

lemma as_field_at: "as_field f (at_field n d (on_in m)) = at_field n (f d) (on_in (andThen m (\<lambda>x. ret (f x))))"
proof
  fix r
  show "as_field f (at_field n d (on_in m)) r = at_field n (f d) (on_in (andThen m (\<lambda>x. ret (f x)))) r"
    by (auto simp: as_field_def at_field_def rd_in_mode_def followed_def andThen_def on_in_def split: sum.splits prod.splits)
qed

text \<open>An operation that reads a named value from its bytes: what it does at the position of the field.\<close>

definition field_reads_as :: "'r rd_act \<Rightarrow> string \<Rightarrow> 'r \<Rightarrow> (u8 list \<Rightarrow> 'r \<Rightarrow> bool) \<Rightarrow> bool" where
  "field_reads_as op n missing R \<longleftrightarrow> (\<exists>m. op = at_field n missing (on_in m) \<and> (\<forall>bs x. R bs x \<longrightarrow> consumes m bs x))"

lemma null_consumed: "consumes (f DOCUMENTDB_HDR_NULL) [] x \<Longrightarrow> consumes (andThen in_ReadInt8 f) (int_bytes 1 DOCUMENTDB_HDR_NULL) x"
  using consumes_andThen [OF int8.consumed, of DOCUMENTDB_HDR_NULL f "[]" x] by (simp add: int_fits_def)

definition stored :: "int \<Rightarrow> ('a \<Rightarrow> u8 list) \<Rightarrow> ('a \<Rightarrow> bool) \<Rightarrow> 'a \<Rightarrow> ('a \<Rightarrow> 'r) \<Rightarrow> u8 list \<Rightarrow> 'r \<Rightarrow> bool" where
  "stored hdr enc ok dflt f bs x \<longleftrightarrow> bs = int_bytes 1 DOCUMENTDB_HDR_NULL \<and> x = f dflt
     \<or> (\<exists>v. ok v \<and> bs = typed_bytes hdr enc v \<and> x = f v)"

context typed_codec
begin

lemma primitive_reads: "field_reads_as (as_field f (rd_Read n rd hdr dflt)) n (f dflt) (stored hdr enc ok dflt f)"
proof -
  define m where "m = andThen in_ReadInt8 (\<lambda>typeId.
      if typeId = DOCUMENTDB_HDR_NULL then ret dflt
      else if typeId \<noteq> hdr then andThen in_Position (\<lambda>pos.
        fail (Thrown DOCUMENTDB_ERR_BINARY ''Invalid type ID'' [(''position'', pos), (''expected'', hdr), (''actual'', typeId)]))
      else rd)"
  have "consumes m (int_bytes 1 DOCUMENTDB_HDR_NULL) dflt"
    unfolding m_def by (rule null_consumed) (simp add: consumes_ret)
  moreover have "consumes m (typed_bytes hdr enc v) v" if "ok v" for v
    unfolding m_def typed_bytes_def using that hdr_not_null by (intro header_consumed) (simp add: consumed)
  ultimately have "consumes (andThen m (\<lambda>x. ret (f x))) bs x" if "stored hdr enc ok dflt f bs x" for bs x
    using that by (auto simp: stored_def intro: consumes_map)
  moreover have "rd_Read n rd hdr dflt = at_field n dflt (on_in m)"
    by (simp add: rd_Read_def m_def)
  ultimately show ?thesis
    unfolding field_reads_as_def by (metis as_field_at)
qed

lemma nullable_reads: "field_reads_as (as_field f (at_field n dflt (on_in (ReadNullable rd hdr dflt)))) n (f dflt) (stored hdr enc ok dflt f)"
proof -
  have "consumes (ReadNullable rd hdr dflt) (int_bytes 1 DOCUMENTDB_HDR_NULL) dflt"
    unfolding ReadNullable_def using hdr_not_null by (intro null_consumed) (simp add: consumes_ret)
  then have "consumes (andThen (ReadNullable rd hdr dflt) (\<lambda>x. ret (f x))) bs x" if "stored hdr enc ok dflt f bs x" for bs x
    using that nullable_consumed by (auto simp: stored_def intro: consumes_map)
  then show ?thesis
    unfolding field_reads_as_def by (metis as_field_at)
qed

end

definition stored_as :: "kind \<Rightarrow> u8 list \<Rightarrow> field_val \<Rightarrow> bool" where
  "stored_as k bs x \<longleftrightarrow> (\<exists>v. value_ok v \<and> readable_as k v \<and> bs = value_bytes v \<and> x = field_answer k (Some v))"

lemma reads_as_weaken: "field_reads_as op n d R \<Longrightarrow> (\<And>bs x. R' bs x \<Longrightarrow> R bs x) \<Longrightarrow> d = d' \<Longrightarrow> field_reads_as op n d' R'"
  unfolding field_reads_as_def by blast

lemma string_reads: "field_reads_as (as_field text_field (rd_ReadString_field n True len)) n FNull (stored_as (KString len))"
proof -
  have null: "consumes (ReadStringInternal True len) (int_bytes 1 DOCUMENTDB_HDR_NULL) (-1, None)"
    unfolding ReadStringInternal_def by (rule null_consumed) (simp add: consumes_ret)
  have "consumes (andThen (ReadStringInternal True len) (\<lambda>x. ret (text_field x))) bs x" if st: "stored_as (KString len) bs x" for bs x
  proof -
    obtain v where v: "value_ok v" "readable_as (KString len) v" "bs = value_bytes v" "x = field_answer (KString len) (Some v)"
      using st by (auto simp: stored_as_def)
    show ?thesis
    proof (cases v)
      case (FString s)
      then show ?thesis
        using v ReadStringInternal_consumes [of s len] by (auto simp: field_answer_def text_field_def intro: consumes_map)
    next
      case FNull
      then show ?thesis
        using v null by (auto simp: field_answer_def text_field_def intro: consumes_map)
    qed (use v in simp_all)
  qed
  moreover have "text_field (-1, None) = FNull"
    by (simp add: text_field_def)
  ultimately show ?thesis
    unfolding field_reads_as_def rd_ReadString_field_def as_field_at by metis
qed

lemmas field_read_defs = rd_ReadInt8_field_def rd_ReadBool_field_def rd_ReadInt16_field_def rd_ReadUInt16_field_def
  rd_ReadInt32_field_def rd_ReadInt64_field_def rd_ReadFloat_field_def rd_ReadDouble_field_def rd_ReadGuid_field_def
  rd_ReadDate_field_def rd_ReadTimestamp_field_def rd_ReadTime_field_def

lemma read_field_reads: "field_reads_as (read_field (n, k)) n (default_of k) (stored_as k)"
proof -
  note prim = t_int8.primitive_reads t_bool.primitive_reads t_int16.primitive_reads t_uint16.primitive_reads
    t_int32.primitive_reads t_int64.primitive_reads t_float.primitive_reads t_double.primitive_reads
    t_guid.nullable_reads t_date.nullable_reads t_timestamp.nullable_reads t_time.nullable_reads
  show ?thesis
  proof (cases k)
    case (KString len)
    then show ?thesis using string_reads by simp
  qed (simp_all only: read_field.simps default_of.simps field_read_defs,
      (rule prim [THEN reads_as_weaken],
       (auto simp: stored_as_def stored_def field_answer_def elim: readable_as.elims(2))[2])+)
qed

section \<open>Finding a field\<close>

lemma entries_hold:
  "holds_at t (p + off) (data_bytes fs) \<Longrightarrow> map_of (entries g off fs) k = Some o' \<Longrightarrow>
   \<exists>n v. (n, v) \<in> set fs \<and> g n = k \<and> holds_at t (p + o') (value_bytes v)"
proof (induction g off fs rule: entries.induct)
  case (2 g off n v fs)
  have h: "holds_at t (p + off) (value_bytes v)" "holds_at t (p + (off + int (length (value_bytes v)))) (data_bytes fs)"
    using "2.prems"(1) by (simp_all add: holds_at_append add.assoc)
  show ?case
  proof (cases "g n = k")
    case True
    then show ?thesis using "2.prems"(2) h(1) by auto
  next
    case False
    then show ?thesis using "2.IH" [OF h(2)] "2.prems"(2) by auto
  qed
qed simp

text \<open>A reader inside an object with the given entries and data.\<close>

definition object_reader :: "(string \<Rightarrow> int) \<Rightarrow> int \<Rightarrow> (int \<times> int) list \<Rightarrow> u8 list \<Rightarrow> BinaryReaderImpl \<Rightarrow> bool" where
  "object_reader g p es data r \<longleftrightarrow> \<not> rd_rawMode r \<and> rd_elemId r = 0 \<and> rd_pos r = p \<and> rd_schemaType r = footer_type es
     \<and> rd_footerBegin r = p + 24 + int (length data)
     \<and> rd_footerEnd r = p + 24 + int (length data) + entry_size (footer_type es) * int (length es)
     \<and> (\<exists>t. rd_idRslvr r = Some (TemplatedBinaryIdResolver t g)) \<and> in_inv (rd_stream r) \<and> 0 \<le> p
     \<and> holds_at (rd_stream r) (p + 24) data
     \<and> holds_at (rd_stream r) (p + 24 + int (length data)) (footer_bytes (footer_type es) es)
     \<and> list_all (entry_ok (footer_type es)) es \<and> list_all (\<lambda>e. snd e + p \<le> INT32_MAX) es"

lemma field_position_found:
  assumes "object_reader g p es data r" and "int_fits 4 (g n)"
  shows "field_position n r = Inr (case map_of es (g n) of Some off \<Rightarrow> off + p | None \<Rightarrow> -1, r)"
proof -
  let ?s = "rd_stream r" and ?b = "p + 24 + int (length data)" and ?ty = "footer_type es"
  have r: "in_inv ?s" "holds_at ?s ?b (footer_bytes ?ty es)" "0 \<le> p" "rd_footerBegin r = ?b" "rd_pos r = p" "rd_schemaType r = ?ty"
    "rd_footerEnd r = ?b + entry_size ?ty * int (length es)" "list_all (entry_ok ?ty) es" "list_all (\<lambda>e. snd e + p \<le> INT32_MAX) es"
    using assms(1) by (simp_all add: object_reader_def)
  have b: "?b \<le> in_len ?s" "in_pos ?s \<le> in_len ?s"
    using r(1,2) by (auto simp: holds_at_def in_inv_def)
  let ?s1 = "?s\<lparr>in_pos := ?b\<rparr>"
  have s1: "in_inv ?s1" "holds_at ?s1 ?b (footer_bytes ?ty es)"
    using ahead_holds(2) [OF r(1,2) b(1)] r(2) by simp_all
  have "find_in_footer ?ty (g n) p ?b (?b + entry_size ?ty * int (length es)) ?s1 =
      Inr (case map_of es (g n) of Some off \<Rightarrow> off + p | None \<Rightarrow> -1, ?s1)"
    by (rule find_in_footer_holds [OF s1(1) assms(2) r(3) s1(2) r(8,9)])
  then have "rd_FindField (g n) r = Inr (case map_of es (g n) of Some off \<Rightarrow> off + p | None \<Rightarrow> -1, r)"
    using b r(4-7) by (simp add: rd_FindField_def on_in_def guarded_def in_Position_def in_SetPosition_def)
  then show ?thesis
    using assms(1) by (auto simp: field_position_def object_reader_def TemplatedBinaryIdResolver_def)
qed

lemma at_field_reads:
  assumes "object_reader g p es data r" and "es = entries g 24 fs" and "data = data_bytes fs" and "int_fits 4 (g n)"
    and "inj_on g (insert n (fst ` set fs))" and "distinct (map fst fs)"
    and "field_reads_as op n missing R" and "\<And>v. map_of fs n = Some v \<Longrightarrow> R (value_bytes v) (f v)"
  shows "\<exists>q. op r = Inr (case map_of fs n of Some v \<Rightarrow> f v | None \<Rightarrow> missing, r\<lparr>rd_stream := (rd_stream r)\<lparr>in_pos := q\<rparr>\<rparr>)
           \<and> object_reader g p es data (r\<lparr>rd_stream := (rd_stream r)\<lparr>in_pos := q\<rparr>\<rparr>)"
proof -
  let ?s = "rd_stream r"
  obtain m where op: "op = at_field n missing (on_in m)" and m: "\<And>bs x. R bs x \<Longrightarrow> consumes m bs x"
    using assms(7) by (auto simp: field_reads_as_def)
  have r: "in_inv ?s" "holds_at ?s (p + 24) (data_bytes fs)" "0 \<le> p" "\<not> rd_rawMode r" "rd_elemId r = 0"
    using assms(1,3) by (simp_all add: object_reader_def)
  have keep: "object_reader g p es data (r\<lparr>rd_stream := ?s\<lparr>in_pos := q\<rparr>\<rparr>)" if "in_inv (?s\<lparr>in_pos := q\<rparr>)" for q
    using assms(1) that by (simp add: object_reader_def)
  note pos = field_position_found [OF assms(1,4)]
  have mode: "rd_in_mode False k r = k r" for k :: "'b rd_act"
    using r(4,5) by (simp add: rd_in_mode_def rd_CheckRawMode_def rd_CheckSingleMode_def followed_def andThen_def)
  show ?thesis
  proof (cases "map_of es (g n)")
    case None
    then have "map_of fs n = None"
      using assms(2) arg_cong [OF fst_entries [of g 24 fs], of set] by (force simp: map_of_eq_None_iff)
    then have "op r = Inr (case map_of fs n of Some v \<Rightarrow> f v | None \<Rightarrow> missing, r\<lparr>rd_stream := ?s\<lparr>in_pos := in_pos ?s\<rparr>\<rparr>)"
      using None pos by (simp add: op at_field_def mode)
    then show ?thesis using assms(1) by (intro exI [of _ "in_pos ?s"]) simp
  next
    case (Some off)
    obtain n' v where v: "(n', v) \<in> set fs" "g n' = g n" "holds_at ?s (p + off) (value_bytes v)"
      using entries_hold [OF r(2)] Some assms(2) by blast
    have "n' = n"
      using inj_onD [OF assms(5) v(2)] v(1) by force
    then have fs: "map_of fs n = Some v"
      using v(1) assms(6) by simp
    have off: "24 \<le> off"
      using entries_offsets [of "(g n, off)" g 24 fs] map_of_SomeD [OF Some] assms(2) by simp
    let ?s1 = "?s\<lparr>in_pos := p + off\<rparr>"
    have "p + off \<le> in_len ?s"
      using v(3) by (simp add: holds_at_def)
    then obtain rest where s1: "in_inv ?s1" "ahead ?s1 = map Some (value_bytes v) @ rest" "in_SetPosition (p + off) ?s = Inr ((), ?s1)"
      using ahead_holds [OF r(1) v(3)] by (auto simp: in_SetPosition_def)
    have "m ?s1 = Inr (f v, moved_by (length (value_bytes v)) ?s1)" "in_inv (moved_by (length (value_bytes v)) ?s1)"
      using consumesD [OF m [OF assms(8) [OF fs]] s1(1,2)] by simp_all
    then show ?thesis
      using Some pos off r(3) s1(3) keep fs
      by (intro exI [of _ "p + off + int (length (value_bytes v))"])
        (simp add: op at_field_def mode on_in_def moved_by_def add.commute)
  qed
qed

lemma read_fields_answers:
  assumes "object_reader g p es data r" and "es = entries g 24 fs" and "data = data_bytes fs"
    and "list_all (\<lambda>f. value_ok (snd f)) fs" and "distinct (map fst fs)"
    and "list_all (\<lambda>q. int_fits 4 (g (fst q))) qs" and "inj_on g (fst ` set qs \<union> fst ` set fs)"
    and "\<And>n k v. (n, k) \<in> set qs \<Longrightarrow> map_of fs n = Some v \<Longrightarrow> readable_as k v"
  shows "\<exists>q. read_fields qs r = Inr (map (\<lambda>(n, k). (n, field_answer k (map_of fs n))) qs, r\<lparr>rd_stream := (rd_stream r)\<lparr>in_pos := q\<rparr>\<rparr>)
           \<and> object_reader g p es data (r\<lparr>rd_stream := (rd_stream r)\<lparr>in_pos := q\<rparr>\<rparr>)"
  using assms
proof (induction qs arbitrary: r)
  case Nil
  then show ?case by (intro exI [of _ "in_pos (rd_stream r)"]) simp
next
  case (Cons nk qs)
  obtain n k where nk: "nk = (n, k)" by (cases nk)
  have inj: "inj_on g (insert n (fst ` set fs))" "inj_on g (fst ` set qs \<union> fst ` set fs)"
    using Cons.prems(7) by (auto simp: nk elim: inj_on_subset)
  have st: "stored_as k (value_bytes v) (field_answer k (Some v))" if "map_of fs n = Some v" for v
  proof -
    have "value_ok v"
      using Cons.prems(4) map_of_SomeD [OF that] by (auto simp: list_all_iff)
    then show ?thesis
      using Cons.prems(8) that by (auto simp: nk stored_as_def)
  qed
  have fits: "int_fits 4 (g n)"
    using Cons.prems(6) nk by simp
  obtain q1 where q1: "read_field (n, k) r = Inr (case map_of fs n of Some v \<Rightarrow> field_answer k (Some v) | None \<Rightarrow> default_of k,
        r\<lparr>rd_stream := (rd_stream r)\<lparr>in_pos := q1\<rparr>\<rparr>)" "object_reader g p es data (r\<lparr>rd_stream := (rd_stream r)\<lparr>in_pos := q1\<rparr>\<rparr>)"
    using at_field_reads [OF Cons.prems(1,2,3) fits inj(1) Cons.prems(5) read_field_reads st] by blast
  have a: "(case map_of fs n of Some v \<Rightarrow> field_answer k (Some v) | None \<Rightarrow> default_of k) = field_answer k (map_of fs n)"
    by (cases "map_of fs n") (simp_all add: field_answer_def)
  obtain q2 where "read_fields qs (r\<lparr>rd_stream := (rd_stream r)\<lparr>in_pos := q1\<rparr>\<rparr>) =
      Inr (map (\<lambda>(n, k). (n, field_answer k (map_of fs n))) qs, r\<lparr>rd_stream := (rd_stream r)\<lparr>in_pos := q2\<rparr>\<rparr>)"
      "object_reader g p es data (r\<lparr>rd_stream := (rd_stream r)\<lparr>in_pos := q2\<rparr>\<rparr>)"
    using Cons.IH [OF q1(2) Cons.prems(2-5) _ inj(2)] Cons.prems(6,8) by auto
  then show ?case
    using q1(1) unfolding a by (intro exI [of _ q2]) (simp add: nk)
qed

section \<open>Opening an object\<close>

definition object_bytes :: "int \<Rightarrow> int \<Rightarrow> int \<Rightarrow> (int \<times> int) list \<Rightarrow> u8 list \<Rightarrow> u8 list" where
  "object_bytes hash typeId schemaId es data =
     (let foot = footer_bytes (footer_type es) es; off = 24 + int (length data)
      in int_bytes 1 DOCUMENTDB_HDR_FULL @ int_bytes 1 DOCUMENTDB_PROTO_VER @ int_bytes 2 (sint (object_flags es)) @
         int_bytes 4 typeId @ int_bytes 4 hash @ int_bytes 4 (off + int (length foot)) @ int_bytes 4 schemaId @
         int_bytes 4 off @ data @ foot)"

lemma object_cells_bytes:
  "object_cells (map Some (int_bytes 4 hash)) typeId schemaId es data = map Some (object_bytes hash typeId schemaId es data)"
  by (simp add: object_cells_def object_bytes_def header_cells_def Let_def)

lemma length_object_bytes:
  "length (object_bytes hash typeId schemaId es data) = 24 + length data + length (footer_bytes (footer_type es) es)"
  by (simp add: object_bytes_def Let_def)

lemma open_flags:
  "has_flag (object_flags es) DOCUMENTDB_BINARY_FLAG_OFFSET_ONE_BYTE \<longleftrightarrow> footer_type es = ONE_BYTE"
  "has_flag (object_flags es) DOCUMENTDB_BINARY_FLAG_OFFSET_TWO_BYTES \<longleftrightarrow> footer_type es = TWO_BYTES"
  "\<not> has_flag (object_flags es) DOCUMENTDB_BINARY_FLAG_COMPACT_FOOTER"
  "\<not> has_flag (object_flags es) DOCUMENTDB_BINARY_FLAG_HAS_RAW"
  "has_flag (object_flags es) DOCUMENTDB_BINARY_FLAG_USER_TYPE"
  by (cases "es = []"; cases "footer_type es"; simp add: has_flag_def object_flags_def footer_type_def [of "[]"])+

lemma open_object_at:
  assumes "in_inv t" and "in_pos t = p" and "0 \<le> p" and "ahead t = map Some (object_bytes hash typeId schemaId es data) @ rest"
    and "int_fits 4 hash" and "int_fits 4 typeId" and "int_fits 4 schemaId"
  shows "\<exists>r. open_object rslvr p (moved_by 1 t) = Inr r \<and> in_ReadInt8 t = Inr (DOCUMENTDB_HDR_FULL, moved_by 1 t)
     \<and> r = newBinaryReaderImpl (moved_by 24 t) rslvr p True typeId hash (int (length (object_bytes hash typeId schemaId es data)))
         (24 + int (length data)) (p + 24 + int (length data))
         (p + 24 + int (length data) + entry_size (footer_type es) * int (length es)) (footer_type es)"
proof -
  let ?foot = "footer_bytes (footer_type es) es"
  let ?len = "24 + int (length data) + int (length ?foot)"
  have l: "p + ?len \<le> INT32_MAX"
    using length_ahead [OF assms(1)] assms(1-4) by (simp add: length_object_bytes in_inv_def)
  then have wrap: "to_signed 32 (p + (24 + int (length data))) = p + 24 + int (length data)"
    "to_signed 32 (p + ?len) = p + ?len"
    using assms(3) by (auto simp: add.assoc intro!: int32_nonneg)
  have fits: "int_fits 4 ?len" "int_fits 4 (24 + int (length data))" "int_fits 2 (sint (object_flags es))"
    using l assms(3) sint_range_size [of "object_flags es"] by (auto simp: int_fits_def INT32_MAX_def word_size)
  have one: "int_fits 1 103" "int_fits 1 1"
    by (simp_all add: int_fits_def)
  have a: "ahead t = map Some (int_bytes 1 103) @ map Some (int_bytes 1 1) @ map Some (int_bytes 2 (sint (object_flags es))) @
      map Some (int_bytes 4 typeId) @ map Some (int_bytes 4 hash) @ map Some (int_bytes 4 ?len) @ map Some (int_bytes 4 schemaId) @
      map Some (int_bytes 4 (24 + int (length data))) @ map Some (data @ ?foot) @ rest"
    using assms(4) by (simp add: object_bytes_def Let_def)
  note c1 = consumesD [OF int8.consumed [OF one(1)] assms(1) a]
  note c2 = consumesD [OF int8.consumed [OF one(2)] c1(2,3)]
  note c3 = consumesD [OF int16.consumed [OF fits(3)] c2(2,3)]
  note c4 = consumesD [OF int32.consumed [OF assms(6)] c3(2,3)]
  note c5 = consumesD [OF int32.consumed [OF assms(5)] c4(2,3)]
  note c6 = consumesD [OF int32.consumed [OF fits(1)] c5(2,3)]
  note c7 = consumesD [OF int32.consumed [OF assms(7)] c6(2,3)]
  note c8 = consumesD [OF int32.consumed [OF fits(2)] c7(2,3)]
  have "open_object rslvr p (moved_by 1 t) = Inr (newBinaryReaderImpl (moved_by 24 t) rslvr p True typeId hash ?len
      (24 + int (length data)) (p + 24 + int (length data)) (p + ?len) (footer_type es))"
    using c2(1) c3(1) c4(1) c5(1) c6(1) c7(1) c8(1) wrap
    by (cases "footer_type es"; cases "es = []")
      (simp_all add: open_object_def open_flags has_schema footer_bytes_def [of _ "[]"] Let_def add.assoc)
  then show ?thesis
    using c1(1) length_footer_bytes [of "footer_type es" es] by (simp add: length_object_bytes add.assoc)
qed

lemma ReadTopObject0_reads:
  assumes "in_inv t" and "in_pos t = p" and "holds_at t p (object_bytes hash typeId schemaId (entries g 24 fs) (data_bytes fs))"
    and "int_fits 4 hash" and "int_fits 4 typeId" and "int_fits 4 schemaId"
    and "list_all (\<lambda>f. value_ok (snd f)) fs" and "distinct (map fst fs)" and "list_all (\<lambda>f. int_fits 4 (g (fst f))) fs"
    and "list_all (\<lambda>q. int_fits 4 (g (fst q))) qs" and "inj_on g (fst ` set qs \<union> fst ` set fs)"
    and "\<And>n k v. (n, k) \<in> set qs \<Longrightarrow> map_of fs n = Some v \<Longrightarrow> readable_as k v"
  shows "ReadTopObject0 (Suc depth) (fields_type typeId g qs) t =
    Inr (map (\<lambda>(n, k). (n, field_answer k (map_of fs n))) qs,
      t\<lparr>in_pos := p + int (length (object_bytes hash typeId schemaId (entries g 24 fs) (data_bytes fs)))\<rparr>)"
proof -
  let ?es = "entries g 24 fs" and ?data = "data_bytes fs"
  let ?ob = "object_bytes hash typeId schemaId ?es ?data" and ?ty = "footer_type (entries g 24 fs)"
  let ?r = "newBinaryReaderImpl (moved_by 24 t) (TemplatedBinaryIdResolver typeId g) p True typeId hash (int (length ?ob))
      (24 + int (length ?data)) (p + 24 + int (length ?data)) (p + 24 + int (length ?data) + entry_size ?ty * int (length ?es)) ?ty"
  have p: "0 \<le> p" "p \<le> in_len t" "p + int (length ?ob) \<le> in_len t" "in_len t \<le> INT32_MAX"
    using assms(1-3) by (auto simp: holds_at_def in_inv_def)
  have "t\<lparr>in_pos := p\<rparr> = t"
    using assms(2) by simp
  then obtain rest where a: "ahead t = map Some ?ob @ rest"
    using ahead_holds(1) [OF assms(1,3) p(2)] by metis
  have open': "open_object (TemplatedBinaryIdResolver typeId g) p (moved_by 1 t) = Inr ?r" "in_ReadInt8 t = Inr (103, moved_by 1 t)"
    using open_object_at [OF assms(1,2) p(1) a assms(4-6), of "TemplatedBinaryIdResolver typeId g"] by blast+
  have parts: "holds_at t (p + 24) ?data" "holds_at t (p + 24 + int (length ?data)) (footer_bytes ?ty ?es)"
    using assms(3) by (simp_all add: object_bytes_def Let_def holds_at_append add.assoc)
  have size: "p + 24 + int (length ?data) \<le> INT32_MAX"
    using p by (simp add: length_object_bytes)
  have "snd e + p \<le> INT32_MAX" if "e \<in> set ?es" for e
    using entries_offsets [OF that] size by linarith
  moreover have "list_all (entry_ok ?ty) ?es"
    using size p(1) by (intro entries_ok assms(9)) simp_all
  moreover have "in_inv (moved_by 24 t)"
    using assms(1,2) p by (simp add: in_inv_def moved_by_def length_object_bytes)
  ultimately have r: "object_reader g p ?es ?data ?r"
    using parts p(1) by (auto simp: object_reader_def newBinaryReaderImpl_def moved_by_def list_all_iff)
  have "\<exists>q. read_fields qs ?r = Inr (map (\<lambda>(n, k). (n, field_answer k (map_of fs n))) qs, ?r\<lparr>rd_stream := (rd_stream ?r)\<lparr>in_pos := q\<rparr>\<rparr>)
      \<and> object_reader g p ?es ?data (?r\<lparr>rd_stream := (rd_stream ?r)\<lparr>in_pos := q\<rparr>\<rparr>)"
    by (rule read_fields_answers [OF r refl refl assms(7,8,10,11)]) (rule assms(12))
  then obtain q where q: "read_fields qs ?r =
      Inr (map (\<lambda>(n, k). (n, field_answer k (map_of fs n))) qs, ?r\<lparr>rd_stream := (rd_stream ?r)\<lparr>in_pos := q\<rparr>\<rparr>)"
    by (elim exE conjE)
  have "to_signed 32 (p + int (length ?ob)) = p + int (length ?ob)"
    using p by (intro int32_nonneg) simp_all
  then show ?thesis
    using open' q p(3) assms(2)
    by (simp add: fields_type_def in_Position_def bt_resolver_def newBinaryReaderImpl_def moved_by_def in_SetPosition_def)
qed

lemma name_hash_fits: "int_fits 4 (GetBinaryStringHashCode (Some n))"
proof -
  have "int_fits 4 h \<Longrightarrow> int_fits 4 (hash_chars h n)" for h
  proof (induction n arbitrary: h)
    case (Cons c n)
    have "int_fits 4 (to_signed 32 x)" for x
      using to_signed_range [of 32 x] by (simp add: int_fits_def)
    then show ?case using Cons by simp
  qed simp
  then show ?thesis
    by (simp add: GetBinaryStringHashCode_def int_fits_def)
qed

text \<open>(C5) Objects with fields: a raw writer at any position writes an object whose fields have different names with
  different identifiers, if it fits the stream; the object begins at that position and ends the memory. Reading it back
  asks for any fields in any order, each found through the footer: the answer is the value that was written, and the
  default of the type asked for where the field is missing or null. Reading ends at the end of the object.\<close>

theorem object_fields_roundtrip:
  assumes "raw_writer w" and "wr_metaMgr w = None" and "int_fits 4 typeId"
    and "list_all (\<lambda>f. value_ok (snd f)) fs" and "distinct (map fst fs)"
    and "inj_on g (fst ` set qs \<union> fst ` set fs)" and "\<And>n. int_fits 4 (g n)"
    and "\<And>n k v. (n, k) \<in> set qs \<Longrightarrow> map_of fs n = Some v \<Longrightarrow> readable_as k v"
    and "out_pos (wr_stream w) + object_size g fs \<le> INT32_MAX"
  shows "\<exists>w' t. WriteTopObject0 (fields_type typeId g qs) fs w = Inr ((), w')
    \<and> ReadTopObject0 (Suc depth) (fields_type typeId g qs)
        ((newInteropInputStream (out_mem (wr_stream w')))\<lparr>in_pos := out_pos (wr_stream w)\<rparr>) =
        Inr (map (\<lambda>(n, k). (n, field_answer k (map_of fs n))) qs, t)
    \<and> in_Remaining t = Inr (0, t)"
proof -
  let ?s = "wr_stream w" and ?es = "entries g 24 fs" and ?data = "data_bytes fs"
  let ?hash = "data_hash 1 (data_bytes fs)"
  have ids: "list_all (\<lambda>f. int_fits 4 (g (fst f))) fs" "list_all (\<lambda>q. int_fits 4 (g (fst q))) qs" "int_fits 4 ?hash"
    using assms(7) data_hash_fits [of 1 ?data] by (simp_all add: list_all_iff int_fits_def)
  obtain s' sid where w: "WriteTopObject0 (fields_type typeId g qs) fs w = Inr ((), w\<lparr>wr_stream := s'\<rparr>)"
      and s': "out_inv s'" "Length (out_mem s') = out_pos s'" "int_fits 4 sid"
        "prefix s' = prefix ?s @ map Some (object_bytes ?hash typeId sid ?es ?data) @ []"
    using WriteTopObject0_writes [OF assms(1-4) ids(1) assms(9), of qs] unfolding object_cells_bytes by auto
  let ?t = "(newInteropInputStream (out_mem s'))\<lparr>in_pos := out_pos ?s\<rparr>"
  have pos: "out_pos ?s = int (length (prefix ?s))" "out_pos s' = out_pos ?s + int (length (object_bytes ?hash typeId sid ?es ?data))"
    using length_prefix [OF s'(1)] length_prefix [of ?s] s'(4) assms(1) by (simp_all add: raw_writer_def)
  have h: "holds_at ?t (out_pos ?s) (object_bytes ?hash typeId sid ?es ?data)"
    using memory_holds [OF s'(1,2,4) pos(1)] by simp
  then have t: "in_inv ?t"
    using memory_stream [OF s'(1,2)] by (auto simp: in_inv_def holds_at_def)
  have "in_len ?t = out_pos s'"
    using s'(2) by (simp add: newInteropInputStream_def)
  then have "in_Remaining (?t\<lparr>in_pos := out_pos s'\<rparr>) = Inr (0, ?t\<lparr>in_pos := out_pos s'\<rparr>)"
    by (simp add: in_Remaining_def int32_nonneg INT32_MAX_def)
  then show ?thesis
    using w ReadTopObject0_reads [OF t _ h ids(3) assms(3) s'(3) assms(4,5) ids(1,2) assms(6,8)] pos(2) by auto
qed

theorem object_fields_roundtrip_witness:
  "\<exists>w' t. WriteTopObject0 (fields_type 7 (\<lambda>n. GetBinaryStringHashCode (Some n)) [(''name'', KString 9), (''gone'', KBool), (''id'', KInt32)])
        [(''id'', FInt32 5), (''name'', FString ''abc''), (''at'', FNull)]
        (newRawWriter (newInteropOutputStream (newInteropUnpooledMemory 4)) None) = Inr ((), w')
    \<and> ReadTopObject0 1 (fields_type 7 (\<lambda>n. GetBinaryStringHashCode (Some n)) [(''name'', KString 9), (''gone'', KBool), (''id'', KInt32)])
        ((newInteropInputStream (out_mem (wr_stream w')))\<lparr>in_pos := 0\<rparr>) =
        Inr ([(''name'', FString ''abc''), (''gone'', FBool False), (''id'', FInt32 5)], t)"
proof -
  let ?g = "\<lambda>n. GetBinaryStringHashCode (Some n)" and ?w = "newRawWriter (newInteropOutputStream (newInteropUnpooledMemory 4)) None"
  let ?fs = "[(''id'', FInt32 5), (''name'', FString ''abc''), (''at'', FNull)]"
  let ?qs = "[(''name'', KString 9), (''gone'', KBool), (''id'', KInt32)]"
  have w: "raw_writer ?w" "wr_metaMgr ?w = None" "out_pos (wr_stream ?w) = 0"
    using new_out_inv [of 4] by (simp_all add: raw_writer_def newRawWriter_def newInteropOutputStream_def INT32_MAX_def)
  have hashes: "?g ''id'' = 3355" "?g ''name'' = 3373707" "?g ''at'' = 3123" "?g ''gone'' = 3178655"
    by code_simp+
  have ids: "inj_on ?g (fst ` set ?qs \<union> fst ` set ?fs)"
    using hashes by (simp add: inj_on_def)
  have "object_size ?g ?fs \<le> INT32_MAX"
    using length_footer_bytes [of "footer_type (entries ?g 24 ?fs)" "entries ?g 24 ?fs"]
    by (cases "footer_type (entries ?g 24 ?fs)")
      (simp_all add: object_size_def typed_bytes_def text_bytes_def char_codes_def INT32_MAX_def)
  then have "\<exists>w' t. WriteTopObject0 (fields_type 7 ?g ?qs) ?fs ?w = Inr ((), w')
      \<and> ReadTopObject0 (Suc 0) (fields_type 7 ?g ?qs) ((newInteropInputStream (out_mem (wr_stream w')))\<lparr>in_pos := out_pos (wr_stream ?w)\<rparr>) =
          Inr (map (\<lambda>(n, k). (n, field_answer k (map_of ?fs n))) ?qs, t) \<and> in_Remaining t = Inr (0, t)"
    using w(3) by (intro object_fields_roundtrip [OF w(1,2) _ _ _ ids name_hash_fits])
      (auto simp: int_fits_def str_ok_def INT32_MAX_def split: if_splits)
  then show ?thesis
    using w(3) by (auto simp: field_answer_def)
qed

end
