(* ===== verification/Odbc_Collections.thy ===== *)
theory Odbc_Collections
  imports Odbc_ObjectFields
begin

text \<open>
  Collections: a range of values written in a container session, whose count is patched into the header when the session
  is committed, and read back element by element until the session ends. The lemmas are proved once for every typed
  value of the protocol.
\<close>

definition collection_bytes :: "int \<Rightarrow> ('a \<Rightarrow> u8 list) \<Rightarrow> 'a list \<Rightarrow> u8 list" where
  "collection_bytes kind code vs =
     int_bytes 1 DOCUMENTDB_TYPE_COLLECTION @ int_bytes 4 (int (length vs)) @ int_bytes 1 kind @ concat (map code vs)"

lemma skip_four_room:
  assumes "out_inv s" and "out_pos s + 4 \<le> INT32_MAX"
  shows "\<exists>s' xs. andThen out_Position (\<lambda>pos. out_SetPosition (to_signed 32 (pos + 4))) s = Inr ((), s')
           \<and> out_inv s' \<and> length xs = 4 \<and> prefix s' = prefix s @ xs"
proof -
  have p: "to_signed 32 (out_pos s + 4) = out_pos s + 4"
    using assms by (intro int32_nonneg) (simp_all add: out_inv_def)
  obtain s1 k where "EnsureCapacity (out_pos s + 4) s = Inr ((), s1)" "out_pos s1 = out_pos s"
    using EnsureCapacity_grows [OF assms] by blast
  then have "map_sum id snd (out_Reserve 4 s) = map_sum id snd (andThen out_Position (\<lambda>pos. out_SetPosition (to_signed 32 (pos + 4))) s)"
    by (simp add: out_Reserve_def out_Position_def out_SetPosition_def out_Shift_def p)
  then show ?thesis
    using out_Reserve_room [OF assms(1) _ assms(2)]
    by (cases "andThen out_Position (\<lambda>pos. out_SetPosition (to_signed 32 (pos + 4))) s") fastforce+
qed

context typed_codec
begin

abbreviation "elem_bytes \<equiv> typed_bytes hdr enc"

lemma elements_written:
  "list_all ok vs \<Longrightarrow> wr_elemId w = i \<Longrightarrow> out_inv (wr_stream w) \<Longrightarrow>
   out_pos (wr_stream w) + int (length (concat (map elem_bytes vs))) \<le> INT32_MAX \<Longrightarrow>
   0 \<le> wr_elemCnt w \<Longrightarrow> wr_elemCnt w + int (length vs) \<le> INT32_MAX \<Longrightarrow>
   \<exists>s'. for_each (WriteElement i) (map (wr_WriteTopObject wr hdr) vs) w =
          Inr ((), w\<lparr>wr_stream := s', wr_elemCnt := wr_elemCnt w + int (length vs)\<rparr>)
        \<and> out_inv s' \<and> prefix s' = prefix (wr_stream w) @ map Some (concat (map elem_bytes vs))"
proof (induction vs arbitrary: w)
  case Nil
  then show ?case by (intro exI [of _ "wr_stream w"]) simp
next
  case (Cons v vs)
  obtain s1 where s1: "on_out (write_typed wr hdr v) w = Inr ((), w\<lparr>wr_stream := s1\<rparr>)" "out_inv s1"
      "prefix s1 = prefix (wr_stream w) @ map Some (elem_bytes v)"
    using on_out_appends [OF typed_written, of v w] Cons.prems by auto
  have pos: "out_pos s1 = out_pos (wr_stream w) + int (length (elem_bytes v))"
    using length_prefix [OF s1(2)] length_prefix [OF Cons.prems(3)] s1(3) by simp
  have "to_signed 32 (wr_elemCnt w + 1) = wr_elemCnt w + 1"
    using Cons.prems(5,6) by (intro int32_nonneg) simp_all
  then have one: "WriteElement i (wr_WriteTopObject wr hdr v) w = Inr ((), w\<lparr>wr_stream := s1, wr_elemCnt := wr_elemCnt w + 1\<rparr>)"
    using s1(1) Cons.prems(2) by (simp add: WriteElement_def wr_CheckSession_def wr_WriteTopObject_def count_element_def)
  let ?w1 = "w\<lparr>wr_stream := s1, wr_elemCnt := wr_elemCnt w + 1\<rparr>"
  obtain s2 where "for_each (WriteElement i) (map (wr_WriteTopObject wr hdr) vs) ?w1 =
        Inr ((), ?w1\<lparr>wr_stream := s2, wr_elemCnt := wr_elemCnt ?w1 + int (length vs)\<rparr>)"
      "out_inv s2" "prefix s2 = prefix s1 @ map Some (concat (map elem_bytes vs))"
    using Cons.IH [of ?w1] Cons.prems s1(2) pos by (auto simp: algebra_simps)
  then show ?case
    using one s1(3) by (intro exI [of _ s2]) (simp add: algebra_simps)
qed

lemma collection_written:
  assumes "raw_writer w" and "wr_elemCnt w = 0" and "list_all ok vs" and "int_fits 1 kind"
    and "out_pos (wr_stream w) + int (length (collection_bytes kind elem_bytes vs)) \<le> INT32_MAX"
    and "int (length vs) \<le> INT32_MAX"
  shows "\<exists>w'. wr_WriteCollection_range (map (wr_WriteTopObject wr hdr) vs) kind w = Inr ((), w') \<and> raw_writer w' \<and> wr_elemCnt w' = 0
           \<and> prefix (wr_stream w') = prefix (wr_stream w) @ map Some (collection_bytes kind elem_bytes vs)"
proof -
  let ?s = "wr_stream w" and ?i = "to_signed 32 (wr_elemIdGen w + 1)" and ?els = "concat (map elem_bytes vs)"
  have inv: "out_inv ?s" and raw: "wr_rawPos w \<noteq> -1" "wr_elemId w = 0"
    using assms(1) by (simp_all add: raw_writer_def)
  have room: "out_pos ?s + 6 + int (length ?els) \<le> INT32_MAX"
    using assms(5) by (simp add: collection_bytes_def)
  obtain s1 where s1: "out_WriteInt8 DOCUMENTDB_TYPE_COLLECTION ?s = Inr ((), s1)" "out_inv s1"
      "prefix s1 = prefix ?s @ map Some (int_bytes 1 DOCUMENTDB_TYPE_COLLECTION)"
    using int8.written [of DOCUMENTDB_TYPE_COLLECTION] inv room unfolding appends_def by (fastforce simp: int_fits_def)
  have p1: "out_pos s1 = out_pos ?s + 1"
    using length_prefix [OF s1(2)] length_prefix [OF inv] s1(3) by simp
  obtain s2 xs where s2: "andThen out_Position (\<lambda>pos. out_SetPosition (to_signed 32 (pos + 4))) s1 = Inr ((), s2)" "out_inv s2"
      "length xs = 4" "prefix s2 = prefix s1 @ xs"
    using skip_four_room [OF s1(2)] p1 room by auto
  have p2: "out_pos s2 = out_pos ?s + 5"
    using length_prefix [OF s2(2)] length_prefix [OF s1(2)] s2(3,4) p1 by simp
  obtain s3 where s3: "out_WriteInt8 kind s2 = Inr ((), s3)" "out_inv s3" "prefix s3 = prefix s2 @ map Some (int_bytes 1 kind)"
    using int8.written [OF assms(4)] s2(2) p2 room unfolding appends_def by fastforce
  have p3: "out_pos s3 = out_pos ?s + 6"
    using length_prefix [OF s3(2)] length_prefix [OF s2(2)] s3(3) p2 by simp
  let ?w1 = "w\<lparr>wr_elemIdGen := ?i, wr_elemId := ?i, wr_elemPos := out_pos ?s\<rparr>"
  let ?w3 = "?w1\<lparr>wr_stream := s3\<rparr>"
  have start: "wr_StartContainerSession True w = Inr ((), ?w1)"
    using raw by (simp add: wr_StartContainerSession_def wr_CheckRawMode_def wr_CheckSingleMode_def on_out_def out_Position_def)
  have header: "container_header DOCUMENTDB_TYPE_COLLECTION (Some kind) ?w1 = Inr (?i, ?w3)"
    using s1(1) s2(1) s3(1) by (simp add: container_header_def on_out_def)
  obtain s4 where s4: "for_each (WriteElement ?i) (map (wr_WriteTopObject wr hdr) vs) ?w3 =
        Inr ((), ?w3\<lparr>wr_stream := s4, wr_elemCnt := int (length vs)\<rparr>)" "out_inv s4" "prefix s4 = prefix s3 @ map Some ?els"
    using elements_written [OF assms(3), of ?w3 ?i] s3(2) p3 room assms(2,6) by auto
  have "to_signed 32 (out_pos ?s + 1) = out_pos ?s + 1" "out_pos ?s + 1 = int (length (prefix ?s @ map Some (int_bytes 1 DOCUMENTDB_TYPE_COLLECTION)))"
    using inv room length_prefix [OF inv] by (auto intro!: int32_nonneg simp: out_inv_def)
  moreover obtain s5 where s5: "out_write_at (out_pos ?s + 1) (int_bytes 4 (int (length vs))) s4 = Inr ((), s5)" "out_inv s5"
      "prefix s5 = prefix ?s @ map Some (collection_bytes kind elem_bytes vs)"
    using out_patch [OF s4(2), of "prefix ?s @ map Some (int_bytes 1 DOCUMENTDB_TYPE_COLLECTION)" xs
        "map Some (int_bytes 1 kind @ ?els)" "int_bytes 4 (int (length vs))" "out_pos ?s + 1"]
      s1(3) s2(3,4) s3(3) s4(3) calculation(2) by (auto simp: collection_bytes_def)
  let ?w5 = "?w3\<lparr>wr_stream := s5, wr_elemCnt := 0, wr_elemId := 0, wr_elemPos := -1\<rparr>"
  have "wr_WriteCollection_range (map (wr_WriteTopObject wr hdr) vs) kind w = Inr ((), ?w5)"
    using start header s4(1) s5(1) calculation(1)
    by (simp add: wr_WriteCollection_range_def WriteCollectionWithinSession_def CommitContainer_def wr_CheckSession_def
        on_out_def out_WriteInt32_at_def)
  then show ?thesis
    using raw s5(2,3) by (intro exI [of _ ?w5]) (simp add: raw_writer_def)
qed

lemma elements_received:
  "list_all ok vs \<Longrightarrow> vs \<noteq> [] \<Longrightarrow> rd_elemId r = i \<Longrightarrow> i \<noteq> 0 \<Longrightarrow> 0 \<le> rd_elemRead r \<Longrightarrow>
   rd_elemCnt r = rd_elemRead r + int (length vs) \<Longrightarrow> rd_elemCnt r \<le> INT32_MAX \<Longrightarrow> in_inv (rd_stream r) \<Longrightarrow>
   ahead (rd_stream r) = map Some (concat (map elem_bytes vs)) @ rest \<Longrightarrow> length vs < turns \<Longrightarrow>
   read_elements turns i (rd_ReadTopObject hdr rd dflt) r =
     Inr (vs, r\<lparr>rd_stream := moved_by (length (concat (map elem_bytes vs))) (rd_stream r),
                rd_elemId := 0, rd_elemCnt := -1, rd_elemRead := 0\<rparr>)"
proof (induction vs arbitrary: r turns)
  case (Cons v vs)
  obtain t where t: "turns = Suc t" "length vs < t"
    using Cons.prems(10) by (cases turns) auto
  have n: "to_signed 32 (rd_elemRead r + 1) = rd_elemRead r + 1"
    using Cons.prems(5-7) by (intro int32_nonneg) simp_all
  have "consumes (andThen in_ReadInt8 (\<lambda>typeId. if typeId = hdr then rd else if typeId = DOCUMENTDB_HDR_NULL then ret dflt
      else invalid_header_here hdr typeId)) (elem_bytes v) v"
    unfolding typed_bytes_def using Cons.prems(1) by (intro header_consumed) (simp add: consumed)
  note c = consumesD [OF this Cons.prems(8), of "map Some (concat (map elem_bytes vs)) @ rest"]
  have c': "rd_ReadTopObject hdr rd dflt (r\<lparr>rd_elemId := a, rd_elemCnt := b, rd_elemRead := d\<rparr>) =
      Inr (v, r\<lparr>rd_elemId := a, rd_elemCnt := b, rd_elemRead := d, rd_stream := moved_by (length (elem_bytes v)) (rd_stream r)\<rparr>)" for a b d
    using c(1) Cons.prems(9) by (simp add: rd_ReadTopObject_def on_in_def)
  show ?case
  proof (cases "vs = []")
    case True
    obtain t' where "t = Suc t'"
      using t(2) by (cases t) auto
    then show ?thesis
      using True t(1) n c' [where a = 0 and b = "-1" and d = 0] Cons.prems(3-6)
      by (simp add: HasNextElement_def ReadElement_def rd_CheckSession_def element_read_def)
  next
    case False
    let ?r1 = "r\<lparr>rd_elemRead := rd_elemRead r + 1, rd_stream := moved_by (length (elem_bytes v)) (rd_stream r)\<rparr>"
    have "read_elements t i (rd_ReadTopObject hdr rd dflt) ?r1 =
        Inr (vs, ?r1\<lparr>rd_stream := moved_by (length (concat (map elem_bytes vs))) (rd_stream ?r1),
                   rd_elemId := 0, rd_elemCnt := -1, rd_elemRead := 0\<rparr>)"
      using Cons.prems c(2,3) False t(2) by (intro Cons.IH) simp_all
    moreover have "rd_ReadTopObject hdr rd dflt (r\<lparr>rd_elemRead := rd_elemRead r + 1\<rparr>) = Inr (v, ?r1)"
      using c' [where a = "rd_elemId r" and b = "rd_elemCnt r" and d = "rd_elemRead r + 1"] by simp
    ultimately show ?thesis
      using False t(1) n Cons.prems(3-6)
      by (simp add: HasNextElement_def ReadElement_def rd_CheckSession_def element_read_def)
  qed
qed simp

lemma collection_received:
  assumes "raw_reader r" and "0 \<le> rd_elemIdGen r" and "rd_elemIdGen r < INT32_MAX" and "list_all ok vs" and "int_fits 1 kind"
    and "int (length vs) \<le> INT32_MAX" and "ahead (rd_stream r) = map Some (collection_bytes kind elem_bytes vs) @ rest"
    and "length vs < turns"
  shows "\<exists>r'. rd_ReadCollection_into turns (rd_ReadTopObject hdr rd dflt) r = Inr ((int (length vs), vs), r') \<and> raw_reader r'
           \<and> ahead (rd_stream r') = rest"
proof -
  let ?s = "rd_stream r" and ?i = "rd_elemIdGen r + 1" and ?els = "concat (map elem_bytes vs)"
  have inv: "in_inv ?s" and raw: "rd_rawMode r" "rd_elemId r = 0"
    using assms(1) by (simp_all add: raw_reader_def)
  have i: "to_signed 32 ?i = ?i" "?i \<noteq> 0"
    using assms(2,3) by (auto intro!: int32_nonneg)
  have fits: "int_fits 1 DOCUMENTDB_TYPE_COLLECTION" "int_fits 4 (int (length vs))"
    using assms(6) by (simp_all add: int_fits_def INT32_MAX_def)
  have a: "ahead ?s = map Some (int_bytes 1 DOCUMENTDB_TYPE_COLLECTION) @ map Some (int_bytes 4 (int (length vs))) @
      map Some (int_bytes 1 kind) @ map Some ?els @ rest"
    using assms(7) by (simp add: collection_bytes_def)
  note c1 = consumesD [OF int8.consumed [OF fits(1)] inv a]
  note c2 = consumesD [OF int32.consumed [OF fits(2)] c1(2,3)]
  note c3 = consumesD [OF int8.consumed [OF assms(5)] c2(2,3)]
  show ?thesis
  proof (cases "vs = []")
    case True
    let ?r = "r\<lparr>rd_elemIdGen := ?i, rd_stream := moved_by 6 ?s\<rparr>"
    obtain t where "turns = Suc t"
      using assms(8) by (cases turns) auto
    then have "rd_ReadCollection_into turns (rd_ReadTopObject hdr rd dflt) r = Inr ((0, []), ?r)"
      using c1(1) c2(1) c3(1) True raw i
      by (simp add: rd_ReadCollection_into_def read_session_def rd_StartContainerSession_def rd_in_mode_raw [OF assms(1)]
          on_in_def next_session_def HasNextElement_def)
    then show ?thesis
      using True raw c3(2,3) by (intro exI [of _ ?r]) (simp add: raw_reader_def)
  next
    case False
    let ?r = "r\<lparr>rd_elemIdGen := ?i, rd_elemId := ?i, rd_elemCnt := int (length vs), rd_elemRead := 0, rd_stream := moved_by 6 ?s\<rparr>"
    have st: "in_inv (moved_by 6 ?s)" "ahead (moved_by 6 ?s) = map Some ?els @ rest"
      using c3(2,3) by simp_all
    have "read_elements turns ?i (rd_ReadTopObject hdr rd dflt) ?r =
        Inr (vs, ?r\<lparr>rd_stream := moved_by (length ?els) (moved_by 6 ?s), rd_elemId := 0, rd_elemCnt := -1, rd_elemRead := 0\<rparr>)"
      using elements_received [of vs ?r ?i rest turns] assms(4,6,8) False i(2) st by simp
    then have "rd_ReadCollection_into turns (rd_ReadTopObject hdr rd dflt) r = Inr ((int (length vs), vs),
        ?r\<lparr>rd_stream := moved_by (length ?els) (moved_by 6 ?s), rd_elemId := 0, rd_elemCnt := -1, rd_elemRead := 0\<rparr>)"
      using c1(1) c2(1) c3(1) False raw i
      by (simp add: rd_ReadCollection_into_def read_session_def rd_StartContainerSession_def rd_in_mode_raw [OF assms(1)]
          on_in_def next_session_def)
    moreover have "in_inv (moved_by (length ?els) (moved_by 6 ?s))" "ahead (moved_by (length ?els) (moved_by 6 ?s)) = rest"
      using ahead_advance [OF st] by (simp_all add: moved_by_def)
    ultimately show ?thesis
      using raw by (auto simp: raw_reader_def)
  qed
qed

end

text \<open>(C16) Collections: a range of 64-bit integers of any length is written in a container session and read back, with the
  count that the session patched into the header, as the same values in the same order; the loop that reads them needs
  one test more than there are elements.\<close>

theorem collection_roundtrip:
  assumes "0 \<le> cap" and "cap \<le> INT32_MAX" and "list_all (int_fits 8) vs" and "int_fits 1 kind"
    and "int (length (collection_bytes kind (typed_bytes DOCUMENTDB_TYPE_LONG (int_bytes 8)) vs)) \<le> INT32_MAX"
    and "length vs < turns"
  shows "\<exists>w'. wr_WriteCollection_range (map (wr_WriteTopObject out_WriteInt64 DOCUMENTDB_TYPE_LONG) vs) kind
            (newRawWriter (newInteropOutputStream (newInteropUnpooledMemory cap)) mgr) = Inr ((), w')
    \<and> map_sum id fst (rd_ReadCollection_into turns (rd_ReadTopObject DOCUMENTDB_TYPE_LONG in_ReadInt64 0)
          (newRawReader (newInteropInputStream ((out_mem (wr_stream w'))\<lparr>Length := out_pos (wr_stream w')\<rparr>)))) =
        Inr (int (length vs), vs)"
proof -
  let ?s0 = "newInteropOutputStream (newInteropUnpooledMemory cap)"
  let ?w0 = "newRawWriter ?s0 mgr" and ?bs = "collection_bytes kind (typed_bytes DOCUMENTDB_TYPE_LONG (int_bytes 8)) vs"
  have s0: "out_inv ?s0" "out_pos ?s0 = 0" "prefix ?s0 = []"
    using new_out_inv assms(1,2) by (simp_all add: prefix_def newInteropOutputStream_def)
  have w0: "raw_writer ?w0" "wr_elemCnt ?w0 = 0" "wr_stream ?w0 = ?s0"
    using s0 by (simp_all add: raw_writer_def newRawWriter_def)
  have "length (concat (map (typed_bytes DOCUMENTDB_TYPE_LONG (int_bytes 8)) vs)) = 9 * length vs"
    by (induction vs) (simp_all add: typed_bytes_def)
  then have n: "int (length vs) \<le> INT32_MAX"
    using assms(5) by (simp add: collection_bytes_def)
  obtain w' where w': "wr_WriteCollection_range (map (wr_WriteTopObject out_WriteInt64 DOCUMENTDB_TYPE_LONG) vs) kind ?w0 = Inr ((), w')"
      "raw_writer w'" "prefix (wr_stream w') = map Some ?bs"
    using t_int64.collection_written [OF w0(1,2) assms(3,4) _ n] w0(3) s0(2,3) assms(5) by auto
  let ?t = "newInteropInputStream ((out_mem (wr_stream w'))\<lparr>Length := out_pos (wr_stream w')\<rparr>)"
  have "in_inv ?t"
    using w'(2) by (simp only: raw_writer_def in_inv_def out_inv_def newInteropInputStream_def) simp
  moreover have "ahead ?t = map Some ?bs @ []"
    using w'(3) by (simp add: ahead_def prefix_def newInteropInputStream_def)
  ultimately show ?thesis
    using w'(1) t_int64.collection_received [of "newRawReader ?t" vs kind "[]" turns] assms(3,4,6) n
    by (auto simp: raw_reader_def newRawReader_def INT32_MAX_def)
qed

theorem collection_roundtrip_witness:
  "\<exists>w'. wr_WriteCollection_range (map (wr_WriteTopObject out_WriteInt64 4) [5, -7]) 1
            (newRawWriter (newInteropOutputStream (newInteropUnpooledMemory 0)) None) = Inr ((), w')
    \<and> map_sum id fst (rd_ReadCollection_into 3 (rd_ReadTopObject 4 in_ReadInt64 0)
          (newRawReader (newInteropInputStream ((out_mem (wr_stream w'))\<lparr>Length := out_pos (wr_stream w')\<rparr>)))) =
        Inr (2, [5, -7])"
  using collection_roundtrip [of 0 "[5, -7]" 1 3 None]
  by (simp add: int_fits_def INT32_MAX_def collection_bytes_def typed_bytes_def)

end
