(* ===== verification/Odbc_ObjectLookup.thy ===== *)
theory Odbc_ObjectLookup
  imports Odbc_ObjectFields
begin

text \<open>
  Looking a field up in an object in memory (\<open>BinaryObjectImpl\<close>), which walks the same footer as the reader. It finds the
  fields of an object that begins its memory; for an object further on, the end of the footer is counted from the start
  of the memory and compared with the length from the start of the object.
\<close>

lemma read_offset_mem_holds:
  assumes "in_inv (newInteropInputStream m)" and "holds_at (newInteropInputStream m) p (offset_bytes ty off)"
    and "0 \<le> off" and "off < offset_limit ty"
  shows "read_offset_mem ty m p = Inr off"
  using assms mem_ReadInt_holds [OF assms(1), of p 1 off False] mem_ReadInt_holds [OF assms(1), of p 2 off False]
    mem_ReadInt_holds [OF assms(1), of p 4 off False]
  by (cases ty) (simp_all add: mod_to_signed int32_nonneg INT32_MAX_def del: One_nat_def)

lemma find_in_memory_holds:
  assumes "in_inv (newInteropInputStream m)" and "int_fits 4 fid" and "0 \<le> start"
  shows "holds_at (newInteropInputStream m) p (footer_bytes ty es) \<Longrightarrow> list_all (entry_ok ty) es \<Longrightarrow>
    list_all (\<lambda>e. snd e + start \<le> INT32_MAX) es \<Longrightarrow>
    find_in_memory ty m fid start p (p + entry_size ty * int (length es)) =
      Inr (case map_of es fid of Some off \<Rightarrow> off + start | None \<Rightarrow> -1)"
proof (induction es arbitrary: p)
  case Nil
  then show ?case by (subst find_in_memory.simps) simp
next
  case (Cons e es)
  let ?t = "newInteropInputStream m"
  have size: "0 < entry_size ty"
    by (cases ty) simp_all
  have h: "holds_at ?t p (int_bytes 4 (fst e))" "holds_at ?t (p + 4) (offset_bytes ty (snd e))"
    "holds_at ?t (p + entry_size ty) (footer_bytes ty es)"
    using Cons.prems(1) length_entry_bytes [of ty e]
    by (simp_all add: footer_bytes_Cons holds_at_append) (simp_all add: entry_bytes_def holds_at_append)
  have ok: "int_fits 4 (fst e)" "0 \<le> snd e" "snd e < offset_limit ty" "snd e + start \<le> INT32_MAX"
    using Cons.prems by (auto simp: entry_ok_def)
  have i: "mem_ReadInt False 4 m p = Inr (fst e)"
    using mem_ReadInt_holds [OF assms(1) h(1)] ok(1) by (simp add: int_fits_def to_signed_id)
  have end': "p + entry_size ty * int (length (e # es)) = (p + entry_size ty) + entry_size ty * int (length es)"
    by (simp add: algebra_simps)
  have lt: "p < p + entry_size ty * int (length (e # es))"
    using size by simp
  show ?case
  proof (cases "fid = fst e")
    case True
    have "to_signed 32 (snd e + start) = snd e + start"
      using ok assms(3) by (intro int32_nonneg) auto
    then show ?thesis
      using True lt i read_offset_mem_holds [OF assms(1) h(2) ok(2,3)]
      by (subst find_in_memory.simps) (cases e, simp)
  next
    case False
    have "find_in_memory ty m fid start (p + entry_size ty) ((p + entry_size ty) + entry_size ty * int (length es)) =
        Inr (case map_of es fid of Some off \<Rightarrow> off + start | None \<Rightarrow> -1)"
      using Cons.IH [OF h(3)] Cons.prems(2,3) by simp
    then show ?thesis
      using False lt i unfolding end' [symmetric]
      by (subst find_in_memory.simps) (cases e, simp)
  qed
qed

lemma entries_None: "map_of (entries g off fs) k = None \<longleftrightarrow> k \<notin> g ` fst ` set fs"
  by (induction g off fs rule: entries.induct) auto

lemma entries_lookup:
  assumes "inj_on g (insert n (fst ` set fs))" and "0 \<le> off"
  shows "0 \<le> (case map_of (entries g off fs) (g n) of Some o' \<Rightarrow> o' | None \<Rightarrow> -1) \<longleftrightarrow> n \<in> fst ` set fs"
proof -
  have "g n \<in> g ` fst ` set fs \<longleftrightarrow> n \<in> fst ` set fs"
    using inj_on_image_mem_iff [OF assms(1), of n "fst ` set fs"] by auto
  moreover have "0 \<le> o'" if "map_of (entries g off fs) (g n) = Some o'" for o'
    using entries_offsets [OF map_of_SomeD [OF that]] assms(2) by simp
  ultimately show ?thesis
    using entries_None [of g off fs "g n"] by (cases "map_of (entries g off fs) (g n)") auto
qed

text \<open>The object that a writer left at the end of its memory.\<close>

definition written_object :: "int \<Rightarrow> (string \<Rightarrow> int) \<Rightarrow> InteropMemory \<Rightarrow> int \<Rightarrow> BinaryObjectImpl" where
  "written_object typeId g m p =
     \<lparr>obj_mem = m, obj_start = p, obj_idRslvr = Some (TemplatedBinaryIdResolver typeId g), obj_metaMgr = None, obj_binary = False\<rparr>"

lemma obj_FindField_at:
  assumes "in_inv (newInteropInputStream m)" and "object_at (newInteropInputStream m) p typeId schemaId es data"
    and "Length m = p + 24 + int (length data) + int (length (footer_bytes (footer_type es) es))"
    and "int_fits 4 fid" and "list_all (entry_ok (footer_type es)) es" and "list_all (\<lambda>e. snd e + p \<le> INT32_MAX) es"
    and "obj_mem ob = m" and "obj_start ob = p"
  shows "obj_FindField ob fid =
    (if p = 0 then Inr (case map_of es fid of Some off \<Rightarrow> off | None \<Rightarrow> -1)
     else Inl (Thrown DOCUMENTDB_ERR_BINARY ''Not enough data in the binary object'' [(''len'', Length m - p), (''footerEnd'', Length m)]))"
proof -
  let ?foot = "footer_bytes (footer_type es) es" and ?off = "24 + int (length data)"
  note part = object_at_parts [OF assms(2)]
  note rd = mem_ReadInt_holds [OF assms(1)]
  have p: "0 \<le> p" "Length m \<le> INT32_MAX"
    using part(1) assms(1) by (auto simp: holds_at_def in_inv_def newInteropInputStream_def)
  then have wrap: "to_signed 32 ?off = ?off" "to_signed 32 (?off + int (length ?foot)) = ?off + int (length ?foot)"
    "to_signed 32 (int (length ?foot)) = int (length ?foot)" "to_signed 32 (?off + p) = ?off + p"
    "to_signed 32 (?off + p + int (length ?foot)) = Length m" "to_signed 32 (Length m - p) = Length m - p"
    using assms(3) by (auto intro!: int32_nonneg simp: algebra_simps)
  have "hdr_GetFlags m p = Inr (object_flags es)"
    using rd [OF part(2)] by (simp add: hdr_GetFlags_def object_flags_word)
  moreover have len: "hdr_GetLength m p = Inr (?off + int (length ?foot))"
    using rd [OF part(3)] wrap(2) by (simp add: hdr_GetLength_def)
  moreover have "hdr_GetSchemaOffset m p = Inr ?off"
    using rd [OF part(4)] wrap(1) by (simp add: hdr_GetSchemaOffset_def)
  ultimately have hdr: "hdr_GetFooterOffset m p = Inr ?off" "hdr_GetFooterLength m p = Inr (int (length ?foot))"
    "hdr_GetFlags m p = Inr (object_flags es)"
    using wrap(3) by (cases "es = []"; simp add: hdr_GetFooterOffset_def hdr_GetFooterLength_def has_schema footer_bytes_def [of _ "[]"])+
  have "find_in_memory (footer_type es) m fid p (p + ?off) (p + ?off + entry_size (footer_type es) * int (length es)) =
      Inr (case map_of es fid of Some off \<Rightarrow> off + p | None \<Rightarrow> -1)"
    using find_in_memory_holds [OF assms(1,4) p(1), of "p + ?off"] part(6) assms(5,6) by (simp add: add.assoc)
  moreover have "p + ?off + entry_size (footer_type es) * int (length es) = Length m"
    using assms(3) length_footer_bytes [of "footer_type es" es] by simp
  ultimately have find: "find_in_memory (footer_type es) m fid p (?off + p) (Length m) =
      Inr (case map_of es fid of Some off \<Rightarrow> off + p | None \<Rightarrow> -1)"
    by (simp add: add.commute)
  show ?thesis
    using hdr find wrap(4-6) p(1) assms(7,8)
    by (cases "p = 0"; cases "footer_type es") (simp_all add: obj_FindField_def open_flags Let_def cong: option.case_cong)
qed

text \<open>Looking up a field in memory: an object with the same fields, written at some position of a memory that it ends.
  If it begins the memory, \<open>HasField\<close> answers whether the name is one of its fields. If anything precedes it, the lookup
  is refused with an error that there is not enough data, whatever the name.\<close>

theorem HasField_written:
  assumes "raw_writer w" and "wr_metaMgr w = None" and "int_fits 4 typeId"
    and "list_all (\<lambda>f. value_ok (snd f)) fs" and "inj_on g (insert n (fst ` set fs))" and "\<And>n. int_fits 4 (g n)"
    and "out_pos (wr_stream w) + object_size g fs \<le> INT32_MAX"
  shows "\<exists>w'. WriteTopObject0 (fields_type typeId g qs) fs w = Inr ((), w')
    \<and> HasField service n (written_object typeId g (out_mem (wr_stream w')) (out_pos (wr_stream w))) =
        (if out_pos (wr_stream w) = 0 then Inr (n \<in> fst ` set fs)
         else Inl (Thrown DOCUMENTDB_ERR_BINARY ''Not enough data in the binary object''
                     [(''len'', object_size g fs), (''footerEnd'', out_pos (wr_stream w) + object_size g fs)]))"
proof -
  let ?s = "wr_stream w" and ?es = "entries g 24 fs" and ?data = "data_bytes fs"
  let ?hash = "map Some (int_bytes 4 (data_hash 1 (data_bytes fs)))"
  have ids: "list_all (\<lambda>f. int_fits 4 (g (fst f))) fs"
    using assms(6) by (simp add: list_all_iff)
  obtain s' sid where w: "WriteTopObject0 (fields_type typeId g qs) fs w = Inr ((), w\<lparr>wr_stream := s'\<rparr>)"
      and s': "out_inv s'" "Length (out_mem s') = out_pos s'" "int_fits 4 sid" "prefix s' = prefix ?s @ object_cells ?hash typeId sid ?es ?data"
    using WriteTopObject0_writes [OF assms(1-4) ids assms(7), of qs] by blast
  let ?ob = "written_object typeId g (out_mem s') (out_pos ?s)"
  have pos: "out_pos ?s = int (length (prefix ?s))" "0 \<le> out_pos ?s"
    using length_prefix [of ?s] assms(1) by (simp_all add: raw_writer_def out_inv_def)
  have at: "object_at (newInteropInputStream (out_mem s')) (out_pos ?s) typeId sid ?es ?data"
    using object_cells_at [OF s'(1,2) _ s'(4) pos(1)] by simp
  have len: "Length (out_mem s') = out_pos ?s + object_size g fs"
    using length_prefix [OF s'(1)] s'(2,4) pos(1) by (simp add: length_object_cells object_size_def)
  have size: "24 + int (length ?data) + out_pos ?s \<le> INT32_MAX"
    using assms(7) by (simp add: object_size_def)
  then have ok: "list_all (entry_ok (footer_type ?es)) ?es" "list_all (\<lambda>e. snd e + out_pos ?s \<le> INT32_MAX) ?es"
    using entries_ok [OF ids, of 24] entries_offsets [of _ g 24 fs] pos(2) by (fastforce simp: list_all_iff)+
  have "obj_FindField ?ob (g n) = (if out_pos ?s = 0 then Inr (case map_of ?es (g n) of Some off \<Rightarrow> off | None \<Rightarrow> -1)
      else Inl (Thrown DOCUMENTDB_ERR_BINARY ''Not enough data in the binary object''
        [(''len'', Length (out_mem s') - out_pos ?s), (''footerEnd'', Length (out_mem s'))]))"
    using len by (intro obj_FindField_at [OF memory_stream [OF s'(1,2)] at _ assms(6) ok])
      (simp_all add: written_object_def object_size_def)
  moreover have "obj_GetTypeId ?ob = Inr typeId"
  proof -
    have "holds_at (newInteropInputStream (out_mem s')) (out_pos ?s + 4) (int_bytes 4 typeId)"
      using at by (simp add: object_at_def Let_def holds_at_append add.assoc)
    then show ?thesis
      using mem_ReadInt_holds [OF memory_stream [OF s'(1,2)]] assms(3)
      by (simp add: obj_GetTypeId_def hdr_GetTypeId_def written_object_def int_fits_def to_signed_id)
  qed
  moreover have "(case map_of ?es (g n) of Some off \<Rightarrow> off | None \<Rightarrow> -1) \<ge> 0 \<longleftrightarrow> n \<in> fst ` set fs"
    using entries_lookup [OF assms(5), of 24] by simp
  ultimately have "HasField service n ?ob = (if out_pos ?s = 0 then Inr (n \<in> fst ` set fs)
      else Inl (Thrown DOCUMENTDB_ERR_BINARY ''Not enough data in the binary object''
        [(''len'', object_size g fs), (''footerEnd'', out_pos ?s + object_size g fs)]))"
    using len
    by (simp add: HasField_def obj_field_position_def CheckIdResolver_def written_object_def TemplatedBinaryIdResolver_def)
  then show ?thesis
    using w by (intro exI [of _ "w\<lparr>wr_stream := s'\<rparr>"]) simp
qed

end
