(* ===== verification/Odbc_ConnectionInfo.thy ===== *)
theory Odbc_ConnectionInfo
  imports Odbc_Connection
begin

text \<open>
  The table of driver properties that a connection starts with (the constructor of \<open>ConnectionInfo\<close> and
  \<open>InfoTypeToString\<close> in \<^verbatim>\<open>src/config/connection_info.cpp\<close>). The numbers of the information types and the constants
  their values are made of come from the ODBC headers, which are a parameter: a \<open>header\<close> tells which names are declared and with
  which number. An assignment stands between \<open>#ifdef\<close> and \<open>#endif\<close> of its information type; a constant in its value
  that is not declared is an error of the compiler, so there is no table then.
\<close>

type_synonym header = "string \<rightharpoonup> int"

text \<open>The value of an assignment: a number, or constants joined by \<open>|\<close>.\<close>

datatype info_value = Number int | Constants "string list"

text \<open>The constants that the source declares itself when the headers do not.\<close>

definition with_local :: "header \<Rightarrow> header" where
  "with_local h = map_of
     [(''SQL_ASYNC_NOTIFICATION'', 10025),
      (''SQL_ASYNC_NOTIFICATION_NOT_CAPABLE'', 0),
      (''SQL_ASYNC_NOTIFICATION_CAPABLE'', 1)] ++ h"

text \<open>\<open>Configuration::GetFormatedDriverVersion\<close>; the numbers of the version are set by the build.\<close>

definition GetFormatedDriverVersion :: "nat \<Rightarrow> nat \<Rightarrow> nat \<Rightarrow> string" where
  "GetFormatedDriverVersion major minor patch =
     pad_left 2 (CHR ''0'') (dec_string major) @ ''.'' @
     pad_left 2 (CHR ''0'') (dec_string minor) @ ''.'' @
     pad_left 4 (CHR ''0'') (dec_string patch)"

section \<open>The assignments\<close>

definition strParams_1 :: "string \<Rightarrow> (string \<times> string) list" where
  "strParams_1 version = [
     (''SQL_DRIVER_NAME'', ''Amazon DocumentDB''),
     (''SQL_DBMS_NAME'', ''Amazon DocumentDB''),
     (''SQL_DRIVER_ODBC_VER'', ''03.00''),
     (''SQL_DRIVER_VER'', version),
     (''SQL_DBMS_VER'', ''''),
     (''SQL_COLUMN_ALIAS'', ''Y''),
     (''SQL_IDENTIFIER_QUOTE_CHAR'', [CHR 0x22]),
     (''SQL_CATALOG_NAME_SEPARATOR'', ''.''),
     (''SQL_SPECIAL_CHARACTERS'', ''''),
     (''SQL_CATALOG_TERM'', ''''),
     (''SQL_QUALIFIER_TERM'', ''''),
     (''SQL_TABLE_TERM'', ''table''),
     (''SQL_SCHEMA_TERM'', ''schema''),
     (''SQL_NEED_LONG_DATA_LEN'', ''Y''),
     (''SQL_ACCESSIBLE_PROCEDURES'', ''Y''),
     (''SQL_ACCESSIBLE_TABLES'', ''Y''),
     (''SQL_CATALOG_NAME'', ''N''),
     (''SQL_COLLATION_SEQ'', ''UTF-8''),
     (''SQL_DATA_SOURCE_NAME'', ''''),
     (''SQL_DATA_SOURCE_READ_ONLY'', ''Y''),
     (''SQL_DATABASE_NAME'', '''')]"

definition strParams_2 :: "(string \<times> string) list" where
  "strParams_2 = [
     (''SQL_DESCRIBE_PARAMETER'', ''N''),
     (''SQL_EXPRESSIONS_IN_ORDERBY'', ''N''),
     (''SQL_INTEGRITY'', ''N''),
     (''SQL_KEYWORDS'', 
      ''ABS,ALLOW,ARRAY,ARRAY_MAX_CARDINALITY,ASYMMETRIC,ATOMIC,BEGIN_FRAME,'' @
      ''BEGIN_PARTITION,BIGINT,BINARY,BLOB,BOOLEAN,CALL,CALLED,CARDINALITY,CEIL,'' @
      ''CEILING,CHAR_LENGTH,CLASSIFIER,CLOB,COLLECT,CONDITION,CORR,COVAR_POP,'' @
      ''COVAR_SAMP,CUBE,CUME_DIST,CURRENT_CATALOG,CURRENT_DEFAULT_TRANSFORM_'' @
      ''GROUP,CURRENT_PATH,CURRENT_ROLE,CURRENT_ROW,CURRENT_SCHEMA,CURRENT_'' @
      ''TRANSFORM_GROUP_FOR_TYPE,CYCLE,DENSE_RANK,DEREF,DETERMINISTIC,DISALLOW,'' @
      ''DYNAMIC,EACH,ELEMENT,EMPTY,END_FRAME,END_PARTITION,EQUALS,EVERY,EXP,'' @
      ''EXPLAIN,EXTEND,FILTER,FIRST_VALUE,FLOOR,FRAME_ROW,FREE,FUNCTION,FUSION,'' @
      ''GROUPING,GROUPS,HOLD,IMPORT,INITIAL,INOUT,INTERSECTION,JSON_ARRAY,JSON_'' @
      ''ARRAYAGG,JSON_EXISTS,JSON_OBJECT,JSON_OBJECTAGG,JSON_QUERY,JSON_VALUE,'' @
      ''LAG,LARGE,LAST_VALUE,LATERAL,LEAD,LIKE_REGEX,LIMIT,LN,LOCALTIME,'' @
      ''LOCALTIMESTAMP,MATCHES,MATCH_NUMBER,MATCH_RECOGNIZE,MEASURES,MEMBER,'' @
      ''MERGE,METHOD,MINUS,MOD,MODIFIES,MULTISET,NCLOB,NEW,NORMALIZE,NTH_VALUE,'' @
      ''NTILE,OCCURRENCES_REGEX,OFFSET,OLD,OMIT,ONE,OUT,OVER,OVERLAY,PARAMETER,'' @
      ''PARTITION,PATTERN,PER,PERCENT,PERCENTILE_CONT,PERCENTILE_DISC,PERCENT_'' @
      ''RANK,PERIOD,PERMUTE,PORTION,POSITION_REGEX,POWER,PRECEDES,PREV,RANGE,'' @
      ''RANK,READS,RECURSIVE,REF,REFERENCING,REGR_AVGX,REGR_AVGY,REGR_COUNT,'' @
      ''REGR_INTERCEPT,REGR_R2,REGR_SLOPE,REGR_SXX,REGR_SXY,REGR_SYY,RELEASE,'' @
      ''RESET,RESULT,RETURN,RETURNS,ROLLUP,ROW,ROW_NUMBER,RUNNING,SAVEPOINT,'' @
      ''SCOPE,SEARCH,SEEK,SENSITIVE,SHOW,SIMILAR,SKIP,SPECIFIC,SPECIFICTYPE,'' @
      ''SQLEXCEPTION,SQRT,START,STATIC,STDDEV_POP,STDDEV_SAMP,STREAM,'' @
      ''SUBMULTISET,SUBSET,SUBSTRING_REGEX,SUCCEEDS,SYMMETRIC,SYSTEM,SYSTEM_'' @
      ''TIME,TABLESAMPLE,TINYINT,TRANSLATE_REGEX,TREAT,TRIGGER,TRIM_ARRAY,'' @
      ''TRUNCATE,UESCAPE,UNNEST,UPSERT,VALUE_OF,VARBINARY,VAR_POP,VAR_SAMP,'' @
      ''VERSIONING,WIDTH_BUCKET,WINDOW,WITHIN,WITHOUT''),
     (''SQL_LIKE_ESCAPE_CLAUSE'', ''Y''),
     (''SQL_MAX_ROW_SIZE_INCLUDES_LONG'', ''Y''),
     (''SQL_MULT_RESULT_SETS'', ''N''),
     (''SQL_MULTIPLE_ACTIVE_TXN'', ''N''),
     (''SQL_ORDER_BY_COLUMNS_IN_SELECT'', ''Y''),
     (''SQL_PROCEDURE_TERM'', ''stored procedure''),
     (''SQL_PROCEDURES'', ''N''),
     (''SQL_ROW_UPDATES'', ''N''),
     (''SQL_SEARCH_PATTERN_ESCAPE'', [CHR 0x5C]),
     (''SQL_SERVER_NAME'', ''Amazon DocumentDB''),
     (''SQL_USER_NAME'', '''')]"

definition intParams_1 :: "(string \<times> info_value) list" where
  "intParams_1 = [
     (''SQL_ASYNC_DBC_FUNCTIONS'', Constants [''SQL_ASYNC_DBC_NOT_CAPABLE'']),
     (''SQL_ASYNC_MODE'', Constants [''SQL_AM_NONE'']),
     (''SQL_ASYNC_NOTIFICATION'', Constants [''SQL_ASYNC_NOTIFICATION_NOT_CAPABLE'']),
     (''SQL_BATCH_ROW_COUNT'', Constants [''SQL_BRC_ROLLED_UP'', ''SQL_BRC_EXPLICIT'']),
     (''SQL_BATCH_SUPPORT'', Number 0),
     (''SQL_BOOKMARK_PERSISTENCE'', Number 0),
     (''SQL_CATALOG_LOCATION'', Number 0),
     (''SQL_QUALIFIER_LOCATION'', Number 0),
     (''SQL_GETDATA_EXTENSIONS'', Constants [''SQL_GD_ANY_COLUMN'', ''SQL_GD_ANY_ORDER'', ''SQL_GD_BOUND'']),
     (''SQL_ODBC_INTERFACE_CONFORMANCE'', Constants [''SQL_OIC_LEVEL1'']),
     (''SQL_SQL_CONFORMANCE'', Constants [''SQL_SC_SQL92_FULL''])]"

definition intParams_2 :: "(string \<times> info_value) list" where
  "intParams_2 = [
     (''SQL_CATALOG_USAGE'', Number 0),
     (''SQL_QUALIFIER_USAGE'', Number 0),
     (''SQL_SCHEMA_USAGE'', Constants [''SQL_SU_DML_STATEMENTS'', ''SQL_SU_TABLE_DEFINITION'',
         ''SQL_SU_PRIVILEGE_DEFINITION'', ''SQL_SU_INDEX_DEFINITION'']),
     (''SQL_AGGREGATE_FUNCTIONS'', Constants [''SQL_AF_AVG'', ''SQL_AF_COUNT'', ''SQL_AF_MAX'', ''SQL_AF_MIN'',
         ''SQL_AF_SUM'', ''SQL_AF_DISTINCT'', ''SQL_AF_ALL'']),
     (''SQL_NUMERIC_FUNCTIONS'', Constants [''SQL_FN_NUM_MOD'']),
     (''SQL_STRING_FUNCTIONS'', Constants [''SQL_FN_STR_CHAR_LENGTH'', ''SQL_FN_STR_CONCAT'', ''SQL_FN_STR_LEFT'',
         ''SQL_FN_STR_CHARACTER_LENGTH'', ''SQL_FN_STR_POSITION'', ''SQL_FN_STR_RIGHT'', ''SQL_FN_STR_SUBSTRING'',
         ''SQL_FN_STR_LCASE'', ''SQL_FN_STR_UCASE'']),
     (''SQL_TIMEDATE_FUNCTIONS'', Constants [''SQL_FN_TD_CURRENT_TIME'', ''SQL_FN_TD_CURRENT_DATE'',
         ''SQL_FN_TD_CURRENT_TIMESTAMP'', ''SQL_FN_TD_EXTRACT'', ''SQL_FN_TD_YEAR'', ''SQL_FN_TD_QUARTER'',
         ''SQL_FN_TD_MONTH'', ''SQL_FN_TD_WEEK'', ''SQL_FN_TD_DAYOFYEAR'', ''SQL_FN_TD_DAYOFMONTH'',
         ''SQL_FN_TD_DAYOFWEEK'', ''SQL_FN_TD_HOUR'', ''SQL_FN_TD_MINUTE'', ''SQL_FN_TD_SECOND'',
         ''SQL_FN_TD_DAYNAME'', ''SQL_FN_TD_MONTHNAME'']),
     (''SQL_TIMEDATE_ADD_INTERVALS'', Constants [''SQL_FN_TSI_FRAC_SECOND'', ''SQL_FN_TSI_SECOND'',
         ''SQL_FN_TSI_MINUTE'', ''SQL_FN_TSI_HOUR'', ''SQL_FN_TSI_DAY'', ''SQL_FN_TSI_WEEK'', ''SQL_FN_TSI_MONTH'',
         ''SQL_FN_TSI_QUARTER'', ''SQL_FN_TSI_YEAR'']),
     (''SQL_TIMEDATE_DIFF_INTERVALS'', Constants [''SQL_FN_TSI_FRAC_SECOND'', ''SQL_FN_TSI_SECOND'',
         ''SQL_FN_TSI_MINUTE'', ''SQL_FN_TSI_HOUR'', ''SQL_FN_TSI_DAY'', ''SQL_FN_TSI_WEEK'', ''SQL_FN_TSI_MONTH'',
         ''SQL_FN_TSI_QUARTER'', ''SQL_FN_TSI_YEAR'']),
     (''SQL_DATETIME_LITERALS'', Constants [''SQL_DL_SQL92_DATE'', ''SQL_DL_SQL92_TIME'',
         ''SQL_DL_SQL92_TIMESTAMP'']),
     (''SQL_SYSTEM_FUNCTIONS'', Constants [''SQL_FN_SYS_USERNAME'', ''SQL_FN_SYS_DBNAME'', ''SQL_FN_SYS_IFNULL'']),
     (''SQL_CONVERT_FUNCTIONS'', Constants [''SQL_FN_CVT_CAST'']),
     (''SQL_OJ_CAPABILITIES'', Constants [''SQL_OJ_LEFT'', ''SQL_OJ_NOT_ORDERED'', ''SQL_OJ_ALL_COMPARISON_OPS'']),
     (''SQL_POS_OPERATIONS'', Number 0),
     (''SQL_SQL92_NUMERIC_VALUE_FUNCTIONS'', Constants [''SQL_SNVF_CHARACTER_LENGTH'', ''SQL_SNVF_EXTRACT'',
         ''SQL_SNVF_POSITION''])]"

definition intParams_3 :: "(string \<times> info_value) list" where
  "intParams_3 = [
     (''SQL_SQL92_STRING_FUNCTIONS'', Constants [''SQL_SSF_LOWER'', ''SQL_SSF_UPPER'', ''SQL_SSF_SUBSTRING'']),
     (''SQL_SQL92_DATETIME_FUNCTIONS'', Constants [''SQL_SDF_CURRENT_DATE'', ''SQL_SDF_CURRENT_TIMESTAMP'']),
     (''SQL_SQL92_VALUE_EXPRESSIONS'', Constants [''SQL_SVE_CASE'', ''SQL_SVE_CAST'', ''SQL_SVE_COALESCE'',
         ''SQL_SVE_NULLIF'']),
     (''SQL_SQL92_PREDICATES'', Constants [''SQL_SP_BETWEEN'', ''SQL_SP_COMPARISON'', ''SQL_SP_EXISTS'',
         ''SQL_SP_IN'', ''SQL_SP_ISNOTNULL'', ''SQL_SP_ISNULL'', ''SQL_SP_LIKE'', ''SQL_SP_MATCH_FULL'',
         ''SQL_SP_MATCH_PARTIAL'', ''SQL_SP_MATCH_UNIQUE_FULL'', ''SQL_SP_MATCH_UNIQUE_PARTIAL'',
         ''SQL_SP_OVERLAPS'', ''SQL_SP_UNIQUE'', ''SQL_SP_QUANTIFIED_COMPARISON'']),
     (''SQL_SQL92_RELATIONAL_JOIN_OPERATORS'', Constants [''SQL_SRJO_CORRESPONDING_CLAUSE'',
         ''SQL_SRJO_CROSS_JOIN'', ''SQL_SRJO_EXCEPT_JOIN'', ''SQL_SRJO_INNER_JOIN'', ''SQL_SRJO_LEFT_OUTER_JOIN'',
         ''SQL_SRJO_RIGHT_OUTER_JOIN'', ''SQL_SRJO_NATURAL_JOIN'', ''SQL_SRJO_INTERSECT_JOIN'',
         ''SQL_SRJO_UNION_JOIN'']),
     (''SQL_STATIC_CURSOR_ATTRIBUTES1'', Constants [''SQL_CA1_NEXT'']),
     (''SQL_STATIC_CURSOR_ATTRIBUTES2'', Number 0),
     (''SQL_CONVERT_BIGINT'', Constants [''SQL_CVT_CHAR'', ''SQL_CVT_VARCHAR'', ''SQL_CVT_LONGVARCHAR'',
         ''SQL_CVT_WCHAR'', ''SQL_CVT_WLONGVARCHAR'', ''SQL_CVT_WVARCHAR'', ''SQL_CVT_NUMERIC'',
         ''SQL_CVT_TIMESTAMP'', ''SQL_CVT_TINYINT'', ''SQL_CVT_SMALLINT'', ''SQL_CVT_INTEGER'', ''SQL_CVT_BIGINT'',
         ''SQL_CVT_BIT'']),
     (''SQL_CONVERT_BINARY'', Constants [''SQL_CVT_CHAR'', ''SQL_CVT_VARCHAR'', ''SQL_CVT_LONGVARCHAR'',
         ''SQL_CVT_BIT'', ''SQL_CVT_WCHAR'', ''SQL_CVT_WLONGVARCHAR'', ''SQL_CVT_WVARCHAR'', ''SQL_CVT_NUMERIC'',
         ''SQL_CVT_LONGVARBINARY'', ''SQL_CVT_FLOAT'', ''SQL_CVT_SMALLINT'', ''SQL_CVT_INTEGER'',
         ''SQL_CVT_BIGINT'', ''SQL_CVT_REAL'', ''SQL_CVT_DATE'', ''SQL_CVT_TINYINT'', ''SQL_CVT_DOUBLE'',
         ''SQL_CVT_BINARY'', ''SQL_CVT_DECIMAL'', ''SQL_CVT_TIME'', ''SQL_CVT_GUID'', ''SQL_CVT_TIMESTAMP'',
         ''SQL_CVT_VARBINARY'']),
     (''SQL_CONVERT_BIT'', Constants [''SQL_CVT_BIGINT'', ''SQL_CVT_VARCHAR'', ''SQL_CVT_LONGVARCHAR'',
         ''SQL_CVT_WVARCHAR'', ''SQL_CVT_NUMERIC'', ''SQL_CVT_BIT'', ''SQL_CVT_CHAR'', ''SQL_CVT_SMALLINT'',
         ''SQL_CVT_INTEGER'', ''SQL_CVT_TINYINT'']),
     (''SQL_CONVERT_CHAR'', Constants [''SQL_CVT_CHAR'', ''SQL_CVT_VARCHAR'', ''SQL_CVT_LONGVARCHAR'',
         ''SQL_CVT_VARBINARY'', ''SQL_CVT_WCHAR'', ''SQL_CVT_WLONGVARCHAR'', ''SQL_CVT_WVARCHAR'',
         ''SQL_CVT_NUMERIC'', ''SQL_CVT_DECIMAL'', ''SQL_CVT_BIT'', ''SQL_CVT_TINYINT'', ''SQL_CVT_SMALLINT'',
         ''SQL_CVT_INTEGER'', ''SQL_CVT_BIGINT'', ''SQL_CVT_REAL'', ''SQL_CVT_FLOAT'', ''SQL_CVT_DOUBLE'',
         ''SQL_CVT_BINARY'', ''SQL_CVT_TIMESTAMP'', ''SQL_CVT_DATE'', ''SQL_CVT_TIME'', ''SQL_CVT_LONGVARBINARY'',
         ''SQL_CVT_GUID'']),
     (''SQL_CONVERT_VARCHAR'', Constants [''SQL_CVT_CHAR'', ''SQL_CVT_VARCHAR'', ''SQL_CVT_LONGVARCHAR'',
         ''SQL_CVT_WCHAR'', ''SQL_CVT_WLONGVARCHAR'', ''SQL_CVT_WVARCHAR'', ''SQL_CVT_NUMERIC'',
         ''SQL_CVT_DECIMAL'', ''SQL_CVT_TINYINT'', ''SQL_CVT_SMALLINT'', ''SQL_CVT_INTEGER'', ''SQL_CVT_BIGINT'',
         ''SQL_CVT_REAL'', ''SQL_CVT_FLOAT'', ''SQL_CVT_BIT'', ''SQL_CVT_DOUBLE'', ''SQL_CVT_BINARY'',
         ''SQL_CVT_VARBINARY'', ''SQL_CVT_GUID'', ''SQL_CVT_DATE'', ''SQL_CVT_TIME'', ''SQL_CVT_LONGVARBINARY'',
         ''SQL_CVT_TIMESTAMP'']),
     (''SQL_CONVERT_LONGVARCHAR'', Constants [''SQL_CVT_CHAR'', ''SQL_CVT_VARCHAR'', ''SQL_CVT_DATE'',
         ''SQL_CVT_TIME'', ''SQL_CVT_LONGVARCHAR'', ''SQL_CVT_WCHAR'', ''SQL_CVT_WLONGVARCHAR'',
         ''SQL_CVT_WVARCHAR'', ''SQL_CVT_NUMERIC'', ''SQL_CVT_DECIMAL'', ''SQL_CVT_BIT'', ''SQL_CVT_REAL'',
         ''SQL_CVT_SMALLINT'', ''SQL_CVT_INTEGER'', ''SQL_CVT_GUID'', ''SQL_CVT_BIGINT'',
         ''SQL_CVT_LONGVARBINARY'', ''SQL_CVT_DOUBLE'', ''SQL_CVT_BINARY'', ''SQL_CVT_VARBINARY'',
         ''SQL_CVT_TINYINT'', ''SQL_CVT_FLOAT'', ''SQL_CVT_TIMESTAMP'']),
     (''SQL_CONVERT_WCHAR'', Constants [''SQL_CVT_CHAR'', ''SQL_CVT_VARCHAR'', ''SQL_CVT_LONGVARCHAR'',
         ''SQL_CVT_WCHAR'', ''SQL_CVT_WLONGVARCHAR'', ''SQL_CVT_WVARCHAR'', ''SQL_CVT_NUMERIC'',
         ''SQL_CVT_DECIMAL'', ''SQL_CVT_VARBINARY'', ''SQL_CVT_BIT'', ''SQL_CVT_TINYINT'', ''SQL_CVT_SMALLINT'',
         ''SQL_CVT_INTEGER'', ''SQL_CVT_BIGINT'', ''SQL_CVT_REAL'', ''SQL_CVT_FLOAT'', ''SQL_CVT_DOUBLE'',
         ''SQL_CVT_BINARY'', ''SQL_CVT_LONGVARBINARY'', ''SQL_CVT_TIMESTAMP'', ''SQL_CVT_DATE'', ''SQL_CVT_TIME'',
         ''SQL_CVT_GUID'']),
     (''SQL_CONVERT_WVARCHAR'', Constants [''SQL_CVT_CHAR'', ''SQL_CVT_VARCHAR'', ''SQL_CVT_LONGVARCHAR'',
         ''SQL_CVT_REAL'', ''SQL_CVT_WCHAR'', ''SQL_CVT_WLONGVARCHAR'', ''SQL_CVT_WVARCHAR'', ''SQL_CVT_NUMERIC'',
         ''SQL_CVT_LONGVARBINARY'', ''SQL_CVT_DECIMAL'', ''SQL_CVT_BIT'', ''SQL_CVT_TINYINT'',
         ''SQL_CVT_SMALLINT'', ''SQL_CVT_DATE'', ''SQL_CVT_TIME'', ''SQL_CVT_INTEGER'', ''SQL_CVT_BIGINT'',
         ''SQL_CVT_FLOAT'', ''SQL_CVT_DOUBLE'', ''SQL_CVT_BINARY'', ''SQL_CVT_GUID'', ''SQL_CVT_VARBINARY'',
         ''SQL_CVT_TIMESTAMP''])]"

definition intParams_4 :: "(string \<times> info_value) list" where
  "intParams_4 = [
     (''SQL_CONVERT_WLONGVARCHAR'', Constants [''SQL_CVT_CHAR'', ''SQL_CVT_VARCHAR'', ''SQL_CVT_BIGINT'',
         ''SQL_CVT_REAL'', ''SQL_CVT_LONGVARCHAR'', ''SQL_CVT_WCHAR'', ''SQL_CVT_WLONGVARCHAR'',
         ''SQL_CVT_WVARCHAR'', ''SQL_CVT_VARBINARY'', ''SQL_CVT_NUMERIC'', ''SQL_CVT_DECIMAL'', ''SQL_CVT_BIT'',
         ''SQL_CVT_TINYINT'', ''SQL_CVT_DATE'', ''SQL_CVT_FLOAT'', ''SQL_CVT_INTEGER'', ''SQL_CVT_SMALLINT'',
         ''SQL_CVT_DOUBLE'', ''SQL_CVT_BINARY'', ''SQL_CVT_LONGVARBINARY'', ''SQL_CVT_TIME'',
         ''SQL_CVT_TIMESTAMP'', ''SQL_CVT_GUID'']),
     (''SQL_CONVERT_GUID'', Constants [''SQL_CVT_CHAR'', ''SQL_CVT_VARCHAR'', ''SQL_CVT_LONGVARCHAR'',
         ''SQL_CVT_WVARCHAR'', ''SQL_CVT_WCHAR'', ''SQL_CVT_WLONGVARCHAR'', ''SQL_CVT_BINARY'',
         ''SQL_CVT_VARBINARY'', ''SQL_CVT_LONGVARBINARY'', ''SQL_CVT_GUID'']),
     (''SQL_CONVERT_DATE'', Constants [''SQL_CVT_CHAR'', ''SQL_CVT_VARCHAR'', ''SQL_CVT_LONGVARCHAR'',
         ''SQL_CVT_WCHAR'', ''SQL_CVT_WLONGVARCHAR'', ''SQL_CVT_WVARCHAR'', ''SQL_CVT_NUMERIC'',
         ''SQL_CVT_INTEGER'', ''SQL_CVT_BIGINT'', ''SQL_CVT_BINARY'', ''SQL_CVT_VARBINARY'',
         ''SQL_CVT_LONGVARBINARY'', ''SQL_CVT_DATE'', ''SQL_CVT_TIMESTAMP'']),
     (''SQL_CONVERT_DECIMAL'', Constants [''SQL_CVT_CHAR'', ''SQL_CVT_VARCHAR'', ''SQL_CVT_LONGVARCHAR'',
         ''SQL_CVT_WCHAR'', ''SQL_CVT_WLONGVARCHAR'', ''SQL_CVT_WVARCHAR'', ''SQL_CVT_NUMERIC'',
         ''SQL_CVT_DECIMAL'', ''SQL_CVT_TIMESTAMP'', ''SQL_CVT_BIT'', ''SQL_CVT_TINYINT'', ''SQL_CVT_SMALLINT'',
         ''SQL_CVT_INTEGER'', ''SQL_CVT_BIGINT'', ''SQL_CVT_REAL'', ''SQL_CVT_FLOAT'', ''SQL_CVT_DOUBLE'',
         ''SQL_CVT_BINARY'', ''SQL_CVT_VARBINARY'', ''SQL_CVT_LONGVARBINARY'']),
     (''SQL_CONVERT_DOUBLE'', Constants [''SQL_CVT_CHAR'', ''SQL_CVT_VARCHAR'', ''SQL_CVT_LONGVARCHAR'',
         ''SQL_CVT_WCHAR'', ''SQL_CVT_WLONGVARCHAR'', ''SQL_CVT_WVARCHAR'', ''SQL_CVT_NUMERIC'',
         ''SQL_CVT_DECIMAL'', ''SQL_CVT_TIMESTAMP'', ''SQL_CVT_TINYINT'', ''SQL_CVT_BIGINT'', ''SQL_CVT_INTEGER'',
         ''SQL_CVT_FLOAT'', ''SQL_CVT_REAL'', ''SQL_CVT_DOUBLE'', ''SQL_CVT_BINARY'', ''SQL_CVT_VARBINARY'',
         ''SQL_CVT_SMALLINT'', ''SQL_CVT_LONGVARBINARY'']),
     (''SQL_CONVERT_FLOAT'', Constants [''SQL_CVT_CHAR'', ''SQL_CVT_VARCHAR'', ''SQL_CVT_LONGVARCHAR'',
         ''SQL_CVT_WVARCHAR'', ''SQL_CVT_WLONGVARCHAR'', ''SQL_CVT_NUMERIC'', ''SQL_CVT_DECIMAL'',
         ''SQL_CVT_TINYINT'', ''SQL_CVT_SMALLINT'', ''SQL_CVT_INTEGER'', ''SQL_CVT_BIGINT'', ''SQL_CVT_REAL'',
         ''SQL_CVT_FLOAT'', ''SQL_CVT_DOUBLE'', ''SQL_CVT_BINARY'', ''SQL_CVT_VARBINARY'', ''SQL_CVT_WCHAR'',
         ''SQL_CVT_LONGVARBINARY'', ''SQL_CVT_TIMESTAMP'', ''SQL_CVT_BIT'']),
     (''SQL_CONVERT_REAL'', Constants [''SQL_CVT_CHAR'', ''SQL_CVT_VARCHAR'', ''SQL_CVT_LONGVARCHAR'',
         ''SQL_CVT_WVARCHAR'', ''SQL_CVT_NUMERIC'', ''SQL_CVT_DECIMAL'', ''SQL_CVT_BIT'', ''SQL_CVT_FLOAT'',
         ''SQL_CVT_SMALLINT'', ''SQL_CVT_REAL'', ''SQL_CVT_INTEGER'', ''SQL_CVT_BIGINT'', ''SQL_CVT_DOUBLE'',
         ''SQL_CVT_TINYINT'', ''SQL_CVT_WLONGVARCHAR'', ''SQL_CVT_BINARY'', ''SQL_CVT_VARBINARY'',
         ''SQL_CVT_LONGVARBINARY'', ''SQL_CVT_TIMESTAMP'', ''SQL_CVT_WCHAR'']),
     (''SQL_CONVERT_INTEGER'', Constants [''SQL_CVT_CHAR'', ''SQL_CVT_VARCHAR'', ''SQL_CVT_LONGVARCHAR'',
         ''SQL_CVT_WCHAR'', ''SQL_CVT_WLONGVARCHAR'', ''SQL_CVT_WVARCHAR'', ''SQL_CVT_NUMERIC'',
         ''SQL_CVT_DECIMAL'', ''SQL_CVT_TINYINT'', ''SQL_CVT_SMALLINT'', ''SQL_CVT_BIT'', ''SQL_CVT_INTEGER'',
         ''SQL_CVT_BIGINT'', ''SQL_CVT_REAL'', ''SQL_CVT_FLOAT'', ''SQL_CVT_DOUBLE'', ''SQL_CVT_BINARY'',
         ''SQL_CVT_VARBINARY'', ''SQL_CVT_LONGVARBINARY'', ''SQL_CVT_TIMESTAMP'']),
     (''SQL_CONVERT_NUMERIC'', Constants [''SQL_CVT_CHAR'', ''SQL_CVT_VARCHAR'', ''SQL_CVT_LONGVARCHAR'',
         ''SQL_CVT_WCHAR'', ''SQL_CVT_WLONGVARCHAR'', ''SQL_CVT_WVARCHAR'', ''SQL_CVT_NUMERIC'',
         ''SQL_CVT_DECIMAL'', ''SQL_CVT_SMALLINT'', ''SQL_CVT_INTEGER'', ''SQL_CVT_BIGINT'', ''SQL_CVT_REAL'',
         ''SQL_CVT_BIT'', ''SQL_CVT_TINYINT'', ''SQL_CVT_FLOAT'', ''SQL_CVT_DOUBLE'', ''SQL_CVT_BINARY'',
         ''SQL_CVT_VARBINARY'', ''SQL_CVT_LONGVARBINARY'', ''SQL_CVT_TIMESTAMP'']),
     (''SQL_CONVERT_SMALLINT'', Constants [''SQL_CVT_CHAR'', ''SQL_CVT_VARCHAR'', ''SQL_CVT_LONGVARCHAR'',
         ''SQL_CVT_WCHAR'', ''SQL_CVT_WLONGVARCHAR'', ''SQL_CVT_WVARCHAR'', ''SQL_CVT_NUMERIC'',
         ''SQL_CVT_DECIMAL'', ''SQL_CVT_VARBINARY'', ''SQL_CVT_BIT'', ''SQL_CVT_TINYINT'', ''SQL_CVT_SMALLINT'',
         ''SQL_CVT_INTEGER'', ''SQL_CVT_BIGINT'', ''SQL_CVT_REAL'', ''SQL_CVT_FLOAT'', ''SQL_CVT_DOUBLE'',
         ''SQL_CVT_BINARY'', ''SQL_CVT_LONGVARBINARY'', ''SQL_CVT_TIMESTAMP'']),
     (''SQL_CONVERT_TINYINT'', Constants [''SQL_CVT_CHAR'', ''SQL_CVT_VARCHAR'', ''SQL_CVT_LONGVARCHAR'',
         ''SQL_CVT_WCHAR'', ''SQL_CVT_WLONGVARCHAR'', ''SQL_CVT_WVARCHAR'', ''SQL_CVT_NUMERIC'',
         ''SQL_CVT_DECIMAL'', ''SQL_CVT_TINYINT'', ''SQL_CVT_SMALLINT'', ''SQL_CVT_BIT'', ''SQL_CVT_INTEGER'',
         ''SQL_CVT_BIGINT'', ''SQL_CVT_REAL'', ''SQL_CVT_FLOAT'', ''SQL_CVT_DOUBLE'', ''SQL_CVT_BINARY'',
         ''SQL_CVT_VARBINARY'', ''SQL_CVT_LONGVARBINARY'', ''SQL_CVT_TIMESTAMP'']),
     (''SQL_CONVERT_TIME'', Constants [''SQL_CVT_CHAR'', ''SQL_CVT_VARCHAR'', ''SQL_CVT_LONGVARCHAR'',
         ''SQL_CVT_WVARCHAR'', ''SQL_CVT_WCHAR'', ''SQL_CVT_WLONGVARCHAR'', ''SQL_CVT_BINARY'',
         ''SQL_CVT_VARBINARY'', ''SQL_CVT_LONGVARBINARY'', ''SQL_CVT_TIME'', ''SQL_CVT_TIMESTAMP'']),
     (''SQL_CONVERT_TIMESTAMP'', Constants [''SQL_CVT_CHAR'', ''SQL_CVT_VARCHAR'', ''SQL_CVT_LONGVARCHAR'',
         ''SQL_CVT_DATE'', ''SQL_CVT_WCHAR'', ''SQL_CVT_WLONGVARCHAR'', ''SQL_CVT_WVARCHAR'', ''SQL_CVT_NUMERIC'',
         ''SQL_CVT_LONGVARBINARY'', ''SQL_CVT_DECIMAL'', ''SQL_CVT_INTEGER'', ''SQL_CVT_BINARY'',
         ''SQL_CVT_VARBINARY'', ''SQL_CVT_TIMESTAMP'', ''SQL_CVT_BIGINT'', ''SQL_CVT_TIME''])]"

definition intParams_5 :: "(string \<times> info_value) list" where
  "intParams_5 = [
     (''SQL_CONVERT_VARBINARY'', Constants [''SQL_CVT_CHAR'', ''SQL_CVT_VARCHAR'', ''SQL_CVT_LONGVARCHAR'',
         ''SQL_CVT_BIT'', ''SQL_CVT_WCHAR'', ''SQL_CVT_WLONGVARCHAR'', ''SQL_CVT_WVARCHAR'', ''SQL_CVT_NUMERIC'',
         ''SQL_CVT_DECIMAL'', ''SQL_CVT_TINYINT'', ''SQL_CVT_SMALLINT'', ''SQL_CVT_DATE'', ''SQL_CVT_BIGINT'',
         ''SQL_CVT_REAL'', ''SQL_CVT_FLOAT'', ''SQL_CVT_DOUBLE'', ''SQL_CVT_INTEGER'', ''SQL_CVT_BINARY'',
         ''SQL_CVT_VARBINARY'', ''SQL_CVT_LONGVARBINARY'', ''SQL_CVT_TIME'', ''SQL_CVT_TIMESTAMP'',
         ''SQL_CVT_GUID'']),
     (''SQL_CONVERT_LONGVARBINARY'', Constants [''SQL_CVT_CHAR'', ''SQL_CVT_VARCHAR'', ''SQL_CVT_BIT'',
         ''SQL_CVT_TINYINT'', ''SQL_CVT_WCHAR'', ''SQL_CVT_WLONGVARCHAR'', ''SQL_CVT_WVARCHAR'',
         ''SQL_CVT_LONGVARCHAR'', ''SQL_CVT_NUMERIC'', ''SQL_CVT_DECIMAL'', ''SQL_CVT_FLOAT'', ''SQL_CVT_INTEGER'',
         ''SQL_CVT_BIGINT'', ''SQL_CVT_REAL'', ''SQL_CVT_DATE'', ''SQL_CVT_DOUBLE'', ''SQL_CVT_BINARY'',
         ''SQL_CVT_VARBINARY'', ''SQL_CVT_LONGVARBINARY'', ''SQL_CVT_TIMESTAMP'', ''SQL_CVT_SMALLINT'',
         ''SQL_CVT_TIME'', ''SQL_CVT_GUID'']),
     (''SQL_PARAM_ARRAY_ROW_COUNTS'', Constants [''SQL_PARC_NO_BATCH'']),
     (''SQL_PARAM_ARRAY_SELECTS'', Constants [''SQL_PAS_NO_SELECT'']),
     (''SQL_SCROLL_OPTIONS'', Constants [''SQL_SO_FORWARD_ONLY'', ''SQL_SO_STATIC'']),
     (''SQL_ALTER_DOMAIN'', Number 0)]"

definition intParams_6 :: "(string \<times> info_value) list" where
  "intParams_6 = [
     (''SQL_ALTER_TABLE'', Number 0),
     (''SQL_CREATE_ASSERTION'', Number 0),
     (''SQL_CREATE_CHARACTER_SET'', Number 0),
     (''SQL_CREATE_COLLATION'', Number 0),
     (''SQL_CREATE_DOMAIN'', Number 0),
     (''SQL_CREATE_SCHEMA'', Number 0)]"

definition intParams_7 :: "(string \<times> info_value) list" where
  "intParams_7 = [
     (''SQL_CREATE_TABLE'', Constants [''SQL_CT_CREATE_TABLE'', ''SQL_CT_COLUMN_CONSTRAINT'']),
     (''SQL_CREATE_TRANSLATION'', Number 0),
     (''SQL_CREATE_VIEW'', Number 0),
     (''SQL_CURSOR_SENSITIVITY'', Constants [''SQL_INSENSITIVE'']),
     (''SQL_DDL_INDEX'', Number 0),
     (''SQL_DEFAULT_TXN_ISOLATION'', Constants [''SQL_TXN_REPEATABLE_READ'']),
     (''SQL_DROP_ASSERTION'', Number 0),
     (''SQL_DROP_CHARACTER_SET'', Number 0),
     (''SQL_DROP_COLLATION'', Number 0)]"

definition intParams_8 :: "(string \<times> info_value) list" where
  "intParams_8 = [
     (''SQL_DROP_DOMAIN'', Number 0),
     (''SQL_DROP_SCHEMA'', Number 0),
     (''SQL_DROP_TABLE'', Number 0),
     (''SQL_DROP_TRANSLATION'', Number 0),
     (''SQL_DROP_VIEW'', Number 0),
     (''SQL_DYNAMIC_CURSOR_ATTRIBUTES1'', Constants [''SQL_CA1_NEXT''])]"

definition intParams_9 :: "(string \<times> info_value) list" where
  "intParams_9 = [
     (''SQL_DYNAMIC_CURSOR_ATTRIBUTES2'', Constants [''SQL_CA2_READ_ONLY_CONCURRENCY'']),
     (''SQL_FORWARD_ONLY_CURSOR_ATTRIBUTES1'', Constants [''SQL_CA1_NEXT'']),
     (''SQL_FORWARD_ONLY_CURSOR_ATTRIBUTES2'', Constants [''SQL_CA2_READ_ONLY_CONCURRENCY''])]"

definition intParams_10 :: "(string \<times> info_value) list" where
  "intParams_10 = [
     (''SQL_INDEX_KEYWORDS'', Constants [''SQL_IK_NONE'']),
     (''SQL_INFO_SCHEMA_VIEWS'', Number 0),
     (''SQL_INSERT_STATEMENT'', Number 0),
     (''SQL_KEYSET_CURSOR_ATTRIBUTES1'', Constants [''SQL_CA1_NEXT''])]"

definition intParams_11 :: "(string \<times> info_value) list" where
  "intParams_11 = [
     (''SQL_KEYSET_CURSOR_ATTRIBUTES2'', Number 0),
     (''SQL_MAX_ASYNC_CONCURRENT_STATEMENTS'', Number 1),
     (''SQL_MAX_BINARY_LITERAL_LEN'', Number 0),
     (''SQL_MAX_CATALOG_NAME_LEN'', Number 0),
     (''SQL_MAX_CHAR_LITERAL_LEN'', Number 0),
     (''SQL_MAX_INDEX_SIZE'', Number 0),
     (''SQL_MAX_ROW_SIZE'', Number 0),
     (''SQL_MAX_STATEMENT_LEN'', Number 0),
     (''SQL_SQL92_FOREIGN_KEY_DELETE_RULE'', Number 0),
     (''SQL_SQL92_FOREIGN_KEY_UPDATE_RULE'', Number 0),
     (''SQL_SQL92_GRANT'', Number 0)]"

definition intParams_12 :: "(string \<times> info_value) list" where
  "intParams_12 = [
     (''SQL_SQL92_REVOKE'', Number 0),
     (''SQL_SQL92_ROW_VALUE_CONSTRUCTOR'', Constants [''SQL_SRVC_VALUE_EXPRESSION'', ''SQL_SRVC_DEFAULT'',
         ''SQL_SRVC_NULL'', ''SQL_SRVC_ROW_SUBQUERY'']),
     (''SQL_STANDARD_CLI_CONFORMANCE'', Constants [''SQL_SCC_ISO92_CLI'']),
     (''SQL_SUBQUERIES'', Constants [''SQL_SQ_CORRELATED_SUBQUERIES'', ''SQL_SQ_COMPARISON'', ''SQL_SQ_EXISTS'',
         ''SQL_SQ_IN'', ''SQL_SQ_QUANTIFIED'']),
     (''SQL_TXN_ISOLATION_OPTION'', Constants [''SQL_TXN_REPEATABLE_READ'']),
     (''SQL_UNION'', Number 0),
     (''SQL_FETCH_DIRECTION'', Constants [''SQL_FD_FETCH_NEXT'']),
     (''SQL_LOCK_TYPES'', Constants [''SQL_LCK_NO_CHANGE'']),
     (''SQL_ODBC_API_CONFORMANCE'', Constants [''SQL_OAC_LEVEL1'']),
     (''SQL_ODBC_SQL_CONFORMANCE'', Constants [''SQL_OSC_EXTENDED'']),
     (''SQL_POSITIONED_STATEMENTS'', Number 0)]"

definition intParams_13 :: "(string \<times> info_value) list" where
  "intParams_13 = [
     (''SQL_SCROLL_CONCURRENCY'', Constants [''SQL_SCCO_READ_ONLY'']),
     (''SQL_STATIC_SENSITIVITY'', Number 0)]"

definition shortParams_1 :: "(string \<times> info_value) list" where
  "shortParams_1 = [
     (''SQL_MAX_CONCURRENT_ACTIVITIES'', Number 1),
     (''SQL_TXN_CAPABLE'', Constants [''SQL_TC_NONE'']),
     (''SQL_QUOTED_IDENTIFIER_CASE'', Constants [''SQL_IC_SENSITIVE'']),
     (''SQL_ACTIVE_ENVIRONMENTS'', Number 0),
     (''SQL_CONCAT_NULL_BEHAVIOR'', Constants [''SQL_CB_NON_NULL'']),
     (''SQL_CORRELATION_NAME'', Constants [''SQL_CN_ANY'']),
     (''SQL_FILE_USAGE'', Constants [''SQL_FILE_NOT_SUPPORTED'']),
     (''SQL_GROUP_BY'', Constants [''SQL_GB_GROUP_BY_CONTAINS_SELECT'']),
     (''SQL_IDENTIFIER_CASE'', Constants [''SQL_IC_SENSITIVE'']),
     (''SQL_MAX_COLUMN_NAME_LEN'', Number 0),
     (''SQL_MAX_COLUMNS_IN_GROUP_BY'', Number 0),
     (''SQL_MAX_COLUMNS_IN_INDEX'', Number 0)]"

definition shortParams_2 :: "(string \<times> info_value) list" where
  "shortParams_2 = [
     (''SQL_MAX_COLUMNS_IN_ORDER_BY'', Number 0),
     (''SQL_MAX_COLUMNS_IN_SELECT'', Number 0),
     (''SQL_MAX_COLUMNS_IN_TABLE'', Number 0),
     (''SQL_MAX_CURSOR_NAME_LEN'', Number 0),
     (''SQL_MAX_DRIVER_CONNECTIONS'', Number 0),
     (''SQL_MAX_IDENTIFIER_LEN'', Number 0),
     (''SQL_MAX_PROCEDURE_NAME_LEN'', Number 0),
     (''SQL_MAX_SCHEMA_NAME_LEN'', Number 0),
     (''SQL_MAX_TABLE_NAME_LEN'', Number 0),
     (''SQL_MAX_TABLES_IN_SELECT'', Number 0),
     (''SQL_MAX_USER_NAME_LEN'', Number 0),
     (''SQL_NON_NULLABLE_COLUMNS'', Constants [''SQL_NNC_NON_NULL'']),
     (''SQL_NULL_COLLATION'', Constants [''SQL_NC_LOW''])]"


section \<open>The constructor\<close>

fun constants_value :: "header \<Rightarrow> string list \<Rightarrow> int option" where
  "constants_value h [] = Some 0"
| "constants_value h (c # cs) =
     (case (h c, constants_value h cs) of (Some v, Some w) \<Rightarrow> Some (v OR w) | _ \<Rightarrow> None)"

fun value_of :: "header \<Rightarrow> info_value \<Rightarrow> int option" where
  "value_of h (Number n) = Some n"
| "value_of h (Constants cs) = constants_value h cs"

text \<open>The keys are \<open>unsigned short\<close>; the values \<open>unsigned int\<close> and \<open>unsigned short\<close>.\<close>

fun assign_texts :: "header \<Rightarrow> (string \<times> string) list \<Rightarrow> (int \<rightharpoonup> string) \<Rightarrow> (int \<rightharpoonup> string)" where
  "assign_texts h [] m = m"
| "assign_texts h ((name, t) # es) m =
     assign_texts h es (case h name of None \<Rightarrow> m | Some k \<Rightarrow> m(k mod 2 ^ 16 \<mapsto> t))"

fun assign_numbers :: "nat \<Rightarrow> header \<Rightarrow> (string \<times> info_value) list \<Rightarrow> (int \<rightharpoonup> int) \<Rightarrow> (int \<rightharpoonup> int) option" where
  "assign_numbers w h [] m = Some m"
| "assign_numbers w h ((name, v) # es) m =
     (case h name of
        None \<Rightarrow> assign_numbers w h es m
      | Some k \<Rightarrow>
          (case value_of h v of
             None \<Rightarrow> None
           | Some n \<Rightarrow> assign_numbers w h es (m(k mod 2 ^ 16 \<mapsto> n mod 2 ^ w))))"

definition all_strParams :: "string \<Rightarrow> (string \<times> string) list" where
  "all_strParams version = strParams_1 version @ strParams_2"

definition all_intParams :: "(string \<times> info_value) list" where
  "all_intParams = intParams_1 @ intParams_2 @ intParams_3 @ intParams_4 @ intParams_5 @ intParams_6 @ intParams_7 @
     intParams_8 @ intParams_9 @ intParams_10 @ intParams_11 @ intParams_12 @ intParams_13"

definition all_shortParams :: "(string \<times> info_value) list" where
  "all_shortParams = shortParams_1 @ shortParams_2"

definition newConnectionInfo :: "header \<Rightarrow> nat \<Rightarrow> nat \<Rightarrow> nat \<Rightarrow> ConnectionInfo option" where
  "newConnectionInfo header major minor patch =
     (let h = with_local header
      in case (assign_numbers 32 h all_intParams Map.empty, assign_numbers 16 h all_shortParams Map.empty) of
           (Some ints, Some shorts) \<Rightarrow>
             Some \<lparr>strParams = assign_texts h (all_strParams (GetFormatedDriverVersion major minor patch)) Map.empty,
                   intParams = ints, shortParams = shorts\<rparr>
         | _ \<Rightarrow> None)"

section \<open>The names of the information types\<close>

definition info_type_names_1 :: "string list" where
  "info_type_names_1 = [
     ''SQL_ACCESSIBLE_PROCEDURES'', ''SQL_ACCESSIBLE_TABLES'', ''SQL_ACTIVE_ENVIRONMENTS'', ''SQL_DRIVER_NAME'',
     ''SQL_DBMS_NAME'', ''SQL_DRIVER_ODBC_VER'', ''SQL_DBMS_VER'', ''SQL_DRIVER_VER'', ''SQL_COLUMN_ALIAS'',
     ''SQL_IDENTIFIER_QUOTE_CHAR'', ''SQL_CATALOG_NAME_SEPARATOR'', ''SQL_SPECIAL_CHARACTERS'',
     ''SQL_CATALOG_TERM'', ''SQL_TABLE_TERM'', ''SQL_SCHEMA_TERM'', ''SQL_NEED_LONG_DATA_LEN'',
     ''SQL_ASYNC_DBC_FUNCTIONS'', ''SQL_ASYNC_NOTIFICATION'', ''SQL_GETDATA_EXTENSIONS'',
     ''SQL_ODBC_INTERFACE_CONFORMANCE'', ''SQL_SQL_CONFORMANCE'', ''SQL_CATALOG_USAGE'', ''SQL_SCHEMA_USAGE'',
     ''SQL_MAX_IDENTIFIER_LEN'', ''SQL_AGGREGATE_FUNCTIONS'', ''SQL_NUMERIC_FUNCTIONS'', ''SQL_STRING_FUNCTIONS'',
     ''SQL_TIMEDATE_FUNCTIONS'', ''SQL_TIMEDATE_ADD_INTERVALS'', ''SQL_TIMEDATE_DIFF_INTERVALS'',
     ''SQL_DATETIME_LITERALS'', ''SQL_SYSTEM_FUNCTIONS'', ''SQL_CONVERT_FUNCTIONS'', ''SQL_OJ_CAPABILITIES'',
     ''SQL_POS_OPERATIONS'', ''SQL_MAX_CONCURRENT_ACTIVITIES'', ''SQL_TXN_CAPABLE'', ''SQL_QUOTED_IDENTIFIER_CASE'',
     ''SQL_SQL92_NUMERIC_VALUE_FUNCTIONS'', ''SQL_SQL92_STRING_FUNCTIONS'', ''SQL_SQL92_DATETIME_FUNCTIONS'',
     ''SQL_SQL92_PREDICATES'', ''SQL_SQL92_RELATIONAL_JOIN_OPERATORS'', ''SQL_SQL92_VALUE_EXPRESSIONS'',
     ''SQL_STATIC_CURSOR_ATTRIBUTES1'', ''SQL_STATIC_CURSOR_ATTRIBUTES2'', ''SQL_CONVERT_BIGINT'',
     ''SQL_CONVERT_BINARY'', ''SQL_CONVERT_BIT'', ''SQL_CONVERT_CHAR'']"

definition info_type_names_2 :: "string list" where
  "info_type_names_2 = [
     ''SQL_CONVERT_DATE'', ''SQL_CONVERT_DECIMAL'', ''SQL_CONVERT_DOUBLE'', ''SQL_CONVERT_FLOAT'',
     ''SQL_CONVERT_INTEGER'', ''SQL_CONVERT_LONGVARCHAR'', ''SQL_CONVERT_NUMERIC'', ''SQL_CONVERT_REAL'',
     ''SQL_CONVERT_SMALLINT'', ''SQL_CONVERT_TIME'', ''SQL_CONVERT_TIMESTAMP'', ''SQL_CONVERT_TINYINT'',
     ''SQL_CONVERT_VARBINARY'', ''SQL_CONVERT_VARCHAR'', ''SQL_CONVERT_LONGVARBINARY'', ''SQL_CONVERT_WCHAR'',
     ''SQL_CONVERT_INTERVAL_DAY_TIME'', ''SQL_CONVERT_INTERVAL_YEAR_MONTH'', ''SQL_CONVERT_WLONGVARCHAR'',
     ''SQL_CONVERT_WVARCHAR'', ''SQL_CONVERT_GUID'', ''SQL_SCROLL_OPTIONS'', ''SQL_PARAM_ARRAY_ROW_COUNTS'',
     ''SQL_PARAM_ARRAY_SELECTS'', ''SQL_ALTER_DOMAIN'', ''SQL_ASYNC_MODE'', ''SQL_BATCH_ROW_COUNT'',
     ''SQL_BATCH_SUPPORT'', ''SQL_BOOKMARK_PERSISTENCE'', ''SQL_CATALOG_LOCATION'', ''SQL_CATALOG_NAME'',
     ''SQL_COLLATION_SEQ'', ''SQL_CONCAT_NULL_BEHAVIOR'', ''SQL_CORRELATION_NAME'', ''SQL_CREATE_ASSERTION'',
     ''SQL_CREATE_CHARACTER_SET'', ''SQL_CREATE_COLLATION'', ''SQL_CREATE_DOMAIN'', ''SQL_CREATE_SCHEMA'',
     ''SQL_CREATE_TABLE'', ''SQL_CREATE_TRANSLATION'', ''SQL_CREATE_VIEW'', ''SQL_CURSOR_SENSITIVITY'',
     ''SQL_DATA_SOURCE_NAME'', ''SQL_DATA_SOURCE_READ_ONLY'', ''SQL_DATABASE_NAME'', ''SQL_DDL_INDEX'',
     ''SQL_DEFAULT_TXN_ISOLATION'', ''SQL_DESCRIBE_PARAMETER'', ''SQL_DROP_ASSERTION'']"

definition info_type_names_3 :: "string list" where
  "info_type_names_3 = [
     ''SQL_DROP_CHARACTER_SET'', ''SQL_DROP_COLLATION'', ''SQL_DROP_DOMAIN'', ''SQL_DROP_SCHEMA'',
     ''SQL_DROP_TABLE'', ''SQL_DROP_TRANSLATION'', ''SQL_DROP_VIEW'', ''SQL_DYNAMIC_CURSOR_ATTRIBUTES1'',
     ''SQL_DYNAMIC_CURSOR_ATTRIBUTES2'', ''SQL_EXPRESSIONS_IN_ORDERBY'', ''SQL_FILE_USAGE'',
     ''SQL_FORWARD_ONLY_CURSOR_ATTRIBUTES1'', ''SQL_FORWARD_ONLY_CURSOR_ATTRIBUTES2'', ''SQL_GROUP_BY'',
     ''SQL_IDENTIFIER_CASE'', ''SQL_INDEX_KEYWORDS'', ''SQL_INFO_SCHEMA_VIEWS'', ''SQL_INSERT_STATEMENT'',
     ''SQL_INTEGRITY'', ''SQL_KEYSET_CURSOR_ATTRIBUTES1'', ''SQL_KEYSET_CURSOR_ATTRIBUTES2'', ''SQL_KEYWORDS'',
     ''SQL_LIKE_ESCAPE_CLAUSE'', ''SQL_MAX_ASYNC_CONCURRENT_STATEMENTS'', ''SQL_MAX_BINARY_LITERAL_LEN'',
     ''SQL_MAX_CATALOG_NAME_LEN'', ''SQL_MAX_CHAR_LITERAL_LEN'', ''SQL_MAX_COLUMN_NAME_LEN'',
     ''SQL_MAX_COLUMNS_IN_GROUP_BY'', ''SQL_MAX_COLUMNS_IN_INDEX'', ''SQL_MAX_COLUMNS_IN_ORDER_BY'',
     ''SQL_MAX_COLUMNS_IN_SELECT'', ''SQL_MAX_COLUMNS_IN_TABLE'', ''SQL_MAX_CURSOR_NAME_LEN'',
     ''SQL_MAX_DRIVER_CONNECTIONS'', ''SQL_MAX_INDEX_SIZE'', ''SQL_MAX_PROCEDURE_NAME_LEN'', ''SQL_MAX_ROW_SIZE'',
     ''SQL_MAX_ROW_SIZE_INCLUDES_LONG'', ''SQL_MAX_SCHEMA_NAME_LEN'', ''SQL_MAX_STATEMENT_LEN'',
     ''SQL_MAX_TABLE_NAME_LEN'', ''SQL_MAX_TABLES_IN_SELECT'', ''SQL_MAX_USER_NAME_LEN'', ''SQL_MULT_RESULT_SETS'',
     ''SQL_MULTIPLE_ACTIVE_TXN'', ''SQL_NON_NULLABLE_COLUMNS'', ''SQL_NULL_COLLATION'',
     ''SQL_ORDER_BY_COLUMNS_IN_SELECT'', ''SQL_PROCEDURE_TERM'']"

definition info_type_names_4 :: "string list" where
  "info_type_names_4 = [
     ''SQL_PROCEDURES'', ''SQL_ROW_UPDATES'', ''SQL_SEARCH_PATTERN_ESCAPE'', ''SQL_SERVER_NAME'',
     ''SQL_SQL92_FOREIGN_KEY_DELETE_RULE'', ''SQL_SQL92_FOREIGN_KEY_UPDATE_RULE'', ''SQL_SQL92_GRANT'',
     ''SQL_SQL92_REVOKE'', ''SQL_SQL92_ROW_VALUE_CONSTRUCTOR'', ''SQL_STANDARD_CLI_CONFORMANCE'',
     ''SQL_SUBQUERIES'', ''SQL_TXN_ISOLATION_OPTION'', ''SQL_UNION'', ''SQL_USER_NAME'', ''SQL_ALTER_TABLE'',
     ''SQL_FETCH_DIRECTION'', ''SQL_LOCK_TYPES'', ''SQL_ODBC_API_CONFORMANCE'', ''SQL_ODBC_SQL_CONFORMANCE'',
     ''SQL_POSITIONED_STATEMENTS'', ''SQL_SCROLL_CONCURRENCY'', ''SQL_STATIC_SENSITIVITY'',
     ''SQL_DTC_TRANSITION_COST'']"

definition info_type_names :: "string list" where
  "info_type_names = info_type_names_1 @ info_type_names_2 @ info_type_names_3 @ info_type_names_4"

definition InfoTypeToString :: "header \<Rightarrow> int \<Rightarrow> string" where
  "InfoTypeToString header type =
     (case find (\<lambda>name. with_local header name = Some type) info_type_names of
        Some name \<Rightarrow> name
      | None \<Rightarrow> ''<< UNKNOWN TYPE >>'')"

lemma InfoTypeToString_names:
  "InfoTypeToString header i \<noteq> ''<< UNKNOWN TYPE >>'' \<Longrightarrow> with_local header (InfoTypeToString header i) = Some i"
proof (cases "find (\<lambda>name. with_local header name = Some i) info_type_names")
  case (Some n)
  then have "with_local header n = Some i" by (auto simp: find_Some_iff)
  with Some show ?thesis by (simp add: InfoTypeToString_def)
qed (simp add: InfoTypeToString_def)

section \<open>Which information types are answered\<close>

text \<open>The number of an information type as a key of the maps.\<close>

definition has_number :: "header \<Rightarrow> int \<Rightarrow> string \<Rightarrow> bool" where
  "has_number h i n \<longleftrightarrow> (\<exists>k. h n = Some k \<and> k mod 2 ^ 16 = i)"

text \<open>What the headers promise: types of different tables have different numbers. (The old names of the
  catalogue types have the numbers of the new ones, which are in the same table.)\<close>

definition tables_apart :: "header \<Rightarrow> bool" where
  "tables_apart h \<longleftrightarrow> (\<forall>i. \<not> ((\<exists>e \<in> set (all_strParams []). has_number h i (fst e)) \<and> (\<exists>e \<in> set all_intParams. has_number h i (fst e)))
     \<and> \<not> ((\<exists>e \<in> set (all_strParams []). has_number h i (fst e)) \<and> (\<exists>e \<in> set all_shortParams. has_number h i (fst e)))
     \<and> \<not> ((\<exists>e \<in> set all_intParams. has_number h i (fst e)) \<and> (\<exists>e \<in> set all_shortParams. has_number h i (fst e))))"

lemma str_names: "fst ` set (all_strParams v) = fst ` set (all_strParams [])"
  by (simp add: all_strParams_def strParams_1_def)

text \<open>The value of the last entry of a table whose type has a number.\<close>

fun last_entry :: "header \<Rightarrow> int \<Rightarrow> (string \<times> 'v) list \<Rightarrow> 'v option" where
  "last_entry h i [] = None"
| "last_entry h i ((n, v) # es) =
     (case last_entry h i es of Some w \<Rightarrow> Some w | None \<Rightarrow> if has_number h i n then Some v else None)"

lemma last_entry_None: "last_entry h i es = None \<longleftrightarrow> \<not> (\<exists>e \<in> set es. has_number h i (fst e))"
  by (induction es) (auto split: option.splits)

lemma assign_texts_last: "assign_texts h es m i = (case last_entry h i es of None \<Rightarrow> m i | Some t \<Rightarrow> Some t)"
  by (induction h es m rule: assign_texts.induct) (auto simp: has_number_def split: option.splits)

lemma assign_numbers_last:
  assumes "assign_numbers w h es m = Some f"
  shows "last_entry h i es = None \<Longrightarrow> f i = m i"
    and "last_entry h i es = Some v \<Longrightarrow> \<exists>y. value_of h v = Some y \<and> f i = Some (y mod 2 ^ w)"
  using assms
  by (induction w h es m rule: assign_numbers.induct) (fastforce simp: has_number_def split: option.splits if_splits)+

text \<open>The maps of a new connection hold exactly the declared types of their tables, each with the value of the last entry of
  that type.\<close>

lemma newConnectionInfo_maps:
  assumes "newConnectionInfo header major minor patch = Some info"
  shows "strParams info i = last_entry (with_local header) i (all_strParams (GetFormatedDriverVersion major minor patch))"
    and "intParams info i = None \<longleftrightarrow> \<not> (\<exists>e \<in> set all_intParams. has_number (with_local header) i (fst e))"
    and "shortParams info i = None \<longleftrightarrow> \<not> (\<exists>e \<in> set all_shortParams. has_number (with_local header) i (fst e))"
    and "last_entry (with_local header) i all_intParams = Some v \<Longrightarrow>
      \<exists>y. value_of (with_local header) v = Some y \<and> intParams info i = Some (y mod 2 ^ 32)"
    and "last_entry (with_local header) i all_shortParams = Some v \<Longrightarrow>
      \<exists>y. value_of (with_local header) v = Some y \<and> shortParams info i = Some (y mod 2 ^ 16)"
proof -
  let ?h = "with_local header" and ?v = "GetFormatedDriverVersion major minor patch"
  obtain ints shorts where f: "assign_numbers 32 ?h all_intParams Map.empty = Some ints"
      "assign_numbers 16 ?h all_shortParams Map.empty = Some shorts"
      "info = \<lparr>strParams = assign_texts ?h (all_strParams ?v) Map.empty, intParams = ints, shortParams = shorts\<rparr>"
    using assms by (auto simp: newConnectionInfo_def Let_def split: option.splits)
  show "strParams info i = last_entry ?h i (all_strParams ?v)"
    unfolding f(3) by (simp add: assign_texts_last split: option.split)
  show "intParams info i = None \<longleftrightarrow> \<not> (\<exists>e \<in> set all_intParams. has_number ?h i (fst e))"
    unfolding f(3) last_entry_None [symmetric] using assign_numbers_last [OF f(1), of i]
    by (cases "last_entry ?h i all_intParams") auto
  show "shortParams info i = None \<longleftrightarrow> \<not> (\<exists>e \<in> set all_shortParams. has_number ?h i (fst e))"
    unfolding f(3) last_entry_None [symmetric] using assign_numbers_last [OF f(2), of i]
    by (cases "last_entry ?h i all_shortParams") auto
  show "\<exists>y. value_of ?h v = Some y \<and> intParams info i = Some (y mod 2 ^ 32)" if "last_entry ?h i all_intParams = Some v"
    unfolding f(3) using assign_numbers_last(2) [OF f(1) that] by simp
  show "\<exists>y. value_of ?h v = Some y \<and> shortParams info i = Some (y mod 2 ^ 16)" if "last_entry ?h i all_shortParams = Some v"
    unfolding f(3) using assign_numbers_last(2) [OF f(2) that] by simp
qed

lemma strParams_None:
  assumes "newConnectionInfo header major minor patch = Some info"
  shows "strParams info i = None \<longleftrightarrow> \<not> (\<exists>e \<in> set (all_strParams []). has_number (with_local header) i (fst e))"
proof -
  let ?v = "GetFormatedDriverVersion major minor patch"
  have "(\<exists>e \<in> set (all_strParams ?v). has_number (with_local header) i (fst e)) \<longleftrightarrow>
      (\<exists>n \<in> fst ` set (all_strParams ?v). has_number (with_local header) i n)" by simp
  then show ?thesis
    unfolding newConnectionInfo_maps(1) [OF assms] last_entry_None using str_names [of ?v] by (metis (no_types, lifting) image_iff)
qed

text \<open>(C38) What an application is told about the driver: for any headers in which the types of the three tables have
  different numbers, a new connection answers an information type exactly when it is declared and has an entry. It answers
  with the last entry of the type's number: the text of an entry of the first table is copied to the buffer, with its
  length, the value of one of the second table is written as exactly four bytes and of one of the third as exactly two.\<close>

theorem info_types_answered:
  assumes "newConnectionInfo header major minor patch = Some info" and "tables_apart (with_local header)" and "0 < len"
  shows "(fst (GetInfo wc info i (Some a) len r m) = AI_SUCCESS \<longleftrightarrow>
            (\<exists>n \<in> fst ` (set (all_strParams [])) \<union> fst ` set (all_intParams @ all_shortParams). has_number (with_local header) i n))
    \<and> (\<forall>t. last_entry (with_local header) i (all_strParams (GetFormatedDriverVersion major minor patch)) = Some t \<longrightarrow>
          (case CopyStringToBuffer wc m t (Some a) (nat (len mod 2 ^ 64)) True of (m', strlen, isTruncated) \<Rightarrow>
             GetInfo wc info i (Some a) len r m = (AI_SUCCESS, case r of None \<Rightarrow> m' | Some b \<Rightarrow> write_bytes m' b (int_bytes 2 (int strlen)))))
    \<and> (\<forall>v. last_entry (with_local header) i all_intParams = Some v \<longrightarrow>
          (\<exists>y. value_of (with_local header) v = Some y
             \<and> GetInfo wc info i (Some a) len r m = (AI_SUCCESS, write_bytes m a (int_bytes 4 (y mod 2 ^ 32)))))
    \<and> (\<forall>v. last_entry (with_local header) i all_shortParams = Some v \<longrightarrow>
          (\<exists>y. value_of (with_local header) v = Some y
             \<and> GetInfo wc info i (Some a) len r m = (AI_SUCCESS, write_bytes m a (int_bytes 2 (y mod 2 ^ 16)))))"
proof (intro conjI allI impI)
  note maps = newConnectionInfo_maps [OF assms(1)] and str = strParams_None [OF assms(1)]
  let ?h = "with_local header"
  have none: "fst (GetInfo wc info i (Some a) len r m) = AI_SUCCESS \<longleftrightarrow>
      \<not> (strParams info i = None \<and> intParams info i = None \<and> shortParams info i = None)"
    using assms(3) by (simp add: GetInfo_def Let_def split: option.split prod.split)
  show "fst (GetInfo wc info i (Some a) len r m) = AI_SUCCESS \<longleftrightarrow>
      (\<exists>n \<in> fst ` (set (all_strParams [])) \<union> fst ` set (all_intParams @ all_shortParams). has_number ?h i n)"
    unfolding none str maps(2,3) by auto
  show "case CopyStringToBuffer wc m t (Some a) (nat (len mod 2 ^ 64)) True of (m', strlen, isTruncated) \<Rightarrow>
      GetInfo wc info i (Some a) len r m = (AI_SUCCESS, case r of None \<Rightarrow> m' | Some b \<Rightarrow> write_bytes m' b (int_bytes 2 (int strlen)))"
    if "last_entry ?h i (all_strParams (GetFormatedDriverVersion major minor patch)) = Some t" for t
    using that assms(3) by (simp add: GetInfo_def maps(1) split: prod.split)
  show "\<exists>y. value_of ?h v = Some y \<and> GetInfo wc info i (Some a) len r m = (AI_SUCCESS, write_bytes m a (int_bytes 4 (y mod 2 ^ 32)))"
    if v: "last_entry ?h i all_intParams = Some v" for v
  proof -
    have "\<exists>e \<in> set all_intParams. has_number ?h i (fst e)" using v last_entry_None [of ?h i all_intParams] by auto
    then have "strParams info i = None" unfolding str using assms(2) unfolding tables_apart_def by blast
    with maps(4) [OF v] show ?thesis by (auto simp: GetInfo_def)
  qed
  show "\<exists>y. value_of ?h v = Some y \<and> GetInfo wc info i (Some a) len r m = (AI_SUCCESS, write_bytes m a (int_bytes 2 (y mod 2 ^ 16)))"
    if v: "last_entry ?h i all_shortParams = Some v" for v
  proof -
    have e: "\<exists>e \<in> set all_shortParams. has_number ?h i (fst e)" using v last_entry_None [of ?h i all_shortParams] by auto
    then have "strParams info i = None" unfolding str using assms(2) unfolding tables_apart_def by blast
    moreover have "intParams info i = None" unfolding maps(2) using e assms(2) unfolding tables_apart_def by blast
    ultimately show ?thesis using maps(5) [OF v] by (auto simp: GetInfo_def)
  qed
qed

text \<open>A header with one information type of each table.\<close>

definition small_header :: header where
  "small_header = [''SQL_DRIVER_NAME'' \<mapsto> 6, ''SQL_MAX_CATALOG_NAME_LEN'' \<mapsto> 34, ''SQL_TXN_CAPABLE'' \<mapsto> 46, ''SQL_TC_NONE'' \<mapsto> 0]"

lemma small_header_numbers:
  "has_number (with_local small_header) i n \<longleftrightarrow>
     (n, i) \<in> {(''SQL_DRIVER_NAME'', 6), (''SQL_MAX_CATALOG_NAME_LEN'', 34), (''SQL_TXN_CAPABLE'', 46), (''SQL_TC_NONE'', 0),
       (''SQL_ASYNC_NOTIFICATION'', 10025), (''SQL_ASYNC_NOTIFICATION_NOT_CAPABLE'', 0), (''SQL_ASYNC_NOTIFICATION_CAPABLE'', 1)}"
  by (auto simp: has_number_def with_local_def small_header_def map_add_def split: option.splits if_splits)

lemma small_header_entries:
  "filter (\<lambda>e. with_local small_header (fst e) \<noteq> None) (all_strParams []) = [(''SQL_DRIVER_NAME'', ''Amazon DocumentDB'')]"
  "filter (\<lambda>e. with_local small_header (fst e) \<noteq> None) all_shortParams = [(''SQL_TXN_CAPABLE'', Constants [''SQL_TC_NONE''])]"
  "filter (\<lambda>e. with_local small_header (fst e) \<noteq> None) all_intParams =
     [(''SQL_ASYNC_NOTIFICATION'', Constants [''SQL_ASYNC_NOTIFICATION_NOT_CAPABLE'']), (''SQL_MAX_CATALOG_NAME_LEN'', Number 0)]"
  by code_simp+

text \<open>Only the declared entries count.\<close>

lemma declared_entries:
  "(\<exists>e \<in> set es. has_number h i (fst e)) \<longleftrightarrow> (\<exists>e \<in> set (filter (\<lambda>e. h (fst e) \<noteq> None) es). has_number h i (fst e))"
  by (force simp: has_number_def)

lemma assign_numbers_declared:
  "assign_numbers w h es m = assign_numbers w h (filter (\<lambda>e. h (fst e) \<noteq> None) es) m"
  by (induction es arbitrary: m) (auto split: option.split)

lemma small_header_apart: "tables_apart (with_local small_header)"
  unfolding tables_apart_def declared_entries [of "all_strParams []"] declared_entries [of all_intParams]
    declared_entries [of all_shortParams]
  unfolding small_header_entries small_header_numbers by auto

lemma small_header_table: "\<exists>info. newConnectionInfo small_header 1 2 3 = Some info"
  unfolding newConnectionInfo_def Let_def assign_numbers_declared [of _ _ all_intParams]
    assign_numbers_declared [of _ _ all_shortParams]
  unfolding small_header_entries by (simp add: with_local_def small_header_def)

lemma last_entry_declared: "last_entry h i es = last_entry h i (filter (\<lambda>e. h (fst e) \<noteq> None) es)"
  by (induction es) (auto simp: has_number_def split: option.split)

lemma small_header_34: "last_entry (with_local small_header) 34 all_intParams = Some (Number 0)"
  unfolding last_entry_declared [of _ _ all_intParams] small_header_entries by (simp add: small_header_numbers)

theorem info_types_answered_witness:
  "\<exists>info. newConnectionInfo small_header 1 2 3 = Some info \<and> tables_apart (with_local small_header)
     \<and> GetInfo 4 info 34 (Some 100) 8 None (\<lambda>_. 7) = (AI_SUCCESS, write_bytes (\<lambda>_. 7) 100 (int_bytes 4 0))
     \<and> fst (GetInfo 4 info 35 (Some 100) 8 None (\<lambda>_. 7)) = AI_ERROR"
proof -
  obtain info where info: "newConnectionInfo small_header 1 2 3 = Some info" using small_header_table by blast
  have "GetInfo 4 info 34 (Some 100) 8 None (\<lambda>_. 7) = (AI_SUCCESS, write_bytes (\<lambda>_. 7) 100 (int_bytes 4 0))"
    using info_types_answered [OF info small_header_apart, of 8 4 34 100 None "\<lambda>_. 7"] small_header_34 by simp
  moreover have "\<not> (\<exists>n \<in> N. has_number (with_local small_header) 35 n)" for N
    unfolding small_header_numbers by simp
  then have "fst (GetInfo 4 info 35 (Some 100) 8 None (\<lambda>_. 7)) \<noteq> AI_SUCCESS"
    using info_types_answered [OF info small_header_apart, of 8 4 35 100 None "\<lambda>_. 7"] by simp
  then have "fst (GetInfo 4 info 35 (Some 100) 8 None (\<lambda>_. 7)) = AI_ERROR"
    by (auto simp: GetInfo_def Let_def split: option.splits prod.splits)
  ultimately show ?thesis using info small_header_apart by blast
qed

text \<open>ODBC declares the longest catalogue name as a 16-bit number, but the driver keeps it in the second table: the two
  bytes after the application's variable are overwritten.\<close>

lemma catalog_name_len_overwrites:
  "\<exists>info. newConnectionInfo small_header 1 2 3 = Some info
     \<and> snd (GetInfo 4 info 34 (Some 100) 2 None (\<lambda>_. 7)) 102 = 0 \<and> snd (GetInfo 4 info 34 (Some 100) 2 None (\<lambda>_. 7)) 103 = 0"
proof -
  obtain info where info: "newConnectionInfo small_header 1 2 3 = Some info" using small_header_table by blast
  have "strParams info 34 = None"
    unfolding strParams_None [OF info] declared_entries [of "all_strParams []"] unfolding small_header_entries small_header_numbers by simp
  with newConnectionInfo_maps(4) [OF info small_header_34] info show ?thesis
    by (auto simp: GetInfo_def write_bytes_def int_bytes_def)
qed

end
