(* ===== verification/Odbc_Jni.thy ===== *)
theory Odbc_Jni
  imports Odbc_Error Odbc_Action
begin

text \<open>
  The calls into the Java machine (\<^verbatim>\<open>src/jni/java.cpp\<close>). The functions of the JNI environment and of the Java machine
  are a parameter, the record \<open>JNI\<close> over a state of the machine: which references are valid is part of that state. What
  the interface forbids is an error of the model: the use of a reference that is not valid, of a null object or method,
  and a call while an exception is pending. The driver creates its context without handlers, so no callback is
  made. Log output is left out, and so are the members of \<open>c_PlatformUtils\<close>, which are never set.
\<close>

section \<open>The Java Native Interface\<close>

type_synonym jref = nat

datatype jvalue = JObject "jref option" | JInt int | JLong int

datatype jni_error = DeadReference | NullPointer | CallWhilePending | UnsetValue

record 'j JNI =
  global_refs :: "'j \<Rightarrow> jref set"
  local_refs :: "'j \<Rightarrow> jref set"
  GetCreatedJavaVMs :: "'j \<Rightarrow> int \<times> nat"
  GetEnv :: "'j \<Rightarrow> int"
  CreateJavaVM :: "string list \<Rightarrow> 'j \<Rightarrow> int \<times> 'j"
  DestroyJavaVM :: "'j \<Rightarrow> 'j"
  AttachCurrentThread :: "'j \<Rightarrow> int \<times> 'j"
  DetachCurrentThread :: "'j \<Rightarrow> 'j"
  GetDefaultJavaVMInitArgs :: "int \<Rightarrow> int"
  env_ExceptionCheck :: "'j \<Rightarrow> bool"
  ExceptionOccurred :: "'j \<Rightarrow> jref option \<times> 'j"
  ExceptionClear :: "'j \<Rightarrow> 'j"
  NewGlobalRef :: "jref option \<Rightarrow> 'j \<Rightarrow> jref option \<times> 'j"
  DeleteGlobalRef :: "jref option \<Rightarrow> 'j \<Rightarrow> 'j"
  DeleteLocalRef :: "jref option \<Rightarrow> 'j \<Rightarrow> 'j"
  env_FindClass :: "string \<Rightarrow> 'j \<Rightarrow> jref option \<times> 'j"
  GetMethodID :: "jref \<Rightarrow> string \<Rightarrow> string \<Rightarrow> 'j \<Rightarrow> nat option \<times> 'j"
  GetStaticMethodID :: "jref \<Rightarrow> string \<Rightarrow> string \<Rightarrow> 'j \<Rightarrow> nat option \<times> 'j"
  GetObjectClass :: "jref \<Rightarrow> 'j \<Rightarrow> jref option \<times> 'j"
  NewStringUTF :: "string \<Rightarrow> 'j \<Rightarrow> jref option \<times> 'j"
  GetStringUTFChars :: "jref \<Rightarrow> 'j \<Rightarrow> string option"
  NewObjectArray :: "int \<Rightarrow> jref \<Rightarrow> 'j \<Rightarrow> jref option \<times> 'j"
  SetObjectArrayElement :: "jref \<Rightarrow> int \<Rightarrow> jref option \<Rightarrow> 'j \<Rightarrow> 'j"
  env_NewObject :: "jref \<Rightarrow> nat \<Rightarrow> jvalue list \<Rightarrow> 'j \<Rightarrow> jref option \<times> 'j"
  env_CallStaticObjectMethod :: "jref \<Rightarrow> nat \<Rightarrow> jvalue list \<Rightarrow> 'j \<Rightarrow> jref option \<times> 'j"
  env_CallObjectMethod :: "jref \<Rightarrow> nat \<Rightarrow> jvalue list \<Rightarrow> 'j \<Rightarrow> jref option \<times> 'j"
  env_CallBooleanMethod :: "jref \<Rightarrow> nat \<Rightarrow> jvalue list \<Rightarrow> 'j \<Rightarrow> bool \<times> 'j"
  env_CallIntMethod :: "jref \<Rightarrow> nat \<Rightarrow> jvalue list \<Rightarrow> 'j \<Rightarrow> int \<times> 'j"
  env_CallLongMethod :: "jref \<Rightarrow> nat \<Rightarrow> jvalue list \<Rightarrow> 'j \<Rightarrow> int \<times> 'j"
  env_CallVoidMethod :: "jref \<Rightarrow> nat \<Rightarrow> jvalue list \<Rightarrow> 'j \<Rightarrow> unit \<times> 'j"
  env_CallStaticVoidMethod :: "jref \<Rightarrow> nat \<Rightarrow> jvalue list \<Rightarrow> 'j \<Rightarrow> unit \<times> 'j"

type_synonym ('j, 'a) jni = "(jni_error, 'j, 'a) action"

abbreviation (input) "JNI_OK \<equiv> 0 :: int"

definition live :: "'j JNI \<Rightarrow> 'j \<Rightarrow> jref \<Rightarrow> bool" where
  "live env j r \<longleftrightarrow> r \<in> global_refs env j \<union> local_refs env j"

fun value_refs :: "jvalue list \<Rightarrow> jref list" where
  "value_refs [] = []"
| "value_refs (JObject (Some r) # vs) = r # value_refs vs"
| "value_refs (v # vs) = value_refs vs"

text \<open>A call that the interface allows only when no exception is pending and the references it is given are valid.\<close>

definition checked :: "'j JNI \<Rightarrow> jref list \<Rightarrow> ('j \<Rightarrow> 'a \<times> 'j) \<Rightarrow> ('j, 'a) jni" where
  "checked env rs f = (\<lambda>j. if env_ExceptionCheck env j then Inl CallWhilePending
     else if list_all (live env j) rs then Inr (f j) else Inl DeadReference)"

text \<open>A call of a method: neither the object or class nor the method may be null.\<close>

definition call_method ::
  "'j JNI \<Rightarrow> (jref \<Rightarrow> nat \<Rightarrow> jvalue list \<Rightarrow> 'j \<Rightarrow> 'a \<times> 'j) \<Rightarrow> jref option \<Rightarrow> nat option \<Rightarrow> jvalue list \<Rightarrow> ('j, 'a) jni" where
  "call_method env f obj method args =
     (case (obj, method) of
        (Some r, Some m) \<Rightarrow> checked env (r # value_refs args) (f r m args)
      | _ \<Rightarrow> fail NullPointer)"

text \<open>The functions that are allowed at any time, for a null reference as well.\<close>

definition new_global :: "'j JNI \<Rightarrow> jref option \<Rightarrow> ('j, jref option) jni" where
  "new_global env r = (\<lambda>j. if r \<noteq> None \<and> \<not> live env j (the r) then Inl DeadReference else Inr (NewGlobalRef env r j))"

definition delete_global :: "'j JNI \<Rightarrow> jref option \<Rightarrow> ('j, unit) jni" where
  "delete_global env r = (\<lambda>j. if r \<noteq> None \<and> the r \<notin> global_refs env j then Inl DeadReference
     else Inr ((), DeleteGlobalRef env r j))"

definition delete_local :: "'j JNI \<Rightarrow> jref option \<Rightarrow> ('j, unit) jni" where
  "delete_local env r = (\<lambda>j. if r \<noteq> None \<and> the r \<notin> local_refs env j then Inl DeadReference
     else Inr ((), DeleteLocalRef env r j))"

definition new_string :: "'j JNI \<Rightarrow> string \<Rightarrow> ('j, jref option) jni" where
  "new_string env s = checked env [] (NewStringUTF env s)"

definition new_opt_string :: "'j JNI \<Rightarrow> string option \<Rightarrow> ('j, jref option) jni" where
  "new_opt_string env s = (case s of None \<Rightarrow> ret None | Some t \<Rightarrow> new_string env t)"

section \<open>Texts\<close>

text \<open>\<open>StringToChars\<close> copies the characters of a Java string, or gives a null pointer for a null string.\<close>

definition StringToChars :: "'j JNI \<Rightarrow> jref option \<Rightarrow> ('j, string option) jni" where
  "StringToChars env str =
     (case str of
        None \<Rightarrow> ret None
      | Some r \<Rightarrow> andThen (checked env [r] (\<lambda>j. (GetStringUTFChars env r j, j)))
          (\<lambda>chars. case chars of None \<Rightarrow> fail NullPointer | Some s \<Rightarrow> ret (Some s)))"

definition JavaStringToCString :: "'j JNI \<Rightarrow> jref option \<Rightarrow> ('j, string) jni" where
  "JavaStringToCString env str =
     andThen (StringToChars env str) (\<lambda>chars. ret (case chars of None \<Rightarrow> [] | Some s \<Rightarrow> s))"

section \<open>The members of the driver's Java classes\<close>

text \<open>The class and method constants, grouped by class: the member of \<open>JniMembers\<close> that keeps the class, the name
  of the class, and for each of its methods the member and the \<open>JniMethod\<close> (name, signature, whether it is static).\<close>

datatype JniMethod = JniMethod string string bool

type_synonym member_group = "string \<times> string \<times> (string \<times> JniMethod) list"

definition group_Class :: member_group where
  "group_Class =
    (''c_Class'', ''java/lang/Class'',
     [(''m_Class_getName'', JniMethod ''getName'' ''()Ljava/lang/String;'' False)])"

definition group_Throwable :: member_group where
  "group_Throwable =
    (''c_Throwable'', ''java/lang/Throwable'',
     [(''m_Throwable_getMessage'', JniMethod ''getMessage'' ''()Ljava/lang/String;'' False),
      (''m_Throwable_printStackTrace'', JniMethod ''printStackTrace'' ''()V'' False)])"

definition group_String :: member_group where
  "group_String = (''c_String'', ''java/lang/String'', [])"

definition group_DocumentDbConnectionProperties :: member_group where
  "group_DocumentDbConnectionProperties =
    (''c_DocumentDbConnectionProperties'', ''software/amazon/documentdb/jdbc/DocumentDbConnectionProperties'',
     [(''m_DocumentDbConnectionPropertiesGetPropertiesFromConnectionString'',
        JniMethod ''getPropertiesFromConnectionString''
          (''(Ljava/lang/String;)Lsoftware/amazon/documentdb/jdbc/DocumentDbConnect'' @
           ''ionProperties;'') True)])"

definition group_DocumentDbConnection :: member_group where
  "group_DocumentDbConnection =
    (''c_DocumentDbConnection'', ''software/amazon/documentdb/jdbc/DocumentDbConnection'',
     [(''m_DocumentDbConnectionGetSshLocalPort'', JniMethod ''getSshLocalPort'' ''()I'' False),
      (''m_DocumentDbConnectionIsSshTunnelActive'', JniMethod ''isSshTunnelActive'' ''()Z'' False),
      (''m_DocumentDbConnectionGetDatabaseMetadata'',
        JniMethod ''getDatabaseMetadata''
          (''()Lsoftware/amazon/documentdb/jdbc/metadata/DocumentDbDatabaseSchemaMe'' @
           ''tadata;'') False),
      (''m_DocumentDbConnectionGetConnectionProperties'',
        JniMethod ''getConnectionProperties'' ''()Lsoftware/amazon/documentdb/jdbc/DocumentDbConnectionProperties;'' False)])"

definition group_DocumentDbDatabaseSchemaMetadata :: member_group where
  "group_DocumentDbDatabaseSchemaMetadata =
    (''c_DocumentDbDatabaseSchemaMetadata'', ''software/amazon/documentdb/jdbc/metadata/DocumentDbDatabaseSchemaMetadata'',
     [(''m_DocumentDbDatabaseSchemaMetadataGetSchemaName'',
        JniMethod ''getSchemaName'' ''()Ljava/lang/String;'' False)])"

definition group_DriverManager :: member_group where
  "group_DriverManager =
    (''c_DriverManager'', ''java/sql/DriverManager'',
     [(''m_DriverManagerGetConnection'',
        JniMethod ''getConnection'' ''(Ljava/lang/String;)Ljava/sql/Connection;'' True)])"

definition group_ResultSet :: member_group where
  "group_ResultSet =
    (''c_ResultSet'', ''java/sql/ResultSet'',
     [(''m_ResultSetClose'', JniMethod ''close'' ''()V'' False),
      (''m_ResultSetNext'', JniMethod ''next'' ''()Z'' False),
      (''m_ResultSetGetStringByIndex'', JniMethod ''getString'' ''(I)Ljava/lang/String;'' False),
      (''m_ResultSetGetStringByName'', JniMethod ''getString'' ''(Ljava/lang/String;)Ljava/lang/String;'' False),
      (''m_ResultSetGetIntByIndex'', JniMethod ''getInt'' ''(I)I'' False),
      (''m_ResultSetGetIntByName'', JniMethod ''getInt'' ''(Ljava/lang/String;)I'' False),
      (''m_ResultSetGetRow'', JniMethod ''getRow'' ''()I'' False),
      (''m_ResultSetWasNull'', JniMethod ''wasNull'' ''()Z'' False)])"

definition group_DatabaseMetaData :: member_group where
  "group_DatabaseMetaData =
    (''c_DatabaseMetaData'', ''java/sql/DatabaseMetaData'',
     [(''m_DatabaseMetaDataGetTables'',
        JniMethod ''getTables''
          (''(Ljava/lang/String;Ljava/lang/String;Ljava/lang/String;[Ljava/lang/Str'' @
           ''ing;)Ljava/sql/ResultSet;'') False),
      (''m_DatabaseMetaDataGetColumns'',
        JniMethod ''getColumns''
          (''(Ljava/lang/String;Ljava/lang/String;Ljava/lang/String;Ljava/lang/Stri'' @
           ''ng;)Ljava/sql/ResultSet;'') False),
      (''m_DatabaseMetaDataGetPrimaryKeys'',
        JniMethod ''getPrimaryKeys''
          (''(Ljava/lang/String;Ljava/lang/String;Ljava/lang/String;)Ljava/sql/Resu'' @
           ''ltSet;'') False),
      (''m_DatabaseMetaDataGetImportedKeys'',
        JniMethod ''getImportedKeys''
          (''(Ljava/lang/String;Ljava/lang/String;Ljava/lang/String;)Ljava/sql/Resu'' @
           ''ltSet;'') False),
      (''m_DatabaseMetaDataGetTypeInfo'', JniMethod ''getTypeInfo'' ''()Ljava/sql/ResultSet;'' False)])"

definition group_Connection :: member_group where
  "group_Connection =
    (''c_Connection'', ''java/sql/Connection'',
     [(''m_ConnectionClose'', JniMethod ''close'' ''()V'' False),
      (''m_ConnectionGetMetaData'', JniMethod ''getMetaData'' ''()Ljava/sql/DatabaseMetaData;'' False)])"

definition group_List :: member_group where
  "group_List =
    (''c_List'', ''java/util/List'',
     [(''m_ListSize'', JniMethod ''size'' ''()I'' False),
      (''m_ListGet'', JniMethod ''get'' ''(I)Ljava/lang/Object;'' False)])"

definition group_DocumentDbMqlQueryContext :: member_group where
  "group_DocumentDbMqlQueryContext =
    (''c_DocumentDbMqlQueryContext'', ''software/amazon/documentdb/jdbc/query/DocumentDbMqlQueryContext'',
     [(''m_DocumentDbMqlQueryContextGetAggregateOperationsAsStrings'',
        JniMethod ''getAggregateOperationsAsStrings'' ''()Ljava/util/List;'' False),
      (''m_DocumentDbMqlQueryContextGetColumnMetadata'',
        JniMethod ''getColumnMetaData'' ''()Ljava/util/List;'' False),
      (''m_DocumentDbMqlQueryContextGetCollectionName'',
        JniMethod ''getCollectionName'' ''()Ljava/lang/String;'' False),
      (''m_DocumentDbMqlQueryContextGetPaths'', JniMethod ''getPaths'' ''()Ljava/util/List;'' False)])"

definition group_JdbcColumnMetadata :: member_group where
  "group_JdbcColumnMetadata =
    (''c_JdbcColumnMetadata'', ''software/amazon/documentdb/jdbc/common/utilities/JdbcColumnMetaData'',
     [(''m_JdbcColumnMetadataGetOrdinal'', JniMethod ''getOrdinal'' ''()I'' False),
      (''m_JdbcColumnMetadataIsAutoIncrement'', JniMethod ''isAutoIncrement'' ''()Z'' False),
      (''m_JdbcColumnMetadataIsCaseSensitive'', JniMethod ''isCaseSensitive'' ''()Z'' False),
      (''m_JdbcColumnMetadataIsSearchable'', JniMethod ''isSearchable'' ''()Z'' False),
      (''m_JdbcColumnMetadataIsCurrency'', JniMethod ''isCurrency'' ''()Z'' False),
      (''m_JdbcColumnMetadataGetNullable'', JniMethod ''getNullable'' ''()I'' False),
      (''m_JdbcColumnMetadataIsSigned'', JniMethod ''isSigned'' ''()Z'' False),
      (''m_JdbcColumnMetadataGetColumnDisplaySize'', JniMethod ''getColumnDisplaySize'' ''()I'' False),
      (''m_JdbcColumnMetadataGetColumnLabel'', JniMethod ''getColumnLabel'' ''()Ljava/lang/String;'' False),
      (''m_JdbcColumnMetadataGetColumnName'', JniMethod ''getColumnName'' ''()Ljava/lang/String;'' False),
      (''m_JdbcColumnMetadataGetSchemaName'', JniMethod ''getSchemaName'' ''()Ljava/lang/String;'' False),
      (''m_JdbcColumnMetadataGetPrecision'', JniMethod ''getPrecision'' ''()I'' False),
      (''m_JdbcColumnMetadataGetScale'', JniMethod ''getScale'' ''()I'' False),
      (''m_JdbcColumnMetadataGetTableName'', JniMethod ''getTableName'' ''()Ljava/lang/String;'' False),
      (''m_JdbcColumnMetadataGetCatalogName'', JniMethod ''getCatalogName'' ''()Ljava/lang/String;'' False),
      (''m_JdbcColumnMetadataGetColumnType'', JniMethod ''getColumnType'' ''()I'' False),
      (''m_JdbcColumnMetadataGetColumnTypeName'', JniMethod ''getColumnTypeName'' ''()Ljava/lang/String;'' False),
      (''m_JdbcColumnMetadataIsReadOnly'', JniMethod ''isReadOnly'' ''()Z'' False),
      (''m_JdbcColumnMetadataIsWritable'', JniMethod ''isWritable'' ''()Z'' False),
      (''m_JdbcColumnMetadataIsDefinitelyWritable'', JniMethod ''isDefinitelyWritable'' ''()Z'' False),
      (''m_JdbcColumnMetadataGetColumnClassName'', JniMethod ''getColumnClassName'' ''()Ljava/lang/String;'' False)])"

definition group_DocumentDbQueryMappingService :: member_group where
  "group_DocumentDbQueryMappingService =
    (''c_DocumentDbQueryMappingService'', ''software/amazon/documentdb/jdbc/query/DocumentDbQueryMappingService'',
     [(''m_DocumentDbQueryMappingServiceCtor'',
        JniMethod ''<init>''
          (''(Lsoftware/amazon/documentdb/jdbc/DocumentDbConnectionProperties;Lsoft'' @
           ''ware/amazon/documentdb/jdbc/metadata/DocumentDbDatabaseSchemaMetadata;'' @
           '')V'') False),
      (''m_DocumentDbQueryMappingServiceGet'',
        JniMethod ''get''
          (''(Ljava/lang/String;J)Lsoftware/amazon/documentdb/jdbc/query/DocumentDb'' @
           ''MqlQueryContext;'') False)])"

text \<open>The members that have been set, by name.\<close>

type_synonym Members = "string \<rightharpoonup> nat"

text \<open>A \<open>JvmException\<close> is the result \<open>None\<close>.\<close>

definition jni_FindClass :: "'j JNI \<Rightarrow> string \<Rightarrow> ('j, jref option option) jni" where
  "jni_FindClass env name =
     andThen (checked env [] (env_FindClass env name)) (\<lambda>res.
       if res = None then ret None
       else andThen (new_global env res) (\<lambda>res0. followed (delete_local env res) (ret (Some res0))))"

definition DeleteClass :: "'j JNI \<Rightarrow> nat option \<Rightarrow> ('j, unit) jni" where
  "DeleteClass env cls = (if cls = None then ret () else delete_global env cls)"

definition FindMethod :: "'j JNI \<Rightarrow> jref option \<Rightarrow> JniMethod \<Rightarrow> ('j, nat option) jni" where
  "FindMethod env cls mthd =
     (case (cls, mthd) of
        (Some c, JniMethod name sign isStatic) \<Rightarrow>
          checked env [c] ((if isStatic then GetStaticMethodID env else GetMethodID env) c name sign)
      | _ \<Rightarrow> fail NullPointer)"

text \<open>\<open>Initialize\<close> sets the members one after the other until a class or a method is not found; the result says
  whether it came to the end.\<close>

fun find_methods :: "'j JNI \<Rightarrow> jref option \<Rightarrow> (string \<times> JniMethod) list \<Rightarrow> Members \<Rightarrow> ('j, Members \<times> bool) jni" where
  "find_methods env cls [] ms = ret (ms, True)"
| "find_methods env cls ((member, mthd) # rest) ms =
     andThen (FindMethod env cls mthd) (\<lambda>res.
       case res of None \<Rightarrow> ret (ms, False) | Some m \<Rightarrow> find_methods env cls rest (ms(member \<mapsto> m)))"

fun find_groups :: "'j JNI \<Rightarrow> member_group list \<Rightarrow> Members \<Rightarrow> ('j, Members \<times> bool) jni" where
  "find_groups env [] ms = ret (ms, True)"
| "find_groups env ((member, name, methods) # rest) ms =
     andThen (jni_FindClass env name) (\<lambda>res.
       case res of
         None \<Rightarrow> ret (ms, False)
       | Some cls \<Rightarrow>
           andThen (find_methods env cls methods (ms(member := cls))) (\<lambda>(ms', ok).
             if ok then find_groups env rest ms' else ret (ms', False)))"

definition java_groups :: "member_group list" where
  "java_groups = [group_Class, group_Throwable, group_String]"

definition JniJavaMembers_Initialize :: "'j JNI \<Rightarrow> Members \<Rightarrow> ('j, Members \<times> bool) jni" where
  "JniJavaMembers_Initialize env = find_groups env java_groups"

definition member_groups :: "member_group list" where
  "member_groups =
     [group_DocumentDbConnectionProperties, group_DocumentDbConnection, group_DocumentDbDatabaseSchemaMetadata,
      group_DriverManager, group_ResultSet, group_DatabaseMetaData, group_Connection,
      group_List, group_DocumentDbMqlQueryContext,
      group_JdbcColumnMetadata, group_DocumentDbQueryMappingService]"

definition JniMembers_Initialize :: "'j JNI \<Rightarrow> Members \<Rightarrow> ('j, Members \<times> bool) jni" where
  "JniMembers_Initialize env = find_groups env member_groups"

definition JniJavaMembers_Destroy :: "'j JNI \<Rightarrow> Members \<Rightarrow> ('j, unit) jni" where
  "JniJavaMembers_Destroy env ms =
     followed (DeleteClass env (ms ''c_Class''))
     (followed (DeleteClass env (ms ''c_Throwable'')) (DeleteClass env (ms ''c_PlatformUtils'')))"

definition JniMembers_Destroy :: "'j JNI \<Rightarrow> Members \<Rightarrow> ('j, unit) jni" where
  "JniMembers_Destroy env ms =
     followed (DeleteClass env (ms ''c_IgniteException''))
     (followed (DeleteClass env (ms ''c_PlatformIgnition''))
     (followed (DeleteClass env (ms ''c_PlatformTarget'')) (DeleteClass env (ms ''c_PlatformUtils''))))"

section \<open>Errors\<close>

text \<open>The exception a failed start leaves: its class and message, read with the methods found so far.\<close>

definition WriteErrorInfo :: "'j JNI \<Rightarrow> Members \<Rightarrow> ('j, string option \<times> string option) jni" where
  "WriteErrorInfo env ms = andThen (get (env_ExceptionCheck env)) (\<lambda>pending.
     if pending then
       if ms ''m_Class_getName'' \<noteq> None \<and> ms ''m_Throwable_getMessage'' \<noteq> None then
         andThen (\<lambda>j. Inr (ExceptionOccurred env j)) (\<lambda>err.
         followed (change (ExceptionClear env))
         (andThen (case err of None \<Rightarrow> fail NullPointer | Some e \<Rightarrow> checked env [e] (GetObjectClass env e)) (\<lambda>errCls.
          andThen (call_method env (env_CallObjectMethod env) errCls (ms ''m_Class_getName'') []) (\<lambda>clsName.
          andThen (StringToChars env clsName) (\<lambda>errClsName.
          andThen (call_method env (env_CallObjectMethod env) err (ms ''m_Throwable_getMessage'') []) (\<lambda>msg.
          andThen (StringToChars env msg) (\<lambda>errMsg.
          followed (delete_local env errCls)
          (followed (delete_local env clsName)
          (followed (delete_local env msg)
            (ret (errClsName, errMsg)))))))))))
       else followed (change (ExceptionClear env)) (ret (None, None))
     else ret (None, None))"

definition GetJniErrorMessage :: "int \<Rightarrow> string" where
  "GetJniErrorMessage res =
     (if res = -1 then ''Unknown error (JNI_ERR).''
      else if res = -2 then ''Thread detached from the JVM.''
      else if res = -3 then ''JNI version error.''
      else if res = -4 then ''Could not reserve enough space for object heap. Check Xmx option.''
      else if res = -5 then ''JVM already created.''
      else if res = -6 then ''Invalid JVM arguments.''
      else ''Unexpected JNI_CreateJavaVM result.'')"

section \<open>Starting the Java machine\<close>

definition IsJava9OrLater :: "'j JNI \<Rightarrow> bool" where
  "IsJava9OrLater env \<longleftrightarrow> GetDefaultJavaVMInitArgs env 0x00090000 = JNI_OK"

definition BuildJvmOptions :: "'j JNI \<Rightarrow> string \<Rightarrow> int \<Rightarrow> int \<Rightarrow> string list" where
  "BuildJvmOptions env cp xms xmx =
     [''-Dcalcite.default.charset=utf8'',
      ''-Djava.class.path='' @ cp,
      ''-Xms'' @ int_string xms @ ''m'',
      ''-Xmx'' @ int_string xmx @ ''m'',
      ''-Dfile.encoding='' @ ''UTF-8''] @
     (if IsJava9OrLater env then
        [''--add-exports=java.base/jdk.internal.misc=ALL-UNNAMED'',
         ''--add-exports=java.base/sun.nio.ch=ALL-UNNAMED'',
         ''--add-exports=java.management/com.sun.jmx.mbeanserver=ALL-UNNAMED'',
         ''--add-exports=jdk.internal.jvmstat/sun.jvmstat.monitor=ALL-UNNAMED'',
         ''--add-exports=java.base/sun.reflect.generics.reflectiveObjects=ALL-UNNAMED'',
         ''--add-opens=jdk.management/com.sun.management.internal=ALL-UNNAMED'']
      else [])"

text \<open>An existing machine is used when its environment can be had; otherwise one is created. The result says whether
  \<open>*jvm\<close> and \<open>*env\<close> were set.\<close>

definition GetOrCreateJvm :: "'j JNI \<Rightarrow> string list \<Rightarrow> ('j, int) jni" where
  "GetOrCreateJvm env opts = andThen (get (GetCreatedJavaVMs env)) (\<lambda>(res, nJvmsAvailable).
     if res = JNI_OK \<and> 1 \<le> nJvmsAvailable then
       andThen (get (GetEnv env)) (\<lambda>res.
         if res = JNI_OK then ret res else (\<lambda>j. Inr (CreateJavaVM env opts j)))
     else (\<lambda>j. Inr (CreateJavaVM env opts j)))"

text \<open>The global \<open>JVM\<close> with its members and the flag \<open>PRINT_EXCEPTION\<close>. A context is a pointer to it.\<close>

record JniContext =
  javaMembers :: Members
  members :: Members
  PRINT_EXCEPTION :: bool

text \<open>\<open>Create\<close>: the global is an argument and returned, \<open>None\<close> while there is no machine; \<open>printStack\<close> is the environment
  variable \<open>DOCUMENTDB_CPP_PRINT_STACK\<close>. The error is set when there is no context. (The lock makes it one step.)\<close>

definition populate :: "'j JNI \<Rightarrow> ('j, Members \<times> Members \<times> bool) jni" where
  "populate env = andThen (JniJavaMembers_Initialize env Map.empty) (\<lambda>(jm, ok).
     if ok then andThen (JniMembers_Initialize env Map.empty) (\<lambda>(ms, ok'). ret (jm, ms, ok'))
     else ret (jm, Map.empty, False))"

definition JniContext_Create ::
  "'j JNI \<Rightarrow> string option \<Rightarrow> string list \<Rightarrow> JniContext option \<Rightarrow> JniErrorInfo \<Rightarrow> ('j, JniContext option \<times> JniErrorInfo) jni" where
  "JniContext_Create env printStack opts JVM errInfo =
     (case JVM of
        Some ctx \<Rightarrow> ret (Some ctx, errInfo)
      | None \<Rightarrow>
          andThen (GetOrCreateJvm env opts) (\<lambda>res.
            if res = JNI_OK then
              andThen (populate env) (\<lambda>(jm, ms, ok).
                if ok then
                  ret (Some \<lparr>javaMembers = jm, members = ms, PRINT_EXCEPTION = (printStack = Some ''true'')\<rparr>, errInfo)
                else
                  andThen (WriteErrorInfo env jm) (\<lambda>(errClsName, errMsg').
                  followed (JniMembers_Destroy env ms)
                  (followed (JniJavaMembers_Destroy env jm)
                  (followed (change (DestroyJavaVM env))
                    (ret (None, \<lparr>jni_code = JNI_ERR_JVM_INIT, errCls = case_option [] id errClsName,
                                 errMsg = case_option [] id errMsg'\<rparr>))))))
            else ret (None, \<lparr>jni_code = JNI_ERR_JVM_INIT, errCls = [], errMsg = GetJniErrorMessage res\<rparr>)))"

end
