(* ===== verification/Odbc_JniContext.thy ===== *)
theory Odbc_JniContext
  imports Odbc_Jni
begin

text \<open>
  The operations of \<open>JniContext\<close> (\<^verbatim>\<open>src/jni/java.cpp\<close>). A \<open>SharedPointer< GlobalJObject >\<close> is an optional object, null
  being \<open>None\<close>; the object keeps a global reference, which is null when the machine had no memory for it. An operation
  returns what it assigns to its result parameters and the error information; its code, which the source also
  returns, is part of that. A result parameter of a simple type is \<open>None\<close> when nothing is assigned; a pointer
  parameter is null in every caller before the call, so it is null when nothing is assigned.
\<close>

type_synonym GlobalJObject = "jref option"
type_synonym object_ptr = "GlobalJObject option"

section \<open>Attaching and exceptions\<close>

definition Attach :: "'j JNI \<Rightarrow> JniErrorInfo \<Rightarrow> ('j, JniErrorInfo) jni" where
  "Attach env errInfo = andThen (\<lambda>j. Inr (AttachCurrentThread env j)) (\<lambda>attachRes.
     ret (if attachRes = JNI_OK then errInfo\<lparr>jni_code := JNI_ERR_SUCCESS\<rparr>
          else errInfo\<lparr>jni_code := JNI_ERR_JVM_ATTACH, errMsg := ''Failed to connect to JVM''\<rparr>))"

definition ExceptionCheck :: "'j JNI \<Rightarrow> JniContext \<Rightarrow> ('j, JniErrorInfo) jni" where
  "ExceptionCheck env ctx = andThen (get (env_ExceptionCheck env)) (\<lambda>pending.
     if pending then
       andThen (\<lambda>j. Inr (ExceptionOccurred env j)) (\<lambda>err.
       followed (if PRINT_EXCEPTION ctx
                 then call_method env (env_CallVoidMethod env) err (javaMembers ctx ''m_Throwable_printStackTrace'') []
                 else ret ())
       (followed (change (ExceptionClear env))
       (andThen (case err of None \<Rightarrow> fail NullPointer | Some e \<Rightarrow> checked env [e] (GetObjectClass env e)) (\<lambda>cls.
        andThen (call_method env (env_CallObjectMethod env) cls (javaMembers ctx ''m_Class_getName'') []) (\<lambda>clsName.
        andThen (call_method env (env_CallObjectMethod env) err (javaMembers ctx ''m_Throwable_getMessage'') []) (\<lambda>msg.
        followed (delete_local env cls)
        (andThen (JavaStringToCString env clsName) (\<lambda>clsName0.
         andThen (JavaStringToCString env msg) (\<lambda>msg0.
         followed (delete_local env err)
           (ret \<lparr>jni_code = JNI_ERR_GENERIC, errCls = clsName0, errMsg = msg0\<rparr>))))))))))
     else ret \<lparr>jni_code = JNI_ERR_SUCCESS, errCls = [], errMsg = []\<rparr>)"

text \<open>The two beginnings that the operations share: the object must not be null, and the thread must be attached.\<close>

definition must_be_set :: "object_ptr \<Rightarrow> string \<Rightarrow> 'a \<Rightarrow> JniErrorInfo \<Rightarrow> (GlobalJObject \<Rightarrow> ('j, 'a \<times> JniErrorInfo) jni) \<Rightarrow>
    ('j, 'a \<times> JniErrorInfo) jni" where
  "must_be_set p msg unset errInfo k =
     (case p of
        None \<Rightarrow> ret (unset, errInfo\<lparr>jni_code := JNI_ERR_GENERIC, errMsg := msg\<rparr>)
      | Some obj \<Rightarrow> k obj)"

definition attached :: "'j JNI \<Rightarrow> 'a \<Rightarrow> JniErrorInfo \<Rightarrow> ('j, 'a \<times> JniErrorInfo) jni \<Rightarrow> ('j, 'a \<times> JniErrorInfo) jni" where
  "attached env unset errInfo k = andThen (Attach env errInfo) (\<lambda>e.
     if jni_code e \<noteq> JNI_ERR_SUCCESS then ret (unset, e) else k)"

text \<open>The result of a Java call as a new object with a global reference, or null. (The local reference of the result is
  not deleted.)\<close>

definition new_object :: "'j JNI \<Rightarrow> jref option \<Rightarrow> JniErrorInfo \<Rightarrow> ('j, object_ptr \<times> JniErrorInfo) jni" where
  "new_object env result e =
     (if result = None \<or> jni_code e \<noteq> JNI_ERR_SUCCESS then ret (None, e)
      else andThen (new_global env result) (\<lambda>g. ret (Some g, e)))"

text \<open>An object is destroyed with its last pointer.\<close>

definition destroy :: "'j JNI \<Rightarrow> object_ptr \<Rightarrow> ('j, unit) jni" where
  "destroy env p = (case p of None \<Rightarrow> ret () | Some ref \<Rightarrow> delete_global env ref)"

definition JavaStringToCppString :: "'j JNI \<Rightarrow> object_ptr \<Rightarrow> JniErrorInfo \<Rightarrow> ('j, string \<times> JniErrorInfo) jni" where
  "JavaStringToCppString env v errInfo = andThen (Attach env errInfo) (\<lambda>e.
     if jni_code e \<noteq> JNI_ERR_SUCCESS then ret ([], e)
     else case v of
            None \<Rightarrow> fail NullPointer
          | Some obj \<Rightarrow> andThen (JavaStringToCString env obj) (\<lambda>s. ret (s, e)))"

section \<open>Connections\<close>

definition DriverManagerGetConnection :: "'j JNI \<Rightarrow> JniContext \<Rightarrow> string \<Rightarrow> JniErrorInfo \<Rightarrow> ('j, object_ptr \<times> JniErrorInfo) jni" where
  "DriverManagerGetConnection env ctx connectionString errInfo =
     attached env None errInfo
       (andThen (new_string env connectionString) (\<lambda>jConnectionString.
        andThen (call_method env (env_CallStaticObjectMethod env) (members ctx ''c_DriverManager'')
                  (members ctx ''m_DriverManagerGetConnection'') [JObject jConnectionString]) (\<lambda>result.
        andThen (ExceptionCheck env ctx) (\<lambda>e.
        andThen (new_object env result e) (\<lambda>(connection, e).
          followed (delete_local env jConnectionString) (ret (connection, e)))))))"

definition ConnectionClose :: "'j JNI \<Rightarrow> JniContext \<Rightarrow> object_ptr \<Rightarrow> JniErrorInfo \<Rightarrow> ('j, unit \<times> JniErrorInfo) jni" where
  "ConnectionClose env ctx connection errInfo =
     must_be_set connection ''Connection object must be set.'' () errInfo (\<lambda>obj. attached env () errInfo
       (followed (call_method env (env_CallVoidMethod env) obj (members ctx ''m_ConnectionClose'') [])
       (andThen (ExceptionCheck env ctx) (\<lambda>e. ret ((), e)))))"

definition DocumentDbConnectionIsSshTunnelActive ::
  "'j JNI \<Rightarrow> JniContext \<Rightarrow> object_ptr \<Rightarrow> JniErrorInfo \<Rightarrow> ('j, bool option \<times> JniErrorInfo) jni" where
  "DocumentDbConnectionIsSshTunnelActive env ctx connection errInfo =
     must_be_set connection ''Connection object must be set.'' None errInfo (\<lambda>obj. attached env None errInfo
       (andThen (call_method env (env_CallBooleanMethod env) obj (members ctx ''m_DocumentDbConnectionIsSshTunnelActive'') []) (\<lambda>res.
        andThen (ExceptionCheck env ctx) (\<lambda>e.
          ret (if jni_code e = JNI_ERR_SUCCESS then Some res else None, e)))))"

text \<open>The port is assigned before the check for an exception.\<close>

definition DocumentDbConnectionGetSshLocalPort ::
  "'j JNI \<Rightarrow> JniContext \<Rightarrow> object_ptr \<Rightarrow> JniErrorInfo \<Rightarrow> ('j, int option \<times> JniErrorInfo) jni" where
  "DocumentDbConnectionGetSshLocalPort env ctx connection errInfo =
     must_be_set connection ''Connection object must be set.'' None errInfo (\<lambda>obj. attached env None errInfo
       (andThen (call_method env (env_CallIntMethod env) obj (members ctx ''m_DocumentDbConnectionGetSshLocalPort'') []) (\<lambda>result.
        andThen (ExceptionCheck env ctx) (\<lambda>e. ret (Some result, e)))))"

definition DocumentDbConnectionGetDatabaseMetadata :: "'j JNI \<Rightarrow> JniContext \<Rightarrow> object_ptr \<Rightarrow> JniErrorInfo \<Rightarrow> ('j, object_ptr \<times> JniErrorInfo) jni" where
  "DocumentDbConnectionGetDatabaseMetadata env ctx obj errInfo =
     must_be_set obj ''Connection object must be set.'' None errInfo (\<lambda>ref. attached env None errInfo
       (andThen (call_method env (env_CallObjectMethod env) ref (members ctx ''m_DocumentDbConnectionGetDatabaseMetadata'') []) (\<lambda>result.
        andThen (ExceptionCheck env ctx) (new_object env result))))"

definition DocumentDbConnectionGetConnectionProperties :: "'j JNI \<Rightarrow> JniContext \<Rightarrow> object_ptr \<Rightarrow> JniErrorInfo \<Rightarrow> ('j, object_ptr \<times> JniErrorInfo) jni" where
  "DocumentDbConnectionGetConnectionProperties env ctx obj errInfo =
     must_be_set obj ''Connection object must be set.'' None errInfo (\<lambda>ref. attached env None errInfo
       (andThen (call_method env (env_CallObjectMethod env) ref (members ctx ''m_DocumentDbConnectionGetConnectionProperties'') []) (\<lambda>result.
        andThen (ExceptionCheck env ctx) (new_object env result))))"

definition read_utf :: "'j JNI \<Rightarrow> jref option \<Rightarrow> JniErrorInfo \<Rightarrow> ('j, string option) jni" where
  "read_utf env result e =
     (if jni_code e = JNI_ERR_SUCCESS then StringToChars env result else ret None)"

text \<open>The second result says whether the name is null; it is not assigned after an exception.\<close>

definition DocumentDbDatabaseSchemaMetadataGetSchemaName ::
  "'j JNI \<Rightarrow> JniContext \<Rightarrow> object_ptr \<Rightarrow> JniErrorInfo \<Rightarrow> ('j, (string option \<times> bool option) \<times> JniErrorInfo) jni" where
  "DocumentDbDatabaseSchemaMetadataGetSchemaName env ctx databaseMetadata errInfo =
     must_be_set databaseMetadata ''DatabaseMetadata object must be set.'' (None, None) errInfo (\<lambda>obj. attached env (None, None) errInfo
       (andThen (call_method env (env_CallObjectMethod env) obj (members ctx ''m_DocumentDbDatabaseSchemaMetadataGetSchemaName'') []) (\<lambda>result.
        andThen (ExceptionCheck env ctx) (\<lambda>e.
        andThen (read_utf env result e) (\<lambda>v.
          ret ((v, if jni_code e = JNI_ERR_SUCCESS then Some (result = None) else None), e))))))"

definition ConnectionGetMetaData :: "'j JNI \<Rightarrow> JniContext \<Rightarrow> object_ptr \<Rightarrow> JniErrorInfo \<Rightarrow> ('j, object_ptr \<times> JniErrorInfo) jni" where
  "ConnectionGetMetaData env ctx obj errInfo =
     must_be_set obj ''Connection object must be set.'' None errInfo (\<lambda>ref. attached env None errInfo
       (andThen (call_method env (env_CallObjectMethod env) ref (members ctx ''m_ConnectionGetMetaData'') []) (\<lambda>result.
        andThen (ExceptionCheck env ctx) (new_object env result))))"

section \<open>Metadata of the database\<close>

text \<open>The array of table types. The local references of its elements are not deleted.\<close>

fun set_elements :: "'j JNI \<Rightarrow> jref option \<Rightarrow> int \<Rightarrow> string list \<Rightarrow> ('j, unit) jni" where
  "set_elements env arr i [] = ret ()"
| "set_elements env arr i (t # ts) =
     andThen (new_string env t) (\<lambda>s.
       followed (case arr of None \<Rightarrow> fail NullPointer
                 | Some a \<Rightarrow> checked env (a # value_refs [JObject s]) (\<lambda>j. ((), SetObjectArrayElement env a i s j)))
         (set_elements env arr (i + 1) ts))"

definition string_array :: "'j JNI \<Rightarrow> JniContext \<Rightarrow> string list option \<Rightarrow> ('j, jref option) jni" where
  "string_array env ctx types =
     (case types of
        None \<Rightarrow> ret None
      | Some ts \<Rightarrow>
          andThen (case javaMembers ctx ''c_String'' of None \<Rightarrow> fail NullPointer
                   | Some c \<Rightarrow> checked env [c] (NewObjectArray env (int (length ts)) c)) (\<lambda>arr.
            followed (set_elements env arr 0 ts) (ret arr)))"

definition DatabaseMetaDataGetTables ::
  "'j JNI \<Rightarrow> JniContext \<Rightarrow> object_ptr \<Rightarrow> string option \<Rightarrow> string option \<Rightarrow> string \<Rightarrow> string list option \<Rightarrow> JniErrorInfo \<Rightarrow>
     ('j, object_ptr \<times> JniErrorInfo) jni" where
  "DatabaseMetaDataGetTables env ctx databaseMetaData catalog schemaPattern tableNamePattern types errInfo =
     must_be_set databaseMetaData ''DatabaseMetaData object must be set.'' None errInfo (\<lambda>obj. attached env None errInfo
       (andThen (new_opt_string env catalog) (\<lambda>jCatalog.
        andThen (new_opt_string env schemaPattern) (\<lambda>jSchemaPattern.
        andThen (new_string env tableNamePattern) (\<lambda>jTableNamePattern.
        andThen (string_array env ctx types) (\<lambda>jTypes.
        andThen (call_method env (env_CallObjectMethod env) obj (members ctx ''m_DatabaseMetaDataGetTables'')
                  [JObject jCatalog, JObject jSchemaPattern, JObject jTableNamePattern, JObject jTypes]) (\<lambda>result.
        andThen (ExceptionCheck env ctx) (\<lambda>e.
        followed (delete_local env jCatalog)
        (followed (delete_local env jSchemaPattern)
        (followed (delete_local env jTableNamePattern)
        (followed (delete_local env jTypes)
          (new_object env result e))))))))))))"

definition DatabaseMetaDataGetColumns ::
  "'j JNI \<Rightarrow> JniContext \<Rightarrow> object_ptr \<Rightarrow> string option \<Rightarrow> string option \<Rightarrow> string \<Rightarrow> string \<Rightarrow> JniErrorInfo \<Rightarrow>
     ('j, object_ptr \<times> JniErrorInfo) jni" where
  "DatabaseMetaDataGetColumns env ctx databaseMetaData catalog schemaPattern tableNamePattern columnNamePattern errInfo =
     must_be_set databaseMetaData ''DatabaseMetaData object must be set.'' None errInfo (\<lambda>obj. attached env None errInfo
       (andThen (new_opt_string env catalog) (\<lambda>jCatalog.
        andThen (new_opt_string env schemaPattern) (\<lambda>jSchemaPattern.
        andThen (new_string env tableNamePattern) (\<lambda>jTableNamePattern.
        andThen (new_string env columnNamePattern) (\<lambda>jColumnNamePattern.
        andThen (call_method env (env_CallObjectMethod env) obj (members ctx ''m_DatabaseMetaDataGetColumns'')
                  [JObject jCatalog, JObject jSchemaPattern, JObject jTableNamePattern, JObject jColumnNamePattern]) (\<lambda>result.
        andThen (ExceptionCheck env ctx) (\<lambda>e.
        followed (delete_local env jCatalog)
        (followed (delete_local env jSchemaPattern)
        (followed (delete_local env jTableNamePattern)
        (followed (delete_local env jColumnNamePattern)
          (new_object env result e))))))))))))"

definition DatabaseMetaDataGetPrimaryKeys ::
  "'j JNI \<Rightarrow> JniContext \<Rightarrow> object_ptr \<Rightarrow> string option \<Rightarrow> string option \<Rightarrow> string option \<Rightarrow> JniErrorInfo \<Rightarrow>
     ('j, object_ptr \<times> JniErrorInfo) jni" where
  "DatabaseMetaDataGetPrimaryKeys env ctx databaseMetaData catalog schema table errInfo =
     must_be_set databaseMetaData ''DatabaseMetaData object must be set.'' None errInfo (\<lambda>obj. attached env None errInfo
       (andThen (new_opt_string env catalog) (\<lambda>jCatalog.
        andThen (new_opt_string env schema) (\<lambda>jSchema.
        andThen (new_opt_string env table) (\<lambda>jTableName.
        andThen (call_method env (env_CallObjectMethod env) obj (members ctx ''m_DatabaseMetaDataGetPrimaryKeys'')
                  [JObject jCatalog, JObject jSchema, JObject jTableName]) (\<lambda>result.
        andThen (ExceptionCheck env ctx) (\<lambda>e.
        followed (delete_local env jCatalog)
        (followed (delete_local env jSchema)
        (followed (delete_local env jTableName)
          (new_object env result e))))))))))"

definition DatabaseMetaDataGetImportedKeys ::
  "'j JNI \<Rightarrow> JniContext \<Rightarrow> object_ptr \<Rightarrow> string option \<Rightarrow> string option \<Rightarrow> string \<Rightarrow> JniErrorInfo \<Rightarrow>
     ('j, object_ptr \<times> JniErrorInfo) jni" where
  "DatabaseMetaDataGetImportedKeys env ctx databaseMetaData catalog schema table errInfo =
     must_be_set databaseMetaData ''DatabaseMetaData object must be set.'' None errInfo (\<lambda>obj. attached env None errInfo
       (andThen (new_opt_string env catalog) (\<lambda>jCatalog.
        andThen (new_opt_string env schema) (\<lambda>jSchema.
        andThen (new_string env table) (\<lambda>jTable.
        andThen (call_method env (env_CallObjectMethod env) obj (members ctx ''m_DatabaseMetaDataGetImportedKeys'')
                  [JObject jCatalog, JObject jSchema, JObject jTable]) (\<lambda>result.
        andThen (ExceptionCheck env ctx) (\<lambda>e.
        followed (delete_local env jCatalog)
        (followed (delete_local env jSchema)
        (followed (delete_local env jTable)
          (new_object env result e))))))))))"

definition DatabaseMetaDataGetTypeInfo :: "'j JNI \<Rightarrow> JniContext \<Rightarrow> object_ptr \<Rightarrow> JniErrorInfo \<Rightarrow> ('j, object_ptr \<times> JniErrorInfo) jni" where
  "DatabaseMetaDataGetTypeInfo env ctx obj errInfo =
     must_be_set obj ''DatabaseMetaData object must be set.'' None errInfo (\<lambda>ref. attached env None errInfo
       (andThen (call_method env (env_CallObjectMethod env) ref (members ctx ''m_DatabaseMetaDataGetTypeInfo'') []) (\<lambda>result.
        andThen (ExceptionCheck env ctx) (new_object env result))))"

section \<open>Result sets\<close>

definition ResultSetClose :: "'j JNI \<Rightarrow> JniContext \<Rightarrow> object_ptr \<Rightarrow> JniErrorInfo \<Rightarrow> ('j, unit \<times> JniErrorInfo) jni" where
  "ResultSetClose env ctx resultSet errInfo =
     must_be_set resultSet ''ResultSet object must be set.'' () errInfo (\<lambda>obj. attached env () errInfo
       (followed (call_method env (env_CallVoidMethod env) obj (members ctx ''m_ResultSetClose'') [])
       (andThen (ExceptionCheck env ctx) (\<lambda>e. ret ((), e)))))"

definition ResultSetNext :: "'j JNI \<Rightarrow> JniContext \<Rightarrow> object_ptr \<Rightarrow> JniErrorInfo \<Rightarrow> ('j, bool option \<times> JniErrorInfo) jni" where
  "ResultSetNext env ctx resultSet errInfo =
     must_be_set resultSet ''ResultSet object must be set.'' None errInfo (\<lambda>obj. attached env None errInfo
       (andThen (call_method env (env_CallBooleanMethod env) obj (members ctx ''m_ResultSetNext'') []) (\<lambda>res.
        andThen (ExceptionCheck env ctx) (\<lambda>e.
          ret (if jni_code e = JNI_ERR_SUCCESS then Some res else None, e)))))"

definition ResultSetWasNull :: "'j JNI \<Rightarrow> JniContext \<Rightarrow> object_ptr \<Rightarrow> JniErrorInfo \<Rightarrow> ('j, bool option \<times> JniErrorInfo) jni" where
  "ResultSetWasNull env ctx resultSet errInfo =
     must_be_set resultSet ''ResultSet object must be set.'' None errInfo (\<lambda>obj. attached env None errInfo
       (andThen (call_method env (env_CallBooleanMethod env) obj (members ctx ''m_ResultSetWasNull'') []) (\<lambda>res.
        andThen (ExceptionCheck env ctx) (\<lambda>e.
          ret (if jni_code e = JNI_ERR_SUCCESS then Some res else None, e)))))"

definition ResultSetGetString_index ::
  "'j JNI \<Rightarrow> JniContext \<Rightarrow> object_ptr \<Rightarrow> int \<Rightarrow> JniErrorInfo \<Rightarrow> ('j, string option \<times> JniErrorInfo) jni" where
  "ResultSetGetString_index env ctx resultSet columnIndex errInfo =
     must_be_set resultSet ''ResultSet object must be set.'' None errInfo (\<lambda>obj. attached env None errInfo
       (andThen (call_method env (env_CallObjectMethod env) obj (members ctx ''m_ResultSetGetStringByIndex'') [JInt columnIndex]) (\<lambda>result.
        andThen (ExceptionCheck env ctx) (\<lambda>e.
        andThen (read_utf env result e) (\<lambda>v. ret (v, e))))))"

definition ResultSetGetString ::
  "'j JNI \<Rightarrow> JniContext \<Rightarrow> object_ptr \<Rightarrow> string \<Rightarrow> JniErrorInfo \<Rightarrow> ('j, string option \<times> JniErrorInfo) jni" where
  "ResultSetGetString env ctx resultSet columnName errInfo =
     must_be_set resultSet ''ResultSet object must be set.'' None errInfo (\<lambda>obj. attached env None errInfo
       (andThen (new_string env columnName) (\<lambda>jColumnName.
        andThen (call_method env (env_CallObjectMethod env) obj (members ctx ''m_ResultSetGetStringByName'') [JObject jColumnName]) (\<lambda>result.
        andThen (ExceptionCheck env ctx) (\<lambda>e.
        followed (delete_local env jColumnName)
        (andThen (read_utf env result e) (\<lambda>v. ret (v, e))))))))"

text \<open>Whether the number just read was null. When that question fails, the flag is read although it was never assigned.\<close>

definition unless_null :: "'j JNI \<Rightarrow> JniContext \<Rightarrow> object_ptr \<Rightarrow> int option \<Rightarrow> int \<Rightarrow> JniErrorInfo \<Rightarrow> ('j, int option \<times> JniErrorInfo) jni" where
  "unless_null env ctx resultSet before result e =
     (if jni_code e = JNI_ERR_SUCCESS then
        andThen (ResultSetWasNull env ctx resultSet e) (\<lambda>(wasNull, e').
          case wasNull of
            None \<Rightarrow> fail UnsetValue
          | Some b \<Rightarrow> ret (if \<not> b then Some result else before, e'))
      else ret (None, e))"

definition ResultSetGetInt_index ::
  "'j JNI \<Rightarrow> JniContext \<Rightarrow> object_ptr \<Rightarrow> int \<Rightarrow> JniErrorInfo \<Rightarrow> ('j, int option \<times> JniErrorInfo) jni" where
  "ResultSetGetInt_index env ctx resultSet columnIndex errInfo =
     must_be_set resultSet ''ResultSet object must be set.'' None errInfo (\<lambda>obj. attached env None errInfo
       (andThen (call_method env (env_CallIntMethod env) obj (members ctx ''m_ResultSetGetIntByIndex'') [JInt columnIndex]) (\<lambda>result.
        andThen (ExceptionCheck env ctx) (unless_null env ctx resultSet None result))))"

definition ResultSetGetInt ::
  "'j JNI \<Rightarrow> JniContext \<Rightarrow> object_ptr \<Rightarrow> string \<Rightarrow> JniErrorInfo \<Rightarrow> ('j, int option \<times> JniErrorInfo) jni" where
  "ResultSetGetInt env ctx resultSet columnName errInfo =
     must_be_set resultSet ''ResultSet object must be set.'' None errInfo (\<lambda>obj. attached env None errInfo
       (andThen (new_string env columnName) (\<lambda>jColumnName.
        andThen (call_method env (env_CallIntMethod env) obj (members ctx ''m_ResultSetGetIntByName'') [JObject jColumnName]) (\<lambda>result.
        andThen (ExceptionCheck env ctx) (\<lambda>e.
        followed (delete_local env jColumnName) (unless_null env ctx resultSet None result e))))))"

text \<open>The row number is assigned before the question whether it is null.\<close>

definition ResultSetGetRow ::
  "'j JNI \<Rightarrow> JniContext \<Rightarrow> object_ptr \<Rightarrow> JniErrorInfo \<Rightarrow> ('j, int option \<times> JniErrorInfo) jni" where
  "ResultSetGetRow env ctx resultSet errInfo =
     must_be_set resultSet ''ResultSet object must be set.'' None errInfo (\<lambda>obj. attached env None errInfo
       (andThen (call_method env (env_CallIntMethod env) obj (members ctx ''m_ResultSetGetRow'') []) (\<lambda>result.
        andThen (ExceptionCheck env ctx) (unless_null env ctx resultSet (Some result) result))))"

section \<open>Lists\<close>

definition ListSize :: "'j JNI \<Rightarrow> JniContext \<Rightarrow> object_ptr \<Rightarrow> JniErrorInfo \<Rightarrow> ('j, int option \<times> JniErrorInfo) jni" where
  "ListSize env ctx list errInfo =
     must_be_set list ''List object must be set.'' None errInfo (\<lambda>obj. attached env None errInfo
       (andThen (call_method env (env_CallIntMethod env) obj (members ctx ''m_ListSize'') []) (\<lambda>res.
        andThen (ExceptionCheck env ctx) (\<lambda>e.
          ret (if jni_code e = JNI_ERR_SUCCESS then Some res else None, e)))))"

definition ListGet :: "'j JNI \<Rightarrow> JniContext \<Rightarrow> object_ptr \<Rightarrow> int \<Rightarrow> JniErrorInfo \<Rightarrow> ('j, object_ptr \<times> JniErrorInfo) jni" where
  "ListGet env ctx list index errInfo =
     must_be_set list ''List object must be set.'' None errInfo (\<lambda>obj. attached env None errInfo
       (andThen (call_method env (env_CallObjectMethod env) obj (members ctx ''m_ListGet'') [JInt index]) (\<lambda>result.
        andThen (ExceptionCheck env ctx) (new_object env result))))"

section \<open>Query contexts and the mapping service\<close>

definition DocumentdbMqlQueryContextGetAggregateOperationsAsStrings :: "'j JNI \<Rightarrow> JniContext \<Rightarrow> object_ptr \<Rightarrow> JniErrorInfo \<Rightarrow> ('j, object_ptr \<times> JniErrorInfo) jni" where
  "DocumentdbMqlQueryContextGetAggregateOperationsAsStrings env ctx obj errInfo =
     must_be_set obj ''MQL Query Context object must be set.'' None errInfo (\<lambda>ref. attached env None errInfo
       (andThen (call_method env (env_CallObjectMethod env) ref (members ctx ''m_DocumentDbMqlQueryContextGetAggregateOperationsAsStrings'') []) (\<lambda>result.
        andThen (ExceptionCheck env ctx) (new_object env result))))"

definition DocumentdbMqlQueryContextGetColumnMetadata :: "'j JNI \<Rightarrow> JniContext \<Rightarrow> object_ptr \<Rightarrow> JniErrorInfo \<Rightarrow> ('j, object_ptr \<times> JniErrorInfo) jni" where
  "DocumentdbMqlQueryContextGetColumnMetadata env ctx obj errInfo =
     must_be_set obj ''MQL Query Context object must be set.'' None errInfo (\<lambda>ref. attached env None errInfo
       (andThen (call_method env (env_CallObjectMethod env) ref (members ctx ''m_DocumentDbMqlQueryContextGetColumnMetadata'') []) (\<lambda>result.
        andThen (ExceptionCheck env ctx) (new_object env result))))"

definition DocumentdbMqlQueryContextGetPaths :: "'j JNI \<Rightarrow> JniContext \<Rightarrow> object_ptr \<Rightarrow> JniErrorInfo \<Rightarrow> ('j, object_ptr \<times> JniErrorInfo) jni" where
  "DocumentdbMqlQueryContextGetPaths env ctx obj errInfo =
     must_be_set obj ''MQL Query Context object must be set.'' None errInfo (\<lambda>ref. attached env None errInfo
       (andThen (call_method env (env_CallObjectMethod env) ref (members ctx ''m_DocumentDbMqlQueryContextGetPaths'') []) (\<lambda>result.
        andThen (ExceptionCheck env ctx) (new_object env result))))"

definition DocumentdbMqlQueryContextGetCollectionName ::
  "'j JNI \<Rightarrow> JniContext \<Rightarrow> object_ptr \<Rightarrow> JniErrorInfo \<Rightarrow> ('j, string option \<times> JniErrorInfo) jni" where
  "DocumentdbMqlQueryContextGetCollectionName env ctx mqlQueryContext errInfo =
     must_be_set mqlQueryContext ''MQL Query Context object must be set.'' None errInfo (\<lambda>obj. attached env None errInfo
       (andThen (call_method env (env_CallObjectMethod env) obj (members ctx ''m_DocumentDbMqlQueryContextGetCollectionName'') []) (\<lambda>result.
        andThen (ExceptionCheck env ctx) (\<lambda>e.
          if result = None \<or> jni_code e \<noteq> JNI_ERR_SUCCESS then ret (Some [], e)
          else andThen (JavaStringToCString env result) (\<lambda>s. ret (Some s, e))))))"

definition DocumentDbQueryMappingServiceCtor ::
  "'j JNI \<Rightarrow> JniContext \<Rightarrow> object_ptr \<Rightarrow> object_ptr \<Rightarrow> JniErrorInfo \<Rightarrow> ('j, object_ptr \<times> JniErrorInfo) jni" where
  "DocumentDbQueryMappingServiceCtor env ctx connectionProperties databaseMetadata errInfo =
     (let msg = ''Connection Properties and Database Metadata objects must be set.''
      in must_be_set connectionProperties msg None errInfo (\<lambda>properties.
         must_be_set databaseMetadata msg None errInfo (\<lambda>metadata. attached env None errInfo
           (andThen (call_method env (env_NewObject env) (members ctx ''c_DocumentDbQueryMappingService'')
                      (members ctx ''m_DocumentDbQueryMappingServiceCtor'') [JObject properties, JObject metadata]) (\<lambda>result.
            andThen (ExceptionCheck env ctx) (new_object env result))))))"

definition DocumentDbQueryMappingServiceGet ::
  "'j JNI \<Rightarrow> JniContext \<Rightarrow> object_ptr \<Rightarrow> string \<Rightarrow> int \<Rightarrow> JniErrorInfo \<Rightarrow> ('j, object_ptr \<times> JniErrorInfo) jni" where
  "DocumentDbQueryMappingServiceGet env ctx queryMappingService sql maxRowCount errInfo =
     must_be_set queryMappingService ''Query Mapping Service object must be set.'' None errInfo (\<lambda>obj. attached env None errInfo
       (andThen (new_string env sql) (\<lambda>sqlString.
        andThen (call_method env (env_CallObjectMethod env) obj (members ctx ''m_DocumentDbQueryMappingServiceGet'')
                  [JObject sqlString, JLong maxRowCount]) (\<lambda>result.
        followed (delete_local env sqlString)
        (andThen (ExceptionCheck env ctx) (new_object env result))))))"

section \<open>Column metadata\<close>

definition jni_CallBooleanMethod :: "'j JNI \<Rightarrow> JniContext \<Rightarrow> object_ptr \<Rightarrow> string \<Rightarrow> JniErrorInfo \<Rightarrow> ('j, bool option \<times> JniErrorInfo) jni" where
  "jni_CallBooleanMethod env ctx object method errInfo =
     must_be_set object ''JDBC Column Metadata object must be set.'' None errInfo (\<lambda>obj. attached env None errInfo
       (andThen (call_method env (env_CallBooleanMethod env) obj (members ctx method) []) (\<lambda>result.
        andThen (ExceptionCheck env ctx) (\<lambda>e.
          if jni_code e \<noteq> JNI_ERR_SUCCESS then ret (None, e) else ret (Some result, e)))))"

definition jni_CallIntMethod :: "'j JNI \<Rightarrow> JniContext \<Rightarrow> object_ptr \<Rightarrow> string \<Rightarrow> JniErrorInfo \<Rightarrow> ('j, int option \<times> JniErrorInfo) jni" where
  "jni_CallIntMethod env ctx object method errInfo =
     must_be_set object ''JDBC Column Metadata object must be set.'' None errInfo (\<lambda>obj. attached env None errInfo
       (andThen (call_method env (env_CallIntMethod env) obj (members ctx method) []) (\<lambda>result.
        andThen (ExceptionCheck env ctx) (\<lambda>e.
          if jni_code e \<noteq> JNI_ERR_SUCCESS then ret (None, e) else ret (Some result, e)))))"

text \<open>The text itself may be null.\<close>

definition jni_CallStringMethod :: "'j JNI \<Rightarrow> JniContext \<Rightarrow> object_ptr \<Rightarrow> string \<Rightarrow> JniErrorInfo \<Rightarrow> ('j, string option option \<times> JniErrorInfo) jni" where
  "jni_CallStringMethod env ctx object method errInfo =
     must_be_set object ''JDBC Column Metadata object must be set.'' None errInfo (\<lambda>obj. attached env None errInfo
       (andThen (call_method env (env_CallObjectMethod env) obj (members ctx method) []) (\<lambda>result.
        andThen (ExceptionCheck env ctx) (\<lambda>e.
          if jni_code e \<noteq> JNI_ERR_SUCCESS then ret (None, e) else 
            if result = None then ret (Some None, e)
            else andThen (JavaStringToCString env result) (\<lambda>s. ret (Some (Some s), e))))))"

definition JdbcColumnMetadataGetOrdinal :: "'j JNI \<Rightarrow> JniContext \<Rightarrow> object_ptr \<Rightarrow> JniErrorInfo \<Rightarrow> ('j, int option \<times> JniErrorInfo) jni" where
  "JdbcColumnMetadataGetOrdinal env ctx jdbcColumnMetadata errInfo =
     must_be_set jdbcColumnMetadata ''JDBC Column Metaata object must be set.'' None errInfo (\<lambda>obj. attached env None errInfo
       (andThen (call_method env (env_CallIntMethod env) obj (members ctx ''m_JdbcColumnMetadataGetOrdinal'') []) (\<lambda>result.
        andThen (ExceptionCheck env ctx) (\<lambda>e.
          if jni_code e \<noteq> JNI_ERR_SUCCESS then ret (None, e) else ret (Some result, e)))))"

definition JdbcColumnMetadataIsAutoIncrement :: "'j JNI \<Rightarrow> JniContext \<Rightarrow> object_ptr \<Rightarrow> JniErrorInfo \<Rightarrow> ('j, bool option \<times> JniErrorInfo) jni" where
  "JdbcColumnMetadataIsAutoIncrement env ctx jdbcColumnMetadata = jni_CallBooleanMethod env ctx jdbcColumnMetadata ''m_JdbcColumnMetadataIsAutoIncrement''"

definition JdbcColumnMetadataIsCaseSensitive :: "'j JNI \<Rightarrow> JniContext \<Rightarrow> object_ptr \<Rightarrow> JniErrorInfo \<Rightarrow> ('j, bool option \<times> JniErrorInfo) jni" where
  "JdbcColumnMetadataIsCaseSensitive env ctx jdbcColumnMetadata = jni_CallBooleanMethod env ctx jdbcColumnMetadata ''m_JdbcColumnMetadataIsCaseSensitive''"

definition JdbcColumnMetadataIsSearchable :: "'j JNI \<Rightarrow> JniContext \<Rightarrow> object_ptr \<Rightarrow> JniErrorInfo \<Rightarrow> ('j, bool option \<times> JniErrorInfo) jni" where
  "JdbcColumnMetadataIsSearchable env ctx jdbcColumnMetadata = jni_CallBooleanMethod env ctx jdbcColumnMetadata ''m_JdbcColumnMetadataIsSearchable''"

definition JdbcColumnMetadataIsCurrency :: "'j JNI \<Rightarrow> JniContext \<Rightarrow> object_ptr \<Rightarrow> JniErrorInfo \<Rightarrow> ('j, bool option \<times> JniErrorInfo) jni" where
  "JdbcColumnMetadataIsCurrency env ctx jdbcColumnMetadata = jni_CallBooleanMethod env ctx jdbcColumnMetadata ''m_JdbcColumnMetadataIsCurrency''"

definition JdbcColumnMetadataGetNullable :: "'j JNI \<Rightarrow> JniContext \<Rightarrow> object_ptr \<Rightarrow> JniErrorInfo \<Rightarrow> ('j, int option \<times> JniErrorInfo) jni" where
  "JdbcColumnMetadataGetNullable env ctx jdbcColumnMetadata = jni_CallIntMethod env ctx jdbcColumnMetadata ''m_JdbcColumnMetadataGetNullable''"

definition JdbcColumnMetadataIsSigned :: "'j JNI \<Rightarrow> JniContext \<Rightarrow> object_ptr \<Rightarrow> JniErrorInfo \<Rightarrow> ('j, bool option \<times> JniErrorInfo) jni" where
  "JdbcColumnMetadataIsSigned env ctx jdbcColumnMetadata = jni_CallBooleanMethod env ctx jdbcColumnMetadata ''m_JdbcColumnMetadataIsSigned''"

definition JdbcColumnMetadataGetColumnDisplaySize :: "'j JNI \<Rightarrow> JniContext \<Rightarrow> object_ptr \<Rightarrow> JniErrorInfo \<Rightarrow> ('j, int option \<times> JniErrorInfo) jni" where
  "JdbcColumnMetadataGetColumnDisplaySize env ctx jdbcColumnMetadata = jni_CallIntMethod env ctx jdbcColumnMetadata ''m_JdbcColumnMetadataGetColumnDisplaySize''"

definition JdbcColumnMetadataGetColumnLabel :: "'j JNI \<Rightarrow> JniContext \<Rightarrow> object_ptr \<Rightarrow> JniErrorInfo \<Rightarrow> ('j, string option option \<times> JniErrorInfo) jni" where
  "JdbcColumnMetadataGetColumnLabel env ctx jdbcColumnMetadata = jni_CallStringMethod env ctx jdbcColumnMetadata ''m_JdbcColumnMetadataGetColumnLabel''"

definition JdbcColumnMetadataGetColumnName :: "'j JNI \<Rightarrow> JniContext \<Rightarrow> object_ptr \<Rightarrow> JniErrorInfo \<Rightarrow> ('j, string option option \<times> JniErrorInfo) jni" where
  "JdbcColumnMetadataGetColumnName env ctx jdbcColumnMetadata = jni_CallStringMethod env ctx jdbcColumnMetadata ''m_JdbcColumnMetadataGetColumnName''"

definition JdbcColumnMetadataGetSchemaName :: "'j JNI \<Rightarrow> JniContext \<Rightarrow> object_ptr \<Rightarrow> JniErrorInfo \<Rightarrow> ('j, string option option \<times> JniErrorInfo) jni" where
  "JdbcColumnMetadataGetSchemaName env ctx jdbcColumnMetadata = jni_CallStringMethod env ctx jdbcColumnMetadata ''m_JdbcColumnMetadataGetSchemaName''"

definition JdbcColumnMetadataGetPrecision :: "'j JNI \<Rightarrow> JniContext \<Rightarrow> object_ptr \<Rightarrow> JniErrorInfo \<Rightarrow> ('j, int option \<times> JniErrorInfo) jni" where
  "JdbcColumnMetadataGetPrecision env ctx jdbcColumnMetadata = jni_CallIntMethod env ctx jdbcColumnMetadata ''m_JdbcColumnMetadataGetPrecision''"

definition JdbcColumnMetadataGetScale :: "'j JNI \<Rightarrow> JniContext \<Rightarrow> object_ptr \<Rightarrow> JniErrorInfo \<Rightarrow> ('j, int option \<times> JniErrorInfo) jni" where
  "JdbcColumnMetadataGetScale env ctx jdbcColumnMetadata = jni_CallIntMethod env ctx jdbcColumnMetadata ''m_JdbcColumnMetadataGetScale''"

definition JdbcColumnMetadataGetTableName :: "'j JNI \<Rightarrow> JniContext \<Rightarrow> object_ptr \<Rightarrow> JniErrorInfo \<Rightarrow> ('j, string option option \<times> JniErrorInfo) jni" where
  "JdbcColumnMetadataGetTableName env ctx jdbcColumnMetadata = jni_CallStringMethod env ctx jdbcColumnMetadata ''m_JdbcColumnMetadataGetTableName''"

definition JdbcColumnMetadataGetCatalogName :: "'j JNI \<Rightarrow> JniContext \<Rightarrow> object_ptr \<Rightarrow> JniErrorInfo \<Rightarrow> ('j, string option option \<times> JniErrorInfo) jni" where
  "JdbcColumnMetadataGetCatalogName env ctx jdbcColumnMetadata = jni_CallStringMethod env ctx jdbcColumnMetadata ''m_JdbcColumnMetadataGetCatalogName''"

definition JdbcColumnMetadataGetColumnType :: "'j JNI \<Rightarrow> JniContext \<Rightarrow> object_ptr \<Rightarrow> JniErrorInfo \<Rightarrow> ('j, int option \<times> JniErrorInfo) jni" where
  "JdbcColumnMetadataGetColumnType env ctx jdbcColumnMetadata = jni_CallIntMethod env ctx jdbcColumnMetadata ''m_JdbcColumnMetadataGetColumnType''"

definition JdbcColumnMetadataGetColumnTypeName :: "'j JNI \<Rightarrow> JniContext \<Rightarrow> object_ptr \<Rightarrow> JniErrorInfo \<Rightarrow> ('j, string option option \<times> JniErrorInfo) jni" where
  "JdbcColumnMetadataGetColumnTypeName env ctx jdbcColumnMetadata = jni_CallStringMethod env ctx jdbcColumnMetadata ''m_JdbcColumnMetadataGetColumnTypeName''"

definition JdbcColumnMetadataIsReadOnly :: "'j JNI \<Rightarrow> JniContext \<Rightarrow> object_ptr \<Rightarrow> JniErrorInfo \<Rightarrow> ('j, bool option \<times> JniErrorInfo) jni" where
  "JdbcColumnMetadataIsReadOnly env ctx jdbcColumnMetadata = jni_CallBooleanMethod env ctx jdbcColumnMetadata ''m_JdbcColumnMetadataIsReadOnly''"

definition JdbcColumnMetadataIsWritable :: "'j JNI \<Rightarrow> JniContext \<Rightarrow> object_ptr \<Rightarrow> JniErrorInfo \<Rightarrow> ('j, bool option \<times> JniErrorInfo) jni" where
  "JdbcColumnMetadataIsWritable env ctx jdbcColumnMetadata = jni_CallBooleanMethod env ctx jdbcColumnMetadata ''m_JdbcColumnMetadataIsWritable''"

definition JdbcColumnMetadataIsDefinitelyWritable :: "'j JNI \<Rightarrow> JniContext \<Rightarrow> object_ptr \<Rightarrow> JniErrorInfo \<Rightarrow> ('j, bool option \<times> JniErrorInfo) jni" where
  "JdbcColumnMetadataIsDefinitelyWritable env ctx jdbcColumnMetadata = jni_CallBooleanMethod env ctx jdbcColumnMetadata ''m_JdbcColumnMetadataIsDefinitelyWritable''"

definition JdbcColumnMetadataGetColumnClassName :: "'j JNI \<Rightarrow> JniContext \<Rightarrow> object_ptr \<Rightarrow> JniErrorInfo \<Rightarrow> ('j, string option option \<times> JniErrorInfo) jni" where
  "JdbcColumnMetadataGetColumnClassName env ctx jdbcColumnMetadata = jni_CallStringMethod env ctx jdbcColumnMetadata ''m_JdbcColumnMetadataGetColumnClassName''"

section \<open>References and the thread\<close>

definition LocalToGlobal :: "'j JNI \<Rightarrow> JniContext \<Rightarrow> jref option \<Rightarrow> ('j, jref option) jni" where
  "LocalToGlobal env ctx localRef =
     (if localRef = None then ret None
      else andThen (new_global env localRef) (\<lambda>globalRef.
        followed (delete_local env localRef)
        (if globalRef = None then followed (ExceptionCheck env ctx) (ret None) else ret globalRef)))"

definition Acquire :: "'j JNI \<Rightarrow> JniContext \<Rightarrow> jref option \<Rightarrow> ('j, jref option) jni" where
  "Acquire env ctx obj =
     (if obj = None then ret None
      else andThen (Attach env newJniErrorInfo) (\<lambda>e.
        if jni_code e \<noteq> JNI_ERR_SUCCESS then ret None
        else andThen (new_global env obj) (\<lambda>obj0. followed (ExceptionCheck env ctx) (ret obj0))))"

definition jni_Release :: "'j JNI \<Rightarrow> JniContext option \<Rightarrow> jref option \<Rightarrow> ('j, unit) jni" where
  "jni_Release env JVM obj =
     (if obj = None \<or> JVM = None then ret ()
      else andThen (\<lambda>j. Inr (AttachCurrentThread env j)) (\<lambda>attachRes.
        if attachRes = JNI_OK then delete_global env obj else ret ()))"

definition Detach :: "'j JNI \<Rightarrow> JniContext option \<Rightarrow> ('j, unit) jni" where
  "Detach env JVM =
     (if JVM = None then ret ()
      else andThen (get (GetEnv env)) (\<lambda>res.
        if res = JNI_OK then change (DetachCurrentThread env) else ret ()))"

end
