(* ===== verification/Odbc_JniService.thy ===== *)
theory Odbc_JniService
  imports Odbc_JniContext Odbc_Query
begin

text \<open>
  The classes that wrap Java objects (\<^verbatim>\<open>src/jni/result_set.cpp\<close>, \<^verbatim>\<open>database_metadata.cpp\<close>,
  \<^verbatim>\<open>documentdb_connection.cpp\<close>, \<^verbatim>\<open>documentdb_query_mapping_service.cpp\<close>). A wrapper is the pointer to its object; the
  context they share is an argument. A pointer declared in a block is destroyed at its end (\<open>scoped\<close>), in the
  reverse order of the declarations.
\<close>

definition scoped :: "'j JNI \<Rightarrow> object_ptr \<Rightarrow> ('j, 'a) jni \<Rightarrow> ('j, 'a) jni" where
  "scoped env p k = andThen k (\<lambda>x. followed (destroy env p) (ret x))"

section \<open>Result sets\<close>

text \<open>\<open>Close\<close> drops the object also when closing it failed. It returns the code, which is success without an object
  whatever the error information says.\<close>

definition ResultSet_Close ::
  "'j JNI \<Rightarrow> JniContext \<Rightarrow> object_ptr \<Rightarrow> JniErrorInfo \<Rightarrow> ('j, object_ptr \<times> JniErrorCode \<times> JniErrorInfo) jni" where
  "ResultSet_Close env ctx resultSet errInfo =
     (if resultSet = None then ret (None, JNI_ERR_SUCCESS, errInfo)
      else andThen (ResultSetClose env ctx resultSet errInfo) (\<lambda>(_, e).
        followed (destroy env resultSet) (ret (None, jni_code e, e))))"

definition ResultSet_destructor :: "'j JNI \<Rightarrow> JniContext \<Rightarrow> object_ptr \<Rightarrow> ('j, unit) jni" where
  "ResultSet_destructor env ctx resultSet = followed (ResultSet_Close env ctx resultSet newJniErrorInfo) (ret ())"

definition to_int16 :: "int option \<Rightarrow> int option" where
  "to_int16 v = map_option (to_signed 16) v"

definition ResultSet_GetSmallInt_index ::
  "'j JNI \<Rightarrow> JniContext \<Rightarrow> object_ptr \<Rightarrow> int \<Rightarrow> JniErrorInfo \<Rightarrow> ('j, int option \<times> JniErrorInfo) jni" where
  "ResultSet_GetSmallInt_index env ctx resultSet columnIndex errInfo =
     andThen (ResultSetGetInt_index env ctx resultSet columnIndex errInfo) (\<lambda>(v, e). ret (to_int16 v, e))"

definition ResultSet_GetSmallInt ::
  "'j JNI \<Rightarrow> JniContext \<Rightarrow> object_ptr \<Rightarrow> string \<Rightarrow> JniErrorInfo \<Rightarrow> ('j, int option \<times> JniErrorInfo) jni" where
  "ResultSet_GetSmallInt env ctx resultSet columnName errInfo =
     andThen (ResultSetGetInt env ctx resultSet columnName errInfo) (\<lambda>(v, e). ret (to_int16 v, e))"

section \<open>Metadata of the database\<close>

text \<open>A wrapper is created around the result whenever the code is success, also when the result is null; without it the
  result is \<open>None\<close>.\<close>

definition wrapped :: "('j, object_ptr \<times> JniErrorInfo) jni \<Rightarrow> ('j, object_ptr option \<times> JniErrorInfo) jni" where
  "wrapped m = andThen m (\<lambda>(p, e). ret (if jni_code e \<noteq> JNI_ERR_SUCCESS then None else Some p, e))"

definition DatabaseMetaData_GetTables ::
  "'j JNI \<Rightarrow> JniContext \<Rightarrow> object_ptr \<Rightarrow> string option \<Rightarrow> string option \<Rightarrow> string \<Rightarrow> string list option \<Rightarrow> JniErrorInfo \<Rightarrow>
     ('j, object_ptr option \<times> JniErrorInfo) jni" where
  "DatabaseMetaData_GetTables env ctx databaseMetaData catalog schemaPattern tableNamePattern types errInfo =
     wrapped (DatabaseMetaDataGetTables env ctx databaseMetaData catalog schemaPattern tableNamePattern types errInfo)"

definition DatabaseMetaData_GetColumns ::
  "'j JNI \<Rightarrow> JniContext \<Rightarrow> object_ptr \<Rightarrow> string option \<Rightarrow> string option \<Rightarrow> string \<Rightarrow> string \<Rightarrow> JniErrorInfo \<Rightarrow>
     ('j, object_ptr option \<times> JniErrorInfo) jni" where
  "DatabaseMetaData_GetColumns env ctx databaseMetaData catalog schemaPattern tableNamePattern columnNamePattern errInfo =
     wrapped (DatabaseMetaDataGetColumns env ctx databaseMetaData catalog schemaPattern tableNamePattern columnNamePattern errInfo)"

definition DatabaseMetaData_GetPrimaryKeys ::
  "'j JNI \<Rightarrow> JniContext \<Rightarrow> object_ptr \<Rightarrow> string option \<Rightarrow> string option \<Rightarrow> string option \<Rightarrow> JniErrorInfo \<Rightarrow>
     ('j, object_ptr option \<times> JniErrorInfo) jni" where
  "DatabaseMetaData_GetPrimaryKeys env ctx databaseMetaData catalog schema table errInfo =
     wrapped (DatabaseMetaDataGetPrimaryKeys env ctx databaseMetaData catalog schema table errInfo)"

definition DatabaseMetaData_GetImportedKeys ::
  "'j JNI \<Rightarrow> JniContext \<Rightarrow> object_ptr \<Rightarrow> string option \<Rightarrow> string option \<Rightarrow> string \<Rightarrow> JniErrorInfo \<Rightarrow>
     ('j, object_ptr option \<times> JniErrorInfo) jni" where
  "DatabaseMetaData_GetImportedKeys env ctx databaseMetaData catalog schema table errInfo =
     wrapped (DatabaseMetaDataGetImportedKeys env ctx databaseMetaData catalog schema table errInfo)"

definition DatabaseMetaData_GetTypeInfo ::
  "'j JNI \<Rightarrow> JniContext \<Rightarrow> object_ptr \<Rightarrow> JniErrorInfo \<Rightarrow> ('j, object_ptr option \<times> JniErrorInfo) jni" where
  "DatabaseMetaData_GetTypeInfo env ctx databaseMetaData errInfo =
     wrapped (DatabaseMetaDataGetTypeInfo env ctx databaseMetaData errInfo)"

section \<open>Connections\<close>

definition DocumentDbConnection_Close ::
  "'j JNI \<Rightarrow> JniContext \<Rightarrow> object_ptr \<Rightarrow> JniErrorInfo \<Rightarrow> ('j, object_ptr \<times> JniErrorCode \<times> JniErrorInfo) jni" where
  "DocumentDbConnection_Close env ctx connection errInfo =
     (if connection = None then ret (None, JNI_ERR_SUCCESS, errInfo)
      else andThen (ConnectionClose env ctx connection errInfo) (\<lambda>(_, e).
        followed (destroy env connection) (ret (None, jni_code e, e))))"

text \<open>\<open>Open\<close> on the pointer to the Java connection.\<close>

definition jdbc_Open ::
  "'j JNI \<Rightarrow> JniContext option \<Rightarrow> string \<Rightarrow> object_ptr \<Rightarrow> JniErrorInfo \<Rightarrow> ('j, object_ptr \<times> JniErrorCode \<times> JniErrorInfo) jni" where
  "jdbc_Open env context connectionString connection errInfo =
     (case context of
        None \<Rightarrow> ret (connection, JNI_ERR_JVM_INIT, errInfo\<lparr>jni_code := JNI_ERR_JVM_INIT, errMsg := ''Unable to get initialized JVM.''\<rparr>)
      | Some ctx \<Rightarrow>
          if connection \<noteq> None then ret (connection, JNI_ERR_SUCCESS, errInfo)
          else andThen (DriverManagerGetConnection env ctx connectionString errInfo) (\<lambda>(result, e).
            if jni_code e \<noteq> JNI_ERR_SUCCESS then
              scoped env result
                (andThen (DocumentDbConnection_Close env ctx connection newJniErrorInfo) (\<lambda>(connection', _, _). ret (connection', jni_code e, e)))
            else ret (result, jni_code e, e)))"

definition DocumentDbConnection_GetMetaData ::
  "'j JNI \<Rightarrow> JniContext \<Rightarrow> object_ptr \<Rightarrow> JniErrorInfo \<Rightarrow> ('j, object_ptr option \<times> JniErrorInfo) jni" where
  "DocumentDbConnection_GetMetaData env ctx connection errInfo =
     (if connection = None then ret (None, errInfo) else wrapped (ConnectionGetMetaData env ctx connection errInfo))"

definition connection_not_set :: "JniErrorInfo" where
  "connection_not_set = \<lparr>jni_code = JNI_ERR_GENERIC, errCls = [], errMsg = ''Connection must be set.''\<rparr>"

definition DocumentDbConnection_GetConnectionProperties ::
  "'j JNI \<Rightarrow> JniContext \<Rightarrow> object_ptr \<Rightarrow> JniErrorInfo \<Rightarrow> ('j, object_ptr option \<times> JniErrorInfo) jni" where
  "DocumentDbConnection_GetConnectionProperties env ctx connection errInfo =
     (if connection = None then ret (None, connection_not_set)
      else wrapped (DocumentDbConnectionGetConnectionProperties env ctx connection errInfo))"

definition DocumentDbConnection_GetDatabaseMetadata ::
  "'j JNI \<Rightarrow> JniContext \<Rightarrow> object_ptr \<Rightarrow> JniErrorInfo \<Rightarrow> ('j, object_ptr option \<times> JniErrorInfo) jni" where
  "DocumentDbConnection_GetDatabaseMetadata env ctx connection errInfo =
     (if connection = None then ret (None, connection_not_set)
      else wrapped (DocumentDbConnectionGetDatabaseMetadata env ctx connection errInfo))"

section \<open>The mapping service\<close>

text \<open>The wrappers of the properties and of the metadata, \<open>None\<close> for a null pointer to a wrapper.\<close>

definition DocumentDbQueryMappingService_Create ::
  "'j JNI \<Rightarrow> JniContext \<Rightarrow> object_ptr option \<Rightarrow> object_ptr option \<Rightarrow> JniErrorInfo \<Rightarrow> ('j, object_ptr option \<times> JniErrorInfo) jni" where
  "DocumentDbQueryMappingService_Create env ctx connectionProperties databaseMetadata errInfo =
     (case (connectionProperties, databaseMetadata) of
        (Some properties, Some metadata) \<Rightarrow> wrapped (DocumentDbQueryMappingServiceCtor env ctx properties metadata errInfo)
      | _ \<Rightarrow> ret (None, \<lparr>jni_code = JNI_ERR_GENERIC, errCls = [], errMsg = ''Connection and metadata must be set.''\<rparr>))"

text \<open>Reading a Java list of strings: the result says whether all were read, with the strings read so far. The error
  information is a local variable of \<open>ReadListOfString\<close>.\<close>

fun read_strings :: "'j JNI \<Rightarrow> JniContext \<Rightarrow> object_ptr \<Rightarrow> nat \<Rightarrow> int \<Rightarrow> string list \<Rightarrow> JniErrorInfo \<Rightarrow> ('j, bool \<times> string list) jni" where
  "read_strings env ctx sourceList 0 index target errInfo = ret (True, target)"
| "read_strings env ctx sourceList (Suc n) index target errInfo =
     andThen (ListGet env ctx sourceList index errInfo) (\<lambda>(operation, e).
     andThen (scoped env operation
       (if jni_code e \<noteq> JNI_ERR_SUCCESS then ret ([], e) else JavaStringToCppString env operation e)) (\<lambda>(s, e).
       if jni_code e \<noteq> JNI_ERR_SUCCESS then ret (False, target)
       else read_strings env ctx sourceList n (index + 1) (target @ [s]) e))"

definition ReadListOfString :: "'j JNI \<Rightarrow> JniContext \<Rightarrow> object_ptr \<Rightarrow> ('j, bool \<times> string list) jni" where
  "ReadListOfString env ctx sourceList =
     andThen (ListSize env ctx sourceList newJniErrorInfo) (\<lambda>(listSize, e).
       if jni_code e \<noteq> JNI_ERR_SUCCESS then ret (False, [])
       else case listSize of
              None \<Rightarrow> fail UnsetValue
            | Some n \<Rightarrow> read_strings env ctx sourceList (nat n) 0 [] e)"

text \<open>A step of a sequence that ends at the first error.\<close>

definition needs :: "('j, 'a option \<times> JniErrorInfo) jni \<Rightarrow> ('a \<Rightarrow> JniErrorInfo \<Rightarrow> ('j, 'b option \<times> JniErrorInfo) jni) \<Rightarrow>
    ('j, 'b option \<times> JniErrorInfo) jni" where
  "needs m k = andThen m (\<lambda>(v, e).
     if jni_code e \<noteq> JNI_ERR_SUCCESS then ret (None, e)
     else case v of None \<Rightarrow> fail UnsetValue | Some x \<Rightarrow> k x e)"

definition read_column_metadata :: "'j JNI \<Rightarrow> JniContext \<Rightarrow> object_ptr \<Rightarrow> JniErrorInfo \<Rightarrow> ('j, JdbcColumnMetadata option \<times> JniErrorInfo) jni" where
  "read_column_metadata env ctx md e =
     needs (JdbcColumnMetadataGetOrdinal env ctx md e) (\<lambda>a1 e.
     needs (JdbcColumnMetadataIsAutoIncrement env ctx md e) (\<lambda>a2 e.
     needs (JdbcColumnMetadataIsCaseSensitive env ctx md e) (\<lambda>a3 e.
     needs (JdbcColumnMetadataIsSearchable env ctx md e) (\<lambda>a4 e.
     needs (JdbcColumnMetadataIsCurrency env ctx md e) (\<lambda>a5 e.
     needs (JdbcColumnMetadataGetNullable env ctx md e) (\<lambda>a6 e.
     needs (JdbcColumnMetadataIsSigned env ctx md e) (\<lambda>a7 e.
     needs (JdbcColumnMetadataGetColumnDisplaySize env ctx md e) (\<lambda>a8 e.
     needs (JdbcColumnMetadataGetColumnLabel env ctx md e) (\<lambda>a9 e.
     needs (JdbcColumnMetadataGetColumnName env ctx md e) (\<lambda>a10 e.
     needs (JdbcColumnMetadataGetSchemaName env ctx md e) (\<lambda>a11 e.
     needs (JdbcColumnMetadataGetPrecision env ctx md e) (\<lambda>a12 e.
     needs (JdbcColumnMetadataGetScale env ctx md e) (\<lambda>a13 e.
     needs (JdbcColumnMetadataGetTableName env ctx md e) (\<lambda>a14 e.
     needs (JdbcColumnMetadataGetCatalogName env ctx md e) (\<lambda>a15 e.
     needs (JdbcColumnMetadataGetColumnType env ctx md e) (\<lambda>a16 e.
     needs (JdbcColumnMetadataGetColumnTypeName env ctx md e) (\<lambda>a17 e.
     needs (JdbcColumnMetadataIsReadOnly env ctx md e) (\<lambda>a18 e.
     needs (JdbcColumnMetadataIsWritable env ctx md e) (\<lambda>a19 e.
     needs (JdbcColumnMetadataIsDefinitelyWritable env ctx md e) (\<lambda>a20 e.
     needs (JdbcColumnMetadataGetColumnClassName env ctx md e) (\<lambda>a21 e.
       ret (Some \<lparr>ordinal = a1,
         autoIncrement = a2,
         caseSensitive = a3,
         searchable = a4,
         currency = a5,
         jdbc_nullable = a6,
         jdbc_signed = a7,
         columnDisplaySize = a8,
         columnLabel = a9,
         jdbc_columnName = a10,
         jdbc_schemaName = a11,
         jdbc_precision = a12,
         jdbc_scale = a13,
         jdbc_tableName = a14,
         jdbc_catalogName = a15,
         columnType = a16,
         columnTypeName = a17,
         readOnly = a18,
         writable_column = a19,
         definitelyWritable = a20,
         columnClassName = a21\<rparr>, e))))))))))))))))))))))"

fun read_column_list :: "'j JNI \<Rightarrow> JniContext \<Rightarrow> object_ptr \<Rightarrow> nat \<Rightarrow> int \<Rightarrow> JdbcColumnMetadata list \<Rightarrow> JniErrorInfo \<Rightarrow>
    ('j, (bool \<times> JdbcColumnMetadata list) \<times> JniErrorInfo) jni" where
  "read_column_list env ctx list 0 index target errInfo = ret ((True, target), errInfo)"
| "read_column_list env ctx list (Suc n) index target errInfo =
     andThen (ListGet env ctx list index errInfo) (\<lambda>(md, e).
     andThen (scoped env md
       (if jni_code e \<noteq> JNI_ERR_SUCCESS then ret (None, e) else read_column_metadata env ctx md e)) (\<lambda>(column, e).
       case column of
         None \<Rightarrow> ret ((False, target), e)
       | Some c \<Rightarrow> read_column_list env ctx list n (index + 1) (target @ [c]) e))"

definition ReadJdbcColumnMetadata ::
  "'j JNI \<Rightarrow> JniContext \<Rightarrow> object_ptr \<Rightarrow> JniErrorInfo \<Rightarrow> ('j, (bool \<times> JdbcColumnMetadata list) \<times> JniErrorInfo) jni" where
  "ReadJdbcColumnMetadata env ctx columnMetadata errInfo =
     andThen (ListSize env ctx columnMetadata errInfo) (\<lambda>(listSize, e).
       if jni_code e \<noteq> JNI_ERR_SUCCESS then ret ((False, []), e)
       else case listSize of
              None \<Rightarrow> fail UnsetValue
            | Some n \<Rightarrow> read_column_list env ctx columnMetadata (nat n) 0 [] e)"

text \<open>The translation of a statement. The result of reading the column metadata is ignored, only its error information is
  kept; when a list of strings cannot be read, the result is null and the error information that of the call before.\<close>

definition service_GetMqlQueryContext ::
  "'j JNI \<Rightarrow> JniContext \<Rightarrow> object_ptr \<Rightarrow> string \<Rightarrow> int \<Rightarrow> JniErrorInfo \<Rightarrow> ('j, MqlQueryContext option \<times> JniErrorInfo) jni" where
  "service_GetMqlQueryContext env ctx service sql maxRowCount errInfo =
     andThen (DocumentDbQueryMappingServiceGet env ctx service sql maxRowCount errInfo) (\<lambda>(mqlQueryContext, e). scoped env mqlQueryContext
     (if jni_code e \<noteq> JNI_ERR_SUCCESS then ret (None, e)
      else needs (DocumentdbMqlQueryContextGetCollectionName env ctx mqlQueryContext e) (\<lambda>name e.
        andThen (DocumentdbMqlQueryContextGetAggregateOperationsAsStrings env ctx mqlQueryContext e) (\<lambda>(aggregateOperations', e). scoped env aggregateOperations'
        (if jni_code e \<noteq> JNI_ERR_SUCCESS then ret (None, e)
         else andThen (ReadListOfString env ctx aggregateOperations') (\<lambda>(ok, operations).
           if \<not> ok then ret (None, e)
           else andThen (DocumentdbMqlQueryContextGetPaths env ctx mqlQueryContext e) (\<lambda>(paths, e). scoped env paths
             (if jni_code e \<noteq> JNI_ERR_SUCCESS then ret (None, e)
              else andThen (ReadListOfString env ctx paths) (\<lambda>(ok, pathList).
                if \<not> ok then ret (None, e)
                else andThen (DocumentdbMqlQueryContextGetColumnMetadata env ctx mqlQueryContext e) (\<lambda>(columnMetadata, e). scoped env columnMetadata
                  (if jni_code e \<noteq> JNI_ERR_SUCCESS then ret (None, e)
                   else andThen (ReadJdbcColumnMetadata env ctx columnMetadata e) (\<lambda>((_, columns), e).
                     ret (Some \<lparr>aggregateOperations = operations, mql_columnMetadata = columns, mql_paths = pathList,
                                collectionName = name\<rparr>, e)))))))))))))"

end
