(* ===== verification/Odbc_JniProps.thy ===== *)
theory Odbc_JniProps
  imports Odbc_JniService
begin

text \<open>
  What the driver makes of the Java interface: with a Java machine that keeps the promises of the interface, the
  translation of a statement never uses a reference that is not valid, never calls Java while an exception is pending,
  and gives back every global reference it took.
\<close>

section \<open>What the interface promises\<close>

text \<open>A new reference is not one of the valid ones.\<close>

definition fresh :: "'j JNI \<Rightarrow> 'j \<Rightarrow> jref \<Rightarrow> bool" where
  "fresh env j r \<longleftrightarrow> \<not> live env j r"

definition same_refs :: "'j JNI \<Rightarrow> 'j \<Rightarrow> 'j \<Rightarrow> bool" where
  "same_refs env j j' \<longleftrightarrow> global_refs env j' = global_refs env j \<and> local_refs env j' = local_refs env j"

definition adds_local :: "'j JNI \<Rightarrow> 'j \<Rightarrow> jref option \<Rightarrow> 'j \<Rightarrow> bool" where
  "adds_local env j r j' \<longleftrightarrow> global_refs env j' = global_refs env j \<and>
     (case r of None \<Rightarrow> local_refs env j' = local_refs env j
      | Some x \<Rightarrow> fresh env j x \<and> local_refs env j' = insert x (local_refs env j))"

text \<open>References: attaching the thread, clearing an exception, reading texts and calls that return a number leave
  them; a new object, string, class or exception is a new local reference; \<open>NewGlobalRef\<close> adds a new global one; the
  two delete functions take away the one they are given. Exceptions: only Java calls and the making of strings can
  leave one.\<close>

definition jni_laws :: "'j JNI \<Rightarrow> bool" where
  "jni_laws env \<longleftrightarrow>
     (\<forall>j r j'. AttachCurrentThread env j = (r, j') \<longrightarrow> same_refs env j j' \<and> env_ExceptionCheck env j' = env_ExceptionCheck env j)
   \<and> (\<forall>j r j'. ExceptionOccurred env j = (r, j') \<longrightarrow> env_ExceptionCheck env j \<longrightarrow> r \<noteq> None \<and> adds_local env j r j')
   \<and> (\<forall>j. same_refs env j (ExceptionClear env j) \<and> \<not> env_ExceptionCheck env (ExceptionClear env j))
   \<and> (\<forall>j r g j'. NewGlobalRef env (Some r) j = (g, j') \<longrightarrow> live env j r \<longrightarrow>
        env_ExceptionCheck env j' = env_ExceptionCheck env j \<and> local_refs env j' = local_refs env j
        \<and> (\<forall>x. g = Some x \<longrightarrow> fresh env j x \<and> global_refs env j' = insert x (global_refs env j)))
   \<and> (\<forall>j r. env_ExceptionCheck env (DeleteGlobalRef env (Some r) j) = env_ExceptionCheck env j
        \<and> local_refs env (DeleteGlobalRef env (Some r) j) = local_refs env j
        \<and> global_refs env (DeleteGlobalRef env (Some r) j) = global_refs env j - {r})
   \<and> (\<forall>j r. env_ExceptionCheck env (DeleteLocalRef env (Some r) j) = env_ExceptionCheck env j
        \<and> local_refs env (DeleteLocalRef env (Some r) j) = local_refs env j - {r}
        \<and> global_refs env (DeleteLocalRef env (Some r) j) = global_refs env j)
   \<and> (\<forall>j r c j'. GetObjectClass env r j = (c, j') \<longrightarrow> live env j r \<longrightarrow> c \<noteq> None \<and> adds_local env j c j'
        \<and> env_ExceptionCheck env j' = env_ExceptionCheck env j)
   \<and> (\<forall>j s r j'. NewStringUTF env s j = (r, j') \<longrightarrow> adds_local env j r j'
        \<and> (r \<noteq> None \<longrightarrow> env_ExceptionCheck env j' = env_ExceptionCheck env j))
   \<and> (\<forall>j r m vs x j'. env_CallObjectMethod env r m vs j = (x, j') \<longrightarrow> adds_local env j x j')
   \<and> (\<forall>j r m vs x j'. env_CallBooleanMethod env r m vs j = (x, j') \<longrightarrow> same_refs env j j')
   \<and> (\<forall>j r m vs x j'. env_CallIntMethod env r m vs j = (x, j') \<longrightarrow> same_refs env j j')"

text \<open>What the driver takes for granted beyond that: there is memory for references and texts, and reading the class
  name and the message of an exception does not throw another one.\<close>

definition enough_memory :: "'j JNI \<Rightarrow> bool" where
  "enough_memory env \<longleftrightarrow> (\<forall>j r. live env j r \<longrightarrow> fst (NewGlobalRef env (Some r) j) \<noteq> None)
     \<and> (\<forall>j s. fst (NewStringUTF env s j) \<noteq> None) \<and> (\<forall>j r. GetStringUTFChars env r j \<noteq> None)"

definition quiet :: "'j JNI \<Rightarrow> JniContext \<Rightarrow> bool" where
  "quiet env ctx \<longleftrightarrow> (\<forall>j r m. m \<in> {the (javaMembers ctx ''m_Class_getName''), the (javaMembers ctx ''m_Throwable_getMessage'')} \<longrightarrow>
     \<not> env_ExceptionCheck env j \<longrightarrow> \<not> env_ExceptionCheck env (snd (env_CallObjectMethod env r m [] j)))"

text \<open>A context whose members have been found and that does not print exceptions.\<close>

definition methods_of :: "member_group \<Rightarrow> string list" where
  "methods_of g = map fst (snd (snd g))"

definition context_ok :: "JniContext \<Rightarrow> bool" where
  "context_ok ctx \<longleftrightarrow> \<not> PRINT_EXCEPTION ctx
     \<and> (\<forall>g \<in> set java_groups. \<forall>m \<in> set (methods_of g). javaMembers ctx m \<noteq> None)
     \<and> (\<forall>g \<in> set member_groups. \<forall>m \<in> set (methods_of g). members ctx m \<noteq> None)"

text \<open>Elements of the lists that the translation returns are not null.\<close>

definition no_null_elements :: "'j JNI \<Rightarrow> JniContext \<Rightarrow> bool" where
  "no_null_elements env ctx \<longleftrightarrow> (\<forall>j r vs x j'. env_CallObjectMethod env r (the (members ctx ''m_ListGet'')) vs j = (x, j') \<longrightarrow>
     env_ExceptionCheck env j' \<or> x \<noteq> None)"

section \<open>Running a sequence of calls\<close>

text \<open>The state between two calls: the global references and, among the local ones, those still needed; with
  \<open>ready\<close> no exception is pending.\<close>

definition held :: "'j JNI \<Rightarrow> jref set \<Rightarrow> jref set \<Rightarrow> 'j \<Rightarrow> bool" where
  "held env G L j \<longleftrightarrow> global_refs env j = G \<and> L \<subseteq> local_refs env j \<and> L \<inter> G = {}"

definition ready :: "'j JNI \<Rightarrow> jref set \<Rightarrow> jref set \<Rightarrow> 'j \<Rightarrow> bool" where
  "ready env G L j \<longleftrightarrow> held env G L j \<and> \<not> env_ExceptionCheck env j"

definition runs :: "('j \<Rightarrow> bool) \<Rightarrow> ('j, 'a) jni \<Rightarrow> ('a \<Rightarrow> 'j \<Rightarrow> bool) \<Rightarrow> bool" where
  "runs P m Q \<longleftrightarrow> (\<forall>j. P j \<longrightarrow> (\<exists>x j'. m j = Inr (x, j') \<and> Q x j'))"

lemma runs_ret: "(\<And>j. P j \<Longrightarrow> Q x j) \<Longrightarrow> runs P (ret x) Q"
  by (simp add: runs_def)

lemma runs_andThen: "runs P m R \<Longrightarrow> (\<And>x. runs (R x) (f x) Q) \<Longrightarrow> runs P (andThen m f) Q"
  by (fastforce simp: runs_def andThen_def)

lemma runs_followed: "runs P m R \<Longrightarrow> (\<And>x. runs (R x) k Q) \<Longrightarrow> runs P (followed m k) Q"
  unfolding followed_def by (rule runs_andThen)

lemma runs_weaken: "runs P m Q \<Longrightarrow> (\<And>j. P' j \<Longrightarrow> P j) \<Longrightarrow> (\<And>x j. Q x j \<Longrightarrow> Q' x j) \<Longrightarrow> runs P' m Q'"
  unfolding runs_def by blast

lemma runsE: "runs P m Q \<Longrightarrow> P j \<Longrightarrow> (\<And>x j'. m j = Inr (x, j') \<Longrightarrow> Q x j' \<Longrightarrow> thesis) \<Longrightarrow> thesis"
  unfolding runs_def by blast

lemma runs_pre: "(\<And>j. P j \<Longrightarrow> c) \<Longrightarrow> (c \<Longrightarrow> runs P m Q) \<Longrightarrow> runs P m Q"
  unfolding runs_def by blast

section \<open>The steps\<close>

definition machine_ok :: "'j JNI \<Rightarrow> JniContext \<Rightarrow> bool" where
  "machine_ok env ctx \<longleftrightarrow> jni_laws env \<and> enough_memory env \<and> quiet env ctx \<and> context_ok ctx"

lemmas state_defs = ready_def held_def live_def fresh_def same_refs_def adds_local_def

text \<open>The laws one by one.\<close>

lemma machine_laws:
  assumes "machine_ok env ctx"
  shows "AttachCurrentThread env j = (n, j') \<Longrightarrow> same_refs env j j' \<and> env_ExceptionCheck env j' = env_ExceptionCheck env j"
    and "ExceptionOccurred env j = (x, j') \<Longrightarrow> env_ExceptionCheck env j \<Longrightarrow> x \<noteq> None \<and> adds_local env j x j'"
    and "same_refs env j (ExceptionClear env j) \<and> \<not> env_ExceptionCheck env (ExceptionClear env j)"
    and "NewGlobalRef env (Some r) j = (x, j') \<Longrightarrow> live env j r \<Longrightarrow> \<exists>g. x = Some g \<and> fresh env j g \<and>
       env_ExceptionCheck env j' = env_ExceptionCheck env j \<and> local_refs env j' = local_refs env j \<and> global_refs env j' = insert g (global_refs env j)"
    and "env_ExceptionCheck env (DeleteGlobalRef env (Some r) j) = env_ExceptionCheck env j
       \<and> local_refs env (DeleteGlobalRef env (Some r) j) = local_refs env j
       \<and> global_refs env (DeleteGlobalRef env (Some r) j) = global_refs env j - {r}"
    and "env_ExceptionCheck env (DeleteLocalRef env (Some r) j) = env_ExceptionCheck env j
       \<and> local_refs env (DeleteLocalRef env (Some r) j) = local_refs env j - {r}
       \<and> global_refs env (DeleteLocalRef env (Some r) j) = global_refs env j"
    and "GetObjectClass env r j = (x, j') \<Longrightarrow> live env j r \<Longrightarrow> x \<noteq> None \<and> adds_local env j x j' \<and> env_ExceptionCheck env j' = env_ExceptionCheck env j"
    and "NewStringUTF env s j = (x, j') \<Longrightarrow> x \<noteq> None \<and> adds_local env j x j' \<and> env_ExceptionCheck env j' = env_ExceptionCheck env j"
    and "env_CallObjectMethod env r m vs j = (x, j') \<Longrightarrow> adds_local env j x j'"
    and "env_CallBooleanMethod env r m vs j = (b, j') \<Longrightarrow> same_refs env j j'"
    and "env_CallIntMethod env r m vs j = (i, j') \<Longrightarrow> same_refs env j j'"
    and "GetStringUTFChars env r j \<noteq> None"
proof -
  note laws = assms [unfolded machine_ok_def, THEN conjunct1, unfolded jni_laws_def]
    and memory = assms [unfolded machine_ok_def, THEN conjunct2, THEN conjunct1, unfolded enough_memory_def]
  note l1 = laws [THEN conjunct1, rule_format]
    and l2 = laws [THEN conjunct2, THEN conjunct1, rule_format]
    and l3 = laws [THEN conjunct2, THEN conjunct2, THEN conjunct1, rule_format]
    and l4 = laws [THEN conjunct2, THEN conjunct2, THEN conjunct2, THEN conjunct1, rule_format]
    and l5 = laws [THEN conjunct2, THEN conjunct2, THEN conjunct2, THEN conjunct2, THEN conjunct1, rule_format]
    and l6 = laws [THEN conjunct2, THEN conjunct2, THEN conjunct2, THEN conjunct2, THEN conjunct2, THEN conjunct1, rule_format]
    and l7 = laws [THEN conjunct2, THEN conjunct2, THEN conjunct2, THEN conjunct2, THEN conjunct2, THEN conjunct2, THEN conjunct1, rule_format]
    and l8 = laws [THEN conjunct2, THEN conjunct2, THEN conjunct2, THEN conjunct2, THEN conjunct2, THEN conjunct2, THEN conjunct2, THEN conjunct1, rule_format]
    and l9 = laws [THEN conjunct2, THEN conjunct2, THEN conjunct2, THEN conjunct2, THEN conjunct2, THEN conjunct2, THEN conjunct2, THEN conjunct2, THEN conjunct1, rule_format]
    and l10 = laws [THEN conjunct2, THEN conjunct2, THEN conjunct2, THEN conjunct2, THEN conjunct2, THEN conjunct2, THEN conjunct2, THEN conjunct2, THEN conjunct2, THEN conjunct1, rule_format]
    and l11 = laws [THEN conjunct2, THEN conjunct2, THEN conjunct2, THEN conjunct2, THEN conjunct2, THEN conjunct2, THEN conjunct2, THEN conjunct2, THEN conjunct2, THEN conjunct2, rule_format]
  show "AttachCurrentThread env j = (n, j') \<Longrightarrow> same_refs env j j' \<and> env_ExceptionCheck env j' = env_ExceptionCheck env j"
    by (rule l1)
  show "ExceptionOccurred env j = (x, j') \<Longrightarrow> env_ExceptionCheck env j \<Longrightarrow> x \<noteq> None \<and> adds_local env j x j'"
    by (rule l2)
  show "same_refs env j (ExceptionClear env j) \<and> \<not> env_ExceptionCheck env (ExceptionClear env j)"
    by (rule l3)
  show "\<exists>g. x = Some g \<and> fresh env j g \<and> env_ExceptionCheck env j' = env_ExceptionCheck env j \<and> local_refs env j' = local_refs env j
      \<and> global_refs env j' = insert g (global_refs env j)" if "NewGlobalRef env (Some r) j = (x, j')" "live env j r"
  proof -
    from memory that obtain g where "x = Some g" by fastforce
    with l4 [OF that] show ?thesis by simp
  qed
  show "env_ExceptionCheck env (DeleteGlobalRef env (Some r) j) = env_ExceptionCheck env j
       \<and> local_refs env (DeleteGlobalRef env (Some r) j) = local_refs env j
       \<and> global_refs env (DeleteGlobalRef env (Some r) j) = global_refs env j - {r}"
    by (rule l5)
  show "env_ExceptionCheck env (DeleteLocalRef env (Some r) j) = env_ExceptionCheck env j
       \<and> local_refs env (DeleteLocalRef env (Some r) j) = local_refs env j - {r}
       \<and> global_refs env (DeleteLocalRef env (Some r) j) = global_refs env j"
    by (rule l6)
  show "GetObjectClass env r j = (x, j') \<Longrightarrow> live env j r \<Longrightarrow> x \<noteq> None \<and> adds_local env j x j' \<and> env_ExceptionCheck env j' = env_ExceptionCheck env j"
    by (rule l7)
  show "x \<noteq> None \<and> adds_local env j x j' \<and> env_ExceptionCheck env j' = env_ExceptionCheck env j" if "NewStringUTF env s j = (x, j')"
    using memory l8 [OF that] that by (metis fst_conv)
  show "env_CallObjectMethod env r m vs j = (x, j') \<Longrightarrow> adds_local env j x j'" by (rule l9)
  show "env_CallBooleanMethod env r m vs j = (b, j') \<Longrightarrow> same_refs env j j'" by (rule l10)
  show "env_CallIntMethod env r m vs j = (i, j') \<Longrightarrow> same_refs env j j'" by (rule l11)
  show "GetStringUTFChars env r j \<noteq> None" using memory by blast
qed

lemma Attach_runs:
  assumes "machine_ok env ctx"
  shows "runs (ready env G L) (Attach env e) (\<lambda>e'. ready env G L)"
  using machine_laws(1) [OF assms] by (fastforce simp: runs_def Attach_def andThen_def state_defs split: prod.split)

lemma new_string_runs:
  assumes "machine_ok env ctx"
  shows "runs (ready env G L) (new_string env s) (\<lambda>r j. \<exists>x. r = Some x \<and> x \<notin> G \<union> L \<and> ready env G (insert x L) j)"
  unfolding runs_def
proof (intro allI impI)
  fix j assume "ready env G L j"
  moreover obtain r j' where "NewStringUTF env s j = (r, j')" by fastforce
  moreover from machine_laws(8) [OF assms this] obtain x where "r = Some x" by blast
  ultimately show "\<exists>r j'. new_string env s j = Inr (r, j') \<and> (\<exists>x. r = Some x \<and> x \<notin> G \<union> L \<and> ready env G (insert x L) j')"
    using machine_laws(8) [OF assms] by (fastforce simp: new_string_def checked_def state_defs)
qed

text \<open>A call is allowed with references that are held.\<close>

lemma call_method_held:
  assumes "r \<in> G \<union> L" and "set (value_refs vs) \<subseteq> G \<union> L" and "ready env G L j"
  shows "call_method env f (Some r) (Some m) vs j = Inr (f r m vs j)"
  using assms by (auto simp: call_method_def checked_def state_defs list_all_iff)

text \<open>After a call that returns a reference, and maybe throws.\<close>

definition got :: "'j JNI \<Rightarrow> jref set \<Rightarrow> jref set \<Rightarrow> jref option \<Rightarrow> 'j \<Rightarrow> bool" where
  "got env G L x j \<longleftrightarrow> (case x of None \<Rightarrow> held env G L j | Some y \<Rightarrow> y \<notin> G \<union> L \<and> held env G (insert y L) j)"

lemma call_object_got:
  assumes "machine_ok env ctx" and "r \<in> G \<union> L" and "set (value_refs vs) \<subseteq> G \<union> L" and "ready env G L j"
  shows "\<exists>x j'. env_CallObjectMethod env r m vs j = (x, j')
    \<and> call_method env (env_CallObjectMethod env) (Some r) (Some m) vs j = Inr (x, j') \<and> got env G L x j'"
proof -
  obtain x j' where c: "env_CallObjectMethod env r m vs j = (x, j')" by fastforce
  have "got env G L x j'"
    using machine_laws(9) [OF assms(1) c] assms(4) by (auto simp: got_def state_defs split: option.splits)
  with c call_method_held [OF assms(2-4), of "env_CallObjectMethod env" m] show ?thesis by simp
qed

lemma call_object_runs:
  assumes "machine_ok env ctx" and "r \<in> G \<union> L" and "set (value_refs vs) \<subseteq> G \<union> L"
  shows "runs (ready env G L) (call_method env (env_CallObjectMethod env) (Some r) (Some m) vs) (got env G L)"
  using call_object_got [OF assms] unfolding runs_def by blast

lemma call_number_runs:
  assumes "machine_ok env ctx" and "r \<in> G \<union> L" and "set (value_refs vs) \<subseteq> G \<union> L"
  shows "runs (ready env G L) (call_method env (env_CallIntMethod env) (Some r) (Some m) vs) (\<lambda>x. held env G L)"
    and "runs (ready env G L) (call_method env (env_CallBooleanMethod env) (Some r) (Some m) vs) (\<lambda>x. held env G L)"
proof -
  have "\<exists>x j'. f r m vs j = (x, j') \<and> held env G L j'" if "ready env G L j" and "\<And>x j'. f r m vs j = (x, j') \<Longrightarrow> same_refs env j j'"
    for f :: "jref \<Rightarrow> nat \<Rightarrow> jvalue list \<Rightarrow> 'a \<Rightarrow> 'z \<times> 'a" and j
    using that by (cases "f r m vs j") (auto simp: state_defs)
  with machine_laws(10,11) [OF assms(1)] call_method_held [OF assms(2,3)]
  show "runs (ready env G L) (call_method env (env_CallIntMethod env) (Some r) (Some m) vs) (\<lambda>x. held env G L)"
    "runs (ready env G L) (call_method env (env_CallBooleanMethod env) (Some r) (Some m) vs) (\<lambda>x. held env G L)"
    unfolding runs_def by metis+
qed

lemma got_held: "got env G L x j \<Longrightarrow> held env G L j"
  by (auto simp: got_def held_def split: option.splits)

lemma got_fresh: "got env G L (Some y) j \<Longrightarrow> y \<notin> G \<union> L \<and> held env G (insert y L) j"
  by (simp add: got_def)

lemma delete_local_runs:
  assumes "machine_ok env ctx" and "r \<in> L"
  shows "runs (ready env G L) (delete_local env (Some r)) (\<lambda>_. ready env G (L - {r}))"
    and "runs (held env G L) (delete_local env (Some r)) (\<lambda>_. held env G (L - {r}))"
  using assms(2) machine_laws(6) [OF assms(1)] by (auto simp: runs_def delete_local_def state_defs)

lemma text_runs:
  assumes "machine_ok env ctx" and "set_option x \<subseteq> G \<union> L"
  shows "runs (ready env G L) (JavaStringToCString env x) (\<lambda>_. ready env G L)"
    and "runs (ready env G L) (StringToChars env x) (\<lambda>v j. (v = None \<longleftrightarrow> x = None) \<and> ready env G L j)"
proof -
  have *: "\<exists>v. StringToChars env x j = Inr (v, j) \<and> (v = None \<longleftrightarrow> x = None)" if "ready env G L j" for j
  proof (cases x)
    case (Some r)
    obtain s where "GetStringUTFChars env r j = Some s" using machine_laws(12) [OF assms(1)] by blast
    with Some assms(2) that show ?thesis by (auto simp: StringToChars_def checked_def andThen_def state_defs)
  qed (simp add: StringToChars_def)
  then show "runs (ready env G L) (StringToChars env x) (\<lambda>v j. (v = None \<longleftrightarrow> x = None) \<and> ready env G L j)"
    unfolding runs_def by blast
  from * show "runs (ready env G L) (JavaStringToCString env x) (\<lambda>_. ready env G L)"
    unfolding runs_def JavaStringToCString_def by (fastforce simp: andThen_def)
qed

text \<open>The check for an exception ends with none pending, and holds what was held.\<close>

lemma exception_members:
  assumes "machine_ok env ctx"
  obtains n m where "javaMembers ctx ''m_Class_getName'' = Some n" and "javaMembers ctx ''m_Throwable_getMessage'' = Some m"
    and "\<not> PRINT_EXCEPTION ctx"
    and "\<And>j r x j'. \<not> env_ExceptionCheck env j \<Longrightarrow> env_CallObjectMethod env r n [] j = (x, j') \<Longrightarrow> \<not> env_ExceptionCheck env j'"
    and "\<And>j r x j'. \<not> env_ExceptionCheck env j \<Longrightarrow> env_CallObjectMethod env r m [] j = (x, j') \<Longrightarrow> \<not> env_ExceptionCheck env j'"
proof -
  have c: "context_ok ctx" and q: "quiet env ctx" using assms by (simp_all add: machine_ok_def)
  from c obtain n m where nm: "javaMembers ctx ''m_Class_getName'' = Some n" "javaMembers ctx ''m_Throwable_getMessage'' = Some m"
    "\<not> PRINT_EXCEPTION ctx"
    by (auto simp: context_ok_def java_groups_def methods_of_def group_Class_def group_Throwable_def)
  with q that show ?thesis unfolding quiet_def by (metis insertI1 insertI2 option.sel snd_conv)
qed

lemma quiet_call_runs:
  assumes "machine_ok env ctx" and "r \<in> G \<union> L"
    and "\<And>j x j'. \<not> env_ExceptionCheck env j \<Longrightarrow> env_CallObjectMethod env r m [] j = (x, j') \<Longrightarrow> \<not> env_ExceptionCheck env j'"
  shows "runs (ready env G L) (call_method env (env_CallObjectMethod env) (Some r) (Some m) [])
    (\<lambda>x j. set_option x \<inter> (G \<union> L) = {} \<and> ready env G (set_option x \<union> L) j)"
  unfolding runs_def
proof (intro allI impI)
  fix j assume j: "ready env G L j"
  obtain x j' where c: "env_CallObjectMethod env r m [] j = (x, j')"
      "call_method env (env_CallObjectMethod env) (Some r) (Some m) [] j = Inr (x, j')" "got env G L x j'"
    using call_object_got [OF assms(1,2) _ j, of "[]" m] by auto
  moreover have "\<not> env_ExceptionCheck env j'" using assms(3) [OF _ c(1)] j by (simp add: ready_def)
  ultimately show "\<exists>x j'. call_method env (env_CallObjectMethod env) (Some r) (Some m) [] j = Inr (x, j')
      \<and> set_option x \<inter> (G \<union> L) = {} \<and> ready env G (set_option x \<union> L) j'"
    by (auto simp: got_def ready_def split: option.splits)
qed

lemma class_runs:
  assumes "machine_ok env ctx" and "e \<in> G \<union> L"
  shows "runs (ready env G L) (checked env [e] (GetObjectClass env e)) (\<lambda>x j. \<exists>c. x = Some c \<and> c \<notin> G \<union> L \<and> ready env G (insert c L) j)"
  unfolding runs_def
proof (intro allI impI)
  fix j assume j: "ready env G L j"
  obtain x j' where c: "GetObjectClass env e j = (x, j')" by fastforce
  have live: "live env j e" using assms(2) j by (auto simp: state_defs)
  with machine_laws(7) [OF assms(1) c] obtain y where "x = Some y" by blast
  with machine_laws(7) [OF assms(1) c live] j c live
  show "\<exists>x j'. checked env [e] (GetObjectClass env e) j = Inr (x, j') \<and> (\<exists>c. x = Some c \<and> c \<notin> G \<union> L \<and> ready env G (insert c L) j')"
    by (auto simp: checked_def ready_def held_def adds_local_def fresh_def live_def)
qed

lemma ExceptionCheck_runs:
  assumes "machine_ok env ctx"
  shows "runs (held env G L) (ExceptionCheck env ctx) (\<lambda>e. ready env G L)"
proof -
  obtain n m where nm: "javaMembers ctx ''m_Class_getName'' = Some n" "javaMembers ctx ''m_Throwable_getMessage'' = Some m"
      "\<not> PRINT_EXCEPTION ctx"
      "\<And>j r x j'. \<not> env_ExceptionCheck env j \<Longrightarrow> env_CallObjectMethod env r n [] j = (x, j') \<Longrightarrow> \<not> env_ExceptionCheck env j'"
      "\<And>j r x j'. \<not> env_ExceptionCheck env j \<Longrightarrow> env_CallObjectMethod env r m [] j = (x, j') \<Longrightarrow> \<not> env_ExceptionCheck env j'"
    by (rule exception_members [OF assms]) blast
  show ?thesis
    unfolding runs_def
  proof (intro allI impI)
    fix j assume j: "held env G L j"
    show "\<exists>x j'. ExceptionCheck env ctx j = Inr (x, j') \<and> ready env G L j'"
    proof (cases "env_ExceptionCheck env j")
      case False
      with j show ?thesis by (simp add: ExceptionCheck_def ready_def andThen_def)
    next
      case True
      obtain r j1 where occ: "ExceptionOccurred env j = (r, j1)" by fastforce
      then obtain e where e: "r = Some e" "adds_local env j (Some e) j1" using machine_laws(2) [OF assms occ True] by auto
      define j2 where "j2 = ExceptionClear env j1"
      have j2: "e \<notin> G \<union> L" "ready env G (insert e L) j2"
        using e(2) j machine_laws(3) [OF assms, of j1] by (auto simp: j2_def state_defs)
      obtain c j3 where c: "checked env [e] (GetObjectClass env e) j2 = Inr (Some c, j3)" "c \<notin> G \<union> insert e L"
          "ready env G (insert c (insert e L)) j3"
        using class_runs [OF assms, of e G "insert e L"] j2(2) by (auto elim: runsE)
      let ?X = "\<lambda>x. set_option x \<union> insert c (insert e L)" and ?Y = "\<lambda>x y. set_option y \<union> (set_option x \<union> insert c (insert e L))"
      obtain x j4 where x: "call_method env (env_CallObjectMethod env) (Some c) (Some n) [] j3 = Inr (x, j4)"
          "set_option x \<inter> (G \<union> insert c (insert e L)) = {}" "ready env G (?X x) j4"
        by (rule runsE [OF quiet_call_runs [OF assms, of c G "insert c (insert e L)" n] c(3)]) (simp, erule (1) nm(4), blast)
      obtain y j5 where y: "call_method env (env_CallObjectMethod env) (Some e) (Some m) [] j4 = Inr (y, j5)"
          "set_option y \<inter> (G \<union> ?X x) = {}" "ready env G (?Y x y) j5"
        by (rule runsE [OF quiet_call_runs [OF assms, of e G "?X x" m] x(3)]) (simp, erule (1) nm(5), blast)
      obtain j6 where d: "delete_local env (Some c) j5 = Inr ((), j6)" "ready env G (?Y x y - {c}) j6"
        using delete_local_runs(1) [OF assms, of c "?Y x y" G] y(3) by (auto elim: runsE)
      obtain t j7 where t: "JavaStringToCString env x j6 = Inr (t, j7)" "ready env G (?Y x y - {c}) j7"
        using text_runs(1) [OF assms, of x G "?Y x y - {c}"] x(2) d(2) by (auto elim: runsE)
      obtain u j8 where u: "JavaStringToCString env y j7 = Inr (u, j8)" "ready env G (?Y x y - {c}) j8"
        using text_runs(1) [OF assms, of y G "?Y x y - {c}"] y(2) t(2) by (auto elim: runsE)
      obtain j9 where v: "delete_local env (Some e) j8 = Inr ((), j9)" "ready env G (?Y x y - {c} - {e}) j9"
        using delete_local_runs(1) [OF assms, of e "?Y x y - {c}" G] u(2) c(2) by (auto elim: runsE)
      have "ready env G L j9"
        using v(2) c(2) j2(1) by (auto simp: ready_def held_def)
      then show ?thesis
        using True e(1) occ c(1) x(1) y(1) d(1) t(1) u(1) v(1) nm(1-3) j2_def
        by (simp add: ExceptionCheck_def)
    qed
  qed
qed

section \<open>The operations of a context\<close>

lemma ExceptionCheck_code:
  assumes "ExceptionCheck env ctx j = Inr (e, j')"
  shows "jni_code e = JNI_ERR_SUCCESS \<longleftrightarrow> \<not> env_ExceptionCheck env j"
  using assms by (auto simp: ExceptionCheck_def andThen_eq_Inr followed_eq_Inr)

text \<open>An operation that hands out an object takes one global reference when it does; what else is known of the error
  information when there is no object is \<open>N\<close>. One that returns a value takes no reference and has a value unless it failed.\<close>

definition object_post :: "'j JNI \<Rightarrow> jref set \<Rightarrow> (JniErrorInfo \<Rightarrow> bool) \<Rightarrow> object_ptr \<times> JniErrorInfo \<Rightarrow> 'j \<Rightarrow> bool" where
  "object_post env G N = (\<lambda>(p, e) j.
     case p of None \<Rightarrow> ready env G {} j \<and> N e
     | Some g \<Rightarrow> \<exists>y. g = Some y \<and> y \<notin> G \<and> ready env (insert y G) {} j)"

abbreviation failed :: "JniErrorInfo \<Rightarrow> bool" where
  "failed e \<equiv> jni_code e \<noteq> JNI_ERR_SUCCESS"

definition object_op :: "'j JNI \<Rightarrow> jref set \<Rightarrow> (JniErrorInfo \<Rightarrow> bool) \<Rightarrow> ('j, object_ptr \<times> JniErrorInfo) jni \<Rightarrow> bool" where
  "object_op env G N m \<longleftrightarrow> runs (ready env G {}) m (object_post env G N)"

text \<open>An action that takes no reference.\<close>

definition keeps :: "'j JNI \<Rightarrow> jref set \<Rightarrow> ('a \<Rightarrow> bool) \<Rightarrow> ('j, 'a) jni \<Rightarrow> bool" where
  "keeps env G P m \<longleftrightarrow> runs (ready env G {}) m (\<lambda>x j. P x \<and> ready env G {} j)"

definition has_value :: "'a option \<times> JniErrorInfo \<Rightarrow> bool" where
  "has_value x \<longleftrightarrow> failed (snd x) \<or> fst x \<noteq> None"

text \<open>A pointer to an object of the caller.\<close>

definition owned :: "jref set \<Rightarrow> object_ptr \<Rightarrow> bool" where
  "owned G p \<longleftrightarrow> (\<forall>g. p = Some g \<longrightarrow> (\<exists>r. g = Some r \<and> r \<in> G))"

lemma owned_simps [simp]: "owned G None" "owned G (Some (Some r)) \<longleftrightarrow> r \<in> G" "\<not> owned G (Some None)"
  by (simp_all add: owned_def)

lemma owned_mono: "owned G p \<Longrightarrow> G \<subseteq> G' \<Longrightarrow> owned G' p"
  unfolding owned_def by blast

lemma ready_empty: "ready env G L j \<Longrightarrow> ready env G {} j"
  by (auto simp: ready_def held_def)

lemma new_object_runs:
  assumes "machine_ok env ctx" and "set_option x \<subseteq> L" and "x = None \<or> failed e \<Longrightarrow> N e"
  shows "runs (ready env G L) (new_object env x e) (object_post env G N)"
proof (cases "x = None \<or> failed e")
  case True
  then show ?thesis using assms(3) by (auto simp: new_object_def runs_def object_post_def intro: ready_empty)
next
  case False
  then obtain r where r: "x = Some r" "r \<in> L" "\<not> failed e" using assms(2) by auto
  show ?thesis
    unfolding runs_def
  proof (intro allI impI)
    fix j assume j: "ready env G L j"
    then have live: "live env j r" using r(2) by (auto simp: state_defs)
    obtain g j' where g: "NewGlobalRef env (Some r) j = (g, j')" by fastforce
    from machine_laws(4) [OF assms(1) g live] obtain y where "g = Some y" "y \<notin> G" "ready env (insert y G) {} j'"
      using j by (auto simp: state_defs)
    with r g live show "\<exists>z j'. new_object env x e j = Inr (z, j') \<and> object_post env G N z j'"
      by (simp add: new_object_def new_global_def andThen_def object_post_def)
  qed
qed

text \<open>The two beginnings.\<close>

lemma must_be_set_runs:
  assumes "\<And>r. p = Some (Some r) \<Longrightarrow> r \<in> G \<Longrightarrow> runs (ready env G {}) (k (Some r)) Q"
    and "owned G p" and "\<And>e j. ready env G {} j \<Longrightarrow> failed e \<Longrightarrow> Q (unset, e) j"
  shows "runs (ready env G {}) (must_be_set p msg unset e k) Q"
  using assms by (cases p) (auto simp: must_be_set_def owned_def runs_def)

lemma attached_runs:
  assumes "machine_ok env ctx" and "runs (ready env G {}) k Q"
    and "\<And>e j. ready env G {} j \<Longrightarrow> failed e \<Longrightarrow> Q (unset, e) j"
  shows "runs (ready env G {}) (attached env unset e k) Q"
  unfolding attached_def
  by (rule runs_andThen [OF Attach_runs [OF assms(1)]]) (use assms(2,3) in \<open>auto simp: runs_def\<close>)

lemma started_runs:
  assumes "machine_ok env ctx" and "owned G p" and "\<And>r. r \<in> G \<Longrightarrow> runs (ready env G {}) (k (Some r)) Q"
    and "\<And>e j. ready env G {} j \<Longrightarrow> failed e \<Longrightarrow> Q (unset, e) j"
  shows "runs (ready env G {}) (must_be_set p msg unset e (\<lambda>obj. attached env unset e (k obj))) Q"
  by (rule must_be_set_runs) (auto intro!: attached_runs [OF assms(1)] assms)

text \<open>A call and the check after it: what was obtained is a result without a pending exception.\<close>

definition result_post :: "'j JNI \<Rightarrow> jref set \<Rightarrow> jref option \<times> JniErrorInfo \<Rightarrow> 'j \<Rightarrow> bool" where
  "result_post env G = (\<lambda>(x, e) j. set_option x \<inter> G = {} \<and> ready env G (set_option x) j)"

lemma checked_call_runs:
  assumes "machine_ok env ctx" and "r \<in> G" and "value_refs vs = []" and "members ctx m = Some n"
    and "\<And>x e j. result_post env G (x, e) j \<Longrightarrow> (\<exists>i x' j'. env_CallObjectMethod env r n vs i = (x', j') \<and> x' = x \<and> (env_ExceptionCheck env j' \<longleftrightarrow> failed e))
      \<Longrightarrow> \<exists>z j'. k x e j = Inr (z, j') \<and> Q z j'"
  shows "runs (ready env G {}) (andThen (call_method env (env_CallObjectMethod env) (Some r) (members ctx m) vs)
     (\<lambda>x. andThen (ExceptionCheck env ctx) (k x))) Q"
  unfolding runs_def
proof (intro allI impI)
  fix j assume j: "ready env G {} j"
  obtain x j1 where x: "env_CallObjectMethod env r n vs j = (x, j1)"
      "call_method env (env_CallObjectMethod env) (Some r) (Some n) vs j = Inr (x, j1)" "got env G {} x j1"
    using call_object_got [OF assms(1) _ _ j, of r vs n] assms(2,3) by auto
  from x(3) have h: "held env G (set_option x) j1" "set_option x \<inter> G = {}" by (auto simp: got_def split: option.splits)
  obtain e j2 where e: "ExceptionCheck env ctx j1 = Inr (e, j2)" "ready env G (set_option x) j2"
    by (rule runsE [OF ExceptionCheck_runs [OF assms(1)] h(1)])
  have "\<exists>z j'. k x e j2 = Inr (z, j') \<and> Q z j'"
    by (rule assms(5)) (use e h x(1) ExceptionCheck_code [OF e(1)] in \<open>auto simp: result_post_def\<close>)
  with x(2) e(1) assms(4) show "\<exists>z j'. andThen (call_method env (env_CallObjectMethod env) (Some r) (members ctx m) vs)
      (\<lambda>x. andThen (ExceptionCheck env ctx) (k x)) j = Inr (z, j') \<and> Q z j'"
    by (simp add: andThen_def)
qed

text \<open>The three shapes of an operation.\<close>

lemma object_call_op:
  assumes "machine_ok env ctx" and "owned G p" and "value_refs vs = []" and "members ctx m = Some n"
    and "\<And>e. failed e \<Longrightarrow> N e"
    and "\<And>i r j' e. env_CallObjectMethod env r n vs i = (None, j') \<Longrightarrow> (env_ExceptionCheck env j' \<longleftrightarrow> failed e) \<Longrightarrow> N e"
  shows "object_op env G N (must_be_set p msg None e (\<lambda>obj. attached env None e
     (andThen (call_method env (env_CallObjectMethod env) obj (members ctx m) vs) (\<lambda>result.
      andThen (ExceptionCheck env ctx) (new_object env result)))))"
  unfolding object_op_def
proof (rule started_runs [OF assms(1,2)])
  show "object_post env G N (None, e) j" if "ready env G {} j" "failed e" for e j
    using that assms(5) by (simp add: object_post_def)
  fix r assume "r \<in> G"
  then show "runs (ready env G {}) (andThen (call_method env (env_CallObjectMethod env) (Some r) (members ctx m) vs) (\<lambda>result.
      andThen (ExceptionCheck env ctx) (new_object env result))) (object_post env G N)"
  proof (rule checked_call_runs [OF assms(1) _ assms(3,4)])
    fix x e j
    assume x: "result_post env G (x, e) j" and
      c: "\<exists>i x' j'. env_CallObjectMethod env r n vs i = (x', j') \<and> x' = x \<and> (env_ExceptionCheck env j' \<longleftrightarrow> failed e)"
    have "runs (ready env G (set_option x)) (new_object env x e) (object_post env G N)"
      by (rule new_object_runs [OF assms(1)]) (use c assms(5,6) in auto)
    with x show "\<exists>z j'. new_object env x e j = Inr (z, j') \<and> object_post env G N z j'"
      by (auto simp: result_post_def elim: runsE)
  qed
qed

lemma text_call_op:
  assumes "machine_ok env ctx" and "owned G p" and "members ctx m = Some n"
    and "\<And>x e G L. set_option x \<subseteq> L \<Longrightarrow> runs (ready env G L) (k x e) (\<lambda>z j. has_value z \<and> ready env G L j)"
  shows "keeps env G has_value (must_be_set p msg None e (\<lambda>obj. attached env None e
     (andThen (call_method env (env_CallObjectMethod env) obj (members ctx m) []) (\<lambda>result.
      andThen (ExceptionCheck env ctx) (k result)))))"
  unfolding keeps_def
proof (rule started_runs [OF assms(1,2)])
  show "has_value (None, e) \<and> ready env G {} j" if "ready env G {} j" "failed e" for e j
    using that by (simp add: has_value_def)
  fix r assume "r \<in> G"
  then show "runs (ready env G {}) (andThen (call_method env (env_CallObjectMethod env) (Some r) (members ctx m) []) (\<lambda>result.
      andThen (ExceptionCheck env ctx) (k result))) (\<lambda>z j. has_value z \<and> ready env G {} j)"
  proof (rule checked_call_runs [OF assms(1) _ _ assms(3)], goal_cases)
    case (2 x e j)
    then show ?case using assms(4) [of x "set_option x" G e]
      by (auto simp: result_post_def elim!: runsE dest: ready_empty)
  qed simp
qed

lemma number_call_op:
  assumes "machine_ok env ctx" and "owned G p"
    and "\<And>r. r \<in> G \<Longrightarrow> runs (ready env G {}) (call_method env f (Some r) (members ctx m) []) (\<lambda>x. held env G {})"
    and "\<And>x e. \<exists>v. k x e = ret (v, e) \<and> has_value (v, e)"
  shows "keeps env G has_value (must_be_set p msg None e (\<lambda>obj. attached env None e
     (andThen (call_method env f obj (members ctx m) []) (\<lambda>result.
      andThen (ExceptionCheck env ctx) (k result)))))"
  unfolding keeps_def
proof (rule started_runs [OF assms(1,2)])
  show "has_value (None, e) \<and> ready env G {} j" if "ready env G {} j" "failed e" for e j
    using that by (simp add: has_value_def)
  have "runs (ready env G {}) (k x e) (\<lambda>z j. has_value z \<and> ready env G {} j)" for x e
    using assms(4) [of x e] by (auto simp: runs_def)
  then show "runs (ready env G {}) (andThen (call_method env f (Some r) (members ctx m) []) (\<lambda>result.
      andThen (ExceptionCheck env ctx) (k result))) (\<lambda>z j. has_value z \<and> ready env G {} j)" if "r \<in> G" for r
    by (rule runs_andThen [OF assms(3) [OF that] runs_andThen [OF ExceptionCheck_runs [OF assms(1)]]])
qed

text \<open>The members that the translation of a statement needs.\<close>

lemma member_found:
  assumes "machine_ok env ctx" and "g \<in> set member_groups" and "m \<in> set (methods_of g)"
  obtains n where "members ctx m = Some n"
  using assms unfolding machine_ok_def context_ok_def by blast

lemma needed_members:
  "''m_ListSize'' \<in> set (methods_of group_List)" "''m_ListGet'' \<in> set (methods_of group_List)"
  "''m_DocumentDbMqlQueryContextGetAggregateOperationsAsStrings'' \<in> set (methods_of group_DocumentDbMqlQueryContext)"
  "''m_DocumentDbMqlQueryContextGetPaths'' \<in> set (methods_of group_DocumentDbMqlQueryContext)"
  "''m_DocumentDbMqlQueryContextGetColumnMetadata'' \<in> set (methods_of group_DocumentDbMqlQueryContext)"
  "''m_DocumentDbMqlQueryContextGetCollectionName'' \<in> set (methods_of group_DocumentDbMqlQueryContext)"
  "''m_DocumentDbQueryMappingServiceGet'' \<in> set (methods_of group_DocumentDbQueryMappingService)"
  by code_simp+

lemma needed_groups:
  "group_List \<in> set member_groups" "group_DocumentDbMqlQueryContext \<in> set member_groups"
  "group_JdbcColumnMetadata \<in> set member_groups" "group_DocumentDbQueryMappingService \<in> set member_groups"
  by (simp_all add: member_groups_def)

lemma column_members:
  "list_all (\<lambda>m. m \<in> set (methods_of group_JdbcColumnMetadata))
     [''m_JdbcColumnMetadataGetOrdinal'', ''m_JdbcColumnMetadataIsAutoIncrement'', ''m_JdbcColumnMetadataIsCaseSensitive'',
      ''m_JdbcColumnMetadataIsSearchable'', ''m_JdbcColumnMetadataIsCurrency'', ''m_JdbcColumnMetadataGetNullable'',
      ''m_JdbcColumnMetadataIsSigned'', ''m_JdbcColumnMetadataGetColumnDisplaySize'', ''m_JdbcColumnMetadataGetColumnLabel'',
      ''m_JdbcColumnMetadataGetColumnName'', ''m_JdbcColumnMetadataGetSchemaName'', ''m_JdbcColumnMetadataGetPrecision'',
      ''m_JdbcColumnMetadataGetScale'', ''m_JdbcColumnMetadataGetTableName'', ''m_JdbcColumnMetadataGetCatalogName'',
      ''m_JdbcColumnMetadataGetColumnType'', ''m_JdbcColumnMetadataGetColumnTypeName'', ''m_JdbcColumnMetadataIsReadOnly'',
      ''m_JdbcColumnMetadataIsWritable'', ''m_JdbcColumnMetadataIsDefinitelyWritable'', ''m_JdbcColumnMetadataGetColumnClassName'']"
  by code_simp

text \<open>Getters of objects.\<close>

lemma context_object_ops:
  assumes "machine_ok env ctx" and "owned G p"
  shows "object_op env G (\<lambda>_. True) (DocumentdbMqlQueryContextGetAggregateOperationsAsStrings env ctx p e)"
    and "object_op env G (\<lambda>_. True) (DocumentdbMqlQueryContextGetPaths env ctx p e)"
    and "object_op env G (\<lambda>_. True) (DocumentdbMqlQueryContextGetColumnMetadata env ctx p e)"
proof -
  obtain n1 where 1: "members ctx ''m_DocumentDbMqlQueryContextGetAggregateOperationsAsStrings'' = Some n1"
    by (rule member_found [OF assms(1)]) (rule needed_groups needed_members)+
  show "object_op env G (\<lambda>_. True) (DocumentdbMqlQueryContextGetAggregateOperationsAsStrings env ctx p e)"
    unfolding DocumentdbMqlQueryContextGetAggregateOperationsAsStrings_def
    by (rule object_call_op [OF assms _ 1]) simp_all
  obtain n2 where 2: "members ctx ''m_DocumentDbMqlQueryContextGetPaths'' = Some n2"
    by (rule member_found [OF assms(1)]) (rule needed_groups needed_members)+
  show "object_op env G (\<lambda>_. True) (DocumentdbMqlQueryContextGetPaths env ctx p e)"
    unfolding DocumentdbMqlQueryContextGetPaths_def by (rule object_call_op [OF assms _ 2]) simp_all
  obtain n3 where 3: "members ctx ''m_DocumentDbMqlQueryContextGetColumnMetadata'' = Some n3"
    by (rule member_found [OF assms(1)]) (rule needed_groups needed_members)+
  show "object_op env G (\<lambda>_. True) (DocumentdbMqlQueryContextGetColumnMetadata env ctx p e)"
    unfolding DocumentdbMqlQueryContextGetColumnMetadata_def by (rule object_call_op [OF assms _ 3]) simp_all
qed

lemma ListGet_op:
  assumes "machine_ok env ctx" and "owned G p" and "no_null_elements env ctx"
  shows "object_op env G failed (ListGet env ctx p index e)"
proof -
  obtain n where n: "members ctx ''m_ListGet'' = Some n"
    by (rule member_found [OF assms(1)]) (rule needed_groups needed_members)+
  show ?thesis
    unfolding ListGet_def
  proof (rule object_call_op [OF assms(1,2) _ n])
    fix i r j' and e :: JniErrorInfo
    assume c: "env_CallObjectMethod env r n [JInt index] i = (None, j')" and e: "env_ExceptionCheck env j' \<longleftrightarrow> failed e"
    from assms(3) n have "env_CallObjectMethod env r n [JInt index] i = (None, j') \<longrightarrow> env_ExceptionCheck env j' \<or> None \<noteq> (None :: jref option)"
      unfolding no_null_elements_def option.sel by (metis option.sel)
    with c e show "failed e" by simp
  qed simp_all
qed

text \<open>Values.\<close>

lemma ListSize_op:
  assumes "machine_ok env ctx" and "owned G p"
  shows "keeps env G has_value (ListSize env ctx p e)"
proof -
  obtain n where n: "members ctx ''m_ListSize'' = Some n"
    by (rule member_found [OF assms(1)]) (rule needed_groups needed_members)+
  show ?thesis
    unfolding ListSize_def
    by (rule number_call_op [OF assms]) (use call_number_runs [OF assms(1)] n in \<open>auto simp: has_value_def\<close>)
qed

lemma JavaStringToCString_then:
  assumes "machine_ok env ctx" and "set_option x \<subseteq> L" and "\<And>s. P (f s)"
  shows "runs (ready env G L) (andThen (JavaStringToCString env x) (\<lambda>s. ret (f s))) (\<lambda>z j. P z \<and> ready env G L j)"
  by (rule runs_andThen [OF text_runs(1) [OF assms(1)]]) (use assms(2,3) in \<open>auto simp: runs_def\<close>)

lemma CollectionName_op:
  assumes "machine_ok env ctx" and "owned G p"
  shows "keeps env G has_value (DocumentdbMqlQueryContextGetCollectionName env ctx p e)"
proof -
  obtain n where n: "members ctx ''m_DocumentDbMqlQueryContextGetCollectionName'' = Some n"
    by (rule member_found [OF assms(1)]) (rule needed_groups needed_members)+
  show ?thesis
    unfolding DocumentdbMqlQueryContextGetCollectionName_def
    by (rule text_call_op [OF assms n])
      (auto intro!: runs_ret JavaStringToCString_then [OF assms(1)] simp: has_value_def)
qed

lemma column_ops:
  assumes "machine_ok env ctx" and "owned G p" and "m \<in> set (methods_of group_JdbcColumnMetadata)"
  shows "keeps env G has_value (jni_CallBooleanMethod env ctx p m e)"
    and "keeps env G has_value (jni_CallIntMethod env ctx p m e)"
    and "keeps env G has_value (jni_CallStringMethod env ctx p m e)"
proof -
  obtain n where n: "members ctx m = Some n"
    by (rule member_found [OF assms(1) needed_groups(3) assms(3)])
  show "keeps env G has_value (jni_CallBooleanMethod env ctx p m e)"
    unfolding jni_CallBooleanMethod_def
    by (rule number_call_op [OF assms(1,2)]) (use call_number_runs [OF assms(1)] n in \<open>auto simp: has_value_def\<close>)
  show "keeps env G has_value (jni_CallIntMethod env ctx p m e)"
    unfolding jni_CallIntMethod_def
    by (rule number_call_op [OF assms(1,2)]) (use call_number_runs [OF assms(1)] n in \<open>auto simp: has_value_def\<close>)
  show "keeps env G has_value (jni_CallStringMethod env ctx p m e)"
    unfolding jni_CallStringMethod_def
    by (rule text_call_op [OF assms(1,2) n])
      (auto intro!: runs_ret JavaStringToCString_then [OF assms(1)] simp: has_value_def)
qed

lemma GetOrdinal_op:
  assumes "machine_ok env ctx" and "owned G p"
  shows "keeps env G has_value (JdbcColumnMetadataGetOrdinal env ctx p e)"
proof -
  obtain n where n: "members ctx ''m_JdbcColumnMetadataGetOrdinal'' = Some n"
    using column_members by (auto intro: member_found [OF assms(1) needed_groups(3)])
  show ?thesis
    unfolding JdbcColumnMetadataGetOrdinal_def
    by (rule number_call_op [OF assms]) (use call_number_runs [OF assms(1)] n in \<open>auto simp: has_value_def\<close>)
qed

section \<open>The mapping service\<close>

lemma needs_keeps:
  assumes "keeps env G has_value m" and "\<And>x e. keeps env G P (k x e)" and "\<And>e. failed e \<Longrightarrow> P (None, e)"
  shows "keeps env G P (needs m k)"
  unfolding keeps_def needs_def
proof (rule runs_andThen [OF assms(1) [unfolded keeps_def]], clarify)
  fix v and e :: JniErrorInfo
  show "runs (\<lambda>j. has_value (v, e) \<and> ready env G {} j)
      (if failed e then ret (None, e) else case v of None \<Rightarrow> fail UnsetValue | Some x \<Rightarrow> k x e)
      (\<lambda>x j. P x \<and> ready env G {} j)"
    using assms(2,3) by (cases v) (auto simp: keeps_def runs_def has_value_def)
qed

lemma read_column_metadata_keeps:
  assumes "machine_ok env ctx" and "owned G p"
  shows "keeps env G has_value (read_column_metadata env ctx p e)"
  unfolding read_column_metadata_def JdbcColumnMetadataIsAutoIncrement_def JdbcColumnMetadataIsCaseSensitive_def
    JdbcColumnMetadataIsSearchable_def JdbcColumnMetadataIsCurrency_def JdbcColumnMetadataGetNullable_def JdbcColumnMetadataIsSigned_def
    JdbcColumnMetadataGetColumnDisplaySize_def JdbcColumnMetadataGetColumnLabel_def JdbcColumnMetadataGetColumnName_def
    JdbcColumnMetadataGetSchemaName_def JdbcColumnMetadataGetPrecision_def JdbcColumnMetadataGetScale_def
    JdbcColumnMetadataGetTableName_def JdbcColumnMetadataGetCatalogName_def JdbcColumnMetadataGetColumnType_def
    JdbcColumnMetadataGetColumnTypeName_def JdbcColumnMetadataIsReadOnly_def JdbcColumnMetadataIsWritable_def
    JdbcColumnMetadataIsDefinitelyWritable_def JdbcColumnMetadataGetColumnClassName_def
  by (intro needs_keeps GetOrdinal_op column_ops assms) (use column_members in \<open>simp_all add: keeps_def runs_def has_value_def\<close>)

text \<open>An object that is released at the end of its block.\<close>

lemma keeps_andThen:
  assumes "keeps env G P m" and "\<And>x. P x \<Longrightarrow> keeps env G Q (f x)"
  shows "keeps env G Q (andThen m f)"
  unfolding keeps_def
  by (rule runs_andThen [OF assms(1) [unfolded keeps_def]]) (use assms(2) in \<open>auto simp: keeps_def runs_def\<close>)

lemma keeps_ret: "P x \<Longrightarrow> keeps env G P (ret x)"
  by (simp add: keeps_def runs_def)

lemma destroy_runs:
  assumes "machine_ok env ctx" and "y \<notin> G"
  shows "runs (ready env (insert y G) {}) (destroy env (Some (Some y))) (\<lambda>_. ready env G {})"
  using assms(2) machine_laws(5) [OF assms(1)] by (auto simp: runs_def destroy_def delete_global_def state_defs)

lemma scoped_keeps:
  assumes "machine_ok env ctx" and "object_op env G N m"
    and "\<And>p e G'. owned G' p \<Longrightarrow> G \<subseteq> G' \<Longrightarrow> (p = None \<Longrightarrow> N e) \<Longrightarrow> keeps env G' P (k p e)"
  shows "keeps env G P (andThen m (\<lambda>(p, e). scoped env p (k p e)))"
  unfolding keeps_def
proof (rule runs_andThen [OF assms(2) [unfolded object_op_def]], clarify)
  fix p e
  show "runs (object_post env G N (p, e)) (scoped env p (k p e)) (\<lambda>x j. P x \<and> ready env G {} j)"
    unfolding runs_def
  proof (intro allI impI)
    fix j assume j: "object_post env G N (p, e) j"
    show "\<exists>x j'. scoped env p (k p e) j = Inr (x, j') \<and> P x \<and> ready env G {} j'"
    proof (cases p)
      case None
      with j assms(3) [of G None e] obtain x j' where "k p e j = Inr (x, j')" "P x" "ready env G {} j'"
        by (auto simp: object_post_def keeps_def elim: runsE)
      with None show ?thesis by (simp add: scoped_def destroy_def)
    next
      case (Some g)
      with j obtain y where y: "g = Some y" "y \<notin> G" "ready env (insert y G) {} j" by (auto simp: object_post_def)
      with Some assms(3) [of "insert y G" p e] obtain x i where x: "k p e j = Inr (x, i)" "P x" "ready env (insert y G) {} i"
        by (auto simp: keeps_def elim: runsE)
      obtain u j' where "destroy env (Some (Some y)) i = Inr (u, j')" "ready env G {} j'"
        by (rule runsE [OF destroy_runs [OF assms(1) y(2)] x(3)])
      with Some y(1) x show ?thesis by (simp add: scoped_def)
    qed
  qed
qed

lemma andThen_assoc: "andThen m (\<lambda>(p, e). andThen (k p e) f) = andThen (andThen m (\<lambda>(p, e). k p e)) f"
  by (auto simp: andThen_def fun_eq_iff split: sum.splits prod.splits)

lemma JavaStringToCppString_keeps:
  assumes "machine_ok env ctx" and "owned G (Some g)"
  shows "keeps env G (\<lambda>_. True) (JavaStringToCppString env (Some g) e)"
proof -
  from assms(2) obtain r where r: "g = Some r" "r \<in> G" by (auto simp: owned_def)
  have "runs (ready env G {}) (andThen (JavaStringToCString env g) (\<lambda>s. ret (s, e))) (\<lambda>x j. True \<and> ready env G {} j)" for e :: JniErrorInfo
    by (rule runs_andThen [OF text_runs(1) [OF assms(1)]]) (use r in \<open>auto simp: runs_def\<close>)
  then show ?thesis
    unfolding keeps_def JavaStringToCppString_def
    by (intro runs_andThen [OF Attach_runs [OF assms(1)]]) (auto intro: runs_ret)
qed

lemma read_strings_keeps:
  assumes "machine_ok env ctx" and "no_null_elements env ctx" and "owned G l"
  shows "keeps env G (\<lambda>_. True) (read_strings env ctx l n index target e)"
proof (induction n arbitrary: index target e)
  case (Suc n)
  show ?case
    unfolding read_strings.simps andThen_assoc
  proof (rule keeps_andThen [OF scoped_keeps [OF assms(1) ListGet_op [OF assms(1,3,2)]]])
    show "keeps env G' (\<lambda>_. True) (if failed e then ret ([], e) else JavaStringToCppString env p e)"
      if "owned G' p" and "p = None \<Longrightarrow> failed e" for p e G'
      using that JavaStringToCppString_keeps [OF assms(1)] by (cases p) (auto intro: keeps_ret)
  qed (use Suc in \<open>auto intro: keeps_ret\<close>)
qed (simp add: keeps_ret)

lemma ReadListOfString_keeps:
  assumes "machine_ok env ctx" and "no_null_elements env ctx" and "owned G l"
  shows "keeps env G (\<lambda>_. True) (ReadListOfString env ctx l)"
  unfolding ReadListOfString_def
  by (rule keeps_andThen [OF ListSize_op [OF assms(1,3)]])
    (use read_strings_keeps [OF assms] in \<open>auto intro: keeps_ret simp: has_value_def\<close>)

lemma read_column_list_keeps:
  assumes "machine_ok env ctx" and "no_null_elements env ctx" and "owned G l"
  shows "keeps env G (\<lambda>_. True) (read_column_list env ctx l n index target e)"
proof (induction n arbitrary: index target e)
  case (Suc n)
  show ?case
    unfolding read_column_list.simps andThen_assoc
  proof (rule keeps_andThen [OF scoped_keeps [OF assms(1) ListGet_op [OF assms(1,3,2)]]])
    show "keeps env G' has_value (if failed e then ret (None, e) else read_column_metadata env ctx p e)" if "owned G' p" for p e G'
      using read_column_metadata_keeps [OF assms(1) that] by (auto intro: keeps_ret simp: has_value_def)
  qed (use Suc in \<open>auto intro: keeps_ret split: option.split\<close>)
qed (simp add: keeps_ret)

lemma ReadJdbcColumnMetadata_keeps:
  assumes "machine_ok env ctx" and "no_null_elements env ctx" and "owned G l"
  shows "keeps env G (\<lambda>_. True) (ReadJdbcColumnMetadata env ctx l e)"
  unfolding ReadJdbcColumnMetadata_def
  by (rule keeps_andThen [OF ListSize_op [OF assms(1,3)]])
    (use read_column_list_keeps [OF assms] in \<open>auto intro: keeps_ret simp: has_value_def\<close>)

lemma ServiceGet_op:
  assumes "machine_ok env ctx" and "owned G p"
  shows "object_op env G (\<lambda>_. True) (DocumentDbQueryMappingServiceGet env ctx p sql rows e)"
  unfolding object_op_def DocumentDbQueryMappingServiceGet_def
proof (rule started_runs [OF assms])
  fix r assume r: "r \<in> G"
  obtain n where n: "members ctx ''m_DocumentDbQueryMappingServiceGet'' = Some n"
    by (rule member_found [OF assms(1)]) (rule needed_groups needed_members)+
  let ?call = "\<lambda>s. call_method env (env_CallObjectMethod env) (Some r) (members ctx ''m_DocumentDbQueryMappingServiceGet'') [JObject s, JLong rows]"
  show "runs (ready env G {}) (andThen (new_string env sql) (\<lambda>s. andThen (?call s) (\<lambda>result.
      followed (delete_local env s) (andThen (ExceptionCheck env ctx) (new_object env result))))) (object_post env G (\<lambda>_. True))"
  proof (rule runs_andThen [OF new_string_runs [OF assms(1)]])
    fix s
    show "runs (\<lambda>j. \<exists>x. s = Some x \<and> x \<notin> G \<union> {} \<and> ready env G (insert x {}) j) (andThen (?call s) (\<lambda>result.
      followed (delete_local env s) (andThen (ExceptionCheck env ctx) (new_object env result)))) (object_post env G (\<lambda>_. True))"
      unfolding runs_def
    proof (intro allI impI)
      fix j assume "\<exists>x. s = Some x \<and> x \<notin> G \<union> {} \<and> ready env G (insert x {}) j"
      then obtain t where t: "s = Some t" "t \<notin> G" "ready env G {t} j" by auto
      obtain x j1 where x: "?call s j = Inr (x, j1)" "got env G {t} x j1"
        using call_object_got [OF assms(1) _ _ t(3), of r "[JObject s, JLong rows]" n] r t(1) n by auto
      then have "held env G (insert t (set_option x)) j1" "t \<notin> set_option x"
        by (auto simp: got_def insert_commute split: option.splits)
      then obtain j2 where d: "delete_local env (Some t) j1 = Inr ((), j2)" "held env G (set_option x) j2"
        using delete_local_runs(2) [OF assms(1), of t "insert t (set_option x)" G] by (auto elim!: runsE)
      obtain e j3 where c: "ExceptionCheck env ctx j2 = Inr (e, j3)" "ready env G (set_option x) j3"
        by (rule runsE [OF ExceptionCheck_runs [OF assms(1)] d(2)])
      obtain z j' where "new_object env x e j3 = Inr (z, j')" "object_post env G (\<lambda>_. True) z j'"
        by (rule runsE [OF new_object_runs [OF assms(1), of x "set_option x"] c(2)]) auto
      with x(1) d(1) c(1) t(1) show "\<exists>z j'. andThen (?call s) (\<lambda>result.
          followed (delete_local env s) (andThen (ExceptionCheck env ctx) (new_object env result))) j = Inr (z, j') \<and> object_post env G (\<lambda>_. True) z j'"
        by simp
    qed
  qed
qed (simp add: object_post_def)

lemma keeps_if: "(c \<Longrightarrow> keeps env G P a) \<Longrightarrow> (\<not> c \<Longrightarrow> keeps env G P b) \<Longrightarrow> keeps env G P (if c then a else b)"
  by simp

lemma keeps_case_prod: "(\<And>a b. keeps env G P (f a b)) \<Longrightarrow> keeps env G P (case x of (a, b) \<Rightarrow> f a b)"
  by (cases x) simp

lemma GetMqlQueryContext_keeps:
  assumes "machine_ok env ctx" and "no_null_elements env ctx" and "owned G p"
  shows "keeps env G (\<lambda>_. True) (service_GetMqlQueryContext env ctx p sql rows e)"
  unfolding service_GetMqlQueryContext_def
proof (rule scoped_keeps [OF assms(1) ServiceGet_op [OF assms(1,3)]], goal_cases)
  case (1 q e G1)
  note strings = keeps_andThen [OF ReadListOfString_keeps [OF assms(1,2)]]
    and columns = keeps_andThen [OF ReadJdbcColumnMetadata_keeps [OF assms(1,2)]]
    and scopes = context_object_ops [OF assms(1), THEN scoped_keeps [OF assms(1)]]
    and name = CollectionName_op [OF assms(1)]
  have q: "owned G2 q" if "G1 \<subseteq> G2" for G2 using 1(1) that by (rule owned_mono)
  show ?case
    by (intro keeps_if keeps_case_prod needs_keeps [OF name] strings columns scopes keeps_ret TrueI) (auto intro: q keeps_ret)
qed

section \<open>A context has all its members\<close>

lemma find_methods_sets:
  assumes "find_methods env cls ms M j = Inr ((M', True), j')" and "M x \<noteq> None \<or> x \<in> fst ` set ms"
  shows "M' x \<noteq> None"
  using assms
proof (induction env cls ms M arbitrary: j rule: find_methods.induct)
  case (2 env cls member mthd rest ms)
  then obtain m i where f: "find_methods env cls rest (ms(member \<mapsto> m)) i = Inr ((M', True), j')"
    by (auto simp: andThen_eq_Inr split: option.splits)
  show ?case by (rule "2.IH" [OF f]) (use "2.prems"(2) in auto)
qed simp

definition class_members :: "member_group list \<Rightarrow> string set" where
  "class_members gs = fst ` set gs"

lemma find_groups_sets:
  assumes "find_groups env gs M j = Inr ((M', True), j')" and "x \<notin> class_members gs"
    and "M x \<noteq> None \<or> (\<exists>g \<in> set gs. x \<in> set (methods_of g))"
  shows "M' x \<noteq> None"
  using assms
proof (induction env gs M arbitrary: j rule: find_groups.induct)
  case (2 env member name methods rest ms)
  then obtain cls M1 i k where m: "find_methods env cls methods (ms(member := cls)) i = Inr ((M1, True), k)"
      and g: "find_groups env rest M1 k = Inr ((M', True), j')"
    by (auto simp: andThen_eq_Inr split: option.splits if_splits)
  have x: "x \<notin> class_members rest" "x \<noteq> member" using "2.prems"(2) by (auto simp: class_members_def)
  have "M1 x \<noteq> None \<or> (\<exists>g \<in> set rest. x \<in> set (methods_of g))"
    using "2.prems"(3) find_methods_sets [OF m, of x] x(2) by (auto simp: methods_of_def)
  then show ?case by (rule "2.IH" [OF TrueI g x(1)])
qed simp

lemma class_members_no_methods:
  "class_members java_groups \<inter> (\<Union>g \<in> set java_groups. set (methods_of g)) = {}"
  "class_members member_groups \<inter> (\<Union>g \<in> set member_groups. set (methods_of g)) = {}"
proof -
  have *: "class_members gs \<inter> (\<Union>g \<in> set gs. set (methods_of g)) = {}"
    if "list_all (\<lambda>g. hd (fst g) = CHR ''c'' \<and> list_all (\<lambda>m. hd m = CHR ''m'') (methods_of g)) gs" for gs
  proof -
    have "hd x \<noteq> hd y" if "x \<in> class_members gs" "g \<in> set gs" "y \<in> set (methods_of g)" for x y g
      using that \<open>list_all _ gs\<close> by (fastforce simp: class_members_def list_all_iff)
    then show ?thesis by blast
  qed
  show "class_members java_groups \<inter> (\<Union>g \<in> set java_groups. set (methods_of g)) = {}" by (rule *) code_simp
  show "class_members member_groups \<inter> (\<Union>g \<in> set member_groups. set (methods_of g)) = {}" by (rule *) code_simp
qed

lemma populate_finds:
  assumes "populate env i = Inr ((jm, ms, True), l)"
  obtains k where "find_groups env java_groups Map.empty i = Inr ((jm, True), k)"
    and "find_groups env member_groups Map.empty k = Inr ((ms, True), l)"
proof -
  from assms obtain jm' ok k where f: "find_groups env java_groups Map.empty i = Inr ((jm', ok), k)"
    unfolding populate_def JniJavaMembers_Initialize_def andThen_eq_Inr by auto
  with assms have ok and "jm' = jm" and "find_groups env member_groups Map.empty k = Inr ((ms, True), l)"
    by (auto simp: populate_def JniJavaMembers_Initialize_def JniMembers_Initialize_def andThen_eq_Inr split: if_splits)
  with f that show ?thesis by simp
qed

lemma Create_populates:
  assumes "JniContext_Create env printStack opts None e0 j0 = Inr ((Some ctx, e1), j1)"
  shows "PRINT_EXCEPTION ctx \<longleftrightarrow> printStack = Some ''true''"
    and "\<exists>i l. populate env i = Inr ((javaMembers ctx, members ctx, True), l)"
proof -
  from assms obtain res i where "(if res = 0
              then andThen (populate env) (\<lambda>(jm, ms, ok).
                if ok then ret (Some \<lparr>javaMembers = jm, members = ms, PRINT_EXCEPTION = (printStack = Some ''true'')\<rparr>, e0)
                else
                  andThen (WriteErrorInfo env jm) (\<lambda>(errClsName, errMsg').
                  followed (JniMembers_Destroy env ms)
                  (followed (JniJavaMembers_Destroy env jm)
                  (followed (change (DestroyJavaVM env))
                    (ret (None, \<lparr>jni_code = JNI_ERR_JVM_INIT, errCls = case_option [] id errClsName,
                                 errMsg = case_option [] id errMsg'\<rparr>))))))
            else ret (None, \<lparr>jni_code = JNI_ERR_JVM_INIT, errCls = [], errMsg = GetJniErrorMessage res\<rparr>)) i = Inr ((Some ctx, e1), j1)"
    unfolding JniContext_Create_def option.case andThen_eq_Inr [of "GetOrCreateJvm env opts"] by blast
  then obtain jm ms ok l where p: "populate env i = Inr ((jm, ms, ok), l)"
      and "ok" and "ctx = \<lparr>javaMembers = jm, members = ms, PRINT_EXCEPTION = (printStack = Some ''true'')\<rparr>"
    by (auto simp: andThen_eq_Inr followed_eq_Inr simp del: One_nat_def split: if_splits)
  then show "PRINT_EXCEPTION ctx \<longleftrightarrow> printStack = Some ''true''"
    and "\<exists>i l. populate env i = Inr ((javaMembers ctx, members ctx, True), l)" by auto
qed

lemma Create_context_ok:
  assumes "JniContext_Create env printStack opts None e0 j0 = Inr ((Some ctx, e1), j1)" and "printStack \<noteq> Some ''true''"
  shows "context_ok ctx"
proof -
  obtain i k l where jm: "find_groups env java_groups Map.empty i = Inr ((javaMembers ctx, True), k)"
      and ms: "find_groups env member_groups Map.empty k = Inr ((members ctx, True), l)"
    using Create_populates(2) [OF assms(1)] by (auto elim: populate_finds)
  have "javaMembers ctx m \<noteq> None" if "g \<in> set java_groups" "m \<in> set (methods_of g)" for g m
    by (rule find_groups_sets [OF jm]) (use that class_members_no_methods(1) in blast)+
  moreover have "members ctx m \<noteq> None" if "g \<in> set member_groups" "m \<in> set (methods_of g)" for g m
    by (rule find_groups_sets [OF ms]) (use that class_members_no_methods(2) in blast)+
  ultimately show ?thesis using Create_populates(1) [OF assms(1)] assms(2) unfolding context_ok_def by blast
qed

section \<open>A statement is translated safely\<close>

text \<open>(C7) For every Java machine that keeps the promises of the interface, has memory, does not throw while the name and
  the message of an exception are read and does not put null elements into the lists of a translated statement, for
  every context that was created on it without the printing of stack traces, and for every statement text and row
  limit: the translation of a statement through the mapping service comes back, whatever the Java methods answer or
  throw. It uses only valid references and non-null objects and methods, never calls Java while an exception is
  pending, leaves no exception pending, and releases every global reference that it took.\<close>

theorem GetMqlQueryContext_safe:
  assumes "jni_laws env" and "enough_memory env" and "quiet env ctx" and "no_null_elements env ctx"
    and "JniContext_Create env printStack opts None e0 j0 = Inr ((Some ctx, e1), j1)" and "printStack \<noteq> Some ''true''"
    and "\<not> env_ExceptionCheck env j" and "r \<in> global_refs env j"
  shows "\<exists>res e j'. service_GetMqlQueryContext env ctx (Some (Some r)) sql maxRowCount errInfo j = Inr ((res, e), j')
     \<and> \<not> env_ExceptionCheck env j' \<and> global_refs env j' = global_refs env j"
proof -
  have "machine_ok env ctx" using assms(1-3) Create_context_ok [OF assms(5,6)] by (simp add: machine_ok_def)
  moreover have "ready env (global_refs env j) {} j" using assms(7) by (simp add: ready_def held_def)
  ultimately obtain z j' where "service_GetMqlQueryContext env ctx (Some (Some r)) sql maxRowCount errInfo j = Inr (z, j')"
      "ready env (global_refs env j) {} j'"
    using GetMqlQueryContext_keeps [of env ctx "global_refs env j" "Some (Some r)"] assms(4,8)
    by (fastforce simp: keeps_def elim: runsE)
  then show ?thesis by (cases z) (auto simp: ready_def held_def)
qed

text \<open>A small machine: references are numbers, every text is \<open>''x''\<close>, every list has one element, and a call with a
  negative number throws.\<close>

record sample_state =
  sample_globals :: "nat list"
  sample_locals :: "nat list"
  sample_pending :: bool

definition sample_fresh :: "sample_state \<Rightarrow> nat" where
  "sample_fresh j = Suc (sum_list (sample_globals j @ sample_locals j))"

definition sample_local :: "sample_state \<Rightarrow> jref option \<times> sample_state" where
  "sample_local j = (Some (sample_fresh j), j\<lparr>sample_locals := sample_fresh j # sample_locals j\<rparr>)"

fun throws :: "jvalue list \<Rightarrow> bool" where
  "throws [] \<longleftrightarrow> False"
| "throws (JLong n # vs) \<longleftrightarrow> n < 0 \<or> throws vs"
| "throws (v # vs) \<longleftrightarrow> throws vs"

definition sample_object :: "jvalue list \<Rightarrow> sample_state \<Rightarrow> jref option \<times> sample_state" where
  "sample_object vs j = (if throws vs then (None, j\<lparr>sample_pending := True\<rparr>) else sample_local j)"

definition sample_jni :: "sample_state JNI" where
  "sample_jni = \<lparr>
     global_refs = \<lambda>j. set (sample_globals j),
     local_refs = \<lambda>j. set (sample_locals j),
     GetCreatedJavaVMs = \<lambda>j. (0, 1),
     GetEnv = \<lambda>j. 0,
     CreateJavaVM = \<lambda>opts j. (0, j),
     DestroyJavaVM = \<lambda>j. j,
     AttachCurrentThread = \<lambda>j. (0, j),
     DetachCurrentThread = \<lambda>j. j,
     GetDefaultJavaVMInitArgs = \<lambda>v. 0,
     env_ExceptionCheck = sample_pending,
     ExceptionOccurred = \<lambda>j. sample_local j,
     ExceptionClear = \<lambda>j. j\<lparr>sample_pending := False\<rparr>,
     NewGlobalRef = \<lambda>r j. case r of None \<Rightarrow> (None, j)
       | Some x \<Rightarrow> (Some (sample_fresh j), j\<lparr>sample_globals := sample_fresh j # sample_globals j\<rparr>),
     DeleteGlobalRef = \<lambda>r j. case r of None \<Rightarrow> j | Some x \<Rightarrow> j\<lparr>sample_globals := removeAll x (sample_globals j)\<rparr>,
     DeleteLocalRef = \<lambda>r j. case r of None \<Rightarrow> j | Some x \<Rightarrow> j\<lparr>sample_locals := removeAll x (sample_locals j)\<rparr>,
     env_FindClass = \<lambda>name j. sample_local j,
     GetMethodID = \<lambda>c name sign j. (Some 0, j),
     GetStaticMethodID = \<lambda>c name sign j. (Some 0, j),
     GetObjectClass = \<lambda>r j. sample_local j,
     NewStringUTF = \<lambda>s j. sample_local j,
     GetStringUTFChars = \<lambda>r j. Some ''x'',
     NewObjectArray = \<lambda>n c j. sample_local j,
     SetObjectArrayElement = \<lambda>a i r j. j,
     env_NewObject = \<lambda>c m vs j. sample_object vs j,
     env_CallStaticObjectMethod = \<lambda>c m vs j. sample_object vs j,
     env_CallObjectMethod = \<lambda>r m vs j. sample_object vs j,
     env_CallBooleanMethod = \<lambda>r m vs j. (True, j),
     env_CallIntMethod = \<lambda>r m vs j. (1, j),
     env_CallLongMethod = \<lambda>r m vs j. (1, j),
     env_CallVoidMethod = \<lambda>r m vs j. ((), j),
     env_CallStaticVoidMethod = \<lambda>r m vs j. ((), j)\<rparr>"

lemma sample_fresh_not_live: "sample_fresh j \<notin> set (sample_globals j)" "sample_fresh j \<notin> set (sample_locals j)"
proof -
  have "x \<le> sum_list (sample_globals j @ sample_locals j)" if "x \<in> set (sample_globals j @ sample_locals j)" for x
    using that by (simp add: member_le_sum_list del: sum_list_append)
  from this [of "sample_fresh j"]
  show "sample_fresh j \<notin> set (sample_globals j)" "sample_fresh j \<notin> set (sample_locals j)"
    by (auto simp: sample_fresh_def)
qed

lemma sample_laws: "jni_laws sample_jni" "enough_memory sample_jni" "quiet sample_jni ctx" "no_null_elements sample_jni ctx"
proof -
  show "jni_laws sample_jni"
    using sample_fresh_not_live
    by (auto simp: jni_laws_def sample_jni_def same_refs_def adds_local_def fresh_def live_def sample_local_def sample_object_def)
  show "enough_memory sample_jni" "quiet sample_jni ctx" "no_null_elements sample_jni ctx"
    by (auto simp: enough_memory_def quiet_def no_null_elements_def sample_jni_def sample_local_def sample_object_def split: if_splits)
qed

text \<open>Every class and method is found.\<close>

lemma sample_methods:
  assumes "\<not> sample_pending j" and "c \<in> set (sample_globals j)"
  shows "\<exists>M'. find_methods sample_jni (Some c) ms M j = Inr ((M', True), j)"
  using assms
proof (induction sample_jni "Some c" ms M rule: find_methods.induct)
  case (2 member mthd rest ms)
  have "FindMethod sample_jni (Some c) mthd j = Inr (Some 0, j)"
    using "2.prems" by (cases mthd) (simp add: FindMethod_def checked_def sample_jni_def live_def)
  then show ?case using 2 by simp
qed simp

lemma sample_class:
  assumes "\<not> sample_pending j"
  shows "\<exists>c j'. jni_FindClass sample_jni name j = Inr (Some (Some c), j') \<and> c \<in> set (sample_globals j') \<and> \<not> sample_pending j'"
  using assms by (simp add: jni_FindClass_def checked_def andThen_def followed_def new_global_def delete_local_def sample_jni_def live_def sample_local_def)

lemma sample_groups:
  assumes "\<not> sample_pending j"
  shows "\<exists>M' j'. find_groups sample_jni gs M j = Inr ((M', True), j') \<and> \<not> sample_pending j'"
  using assms
proof (induction sample_jni gs M arbitrary: j rule: find_groups.induct)
  case (2 member name methods rest ms)
  obtain c i where c: "jni_FindClass sample_jni name j = Inr (Some (Some c), i)" "c \<in> set (sample_globals i)" "\<not> sample_pending i"
    using sample_class [OF "2.prems"] by blast
  obtain M1 where m: "find_methods sample_jni (Some c) methods (ms(member := Some c)) i = Inr ((M1, True), i)"
    using sample_methods [OF c(3,2)] by blast
  obtain M' j' where "find_groups sample_jni rest M1 i = Inr ((M', True), j')" "\<not> sample_pending j'"
    using "2.hyps" c(3) by (metis (full_types))
  with c(1) m show ?case by simp
qed simp

lemma sample_Create:
  "\<exists>ctx j'. JniContext_Create sample_jni None [] None newJniErrorInfo
     \<lparr>sample_globals = [], sample_locals = [], sample_pending = False\<rparr> = Inr ((Some ctx, newJniErrorInfo), j')"
proof -
  let ?j = "\<lparr>sample_globals = [], sample_locals = [], sample_pending = False\<rparr>"
  have "GetOrCreateJvm sample_jni [] ?j = Inr (0, ?j)" by (simp add: GetOrCreateJvm_def sample_jni_def)
  moreover obtain jm i where "find_groups sample_jni java_groups Map.empty ?j = Inr ((jm, True), i)" "\<not> sample_pending i"
    using sample_groups [of ?j] by force
  moreover from this(2) obtain ms l where "find_groups sample_jni member_groups Map.empty i = Inr ((ms, True), l)"
    using sample_groups by blast
  ultimately show ?thesis
    by (simp add: JniContext_Create_def populate_def JniJavaMembers_Initialize_def JniMembers_Initialize_def)
qed

theorem GetMqlQueryContext_safe_witness:
  "\<exists>ctx j1. JniContext_Create sample_jni None [] None newJniErrorInfo
       \<lparr>sample_globals = [], sample_locals = [], sample_pending = False\<rparr> = Inr ((Some ctx, newJniErrorInfo), j1)
     \<and> (\<exists>res e j'. service_GetMqlQueryContext sample_jni ctx (Some (Some 7)) ''SELECT 1'' (-1) newJniErrorInfo
          \<lparr>sample_globals = [7], sample_locals = [], sample_pending = False\<rparr> = Inr ((res, e), j')
        \<and> \<not> sample_pending j' \<and> set (sample_globals j') = {7})"
proof -
  obtain ctx j1 where c: "JniContext_Create sample_jni None [] None newJniErrorInfo
      \<lparr>sample_globals = [], sample_locals = [], sample_pending = False\<rparr> = Inr ((Some ctx, newJniErrorInfo), j1)"
    using sample_Create by blast
  show ?thesis
    using c GetMqlQueryContext_safe [OF sample_laws c, of "\<lparr>sample_globals = [7], sample_locals = [], sample_pending = False\<rparr>" 7
        "''SELECT 1''" "-1" newJniErrorInfo]
    by (auto simp: sample_jni_def)
qed

end
