(* ===== verification/Odbc_Log.thy ===== *)
theory Odbc_Log
  imports Odbc_Config
begin

text \<open>
  The log file (\<^verbatim>\<open>src/log.cpp\<close>, \<^verbatim>\<open>include/documentdb/odbc/log.h\<close>): the one \<open>Logger\<close> of the process, the macro that writes a
  message, and the settings of a configuration that reach it. What has been written is a list of lines with the place
  each of them went to. Messages to the console are left out, and the lock makes a write one step.
\<close>

section \<open>The logger\<close>

text \<open>What the logger asks of the system: the home directory (the environment variable, or else the password entry), the
  time, and the opening of a file.\<close>

record LogHost =
  valid_directory :: "string \<Rightarrow> bool"
  home_variable :: string
  password_home :: "string option"
  today :: string
  can_open :: "string \<Rightarrow> bool"
  stamp :: string

datatype log_stream = NoStream | FileStream | OtherStream nat

datatype log_place = LogFile string | LogOther nat

record Logger =
  lg_file :: "string option"
  lg_stream :: log_stream
  lg_path :: string
  lg_level :: LogLevel
  lg_fileName :: string
  lg_filePath :: string
  lg_written :: "(log_place \<times> string) list"

definition GetDefaultLogPath :: "LogHost \<Rightarrow> string" where
  "GetDefaultLogPath h =
     (let defPath = home_variable h;
          defPath = if defPath = [] then case_option [] id (password_home h) else defPath
      in if defPath = [] then ''.'' else defPath)"

definition newLogger :: "LogHost \<Rightarrow> Logger" where
  "newLogger h = \<lparr>lg_file = None, lg_stream = NoStream, lg_path = GetDefaultLogPath h, lg_level = ERROR_LEVEL,
     lg_fileName = [], lg_filePath = [], lg_written = []\<rparr>"

definition GetLoggerInstance :: "LogHost \<Rightarrow> Logger option \<Rightarrow> Logger" where
  "GetLoggerInstance h logger = (case logger of None \<Rightarrow> newLogger h | Some l \<Rightarrow> l)"

definition CreateFileName :: "LogHost \<Rightarrow> string" where
  "CreateFileName h = ''docdb_odbc_'' @ today h @ ''.log''"

definition SetLogStream :: "log_stream \<Rightarrow> Logger \<Rightarrow> Logger" where
  "SetLogStream s l = l\<lparr>lg_stream := s\<rparr>"

definition Logger_SetLogLevel :: "LogLevel \<Rightarrow> Logger \<Rightarrow> Logger" where
  "Logger_SetLogLevel level l = l\<lparr>lg_level := level\<rparr>"

definition IsFileStreamOpen :: "Logger \<Rightarrow> bool" where
  "IsFileStreamOpen l \<longleftrightarrow> lg_file l \<noteq> None"

definition IsEnabled :: "Logger \<Rightarrow> bool" where
  "IsEnabled l \<longleftrightarrow> lg_stream l \<noteq> NoStream \<and> (lg_stream l \<noteq> FileStream \<or> IsFileStreamOpen l)"

text \<open>The file is opened to append to it. (It is not open here.)\<close>

definition EnableLog :: "LogHost \<Rightarrow> Logger \<Rightarrow> bool \<times> Logger" where
  "EnableLog h l =
     (let l = if lg_stream l = NoStream then SetLogStream FileStream l else l;
          l = if \<not> IsEnabled l \<and> lg_level l \<noteq> LOG_OFF \<and> lg_stream l = FileStream then
                (let l = if lg_fileName l = [] then
                           l\<lparr>lg_fileName := CreateFileName h, lg_filePath := lg_path l @ ''/'' @ CreateFileName h\<rparr>
                         else l
                 in if can_open h (lg_filePath l) then l\<lparr>lg_file := Some (lg_filePath l)\<rparr> else l)
              else l
      in (IsEnabled l, l))"

definition WriteMessage :: "string \<Rightarrow> Logger \<Rightarrow> Logger" where
  "WriteMessage message l =
     (if IsEnabled l then
        case (lg_stream l, lg_file l) of
          (OtherStream n, _) \<Rightarrow> l\<lparr>lg_written := lg_written l @ [(LogOther n, message)]\<rparr>
        | (FileStream, Some p) \<Rightarrow> l\<lparr>lg_written := lg_written l @ [(LogFile p, message)]\<rparr>
        | _ \<Rightarrow> l
      else l)"

fun LogLevel_ToInt :: "LogLevel \<Rightarrow> int" where
  "LogLevel_ToInt DEBUG_LEVEL = 0"
| "LogLevel_ToInt INFO_LEVEL = 1"
| "LogLevel_ToInt ERROR_LEVEL = 2"
| "LogLevel_ToInt LOG_OFF = 3"
| "LogLevel_ToInt LOG_UNKNOWN = 4"

text \<open>The macro: \<open>msg\<close> is the text with the name of the function before it.\<close>

definition WRITE_MSG_TO_STREAM :: "LogHost \<Rightarrow> string \<Rightarrow> LogLevel \<Rightarrow> string \<Rightarrow> log_stream \<Rightarrow> Logger \<Rightarrow> Logger" where
  "WRITE_MSG_TO_STREAM h msg level prefix logStream l =
     (if LogLevel_ToInt (lg_level l) \<le> LogLevel_ToInt level then
        (let (enabled, l) = if IsEnabled l then (True, l) else EnableLog h l
         in if enabled then
              (let prevStream = lg_stream l;
                   l = if logStream \<noteq> NoStream then SetLogStream logStream l else l;
                   l = WriteMessage (stamp h @ prefix @ msg) l
               in if logStream \<noteq> NoStream then SetLogStream prevStream l else l)
            else l)
      else l)"

definition LOG_DEBUG_MSG :: "LogHost \<Rightarrow> string \<Rightarrow> Logger \<Rightarrow> Logger" where
  "LOG_DEBUG_MSG h msg = WRITE_MSG_TO_STREAM h msg DEBUG_LEVEL ''DEBUG MSG: '' NoStream"

definition LOG_INFO_MSG :: "LogHost \<Rightarrow> string \<Rightarrow> Logger \<Rightarrow> Logger" where
  "LOG_INFO_MSG h msg = WRITE_MSG_TO_STREAM h msg INFO_LEVEL ''INFO MSG: '' NoStream"

definition LOG_ERROR_MSG :: "LogHost \<Rightarrow> string \<Rightarrow> Logger \<Rightarrow> Logger" where
  "LOG_ERROR_MSG h msg = WRITE_MSG_TO_STREAM h msg ERROR_LEVEL ''ERROR MSG: '' NoStream"

definition Logger_SetLogPath :: "LogHost \<Rightarrow> string \<Rightarrow> Logger \<Rightarrow> Logger" where
  "Logger_SetLogPath h path l =
     (if lg_path l = path then
        LOG_DEBUG_MSG h (''SetLogPath: WARNING: SetLogPath is called with the existing path string. '' @
          ''SetLogPath should only be called once in normal circumstances aside from testing.'') l
      else if \<not> valid_directory h path then l
      else
        (let oldLogFilePath = lg_filePath l;
             l = l\<lparr>lg_path := path\<rparr>;
             l = if IsEnabled l \<and> lg_level l \<noteq> LOG_OFF then
                   (let l = LOG_INFO_MSG h (''SetLogPath: Reset log path: Log path is changed to '' @ path @
                              ''. Log file is in format docdb_odbc_odbc_YYYYMMDD.log'') l;
                        l = l\<lparr>lg_file := None, lg_fileName := []\<rparr>
                    in LOG_INFO_MSG h (''SetLogPath: Previously logged information is stored in log file '' @ oldLogFilePath) l)
                 else l
         in SetLogStream FileStream l))"

text \<open>The setters of a configuration that also change the logger; the two hosts are the same system.\<close>

definition Configuration_SetLogLevel :: "LogLevel \<Rightarrow> Configuration \<times> Logger \<Rightarrow> Configuration \<times> Logger" where
  "Configuration_SetLogLevel level = (\<lambda>(c, l).
     (SetLogLevel level c, if level \<noteq> LOG_UNKNOWN then Logger_SetLogLevel level l else l))"

definition Configuration_SetLogPath :: "Host \<Rightarrow> LogHost \<Rightarrow> string \<Rightarrow> Configuration \<times> Logger \<Rightarrow> Configuration \<times> Logger" where
  "Configuration_SetLogPath host h path = (\<lambda>(c, l).
     (SetLogPath host path c, if IsValidDirectory host path then Logger_SetLogPath h path l else l))"

section \<open>Where messages go\<close>

text \<open>The states that calls reach when files can be opened, no null stream is set, the log is never turned off and the path is set
  once, as the documentation of \<open>SetLogPath\<close> has it: a later call with the directory in force, or with a path that is no
  directory, may follow. \<open>D\<close> is the path that was set, if any, and \<open>X\<close> the stream other than the file that was set last, if
  the file was not chosen after it.\<close>

definition opens_files :: "LogHost \<Rightarrow> bool" where
  "opens_files h \<longleftrightarrow> (\<forall>p. can_open h p)"

definition log_directory :: "LogHost \<Rightarrow> string option \<Rightarrow> string" where
  "log_directory h0 D = (case D of None \<Rightarrow> GetDefaultLogPath h0 | Some p \<Rightarrow> p)"

inductive logged :: "LogHost \<Rightarrow> string option \<Rightarrow> nat option \<Rightarrow> Logger \<Rightarrow> bool" for h0 where
  start: "logged h0 None None (newLogger h0)"
| message: "logged h0 D X l \<Longrightarrow> opens_files h \<Longrightarrow> logged h0 D X (WRITE_MSG_TO_STREAM h msg level prefix s l)"
| level: "logged h0 D X l \<Longrightarrow> v \<noteq> LOG_OFF \<Longrightarrow> logged h0 D X (Logger_SetLogLevel v l)"
| path: "logged h0 None X l \<Longrightarrow> opens_files h \<Longrightarrow> valid_directory h p \<Longrightarrow> p \<noteq> GetDefaultLogPath h0 \<Longrightarrow> logged h0 (Some p) None (Logger_SetLogPath h p l)"
| path_again: "logged h0 D X l \<Longrightarrow> opens_files h \<Longrightarrow> p = log_directory h0 D \<or> \<not> valid_directory h p \<Longrightarrow> logged h0 D X (Logger_SetLogPath h p l)"
| stream: "logged h0 D X l \<Longrightarrow> logged h0 D (Some n) (SetLogStream (OtherStream n) l)"
| to_file: "logged h0 D X l \<Longrightarrow> logged h0 D None (SetLogStream FileStream l)"

definition log_name :: "string \<Rightarrow> bool" where
  "log_name n \<longleftrightarrow> (\<exists>day. n = ''docdb_odbc_'' @ day @ ''.log'')"

fun stream_is :: "nat option \<Rightarrow> Logger \<Rightarrow> bool" where
  "stream_is (Some n) l \<longleftrightarrow> lg_stream l = OtherStream n"
| "stream_is None l \<longleftrightarrow> lg_stream l = NoStream \<or> lg_stream l = FileStream"

definition log_inv :: "Logger \<Rightarrow> bool" where
  "log_inv l \<longleftrightarrow> lg_level l \<noteq> LOG_OFF \<and>
     (case lg_file l of
        None \<Rightarrow> lg_fileName l = []
      | Some p \<Rightarrow> lg_stream l \<noteq> NoStream \<and> log_name (lg_fileName l) \<and> p = lg_filePath l \<and> p = lg_path l @ ''/'' @ lg_fileName l)"

lemmas log_defs = WRITE_MSG_TO_STREAM_def EnableLog_def IsEnabled_def IsFileStreamOpen_def SetLogStream_def

lemma CreateFileName_log_name [simp]: "log_name (CreateFileName h)"
  by (auto simp: CreateFileName_def log_name_def)

lemma WriteMessage_fields [simp]:
  "lg_file (WriteMessage m l) = lg_file l" "lg_stream (WriteMessage m l) = lg_stream l" "lg_path (WriteMessage m l) = lg_path l"
  "lg_level (WriteMessage m l) = lg_level l" "lg_fileName (WriteMessage m l) = lg_fileName l" "lg_filePath (WriteMessage m l) = lg_filePath l"
  by (auto simp: WriteMessage_def split: log_stream.split option.split)

lemma WRITE_fields [simp]:
  "lg_path (WRITE_MSG_TO_STREAM h m v pre s l) = lg_path l" "lg_level (WRITE_MSG_TO_STREAM h m v pre s l) = lg_level l"
  by (auto simp: log_defs Let_def split: prod.split)

lemma EnableLog_inv:
  assumes "log_inv l" and "opens_files h"
  shows "log_inv (snd (EnableLog h l))" and "lg_stream (snd (EnableLog h l)) \<noteq> NoStream" and "fst (EnableLog h l)"
proof -
  from assms show "log_inv (snd (EnableLog h l))" "lg_stream (snd (EnableLog h l)) \<noteq> NoStream" "fst (EnableLog h l)"
    by (auto simp: log_inv_def opens_files_def log_defs Let_def split: option.splits)
qed

lemma WRITE_inv:
  assumes "log_inv l" and "opens_files h"
  shows "log_inv (WRITE_MSG_TO_STREAM h m v pre s l)"
proof -
  obtain b l' where e: "(if IsEnabled l then (True, l) else EnableLog h l) = (b, l')" by fastforce
  then have l': "log_inv l'" "lg_stream l' \<noteq> NoStream"
    using assms EnableLog_inv [OF assms] by (auto simp: IsEnabled_def split: if_splits)
  then have "log_inv (SetLogStream (lg_stream l') (WriteMessage x (SetLogStream s l')))" "log_inv (WriteMessage x l')" for x
    by (auto simp: log_inv_def SetLogStream_def split: option.splits)
  with l'(1) e assms(1) show ?thesis
    unfolding WRITE_MSG_TO_STREAM_def by (simp add: Let_def del: WRITE_fields)
qed

lemma log_inv_closed: "lg_level l \<noteq> LOG_OFF \<Longrightarrow> lg_file l = None \<Longrightarrow> lg_fileName l = [] \<Longrightarrow> log_inv l"
  by (simp add: log_inv_def)

lemma log_inv_stream: "log_inv l \<Longrightarrow> s \<noteq> NoStream \<Longrightarrow> log_inv (SetLogStream s l)"
  by (auto simp: log_inv_def SetLogStream_def split: option.splits)

lemma Logger_SetLogPath_inv:
  assumes "log_inv l" and "opens_files h"
  shows "log_inv (Logger_SetLogPath h p l)"
proof -
  have off: "lg_level l \<noteq> LOG_OFF" using assms(1) by (simp add: log_inv_def)
  show ?thesis
  proof (cases "lg_path l = p \<or> \<not> valid_directory h p")
    case True
    then show ?thesis using assms by (auto simp: Logger_SetLogPath_def LOG_DEBUG_MSG_def intro: WRITE_inv)
  next
    case False
    let ?l = "l\<lparr>lg_path := p\<rparr>"
    show ?thesis
    proof (cases "IsEnabled ?l")
      case True
      have "log_inv (LOG_INFO_MSG h x ((LOG_INFO_MSG h y ?l)\<lparr>lg_file := None, lg_fileName := []\<rparr>))" for x y
        unfolding LOG_INFO_MSG_def by (rule WRITE_inv [OF log_inv_closed assms(2)]) (simp_all add: off)
      with False True off show ?thesis by (simp add: Logger_SetLogPath_def Let_def log_inv_stream)
    next
      case en: False
      with assms(1) have "lg_file l = None" by (auto simp: log_inv_def IsEnabled_def IsFileStreamOpen_def split: option.splits)
      with assms(1) have "log_inv ?l" by (simp add: log_inv_def)
      with False en show ?thesis by (simp add: Logger_SetLogPath_def Let_def log_inv_stream)
    qed
  qed
qed

text \<open>The stream and the directory in force.\<close>

lemma WRITE_stream: "stream_is X l \<Longrightarrow> stream_is X (WRITE_MSG_TO_STREAM h m v pre s l)"
  by (cases X) (auto simp: log_defs Let_def split: prod.split)

lemma Logger_SetLogPath_path:
  assumes "valid_directory h p" and "p \<noteq> lg_path l"
  shows "lg_path (Logger_SetLogPath h p l) = p" and "stream_is None (Logger_SetLogPath h p l)"
  using assms by (simp_all add: Logger_SetLogPath_def LOG_INFO_MSG_def SetLogStream_def Let_def)

lemma Logger_SetLogPath_ignored:
  assumes "p = lg_path l \<or> \<not> valid_directory h p"
  shows "lg_path (Logger_SetLogPath h p l) = lg_path l" and "stream_is X l \<Longrightarrow> stream_is X (Logger_SetLogPath h p l)"
  using assms by (auto simp: Logger_SetLogPath_def LOG_DEBUG_MSG_def WRITE_stream)

lemma logged_inv: "logged h0 D X l \<Longrightarrow> log_inv l \<and> lg_path l = log_directory h0 D \<and> stream_is X l"
proof (induction rule: logged.induct)
  case start
  show ?case by (simp add: log_inv_def newLogger_def log_directory_def)
next
  case (level D X l v)
  then show ?case by (cases X) (auto simp: log_inv_def Logger_SetLogLevel_def split: option.splits)
next
  case (path X l h p)
  then show ?case using Logger_SetLogPath_path [of h p l] by (simp add: Logger_SetLogPath_inv log_directory_def)
next
  case (path_again D X l h p)
  then show ?case using Logger_SetLogPath_ignored [of p l h] by (simp add: Logger_SetLogPath_inv)
next
  case (stream D X l n)
  then show ?case by (simp add: log_inv_stream) (simp add: SetLogStream_def)
next
  case (to_file D X l)
  then show ?case by (simp add: log_inv_stream) (simp add: SetLogStream_def)
qed (simp add: WRITE_inv WRITE_stream)

text \<open>(C28) Whatever calls were made before, as long as files can be opened, the log was not turned off and the path was set once at
  most: a message whose level reaches the level of the logger is appended as the next line. It goes to the other stream,
  when one was set last, or else to a file \<open>docdb_odbc_<day>.log\<close> in the directory that was set, which is the home directory
  when none was. A message below the level changes nothing.\<close>

theorem messages_follow_log_path:
  assumes "logged h0 D X l" and "opens_files h"
  shows "if LogLevel_ToInt level < LogLevel_ToInt (lg_level l) then WRITE_MSG_TO_STREAM h msg level prefix NoStream l = l
     else \<exists>place. lg_written (WRITE_MSG_TO_STREAM h msg level prefix NoStream l) = lg_written l @ [(place, stamp h @ prefix @ msg)]
       \<and> (case X of Some n \<Rightarrow> place = LogOther n
          | None \<Rightarrow> \<exists>day. place = LogFile (log_directory h0 D @ ''/docdb_odbc_'' @ day @ ''.log''))"
proof -
  from logged_inv [OF assms(1)] have inv: "log_inv l" "lg_path l = log_directory h0 D" "stream_is X l" by simp_all
  show ?thesis
  proof (cases X)
    case (Some n)
    with inv(3) show ?thesis by (simp add: log_defs WriteMessage_def)
  next
    case X: None
    show ?thesis
    proof (cases "lg_file l")
      case None
      with inv assms(2) X have "LogLevel_ToInt (lg_level l) \<le> LogLevel_ToInt level \<Longrightarrow>
          lg_written (WRITE_MSG_TO_STREAM h msg level prefix NoStream l) =
          lg_written l @ [(LogFile (log_directory h0 D @ ''/'' @ CreateFileName h), stamp h @ prefix @ msg)]"
        by (auto simp: log_inv_def opens_files_def log_defs WriteMessage_def)
      with X show ?thesis by (auto simp: CreateFileName_def WRITE_MSG_TO_STREAM_def)
    next
      case (Some f)
      then obtain day where f: "f = log_directory h0 D @ ''/docdb_odbc_'' @ day @ ''.log''"
        using inv(1,2) unfolding log_inv_def log_name_def by fastforce
      from Some inv(1,3) X have "lg_stream l = FileStream" by (auto simp: log_inv_def)
      with Some X f show ?thesis by (auto simp: log_defs WriteMessage_def)
    qed
  qed
qed

theorem messages_follow_log_path_witness:
  "let h = \<lparr>valid_directory = \<lambda>p. p \<in> {''/a'', ''/b''}, home_variable = ''/a'', password_home = None, today = ''20230102'',
              can_open = \<lambda>_. True, stamp = []\<rparr>;
       l = Logger_SetLogPath h ''/b'' (WRITE_MSG_TO_STREAM h ''x'' ERROR_LEVEL ''ERROR MSG: '' NoStream (newLogger h))
   in \<exists>place. lg_written (WRITE_MSG_TO_STREAM h ''y'' ERROR_LEVEL ''ERROR MSG: '' NoStream l) = lg_written l @ [(place, ''ERROR MSG: y'')]
     \<and> (\<exists>day. place = LogFile (''/b/docdb_odbc_'' @ day @ ''.log''))"
proof -
  define h where "h = \<lparr>valid_directory = \<lambda>p. p \<in> {''/a'', ''/b''}, home_variable = ''/a'', password_home = None, today = ''20230102'',
              can_open = \<lambda>_. True, stamp = []\<rparr>"
  define l where "l = Logger_SetLogPath h ''/b'' (WRITE_MSG_TO_STREAM h ''x'' ERROR_LEVEL ''ERROR MSG: '' NoStream (newLogger h))"
  have h: "opens_files h" "GetDefaultLogPath h = ''/a''" "valid_directory h ''/b''" "stamp h = []"
    by (simp_all add: opens_files_def h_def GetDefaultLogPath_def)
  have "logged h (Some ''/b'') None l" unfolding l_def by (rule logged.path [OF logged.message [OF logged.start]]) (simp_all add: h)
  moreover have "lg_level l = ERROR_LEVEL"
    by (simp add: l_def h_def newLogger_def GetDefaultLogPath_def Logger_SetLogPath_def LOG_INFO_MSG_def log_defs WriteMessage_def Let_def)
  ultimately show ?thesis
    using messages_follow_log_path [of h "Some ''/b''" None l h ERROR_LEVEL "''y''" "''ERROR MSG: ''"] h(1,4)
    unfolding h_def [symmetric] l_def [symmetric] Let_def by (simp add: log_directory_def)
qed

text \<open>Changing the path while the log is off has no effect on an open file: when the log is turned on again, messages go
  to the old file. A file that cannot be opened also stays, because its name is only dropped when the log is enabled.\<close>

lemma path_set_while_off:
  assumes "lg_stream l = FileStream" and "lg_file l = Some p" and "q \<noteq> lg_path l" and "valid_directory h q"
  shows "let l' = Logger_SetLogLevel ERROR_LEVEL (Logger_SetLogPath h q (Logger_SetLogLevel LOG_OFF l))
     in lg_path l' = q \<and> lg_written (LOG_ERROR_MSG h msg l') = lg_written l @ [(LogFile p, stamp h @ ''ERROR MSG: '' @ msg)]"
  using assms by (simp add: Let_def Logger_SetLogLevel_def Logger_SetLogPath_def LOG_ERROR_MSG_def log_defs WriteMessage_def)

lemma path_set_after_failed_open:
  assumes "lg_stream l = FileStream" and "lg_file l = None" and "lg_fileName l \<noteq> []" and "q \<noteq> lg_path l" and "valid_directory h q"
    and "\<not> can_open h (lg_filePath l)" and "lg_level l = ERROR_LEVEL"
  shows "lg_written (LOG_ERROR_MSG h msg (Logger_SetLogPath h q l)) = lg_written l"
  using assms by (simp add: Let_def Logger_SetLogPath_def LOG_ERROR_MSG_def log_defs)

end
