(* ===== verification/Odbc_Classpath.thy ===== *)
theory Odbc_Classpath
  imports Odbc_ConfigText "HOL-Library.Sublist"
begin

text \<open>
  The class path of the Java machine (\<^verbatim>\<open>src/jni/os/linux/utils.cpp\<close>, with the file functions of
  \<^verbatim>\<open>os/linux/src/common/platform_utils.cpp\<close>): the home directory of the driver and the archives in it. The file system and the
  environment are parameters: which patterns \<open>glob\<close> finds something for, what \<open>stat\<close> reports as a directory, the entries
  \<open>readdir\<close> returns in their order (\<open>None\<close> when the directory cannot be opened), \<open>getenv\<close> and \<open>getcwd\<close>.
\<close>

section \<open>The system\<close>

record System =
  glob :: "string \<Rightarrow> bool"
  stat_dir :: "string \<Rightarrow> bool"
  readdir :: "string \<Rightarrow> string list option"
  getenv :: "string \<Rightarrow> string option"
  getcwd :: "string option"

definition GetEnv_default :: "System \<Rightarrow> string \<Rightarrow> string \<Rightarrow> string" where
  "GetEnv_default sys name dflt = (case getenv sys name of None \<Rightarrow> dflt | Some v \<Rightarrow> v)"

definition os_GetEnv :: "System \<Rightarrow> string \<Rightarrow> string" where
  "os_GetEnv sys name = GetEnv_default sys name []"

definition os_FileExists :: "System \<Rightarrow> string \<Rightarrow> bool" where
  "os_FileExists sys path = glob sys path"

definition os_IsValidDirectory :: "System \<Rightarrow> string \<Rightarrow> bool" where
  "os_IsValidDirectory sys path \<longleftrightarrow> path \<noteq> [] \<and> stat_dir sys path"

section \<open>The home directory\<close>

definition LooksLikeBinaryReleaseHome :: "System \<Rightarrow> string \<Rightarrow> bool" where
  "LooksLikeBinaryReleaseHome sys path = os_FileExists sys (path @ ''/libs/documentdb-jdbc*.jar'')"

text \<open>\<open>find_last_not_of("/ ")\<close> and the text up to there; \<open>None\<close> for \<open>npos\<close>.\<close>

definition without_trailing :: "string \<Rightarrow> string option" where
  "without_trailing path =
     (case dropWhile (\<lambda>c. c = CHR ''/'' \<or> c = CHR '' '') (rev path) of [] \<Rightarrow> None | cs \<Rightarrow> Some (rev cs))"

lemma without_trailing_Some:
  assumes "without_trailing path = Some p"
  shows "prefix p path" and "p \<noteq> []"
proof -
  let ?P = "\<lambda>c. c = CHR ''/'' \<or> c = CHR '' ''"
  from assms have p: "p = rev (dropWhile ?P (rev path))" "p \<noteq> []"
    by (auto simp: without_trailing_def split: list.splits)
  have "path = p @ rev (takeWhile ?P (rev path))"
    unfolding p(1) rev_append [symmetric] takeWhile_dropWhile_id by simp
  then show "prefix p path" "p \<noteq> []" using p(2) by (metis prefixI, simp)
qed

function ResolveDocumentDbHome0 :: "System \<Rightarrow> string \<Rightarrow> string" where
  "ResolveDocumentDbHome0 sys path =
     (if \<not> os_IsValidDirectory sys path then []
      else case without_trailing path of
             None \<Rightarrow> []
           | Some path0 \<Rightarrow>
               if LooksLikeBinaryReleaseHome sys path0 then path0
               else case rfind (CHR ''/'') path0 of
                      None \<Rightarrow> []
                    | Some slashPos \<Rightarrow> ResolveDocumentDbHome0 sys (take slashPos path0))"
  by pat_completeness auto
termination
proof (relation "measure (\<lambda>(sys, path). length path)", simp, clarsimp)
  fix path path0 i
  assume "without_trailing path = Some path0" "rfind (CHR ''/'') path0 = Some i"
  then show "min (length path0) i < length path"
    using without_trailing_Some(1) [THEN prefix_length_le] rfind_less by fastforce
qed

declare ResolveDocumentDbHome0.simps [simp del]

definition ResolveDocumentDbHome :: "System \<Rightarrow> string \<Rightarrow> string" where
  "ResolveDocumentDbHome sys path =
     (if os_IsValidDirectory sys path then path
      else let home = os_GetEnv sys ''DOCUMENTDB_HOME''
           in if os_IsValidDirectory sys home then home
              else case getcwd sys of None \<Rightarrow> [] | Some dir \<Rightarrow> ResolveDocumentDbHome0 sys dir)"

section \<open>The class path\<close>

text \<open>\<open>strrchr\<close> finds the last dot; the name from there on must be \<open>.jar\<close>.\<close>

definition is_jar :: "string \<Rightarrow> bool" where
  "is_jar name = (case rfind (CHR ''.'') name of None \<Rightarrow> False | Some dot \<Rightarrow> drop dot name = ''.jar'')"

fun append_jars :: "string \<Rightarrow> string list \<Rightarrow> string" where
  "append_jars path [] = []"
| "append_jars path (entry # rest) = (if is_jar entry then path @ ''/'' @ entry @ '':'' else []) @ append_jars path rest"

definition ClasspathJars :: "System \<Rightarrow> string \<Rightarrow> string" where
  "ClasspathJars sys path = (case readdir sys path of None \<Rightarrow> [] | Some entries \<Rightarrow> append_jars path entries)"

definition IsExcludedModule :: "string \<Rightarrow> bool" where
  "IsExcludedModule path = sublist ''rest-http'' (ToLower path)"

text \<open>The loop over the entries of a directory that are directories themselves.\<close>

fun for_directories :: "System \<Rightarrow> string \<Rightarrow> string list \<Rightarrow> (string \<Rightarrow> string) \<Rightarrow> string list \<Rightarrow> string" where
  "for_directories sys path skipped f [] = []"
| "for_directories sys path skipped f (entry # rest) =
     (if entry \<notin> set skipped \<and> stat_dir sys (path @ ''/'' @ entry) then f (path @ ''/'' @ entry) else [])
     @ for_directories sys path skipped f rest"

definition in_directory :: "System \<Rightarrow> string \<Rightarrow> string list \<Rightarrow> (string \<Rightarrow> string) \<Rightarrow> string" where
  "in_directory sys path skipped f =
     (case readdir sys path of None \<Rightarrow> [] | Some entries \<Rightarrow> for_directories sys path skipped f entries)"

text \<open>The compiled classes below a directory, and below its children when \<open>down\<close> is set.\<close>

definition exploded_here :: "System \<Rightarrow> string \<Rightarrow> string" where
  "exploded_here sys path =
     (let classesPath = path @ ''/target/classes''; testClassesPath = path @ ''/target/test-classes''; libsPath = path @ ''/target/libs''
      in (if os_FileExists sys classesPath then classesPath @ '':'' else [])
         @ (if os_FileExists sys testClassesPath then testClassesPath @ '':'' else [])
         @ (if os_FileExists sys libsPath then ClasspathJars sys libsPath else []))"

definition exploded_child :: "System \<Rightarrow> string \<Rightarrow> string" where
  "exploded_child sys path = (if os_FileExists sys path \<and> \<not> IsExcludedModule path then exploded_here sys path else [])"

definition ClasspathExploded :: "System \<Rightarrow> string \<Rightarrow> bool \<Rightarrow> string" where
  "ClasspathExploded sys path down =
     (if os_FileExists sys path \<and> \<not> IsExcludedModule path then
        exploded_here sys path @ (if down then in_directory sys path [''.'', ''..''] (exploded_child sys) else [])
      else [])"

lemma ClasspathExploded_child: "ClasspathExploded sys path False = exploded_child sys path"
  by (simp add: ClasspathExploded_def exploded_child_def)

definition jar_directory :: "System \<Rightarrow> string \<Rightarrow> string" where
  "jar_directory sys home =
     (let libsPath = home @ ''/libs''; appPath = home @ ''/app''
      in if os_FileExists sys libsPath then libsPath else if os_FileExists sys appPath then appPath else [])"

definition CreateDocumentDbHomeClasspath :: "System \<Rightarrow> string \<Rightarrow> bool \<Rightarrow> string" where
  "CreateDocumentDbHomeClasspath sys home forceTest =
     (let res = (if forceTest then ClasspathExploded sys (home @ ''/examples'') True @ ClasspathExploded sys (home @ ''/modules'') True else []);
          jarLibsPath = jar_directory sys home
      in if jarLibsPath \<noteq> [] \<and> os_FileExists sys jarLibsPath then
           res @ ClasspathJars sys jarLibsPath @ in_directory sys jarLibsPath [''.'', ''..'', ''optional''] (ClasspathJars sys)
         else res)"

definition FindJvmLibrary :: "System \<Rightarrow> string \<Rightarrow> string" where
  "FindJvmLibrary sys path =
     (if path \<noteq> [] \<and> os_FileExists sys path then path
      else let javaEnv = os_GetEnv sys ''JAVA_HOME''
           in if javaEnv \<noteq> [] then
                if os_FileExists sys (javaEnv @ ''/jre/lib/amd64/server/libjvm.so'') then javaEnv @ ''/jre/lib/amd64/server/libjvm.so''
                else if os_FileExists sys (javaEnv @ ''/lib/server/libjvm.so'') then javaEnv @ ''/lib/server/libjvm.so''
                else []
              else [])"

text \<open>The overload with a pointer to the home directory.\<close>

definition CreateDocumentDbClasspath_test :: "System \<Rightarrow> string \<Rightarrow> string option \<Rightarrow> bool \<Rightarrow> string" where
  "CreateDocumentDbClasspath_test sys usrCp home forceTest =
     (let cp = (if usrCp \<noteq> [] then if last usrCp \<noteq> CHR '';'' then usrCp @ '';'' else usrCp else [])
      in case home of None \<Rightarrow> cp | Some h \<Rightarrow> cp @ CreateDocumentDbHomeClasspath sys h forceTest)"

definition NormalizeClasspath :: "string \<Rightarrow> string" where
  "NormalizeClasspath usrCp = (if usrCp = [] \<or> last usrCp = CHR '';'' then usrCp else usrCp @ '';'')"

definition CreateDocumentDbClasspath :: "System \<Rightarrow> string \<Rightarrow> string \<Rightarrow> string" where
  "CreateDocumentDbClasspath sys usrCp home =
     NormalizeClasspath usrCp @
     (if home \<noteq> [] then
        CreateDocumentDbHomeClasspath sys home (ToLower (GetEnv_default sys ''DOCUMENTDB_NATIVE_TEST_CLASSPATH'' ''false'') = ''true'')
      else [])"

text \<open>What a connection uses (\<open>Connection::GetJniContext\<close>).\<close>

definition connection_classpath :: "System \<Rightarrow> string" where
  "connection_classpath sys = CreateDocumentDbClasspath sys [] (ResolveDocumentDbHome sys [])"

section \<open>Which directory is the home\<close>

text \<open>The directories that are tried, from the given one upwards.\<close>

inductive tried :: "System \<Rightarrow> string \<Rightarrow> string \<Rightarrow> bool" for sys where
  here: "os_IsValidDirectory sys path \<Longrightarrow> without_trailing path = Some p \<Longrightarrow> tried sys path p"
| up: "os_IsValidDirectory sys path \<Longrightarrow> without_trailing path = Some p \<Longrightarrow> rfind (CHR ''/'') p = Some i \<Longrightarrow>
     tried sys (take i p) q \<Longrightarrow> tried sys path q"

lemma tried_prefix: "tried sys path q \<Longrightarrow> prefix q path"
proof (induction rule: tried.induct)
  case (here path p)
  then show ?case by (simp add: without_trailing_Some(1))
next
  case (up path p i q)
  then show ?case by (metis prefix_order.trans take_is_prefix without_trailing_Some(1))
qed

lemma tried_length:
  assumes "tried sys path q" and "without_trailing path = Some p"
  shows "length q \<le> length p"
  using assms
proof (cases rule: tried.cases)
  case (up p' i)
  with assms(2) show ?thesis by (metis option.inject prefix_length_le prefix_order.trans take_is_prefix tried_prefix)
qed simp

definition nearest_home :: "System \<Rightarrow> string \<Rightarrow> string \<Rightarrow> bool" where
  "nearest_home sys path home \<longleftrightarrow>
     (if \<exists>p. tried sys path p \<and> LooksLikeBinaryReleaseHome sys p then
        tried sys path home \<and> LooksLikeBinaryReleaseHome sys home
        \<and> (\<forall>p. tried sys path p \<longrightarrow> LooksLikeBinaryReleaseHome sys p \<longrightarrow> length p \<le> length home)
      else home = [])"

lemma ResolveDocumentDbHome0_nearest: "nearest_home sys path (ResolveDocumentDbHome0 sys path)"
  unfolding nearest_home_def
proof (induction sys path rule: ResolveDocumentDbHome0.induct)
  case (1 sys path)
  show ?case
  proof (cases "os_IsValidDirectory sys path \<and> without_trailing path \<noteq> None")
    case False
    then have "\<not> tried sys path p" for p by (auto elim: tried.cases)
    moreover have "ResolveDocumentDbHome0 sys path = []" using False by (auto simp: ResolveDocumentDbHome0.simps [of sys path])
    ultimately show ?thesis by simp
  next
    case True
    then obtain p where p: "os_IsValidDirectory sys path" "without_trailing path = Some p" by auto
    show ?thesis
    proof (cases "LooksLikeBinaryReleaseHome sys p \<or> rfind (CHR ''/'') p = None")
      case True
      with p have "ResolveDocumentDbHome0 sys path = (if LooksLikeBinaryReleaseHome sys p then p else [])"
        by (auto simp: ResolveDocumentDbHome0.simps [of sys path])
      moreover have "tried sys path p" using p by (rule tried.here)
      moreover have "q = p" if "tried sys path q" "\<not> LooksLikeBinaryReleaseHome sys p" for q
        using that(1) by cases (use that(2) p True in auto)
      ultimately show ?thesis using tried_length [OF _ p(2)] by (metis (full_types))
    next
      case False
      then obtain i where i: "\<not> LooksLikeBinaryReleaseHome sys p" "rfind (CHR ''/'') p = Some i" by blast
      have "tried sys (take i p) q" if "tried sys path q" "LooksLikeBinaryReleaseHome sys q" for q
        using that(1) by cases (use that(2) p i in auto)
      then have "tried sys path q \<and> LooksLikeBinaryReleaseHome sys q \<longleftrightarrow> tried sys (take i p) q \<and> LooksLikeBinaryReleaseHome sys q" for q
        using tried.up [OF p i(2)] by blast
      moreover have "ResolveDocumentDbHome0 sys path = ResolveDocumentDbHome0 sys (take i p)"
        using p i by (simp add: ResolveDocumentDbHome0.simps [of sys path])
      ultimately show ?thesis using "1.IH" [OF _ p(2) i] p(1) by (simp split: if_splits) blast+
    qed
  qed
qed

section \<open>What is in the class path\<close>

lemma is_jar_suffix: "is_jar name \<longleftrightarrow> suffix ''.jar'' name"
proof
  assume "is_jar name"
  then show "suffix ''.jar'' name" by (auto simp: is_jar_def split: option.splits) (metis suffix_drop)
next
  assume "suffix ''.jar'' name"
  then obtain s where "name = s @ ''.jar''" by (auto simp: suffix_def)
  then show "is_jar name" by (simp add: is_jar_def rfind_append)
qed

text \<open>The archives of the driver: those in the library directory, then those in its subdirectories except \<open>optional\<close>.\<close>

definition archives_in :: "System \<Rightarrow> string \<Rightarrow> string list" where
  "archives_in sys dir = map (\<lambda>e. dir @ ''/'' @ e) (filter (suffix ''.jar'') (case_option [] id (readdir sys dir)))"

definition subdirectories :: "System \<Rightarrow> string \<Rightarrow> string list" where
  "subdirectories sys dir = map (\<lambda>e. dir @ ''/'' @ e)
     (filter (\<lambda>e. e \<notin> {''.'', ''..'', ''optional''} \<and> stat_dir sys (dir @ ''/'' @ e)) (case_option [] id (readdir sys dir)))"

definition driver_archives :: "System \<Rightarrow> string \<Rightarrow> string list" where
  "driver_archives sys home =
     (let dir = jar_directory sys home
      in if dir = [] then [] else archives_in sys dir @ concat (map (archives_in sys) (subdirectories sys dir)))"

definition class_path_of :: "string list \<Rightarrow> string" where
  "class_path_of fs = concat (map (\<lambda>f. f @ '':'') fs)"

lemma class_path_of_append [simp]: "class_path_of (xs @ ys) = class_path_of xs @ class_path_of ys"
  by (simp add: class_path_of_def)

lemma append_jars_entries: "append_jars dir es = class_path_of (map (\<lambda>e. dir @ ''/'' @ e) (filter (suffix ''.jar'') es))"
  by (induction es) (simp_all add: class_path_of_def is_jar_suffix)

lemma ClasspathJars_entries: "ClasspathJars sys dir = class_path_of (archives_in sys dir)"
  by (simp add: ClasspathJars_def archives_in_def append_jars_entries class_path_of_def split: option.split)

lemma for_directories_entries:
  "for_directories sys dir skipped f es = concat (map f (map (\<lambda>e. dir @ ''/'' @ e) (filter (\<lambda>e. e \<notin> set skipped \<and> stat_dir sys (dir @ ''/'' @ e)) es)))"
  by (induction es) auto

lemma class_path_of_concat: "class_path_of (concat xss) = concat (map class_path_of xss)"
  by (induction xss) (simp_all add: class_path_of_def)

lemma in_directory_entries:
  "in_directory sys dir [''.'', ''..'', ''optional''] (ClasspathJars sys) = class_path_of (concat (map (archives_in sys) (subdirectories sys dir)))"
proof -
  have "ClasspathJars sys = (\<lambda>d. class_path_of (archives_in sys d))" by (simp add: fun_eq_iff ClasspathJars_entries)
  then show ?thesis
    by (simp add: in_directory_def subdirectories_def for_directories_entries class_path_of_concat comp_def split: option.split)
qed

lemma home_classpath: "CreateDocumentDbHomeClasspath sys home False = class_path_of (driver_archives sys home)"
  by (auto simp: CreateDocumentDbHomeClasspath_def driver_archives_def jar_directory_def Let_def ClasspathJars_entries in_directory_entries
      class_path_of_def)

text \<open>How Java reads a class path on Linux: entries separated by colons.\<close>

fun java_entries :: "string \<Rightarrow> string \<Rightarrow> string list" where
  "java_entries acc [] = (if acc = [] then [] else [acc])"
| "java_entries acc (c # cs) = (if c = CHR '':'' then (if acc = [] then [] else [acc]) @ java_entries [] cs else java_entries (acc @ [c]) cs)"

lemma java_entries_append: "CHR '':'' \<notin> set f \<Longrightarrow> java_entries acc (f @ cs) = java_entries (acc @ f) cs"
  by (induction f arbitrary: acc) auto

lemma java_entries_class_path:
  assumes "\<forall>f \<in> set fs. f \<noteq> [] \<and> CHR '':'' \<notin> set f"
  shows "java_entries [] (class_path_of fs) = fs"
  using assms by (induction fs) (simp_all add: class_path_of_def java_entries_append)

lemma archives_not_empty: "f \<in> set (driver_archives sys home) \<Longrightarrow> f \<noteq> []"
  by (auto simp: driver_archives_def archives_in_def Let_def split: if_splits)

definition is_home :: "System \<Rightarrow> string \<Rightarrow> bool" where
  "is_home sys home \<longleftrightarrow>
     (if os_IsValidDirectory sys (os_GetEnv sys ''DOCUMENTDB_HOME'') then home = os_GetEnv sys ''DOCUMENTDB_HOME''
      else case getcwd sys of None \<Rightarrow> home = [] | Some dir \<Rightarrow> nearest_home sys dir home)"

lemma ResolveDocumentDbHome_home: "is_home sys (ResolveDocumentDbHome sys [])"
  by (auto simp: is_home_def ResolveDocumentDbHome_def os_IsValidDirectory_def Let_def ResolveDocumentDbHome0_nearest split: option.split)

text \<open>(C29) A driver that is started outside its tests gives Java a class path whose entries are exactly the archives in
  \<open>libs\<close>, or else \<open>app\<close>, of its home directory and in the directories directly below that, except \<open>optional\<close>. The home is the
  one in the environment, or else the closest directory above the working directory that holds the JDBC driver; the
  class path is empty when there is none. (A colon in a file name would split an entry.)\<close>

theorem connection_classpath_archives:
  assumes "ToLower (GetEnv_default sys ''DOCUMENTDB_NATIVE_TEST_CLASSPATH'' ''false'') \<noteq> ''true''"
    and "\<forall>f \<in> set (driver_archives sys (ResolveDocumentDbHome sys [])). CHR '':'' \<notin> set f"
  shows "\<exists>home. is_home sys home \<and> java_entries [] (connection_classpath sys) = (if home = [] then [] else driver_archives sys home)"
proof (intro exI conjI)
  show "is_home sys (ResolveDocumentDbHome sys [])" by (rule ResolveDocumentDbHome_home)
  show "java_entries [] (connection_classpath sys) =
      (if ResolveDocumentDbHome sys [] = [] then [] else driver_archives sys (ResolveDocumentDbHome sys []))"
    using assms java_entries_class_path [of "driver_archives sys (ResolveDocumentDbHome sys [])"] archives_not_empty
    by (simp add: connection_classpath_def CreateDocumentDbClasspath_def NormalizeClasspath_def home_classpath)
qed

definition sample_system :: System where
  "sample_system = \<lparr>glob = \<lambda>p. p \<in> {''/opt/docdb/libs/documentdb-jdbc*.jar'', ''/opt/docdb/libs''},
     stat_dir = \<lambda>p. p \<in> {''/opt'', ''/opt/docdb'', ''/opt/docdb/bin'', ''/opt/docdb/libs/x'', ''/opt/docdb/libs/optional''},
     readdir = \<lambda>p. if p = ''/opt/docdb/libs'' then Some [''documentdb-jdbc-1.0.jar'', ''notes.txt'', ''x'', ''optional'']
                 else if p = ''/opt/docdb/libs/x'' then Some [''a.b.jar''] else None,
     getenv = \<lambda>n. None, getcwd = Some ''/opt/docdb/bin''\<rparr>"

lemma sample_home: "ResolveDocumentDbHome sample_system [] = ''/opt/docdb''"
  by code_simp

lemma sample_archives: "driver_archives sample_system ''/opt/docdb'' = [''/opt/docdb/libs/documentdb-jdbc-1.0.jar'', ''/opt/docdb/libs/x/a.b.jar'']"
  by code_simp

theorem connection_classpath_archives_witness:
  "\<exists>home. is_home sample_system home \<and> java_entries [] (connection_classpath sample_system) = (if home = [] then [] else driver_archives sample_system home)"
proof (rule connection_classpath_archives)
  show "ToLower (GetEnv_default sample_system ''DOCUMENTDB_NATIVE_TEST_CLASSPATH'' ''false'') \<noteq> ''true''" by code_simp
  show "\<forall>f \<in> set (driver_archives sample_system (ResolveDocumentDbHome sample_system [])). CHR '':'' \<notin> set f"
    unfolding sample_home sample_archives by simp
qed

text \<open>A class path of the user is closed with a semicolon, which is no separator on Linux, so its last entry runs into
  the first archive.\<close>

lemma user_classpath_glued:
  assumes "home \<noteq> []" and "ToLower (GetEnv_default sys ''DOCUMENTDB_NATIVE_TEST_CLASSPATH'' ''false'') \<noteq> ''true''"
    and "driver_archives sys home = f # fs" and "\<forall>f \<in> set (driver_archives sys home). CHR '':'' \<notin> set f"
    and "CHR '':'' \<notin> set usrCp" and "usrCp \<noteq> []" and "last usrCp \<noteq> CHR '';''"
  shows "java_entries [] (CreateDocumentDbClasspath sys usrCp home) = (usrCp @ '';'' @ f) # fs"
proof -
  have "java_entries [] (usrCp @ '';'' @ f @ '':'' @ class_path_of fs) = (usrCp @ '';'' @ f) # java_entries [] (class_path_of fs)"
    using assms(3-5) by (simp add: java_entries_append)
  moreover have "java_entries [] (class_path_of fs) = fs"
    by (rule java_entries_class_path) (use assms(3,4) archives_not_empty [of _ sys home] in auto)
  ultimately show ?thesis
    using assms by (simp add: CreateDocumentDbClasspath_def NormalizeClasspath_def home_classpath class_path_of_def)
qed

end
