(* ===== verification/Odbc_SharedPointer.thy ===== *)
theory Odbc_SharedPointer
  imports Odbc_Prelude
begin

text \<open>
  Shared pointers (\<^verbatim>\<open>include/documentdb/odbc/common/concurrent.h\<close>, \<^verbatim>\<open>src/common/concurrent.cpp\<close>). A pointer is a variable that
  holds the address of the object and that of a counter; both may be null. The counters live in a store of their own. The
  operations are sequences of steps, so that those of several threads can be interleaved: a copy reads its source and then
  increments the counter, an exchange is two loads into temporaries and four stores, and the destructor reads its counter,
  decrements it and, when it came to zero, calls the deleter; a counter before that call is \<open>dying\<close>. Only the increment and
  the decrement are atomic operations in the source; everything else is plain, so that the language gives a meaning to
  programs without data races only. The interleavings of this theory are those: while a thread is between the first and
  the last access of an operation that writes a variable, no other thread uses that variable, and while a thread copies
  from a variable, no other thread writes it. Such programs behave as if their steps were taken one after the other. The
  addresses of new counters are arguments.
\<close>

section \<open>Pointers and counters\<close>

record SharedPointerImpl =
  im_ptr :: nat
  im_refCnt :: int

record Pointers =
  vars :: "nat \<rightharpoonup> nat option \<times> nat option"
  impls :: "nat \<rightharpoonup> SharedPointerImpl"
  dying :: "nat list"
  released :: "nat list"

datatype pointer_error = NoVariable | UseAfterFree

definition no_pointers :: Pointers where
  "no_pointers = \<lparr>vars = Map.empty, impls = Map.empty, dying = [], released = []\<rparr>"

definition impl_Increment :: "nat \<Rightarrow> Pointers \<Rightarrow> pointer_error + Pointers" where
  "impl_Increment a s =
     (case impls s a of
        None \<Rightarrow> Inl UseAfterFree
      | Some i \<Rightarrow> Inr (s\<lparr>impls := (impls s)(a \<mapsto> i\<lparr>im_refCnt := to_signed 32 (im_refCnt i + 1)\<rparr>)\<rparr>))"

definition impl_Decrement :: "nat \<Rightarrow> Pointers \<Rightarrow> pointer_error + bool \<times> Pointers" where
  "impl_Decrement a s =
     (case impls s a of
        None \<Rightarrow> Inl UseAfterFree
      | Some i \<Rightarrow> (let n = to_signed 32 (im_refCnt i - 1)
                in Inr (n = 0, s\<lparr>impls := (impls s)(a \<mapsto> i\<lparr>im_refCnt := n\<rparr>)\<rparr>)))"

text \<open>The constructors: for a raw pointer, with the address \<open>a\<close> of the new counter, and the copy.\<close>

definition SharedPointer_new :: "nat \<Rightarrow> nat \<Rightarrow> nat option \<Rightarrow> Pointers \<Rightarrow> Pointers" where
  "SharedPointer_new a v obj s =
     (case obj of
        None \<Rightarrow> s\<lparr>vars := (vars s)(v \<mapsto> (None, None))\<rparr>
      | Some p \<Rightarrow> s\<lparr>vars := (vars s)(v \<mapsto> (Some p, Some a)), impls := (impls s)(a \<mapsto> \<lparr>im_ptr = p, im_refCnt = 1\<rparr>)\<rparr>)"

definition SharedPointer_copy_read :: "nat \<Rightarrow> Pointers \<Rightarrow> pointer_error + nat option \<times> nat option" where
  "SharedPointer_copy_read w s = (case vars s w of None \<Rightarrow> Inl NoVariable | Some x \<Rightarrow> Inr x)"

definition SharedPointer_copy_increment :: "nat \<Rightarrow> nat option \<times> nat option \<Rightarrow> Pointers \<Rightarrow> pointer_error + Pointers" where
  "SharedPointer_copy_increment v x s =
     (case snd x of
        None \<Rightarrow> Inr (s\<lparr>vars := (vars s)(v \<mapsto> x)\<rparr>)
      | Some a \<Rightarrow>
          (case impl_Increment a s of
             Inl e \<Rightarrow> Inl e
           | Inr s' \<Rightarrow> Inr (s'\<lparr>vars := (vars s')(v \<mapsto> x)\<rparr>)))"

definition SharedPointer_copy :: "nat \<Rightarrow> nat \<Rightarrow> Pointers \<Rightarrow> pointer_error + Pointers" where
  "SharedPointer_copy v w s =
     (case SharedPointer_copy_read w s of Inl e \<Rightarrow> Inl e | Inr x \<Rightarrow> SharedPointer_copy_increment v x s)"

text \<open>The exchange: the temporaries \<open>x\<close> are the two members of \<open>v\<close>, and \<open>k\<close> counts the stores that are done: the object and
  the counter of \<open>v\<close>, then those of \<open>w\<close>.\<close>

definition swap_store :: "nat \<Rightarrow> nat \<Rightarrow> nat option \<times> nat option \<Rightarrow> nat \<Rightarrow> Pointers \<Rightarrow> pointer_error + Pointers" where
  "swap_store v w x k s =
     (case (vars s v, vars s w) of
        (Some (p, i), Some (q, j)) \<Rightarrow>
          Inr (s\<lparr>vars := (if k = 0 then (vars s)(v \<mapsto> (q, i))
                          else if k = 1 then (vars s)(v \<mapsto> (p, j))
                          else if k = 2 then (vars s)(w \<mapsto> (fst x, j))
                          else (vars s)(w \<mapsto> (q, snd x)))\<rparr>)
      | _ \<Rightarrow> Inl NoVariable)"

fun swap_stores :: "nat \<Rightarrow> nat \<Rightarrow> nat option \<times> nat option \<Rightarrow> nat list \<Rightarrow> Pointers \<Rightarrow> pointer_error + Pointers" where
  "swap_stores v w x [] s = Inr s"
| "swap_stores v w x (k # ks) s = (case swap_store v w x k s of Inl e \<Rightarrow> Inl e | Inr s' \<Rightarrow> swap_stores v w x ks s')"

definition SharedPointer_Swap :: "nat \<Rightarrow> nat \<Rightarrow> Pointers \<Rightarrow> pointer_error + Pointers" where
  "SharedPointer_Swap v w s =
     (case (vars s v, vars s w) of
        (Some x, Some y) \<Rightarrow> if v \<noteq> w then swap_stores v w x [0, 1, 2, 3] s else Inr s
      | _ \<Rightarrow> Inl NoVariable)"

text \<open>The destructor: the read of the counter's address, the decrement, the deletion.\<close>

definition destructor_release :: "nat \<Rightarrow> nat option \<Rightarrow> Pointers \<Rightarrow> pointer_error + Pointers" where
  "destructor_release v i s =
     (case i of
        None \<Rightarrow> Inr (s\<lparr>vars := (vars s)(v := None)\<rparr>)
      | Some a \<Rightarrow>
          (case impl_Decrement a s of
             Inl e \<Rightarrow> Inl e
           | Inr (zero, s') \<Rightarrow> Inr (s'\<lparr>vars := (vars s')(v := None), dying := (if zero then a # dying s' else dying s')\<rparr>)))"

definition destructor_decrement :: "nat \<Rightarrow> Pointers \<Rightarrow> pointer_error + Pointers" where
  "destructor_decrement v s = (case vars s v of None \<Rightarrow> Inl NoVariable | Some (p, i) \<Rightarrow> destructor_release v i s)"

definition destructor_delete :: "nat \<Rightarrow> Pointers \<Rightarrow> pointer_error + Pointers" where
  "destructor_delete a s =
     (case impls s a of
        None \<Rightarrow> Inl UseAfterFree
      | Some i \<Rightarrow> Inr (s\<lparr>impls := (impls s)(a := None), dying := removeAll a (dying s), released := released s @ [im_ptr i]\<rparr>))"

definition SharedPointer_destroy :: "nat \<Rightarrow> Pointers \<Rightarrow> pointer_error + Pointers" where
  "SharedPointer_destroy v s =
     (case destructor_decrement v s of
        Inl e \<Rightarrow> Inl e
      | Inr s' \<Rightarrow> (case dying s' of a # _ \<Rightarrow> if length (dying s') = Suc (length (dying s)) then destructor_delete a s' else Inr s' | [] \<Rightarrow> Inr s'))"

text \<open>Assignment through a temporary variable.\<close>

definition SharedPointer_assign :: "nat \<Rightarrow> nat \<Rightarrow> nat \<Rightarrow> Pointers \<Rightarrow> pointer_error + Pointers" where
  "SharedPointer_assign tmp v w s =
     (if v = w then Inr s
      else case SharedPointer_copy tmp w s of
             Inl e \<Rightarrow> Inl e
           | Inr s1 \<Rightarrow> (case SharedPointer_Swap v tmp s1 of
                         Inl e \<Rightarrow> Inl e
                       | Inr s2 \<Rightarrow> SharedPointer_destroy tmp s2))"

definition SharedPointer_Get :: "nat \<Rightarrow> Pointers \<Rightarrow> pointer_error + nat option" where
  "SharedPointer_Get v s = (case vars s v of None \<Rightarrow> Inl NoVariable | Some (p, i) \<Rightarrow> Inr p)"

definition SharedPointer_IsValid :: "nat \<Rightarrow> Pointers \<Rightarrow> pointer_error + bool" where
  "SharedPointer_IsValid v s = (case vars s v of None \<Rightarrow> Inl NoVariable | Some (p, i) \<Rightarrow> Inr (i \<noteq> None))"

text \<open>\<open>SharedFromThis\<close> for an object whose counter is at \<open>self\<close>. The address of the object is not assigned.\<close>

definition SharedFromThis :: "nat \<Rightarrow> nat \<Rightarrow> Pointers \<Rightarrow> pointer_error + Pointers" where
  "SharedFromThis self v s =
     (case impl_Increment self s of
        Inl e \<Rightarrow> Inl e
      | Inr s' \<Rightarrow> Inr (s'\<lparr>vars := (vars s')(v \<mapsto> (None, Some self))\<rparr>))"

section \<open>Whole operations\<close>

text \<open>A raw object is given to one pointer only, and there are fewer than 2^31 pointers.\<close>

definition room :: "Pointers \<Rightarrow> nat \<Rightarrow> bool" where
  "room s v \<longleftrightarrow> vars s v = None \<and> card (dom (vars s)) < 2 ^ 31 - 1"

text \<open>One operation after the other, the deletion apart: what the interleavings are compared with.\<close>

lemma Swap_exchanges:
  assumes "vars s v = Some x" and "vars s w = Some y" and "v \<noteq> w"
  shows "SharedPointer_Swap v w s = Inr (s\<lparr>vars := (vars s)(v \<mapsto> y, w \<mapsto> x)\<rparr>)"
  using assms by (cases x; cases y) (simp add: SharedPointer_Swap_def swap_store_def fun_upd_twist)

inductive pstep :: "Pointers \<Rightarrow> Pointers \<Rightarrow> bool" where
  new: "room s v \<Longrightarrow> impls s a = None \<Longrightarrow> (\<And>p. obj = Some p \<Longrightarrow> p \<notin> set (released s) \<union> im_ptr ` ran (impls s)) \<Longrightarrow>
     pstep s (SharedPointer_new a v obj s)"
| copy: "room s v \<Longrightarrow> SharedPointer_copy v w s = Inr s' \<Longrightarrow> pstep s s'"
| from_this: "room s v \<Longrightarrow> vars s w = Some (p, Some self) \<Longrightarrow> SharedFromThis self v s = Inr s' \<Longrightarrow> pstep s s'"
| swap: "SharedPointer_Swap v w s = Inr s' \<Longrightarrow> pstep s s'"
| decrement: "destructor_decrement v s = Inr s' \<Longrightarrow> pstep s s'"
| delete: "a \<in> set (dying s) \<Longrightarrow> destructor_delete a s = Inr s' \<Longrightarrow> pstep s s'"

lemmas copy_defs = SharedPointer_copy_def SharedPointer_copy_read_def SharedPointer_copy_increment_def

lemmas decrement_defs = destructor_decrement_def destructor_release_def

text \<open>The pointers that share a counter.\<close>

definition holders :: "Pointers \<Rightarrow> nat \<Rightarrow> nat set" where
  "holders s a = {v. \<exists>p. vars s v = Some (p, Some a)}"

definition pointers_inv :: "Pointers \<Rightarrow> bool" where
  "pointers_inv s \<longleftrightarrow> finite (dom (vars s)) \<and> card (dom (vars s)) < 2 ^ 31
     \<and> (\<forall>a i. impls s a = Some i \<longrightarrow> im_refCnt i = int (card (holders s a)) \<and> (a \<in> set (dying s) \<longleftrightarrow> holders s a = {}))
     \<and> (\<forall>v p a. vars s v = Some (p, Some a) \<longrightarrow> (\<exists>i. impls s a = Some i \<and> (p = None \<or> p = Some (im_ptr i))))
     \<and> (\<forall>v p. vars s v = Some (p, None) \<longrightarrow> p = None)
     \<and> set (dying s) \<subseteq> dom (impls s)
     \<and> (\<forall>a b i k. impls s a = Some i \<longrightarrow> impls s b = Some k \<longrightarrow> im_ptr i = im_ptr k \<longrightarrow> a = b)
     \<and> distinct (released s) \<and> (\<forall>a i. impls s a = Some i \<longrightarrow> im_ptr i \<notin> set (released s))"

lemma pointers_invD:
  assumes "pointers_inv s"
  shows "finite (dom (vars s))" and "card (dom (vars s)) < 2 ^ 31"
    and "impls s a = Some i \<Longrightarrow> im_refCnt i = int (card (holders s a))"
    and "impls s a = Some i \<Longrightarrow> a \<in> set (dying s) \<longleftrightarrow> holders s a = {}"
    and "vars s v = Some (p, Some a) \<Longrightarrow> \<exists>i. impls s a = Some i \<and> (p = None \<or> p = Some (im_ptr i))"
    and "vars s v = Some (p, None) \<Longrightarrow> p = None"
    and "set (dying s) \<subseteq> dom (impls s)"
    and "impls s a = Some i \<Longrightarrow> impls s b = Some k \<Longrightarrow> im_ptr i = im_ptr k \<Longrightarrow> a = b"
    and "distinct (released s)"
    and "impls s a = Some i \<Longrightarrow> im_ptr i \<notin> set (released s)"
  using assms unfolding pointers_inv_def by blast+

lemma holders_dom: "holders s a \<subseteq> dom (vars s)"
  by (auto simp: holders_def)

lemma holders_card:
  assumes "pointers_inv s"
  shows "finite (holders s a)" and "card (holders s a) \<le> card (dom (vars s))"
  using assms holders_dom [of s a] by (auto simp: pointers_inv_def intro: finite_subset card_mono)

lemma holders_set:
  "holders (s\<lparr>vars := (vars s)(v \<mapsto> (p, i))\<rparr>) b = (if i = Some b then insert v (holders s b) else holders s b - {v})"
  by (auto simp: holders_def)

lemma holders_unset: "holders (s\<lparr>vars := (vars s)(v := None)\<rparr>) b = holders s b - {v}"
  by (auto simp: holders_def)

lemma holders_cong: "vars t = vars s \<Longrightarrow> holders t b = holders s b"
  by (simp add: holders_def)

lemma holders_fresh: "pointers_inv s \<Longrightarrow> impls s a = None \<Longrightarrow> holders s a = {}"
  by (auto simp: holders_def dest: pointers_invD(5))

lemma new_variable:
  assumes "pointers_inv s" and "room s v"
  shows "finite (dom ((vars s)(v \<mapsto> x)))" and "card (dom ((vars s)(v \<mapsto> x))) < 2 ^ 31" and "v \<notin> holders s a"
  using assms by (auto simp: pointers_inv_def room_def holders_def card_insert_if domIff)

text \<open>A counter that is in use never wraps around.\<close>

lemma counter_in_range:
  assumes "pointers_inv s" and "room s v"
  shows "to_signed 32 (int (card (holders s a)) + 1) = int (card (holders s a)) + 1"
  using holders_card(2) [OF assms(1), of a] assms(2) by (simp add: room_def to_signed_id)

text \<open>Adding a holder to the counter at \<open>a\<close>.\<close>

lemma add_holder_inv:
  assumes inv: "pointers_inv s" and room: "room s v" and i: "impls s a = Some i" and h: "holders s a \<noteq> {}" and p: "p = None \<or> p = Some (im_ptr i)"
  shows "pointers_inv (s\<lparr>impls := (impls s)(a \<mapsto> i\<lparr>im_refCnt := to_signed 32 (im_refCnt i + 1)\<rparr>), vars := (vars s)(v \<mapsto> (p, Some a))\<rparr>)"
    (is "pointers_inv ?t")
proof -
  have cnt: "im_refCnt i = int (card (holders s a))" "a \<notin> set (dying s)" using inv i h by (auto simp: pointers_inv_def)
  have hold: "holders ?t b = (if b = a then insert v (holders s b) else holders s b)" for b
    using new_variable(3) [OF inv room] by (auto simp: holders_def)
  have card: "card (insert v (holders s a)) = Suc (card (holders s a))"
    using new_variable(3) [OF inv room] holders_card(1) [OF inv] by simp
  have new: "to_signed 32 (im_refCnt i + 1) = int (card (insert v (holders s a)))"
    unfolding card cnt(1) using counter_in_range [OF inv room, of a] by simp
  note D = pointers_invD [OF inv]
  show ?thesis
    unfolding pointers_inv_def hold
  proof (intro conjI)
    show "finite (dom (vars ?t))" "card (dom (vars ?t)) < 2 ^ 31" using new_variable(1,2) [OF inv room] by simp_all
    show "\<forall>b k. impls ?t b = Some k \<longrightarrow> im_refCnt k = int (card (if b = a then insert v (holders s b) else holders s b)) \<and>
       (b \<in> set (dying ?t) \<longleftrightarrow> (if b = a then insert v (holders s b) else holders s b) = {})"
      using D(3,4) new cnt(2) by auto
    show "\<forall>w q b. vars ?t w = Some (q, Some b) \<longrightarrow> (\<exists>k. impls ?t b = Some k \<and> (q = None \<or> q = Some (im_ptr k)))"
      using D(5) i p by (auto split: if_splits) (metis option.inject)+
    show "\<forall>w q. vars ?t w = Some (q, None) \<longrightarrow> q = None" using D(6) by auto
    show "set (dying ?t) \<subseteq> dom (impls ?t)" using D(7) by auto
    show "\<forall>b c k l. impls ?t b = Some k \<longrightarrow> impls ?t c = Some l \<longrightarrow> im_ptr k = im_ptr l \<longrightarrow> b = c" using D(8) i by (auto split: if_splits)
    show "distinct (released ?t)" using D(9) by simp
    show "\<forall>b k. impls ?t b = Some k \<longrightarrow> im_ptr k \<notin> set (released ?t)" using D(10) i by auto
  qed
qed

lemma null_inv:
  assumes inv: "pointers_inv s" and room: "room s v"
  shows "pointers_inv (s\<lparr>vars := (vars s)(v \<mapsto> (None, None))\<rparr>)"
proof -
  have "holders (s\<lparr>vars := (vars s)(v \<mapsto> (None, None))\<rparr>) b = holders s b" for b
    using new_variable(3) [OF inv room, of b] by (simp add: holders_set)
  then show ?thesis
    using pointers_invD [OF inv] new_variable(1,2) [OF inv room] unfolding pointers_inv_def by (simp del: dom_fun_upd)
qed

lemma new_inv:
  assumes inv: "pointers_inv s" and room: "room s v" and a: "impls s a = None"
    and obj: "\<And>p. obj = Some p \<Longrightarrow> p \<notin> set (released s) \<union> im_ptr ` ran (impls s)"
  shows "pointers_inv (SharedPointer_new a v obj s)"
proof (cases obj)
  case None
  then show ?thesis using null_inv [OF inv room] by (simp add: SharedPointer_new_def)
next
  case (Some p)
  let ?t = "s\<lparr>vars := (vars s)(v \<mapsto> (Some p, Some a)), impls := (impls s)(a \<mapsto> \<lparr>im_ptr = p, im_refCnt = 1\<rparr>)\<rparr>"
  have hold: "holders ?t b = (if b = a then {v} else holders s b)" for b
    using new_variable(3) [OF inv room, of b] holders_fresh [OF inv a] by (auto simp: holders_def)
  note D = pointers_invD [OF inv]
  have dying: "a \<notin> set (dying s)" using D(7) a by blast
  have fresh: "im_ptr i \<noteq> p" if "impls s b = Some i" for b i using that obj [OF Some] by (auto simp: ran_def)
  have "pointers_inv ?t"
    unfolding pointers_inv_def hold
  proof (intro conjI)
    show "finite (dom (vars ?t))" "card (dom (vars ?t)) < 2 ^ 31" using new_variable(1,2) [OF inv room] by simp_all
    show "\<forall>b k. impls ?t b = Some k \<longrightarrow> im_refCnt k = int (card (if b = a then {v} else holders s b)) \<and>
       (b \<in> set (dying ?t) \<longleftrightarrow> (if b = a then {v} else holders s b) = {})"
      using D(3,4) dying by auto
    show "\<forall>w q b. vars ?t w = Some (q, Some b) \<longrightarrow> (\<exists>k. impls ?t b = Some k \<and> (q = None \<or> q = Some (im_ptr k)))"
      using D(5) a by (auto split: if_splits) (metis option.distinct(1))
    show "\<forall>w q. vars ?t w = Some (q, None) \<longrightarrow> q = None" using D(6) by auto
    show "set (dying ?t) \<subseteq> dom (impls ?t)" using D(7) by auto
    show "\<forall>b c k l. impls ?t b = Some k \<longrightarrow> impls ?t c = Some l \<longrightarrow> im_ptr k = im_ptr l \<longrightarrow> b = c" using D(8) fresh by (auto split: if_splits) metis+
    show "distinct (released ?t)" using D(9) by simp
    show "\<forall>b k. impls ?t b = Some k \<longrightarrow> im_ptr k \<notin> set (released ?t)" using D(10) obj [OF Some] by auto
  qed
  with Some show ?thesis by (simp add: SharedPointer_new_def)
qed

lemma copy_inv:
  assumes inv: "pointers_inv s" and room: "room s v" and c: "SharedPointer_copy v w s = Inr t"
  shows "pointers_inv t"
proof -
  obtain p i where w: "vars s w = Some (p, i)" using c by (auto simp: copy_defs split: option.splits)
  show ?thesis
  proof (cases i)
    case None
    with c w pointers_invD(6) [OF inv, of w p] null_inv [OF inv room] show ?thesis by (simp add: copy_defs)
  next
    case (Some a)
    then obtain k where k: "impls s a = Some k" "p = None \<or> p = Some (im_ptr k)" using pointers_invD(5) [OF inv, of w p a] w by auto
    have "holders s a \<noteq> {}" using w Some by (auto simp: holders_def)
    from add_holder_inv [OF inv room k(1) this k(2)] c w Some k(1) show ?thesis
      by (simp add: copy_defs impl_Increment_def)
  qed
qed

lemma from_this_inv:
  assumes inv: "pointers_inv s" and room: "room s v" and w: "vars s w = Some (p, Some a)" and c: "SharedFromThis a v s = Inr t"
  shows "pointers_inv t"
proof -
  obtain k where k: "impls s a = Some k" using pointers_invD(5) [OF inv w] by auto
  have "holders s a \<noteq> {}" using w by (auto simp: holders_def)
  from add_holder_inv [OF inv room k this, of None] c k show ?thesis by (simp add: SharedFromThis_def impl_Increment_def)
qed

lemma swap_inv:
  assumes inv: "pointers_inv s" and c: "SharedPointer_Swap v w s = Inr t"
  shows "pointers_inv t"
proof (cases "v = w")
  case True
  with assms show ?thesis by (auto simp: SharedPointer_Swap_def split: option.splits)
next
  case False
  obtain x y where xy: "vars s v = Some x" "vars s w = Some y" "t = s\<lparr>vars := (vars s)(v \<mapsto> y, w \<mapsto> x)\<rparr>"
    using c False Swap_exchanges [of s v _ w] by (cases "vars s v"; cases "vars s w") (auto simp: SharedPointer_Swap_def)
  let ?f = "id(v := w, w := v)"
  have "inj ?f" using False by (auto simp: inj_def)
  have "holders t b = ?f ` holders s b" for b
  proof (intro set_eqI iffI)
    fix u assume "u \<in> holders t b"
    then show "u \<in> ?f ` holders s b" using xy False
      by (intro image_eqI [of _ _ "?f u"]) (auto simp: holders_def split: if_splits)
  next
    fix u assume "u \<in> ?f ` holders s b"
    then show "u \<in> holders t b" using xy False by (auto simp: holders_def)
  qed
  then have hold: "card (holders t b) = card (holders s b)" "holders t b = {} \<longleftrightarrow> holders s b = {}" for b
    using \<open>inj ?f\<close> by (metis card_image inj_on_subset subset_UNIV, metis image_is_empty)
  note D = pointers_invD [OF inv]
  have dom: "dom (vars t) = dom (vars s)" using xy by auto
  show ?thesis
    unfolding pointers_inv_def hold dom
  proof (intro conjI)
    show "\<forall>u q b. vars t u = Some (q, Some b) \<longrightarrow> (\<exists>k. impls t b = Some k \<and> (q = None \<or> q = Some (im_ptr k)))"
      using D(5) xy by (auto split: if_splits)
    show "\<forall>u q. vars t u = Some (q, None) \<longrightarrow> q = None" using D(6) xy by (auto split: if_splits)
  qed (use D(1-4,7-10) xy(3) in auto)
qed

lemma decrement_inv:
  assumes inv: "pointers_inv s" and c: "destructor_decrement v s = Inr t"
  shows "pointers_inv t"
proof -
  note D = pointers_invD [OF inv]
  obtain p i where v: "vars s v = Some (p, i)" using c by (auto simp: decrement_defs split: option.splits)
  have dom: "finite (dom ((vars s)(v := None)))" "card (dom ((vars s)(v := None))) < 2 ^ 31"
    using D(1,2) v card_Diff1_le [of "dom (vars s)" v] by simp_all
  show ?thesis
  proof (cases i)
    case None
    then have t: "t = s\<lparr>vars := (vars s)(v := None)\<rparr>" using c v by (simp add: decrement_defs)
    have "holders t b = holders s b" for b using v None unfolding t holders_unset by (auto simp: holders_def)
    then show ?thesis using D dom unfolding pointers_inv_def t by (simp del: dom_fun_upd)
  next
    case (Some a)
    obtain k where k: "impls s a = Some k" using D(5) [of v p a] v Some by auto
    have va: "v \<in> holders s a" using v Some by (auto simp: holders_def)
    have fin: "finite (holders s a)" by (rule holders_card(1) [OF inv])
    have pos: "card (holders s a) \<ge> 1" using va fin by (metis One_nat_def Suc_leI card_gt_0_iff empty_iff)
    have range: "to_signed 32 (im_refCnt k - 1) = int (card (holders s a - {v}))"
      using holders_card(2) [OF inv, of a] D(2) D(3) [OF k] pos va fin by (simp add: to_signed_id of_nat_diff)
    let ?n = "int (card (holders s a - {v}))"
    have t: "t = s\<lparr>impls := (impls s)(a \<mapsto> k\<lparr>im_refCnt := ?n\<rparr>), vars := (vars s)(v := None),
        dying := (if ?n = 0 then a # dying s else dying s)\<rparr>"
      using c v Some k range by (auto simp: decrement_defs impl_Decrement_def Let_def)
    have hold: "holders t b = (if b = a then holders s a - {v} else holders s b)" for b
      using v Some unfolding t by (auto simp: holders_def)
    have zero: "?n = 0 \<longleftrightarrow> holders s a - {v} = {}" using fin by simp
    have nd: "a \<notin> set (dying s)" using D(4) [OF k] va by auto
    show ?thesis
      unfolding pointers_inv_def hold
    proof (intro conjI)
      show "finite (dom (vars t))" "card (dom (vars t)) < 2 ^ 31" using dom unfolding t by simp_all
      show "\<forall>b l. impls t b = Some l \<longrightarrow> im_refCnt l = int (card (if b = a then holders s a - {v} else holders s b)) \<and>
         (b \<in> set (dying t) \<longleftrightarrow> (if b = a then holders s a - {v} else holders s b) = {})"
        using D(3,4) nd zero unfolding t by auto
      show "\<forall>u q b. vars t u = Some (q, Some b) \<longrightarrow> (\<exists>l. impls t b = Some l \<and> (q = None \<or> q = Some (im_ptr l)))"
        using D(5) k unfolding t by (auto split: if_splits) (metis option.inject)+
      show "\<forall>u q. vars t u = Some (q, None) \<longrightarrow> q = None" using D(6) unfolding t by (auto split: if_splits)
      show "set (dying t) \<subseteq> dom (impls t)" using D(7) unfolding t by auto
      show "\<forall>b c l m. impls t b = Some l \<longrightarrow> impls t c = Some m \<longrightarrow> im_ptr l = im_ptr m \<longrightarrow> b = c"
        using D(8) k unfolding t by (auto split: if_splits)
      show "distinct (released t)" using D(9) unfolding t by simp
      show "\<forall>b l. impls t b = Some l \<longrightarrow> im_ptr l \<notin> set (released t)" using D(10) k unfolding t by auto
    qed
  qed
qed

lemma delete_inv:
  assumes inv: "pointers_inv s" and a: "a \<in> set (dying s)" and c: "destructor_delete a s = Inr t"
  shows "pointers_inv t"
proof -
  note D = pointers_invD [OF inv]
  obtain k where k: "impls s a = Some k" using D(7) a by auto
  have t: "t = s\<lparr>impls := (impls s)(a := None), dying := removeAll a (dying s), released := released s @ [im_ptr k]\<rparr>"
    using c k by (simp add: destructor_delete_def)
  have none: "holders s a = {}" using D(4) [OF k] a by simp
  have hold: "holders t b = holders s b" for b unfolding t by (simp add: holders_def)
  show ?thesis
    unfolding pointers_inv_def hold
  proof (intro conjI)
    show "finite (dom (vars t))" "card (dom (vars t)) < 2 ^ 31" using D(1,2) unfolding t by simp_all
    show "\<forall>b l. impls t b = Some l \<longrightarrow> im_refCnt l = int (card (holders s b)) \<and> (b \<in> set (dying t) \<longleftrightarrow> holders s b = {})"
      using D(3,4) unfolding t by auto
    show "\<forall>u q b. vars t u = Some (q, Some b) \<longrightarrow> (\<exists>l. impls t b = Some l \<and> (q = None \<or> q = Some (im_ptr l)))"
    proof (intro allI impI)
      fix u q b assume u: "vars t u = Some (q, Some b)"
      then have "b \<noteq> a" using none unfolding t by (auto simp: holders_def)
      with u D(5) [of u q b] show "\<exists>l. impls t b = Some l \<and> (q = None \<or> q = Some (im_ptr l))" unfolding t by simp
    qed
    show "\<forall>u q. vars t u = Some (q, None) \<longrightarrow> q = None" using D(6) unfolding t by auto
    show "set (dying t) \<subseteq> dom (impls t)" using D(7) unfolding t by auto
    show "\<forall>b c l m. impls t b = Some l \<longrightarrow> impls t c = Some m \<longrightarrow> im_ptr l = im_ptr m \<longrightarrow> b = c"
      using D(8) unfolding t by (auto split: if_splits)
    show "distinct (released t)" using D(9) D(10) [OF k] unfolding t by simp
    show "\<forall>b l. impls t b = Some l \<longrightarrow> im_ptr l \<notin> set (released t)"
      using D(8) [OF _ k] D(10) unfolding t by (auto split: if_splits)
  qed
qed

lemma pstep_inv: "pstep s t \<Longrightarrow> pointers_inv s \<Longrightarrow> pointers_inv t"
proof (induction rule: pstep.induct)
  case (new s v a obj)
  show ?case by (rule new_inv [OF new.prems new.hyps])
qed (blast intro: copy_inv from_this_inv swap_inv decrement_inv delete_inv)+

lemma no_pointers_inv: "pointers_inv no_pointers"
  by (simp add: pointers_inv_def no_pointers_def)

section \<open>Every interleaving\<close>

text \<open>What a thread is in the middle of: a copy that has read its source, an exchange with \<open>k\<close> stores done, a destructor
  that has read the address of its counter.\<close>

datatype op =
    Copying nat nat "nat option \<times> nat option"
  | Swapping nat nat "nat option \<times> nat option" nat
  | Destroying nat "nat option"

fun op_writes :: "op \<Rightarrow> nat set" where
  "op_writes (Copying v w x) = {}"
| "op_writes (Swapping v w x k) = {v, w}"
| "op_writes (Destroying v i) = {v}"

fun op_uses :: "op \<Rightarrow> nat set" where
  "op_uses (Copying v w x) = {w}"
| "op_uses (Swapping v w x k) = {v, w}"
| "op_uses (Destroying v i) = {v}"

type_synonym threads = "nat \<rightharpoonup> op"

definition may_read :: "threads \<Rightarrow> nat \<Rightarrow> bool" where
  "may_read T u \<longleftrightarrow> (\<forall>op \<in> ran T. u \<notin> op_writes op)"

definition may_write :: "threads \<Rightarrow> nat \<Rightarrow> bool" where
  "may_write T u \<longleftrightarrow> (\<forall>op \<in> ran T. u \<notin> op_uses op)"

inductive fine_step :: "Pointers \<times> threads \<Rightarrow> Pointers \<times> threads \<Rightarrow> bool" where
  new: "room s v \<Longrightarrow> impls s a = None \<Longrightarrow> (\<And>p. obj = Some p \<Longrightarrow> p \<notin> set (released s) \<union> im_ptr ` ran (impls s)) \<Longrightarrow>
     fine_step (s, T) (SharedPointer_new a v obj s, T)"
| copy_begin: "T t = None \<Longrightarrow> may_read T w \<Longrightarrow> SharedPointer_copy_read w s = Inr x \<Longrightarrow> fine_step (s, T) (s, T(t \<mapsto> Copying v w x))"
| copy_end: "T t = Some (Copying v w x) \<Longrightarrow> room s v \<Longrightarrow> SharedPointer_copy_increment v x s = Inr s' \<Longrightarrow>
     fine_step (s, T) (s', T(t := None))"
| from_this: "room s v \<Longrightarrow> may_read T w \<Longrightarrow> vars s w = Some (p, Some self) \<Longrightarrow> SharedFromThis self v s = Inr s' \<Longrightarrow> fine_step (s, T) (s', T)"
| swap_begin: "T t = None \<Longrightarrow> v \<noteq> w \<Longrightarrow> may_write T v \<Longrightarrow> may_write T w \<Longrightarrow> vars s v = Some x \<Longrightarrow> w \<in> dom (vars s) \<Longrightarrow>
     fine_step (s, T) (s, T(t \<mapsto> Swapping v w x 0))"
| swap_next: "T t = Some (Swapping v w x k) \<Longrightarrow> swap_store v w x k s = Inr s' \<Longrightarrow>
     fine_step (s, T) (s', T(t := (if k < 3 then Some (Swapping v w x (Suc k)) else None)))"
| destroy_begin: "T t = None \<Longrightarrow> may_write T v \<Longrightarrow> vars s v = Some (p, i) \<Longrightarrow> fine_step (s, T) (s, T(t \<mapsto> Destroying v i))"
| decrement: "T t = Some (Destroying v i) \<Longrightarrow> destructor_release v i s = Inr s' \<Longrightarrow> fine_step (s, T) (s', T(t := None))"
| delete: "a \<in> set (dying s) \<Longrightarrow> destructor_delete a s = Inr s' \<Longrightarrow> fine_step (s, T) (s', T)"

text \<open>Every interleaving refines a sequence of whole operations: an exchange takes effect when it begins, a copy when it
  increments, a destructor when it decrements. In the middle of an exchange the two variables differ from those of the
  sequence as far as the stores have come.\<close>

definition swapped :: "threads \<Rightarrow> nat \<Rightarrow> bool" where
  "swapped T u \<longleftrightarrow> (\<exists>v w x k. Swapping v w x k \<in> ran T \<and> u \<in> {v, w})"

fun op_ok :: "Pointers \<Rightarrow> Pointers \<Rightarrow> op \<Rightarrow> bool" where
  "op_ok s g (Copying v w x) \<longleftrightarrow> vars g w = Some x"
| "op_ok s g (Destroying v i) \<longleftrightarrow> (\<exists>p. vars g v = Some (p, i))"
| "op_ok s g (Swapping v w x k) \<longleftrightarrow> v \<noteq> w \<and> k < 4 \<and> vars g w = Some x \<and> (\<exists>y. vars g v = Some y
     \<and> vars s v = Some (if k = 0 then x else if k = 1 then (fst y, snd x) else y)
     \<and> vars s w = Some (if k < 3 then y else (fst x, snd y)))"

definition undisturbed :: "threads \<Rightarrow> bool" where
  "undisturbed T \<longleftrightarrow> (\<forall>t u op op'. T t = Some op \<longrightarrow> T u = Some op' \<longrightarrow> t \<noteq> u \<longrightarrow> op_writes op \<inter> op_uses op' = {})"

definition refines :: "Pointers \<Rightarrow> threads \<Rightarrow> Pointers \<Rightarrow> bool" where
  "refines s T g \<longleftrightarrow> impls s = impls g \<and> dying s = dying g \<and> released s = released g \<and> dom (vars s) = dom (vars g)
     \<and> (\<forall>u. \<not> swapped T u \<longrightarrow> vars s u = vars g u) \<and> (\<forall>op \<in> ran T. op_ok s g op) \<and> undisturbed T"

lemma writes_uses: "op_writes op \<subseteq> op_uses op"
  by (cases op) auto

lemma may_write_read: "may_write T u \<Longrightarrow> may_read T u"
  using writes_uses by (fastforce simp: may_write_def may_read_def)

lemma may_read_swapped: "may_read T u \<Longrightarrow> \<not> swapped T u"
  by (fastforce simp: may_read_def swapped_def)

lemma undisturbed_add:
  assumes "undisturbed T" and "T t = None" and "\<And>op'. op' \<in> ran T \<Longrightarrow> op_writes op \<inter> op_uses op' = {} \<and> op_writes op' \<inter> op_uses op = {}"
  shows "undisturbed (T(t \<mapsto> op))"
  using assms unfolding undisturbed_def by (auto simp: ran_def) blast+

lemma undisturbed_same:
  assumes "undisturbed T" and "T t = Some op" and "op_writes op' = op_writes op" and "op_uses op' = op_uses op"
  shows "undisturbed (T(t \<mapsto> op'))"
  using assms unfolding undisturbed_def by (smt (verit) fun_upd_apply option.inject)

lemma undisturbed_remove: "undisturbed T \<Longrightarrow> undisturbed (T(t := None))"
  by (auto simp: undisturbed_def)

text \<open>A thread other than \<open>t\<close> does not use what \<open>t\<close> writes.\<close>

lemma others_off:
  assumes "undisturbed T" and "T t = Some op" and "op' \<in> ran (T(t := None))"
  shows "op_writes op \<inter> op_uses op' = {}" and "op_writes op' \<inter> op_uses op = {}"
  using assms by (auto simp: undisturbed_def ran_def split: if_splits) blast+

lemma op_ok_cong:
  assumes "op_ok s g op" and "\<And>u. u \<in> op_uses op \<Longrightarrow> vars s' u = vars s u \<and> vars g' u = vars g u"
  shows "op_ok s' g' op"
  using assms by (cases op) auto

lemma uses_dom: "op_ok s g op \<Longrightarrow> op_uses op \<subseteq> dom (vars g)"
  by (cases op) auto

lemma refinesD:
  assumes "refines s T g"
  shows "impls s = impls g" and "dying s = dying g" and "released s = released g" and "dom (vars s) = dom (vars g)"
    and "\<not> swapped T u \<Longrightarrow> vars s u = vars g u" and "op \<in> ran T \<Longrightarrow> op_ok s g op" and "T t = Some op \<Longrightarrow> op_ok s g op"
    and "undisturbed T"
  using assms by (auto simp: refines_def ran_def)

lemma refines_room: "refines s T g \<Longrightarrow> room g v \<longleftrightarrow> room s v"
  using refinesD(4) [of s T g] by (auto simp: room_def)

lemma not_swapped: "(\<And>op. op \<in> ran T \<Longrightarrow> v \<notin> op_uses op) \<Longrightarrow> \<not> swapped T v"
  by (fastforce simp: swapped_def)

text \<open>A variable that no thread uses is set or removed.\<close>

lemma refines_var:
  assumes r: "refines s T g" and off: "\<And>op. op \<in> ran T \<Longrightarrow> v \<notin> op_uses op"
    and s: "vars s' = (vars s)(v := x)" "vars g' = (vars g)(v := x)" "impls s' = impls g'" "dying s' = dying g'" "released s' = released g'"
  shows "refines s' T g'"
  unfolding refines_def
proof (intro conjI allI impI ballI)
  show "dom (vars s') = dom (vars g')" using refinesD(4) [OF r] s(1,2) by auto
  show "vars s' u = vars g' u" if "\<not> swapped T u" for u using refinesD(5) [OF r that] s(1,2) by simp
  show "op_ok s' g' op" if "op \<in> ran T" for op
    using refinesD(6) [OF r that] off [OF that] s(1,2) by (auto intro: op_ok_cong)
qed (use s refinesD(8) [OF r] in auto)

lemma refines_fresh:
  assumes "refines s T g" and "room s v"
    and "vars s' = (vars s)(v \<mapsto> x)" "vars g' = (vars g)(v \<mapsto> x)" "impls s' = impls g'" "dying s' = dying g'" "released s' = released g'"
  shows "refines s' T g'"
proof (rule refines_var [OF assms(1) _ assms(3-)])
  fix op assume "op \<in> ran T"
  then have "op_uses op \<subseteq> dom (vars s)" using refinesD(4,6) [OF assms(1)] uses_dom by metis
  then show "v \<notin> op_uses op" using assms(2) by (auto simp: room_def)
qed

text \<open>A thread begins or ends something that changes no variable.\<close>

lemma ran_less: "op \<in> ran (T(t := None)) \<Longrightarrow> op \<in> ran T"
  by (auto simp: ran_def split: if_splits)

lemma swapped_add: "T t = None \<Longrightarrow> swapped (T(t \<mapsto> op)) u \<longleftrightarrow> swapped T u \<or> (\<exists>v w x k. op = Swapping v w x k \<and> u \<in> {v, w})"
  unfolding swapped_def by (simp only: ran_map_upd) blast

lemma swapped_remove:
  "T t = Some op \<Longrightarrow> swapped T u \<longleftrightarrow> swapped (T(t := None)) u \<or> (\<exists>v w x k. op = Swapping v w x k \<and> u \<in> {v, w})"
  using swapped_add [of "T(t := None)" t op u] by (metis fun_upd_same fun_upd_triv fun_upd_upd)

lemma refines_begin:
  assumes r: "refines s T g" and t: "T t = None" and op: "op_ok s g op" "\<And>v w x k. op \<noteq> Swapping v w x k"
    and off: "\<And>op'. op' \<in> ran T \<Longrightarrow> op_writes op \<inter> op_uses op' = {} \<and> op_writes op' \<inter> op_uses op = {}"
  shows "refines s (T(t \<mapsto> op)) g"
  using refinesD [OF r] undisturbed_add [of T t op, OF _ t off] op t
  unfolding refines_def by (auto simp: swapped_add)

lemma refines_end:
  assumes r: "refines s T g" and t: "T t = Some op" and op: "\<And>v w x k. op \<noteq> Swapping v w x k"
  shows "refines s (T(t := None)) g"
  using refinesD [OF r] undisturbed_remove [of T t] op swapped_remove [of T, OF t] ran_less [of _ T t]
  unfolding refines_def by auto

lemma copy_end_refines:
  assumes r: "refines s T g" and t: "T t = Some (Copying v w x)" and room: "room s v" and c: "SharedPointer_copy_increment v x s = Inr s'"
  shows "\<exists>g'. pstep g g' \<and> refines s' (T(t := None)) g'"
proof -
  have w: "vars g w = Some x" using refinesD(7) [of _ T, OF r t] by simp
  obtain g' where g': "SharedPointer_copy_increment v x g = Inr g'"
    using c refinesD(1) [OF r] by (auto simp: SharedPointer_copy_increment_def impl_Increment_def split: option.splits)
  have "pstep g g'" by (rule pstep.copy [of _ v w]) (use room refines_room [OF r] w g' in \<open>simp_all add: SharedPointer_copy_def SharedPointer_copy_read_def\<close>)
  moreover have "refines s' (T(t := None)) g'"
    by (rule refines_fresh [OF refines_end [of _ T, OF r t] room, of _ x])
      (use c g' refinesD(1-3) [OF r] in \<open>auto simp: SharedPointer_copy_increment_def impl_Increment_def split: option.splits\<close>)
  ultimately show ?thesis by blast
qed

lemma from_this_refines:
  assumes r: "refines s T g" and room: "room s v" and w: "may_read T w" "vars s w = Some (p, Some self)" and c: "SharedFromThis self v s = Inr s'"
  shows "\<exists>g'. pstep g g' \<and> refines s' T g'"
proof -
  have wg: "vars g w = Some (p, Some self)" using refinesD(5) [OF r may_read_swapped [OF w(1)]] w(2) by simp
  obtain g' where g': "SharedFromThis self v g = Inr g'"
    using c refinesD(1) [OF r] by (auto simp: SharedFromThis_def impl_Increment_def split: option.splits)
  have "pstep g g'" using pstep.from_this room refines_room [OF r] wg g' by blast
  moreover have "refines s' T g'"
    by (rule refines_fresh [OF r room, of _ "(None, Some self)"])
      (use c g' refinesD(1-3) [OF r] in \<open>auto simp: SharedFromThis_def impl_Increment_def split: option.splits\<close>)
  ultimately show ?thesis by blast
qed

lemma new_refines:
  assumes r: "refines s T g" and n: "room s v" "impls s a = None" "\<And>p. obj = Some p \<Longrightarrow> p \<notin> set (released s) \<union> im_ptr ` ran (impls s)"
  shows "\<exists>g'. pstep g g' \<and> refines (SharedPointer_new a v obj s) T g'"
proof -
  have "pstep g (SharedPointer_new a v obj g)"
    using n refines_room [OF r] refinesD(1,3) [OF r] by (intro pstep.new) auto
  moreover have "refines (SharedPointer_new a v obj s) T (SharedPointer_new a v obj g)"
    by (rule refines_fresh [OF r n(1), of _ "case obj of None \<Rightarrow> (None, None) | Some p \<Rightarrow> (Some p, Some a)"])
      (use refinesD(1-3) [OF r] in \<open>auto simp: SharedPointer_new_def split: option.splits\<close>)
  ultimately show ?thesis by blast
qed

lemma swap_begin_refines:
  assumes r: "refines s T g" and t: "T t = None" and vw: "v \<noteq> w" "may_write T v" "may_write T w" "vars s v = Some x" "w \<in> dom (vars s)"
  shows "\<exists>g'. pstep g g' \<and> refines s (T(t \<mapsto> Swapping v w x 0)) g'"
proof -
  note ns = may_read_swapped [OF may_write_read [OF vw(2)]] may_read_swapped [OF may_write_read [OF vw(3)]]
  obtain y where y: "vars s w = Some y" using vw(5) by auto
  have g: "vars g v = Some x" "vars g w = Some y" using refinesD(5) [OF r] ns vw(4) y by metis+
  let ?g = "g\<lparr>vars := (vars g)(v \<mapsto> y, w \<mapsto> x)\<rparr>"
  have "pstep g ?g" by (rule pstep.swap [OF Swap_exchanges [OF g vw(1)]])
  moreover have "refines s (T(t \<mapsto> Swapping v w x 0)) ?g"
    unfolding refines_def
  proof (intro conjI allI impI ballI)
    show "dom (vars s) = dom (vars ?g)" using refinesD(4) [OF r] g by auto
    show "vars s u = vars ?g u" if "\<not> swapped (T(t \<mapsto> Swapping v w x 0)) u" for u
      using that refinesD(5) [OF r, of u] by (simp add: swapped_add [of T, OF t])
    show "op_ok s ?g op" if "op \<in> ran (T(t \<mapsto> Swapping v w x 0))" for op
    proof (cases "op \<in> ran T")
      case True
      with vw(2,3) have "v \<notin> op_uses op" "w \<notin> op_uses op" by (auto simp: may_write_def)
      with refinesD(6) [OF r True] show ?thesis by (auto intro: op_ok_cong)
    next
      case False
      with that t have "op = Swapping v w x 0" by (auto simp: ran_def split: if_splits)
      with vw(1,4) y show ?thesis by simp
    qed
    show "undisturbed (T(t \<mapsto> Swapping v w x 0))"
      by (rule undisturbed_add [of T, OF refinesD(8) [OF r] t]) (use vw(2,3) writes_uses in \<open>fastforce simp: may_write_def\<close>)
  qed (use refinesD(1-3) [OF r] in auto)
  ultimately show ?thesis by blast
qed

text \<open>A store of an exchange.\<close>

lemma swap_store_ok:
  assumes "op_ok s g (Swapping v w x k)" and "swap_store v w x k s = Inr s'"
  shows "k < 3 \<Longrightarrow> op_ok s' g (Swapping v w x (Suc k))" and "\<not> k < 3 \<Longrightarrow> vars s' v = vars g v \<and> vars s' w = vars g w"
    and "u \<noteq> v \<Longrightarrow> u \<noteq> w \<Longrightarrow> vars s' u = vars s u" and "dom (vars s') = dom (vars s)"
    and "impls s' = impls s" and "dying s' = dying s" and "released s' = released s"
  using assms by (auto simp: swap_store_def less_Suc_eq numeral_eq_Suc split: option.splits prod.splits if_splits)

lemma swap_next_refines:
  assumes r: "refines s T g" and t: "T t = Some (Swapping v w x k)" and c: "swap_store v w x k s = Inr s'"
  shows "refines s' (T(t := (if k < 3 then Some (Swapping v w x (Suc k)) else None))) g" (is "refines s' ?T g")
proof -
  note ok = swap_store_ok [OF refinesD(7) [of _ T, OF r t] c]
  have others: "op_ok s' g op" if "op \<in> ran (T(t := None))" for op
  proof (rule op_ok_cong [OF refinesD(6) [OF r ran_less [OF that]]])
    fix u assume "u \<in> op_uses op"
    with others_off(1) [of T, OF refinesD(8) [OF r] t that] have "u \<noteq> v" "u \<noteq> w" by auto
    then show "vars s' u = vars s u \<and> vars g u = vars g u" by (simp add: ok(3))
  qed
  have sw: "swapped ?T u \<longleftrightarrow> (if k < 3 then swapped T u else swapped (T(t := None)) u)" for u
    using swapped_add [of "T(t := None)" t "Swapping v w x (Suc k)" u] swapped_remove [of T, OF t, of u] by auto
  show ?thesis
    unfolding refines_def
  proof (intro conjI allI impI ballI)
    show "vars s' u = vars g u" if "\<not> swapped ?T u" for u
      using that sw [of u] swapped_remove [of T, OF t, of u] ok(2) ok(3) [of u] refinesD(5) [OF r, of u]
      by (cases "u = v"; cases "u = w") (auto split: if_splits)
    show "op_ok s' g op" if "op \<in> ran ?T" for op
    proof (cases "op \<in> ran (T(t := None))")
      case False
      with that have "k < 3" "op = Swapping v w x (Suc k)" by (auto simp: ran_def split: if_splits)
      with ok(1) show ?thesis by simp
    qed (rule others)
    show "undisturbed ?T"
      using refinesD(8) [OF r] undisturbed_same [of T, OF _ t] undisturbed_remove [of T t] by simp
  qed (use ok(4-) refinesD(1-4) [OF r] in auto)
qed

lemma decrement_refines:
  assumes r: "refines s T g" and t: "T t = Some (Destroying v i)" and c: "destructor_release v i s = Inr s'"
  shows "\<exists>g'. pstep g g' \<and> refines s' (T(t := None)) g'"
proof -
  obtain p where v: "vars g v = Some (p, i)" using refinesD(7) [of _ T, OF r t] by auto
  obtain g' where g': "destructor_release v i g = Inr g'"
    using c refinesD(1) [OF r] by (auto simp: destructor_release_def impl_Decrement_def Let_def split: option.splits)
  have "pstep g g'" by (rule pstep.decrement [of v]) (use v g' in \<open>simp add: destructor_decrement_def\<close>)
  moreover have "refines s' (T(t := None)) g'"
  proof (rule refines_var [OF refines_end [of _ T, OF r t], of v _ None])
    show "v \<notin> op_uses op" if "op \<in> ran (T(t := None))" for op using others_off(1) [of T, OF refinesD(8) [OF r] t that] by simp
  qed (use c g' refinesD(1-3) [OF r] in \<open>auto simp: destructor_release_def impl_Decrement_def Let_def split: option.splits\<close>)
  ultimately show ?thesis by blast
qed

lemma delete_refines:
  assumes r: "refines s T g" and a: "a \<in> set (dying s)" and c: "destructor_delete a s = Inr s'"
  shows "\<exists>g'. pstep g g' \<and> refines s' T g'"
proof -
  note D = refinesD [OF r]
  obtain g' where g': "destructor_delete a g = Inr g'"
    using c D(1) by (auto simp: destructor_delete_def split: option.splits)
  have "pstep g g'" using pstep.delete a g' D(2) by simp
  moreover have s': "vars s' = vars s" "vars g' = vars g" "impls s' = impls g'" "dying s' = dying g'" "released s' = released g'"
    using c g' D(1-3) by (auto simp: destructor_delete_def split: option.splits)
  have "refines s' T g'"
    using D(4-6,8) unfolding refines_def s' by (auto intro: op_ok_cong [of s g _ s' g'] simp: s'(1,2))
  ultimately show ?thesis by blast
qed

lemma one_pstep: "\<exists>g'. pstep g g' \<and> refines s T g' \<Longrightarrow> \<exists>g'. pstep\<^sup>*\<^sup>* g g' \<and> refines (fst (s, T)) (snd (s, T)) g'"
  by auto

lemma no_pstep: "refines s T g \<Longrightarrow> \<exists>g'. pstep\<^sup>*\<^sup>* g g' \<and> refines (fst (s, T)) (snd (s, T)) g'"
  by auto

lemma fine_step_refines: "fine_step x y \<Longrightarrow> refines (fst x) (snd x) g \<Longrightarrow> \<exists>g'. pstep\<^sup>*\<^sup>* g g' \<and> refines (fst y) (snd y) g'"
proof (induction rule: fine_step.induct)
  case (new s v a obj T)
  then show ?case by (intro one_pstep new_refines) auto
next
  case (copy_begin T t w s x v)
  have "refines s (T(t \<mapsto> Copying v w x)) g"
    by (rule refines_begin) (use copy_begin refinesD(5) [of s T g w] may_read_swapped [of T w] in
        \<open>auto simp: SharedPointer_copy_read_def may_read_def split: option.splits\<close>)
  then show ?case by (rule no_pstep)
next
  case (copy_end T t v w x s s')
  then show ?case using copy_end_refines [of s T g t v w x s'] by (intro one_pstep) simp
next
  case (from_this s v T w p self s')
  then show ?case using from_this_refines [of s T g v w p self s'] by (intro one_pstep) simp
next
  case (swap_begin T t v w s x)
  then show ?case using swap_begin_refines [of s T g t v w x] by (intro one_pstep) simp
next
  case (swap_next T t v w x k s s')
  then show ?case using swap_next_refines [of s T g t v w x k s'] by (intro no_pstep) simp
next
  case (destroy_begin T t v s p i)
  have "refines s (T(t \<mapsto> Destroying v i)) g"
    by (rule refines_begin) (use destroy_begin refinesD(5) [of s T g v] may_read_swapped [OF may_write_read, of T v] writes_uses in
        \<open>fastforce simp: may_write_def\<close>)+
  then show ?case by (rule no_pstep)
next
  case (decrement T t v i s s')
  then show ?case using decrement_refines [of s T g t v i s'] by (intro one_pstep) simp
next
  case (delete a s s' T)
  then show ?case using delete_refines [of s T g a s'] by (intro one_pstep) simp
qed

definition reachable_pointers :: "Pointers \<Rightarrow> threads \<Rightarrow> bool" where
  "reachable_pointers s T = fine_step\<^sup>*\<^sup>* (no_pointers, Map.empty) (s, T)"

lemma reachable_refines: "reachable_pointers s T \<Longrightarrow> \<exists>g. pointers_inv g \<and> refines s T g"
proof -
  have "\<exists>g. pstep\<^sup>*\<^sup>* no_pointers g \<and> refines (fst y) (snd y) g" if "fine_step\<^sup>*\<^sup>* (no_pointers, Map.empty) y" for y
    using that
  proof (induction rule: rtranclp_induct)
    case base
    then show ?case by (intro exI [of _ no_pointers]) (simp add: refines_def undisturbed_def)
  next
    case (step y z)
    then show ?case using fine_step_refines by (meson rtranclp_trans)
  qed
  moreover have "pointers_inv g" if "pstep\<^sup>*\<^sup>* no_pointers g" for g
    using that by (induction rule: rtranclp_induct) (auto intro: no_pointers_inv pstep_inv)
  ultimately show "reachable_pointers s T \<Longrightarrow> \<exists>g. pointers_inv g \<and> refines s T g"
    unfolding reachable_pointers_def by fastforce
qed

text \<open>A pointer of the sequence is one of the interleaving, or in the temporary of an exchange.\<close>

lemma held_somewhere:
  assumes r: "refines s T g" and "u \<in> holders g a"
  shows "holders s a \<noteq> {} \<or> (\<exists>v w p k. Swapping v w (p, Some a) k \<in> ran T)"
proof (cases "swapped T u")
  case False
  with assms(2) refinesD(5) [OF r False] show ?thesis by (auto simp: holders_def)
next
  case True
  then obtain v w x k where op: "Swapping v w x k \<in> ran T" "u \<in> {v, w}" by (auto simp: swapped_def)
  from refinesD(6) [OF r op(1)] obtain y where y: "vars g w = Some x" "vars g v = Some y"
    "vars s w = Some (if k < 3 then y else (fst x, snd y))" by auto
  from assms(2) op(2) y(1,2) have "snd y = Some a \<or> x = (fst x, Some a)" by (auto simp: holders_def)
  then show ?thesis
  proof
    assume "snd y = Some a"
    with y(3) have "w \<in> holders s a" by (cases y) (auto simp: holders_def)
    then show ?thesis by blast
  next
    assume "x = (fst x, Some a)"
    with op(1) show ?thesis by metis
  qed
qed

text \<open>(C18) However the threads of a program without data races create, copy, exchange and destroy pointers, their loads, stores,
  increments and decrements interleaved in any order: a copy that has read its source and a destructor that has read its
  counter do not use a counter that was freed, nor does the deletion; an object that a pointer holds has not been given to
  its deleter, no object is given to it twice, and an object that is not deleted yet still has a pointer, the temporary
  of an exchange, or a destructor that is about to delete it.\<close>

theorem shared_pointers_safe:
  assumes "reachable_pointers s T"
  shows "(T t = Some (Copying u v x) \<longrightarrow> SharedPointer_copy_increment u x s \<noteq> Inl UseAfterFree)
     \<and> (T t = Some (Destroying v i) \<longrightarrow> destructor_release v i s \<noteq> Inl UseAfterFree)
     \<and> (a \<in> set (dying s) \<longrightarrow> (\<exists>s'. destructor_delete a s = Inr s'))
     \<and> (may_read T v \<longrightarrow> SharedPointer_Get v s = Inr (Some p) \<longrightarrow> p \<notin> set (released s) \<and> SharedPointer_IsValid v s = Inr True)
     \<and> distinct (released s)
     \<and> (impls s a \<noteq> None \<longrightarrow> holders s a \<noteq> {} \<or> a \<in> set (dying s) \<or> (\<exists>v w p k. Swapping v w (p, Some a) k \<in> ran T))"
proof -
  obtain g where inv: "pointers_inv g" and r: "refines s T g" using reachable_refines [OF assms] by blast
  note D = pointers_invD [OF inv] and R = refinesD [OF r]
  have live: "\<exists>k. impls s b = Some k" if "vars g w = Some (q, Some b)" for w q b using D(5) [OF that] R(1) by auto
  have "SharedPointer_copy_increment u x s \<noteq> Inl UseAfterFree" if "T t = Some (Copying u v x)"
    using R(7) [of t, OF that] live [of v "fst x"]
    by (cases x) (auto simp: SharedPointer_copy_increment_def impl_Increment_def split: option.splits)
  moreover have "destructor_release v i s \<noteq> Inl UseAfterFree" if "T t = Some (Destroying v i)"
    using R(7) [of t, OF that] live [of v] by (auto simp: destructor_release_def impl_Decrement_def Let_def split: option.splits)
  moreover have "\<exists>s'. destructor_delete a s = Inr s'" if "a \<in> set (dying s)"
    using that D(7) R(1,2) by (auto simp: destructor_delete_def)
  moreover have "p \<notin> set (released s) \<and> SharedPointer_IsValid v s = Inr True"
    if "may_read T v" "SharedPointer_Get v s = Inr (Some p)"
  proof -
    from that(2) obtain j where v: "vars s v = Some (Some p, j)" by (auto simp: SharedPointer_Get_def split: option.splits)
    with R(5) [OF may_read_swapped [OF that(1)]] have vg: "vars g v = Some (Some p, j)" by simp
    with D(6) [of v "Some p"] obtain b where b: "j = Some b" by (cases j) auto
    with D(5) [of v "Some p" b] vg obtain k where "impls g b = Some k" "p = im_ptr k" by auto
    with D(10) v b R(3) show ?thesis by (simp add: SharedPointer_IsValid_def)
  qed
  moreover have "holders s a \<noteq> {} \<or> a \<in> set (dying s) \<or> (\<exists>v w p k. Swapping v w (p, Some a) k \<in> ran T)" if "impls s a \<noteq> None"
    using that R(1,2) D(4) held_somewhere [OF r] by (metis ex_in_conv not_None_eq)
  ultimately show ?thesis using D(9) R(3) by auto
qed

text \<open>Without that discipline a counter is used after it was freed: a copy has read its source, another thread destroys the
  source, then the copy increments.\<close>

lemma racing_copy:
  "let s = SharedPointer_new 5 1 (Some 9) no_pointers
   in SharedPointer_copy_read 1 s = Inr (Some 9, Some 5)
     \<and> (case SharedPointer_destroy 1 s of Inl e \<Rightarrow> False | Inr s' \<Rightarrow> SharedPointer_copy_increment 2 (Some 9, Some 5) s' = Inl UseAfterFree)"
  by (simp add: SharedPointer_new_def no_pointers_def SharedPointer_copy_read_def SharedPointer_destroy_def decrement_defs
      impl_Decrement_def destructor_delete_def to_signed_id SharedPointer_copy_increment_def impl_Increment_def)

text \<open>The last destructor deletes the object, an earlier one does not.\<close>

lemma destroy_last:
  assumes "pointers_inv s" and "vars s v = Some (Some p, Some a)" and "impls s a = Some i"
  shows "\<exists>t. SharedPointer_destroy v s = Inr t \<and> (p \<in> set (released t) \<longleftrightarrow> holders s a = {v})"
proof -
  note D = pointers_invD [OF assms(1)]
  have p: "p = im_ptr i" "p \<notin> set (released s)" using D(5) [OF assms(2)] D(10) [OF assms(3)] assms(3) by auto
  have va: "v \<in> holders s a" using assms(2) by (auto simp: holders_def)
  have fin: "finite (holders s a)" by (rule holders_card(1) [OF assms(1)])
  have pos: "card (holders s a) \<ge> 1" using va fin by (metis One_nat_def Suc_leI card_gt_0_iff empty_iff)
  have "to_signed 32 (im_refCnt i - 1) = int (card (holders s a)) - 1"
    using holders_card(2) [OF assms(1), of a] D(2) D(3) [OF assms(3)] pos by (simp add: to_signed_id)
  moreover have "int (card (holders s a)) - 1 = 0 \<longleftrightarrow> holders s a = {v}"
    using va by (auto simp: card_1_singleton_iff)
  ultimately show ?thesis
    using assms(2,3) p
    by (simp add: SharedPointer_destroy_def decrement_defs impl_Decrement_def destructor_delete_def Let_def split: list.split)
qed

text \<open>The witness: a second pointer is in the middle of being copied from the first.\<close>

theorem shared_pointers_safe_witness:
  "\<exists>s T. reachable_pointers s T \<and> T 7 = Some (Copying 2 1 (Some 9, Some 5)) \<and> SharedPointer_copy_increment 2 (Some 9, Some 5) s \<noteq> Inl UseAfterFree
     \<and> holders s 5 = {1} \<and> distinct (released s) \<and> SharedPointer_Get 1 s = Inr (Some 9) \<and> 9 \<notin> set (released s)"
proof -
  define s0 where "s0 = SharedPointer_new 5 1 (Some 9) no_pointers"
  note defs = s0_def no_pointers_def SharedPointer_new_def
  define T where "T = [7 :: nat \<mapsto> Copying 2 1 (Some 9, Some 5)]"
  have p0: "fine_step (no_pointers, Map.empty) (s0, Map.empty)"
    unfolding s0_def by (rule fine_step.new) (simp_all add: room_def no_pointers_def)
  have p1: "fine_step (s0, Map.empty) (s0, T)"
    unfolding T_def by (rule fine_step.copy_begin) (simp_all add: may_read_def defs SharedPointer_copy_read_def)
  have r: "reachable_pointers s0 T"
    unfolding reachable_pointers_def by (rule converse_rtranclp_into_rtranclp [of fine_step, OF p0 r_into_rtranclp [of fine_step, OF p1]])
  have "T 7 = Some (Copying 2 1 (Some 9, Some 5))" "may_read T 1" by (simp_all add: T_def may_read_def)
  moreover have "holders s0 5 = {1}" "SharedPointer_Get 1 s0 = Inr (Some 9)"
    by (auto simp: defs holders_def SharedPointer_Get_def split: if_splits)
  ultimately show ?thesis using r shared_pointers_safe [OF r, of 7 2 1 "(Some 9, Some 5)" None 5 9] by blast
qed

text \<open>A pointer from \<open>SharedFromThis\<close> counts as valid, but has no object: \<open>Get\<close> answers null.\<close>

lemma SharedFromThis_null:
  assumes "SharedFromThis self v s = Inr t"
  shows "SharedPointer_IsValid v t = Inr True" and "SharedPointer_Get v t = Inr None"
  using assms by (auto simp: SharedFromThis_def SharedPointer_IsValid_def SharedPointer_Get_def split: sum.splits)

end
