(* ===== verification/Odbc_HandleRegistry.thy ===== *)
theory Odbc_HandleRegistry
  imports Odbc_Prelude
begin

text \<open>
  The registry of handles (\<^verbatim>\<open>src/impl/handle_registry.cpp\<close>): an array for the first handles of critical objects, and segments
  with a map and a lock each for all others. The functions of the source are modelled as one thread runs them. For several
  threads, the paths that go through the segments are modelled a second time, in steps: the atomic operations on the
  counter and on the flag of the closed registry, the sections under the lock of a segment, and the plain loads of that
  flag, which may give an old value (\<open>Memory::Fence\<close> is a barrier for the compiler only) unless a lock has made the new
  value known to the thread. The array has no lock and is written with plain stores; threads that use it at the same time
  race, and no theorem is about them. A target is the address of an object, \<open>None\<close> for a null pointer.
\<close>

section \<open>The registry\<close>

type_synonym target = "nat option"

record HandleRegistry =
  fastCap :: nat
  fastCtr :: int
  fast :: "target list"
  slowSegmentCnt :: nat
  slowCtr :: int
  slow :: "(int \<rightharpoonup> target) list"
  closed :: bool

definition newHandleRegistry :: "nat \<Rightarrow> nat \<Rightarrow> HandleRegistry" where
  "newHandleRegistry cap segments = \<lparr>fastCap = cap, fastCtr = 0, fast = replicate cap None, slowSegmentCnt = segments,
     slowCtr = int cap, slow = replicate segments Map.empty, closed = False\<rparr>"

text \<open>\<open>HandleRegistrySegment\<close>.\<close>

definition segment_Get :: "int \<Rightarrow> (int \<rightharpoonup> target) \<Rightarrow> target" where
  "segment_Get hnd m = (case m hnd of None \<Rightarrow> None | Some t \<Rightarrow> t)"

definition segment_Put :: "int \<Rightarrow> target \<Rightarrow> (int \<rightharpoonup> target) \<Rightarrow> (int \<rightharpoonup> target)" where
  "segment_Put hnd t m = m(hnd \<mapsto> t)"

definition segment_Remove :: "int \<Rightarrow> (int \<rightharpoonup> target) \<Rightarrow> (int \<rightharpoonup> target)" where
  "segment_Remove hnd m = m(hnd := None)"

definition segment_Clear :: "(int \<rightharpoonup> target) \<Rightarrow> (int \<rightharpoonup> target)" where
  "segment_Clear m = Map.empty"

definition segment_of :: "HandleRegistry \<Rightarrow> int \<Rightarrow> nat" where
  "segment_of r hnd = nat (hnd mod int (slowSegmentCnt r))"

definition put_fast :: "int \<Rightarrow> target \<Rightarrow> HandleRegistry \<Rightarrow> HandleRegistry" where
  "put_fast i t r = r\<lparr>fast := (fast r)[nat i := t]\<rparr>"

definition in_segment :: "int \<Rightarrow> ((int \<rightharpoonup> target) \<Rightarrow> (int \<rightharpoonup> target)) \<Rightarrow> HandleRegistry \<Rightarrow> HandleRegistry" where
  "in_segment hnd f r = r\<lparr>slow := (slow r)[segment_of r hnd := f (slow r ! segment_of r hnd)]\<rparr>"

section \<open>The operations\<close>

text \<open>The end of \<open>Allocate0(target, critical, safe)\<close>, an allocation in a segment, and the whole of it. \<open>None\<close> is an access
  outside the array of segments, with a counter that has wrapped around.\<close>

definition slow_allocate :: "target \<Rightarrow> bool \<Rightarrow> HandleRegistry \<Rightarrow> (int \<times> HandleRegistry) option" where
  "slow_allocate t safe r =
     (let slowIdx = slowCtr r; r1 = r\<lparr>slowCtr := to_signed 64 (slowCtr r + 1)\<rparr>
      in if slowIdx < 0 then None
         else let r2 = in_segment slowIdx (segment_Put slowIdx t) r1
              in if safe \<and> closed r2 then Some (-1, in_segment slowIdx (segment_Remove slowIdx) r2)
                 else Some (slowIdx, r2))"

definition registry_Allocate0 :: "target \<Rightarrow> bool \<Rightarrow> bool \<Rightarrow> HandleRegistry \<Rightarrow> (int \<times> HandleRegistry) option" where
  "registry_Allocate0 t critical safe r =
     (if closed r then Some (-1, r)
      else if critical \<and> fastCtr r < int (fastCap r) then
        (let fastIdx = fastCtr r; r1 = r\<lparr>fastCtr := to_signed 32 (fastCtr r + 1)\<rparr>
         in if fastIdx < int (fastCap r) then
              (let r2 = put_fast fastIdx t r1
               in if safe \<and> closed r2 then Some (-1, put_fast fastIdx None r2) else Some (fastIdx, r2))
            else slow_allocate t safe r1)
      else slow_allocate t safe r)"

definition registry_Allocate :: "target \<Rightarrow> HandleRegistry \<Rightarrow> (int \<times> HandleRegistry) option" where
  "registry_Allocate t = registry_Allocate0 t False False"

definition registry_AllocateCritical :: "target \<Rightarrow> HandleRegistry \<Rightarrow> (int \<times> HandleRegistry) option" where
  "registry_AllocateCritical t = registry_Allocate0 t True False"

definition registry_AllocateSafe :: "target \<Rightarrow> HandleRegistry \<Rightarrow> (int \<times> HandleRegistry) option" where
  "registry_AllocateSafe t = registry_Allocate0 t False True"

definition registry_AllocateCriticalSafe :: "target \<Rightarrow> HandleRegistry \<Rightarrow> (int \<times> HandleRegistry) option" where
  "registry_AllocateCriticalSafe t = registry_Allocate0 t True True"

definition registry_Release :: "int \<Rightarrow> HandleRegistry \<Rightarrow> HandleRegistry" where
  "registry_Release hnd r =
     (if hnd < 0 then r
      else if hnd < int (fastCap r) then put_fast hnd None r
      else in_segment hnd (segment_Remove hnd) r)"

text \<open>\<open>Get\<close> does not test for a negative handle: \<open>None\<close> is an access before the array.\<close>

definition registry_Get :: "int \<Rightarrow> HandleRegistry \<Rightarrow> target option" where
  "registry_Get hnd r =
     (if hnd < int (fastCap r) then if hnd < 0 then None else Some (fast r ! nat hnd)
      else Some (segment_Get hnd (slow r ! segment_of r hnd)))"

definition registry_Close :: "HandleRegistry \<Rightarrow> HandleRegistry" where
  "registry_Close r =
     (if closed r then r
      else r\<lparr>closed := True, fast := map (\<lambda>x. None) (fast r), slow := map (\<lambda>m. segment_Clear m) (slow r)\<rparr>)"

section \<open>A registry by itself is a map\<close>

definition registry_inv :: "HandleRegistry \<Rightarrow> bool" where
  "registry_inv r \<longleftrightarrow> length (fast r) = fastCap r \<and> length (slow r) = slowSegmentCnt r \<and> 0 < slowSegmentCnt r
     \<and> 0 \<le> fastCtr r \<and> int (fastCap r) \<le> slowCtr r \<and> int (fastCap r) < 2 ^ 31"

text \<open>The handles that have not been given out yet hold nothing.\<close>

definition unused_empty :: "HandleRegistry \<Rightarrow> bool" where
  "unused_empty r \<longleftrightarrow> (\<forall>i. fastCtr r \<le> int i \<longrightarrow> i < fastCap r \<longrightarrow> fast r ! i = None)
     \<and> (\<forall>h. slowCtr r \<le> h \<longrightarrow> (slow r ! segment_of r h) h = None)"

definition entries :: "HandleRegistry \<Rightarrow> int \<rightharpoonup> nat" where
  "entries r = (\<lambda>h. case registry_Get h r of Some (Some x) \<Rightarrow> Some x | _ \<Rightarrow> None)"

lemma segment_of_less: "registry_inv r \<Longrightarrow> segment_of r h < length (slow r)"
  by (simp add: registry_inv_def segment_of_def nat_less_iff)

lemma in_segment_fields [simp]:
  "fastCap (in_segment h f r) = fastCap r" "slowSegmentCnt (in_segment h f r) = slowSegmentCnt r" "closed (in_segment h f r) = closed r"
  "fast (in_segment h f r) = fast r" "fastCtr (in_segment h f r) = fastCtr r" "slowCtr (in_segment h f r) = slowCtr r"
  "length (slow (in_segment h f r)) = length (slow r)"
  by (simp_all add: in_segment_def)

section \<open>Threads on the segments\<close>

text \<open>What a thread does next. The flag that goes with it, its view, says whether the registry's closing is known to it. A
  section under the lock of a segment takes over what the last owner of the lock knew and hands on what it knows.\<close>

datatype pc =
    AllocStart bool target
  | SlowTake bool target
  | SlowPut bool target int
  | SlowCheck bool int
  | SlowDrop int
  | ReleaseStart int
  | CloseStart
  | CloseFast nat
  | CloseSlow nat
  | Returned int

type_synonym thread = "pc \<times> bool"
type_synonym shared = "HandleRegistry \<times> (nat \<Rightarrow> bool)"

text \<open>A load of \<open>closed\<close>, which may be \<open>stale\<close> when the closing is not known to the thread.\<close>

definition load_closed :: "bool \<Rightarrow> bool \<Rightarrow> HandleRegistry \<Rightarrow> bool" where
  "load_closed stale seen r \<longleftrightarrow> closed r \<and> (seen \<or> \<not> stale)"

definition under_lock :: "nat \<Rightarrow> pc \<Rightarrow> HandleRegistry \<Rightarrow> bool \<Rightarrow> (nat \<Rightarrow> bool) \<Rightarrow> thread \<times> shared" where
  "under_lock k p r seen known = ((p, seen \<or> known k), (r, known(k := seen \<or> known k)))"

text \<open>\<open>Allocate0(target, false, safe)\<close>, \<open>Release\<close> of the handle of a segment, and \<open>Close\<close>. A thread that has returned does not
  move.\<close>

fun thread_step :: "bool \<Rightarrow> thread \<Rightarrow> shared \<Rightarrow> thread \<times> shared" where
  "thread_step stale (AllocStart safe t, seen) (r, known) =
     (if load_closed stale seen r then ((Returned (-1), True), (r, known)) else ((SlowTake safe t, seen), (r, known)))"
| "thread_step stale (SlowTake safe t, seen) (r, known) =
     ((SlowPut safe t (slowCtr r), seen), (r\<lparr>slowCtr := to_signed 64 (slowCtr r + 1)\<rparr>, known))"
| "thread_step stale (SlowPut safe t i, seen) (r, known) =
     under_lock (segment_of r i) (SlowCheck safe i) (in_segment i (segment_Put i t) r) seen known"
| "thread_step stale (SlowCheck safe i, seen) (r, known) =
     (if safe \<and> load_closed stale seen r then ((SlowDrop i, True), (r, known)) else ((Returned i, seen), (r, known)))"
| "thread_step stale (SlowDrop i, seen) (r, known) =
     under_lock (segment_of r i) (Returned (-1)) (in_segment i (segment_Remove i) r) seen known"
| "thread_step stale (ReleaseStart i, seen) (r, known) =
     under_lock (segment_of r i) (Returned 0) (in_segment i (segment_Remove i) r) seen known"
| "thread_step stale (CloseStart, seen) (r, known) =
     (if closed r then ((Returned 0, True), (r, known)) else ((CloseFast 0, True), (r\<lparr>closed := True\<rparr>, known)))"
| "thread_step stale (CloseFast i, seen) (r, known) =
     (if i < fastCap r then ((CloseFast (Suc i), seen), (put_fast (int i) None r, known)) else ((CloseSlow 0, seen), (r, known)))"
| "thread_step stale (CloseSlow i, seen) (r, known) =
     (if i < slowSegmentCnt r then under_lock i (CloseSlow (Suc i)) (r\<lparr>slow := (slow r)[i := segment_Clear (slow r ! i)]\<rparr>) seen known
      else ((Returned 0, seen), (r, known)))"
| "thread_step stale (Returned x, seen) (r, known) = ((Returned x, seen), (r, known))"

text \<open>Any number of threads, each in the middle of a call. New calls may start at any time, of safe allocations only or of all;
  the counter has room.\<close>

type_synonym threads = "nat \<rightharpoonup> thread"

fun starts :: "bool \<Rightarrow> HandleRegistry \<Rightarrow> pc \<Rightarrow> bool" where
  "starts only_safe r (AllocStart safe t) \<longleftrightarrow> only_safe \<longrightarrow> safe"
| "starts only_safe r (ReleaseStart hnd) \<longleftrightarrow> int (fastCap r) \<le> hnd"
| "starts only_safe r CloseStart \<longleftrightarrow> True"
| "starts only_safe r p \<longleftrightarrow> False"

inductive registry_step :: "bool \<Rightarrow> threads \<times> shared \<Rightarrow> threads \<times> shared \<Rightarrow> bool" for only_safe where
  call: "T t = None \<Longrightarrow> starts only_safe r p \<Longrightarrow> (seen \<longrightarrow> closed r) \<Longrightarrow>
     registry_step only_safe (T, (r, known)) (T(t \<mapsto> (p, seen)), (r, known))"
| move: "T t = Some p \<Longrightarrow> slowCtr r < 2 ^ 63 - 1 \<Longrightarrow> thread_step stale p (r, known) = (p', x') \<Longrightarrow>
     registry_step only_safe (T, (r, known)) (T(t \<mapsto> p'), x')"

text \<open>A thread that will drop the entry of a handle: a safe allocation that cannot miss the closing when it looks again, or
  one that has seen it.\<close>

fun rechecks :: "int \<Rightarrow> thread \<Rightarrow> bool" where
  "rechecks h (SlowCheck safe j, seen) \<longleftrightarrow> safe \<and> seen \<and> j = h"
| "rechecks h (SlowDrop j, seen) \<longleftrightarrow> j = h"
| "rechecks h p \<longleftrightarrow> False"

text \<open>A closing call that has not come to the array element or the segment yet.\<close>

fun will_clear_fast :: "nat \<Rightarrow> thread \<Rightarrow> bool" where
  "will_clear_fast i (CloseFast j, seen) \<longleftrightarrow> j \<le> i"
| "will_clear_fast i p \<longleftrightarrow> False"

fun will_clear :: "nat \<Rightarrow> thread \<Rightarrow> bool" where
  "will_clear k (CloseFast j, seen) \<longleftrightarrow> True"
| "will_clear k (CloseSlow j, seen) \<longleftrightarrow> j \<le> k"
| "will_clear k p \<longleftrightarrow> False"

fun thread_ok :: "HandleRegistry \<Rightarrow> thread \<Rightarrow> bool" where
  "thread_ok r (AllocStart safe t, seen) \<longleftrightarrow> safe \<and> (seen \<longrightarrow> closed r)"
| "thread_ok r (SlowTake safe t, seen) \<longleftrightarrow> safe \<and> (seen \<longrightarrow> closed r)"
| "thread_ok r (SlowPut safe t i, seen) \<longleftrightarrow> safe \<and> (seen \<longrightarrow> closed r)"
| "thread_ok r (SlowCheck safe i, seen) \<longleftrightarrow> safe \<and> (seen \<longrightarrow> closed r)"
| "thread_ok r (CloseFast i, seen) \<longleftrightarrow> seen \<and> closed r"
| "thread_ok r (CloseSlow i, seen) \<longleftrightarrow> seen \<and> closed r"
| "thread_ok r (p, seen) \<longleftrightarrow> seen \<longrightarrow> closed r"

text \<open>Entries are in the segments of their handles. In a closed registry, every segment is still to be cleared or the closing
  is known to whoever locks it, and every entry is still to be dropped by somebody.\<close>

definition placed :: "HandleRegistry \<Rightarrow> bool" where
  "placed r \<longleftrightarrow> (\<forall>k < slowSegmentCnt r. \<forall>h. (slow r ! k) h \<noteq> None \<longrightarrow> k = segment_of r h)"

definition announced :: "thread set \<Rightarrow> shared \<Rightarrow> bool" where
  "announced S = (\<lambda>(r, known). (\<forall>k. known k \<longrightarrow> closed r)
     \<and> (closed r \<longrightarrow> (\<forall>k < slowSegmentCnt r. known k \<or> (\<exists>p \<in> S. will_clear k p))))"

definition dropped :: "thread set \<Rightarrow> HandleRegistry \<Rightarrow> bool" where
  "dropped S r \<longleftrightarrow> (closed r \<longrightarrow> (\<forall>k < slowSegmentCnt r. \<forall>h. (slow r ! k) h \<noteq> None \<longrightarrow> (\<exists>p \<in> S. will_clear k p \<or> rechecks h p)))"

definition fast_dropped :: "thread set \<Rightarrow> HandleRegistry \<Rightarrow> bool" where
  "fast_dropped S r \<longleftrightarrow> (closed r \<longrightarrow> (\<forall>i < fastCap r. fast r ! i \<noteq> None \<longrightarrow> (\<exists>p \<in> S. will_clear_fast i p)))"

definition threads_inv :: "threads \<times> shared \<Rightarrow> bool" where
  "threads_inv = (\<lambda>(T, (r, known)). registry_inv r \<and> placed r \<and> (\<forall>p \<in> ran T. thread_ok r p)
     \<and> announced (ran T) (r, known) \<and> dropped (ran T) r \<and> fast_dropped (ran T) r)"

lemma ran_upd: "ran (T(t \<mapsto> p)) = insert p (ran (T(t := None)))"
  by (auto simp: ran_def)

lemma ran_old: "T t = Some p \<Longrightarrow> ran T = insert p (ran (T(t := None)))"
  by (metis fun_upd_triv ran_upd fun_upd_upd)

lemma step_registry:
  assumes "registry_inv r" and "placed r" and "thread_step stale p (r, known) = (p', (r', known'))" and "slowCtr r < 2 ^ 63 - 1"
  shows "registry_inv r'" and "placed r'" and "fastCap r' = fastCap r" and "slowSegmentCnt r' = slowSegmentCnt r" and "closed r \<Longrightarrow> closed r'"
proof -
  obtain c seen where p: "p = (c, seen)" by fastforce
  show "registry_inv r'" "fastCap r' = fastCap r" "slowSegmentCnt r' = slowSegmentCnt r" "closed r \<Longrightarrow> closed r'"
    using assms unfolding p
    by (cases c; auto simp: registry_inv_def put_fast_def to_signed_id under_lock_def split: if_splits)+
  have len: "length (slow r) = slowSegmentCnt r" "segment_of r h < slowSegmentCnt r" for h
    using assms(1) segment_of_less [OF assms(1)] by (simp_all add: registry_inv_def)
  show "placed r'"
    using assms(2,3) len unfolding p
    by (cases c) (auto simp: placed_def put_fast_def under_lock_def in_segment_def segment_of_def segment_Put_def segment_Remove_def
        segment_Clear_def nth_list_update split: if_splits)
qed

lemma step_thread_ok:
  assumes "thread_ok r p" and "announced S (r, known)" and "thread_step stale p (r, known) = (p', (r', known'))"
  shows "thread_ok r' p'"
proof -
  obtain c seen where p: "p = (c, seen)" by fastforce
  show ?thesis
    using assms unfolding p by (cases c) (auto simp: announced_def load_closed_def put_fast_def under_lock_def split: if_splits)
qed

lemma other_thread_ok: "thread_ok r q \<Longrightarrow> (closed r \<Longrightarrow> closed r') \<Longrightarrow> thread_ok r' q"
  by (cases "(r, q)" rule: thread_ok.cases) auto

lemma step_announced:
  assumes "announced (insert p S) (r, known)" and "thread_ok r p" and "thread_step stale p (r, known) = (p', (r', known'))"
  shows "announced (insert p' S) (r', known')"
proof -
  obtain c seen where p: "p = (c, seen)" by fastforce
  show ?thesis
    using assms unfolding p
    by (cases c) (auto simp: announced_def put_fast_def under_lock_def le_Suc_eq split: if_splits)
qed

lemma step_fast_dropped:
  assumes "fast_dropped (insert p S) r" and "registry_inv r" and "thread_step stale p (r, known) = (p', (r', known'))"
  shows "fast_dropped (insert p' S) r'"
proof -
  have len: "length (fast r) = fastCap r" using assms(2) by (simp add: registry_inv_def)
  obtain c seen where p: "p = (c, seen)" by fastforce
  show ?thesis
    using assms(1,3) len unfolding p
    by (cases c) (auto simp: fast_dropped_def put_fast_def under_lock_def nth_list_update split: if_splits)
qed

text \<open>A step that leaves the segments alone and does not give up its duty, and one that changes an entry in the segment of its
  handle.\<close>

lemma dropped_same:
  assumes "dropped (insert p S) r" and "slow r' = slow r" and "slowSegmentCnt r' = slowSegmentCnt r"
    and "\<And>k h. closed r' \<Longrightarrow> k < slowSegmentCnt r \<Longrightarrow> \<not> closed r \<or> will_clear k p \<or> rechecks h p \<Longrightarrow> will_clear k p' \<or> rechecks h p'"
  shows "dropped (insert p' S) r'"
  using assms unfolding dropped_def by (metis insert_iff)

lemma dropped_entry:
  assumes "dropped (insert p S) r" and "registry_inv r" and "r' = in_segment g f r" and "placed r'"
    and "\<And>m h. h \<noteq> g \<Longrightarrow> f m h = m h" and "\<And>k h. h \<noteq> g \<Longrightarrow> \<not> will_clear k p \<and> \<not> rechecks h p"
    and "closed r \<Longrightarrow> f (slow r ! segment_of r g) g = None \<or> (\<exists>q \<in> insert p' S. will_clear (segment_of r g) q \<or> rechecks g q)"
  shows "dropped (insert p' S) r'"
  unfolding dropped_def
proof (intro allI impI)
  fix k h assume c: "closed r'" and k: "k < slowSegmentCnt r'" and e: "(slow r' ! k) h \<noteq> None"
  have cr: "closed r" "k < slowSegmentCnt r" using c k by (simp_all add: assms(3))
  have seg: "k = segment_of r h" using assms(4) k e by (simp add: placed_def assms(3) segment_of_def)
  have len: "segment_of r g < length (slow r)" by (rule segment_of_less [OF assms(2)])
  show "\<exists>q \<in> insert p' S. will_clear k q \<or> rechecks h q"
  proof (cases "h = g")
    case True
    with e seg len have "f (slow r ! segment_of r g) g \<noteq> None" by (simp add: assms(3) in_segment_def)
    with assms(7) [OF cr(1)] True seg show ?thesis by blast
  next
    case False
    with e assms(5) len have "(slow r ! k) h \<noteq> None" by (auto simp: assms(3) in_segment_def nth_list_update split: if_splits)
    with assms(1) cr obtain q where "q \<in> insert p S" "will_clear k q \<or> rechecks h q" unfolding dropped_def by blast
    with assms(6) [OF False, of k] show ?thesis by blast
  qed
qed

lemma dropped_cleared:
  assumes "dropped (insert (CloseSlow j, seen) S) r" and "registry_inv r" and "j < slowSegmentCnt r"
  shows "dropped (insert (CloseSlow (Suc j), seen') S) (r\<lparr>slow := (slow r)[j := segment_Clear (slow r ! j)]\<rparr>)"
  unfolding dropped_def
proof (intro allI impI)
  let ?r = "r\<lparr>slow := (slow r)[j := segment_Clear (slow r ! j)]\<rparr>"
  fix k h assume c: "closed ?r" and k: "k < slowSegmentCnt ?r" and e: "(slow ?r ! k) h \<noteq> None"
  have "length (slow r) = slowSegmentCnt r" using assms(2) by (simp add: registry_inv_def)
  with e k have old: "k \<noteq> j" "(slow r ! k) h \<noteq> None" by (cases "k = j"; simp add: segment_Clear_def nth_list_update)+
  have "closed r" "k < slowSegmentCnt r" using c k by simp_all
  with assms(1) old(2) obtain q where "q \<in> insert (CloseSlow j, seen) S" "will_clear k q \<or> rechecks h q" unfolding dropped_def by blast
  then show "\<exists>q \<in> insert (CloseSlow (Suc j), seen') S. will_clear k q \<or> rechecks h q" using old(1) by fastforce
qed

lemma step_dropped:
  assumes "dropped (insert p S) r" and "announced (insert p S) (r, known)" and "registry_inv r" and "placed r'" and "thread_ok r p"
    and "thread_step stale p (r, known) = (p', (r', known'))"
  shows "dropped (insert p' S) r'"
proof -
  have len: "length (slow r) = slowSegmentCnt r" "segment_of r h < slowSegmentCnt r" for h
    using assms(3) segment_of_less [OF assms(3)] by (simp_all add: registry_inv_def)
  obtain c seen where p: "p = (c, seen)" by fastforce
  show ?thesis
  proof (cases c)
    case (SlowPut safe t i)
    have "known (segment_of r i) \<or> (\<exists>q \<in> insert p S. will_clear (segment_of r i) q)" if "closed r"
      using assms(2) that len(2) by (simp add: announced_def)
    then have "\<exists>q \<in> insert p' S. will_clear (segment_of r i) q \<or> rechecks i q" if "closed r"
      using that assms(5,6) by (auto simp: p SlowPut under_lock_def)
    with assms(6) show ?thesis
      by (intro dropped_entry [OF assms(1,3) _ assms(4), of i "segment_Put i t"]) (auto simp: p SlowPut under_lock_def segment_Put_def)
  next
    case (SlowDrop i)
    with assms(6) show ?thesis
      by (intro dropped_entry [OF assms(1,3) _ assms(4), of i "segment_Remove i"]) (auto simp: p under_lock_def segment_Remove_def)
  next
    case (ReleaseStart i)
    with assms(6) show ?thesis
      by (intro dropped_entry [OF assms(1,3) _ assms(4), of i "segment_Remove i"]) (auto simp: p under_lock_def segment_Remove_def)
  next
    case (CloseSlow j)
    show ?thesis
    proof (cases "j < slowSegmentCnt r")
      case True
      with assms(6) dropped_cleared [of j seen S r, OF _ assms(3) True] assms(1) show ?thesis
        by (auto simp: p CloseSlow under_lock_def)
    next
      case False
      with assms(6) show ?thesis by (intro dropped_same [OF assms(1)]) (auto simp: p CloseSlow)
    qed
  qed (use assms(5,6) in \<open>auto intro!: dropped_same [OF assms(1)] simp: p put_fast_def load_closed_def split: if_splits\<close>)
qed

lemma registry_step_inv: "registry_step True x y \<Longrightarrow> threads_inv x \<Longrightarrow> threads_inv y"
proof (induction rule: registry_step.induct)
  case (call T t r p seen known)
  have "thread_ok r (p, seen)" using call.hyps(2,3) by (cases p) auto
  moreover have "ran (T(t \<mapsto> (p, seen))) = insert (p, seen) (ran T)" using call.hyps(1) by (rule ran_map_upd)
  ultimately show ?case
    using call.prems unfolding threads_inv_def announced_def dropped_def fast_dropped_def by auto
next
  case (move T t p r stale known p' x')
  obtain r' known' where x': "x' = (r', known')" by fastforce
  from move have inv: "registry_inv r" "placed r" "thread_ok r p" "\<forall>q \<in> ran (T(t := None)). thread_ok r q"
      "announced (insert p (ran (T(t := None)))) (r, known)" "dropped (insert p (ran (T(t := None)))) r"
      "fast_dropped (insert p (ran (T(t := None)))) r"
    by (simp_all add: threads_inv_def ran_old [of T t p, OF move.hyps(1)])
  note step = move.hyps(3) [unfolded x']
  note reg = step_registry [OF inv(1,2) step move.hyps(2)]
  show ?case
    using reg(1,2) step_thread_ok [OF inv(3,5) step] inv(4) other_thread_ok [of r _ r'] reg(5) step_announced [OF inv(5,3) step]
      step_dropped [OF inv(6,5,1) reg(2) inv(3) step] step_fast_dropped [OF inv(7,1) step]
    by (auto simp: threads_inv_def ran_upd x')
qed

definition at_rest :: "threads \<Rightarrow> bool" where
  "at_rest T \<longleftrightarrow> (\<forall>p \<in> ran T. \<exists>x seen. p = (Returned x, seen))"

text \<open>(C19) The segments: from an open registry, allocations in the segments that look twice for the end of the registry run
  in any number of threads together with releases of such handles and any calls of \<open>Close\<close>, in any order of their steps; what
  a thread loads from the flag of the closed registry may be old unless the lock of a segment has made the closing known to
  it. After all calls have returned, a closed registry holds nothing: no target is left behind.\<close>

theorem closed_registry_empty:
  assumes "(registry_step True)\<^sup>*\<^sup>* (Map.empty, (r0, \<lambda>k. False)) (T, (r, known))" and "registry_inv r0" and "placed r0" and "\<not> closed r0"
    and "at_rest T" and "closed r"
  shows "entries r = Map.empty"
proof -
  have start: "threads_inv (Map.empty, (r0, \<lambda>k. False))"
    using assms(2-4) by (simp add: threads_inv_def announced_def fast_dropped_def dropped_def)
  have "threads_inv (T, (r, known))"
    using assms(1) by (induction rule: rtranclp_induct) (auto intro: start registry_step_inv)
  then have inv: "registry_inv r" "fast_dropped (ran T) r" "dropped (ran T) r" by (simp_all add: threads_inv_def)
  have none: "\<not> will_clear_fast i p" "\<not> will_clear k p \<and> \<not> rechecks h p" if "p \<in> ran T" for i k h p
    using assms(5) that by (auto simp: at_rest_def)
  show ?thesis
  proof
    fix h
    show "entries r h = Map.empty h"
    proof (cases "h < int (fastCap r)")
      case True
      then have "fast r ! nat h = None" if "0 \<le> h" using inv(2) none(1) assms(6) that by (auto simp: fast_dropped_def nat_less_iff)
      with True show ?thesis by (simp add: entries_def registry_Get_def)
    next
      case False
      have "segment_of r h < slowSegmentCnt r" using segment_of_less [OF inv(1), of h] inv(1) by (simp add: registry_inv_def)
      with inv(3) none(2) assms(6) have "(slow r ! segment_of r h) h = None" unfolding dropped_def by blast
      with False show ?thesis by (simp add: entries_def registry_Get_def segment_Get_def)
    qed
  qed
qed

text \<open>A schedule: which thread moves, and whether its load is stale.\<close>

fun schedule :: "(nat \<times> bool) list \<Rightarrow> threads \<times> shared \<Rightarrow> threads \<times> shared" where
  "schedule [] x = x"
| "schedule ((t, stale) # ts) (T, x) = schedule ts (case T t of None \<Rightarrow> (T, x) | Some p \<Rightarrow> (case thread_step stale p x of (p', x') \<Rightarrow> (T(t \<mapsto> p'), x')))"

lemmas schedule_defs = newHandleRegistry_def put_fast_def in_segment_def segment_of_def segment_Put_def segment_Remove_def segment_Clear_def
  to_signed_id under_lock_def load_closed_def

text \<open>With an allocation that looks only once, the target can stay.\<close>

lemma unsafe_allocation_stays:
  "case schedule [(0, False), (0, False), (1, False), (1, False), (1, False), (1, False), (1, False), (0, False), (0, False)]
      ([0 \<mapsto> (AllocStart False (Some 7), False), 1 \<mapsto> (CloseStart, False)], (newHandleRegistry 1 1, \<lambda>k. False))
   of (T, (r, known)) \<Rightarrow> T 0 = Some (Returned 1, True) \<and> T 1 = Some (Returned 0, True) \<and> closed r \<and> entries r 1 = Some 7"
  by (simp add: schedule_defs entries_def registry_Get_def segment_Get_def)

text \<open>The schedule of the witness: the registry is closed between the first look of an allocation and its put, and every load
  is stale where it may be.\<close>

lemma schedule_steps:
  assumes "slowCtr r + int (length ts) < 2 ^ 63 - 1" and "registry_inv r" and "placed r"
  shows "(registry_step b)\<^sup>*\<^sup>* (T, (r, known)) (schedule ts (T, (r, known)))"
  using assms
proof (induction ts arbitrary: T r known)
  case (Cons a ts)
  obtain t stale where a: "a = (t, stale)" by fastforce
  show ?case
  proof (cases "T t")
    case None
    with Cons.IH [OF _ Cons.prems(2,3), of T known] Cons.prems(1) a show ?thesis by simp
  next
    case (Some p)
    obtain c seen where p: "p = (c, seen)" by fastforce
    obtain p' r' known' where s: "thread_step stale p (r, known) = (p', (r', known'))" by (metis prod.exhaust)
    have room: "slowCtr r < 2 ^ 63 - 1" using Cons.prems(1) by simp
    have "slowCtr r' \<le> slowCtr r + 1"
      using s room Cons.prems(2) unfolding p by (cases c) (auto simp: put_fast_def under_lock_def to_signed_id registry_inv_def split: if_splits)
    then have "(registry_step b)\<^sup>*\<^sup>* (T(t \<mapsto> p'), (r', known')) (schedule ts (T(t \<mapsto> p'), (r', known')))"
      using Cons.prems(1) step_registry(1,2) [OF Cons.prems(2,3) s room] by (intro Cons.IH) auto
    moreover have "registry_step b (T, (r, known)) (T(t \<mapsto> p'), (r', known'))" by (rule registry_step.move [of T, OF Some room s])
    ultimately show ?thesis using Some s a by (simp add: converse_rtranclp_into_rtranclp)
  qed
qed simp

theorem closed_registry_empty_witness:
  "case schedule [(0, True), (0, True), (1, True), (1, True), (1, True), (1, True), (1, True), (0, True), (0, True), (0, True)]
      ([0 \<mapsto> (AllocStart True (Some 7), False), 1 \<mapsto> (CloseStart, False)], (newHandleRegistry 1 1, \<lambda>k. False))
   of (T, (r, known)) \<Rightarrow> T = [0 \<mapsto> (Returned (-1), True), 1 \<mapsto> (Returned 0, True)] \<and> closed r \<and> entries r = Map.empty"
proof -
  let ?T = "[0 \<mapsto> (AllocStart True (Some 7), False), 1 \<mapsto> (CloseStart, False)]" and ?r = "newHandleRegistry 1 1" and ?n = "\<lambda>k :: nat. False"
  let ?ts = "[(0, True), (0, True), (1, True), (1, True), (1, True), (1, True), (1, True), (0, True), (0, True), (0, True)] :: (nat \<times> bool) list"
  have r: "registry_inv ?r" "placed ?r" "\<not> closed ?r" "slowCtr ?r = 1" by (simp_all add: newHandleRegistry_def registry_inv_def placed_def)
  obtain T r known where e: "schedule ?ts (?T, (?r, ?n)) = (T, (r, known))" by (metis prod.exhaust)
  have "(registry_step True)\<^sup>*\<^sup>* (?T, (?r, ?n)) (schedule ?ts (?T, (?r, ?n)))" by (rule schedule_steps) (use r in simp_all)
  then have s: "(registry_step True)\<^sup>*\<^sup>* (?T, (?r, ?n)) (T, (r, known))" unfolding e .
  have c1: "registry_step True (Map.empty, (?r, ?n)) ([0 \<mapsto> (AllocStart True (Some 7), False)], (?r, ?n))" by (rule registry_step.call) simp_all
  have c2: "registry_step True ([0 \<mapsto> (AllocStart True (Some 7), False)], (?r, ?n)) (?T, (?r, ?n))" by (rule registry_step.call) simp_all
  have reach: "(registry_step True)\<^sup>*\<^sup>* (Map.empty, (?r, ?n)) (T, (r, known))"
    by (rule converse_rtranclp_into_rtranclp [OF c1 converse_rtranclp_into_rtranclp [OF c2 s]])
  have "case schedule ?ts (?T, (?r, ?n)) of (T, (r, known)) \<Rightarrow> T = [0 \<mapsto> (Returned (-1), True), 1 \<mapsto> (Returned 0, True)] \<and> closed r"
    by (simp add: schedule_defs fun_upd_twist)
  then have ends: "T = [0 \<mapsto> (Returned (-1), True), 1 \<mapsto> (Returned 0, True)]" "closed r" unfolding e by simp_all
  have rest: "at_rest T" unfolding ends(1) by (auto simp: at_rest_def ran_def split: if_splits)
  have "entries r = Map.empty" by (rule closed_registry_empty [OF reach r(1-3) rest ends(2)])
  with ends show ?thesis unfolding e by simp
qed

section \<open>One thread: a table of handles\<close>

text \<open>What a table of handles promises: an allocation gives a handle that held nothing and changes no other, and a release
  empties its handle only.\<close>

locale handle_table =
  fixes table_ok :: "'r \<Rightarrow> bool" and left :: "'r \<Rightarrow> nat" and lookup :: "'r \<Rightarrow> 'h \<rightharpoonup> 'a"
    and allocate :: "'a \<Rightarrow> 'r \<Rightarrow> ('h \<times> 'r) option" and release :: "'h \<Rightarrow> 'r \<Rightarrow> 'r"
  assumes allocate_fresh: "table_ok r \<Longrightarrow> 0 < left r \<Longrightarrow> \<exists>h r'. allocate x r = Some (h, r') \<and> table_ok r' \<and> left r \<le> Suc (left r')
        \<and> lookup r h = None \<and> lookup r' = (lookup r)(h \<mapsto> x)"
    and release_one: "table_ok r \<Longrightarrow> table_ok (release h r) \<and> lookup (release h r) = (lookup r)(h := None)"
begin

fun allocate_all :: "'a list \<Rightarrow> 'r \<Rightarrow> ('h list \<times> 'r) option" where
  "allocate_all [] r = Some ([], r)"
| "allocate_all (x # xs) r = (case allocate x r of None \<Rightarrow> None
     | Some (h, r') \<Rightarrow> (case allocate_all xs r' of None \<Rightarrow> None | Some (hs, r'') \<Rightarrow> Some (h # hs, r'')))"

lemma allocate_all_found:
  assumes "table_ok r" and "length xs \<le> left r"
  shows "\<exists>hs r'. allocate_all xs r = Some (hs, r') \<and> table_ok r' \<and> distinct hs \<and> length hs = length xs
    \<and> (\<forall>i < length xs. lookup r' (hs ! i) = Some (xs ! i)) \<and> (\<forall>h. lookup r h \<noteq> None \<longrightarrow> lookup r' h = lookup r h \<and> h \<notin> set hs)"
  using assms
proof (induction xs arbitrary: r)
  case (Cons x xs)
  obtain h r1 where a: "allocate x r = Some (h, r1)" "table_ok r1" "left r \<le> Suc (left r1)" "lookup r h = None" "lookup r1 = (lookup r)(h \<mapsto> x)"
    using allocate_fresh [OF Cons.prems(1)] Cons.prems(2) by fastforce
  have "length xs \<le> left r1" using a(3) Cons.prems(2) by simp
  from Cons.IH [OF a(2) this] obtain hs r2
    where b: "allocate_all xs r1 = Some (hs, r2)" "table_ok r2" "distinct hs" "length hs = length xs"
      "\<forall>i < length xs. lookup r2 (hs ! i) = Some (xs ! i)" "\<forall>g. lookup r1 g \<noteq> None \<longrightarrow> lookup r2 g = lookup r1 g \<and> g \<notin> set hs"
    by blast
  have h: "h \<notin> set hs" "lookup r2 h = Some x" using a(5) b(6) by auto
  have "lookup r2 g = lookup r g \<and> g \<notin> set (h # hs)" if "lookup r g \<noteq> None" for g
    using that a(4,5) b(6) by (metis fun_upd_other set_ConsD)
  then show ?case using a b h by (auto simp: nth_Cons split: nat.split)
qed simp

lemma release_then_gone: "table_ok r \<Longrightarrow> lookup (release h r) h = None \<and> (\<forall>g. g \<noteq> h \<longrightarrow> lookup (release h r) g = lookup r g)"
  using release_one by simp

end

text \<open>The registry as long as it is open. The array holds the handles below its capacity.\<close>

definition registry_ok :: "HandleRegistry \<Rightarrow> bool" where
  "registry_ok r \<longleftrightarrow> registry_inv r \<and> unused_empty r \<and> \<not> closed r"

definition handles_left :: "HandleRegistry \<Rightarrow> nat" where
  "handles_left r = nat (2 ^ 63 - 1 - slowCtr r)"

lemma entries_put_fast:
  assumes "registry_inv r" and "0 \<le> i" and "i < int (fastCap r)"
  shows "entries (put_fast i t r) = (entries r)(i := t)"
  using assms by (auto simp: fun_eq_iff entries_def registry_Get_def put_fast_def registry_inv_def nth_list_update segment_of_def
      nat_less_iff nat_eq_iff2 split: option.splits)

lemma entries_in_segment:
  assumes "registry_inv r" and "int (fastCap r) \<le> i" and "\<And>m h. h \<noteq> i \<Longrightarrow> f m h = m h"
  shows "entries (in_segment i f r) = (entries r)(i := segment_Get i (f (slow r ! segment_of r i)))"
proof
  fix h
  have len: "segment_of r g < length (slow r)" for g by (rule segment_of_less [OF assms(1)])
  have seg: "segment_of (in_segment i f r) h = segment_of r h" by (simp add: in_segment_def segment_of_def)
  show "entries (in_segment i f r) h = ((entries r)(i := segment_Get i (f (slow r ! segment_of r i)))) h"
  proof (cases "h < int (fastCap r)")
    case True
    then show ?thesis using assms(2) by (simp add: entries_def registry_Get_def in_segment_def)
  next
    case False
    have "slow (in_segment i f r) ! segment_of r h = (if segment_of r h = segment_of r i then f (slow r ! segment_of r i) else slow r ! segment_of r h)"
      using len by (simp add: in_segment_def nth_list_update)
    moreover have "fastCap (in_segment i f r) = fastCap r" by (simp add: in_segment_def)
    ultimately show ?thesis
      using False assms(3) [of h] by (auto simp: entries_def registry_Get_def seg segment_Get_def split: option.splits)
  qed
qed

lemma Allocate0_open:
  assumes "\<not> closed r" and "0 \<le> slowCtr r"
  shows "registry_Allocate0 t critical safe r =
     (if critical \<and> fastCtr r < int (fastCap r) then Some (fastCtr r, put_fast (fastCtr r) t (r\<lparr>fastCtr := to_signed 32 (fastCtr r + 1)\<rparr>))
      else Some (slowCtr r, in_segment (slowCtr r) (segment_Put (slowCtr r) t) (r\<lparr>slowCtr := to_signed 64 (slowCtr r + 1)\<rparr>)))"
  using assms by (auto simp: registry_Allocate0_def slow_allocate_def put_fast_def Let_def)

lemma unused_segment: "slow r' = slow r \<Longrightarrow> slowSegmentCnt r' = slowSegmentCnt r \<Longrightarrow> segment_of r' = segment_of r"
  by (simp add: segment_of_def fun_eq_iff)

lemma Allocate0_fresh:
  assumes "registry_ok r" and "0 < handles_left r"
  shows "\<exists>h r'. registry_Allocate0 (Some x) critical safe r = Some (h, r') \<and> registry_ok r' \<and> handles_left r \<le> Suc (handles_left r')
    \<and> entries r h = None \<and> entries r' = (entries r)(h \<mapsto> x)"
proof -
  from assms have inv: "registry_inv r" and un: "unused_empty r" and open_r: "\<not> closed r" by (simp_all add: registry_ok_def)
  have room: "slowCtr r < 2 ^ 63 - 1" using assms(2) by (simp add: handles_left_def)
  have pos: "0 \<le> slowCtr r" using inv by (simp add: registry_inv_def)
  show ?thesis
  proof (cases "critical \<and> fastCtr r < int (fastCap r)")
    case True
    let ?i = "fastCtr r" and ?r = "r\<lparr>fastCtr := to_signed 32 (fastCtr r + 1)\<rparr>"
    have i: "0 \<le> ?i" "to_signed 32 (?i + 1) = ?i + 1" using inv True by (simp_all add: registry_inv_def to_signed_id)
    have r: "registry_inv ?r" "entries ?r = entries r" using inv i
      by (simp_all add: registry_inv_def fun_eq_iff entries_def registry_Get_def segment_of_def)
    have "entries r ?i = None"
      using un [unfolded unused_empty_def, THEN conjunct1, rule_format, of "nat ?i"] True i(1)
      by (simp add: entries_def registry_Get_def nat_less_iff)
    moreover have "entries (put_fast ?i (Some x) ?r) = (entries r)(?i \<mapsto> x)"
      using entries_put_fast [OF r(1) i(1), of "Some x"] True r(2) by simp
    moreover have "registry_ok (put_fast ?i (Some x) ?r)"
      using inv un open_r i True by (auto simp: registry_ok_def registry_inv_def unused_empty_def put_fast_def nth_list_update segment_of_def)
    moreover have "handles_left r \<le> Suc (handles_left (put_fast ?i (Some x) ?r))" by (simp add: handles_left_def put_fast_def)
    ultimately show ?thesis using True Allocate0_open [OF open_r pos] by simp
  next
    case False
    let ?i = "slowCtr r" and ?r = "r\<lparr>slowCtr := to_signed 64 (slowCtr r + 1)\<rparr>"
    have i: "int (fastCap r) \<le> ?i" "to_signed 64 (?i + 1) = ?i + 1" using inv room by (simp_all add: registry_inv_def to_signed_id)
    have r: "registry_inv ?r" "entries ?r = entries r" using inv i
      by (simp_all add: registry_inv_def fun_eq_iff entries_def registry_Get_def segment_of_def)
    have seg: "segment_of ?r = segment_of r" by (simp add: segment_of_def fun_eq_iff)
    have len: "segment_of r g < length (slow r)" for g by (rule segment_of_less [OF inv])
    have "entries r ?i = None"
      using un i(1) by (simp add: unused_empty_def entries_def registry_Get_def segment_Get_def)
    moreover have "entries (in_segment ?i (segment_Put ?i (Some x)) ?r) = (entries r)(?i \<mapsto> x)"
      using entries_in_segment [OF r(1), of ?i "segment_Put ?i (Some x)"] i(1) r(2) by (simp add: segment_Put_def segment_Get_def)
    moreover have "registry_ok (in_segment ?i (segment_Put ?i (Some x)) ?r)"
      using inv un open_r i len unfolding registry_ok_def registry_inv_def unused_empty_def
      by (auto simp: in_segment_def segment_of_def nth_list_update segment_Put_def)
    moreover have "handles_left r \<le> Suc (handles_left (in_segment ?i (segment_Put ?i (Some x)) ?r))"
      using i(2) room by (simp add: handles_left_def in_segment_def)
    ultimately show ?thesis using False Allocate0_open [OF open_r pos] by auto
  qed
qed

lemma Release_one:
  assumes "registry_ok r"
  shows "registry_ok (registry_Release h r) \<and> entries (registry_Release h r) = (entries r)(h := None)"
proof -
  from assms have inv: "registry_inv r" and un: "unused_empty r" and open_r: "\<not> closed r" by (simp_all add: registry_ok_def)
  have len: "segment_of r g < length (slow r)" for g by (rule segment_of_less [OF inv])
  consider "h < 0" | "0 \<le> h" "h < int (fastCap r)" | "0 \<le> h" "int (fastCap r) \<le> h" by linarith
  then show ?thesis
  proof cases
    case 1
    then have "entries r h = None" by (simp add: entries_def registry_Get_def)
    with 1 assms show ?thesis by (simp add: registry_Release_def fun_upd_idem)
  next
    case 2
    moreover have "nat h < length (fast r)" using 2 inv by (simp add: registry_inv_def nat_less_iff)
    then have "registry_ok (put_fast h None r)"
      using inv un open_r by (auto simp: registry_ok_def registry_inv_def unused_empty_def put_fast_def nth_list_update segment_of_def)
    ultimately show ?thesis using entries_put_fast [OF inv, of h None] by (simp add: registry_Release_def)
  next
    case 3
    moreover have "registry_ok (in_segment h (segment_Remove h) r)"
      using inv un open_r len unfolding registry_ok_def registry_inv_def unused_empty_def
      by (auto simp: in_segment_def segment_of_def nth_list_update segment_Remove_def)
    ultimately show ?thesis
      using entries_in_segment [OF inv, of h "segment_Remove h"] by (simp add: registry_Release_def segment_Remove_def segment_Get_def)
  qed
qed

interpretation slow_table: handle_table registry_ok handles_left entries "\<lambda>x. registry_Allocate (Some x)" registry_Release
  by unfold_locales (use Allocate0_fresh Release_one in \<open>simp_all add: registry_Allocate_def\<close>)

interpretation critical_table: handle_table registry_ok handles_left entries "\<lambda>x. registry_AllocateCritical (Some x)" registry_Release
  by unfold_locales (use Allocate0_fresh Release_one in \<open>simp_all add: registry_AllocateCritical_def\<close>)

text \<open>Closing empties the registry.\<close>

lemma Close_empties:
  assumes "registry_inv r" and "\<not> closed r"
  shows "closed (registry_Close r)" and "entries (registry_Close r) = Map.empty"
  using assms segment_of_less [OF assms(1)]
  by (auto simp: registry_Close_def entries_def registry_Get_def fun_eq_iff registry_inv_def segment_of_def segment_Get_def segment_Clear_def nat_less_iff)

text \<open>A handle that was refused is negative, and looking it up reads before the array.\<close>

lemma refused_handle:
  assumes "closed r"
  shows "registry_Allocate t r = Some (-1, r)" and "0 < fastCap r \<Longrightarrow> registry_Get (-1) r = None"
  using assms by (simp_all add: registry_Allocate_def registry_Allocate0_def registry_Get_def)

end
