(* ===== verification/Odbc_Future.thy ===== *)
theory Odbc_Future
  imports Odbc_Error
begin

text \<open>
  Results that one thread promises and others wait for: \<open>SharedState\<close>, \<open>Promise\<close> and \<open>Future\<close>
  (\<open>common/shared_state.h\<close>, \<open>common/promise.h\<close>, \<open>future.h\<close>), in both instances of the templates, for a type of values
  and for \<open>void\<close>. What runs under the lock of a state is one step. A thread that waits on the condition variable is
  blocked until it is notified, but may also wake up without a reason, as the system's variables do.
\<close>

section \<open>The state\<close>

record 'a SharedState =
  cancelTarget :: "nat option"
  value_ptr :: "'a option"
  state_error :: DocumentDbError

record SharedState_void =
  void_cancelTarget :: "nat option"
  done_flag :: bool
  void_error :: DocumentDbError

abbreviation (input) "DOCUMENTDB_ERR_FUTURE_STATE \<equiv> 2024 :: int"

definition newSharedState :: "'a SharedState" where
  "newSharedState = \<lparr>cancelTarget = None, value_ptr = None, state_error = no_error\<rparr>"

definition newSharedState_void :: SharedState_void where
  "newSharedState_void = \<lparr>void_cancelTarget = None, done_flag = False, void_error = no_error\<rparr>"

definition state_IsSet :: "'a SharedState \<Rightarrow> bool" where
  "state_IsSet s \<longleftrightarrow> value_ptr s \<noteq> None \<or> err_code (state_error s) \<noteq> DOCUMENTDB_SUCCESS"

definition void_IsSet :: "SharedState_void \<Rightarrow> bool" where
  "void_IsSet s \<longleftrightarrow> done_flag s \<or> err_code (void_error s) \<noteq> DOCUMENTDB_SUCCESS"

text \<open>The two tests at the head of both setters; the first that holds throws.\<close>

definition already_set :: "bool \<Rightarrow> bool \<Rightarrow> 's \<Rightarrow> DocumentDbError + 's" where
  "already_set has_value has_error s =
     (if has_value then Inl (error_of DOCUMENTDB_ERR_FUTURE_STATE ''Future value already set'')
      else if has_error then Inl (error_of DOCUMENTDB_ERR_FUTURE_STATE ''Future error already set'')
      else Inr s)"

definition state_SetValue :: "'a option \<Rightarrow> 'a SharedState \<Rightarrow> DocumentDbError + 'a SharedState" where
  "state_SetValue val s =
     (case already_set (value_ptr s \<noteq> None) (err_code (state_error s) \<noteq> DOCUMENTDB_SUCCESS) s of
        Inl e \<Rightarrow> Inl e | Inr s' \<Rightarrow> Inr (s'\<lparr>value_ptr := val\<rparr>))"

definition state_SetError :: "DocumentDbError \<Rightarrow> 'a SharedState \<Rightarrow> DocumentDbError + 'a SharedState" where
  "state_SetError err s =
     (case already_set (value_ptr s \<noteq> None) (err_code (state_error s) \<noteq> DOCUMENTDB_SUCCESS) s of
        Inl e \<Rightarrow> Inl e | Inr s' \<Rightarrow> Inr (s'\<lparr>state_error := err\<rparr>))"

definition void_SetValue :: "unit \<Rightarrow> SharedState_void \<Rightarrow> DocumentDbError + SharedState_void" where
  "void_SetValue val s =
     (case already_set (done_flag s) (err_code (void_error s) \<noteq> DOCUMENTDB_SUCCESS) s of
        Inl e \<Rightarrow> Inl e | Inr s' \<Rightarrow> Inr (s'\<lparr>done_flag := True\<rparr>))"

definition void_SetError :: "DocumentDbError \<Rightarrow> SharedState_void \<Rightarrow> DocumentDbError + SharedState_void" where
  "void_SetError err s =
     (case already_set (done_flag s) (err_code (void_error s) \<noteq> DOCUMENTDB_SUCCESS) s of
        Inl e \<Rightarrow> Inl e | Inr s' \<Rightarrow> Inr (s'\<lparr>void_error := err\<rparr>))"

text \<open>What \<open>GetValue\<close> returns or throws once \<open>Wait\<close> has returned.\<close>

definition state_result :: "'a SharedState \<Rightarrow> DocumentDbError + 'a" where
  "state_result s = (case value_ptr s of Some v \<Rightarrow> Inr v | None \<Rightarrow> Inl (state_error s))"

definition void_result :: "SharedState_void \<Rightarrow> DocumentDbError + unit" where
  "void_result s = (if done_flag s then Inr () else Inl (void_error s))"

text \<open>\<open>Cancel\<close> answers the target whose own \<open>Cancel\<close> it calls.\<close>

definition state_SetCancelTarget :: "nat option \<Rightarrow> 'a SharedState \<Rightarrow> 'a SharedState" where
  "state_SetCancelTarget target s = s\<lparr>cancelTarget := target\<rparr>"

definition state_Cancel :: "'a SharedState \<Rightarrow> nat option" where
  "state_Cancel s = cancelTarget s"

definition void_SetCancelTarget :: "nat option \<Rightarrow> SharedState_void \<Rightarrow> SharedState_void" where
  "void_SetCancelTarget target s = s\<lparr>void_cancelTarget := target\<rparr>"

definition void_Cancel :: "SharedState_void \<Rightarrow> nat option" where
  "void_Cancel s = void_cancelTarget s"

section \<open>Promises and futures\<close>

text \<open>The operations of a shared state that the templates \<open>Promise\<close> and \<open>Future\<close> call.\<close>

record ('s, 'v, 'r) state_ops =
  is_set :: "'s \<Rightarrow> bool"
  set_value :: "'v \<Rightarrow> 's \<Rightarrow> DocumentDbError + 's"
  set_error :: "DocumentDbError \<Rightarrow> 's \<Rightarrow> DocumentDbError + 's"
  set_target :: "nat option \<Rightarrow> 's \<Rightarrow> 's"
  result_of :: "'s \<Rightarrow> DocumentDbError + 'r"

definition value_ops :: "('a SharedState, 'a option, 'a) state_ops" where
  "value_ops = \<lparr>is_set = state_IsSet, set_value = state_SetValue, set_error = state_SetError, set_target = state_SetCancelTarget,
     result_of = state_result\<rparr>"

definition void_ops :: "(SharedState_void, unit, unit) state_ops" where
  "void_ops = \<lparr>is_set = void_IsSet, set_value = void_SetValue, set_error = void_SetError, set_target = void_SetCancelTarget,
     result_of = void_result\<rparr>"

definition broken_promise :: DocumentDbError where
  "broken_promise = error_of DOCUMENTDB_ERR_FUTURE_STATE ''Broken promise. Value will never be set due to internal error.''"

datatype 'v owner_call = Promise_SetValue 'v | Promise_SetError DocumentDbError | Promise_SetCancelTarget "nat option" | Promise_destroy

fun promise_call :: "('s, 'v, 'r) state_ops \<Rightarrow> 'v owner_call \<Rightarrow> 's \<Rightarrow> DocumentDbError + 's" where
  "promise_call ops (Promise_SetValue v) s = set_value ops v s"
| "promise_call ops (Promise_SetError e) s = set_error ops e s"
| "promise_call ops (Promise_SetCancelTarget target) s = Inr (set_target ops target s)"
| "promise_call ops Promise_destroy s = (if is_set ops s then Inr s else set_error ops broken_promise s)"

text \<open>\<open>NotifyAll\<close> is called by a setter that succeeds.\<close>

fun notifies :: "('s, 'v, 'r) state_ops \<Rightarrow> 'v owner_call \<Rightarrow> 's \<Rightarrow> bool" where
  "notifies ops (Promise_SetCancelTarget target) s = False"
| "notifies ops Promise_destroy s = (\<not> is_set ops s)"
| "notifies ops c s = True"

datatype future_call = Future_Wait | Future_WaitFor | Future_GetValue

datatype 'r outcome = Waited | WaitedFor bool | Got "DocumentDbError + 'r"

datatype 'r waiter = Enter future_call | Blocked future_call | Woken future_call | Reading | Finished "'r outcome"

fun passed :: "future_call \<Rightarrow> 'r waiter" where
  "passed Future_Wait = Finished Waited"
| "passed Future_WaitFor = Finished (WaitedFor True)"
| "passed Future_GetValue = Reading"

text \<open>A step of a thread inside \<open>Wait\<close>, \<open>WaitFor\<close> or \<open>GetValue\<close>. \<open>Wait\<close> tests again when it wakes up, \<open>WaitFor\<close> does not.\<close>

fun waiter_step :: "('s, 'v, 'r) state_ops \<Rightarrow> 's \<Rightarrow> 'r waiter \<Rightarrow> 'r waiter" where
  "waiter_step ops s (Enter c) = (if is_set ops s then passed c else Blocked c)"
| "waiter_step ops s (Blocked c) = Blocked c"
| "waiter_step ops s (Woken Future_WaitFor) = Finished (WaitedFor True)"
| "waiter_step ops s (Woken c) = (if is_set ops s then passed c else Blocked c)"
| "waiter_step ops s Reading = Finished (Got (result_of ops s))"
| "waiter_step ops s (Finished r) = Finished r"

fun wake :: "'r waiter \<Rightarrow> 'r waiter" where
  "wake (Blocked c) = Woken c"
| "wake p = p"

record ('s, 'r) exchange_state =
  promised :: 's
  alive :: bool
  waiters :: "nat \<rightharpoonup> 'r waiter"

definition newExchange :: "'s \<Rightarrow> ('s, 'r) exchange_state" where
  "newExchange s = \<lparr>promised = s, alive = True, waiters = Map.empty\<rparr>"

text \<open>One thread owns the promise; any number of threads use futures of it.\<close>

inductive future_step :: "('s, 'v, 'r) state_ops \<Rightarrow> ('s, 'r) exchange_state \<Rightarrow> ('s, 'r) exchange_state \<Rightarrow> bool" for ops where
  owner: "alive x \<Longrightarrow> promise_call ops c (promised x) = Inr s \<Longrightarrow>
     future_step ops x (x\<lparr>promised := s, alive := c \<noteq> Promise_destroy,
       waiters := if notifies ops c (promised x) then map_option wake \<circ> waiters x else waiters x\<rparr>)"
| refused: "alive x \<Longrightarrow> promise_call ops c (promised x) = Inl e \<Longrightarrow> future_step ops x x"
| starts: "waiters x t = None \<or> (\<exists>r. waiters x t = Some (Finished r)) \<Longrightarrow> future_step ops x (x\<lparr>waiters := (waiters x)(t \<mapsto> Enter c)\<rparr>)"
| runs: "waiters x t = Some p \<Longrightarrow> future_step ops x (x\<lparr>waiters := (waiters x)(t \<mapsto> waiter_step ops (promised x) p)\<rparr>)"
| spurious: "waiters x t = Some (Blocked c) \<Longrightarrow> future_step ops x (x\<lparr>waiters := (waiters x)(t \<mapsto> Woken c)\<rparr>)"
| timeout: "waiters x t = Some (Blocked Future_WaitFor) \<Longrightarrow>
     future_step ops x (x\<lparr>waiters := (waiters x)(t \<mapsto> Finished (WaitedFor False))\<rparr>)"

inductive_cases future_stepE: "future_step ops x y"

section \<open>What every state of this kind gives\<close>

locale settled_once =
  fixes ops :: "('s, 'v, 'r) state_ops"
  assumes set_twice: "is_set ops s \<Longrightarrow> \<exists>e. set_value ops v s = Inl e"
    and error_twice: "is_set ops s \<Longrightarrow> \<exists>e. set_error ops err s = Inl e"
    and error_once: "\<not> is_set ops s \<Longrightarrow> \<exists>s'. set_error ops err s = Inr s' \<and> (err_code err \<noteq> DOCUMENTDB_SUCCESS \<longrightarrow> is_set ops s' \<and> result_of ops s' = Inl err)"
    and target_same: "is_set ops (set_target ops k s) = is_set ops s" "result_of ops (set_target ops k s) = result_of ops s"
begin

fun waiter_ok :: "'s \<Rightarrow> 'r waiter \<Rightarrow> bool" where
  "waiter_ok s (Blocked c) = (\<not> is_set ops s)"
| "waiter_ok s Reading = is_set ops s"
| "waiter_ok s (Finished (Got r)) = (is_set ops s \<and> r = result_of ops s)"
| "waiter_ok s (Finished Waited) = is_set ops s"
| "waiter_ok s p = True"

definition settled_inv :: "('s, 'r) exchange_state \<Rightarrow> bool" where
  "settled_inv x \<longleftrightarrow> (\<forall>t p. waiters x t = Some p \<longrightarrow> waiter_ok (promised x) p) \<and> (\<not> alive x \<longrightarrow> is_set ops (promised x))"

lemma destroy_sets: "promise_call ops Promise_destroy s = Inr s' \<Longrightarrow> is_set ops s'"
  using error_once [of s broken_promise] by (auto simp: broken_promise_def error_of_def split: if_splits)

lemma set_stays:
  assumes "promise_call ops c s = Inr s'" "is_set ops s"
  shows "is_set ops s' \<and> result_of ops s' = result_of ops s \<and> \<not> notifies ops c s"
  using assms set_twice [of s] error_twice [of s] target_same by (cases c) (auto, (metis Inl_Inr_False)+)

lemma waiter_ok_set: "is_set ops s \<Longrightarrow> is_set ops s' \<Longrightarrow> result_of ops s' = result_of ops s \<Longrightarrow> waiter_ok s p \<Longrightarrow> waiter_ok s' p"
  by (cases "(s, p)" rule: waiter_ok.cases) auto

lemma waiter_ok_unset: "\<not> is_set ops s \<Longrightarrow> waiter_ok s p \<Longrightarrow> \<not> is_set ops s' \<Longrightarrow> waiter_ok s' p"
  by (cases "(s, p)" rule: waiter_ok.cases) auto

lemma waiter_ok_wake: "\<not> is_set ops s \<Longrightarrow> waiter_ok s p \<Longrightarrow> waiter_ok s' (wake p)"
  by (cases "(s, p)" rule: waiter_ok.cases) auto

lemma passed_ok [simp]: "is_set ops s \<Longrightarrow> waiter_ok s (passed c)"
  by (cases c) auto

lemma passed_finishes: "\<exists>r. waiter_step ops s (passed c) = Finished r \<and> (\<forall>a. r = Got a \<longrightarrow> a = result_of ops s)"
  by (cases c) auto

lemma waiter_step_ok: "waiter_ok s p \<Longrightarrow> waiter_ok s (waiter_step ops s p)"
  by (cases "(ops, s, p)" rule: waiter_step.cases; cases p) auto

lemma waiter_ok_call:
  assumes "promise_call ops c s = Inr s'" "waiter_ok s p"
  shows "waiter_ok s' (if notifies ops c s then wake p else p)"
proof (cases "is_set ops s")
  case True
  with set_stays [OF assms(1)] assms(2) waiter_ok_set show ?thesis by auto
next
  case False
  show ?thesis
  proof (cases "notifies ops c s")
    case True
    with False assms(2) show ?thesis by (simp add: waiter_ok_wake)
  next
    case False
    with \<open>\<not> is_set ops s\<close> assms target_same show ?thesis by (cases c) (auto intro: waiter_ok_unset)
  qed
qed

lemma future_step_inv:
  assumes "future_step ops x y" "settled_inv x"
  shows "settled_inv y \<and> (is_set ops (promised x) \<longrightarrow> is_set ops (promised y) \<and> result_of ops (promised y) = result_of ops (promised x))"
  using assms(1)
proof cases
  case (owner c s)
  have "waiter_ok s p" if y: "waiters y t = Some p" for t p
  proof -
    obtain q where q: "waiters x t = Some q" "p = (if notifies ops c (promised x) then wake q else q)"
      using y unfolding owner(1) by (auto split: if_splits)
    then show ?thesis using assms(2) waiter_ok_call [OF owner(3), of q] by (simp add: settled_inv_def)
  qed
  moreover have "is_set ops s" if "\<not> alive y"
  proof -
    have "c = Promise_destroy" using that unfolding owner(1) by simp
    then show ?thesis using owner(3) destroy_sets by blast
  qed
  ultimately show ?thesis
    using set_stays [OF owner(3)] unfolding owner(1) settled_inv_def by simp
next
  case (runs t p)
  then show ?thesis using assms(2) waiter_step_ok by (auto simp: settled_inv_def)
qed (use assms(2) in \<open>auto simp: settled_inv_def\<close>)

lemma future_run_inv:
  assumes "(future_step ops)\<^sup>*\<^sup>* x y" "settled_inv x"
  shows "settled_inv y \<and> (is_set ops (promised x) \<longrightarrow> is_set ops (promised y) \<and> result_of ops (promised y) = result_of ops (promised x))"
  using assms by (induction rule: rtranclp_induct) (auto dest: future_step_inv)

lemma new_exchange_inv: "settled_inv (newExchange s)"
  by (simp add: settled_inv_def newExchange_def)

lemma two_steps:
  assumes "is_set ops s" "waiter_ok s p"
  shows "\<exists>r. waiter_step ops s (waiter_step ops s p) = Finished r \<and> (\<forall>a. r = Got a \<longrightarrow> a = result_of ops s)"
  using assms passed_finishes [of s] by (cases "(ops, s, p)" rule: waiter_step.cases; cases p) auto

text \<open>The result stays, no call that is under way is blocked, and what was read is the result.\<close>

lemma settles:
  assumes "(future_step ops)\<^sup>*\<^sup>* (newExchange s) x" "(future_step ops)\<^sup>*\<^sup>* x y" "is_set ops (promised x) \<or> \<not> alive x"
  shows "is_set ops (promised y) \<and> result_of ops (promised y) = result_of ops (promised x) \<and>
    (\<forall>t p. waiters y t = Some p \<longrightarrow>
       (\<exists>r. waiter_step ops (promised y) (waiter_step ops (promised y) p) = Finished r \<and> (\<forall>a. r = Got a \<longrightarrow> a = result_of ops (promised x))))"
proof -
  have x: "settled_inv x" using future_run_inv [OF assms(1) new_exchange_inv] by simp
  then have "is_set ops (promised x)" using assms(3) by (auto simp: settled_inv_def)
  then have y: "settled_inv y" "is_set ops (promised y)" "result_of ops (promised y) = result_of ops (promised x)"
    using future_run_inv [OF assms(2) x] by auto
  then have "waiter_ok (promised y) p" if "waiters y t = Some p" for t p
    using that by (simp add: settled_inv_def)
  then show ?thesis using y(2,3) two_steps [of "promised y"] by metis
qed

end

lemma value_ops_sel [simp]:
  "is_set value_ops = state_IsSet" "set_value value_ops = state_SetValue" "set_error value_ops = state_SetError"
  "set_target value_ops = state_SetCancelTarget" "result_of value_ops = state_result"
  by (simp_all add: value_ops_def)

lemma void_ops_sel [simp]:
  "is_set void_ops = void_IsSet" "set_value void_ops = void_SetValue" "set_error void_ops = void_SetError"
  "set_target void_ops = void_SetCancelTarget" "result_of void_ops = void_result"
  by (simp_all add: void_ops_def)

lemmas state_defs = state_IsSet_def state_SetValue_def state_SetError_def state_result_def state_SetCancelTarget_def
  void_IsSet_def void_SetValue_def void_SetError_def void_result_def void_SetCancelTarget_def already_set_def

interpretation value_state: settled_once value_ops
  by unfold_locales (auto simp: state_defs split: option.splits)

interpretation void_state: settled_once void_ops
  by unfold_locales (auto simp: state_defs)

section \<open>Futures settle\<close>

text \<open>(C20) Any number of threads wait for a promise, in any order of steps. Once the promise has a result, and at the latest
  when it is destroyed, the result does not change any more and no thread stays blocked: each call of \<open>Wait\<close>, \<open>WaitFor\<close> or
  \<open>GetValue\<close> that is under way ends after at most two of its own steps, and \<open>GetValue\<close> gives the result.\<close>

theorem futures_settle:
  assumes "(future_step value_ops)\<^sup>*\<^sup>* (newExchange newSharedState) x" "(future_step value_ops)\<^sup>*\<^sup>* x y"
    and "state_IsSet (promised x) \<or> \<not> alive x"
  shows "state_IsSet (promised y) \<and> state_result (promised y) = state_result (promised x) \<and>
    (\<forall>t p. waiters y t = Some p \<longrightarrow>
       (\<exists>r. waiter_step value_ops (promised y) (waiter_step value_ops (promised y) p) = Finished r \<and>
            (\<forall>a. r = Got a \<longrightarrow> a = state_result (promised x))))"
  using value_state.settles [OF assms(1,2)] assms(3) by simp

text \<open>The same for promises of \<open>void\<close>.\<close>

lemma void_futures_settle:
  assumes "(future_step void_ops)\<^sup>*\<^sup>* (newExchange newSharedState_void) x" "(future_step void_ops)\<^sup>*\<^sup>* x y"
    and "void_IsSet (promised x) \<or> \<not> alive x"
  shows "void_IsSet (promised y) \<and> void_result (promised y) = void_result (promised x) \<and>
    (\<forall>t p. waiters y t = Some p \<longrightarrow>
       (\<exists>r. waiter_step void_ops (promised y) (waiter_step void_ops (promised y) p) = Finished r \<and>
            (\<forall>a. r = Got a \<longrightarrow> a = void_result (promised x))))"
  using void_state.settles [OF assms(1,2)] assms(3) by simp

text \<open>A thread waits, the promise is destroyed without a value, the thread wakes up and reads the error.\<close>

definition waiting :: "(int SharedState, int) exchange_state" where
  "waiting = \<lparr>promised = newSharedState, alive = True, waiters = [0 \<mapsto> Blocked Future_GetValue]\<rparr>"

definition broken :: "(int SharedState, int) exchange_state" where
  "broken = \<lparr>promised = newSharedState\<lparr>state_error := broken_promise\<rparr>, alive = False, waiters = [0 \<mapsto> Woken Future_GetValue]\<rparr>"

lemma unset_new [simp]: "\<not> state_IsSet newSharedState"
  by (simp add: state_IsSet_def newSharedState_def no_error_def)

lemma waiting_reached: "(future_step value_ops)\<^sup>*\<^sup>* (newExchange newSharedState) waiting"
proof -
  have "future_step value_ops (newExchange (newSharedState :: int SharedState)) ((newExchange (newSharedState :: int SharedState))\<lparr>waiters := [0 \<mapsto> Enter Future_GetValue]\<rparr>)"
    using future_step.starts [of "newExchange (newSharedState :: int SharedState)" 0 value_ops Future_GetValue] by (simp add: newExchange_def)
  moreover have "future_step value_ops ((newExchange (newSharedState :: int SharedState))\<lparr>waiters := [0 \<mapsto> Enter Future_GetValue]\<rparr>) waiting"
    using future_step.runs [of "(newExchange (newSharedState :: int SharedState))\<lparr>waiters := [0 \<mapsto> Enter Future_GetValue]\<rparr>" 0 "Enter Future_GetValue" value_ops]
    by (simp add: newExchange_def waiting_def)
  ultimately show ?thesis by (meson converse_rtranclp_into_rtranclp r_into_rtranclp)
qed

lemma broken_reached: "future_step value_ops waiting broken"
proof -
  have "promise_call value_ops Promise_destroy (promised waiting) = Inr (promised broken)"
    by (simp add: waiting_def broken_def state_SetError_def already_set_def) (simp add: newSharedState_def no_error_def)
  then show ?thesis
    using future_step.owner [of waiting value_ops Promise_destroy "promised broken"]
    by (simp add: waiting_def broken_def map_option_o_map_upd)
qed

theorem futures_settle_witness:
  "state_IsSet (promised broken) \<and>
   (\<exists>r. waiter_step value_ops (promised broken) (waiter_step value_ops (promised broken) (Woken Future_GetValue)) = Finished r \<and>
        (\<forall>a. r = Got a \<longrightarrow> a = Inl broken_promise))"
proof -
  have run: "(future_step value_ops)\<^sup>*\<^sup>* (newExchange newSharedState) broken"
    using waiting_reached broken_reached by simp
  have "state_result (promised broken) = Inl broken_promise" "\<not> alive broken" "waiters broken 0 = Some (Woken Future_GetValue)"
    by (simp_all add: broken_def state_result_def newSharedState_def)
  then show ?thesis using futures_settle [OF run rtranclp.rtrancl_refl] by auto
qed

text \<open>\<open>WaitFor\<close> does not test again: a thread that wakes up without a reason reports that the result is there. A null pointer
  or an error with the code of success is accepted and leaves the state unset.\<close>

lemma WaitFor_without_result:
  "\<not> state_IsSet s \<Longrightarrow> waiter_step value_ops s (wake (waiter_step value_ops s (Enter Future_WaitFor))) = Finished (WaitedFor True)"
  by simp

lemma null_value_unset: "\<not> state_IsSet s \<Longrightarrow> \<exists>s'. state_SetValue None s = Inr s' \<and> \<not> state_IsSet s'"
  by (auto simp: state_defs)

end
