(* ===== verification/Odbc_Calendar.thy ===== *)
theory Odbc_Calendar
  imports Odbc_AppBufferProps
begin

text \<open>
  The calendar behind dates and times: the broken-down time of a number of seconds (\<open>gmtime\<close>) has fields in their
  ranges, and \<open>civil_seconds\<close> leads back. The source converts both ways with functions of Boost; here is shown that
  what the driver asks of them can be met.
\<close>

text \<open>Days of the first \<open>y\<close> years of an era of 400 years that starts in March, and the year of a day of the era as
  \<open>gmtime\<close> computes it.\<close>

definition era_start :: "int \<Rightarrow> int" where
  "era_start y = 365 * y + y div 4 - y div 100 + y div 400"

definition era_days :: "int \<Rightarrow> int" where
  "era_days d = d - d div 1460 + d div 36524 - d div 146096"

lemma quarters: "x \<le> y \<Longrightarrow> y \<le> x + 1 \<Longrightarrow> x - x div 4 \<le> y - y div 4" for x y :: int
  by arith

lemma div_Suc: "0 < k \<Longrightarrow> d div k \<le> (d + 1) div k \<and> (d + 1) div k \<le> d div k + 1" for d k :: int
  using zdiv_mono1 [of d "d + 1" k] zdiv_mono1 [of "d + 1" "d + k" k] by simp

lemma day_more: "a' \<le> a + 1 \<Longrightarrow> b - c \<le> b' - c' \<Longrightarrow> d - a + b - c \<le> d + 1 - a' + b' - c'" for a b c d a' b' c' :: int
  by simp

lemma year_more: "a' \<le> a + 1 \<Longrightarrow> b - c \<le> b' - c' \<Longrightarrow> 365 * (y + 1) + a' - b' + c' \<le> 365 * y + a - b + c + 366" for a b c y a' b' c' :: int
  by simp

lemma era_days_Suc: "era_days d \<le> era_days (d + 1)"
proof -
  have q: "d div 146096 = d div 36524 div 4" "(d + 1) div 146096 = (d + 1) div 36524 div 4"
    using zdiv_zmult2_eq [of 4 d 36524] zdiv_zmult2_eq [of 4 "d + 1" 36524] by simp_all
  have "d div 36524 - d div 36524 div 4 \<le> (d + 1) div 36524 - (d + 1) div 36524 div 4"
    using div_Suc [of 36524 d] by (intro quarters) auto
  then show ?thesis unfolding era_days_def q using div_Suc [of 1460 d] by (intro day_more) auto
qed

lemma era_days_mono: "d \<le> e \<Longrightarrow> era_days d \<le> era_days e"
proof (induction e rule: int_ge_induct)
  case (step i)
  then show ?case using era_days_Suc [of i] by simp
qed simp

lemma era_years_checked:
  "list_all (\<lambda>y. 365 * y \<le> era_days (era_start y) \<and> era_days (era_start (y + 1) - 1) < 365 * (y + 1)) [0..399]"
  by code_simp

lemma era_year:
  assumes "0 \<le> y" "y < 400"
  shows "365 * y \<le> era_days (era_start y)" "era_days (era_start (y + 1) - 1) < 365 * (y + 1)"
  using era_years_checked assms by (simp_all add: list_all_iff)

lemma year_of_era:
  assumes "0 \<le> doe" "doe < 146097"
  defines "y \<equiv> era_days doe div 365"
  shows "0 \<le> y" "y < 400" "era_start y \<le> doe" "doe < era_start (y + 1)"
proof -
  have "era_days 0 = 0" "era_days 146096 = 145999" by (simp_all add: era_days_def)
  then have ed: "0 \<le> era_days doe" "era_days doe \<le> 145999"
    using era_days_mono [of 0 doe] era_days_mono [of doe 146096] assms by simp_all
  obtain r where r: "365 * y + r = era_days doe" "r < 365" "0 \<le> r"
    using that [of "era_days doe mod 365"] by (simp add: y_def)
  have lo: "365 * y \<le> era_days doe" using r by linarith
  have hi: "era_days doe < 365 * (y + 1)" using r(1,2) by (simp add: distrib_left)
  have "0 < 365 * (y + 1)" "365 * y < 365 * 400" using lo hi ed by simp_all
  then show y: "0 \<le> y" "y < 400" by simp_all
  show "era_start y \<le> doe"
  proof (rule ccontr)
    assume n: "\<not> era_start y \<le> doe"
    have "y \<noteq> 0" using n assms(1) by (auto simp: era_start_def)
    then have "era_days (era_start y - 1) < 365 * y" using era_year(2) [of "y - 1"] y by simp
    moreover have "era_days doe \<le> era_days (era_start y - 1)" using n by (intro era_days_mono) simp
    ultimately show False using lo by simp
  qed
  show "doe < era_start (y + 1)"
  proof (cases "y = 399")
    case True
    then show ?thesis using assms(2) by (simp add: era_start_def)
  next
    case False
    show ?thesis
    proof (rule ccontr)
      assume "\<not> doe < era_start (y + 1)"
      then have "era_days (era_start (y + 1)) \<le> era_days doe" by (intro era_days_mono) simp
      moreover have "365 * (y + 1) \<le> era_days (era_start (y + 1))" using False y by (intro era_year(1)) simp_all
      ultimately show False using hi by simp
    qed
  qed
qed

lemma year_length: "era_start (y + 1) \<le> era_start y + 366"
proof -
  have q: "y div 400 = y div 100 div 4" "(y + 1) div 400 = (y + 1) div 100 div 4"
    using zdiv_zmult2_eq [of 4 y 100] zdiv_zmult2_eq [of 4 "y + 1" 100] by simp_all
  have "y div 100 - y div 100 div 4 \<le> (y + 1) div 100 - (y + 1) div 100 div 4"
    using div_Suc [of 100 y] by (intro quarters) auto
  then show ?thesis unfolding era_start_def q using div_Suc [of 4 y] by (intro year_more) auto
qed

section \<open>Broken-down times\<close>

text \<open>The seconds of a broken-down time whose month is from 0 to 11.\<close>

definition civil_seconds :: "tm \<Rightarrow> int" where
  "civil_seconds t =
     (let y = tm_year t + 1900 - (if tm_mon t < 2 then 1 else 0); yoe = y mod 400; mp = (tm_mon t + 10) mod 12;
          doe = 365 * yoe + yoe div 4 - yoe div 100 + ((153 * mp + 2) div 5 + tm_mday t - 1)
      in ((y div 400) * 146097 + doe - 719468) * 86400 + tm_hour t * 3600 + tm_min t * 60 + tm_sec t)"

definition tm_ok :: "tm \<Rightarrow> bool" where
  "tm_ok t \<longleftrightarrow> 0 \<le> tm_mon t \<and> tm_mon t < 12 \<and> 1 \<le> tm_mday t \<and> tm_mday t \<le> 31 \<and> 0 \<le> tm_hour t \<and> tm_hour t < 24 \<and>
     0 \<le> tm_min t \<and> tm_min t < 60 \<and> 0 \<le> tm_sec t \<and> tm_sec t < 60"

text \<open>A day of the year that starts in March: its month and day of the month.\<close>

lemma month_of_day:
  fixes doy :: int
  assumes "0 \<le> doy" "doy \<le> 365"
  defines "mp \<equiv> (5 * doy + 2) div 153"
  shows "0 \<le> mp" "mp < 12" "1 \<le> doy - (153 * mp + 2) div 5 + 1" "doy - (153 * mp + 2) div 5 + 1 \<le> 31"
proof -
  show mp: "0 \<le> mp" "mp < 12" using assms by simp_all
  have "153 * mp \<le> 5 * doy + 2" "5 * doy + 2 < 153 * mp + 153" unfolding mp_def by linarith+
  then show "1 \<le> doy - (153 * mp + 2) div 5 + 1" "doy - (153 * mp + 2) div 5 + 1 \<le> 31" by linarith+
qed

lemma clock_back:
  fixes s :: int
  shows "s mod 86400 div 3600 * 3600 + s mod 86400 mod 3600 div 60 * 60 + s mod 86400 mod 60 = s mod 86400"
    "0 \<le> s mod 86400 div 3600" "s mod 86400 div 3600 < 24" "0 \<le> s mod 86400 mod 3600 div 60" "s mod 86400 mod 3600 div 60 < 60"
proof -
  have "s mod 86400 mod 3600 mod 60 = s mod 86400 mod 60" by (simp add: mod_mod_cancel)
  then show "s mod 86400 div 3600 * 3600 + s mod 86400 mod 3600 div 60 * 60 + s mod 86400 mod 60 = s mod 86400"
    using div_mult_mod_eq [of "s mod 86400" 3600] div_mult_mod_eq [of "s mod 86400 mod 3600" 60] by linarith
  have "(0::int) \<le> s mod 86400" "s mod 86400 < 86400" "0 \<le> s mod 86400 mod 3600" "s mod 86400 mod 3600 < 3600" by simp_all
  then show "0 \<le> s mod 86400 div 3600" "s mod 86400 div 3600 < 24" "0 \<le> s mod 86400 mod 3600 div 60" "s mod 86400 mod 3600 div 60 < 60"
    by (simp_all add: pos_imp_zdiv_nonneg_iff div_less_iff_less_mult)
qed

lemma civil_fields:
  assumes "(mth + 9) mod 12 = mp" "0 \<le> yoe" "yoe < 400"
  shows "civil_seconds \<lparr>tm_year = yoe + era * 400 + (if mth \<le> 2 then 1 else 0) - 1900, tm_mon = mth - 1, tm_mday = doy - (153 * mp + 2) div 5 + 1,
      tm_hour = h, tm_min = mi, tm_sec = sec\<rparr> =
    (era * 146097 + (365 * yoe + yoe div 4 - yoe div 100 + doy) - 719468) * 86400 + (h * 3600 + mi * 60 + sec)"
proof -
  have y: "yoe + era * 400 + (if mth \<le> 2 then 1 else 0) - 1900 + 1900 - (if mth - 1 < 2 then 1 else 0) = yoe + era * 400" by simp
  have m: "mth - 1 + 10 = mth + 9" by simp
  have "(yoe + era * 400) div 400 = era" "(yoe + era * 400) mod 400 = yoe" using assms(2,3) by simp_all
  then show ?thesis unfolding civil_seconds_def Let_def tm.select_convs y m assms(1) by simp
qed

lemma gmtime_ok: "tm_ok (gmtime s)" and civil_gmtime: "civil_seconds (gmtime s) = s"
proof -
  define z era doe where "z = s div 86400 + 719468" and "era = z div 146097" and "doe = z mod 146097"
  define yoe where "yoe = era_days doe div 365"
  define doy where "doy = doe - (365 * yoe + yoe div 4 - yoe div 100)"
  define mp where "mp = (5 * doy + 2) div 153"
  define mth where "mth = (if mp < 10 then mp + 3 else mp - 9)"
  have "0 \<le> doe" "doe < 146097" by (simp_all add: doe_def)
  note y = year_of_era [OF this, folded yoe_def]
  have "yoe div 400 = 0" using y by simp
  then have doy: "0 \<le> doy" "doy \<le> 365"
    using y year_length [of yoe] by (simp_all add: doy_def era_start_def)
  note d = month_of_day [OF doy, folded mp_def]
  have g: "gmtime s = \<lparr>tm_year = yoe + era * 400 + (if mth \<le> 2 then 1 else 0) - 1900, tm_mon = mth - 1,
      tm_mday = doy - (153 * mp + 2) div 5 + 1, tm_hour = s mod 86400 div 3600, tm_min = s mod 86400 mod 3600 div 60, tm_sec = s mod 86400 mod 60\<rparr>"
    unfolding gmtime_def Let_def z_def era_def doe_def yoe_def doy_def mp_def mth_def era_days_def by (rule refl)
  have m: "0 \<le> mth - 1" "mth - 1 < 12" "(mth + 9) mod 12 = mp" using d(1,2) by (auto simp: mth_def)
  show "tm_ok (gmtime s)" unfolding g tm_ok_def tm.select_convs
    by (intro conjI m d(3,4) clock_back(2-5) pos_mod_sign pos_mod_bound) simp_all
  have "civil_seconds (gmtime s) =
      (era * 146097 + (365 * yoe + yoe div 4 - yoe div 100 + doy) - 719468) * 86400 + s mod 86400"
    unfolding g civil_fields [OF m(3) y(1,2)] clock_back(1) by (rule refl)
  also have "365 * yoe + yoe div 4 - yoe div 100 + doy = doe" by (simp add: doy_def)
  also have "era * 146097 + doe = z" by (simp add: era_def doe_def)
  finally show "civil_seconds (gmtime s) = s" unfolding z_def by (simp add: div_mult_mod_eq)
qed

end
