(* ===== verification/Odbc_BufferTime.thy ===== *)
theory Odbc_BufferTime
  imports Odbc_Calendar Odbc_Binary
begin

text \<open>
  Dates, times, timestamps and identifiers read from the buffers of an application: \<open>GetDate\<close>, \<open>GetTime\<close>, \<open>GetTimestamp\<close> and
  \<open>GetGuid\<close> of \<open>application_data_buffer.cpp\<close> with the conversions of \<open>common/utils\<close>. The seconds of a broken-down time
  are computed by Boost, which is the parameter \<open>to_time\<close>: \<open>None\<close> is its exception for a time that is not in the
  calendar or not in the years 1400 to 9999.
\<close>

section \<open>Conversions\<close>

definition CTimeToDate :: "int \<Rightarrow> int" where
  "CTimeToDate ctime = to_signed 64 (ctime * 1000)"

definition CTimeToTime :: "int \<Rightarrow> int" where
  "CTimeToTime ctime = to_signed 64 (ctime * 1000)"

definition CTimeToTimestamp :: "int \<Rightarrow> int \<Rightarrow> Timestamp" where
  "CTimeToTimestamp ctime ns = \<lparr>ts_seconds = ctime, ts_fractionNs = ns\<rparr>"

definition ToTimeGm :: "(tm \<Rightarrow> int option) \<Rightarrow> tm \<Rightarrow> buf_error + int" where
  "ToTimeGm to_time t = (case to_time t of None \<Rightarrow> Inl Uncaught | Some s \<Rightarrow> Inr s)"

definition CTmToDate :: "(tm \<Rightarrow> int option) \<Rightarrow> tm \<Rightarrow> buf_error + int" where
  "CTmToDate to_time t = (case ToTimeGm to_time t of Inl e \<Rightarrow> Inl e | Inr s \<Rightarrow> Inr (CTimeToDate s))"

definition CTmToTime :: "(tm \<Rightarrow> int option) \<Rightarrow> tm \<Rightarrow> buf_error + int" where
  "CTmToTime to_time t = (case ToTimeGm to_time t of Inl e \<Rightarrow> Inl e | Inr s \<Rightarrow> Inr (CTimeToTime s))"

definition CTmToTimestamp :: "(tm \<Rightarrow> int option) \<Rightarrow> tm \<Rightarrow> int \<Rightarrow> buf_error + Timestamp" where
  "CTmToTimestamp to_time t ns = (case ToTimeGm to_time t of Inl e \<Rightarrow> Inl e | Inr s \<Rightarrow> Inr (CTimeToTimestamp s ns))"

definition zero_tm :: tm where
  "zero_tm = \<lparr>tm_year = 0, tm_mon = 0, tm_mday = 0, tm_hour = 0, tm_min = 0, tm_sec = 0\<rparr>"

definition MakeDateGmt :: "(tm \<Rightarrow> int option) \<Rightarrow> int \<Rightarrow> int \<Rightarrow> int \<Rightarrow> int \<Rightarrow> int \<Rightarrow> int \<Rightarrow> buf_error + int" where
  "MakeDateGmt to_time year month day hour mins sec =
     CTmToDate to_time (zero_tm\<lparr>tm_year := year - 1900, tm_mon := month - 1, tm_mday := day, tm_hour := hour, tm_min := mins, tm_sec := sec\<rparr>)"

definition MakeTimeGmt :: "(tm \<Rightarrow> int option) \<Rightarrow> int \<Rightarrow> int \<Rightarrow> int \<Rightarrow> buf_error + int" where
  "MakeTimeGmt to_time hour mins sec =
     CTmToTime to_time (zero_tm\<lparr>tm_year := 70, tm_mon := 0, tm_mday := 1, tm_hour := hour, tm_min := mins, tm_sec := sec\<rparr>)"

definition MakeTimestampGmt :: "(tm \<Rightarrow> int option) \<Rightarrow> int \<Rightarrow> int \<Rightarrow> int \<Rightarrow> int \<Rightarrow> int \<Rightarrow> int \<Rightarrow> int \<Rightarrow> buf_error + Timestamp" where
  "MakeTimestampGmt to_time year month day hour mins sec ns =
     CTmToTimestamp to_time
       (zero_tm\<lparr>tm_year := year - 1900, tm_mon := month - 1, tm_mday := day, tm_hour := hour, tm_min := mins, tm_sec := sec\<rparr>)
       (to_signed 32 ns)"

section \<open>Times from a buffer\<close>

text \<open>\<open>sscanf\<close> for the formats of the source: a number, a character, white space. The result is the list of the
  values assigned; the language does not define a number outside the type.\<close>

datatype scan_item = SInt | SLit char | SSpace

definition scan_int :: "string \<Rightarrow> (int \<times> string) option" where
  "scan_int s =
     (let t = dropWhile isspace s; neg = (t \<noteq> [] \<and> hd t = CHR ''-'');
          body = (if t \<noteq> [] \<and> (hd t = CHR ''-'' \<or> hd t = CHR ''+'') then tl t else t);
          ds = takeWhile isdigit body
      in if ds = [] then None else Some ((if neg then - int (dec_val ds) else int (dec_val ds)), dropWhile isdigit body))"

fun sscanf :: "scan_item list \<Rightarrow> string \<Rightarrow> int list" where
  "sscanf [] s = []"
| "sscanf (SInt # f) s = (case scan_int s of None \<Rightarrow> [] | Some (v, r) \<Rightarrow> v # sscanf f r)"
| "sscanf (SLit c # f) s = (if s \<noteq> [] \<and> hd s = c then sscanf f (tl s) else [])"
| "sscanf (SSpace # f) s = sscanf f (dropWhile isspace s)"

definition time_format :: "scan_item list" where
  "time_format = [SInt, SLit (CHR '':''), SInt, SLit (CHR '':''), SInt]"

definition timestamp_format :: "scan_item list" where
  "timestamp_format = [SInt, SLit (CHR ''-''), SInt, SLit (CHR ''-''), SInt, SSpace] @ time_format"

definition time_setters :: "(int \<Rightarrow> tm \<Rightarrow> tm) list" where
  "time_setters = [\<lambda>v t. t\<lparr>tm_hour := v\<rparr>, \<lambda>v t. t\<lparr>tm_min := v\<rparr>, \<lambda>v t. t\<lparr>tm_sec := v\<rparr>]"

definition timestamp_setters :: "(int \<Rightarrow> tm \<Rightarrow> tm) list" where
  "timestamp_setters = [\<lambda>v t. t\<lparr>tm_year := v\<rparr>, \<lambda>v t. t\<lparr>tm_mon := v\<rparr>, \<lambda>v t. t\<lparr>tm_mday := v\<rparr>] @ time_setters"

text \<open>The text branches: an empty text leaves the time as it is.\<close>

definition scan_tm :: "scan_item list \<Rightarrow> (int \<Rightarrow> tm \<Rightarrow> tm) list \<Rightarrow> string \<Rightarrow> tm \<Rightarrow> buf_error + tm" where
  "scan_tm format setters str t =
     (let vs = sscanf format (takeWhile (\<lambda>c. c \<noteq> CHR 0x00) str)
      in if list_all int32 vs then Inr (fold (\<lambda>(f, v) t. f v t) (zip setters vs) t) else Inl Undefined)"

definition text_time :: "Platform \<Rightarrow> nat \<Rightarrow> mem \<Rightarrow> ApplicationDataBuffer \<Rightarrow> tm \<Rightarrow> buf_error + tm" where
  "text_time pl bound m b t =
     (if GetInputSize pl m b = 0 then Inr t
      else case buffer_text pl bound m b of Inl e \<Rightarrow> Inl e | Inr str \<Rightarrow> scan_tm time_format time_setters str t)"

definition text_timestamp :: "Platform \<Rightarrow> nat \<Rightarrow> mem \<Rightarrow> ApplicationDataBuffer \<Rightarrow> tm \<Rightarrow> buf_error + tm" where
  "text_timestamp pl bound m b t =
     (if GetInputSize pl m b = 0 then Inr t
      else case buffer_text pl bound m b of
             Inl e \<Rightarrow> Inl e
           | Inr str \<Rightarrow>
               (case scan_tm timestamp_format timestamp_setters str t of
                  Inl e \<Rightarrow> Inl e
                | Inr t' \<Rightarrow>
                    if int32 (tm_year t' - 1900) \<and> int32 (tm_mon t' - 1)
                    then Inr (t'\<lparr>tm_year := tm_year t' - 1900, tm_mon := tm_mon t' - 1\<rparr>) else Inl Undefined))"

text \<open>The structures of ODBC: the year is signed, the other fields are not.\<close>

definition u16_at :: "nat \<Rightarrow> u8 list \<Rightarrow> int" where
  "u16_at i bs = uint_of_bytes (take 2 (drop i bs))"

definition date_fields :: "u8 list \<Rightarrow> tm \<Rightarrow> tm" where
  "date_fields bs t = t\<lparr>tm_year := sint_of_bytes (take 2 bs) - 1900, tm_mon := u16_at 2 bs - 1, tm_mday := u16_at 4 bs\<rparr>"

definition time_fields :: "nat \<Rightarrow> u8 list \<Rightarrow> tm \<Rightarrow> tm" where
  "time_fields i bs t = t\<lparr>tm_hour := u16_at i bs, tm_min := u16_at (i + 2) bs, tm_sec := u16_at (i + 4) bs\<rparr>"

definition struct_tm :: "mem \<Rightarrow> ApplicationDataBuffer \<Rightarrow> nat \<Rightarrow> (u8 list \<Rightarrow> tm) \<Rightarrow> buf_error + tm" where
  "struct_tm m b n f = (case read_data m b n of Inl e \<Rightarrow> Inl e | Inr bs \<Rightarrow> Inr (f bs))"

text \<open>The switch that \<open>GetDate\<close> and \<open>GetTimestamp\<close> share.\<close>

definition timestamp_tm :: "Platform \<Rightarrow> nat \<Rightarrow> mem \<Rightarrow> ApplicationDataBuffer \<Rightarrow> buf_error + tm" where
  "timestamp_tm pl bound m b =
     (case buf_type b of
        AI_TDATE \<Rightarrow> struct_tm m b 6 (\<lambda>bs. date_fields bs zero_tm)
      | AI_TTIME \<Rightarrow> struct_tm m b 6 (\<lambda>bs. time_fields 0 bs (zero_tm\<lparr>tm_year := 70, tm_mday := 1\<rparr>))
      | AI_TTIMESTAMP \<Rightarrow> struct_tm m b 16 (\<lambda>bs. time_fields 6 bs (date_fields bs zero_tm))
      | AI_CHAR \<Rightarrow> text_timestamp pl bound m b zero_tm
      | AI_WCHAR \<Rightarrow> text_timestamp pl bound m b zero_tm
      | _ \<Rightarrow> Inr zero_tm)"

definition GetDate :: "Platform \<Rightarrow> nat \<Rightarrow> (tm \<Rightarrow> int option) \<Rightarrow> mem \<Rightarrow> ApplicationDataBuffer \<Rightarrow> buf_error + int" where
  "GetDate pl bound to_time m b =
     (case timestamp_tm pl bound m b of Inl e \<Rightarrow> Inl e | Inr t \<Rightarrow> CTmToDate to_time t)"

definition timestamp_nanos :: "mem \<Rightarrow> ApplicationDataBuffer \<Rightarrow> buf_error + int" where
  "timestamp_nanos m b =
     (if buf_type b = AI_TTIMESTAMP
      then (case read_data m b 16 of Inl e \<Rightarrow> Inl e | Inr bs \<Rightarrow> Inr (to_signed 32 (uint_of_bytes (take 4 (drop 12 bs)))))
      else Inr 0)"

definition GetTimestamp :: "Platform \<Rightarrow> nat \<Rightarrow> (tm \<Rightarrow> int option) \<Rightarrow> mem \<Rightarrow> ApplicationDataBuffer \<Rightarrow> buf_error + Timestamp" where
  "GetTimestamp pl bound to_time m b =
     (case timestamp_tm pl bound m b of
        Inl e \<Rightarrow> Inl e
      | Inr t \<Rightarrow> (case timestamp_nanos m b of Inl e \<Rightarrow> Inl e | Inr nanos \<Rightarrow> CTmToTimestamp to_time t nanos))"

definition time_tm :: "Platform \<Rightarrow> nat \<Rightarrow> mem \<Rightarrow> ApplicationDataBuffer \<Rightarrow> buf_error + tm" where
  "time_tm pl bound m b =
     (let t0 = zero_tm\<lparr>tm_year := 70, tm_mon := 0, tm_mday := 1\<rparr>
      in case buf_type b of
           AI_TTIME \<Rightarrow> struct_tm m b 6 (\<lambda>bs. time_fields 0 bs t0)
         | AI_TTIMESTAMP \<Rightarrow> struct_tm m b 16 (\<lambda>bs. time_fields 6 bs t0)
         | AI_CHAR \<Rightarrow> text_time pl bound m b t0
         | AI_WCHAR \<Rightarrow> text_time pl bound m b t0
         | _ \<Rightarrow> Inr t0)"

definition GetTime :: "Platform \<Rightarrow> nat \<Rightarrow> (tm \<Rightarrow> int option) \<Rightarrow> mem \<Rightarrow> ApplicationDataBuffer \<Rightarrow> buf_error + int" where
  "GetTime pl bound to_time m b =
     (case time_tm pl bound m b of Inl e \<Rightarrow> Inl e | Inr t \<Rightarrow> CTmToTime to_time t)"

section \<open>Identifiers from a buffer\<close>

text \<open>Reading a hexadecimal number from a stream: at the end of the text the variable is not assigned, without a digit it is set
  to zero and the stream fails, and so does a number of more than 64 bits, which is set to the largest one.\<close>

datatype hex_read = Hex_end | Hex_bad u64 | Hex_ok u64 string

fun hex_value :: "char \<Rightarrow> nat option" where
  "hex_value c =
     (if isdigit c then Some (char_digit c)
      else let n = of_char c :: nat
           in if 97 \<le> n \<and> n \<le> 102 then Some (n - 87) else if 65 \<le> n \<and> n \<le> 70 then Some (n - 55) else None)"

definition is_hex :: "char \<Rightarrow> bool" where
  "is_hex c \<longleftrightarrow> hex_value c \<noteq> None"

definition hex_val :: "string \<Rightarrow> nat" where
  "hex_val s = foldl (\<lambda>n c. 16 * n + the (hex_value c)) 0 s"

definition read_hex :: "string \<Rightarrow> hex_read" where
  "read_hex s =
     (let t = dropWhile isspace s
      in if t = [] then Hex_end
         else let neg = (hd t = CHR ''-''); t1 = (if hd t = CHR ''-'' \<or> hd t = CHR ''+'' then tl t else t);
                  t2 = (if take 2 t1 = ''0x'' \<or> take 2 t1 = ''0X'' then drop 2 t1 else t1);
                  ds = takeWhile is_hex t2; n = hex_val ds
              in if ds = [] then Hex_bad 0 else if 2 ^ 64 \<le> n then Hex_bad (- 1)
                 else Hex_ok (if neg then - word_of_nat n else word_of_nat n) (dropWhile is_hex t2))"

text \<open>\<open>operator>>\<close> for a \<open>Guid\<close>: \<open>Inr None\<close> when a separator is not a dash and the result is left alone; a part that was
  not assigned is used in the result, or a separator that was not read is compared.\<close>

fun read_parts :: "nat \<Rightarrow> string \<Rightarrow> buf_error + (u64 list \<times> string) option" where
  "read_parts 0 s = Inr (Some ([], s))"
| "read_parts (Suc n) s =
     (case read_hex s of
        Hex_ok v r \<Rightarrow>
          (case dropWhile isspace r of
             [] \<Rightarrow> Inl Uninitialized
           | delim # r' \<Rightarrow>
               if delim \<noteq> CHR ''-'' then Inr None
               else (case read_parts n r' of
                       Inl e \<Rightarrow> Inl e | Inr None \<Rightarrow> Inr None | Inr (Some (vs, r'')) \<Rightarrow> Inr (Some (v # vs, r''))))
      | _ \<Rightarrow> Inl Uninitialized)"

definition read_guid :: "string \<Rightarrow> Guid \<Rightarrow> buf_error + Guid" where
  "read_guid s guid =
     (case read_parts 4 s of
        Inl e \<Rightarrow> Inl e
      | Inr None \<Rightarrow> Inr guid
      | Inr (Some (vs, r)) \<Rightarrow>
          let result = (\<lambda>v. Inr \<lparr>guid_most = push_bit 32 (vs ! 0) OR push_bit 16 (vs ! 1) OR vs ! 2, guid_least = push_bit 48 (vs ! 3) OR v\<rparr>)
          in case read_hex r of Hex_end \<Rightarrow> Inl Uninitialized | Hex_bad v \<Rightarrow> result v | Hex_ok v r' \<Rightarrow> result v)"

definition zero_guid :: Guid where
  "zero_guid = \<lparr>guid_most = 0, guid_least = 0\<rparr>"

definition GetGuid :: "Platform \<Rightarrow> nat \<Rightarrow> mem \<Rightarrow> ApplicationDataBuffer \<Rightarrow> buf_error + Guid" where
  "GetGuid pl bound m b =
     (if buf_type b = AI_CHAR \<or> buf_type b = AI_WCHAR then
        if GetInputSize pl m b = 0 then Inr zero_guid
        else (case buffer_text pl bound m b of Inl e \<Rightarrow> Inl e | Inr str \<Rightarrow> read_guid str zero_guid)
      else if buf_type b = AI_GUID then GetGuid_binary m b
      else Inr zero_guid)"

end
