(* ===== verification/Odbc_BufferTimeProps.thy ===== *)
theory Odbc_BufferTimeProps
  imports Odbc_BufferTime
begin

text \<open>
  Times and identifiers survive a buffer: what the driver puts into a buffer as a structure or as text, it reads back.
\<close>

section \<open>Text of a time\<close>

lemma scan_int_digits:
  assumes "ds \<noteq> []" "list_all isdigit ds" "rest = [] \<or> \<not> isdigit (hd rest)"
  shows "scan_int (ds @ rest) = Some (int (dec_val ds), rest)"
proof -
  have h: "isdigit (hd ds)" using assms(1,2) by (cases ds) auto
  then have s: "\<not> isspace (hd ds)" "hd ds \<noteq> CHR ''-''" "hd ds \<noteq> CHR ''+''" using isdigit_not_isspace by (auto simp: isdigit_def)
  have d: "dropWhile isspace (ds @ rest) = ds @ rest" using s(1) assms(1) by (cases ds) auto
  have "takeWhile isdigit (ds @ rest) = ds" "dropWhile isdigit (ds @ rest) = rest"
    using assms(2,3) by (cases rest; simp add: takeWhile_append dropWhile_append list_all_iff)+
  then show ?thesis using assms(1) s d by (simp add: scan_int_def Let_def)
qed

lemma two_digits_fixed: "0 \<le> v \<Longrightarrow> v < 100 \<Longrightarrow> two_digits v = fixed_digits 2 (nat v)"
  using fixed_digits_pad [of 2 "nat v"] by (simp add: two_digits_def nat_less_iff)

lemma two_digits_chars: "0 \<le> v \<Longrightarrow> v < 100 \<Longrightarrow> two_digits v = [digit_char (nat v div 10 mod 10), digit_char (nat v mod 10)]"
  by (simp add: two_digits_fixed numeral_2_eq_2)

lemma dec_val_two_digits: "0 \<le> v \<Longrightarrow> v < 100 \<Longrightarrow> dec_val (two_digits v) = nat v"
proof -
  assume v: "0 \<le> v" "v < 100"
  then have "nat v div 10 < 10" by (simp add: nat_less_iff div_less_iff_less_mult)
  then show "dec_val (two_digits v) = nat v" using v by (simp add: two_digits_chars dec_val_def)
qed

lemma scan_two_digits:
  assumes "0 \<le> v" "v < 100" "rest = [] \<or> \<not> isdigit (hd rest)"
  shows "scan_int (two_digits v @ rest) = Some (v, rest)"
  using scan_int_digits [of "two_digits v" rest] assms dec_val_two_digits [OF assms(1,2)]
  by (simp add: two_digits_chars isdigit_digit_char)

lemma scan_year:
  assumes "0 \<le> y" "rest = [] \<or> \<not> isdigit (hd rest)"
  shows "scan_int (int_string y @ rest) = Some (y, rest)"
  using scan_int_digits [of "dec_string (nat y)" rest] assms by (simp add: int_string_def dec_string_digits)

lemma sscanf_time:
  "tm_ok t \<Longrightarrow> sscanf time_format (format_time t) = [tm_hour t, tm_min t, tm_sec t]"
  using scan_two_digits [of "tm_sec t" "[]"]
  by (simp add: tm_ok_def time_format_def format_time_def scan_two_digits isdigit_def)

lemma space_before_time: "tm_ok t \<Longrightarrow> dropWhile isspace (CHR '' '' # format_time t) = format_time t"
  using isdigit_not_isspace [of "digit_char (nat (tm_hour t) div 10 mod 10)"]
  by (simp add: tm_ok_def format_time_def two_digits_chars isdigit_digit_char isspace_def)

lemma sscanf_timestamp:
  assumes "tm_ok t" "0 \<le> tm_year t + 1900"
  shows "sscanf timestamp_format (format_timestamp t) =
    [tm_year t + 1900, tm_mon t + 1, tm_mday t, tm_hour t, tm_min t, tm_sec t]"
proof -
  have "sscanf timestamp_format (format_timestamp t) =
    [tm_year t + 1900, tm_mon t + 1, tm_mday t] @ sscanf time_format (dropWhile isspace (CHR '' '' # format_time t))"
    using assms by (simp add: tm_ok_def timestamp_format_def format_timestamp_def format_date_def scan_year scan_two_digits isdigit_def)
  then show ?thesis using assms(1) by (simp only: space_before_time sscanf_time) simp
qed

lemma time_chars: "tm_ok t \<Longrightarrow> c \<in> set (format_time t) \<Longrightarrow> isdigit c \<or> c = CHR '':''"
  by (auto simp: tm_ok_def format_time_def two_digits_chars isdigit_digit_char)

lemma date_chars: "tm_ok t \<Longrightarrow> 0 \<le> tm_year t + 1900 \<Longrightarrow> c \<in> set (format_date t) \<Longrightarrow> isdigit c \<or> c = CHR ''-''"
  by (auto simp: tm_ok_def format_date_def two_digits_chars isdigit_digit_char int_string_def dest: dec_string_isdigit)

lemma timestamp_chars:
  "tm_ok t \<Longrightarrow> 0 \<le> tm_year t + 1900 \<Longrightarrow> c \<in> set (format_timestamp t) \<Longrightarrow> c \<noteq> CHR 0x00"
  using time_chars [of t c] date_chars [of t c] by (auto simp: format_timestamp_def isdigit_def)

lemma length_year: "1000 \<le> y \<Longrightarrow> y \<le> 9999 \<Longrightarrow> length (int_string y) = 4"
proof -
  assume y: "1000 \<le> y" "y \<le> 9999"
  then have "dec_string (nat y) = dec_string (nat y div 10 ^ 3) @ fixed_digits 3 (nat y)"
    by (intro dec_string_split) simp
  moreover have "nat y div 1000 < 10" using y by (simp add: div_less_iff_less_mult)
  ultimately show "length (int_string y) = 4" using y by (simp add: int_string_def dec_string_small numeral_3_eq_3)
qed

lemma length_timestamp: "tm_ok t \<Longrightarrow> 1000 \<le> tm_year t + 1900 \<Longrightarrow> tm_year t + 1900 \<le> 9999 \<Longrightarrow> length (format_timestamp t) = 19"
  by (simp add: format_timestamp_def format_date_def format_time_def tm_ok_def two_digits_chars length_year)

lemma chars_of_bytes: "map (\<lambda>b. char_of (unat b)) (string_bytes s) = s"
  by (simp add: string_bytes_def unat_of_nat take_bit_eq_mod comp_def map_idI)

lemma scan_tm_timestamp:
  assumes "tm_ok t" "1400 \<le> tm_year t + 1900" "tm_year t + 1900 \<le> 9999"
  shows "scan_tm timestamp_format timestamp_setters (format_timestamp t) zero_tm = Inr (t\<lparr>tm_year := tm_year t + 1900, tm_mon := tm_mon t + 1\<rparr>)"
proof -
  have tw: "takeWhile (\<lambda>c. c \<noteq> CHR 0x00) (format_timestamp t) = format_timestamp t"
    using assms timestamp_chars [of t] by (simp add: takeWhile_eq_all_conv)
  have "0 \<le> tm_year t + 1900" using assms(2) by simp
  note sc = sscanf_timestamp [OF assms(1) this]
  show ?thesis
    unfolding scan_tm_def tw sc Let_def using assms
    by (simp add: timestamp_setters_def time_setters_def zero_tm_def int32_def tm_ok_def)
qed

section \<open>Times through a buffer\<close>

lemma text_in_buffer:
  fixes m :: mem
  assumes "GetData b = Some a" "GetResLen b \<noteq> None" "separate b (Suc (length s))" "buf_type b = AI_CHAR"
    and "0 < length s" "length s < 2 ^ 31" "int (length s) < buflen b"
  defines "m' \<equiv> snd (put_tm_char m b (int (length s)) s)"
  shows "GetInputSize pl m' b = int (length s)" "buffer_text pl bound m' b = Inr s"
proof -
  obtain r where r: "GetResLen b = Some r" using assms(2) by blast
  have m': "m' = write_bytes (put_reslen m b (int (length s))) a (string_bytes s @ [0])"
    using assms(1,7) by (simp add: m'_def put_tm_char_def strftime_to_def put_data_def)
  have l: "length (string_bytes s @ [0]) = Suc (length s)" by (simp add: string_bytes_def)
  have "r + 8 \<le> a \<or> a + Suc (length s) \<le> r" using assms(1,3) r by (simp add: separate_def)
  then have "get_reslen m' b = get_reslen (put_reslen m b (int (length s))) b"
    using read_write_disjoint [of r 8 a "string_bytes s @ [0]"] r l by (auto simp: get_reslen_def m')
  also have "\<dots> = Some (int (length s))"
    using get_put_reslen [OF r] assms(6) by (simp add: to_signed_id)
  finally have g: "get_reslen m' b = Some (int (length s))" .
  moreover have t: "to_signed 32 (int (length s)) = int (length s)" using assms(6) by (intro to_signed_id) simp_all
  ultimately show n: "GetInputSize pl m' b = int (length s)"
    by (simp add: GetInputSize_def IsDataAtExec_def SQL_LEN_DATA_AT_EXEC_OFFSET_def SQL_DATA_AT_EXEC_def)
  have "read_bytes m' a (length s) = string_bytes s"
    using read_write_prefix [of "length s" "string_bytes s @ [0]" "put_reslen m b (int (length s))" a] by (simp add: m' string_bytes_def)
  then show "buffer_text pl bound m' b = Inr s"
    using assms(1,4,5) n t by (simp add: buffer_text_def SqlCharToString_def chars_of_bytes)
qed

lemma put_struct_read:
  assumes "GetData b = Some a" "separate b (length bs)"
  shows "\<exists>m'. put_struct m b bs res = Inr (res, m') \<and> read_data m' b (length bs) = Inr bs"
  using assms read_put_reslen [OF assms le_refl] by (simp add: put_struct_def read_data_def)

lemma u16_field: "0 \<le> v \<Longrightarrow> v < 65536 \<Longrightarrow> uint_of_bytes (int_bytes 2 v) = v"
  by (simp add: uint_of_int_bytes)

lemma date_struct_read:
  assumes "tm_ok t" "-32768 \<le> tm_year t + 1900" "tm_year t + 1900 < 32768"
  shows "date_fields (date_struct t @ bs) u = u\<lparr>tm_year := tm_year t, tm_mon := tm_mon t, tm_mday := tm_mday t\<rparr>"
  using assms to_signed_id [of 16 "tm_year t + 1900"]
  by (simp add: date_fields_def date_struct_def u16_at_def sint_of_int_bytes u16_field tm_ok_def)

lemma time_struct_read:
  assumes "tm_ok t" "length pre = i"
  shows "time_fields i (pre @ time_struct t @ bs) u = u\<lparr>tm_hour := tm_hour t, tm_min := tm_min t, tm_sec := tm_sec t\<rparr>"
  using assms by (simp add: time_fields_def time_struct_def u16_at_def u16_field tm_ok_def)

text \<open>What the driver asks of Boost: the seconds of a broken-down time of the years 1400 to 9999 are those it was made from.\<close>

definition boost_years :: "int \<Rightarrow> bool" where
  "boost_years s \<longleftrightarrow> 1400 \<le> tm_year (gmtime s) + 1900 \<and> tm_year (gmtime s) + 1900 \<le> 9999"

definition calendar_law :: "(tm \<Rightarrow> int option) \<Rightarrow> bool" where
  "calendar_law to_time \<longleftrightarrow> (\<forall>s. boost_years s \<longrightarrow> to_time (gmtime s) = Some s)"

text \<open>The day and the time of a moment.\<close>

lemma gmtime_fields:
  "tm_hour (gmtime s) = s mod 86400 div 3600" "tm_min (gmtime s) = s mod 86400 mod 3600 div 60" "tm_sec (gmtime s) = s mod 86400 mod 60"
  by (simp_all only: gmtime_def Let_def tm.select_convs)

lemma gmtime_day: "gmtime (s - s mod 86400) = (gmtime s)\<lparr>tm_hour := 0, tm_min := 0, tm_sec := 0\<rparr>"
proof -
  have e: "(s - s mod 86400) div 86400 = s div 86400" "(s - s mod 86400) mod 86400 = 0"
    by (simp_all add: minus_mod_eq_mult_div)
  show ?thesis by (simp only: gmtime_def Let_def e tm.update_convs div_0 mod_0)
qed

lemma gmtime_first_day:
  assumes "0 \<le> x" "x < 86400"
  shows "gmtime x = \<lparr>tm_year = 70, tm_mon = 0, tm_mday = 1, tm_hour = x div 3600, tm_min = x mod 3600 div 60, tm_sec = x mod 60\<rparr>"
proof -
  have e: "x div 86400 = 0" "x mod 86400 = x" using assms by simp_all
  show ?thesis unfolding gmtime_def Let_def e by simp
qed

lemma gmtime_clock:
  "gmtime (s mod 86400) = zero_tm\<lparr>tm_year := 70, tm_mon := 0, tm_mday := 1, tm_hour := tm_hour (gmtime s), tm_min := tm_min (gmtime s), tm_sec := tm_sec (gmtime s)\<rparr>"
  unfolding gmtime_fields by (subst gmtime_first_day) (simp_all only: zero_tm_def tm.update_convs pos_mod_sign pos_mod_bound zero_less_numeral)

lemma boost_years_day: "boost_years s \<Longrightarrow> boost_years (s - s mod 86400)"
  by (simp add: boost_years_def gmtime_day)

lemma boost_years_clock: "boost_years (s mod 86400)"
  by (simp add: boost_years_def gmtime_clock)

lemma timestamp_through_struct:
  assumes "calendar_law to_time" "boost_years s" "GetData b = Some a" "separate b 16" "buf_type b = AI_TTIMESTAMP" "0 \<le> f" "f < 1000000000"
  shows "\<exists>m'. PutTimestamp pl m b (gmtime s) f = Inr (CR_SUCCESS, m') \<and>
    GetTimestamp pl bound to_time m' b = Inr \<lparr>ts_seconds = s, ts_fractionNs = f\<rparr>"
proof -
  let ?bs = "timestamp_struct (gmtime s) f"
  have l: "length ?bs = 16" "length (date_struct (gmtime s)) = 6" by (simp_all add: timestamp_struct_def date_struct_def time_struct_def)
  obtain m' where m': "put_struct m b ?bs CR_SUCCESS = Inr (CR_SUCCESS, m')" "read_data m' b 16 = Inr ?bs"
    using put_struct_read [OF assms(3), of ?bs m CR_SUCCESS] assms(4) l by auto
  have "time_fields 6 ?bs (date_fields ?bs zero_tm) = gmtime s"
    using gmtime_ok [of s] assms(2) time_struct_read [OF gmtime_ok l(2)] date_struct_read [OF gmtime_ok, of s]
    by (simp add: timestamp_struct_def boost_years_def zero_tm_def)
  then have "timestamp_tm pl bound m' b = Inr (gmtime s)"
    using assms(5) m'(2) by (simp add: timestamp_tm_def struct_tm_def)
  moreover have "timestamp_nanos m' b = Inr f"
    using assms(5-7) m'(2) to_signed_id [of 32 f]
    by (simp add: timestamp_nanos_def timestamp_struct_def date_struct_def time_struct_def uint_of_int_bytes)
  ultimately show ?thesis
    using assms(1,2,5) m'(1)
    by (simp add: PutTimestamp_def GetTimestamp_def CTmToTimestamp_def ToTimeGm_def CTimeToTimestamp_def calendar_law_def)
qed

lemma timestamp_through_text:
  assumes "calendar_law to_time" "boost_years s" "GetData b = Some a" "separate b 20" "buf_type b = AI_CHAR" "20 \<le> buflen b" "GetResLen b \<noteq> None"
  shows "\<exists>m'. PutTimestamp pl m b (gmtime s) f = Inr (CR_SUCCESS, m') \<and>
    GetTimestamp pl bound to_time m' b = Inr \<lparr>ts_seconds = s, ts_fractionNs = 0\<rparr>"
proof -
  let ?t = "gmtime s" let ?s = "format_timestamp ?t" let ?m = "snd (put_tm_char m b 19 ?s)"
  have y: "1400 \<le> tm_year ?t + 1900" "tm_year ?t + 1900 \<le> 9999" using assms(2) by (simp_all add: boost_years_def)
  have l: "length ?s = 19" using length_timestamp [OF gmtime_ok, of s] y by simp
  have b: "GetInputSize pl ?m b = 19" "buffer_text pl bound ?m b = Inr ?s"
    using text_in_buffer [where b = b and a = a and s = ?s and m = m] assms l by simp_all
  have "int32 (tm_year ?t)" "int32 (tm_mon ?t)" using gmtime_ok [of s] y by (simp_all add: int32_def tm_ok_def)
  then have "text_timestamp pl bound ?m b zero_tm = Inr ?t"
    using b scan_tm_timestamp [OF gmtime_ok y] by (simp add: text_timestamp_def)
  moreover have "PutTimestamp pl m b ?t f = Inr (CR_SUCCESS, ?m)"
    using assms(5,6) by (simp add: PutTimestamp_def put_tm_char_def)
  ultimately show ?thesis
    using assms(1,2,5) by (simp add: GetTimestamp_def timestamp_tm_def timestamp_nanos_def CTmToTimestamp_def ToTimeGm_def
        CTimeToTimestamp_def calendar_law_def)
qed

lemma date_through_struct:
  assumes "calendar_law to_time" "boost_years s" "GetData b = Some a" "separate b 6" "buf_type b = AI_TDATE"
  shows "\<exists>m'. PutDate pl m b (gmtime s) = Inr (CR_SUCCESS, m') \<and> GetDate pl bound to_time m' b = Inr (to_signed 64 ((s - s mod 86400) * 1000))"
proof -
  let ?bs = "date_struct (gmtime s)"
  have l: "length ?bs = 6" by (simp add: date_struct_def)
  obtain m' where m': "put_struct m b ?bs CR_SUCCESS = Inr (CR_SUCCESS, m')" "read_data m' b 6 = Inr ?bs"
    using put_struct_read [OF assms(3), of ?bs m CR_SUCCESS] assms(4) l by auto
  have "date_fields ?bs zero_tm = gmtime (s - s mod 86400)"
    using assms(2) date_struct_read [OF gmtime_ok, of s "[]" zero_tm] by (simp add: boost_years_def zero_tm_def gmtime_day)
  then show ?thesis
    using assms(1,5) m' boost_years_day [OF assms(2)]
    by (simp add: PutDate_def GetDate_def timestamp_tm_def struct_tm_def CTmToDate_def ToTimeGm_def CTimeToDate_def calendar_law_def)
qed

lemma time_through_struct:
  assumes "calendar_law to_time" "GetData b = Some a" "separate b 6" "buf_type b = AI_TTIME"
  shows "\<exists>m'. PutTime pl m b (gmtime s) = Inr (CR_SUCCESS, m') \<and> GetTime pl bound to_time m' b = Inr (s mod 86400 * 1000)"
proof -
  let ?bs = "time_struct (gmtime s)"
  have l: "length ?bs = 6" by (simp add: time_struct_def)
  obtain m' where m': "put_struct m b ?bs CR_SUCCESS = Inr (CR_SUCCESS, m')" "read_data m' b 6 = Inr ?bs"
    using put_struct_read [OF assms(2), of ?bs m CR_SUCCESS] assms(3) l by auto
  have "time_fields 0 ?bs (zero_tm\<lparr>tm_year := 70, tm_mon := 0, tm_mday := 1\<rparr>) = gmtime (s mod 86400)"
    using time_struct_read [OF gmtime_ok, of "[]" 0 s "[]"] by (simp add: gmtime_clock)
  moreover have "to_signed 64 (s mod 86400 * 1000) = s mod 86400 * 1000"
  proof (intro to_signed_id)
    have "0 \<le> s mod 86400" "s mod 86400 < 86400" by simp_all
    then show "- (2 ^ (64 - 1)) \<le> s mod 86400 * 1000" "s mod 86400 * 1000 < 2 ^ (64 - 1)" by simp_all
  qed simp
  ultimately show ?thesis
    using assms(1,4) m' boost_years_clock [of s]
    by (simp add: PutTime_def GetTime_def time_tm_def struct_tm_def CTmToTime_def ToTimeGm_def CTimeToTime_def calendar_law_def)
qed

lemma separate_less: "separate b n \<Longrightarrow> k \<le> n \<Longrightarrow> separate b k"
  by (auto simp: separate_def split: option.splits)

text \<open>(C25) Times through the buffers of an application. With a calendar that keeps its law, a moment of the years 1400 to 9999
  that is put into a timestamp structure is read back with its fraction; as narrow text it is read back without the fraction;
  from a date structure comes the start of its day, and from a time structure the time of the day.\<close>

theorem times_through_buffers:
  assumes "calendar_law to_time" "boost_years s" "GetData b = Some a" "GetResLen b \<noteq> None" "separate b 20" "20 \<le> buflen b"
    and "0 \<le> f" "f < 1000000000"
  shows "(buf_type b = AI_TTIMESTAMP \<longrightarrow> (\<exists>m'. PutTimestamp pl m b (gmtime s) f = Inr (CR_SUCCESS, m') \<and>
        GetTimestamp pl bound to_time m' b = Inr \<lparr>ts_seconds = s, ts_fractionNs = f\<rparr>)) \<and>
    (buf_type b = AI_CHAR \<longrightarrow> (\<exists>m'. PutTimestamp pl m b (gmtime s) f = Inr (CR_SUCCESS, m') \<and>
        GetTimestamp pl bound to_time m' b = Inr \<lparr>ts_seconds = s, ts_fractionNs = 0\<rparr>)) \<and>
    (buf_type b = AI_TDATE \<longrightarrow> (\<exists>m'. PutDate pl m b (gmtime s) = Inr (CR_SUCCESS, m') \<and>
        GetDate pl bound to_time m' b = Inr (to_signed 64 ((s - s mod 86400) * 1000)))) \<and>
    (buf_type b = AI_TTIME \<longrightarrow> (\<exists>m'. PutTime pl m b (gmtime s) = Inr (CR_SUCCESS, m') \<and>
        GetTime pl bound to_time m' b = Inr (s mod 86400 * 1000)))"
  using timestamp_through_struct [OF assms(1-3) separate_less [OF assms(5)]] timestamp_through_text [OF assms(1-3,5)]
    date_through_struct [OF assms(1-3) separate_less [OF assms(5)]] time_through_struct [OF assms(1,3) separate_less [OF assms(5)]] assms
  by simp

text \<open>The Gregorian calendar keeps the law.\<close>

definition gregorian :: "tm \<Rightarrow> int option" where
  "gregorian t = (if tm_ok t \<and> 1400 \<le> tm_year t + 1900 \<and> tm_year t + 1900 \<le> 9999 then Some (civil_seconds t) else None)"

lemma gregorian_law: "calendar_law gregorian"
  by (simp add: calendar_law_def gregorian_def gmtime_ok civil_gmtime boost_years_def)

theorem times_through_buffers_witness:
  "\<exists>m'. PutTimestamp (plain_platform 8) (\<lambda>_. 0) (buffer_at AI_CHAR 100 20 8) (gmtime 1700000000) 5 = Inr (CR_SUCCESS, m') \<and>
     GetTimestamp (plain_platform 8) 0 gregorian m' (buffer_at AI_CHAR 100 20 8) = Inr \<lparr>ts_seconds = 1700000000, ts_fractionNs = 0\<rparr>"
proof -
  have y: "boost_years 1700000000" by code_simp
  have b: "separate (buffer_at AI_CHAR 100 20 8) 20" by (simp add: separate_def)
  show ?thesis using times_through_buffers [OF gregorian_law y _ _ b, of 100 5 "plain_platform 8" "\<lambda>_. 0" 0] by simp
qed

text \<open>A text that is no date is scanned as far as it goes: the calendar is asked for a day zero, and its exception leaves the
  driver.\<close>

lemma malformed_date:
  "scan_tm timestamp_format timestamp_setters ''today'' zero_tm = Inr zero_tm \<and>
   CTmToDate gregorian (zero_tm\<lparr>tm_year := -1900, tm_mon := -1\<rparr>) = Inl Uncaught"
  by code_simp

section \<open>Text of an identifier\<close>

lemma hex_value_digit: "d < 16 \<Longrightarrow> hex_value (hex_digit d) = Some d"
  by (cases "d < 10") (simp_all add: isdigit_digit_char, simp add: isdigit_def)

lemma is_hex_fixed: "list_all is_hex (hex_fixed k n)"
  by (induction k arbitrary: n) (simp_all add: is_hex_def hex_value_digit del: hex_value.simps hex_digit.simps)

lemma hex_val_fixed: "hex_val (hex_fixed k n) = n mod 16 ^ k"
proof (induction k arbitrary: n)
  case (Suc k)
  have "hex_val (hex_fixed (Suc k) n) = 16 * hex_val (hex_fixed k (n div 16)) + n mod 16"
    by (simp add: hex_val_def hex_value_digit del: hex_value.simps hex_digit.simps)
  then show ?case using Suc [of "n div 16"] mod_mult2_eq [of n 16 "16 ^ k"] by simp
qed (simp add: hex_val_def)

lemma length_hex_fixed [simp]: "length (hex_fixed k n) = k"
  by (induction k arbitrary: n) simp_all

lemma hex_not_special: "is_hex c \<Longrightarrow> \<not> isspace c \<and> c \<noteq> CHR ''-'' \<and> c \<noteq> CHR ''+'' \<and> c \<noteq> CHR ''x'' \<and> c \<noteq> CHR ''X''"
  by (auto simp: is_hex_def isdigit_def isspace_def split: if_splits)

lemma read_hex_fixed:
  assumes "1 < k" "k \<le> 16" "rest = [] \<or> \<not> is_hex (hd rest)"
  shows "read_hex (hex_fixed k n @ rest) = Hex_ok (word_of_nat (n mod 16 ^ k)) rest"
proof -
  obtain c d ds where h: "hex_fixed k n = c # d # ds"
    using assms(1) length_hex_fixed [of k n] by (metis Suc_lessD length_0_conv length_Cons less_numeral_extra(3,4) list.exhaust nat_neq_iff One_nat_def)
  then have x: "is_hex c" "is_hex d" using is_hex_fixed [of k n] by simp_all
  have tw: "takeWhile is_hex (hex_fixed k n @ rest) = hex_fixed k n" "dropWhile is_hex (hex_fixed k n @ rest) = rest"
    using is_hex_fixed [of k n] assms(3) by (cases rest; simp add: takeWhile_append dropWhile_append list_all_iff)+
  have "n mod 16 ^ k < 16 ^ k" by simp
  also have "(16 :: nat) ^ k \<le> 16 ^ 16" using assms(2) by (intro power_increasing) simp_all
  finally have "\<not> 2 ^ 64 \<le> n mod 16 ^ k" by simp
  then show ?thesis
    using tw h hex_not_special [OF x(1)] hex_not_special [OF x(2)] hex_val_fixed [of k n] by (simp add: read_hex_def Let_def)
qed

lemma read_parts_fixed:
  assumes "1 < k" "k \<le> 16"
  shows "read_parts (Suc i) (hex_fixed k n @ CHR ''-'' # rest) =
    (case read_parts i rest of Inl e \<Rightarrow> Inl e | Inr None \<Rightarrow> Inr None | Inr (Some (vs, r)) \<Rightarrow> Inr (Some (word_of_nat (n mod 16 ^ k) # vs, r)))"
proof -
  have "\<not> is_hex (CHR ''-'')" "\<not> isspace (CHR ''-'')" by code_simp+
  then show ?thesis using read_hex_fixed [OF assms, of "CHR ''-'' # rest" n] by simp
qed

text \<open>The text of an identifier is read back as the identifier.\<close>

lemma guid_text_roundtrip: "read_guid (guid_string g) zero_guid = Inr g"
proof -
  define a where "a = unat (ucast (drop_bit 32 (guid_most g)) :: u32)"
  define b where "b = unat (ucast (drop_bit 16 (guid_most g)) :: u16)"
  define c where "c = unat (ucast (guid_most g) :: u16)"
  define d where "d = unat (ucast (drop_bit 48 (guid_least g)) :: u16)"
  define e where "e = unat (guid_least g AND 0x0000FFFFFFFFFFFF)"
  have g: "guid_string g = hex_fixed 8 a @ CHR ''-'' # hex_fixed 4 b @ CHR ''-'' # hex_fixed 4 c @ CHR ''-'' # hex_fixed 4 d @ CHR ''-'' # hex_fixed 12 e"
    by (simp add: guid_string_def a_def b_def c_def d_def e_def)
  have rp: "read_parts (Suc i) (hex_fixed 8 n @ CHR ''-'' # rest) =
      (case read_parts i rest of Inl e \<Rightarrow> Inl e | Inr None \<Rightarrow> Inr None | Inr (Some (vs, r)) \<Rightarrow> Inr (Some (word_of_nat (n mod 16 ^ 8) # vs, r)))"
    "read_parts (Suc i) (hex_fixed 4 n @ CHR ''-'' # rest) =
      (case read_parts i rest of Inl e \<Rightarrow> Inl e | Inr None \<Rightarrow> Inr None | Inr (Some (vs, r)) \<Rightarrow> Inr (Some (word_of_nat (n mod 16 ^ 4) # vs, r)))"
    for i n rest by (rule read_parts_fixed; simp)+
  have "read_parts (Suc (Suc (Suc (Suc 0)))) (guid_string g) = Inr (Some ([word_of_nat (a mod 16 ^ 8), word_of_nat (b mod 16 ^ 4), word_of_nat (c mod 16 ^ 4), word_of_nat (d mod 16 ^ 4)], hex_fixed 12 e))"
    by (simp only: g rp read_parts.simps(1) sum.case option.case prod.case)
  then have parts: "read_parts 4 (guid_string g) = Inr (Some ([word_of_nat (a mod 16 ^ 8), word_of_nat (b mod 16 ^ 4), word_of_nat (c mod 16 ^ 4), word_of_nat (d mod 16 ^ 4)], hex_fixed 12 e))"
    by (simp only: numeral_eq_Suc pred_numeral_simps BitM.simps numeral_One One_nat_def)
  have "read_hex (hex_fixed 12 e) = Hex_ok (word_of_nat (e mod 16 ^ 12)) []"
    using read_hex_fixed [of 12 "[]" e] by simp
  then have r: "read_guid (guid_string g) zero_guid = Inr \<lparr>guid_most = push_bit 32 (word_of_nat (a mod 16 ^ 8)) OR push_bit 16 (word_of_nat (b mod 16 ^ 4)) OR word_of_nat (c mod 16 ^ 4),
      guid_least = push_bit 48 (word_of_nat (d mod 16 ^ 4)) OR word_of_nat (e mod 16 ^ 12)\<rparr>"
    by (simp add: read_guid_def parts)
  have m: "a mod 16 ^ 8 = a" "b mod 16 ^ 4 = b" "c mod 16 ^ 4 = c" "d mod 16 ^ 4 = d"
    using unsigned_less [where ?'a = nat and w = "ucast (drop_bit 32 (guid_most g)) :: u32"] unsigned_less [where ?'a = nat and w = "ucast (drop_bit 16 (guid_most g)) :: u16"]
      unsigned_less [where ?'a = nat and w = "ucast (guid_most g) :: u16"] unsigned_less [where ?'a = nat and w = "ucast (drop_bit 48 (guid_least g)) :: u16"]
    by (simp_all add: a_def b_def c_def d_def)
  have "(0x0000FFFFFFFFFFFF :: u64) = mask 48" by (simp add: mask_eq_exp_minus_1)
  then have el: "e = unat (take_bit 48 (guid_least g))" by (simp add: e_def take_bit_eq_mask)
  then have "e = take_bit 48 (unat (guid_least g))" by (simp only: unsigned_take_bit_eq)
  then have e: "e mod 16 ^ 12 = e" by (simp add: take_bit_eq_mod)
  have "guid_most g = push_bit 32 (word_of_nat a) OR push_bit 16 (word_of_nat b) OR word_of_nat c"
    apply (rule bit_word_eqI)
    apply (auto simp: a_def b_def c_def bit_simps)
    subgoal for n by (cases "n < 32") auto
    done
  moreover have "guid_least g = push_bit 48 (word_of_nat d) OR word_of_nat e"
    by (rule bit_word_eqI) (auto simp: d_def el bit_simps)
  ultimately show ?thesis unfolding r m e by simp
qed

end
