(* ===== verification/Odbc_ParamWrite.thy ===== *)
theory Odbc_ParamWrite
  imports Odbc_BufferTime Odbc_Param Odbc_Protocol Odbc_TypeTraits
begin

text \<open>
  Parameters on the wire: \<open>Parameter::Write\<close> (\<open>app/parameter.cpp\<close>), \<open>ParameterSet::Write\<close> (\<open>app/parameter_set.cpp\<close>) and the
  requests that execute a statement (\<open>message.cpp\<close>). A step fails with an error of the buffer that is read or of the
  stream that is written.
\<close>

section \<open>Numbers of floating point\<close>

text \<open>What the conversions depend on: the platform, the bound of a search for a terminator, the calendar, where the data
  sent for a parameter and its length are in memory, and the conversions of floating point numbers, which the language
  gives: between the two widths, and the text of a number with sixteen digits.\<close>

record BufferEnv =
  be_platform :: Platform
  be_bound :: nat
  be_time :: "tm \<Rightarrow> int option"
  be_stored :: nat
  be_storedLen :: nat
  be_to_float :: "u8 list \<Rightarrow> u8 list"
  be_to_double :: "u8 list \<Rightarrow> u8 list"
  be_text16 :: "u8 list \<Rightarrow> string"

text \<open>The integer that a buffer of an integer type holds.\<close>

definition native_value :: "Platform \<Rightarrow> mem \<Rightarrow> ApplicationDataBuffer \<Rightarrow> (buf_error + int) option" where
  "native_value pl m b =
     (case buf_type b of
        AI_SIGNED_TINYINT \<Rightarrow> Some (get_int m b True 1)
      | AI_BIT \<Rightarrow> Some (get_int m b False 1)
      | AI_UNSIGNED_TINYINT \<Rightarrow> Some (get_int m b False 1)
      | AI_SIGNED_SHORT \<Rightarrow> Some (get_int m b True 2)
      | AI_UNSIGNED_SHORT \<Rightarrow> Some (get_int m b False 2)
      | AI_SIGNED_LONG \<Rightarrow> Some (get_int m b True (sizeof_long pl))
      | AI_UNSIGNED_LONG \<Rightarrow> Some (get_int m b False (sizeof_long pl))
      | AI_SIGNED_BIGINT \<Rightarrow> Some (get_int m b True 8)
      | AI_UNSIGNED_BIGINT \<Rightarrow> Some (get_int m b False 8)
      | _ \<Rightarrow> None)"

text \<open>The instances of \<open>GetNum\<close> for \<open>float\<close> and \<open>double\<close>: the bytes of the result.\<close>

definition GetNum_fp ::
  "BufferEnv \<Rightarrow> mem \<Rightarrow> ApplicationDataBuffer \<Rightarrow> (int \<Rightarrow> u8 list) \<Rightarrow> (string \<Rightarrow> u8 list) \<Rightarrow> (u8 list \<Rightarrow> u8 list) \<Rightarrow> (u8 list \<Rightarrow> u8 list) \<Rightarrow>
   buf_error + u8 list" where
  "GetNum_fp e m b from_int from_text from_float from_double =
     (let pl = be_platform e; paramLen = GetInputSize pl m b
      in case native_value pl m b of
           Some (Inl err) \<Rightarrow> Inl err
         | Some (Inr v) \<Rightarrow> Inr (from_int v)
         | None \<Rightarrow>
             if buf_type b = AI_CHAR \<or> buf_type b = AI_WCHAR then
               if paramLen = 0 then Inr (from_int 0)
               else (case GetString pl (be_bound e) m b (nat (paramLen mod 2 ^ 64)) of Inl err \<Rightarrow> Inl err | Inr s \<Rightarrow> Inr (from_text s))
             else if buf_type b = AI_FLOAT then (case read_data m b 4 of Inl err \<Rightarrow> Inl err | Inr bs \<Rightarrow> Inr (from_float bs))
             else if buf_type b = AI_DOUBLE then (case read_data m b 8 of Inl err \<Rightarrow> Inl err | Inr bs \<Rightarrow> Inr (from_double bs))
             else if buf_type b = AI_NUMERIC then
               (case read_data m b 19 of
                  Inl err \<Rightarrow> Inl err
                | Inr bs \<Rightarrow> (case Decimal_ToInt64 (numeric_decimal bs) of Inl err \<Rightarrow> Inl (BigError err) | Inr v \<Rightarrow> Inr (from_int (sint v))))
             else Inr (from_int 0))"

definition GetFloat :: "BufferEnv \<Rightarrow> mem \<Rightarrow> ApplicationDataBuffer \<Rightarrow> buf_error + u8 list" where
  "GetFloat e m b = GetNum_fp e m b (float_bytes (be_platform e)) (text_float_bytes (be_platform e)) (\<lambda>bs. bs) (be_to_float e)"

definition GetDouble :: "BufferEnv \<Rightarrow> mem \<Rightarrow> ApplicationDataBuffer \<Rightarrow> buf_error + u8 list" where
  "GetDouble e m b = GetNum_fp e m b (double_bytes (be_platform e)) (text_double_bytes (be_platform e)) (be_to_double e) (\<lambda>bs. bs)"

definition Decimal_AssignDouble :: "BufferEnv \<Rightarrow> u8 list \<Rightarrow> buf_error + Decimal" where
  "Decimal_AssignDouble e bs =
     (case read_decimal (be_text16 e bs) of Inl err \<Rightarrow> Inl (BigError err) | Inr v \<Rightarrow> Inr v)"

definition GetDecimal_param :: "BufferEnv \<Rightarrow> mem \<Rightarrow> ApplicationDataBuffer \<Rightarrow> Decimal \<Rightarrow> buf_error + Decimal" where
  "GetDecimal_param e m b val =
     (case GetDecimal (be_platform e) (be_bound e) m b val of
        Some r \<Rightarrow> r
      | None \<Rightarrow> (case GetDouble e m b of Inl err \<Rightarrow> Inl err | Inr bs \<Rightarrow> Decimal_AssignDouble e bs))"

section \<open>A parameter\<close>

type_synonym pw_act = "(buf_error + stream_error, BinaryWriterImpl, unit) action"

definition writing :: "unit wr_act \<Rightarrow> pw_act" where
  "writing m = (\<lambda>w. case m w of Inl err \<Rightarrow> Inl (Inr err) | Inr r \<Rightarrow> Inr r)"

definition with_value :: "buf_error + 'v \<Rightarrow> ('v \<Rightarrow> unit wr_act) \<Rightarrow> pw_act" where
  "with_value r f = (case r of Inl err \<Rightarrow> fail (Inl err) | Inr v \<Rightarrow> writing (f v))"

definition write_object :: "('t \<Rightarrow> unit out_act) \<Rightarrow> int \<Rightarrow> 't \<Rightarrow> unit wr_act" where
  "write_object func hdr v = wr_WriteObject (wr_WriteTopObject func hdr v)"

abbreviation "SQL_DATE \<equiv> (9 :: int)"
abbreviation "SQL_TIME \<equiv> (10 :: int)"
abbreviation "SQL_TIMESTAMP \<equiv> (11 :: int)"

text \<open>The buffer the data come from: that of the application, moved to the row, or the data sent piece by piece.\<close>

definition source_buffer :: "BufferEnv \<Rightarrow> mem \<Rightarrow> int \<Rightarrow> nat \<Rightarrow> Parameter \<Rightarrow> mem \<times> ApplicationDataBuffer" where
  "source_buffer e m offset idx p =
     (if IsDataAtExec m (param_buffer p) then
        (write_bytes (write_bytes m (be_stored e) (storedData p)) (be_storedLen e) (int_bytes 8 (int (length (storedData p)))),
         newBuffer (buf_type (param_buffer p)) (Some (be_stored e)) (int (length (storedData p))) (Some (be_storedLen e)))
      else (m, (param_buffer p)\<lparr>byteOffset := offset, elementOffset := idx\<rparr>))"

definition write_binary :: "mem \<Rightarrow> ApplicationDataBuffer \<Rightarrow> unit wr_act" where
  "write_binary m b =
     (case get_reslen m b of
        None \<Rightarrow> ret ()
      | Some n \<Rightarrow>
          let paramLen = to_signed 32 n
          in wr_WriteInt8Array (map_option (\<lambda>a. map sint (read_bytes m a (nat paramLen))) (GetData b)) paramLen)"

definition write_value :: "BufferEnv \<Rightarrow> mem \<Rightarrow> ApplicationDataBuffer \<Rightarrow> Parameter \<Rightarrow> pw_act" where
  "write_value e m b p =
     (let pl = be_platform e; bound = be_bound e; t = param_sqlType p
      in if t \<in> {SQL_CHAR, SQL_VARCHAR, SQL_LONGVARCHAR, SQL_WCHAR, SQL_WVARCHAR, SQL_WLONGVARCHAR} then
           with_value (GetString pl bound m b (param_columnSize p)) util_WriteString
         else if t = SQL_SMALLINT then with_value (GetNum pl bound m b True 2) (write_object out_WriteInt16 DOCUMENTDB_TYPE_SHORT)
         else if t = SQL_INTEGER then with_value (GetNum pl bound m b True 4) (write_object out_WriteInt32 DOCUMENTDB_TYPE_INT)
         else if t = SQL_FLOAT then
           with_value (GetFloat e m b) (\<lambda>bs. write_object out_WriteFloat DOCUMENTDB_TYPE_FLOAT (word_of_int (uint_of_bytes bs)))
         else if t = SQL_DOUBLE then
           with_value (GetDouble e m b) (\<lambda>bs. write_object out_WriteDouble DOCUMENTDB_TYPE_DOUBLE (word_of_int (uint_of_bytes bs)))
         else if t = SQL_TINYINT then with_value (GetNum pl bound m b True 1) (write_object out_WriteInt8 DOCUMENTDB_TYPE_BYTE)
         else if t = SQL_BIT then
           with_value (GetNum pl bound m b True 1) (\<lambda>v. write_object out_WriteBool DOCUMENTDB_TYPE_BOOL (v \<noteq> 0))
         else if t = SQL_BIGINT then with_value (GetNum pl bound m b True 8) (write_object out_WriteInt64 DOCUMENTDB_TYPE_LONG)
         else if t = SQL_TYPE_DATE \<or> t = SQL_DATE then with_value (GetDate pl bound (be_time e) m b) wr_WriteDate
         else if t = SQL_TYPE_TIMESTAMP \<or> t = SQL_TIMESTAMP then with_value (GetTimestamp pl bound (be_time e) m b) wr_WriteTimestamp
         else if t = SQL_TYPE_TIME \<or> t = SQL_TIME then with_value (GetTime pl bound (be_time e) m b) wr_WriteTime
         else if t \<in> {SQL_BINARY, SQL_VARBINARY, SQL_LONGVARBINARY} then writing (write_binary m b)
         else if t = SQL_GUID then with_value (GetGuid pl bound m b) wr_WriteGuid
         else if t = SQL_DECIMAL then with_value (GetDecimal_param e m b Decimal_zero) util_WriteDecimal
         else ret ())"

definition Parameter_Write :: "BufferEnv \<Rightarrow> mem \<Rightarrow> int \<Rightarrow> nat \<Rightarrow> Parameter \<Rightarrow> pw_act" where
  "Parameter_Write e m offset idx p =
     (if GetInputSize (be_platform e) m (param_buffer p) = SQL_NULL_DATA then writing wr_WriteNull
      else if IsDataAtExec m (param_buffer p) \<and> storedData p = [] then fail (Inl Undefined)
      else case source_buffer e m offset idx p of (m', b) \<Rightarrow> write_value e m' b p)"

section \<open>A set of parameters\<close>

fun write_nulls :: "nat \<Rightarrow> pw_act" where
  "write_nulls 0 = ret ()"
| "write_nulls (Suc n) = followed (writing wr_WriteNull) (write_nulls n)"

fun write_params :: "BufferEnv \<Rightarrow> mem \<Rightarrow> int \<Rightarrow> nat \<Rightarrow> nat \<Rightarrow> (nat \<times> Parameter) list \<Rightarrow> pw_act" where
  "write_params e m appOffset idx prev [] = ret ()"
| "write_params e m appOffset idx prev ((paramIdx, param) # rest) =
     followed (write_nulls (paramIdx - prev - 1))
       (followed (Parameter_Write e m appOffset idx param) (write_params e m appOffset idx paramIdx rest))"

definition app_offset :: "mem \<Rightarrow> ParameterSet \<Rightarrow> int" where
  "app_offset m ps = (case paramBindOffset ps of None \<Rightarrow> 0 | Some a \<Rightarrow> sint_of_bytes (read_bytes m a 4))"

definition WriteRow :: "BufferEnv \<Rightarrow> mem \<Rightarrow> ParameterSet \<Rightarrow> nat \<Rightarrow> pw_act" where
  "WriteRow e m ps idx = write_params e m (app_offset m ps) idx 0 (ps_parameters ps)"

definition ParameterSet_Write :: "BufferEnv \<Rightarrow> mem \<Rightarrow> ParameterSet \<Rightarrow> pw_act" where
  "ParameterSet_Write e m ps = followed (writing (wr_WriteInt32 (int (CalculateRowLen ps)))) (WriteRow e m ps 0)"

fun write_rows :: "BufferEnv \<Rightarrow> mem \<Rightarrow> ParameterSet \<Rightarrow> nat list \<Rightarrow> pw_act" where
  "write_rows e m ps [] = ret ()"
| "write_rows e m ps (i # is) = followed (WriteRow e m ps i) (write_rows e m ps is)"

definition ParameterSet_Write_range :: "BufferEnv \<Rightarrow> mem \<Rightarrow> ParameterSet \<Rightarrow> nat \<Rightarrow> nat \<Rightarrow> bool \<Rightarrow> pw_act" where
  "ParameterSet_Write_range e m ps first stop isLast =
     (let rowLen = CalculateRowLen ps; intervalEnd = min (paramSetSize ps) stop;
          intervalLen = to_signed 32 (int intervalEnd - int first)
      in followed (writing (wr_WriteInt32 (int rowLen)))
         (followed (writing (wr_WriteInt32 intervalLen))
         (followed (writing (wr_WriteBool isLast))
         (if rowLen \<noteq> 0 then write_rows e m ps [first..<intervalEnd] else ret ()))))"

section \<open>Requests with parameters\<close>

definition QueryExecuteRequest_Write ::
  "BufferEnv \<Rightarrow> mem \<Rightarrow> string \<Rightarrow> string \<Rightarrow> ParameterSet \<Rightarrow> int \<Rightarrow> ProtocolVersion \<Rightarrow> pw_act" where
  "QueryExecuteRequest_Write e m schema sql params timeout ver =
     followed (writing (execute_prefix 2 schema sql))
     (followed (ParameterSet_Write e m params) (writing (write_timeout ver timeout)))"

definition QueryExecuteBatchRequest_Write ::
  "BufferEnv \<Rightarrow> mem \<Rightarrow> string \<Rightarrow> string \<Rightarrow> ParameterSet \<Rightarrow> nat \<Rightarrow> nat \<Rightarrow> bool \<Rightarrow> int \<Rightarrow> ProtocolVersion \<Rightarrow> pw_act" where
  "QueryExecuteBatchRequest_Write e m schema sql params first stop isLast timeout ver =
     followed (writing (execute_prefix 8 schema sql))
     (followed (ParameterSet_Write_range e m params first stop isLast) (writing (write_timeout ver timeout)))"

end
