(* ===== verification/Odbc_ParamProps.thy ===== *)
theory Odbc_ParamProps
  imports Odbc_ParamWrite Odbc_ProtocolProps
begin

text \<open>
  Parameters survive the exchange: the peer that receives a request to execute a statement finds the schema, the statement and
  one value for each position of the row, null where no parameter is bound.
\<close>

section \<open>Writing that may also fail on a buffer\<close>

definition dropping :: "pw_act \<Rightarrow> unit wr_act" where
  "dropping m = (\<lambda>w. case m w of Inl _ \<Rightarrow> Inl WildAccess | Inr r \<Rightarrow> Inr r)"

definition psends :: "pw_act \<Rightarrow> u8 list \<Rightarrow> bool" where
  "psends m bs \<longleftrightarrow> sends (dropping m) bs"

lemma dropping_Inr [simp]: "dropping m w = Inr r \<longleftrightarrow> m w = Inr r"
  by (auto simp: dropping_def split: sum.splits)

lemma psends_writing: "sends m bs \<Longrightarrow> psends (writing m) bs"
  unfolding psends_def sends_def by (fastforce simp: writing_def)

lemma dropping_followed: "dropping (followed m k) = followed (dropping m) (dropping k)"
  by (rule ext) (auto simp: dropping_def followed_def andThen_def split: sum.splits)

lemma psends_followed: "psends m bs \<Longrightarrow> psends k cs \<Longrightarrow> psends (followed m k) (bs @ cs)"
  by (simp add: psends_def dropping_followed sends_followed)

lemma psends_ret: "psends (ret ()) []"
proof -
  have "dropping (ret ()) = ret ()" by (rule ext) (simp add: dropping_def)
  then show ?thesis by (simp add: psends_def sends_ret)
qed

section \<open>Values on the wire\<close>

datatype wire = W_null | W_byte int | W_bool bool | W_short int | W_int int | W_long int | W_text string

fun wire_bytes :: "wire \<Rightarrow> u8 list" where
  "wire_bytes W_null = int_bytes 1 DOCUMENTDB_HDR_NULL"
| "wire_bytes (W_byte v) = typed_bytes DOCUMENTDB_TYPE_BYTE (int_bytes 1) v"
| "wire_bytes (W_bool v) = typed_bytes DOCUMENTDB_TYPE_BOOL bool_bytes v"
| "wire_bytes (W_short v) = typed_bytes DOCUMENTDB_TYPE_SHORT (int_bytes 2) v"
| "wire_bytes (W_int v) = typed_bytes DOCUMENTDB_TYPE_INT (int_bytes 4) v"
| "wire_bytes (W_long v) = typed_bytes DOCUMENTDB_TYPE_LONG (int_bytes 8) v"
| "wire_bytes (W_text s) = text_bytes s"

fun wire_ok :: "wire \<Rightarrow> bool" where
  "wire_ok (W_byte v) = int_fits 1 v"
| "wire_ok (W_short v) = int_fits 2 v"
| "wire_ok (W_int v) = int_fits 4 v"
| "wire_ok (W_long v) = int_fits 8 v"
| "wire_ok (W_text s) = str_ok s"
| "wire_ok _ = True"

text \<open>A peer that reads the mark of a value and then the value.\<close>

definition peer_value :: "wire rd_act" where
  "peer_value = andThen rd_ReadInt8 (\<lambda>hdr.
     if hdr = DOCUMENTDB_HDR_NULL then ret W_null
     else if hdr = DOCUMENTDB_TYPE_BYTE then andThen rd_ReadInt8 (\<lambda>v. ret (W_byte v))
     else if hdr = DOCUMENTDB_TYPE_BOOL then andThen (on_in in_ReadBool) (\<lambda>v. ret (W_bool v))
     else if hdr = DOCUMENTDB_TYPE_SHORT then andThen rd_ReadInt16 (\<lambda>v. ret (W_short v))
     else if hdr = DOCUMENTDB_TYPE_INT then andThen rd_ReadInt32 (\<lambda>v. ret (W_int v))
     else if hdr = DOCUMENTDB_TYPE_LONG then andThen rd_ReadInt64 (\<lambda>v. ret (W_long v))
     else if hdr = DOCUMENTDB_TYPE_STRING then
       andThen rd_ReadInt32 (\<lambda>len. andThen (on_in (in_ReadInt8Array len)) (\<lambda>cs. ret (W_text (chars_of cs))))
     else fail (Thrown DOCUMENTDB_ERR_BINARY ''Unknown value'' [(''header'', hdr)]))"

lemma peer_value_receives: "wire_ok v \<Longrightarrow> receives peer_value (wire_bytes v) v"
proof (cases v)
  case (W_text s)
  assume "wire_ok v"
  then have s: "str_ok s" using W_text by simp
  have "receives (andThen (on_in (in_ReadInt8Array (int (length s)))) (\<lambda>cs. ret (W_text (chars_of cs)))) (array_bytes 1 (char_codes s)) (W_text s)"
    by (rule receives_map [OF receives_on_in [OF chars_consumed [OF s]]]) simp
  then have "receives (andThen rd_ReadInt32 (\<lambda>len. andThen (on_in (in_ReadInt8Array len)) (\<lambda>cs. ret (W_text (chars_of cs)))))
      (int_bytes 4 (int (length s)) @ array_bytes 1 (char_codes s)) (W_text s)"
    by (intro receives_andThen [OF receives_ints(3)] length_fits s)
  then show ?thesis unfolding peer_value_def W_text wire_bytes.simps text_bytes_def
    by (intro receives_code) (simp_all del: One_nat_def)
next
  case W_null
  show ?thesis unfolding W_null wire_bytes.simps peer_value_def
    by (rule receives_code [where bs = "[]", unfolded append_Nil2]) (simp_all add: receives_ret)
next
  case (W_bool b)
  have "receives (andThen (on_in in_ReadBool) (\<lambda>v. ret (W_bool v))) (bool_bytes b) (W_bool b)"
    by (rule receives_map [OF receives_on_in [OF boolean.consumed]]) simp_all
  then show ?thesis unfolding W_bool wire_bytes.simps typed_bytes_def peer_value_def by (intro receives_code) simp_all
qed (simp_all del: One_nat_def add: typed_bytes_def peer_value_def,
    (rule receives_code; simp del: One_nat_def add: receives_last_int receives_map [OF receives_ints(2)])+)

section \<open>The value of a parameter\<close>

text \<open>What a parameter of a text or integer type means: the value the peer shall see. \<open>None\<close> where the buffer cannot be
  read, for the other types, and for data sent piece by piece.\<close>

definition wire_of :: "buf_error + 'v \<Rightarrow> ('v \<Rightarrow> wire) \<Rightarrow> wire option" where
  "wire_of r f = (case r of Inl _ \<Rightarrow> None | Inr v \<Rightarrow> Some (f v))"

definition param_wire :: "BufferEnv \<Rightarrow> mem \<Rightarrow> int \<Rightarrow> nat \<Rightarrow> Parameter \<Rightarrow> wire option" where
  "param_wire e m offset idx p =
     (let pl = be_platform e; k = be_bound e; b = (param_buffer p)\<lparr>byteOffset := offset, elementOffset := idx\<rparr>; t = param_sqlType p
      in if GetInputSize pl m (param_buffer p) = SQL_NULL_DATA then Some W_null
         else if IsDataAtExec m (param_buffer p) then None
         else if t \<in> {SQL_CHAR, SQL_VARCHAR, SQL_LONGVARCHAR, SQL_WCHAR, SQL_WVARCHAR, SQL_WLONGVARCHAR} then
           wire_of (GetString pl k m b (param_columnSize p)) W_text
         else if t = SQL_SMALLINT then wire_of (GetNum pl k m b True 2) W_short
         else if t = SQL_INTEGER then wire_of (GetNum pl k m b True 4) W_int
         else if t = SQL_TINYINT then wire_of (GetNum pl k m b True 1) W_byte
         else if t = SQL_BIT then wire_of (GetNum pl k m b True 1) (\<lambda>v. W_bool (v \<noteq> 0))
         else if t = SQL_BIGINT then wire_of (GetNum pl k m b True 8) W_long
         else None)"

lemma sends_null: "sends wr_WriteNull (wire_bytes W_null)"
  unfolding wr_WriteNull_def WriteNull0_def wire_bytes.simps
  by (intro sends_raw sends_on_out int8.written header_fits) simp_all

lemma sends_util_string: "str_ok s \<Longrightarrow> sends (util_WriteString s) (text_bytes s)"
  by (rule str.sent)

lemma write_object_sends:
  "int_fits 1 v \<Longrightarrow> sends (write_object out_WriteInt8 DOCUMENTDB_TYPE_BYTE v) (wire_bytes (W_byte v))"
  "sends (write_object out_WriteBool DOCUMENTDB_TYPE_BOOL c) (wire_bytes (W_bool c))"
  "int_fits 2 v \<Longrightarrow> sends (write_object out_WriteInt16 DOCUMENTDB_TYPE_SHORT v) (wire_bytes (W_short v))"
  "int_fits 4 v \<Longrightarrow> sends (write_object out_WriteInt32 DOCUMENTDB_TYPE_INT v) (wire_bytes (W_int v))"
  "int_fits 8 v \<Longrightarrow> sends (write_object out_WriteInt64 DOCUMENTDB_TYPE_LONG v) (wire_bytes (W_long v))"
  unfolding write_object_def wire_bytes.simps
  by (intro sends_WriteObject t_int8.top.sent t_bool.top.sent t_int16.top.sent t_int32.top.sent t_int64.top.sent; simp)+

lemma with_value_sends: "wire_of r f = Some v \<Longrightarrow> (\<And>x. f x = v \<Longrightarrow> sends (g x) (wire_bytes v)) \<Longrightarrow> psends (with_value r g) (wire_bytes v)"
  by (auto simp: wire_of_def with_value_def intro: psends_writing split: sum.splits)

lemma Parameter_Write_sends:
  assumes "param_wire e m offset idx p = Some v" "wire_ok v"
  shows "psends (Parameter_Write e m offset idx p) (wire_bytes v)"
proof (cases "GetInputSize (be_platform e) m (param_buffer p) = SQL_NULL_DATA")
  case True
  then show ?thesis using assms sends_null by (simp add: param_wire_def Parameter_Write_def psends_writing)
next
  case False
  then have x: "\<not> IsDataAtExec m (param_buffer p)" using assms(1) by (auto simp: param_wire_def Let_def split: if_splits)
  let ?b = "(param_buffer p)\<lparr>byteOffset := offset, elementOffset := idx\<rparr>"
  have "Parameter_Write e m offset idx p = write_value e m ?b p"
    using False x by (simp add: Parameter_Write_def source_buffer_def)
  moreover have "psends (write_value e m ?b p) (wire_bytes v)"
    using assms False x unfolding param_wire_def write_value_def Let_def
    by (simp split: if_splits) (auto intro!: with_value_sends sends_util_string write_object_sends)
  ultimately show ?thesis by simp
qed

text \<open>The writer operation of each value; together with the peer they keep the contract of an exchange.\<close>

fun write_wire :: "wire \<Rightarrow> unit wr_act" where
  "write_wire W_null = wr_WriteNull"
| "write_wire (W_byte v) = write_object out_WriteInt8 DOCUMENTDB_TYPE_BYTE v"
| "write_wire (W_bool v) = write_object out_WriteBool DOCUMENTDB_TYPE_BOOL v"
| "write_wire (W_short v) = write_object out_WriteInt16 DOCUMENTDB_TYPE_SHORT v"
| "write_wire (W_int v) = write_object out_WriteInt32 DOCUMENTDB_TYPE_INT v"
| "write_wire (W_long v) = write_object out_WriteInt64 DOCUMENTDB_TYPE_LONG v"
| "write_wire (W_text s) = util_WriteString s"

interpretation wires: exchange write_wire peer_value wire_bytes wire_ok
proof
  fix v assume v: "wire_ok v"
  show "receives peer_value (wire_bytes v) v" using v by (rule peer_value_receives)
  show "sends (write_wire v) (wire_bytes v)"
    using v sends_null by (cases v) (auto intro: write_object_sends sends_util_string simp del: wire_bytes.simps(1-6))
qed

section \<open>A row\<close>

definition row_value :: "BufferEnv \<Rightarrow> mem \<Rightarrow> ParameterSet \<Rightarrow> nat \<Rightarrow> nat \<Rightarrow> wire option" where
  "row_value e m ps idx i =
     (case GetParameter i ps of None \<Rightarrow> Some W_null | Some p \<Rightarrow> param_wire e m (app_offset m ps) idx p)"

lemma write_nulls_sends: "psends (write_nulls n) (concat (map wire_bytes (replicate n W_null)))"
proof (induction n)
  case 0
  show ?case by (simp only: write_nulls.simps replicate.simps list.map concat.simps psends_ret)
next
  case (Suc n)
  then show ?case
    unfolding write_nulls.simps replicate.simps list.map concat.simps by (intro psends_followed psends_writing sends_null)
qed

text \<open>The positions after \<open>prev\<close> up to the last bound one.\<close>

lemma nulls_between:
  assumes "prev < i" "map_of ((i, p) # rest) = f" "ordered ((i, p) # rest)"
  shows "map (\<lambda>j. case f j of None \<Rightarrow> Some W_null | Some q \<Rightarrow> g q) [Suc prev..<i] = replicate (i - prev - 1) (Some W_null)"
proof -
  have "f j = None" if "j < i" for j
    using assms(2,3) that by (fastforce simp: ordered_def map_of_eq_None_iff)
  then show ?thesis by (intro replicate_eqI [symmetric] nth_equalityI) auto
qed

lemma write_params_sends:
  assumes "ordered xs" "xs \<noteq> []" "\<forall>i \<in> fst ` set xs. prev < i"
    and "map (\<lambda>j. case map_of xs j of None \<Rightarrow> Some W_null | Some q \<Rightarrow> param_wire e m offset idx q) [Suc prev..<Suc (fst (last xs))] = map Some vs"
    and "list_all wire_ok vs"
  shows "psends (write_params e m offset idx prev xs) (concat (map wire_bytes vs))"
  using assms
proof (induction xs arbitrary: prev vs)
  case (Cons x rest)
  obtain i p where x: "x = (i, p)" by force
  let ?f = "\<lambda>xs j. case map_of xs j of None \<Rightarrow> Some W_null | Some q \<Rightarrow> param_wire e m offset idx q"
  have i: "prev < i" using Cons.prems(3) x by simp
  have ord: "ordered rest" "\<forall>j \<in> fst ` set rest. i < j" using Cons.prems(1) x by (auto simp: ordered_def)
  have le: "i \<le> fst (last (x # rest))" using ord(2) x by (auto intro: less_imp_le)
  have u: "[Suc prev..<Suc (fst (last (x # rest)))] = [Suc prev..<i] @ i # [Suc i..<Suc (fst (last (x # rest)))]"
    using i le upt_add_eq_append [of "Suc prev" i "Suc (fst (last (x # rest))) - i"] upt_conv_Cons [of i "Suc (fst (last (x # rest)))"]
    by (simp del: upt_Suc)
  have a: "map (?f (x # rest)) [Suc prev..<i] = replicate (i - prev - 1) (Some W_null)"
    unfolding x by (rule nulls_between [OF i refl]) (use Cons.prems(1) x in simp)
  have c: "map (?f (x # rest)) [Suc i..<Suc (fst (last (x # rest)))] = map (?f rest) [Suc i..<Suc (fst (last (x # rest)))]"
    by (rule map_cong) (auto simp: x)
  have b: "?f (x # rest) i = param_wire e m offset idx p" by (simp add: x)
  have e: "map Some vs = replicate (i - prev - 1) (Some W_null) @ param_wire e m offset idx p # map (?f rest) [Suc i..<Suc (fst (last (x # rest)))]"
    unfolding Cons.prems(4) [symmetric] u map_append list.map a b c by (rule refl)
  from iffD1 [OF map_eq_append_conv e] obtain ys zs where yz: "vs = ys @ zs" "replicate (i - prev - 1) (Some W_null) = map Some ys"
      "param_wire e m offset idx p # map (?f rest) [Suc i..<Suc (fst (last (x # rest)))] = map Some zs"
    by (elim exE conjE) (rule that)
  have ys: "ys = replicate (i - prev - 1) W_null" using arg_cong [OF yz(2), of "map the"] by (simp add: comp_def)
  obtain v ws where zs: "zs = v # ws" "param_wire e m offset idx p = Some v" "map (?f rest) [Suc i..<Suc (fst (last (x # rest)))] = map Some ws"
    using yz(3) by (cases zs) auto
  note vs = yz(1) [unfolded ys zs(1)] zs(2,3)
  have "psends (write_params e m offset idx i rest) (concat (map wire_bytes ws))"
  proof (cases "rest = []")
    case True
    then have "ws = []" using vs(3) x by simp
    then show ?thesis using True psends_ret by simp
  next
    case False
    then show ?thesis using Cons.IH [OF ord(1) _ ord(2)] vs Cons.prems(5) by simp
  qed
  then show ?case
    unfolding x write_params.simps vs(1) map_append concat_append list.map concat.simps
    using Cons.prems(5) vs by (intro psends_followed write_nulls_sends Parameter_Write_sends) auto
qed simp

lemma ParameterSet_Write_sends:
  assumes "params_ok ps" "map (row_value e m ps 0) [1..<Suc (CalculateRowLen ps)] = map Some vs" "list_all wire_ok vs"
  shows "psends (ParameterSet_Write e m ps) (int_bytes 4 (int (length vs)) @ concat (map wire_bytes vs))"
proof -
  have n: "CalculateRowLen ps < 2 ^ 16"
    using assms(1) by (auto simp: CalculateRowLen_def params_ok_def)
  have l: "length vs = CalculateRowLen ps" using arg_cong [OF assms(2), of length] by (simp del: upt_Suc)
  have "psends (WriteRow e m ps 0) (concat (map wire_bytes vs))"
  proof (cases "ps_parameters ps = []")
    case True
    then show ?thesis using l psends_ret by (simp add: WriteRow_def CalculateRowLen_def)
  next
    case False
    have "row_value e m ps 0 = (\<lambda>j. case map_of (ps_parameters ps) j of None \<Rightarrow> Some W_null | Some q \<Rightarrow> param_wire e m (app_offset m ps) 0 q)"
      by (rule ext) (simp add: row_value_def GetParameter_def)
    then show ?thesis unfolding WriteRow_def using assms False
      by (intro write_params_sends) (auto simp: params_ok_def CalculateRowLen_def simp del: upt_Suc)
  qed
  moreover have "int_fits 4 (int (length vs))" using n l by (simp add: int_fits_def)
  ultimately show ?thesis unfolding ParameterSet_Write_def l [symmetric] by (intro psends_followed psends_writing sends_ints) auto
qed

section \<open>The request\<close>

record execute_request =
  rq_schema :: wire
  rq_sql :: wire
  rq_row :: "wire list"
  rq_timeout :: int

definition peer_execute :: "execute_request rd_act" where
  "peer_execute = andThen rd_ReadInt8 (\<lambda>code.
     if code = 2 then
       andThen peer_value (\<lambda>schema. andThen peer_value (\<lambda>sql. andThen rd_ReadInt32 (\<lambda>n.
       andThen (repeat_act (nat n) peer_value) (\<lambda>vs. andThen rd_ReadInt32 (\<lambda>timeout.
         ret \<lparr>rq_schema = schema, rq_sql = sql, rq_row = vs, rq_timeout = timeout\<rparr>)))))
     else fail (Thrown DOCUMENTDB_ERR_BINARY ''Unknown request'' [(''code'', code)]))"

definition schema_wire :: "string \<Rightarrow> wire" where
  "schema_wire schema = (if schema = [] then W_null else W_text schema)"

definition execute_bytes :: "string \<Rightarrow> string \<Rightarrow> wire list \<Rightarrow> int \<Rightarrow> u8 list" where
  "execute_bytes schema sql vs timeout =
     int_bytes 1 2 @ wire_bytes (schema_wire schema) @ wire_bytes (W_text sql) @ int_bytes 4 (int (length vs)) @
     concat (map wire_bytes vs) @ int_bytes 4 timeout"

lemma object_string_sends: "str_ok s \<Longrightarrow> sends (write_object_string s) (wire_bytes (W_text s))"
  using top_str.sent [of s] by simp

lemma execute_sends:
  assumes "params_ok ps" "map (row_value e m ps 0) [1..<Suc (CalculateRowLen ps)] = map Some vs" "list_all wire_ok vs"
    and "str_ok schema" "str_ok sql" "int_fits 4 timeout" "version_Compare ver (version 2 3 2) \<ge> 0"
  shows "psends (QueryExecuteRequest_Write e m schema sql ps timeout ver) (execute_bytes schema sql vs timeout)"
proof -
  have "sends (if schema = [] then wr_WriteNull else write_object_string schema) (wire_bytes (schema_wire schema))"
    using sends_null object_string_sends [OF assms(4)] by (simp add: schema_wire_def)
  then have p: "sends (execute_prefix 2 schema sql) (int_bytes 1 2 @ wire_bytes (schema_wire schema) @ wire_bytes (W_text sql))"
    unfolding execute_prefix_def by (intro sends_followed sends_code object_string_sends assms(5)) simp_all
  have "sends (write_timeout ver timeout) (int_bytes 4 timeout)"
    using assms(6,7) by (simp add: write_timeout_def sends_ints)
  then have "psends (followed (ParameterSet_Write e m ps) (writing (write_timeout ver timeout)))
      ((int_bytes 4 (int (length vs)) @ concat (map wire_bytes vs)) @ int_bytes 4 timeout)"
    by (intro psends_followed ParameterSet_Write_sends assms(1-3) psends_writing)
  from psends_followed [OF psends_writing [OF p] this] show ?thesis
    by (simp only: QueryExecuteRequest_Write_def execute_bytes_def append_assoc)
qed

lemma execute_receives:
  assumes "list_all wire_ok vs" "str_ok schema" "str_ok sql" "int_fits 4 timeout" "length vs < 2 ^ 16"
  shows "receives peer_execute (execute_bytes schema sql vs timeout)
    \<lparr>rq_schema = schema_wire schema, rq_sql = W_text sql, rq_row = vs, rq_timeout = timeout\<rparr>"
proof -
  have ok: "wire_ok (schema_wire schema)" "wire_ok (W_text sql)" "int_fits 4 (int (length vs))"
    using assms by (simp_all add: schema_wire_def int_fits_def)
  let ?q = "\<lparr>rq_schema = schema_wire schema, rq_sql = W_text sql, rq_row = vs, rq_timeout = timeout\<rparr>"
  have t: "receives (andThen rd_ReadInt32 (\<lambda>timeout. ret \<lparr>rq_schema = schema_wire schema, rq_sql = W_text sql, rq_row = vs, rq_timeout = timeout\<rparr>))
      (int_bytes 4 timeout) ?q"
    by (rule receives_last_int(2)) (rule assms(4))
  have "receives (repeat_act (nat (int (length vs))) peer_value) (concat (map wire_bytes vs)) vs"
    using wires.all_received [OF assms(1)] by simp
  note v = receives_andThen [OF this, where f = "\<lambda>vs. andThen rd_ReadInt32 (\<lambda>timeout.
      ret \<lparr>rq_schema = schema_wire schema, rq_sql = W_text sql, rq_row = vs, rq_timeout = timeout\<rparr>)", OF t]
  show ?thesis
    unfolding peer_execute_def execute_bytes_def
    by (rule receives_code, simp, simp, simp only: if_True simp_thms)
      (rule receives_andThen [OF wires.received [OF ok(1)]] receives_andThen [OF wires.received [OF ok(2)]]
        receives_andThen [OF receives_ints(3) [OF ok(3)]] v)+
qed

text \<open>(C17) A request to execute a statement, in a protocol version from 2.3.2 on, whose parameters are null or are of the
  character, integer and bit types with their data in buffers (not sent at execution), reaches the peer as it was meant:
  the schema or null, the statement, one value for each position up to the last parameter that is bound, which is the value
  of its buffer or null where it is null or no parameter is bound, and the timeout.\<close>

theorem execute_request_roundtrip:
  assumes "params_ok ps" "map (row_value e m ps 0) [1..<Suc (CalculateRowLen ps)] = map Some vs" "list_all wire_ok vs"
    and "str_ok schema" "str_ok sql" "int_fits 4 timeout" "version_Compare ver (version 2 3 2) \<ge> 0"
    and "int (length (execute_bytes schema sql vs timeout)) \<le> INT32_MAX" "0 \<le> cap" "cap \<le> INT32_MAX"
  shows "\<exists>w. QueryExecuteRequest_Write e m schema sql ps timeout ver
        (newRawWriter (newInteropOutputStream (newInteropUnpooledMemory cap)) mgr) = Inr ((), w) \<and>
    map_sum id fst (peer_execute (newRawReader (newInteropInputStream ((out_mem (wr_stream w))\<lparr>Length := out_pos (wr_stream w)\<rparr>)))) =
      Inr \<lparr>rq_schema = schema_wire schema, rq_sql = W_text sql, rq_row = vs, rq_timeout = timeout\<rparr>"
proof -
  have "length vs = CalculateRowLen ps" using arg_cong [OF assms(2), of length] by (simp del: upt_Suc)
  then have "length vs < 2 ^ 16" using assms(1) by (auto simp: CalculateRowLen_def params_ok_def)
  note r = execute_receives [OF assms(3-6) this]
  have "sends (dropping (QueryExecuteRequest_Write e m schema sql ps timeout ver)) (execute_bytes schema sql vs timeout)"
    using execute_sends [OF assms(1-7)] by (simp add: psends_def)
  from message_exchange [OF assms(9,10,8) this r] show ?thesis by simp
qed

text \<open>A statement with an integer as its first and a null text as its third parameter, and no second one.\<close>

definition sample_env :: BufferEnv where
  "sample_env = \<lparr>be_platform = plain_platform 8, be_bound = 0, be_time = \<lambda>t. None, be_stored = 500, be_storedLen = 600,
     be_to_float = \<lambda>bs. bs, be_to_double = \<lambda>bs. bs, be_text16 = \<lambda>bs. []\<rparr>"

definition sample_params :: ParameterSet where
  "sample_params = newParameterSet\<lparr>ps_parameters :=
     [(1, newParameter (buffer_at AI_SIGNED_BIGINT 100 8 200) SQL_INTEGER 0 0), (3, newParameter (buffer_at AI_CHAR 120 8 208) SQL_VARCHAR 8 0)]\<rparr>"

definition sample_mem :: mem where
  "sample_mem = write_bytes (write_bytes (write_bytes (\<lambda>_. 0) 100 (int_bytes 8 (-7))) 200 (int_bytes 8 8)) 208 (int_bytes 8 (-1))"

lemma sample_cells:
  "read_bytes sample_mem 100 8 = int_bytes 8 (-7)" "read_bytes sample_mem 200 8 = int_bytes 8 8" "read_bytes sample_mem 208 8 = int_bytes 8 (-1)"
  using read_write_same [of "\<lambda>_. 0" 100 "int_bytes 8 (-7)"] read_write_same [of "write_bytes (\<lambda>_. 0) 100 (int_bytes 8 (-7))" 200 "int_bytes 8 8"]
    read_write_same [of "write_bytes (write_bytes (\<lambda>_. 0) 100 (int_bytes 8 (-7))) 200 (int_bytes 8 8)" 208 "int_bytes 8 (-1)"]
  by (simp_all add: sample_mem_def read_write_disjoint)

lemma sample_values:
  "row_value sample_env sample_mem sample_params 0 1 = Some (W_int (-7))"
  "row_value sample_env sample_mem sample_params 0 2 = Some W_null" "row_value sample_env sample_mem sample_params 0 3 = Some W_null"
  by (simp_all add: row_value_def GetParameter_def sample_params_def newParameterSet_def newParameter_def param_wire_def app_offset_def
      GetInputSize_def IsDataAtExec_def get_reslen_def GetResLen_def GetData_def ApplyOffset_def buffer_at_def sample_cells sint_of_int_bytes
      to_signed_def SQL_NULL_DATA_def SQL_LEN_DATA_AT_EXEC_OFFSET_def SQL_DATA_AT_EXEC_def wire_of_def GetNum_def get_int_def read_data_def cast_int_def)

theorem execute_request_roundtrip_witness:
  "\<exists>w. QueryExecuteRequest_Write sample_env sample_mem [] ''SELECT ?'' sample_params 30 (version 2 8 0)
        (newRawWriter (newInteropOutputStream (newInteropUnpooledMemory 16)) None) = Inr ((), w) \<and>
    map_sum id fst (peer_execute (newRawReader (newInteropInputStream ((out_mem (wr_stream w))\<lparr>Length := out_pos (wr_stream w)\<rparr>)))) =
      Inr \<lparr>rq_schema = W_null, rq_sql = W_text ''SELECT ?'', rq_row = [W_int (-7), W_null, W_null], rq_timeout = 30\<rparr>"
proof -
  have "map (row_value sample_env sample_mem sample_params 0) [1..<Suc (CalculateRowLen sample_params)] = map Some [W_int (-7), W_null, W_null]"
  proof -
    have "[1..<Suc (CalculateRowLen sample_params)] = [1, 2, 3]" by (simp add: CalculateRowLen_def sample_params_def newParameterSet_def upt_rec)
    then show ?thesis by (simp only: list.map sample_values)
  qed
  moreover have "params_ok sample_params"
    by (simp add: params_ok_def sample_params_def newParameterSet_def ordered_def)
  ultimately show ?thesis
    using execute_request_roundtrip [of sample_params sample_env sample_mem "[W_int (-7), W_null, W_null]" "[]" "''SELECT ?''" 30 "version 2 8 0" 16 None]
    by (simp add: schema_wire_def str_ok_def int_fits_def version_Compare_def version_def execute_bytes_def text_bytes_def typed_bytes_def
        char_codes_def INT32_MAX_def)
qed

text \<open>Whether a parameter is null is read from the length of the first row for every row of a batch, and a parameter of a
  type that has no branch sends nothing, although its position is counted.\<close>

lemma null_of_first_row:
  "GetInputSize (be_platform e) m (param_buffer p) = SQL_NULL_DATA \<Longrightarrow> Parameter_Write e m offset idx p = writing wr_WriteNull"
  by (simp add: Parameter_Write_def)

lemma numeric_sends_nothing:
  assumes "param_sqlType p = SQL_NUMERIC \<or> param_sqlType p = SQL_REAL"
    and "GetInputSize (be_platform e) m (param_buffer p) \<noteq> SQL_NULL_DATA" "\<not> IsDataAtExec m (param_buffer p)"
  shows "Parameter_Write e m offset idx p = ret ()"
  using assms by (auto simp: Parameter_Write_def source_buffer_def write_value_def)

end
