(* ===== verification/Odbc_PageColumn.thy ===== *)
theory Odbc_PageColumn
  imports Odbc_Column Odbc_ProtocolProps
begin

text \<open>
  The columns of a result page into the buffers of an application: \<open>Column::ReadToBuffer\<close> of \<open>column.cpp\<close>. The value is read from
  its place in the page, the position of the reader is put back, and the value is converted like any other. Text and
  bytes that do not fit are handed out in pieces.
\<close>

section \<open>Reading a column\<close>

datatype page_value =
    PV_int nat int
  | PV_float u32
  | PV_double u64
  | PV_text string
  | PV_guid Guid
  | PV_null
  | PV_object "u8 list"
  | PV_decimal Decimal
  | PV_date int
  | PV_time int
  | PV_timestamp Timestamp
  | PV_bytes "u8 list"
  | PV_failure
  | PV_unsupported

definition pv :: "('a \<Rightarrow> page_value) \<Rightarrow> 'a rd_act \<Rightarrow> page_value rd_act" where
  "pv f m = andThen m (\<lambda>x. ret (f x))"

text \<open>The switch over the type of the column: what it reads. A vector of a negative size is an exception.\<close>

definition read_vector :: "int \<Rightarrow> u8 list rd_act" where
  "read_vector len = (if len < 0 then fail LengthError else andThen (on_in (in_ReadInt8Array len)) (\<lambda>xs. ret (map word_of_int xs)))"

definition read_page_value :: "PageColumn \<Rightarrow> int \<Rightarrow> page_value rd_act" where
  "read_page_value c bufSize =
     (let t = col_type c
      in if t = DOCUMENTDB_TYPE_BYTE then pv (PV_int 1) rd_ReadInt8
         else if t = DOCUMENTDB_TYPE_SHORT \<or> t = DOCUMENTDB_TYPE_CHAR then pv (PV_int 2) rd_ReadInt16
         else if t = DOCUMENTDB_TYPE_INT then pv (PV_int 4) rd_ReadInt32
         else if t = DOCUMENTDB_TYPE_LONG then pv (PV_int 8) rd_ReadInt64
         else if t = DOCUMENTDB_TYPE_FLOAT then pv PV_float rd_ReadFloat
         else if t = DOCUMENTDB_TYPE_DOUBLE then pv PV_double rd_ReadDouble
         else if t = DOCUMENTDB_TYPE_BOOL then pv (\<lambda>v. PV_int 1 (if v then 1 else 0)) rd_ReadBool
         else if t = DOCUMENTDB_TYPE_STRING then pv PV_text util_ReadString
         else if t = DOCUMENTDB_TYPE_UUID then pv PV_guid rd_ReadGuid
         else if t = DOCUMENTDB_HDR_NULL then ret PV_null
         else if t = DOCUMENTDB_TYPE_BINARY \<or> t = DOCUMENTDB_TYPE_OBJECT then
           andThen (on_in GetObjectLength) (\<lambda>res. case res of None \<Rightarrow> ret PV_failure | Some len \<Rightarrow> pv PV_object (read_vector len))
         else if t = DOCUMENTDB_TYPE_DECIMAL then pv PV_decimal util_ReadDecimal
         else if t = DOCUMENTDB_TYPE_DATE then pv PV_date rd_ReadDate
         else if t = DOCUMENTDB_TYPE_TIMESTAMP then pv PV_timestamp rd_ReadTimestamp
         else if t = DOCUMENTDB_TYPE_TIME then pv PV_time rd_ReadTime
         else if t = DOCUMENTDB_TYPE_ARRAY_BYTE then
           followed (on_in (in_SetPosition (to_signed 32 (col_startPos c + col_offset c))))
             (pv PV_bytes (read_vector (min (col_GetUnreadDataLength c) (to_signed 32 bufSize))))
         else ret PV_unsupported)"

text \<open>What the switch does with the value: the conversion and how far the column is read. \<open>None\<close> is a text output that does not
  end; an offset behind the end of a text is an exception of the library. Floating point values are decoded by the language.\<close>

definition advanced :: "PageColumn \<Rightarrow> put_result \<Rightarrow> buf_error + (ConversionResult \<times> mem \<times> PageColumn)" where
  "advanced c r = (case r of Inl e \<Rightarrow> Inl e | Inr (res, m) \<Rightarrow> Inr (res, m, col_IncreaseOffset (col_size c) c))"

definition advanced_by :: "PageColumn \<Rightarrow> buf_error + (ConversionResult \<times> mem \<times> int) \<Rightarrow> buf_error + (ConversionResult \<times> mem \<times> PageColumn)" where
  "advanced_by c r = (case r of Inl e \<Rightarrow> Inl e | Inr (res, m, written) \<Rightarrow> Inr (res, m, col_IncreaseOffset written c))"

definition unmoved :: "PageColumn \<Rightarrow> put_result \<Rightarrow> buf_error + (ConversionResult \<times> mem \<times> PageColumn)" where
  "unmoved c r = (case r of Inl e \<Rightarrow> Inl e | Inr (res, m) \<Rightarrow> Inr (res, m, c))"

record PageEnv =
  pe_platform :: Platform
  pe_library :: Library
  decode_float :: "u32 \<Rightarrow> c_double"
  decode_double :: "u64 \<Rightarrow> c_double"

fun put_page_value ::
  "PageEnv \<Rightarrow> mem \<Rightarrow> ApplicationDataBuffer \<Rightarrow> PageColumn \<Rightarrow> page_value \<Rightarrow> (buf_error + (ConversionResult \<times> mem \<times> PageColumn)) option" where
  "put_page_value e m b c (PV_int n v) = Some (advanced c (PutNum (pe_platform e) m b n v))"
| "put_page_value e m b c (PV_float v) =
     Some (advanced c (PutNum_floating (pe_library e) (pe_platform e) m b 4 (decode_float e v)))"
| "put_page_value e m b c (PV_double v) =
     Some (advanced c (PutNum_floating (pe_library e) (pe_platform e) m b 8 (decode_double e v)))"
| "put_page_value e m b c (PV_text s) =
     Some (if col_offset c < 0 \<or> int (length s) < col_offset c then Inl Uncaught
           else advanced_by c (PutString (pe_platform e) m b (drop (nat (col_offset c)) s)))"
| "put_page_value e m b c (PV_guid g) = Some (advanced c (PutGuid (pe_platform e) m b g))"
| "put_page_value e m b c PV_null = Some (advanced c (Inr (PutNull m b)))"
| "put_page_value e m b c (PV_object data) =
     Some (if col_offset c < 0 \<or> int (length data) < col_offset c then Inl Undefined
           else advanced_by c (PutBinaryData (pe_platform e) m b (drop (nat (col_offset c)) data)))"
| "put_page_value e m b c (PV_decimal d) =
     (case PutDecimal (pe_platform e) m b d of None \<Rightarrow> None | Some r \<Rightarrow> Some (advanced c r))"
| "put_page_value e m b c (PV_date ms) = Some (unmoved c (PutDate (pe_platform e) m b (ms_tm ms)))"
| "put_page_value e m b c (PV_time ms) = Some (unmoved c (PutTime (pe_platform e) m b (ms_tm ms)))"
| "put_page_value e m b c (PV_timestamp ts) =
     Some (unmoved c (PutTimestamp (pe_platform e) m b (gmtime (ts_seconds ts)) (ts_fractionNs ts)))"
| "put_page_value e m b c (PV_bytes data) = Some (advanced_by c (PutBinaryData (pe_platform e) m b data))"
| "put_page_value e m b c PV_failure = Some (Inr (CR_FAILURE, m, c))"
| "put_page_value e m b c PV_unsupported = Some (Inr (CR_UNSUPPORTED_CONVERSION, m, c))"

text \<open>\<open>Column::ReadToBuffer\<close>: the result, the memory, the column and the reader.\<close>

definition PageColumn_ReadToBuffer ::
  "PageEnv \<Rightarrow> mem \<Rightarrow> ApplicationDataBuffer \<Rightarrow> PageColumn \<Rightarrow> BinaryReaderImpl \<Rightarrow>
   ((buf_error + stream_error) + (ConversionResult \<times> mem \<times> PageColumn) \<times> BinaryReaderImpl) option" where
  "PageColumn_ReadToBuffer e m b c r =
     (if \<not> col_IsValid c then Some (Inr ((CR_FAILURE, m, c), r))
      else if col_GetUnreadDataLength c = 0 then Some (Inr ((CR_NO_DATA, snd (PutNull m b), c), r))
      else case restoring (followed (on_in (in_SetPosition (col_startPos c))) (read_page_value c (buflen b))) r of
             Inl err \<Rightarrow> Some (Inl (Inr err))
           | Inr (v, r') \<Rightarrow>
               (case put_page_value e m b c v of
                  None \<Rightarrow> None
                | Some (Inl err) \<Rightarrow> Some (Inl (Inl err))
                | Some (Inr x) \<Rightarrow> Some (Inr (x, r'))))"

section \<open>Bytes in pieces\<close>

lemma separate_mono: "separate b n \<Longrightarrow> k \<le> n \<Longrightarrow> separate b k"
  by (auto simp: separate_def split: option.splits)

text \<open>The bytes of a column are in the page at its place.\<close>

definition column_holds :: "PageColumn \<Rightarrow> u8 list \<Rightarrow> BinaryReaderImpl \<Rightarrow> bool" where
  "column_holds c ds r \<longleftrightarrow> in_inv (rd_stream r) \<and> col_type c = DOCUMENTDB_TYPE_ARRAY_BYTE \<and> 0 \<le> col_startPos c \<and>
     col_size c = int (length ds) \<and> col_startPos c + col_size c \<le> in_len (rd_stream r) \<and>
     (\<exists>rest. drop (nat (col_startPos c)) (take (nat (in_len (rd_stream r))) (Data (in_mem (rd_stream r)))) = map Some ds @ rest)"

lemma column_place:
  assumes "column_holds c ds r" "0 \<le> off" "off \<le> int (length ds)"
  defines "s \<equiv> (rd_stream r)\<lparr>in_pos := col_startPos c + off\<rparr>"
  shows "col_startPos c + int (length ds) \<le> in_len (rd_stream r)" "in_inv s" "\<exists>rest. ahead s = map Some (drop (nat off) ds) @ rest"
proof -
  let ?s = "rd_stream r"
  obtain rest where d: "drop (nat (col_startPos c)) (take (nat (in_len ?s)) (Data (in_mem ?s))) = map Some ds @ rest"
    using assms(1) by (auto simp: column_holds_def)
  have i: "in_inv ?s" "0 \<le> col_startPos c" using assms(1) by (simp_all add: column_holds_def)
  show le: "col_startPos c + int (length ds) \<le> in_len ?s" using assms(1) by (simp add: column_holds_def)
  show "in_inv s" using i le assms(2,3) by (simp add: s_def in_inv_def)
  have "drop (nat (col_startPos c + off)) (take (nat (in_len ?s)) (Data (in_mem ?s))) = drop (nat off) (map Some ds @ rest)"
    unfolding d [symmetric] using i(2) assms(2) by (simp add: nat_add_distrib add.commute)
  then show "\<exists>rest. ahead s = map Some (drop (nat off) ds) @ rest"
    using assms(3) by (auto simp: s_def ahead_def drop_map nat_le_iff)
qed

lemma read_vector_at:
  assumes "in_inv (rd_stream r)" "ahead (rd_stream r) = map Some bs @ rest" "int (length bs) \<le> INT32_MAX"
  shows "read_vector (int (length bs)) r = Inr (bs, r\<lparr>rd_stream := (rd_stream r)\<lparr>in_pos := in_pos (rd_stream r) + int (length bs)\<rparr>\<rparr>)"
proof -
  have "consumes (in_ReadInt8Array (int (length (map sint bs)))) (array_bytes 1 (map sint bs)) (map sint bs)"
    using assms(3) consumes_sint_array [of 1 "map sint bs"]
    by (simp add: in_ReadInt8Array_def list_all_iff u8_fits del: One_nat_def)
  then have "in_ReadInt8Array (int (length bs)) (rd_stream r) =
      Inr (map sint bs, (rd_stream r)\<lparr>in_pos := in_pos (rd_stream r) + int (length bs)\<rparr>)"
    using assms(1,2) unfolding consumes_def array_bytes_sint by (simp only: length_map)
  then show ?thesis
    by (simp add: read_vector_def on_in_def andThen_def comp_def)
qed

lemma piece_read:
  assumes "column_holds c ds r" "0 \<le> col_offset c" "col_offset c < col_size c" "0 < n" "n \<le> INT32_MAX" "col_size c \<le> INT32_MAX"
  shows "restoring (followed (on_in (in_SetPosition (col_startPos c))) (read_page_value c n)) r =
    Inr (PV_bytes (take (nat n) (drop (nat (col_offset c)) ds)), r)"
proof -
  let ?off = "col_offset c" let ?bs = "take (nat n) (drop (nat ?off) ds)"
  let ?s = "(rd_stream r)\<lparr>in_pos := col_startPos c + ?off\<rparr>" let ?r = "r\<lparr>rd_stream := ?s\<rparr>"
  have sz: "col_size c = int (length ds)" "col_type c = 12" "0 \<le> col_startPos c" "in_inv (rd_stream r)"
    using assms(1) by (simp_all add: column_holds_def)
  note pl = column_place [OF assms(1,2)]
  have off: "?off \<le> int (length ds)" using assms(3) sz by simp
  obtain rest where a: "ahead ?s = map Some (drop (nat ?off) ds) @ rest" using pl(3) [OF off] by blast
  have "map Some (drop (nat ?off) ds) = map Some ?bs @ map Some (drop (nat n) (drop (nat ?off) ds))"
    by (metis append_take_drop_id map_append)
  then have a': "ahead ?s = map Some ?bs @ (map Some (drop (nat n) (drop (nat ?off) ds)) @ rest)" using a by simp
  have L: "in_len (rd_stream r) \<le> INT32_MAX" using sz(4) by (simp add: in_inv_def)
  have u: "col_GetUnreadDataLength c = int (length ds) - ?off"
    using assms(2,6) sz off unfolding col_GetUnreadDataLength_def by (subst int32_nonneg) simp_all
  have len: "int (length ?bs) = min (int (length ds) - ?off) n" using assms(2,4) off by (simp add: min_def nat_le_iff of_nat_diff) arith
  have p: "to_signed 32 (col_startPos c + ?off) = col_startPos c + ?off" "to_signed 32 n = n"
    using pl(1) [OF off] L sz(3) assms off by (intro int32_nonneg; simp)+
  have "read_vector (int (length ?bs)) ?r = Inr (?bs, ?r\<lparr>rd_stream := ?s\<lparr>in_pos := in_pos ?s + int (length ?bs)\<rparr>\<rparr>)"
    using read_vector_at [of ?r ?bs] pl(2) [OF off] a' assms(5) len by simp
  then have v: "read_page_value c n (r\<lparr>rd_stream := (rd_stream r)\<lparr>in_pos := col_startPos c\<rparr>\<rparr>) =
      Inr (PV_bytes ?bs, r\<lparr>rd_stream := (rd_stream r)\<lparr>in_pos := col_startPos c + ?off + int (length ?bs)\<rparr>\<rparr>)"
    using pl(1) [OF off] off sz(2) p u len
    by (simp add: read_page_value_def followed_def andThen_def on_in_def in_SetPosition_def pv_def)
  have "in_pos (rd_stream r) \<le> in_len (rd_stream r)" "col_startPos c \<le> in_len (rd_stream r)"
    using sz(4) pl(1) [OF off] by (simp_all add: in_inv_def)
  then show ?thesis using v
    by (simp add: restoring_def followed_def andThen_def on_in_def in_Position_def in_SetPosition_def)
qed

lemma piece_put:
  assumes "buf_type b = AI_BINARY" "GetData b = Some a" "GetResLen b \<noteq> None" "separate b (length bs)" "bs \<noteq> []"
    and "int (length bs) \<le> buflen b" "int (length bs) \<le> INT32_MAX"
  shows "\<exists>m'. PutBinaryData pl m b bs = Inr (CR_SUCCESS, m', int (length bs)) \<and> read_bytes m' a (length bs) = bs \<and>
    get_reslen m' b = Some (int (length bs))"
proof -
  obtain r where r: "GetResLen b = Some r" using assms(3) by blast
  let ?m = "write_bytes (put_reslen m b (int (length bs))) a bs"
  have n: "0 < length bs" using assms(5) by simp
  then have p: "0 < buflen b" using assms(6) by linarith
  have t: "to_signed 32 (int (length bs)) = int (length bs)" "to_signed 64 (int (length bs)) = int (length bs)"
    using assms(7) by (auto simp: INT32_MAX_def intro!: to_signed_id)
  have "PutBinaryData pl m b bs = Inr (CR_SUCCESS, ?m, int (length bs))"
    using assms(1,2,6) n p t(1) by (simp add: PutBinaryData_def PutRawDataToBuffer_def put_data_def Let_def min_absorb2)
  moreover have "r + 8 \<le> a \<or> a + length bs \<le> r" using assms(2,4) r by (simp add: separate_def)
  then have "get_reslen ?m b = get_reslen (put_reslen m b (int (length bs))) b"
    using read_write_disjoint [of r 8 a bs] r by (auto simp: get_reslen_def)
  ultimately show ?thesis using get_put_reslen [OF r, of m "int (length bs)"] t(2) by simp
qed

text \<open>An application that asks for the column until there is no more data, and collects what it finds in its buffer.\<close>

fun get_pieces :: "nat \<Rightarrow> PageEnv \<Rightarrow> mem \<Rightarrow> ApplicationDataBuffer \<Rightarrow> PageColumn \<Rightarrow> BinaryReaderImpl \<Rightarrow> u8 list list option" where
  "get_pieces 0 e m b c r = None"
| "get_pieces (Suc n) e m b c r =
     (case PageColumn_ReadToBuffer e m b c r of
        Some (Inr ((res, m', c'), r')) \<Rightarrow>
          if res = CR_NO_DATA then Some []
          else (case (get_pieces n e m' b c' r', GetData b, get_reslen m' b) of
                  (Some ps, Some a, Some k) \<Rightarrow> if res = CR_SUCCESS then Some (read_bytes m' a (nat k) # ps) else None
                | _ \<Rightarrow> None)
      | _ \<Rightarrow> None)"

lemma get_pieces_from:
  assumes "column_holds c ds r" "0 \<le> col_offset c" "col_offset c \<le> col_size c" "col_size c \<le> INT32_MAX"
    and "buf_type b = AI_BINARY" "GetData b = Some a" "GetResLen b \<noteq> None" "separate b (nat (buflen b))" "0 < buflen b" "buflen b \<le> INT32_MAX"
    and "col_size c - col_offset c < int n"
  shows "\<exists>ps. get_pieces n e m b c r = Some ps \<and> concat ps = drop (nat (col_offset c)) ds \<and> (\<forall>p \<in> set ps. int (length p) \<le> buflen b)"
  using assms
proof (induction n arbitrary: m c)
  case 0
  then show ?case by simp
next
  case (Suc n)
  have sz: "col_size c = int (length ds)" "col_IsValid c" using Suc.prems(1) by (simp_all add: column_holds_def col_IsValid_def)
  have u: "col_GetUnreadDataLength c = col_size c - col_offset c"
    using Suc.prems(2-4) unfolding col_GetUnreadDataLength_def by (intro int32_nonneg) simp_all
  show ?case
  proof (cases "col_offset c = col_size c")
    case True
    then show ?thesis using sz u by (simp add: PageColumn_ReadToBuffer_def)
  next
    case False
    define bs where "bs = take (nat (buflen b)) (drop (nat (col_offset c)) ds)"
    have bs_take: "take (length bs) (drop (nat (col_offset c)) ds) = bs" by (simp add: bs_def min_def)
    have lt: "col_offset c < col_size c" using False Suc.prems(3) by simp
    have ne: "bs \<noteq> []" using lt Suc.prems(2,9) sz by (simp add: bs_def)
    have lb: "int (length bs) \<le> buflen b" using Suc.prems(9) by (simp add: bs_def)
    have "separate b (length bs)" using Suc.prems(8) by (rule separate_mono) (simp add: bs_def)
    then obtain m' where m': "PutBinaryData (pe_platform e) m b bs = Inr (CR_SUCCESS, m', int (length bs))" "read_bytes m' a (length bs) = bs"
        "get_reslen m' b = Some (int (length bs))"
      using piece_put [OF Suc.prems(5-7) _ ne lb, where m = m and pl = "pe_platform e"] lb Suc.prems(10) by auto
    define off where "off = col_offset c + int (length bs)"
    let ?c = "c\<lparr>col_offset := off\<rparr>"
    have "length bs \<le> length ds - nat (col_offset c)" by (simp add: bs_def)
    then have le: "off \<le> col_size c" using Suc.prems(2,3) sz(1) unfolding off_def by linarith
    have off: "0 \<le> off" "col_size c - off < int n" "0 < length bs"
      using Suc.prems(2,11) length_greater_0_conv [THEN iffD2, OF ne] unfolding off_def by linarith+
    have "col_IncreaseOffset (int (length bs)) c = ?c"
      using le Suc.prems(4) off(1) int32_nonneg [of off] by (simp add: col_IncreaseOffset_def Let_def off_def)
    then have step: "PageColumn_ReadToBuffer e m b c r = Some (Inr ((CR_SUCCESS, m', ?c), r))"
      using piece_read [OF Suc.prems(1,2) lt Suc.prems(9,10,4)] m'(1) sz(2) u False
      by (simp add: PageColumn_ReadToBuffer_def advanced_by_def bs_def)
    have "column_holds ?c ds r" using Suc.prems(1) by (simp add: column_holds_def)
    from Suc.IH [OF this _ _ _ Suc.prems(5-10), of m'] le off Suc.prems(4)
    obtain ps where ps: "get_pieces n e m' b ?c r = Some ps" "concat ps = drop (nat off) ds" "\<forall>p \<in> set ps. int (length p) \<le> buflen b"
      by fastforce
    have "drop (nat off) ds = drop (length bs) (drop (nat (col_offset c)) ds)"
      using Suc.prems(2) by (simp add: off_def nat_add_distrib add.commute)
    then have "bs @ concat ps = drop (nat (col_offset c)) ds"
      using ps(2) append_take_drop_id [of "length bs" "drop (nat (col_offset c)) ds"] by (simp only: bs_take)
    then show ?thesis using step ps m'(2,3) Suc.prems(6) lb by simp
  qed
qed

text \<open>(C30) Bytes in pieces: an application that reads a column of bytes into a buffer of any positive size, again and again until
  there is no more data, gets all bytes of the column in order, no piece larger than its buffer, and comes to the end.\<close>

theorem page_bytes_pieces:
  assumes "column_holds c ds r" "col_offset c = 0" "length ds \<le> nat INT32_MAX"
    and "buf_type b = AI_BINARY" "GetData b = Some a" "GetResLen b \<noteq> None" "separate b (nat (buflen b))" "0 < buflen b" "buflen b \<le> INT32_MAX"
  shows "\<exists>ps. get_pieces (Suc (length ds)) e m b c r = Some ps \<and> concat ps = ds \<and> list_all (\<lambda>p. int (length p) \<le> buflen b) ps"
proof -
  have "col_size c = int (length ds)" using assms(1) by (simp add: column_holds_def)
  then show ?thesis using get_pieces_from [OF assms(1) _ _ _ assms(4-9), of "Suc (length ds)" e m] assms(2,3)
    by (simp add: INT32_MAX_def list_all_iff)
qed

theorem page_bytes_pieces_witness:
  "\<forall>e. \<exists>ps. get_pieces 6 e (\<lambda>_. 0)
      \<lparr>buf_type = AI_BINARY, buffer = Some 100, buflen = 2, reslen = Some 80, byteOffset = 0, elementOffset = 0\<rparr>
      \<lparr>col_type = 12, col_startPos = 2, col_endPos = 7, col_offset = 0, col_size = 5\<rparr>
      (newRawReader \<lparr>in_mem = \<lparr>Data = map Some [9, 9, 1, 2, 3, 4, 5], Capacity = 7, Length = 7, Flags = 0\<rparr>, in_len = 7, in_pos = 0\<rparr>) = Some ps
    \<and> concat ps = [1, 2, 3, 4, 5] \<and> list_all (\<lambda>p. int (length p) \<le> 2) ps"
proof -
  let ?b = "\<lparr>buf_type = AI_BINARY, buffer = Some 100, buflen = 2, reslen = Some 80, byteOffset = 0, elementOffset = 0\<rparr> :: ApplicationDataBuffer"
  let ?c = "\<lparr>col_type = 12, col_startPos = 2, col_endPos = 7, col_offset = 0, col_size = 5\<rparr> :: PageColumn"
  let ?r = "newRawReader \<lparr>in_mem = \<lparr>Data = map Some [9, 9, 1, 2, 3, 4, 5], Capacity = 7, Length = 7, Flags = 0\<rparr>, in_len = 7, in_pos = 0\<rparr>"
  have c: "column_holds ?c [1, 2, 3, 4, 5] ?r"
    by (simp add: column_holds_def in_inv_def newRawReader_def INT32_MAX_def)
  have n: "Suc (length [1, 2, 3, 4, 5 :: u8]) = 6" by simp
  have b: "GetData ?b = Some 100" "GetResLen ?b = Some 80"
    by (simp_all add: GetData_def GetResLen_def ApplyOffset_def GetElementSize.simps)
  show ?thesis
    using page_bytes_pieces [OF c, where b = ?b and a = 100 and m = "\<lambda>_. 0", unfolded n] b
    by (intro allI) (simp add: separate_def INT32_MAX_def del: get_pieces.simps)
qed

end
