(* ===== verification/Spec2Isabelle.thy ===== *)
theory Spec2Isabelle
  imports Odbc_DynArray Odbc_Driver Odbc_ConnStringInv Odbc_Collections Odbc_ObjectLookup Odbc_ConnectionInfo Odbc_JniProps
    Odbc_Log Odbc_Classpath Odbc_SharedPointer Odbc_HandleRegistry Odbc_Future
    Odbc_BufferTimeProps Odbc_ParamProps Odbc_PageColumn
begin

text \<open>
  Verification of the Amazon DocumentDB ODBC driver (paths are relative to \<^verbatim>\<open>src/src/odbc/\<close>).

  \<^bold>\<open>The program.\<close> An application calls the ODBC functions of \<^verbatim>\<open>src/odbc.cpp\<close> with handles of three kinds:
  environments, connections and statements. A connection is opened for a configuration, which comes from a connection
  string or from a registered data source; it starts a Java virtual machine with the JDBC driver, which translates
  statements, and a database client, which runs the translated pipelines. A statement runs a query: a query for data
  (translate, run, walk the documents), a catalogue query (ask the Java side once, walk the rows), or a command of the
  driver itself. The values of a row are converted into buffers the application bound. Every operation adds diagnostic
  records to the handle it works on. The tree also holds the binary protocol of the driver it was derived from (byte
  streams, binary objects, messages, result pages); its exchange of messages is a stub, so no operation of the driver
  reaches it.

  \<^bold>\<open>Theories and sources.\<close>
  \<^item> \<open>Odbc_Prelude\<close>, \<open>Odbc_Text\<close>, \<open>Odbc_ConfigText\<close>: widths, digits in a radix (locale \<open>radix\<close>), the functions of the
    C++ library on characters and strings, \<^verbatim>\<open>common/utils\<close>.
  \<^item> \<open>Odbc_Types\<close>, \<open>Odbc_TypeTraits\<close>: \<^verbatim>\<open>common_types.cpp\<close>, \<^verbatim>\<open>type_traits.cpp\<close>.
  \<^item> \<open>Odbc_Bits\<close>, \<open>Odbc_DynArray\<close>, \<open>Odbc_BigInteger\<close>, \<open>Odbc_BigConvert\<close>, \<open>Odbc_BigDivide\<close>, \<open>Odbc_BigText\<close>, \<open>Odbc_Decimal\<close>:
    \<^verbatim>\<open>common/bits.cpp\<close>, \<^verbatim>\<open>dynamic_size_array.h\<close>, \<^verbatim>\<open>big_integer.cpp\<close>, \<^verbatim>\<open>decimal.cpp\<close>. The array refines lists
    (locale \<open>vector\<close>); arithmetic, division and text agree with the integers and rationals, with the inputs on which the
    source departs from them.
  \<^item> \<open>Odbc_Memory\<close>, \<open>Odbc_AppBuffer\<close>, \<open>Odbc_AppBufferProps\<close>: the application's memory and
    \<^verbatim>\<open>app/application_data_buffer.cpp\<close>. Text stays inside its buffer; numbers are read back as they were put.
  \<^item> \<open>Odbc_Calendar\<close>, \<open>Odbc_BufferTime\<close>, \<open>Odbc_BufferTimeProps\<close>: days and seconds of the Gregorian calendar, and the dates, times and
    identifiers that the buffers give back, with \<^verbatim>\<open>common/utils.cpp\<close> and \<^verbatim>\<open>guid.h\<close>. What was put is read back up to the
    precision of the form.
  \<^item> \<open>Odbc_Diagnostics\<close>: \<^verbatim>\<open>src/diagnostic/\<close> with the calling convention of all handles (locale \<open>diagnosable\<close>, interpreted
    for environments, connections and statements).
  \<^item> \<open>Odbc_Config\<close>, \<open>Odbc_Uri\<close>, \<open>Odbc_ConnString\<close>, \<open>Odbc_ConnStringProps\<close>, \<open>Odbc_ConnStringInv\<close>, \<open>Odbc_Dsn\<close>:
    \<^verbatim>\<open>src/config/\<close> and \<^verbatim>\<open>dsn_config.cpp\<close>. Connection strings and data sources are read back as they were written, the
    parser keeps the configuration well-formed, secrets are not registered, credentials cannot change the host.
  \<^item> \<open>Odbc_Column\<close>, \<open>Odbc_ColumnProps\<close>, \<open>Odbc_Cursor\<close>: \<^verbatim>\<open>documentdb_column.cpp\<close>, \<^verbatim>\<open>documentdb_row.cpp\<close>,
    \<^verbatim>\<open>documentdb_cursor.cpp\<close>. The cursor refines the list of documents still to come.
  \<^item> \<open>Odbc_Meta\<close>, \<open>Odbc_MetaQuery\<close>: \<^verbatim>\<open>src/meta/\<close> and the catalogue queries of \<^verbatim>\<open>src/query/\<close> (locale \<open>row_source\<close>).
  \<^item> \<open>Odbc_Sql\<close>: \<^verbatim>\<open>src/sql/\<close>, the lexer and the parser of internal commands.
  \<^item> \<open>Odbc_Error\<close>, \<open>Odbc_Connection\<close>: \<^verbatim>\<open>documentdb_error.cpp\<close>, \<^verbatim>\<open>connection.cpp\<close>, \<^verbatim>\<open>config/connection_info.cpp\<close>.
  \<^item> \<open>Odbc_ConnectionInfo\<close>: the tables of \<^verbatim>\<open>config/connection_info.cpp\<close> that answer \<open>SQLGetInfo\<close>.
  \<^item> \<open>Odbc_Action\<close>, \<open>Odbc_Jni\<close>, \<open>Odbc_JniContext\<close>, \<open>Odbc_JniService\<close>, \<open>Odbc_JniProps\<close>: \<^verbatim>\<open>src/jni/\<close>. Operations on a state that may
    fail; the start of the Java machine, the calls into it, the classes that wrap Java objects, and the translation of a
    statement, which uses the Java interface by its rules and gives back the references it takes.
  \<^item> \<open>Odbc_Log\<close>: \<^verbatim>\<open>log.cpp\<close>, \<^verbatim>\<open>log.h\<close>. Messages go to the file of the directory that was set. \<open>Odbc_Classpath\<close>:
    \<^verbatim>\<open>jni/os/linux/utils.cpp\<close>. The class path has exactly the archives below the driver's home directory.
  \<^item> \<open>Odbc_SharedPointer\<close>, \<open>Odbc_HandleRegistry\<close>, \<open>Odbc_Future\<close>: \<^verbatim>\<open>common/concurrent\<close>, \<^verbatim>\<open>impl/handle_registry.cpp\<close>,
    \<^verbatim>\<open>common/promise.h\<close>, \<^verbatim>\<open>common/shared_state.h\<close>. Calls of several threads as interleaved steps: shared objects live as long
    as their pointers in programs without data races, where every load and store of a copy, an exchange or a destructor is a
    step of its own and the interleavings refine sequences of whole operations; a closed registry is empty when its
    segments are used with stale loads of the closed flag (locale \<open>handle_table\<close> for a registry by itself); and who waits
    for a promise gets its result (locale \<open>settled_once\<close>, for values and for \<open>void\<close>).
  \<^item> \<open>Odbc_Param\<close>, \<open>Odbc_Query\<close>, \<open>Odbc_Statement\<close>, \<open>Odbc_StatementProps\<close>: \<^verbatim>\<open>app/parameter*.cpp\<close>,
    \<^verbatim>\<open>query/data_query.cpp\<close>, \<^verbatim>\<open>query/batch_query.cpp\<close>, \<^verbatim>\<open>statement.cpp\<close>. The invariant of a statement holds in every
    state reached by its calls; executing and fetching passes over exactly the documents returned.
  \<^item> \<open>Odbc_Driver\<close>: \<^verbatim>\<open>environment.cpp\<close> and \<^verbatim>\<open>odbc.cpp\<close> on a heap of handles, with the invariant of orderly freeing.
  \<^item> \<open>Odbc_Stream\<close>, \<open>Odbc_StreamProps\<close>: \<^verbatim>\<open>src/impl/interop/\<close>. The locale \<open>codec\<close> is the contract of a writer with its
    reader; every type of the protocol is an interpretation. Reads stay inside the memory; each block has one owner.
  \<^item> \<open>Odbc_BinaryType\<close>, \<open>Odbc_Binary\<close>, \<open>Odbc_BinaryReader\<close>, \<open>Odbc_BinaryObject\<close>: \<^verbatim>\<open>src/impl/binary/\<close>. With \<open>Odbc_BinaryProps\<close>,
    \<open>Odbc_ObjectProps\<close>, \<open>Odbc_ObjectFields\<close>, \<open>Odbc_ObjectLookup\<close> and \<open>Odbc_Collections\<close>: objects with named fields and
    collections are read back as they were written (locales \<open>exchange\<close> and \<open>typed_codec\<close>), and where lookup in memory fails.
  \<^item> \<open>Odbc_Protocol\<close>, \<open>Odbc_ProtocolProps\<close>: \<^verbatim>\<open>message.cpp\<close>, \<^verbatim>\<open>protocol_version.cpp\<close>, \<^verbatim>\<open>result_page.cpp\<close>, \<^verbatim>\<open>row.cpp\<close>,
    \<^verbatim>\<open>column.cpp\<close>, \<^verbatim>\<open>cursor.cpp\<close>: decimals and requests survive the exchange.
  \<^item> \<open>Odbc_ParamWrite\<close>, \<open>Odbc_ParamProps\<close>: \<open>Parameter::Write\<close> and \<open>ParameterSet::Write\<close> with the requests that carry parameters; the
    peer receives the values of the buffers. \<open>Odbc_PageColumn\<close>: \<open>Column::ReadToBuffer\<close> of \<^verbatim>\<open>column.cpp\<close>; bytes arrive complete
    in pieces.

  \<^bold>\<open>How code becomes definitions.\<close> An object is a record with the members of the class; a method is a function of
  the record (and of the memory where it stores through a pointer) with the same name, one branch for each branch of the
  source. An exception, a null pointer that is used, a read outside an array or of a variable that was never set is a
  value of an error type, so that a theorem that an operation returns excludes it. Integers keep their width: words,
  or \<open>int\<close> with \<open>to_signed\<close> where the source computes in \<open>int32_t\<close>; the scale of a decimal is an \<open>int\<close>, and an operation that
  leaves the range of \<open>int32_t\<close> is an error. The calls that
  write to the log are left out of the operations.

  \<^bold>\<open>Parameters.\<close> What is not code of the driver is an argument of the definitions: \<open>Host\<close>, \<open>System\<close> and \<open>LogHost\<close>
  (file system, environment, clock),
  \<open>Platform\<close> (sizes of C types, floating point bytes, narrowing of characters), \<open>BufferEnv\<close> and \<open>PageEnv\<close> (the calendar of Boost, where
  data sent in pieces lie, conversions of floating point numbers), \<open>Library\<close> (floating point and the texts of
  Boost), \<open>Installer\<close> (data sources), \<open>header\<close> (the numbers of the ODBC constants), \<open>JNI\<close> (the Java
  interface), \<open>Java\<close>, \<open>Backend\<close> and \<open>Services\<close> (what the Java side and the database client answer),
  the receiver of type updates, and the functions a user type gives to the binary writer and reader. The hypotheses on them
  are stated in each theorem and met by the concrete instance of its witness.

  \<^bold>\<open>Bounds.\<close> Loops whose end depends on data are recursive functions with a measure. The loops that need not end
  are partial functions: writing a big integer, shown to return, and the batch loop. The lexer's loop on a character that
  is no token is the value \<open>Diverges\<close>. Recursion on data from the wire (nested containers, wrapped objects) takes the
  number of calls it may make and answers \<open>Unbounded\<close> beyond it; \<open>object_fields_roundtrip\<close> needs one call for an object
  and \<open>collection_roundtrip\<close> one turn more than there are elements. Lengths are bounded by \<open>INT32_MAX\<close>, the
  type of every length of the source.

  \<^bold>\<open>Not modelled.\<close> Locks, threads and thread-local storage (\<^verbatim>\<open>os/\<close>), the Windows variants and dialogs: the
  operating system. The atomic operations and the sections under a lock are single steps. A weak memory shows in the loads
  of the registry's closed flag; programs that race on pointer variables or on the registry's array are outside the theorems. \<^verbatim>\<open>entry_points.cpp\<close> passes
  arguments on, or reports success for a function that has no implementation. Of the Java interface: the operations on Ignite targets, whose
  members are never set. Of the binary protocol: enumerations, the parsing of a version text, external memory, the thin wrappers around reader and writer, and the cache interfaces, which have no caller.
\<close>

end
